(* ===== verification/Prelude.thy ===== *)
theory Prelude
  imports Main "HOL-Library.Word" "HOL-Library.Sublist"
begin

unbundle bit_operations_syntax

text \<open>
  Shared vocabulary of the development: machine integers, bytes and strings, the outcome type of
  Rust functions, bit strings, and the interfaces (locales) that several components implement.
\<close>

section \<open>Machine integers, bytes and strings\<close>

type_synonym u8 = "8 word"
type_synonym u16 = "16 word"
type_synonym u32 = "32 word"
type_synonym u64 = "64 word"
type_synonym bytes = "u8 list"

text \<open>
  A \<^verbatim>\<open>usize\<close> is 64 bits wide. Lengths and indices are natural numbers; where the source uses
  checked arithmetic on \<^verbatim>\<open>usize\<close>, the check against \<open>usize_limit\<close> is written out.
\<close>

definition usize_limit :: nat where
  "usize_limit = 2 ^ 64"

text \<open>
  A Rust \<^verbatim>\<open>String\<close> or \<^verbatim>\<open>&str\<close> is a list of \<open>char\<close>, and HOL's characters are octets;
  \<open>into_bytes\<close> and \<open>from_utf8_unchecked\<close> are the conversions to and from \<^verbatim>\<open>Vec<u8>\<close>.
\<close>

definition byte_of_char :: "char \<Rightarrow> u8" where
  "byte_of_char c = of_nat (of_char c)"

definition char_of_byte :: "u8 \<Rightarrow> char" where
  "char_of_byte b = char_of (unat b)"

definition into_bytes :: "string \<Rightarrow> bytes" where
  "into_bytes s = map byte_of_char s"

definition from_utf8_unchecked :: "bytes \<Rightarrow> string" where
  "from_utf8_unchecked bs = map char_of_byte bs"

lemma of_char_less_256 [simp]: "(of_char c :: nat) < 256"
  by (cases c) (simp add: of_char_Char horner_sum_simps split: bool.split)

lemma char_of_byte_of_char [simp]: "char_of_byte (byte_of_char c) = c"
  by (simp add: char_of_byte_def byte_of_char_def unat_of_nat take_bit_eq_mod)

lemma unat_u8_less [simp]: "unat (b :: u8) < 256"
proof -
  have "unat b < 2 ^ LENGTH(8)" by (rule unsigned_less)
  then show ?thesis by simp
qed

lemma byte_of_char_of_byte [simp]: "byte_of_char (char_of_byte b) = b"
  by (simp add: char_of_byte_def byte_of_char_def)

lemma from_utf8_into_bytes [simp]: "from_utf8_unchecked (into_bytes s) = s"
  by (simp add: from_utf8_unchecked_def into_bytes_def comp_def)

lemma into_bytes_from_utf8 [simp]: "into_bytes (from_utf8_unchecked bs) = bs"
  by (simp add: from_utf8_unchecked_def into_bytes_def comp_def)

lemma length_into_bytes [simp]: "length (into_bytes s) = length s"
  by (simp add: into_bytes_def)

lemma length_from_utf8 [simp]: "length (from_utf8_unchecked bs) = length bs"
  by (simp add: from_utf8_unchecked_def)

section \<open>Outcomes of Rust functions\<close>

text \<open>
  A call ends with a value, with an \<^verbatim>\<open>Err\<close>, or with a panic (an out-of-range index or slice, an
  underflow, an \<^verbatim>\<open>unwrap\<close> of nothing).
\<close>

datatype (dead 'a, dead 'e) outcome = Ok 'a | Err 'e | Panic

fun obind :: "('a, 'e) outcome \<Rightarrow> ('a \<Rightarrow> ('b, 'e) outcome) \<Rightarrow> ('b, 'e) outcome" where
  "obind (Ok x) f = f x"
| "obind (Err e) f = Err e"
| "obind Panic f = Panic"

lemma obind_assoc: "obind (obind m f) g = obind m (\<lambda>x. obind (f x) g)"
  by (cases m) simp_all

lemma obind_Ok_right [simp]: "obind m Ok = m"
  by (cases m) simp_all

lemma obind_cong: "m = m' \<Longrightarrow> (\<And>x. m' = Ok x \<Longrightarrow> f x = g x) \<Longrightarrow> obind m f = obind m' g"
  by (cases m') simp_all

lemma obind_eq_Ok: "obind m f = Ok y \<longleftrightarrow> (\<exists>x. m = Ok x \<and> f x = Ok y)"
  by (cases m) simp_all

text \<open>Rust's \<^verbatim>\<open>map_err\<close>.\<close>

fun map_err :: "('e \<Rightarrow> 'f) \<Rightarrow> ('a, 'e) outcome \<Rightarrow> ('a, 'f) outcome" where
  "map_err f (Ok x) = Ok x"
| "map_err f (Err e) = Err (f e)"
| "map_err f Panic = Panic"

lemma map_err_obind: "map_err f (obind m g) = obind (map_err f m) (\<lambda>x. map_err f (g x))"
  by (cases m) simp_all

lemma map_err_eq_Ok [simp]: "map_err f m = Ok x \<longleftrightarrow> m = Ok x"
  by (cases m) simp_all

lemma map_err_eq_Panic [simp]: "map_err f m = Panic \<longleftrightarrow> m = Panic"
  by (cases m) simp_all

lemma obind_eq_Panic: "obind m f = Panic \<longleftrightarrow> m = Panic \<or> (\<exists>x. m = Ok x \<and> f x = Panic)"
  by (cases m) simp_all

text \<open>Rust's \<^verbatim>\<open>slice.get(i)\<close>.\<close>

definition get_nth :: "'a list \<Rightarrow> nat \<Rightarrow> 'a option" where
  "get_nth xs i = (if i < length xs then Some (xs ! i) else None)"

text \<open>Walking down a chain of conditionals without collecting the refuted conditions.\<close>

lemma if_SomeE:
  assumes "(if b then Some x else y) = Some z"
  obtains "b" "x = z" | "y = Some z"
  using assms by (auto split: if_splits)

lemma get_nth_Some_iff: "get_nth xs i = Some x \<longleftrightarrow> i < length xs \<and> xs ! i = x"
  by (auto simp: get_nth_def)

lemma get_nth_Cons_0 [simp]: "get_nth (x # xs) 0 = Some x"
  by (simp add: get_nth_def)

lemma get_nth_Cons_Suc [simp]: "get_nth (x # xs) (Suc i) = get_nth xs i"
  by (simp add: get_nth_def)

lemma get_nth_Nil [simp]: "get_nth [] i = None"
  by (simp add: get_nth_def)

text \<open>
  Rust's \<^verbatim>\<open>&slice[a..b]\<close> and \<^verbatim>\<open>slice[i]\<close>, which panic out of range, and the subtraction of
  \<^verbatim>\<open>usize\<close> values, which panics below zero.
\<close>

definition slice :: "'a list \<Rightarrow> nat \<Rightarrow> nat \<Rightarrow> ('a list, 'e) outcome" where
  "slice xs a b = (if a \<le> b \<and> b \<le> length xs then Ok (take (b - a) (drop a xs)) else Panic)"

definition index_at :: "'a list \<Rightarrow> nat \<Rightarrow> ('a, 'e) outcome" where
  "index_at xs i = (if i < length xs then Ok (xs ! i) else Panic)"

definition usize_sub :: "nat \<Rightarrow> nat \<Rightarrow> (nat, 'e) outcome" where
  "usize_sub a b = (if b \<le> a then Ok (a - b) else Panic)"

lemma slice_Ok [simp]: "a \<le> b \<Longrightarrow> b \<le> length xs \<Longrightarrow> slice xs a b = Ok (take (b - a) (drop a xs))"
  by (simp add: slice_def)

lemma index_at_Ok [simp]: "i < length xs \<Longrightarrow> index_at xs i = Ok (xs ! i)"
  by (simp add: index_at_def)

lemma usize_sub_Ok [simp]: "b \<le> a \<Longrightarrow> usize_sub a b = Ok (a - b)"
  by (simp add: usize_sub_def)

lemma slice_eq_Ok: "slice xs a b = Ok ys \<longleftrightarrow> a \<le> b \<and> b \<le> length xs \<and> ys = take (b - a) (drop a xs)"
  by (auto simp: slice_def)

lemma index_at_eq_Ok: "index_at xs i = Ok x \<longleftrightarrow> i < length xs \<and> x = xs ! i"
  by (auto simp: index_at_def)

lemma usize_sub_eq_Ok: "usize_sub a b = Ok c \<longleftrightarrow> b \<le> a \<and> c = a - b"
  by (auto simp: usize_sub_def)

lemma checked_not_Err [simp]:
  "slice xs a b \<noteq> Err e" "index_at xs i \<noteq> Err e" "usize_sub c d \<noteq> Err e"
  by (simp_all add: slice_def index_at_def usize_sub_def)

lemma checked_eq_Panic:
  "slice xs a b = Panic \<longleftrightarrow> \<not> (a \<le> b \<and> b \<le> length xs)"
  "index_at xs i = Panic \<longleftrightarrow> \<not> i < length xs"
  "usize_sub c d = Panic \<longleftrightarrow> \<not> d \<le> c"
  by (simp_all add: slice_def index_at_def usize_sub_def)

section \<open>Big-endian octets\<close>

text \<open>The octets of a 32-bit word and of a 24-bit length, and how they are put together again.\<close>

definition be32 :: "u32 \<Rightarrow> bytes" where
  "be32 w = [ucast (drop_bit 24 w), ucast (drop_bit 16 w), ucast (drop_bit 8 w), ucast w]"

definition of_be32 :: "u8 \<Rightarrow> u8 \<Rightarrow> u8 \<Rightarrow> u8 \<Rightarrow> u32" where
  "of_be32 a b c d = push_bit 24 (ucast a) OR push_bit 16 (ucast b) OR push_bit 8 (ucast c) OR ucast d"

definition be24 :: "nat \<Rightarrow> bytes" where
  "be24 n = [of_nat (n div 65536 mod 256), of_nat (n div 256 mod 256), of_nat (n mod 256)]"

definition of_be24 :: "u8 \<Rightarrow> u8 \<Rightarrow> u8 \<Rightarrow> nat" where
  "of_be24 a b c = unat a * 65536 + unat b * 256 + unat c"

lemma length_be [simp]: "length (be32 w) = 4" "length (be24 n) = 3"
  by (simp_all add: be32_def be24_def)

lemma of_be32_be32:
  "of_be32 (ucast (drop_bit 24 w)) (ucast (drop_bit 16 w)) (ucast (drop_bit 8 w)) (ucast w) = w"
proof (rule bit_word_eqI)
  fix n assume "n < LENGTH(32)"
  then consider "n < 8" | "8 \<le> n" "n < 16" | "16 \<le> n" "n < 24" | "24 \<le> n" "n < 32" by fastforce
  then show "bit (of_be32 (ucast (drop_bit 24 w)) (ucast (drop_bit 16 w)) (ucast (drop_bit 8 w)) (ucast w)) n = bit w n"
    by cases (auto simp: of_be32_def bit_simps less_diff_conv2)
qed

lemma of_be32_be32_mask:
  "of_be32 (ucast (drop_bit 24 w) AND 0x7f) (ucast (drop_bit 16 w)) (ucast (drop_bit 8 w)) (ucast w)
   = take_bit 31 w"
proof (rule bit_word_eqI)
  have seven: "(0x7f :: u8) = mask 7" by (simp add: mask_eq_exp_minus_1)
  fix n assume "n < LENGTH(32)"
  then consider "n < 8" | "8 \<le> n" "n < 16" | "16 \<le> n" "n < 24" | "24 \<le> n" "n < 32" by fastforce
  then show "bit (of_be32 (ucast (drop_bit 24 w) AND 0x7f) (ucast (drop_bit 16 w)) (ucast (drop_bit 8 w)) (ucast w)) n
      = bit (take_bit 31 w) n"
    by cases (auto simp: of_be32_def seven bit_simps less_diff_conv2)
qed

lemma unat_of_nat_octet: "n < 256 \<Longrightarrow> unat (of_nat n :: u8) = n"
  by (simp add: unat_of_nat take_bit_eq_mod)

lemma of_be24_be24:
  assumes "n < 2 ^ 24"
  shows "of_be24 (of_nat (n div 65536 mod 256)) (of_nat (n div 256 mod 256)) (of_nat (n mod 256)) = n"
proof -
  have q: "n div 65536 = n div 256 div 256" by (simp flip: div_mult2_eq)
  with assms have *: "n div 65536 mod 256 = n div 256 div 256" by simp
  have "unat (of_nat (n div 65536 mod 256) :: u8) = n div 256 div 256"
    unfolding * [symmetric] by (rule unat_of_nat_octet) simp
  moreover have "unat (of_nat (n div 256 mod 256) :: u8) = n div 256 mod 256"
    "unat (of_nat (n mod 256) :: u8) = n mod 256"
    by (rule unat_of_nat_octet; simp)+
  moreover have "n div 256 div 256 * 65536 + n div 256 mod 256 * 256 + n mod 256 =
      (n div 256 div 256 * 256 + n div 256 mod 256) * 256 + n mod 256" by algebra
  moreover have "\<dots> = n" by (simp only: div_mult_mod_eq)
  ultimately show ?thesis by (simp only: of_be24_def)
qed

lemma of_be24_less: "of_be24 a b c < 2 ^ 24"
proof -
  have "unat a \<le> 255" "unat b \<le> 255" "unat c \<le> 255"
    using unat_u8_less [of a] unat_u8_less [of b] unat_u8_less [of c] by linarith+
  then show ?thesis by (simp add: of_be24_def)
qed

end
