(* ===== verification/H2_Error.thy ===== *)
theory H2_Error
  imports Prelude
begin

text \<open>
  HTTP/2 errors (\<^verbatim>\<open>ylong_http/src/h2/error.rs\<close>): the error codes of RFC 9113 with their numbers on
  the wire, and the two kinds of errors the decoders raise.
\<close>

type_synonym StreamId = u32

datatype ErrorCode =
    NoError
  | ProtocolError
  | IntervalError
  | FlowControlError
  | SettingsTimeout
  | StreamClosed
  | FrameSizeError
  | RefusedStream
  | Cancel
  | CompressionError
  | ConnectError
  | EnhanceYourCalm
  | InadequateSecurity
  | Http1_1Required

datatype H2Error = StreamError StreamId ErrorCode | ConnectionError ErrorCode

fun into_code :: "ErrorCode \<Rightarrow> u32" where
  "into_code NoError = 0x00"
| "into_code ProtocolError = 0x01"
| "into_code IntervalError = 0x02"
| "into_code FlowControlError = 0x03"
| "into_code SettingsTimeout = 0x04"
| "into_code StreamClosed = 0x05"
| "into_code FrameSizeError = 0x06"
| "into_code RefusedStream = 0x07"
| "into_code Cancel = 0x08"
| "into_code CompressionError = 0x09"
| "into_code ConnectError = 0x0a"
| "into_code EnhanceYourCalm = 0x0b"
| "into_code InadequateSecurity = 0x0c"
| "into_code Http1_1Required = 0x0d"

definition ErrorCode_try_from :: "u32 \<Rightarrow> (ErrorCode, H2Error) outcome" where
  "ErrorCode_try_from value =
     (if value = 0x00 then Ok NoError
      else if value = 0x01 then Ok ProtocolError
      else if value = 0x02 then Ok IntervalError
      else if value = 0x03 then Ok FlowControlError
      else if value = 0x04 then Ok SettingsTimeout
      else if value = 0x05 then Ok StreamClosed
      else if value = 0x06 then Ok FrameSizeError
      else if value = 0x07 then Ok RefusedStream
      else if value = 0x08 then Ok Cancel
      else if value = 0x09 then Ok CompressionError
      else if value = 0x0a then Ok ConnectError
      else if value = 0x0b then Ok EnhanceYourCalm
      else if value = 0x0c then Ok InadequateSecurity
      else if value = 0x0d then Ok Http1_1Required
      else Err (ConnectionError ProtocolError))"

lemma try_from_into_code [simp]: "ErrorCode_try_from (into_code e) = Ok e"
  by (cases e) (simp_all add: ErrorCode_try_from_def)

lemma into_code_less: "into_code e < 0x0e"
  by (cases e) simp_all

lemma try_from_eq_Ok: "ErrorCode_try_from v = Ok e \<longleftrightarrow> v = into_code e"
proof
  assume "ErrorCode_try_from v = Ok e"
  then show "v = into_code e" by (auto simp: ErrorCode_try_from_def split: if_splits)
qed simp

lemma try_from_Err: "ErrorCode_try_from v \<noteq> Panic \<and>
    (ErrorCode_try_from v = Err e \<longrightarrow> e = ConnectionError ProtocolError)"
  by (auto simp: ErrorCode_try_from_def)

end
