(* ===== verification/Interfaces.thy ===== *)
theory Interfaces
  imports Prelude
begin

text \<open>
  The contracts that several components share, as locales. Each is interpreted on the model's own
  definitions in the theory of the component that provides it.
\<close>

section \<open>Prefix codes\<close>

text \<open>
  A code in which no code word begins another: a concatenation of code words can be split in only
  one way.
\<close>

locale prefix_code =
  fixes code :: "'s \<Rightarrow> bool list"
  assumes code_prefix_free: "prefix (code x) (code y) \<Longrightarrow> x = y"
    and code_nonempty: "code x \<noteq> []"
begin

lemma code_cancel:
  assumes "code x @ us = code y @ vs"
  shows "x = y \<and> us = vs"
proof -
  have "prefix (code x) (code y @ vs)" using assms by (metis prefixI)
  moreover have "prefix (code y) (code y @ vs)" by simp
  ultimately have "prefix (code x) (code y) \<or> prefix (code y) (code x)"
    by (rule prefix_same_cases)
  then have "x = y" using code_prefix_free by blast
  with assms show ?thesis by simp
qed

text \<open>A tail that no code word begins marks where the code words stop.\<close>

lemma unique_parse:
  assumes "concat (map code xs) @ us = concat (map code ys) @ vs"
    and us: "\<And>x. \<not> prefix (code x) us" and vs: "\<And>x. \<not> prefix (code x) vs"
  shows "xs = ys \<and> us = vs"
  using assms(1)
proof (induction xs arbitrary: ys)
  case Nil
  then show ?case
  proof (cases ys)
    case (Cons y ys')
    with Nil have "prefix (code y) us" by (auto simp: prefix_def)
    with us show ?thesis by blast
  qed simp
next
  case (Cons x xs)
  show ?case
  proof (cases ys)
    case Nil
    with Cons.prems have "prefix (code x) vs" by (auto simp: prefix_def)
    with vs show ?thesis by blast
  next
    case (Cons y ys')
    with Cons.prems have
      "code x @ (concat (map code xs) @ us) = code y @ (concat (map code ys') @ vs)" by simp
    from code_cancel [OF this] Cons Cons.IH [of ys'] show ?thesis by simp
  qed
qed

end

section \<open>Decoders that take their input in segments\<close>

text \<open>
  A decoder whose state may be saved between two calls: the input can be cut anywhere, and what the
  decoder has learnt in the end does not depend on the cuts. \<open>invar\<close> is what holds between calls.
\<close>

fun feed_segments ::
  "('st \<Rightarrow> 'i list \<Rightarrow> ('st, 'e) outcome) \<Rightarrow> 'st \<Rightarrow> 'i list list \<Rightarrow> ('st, 'e) outcome" where
  "feed_segments feed s [] = Ok s"
| "feed_segments feed s (xs # xss) = obind (feed s xs) (\<lambda>t. feed_segments feed t xss)"

text \<open>
  A decoder may report, for some ways of cutting the input, a failure that it does not report for
  others. \<open>agrees\<close> says which results of a cut input are acceptable for a result of the whole.
\<close>

locale segmented_decoder_upto =
  fixes feed :: "'st \<Rightarrow> 'i list \<Rightarrow> ('st, 'e) outcome"
    and invar :: "'st \<Rightarrow> bool"
    and agrees :: "('st, 'e) outcome \<Rightarrow> ('st, 'e) outcome \<Rightarrow> bool"
  assumes feed_nil_agrees: "invar s \<Longrightarrow> agrees (feed s []) (Ok s)"
    and feed_append_agrees: "invar s \<Longrightarrow> agrees (feed s (xs @ ys)) (obind (feed s xs) (\<lambda>t. feed t ys))"
    and feed_invar: "invar s \<Longrightarrow> feed s xs = Ok t \<Longrightarrow> invar t"
    and agrees_refl: "agrees m m"
    and agrees_trans: "agrees m n \<Longrightarrow> agrees n k \<Longrightarrow> agrees m k"
begin

lemma feed_segments_agrees: "invar s \<Longrightarrow> agrees (feed s (concat xss)) (feed_segments feed s xss)"
proof (induction xss arbitrary: s)
  case Nil
  then show ?case by (simp add: feed_nil_agrees)
next
  case (Cons xs xss)
  have "agrees (obind (feed s xs) (\<lambda>t. feed t (concat xss))) (obind (feed s xs) (\<lambda>t. feed_segments feed t xss))"
  proof (cases "feed s xs")
    case (Ok t)
    with Cons.prems have "invar t" by (rule feed_invar)
    with Cons.IH Ok show ?thesis by simp
  qed (simp_all add: agrees_refl)
  with feed_append_agrees [OF Cons.prems, of xs "concat xss"] show ?case
    by (simp add: agrees_trans)
qed

lemma feed_segments_invar: "invar s \<Longrightarrow> feed_segments feed s xss = Ok t \<Longrightarrow> invar t"
  by (induction xss arbitrary: s) (auto simp: obind_eq_Ok dest: feed_invar)

end

locale segmented_decoder =
  fixes feed :: "'st \<Rightarrow> 'i list \<Rightarrow> ('st, 'e) outcome"
    and invar :: "'st \<Rightarrow> bool"
  assumes feed_nil: "invar s \<Longrightarrow> feed s [] = Ok s"
    and feed_append: "invar s \<Longrightarrow> feed s (xs @ ys) = obind (feed s xs) (\<lambda>t. feed t ys)"
    and feed_invar: "invar s \<Longrightarrow> feed s xs = Ok t \<Longrightarrow> invar t"

text \<open>A decoder that never minds the cuts agrees with itself up to equality.\<close>

sublocale segmented_decoder \<subseteq> upto: segmented_decoder_upto feed invar "(=)"
  by unfold_locales (auto simp: feed_nil feed_append intro: feed_invar)

context segmented_decoder
begin

lemma feed_segments_concat: "invar s \<Longrightarrow> feed_segments feed s xss = feed s (concat xss)"
  using upto.feed_segments_agrees by simp

lemma segmentation_irrelevant:
  "invar s \<Longrightarrow> concat xss = concat yss \<Longrightarrow> feed_segments feed s xss = feed_segments feed s yss"
  by (simp add: feed_segments_concat)

end

section \<open>Encoders that write into buffers of any size\<close>

text \<open>
  An encoder is given the size of the buffer. Either everything fits, and it returns what it wrote,
  or it fills the buffer and returns, as an error, what it wrote and the state to resume in. The
  contract says this in terms of what a state has left to write.
\<close>

fun emit :: "bytes \<Rightarrow> (bytes, bytes \<times> 's) outcome \<Rightarrow> (bytes, bytes \<times> 's) outcome" where
  "emit out (Ok more) = Ok (out @ more)"
| "emit out (Err (more, s)) = Err (out @ more, s)"
| "emit out Panic = Panic"

fun map_state :: "('s \<Rightarrow> 't) \<Rightarrow> (bytes, bytes \<times> 's) outcome \<Rightarrow> (bytes, bytes \<times> 't) outcome" where
  "map_state f (Ok out) = Ok out"
| "map_state f (Err (out, s)) = Err (out, f s)"
| "map_state f Panic = Panic"

text \<open>Filling one buffer after the other; nothing is left when the second component is \<open>None\<close>.\<close>

fun encode_segments ::
  "('s \<Rightarrow> nat \<Rightarrow> (bytes, bytes \<times> 's) outcome) \<Rightarrow> 's \<Rightarrow> nat list \<Rightarrow> (bytes \<times> 's option) option" where
  "encode_segments enc s [] = Some ([], Some s)"
| "encode_segments enc s (n # ns) =
     (case enc s n of
        Ok out \<Rightarrow> Some (out, None)
      | Err (out, s) \<Rightarrow> map_option (\<lambda>(more, r). (out @ more, r)) (encode_segments enc s ns)
      | Panic \<Rightarrow> None)"

locale segmented_encoder =
  fixes enc :: "'s \<Rightarrow> nat \<Rightarrow> (bytes, bytes \<times> 's) outcome"
    and content :: "'s \<Rightarrow> bytes"
    and invar :: "'s \<Rightarrow> bool"
  assumes enc_fits: "invar s \<Longrightarrow> length (content s) \<le> n \<Longrightarrow> enc s n = Ok (content s)"
    and enc_cut: "invar s \<Longrightarrow> n < length (content s) \<Longrightarrow>
      \<exists>s'. enc s n = Err (take n (content s), s') \<and> content s' = drop n (content s) \<and> invar s'"
begin

lemma enc_not_Panic: "invar s \<Longrightarrow> enc s n \<noteq> Panic"
  using enc_fits [of s n] enc_cut [of s n] by (cases "length (content s) \<le> n") auto

lemma enc_Ok: "invar s \<Longrightarrow> enc s n = Ok out \<longleftrightarrow> length (content s) \<le> n \<and> out = content s"
  using enc_fits [of s n] enc_cut [of s n] by (cases "length (content s) \<le> n") auto

lemma enc_Err:
  assumes "invar s" "enc s n = Err (out, s')"
  shows "n < length (content s)" "out = take n (content s)" "content s' = drop n (content s)" "invar s'"
    "length out = n" "content s = out @ content s'"
proof -
  show n: "n < length (content s)" using assms enc_fits [of s n] by (metis not_le outcome.distinct(1))
  from enc_cut [OF assms(1) this] assms(2)
  show "out = take n (content s)" "content s' = drop n (content s)" "invar s'" by auto
  with n show "length out = n" "content s = out @ content s'" by auto
qed

lemma encode_segments_content:
  assumes "invar s" "ns \<noteq> []"
  shows "\<exists>r. encode_segments enc s ns = Some (take (sum_list ns) (content s), r) \<and>
    (r = None \<longleftrightarrow> length (content s) \<le> sum_list ns)"
  using assms
proof (induction ns arbitrary: s)
  case (Cons n ns)
  show ?case
  proof (cases "length (content s) \<le> n")
    case True
    with enc_fits [OF Cons.prems(1) this] show ?thesis by simp
  next
    case False
    then obtain s' where s': "enc s n = Err (take n (content s), s')"
      "content s' = drop n (content s)" "invar s'" using enc_cut [OF Cons.prems(1), of n] by auto
    show ?thesis
    proof (cases "ns = []")
      case False
      from Cons.IH [OF s'(3) this] s' show ?thesis by (auto simp: take_add)
    qed (use s' False in simp)
  qed
qed simp

end

section \<open>Maps of header fields\<close>

text \<open>
  A map that is filled field by field: names are normalised, and the values of fields with the same
  name are joined in the order of their arrival.
\<close>

fun append_all ::
  "('m \<Rightarrow> string \<Rightarrow> string \<Rightarrow> ('m, 'e) outcome) \<Rightarrow> 'm \<Rightarrow> (string \<times> string) list \<Rightarrow> ('m, 'e) outcome" where
  "append_all add m [] = Ok m"
| "append_all add m ((n, s) # fs) = obind (add m n s) (\<lambda>m. append_all add m fs)"

text \<open>What the fields of a list leave for the name \<open>x\<close>.\<close>

fun collect_field ::
  "(string \<Rightarrow> ('k, 'e) outcome) \<Rightarrow> (string \<Rightarrow> ('v, 'e) outcome) \<Rightarrow> ('v \<Rightarrow> 'v \<Rightarrow> 'v) \<Rightarrow>
   string \<Rightarrow> 'v option \<Rightarrow> (string \<times> string) list \<Rightarrow> 'v option" where
  "collect_field name val join x acc [] = acc"
| "collect_field name val join x acc ((n, s) # fs) =
     (case val s of
        Ok v \<Rightarrow>
          collect_field name val join x
            (if name x = name n then Some (case acc of None \<Rightarrow> v | Some w \<Rightarrow> join w v) else acc) fs
      | _ \<Rightarrow> acc)"

locale field_map =
  fixes invar :: "'m \<Rightarrow> bool"
    and name :: "string \<Rightarrow> ('k, 'e) outcome"
    and val :: "string \<Rightarrow> ('v, 'e) outcome"
    and get :: "'m \<Rightarrow> string \<Rightarrow> 'v option"
    and add :: "'m \<Rightarrow> string \<Rightarrow> string \<Rightarrow> ('m, 'e) outcome"
    and join :: "'v \<Rightarrow> 'v \<Rightarrow> 'v"
  assumes append_ok:
      "invar m \<Longrightarrow> name n = Ok k \<Longrightarrow> val s = Ok v \<Longrightarrow> \<exists>m'. add m n s = Ok m' \<and> invar m'"
    and get_append:
      "invar m \<Longrightarrow> add m n s = Ok m' \<Longrightarrow> val s = Ok v \<Longrightarrow>
       get m' x = (if name x = name n then Some (case get m n of None \<Rightarrow> v | Some w \<Rightarrow> join w v) else get m x)"
    and get_name: "name x = name n \<Longrightarrow> get m x = get m n"
begin

lemma append_all_get:
  assumes "invar m" and "\<And>n s. (n, s) \<in> set fs \<Longrightarrow> (\<exists>k. name n = Ok k) \<and> (\<exists>v. val s = Ok v)"
  shows "\<exists>m'. append_all add m fs = Ok m' \<and> invar m' \<and> (\<forall>x. get m' x = collect_field name val join x (get m x) fs)"
  using assms
proof (induction fs arbitrary: m)
  case (Cons f fs)
  obtain n s where f: "f = (n, s)" by fastforce
  from Cons.prems(2) [of n s] f obtain k v where kv: "name n = Ok k" "val s = Ok v" by auto
  from append_ok [OF Cons.prems(1) this] obtain m1 where m1: "add m n s = Ok m1" "invar m1" by blast
  note get1 = get_append [OF Cons.prems(1) m1(1) kv(2)]
  from Cons.IH [OF m1(2)] Cons.prems(2) obtain m' where
    m': "append_all add m1 fs = Ok m'" "invar m'" "\<forall>x. get m' x = collect_field name val join x (get m1 x) fs"
    by fastforce
  have "get m' x = collect_field name val join x (get m x) (f # fs)" for x
    using m'(3) get_name [of x n m] by (simp add: f kv(2) get1)
  with m1 m' show ?case by (simp add: f)
qed simp

lemma collect_other: "name x \<notin> name ` fst ` set fs \<Longrightarrow> \<forall>(n, s) \<in> set fs. \<exists>v. val s = Ok v \<Longrightarrow>
    collect_field name val join x acc fs = acc"
  by (induction fs) auto

end

end
