(* ===== verification/Headers.thy ===== *)
theory Headers
  imports Interfaces "HOL-Library.AList"
begin

text \<open>
  Header fields (\<^verbatim>\<open>ylong_http/src/headers.rs\<close>): header names with their check and their
  normalisation to lower case, header values that collect the values of repeated fields, and the
  map \<open>Headers\<close> from names to values.
\<close>

section \<open>Names\<close>

text \<open>
  The crate's errors, less those of HTTP/2 and HTTP/3, which have types of their own. This component
  raises \<open>InvalidInput\<close> only.
\<close>

datatype InvalidUri =
    InvalidScheme | InvalidAuthority | InvalidPath | InvalidByte | InvalidFormat | InvalidPort
  | UriMissScheme | UriMissPath | UriMissQuery | UriMissAuthority | UriMissHost | UriContainUserinfo
  | UriTooLong

datatype H1Error = InvalidRequest | InvalidResponse

datatype ErrorKind = InvalidInput | EK_Uri InvalidUri | EK_H1 H1Error

type_synonym HeaderName = string

definition HEADER_CHARS :: bytes where
  "HEADER_CHARS = [
     0, 0, 0, 0, 0, 0, 0, 0, 0, 0,
     0, 0, 0, 0, 0, 0, 0, 0, 0, 0,
     0, 0, 0, 0, 0, 0, 0, 0, 0, 0,
     0, 0, 0x20, 0x21, 0x22, 0x23, 0x24, 0x25, 0x26, 0x27,
     0, 0, 0x2a, 0x2b, 0x2c, 0x2d, 0x2e, 0x2f, 0x30, 0x31,
     0x32, 0x33, 0x34, 0x35, 0x36, 0x37, 0x38, 0x39, 0, 0,
     0, 0, 0, 0, 0, 0x61, 0x62, 0x63, 0x64, 0x65,
     0x66, 0x67, 0x68, 0x69, 0x6a, 0x6b, 0x6c, 0x6d, 0x6e, 0x6f,
     0x70, 0x71, 0x72, 0x73, 0x74, 0x75, 0x76, 0x77, 0x78, 0x79,
     0x7a, 0, 0, 0, 0x5e, 0x5f, 0x60, 0x61, 0x62, 0x63,
     0x64, 0x65, 0x66, 0x67, 0x68, 0x69, 0x6a, 0x6b, 0x6c, 0x6d,
     0x6e, 0x6f, 0x70, 0x71, 0x72, 0x73, 0x74, 0x75, 0x76, 0x77,
     0x78, 0x79, 0x7a, 0, 0x7c, 0, 0x7e, 0, 0, 0,
     0, 0, 0, 0, 0, 0, 0, 0, 0, 0,
     0, 0, 0, 0, 0, 0, 0, 0, 0, 0,
     0, 0, 0, 0, 0, 0, 0, 0, 0, 0,
     0, 0, 0, 0, 0, 0, 0, 0, 0, 0,
     0, 0, 0, 0, 0, 0, 0, 0, 0, 0,
     0, 0, 0, 0, 0, 0, 0, 0, 0, 0,
     0, 0, 0, 0, 0, 0, 0, 0, 0, 0,
     0, 0, 0, 0, 0, 0, 0, 0, 0, 0,
     0, 0, 0, 0, 0, 0, 0, 0, 0, 0,
     0, 0, 0, 0, 0, 0, 0, 0, 0, 0,
     0, 0, 0, 0, 0, 0, 0, 0, 0, 0,
     0, 0, 0, 0, 0, 0, 0, 0, 0, 0,
     0, 0, 0, 0, 0, 0]"

fun HeaderName_normalize_loop :: "bytes \<Rightarrow> bytes \<Rightarrow> (string, ErrorKind) outcome" where
  "HeaderName_normalize_loop [] dst = Ok (from_utf8_unchecked dst)"
| "HeaderName_normalize_loop (b # input) dst =
     (let b = HEADER_CHARS ! unat b in
      if b = 0 then Err InvalidInput else HeaderName_normalize_loop input (dst @ [b]))"

definition HeaderName_normalize :: "bytes \<Rightarrow> (string, ErrorKind) outcome" where
  "HeaderName_normalize input = HeaderName_normalize_loop input []"

definition HeaderName_from_bytes :: "bytes \<Rightarrow> (HeaderName, ErrorKind) outcome" where
  "HeaderName_from_bytes bs = HeaderName_normalize bs"

definition HeaderName_try_from :: "string \<Rightarrow> (HeaderName, ErrorKind) outcome" where
  "HeaderName_try_from name = HeaderName_from_bytes (into_bytes name)"

section \<open>Values\<close>

record HeaderValue =
  hv_inner :: "bytes list"
  hv_is_sensitive :: bool

definition HeaderValue_is_valid :: "u8 \<Rightarrow> bool" where
  "HeaderValue_is_valid b \<longleftrightarrow> b \<ge> 32 \<and> b \<noteq> 127 \<or> b = 9"

definition HeaderValue_from_bytes :: "bytes \<Rightarrow> (HeaderValue, ErrorKind) outcome" where
  "HeaderValue_from_bytes bs =
     (if \<not> list_all HeaderValue_is_valid bs then Err InvalidInput
      else Ok \<lparr>hv_inner = [bs], hv_is_sensitive = False\<rparr>)"

definition HeaderValue_try_from :: "string \<Rightarrow> (HeaderValue, ErrorKind) outcome" where
  "HeaderValue_try_from value = HeaderValue_from_bytes (into_bytes value)"

definition HeaderValue_append :: "HeaderValue \<Rightarrow> HeaderValue \<Rightarrow> HeaderValue" where
  "HeaderValue_append v other = v\<lparr>hv_inner := hv_inner v @ hv_inner other\<rparr>"

definition HeaderValue_append_bytes :: "HeaderValue \<Rightarrow> bytes \<Rightarrow> (HeaderValue, ErrorKind) outcome" where
  "HeaderValue_append_bytes v bs =
     (if \<not> list_all HeaderValue_is_valid bs then Err InvalidInput
      else Ok (v\<lparr>hv_inner := hv_inner v @ [bs]\<rparr>))"

text \<open>The loop of \<^verbatim>\<open>to_string\<close> and \<^verbatim>\<open>to_vec\<close>: all values but the first follow a comma and a space.\<close>

fun HeaderValue_to_vec_loop :: "nat \<Rightarrow> bytes list \<Rightarrow> bytes \<Rightarrow> bytes" where
  "HeaderValue_to_vec_loop n [] content = content"
| "HeaderValue_to_vec_loop n (i # is) content =
     (let content = (if n \<noteq> 0 then content @ [0x2c, 0x20] else content) in
      HeaderValue_to_vec_loop (Suc n) is (content @ i))"

definition HeaderValue_to_vec :: "HeaderValue \<Rightarrow> bytes" where
  "HeaderValue_to_vec v = HeaderValue_to_vec_loop 0 (hv_inner v) []"

definition HeaderValue_to_string :: "HeaderValue \<Rightarrow> (string, ErrorKind) outcome" where
  "HeaderValue_to_string v = Ok (from_utf8_unchecked (HeaderValue_to_vec_loop 0 (hv_inner v) []))"

definition HeaderValue_set_sensitive :: "HeaderValue \<Rightarrow> bool \<Rightarrow> HeaderValue" where
  "HeaderValue_set_sensitive v s = v\<lparr>hv_is_sensitive := s\<rparr>"

section \<open>The map\<close>

text \<open>
  The source keeps a \<^verbatim>\<open>HashMap\<close>; here it is the list of its entries in the order of iteration,
  which the hash map does not specify. What the operations do to the entries does not depend on
  the order.
\<close>

type_synonym Headers = "(HeaderName \<times> HeaderValue) list"

definition Headers_new :: Headers where
  "Headers_new = []"

definition Headers_len :: "Headers \<Rightarrow> nat" where
  "Headers_len h = length h"

definition Headers_is_empty :: "Headers \<Rightarrow> bool" where
  "Headers_is_empty h \<longleftrightarrow> h = []"

definition Headers_get :: "Headers \<Rightarrow> string \<Rightarrow> HeaderValue option" where
  "Headers_get h name =
     (case HeaderName_try_from name of Ok name \<Rightarrow> map_of h name | _ \<Rightarrow> None)"

definition Headers_insert ::
  "Headers \<Rightarrow> string \<Rightarrow> string \<Rightarrow> (HeaderValue option \<times> Headers, ErrorKind) outcome" where
  "Headers_insert h name value =
     obind (HeaderName_try_from name) (\<lambda>name.
     obind (HeaderValue_try_from value) (\<lambda>value.
       Ok (map_of h name, AList.update name value h)))"

definition Headers_append :: "Headers \<Rightarrow> string \<Rightarrow> string \<Rightarrow> (Headers, ErrorKind) outcome" where
  "Headers_append h name value =
     obind (HeaderName_try_from name) (\<lambda>name.
     obind (HeaderValue_try_from value) (\<lambda>value.
       Ok (case map_of h name of
             Some o' \<Rightarrow> AList.update name (HeaderValue_append o' value) h
           | None \<Rightarrow> AList.update name value h)))"

definition Headers_remove :: "Headers \<Rightarrow> string \<Rightarrow> HeaderValue option \<times> Headers" where
  "Headers_remove h name =
     (case HeaderName_try_from name of
        Ok name \<Rightarrow> (map_of h name, AList.delete name h) | _ \<Rightarrow> (None, h))"

definition Headers_into_iter :: "Headers \<Rightarrow> (HeaderName \<times> HeaderValue) list" where
  "Headers_into_iter h = h"

section \<open>Well-formed headers\<close>

definition header_char :: "u8 \<Rightarrow> u8" where
  "header_char b = HEADER_CHARS ! unat b"

lemma HEADER_CHARS_facts:
  "length HEADER_CHARS = 256"
  "list_all (\<lambda>c. HEADER_CHARS ! unat c = c) HEADER_CHARS"
  "list_all HeaderValue_is_valid (filter (\<lambda>c. c \<noteq> 0) HEADER_CHARS)"
  by (simp_all add: HEADER_CHARS_def HeaderValue_is_valid_def)

lemma header_char_idem [simp]: "header_char (header_char b) = header_char b"
  using HEADER_CHARS_facts by (simp add: header_char_def list_all_length)

lemma HeaderName_normalize_loop_eq:
  "HeaderName_normalize_loop input dst =
     (if \<forall>b \<in> set input. header_char b \<noteq> 0
      then Ok (from_utf8_unchecked (dst @ map header_char input)) else Err InvalidInput)"
  by (induction input dst rule: HeaderName_normalize_loop.induct) (auto simp: Let_def simp flip: header_char_def)

lemma HeaderName_try_from_eq:
  "HeaderName_try_from name =
     (if \<forall>b \<in> set (into_bytes name). header_char b \<noteq> 0
      then Ok (from_utf8_unchecked (map header_char (into_bytes name))) else Err InvalidInput)"
  by (simp add: HeaderName_try_from_def HeaderName_from_bytes_def HeaderName_normalize_def
      HeaderName_normalize_loop_eq)

text \<open>A name that the constructor made is its own normal form.\<close>

definition HeaderName_ok :: "HeaderName \<Rightarrow> bool" where
  "HeaderName_ok name \<longleftrightarrow> HeaderName_try_from name = Ok name"

lemma HeaderName_try_from_ok: "HeaderName_try_from name = Ok k \<Longrightarrow> HeaderName_ok k"
  by (auto simp: HeaderName_ok_def HeaderName_try_from_eq comp_def split: if_splits)

lemma HeaderName_try_from_not_Panic [simp]: "HeaderName_try_from name \<noteq> Panic"
  by (simp add: HeaderName_try_from_eq)

definition HeaderValue_ok :: "HeaderValue \<Rightarrow> bool" where
  "HeaderValue_ok v \<longleftrightarrow> hv_inner v \<noteq> [] \<and> (\<forall>bs \<in> set (hv_inner v). list_all HeaderValue_is_valid bs)"

lemma HeaderValue_try_from_eq:
  "HeaderValue_try_from s =
     (if list_all HeaderValue_is_valid (into_bytes s)
      then Ok \<lparr>hv_inner = [into_bytes s], hv_is_sensitive = False\<rparr> else Err InvalidInput)"
  by (simp add: HeaderValue_try_from_def HeaderValue_from_bytes_def)

lemma HeaderValue_try_from_ok: "HeaderValue_try_from s = Ok v \<Longrightarrow> HeaderValue_ok v"
  by (auto simp: HeaderValue_try_from_eq HeaderValue_ok_def split: if_splits)

lemma HeaderValue_append_ok:
  "HeaderValue_ok v \<Longrightarrow> HeaderValue_ok w \<Longrightarrow> HeaderValue_ok (HeaderValue_append v w)"
  by (auto simp: HeaderValue_ok_def HeaderValue_append_def)

definition Headers_ok :: "Headers \<Rightarrow> bool" where
  "Headers_ok h \<longleftrightarrow> distinct (map fst h) \<and> (\<forall>(n, v) \<in> set h. HeaderName_ok n \<and> HeaderValue_ok v)"

lemma Headers_ok_new [simp]: "Headers_ok Headers_new"
  by (simp add: Headers_ok_def Headers_new_def)

lemma set_update_subset: "set (AList.update k v al) \<subseteq> insert (k, v) (set al)"
  by (induction al) auto

lemma set_delete_subset: "set (AList.delete k al) \<subseteq> set al"
  by (auto simp: AList.delete_eq)

lemma Headers_ok_update:
  assumes "Headers_ok h" "HeaderName_ok n" "HeaderValue_ok v"
  shows "Headers_ok (AList.update n v h)"
proof -
  have "distinct (map fst (AList.update n v h))"
    using assms(1) by (simp add: Headers_ok_def distinct_update)
  with assms show ?thesis using set_update_subset [of n v h] by (auto simp: Headers_ok_def)
qed

lemma Headers_ok_delete: "Headers_ok h \<Longrightarrow> Headers_ok (AList.delete n h)"
  using set_delete_subset [of n h] by (auto simp: Headers_ok_def distinct_delete)

lemma Headers_ok_value: "Headers_ok h \<Longrightarrow> map_of h n = Some v \<Longrightarrow> HeaderValue_ok v"
  by (auto simp: Headers_ok_def dest: map_of_SomeD)

interpretation fields: field_map Headers_ok HeaderName_try_from HeaderValue_try_from Headers_get
  Headers_append HeaderValue_append
proof
  fix m n k s v
  assume ok: "Headers_ok m" and n: "HeaderName_try_from n = Ok k" and v: "HeaderValue_try_from s = Ok v"
  note k = HeaderName_try_from_ok [OF n] and v' = HeaderValue_try_from_ok [OF v]
  show "\<exists>m'. Headers_append m n s = Ok m' \<and> Headers_ok m'"
    using Headers_ok_update [OF ok k] v' HeaderValue_append_ok Headers_ok_value [OF ok]
    by (auto simp: Headers_append_def n v split: option.split)
next
  fix m n s m' v x
  assume "Headers_append m n s = Ok m'" "HeaderValue_try_from s = Ok v"
  then show "Headers_get m' x = (if HeaderName_try_from x = HeaderName_try_from n
      then Some (case Headers_get m n of None \<Rightarrow> v | Some w \<Rightarrow> HeaderValue_append w v)
      else Headers_get m x)"
    by (auto simp: Headers_append_def Headers_get_def obind_eq_Ok update_conv'
        split: option.split outcome.split)
qed (simp add: Headers_get_def)

text \<open>The text of a value: the values it has collected, separated by commas.\<close>

fun join_values :: "bytes list \<Rightarrow> bytes" where
  "join_values [] = []"
| "join_values [v] = v"
| "join_values (v # vs) = v @ [0x2c, 0x20] @ join_values vs"

lemma to_vec_loop_Suc:
  "HeaderValue_to_vec_loop (Suc n) vs content = content @ concat (map (\<lambda>v. [0x2c, 0x20] @ v) vs)"
  by (induction vs arbitrary: n content) simp_all

lemma join_values_Cons: "join_values (v # vs) = v @ concat (map (\<lambda>v. [0x2c, 0x20] @ v) vs)"
  by (induction vs arbitrary: v) simp_all

lemma to_vec_loop_eq: "HeaderValue_to_vec_loop 0 vs [] = join_values vs"
  by (cases vs) (simp_all add: to_vec_loop_Suc join_values_Cons del: join_values.simps(2,3))

lemma HeaderValue_to_string_eq:
  "HeaderValue_to_string v = Ok (from_utf8_unchecked (join_values (hv_inner v)))"
  by (simp add: HeaderValue_to_string_def to_vec_loop_eq)

lemma join_values_valid:
  "\<forall>bs \<in> set vs. list_all HeaderValue_is_valid bs \<Longrightarrow> list_all HeaderValue_is_valid (join_values vs)"
  by (induction vs rule: join_values.induct) (auto simp: HeaderValue_is_valid_def)

section \<open>Properties\<close>

text \<open>
  C35. Headers stay well formed: inserting, appending and removing keep the names of a header map
  distinct, normalised and valid and its values made of valid octets. An insertion or an append
  succeeds exactly when the name has only header-name characters and the value only valid octets.
\<close>

theorem Headers_operations_ok:
  assumes "Headers_ok h"
  shows "(if (\<forall>b \<in> set (into_bytes n). header_char b \<noteq> 0) \<and> list_all HeaderValue_is_valid (into_bytes s)
      then (\<exists>old h'. Headers_insert h n s = Ok (old, h') \<and> Headers_ok h') \<and>
        (\<exists>h'. Headers_append h n s = Ok h' \<and> Headers_ok h')
      else Headers_insert h n s = Err InvalidInput \<and> Headers_append h n s = Err InvalidInput) \<and>
    Headers_ok (snd (Headers_remove h n))" (is "(if ?valid then ?yes else ?no) \<and> ?removed")
proof -
  have ?yes if ?valid
  proof -
    from that obtain k v where kv: "HeaderName_try_from n = Ok k" "HeaderValue_try_from s = Ok v"
      by (simp add: HeaderName_try_from_eq HeaderValue_try_from_eq)
    then show ?thesis
      using fields.append_ok [OF assms kv] Headers_ok_update [OF assms]
        HeaderName_try_from_ok HeaderValue_try_from_ok by (simp add: Headers_insert_def)
  qed
  moreover have ?no if "\<not> ?valid"
    using that by (auto simp: Headers_insert_def Headers_append_def HeaderName_try_from_eq
        HeaderValue_try_from_eq)
  moreover have ?removed
    by (simp add: Headers_remove_def assms Headers_ok_delete split: outcome.split)
  ultimately show ?thesis by presburger
qed

theorem Headers_operations_ok_witness:
  "Headers_ok Headers_new \<and> (\<exists>h'. Headers_append Headers_new ''Foo'' ''a b'' = Ok h' \<and> Headers_ok h')"
proof -
  have "(\<forall>b \<in> set (into_bytes ''Foo''). header_char b \<noteq> 0) \<and>
      list_all HeaderValue_is_valid (into_bytes ''a b'')"
    by (simp add: into_bytes_def byte_of_char_def header_char_def HEADER_CHARS_def
        HeaderValue_is_valid_def)
  with Headers_operations_ok [OF Headers_ok_new, of "''Foo''" "''a b''"] show ?thesis by simp
qed

text \<open>
  What a lookup returns: after an insertion the new value, after an append the old values
  followed by the new one, after a removal nothing, in each case under every spelling of the name
  that differs only in case; other names keep their values.
\<close>

theorem Headers_lookup:
  assumes "Headers_ok h" "HeaderName_try_from n = Ok k" "HeaderValue_try_from s = Ok v"
  shows "\<exists>h1 h2. Headers_insert h n s = Ok (Headers_get h n, h1) \<and> Headers_append h n s = Ok h2 \<and>
    (\<forall>x. Headers_get h1 x = (if HeaderName_try_from x = Ok k then Some v else Headers_get h x)) \<and>
    (\<forall>x. Headers_get h2 x = (if HeaderName_try_from x = Ok k
       then Some (case Headers_get h n of None \<Rightarrow> v | Some w \<Rightarrow> HeaderValue_append w v)
       else Headers_get h x)) \<and>
    (\<forall>x. Headers_get (snd (Headers_remove h n)) x =
       (if HeaderName_try_from x = Ok k then None else Headers_get h x))"
proof -
  obtain h2 where h2: "Headers_append h n s = Ok h2" using fields.append_ok [OF assms] by blast
  have "Headers_get h2 x = (if HeaderName_try_from x = Ok k
       then Some (case Headers_get h n of None \<Rightarrow> v | Some w \<Rightarrow> HeaderValue_append w v)
       else Headers_get h x)" for x
    using fields.get_append [OF assms(1) h2 assms(3), of x] by (simp add: assms(2))
  moreover have "Headers_insert h n s = Ok (Headers_get h n, AList.update k v h)"
    by (simp add: Headers_insert_def Headers_get_def assms(2,3))
  moreover have "Headers_get (AList.update k v h) x =
      (if HeaderName_try_from x = Ok k then Some v else Headers_get h x)" for x
    by (auto simp: Headers_get_def update_conv' split: outcome.split)
  moreover have "Headers_get (snd (Headers_remove h n)) x =
      (if HeaderName_try_from x = Ok k then None else Headers_get h x)" for x
    by (auto simp: Headers_get_def Headers_remove_def assms(2) delete_conv' split: outcome.split)
  ultimately show ?thesis using h2 by blast
qed

theorem Headers_lookup_witness:
  "\<exists>h2. Headers_append Headers_new ''Foo'' ''a'' = Ok h2 \<and>
     Headers_get h2 ''foo'' = Some \<lparr>hv_inner = [into_bytes ''a''], hv_is_sensitive = False\<rparr>"
proof -
  have "HeaderName_try_from ''Foo'' = Ok ''foo''" "HeaderName_try_from ''foo'' = Ok ''foo''"
    by (simp_all add: HeaderName_try_from_eq into_bytes_def byte_of_char_def header_char_def
        HEADER_CHARS_def from_utf8_unchecked_def char_of_byte_def char_of_def bit_0)
  moreover have "HeaderValue_try_from ''a'' = Ok \<lparr>hv_inner = [into_bytes ''a''], hv_is_sensitive = False\<rparr>"
    by (simp add: HeaderValue_try_from_eq into_bytes_def byte_of_char_def HeaderValue_is_valid_def)
  moreover have "Headers_get Headers_new ''Foo'' = None"
    by (simp add: Headers_get_def Headers_new_def split: outcome.split)
  ultimately show ?thesis
    using Headers_lookup [OF Headers_ok_new, of "''Foo''" "''foo''" "''a''"] by fastforce
qed

end
