(* ===== verification/Hpack_Table.thy ===== *)
theory Hpack_Table
  imports Interfaces
begin

text \<open>
  The HPACK tables (\<^verbatim>\<open>ylong_http/src/h2/hpack/table.rs\<close>): the static table of RFC 7541 as the source
  writes it out, the dynamic table with its eviction, and the searcher that joins them into one
  index space.
\<close>

section \<open>Header names\<close>

datatype Header = Authority | Method | Path | Scheme | Status | Other string

fun Header_len :: "Header \<Rightarrow> nat" where
  "Header_len Authority = 10"
| "Header_len Method = 7"
| "Header_len Path = 5"
| "Header_len Scheme = 7"
| "Header_len Status = 7"
| "Header_len (Other s) = length s"

fun Header_into_string :: "Header \<Rightarrow> string" where
  "Header_into_string Authority = '':authority''"
| "Header_into_string Method = '':method''"
| "Header_into_string Path = '':path''"
| "Header_into_string Scheme = '':scheme''"
| "Header_into_string Status = '':status''"
| "Header_into_string (Other s) = s"

lemma length_Header_into_string: "length (Header_into_string h) = Header_len h"
  by (cases h) simp_all

section \<open>Static table\<close>

datatype TableIndex = TI_Header nat | TI_HeaderName nat

definition StaticTable_header_name :: "nat \<Rightarrow> Header option" where
  "StaticTable_header_name index =
     (if index = 1 then Some Authority
      else if 2 \<le> index \<and> index \<le> 3 then Some Method
      else if 4 \<le> index \<and> index \<le> 5 then Some Path
      else if 6 \<le> index \<and> index \<le> 7 then Some Scheme
      else if 8 \<le> index \<and> index \<le> 14 then Some Status
      else if index = 15 then Some (Other ''accept-charset'')
      else if index = 16 then Some (Other ''accept-encoding'')
      else if index = 17 then Some (Other ''accept-language'')
      else if index = 18 then Some (Other ''accept-ranges'')
      else if index = 19 then Some (Other ''accept'')
      else if index = 20 then Some (Other ''access-control-allow-origin'')
      else if index = 21 then Some (Other ''age'')
      else if index = 22 then Some (Other ''allow'')
      else if index = 23 then Some (Other ''authorization'')
      else if index = 24 then Some (Other ''cache-control'')
      else if index = 25 then Some (Other ''content-disposition'')
      else if index = 26 then Some (Other ''content-encoding'')
      else if index = 27 then Some (Other ''content-language'')
      else if index = 28 then Some (Other ''content-length'')
      else if index = 29 then Some (Other ''content-location'')
      else if index = 30 then Some (Other ''content-range'')
      else if index = 31 then Some (Other ''content-type'')
      else if index = 32 then Some (Other ''cookie'')
      else if index = 33 then Some (Other ''date'')
      else if index = 34 then Some (Other ''etag'')
      else if index = 35 then Some (Other ''expect'')
      else if index = 36 then Some (Other ''expires'')
      else if index = 37 then Some (Other ''from'')
      else if index = 38 then Some (Other ''host'')
      else if index = 39 then Some (Other ''if-match'')
      else if index = 40 then Some (Other ''if-modified-since'')
      else if index = 41 then Some (Other ''if-none-match'')
      else if index = 42 then Some (Other ''if-range'')
      else if index = 43 then Some (Other ''if-unmodified-since'')
      else if index = 44 then Some (Other ''last-modified'')
      else if index = 45 then Some (Other ''link'')
      else if index = 46 then Some (Other ''location'')
      else if index = 47 then Some (Other ''max-forwards'')
      else if index = 48 then Some (Other ''proxy-authenticate'')
      else if index = 49 then Some (Other ''proxy-authorization'')
      else if index = 50 then Some (Other ''range'')
      else if index = 51 then Some (Other ''referer'')
      else if index = 52 then Some (Other ''refresh'')
      else if index = 53 then Some (Other ''retry-after'')
      else if index = 54 then Some (Other ''server'')
      else if index = 55 then Some (Other ''set-cookie'')
      else if index = 56 then Some (Other ''strict-transport-security'')
      else if index = 57 then Some (Other ''transfer-encoding'')
      else if index = 58 then Some (Other ''user-agent'')
      else if index = 59 then Some (Other ''vary'')
      else if index = 60 then Some (Other ''via'')
      else if index = 61 then Some (Other ''www-authenticate'')
      else None)"

definition StaticTable_header :: "nat \<Rightarrow> (Header \<times> string) option" where
  "StaticTable_header index =
     (if index = 2 then Some (Method, ''GET'')
      else if index = 3 then Some (Method, ''POST'')
      else if index = 4 then Some (Path, ''/'')
      else if index = 5 then Some (Path, ''/index.html'')
      else if index = 6 then Some (Scheme, ''http'')
      else if index = 7 then Some (Scheme, ''https'')
      else if index = 8 then Some (Status, ''200'')
      else if index = 9 then Some (Status, ''204'')
      else if index = 10 then Some (Status, ''206'')
      else if index = 11 then Some (Status, ''304'')
      else if index = 12 then Some (Status, ''400'')
      else if index = 13 then Some (Status, ''404'')
      else if index = 14 then Some (Status, ''500'')
      else if index = 16 then Some (Other ''accept-encoding'', ''gzip, deflate'')
      else None)"

definition StaticTable_index_headers :: "string \<Rightarrow> string \<Rightarrow> TableIndex option" where
  "StaticTable_index_headers key value =
     (if key = ''accept-charset'' then Some (TI_HeaderName 15)
      else if key = ''accept-encoding'' \<and> value = ''gzip, deflate'' then Some (TI_Header 16)
      else if key = ''accept-encoding'' then Some (TI_HeaderName 16)
      else if key = ''accept-language'' then Some (TI_HeaderName 17)
      else if key = ''accept-ranges'' then Some (TI_HeaderName 18)
      else if key = ''accept'' then Some (TI_HeaderName 19)
      else if key = ''access-control-allow-origin'' then Some (TI_HeaderName 20)
      else if key = ''age'' then Some (TI_HeaderName 21)
      else if key = ''allow'' then Some (TI_HeaderName 22)
      else if key = ''authorization'' then Some (TI_HeaderName 23)
      else if key = ''cache-control'' then Some (TI_HeaderName 24)
      else if key = ''content-disposition'' then Some (TI_HeaderName 25)
      else if key = ''content-encoding'' then Some (TI_HeaderName 26)
      else if key = ''content-language'' then Some (TI_HeaderName 27)
      else if key = ''content-length'' then Some (TI_HeaderName 28)
      else if key = ''content-location'' then Some (TI_HeaderName 29)
      else if key = ''content-range'' then Some (TI_HeaderName 30)
      else if key = ''content-type'' then Some (TI_HeaderName 31)
      else if key = ''cookie'' then Some (TI_HeaderName 32)
      else if key = ''date'' then Some (TI_HeaderName 33)
      else if key = ''etag'' then Some (TI_HeaderName 34)
      else if key = ''expect'' then Some (TI_HeaderName 35)
      else if key = ''expires'' then Some (TI_HeaderName 36)
      else if key = ''from'' then Some (TI_HeaderName 37)
      else if key = ''host'' then Some (TI_HeaderName 38)
      else if key = ''if-match'' then Some (TI_HeaderName 39)
      else if key = ''if-modified-since'' then Some (TI_HeaderName 40)
      else if key = ''if-none-match'' then Some (TI_HeaderName 41)
      else if key = ''if-range'' then Some (TI_HeaderName 42)
      else if key = ''if-unmodified-since'' then Some (TI_HeaderName 43)
      else if key = ''last-modified'' then Some (TI_HeaderName 44)
      else if key = ''link'' then Some (TI_HeaderName 45)
      else if key = ''location'' then Some (TI_HeaderName 46)
      else if key = ''max-forwards'' then Some (TI_HeaderName 47)
      else if key = ''proxy-authenticate'' then Some (TI_HeaderName 48)
      else if key = ''proxy-authorization'' then Some (TI_HeaderName 49)
      else if key = ''range'' then Some (TI_HeaderName 50)
      else if key = ''referer'' then Some (TI_HeaderName 51)
      else if key = ''refresh'' then Some (TI_HeaderName 52)
      else if key = ''retry-after'' then Some (TI_HeaderName 53)
      else if key = ''server'' then Some (TI_HeaderName 54)
      else if key = ''set-cookie'' then Some (TI_HeaderName 55)
      else if key = ''strict-transport-security'' then Some (TI_HeaderName 56)
      else if key = ''transfer-encoding'' then Some (TI_HeaderName 57)
      else if key = ''user-agent'' then Some (TI_HeaderName 58)
      else if key = ''vary'' then Some (TI_HeaderName 59)
      else if key = ''via'' then Some (TI_HeaderName 60)
      else if key = ''www-authenticate'' then Some (TI_HeaderName 61)
      else None)"

fun StaticTable_index :: "Header \<Rightarrow> string \<Rightarrow> TableIndex option" where
  "StaticTable_index Authority value =
     (Some (TI_HeaderName 1))"
| "StaticTable_index Method value =
     (if value = ''GET'' then Some (TI_Header 2)
      else if value = ''POST'' then Some (TI_Header 3)
      else Some (TI_HeaderName 2))"
| "StaticTable_index Path value =
     (if value = ''/'' then Some (TI_Header 4)
      else if value = ''/index.html'' then Some (TI_Header 5)
      else Some (TI_HeaderName 4))"
| "StaticTable_index Scheme value =
     (if value = ''http'' then Some (TI_Header 6)
      else if value = ''https'' then Some (TI_Header 7)
      else Some (TI_HeaderName 6))"
| "StaticTable_index Status value =
     (if value = ''200'' then Some (TI_Header 8)
      else if value = ''204'' then Some (TI_Header 9)
      else if value = ''206'' then Some (TI_Header 10)
      else if value = ''304'' then Some (TI_Header 11)
      else if value = ''400'' then Some (TI_Header 12)
      else if value = ''404'' then Some (TI_Header 13)
      else if value = ''500'' then Some (TI_Header 14)
      else Some (TI_HeaderName 8))"
| "StaticTable_index (Other s) value = StaticTable_index_headers s value"

section \<open>Dynamic table\<close>

record DynamicTable =
  dt_queue :: "(Header \<times> string) list"
  dt_curr_size :: nat
  dt_max_size :: nat

definition DynamicTable_with_max_size :: "nat \<Rightarrow> DynamicTable" where
  "DynamicTable_with_max_size max_size = \<lparr>dt_queue = [], dt_curr_size = 0, dt_max_size = max_size\<rparr>"

definition DynamicTable_header_name :: "DynamicTable \<Rightarrow> nat \<Rightarrow> Header option" where
  "DynamicTable_header_name t index = map_option fst (get_nth (dt_queue t) index)"

definition DynamicTable_header :: "DynamicTable \<Rightarrow> nat \<Rightarrow> (Header \<times> string) option" where
  "DynamicTable_header t index = get_nth (dt_queue t) index"

text \<open>
  Eviction pops from the back until the table fits. Sizes are \<^verbatim>\<open>usize\<close>; the invariant below says
  that the subtraction never goes below zero.
\<close>

function DynamicTable_fit_size :: "DynamicTable \<Rightarrow> DynamicTable" where
  "DynamicTable_fit_size t =
     (if dt_curr_size t > dt_max_size t \<and> dt_queue t \<noteq> [] then
        let (key, string) = last (dt_queue t) in
        DynamicTable_fit_size
          (t\<lparr>dt_queue := butlast (dt_queue t),
             dt_curr_size := dt_curr_size t - (Header_len key + length string + 32)\<rparr>)
      else t)"
  by auto
termination by (relation "measure (\<lambda>t. length (dt_queue t))") auto

declare DynamicTable_fit_size.simps [simp del]

definition DynamicTable_update :: "DynamicTable \<Rightarrow> Header \<Rightarrow> string \<Rightarrow> DynamicTable" where
  "DynamicTable_update t header value =
     DynamicTable_fit_size
       (t\<lparr>dt_curr_size := dt_curr_size t + (Header_len header + length value + 32),
          dt_queue := (header, value) # dt_queue t\<rparr>)"

definition DynamicTable_update_size :: "DynamicTable \<Rightarrow> nat \<Rightarrow> DynamicTable" where
  "DynamicTable_update_size t max_size = DynamicTable_fit_size (t\<lparr>dt_max_size := max_size\<rparr>)"

text \<open>The search: the first full match, otherwise the first match of the name.\<close>

fun DynamicTable_index_loop ::
  "nat \<Rightarrow> (Header \<times> string) list \<Rightarrow> Header \<Rightarrow> string \<Rightarrow> TableIndex option \<Rightarrow> TableIndex option" where
  "DynamicTable_index_loop n [] header value index = index"
| "DynamicTable_index_loop n ((h, v) # queue) header value index =
     (if header = h \<and> value = v then Some (TI_Header n)
      else if header = h \<and> index = None
        then DynamicTable_index_loop (Suc n) queue header value (Some (TI_HeaderName n))
      else DynamicTable_index_loop (Suc n) queue header value index)"

definition DynamicTable_index :: "DynamicTable \<Rightarrow> Header \<Rightarrow> string \<Rightarrow> TableIndex option" where
  "DynamicTable_index t header value = DynamicTable_index_loop 0 (dt_queue t) header value None"

section \<open>Searcher\<close>

definition TableSearcher_search_header_name :: "DynamicTable \<Rightarrow> nat \<Rightarrow> Header option" where
  "TableSearcher_search_header_name dynamic index =
     (if index \<le> 61 then StaticTable_header_name index
      else DynamicTable_header_name dynamic (index - 62))"

definition TableSearcher_search_header :: "DynamicTable \<Rightarrow> nat \<Rightarrow> (Header \<times> string) option" where
  "TableSearcher_search_header dynamic index =
     (if index \<le> 61 then StaticTable_header index else DynamicTable_header dynamic (index - 62))"

definition TableSearcher_index :: "DynamicTable \<Rightarrow> Header \<Rightarrow> string \<Rightarrow> TableIndex option" where
  "TableSearcher_index dynamic header value =
     (case (StaticTable_index header value, DynamicTable_index dynamic header value) of
        (Some (TI_Header i), _) \<Rightarrow> Some (TI_Header i)
      | (_, Some (TI_Header i)) \<Rightarrow> Some (TI_Header (i + 62))
      | (Some (TI_HeaderName i), _) \<Rightarrow> Some (TI_HeaderName i)
      | (_, Some (TI_HeaderName i)) \<Rightarrow> Some (TI_Header (i + 62))
      | _ \<Rightarrow> None)"

section \<open>Eviction\<close>

definition entry_size :: "Header \<times> string \<Rightarrow> nat" where
  "entry_size e = (case e of (h, v) \<Rightarrow> Header_len h + length v + 32)"

definition table_size :: "(Header \<times> string) list \<Rightarrow> nat" where
  "table_size q = sum_list (map entry_size q)"

lemma table_size_simps [simp]:
  "table_size [] = 0" "table_size (e # q) = entry_size e + table_size q"
  "table_size (q @ q') = table_size q + table_size q'"
  by (simp_all add: table_size_def)

text \<open>The specification of eviction: the newest entries, as many as fit.\<close>

fun fitting :: "nat \<Rightarrow> (Header \<times> string) list \<Rightarrow> (Header \<times> string) list" where
  "fitting m [] = []"
| "fitting m (e # q) = (if entry_size e \<le> m then e # fitting (m - entry_size e) q else [])"

lemma fitting_all: "table_size q \<le> m \<Longrightarrow> fitting m q = q"
  by (induction q arbitrary: m) auto

lemma fitting_butlast: "m < table_size (q @ [e]) \<Longrightarrow> fitting m (q @ [e]) = fitting m q"
  by (induction q arbitrary: m) auto

lemma fitting_size: "table_size (fitting m q) \<le> m"
  by (induction m q rule: fitting.induct) auto

lemma fitting_prefix: "prefix (fitting m q) q"
  by (induction m q rule: fitting.induct) auto

lemma fitting_longest: "prefix p q \<Longrightarrow> table_size p \<le> m \<Longrightarrow> prefix p (fitting m q)"
  by (induction m q arbitrary: p rule: fitting.induct) (auto simp: prefix_Cons)

text \<open>The table's invariant: the size it keeps is the size it has, and it is within the limit.\<close>

definition dt_sized :: "DynamicTable \<Rightarrow> bool" where
  "dt_sized t \<longleftrightarrow> dt_curr_size t = table_size (dt_queue t)"

definition dt_ok :: "DynamicTable \<Rightarrow> bool" where
  "dt_ok t \<longleftrightarrow> dt_sized t \<and> dt_curr_size t \<le> dt_max_size t"

lemma fit_size_eq:
  "dt_sized t \<Longrightarrow> DynamicTable_fit_size t =
     (let q = fitting (dt_max_size t) (dt_queue t) in t\<lparr>dt_queue := q, dt_curr_size := table_size q\<rparr>)"
proof (induction t rule: DynamicTable_fit_size.induct)
  case (1 t)
  show ?case
  proof (cases "dt_curr_size t > dt_max_size t \<and> dt_queue t \<noteq> []")
    case True
    then obtain q k v where q: "dt_queue t = q @ [(k, v)]" by (metis rev_exhaust surj_pair)
    let ?t = "t\<lparr>dt_queue := q, dt_curr_size := dt_curr_size t - (Header_len k + length v + 32)\<rparr>"
    have "dt_sized ?t" using "1.prems" by (simp add: dt_sized_def q entry_size_def)
    then have "DynamicTable_fit_size ?t = (let p = fitting (dt_max_size t) q in
        t\<lparr>dt_queue := p, dt_curr_size := table_size p\<rparr>)"
      using "1.IH" [OF True refl, of k v] True by (simp add: q Let_def)
    moreover have "fitting (dt_max_size t) (q @ [(k, v)]) = fitting (dt_max_size t) q"
      using True "1.prems" by (intro fitting_butlast) (simp add: dt_sized_def q)
    ultimately show ?thesis using True by (subst DynamicTable_fit_size.simps) (simp add: q)
  next
    case False
    then have "fitting (dt_max_size t) (dt_queue t) = dt_queue t"
      using "1.prems" by (auto simp: dt_sized_def intro: fitting_all)
    with False "1.prems" show ?thesis
      by (subst DynamicTable_fit_size.simps) (auto simp: dt_sized_def)
  qed
qed

lemma fit_size_ok: "dt_sized t \<Longrightarrow> dt_ok (DynamicTable_fit_size t)"
  by (simp add: fit_size_eq dt_ok_def dt_sized_def fitting_size Let_def)

lemma with_max_size_ok [simp]: "dt_ok (DynamicTable_with_max_size m)"
  by (simp add: DynamicTable_with_max_size_def dt_ok_def dt_sized_def)

lemma update_queue:
  assumes "dt_ok t"
  shows "dt_queue (DynamicTable_update t h v) = fitting (dt_max_size t) ((h, v) # dt_queue t)"
    and "dt_max_size (DynamicTable_update t h v) = dt_max_size t"
    and "dt_ok (DynamicTable_update t h v)"
proof -
  let ?t = "t\<lparr>dt_curr_size := dt_curr_size t + (Header_len h + length v + 32),
    dt_queue := (h, v) # dt_queue t\<rparr>"
  have sized: "dt_sized ?t" using assms by (simp add: dt_ok_def dt_sized_def entry_size_def)
  then show "dt_queue (DynamicTable_update t h v) = fitting (dt_max_size t) ((h, v) # dt_queue t)"
    "dt_max_size (DynamicTable_update t h v) = dt_max_size t"
    by (simp_all add: DynamicTable_update_def fit_size_eq Let_def del: fitting.simps)
  from fit_size_ok [OF sized] show "dt_ok (DynamicTable_update t h v)"
    by (simp add: DynamicTable_update_def)
qed

lemma update_size_queue:
  assumes "dt_ok t"
  shows "dt_queue (DynamicTable_update_size t m) = fitting m (dt_queue t)"
    and "dt_max_size (DynamicTable_update_size t m) = m"
    and "dt_ok (DynamicTable_update_size t m)"
proof -
  have sized: "dt_sized (t\<lparr>dt_max_size := m\<rparr>)" using assms by (simp add: dt_ok_def dt_sized_def)
  then show "dt_queue (DynamicTable_update_size t m) = fitting m (dt_queue t)"
    "dt_max_size (DynamicTable_update_size t m) = m"
    by (simp_all add: DynamicTable_update_size_def fit_size_eq Let_def)
  from fit_size_ok [OF sized] show "dt_ok (DynamicTable_update_size t m)"
    by (simp add: DynamicTable_update_size_def)
qed

section \<open>Searching and looking up\<close>

text \<open>
  What an encoder and a decoder with the same table rely on: the index found for a field leads back
  to the field, or to its name.
\<close>

fun ti_index :: "TableIndex \<Rightarrow> nat" where
  "ti_index (TI_Header i) = i"
| "ti_index (TI_HeaderName i) = i"

locale indexed_table =
  fixes index :: "'t \<Rightarrow> Header \<Rightarrow> string \<Rightarrow> TableIndex option"
    and header :: "'t \<Rightarrow> nat \<Rightarrow> (Header \<times> string) option"
    and header_name :: "'t \<Rightarrow> nat \<Rightarrow> Header option"
  assumes index_header: "index t h v = Some (TI_Header i) \<Longrightarrow> header t i = Some (h, v)"
    and index_name: "index t h v = Some (TI_HeaderName i) \<Longrightarrow>
      header_name t i = Some h \<and> header t i \<noteq> Some (h, v)"
    and header_name_of_header: "header t i = Some (h, v) \<Longrightarrow> header_name t i = Some h"
begin

lemma index_leads_to_name: "index t h v = Some x \<Longrightarrow> header_name t (ti_index x) = Some h"
  by (cases x) (auto dest: index_header index_name header_name_of_header)

end

lemma StaticTable_index_of_header:
  "StaticTable_header i = Some (h, v) \<Longrightarrow> StaticTable_index h v = Some (TI_Header i)"
  unfolding StaticTable_header_def by (elim if_SomeE) (auto simp: StaticTable_index_headers_def)

lemma StaticTable_index_cases:
  assumes "StaticTable_index h v = Some x"
  shows "StaticTable_header_name (ti_index x) = Some h"
    and "x = TI_Header i \<Longrightarrow> StaticTable_header i = Some (h, v)"
proof -
  have "StaticTable_header_name (ti_index x) = Some h \<and>
      (\<forall>i. x = TI_Header i \<longrightarrow> StaticTable_header i = Some (h, v))"
  proof (cases "\<exists>s. h = Other s")
    case True
    then obtain s where s: "h = Other s" by blast
    with assms have "StaticTable_index_headers s v = Some x" by simp
    then show ?thesis
      unfolding StaticTable_index_headers_def s
      by (elim if_SomeE; clarify?; simp add: StaticTable_header_name_def StaticTable_header_def)
  next
    case False
    with assms show ?thesis
      by (cases "(h, v)" rule: StaticTable_index.cases)
        (auto split: if_splits, simp_all add: StaticTable_header_name_def StaticTable_header_def)
  qed
  then show "StaticTable_header_name (ti_index x) = Some h"
    "x = TI_Header i \<Longrightarrow> StaticTable_header i = Some (h, v)" by blast+
qed

interpretation static_table: indexed_table "\<lambda>_ :: unit. StaticTable_index"
  "\<lambda>_. StaticTable_header" "\<lambda>_. StaticTable_header_name"
proof
  fix h v i
  assume name: "StaticTable_index h v = Some (TI_HeaderName i)"
  then have "StaticTable_header i \<noteq> Some (h, v)" by (auto dest: StaticTable_index_of_header)
  with StaticTable_index_cases(1) [OF name]
  show "StaticTable_header_name i = Some h \<and> StaticTable_header i \<noteq> Some (h, v)" by simp
next
  fix h v i
  assume "StaticTable_header i = Some (h, v)"
  from StaticTable_index_cases(1) [OF StaticTable_index_of_header [OF this]]
  show "StaticTable_header_name i = Some h" by simp
qed (simp add: StaticTable_index_cases(2))

lemma index_loop_Header:
  "DynamicTable_index_loop n q h v acc = Some (TI_Header j) \<Longrightarrow> acc \<noteq> Some (TI_Header j) \<Longrightarrow>
   n \<le> j \<and> j - n < length q \<and> q ! (j - n) = (h, v)"
  by (induction n q h v acc rule: DynamicTable_index_loop.induct)
    (auto split: if_splits simp: nth_Cons' less_diff_conv2)

lemma index_loop_member:
  "(h, v) \<in> set q \<longleftrightarrow> (\<exists>j. DynamicTable_index_loop n q h v acc = Some (TI_Header j))"
  if "\<nexists>j. acc = Some (TI_Header j)"
  using that by (induction n q h v acc rule: DynamicTable_index_loop.induct) auto

lemma index_loop_keep:
  "(h, v) \<notin> set q \<Longrightarrow> DynamicTable_index_loop n q h v (Some a) = Some a"
  by (induction q arbitrary: n) (auto split: if_splits)

lemma index_loop_HeaderName:
  "DynamicTable_index_loop n q h v None = Some (TI_HeaderName j) \<Longrightarrow>
   n \<le> j \<and> j - n < length q \<and> fst (q ! (j - n)) = h \<and> (h, v) \<notin> set q"
proof (induction q arbitrary: n)
  case (Cons e q)
  have "(h, v) \<notin> set (e # q)"
    using index_loop_member [of None h v "e # q" n] Cons.prems by auto
  with Cons index_loop_keep [of h v q "Suc n"] show ?case
    by (cases e) (auto split: if_splits simp: nth_Cons' less_diff_conv2 dest!: Cons.IH)
qed simp

lemma index_loop_None: "DynamicTable_index_loop n q h v None = None \<longleftrightarrow> h \<notin> fst ` set q"
proof (induction q arbitrary: n)
  case (Cons e q)
  show ?case
  proof (cases "(h, v) \<in> set (e # q)")
    case True
    then have "\<exists>j. DynamicTable_index_loop n (e # q) h v None = Some (TI_Header j)"
      using index_loop_member [of None h v "e # q" n] by simp
    with True show ?thesis by force
  next
    case False
    with Cons.IH index_loop_keep [of h v q "Suc n"] show ?thesis by (cases e) auto
  qed
qed simp

interpretation dynamic_table: indexed_table DynamicTable_index DynamicTable_header DynamicTable_header_name
proof
  fix t h v i
  assume "DynamicTable_index t h v = Some (TI_Header i)"
  then show "DynamicTable_header t i = Some (h, v)"
    using index_loop_Header [of 0 "dt_queue t" h v None i]
    by (simp add: DynamicTable_index_def DynamicTable_header_def get_nth_def)
next
  fix t h v i
  assume "DynamicTable_index t h v = Some (TI_HeaderName i)"
  then show "DynamicTable_header_name t i = Some h \<and> DynamicTable_header t i \<noteq> Some (h, v)"
    using index_loop_HeaderName [of 0 "dt_queue t" h v i]
    by (auto simp: DynamicTable_index_def DynamicTable_header_def DynamicTable_header_name_def
        get_nth_def dest: nth_mem)
next
  fix t h v i
  assume "DynamicTable_header t i = Some (h, v)"
  then show "DynamicTable_header_name t i = Some h"
    by (simp add: DynamicTable_header_def DynamicTable_header_name_def)
qed

lemma DynamicTable_index_None: "DynamicTable_index t h v = None \<longleftrightarrow> h \<notin> fst ` set (dt_queue t)"
  by (simp add: DynamicTable_index_def index_loop_None)

lemma DynamicTable_index_member:
  "(h, v) \<in> set (dt_queue t) \<longleftrightarrow> (\<exists>i. DynamicTable_index t h v = Some (TI_Header i))"
  using index_loop_member [of None h v "dt_queue t" 0] by (simp add: DynamicTable_index_def)

text \<open>The static indices are those below 62.\<close>

lemma StaticTable_index_le: "StaticTable_index h v = Some x \<Longrightarrow> ti_index x \<le> 61"
proof (rule ccontr)
  assume "StaticTable_index h v = Some x" "\<not> ti_index x \<le> 61"
  with static_table.index_leads_to_name show False
    by (fastforce simp: StaticTable_header_name_def)
qed

lemma search_static:
  "i \<le> 61 \<Longrightarrow> TableSearcher_search_header t i = StaticTable_header i"
  "i \<le> 61 \<Longrightarrow> TableSearcher_search_header_name t i = StaticTable_header_name i"
  by (simp_all add: TableSearcher_search_header_def TableSearcher_search_header_name_def)

lemma search_dynamic:
  "TableSearcher_search_header t (i + 62) = DynamicTable_header t i"
  "TableSearcher_search_header_name t (i + 62) = DynamicTable_header_name t i"
  by (simp_all add: TableSearcher_search_header_def TableSearcher_search_header_name_def)

text \<open>The search for a field whose name the dynamic table does not hold under another value.\<close>

definition name_only_match :: "DynamicTable \<Rightarrow> Header \<Rightarrow> string \<Rightarrow> bool" where
  "name_only_match t h v \<longleftrightarrow>
     StaticTable_index h v = None \<and> h \<in> fst ` set (dt_queue t) \<and> (h, v) \<notin> set (dt_queue t)"

lemma TableSearcher_index_Header:
  assumes "TableSearcher_index t h v = Some (TI_Header i)" "\<not> name_only_match t h v"
  shows "TableSearcher_search_header t i = Some (h, v)"
proof (cases "StaticTable_index h v = Some (TI_Header i)")
  case True
  with StaticTable_index_le [OF True] static_table.index_header [of h v i] show ?thesis
    by (simp add: search_static)
next
  case False
  with assms obtain j where "i = j + 62" "DynamicTable_index t h v = Some (TI_Header j)"
    using DynamicTable_index_None [of t h v] DynamicTable_index_member [of h v t]
    by (auto simp: TableSearcher_index_def name_only_match_def split: option.splits TableIndex.splits)
  with dynamic_table.index_header show ?thesis by (simp add: search_dynamic)
qed

lemma TableSearcher_index_HeaderName:
  assumes "TableSearcher_index t h v = Some (TI_HeaderName i)"
  shows "TableSearcher_search_header_name t i = Some h" "StaticTable_index h v = Some (TI_HeaderName i)"
proof -
  from assms show static: "StaticTable_index h v = Some (TI_HeaderName i)"
    by (auto simp: TableSearcher_index_def split: option.splits TableIndex.splits)
  with StaticTable_index_le [OF static] static_table.index_name [of h v i]
  show "TableSearcher_search_header_name t i = Some h" by (simp add: search_static)
qed

lemma TableSearcher_index_None:
  "TableSearcher_index t h v = None \<longleftrightarrow> StaticTable_index h v = None \<and> h \<notin> fst ` set (dt_queue t)"
  using DynamicTable_index_None [of t h v]
  by (auto simp: TableSearcher_index_def split: option.splits TableIndex.splits)

lemma TableSearcher_name_only_match:
  assumes "name_only_match t h v"
  shows "\<exists>i v'. TableSearcher_index t h v = Some (TI_Header i) \<and>
    TableSearcher_search_header t i = Some (h, v') \<and> v' \<noteq> v"
proof -
  from assms obtain j where j: "DynamicTable_index t h v = Some (TI_HeaderName j)"
    using DynamicTable_index_None [of t h v] DynamicTable_index_member [of h v t]
    by (cases "DynamicTable_index t h v"; cases "the (DynamicTable_index t h v)")
      (auto simp: name_only_match_def)
  with assms have "TableSearcher_index t h v = Some (TI_Header (j + 62))"
    by (simp add: TableSearcher_index_def name_only_match_def)
  moreover from dynamic_table.index_name [OF j] obtain v' where
    "DynamicTable_header t j = Some (h, v')" "v' \<noteq> v"
    by (auto simp: DynamicTable_header_def DynamicTable_header_name_def)
  ultimately show ?thesis using search_dynamic(1) by metis
qed

lemma StaticTable_header_name_index:
  "StaticTable_header_name i = Some h \<Longrightarrow> StaticTable_index h v \<noteq> None"
  unfolding StaticTable_header_name_def
  by (elim if_SomeE; clarify?; simp add: StaticTable_index_headers_def)

lemma search_header_name_None:
  assumes "TableSearcher_index t h v = None"
  shows "TableSearcher_search_header_name t i \<noteq> Some h"
  using assms StaticTable_header_name_index [of i h v]
  by (auto simp: TableSearcher_index_None TableSearcher_search_header_name_def
      DynamicTable_header_name_def get_nth_Some_iff image_iff dest: nth_mem)

section \<open>Properties\<close>

text \<open>
  C33. Eviction: adding a field to a dynamic table, or changing its limit, leaves the newest entries,
  exactly as many as fit: the new queue is a prefix of the old one (with the field in front), its size
  is within the limit, and every other such prefix is shorter. The kept size stays the size of
  the entries, so that no subtraction underflows.
\<close>

theorem dynamic_table_eviction:
  assumes "dt_ok t"
  shows "dt_ok (DynamicTable_update t h v) \<and> dt_ok (DynamicTable_update_size t m) \<and>
    (\<forall>q. prefix q ((h, v) # dt_queue t) \<longrightarrow>
       (prefix q (dt_queue (DynamicTable_update t h v)) \<longleftrightarrow> table_size q \<le> dt_max_size t)) \<and>
    (\<forall>q. prefix q (dt_queue t) \<longrightarrow>
       (prefix q (dt_queue (DynamicTable_update_size t m)) \<longleftrightarrow> table_size q \<le> m)) \<and>
    prefix (dt_queue (DynamicTable_update t h v)) ((h, v) # dt_queue t) \<and>
    prefix (dt_queue (DynamicTable_update_size t m)) (dt_queue t)"
proof -
  have longest: "prefix q (fitting n p) \<longleftrightarrow> table_size q \<le> n" if "prefix q p" for q n p
    using fitting_longest [OF that] fitting_size [of n p] by (auto simp: prefix_def)
  show ?thesis
    using update_queue [OF assms] update_size_queue [OF assms] longest fitting_prefix by metis
qed

theorem dynamic_table_eviction_witness:
  "let t = DynamicTable_with_max_size 80 in
     dt_ok t \<and> dt_ok (DynamicTable_update t (Other ''abc'') ''x'') \<and>
     prefix [(Other ''abc'', ''x'')] (dt_queue (DynamicTable_update t (Other ''abc'') ''x''))"
proof -
  let ?t = "DynamicTable_with_max_size 80"
  have "prefix [(Other ''abc'', ''x'')] ((Other ''abc'', ''x'') # dt_queue ?t)"
    "table_size [(Other ''abc'', ''x'')] \<le> dt_max_size ?t"
    by (simp_all add: entry_size_def DynamicTable_with_max_size_def)
  with dynamic_table_eviction [OF with_max_size_ok, of 80 "Other ''abc''" "''x''" 0] show ?thesis
    by (simp add: Let_def)
qed

text \<open>
  C36. The searcher is sound except for names that only the dynamic table knows: an index for a
  whole field leads back to the field, an index for a name leads back to the name, and no index is
  given only when neither table has the name. The exception is a field whose name the static table
  lacks and the dynamic table holds with other values only: the searcher then returns a
  whole-field index whose entry has a different value.
\<close>

theorem TableSearcher_index_sound:
  "case TableSearcher_index t h v of
     Some (TI_Header i) \<Rightarrow> (\<exists>v'. TableSearcher_search_header t i = Some (h, v') \<and>
       (v' = v \<longleftrightarrow> \<not> name_only_match t h v))
   | Some (TI_HeaderName i) \<Rightarrow> TableSearcher_search_header_name t i = Some h
   | None \<Rightarrow> (\<forall>i. TableSearcher_search_header_name t i \<noteq> Some h)"
proof (cases "TableSearcher_index t h v")
  case None
  then show ?thesis by (simp add: search_header_name_None)
next
  case (Some x)
  then show ?thesis
  proof (cases x)
    case (TI_Header i)
    with Some show ?thesis
      using TableSearcher_index_Header [of t h v i] TableSearcher_name_only_match [of t h v] by auto
  qed (simp add: TableSearcher_index_HeaderName)
qed

text \<open>
  The exception occurs: after the field \<open>x: a\<close> has been entered, the search for \<open>x: b\<close> gives the
  whole-field index 62, under which the tables hold \<open>x: a\<close>.
\<close>

theorem TableSearcher_index_wrong_value:
  "let t = DynamicTable_update (DynamicTable_with_max_size 4096) (Other ''x'') ''a'' in
     TableSearcher_index t (Other ''x'') ''b'' = Some (TI_Header 62) \<and>
     TableSearcher_search_header t 62 = Some (Other ''x'', ''a'')"
proof -
  let ?t = "DynamicTable_update (DynamicTable_with_max_size 4096) (Other ''x'') ''a''"
  have "dt_queue ?t = [(Other ''x'', ''a'')]"
    using update_queue(1) [OF with_max_size_ok, of 4096 "Other ''x''" "''a''"]
    by (simp add: DynamicTable_with_max_size_def entry_size_def)
  then show ?thesis
    by (simp add: TableSearcher_index_def DynamicTable_index_def StaticTable_index_headers_def
        TableSearcher_search_header_def DynamicTable_header_def Let_def)
qed

end
