(* ===== verification/H2_Parts.thy ===== *)
theory H2_Parts
  imports H2_Error Headers Hpack_Table
begin

text \<open>
  Pseudo headers (\<^verbatim>\<open>ylong_http/src/pseudo.rs\<close>) and the contents of a header block
  (\<^verbatim>\<open>ylong_http/src/h2/parts.rs\<close>): the pseudo headers and the other fields, updated one decoded
  field at a time.
\<close>

section \<open>Pseudo headers\<close>

record PseudoHeaders =
  ph_authority :: "string option"
  ph_method :: "string option"
  ph_path :: "string option"
  ph_scheme :: "string option"
  ph_status :: "string option"

definition PseudoHeaders_new :: PseudoHeaders where
  "PseudoHeaders_new =
     \<lparr>ph_authority = None, ph_method = None, ph_path = None, ph_scheme = None, ph_status = None\<rparr>"

definition PseudoHeaders_is_empty :: "PseudoHeaders \<Rightarrow> bool" where
  "PseudoHeaders_is_empty p \<longleftrightarrow>
     ph_authority p = None \<and> ph_method p = None \<and> ph_path p = None \<and> ph_scheme p = None \<and>
     ph_status p = None"

definition PseudoHeaders_contains_authority :: "PseudoHeaders \<Rightarrow> bool" where
  "PseudoHeaders_contains_authority p \<longleftrightarrow> ph_authority p \<noteq> None"

definition PseudoHeaders_set_authority :: "PseudoHeaders \<Rightarrow> string option \<Rightarrow> PseudoHeaders" where
  "PseudoHeaders_set_authority p authority = p\<lparr>ph_authority := authority\<rparr>"

definition PseudoHeaders_take_authority :: "PseudoHeaders \<Rightarrow> string option \<times> PseudoHeaders" where
  "PseudoHeaders_take_authority p = (ph_authority p, p\<lparr>ph_authority := None\<rparr>)"

definition PseudoHeaders_contains_method :: "PseudoHeaders \<Rightarrow> bool" where
  "PseudoHeaders_contains_method p \<longleftrightarrow> ph_method p \<noteq> None"

definition PseudoHeaders_set_method :: "PseudoHeaders \<Rightarrow> string option \<Rightarrow> PseudoHeaders" where
  "PseudoHeaders_set_method p mthd = p\<lparr>ph_method := mthd\<rparr>"

definition PseudoHeaders_take_method :: "PseudoHeaders \<Rightarrow> string option \<times> PseudoHeaders" where
  "PseudoHeaders_take_method p = (ph_method p, p\<lparr>ph_method := None\<rparr>)"

definition PseudoHeaders_contains_path :: "PseudoHeaders \<Rightarrow> bool" where
  "PseudoHeaders_contains_path p \<longleftrightarrow> ph_path p \<noteq> None"

definition PseudoHeaders_set_path :: "PseudoHeaders \<Rightarrow> string option \<Rightarrow> PseudoHeaders" where
  "PseudoHeaders_set_path p path = p\<lparr>ph_path := path\<rparr>"

definition PseudoHeaders_take_path :: "PseudoHeaders \<Rightarrow> string option \<times> PseudoHeaders" where
  "PseudoHeaders_take_path p = (ph_path p, p\<lparr>ph_path := None\<rparr>)"

definition PseudoHeaders_contains_scheme :: "PseudoHeaders \<Rightarrow> bool" where
  "PseudoHeaders_contains_scheme p \<longleftrightarrow> ph_scheme p \<noteq> None"

definition PseudoHeaders_set_scheme :: "PseudoHeaders \<Rightarrow> string option \<Rightarrow> PseudoHeaders" where
  "PseudoHeaders_set_scheme p scheme = p\<lparr>ph_scheme := scheme\<rparr>"

definition PseudoHeaders_take_scheme :: "PseudoHeaders \<Rightarrow> string option \<times> PseudoHeaders" where
  "PseudoHeaders_take_scheme p = (ph_scheme p, p\<lparr>ph_scheme := None\<rparr>)"

definition PseudoHeaders_contains_status :: "PseudoHeaders \<Rightarrow> bool" where
  "PseudoHeaders_contains_status p \<longleftrightarrow> ph_status p \<noteq> None"

definition PseudoHeaders_set_status :: "PseudoHeaders \<Rightarrow> string option \<Rightarrow> PseudoHeaders" where
  "PseudoHeaders_set_status p status = p\<lparr>ph_status := status\<rparr>"

definition PseudoHeaders_take_status :: "PseudoHeaders \<Rightarrow> string option \<times> PseudoHeaders" where
  "PseudoHeaders_take_status p = (ph_status p, p\<lparr>ph_status := None\<rparr>)"

lemmas PseudoHeaders_set_defs =
  PseudoHeaders_set_authority_def PseudoHeaders_set_method_def PseudoHeaders_set_path_def
  PseudoHeaders_set_scheme_def PseudoHeaders_set_status_def

lemmas PseudoHeaders_take_defs =
  PseudoHeaders_take_authority_def PseudoHeaders_take_method_def PseudoHeaders_take_path_def
  PseudoHeaders_take_scheme_def PseudoHeaders_take_status_def

section \<open>Parts\<close>

record Parts =
  parts_pseudo :: PseudoHeaders
  parts_map :: Headers

definition Parts_new :: Parts where
  "Parts_new = \<lparr>parts_pseudo = PseudoHeaders_new, parts_map = Headers_new\<rparr>"

definition Parts_set_pseudo :: "Parts \<Rightarrow> PseudoHeaders \<Rightarrow> Parts" where
  "Parts_set_pseudo p pseudo = p\<lparr>parts_pseudo := pseudo\<rparr>"

definition Parts_set_header_lines :: "Parts \<Rightarrow> Headers \<Rightarrow> Parts" where
  "Parts_set_header_lines p headers = p\<lparr>parts_map := headers\<rparr>"

definition Parts_is_empty :: "Parts \<Rightarrow> bool" where
  "Parts_is_empty p \<longleftrightarrow> PseudoHeaders_is_empty (parts_pseudo p) \<and> Headers_is_empty (parts_map p)"

text \<open>The result of \<open>append\<close> is unwrapped: a name or value it refuses is a panic.\<close>

definition Parts_update :: "Parts \<Rightarrow> Header \<Rightarrow> string \<Rightarrow> (Parts, H2Error) outcome" where
  "Parts_update p headers value =
     (case headers of
        Authority \<Rightarrow> Ok (p\<lparr>parts_pseudo := PseudoHeaders_set_authority (parts_pseudo p) (Some value)\<rparr>)
      | Method \<Rightarrow> Ok (p\<lparr>parts_pseudo := PseudoHeaders_set_method (parts_pseudo p) (Some value)\<rparr>)
      | Path \<Rightarrow> Ok (p\<lparr>parts_pseudo := PseudoHeaders_set_path (parts_pseudo p) (Some value)\<rparr>)
      | Scheme \<Rightarrow> Ok (p\<lparr>parts_pseudo := PseudoHeaders_set_scheme (parts_pseudo p) (Some value)\<rparr>)
      | Status \<Rightarrow> Ok (p\<lparr>parts_pseudo := PseudoHeaders_set_status (parts_pseudo p) (Some value)\<rparr>)
      | Other header \<Rightarrow>
          (case Headers_append (parts_map p) header value of
             Ok m \<Rightarrow> Ok (p\<lparr>parts_map := m\<rparr>) | _ \<Rightarrow> Panic))"

definition Parts_ok :: "Parts \<Rightarrow> bool" where
  "Parts_ok p \<longleftrightarrow> Headers_ok (parts_map p)"

text \<open>The fields that \<open>update\<close> takes without a panic.\<close>

fun field_ok :: "Header \<times> string \<Rightarrow> bool" where
  "field_ok (Other n, v) \<longleftrightarrow>
     (\<exists>k. HeaderName_try_from n = Ok k) \<and> list_all HeaderValue_is_valid (into_bytes v)"
| "field_ok (h, v) \<longleftrightarrow> True"

lemma Parts_ok_new [simp]: "Parts_ok Parts_new"
  by (simp add: Parts_ok_def Parts_new_def)

lemma Parts_update_cases:
  assumes "Parts_ok p"
  shows "if field_ok (h, v) then \<exists>p'. Parts_update p h v = Ok p' \<and> Parts_ok p' else Parts_update p h v = Panic"
proof (cases h)
  case (Other n)
  show ?thesis
  proof (cases "field_ok (h, v)")
    case True
    then obtain k w where "HeaderName_try_from n = Ok k" "HeaderValue_try_from v = Ok w"
      by (auto simp: Other HeaderValue_try_from_eq)
    from fields.append_ok [OF assms [unfolded Parts_ok_def] this] True show ?thesis
      by (auto simp: Other Parts_update_def Parts_ok_def)
  next
    case False
    then have "\<nexists>m. Headers_append (parts_map p) n v = Ok m"
      by (auto simp: Other Headers_append_def obind_eq_Ok HeaderValue_try_from_eq)
    with False show ?thesis by (auto simp: Other Parts_update_def split: outcome.split)
  qed
qed (use assms in \<open>simp_all add: Parts_update_def Parts_ok_def\<close>)

lemma Parts_update_Ok: "Parts_ok p \<Longrightarrow> Parts_update p h v = Ok p' \<Longrightarrow> Parts_ok p'"
  using Parts_update_cases [of p h v] by (auto split: if_splits)

lemma Parts_update_not_Err [simp]: "Parts_update p h v \<noteq> Err e"
  by (simp add: Parts_update_def split: Header.split outcome.split)

end
