(* ===== verification/H2_Frame.thy ===== *)
theory H2_Frame
  imports H2_Parts
begin

text \<open>
  The frames of HTTP/2 (\<^verbatim>\<open>h2/frame.rs\<close>). A structure of the source with a single field is the type
  of that field: \<^verbatim>\<open>FrameFlags\<close> is its octet, \<^verbatim>\<open>Headers\<close> its parts, \<^verbatim>\<open>Data\<close> its octets, \<^verbatim>\<open>RstStream\<close>
  its error code, \<^verbatim>\<open>Ping\<close> its eight octets, \<^verbatim>\<open>Settings\<close> the list of settings and \<^verbatim>\<open>WindowUpdate\<close> the
  increment.
\<close>

section \<open>Masks and types\<close>

definition END_STREAM_MASK :: u8 where "END_STREAM_MASK = 0x01"
definition RST_STREAM_MASK :: u8 where "RST_STREAM_MASK = 0x03"
definition END_HEADERS_MASK :: u8 where "END_HEADERS_MASK = 0x04"
definition PADDED_MASK :: u8 where "PADDED_MASK = 0x08"
definition HEADERS_PRIORITY_MASK :: u8 where "HEADERS_PRIORITY_MASK = 0x20"
definition ACK_MASK :: u8 where "ACK_MASK = 0x1"

lemmas mask_defs = END_STREAM_MASK_def RST_STREAM_MASK_def END_HEADERS_MASK_def PADDED_MASK_def
  HEADERS_PRIORITY_MASK_def ACK_MASK_def

type_synonym FrameFlags = u8

datatype FrameType =
    FT_Data | FT_Headers | FT_Priority | FT_RstStream | FT_Settings | FT_PushPromise
  | FT_Ping | FT_Goaway | FT_WindowUpdate | FT_Continuation

fun FrameType_as_u8 :: "FrameType \<Rightarrow> u8" where
  "FrameType_as_u8 FT_Data = 0x0"
| "FrameType_as_u8 FT_Headers = 0x1"
| "FrameType_as_u8 FT_Priority = 0x2"
| "FrameType_as_u8 FT_RstStream = 0x3"
| "FrameType_as_u8 FT_Settings = 0x4"
| "FrameType_as_u8 FT_PushPromise = 0x5"
| "FrameType_as_u8 FT_Ping = 0x6"
| "FrameType_as_u8 FT_Goaway = 0x7"
| "FrameType_as_u8 FT_WindowUpdate = 0x8"
| "FrameType_as_u8 FT_Continuation = 0x9"

datatype Setting =
    HeaderTableSize u32
  | EnablePush bool
  | MaxConcurrentStreams u32
  | InitialWindowSize u32
  | MaxFrameSize u32
  | MaxHeaderListSize u32

type_synonym Settings = "Setting list"

record Priority =
  pr_exclusive :: bool
  pr_stream_dependency :: u32
  pr_weight :: u8

record Goaway =
  ga_error_code :: u32
  ga_last_stream_id :: StreamId
  ga_debug_data :: bytes

record PushPromise =
  pp_promised_stream_id :: StreamId
  pp_parts :: Parts

datatype Payload =
    PL_Headers Parts
  | PL_Data bytes
  | PL_Priority Priority
  | PL_RstStream u32
  | PL_Ping bytes
  | PL_Settings Settings
  | PL_Goaway Goaway
  | PL_WindowUpdate u32
  | PL_PushPromise PushPromise

record Frame =
  fr_id :: StreamId
  fr_flags :: FrameFlags
  fr_payload :: Payload

definition Frame_new :: "StreamId \<Rightarrow> FrameFlags \<Rightarrow> Payload \<Rightarrow> Frame" where
  "Frame_new i flags payload = \<lparr>fr_id = i, fr_flags = flags, fr_payload = payload\<rparr>"

section \<open>Flags\<close>

definition FrameFlags_empty :: FrameFlags where
  "FrameFlags_empty = 0"

definition FrameFlags_is_end_stream :: "FrameFlags \<Rightarrow> bool" where
  "FrameFlags_is_end_stream f \<longleftrightarrow> f AND END_STREAM_MASK = END_STREAM_MASK"

definition FrameFlags_is_end_headers :: "FrameFlags \<Rightarrow> bool" where
  "FrameFlags_is_end_headers f \<longleftrightarrow> f AND END_HEADERS_MASK = END_HEADERS_MASK"

definition FrameFlags_is_padded :: "FrameFlags \<Rightarrow> bool" where
  "FrameFlags_is_padded f \<longleftrightarrow> f AND PADDED_MASK = PADDED_MASK"

definition FrameFlags_is_ack :: "FrameFlags \<Rightarrow> bool" where
  "FrameFlags_is_ack f \<longleftrightarrow> f AND ACK_MASK = ACK_MASK"

definition FrameFlags_set_end_stream :: "FrameFlags \<Rightarrow> bool \<Rightarrow> FrameFlags" where
  "FrameFlags_set_end_stream f end_stream =
     (if end_stream then f OR END_STREAM_MASK else f AND NOT END_STREAM_MASK)"

definition FrameFlags_set_end_headers :: "FrameFlags \<Rightarrow> bool \<Rightarrow> FrameFlags" where
  "FrameFlags_set_end_headers f end_headers =
     (if end_headers then f OR END_HEADERS_MASK else f AND NOT END_HEADERS_MASK)"

definition FrameFlags_set_padded :: "FrameFlags \<Rightarrow> bool \<Rightarrow> FrameFlags" where
  "FrameFlags_set_padded f padded = (if padded then f OR PADDED_MASK else f AND NOT PADDED_MASK)"

text \<open>Each mask is a single bit, so the flags are independent of each other.\<close>

lemma bit_masks:
  "bit END_STREAM_MASK n \<longleftrightarrow> n = 0" "bit ACK_MASK n \<longleftrightarrow> n = 0"
  "bit END_HEADERS_MASK n \<longleftrightarrow> n = 2" "bit PADDED_MASK n \<longleftrightarrow> n = 3"
proof -
  have *: "bit (2 ^ m :: u8) n \<longleftrightarrow> n = m" if "m < 8" for m
    using that by (auto simp: bit_exp_iff)
  show "bit END_STREAM_MASK n \<longleftrightarrow> n = 0" "bit ACK_MASK n \<longleftrightarrow> n = 0"
    "bit END_HEADERS_MASK n \<longleftrightarrow> n = 2" "bit PADDED_MASK n \<longleftrightarrow> n = 3"
    using * [of 0] * [of 2] * [of 3] by (simp_all add: mask_defs)
qed

lemma flag_bit:
  "FrameFlags_is_end_stream f = bit f 0" "FrameFlags_is_ack f = bit f 0"
  "FrameFlags_is_end_headers f = bit f 2" "FrameFlags_is_padded f = bit f 3"
proof -
  have "f AND m = m \<longleftrightarrow> (\<forall>n. bit m n \<longrightarrow> bit f n)" for m
  proof
    assume "f AND m = m"
    then show "\<forall>n. bit m n \<longrightarrow> bit f n" by (metis bit_and_iff)
  next
    assume "\<forall>n. bit m n \<longrightarrow> bit f n"
    then show "f AND m = m" by (intro bit_word_eqI) (auto simp: bit_and_iff)
  qed
  then show "FrameFlags_is_end_stream f = bit f 0" "FrameFlags_is_ack f = bit f 0"
    "FrameFlags_is_end_headers f = bit f 2" "FrameFlags_is_padded f = bit f 3"
    by (simp_all add: FrameFlags_is_end_stream_def FrameFlags_is_ack_def FrameFlags_is_end_headers_def
        FrameFlags_is_padded_def bit_masks)
qed

lemma bit_set_flag:
  "bit (FrameFlags_set_end_stream f b) n = (if n = 0 then b else bit f n)"
  "bit (FrameFlags_set_end_headers f b) n = (if n = 2 then b else bit f n)"
  "bit (FrameFlags_set_padded f b) n = (if n = 3 then b else bit f n)"
proof -
  have "bit f n \<Longrightarrow> n < 8" using bit_imp_le_length [of f n] by simp
  then show "bit (FrameFlags_set_end_stream f b) n = (if n = 0 then b else bit f n)"
    "bit (FrameFlags_set_end_headers f b) n = (if n = 2 then b else bit f n)"
    "bit (FrameFlags_set_padded f b) n = (if n = 3 then b else bit f n)"
    by (auto simp: FrameFlags_set_end_stream_def FrameFlags_set_end_headers_def FrameFlags_set_padded_def
        bit_masks bit_and_iff bit_or_iff bit_not_iff)
qed

text \<open>Setting a flag sets that flag and leaves the others alone.\<close>

lemma set_flag_get:
  "FrameFlags_is_end_stream (FrameFlags_set_end_stream f b) = b"
  "FrameFlags_is_end_headers (FrameFlags_set_end_headers f b) = b"
  "FrameFlags_is_padded (FrameFlags_set_padded f b) = b"
  "FrameFlags_is_end_stream (FrameFlags_set_end_headers f b) = FrameFlags_is_end_stream f"
  "FrameFlags_is_end_stream (FrameFlags_set_padded f b) = FrameFlags_is_end_stream f"
  "FrameFlags_is_end_headers (FrameFlags_set_end_stream f b) = FrameFlags_is_end_headers f"
  "FrameFlags_is_end_headers (FrameFlags_set_padded f b) = FrameFlags_is_end_headers f"
  "FrameFlags_is_padded (FrameFlags_set_end_stream f b) = FrameFlags_is_padded f"
  "FrameFlags_is_padded (FrameFlags_set_end_headers f b) = FrameFlags_is_padded f"
  by (simp_all add: flag_bit bit_set_flag)

section \<open>Payloads\<close>

fun Payload_as_headers :: "Payload \<Rightarrow> Parts option" where
  "Payload_as_headers (PL_Headers h) = Some h"
| "Payload_as_headers _ = None"

fun Payload_frame_type :: "Payload \<Rightarrow> FrameType" where
  "Payload_frame_type (PL_Headers _) = FT_Headers"
| "Payload_frame_type (PL_Data _) = FT_Data"
| "Payload_frame_type (PL_Priority _) = FT_Priority"
| "Payload_frame_type (PL_Ping _) = FT_Ping"
| "Payload_frame_type (PL_RstStream _) = FT_RstStream"
| "Payload_frame_type (PL_Settings _) = FT_Settings"
| "Payload_frame_type (PL_Goaway _) = FT_Goaway"
| "Payload_frame_type (PL_WindowUpdate _) = FT_WindowUpdate"
| "Payload_frame_type (PL_PushPromise _) = FT_PushPromise"

fun Setting_setting_identifier :: "Setting \<Rightarrow> u16" where
  "Setting_setting_identifier (HeaderTableSize _) = 0x01"
| "Setting_setting_identifier (EnablePush _) = 0x02"
| "Setting_setting_identifier (MaxConcurrentStreams _) = 0x03"
| "Setting_setting_identifier (InitialWindowSize _) = 0x04"
| "Setting_setting_identifier (MaxFrameSize _) = 0x05"
| "Setting_setting_identifier (MaxHeaderListSize _) = 0x06"

text \<open>The first setting with the same identifier is replaced, or the setting is pushed at the end.\<close>

fun Settings_update_setting :: "Settings \<Rightarrow> Setting \<Rightarrow> Settings" where
  "Settings_update_setting [] setting = [setting]"
| "Settings_update_setting (s # ss) setting =
     (if Setting_setting_identifier s = Setting_setting_identifier setting then setting # ss
      else s # Settings_update_setting ss setting)"

definition Settings_encoded_len :: "Settings \<Rightarrow> nat" where
  "Settings_encoded_len settings = length settings * 6"

definition Settings_ack :: Frame where
  "Settings_ack = Frame_new 0 0x1 (PL_Settings [])"

definition Goaway_new :: "u32 \<Rightarrow> StreamId \<Rightarrow> bytes \<Rightarrow> Goaway" where
  "Goaway_new code last_id data =
     \<lparr>ga_error_code = code, ga_last_stream_id = last_id, ga_debug_data = data\<rparr>"

definition Goaway_encoded_len :: "Goaway \<Rightarrow> nat" where
  "Goaway_encoded_len g = 8 + length (ga_debug_data g)"

definition Priority_new :: "bool \<Rightarrow> u32 \<Rightarrow> u8 \<Rightarrow> Priority" where
  "Priority_new exclusive dependency weight =
     \<lparr>pr_exclusive = exclusive, pr_stream_dependency = dependency, pr_weight = weight\<rparr>"

definition RstStream_error :: "u32 \<Rightarrow> u32 \<Rightarrow> (H2Error, H2Error) outcome" where
  "RstStream_error error_code i = obind (ErrorCode_try_from error_code) (\<lambda>c. Ok (StreamError i c))"

definition RstStream_is_no_error :: "u32 \<Rightarrow> bool" where
  "RstStream_is_no_error error_code \<longleftrightarrow> error_code = 0"

definition Ping_ack :: "bytes \<Rightarrow> Frame" where
  "Ping_ack ping = Frame_new 0 0x1 (PL_Ping ping)"

definition PushPromise_new :: "StreamId \<Rightarrow> Parts \<Rightarrow> PushPromise" where
  "PushPromise_new i parts = \<lparr>pp_promised_stream_id = i, pp_parts = parts\<rparr>"

text \<open>The builder of a settings payload collects the settings in the order of the calls.\<close>

type_synonym SettingsBuilder = Settings

definition SettingsBuilder_new :: SettingsBuilder where
  "SettingsBuilder_new = []"

definition SettingsBuilder_header_table_size :: "SettingsBuilder \<Rightarrow> u32 \<Rightarrow> SettingsBuilder" where
  "SettingsBuilder_header_table_size b n = b @ [HeaderTableSize n]"

definition SettingsBuilder_enable_push :: "SettingsBuilder \<Rightarrow> bool \<Rightarrow> SettingsBuilder" where
  "SettingsBuilder_enable_push b p = b @ [EnablePush p]"

definition SettingsBuilder_initial_window_size :: "SettingsBuilder \<Rightarrow> u32 \<Rightarrow> SettingsBuilder" where
  "SettingsBuilder_initial_window_size b n = b @ [InitialWindowSize n]"

definition SettingsBuilder_max_frame_size :: "SettingsBuilder \<Rightarrow> u32 \<Rightarrow> SettingsBuilder" where
  "SettingsBuilder_max_frame_size b n = b @ [MaxFrameSize n]"

definition SettingsBuilder_max_header_list_size :: "SettingsBuilder \<Rightarrow> u32 \<Rightarrow> SettingsBuilder" where
  "SettingsBuilder_max_header_list_size b n = b @ [MaxHeaderListSize n]"

definition SettingsBuilder_build :: "SettingsBuilder \<Rightarrow> Settings" where
  "SettingsBuilder_build b = b"

text \<open>
  A list of settings as a map from identifiers: \<open>update_setting\<close> is the update of that map, and keeps
  the identifiers distinct.
\<close>

definition settings_map :: "Settings \<Rightarrow> u16 \<rightharpoonup> Setting" where
  "settings_map ss = map_of (map (\<lambda>s. (Setting_setting_identifier s, s)) ss)"

lemma settings_map_update:
  "settings_map (Settings_update_setting ss s) = (settings_map ss)(Setting_setting_identifier s \<mapsto> s)"
  by (induction ss) (auto simp: settings_map_def fun_eq_iff)

lemma update_setting_identifiers:
  "set (map Setting_setting_identifier (Settings_update_setting ss s)) =
   insert (Setting_setting_identifier s) (set (map Setting_setting_identifier ss))"
  by (induction ss) auto

lemma update_setting_distinct:
  "distinct (map Setting_setting_identifier ss) \<Longrightarrow>
   distinct (map Setting_setting_identifier (Settings_update_setting ss s))"
  using update_setting_identifiers by (induction ss) (auto simp del: set_map)

end
