(* ===== verification/Huffman_Code.thy ===== *)
theory Huffman_Code
  imports Huffman_Consts
begin

text \<open>
  The prefix code behind the Huffman tables. \<open>huff_code\<close> reads the code of an octet off
  \<open>HUFFMAN_ENCODE\<close> and \<open>eos_code\<close> that of the end of the string; \<open>huff_tree\<close> is the binary
  tree of that code and \<open>state_path\<close> the bits a decoder state has read and not yet turned into
  an octet. The lemmas of this theory evaluate the tables once, entry by entry: the codes are the
  leaves of the tree and the states of the decoder are its inner nodes.
\<close>

section \<open>Bit strings and code trees\<close>

text \<open>The two bits of a bit string, for the long literals below.\<close>

abbreviation (input) tt :: bool where
  "tt \<equiv> True"

abbreviation (input) ff :: bool where
  "ff \<equiv> False"

definition word_bits :: "nat \<Rightarrow> 'a::len word \<Rightarrow> bool list" where
  "word_bits n w = map (bit w) (rev [0..<n])"

abbreviation byte_bits :: "u8 \<Rightarrow> bool list" where
  "byte_bits \<equiv> word_bits 8"

abbreviation nibble_bits :: "u8 \<Rightarrow> bool list" where
  "nibble_bits \<equiv> word_bits 4"

lemma length_word_bits [simp]: "length (word_bits n w) = n"
  by (simp add: word_bits_def)

definition huff_code :: "u8 \<Rightarrow> bool list" where
  "huff_code b = (let (n, c) = HUFFMAN_ENCODE ! unat b in word_bits (unat n) c)"

definition eos_code :: "bool list" where
  "eos_code = (let (n, c) = HUFFMAN_ENCODE ! 256 in word_bits (unat n) c)"

text \<open>A symbol is an octet, or \<open>None\<close> for the end of the string.\<close>

fun sym_code :: "u8 option \<Rightarrow> bool list" where
  "sym_code None = eos_code"
| "sym_code (Some b) = huff_code b"

datatype htree = HLeaf "u8 option" | HNode htree htree

fun walk :: "htree \<Rightarrow> bool list \<Rightarrow> htree option" where
  "walk t [] = Some t"
| "walk (HNode l r) (b # bs) = walk (if b then r else l) bs"
| "walk (HLeaf x) (b # bs) = None"

lemma walk_append: "walk t (xs @ ys) = Option.bind (walk t xs) (\<lambda>u. walk u ys)"
  by (induction t xs rule: walk.induct) simp_all

text \<open>The leaves with their paths, and the paths of the inner nodes, from left to right.\<close>

fun leaves :: "bool list \<Rightarrow> htree \<Rightarrow> (bool list \<times> u8 option) list" where
  "leaves p (HLeaf x) = [(p, x)]"
| "leaves p (HNode l r) = leaves (p @ [False]) l @ leaves (p @ [True]) r"

fun nodes :: "bool list \<Rightarrow> htree \<Rightarrow> bool list list" where
  "nodes p (HLeaf x) = []"
| "nodes p (HNode l r) = p # nodes (p @ [False]) l @ nodes (p @ [True]) r"

lemma leaves_walk: "(q, x) \<in> set (leaves p t) \<Longrightarrow> \<exists>bs. q = p @ bs \<and> walk t bs = Some (HLeaf x)"
proof (induction p t rule: leaves.induct)
  case (2 p l r)
  then consider bs where "q = (p @ [False]) @ bs" "walk l bs = Some (HLeaf x)"
    | bs where "q = (p @ [True]) @ bs" "walk r bs = Some (HLeaf x)"
    by auto
  then show ?case
  proof cases
    case (1 bs)
    then show ?thesis by (intro exI [of _ "False # bs"]) simp
  next
    case (2 bs)
    then show ?thesis by (intro exI [of _ "True # bs"]) simp
  qed
qed simp

lemma leaves_prefix: "(q, x) \<in> set (leaves p t) \<Longrightarrow> prefix p q"
  using leaves_walk by (fastforce simp: prefix_def)

lemma distinct_leaves: "distinct (map fst (leaves p t))"
proof (induction p t rule: leaves.induct)
  case (2 p l r)
  have "False" if "(q, x) \<in> set (leaves (p @ [False]) l)" "(q, y) \<in> set (leaves (p @ [True]) r)" for q x y
    using leaves_prefix [OF that(1)] leaves_prefix [OF that(2)] by (auto simp: prefix_def)
  with 2 show ?case by fastforce
qed simp

lemma nodes_walk:
  "q \<in> set (nodes p t) \<Longrightarrow> \<exists>bs l r. q = p @ bs \<and> walk t bs = Some (HNode l r)"
proof (induction p t rule: nodes.induct)
  case (2 p l r)
  then consider "q = p" | bs l' r' where "q = (p @ [False]) @ bs" "walk l bs = Some (HNode l' r')"
    | bs l' r' where "q = (p @ [True]) @ bs" "walk r bs = Some (HNode l' r')"
    by auto
  then show ?case
  proof cases
    case 1
    then show ?thesis by (intro exI [of _ "[]"]) simp
  next
    case (2 bs)
    then show ?thesis by (intro exI [of _ "False # bs"]) simp
  next
    case (3 bs)
    then show ?thesis by (intro exI [of _ "True # bs"]) simp
  qed
qed simp

lemma distinct_nodes: "distinct (nodes p t)"
proof (induction p t rule: nodes.induct)
  case (2 p l r)
  have "False" if "q \<in> set (nodes (p @ [False]) l)" "q \<in> set (nodes (p @ [True]) r)" for q
    using nodes_walk [OF that(1)] nodes_walk [OF that(2)] by auto
  moreover have "False" if "p \<in> set (nodes (p @ [b]) t)" for b t
    using nodes_walk [OF that] by auto
  ultimately show ?case using 2 by auto
qed simp

definition huff_tree :: htree where
  "huff_tree =
    (HNode (HNode (HNode (HNode (HNode (HLeaf
    (Some 48)) (HLeaf (Some 49))) (HNode (HLeaf (Some 50)) (HLeaf (Some 97)))) (HNode (HNode (HLeaf
    (Some 99)) (HLeaf (Some 101))) (HNode (HLeaf (Some 105)) (HLeaf (Some 111))))) (HNode (HNode
    (HNode (HLeaf (Some 115)) (HLeaf (Some 116))) (HNode (HNode (HLeaf (Some 32)) (HLeaf (Some 37)))
    (HNode (HLeaf (Some 45)) (HLeaf (Some 46))))) (HNode (HNode (HNode (HLeaf (Some 47)) (HLeaf
    (Some 51))) (HNode (HLeaf (Some 52)) (HLeaf (Some 53)))) (HNode (HNode (HLeaf (Some 54)) (HLeaf
    (Some 55))) (HNode (HLeaf (Some 56)) (HLeaf (Some 57))))))) (HNode (HNode (HNode (HNode (HNode
    (HLeaf (Some 61)) (HLeaf (Some 65))) (HNode (HLeaf (Some 95)) (HLeaf (Some 98)))) (HNode (HNode
    (HLeaf (Some 100)) (HLeaf (Some 102))) (HNode (HLeaf (Some 103)) (HLeaf (Some 104))))) (HNode
    (HNode (HNode (HLeaf (Some 108)) (HLeaf (Some 109))) (HNode (HLeaf (Some 110)) (HLeaf (Some
    112)))) (HNode (HNode (HLeaf (Some 114)) (HLeaf (Some 117))) (HNode (HNode (HLeaf (Some 58))
    (HLeaf (Some 66))) (HNode (HLeaf (Some 67)) (HLeaf (Some 68))))))) (HNode (HNode (HNode (HNode
    (HNode (HLeaf (Some 69)) (HLeaf (Some 70))) (HNode (HLeaf (Some 71)) (HLeaf (Some 72)))) (HNode
    (HNode (HLeaf (Some 73)) (HLeaf (Some 74))) (HNode (HLeaf (Some 75)) (HLeaf (Some 76))))) (HNode
    (HNode (HNode (HLeaf (Some 77)) (HLeaf (Some 78))) (HNode (HLeaf (Some 79)) (HLeaf (Some 80))))
    (HNode (HNode (HLeaf (Some 81)) (HLeaf (Some 82))) (HNode (HLeaf (Some 83)) (HLeaf (Some
    84)))))) (HNode (HNode (HNode (HNode (HLeaf (Some 85)) (HLeaf (Some 86))) (HNode (HLeaf (Some
    87)) (HLeaf (Some 89)))) (HNode (HNode (HLeaf (Some 106)) (HLeaf (Some 107))) (HNode (HLeaf
    (Some 113)) (HLeaf (Some 118))))) (HNode (HNode (HNode (HLeaf (Some 119)) (HLeaf (Some 120)))
    (HNode (HLeaf (Some 121)) (HLeaf (Some 122)))) (HNode (HNode (HNode (HLeaf (Some 38)) (HLeaf
    (Some 42))) (HNode (HLeaf (Some 44)) (HLeaf (Some 59)))) (HNode (HNode (HLeaf (Some 88)) (HLeaf
    (Some 90))) (HNode (HNode (HNode (HLeaf (Some 33)) (HLeaf (Some 34))) (HNode (HLeaf (Some 40))
    (HLeaf (Some 41)))) (HNode (HNode (HLeaf (Some 63)) (HNode (HLeaf (Some 39)) (HLeaf (Some 43))))
    (HNode (HNode (HLeaf (Some 124)) (HNode (HLeaf (Some 35)) (HLeaf (Some 62)))) (HNode (HNode
    (HNode (HLeaf (Some 0)) (HLeaf (Some 36))) (HNode (HLeaf (Some 64)) (HLeaf (Some 91)))) (HNode
    (HNode (HLeaf (Some 93)) (HLeaf (Some 126))) (HNode (HNode (HLeaf (Some 94)) (HLeaf (Some 125)))
    (HNode (HNode (HLeaf (Some 60)) (HLeaf (Some 96))) (HNode (HLeaf (Some 123)) (HNode (HNode
    (HNode (HNode (HLeaf (Some 92)) (HLeaf (Some 195))) (HNode (HLeaf (Some 208)) (HNode (HLeaf
    (Some 128)) (HLeaf (Some 130))))) (HNode (HNode (HNode (HLeaf (Some 131)) (HLeaf (Some 162)))
    (HNode (HLeaf (Some 184)) (HLeaf (Some 194)))) (HNode (HNode (HLeaf (Some 224)) (HLeaf (Some
    226))) (HNode (HNode (HLeaf (Some 153)) (HLeaf (Some 161))) (HNode (HLeaf (Some 167)) (HLeaf
    (Some 172))))))) (HNode (HNode (HNode (HNode (HNode (HLeaf (Some 176)) (HLeaf (Some 177)))
    (HNode (HLeaf (Some 179)) (HLeaf (Some 209)))) (HNode (HNode (HLeaf (Some 216)) (HLeaf (Some
    217))) (HNode (HLeaf (Some 227)) (HLeaf (Some 229))))) (HNode (HNode (HNode (HLeaf (Some 230))
    (HNode (HLeaf (Some 129)) (HLeaf (Some 132)))) (HNode (HNode (HLeaf (Some 133)) (HLeaf (Some
    134))) (HNode (HLeaf (Some 136)) (HLeaf (Some 146))))) (HNode (HNode (HNode (HLeaf (Some 154))
    (HLeaf (Some 156))) (HNode (HLeaf (Some 160)) (HLeaf (Some 163)))) (HNode (HNode (HLeaf (Some
    164)) (HLeaf (Some 169))) (HNode (HLeaf (Some 170)) (HLeaf (Some 173))))))) (HNode (HNode (HNode
    (HNode (HNode (HLeaf (Some 178)) (HLeaf (Some 181))) (HNode (HLeaf (Some 185)) (HLeaf (Some
    186)))) (HNode (HNode (HLeaf (Some 187)) (HLeaf (Some 189))) (HNode (HLeaf (Some 190)) (HLeaf
    (Some 196))))) (HNode (HNode (HNode (HLeaf (Some 198)) (HLeaf (Some 228))) (HNode (HLeaf (Some
    232)) (HLeaf (Some 233)))) (HNode (HNode (HNode (HLeaf (Some 1)) (HLeaf (Some 135))) (HNode
    (HLeaf (Some 137)) (HLeaf (Some 138)))) (HNode (HNode (HLeaf (Some 139)) (HLeaf (Some 140)))
    (HNode (HLeaf (Some 141)) (HLeaf (Some 143))))))) (HNode (HNode (HNode (HNode (HNode (HLeaf
    (Some 147)) (HLeaf (Some 149))) (HNode (HLeaf (Some 150)) (HLeaf (Some 151)))) (HNode (HNode
    (HLeaf (Some 152)) (HLeaf (Some 155))) (HNode (HLeaf (Some 157)) (HLeaf (Some 158))))) (HNode
    (HNode (HNode (HLeaf (Some 165)) (HLeaf (Some 166))) (HNode (HLeaf (Some 168)) (HLeaf (Some
    174)))) (HNode (HNode (HLeaf (Some 175)) (HLeaf (Some 180))) (HNode (HLeaf (Some 182)) (HLeaf
    (Some 183)))))) (HNode (HNode (HNode (HNode (HLeaf (Some 188)) (HLeaf (Some 191))) (HNode (HLeaf
    (Some 197)) (HLeaf (Some 231)))) (HNode (HNode (HLeaf (Some 239)) (HNode (HLeaf (Some 9)) (HLeaf
    (Some 142)))) (HNode (HNode (HLeaf (Some 144)) (HLeaf (Some 145))) (HNode (HLeaf (Some 148))
    (HLeaf (Some 159)))))) (HNode (HNode (HNode (HNode (HLeaf (Some 171)) (HLeaf (Some 206))) (HNode
    (HLeaf (Some 215)) (HLeaf (Some 225)))) (HNode (HNode (HLeaf (Some 236)) (HLeaf (Some 237)))
    (HNode (HNode (HLeaf (Some 199)) (HLeaf (Some 207))) (HNode (HLeaf (Some 234)) (HLeaf (Some
    235)))))) (HNode (HNode (HNode (HNode (HNode (HLeaf (Some 192)) (HLeaf (Some 193))) (HNode
    (HLeaf (Some 200)) (HLeaf (Some 201)))) (HNode (HNode (HLeaf (Some 202)) (HLeaf (Some 205)))
    (HNode (HLeaf (Some 210)) (HLeaf (Some 213))))) (HNode (HNode (HNode (HLeaf (Some 218)) (HLeaf
    (Some 219))) (HNode (HLeaf (Some 238)) (HLeaf (Some 240)))) (HNode (HNode (HLeaf (Some 242))
    (HLeaf (Some 243))) (HNode (HLeaf (Some 255)) (HNode (HLeaf (Some 203)) (HLeaf (Some 204)))))))
    (HNode (HNode (HNode (HNode (HNode (HLeaf (Some 211)) (HLeaf (Some 212))) (HNode (HLeaf (Some
    214)) (HLeaf (Some 221)))) (HNode (HNode (HLeaf (Some 222)) (HLeaf (Some 223))) (HNode (HLeaf
    (Some 241)) (HLeaf (Some 244))))) (HNode (HNode (HNode (HLeaf (Some 245)) (HLeaf (Some 246)))
    (HNode (HLeaf (Some 247)) (HLeaf (Some 248)))) (HNode (HNode (HLeaf (Some 250)) (HLeaf (Some
    251))) (HNode (HLeaf (Some 252)) (HLeaf (Some 253)))))) (HNode (HNode (HNode (HNode (HLeaf (Some
    254)) (HNode (HLeaf (Some 2)) (HLeaf (Some 3)))) (HNode (HNode (HLeaf (Some 4)) (HLeaf (Some
    5))) (HNode (HLeaf (Some 6)) (HLeaf (Some 7))))) (HNode (HNode (HNode (HLeaf (Some 8)) (HLeaf
    (Some 11))) (HNode (HLeaf (Some 12)) (HLeaf (Some 14)))) (HNode (HNode (HLeaf (Some 15)) (HLeaf
    (Some 16))) (HNode (HLeaf (Some 17)) (HLeaf (Some 18)))))) (HNode (HNode (HNode (HNode (HLeaf
    (Some 19)) (HLeaf (Some 20))) (HNode (HLeaf (Some 21)) (HLeaf (Some 23)))) (HNode (HNode (HLeaf
    (Some 24)) (HLeaf (Some 25))) (HNode (HLeaf (Some 26)) (HLeaf (Some 27))))) (HNode (HNode (HNode
    (HLeaf (Some 28)) (HLeaf (Some 29))) (HNode (HLeaf (Some 30)) (HLeaf (Some 31)))) (HNode (HNode
    (HLeaf (Some 127)) (HLeaf (Some 220))) (HNode (HLeaf (Some 249)) (HNode (HNode (HLeaf (Some 10))
    (HLeaf (Some 13))) (HNode (HLeaf (Some 22)) (HLeaf None)))))))))))))))))))))))))))))))"

definition state_paths :: "bool list list" where
  "state_paths = [
     [],
     [False],
     [ff, ff],
     [ff, ff, ff],
     [ff, ff, ff, ff],
     [ff, ff, ff, tt],
     [ff, ff, tt],
     [ff, ff, tt, ff],
     [ff, ff, tt, tt],
     [ff, tt],
     [ff, tt, ff],
     [ff, tt, ff, ff],
     [ff, tt, ff, tt],
     [ff, tt, ff, tt, ff],
     [ff, tt, ff, tt, tt],
     [ff, tt, tt],
     [ff, tt, tt, ff],
     [ff, tt, tt, ff, ff],
     [ff, tt, tt, ff, tt],
     [ff, tt, tt, tt],
     [ff, tt, tt, tt, ff],
     [ff, tt, tt, tt, tt],
     [True],
     [tt, ff],
     [tt, ff, ff],
     [tt, ff, ff, ff],
     [tt, ff, ff, ff, ff],
     [tt, ff, ff, ff, tt],
     [tt, ff, ff, tt],
     [tt, ff, ff, tt, ff],
     [tt, ff, ff, tt, tt],
     [tt, ff, tt],
     [tt, ff, tt, ff],
     [tt, ff, tt, ff, ff],
     [tt, ff, tt, ff, tt],
     [tt, ff, tt, tt],
     [tt, ff, tt, tt, ff],
     [tt, ff, tt, tt, tt],
     [tt, ff, tt, tt, tt, ff],
     [tt, ff, tt, tt, tt, tt],
     [tt, tt],
     [tt, tt, ff],
     [tt, tt, ff, ff],
     [tt, tt, ff, ff, ff],
     [tt, tt, ff, ff, ff, ff],
     [tt, tt, ff, ff, ff, tt],
     [tt, tt, ff, ff, tt],
     [tt, tt, ff, ff, tt, ff],
     [tt, tt, ff, ff, tt, tt],
     [tt, tt, ff, tt],
     [tt, tt, ff, tt, ff],
     [tt, tt, ff, tt, ff, ff],
     [tt, tt, ff, tt, ff, tt],
     [tt, tt, ff, tt, tt],
     [tt, tt, ff, tt, tt, ff],
     [tt, tt, ff, tt, tt, tt],
     [tt, tt, tt],
     [tt, tt, tt, ff],
     [tt, tt, tt, ff, ff],
     [tt, tt, tt, ff, ff, ff],
     [tt, tt, tt, ff, ff, tt],
     [tt, tt, tt, ff, tt],
     [tt, tt, tt, ff, tt, ff],
     [tt, tt, tt, ff, tt, tt],
     [tt, tt, tt, tt],
     [tt, tt, tt, tt, ff],
     [tt, tt, tt, tt, ff, ff],
     [tt, tt, tt, tt, ff, tt],
     [tt, tt, tt, tt, tt],
     [tt, tt, tt, tt, tt, ff],
     [tt, tt, tt, tt, tt, ff, ff],
     [tt, tt, tt, tt, tt, ff, tt],
     [tt, tt, tt, tt, tt, tt],
     [tt, tt, tt, tt, tt, tt, ff],
     [tt, tt, tt, tt, tt, tt, tt],
     [tt, tt, tt, tt, tt, tt, tt, ff],
     [tt, tt, tt, tt, tt, tt, tt, ff, ff],
     [tt, tt, tt, tt, tt, tt, tt, ff, tt],
     [tt, tt, tt, tt, tt, tt, tt, tt],
     [tt, tt, tt, tt, tt, tt, tt, tt, ff],
     [tt, tt, tt, tt, tt, tt, tt, tt, ff, tt],
     [tt, tt, tt, tt, tt, tt, tt, tt, tt],
     [tt, tt, tt, tt, tt, tt, tt, tt, tt, ff],
     [tt, tt, tt, tt, tt, tt, tt, tt, tt, ff, tt],
     [tt, tt, tt, tt, tt, tt, tt, tt, tt, tt],
     [tt, tt, tt, tt, tt, tt, tt, tt, tt, tt, ff],
     [tt, tt, tt, tt, tt, tt, tt, tt, tt, tt, ff, ff],
     [tt, tt, tt, tt, tt, tt, tt, tt, tt, tt, ff, tt],
     [tt, tt, tt, tt, tt, tt, tt, tt, tt, tt, tt],
     [tt, tt, tt, tt, tt, tt, tt, tt, tt, tt, tt, ff],
     [tt, tt, tt, tt, tt, tt, tt, tt, tt, tt, tt, tt],
     [tt, tt, tt, tt, tt, tt, tt, tt, tt, tt, tt, tt, ff],
     [tt, tt, tt, tt, tt, tt, tt, tt, tt, tt, tt, tt, tt],
     [tt, tt, tt, tt, tt, tt, tt, tt, tt, tt, tt, tt, tt, ff],
     [tt, tt, tt, tt, tt, tt, tt, tt, tt, tt, tt, tt, tt, tt],
     [tt, tt, tt, tt, tt, tt, tt, tt, tt, tt, tt, tt, tt, tt, tt],
     [tt, tt, tt, tt, tt, tt, tt, tt, tt, tt, tt, tt, tt, tt, tt,
      ff],
     [tt, tt, tt, tt, tt, tt, tt, tt, tt, tt, tt, tt, tt, tt, tt,
      ff, ff],
     [tt, tt, tt, tt, tt, tt, tt, tt, tt, tt, tt, tt, tt, tt, tt,
      ff, ff, ff],
     [tt, tt, tt, tt, tt, tt, tt, tt, tt, tt, tt, tt, tt, tt, tt,
      ff, ff, tt],
     [tt, tt, tt, tt, tt, tt, tt, tt, tt, tt, tt, tt, tt, tt, tt,
      ff, ff, tt, tt],
     [tt, tt, tt, tt, tt, tt, tt, tt, tt, tt, tt, tt, tt, tt, tt,
      ff, tt],
     [tt, tt, tt, tt, tt, tt, tt, tt, tt, tt, tt, tt, tt, tt, tt,
      ff, tt, ff],
     [tt, tt, tt, tt, tt, tt, tt, tt, tt, tt, tt, tt, tt, tt, tt,
      ff, tt, ff, ff],
     [tt, tt, tt, tt, tt, tt, tt, tt, tt, tt, tt, tt, tt, tt, tt,
      ff, tt, ff, tt],
     [tt, tt, tt, tt, tt, tt, tt, tt, tt, tt, tt, tt, tt, tt, tt,
      ff, tt, tt],
     [tt, tt, tt, tt, tt, tt, tt, tt, tt, tt, tt, tt, tt, tt, tt,
      ff, tt, tt, ff],
     [tt, tt, tt, tt, tt, tt, tt, tt, tt, tt, tt, tt, tt, tt, tt,
      ff, tt, tt, tt],
     [tt, tt, tt, tt, tt, tt, tt, tt, tt, tt, tt, tt, tt, tt, tt,
      ff, tt, tt, tt, ff],
     [tt, tt, tt, tt, tt, tt, tt, tt, tt, tt, tt, tt, tt, tt, tt,
      ff, tt, tt, tt, tt],
     [tt, tt, tt, tt, tt, tt, tt, tt, tt, tt, tt, tt, tt, tt, tt,
      tt],
     [tt, tt, tt, tt, tt, tt, tt, tt, tt, tt, tt, tt, tt, tt, tt,
      tt, ff],
     [tt, tt, tt, tt, tt, tt, tt, tt, tt, tt, tt, tt, tt, tt, tt,
      tt, ff, ff],
     [tt, tt, tt, tt, tt, tt, tt, tt, tt, tt, tt, tt, tt, tt, tt,
      tt, ff, ff, ff],
     [tt, tt, tt, tt, tt, tt, tt, tt, tt, tt, tt, tt, tt, tt, tt,
      tt, ff, ff, ff, ff],
     [tt, tt, tt, tt, tt, tt, tt, tt, tt, tt, tt, tt, tt, tt, tt,
      tt, ff, ff, ff, tt],
     [tt, tt, tt, tt, tt, tt, tt, tt, tt, tt, tt, tt, tt, tt, tt,
      tt, ff, ff, tt],
     [tt, tt, tt, tt, tt, tt, tt, tt, tt, tt, tt, tt, tt, tt, tt,
      tt, ff, ff, tt, ff],
     [tt, tt, tt, tt, tt, tt, tt, tt, tt, tt, tt, tt, tt, tt, tt,
      tt, ff, ff, tt, tt],
     [tt, tt, tt, tt, tt, tt, tt, tt, tt, tt, tt, tt, tt, tt, tt,
      tt, ff, tt],
     [tt, tt, tt, tt, tt, tt, tt, tt, tt, tt, tt, tt, tt, tt, tt,
      tt, ff, tt, ff],
     [tt, tt, tt, tt, tt, tt, tt, tt, tt, tt, tt, tt, tt, tt, tt,
      tt, ff, tt, ff, ff],
     [tt, tt, tt, tt, tt, tt, tt, tt, tt, tt, tt, tt, tt, tt, tt,
      tt, ff, tt, ff, ff, tt],
     [tt, tt, tt, tt, tt, tt, tt, tt, tt, tt, tt, tt, tt, tt, tt,
      tt, ff, tt, ff, tt],
     [tt, tt, tt, tt, tt, tt, tt, tt, tt, tt, tt, tt, tt, tt, tt,
      tt, ff, tt, ff, tt, ff],
     [tt, tt, tt, tt, tt, tt, tt, tt, tt, tt, tt, tt, tt, tt, tt,
      tt, ff, tt, ff, tt, tt],
     [tt, tt, tt, tt, tt, tt, tt, tt, tt, tt, tt, tt, tt, tt, tt,
      tt, ff, tt, tt],
     [tt, tt, tt, tt, tt, tt, tt, tt, tt, tt, tt, tt, tt, tt, tt,
      tt, ff, tt, tt, ff],
     [tt, tt, tt, tt, tt, tt, tt, tt, tt, tt, tt, tt, tt, tt, tt,
      tt, ff, tt, tt, ff, ff],
     [tt, tt, tt, tt, tt, tt, tt, tt, tt, tt, tt, tt, tt, tt, tt,
      tt, ff, tt, tt, ff, tt],
     [tt, tt, tt, tt, tt, tt, tt, tt, tt, tt, tt, tt, tt, tt, tt,
      tt, ff, tt, tt, tt],
     [tt, tt, tt, tt, tt, tt, tt, tt, tt, tt, tt, tt, tt, tt, tt,
      tt, ff, tt, tt, tt, ff],
     [tt, tt, tt, tt, tt, tt, tt, tt, tt, tt, tt, tt, tt, tt, tt,
      tt, ff, tt, tt, tt, tt],
     [tt, tt, tt, tt, tt, tt, tt, tt, tt, tt, tt, tt, tt, tt, tt,
      tt, tt],
     [tt, tt, tt, tt, tt, tt, tt, tt, tt, tt, tt, tt, tt, tt, tt,
      tt, tt, ff],
     [tt, tt, tt, tt, tt, tt, tt, tt, tt, tt, tt, tt, tt, tt, tt,
      tt, tt, ff, ff],
     [tt, tt, tt, tt, tt, tt, tt, tt, tt, tt, tt, tt, tt, tt, tt,
      tt, tt, ff, ff, ff],
     [tt, tt, tt, tt, tt, tt, tt, tt, tt, tt, tt, tt, tt, tt, tt,
      tt, tt, ff, ff, ff, ff],
     [tt, tt, tt, tt, tt, tt, tt, tt, tt, tt, tt, tt, tt, tt, tt,
      tt, tt, ff, ff, ff, tt],
     [tt, tt, tt, tt, tt, tt, tt, tt, tt, tt, tt, tt, tt, tt, tt,
      tt, tt, ff, ff, tt],
     [tt, tt, tt, tt, tt, tt, tt, tt, tt, tt, tt, tt, tt, tt, tt,
      tt, tt, ff, ff, tt, ff],
     [tt, tt, tt, tt, tt, tt, tt, tt, tt, tt, tt, tt, tt, tt, tt,
      tt, tt, ff, ff, tt, tt],
     [tt, tt, tt, tt, tt, tt, tt, tt, tt, tt, tt, tt, tt, tt, tt,
      tt, tt, ff, tt],
     [tt, tt, tt, tt, tt, tt, tt, tt, tt, tt, tt, tt, tt, tt, tt,
      tt, tt, ff, tt, ff],
     [tt, tt, tt, tt, tt, tt, tt, tt, tt, tt, tt, tt, tt, tt, tt,
      tt, tt, ff, tt, ff, ff],
     [tt, tt, tt, tt, tt, tt, tt, tt, tt, tt, tt, tt, tt, tt, tt,
      tt, tt, ff, tt, ff, tt],
     [tt, tt, tt, tt, tt, tt, tt, tt, tt, tt, tt, tt, tt, tt, tt,
      tt, tt, ff, tt, tt],
     [tt, tt, tt, tt, tt, tt, tt, tt, tt, tt, tt, tt, tt, tt, tt,
      tt, tt, ff, tt, tt, ff],
     [tt, tt, tt, tt, tt, tt, tt, tt, tt, tt, tt, tt, tt, tt, tt,
      tt, tt, ff, tt, tt, ff, ff],
     [tt, tt, tt, tt, tt, tt, tt, tt, tt, tt, tt, tt, tt, tt, tt,
      tt, tt, ff, tt, tt, ff, tt],
     [tt, tt, tt, tt, tt, tt, tt, tt, tt, tt, tt, tt, tt, tt, tt,
      tt, tt, ff, tt, tt, tt],
     [tt, tt, tt, tt, tt, tt, tt, tt, tt, tt, tt, tt, tt, tt, tt,
      tt, tt, ff, tt, tt, tt, ff],
     [tt, tt, tt, tt, tt, tt, tt, tt, tt, tt, tt, tt, tt, tt, tt,
      tt, tt, ff, tt, tt, tt, tt],
     [tt, tt, tt, tt, tt, tt, tt, tt, tt, tt, tt, tt, tt, tt, tt,
      tt, tt, tt],
     [tt, tt, tt, tt, tt, tt, tt, tt, tt, tt, tt, tt, tt, tt, tt,
      tt, tt, tt, ff],
     [tt, tt, tt, tt, tt, tt, tt, tt, tt, tt, tt, tt, tt, tt, tt,
      tt, tt, tt, ff, ff],
     [tt, tt, tt, tt, tt, tt, tt, tt, tt, tt, tt, tt, tt, tt, tt,
      tt, tt, tt, ff, ff, ff],
     [tt, tt, tt, tt, tt, tt, tt, tt, tt, tt, tt, tt, tt, tt, tt,
      tt, tt, tt, ff, ff, ff, ff],
     [tt, tt, tt, tt, tt, tt, tt, tt, tt, tt, tt, tt, tt, tt, tt,
      tt, tt, tt, ff, ff, ff, tt],
     [tt, tt, tt, tt, tt, tt, tt, tt, tt, tt, tt, tt, tt, tt, tt,
      tt, tt, tt, ff, ff, tt],
     [tt, tt, tt, tt, tt, tt, tt, tt, tt, tt, tt, tt, tt, tt, tt,
      tt, tt, tt, ff, ff, tt, ff],
     [tt, tt, tt, tt, tt, tt, tt, tt, tt, tt, tt, tt, tt, tt, tt,
      tt, tt, tt, ff, ff, tt, tt],
     [tt, tt, tt, tt, tt, tt, tt, tt, tt, tt, tt, tt, tt, tt, tt,
      tt, tt, tt, ff, tt],
     [tt, tt, tt, tt, tt, tt, tt, tt, tt, tt, tt, tt, tt, tt, tt,
      tt, tt, tt, ff, tt, ff],
     [tt, tt, tt, tt, tt, tt, tt, tt, tt, tt, tt, tt, tt, tt, tt,
      tt, tt, tt, ff, tt, ff, ff],
     [tt, tt, tt, tt, tt, tt, tt, tt, tt, tt, tt, tt, tt, tt, tt,
      tt, tt, tt, ff, tt, ff, tt],
     [tt, tt, tt, tt, tt, tt, tt, tt, tt, tt, tt, tt, tt, tt, tt,
      tt, tt, tt, ff, tt, tt],
     [tt, tt, tt, tt, tt, tt, tt, tt, tt, tt, tt, tt, tt, tt, tt,
      tt, tt, tt, ff, tt, tt, ff],
     [tt, tt, tt, tt, tt, tt, tt, tt, tt, tt, tt, tt, tt, tt, tt,
      tt, tt, tt, ff, tt, tt, tt],
     [tt, tt, tt, tt, tt, tt, tt, tt, tt, tt, tt, tt, tt, tt, tt,
      tt, tt, tt, tt],
     [tt, tt, tt, tt, tt, tt, tt, tt, tt, tt, tt, tt, tt, tt, tt,
      tt, tt, tt, tt, ff],
     [tt, tt, tt, tt, tt, tt, tt, tt, tt, tt, tt, tt, tt, tt, tt,
      tt, tt, tt, tt, ff, ff],
     [tt, tt, tt, tt, tt, tt, tt, tt, tt, tt, tt, tt, tt, tt, tt,
      tt, tt, tt, tt, ff, ff, ff],
     [tt, tt, tt, tt, tt, tt, tt, tt, tt, tt, tt, tt, tt, tt, tt,
      tt, tt, tt, tt, ff, ff, tt],
     [tt, tt, tt, tt, tt, tt, tt, tt, tt, tt, tt, tt, tt, tt, tt,
      tt, tt, tt, tt, ff, tt],
     [tt, tt, tt, tt, tt, tt, tt, tt, tt, tt, tt, tt, tt, tt, tt,
      tt, tt, tt, tt, ff, tt, ff],
     [tt, tt, tt, tt, tt, tt, tt, tt, tt, tt, tt, tt, tt, tt, tt,
      tt, tt, tt, tt, ff, tt, ff, tt],
     [tt, tt, tt, tt, tt, tt, tt, tt, tt, tt, tt, tt, tt, tt, tt,
      tt, tt, tt, tt, ff, tt, tt],
     [tt, tt, tt, tt, tt, tt, tt, tt, tt, tt, tt, tt, tt, tt, tt,
      tt, tt, tt, tt, ff, tt, tt, ff],
     [tt, tt, tt, tt, tt, tt, tt, tt, tt, tt, tt, tt, tt, tt, tt,
      tt, tt, tt, tt, ff, tt, tt, tt],
     [tt, tt, tt, tt, tt, tt, tt, tt, tt, tt, tt, tt, tt, tt, tt,
      tt, tt, tt, tt, tt],
     [tt, tt, tt, tt, tt, tt, tt, tt, tt, tt, tt, tt, tt, tt, tt,
      tt, tt, tt, tt, tt, ff],
     [tt, tt, tt, tt, tt, tt, tt, tt, tt, tt, tt, tt, tt, tt, tt,
      tt, tt, tt, tt, tt, ff, ff],
     [tt, tt, tt, tt, tt, tt, tt, tt, tt, tt, tt, tt, tt, tt, tt,
      tt, tt, tt, tt, tt, ff, ff, ff],
     [tt, tt, tt, tt, tt, tt, tt, tt, tt, tt, tt, tt, tt, tt, tt,
      tt, tt, tt, tt, tt, ff, ff, tt],
     [tt, tt, tt, tt, tt, tt, tt, tt, tt, tt, tt, tt, tt, tt, tt,
      tt, tt, tt, tt, tt, ff, tt],
     [tt, tt, tt, tt, tt, tt, tt, tt, tt, tt, tt, tt, tt, tt, tt,
      tt, tt, tt, tt, tt, ff, tt, ff],
     [tt, tt, tt, tt, tt, tt, tt, tt, tt, tt, tt, tt, tt, tt, tt,
      tt, tt, tt, tt, tt, ff, tt, tt],
     [tt, tt, tt, tt, tt, tt, tt, tt, tt, tt, tt, tt, tt, tt, tt,
      tt, tt, tt, tt, tt, ff, tt, tt, ff],
     [tt, tt, tt, tt, tt, tt, tt, tt, tt, tt, tt, tt, tt, tt, tt,
      tt, tt, tt, tt, tt, ff, tt, tt, tt],
     [tt, tt, tt, tt, tt, tt, tt, tt, tt, tt, tt, tt, tt, tt, tt,
      tt, tt, tt, tt, tt, tt],
     [tt, tt, tt, tt, tt, tt, tt, tt, tt, tt, tt, tt, tt, tt, tt,
      tt, tt, tt, tt, tt, tt, ff],
     [tt, tt, tt, tt, tt, tt, tt, tt, tt, tt, tt, tt, tt, tt, tt,
      tt, tt, tt, tt, tt, tt, ff, ff],
     [tt, tt, tt, tt, tt, tt, tt, tt, tt, tt, tt, tt, tt, tt, tt,
      tt, tt, tt, tt, tt, tt, ff, ff, ff],
     [tt, tt, tt, tt, tt, tt, tt, tt, tt, tt, tt, tt, tt, tt, tt,
      tt, tt, tt, tt, tt, tt, ff, ff, ff, ff],
     [tt, tt, tt, tt, tt, tt, tt, tt, tt, tt, tt, tt, tt, tt, tt,
      tt, tt, tt, tt, tt, tt, ff, ff, ff, tt],
     [tt, tt, tt, tt, tt, tt, tt, tt, tt, tt, tt, tt, tt, tt, tt,
      tt, tt, tt, tt, tt, tt, ff, ff, tt],
     [tt, tt, tt, tt, tt, tt, tt, tt, tt, tt, tt, tt, tt, tt, tt,
      tt, tt, tt, tt, tt, tt, ff, ff, tt, ff],
     [tt, tt, tt, tt, tt, tt, tt, tt, tt, tt, tt, tt, tt, tt, tt,
      tt, tt, tt, tt, tt, tt, ff, ff, tt, tt],
     [tt, tt, tt, tt, tt, tt, tt, tt, tt, tt, tt, tt, tt, tt, tt,
      tt, tt, tt, tt, tt, tt, ff, tt],
     [tt, tt, tt, tt, tt, tt, tt, tt, tt, tt, tt, tt, tt, tt, tt,
      tt, tt, tt, tt, tt, tt, ff, tt, ff],
     [tt, tt, tt, tt, tt, tt, tt, tt, tt, tt, tt, tt, tt, tt, tt,
      tt, tt, tt, tt, tt, tt, ff, tt, ff, ff],
     [tt, tt, tt, tt, tt, tt, tt, tt, tt, tt, tt, tt, tt, tt, tt,
      tt, tt, tt, tt, tt, tt, ff, tt, ff, tt],
     [tt, tt, tt, tt, tt, tt, tt, tt, tt, tt, tt, tt, tt, tt, tt,
      tt, tt, tt, tt, tt, tt, ff, tt, tt],
     [tt, tt, tt, tt, tt, tt, tt, tt, tt, tt, tt, tt, tt, tt, tt,
      tt, tt, tt, tt, tt, tt, ff, tt, tt, ff],
     [tt, tt, tt, tt, tt, tt, tt, tt, tt, tt, tt, tt, tt, tt, tt,
      tt, tt, tt, tt, tt, tt, ff, tt, tt, tt],
     [tt, tt, tt, tt, tt, tt, tt, tt, tt, tt, tt, tt, tt, tt, tt,
      tt, tt, tt, tt, tt, tt, ff, tt, tt, tt, tt],
     [tt, tt, tt, tt, tt, tt, tt, tt, tt, tt, tt, tt, tt, tt, tt,
      tt, tt, tt, tt, tt, tt, tt],
     [tt, tt, tt, tt, tt, tt, tt, tt, tt, tt, tt, tt, tt, tt, tt,
      tt, tt, tt, tt, tt, tt, tt, ff],
     [tt, tt, tt, tt, tt, tt, tt, tt, tt, tt, tt, tt, tt, tt, tt,
      tt, tt, tt, tt, tt, tt, tt, ff, ff],
     [tt, tt, tt, tt, tt, tt, tt, tt, tt, tt, tt, tt, tt, tt, tt,
      tt, tt, tt, tt, tt, tt, tt, ff, ff, ff],
     [tt, tt, tt, tt, tt, tt, tt, tt, tt, tt, tt, tt, tt, tt, tt,
      tt, tt, tt, tt, tt, tt, tt, ff, ff, ff, ff],
     [tt, tt, tt, tt, tt, tt, tt, tt, tt, tt, tt, tt, tt, tt, tt,
      tt, tt, tt, tt, tt, tt, tt, ff, ff, ff, tt],
     [tt, tt, tt, tt, tt, tt, tt, tt, tt, tt, tt, tt, tt, tt, tt,
      tt, tt, tt, tt, tt, tt, tt, ff, ff, tt],
     [tt, tt, tt, tt, tt, tt, tt, tt, tt, tt, tt, tt, tt, tt, tt,
      tt, tt, tt, tt, tt, tt, tt, ff, ff, tt, ff],
     [tt, tt, tt, tt, tt, tt, tt, tt, tt, tt, tt, tt, tt, tt, tt,
      tt, tt, tt, tt, tt, tt, tt, ff, ff, tt, tt],
     [tt, tt, tt, tt, tt, tt, tt, tt, tt, tt, tt, tt, tt, tt, tt,
      tt, tt, tt, tt, tt, tt, tt, ff, tt],
     [tt, tt, tt, tt, tt, tt, tt, tt, tt, tt, tt, tt, tt, tt, tt,
      tt, tt, tt, tt, tt, tt, tt, ff, tt, ff],
     [tt, tt, tt, tt, tt, tt, tt, tt, tt, tt, tt, tt, tt, tt, tt,
      tt, tt, tt, tt, tt, tt, tt, ff, tt, ff, ff],
     [tt, tt, tt, tt, tt, tt, tt, tt, tt, tt, tt, tt, tt, tt, tt,
      tt, tt, tt, tt, tt, tt, tt, ff, tt, ff, tt],
     [tt, tt, tt, tt, tt, tt, tt, tt, tt, tt, tt, tt, tt, tt, tt,
      tt, tt, tt, tt, tt, tt, tt, ff, tt, tt],
     [tt, tt, tt, tt, tt, tt, tt, tt, tt, tt, tt, tt, tt, tt, tt,
      tt, tt, tt, tt, tt, tt, tt, ff, tt, tt, ff],
     [tt, tt, tt, tt, tt, tt, tt, tt, tt, tt, tt, tt, tt, tt, tt,
      tt, tt, tt, tt, tt, tt, tt, ff, tt, tt, tt],
     [tt, tt, tt, tt, tt, tt, tt, tt, tt, tt, tt, tt, tt, tt, tt,
      tt, tt, tt, tt, tt, tt, tt, tt],
     [tt, tt, tt, tt, tt, tt, tt, tt, tt, tt, tt, tt, tt, tt, tt,
      tt, tt, tt, tt, tt, tt, tt, tt, ff],
     [tt, tt, tt, tt, tt, tt, tt, tt, tt, tt, tt, tt, tt, tt, tt,
      tt, tt, tt, tt, tt, tt, tt, tt, ff, ff],
     [tt, tt, tt, tt, tt, tt, tt, tt, tt, tt, tt, tt, tt, tt, tt,
      tt, tt, tt, tt, tt, tt, tt, tt, ff, ff, ff],
     [tt, tt, tt, tt, tt, tt, tt, tt, tt, tt, tt, tt, tt, tt, tt,
      tt, tt, tt, tt, tt, tt, tt, tt, ff, ff, ff, tt],
     [tt, tt, tt, tt, tt, tt, tt, tt, tt, tt, tt, tt, tt, tt, tt,
      tt, tt, tt, tt, tt, tt, tt, tt, ff, ff, tt],
     [tt, tt, tt, tt, tt, tt, tt, tt, tt, tt, tt, tt, tt, tt, tt,
      tt, tt, tt, tt, tt, tt, tt, tt, ff, ff, tt, ff],
     [tt, tt, tt, tt, tt, tt, tt, tt, tt, tt, tt, tt, tt, tt, tt,
      tt, tt, tt, tt, tt, tt, tt, tt, ff, ff, tt, tt],
     [tt, tt, tt, tt, tt, tt, tt, tt, tt, tt, tt, tt, tt, tt, tt,
      tt, tt, tt, tt, tt, tt, tt, tt, ff, tt],
     [tt, tt, tt, tt, tt, tt, tt, tt, tt, tt, tt, tt, tt, tt, tt,
      tt, tt, tt, tt, tt, tt, tt, tt, ff, tt, ff],
     [tt, tt, tt, tt, tt, tt, tt, tt, tt, tt, tt, tt, tt, tt, tt,
      tt, tt, tt, tt, tt, tt, tt, tt, ff, tt, ff, ff],
     [tt, tt, tt, tt, tt, tt, tt, tt, tt, tt, tt, tt, tt, tt, tt,
      tt, tt, tt, tt, tt, tt, tt, tt, ff, tt, ff, tt],
     [tt, tt, tt, tt, tt, tt, tt, tt, tt, tt, tt, tt, tt, tt, tt,
      tt, tt, tt, tt, tt, tt, tt, tt, ff, tt, tt],
     [tt, tt, tt, tt, tt, tt, tt, tt, tt, tt, tt, tt, tt, tt, tt,
      tt, tt, tt, tt, tt, tt, tt, tt, ff, tt, tt, ff],
     [tt, tt, tt, tt, tt, tt, tt, tt, tt, tt, tt, tt, tt, tt, tt,
      tt, tt, tt, tt, tt, tt, tt, tt, ff, tt, tt, tt],
     [tt, tt, tt, tt, tt, tt, tt, tt, tt, tt, tt, tt, tt, tt, tt,
      tt, tt, tt, tt, tt, tt, tt, tt, tt],
     [tt, tt, tt, tt, tt, tt, tt, tt, tt, tt, tt, tt, tt, tt, tt,
      tt, tt, tt, tt, tt, tt, tt, tt, tt, ff],
     [tt, tt, tt, tt, tt, tt, tt, tt, tt, tt, tt, tt, tt, tt, tt,
      tt, tt, tt, tt, tt, tt, tt, tt, tt, ff, ff],
     [tt, tt, tt, tt, tt, tt, tt, tt, tt, tt, tt, tt, tt, tt, tt,
      tt, tt, tt, tt, tt, tt, tt, tt, tt, ff, ff, ff],
     [tt, tt, tt, tt, tt, tt, tt, tt, tt, tt, tt, tt, tt, tt, tt,
      tt, tt, tt, tt, tt, tt, tt, tt, tt, ff, ff, tt],
     [tt, tt, tt, tt, tt, tt, tt, tt, tt, tt, tt, tt, tt, tt, tt,
      tt, tt, tt, tt, tt, tt, tt, tt, tt, ff, tt],
     [tt, tt, tt, tt, tt, tt, tt, tt, tt, tt, tt, tt, tt, tt, tt,
      tt, tt, tt, tt, tt, tt, tt, tt, tt, ff, tt, ff],
     [tt, tt, tt, tt, tt, tt, tt, tt, tt, tt, tt, tt, tt, tt, tt,
      tt, tt, tt, tt, tt, tt, tt, tt, tt, ff, tt, tt],
     [tt, tt, tt, tt, tt, tt, tt, tt, tt, tt, tt, tt, tt, tt, tt,
      tt, tt, tt, tt, tt, tt, tt, tt, tt, tt],
     [tt, tt, tt, tt, tt, tt, tt, tt, tt, tt, tt, tt, tt, tt, tt,
      tt, tt, tt, tt, tt, tt, tt, tt, tt, tt, ff],
     [tt, tt, tt, tt, tt, tt, tt, tt, tt, tt, tt, tt, tt, tt, tt,
      tt, tt, tt, tt, tt, tt, tt, tt, tt, tt, ff, ff],
     [tt, tt, tt, tt, tt, tt, tt, tt, tt, tt, tt, tt, tt, tt, tt,
      tt, tt, tt, tt, tt, tt, tt, tt, tt, tt, ff, tt],
     [tt, tt, tt, tt, tt, tt, tt, tt, tt, tt, tt, tt, tt, tt, tt,
      tt, tt, tt, tt, tt, tt, tt, tt, tt, tt, tt],
     [tt, tt, tt, tt, tt, tt, tt, tt, tt, tt, tt, tt, tt, tt, tt,
      tt, tt, tt, tt, tt, tt, tt, tt, tt, tt, tt, ff],
     [tt, tt, tt, tt, tt, tt, tt, tt, tt, tt, tt, tt, tt, tt, tt,
      tt, tt, tt, tt, tt, tt, tt, tt, tt, tt, tt, tt],
     [tt, tt, tt, tt, tt, tt, tt, tt, tt, tt, tt, tt, tt, tt, tt,
      tt, tt, tt, tt, tt, tt, tt, tt, tt, tt, tt, tt, tt],
     [tt, tt, tt, tt, tt, tt, tt, tt, tt, tt, tt, tt, tt, tt, tt,
      tt, tt, tt, tt, tt, tt, tt, tt, tt, tt, tt, tt, tt, ff],
     [tt, tt, tt, tt, tt, tt, tt, tt, tt, tt, tt, tt, tt, tt, tt,
      tt, tt, tt, tt, tt, tt, tt, tt, tt, tt, tt, tt, tt, tt]]"

definition state_path :: "u8 \<Rightarrow> bool list" where
  "state_path s = state_paths ! unat s"

section \<open>The tables, evaluated\<close>

lemma length_HUFFMAN_ENCODE [simp]: "length HUFFMAN_ENCODE = 257"
  by (simp add: HUFFMAN_ENCODE_def)

lemma length_state_paths [simp]: "length state_paths = 256"
  by (simp add: state_paths_def)

lemma codes_eval:
  "map (\<lambda>(n, c). word_bits (unat n) c) HUFFMAN_ENCODE = [
     [tt, tt, tt, tt, tt, tt, tt, tt, tt, tt, ff, ff, ff],
     [tt, tt, tt, tt, tt, tt, tt, tt, tt, tt, tt, tt, tt, tt, tt,
      tt, tt, ff, tt, tt, ff, ff, ff],
     [tt, tt, tt, tt, tt, tt, tt, tt, tt, tt, tt, tt, tt, tt, tt,
      tt, tt, tt, tt, tt, tt, tt, tt, ff, ff, ff, tt, ff],
     [tt, tt, tt, tt, tt, tt, tt, tt, tt, tt, tt, tt, tt, tt, tt,
      tt, tt, tt, tt, tt, tt, tt, tt, ff, ff, ff, tt, tt],
     [tt, tt, tt, tt, tt, tt, tt, tt, tt, tt, tt, tt, tt, tt, tt,
      tt, tt, tt, tt, tt, tt, tt, tt, ff, ff, tt, ff, ff],
     [tt, tt, tt, tt, tt, tt, tt, tt, tt, tt, tt, tt, tt, tt, tt,
      tt, tt, tt, tt, tt, tt, tt, tt, ff, ff, tt, ff, tt],
     [tt, tt, tt, tt, tt, tt, tt, tt, tt, tt, tt, tt, tt, tt, tt,
      tt, tt, tt, tt, tt, tt, tt, tt, ff, ff, tt, tt, ff],
     [tt, tt, tt, tt, tt, tt, tt, tt, tt, tt, tt, tt, tt, tt, tt,
      tt, tt, tt, tt, tt, tt, tt, tt, ff, ff, tt, tt, tt],
     [tt, tt, tt, tt, tt, tt, tt, tt, tt, tt, tt, tt, tt, tt, tt,
      tt, tt, tt, tt, tt, tt, tt, tt, ff, tt, ff, ff, ff],
     [tt, tt, tt, tt, tt, tt, tt, tt, tt, tt, tt, tt, tt, tt, tt,
      tt, tt, tt, tt, ff, tt, ff, tt, ff],
     [tt, tt, tt, tt, tt, tt, tt, tt, tt, tt, tt, tt, tt, tt, tt,
      tt, tt, tt, tt, tt, tt, tt, tt, tt, tt, tt, tt, tt, ff, ff],
     [tt, tt, tt, tt, tt, tt, tt, tt, tt, tt, tt, tt, tt, tt, tt,
      tt, tt, tt, tt, tt, tt, tt, tt, ff, tt, ff, ff, tt],
     [tt, tt, tt, tt, tt, tt, tt, tt, tt, tt, tt, tt, tt, tt, tt,
      tt, tt, tt, tt, tt, tt, tt, tt, ff, tt, ff, tt, ff],
     [tt, tt, tt, tt, tt, tt, tt, tt, tt, tt, tt, tt, tt, tt, tt,
      tt, tt, tt, tt, tt, tt, tt, tt, tt, tt, tt, tt, tt, ff, tt],
     [tt, tt, tt, tt, tt, tt, tt, tt, tt, tt, tt, tt, tt, tt, tt,
      tt, tt, tt, tt, tt, tt, tt, tt, ff, tt, ff, tt, tt],
     [tt, tt, tt, tt, tt, tt, tt, tt, tt, tt, tt, tt, tt, tt, tt,
      tt, tt, tt, tt, tt, tt, tt, tt, ff, tt, tt, ff, ff],
     [tt, tt, tt, tt, tt, tt, tt, tt, tt, tt, tt, tt, tt, tt, tt,
      tt, tt, tt, tt, tt, tt, tt, tt, ff, tt, tt, ff, tt],
     [tt, tt, tt, tt, tt, tt, tt, tt, tt, tt, tt, tt, tt, tt, tt,
      tt, tt, tt, tt, tt, tt, tt, tt, ff, tt, tt, tt, ff],
     [tt, tt, tt, tt, tt, tt, tt, tt, tt, tt, tt, tt, tt, tt, tt,
      tt, tt, tt, tt, tt, tt, tt, tt, ff, tt, tt, tt, tt],
     [tt, tt, tt, tt, tt, tt, tt, tt, tt, tt, tt, tt, tt, tt, tt,
      tt, tt, tt, tt, tt, tt, tt, tt, tt, ff, ff, ff, ff],
     [tt, tt, tt, tt, tt, tt, tt, tt, tt, tt, tt, tt, tt, tt, tt,
      tt, tt, tt, tt, tt, tt, tt, tt, tt, ff, ff, ff, tt],
     [tt, tt, tt, tt, tt, tt, tt, tt, tt, tt, tt, tt, tt, tt, tt,
      tt, tt, tt, tt, tt, tt, tt, tt, tt, ff, ff, tt, ff],
     [tt, tt, tt, tt, tt, tt, tt, tt, tt, tt, tt, tt, tt, tt, tt,
      tt, tt, tt, tt, tt, tt, tt, tt, tt, tt, tt, tt, tt, tt, ff],
     [tt, tt, tt, tt, tt, tt, tt, tt, tt, tt, tt, tt, tt, tt, tt,
      tt, tt, tt, tt, tt, tt, tt, tt, tt, ff, ff, tt, tt],
     [tt, tt, tt, tt, tt, tt, tt, tt, tt, tt, tt, tt, tt, tt, tt,
      tt, tt, tt, tt, tt, tt, tt, tt, tt, ff, tt, ff, ff],
     [tt, tt, tt, tt, tt, tt, tt, tt, tt, tt, tt, tt, tt, tt, tt,
      tt, tt, tt, tt, tt, tt, tt, tt, tt, ff, tt, ff, tt],
     [tt, tt, tt, tt, tt, tt, tt, tt, tt, tt, tt, tt, tt, tt, tt,
      tt, tt, tt, tt, tt, tt, tt, tt, tt, ff, tt, tt, ff],
     [tt, tt, tt, tt, tt, tt, tt, tt, tt, tt, tt, tt, tt, tt, tt,
      tt, tt, tt, tt, tt, tt, tt, tt, tt, ff, tt, tt, tt],
     [tt, tt, tt, tt, tt, tt, tt, tt, tt, tt, tt, tt, tt, tt, tt,
      tt, tt, tt, tt, tt, tt, tt, tt, tt, tt, ff, ff, ff],
     [tt, tt, tt, tt, tt, tt, tt, tt, tt, tt, tt, tt, tt, tt, tt,
      tt, tt, tt, tt, tt, tt, tt, tt, tt, tt, ff, ff, tt],
     [tt, tt, tt, tt, tt, tt, tt, tt, tt, tt, tt, tt, tt, tt, tt,
      tt, tt, tt, tt, tt, tt, tt, tt, tt, tt, ff, tt, ff],
     [tt, tt, tt, tt, tt, tt, tt, tt, tt, tt, tt, tt, tt, tt, tt,
      tt, tt, tt, tt, tt, tt, tt, tt, tt, tt, ff, tt, tt],
     [ff, tt, ff, tt, ff, ff],
     [tt, tt, tt, tt, tt, tt, tt, ff, ff, ff],
     [tt, tt, tt, tt, tt, tt, tt, ff, ff, tt],
     [tt, tt, tt, tt, tt, tt, tt, tt, tt, ff, tt, ff],
     [tt, tt, tt, tt, tt, tt, tt, tt, tt, tt, ff, ff, tt],
     [ff, tt, ff, tt, ff, tt],
     [tt, tt, tt, tt, tt, ff, ff, ff],
     [tt, tt, tt, tt, tt, tt, tt, tt, ff, tt, ff],
     [tt, tt, tt, tt, tt, tt, tt, ff, tt, ff],
     [tt, tt, tt, tt, tt, tt, tt, ff, tt, tt],
     [tt, tt, tt, tt, tt, ff, ff, tt],
     [tt, tt, tt, tt, tt, tt, tt, tt, ff, tt, tt],
     [tt, tt, tt, tt, tt, ff, tt, ff],
     [ff, tt, ff, tt, tt, ff],
     [ff, tt, ff, tt, tt, tt],
     [ff, tt, tt, ff, ff, ff],
     [ff, ff, ff, ff, ff],
     [ff, ff, ff, ff, tt],
     [ff, ff, ff, tt, ff],
     [ff, tt, tt, ff, ff, tt],
     [ff, tt, tt, ff, tt, ff],
     [ff, tt, tt, ff, tt, tt],
     [ff, tt, tt, tt, ff, ff],
     [ff, tt, tt, tt, ff, tt],
     [ff, tt, tt, tt, tt, ff],
     [ff, tt, tt, tt, tt, tt],
     [tt, ff, tt, tt, tt, ff, ff],
     [tt, tt, tt, tt, tt, ff, tt, tt],
     [tt, tt, tt, tt, tt, tt, tt, tt, tt, tt, tt, tt, tt, ff, ff],
     [tt, ff, ff, ff, ff, ff],
     [tt, tt, tt, tt, tt, tt, tt, tt, tt, ff, tt, tt],
     [tt, tt, tt, tt, tt, tt, tt, tt, ff, ff],
     [tt, tt, tt, tt, tt, tt, tt, tt, tt, tt, ff, tt, ff],
     [tt, ff, ff, ff, ff, tt],
     [tt, ff, tt, tt, tt, ff, tt],
     [tt, ff, tt, tt, tt, tt, ff],
     [tt, ff, tt, tt, tt, tt, tt],
     [tt, tt, ff, ff, ff, ff, ff],
     [tt, tt, ff, ff, ff, ff, tt],
     [tt, tt, ff, ff, ff, tt, ff],
     [tt, tt, ff, ff, ff, tt, tt],
     [tt, tt, ff, ff, tt, ff, ff],
     [tt, tt, ff, ff, tt, ff, tt],
     [tt, tt, ff, ff, tt, tt, ff],
     [tt, tt, ff, ff, tt, tt, tt],
     [tt, tt, ff, tt, ff, ff, ff],
     [tt, tt, ff, tt, ff, ff, tt],
     [tt, tt, ff, tt, ff, tt, ff],
     [tt, tt, ff, tt, ff, tt, tt],
     [tt, tt, ff, tt, tt, ff, ff],
     [tt, tt, ff, tt, tt, ff, tt],
     [tt, tt, ff, tt, tt, tt, ff],
     [tt, tt, ff, tt, tt, tt, tt],
     [tt, tt, tt, ff, ff, ff, ff],
     [tt, tt, tt, ff, ff, ff, tt],
     [tt, tt, tt, ff, ff, tt, ff],
     [tt, tt, tt, tt, tt, tt, ff, ff],
     [tt, tt, tt, ff, ff, tt, tt],
     [tt, tt, tt, tt, tt, tt, ff, tt],
     [tt, tt, tt, tt, tt, tt, tt, tt, tt, tt, ff, tt, tt],
     [tt, tt, tt, tt, tt, tt, tt, tt, tt, tt, tt, tt, tt, tt, tt,
      ff, ff, ff, ff],
     [tt, tt, tt, tt, tt, tt, tt, tt, tt, tt, tt, ff, ff],
     [tt, tt, tt, tt, tt, tt, tt, tt, tt, tt, tt, tt, ff, ff],
     [tt, ff, ff, ff, tt, ff],
     [tt, tt, tt, tt, tt, tt, tt, tt, tt, tt, tt, tt, tt, ff, tt],
     [ff, ff, ff, tt, tt],
     [tt, ff, ff, ff, tt, tt],
     [ff, ff, tt, ff, ff],
     [tt, ff, ff, tt, ff, ff],
     [ff, ff, tt, ff, tt],
     [tt, ff, ff, tt, ff, tt],
     [tt, ff, ff, tt, tt, ff],
     [tt, ff, ff, tt, tt, tt],
     [ff, ff, tt, tt, ff],
     [tt, tt, tt, ff, tt, ff, ff],
     [tt, tt, tt, ff, tt, ff, tt],
     [tt, ff, tt, ff, ff, ff],
     [tt, ff, tt, ff, ff, tt],
     [tt, ff, tt, ff, tt, ff],
     [ff, ff, tt, tt, tt],
     [tt, ff, tt, ff, tt, tt],
     [tt, tt, tt, ff, tt, tt, ff],
     [tt, ff, tt, tt, ff, ff],
     [ff, tt, ff, ff, ff],
     [ff, tt, ff, ff, tt],
     [tt, ff, tt, tt, ff, tt],
     [tt, tt, tt, ff, tt, tt, tt],
     [tt, tt, tt, tt, ff, ff, ff],
     [tt, tt, tt, tt, ff, ff, tt],
     [tt, tt, tt, tt, ff, tt, ff],
     [tt, tt, tt, tt, ff, tt, tt],
     [tt, tt, tt, tt, tt, tt, tt, tt, tt, tt, tt, tt, tt, tt, ff],
     [tt, tt, tt, tt, tt, tt, tt, tt, tt, ff, ff],
     [tt, tt, tt, tt, tt, tt, tt, tt, tt, tt, tt, tt, ff, tt],
     [tt, tt, tt, tt, tt, tt, tt, tt, tt, tt, tt, ff, tt],
     [tt, tt, tt, tt, tt, tt, tt, tt, tt, tt, tt, tt, tt, tt, tt,
      tt, tt, tt, tt, tt, tt, tt, tt, tt, tt, tt, ff, ff],
     [tt, tt, tt, tt, tt, tt, tt, tt, tt, tt, tt, tt, tt, tt, tt,
      ff, ff, tt, tt, ff],
     [tt, tt, tt, tt, tt, tt, tt, tt, tt, tt, tt, tt, tt, tt, tt,
      tt, ff, tt, ff, ff, tt, ff],
     [tt, tt, tt, tt, tt, tt, tt, tt, tt, tt, tt, tt, tt, tt, tt,
      ff, ff, tt, tt, tt],
     [tt, tt, tt, tt, tt, tt, tt, tt, tt, tt, tt, tt, tt, tt, tt,
      ff, tt, ff, ff, ff],
     [tt, tt, tt, tt, tt, tt, tt, tt, tt, tt, tt, tt, tt, tt, tt,
      tt, ff, tt, ff, ff, tt, tt],
     [tt, tt, tt, tt, tt, tt, tt, tt, tt, tt, tt, tt, tt, tt, tt,
      tt, ff, tt, ff, tt, ff, ff],
     [tt, tt, tt, tt, tt, tt, tt, tt, tt, tt, tt, tt, tt, tt, tt,
      tt, ff, tt, ff, tt, ff, tt],
     [tt, tt, tt, tt, tt, tt, tt, tt, tt, tt, tt, tt, tt, tt, tt,
      tt, tt, ff, tt, tt, ff, ff, tt],
     [tt, tt, tt, tt, tt, tt, tt, tt, tt, tt, tt, tt, tt, tt, tt,
      tt, ff, tt, ff, tt, tt, ff],
     [tt, tt, tt, tt, tt, tt, tt, tt, tt, tt, tt, tt, tt, tt, tt,
      tt, tt, ff, tt, tt, ff, tt, ff],
     [tt, tt, tt, tt, tt, tt, tt, tt, tt, tt, tt, tt, tt, tt, tt,
      tt, tt, ff, tt, tt, ff, tt, tt],
     [tt, tt, tt, tt, tt, tt, tt, tt, tt, tt, tt, tt, tt, tt, tt,
      tt, tt, ff, tt, tt, tt, ff, ff],
     [tt, tt, tt, tt, tt, tt, tt, tt, tt, tt, tt, tt, tt, tt, tt,
      tt, tt, ff, tt, tt, tt, ff, tt],
     [tt, tt, tt, tt, tt, tt, tt, tt, tt, tt, tt, tt, tt, tt, tt,
      tt, tt, ff, tt, tt, tt, tt, ff],
     [tt, tt, tt, tt, tt, tt, tt, tt, tt, tt, tt, tt, tt, tt, tt,
      tt, tt, tt, tt, ff, tt, ff, tt, tt],
     [tt, tt, tt, tt, tt, tt, tt, tt, tt, tt, tt, tt, tt, tt, tt,
      tt, tt, ff, tt, tt, tt, tt, tt],
     [tt, tt, tt, tt, tt, tt, tt, tt, tt, tt, tt, tt, tt, tt, tt,
      tt, tt, tt, tt, ff, tt, tt, ff, ff],
     [tt, tt, tt, tt, tt, tt, tt, tt, tt, tt, tt, tt, tt, tt, tt,
      tt, tt, tt, tt, ff, tt, tt, ff, tt],
     [tt, tt, tt, tt, tt, tt, tt, tt, tt, tt, tt, tt, tt, tt, tt,
      tt, ff, tt, ff, tt, tt, tt],
     [tt, tt, tt, tt, tt, tt, tt, tt, tt, tt, tt, tt, tt, tt, tt,
      tt, tt, tt, ff, ff, ff, ff, ff],
     [tt, tt, tt, tt, tt, tt, tt, tt, tt, tt, tt, tt, tt, tt, tt,
      tt, tt, tt, tt, ff, tt, tt, tt, ff],
     [tt, tt, tt, tt, tt, tt, tt, tt, tt, tt, tt, tt, tt, tt, tt,
      tt, tt, tt, ff, ff, ff, ff, tt],
     [tt, tt, tt, tt, tt, tt, tt, tt, tt, tt, tt, tt, tt, tt, tt,
      tt, tt, tt, ff, ff, ff, tt, ff],
     [tt, tt, tt, tt, tt, tt, tt, tt, tt, tt, tt, tt, tt, tt, tt,
      tt, tt, tt, ff, ff, ff, tt, tt],
     [tt, tt, tt, tt, tt, tt, tt, tt, tt, tt, tt, tt, tt, tt, tt,
      tt, tt, tt, ff, ff, tt, ff, ff],
     [tt, tt, tt, tt, tt, tt, tt, tt, tt, tt, tt, tt, tt, tt, tt,
      ff, tt, tt, tt, ff, ff],
     [tt, tt, tt, tt, tt, tt, tt, tt, tt, tt, tt, tt, tt, tt, tt,
      tt, ff, tt, tt, ff, ff, ff],
     [tt, tt, tt, tt, tt, tt, tt, tt, tt, tt, tt, tt, tt, tt, tt,
      tt, tt, tt, ff, ff, tt, ff, tt],
     [tt, tt, tt, tt, tt, tt, tt, tt, tt, tt, tt, tt, tt, tt, tt,
      tt, ff, tt, tt, ff, ff, tt],
     [tt, tt, tt, tt, tt, tt, tt, tt, tt, tt, tt, tt, tt, tt, tt,
      tt, tt, tt, ff, ff, tt, tt, ff],
     [tt, tt, tt, tt, tt, tt, tt, tt, tt, tt, tt, tt, tt, tt, tt,
      tt, tt, tt, ff, ff, tt, tt, tt],
     [tt, tt, tt, tt, tt, tt, tt, tt, tt, tt, tt, tt, tt, tt, tt,
      tt, tt, tt, tt, ff, tt, tt, tt, tt],
     [tt, tt, tt, tt, tt, tt, tt, tt, tt, tt, tt, tt, tt, tt, tt,
      tt, ff, tt, tt, ff, tt, ff],
     [tt, tt, tt, tt, tt, tt, tt, tt, tt, tt, tt, tt, tt, tt, tt,
      ff, tt, tt, tt, ff, tt],
     [tt, tt, tt, tt, tt, tt, tt, tt, tt, tt, tt, tt, tt, tt, tt,
      ff, tt, ff, ff, tt],
     [tt, tt, tt, tt, tt, tt, tt, tt, tt, tt, tt, tt, tt, tt, tt,
      tt, ff, tt, tt, ff, tt, tt],
     [tt, tt, tt, tt, tt, tt, tt, tt, tt, tt, tt, tt, tt, tt, tt,
      tt, ff, tt, tt, tt, ff, ff],
     [tt, tt, tt, tt, tt, tt, tt, tt, tt, tt, tt, tt, tt, tt, tt,
      tt, tt, tt, ff, tt, ff, ff, ff],
     [tt, tt, tt, tt, tt, tt, tt, tt, tt, tt, tt, tt, tt, tt, tt,
      tt, tt, tt, ff, tt, ff, ff, tt],
     [tt, tt, tt, tt, tt, tt, tt, tt, tt, tt, tt, tt, tt, tt, tt,
      ff, tt, tt, tt, tt, ff],
     [tt, tt, tt, tt, tt, tt, tt, tt, tt, tt, tt, tt, tt, tt, tt,
      tt, tt, tt, ff, tt, ff, tt, ff],
     [tt, tt, tt, tt, tt, tt, tt, tt, tt, tt, tt, tt, tt, tt, tt,
      tt, ff, tt, tt, tt, ff, tt],
     [tt, tt, tt, tt, tt, tt, tt, tt, tt, tt, tt, tt, tt, tt, tt,
      tt, ff, tt, tt, tt, tt, ff],
     [tt, tt, tt, tt, tt, tt, tt, tt, tt, tt, tt, tt, tt, tt, tt,
      tt, tt, tt, tt, tt, ff, ff, ff, ff],
     [tt, tt, tt, tt, tt, tt, tt, tt, tt, tt, tt, tt, tt, tt, tt,
      ff, tt, tt, tt, tt, tt],
     [tt, tt, tt, tt, tt, tt, tt, tt, tt, tt, tt, tt, tt, tt, tt,
      tt, ff, tt, tt, tt, tt, tt],
     [tt, tt, tt, tt, tt, tt, tt, tt, tt, tt, tt, tt, tt, tt, tt,
      tt, tt, tt, ff, tt, ff, tt, tt],
     [tt, tt, tt, tt, tt, tt, tt, tt, tt, tt, tt, tt, tt, tt, tt,
      tt, tt, tt, ff, tt, tt, ff, ff],
     [tt, tt, tt, tt, tt, tt, tt, tt, tt, tt, tt, tt, tt, tt, tt,
      tt, ff, ff, ff, ff, ff],
     [tt, tt, tt, tt, tt, tt, tt, tt, tt, tt, tt, tt, tt, tt, tt,
      tt, ff, ff, ff, ff, tt],
     [tt, tt, tt, tt, tt, tt, tt, tt, tt, tt, tt, tt, tt, tt, tt,
      tt, tt, ff, ff, ff, ff, ff],
     [tt, tt, tt, tt, tt, tt, tt, tt, tt, tt, tt, tt, tt, tt, tt,
      tt, ff, ff, ff, tt, ff],
     [tt, tt, tt, tt, tt, tt, tt, tt, tt, tt, tt, tt, tt, tt, tt,
      tt, tt, tt, ff, tt, tt, ff, tt],
     [tt, tt, tt, tt, tt, tt, tt, tt, tt, tt, tt, tt, tt, tt, tt,
      tt, tt, ff, ff, ff, ff, tt],
     [tt, tt, tt, tt, tt, tt, tt, tt, tt, tt, tt, tt, tt, tt, tt,
      tt, tt, tt, ff, tt, tt, tt, ff],
     [tt, tt, tt, tt, tt, tt, tt, tt, tt, tt, tt, tt, tt, tt, tt,
      tt, tt, tt, ff, tt, tt, tt, tt],
     [tt, tt, tt, tt, tt, tt, tt, tt, tt, tt, tt, tt, tt, tt, tt,
      ff, tt, ff, tt, ff],
     [tt, tt, tt, tt, tt, tt, tt, tt, tt, tt, tt, tt, tt, tt, tt,
      tt, tt, ff, ff, ff, tt, ff],
     [tt, tt, tt, tt, tt, tt, tt, tt, tt, tt, tt, tt, tt, tt, tt,
      tt, tt, ff, ff, ff, tt, tt],
     [tt, tt, tt, tt, tt, tt, tt, tt, tt, tt, tt, tt, tt, tt, tt,
      tt, tt, ff, ff, tt, ff, ff],
     [tt, tt, tt, tt, tt, tt, tt, tt, tt, tt, tt, tt, tt, tt, tt,
      tt, tt, tt, tt, ff, ff, ff, ff],
     [tt, tt, tt, tt, tt, tt, tt, tt, tt, tt, tt, tt, tt, tt, tt,
      tt, tt, ff, ff, tt, ff, tt],
     [tt, tt, tt, tt, tt, tt, tt, tt, tt, tt, tt, tt, tt, tt, tt,
      tt, tt, ff, ff, tt, tt, ff],
     [tt, tt, tt, tt, tt, tt, tt, tt, tt, tt, tt, tt, tt, tt, tt,
      tt, tt, tt, tt, ff, ff, ff, tt],
     [tt, tt, tt, tt, tt, tt, tt, tt, tt, tt, tt, tt, tt, tt, tt,
      tt, tt, tt, tt, tt, tt, ff, ff, ff, ff, ff],
     [tt, tt, tt, tt, tt, tt, tt, tt, tt, tt, tt, tt, tt, tt, tt,
      tt, tt, tt, tt, tt, tt, ff, ff, ff, ff, tt],
     [tt, tt, tt, tt, tt, tt, tt, tt, tt, tt, tt, tt, tt, tt, tt,
      ff, tt, ff, tt, tt],
     [tt, tt, tt, tt, tt, tt, tt, tt, tt, tt, tt, tt, tt, tt, tt,
      ff, ff, ff, tt],
     [tt, tt, tt, tt, tt, tt, tt, tt, tt, tt, tt, tt, tt, tt, tt,
      tt, tt, ff, ff, tt, tt, tt],
     [tt, tt, tt, tt, tt, tt, tt, tt, tt, tt, tt, tt, tt, tt, tt,
      tt, tt, tt, tt, ff, ff, tt, ff],
     [tt, tt, tt, tt, tt, tt, tt, tt, tt, tt, tt, tt, tt, tt, tt,
      tt, tt, ff, tt, ff, ff, ff],
     [tt, tt, tt, tt, tt, tt, tt, tt, tt, tt, tt, tt, tt, tt, tt,
      tt, tt, tt, tt, tt, ff, tt, tt, ff, ff],
     [tt, tt, tt, tt, tt, tt, tt, tt, tt, tt, tt, tt, tt, tt, tt,
      tt, tt, tt, tt, tt, tt, ff, ff, ff, tt, ff],
     [tt, tt, tt, tt, tt, tt, tt, tt, tt, tt, tt, tt, tt, tt, tt,
      tt, tt, tt, tt, tt, tt, ff, ff, ff, tt, tt],
     [tt, tt, tt, tt, tt, tt, tt, tt, tt, tt, tt, tt, tt, tt, tt,
      tt, tt, tt, tt, tt, tt, ff, ff, tt, ff, ff],
     [tt, tt, tt, tt, tt, tt, tt, tt, tt, tt, tt, tt, tt, tt, tt,
      tt, tt, tt, tt, tt, tt, ff, tt, tt, tt, tt, ff],
     [tt, tt, tt, tt, tt, tt, tt, tt, tt, tt, tt, tt, tt, tt, tt,
      tt, tt, tt, tt, tt, tt, ff, tt, tt, tt, tt, tt],
     [tt, tt, tt, tt, tt, tt, tt, tt, tt, tt, tt, tt, tt, tt, tt,
      tt, tt, tt, tt, tt, tt, ff, ff, tt, ff, tt],
     [tt, tt, tt, tt, tt, tt, tt, tt, tt, tt, tt, tt, tt, tt, tt,
      tt, tt, tt, tt, tt, ff, ff, ff, tt],
     [tt, tt, tt, tt, tt, tt, tt, tt, tt, tt, tt, tt, tt, tt, tt,
      tt, tt, tt, tt, tt, ff, tt, tt, ff, tt],
     [tt, tt, tt, tt, tt, tt, tt, tt, tt, tt, tt, tt, tt, tt, tt,
      ff, ff, tt, ff],
     [tt, tt, tt, tt, tt, tt, tt, tt, tt, tt, tt, tt, tt, tt, tt,
      tt, ff, ff, ff, tt, tt],
     [tt, tt, tt, tt, tt, tt, tt, tt, tt, tt, tt, tt, tt, tt, tt,
      tt, tt, tt, tt, tt, tt, ff, ff, tt, tt, ff],
     [tt, tt, tt, tt, tt, tt, tt, tt, tt, tt, tt, tt, tt, tt, tt,
      tt, tt, tt, tt, tt, tt, tt, ff, ff, ff, ff, ff],
     [tt, tt, tt, tt, tt, tt, tt, tt, tt, tt, tt, tt, tt, tt, tt,
      tt, tt, tt, tt, tt, tt, tt, ff, ff, ff, ff, tt],
     [tt, tt, tt, tt, tt, tt, tt, tt, tt, tt, tt, tt, tt, tt, tt,
      tt, tt, tt, tt, tt, tt, ff, ff, tt, tt, tt],
     [tt, tt, tt, tt, tt, tt, tt, tt, tt, tt, tt, tt, tt, tt, tt,
      tt, tt, tt, tt, tt, tt, tt, ff, ff, ff, tt, ff],
     [tt, tt, tt, tt, tt, tt, tt, tt, tt, tt, tt, tt, tt, tt, tt,
      tt, tt, tt, tt, tt, ff, ff, tt, ff],
     [tt, tt, tt, tt, tt, tt, tt, tt, tt, tt, tt, tt, tt, tt, tt,
      tt, ff, ff, tt, ff, ff],
     [tt, tt, tt, tt, tt, tt, tt, tt, tt, tt, tt, tt, tt, tt, tt,
      tt, ff, ff, tt, ff, tt],
     [tt, tt, tt, tt, tt, tt, tt, tt, tt, tt, tt, tt, tt, tt, tt,
      tt, tt, tt, tt, tt, tt, ff, tt, ff, ff, ff],
     [tt, tt, tt, tt, tt, tt, tt, tt, tt, tt, tt, tt, tt, tt, tt,
      tt, tt, tt, tt, tt, tt, ff, tt, ff, ff, tt],
     [tt, tt, tt, tt, tt, tt, tt, tt, tt, tt, tt, tt, tt, tt, tt,
      tt, tt, tt, tt, tt, tt, tt, tt, tt, tt, tt, ff, tt],
     [tt, tt, tt, tt, tt, tt, tt, tt, tt, tt, tt, tt, tt, tt, tt,
      tt, tt, tt, tt, tt, tt, tt, ff, ff, ff, tt, tt],
     [tt, tt, tt, tt, tt, tt, tt, tt, tt, tt, tt, tt, tt, tt, tt,
      tt, tt, tt, tt, tt, tt, tt, ff, ff, tt, ff, ff],
     [tt, tt, tt, tt, tt, tt, tt, tt, tt, tt, tt, tt, tt, tt, tt,
      tt, tt, tt, tt, tt, tt, tt, ff, ff, tt, ff, tt],
     [tt, tt, tt, tt, tt, tt, tt, tt, tt, tt, tt, tt, tt, tt, tt,
      ff, tt, tt, ff, ff],
     [tt, tt, tt, tt, tt, tt, tt, tt, tt, tt, tt, tt, tt, tt, tt,
      tt, tt, tt, tt, tt, ff, ff, tt, tt],
     [tt, tt, tt, tt, tt, tt, tt, tt, tt, tt, tt, tt, tt, tt, tt,
      ff, tt, tt, ff, tt],
     [tt, tt, tt, tt, tt, tt, tt, tt, tt, tt, tt, tt, tt, tt, tt,
      tt, ff, ff, tt, tt, ff],
     [tt, tt, tt, tt, tt, tt, tt, tt, tt, tt, tt, tt, tt, tt, tt,
      tt, tt, ff, tt, ff, ff, tt],
     [tt, tt, tt, tt, tt, tt, tt, tt, tt, tt, tt, tt, tt, tt, tt,
      tt, ff, ff, tt, tt, tt],
     [tt, tt, tt, tt, tt, tt, tt, tt, tt, tt, tt, tt, tt, tt, tt,
      tt, ff, tt, ff, ff, ff],
     [tt, tt, tt, tt, tt, tt, tt, tt, tt, tt, tt, tt, tt, tt, tt,
      tt, tt, tt, tt, ff, ff, tt, tt],
     [tt, tt, tt, tt, tt, tt, tt, tt, tt, tt, tt, tt, tt, tt, tt,
      tt, tt, ff, tt, ff, tt, ff],
     [tt, tt, tt, tt, tt, tt, tt, tt, tt, tt, tt, tt, tt, tt, tt,
      tt, tt, ff, tt, ff, tt, tt],
     [tt, tt, tt, tt, tt, tt, tt, tt, tt, tt, tt, tt, tt, tt, tt,
      tt, tt, tt, tt, tt, ff, tt, tt, tt, ff],
     [tt, tt, tt, tt, tt, tt, tt, tt, tt, tt, tt, tt, tt, tt, tt,
      tt, tt, tt, tt, tt, ff, tt, tt, tt, tt],
     [tt, tt, tt, tt, tt, tt, tt, tt, tt, tt, tt, tt, tt, tt, tt,
      tt, tt, tt, tt, tt, ff, tt, ff, ff],
     [tt, tt, tt, tt, tt, tt, tt, tt, tt, tt, tt, tt, tt, tt, tt,
      tt, tt, tt, tt, tt, ff, tt, ff, tt],
     [tt, tt, tt, tt, tt, tt, tt, tt, tt, tt, tt, tt, tt, tt, tt,
      tt, tt, tt, tt, tt, tt, ff, tt, ff, tt, ff],
     [tt, tt, tt, tt, tt, tt, tt, tt, tt, tt, tt, tt, tt, tt, tt,
      tt, tt, tt, tt, ff, tt, ff, ff],
     [tt, tt, tt, tt, tt, tt, tt, tt, tt, tt, tt, tt, tt, tt, tt,
      tt, tt, tt, tt, tt, tt, ff, tt, ff, tt, tt],
     [tt, tt, tt, tt, tt, tt, tt, tt, tt, tt, tt, tt, tt, tt, tt,
      tt, tt, tt, tt, tt, tt, tt, ff, ff, tt, tt, ff],
     [tt, tt, tt, tt, tt, tt, tt, tt, tt, tt, tt, tt, tt, tt, tt,
      tt, tt, tt, tt, tt, tt, ff, tt, tt, ff, ff],
     [tt, tt, tt, tt, tt, tt, tt, tt, tt, tt, tt, tt, tt, tt, tt,
      tt, tt, tt, tt, tt, tt, ff, tt, tt, ff, tt],
     [tt, tt, tt, tt, tt, tt, tt, tt, tt, tt, tt, tt, tt, tt, tt,
      tt, tt, tt, tt, tt, tt, tt, ff, ff, tt, tt, tt],
     [tt, tt, tt, tt, tt, tt, tt, tt, tt, tt, tt, tt, tt, tt, tt,
      tt, tt, tt, tt, tt, tt, tt, ff, tt, ff, ff, ff],
     [tt, tt, tt, tt, tt, tt, tt, tt, tt, tt, tt, tt, tt, tt, tt,
      tt, tt, tt, tt, tt, tt, tt, ff, tt, ff, ff, tt],
     [tt, tt, tt, tt, tt, tt, tt, tt, tt, tt, tt, tt, tt, tt, tt,
      tt, tt, tt, tt, tt, tt, tt, ff, tt, ff, tt, ff],
     [tt, tt, tt, tt, tt, tt, tt, tt, tt, tt, tt, tt, tt, tt, tt,
      tt, tt, tt, tt, tt, tt, tt, ff, tt, ff, tt, tt],
     [tt, tt, tt, tt, tt, tt, tt, tt, tt, tt, tt, tt, tt, tt, tt,
      tt, tt, tt, tt, tt, tt, tt, tt, tt, tt, tt, tt, ff],
     [tt, tt, tt, tt, tt, tt, tt, tt, tt, tt, tt, tt, tt, tt, tt,
      tt, tt, tt, tt, tt, tt, tt, ff, tt, tt, ff, ff],
     [tt, tt, tt, tt, tt, tt, tt, tt, tt, tt, tt, tt, tt, tt, tt,
      tt, tt, tt, tt, tt, tt, tt, ff, tt, tt, ff, tt],
     [tt, tt, tt, tt, tt, tt, tt, tt, tt, tt, tt, tt, tt, tt, tt,
      tt, tt, tt, tt, tt, tt, tt, ff, tt, tt, tt, ff],
     [tt, tt, tt, tt, tt, tt, tt, tt, tt, tt, tt, tt, tt, tt, tt,
      tt, tt, tt, tt, tt, tt, tt, ff, tt, tt, tt, tt],
     [tt, tt, tt, tt, tt, tt, tt, tt, tt, tt, tt, tt, tt, tt, tt,
      tt, tt, tt, tt, tt, tt, tt, tt, ff, ff, ff, ff],
     [tt, tt, tt, tt, tt, tt, tt, tt, tt, tt, tt, tt, tt, tt, tt,
      tt, tt, tt, tt, tt, tt, ff, tt, tt, tt, ff],
     [tt, tt, tt, tt, tt, tt, tt, tt, tt, tt, tt, tt, tt, tt, tt,
      tt, tt, tt, tt, tt, tt, tt, tt, tt, tt, tt, tt, tt, tt, tt]]"
  by (simp add: HUFFMAN_ENCODE_def word_bits_def upt_rec)

lemma huff_code_list:
  "map huff_code (map word_of_nat [0..<256]) @ [eos_code] =
   map (\<lambda>(n, c). word_bits (unat n) c) HUFFMAN_ENCODE"
proof (rule nth_equalityI)
  fix i assume i: "i < length (map huff_code (map word_of_nat [0..<256]) @ [eos_code])"
  then consider "i < 256" | "i = 256" by fastforce
  then show "(map huff_code (map word_of_nat [0..<256]) @ [eos_code]) ! i =
      map (\<lambda>(n, c). word_bits (unat n) c) HUFFMAN_ENCODE ! i"
    by cases (simp_all add: huff_code_def eos_code_def Let_def nth_append unat_of_nat take_bit_eq_mod)
qed simp

lemma huff_code_simps:
  "huff_code 0 = [tt, tt, tt, tt, tt, tt, tt, tt, tt, tt, ff, ff, ff] \<and>
   huff_code 1 = [tt, tt, tt, tt, tt, tt, tt, tt, tt, tt, tt, tt, tt, tt,
      tt, tt, tt, ff, tt, tt, ff, ff, ff] \<and>
   huff_code 2 = [tt, tt, tt, tt, tt, tt, tt, tt, tt, tt, tt, tt, tt, tt,
      tt, tt, tt, tt, tt, tt, tt, tt, tt, ff, ff, ff, tt, ff] \<and>
   huff_code 3 = [tt, tt, tt, tt, tt, tt, tt, tt, tt, tt, tt, tt, tt, tt,
      tt, tt, tt, tt, tt, tt, tt, tt, tt, ff, ff, ff, tt, tt] \<and>
   huff_code 4 = [tt, tt, tt, tt, tt, tt, tt, tt, tt, tt, tt, tt, tt, tt,
      tt, tt, tt, tt, tt, tt, tt, tt, tt, ff, ff, tt, ff, ff] \<and>
   huff_code 5 = [tt, tt, tt, tt, tt, tt, tt, tt, tt, tt, tt, tt, tt, tt,
      tt, tt, tt, tt, tt, tt, tt, tt, tt, ff, ff, tt, ff, tt] \<and>
   huff_code 6 = [tt, tt, tt, tt, tt, tt, tt, tt, tt, tt, tt, tt, tt, tt,
      tt, tt, tt, tt, tt, tt, tt, tt, tt, ff, ff, tt, tt, ff] \<and>
   huff_code 7 = [tt, tt, tt, tt, tt, tt, tt, tt, tt, tt, tt, tt, tt, tt,
      tt, tt, tt, tt, tt, tt, tt, tt, tt, ff, ff, tt, tt, tt] \<and>
   huff_code 8 = [tt, tt, tt, tt, tt, tt, tt, tt, tt, tt, tt, tt, tt, tt,
      tt, tt, tt, tt, tt, tt, tt, tt, tt, ff, tt, ff, ff, ff] \<and>
   huff_code 9 = [tt, tt, tt, tt, tt, tt, tt, tt, tt, tt, tt, tt, tt, tt,
      tt, tt, tt, tt, tt, ff, tt, ff, tt, ff] \<and>
   huff_code 10 = [tt, tt, tt, tt, tt, tt, tt, tt, tt, tt, tt, tt, tt, tt,
      tt, tt, tt, tt, tt, tt, tt, tt, tt, tt, tt, tt, tt, tt, ff,
      ff] \<and>
   huff_code 11 = [tt, tt, tt, tt, tt, tt, tt, tt, tt, tt, tt, tt, tt, tt,
      tt, tt, tt, tt, tt, tt, tt, tt, tt, ff, tt, ff, ff, tt] \<and>
   huff_code 12 = [tt, tt, tt, tt, tt, tt, tt, tt, tt, tt, tt, tt, tt, tt,
      tt, tt, tt, tt, tt, tt, tt, tt, tt, ff, tt, ff, tt, ff] \<and>
   huff_code 13 = [tt, tt, tt, tt, tt, tt, tt, tt, tt, tt, tt, tt, tt, tt,
      tt, tt, tt, tt, tt, tt, tt, tt, tt, tt, tt, tt, tt, tt, ff,
      tt] \<and>
   huff_code 14 = [tt, tt, tt, tt, tt, tt, tt, tt, tt, tt, tt, tt, tt, tt,
      tt, tt, tt, tt, tt, tt, tt, tt, tt, ff, tt, ff, tt, tt] \<and>
   huff_code 15 = [tt, tt, tt, tt, tt, tt, tt, tt, tt, tt, tt, tt, tt, tt,
      tt, tt, tt, tt, tt, tt, tt, tt, tt, ff, tt, tt, ff, ff] \<and>
   huff_code 16 = [tt, tt, tt, tt, tt, tt, tt, tt, tt, tt, tt, tt, tt, tt,
      tt, tt, tt, tt, tt, tt, tt, tt, tt, ff, tt, tt, ff, tt] \<and>
   huff_code 17 = [tt, tt, tt, tt, tt, tt, tt, tt, tt, tt, tt, tt, tt, tt,
      tt, tt, tt, tt, tt, tt, tt, tt, tt, ff, tt, tt, tt, ff] \<and>
   huff_code 18 = [tt, tt, tt, tt, tt, tt, tt, tt, tt, tt, tt, tt, tt, tt,
      tt, tt, tt, tt, tt, tt, tt, tt, tt, ff, tt, tt, tt, tt] \<and>
   huff_code 19 = [tt, tt, tt, tt, tt, tt, tt, tt, tt, tt, tt, tt, tt, tt,
      tt, tt, tt, tt, tt, tt, tt, tt, tt, tt, ff, ff, ff, ff] \<and>
   huff_code 20 = [tt, tt, tt, tt, tt, tt, tt, tt, tt, tt, tt, tt, tt, tt,
      tt, tt, tt, tt, tt, tt, tt, tt, tt, tt, ff, ff, ff, tt] \<and>
   huff_code 21 = [tt, tt, tt, tt, tt, tt, tt, tt, tt, tt, tt, tt, tt, tt,
      tt, tt, tt, tt, tt, tt, tt, tt, tt, tt, ff, ff, tt, ff] \<and>
   huff_code 22 = [tt, tt, tt, tt, tt, tt, tt, tt, tt, tt, tt, tt, tt, tt,
      tt, tt, tt, tt, tt, tt, tt, tt, tt, tt, tt, tt, tt, tt, tt,
      ff] \<and>
   huff_code 23 = [tt, tt, tt, tt, tt, tt, tt, tt, tt, tt, tt, tt, tt, tt,
      tt, tt, tt, tt, tt, tt, tt, tt, tt, tt, ff, ff, tt, tt] \<and>
   huff_code 24 = [tt, tt, tt, tt, tt, tt, tt, tt, tt, tt, tt, tt, tt, tt,
      tt, tt, tt, tt, tt, tt, tt, tt, tt, tt, ff, tt, ff, ff] \<and>
   huff_code 25 = [tt, tt, tt, tt, tt, tt, tt, tt, tt, tt, tt, tt, tt, tt,
      tt, tt, tt, tt, tt, tt, tt, tt, tt, tt, ff, tt, ff, tt] \<and>
   huff_code 26 = [tt, tt, tt, tt, tt, tt, tt, tt, tt, tt, tt, tt, tt, tt,
      tt, tt, tt, tt, tt, tt, tt, tt, tt, tt, ff, tt, tt, ff] \<and>
   huff_code 27 = [tt, tt, tt, tt, tt, tt, tt, tt, tt, tt, tt, tt, tt, tt,
      tt, tt, tt, tt, tt, tt, tt, tt, tt, tt, ff, tt, tt, tt] \<and>
   huff_code 28 = [tt, tt, tt, tt, tt, tt, tt, tt, tt, tt, tt, tt, tt, tt,
      tt, tt, tt, tt, tt, tt, tt, tt, tt, tt, tt, ff, ff, ff] \<and>
   huff_code 29 = [tt, tt, tt, tt, tt, tt, tt, tt, tt, tt, tt, tt, tt, tt,
      tt, tt, tt, tt, tt, tt, tt, tt, tt, tt, tt, ff, ff, tt] \<and>
   huff_code 30 = [tt, tt, tt, tt, tt, tt, tt, tt, tt, tt, tt, tt, tt, tt,
      tt, tt, tt, tt, tt, tt, tt, tt, tt, tt, tt, ff, tt, ff] \<and>
   huff_code 31 = [tt, tt, tt, tt, tt, tt, tt, tt, tt, tt, tt, tt, tt, tt,
      tt, tt, tt, tt, tt, tt, tt, tt, tt, tt, tt, ff, tt, tt] \<and>
   huff_code 32 = [ff, tt, ff, tt, ff, ff] \<and>
   huff_code 33 = [tt, tt, tt, tt, tt, tt, tt, ff, ff, ff] \<and>
   huff_code 34 = [tt, tt, tt, tt, tt, tt, tt, ff, ff, tt] \<and>
   huff_code 35 = [tt, tt, tt, tt, tt, tt, tt, tt, tt, ff, tt, ff] \<and>
   huff_code 36 = [tt, tt, tt, tt, tt, tt, tt, tt, tt, tt, ff, ff, tt] \<and>
   huff_code 37 = [ff, tt, ff, tt, ff, tt] \<and>
   huff_code 38 = [tt, tt, tt, tt, tt, ff, ff, ff] \<and>
   huff_code 39 = [tt, tt, tt, tt, tt, tt, tt, tt, ff, tt, ff] \<and>
   huff_code 40 = [tt, tt, tt, tt, tt, tt, tt, ff, tt, ff] \<and>
   huff_code 41 = [tt, tt, tt, tt, tt, tt, tt, ff, tt, tt] \<and>
   huff_code 42 = [tt, tt, tt, tt, tt, ff, ff, tt] \<and>
   huff_code 43 = [tt, tt, tt, tt, tt, tt, tt, tt, ff, tt, tt] \<and>
   huff_code 44 = [tt, tt, tt, tt, tt, ff, tt, ff] \<and>
   huff_code 45 = [ff, tt, ff, tt, tt, ff] \<and>
   huff_code 46 = [ff, tt, ff, tt, tt, tt] \<and>
   huff_code 47 = [ff, tt, tt, ff, ff, ff] \<and>
   huff_code 48 = [ff, ff, ff, ff, ff] \<and>
   huff_code 49 = [ff, ff, ff, ff, tt] \<and>
   huff_code 50 = [ff, ff, ff, tt, ff] \<and>
   huff_code 51 = [ff, tt, tt, ff, ff, tt] \<and>
   huff_code 52 = [ff, tt, tt, ff, tt, ff] \<and>
   huff_code 53 = [ff, tt, tt, ff, tt, tt] \<and>
   huff_code 54 = [ff, tt, tt, tt, ff, ff] \<and>
   huff_code 55 = [ff, tt, tt, tt, ff, tt] \<and>
   huff_code 56 = [ff, tt, tt, tt, tt, ff] \<and>
   huff_code 57 = [ff, tt, tt, tt, tt, tt] \<and>
   huff_code 58 = [tt, ff, tt, tt, tt, ff, ff] \<and>
   huff_code 59 = [tt, tt, tt, tt, tt, ff, tt, tt] \<and>
   huff_code 60 = [tt, tt, tt, tt, tt, tt, tt, tt, tt, tt, tt, tt, tt, ff,
      ff] \<and>
   huff_code 61 = [tt, ff, ff, ff, ff, ff] \<and>
   huff_code 62 = [tt, tt, tt, tt, tt, tt, tt, tt, tt, ff, tt, tt] \<and>
   huff_code 63 = [tt, tt, tt, tt, tt, tt, tt, tt, ff, ff] \<and>
   huff_code 64 = [tt, tt, tt, tt, tt, tt, tt, tt, tt, tt, ff, tt, ff] \<and>
   huff_code 65 = [tt, ff, ff, ff, ff, tt] \<and>
   huff_code 66 = [tt, ff, tt, tt, tt, ff, tt] \<and>
   huff_code 67 = [tt, ff, tt, tt, tt, tt, ff] \<and>
   huff_code 68 = [tt, ff, tt, tt, tt, tt, tt] \<and>
   huff_code 69 = [tt, tt, ff, ff, ff, ff, ff] \<and>
   huff_code 70 = [tt, tt, ff, ff, ff, ff, tt] \<and>
   huff_code 71 = [tt, tt, ff, ff, ff, tt, ff] \<and>
   huff_code 72 = [tt, tt, ff, ff, ff, tt, tt] \<and>
   huff_code 73 = [tt, tt, ff, ff, tt, ff, ff] \<and>
   huff_code 74 = [tt, tt, ff, ff, tt, ff, tt] \<and>
   huff_code 75 = [tt, tt, ff, ff, tt, tt, ff] \<and>
   huff_code 76 = [tt, tt, ff, ff, tt, tt, tt] \<and>
   huff_code 77 = [tt, tt, ff, tt, ff, ff, ff] \<and>
   huff_code 78 = [tt, tt, ff, tt, ff, ff, tt] \<and>
   huff_code 79 = [tt, tt, ff, tt, ff, tt, ff] \<and>
   huff_code 80 = [tt, tt, ff, tt, ff, tt, tt] \<and>
   huff_code 81 = [tt, tt, ff, tt, tt, ff, ff] \<and>
   huff_code 82 = [tt, tt, ff, tt, tt, ff, tt] \<and>
   huff_code 83 = [tt, tt, ff, tt, tt, tt, ff] \<and>
   huff_code 84 = [tt, tt, ff, tt, tt, tt, tt] \<and>
   huff_code 85 = [tt, tt, tt, ff, ff, ff, ff] \<and>
   huff_code 86 = [tt, tt, tt, ff, ff, ff, tt] \<and>
   huff_code 87 = [tt, tt, tt, ff, ff, tt, ff] \<and>
   huff_code 88 = [tt, tt, tt, tt, tt, tt, ff, ff] \<and>
   huff_code 89 = [tt, tt, tt, ff, ff, tt, tt] \<and>
   huff_code 90 = [tt, tt, tt, tt, tt, tt, ff, tt] \<and>
   huff_code 91 = [tt, tt, tt, tt, tt, tt, tt, tt, tt, tt, ff, tt, tt] \<and>
   huff_code 92 = [tt, tt, tt, tt, tt, tt, tt, tt, tt, tt, tt, tt, tt, tt,
      tt, ff, ff, ff, ff] \<and>
   huff_code 93 = [tt, tt, tt, tt, tt, tt, tt, tt, tt, tt, tt, ff, ff] \<and>
   huff_code 94 = [tt, tt, tt, tt, tt, tt, tt, tt, tt, tt, tt, tt, ff,
      ff] \<and>
   huff_code 95 = [tt, ff, ff, ff, tt, ff] \<and>
   huff_code 96 = [tt, tt, tt, tt, tt, tt, tt, tt, tt, tt, tt, tt, tt, ff,
      tt] \<and>
   huff_code 97 = [ff, ff, ff, tt, tt] \<and>
   huff_code 98 = [tt, ff, ff, ff, tt, tt] \<and>
   huff_code 99 = [ff, ff, tt, ff, ff] \<and>
   huff_code 100 = [tt, ff, ff, tt, ff, ff] \<and>
   huff_code 101 = [ff, ff, tt, ff, tt] \<and>
   huff_code 102 = [tt, ff, ff, tt, ff, tt] \<and>
   huff_code 103 = [tt, ff, ff, tt, tt, ff] \<and>
   huff_code 104 = [tt, ff, ff, tt, tt, tt] \<and>
   huff_code 105 = [ff, ff, tt, tt, ff] \<and>
   huff_code 106 = [tt, tt, tt, ff, tt, ff, ff] \<and>
   huff_code 107 = [tt, tt, tt, ff, tt, ff, tt] \<and>
   huff_code 108 = [tt, ff, tt, ff, ff, ff] \<and>
   huff_code 109 = [tt, ff, tt, ff, ff, tt] \<and>
   huff_code 110 = [tt, ff, tt, ff, tt, ff] \<and>
   huff_code 111 = [ff, ff, tt, tt, tt] \<and>
   huff_code 112 = [tt, ff, tt, ff, tt, tt] \<and>
   huff_code 113 = [tt, tt, tt, ff, tt, tt, ff] \<and>
   huff_code 114 = [tt, ff, tt, tt, ff, ff] \<and>
   huff_code 115 = [ff, tt, ff, ff, ff] \<and>
   huff_code 116 = [ff, tt, ff, ff, tt] \<and>
   huff_code 117 = [tt, ff, tt, tt, ff, tt] \<and>
   huff_code 118 = [tt, tt, tt, ff, tt, tt, tt] \<and>
   huff_code 119 = [tt, tt, tt, tt, ff, ff, ff] \<and>
   huff_code 120 = [tt, tt, tt, tt, ff, ff, tt] \<and>
   huff_code 121 = [tt, tt, tt, tt, ff, tt, ff] \<and>
   huff_code 122 = [tt, tt, tt, tt, ff, tt, tt] \<and>
   huff_code 123 = [tt, tt, tt, tt, tt, tt, tt, tt, tt, tt, tt, tt, tt, tt,
      ff] \<and>
   huff_code 124 = [tt, tt, tt, tt, tt, tt, tt, tt, tt, ff, ff] \<and>
   huff_code 125 = [tt, tt, tt, tt, tt, tt, tt, tt, tt, tt, tt, tt, ff,
      tt] \<and>
   huff_code 126 = [tt, tt, tt, tt, tt, tt, tt, tt, tt, tt, tt, ff, tt] \<and>
   huff_code 127 = [tt, tt, tt, tt, tt, tt, tt, tt, tt, tt, tt, tt, tt, tt,
      tt, tt, tt, tt, tt, tt, tt, tt, tt, tt, tt, tt, ff, ff] \<and>
   huff_code 128 = [tt, tt, tt, tt, tt, tt, tt, tt, tt, tt, tt, tt, tt, tt,
      tt, ff, ff, tt, tt, ff] \<and>
   huff_code 129 = [tt, tt, tt, tt, tt, tt, tt, tt, tt, tt, tt, tt, tt, tt,
      tt, tt, ff, tt, ff, ff, tt, ff] \<and>
   huff_code 130 = [tt, tt, tt, tt, tt, tt, tt, tt, tt, tt, tt, tt, tt, tt,
      tt, ff, ff, tt, tt, tt] \<and>
   huff_code 131 = [tt, tt, tt, tt, tt, tt, tt, tt, tt, tt, tt, tt, tt, tt,
      tt, ff, tt, ff, ff, ff] \<and>
   huff_code 132 = [tt, tt, tt, tt, tt, tt, tt, tt, tt, tt, tt, tt, tt, tt,
      tt, tt, ff, tt, ff, ff, tt, tt] \<and>
   huff_code 133 = [tt, tt, tt, tt, tt, tt, tt, tt, tt, tt, tt, tt, tt, tt,
      tt, tt, ff, tt, ff, tt, ff, ff] \<and>
   huff_code 134 = [tt, tt, tt, tt, tt, tt, tt, tt, tt, tt, tt, tt, tt, tt,
      tt, tt, ff, tt, ff, tt, ff, tt] \<and>
   huff_code 135 = [tt, tt, tt, tt, tt, tt, tt, tt, tt, tt, tt, tt, tt, tt,
      tt, tt, tt, ff, tt, tt, ff, ff, tt] \<and>
   huff_code 136 = [tt, tt, tt, tt, tt, tt, tt, tt, tt, tt, tt, tt, tt, tt,
      tt, tt, ff, tt, ff, tt, tt, ff] \<and>
   huff_code 137 = [tt, tt, tt, tt, tt, tt, tt, tt, tt, tt, tt, tt, tt, tt,
      tt, tt, tt, ff, tt, tt, ff, tt, ff] \<and>
   huff_code 138 = [tt, tt, tt, tt, tt, tt, tt, tt, tt, tt, tt, tt, tt, tt,
      tt, tt, tt, ff, tt, tt, ff, tt, tt] \<and>
   huff_code 139 = [tt, tt, tt, tt, tt, tt, tt, tt, tt, tt, tt, tt, tt, tt,
      tt, tt, tt, ff, tt, tt, tt, ff, ff] \<and>
   huff_code 140 = [tt, tt, tt, tt, tt, tt, tt, tt, tt, tt, tt, tt, tt, tt,
      tt, tt, tt, ff, tt, tt, tt, ff, tt] \<and>
   huff_code 141 = [tt, tt, tt, tt, tt, tt, tt, tt, tt, tt, tt, tt, tt, tt,
      tt, tt, tt, ff, tt, tt, tt, tt, ff] \<and>
   huff_code 142 = [tt, tt, tt, tt, tt, tt, tt, tt, tt, tt, tt, tt, tt, tt,
      tt, tt, tt, tt, tt, ff, tt, ff, tt, tt] \<and>
   huff_code 143 = [tt, tt, tt, tt, tt, tt, tt, tt, tt, tt, tt, tt, tt, tt,
      tt, tt, tt, ff, tt, tt, tt, tt, tt] \<and>
   huff_code 144 = [tt, tt, tt, tt, tt, tt, tt, tt, tt, tt, tt, tt, tt, tt,
      tt, tt, tt, tt, tt, ff, tt, tt, ff, ff] \<and>
   huff_code 145 = [tt, tt, tt, tt, tt, tt, tt, tt, tt, tt, tt, tt, tt, tt,
      tt, tt, tt, tt, tt, ff, tt, tt, ff, tt] \<and>
   huff_code 146 = [tt, tt, tt, tt, tt, tt, tt, tt, tt, tt, tt, tt, tt, tt,
      tt, tt, ff, tt, ff, tt, tt, tt] \<and>
   huff_code 147 = [tt, tt, tt, tt, tt, tt, tt, tt, tt, tt, tt, tt, tt, tt,
      tt, tt, tt, tt, ff, ff, ff, ff, ff] \<and>
   huff_code 148 = [tt, tt, tt, tt, tt, tt, tt, tt, tt, tt, tt, tt, tt, tt,
      tt, tt, tt, tt, tt, ff, tt, tt, tt, ff] \<and>
   huff_code 149 = [tt, tt, tt, tt, tt, tt, tt, tt, tt, tt, tt, tt, tt, tt,
      tt, tt, tt, tt, ff, ff, ff, ff, tt] \<and>
   huff_code 150 = [tt, tt, tt, tt, tt, tt, tt, tt, tt, tt, tt, tt, tt, tt,
      tt, tt, tt, tt, ff, ff, ff, tt, ff] \<and>
   huff_code 151 = [tt, tt, tt, tt, tt, tt, tt, tt, tt, tt, tt, tt, tt, tt,
      tt, tt, tt, tt, ff, ff, ff, tt, tt] \<and>
   huff_code 152 = [tt, tt, tt, tt, tt, tt, tt, tt, tt, tt, tt, tt, tt, tt,
      tt, tt, tt, tt, ff, ff, tt, ff, ff] \<and>
   huff_code 153 = [tt, tt, tt, tt, tt, tt, tt, tt, tt, tt, tt, tt, tt, tt,
      tt, ff, tt, tt, tt, ff, ff] \<and>
   huff_code 154 = [tt, tt, tt, tt, tt, tt, tt, tt, tt, tt, tt, tt, tt, tt,
      tt, tt, ff, tt, tt, ff, ff, ff] \<and>
   huff_code 155 = [tt, tt, tt, tt, tt, tt, tt, tt, tt, tt, tt, tt, tt, tt,
      tt, tt, tt, tt, ff, ff, tt, ff, tt] \<and>
   huff_code 156 = [tt, tt, tt, tt, tt, tt, tt, tt, tt, tt, tt, tt, tt, tt,
      tt, tt, ff, tt, tt, ff, ff, tt] \<and>
   huff_code 157 = [tt, tt, tt, tt, tt, tt, tt, tt, tt, tt, tt, tt, tt, tt,
      tt, tt, tt, tt, ff, ff, tt, tt, ff] \<and>
   huff_code 158 = [tt, tt, tt, tt, tt, tt, tt, tt, tt, tt, tt, tt, tt, tt,
      tt, tt, tt, tt, ff, ff, tt, tt, tt] \<and>
   huff_code 159 = [tt, tt, tt, tt, tt, tt, tt, tt, tt, tt, tt, tt, tt, tt,
      tt, tt, tt, tt, tt, ff, tt, tt, tt, tt] \<and>
   huff_code 160 = [tt, tt, tt, tt, tt, tt, tt, tt, tt, tt, tt, tt, tt, tt,
      tt, tt, ff, tt, tt, ff, tt, ff] \<and>
   huff_code 161 = [tt, tt, tt, tt, tt, tt, tt, tt, tt, tt, tt, tt, tt, tt,
      tt, ff, tt, tt, tt, ff, tt] \<and>
   huff_code 162 = [tt, tt, tt, tt, tt, tt, tt, tt, tt, tt, tt, tt, tt, tt,
      tt, ff, tt, ff, ff, tt] \<and>
   huff_code 163 = [tt, tt, tt, tt, tt, tt, tt, tt, tt, tt, tt, tt, tt, tt,
      tt, tt, ff, tt, tt, ff, tt, tt] \<and>
   huff_code 164 = [tt, tt, tt, tt, tt, tt, tt, tt, tt, tt, tt, tt, tt, tt,
      tt, tt, ff, tt, tt, tt, ff, ff] \<and>
   huff_code 165 = [tt, tt, tt, tt, tt, tt, tt, tt, tt, tt, tt, tt, tt, tt,
      tt, tt, tt, tt, ff, tt, ff, ff, ff] \<and>
   huff_code 166 = [tt, tt, tt, tt, tt, tt, tt, tt, tt, tt, tt, tt, tt, tt,
      tt, tt, tt, tt, ff, tt, ff, ff, tt] \<and>
   huff_code 167 = [tt, tt, tt, tt, tt, tt, tt, tt, tt, tt, tt, tt, tt, tt,
      tt, ff, tt, tt, tt, tt, ff] \<and>
   huff_code 168 = [tt, tt, tt, tt, tt, tt, tt, tt, tt, tt, tt, tt, tt, tt,
      tt, tt, tt, tt, ff, tt, ff, tt, ff] \<and>
   huff_code 169 = [tt, tt, tt, tt, tt, tt, tt, tt, tt, tt, tt, tt, tt, tt,
      tt, tt, ff, tt, tt, tt, ff, tt] \<and>
   huff_code 170 = [tt, tt, tt, tt, tt, tt, tt, tt, tt, tt, tt, tt, tt, tt,
      tt, tt, ff, tt, tt, tt, tt, ff] \<and>
   huff_code 171 = [tt, tt, tt, tt, tt, tt, tt, tt, tt, tt, tt, tt, tt, tt,
      tt, tt, tt, tt, tt, tt, ff, ff, ff, ff] \<and>
   huff_code 172 = [tt, tt, tt, tt, tt, tt, tt, tt, tt, tt, tt, tt, tt, tt,
      tt, ff, tt, tt, tt, tt, tt] \<and>
   huff_code 173 = [tt, tt, tt, tt, tt, tt, tt, tt, tt, tt, tt, tt, tt, tt,
      tt, tt, ff, tt, tt, tt, tt, tt] \<and>
   huff_code 174 = [tt, tt, tt, tt, tt, tt, tt, tt, tt, tt, tt, tt, tt, tt,
      tt, tt, tt, tt, ff, tt, ff, tt, tt] \<and>
   huff_code 175 = [tt, tt, tt, tt, tt, tt, tt, tt, tt, tt, tt, tt, tt, tt,
      tt, tt, tt, tt, ff, tt, tt, ff, ff] \<and>
   huff_code 176 = [tt, tt, tt, tt, tt, tt, tt, tt, tt, tt, tt, tt, tt, tt,
      tt, tt, ff, ff, ff, ff, ff] \<and>
   huff_code 177 = [tt, tt, tt, tt, tt, tt, tt, tt, tt, tt, tt, tt, tt, tt,
      tt, tt, ff, ff, ff, ff, tt] \<and>
   huff_code 178 = [tt, tt, tt, tt, tt, tt, tt, tt, tt, tt, tt, tt, tt, tt,
      tt, tt, tt, ff, ff, ff, ff, ff] \<and>
   huff_code 179 = [tt, tt, tt, tt, tt, tt, tt, tt, tt, tt, tt, tt, tt, tt,
      tt, tt, ff, ff, ff, tt, ff] \<and>
   huff_code 180 = [tt, tt, tt, tt, tt, tt, tt, tt, tt, tt, tt, tt, tt, tt,
      tt, tt, tt, tt, ff, tt, tt, ff, tt] \<and>
   huff_code 181 = [tt, tt, tt, tt, tt, tt, tt, tt, tt, tt, tt, tt, tt, tt,
      tt, tt, tt, ff, ff, ff, ff, tt] \<and>
   huff_code 182 = [tt, tt, tt, tt, tt, tt, tt, tt, tt, tt, tt, tt, tt, tt,
      tt, tt, tt, tt, ff, tt, tt, tt, ff] \<and>
   huff_code 183 = [tt, tt, tt, tt, tt, tt, tt, tt, tt, tt, tt, tt, tt, tt,
      tt, tt, tt, tt, ff, tt, tt, tt, tt] \<and>
   huff_code 184 = [tt, tt, tt, tt, tt, tt, tt, tt, tt, tt, tt, tt, tt, tt,
      tt, ff, tt, ff, tt, ff] \<and>
   huff_code 185 = [tt, tt, tt, tt, tt, tt, tt, tt, tt, tt, tt, tt, tt, tt,
      tt, tt, tt, ff, ff, ff, tt, ff] \<and>
   huff_code 186 = [tt, tt, tt, tt, tt, tt, tt, tt, tt, tt, tt, tt, tt, tt,
      tt, tt, tt, ff, ff, ff, tt, tt] \<and>
   huff_code 187 = [tt, tt, tt, tt, tt, tt, tt, tt, tt, tt, tt, tt, tt, tt,
      tt, tt, tt, ff, ff, tt, ff, ff] \<and>
   huff_code 188 = [tt, tt, tt, tt, tt, tt, tt, tt, tt, tt, tt, tt, tt, tt,
      tt, tt, tt, tt, tt, ff, ff, ff, ff] \<and>
   huff_code 189 = [tt, tt, tt, tt, tt, tt, tt, tt, tt, tt, tt, tt, tt, tt,
      tt, tt, tt, ff, ff, tt, ff, tt] \<and>
   huff_code 190 = [tt, tt, tt, tt, tt, tt, tt, tt, tt, tt, tt, tt, tt, tt,
      tt, tt, tt, ff, ff, tt, tt, ff] \<and>
   huff_code 191 = [tt, tt, tt, tt, tt, tt, tt, tt, tt, tt, tt, tt, tt, tt,
      tt, tt, tt, tt, tt, ff, ff, ff, tt] \<and>
   huff_code 192 = [tt, tt, tt, tt, tt, tt, tt, tt, tt, tt, tt, tt, tt, tt,
      tt, tt, tt, tt, tt, tt, tt, ff, ff, ff, ff, ff] \<and>
   huff_code 193 = [tt, tt, tt, tt, tt, tt, tt, tt, tt, tt, tt, tt, tt, tt,
      tt, tt, tt, tt, tt, tt, tt, ff, ff, ff, ff, tt] \<and>
   huff_code 194 = [tt, tt, tt, tt, tt, tt, tt, tt, tt, tt, tt, tt, tt, tt,
      tt, ff, tt, ff, tt, tt] \<and>
   huff_code 195 = [tt, tt, tt, tt, tt, tt, tt, tt, tt, tt, tt, tt, tt, tt,
      tt, ff, ff, ff, tt] \<and>
   huff_code 196 = [tt, tt, tt, tt, tt, tt, tt, tt, tt, tt, tt, tt, tt, tt,
      tt, tt, tt, ff, ff, tt, tt, tt] \<and>
   huff_code 197 = [tt, tt, tt, tt, tt, tt, tt, tt, tt, tt, tt, tt, tt, tt,
      tt, tt, tt, tt, tt, ff, ff, tt, ff] \<and>
   huff_code 198 = [tt, tt, tt, tt, tt, tt, tt, tt, tt, tt, tt, tt, tt, tt,
      tt, tt, tt, ff, tt, ff, ff, ff] \<and>
   huff_code 199 = [tt, tt, tt, tt, tt, tt, tt, tt, tt, tt, tt, tt, tt, tt,
      tt, tt, tt, tt, tt, tt, ff, tt, tt, ff, ff] \<and>
   huff_code 200 = [tt, tt, tt, tt, tt, tt, tt, tt, tt, tt, tt, tt, tt, tt,
      tt, tt, tt, tt, tt, tt, tt, ff, ff, ff, tt, ff] \<and>
   huff_code 201 = [tt, tt, tt, tt, tt, tt, tt, tt, tt, tt, tt, tt, tt, tt,
      tt, tt, tt, tt, tt, tt, tt, ff, ff, ff, tt, tt] \<and>
   huff_code 202 = [tt, tt, tt, tt, tt, tt, tt, tt, tt, tt, tt, tt, tt, tt,
      tt, tt, tt, tt, tt, tt, tt, ff, ff, tt, ff, ff] \<and>
   huff_code 203 = [tt, tt, tt, tt, tt, tt, tt, tt, tt, tt, tt, tt, tt, tt,
      tt, tt, tt, tt, tt, tt, tt, ff, tt, tt, tt, tt, ff] \<and>
   huff_code 204 = [tt, tt, tt, tt, tt, tt, tt, tt, tt, tt, tt, tt, tt, tt,
      tt, tt, tt, tt, tt, tt, tt, ff, tt, tt, tt, tt, tt] \<and>
   huff_code 205 = [tt, tt, tt, tt, tt, tt, tt, tt, tt, tt, tt, tt, tt, tt,
      tt, tt, tt, tt, tt, tt, tt, ff, ff, tt, ff, tt] \<and>
   huff_code 206 = [tt, tt, tt, tt, tt, tt, tt, tt, tt, tt, tt, tt, tt, tt,
      tt, tt, tt, tt, tt, tt, ff, ff, ff, tt] \<and>
   huff_code 207 = [tt, tt, tt, tt, tt, tt, tt, tt, tt, tt, tt, tt, tt, tt,
      tt, tt, tt, tt, tt, tt, ff, tt, tt, ff, tt] \<and>
   huff_code 208 = [tt, tt, tt, tt, tt, tt, tt, tt, tt, tt, tt, tt, tt, tt,
      tt, ff, ff, tt, ff] \<and>
   huff_code 209 = [tt, tt, tt, tt, tt, tt, tt, tt, tt, tt, tt, tt, tt, tt,
      tt, tt, ff, ff, ff, tt, tt] \<and>
   huff_code 210 = [tt, tt, tt, tt, tt, tt, tt, tt, tt, tt, tt, tt, tt, tt,
      tt, tt, tt, tt, tt, tt, tt, ff, ff, tt, tt, ff] \<and>
   huff_code 211 = [tt, tt, tt, tt, tt, tt, tt, tt, tt, tt, tt, tt, tt, tt,
      tt, tt, tt, tt, tt, tt, tt, tt, ff, ff, ff, ff, ff] \<and>
   huff_code 212 = [tt, tt, tt, tt, tt, tt, tt, tt, tt, tt, tt, tt, tt, tt,
      tt, tt, tt, tt, tt, tt, tt, tt, ff, ff, ff, ff, tt] \<and>
   huff_code 213 = [tt, tt, tt, tt, tt, tt, tt, tt, tt, tt, tt, tt, tt, tt,
      tt, tt, tt, tt, tt, tt, tt, ff, ff, tt, tt, tt] \<and>
   huff_code 214 = [tt, tt, tt, tt, tt, tt, tt, tt, tt, tt, tt, tt, tt, tt,
      tt, tt, tt, tt, tt, tt, tt, tt, ff, ff, ff, tt, ff] \<and>
   huff_code 215 = [tt, tt, tt, tt, tt, tt, tt, tt, tt, tt, tt, tt, tt, tt,
      tt, tt, tt, tt, tt, tt, ff, ff, tt, ff] \<and>
   huff_code 216 = [tt, tt, tt, tt, tt, tt, tt, tt, tt, tt, tt, tt, tt, tt,
      tt, tt, ff, ff, tt, ff, ff] \<and>
   huff_code 217 = [tt, tt, tt, tt, tt, tt, tt, tt, tt, tt, tt, tt, tt, tt,
      tt, tt, ff, ff, tt, ff, tt] \<and>
   huff_code 218 = [tt, tt, tt, tt, tt, tt, tt, tt, tt, tt, tt, tt, tt, tt,
      tt, tt, tt, tt, tt, tt, tt, ff, tt, ff, ff, ff] \<and>
   huff_code 219 = [tt, tt, tt, tt, tt, tt, tt, tt, tt, tt, tt, tt, tt, tt,
      tt, tt, tt, tt, tt, tt, tt, ff, tt, ff, ff, tt] \<and>
   huff_code 220 = [tt, tt, tt, tt, tt, tt, tt, tt, tt, tt, tt, tt, tt, tt,
      tt, tt, tt, tt, tt, tt, tt, tt, tt, tt, tt, tt, ff, tt] \<and>
   huff_code 221 = [tt, tt, tt, tt, tt, tt, tt, tt, tt, tt, tt, tt, tt, tt,
      tt, tt, tt, tt, tt, tt, tt, tt, ff, ff, ff, tt, tt] \<and>
   huff_code 222 = [tt, tt, tt, tt, tt, tt, tt, tt, tt, tt, tt, tt, tt, tt,
      tt, tt, tt, tt, tt, tt, tt, tt, ff, ff, tt, ff, ff] \<and>
   huff_code 223 = [tt, tt, tt, tt, tt, tt, tt, tt, tt, tt, tt, tt, tt, tt,
      tt, tt, tt, tt, tt, tt, tt, tt, ff, ff, tt, ff, tt] \<and>
   huff_code 224 = [tt, tt, tt, tt, tt, tt, tt, tt, tt, tt, tt, tt, tt, tt,
      tt, ff, tt, tt, ff, ff] \<and>
   huff_code 225 = [tt, tt, tt, tt, tt, tt, tt, tt, tt, tt, tt, tt, tt, tt,
      tt, tt, tt, tt, tt, tt, ff, ff, tt, tt] \<and>
   huff_code 226 = [tt, tt, tt, tt, tt, tt, tt, tt, tt, tt, tt, tt, tt, tt,
      tt, ff, tt, tt, ff, tt] \<and>
   huff_code 227 = [tt, tt, tt, tt, tt, tt, tt, tt, tt, tt, tt, tt, tt, tt,
      tt, tt, ff, ff, tt, tt, ff] \<and>
   huff_code 228 = [tt, tt, tt, tt, tt, tt, tt, tt, tt, tt, tt, tt, tt, tt,
      tt, tt, tt, ff, tt, ff, ff, tt] \<and>
   huff_code 229 = [tt, tt, tt, tt, tt, tt, tt, tt, tt, tt, tt, tt, tt, tt,
      tt, tt, ff, ff, tt, tt, tt] \<and>
   huff_code 230 = [tt, tt, tt, tt, tt, tt, tt, tt, tt, tt, tt, tt, tt, tt,
      tt, tt, ff, tt, ff, ff, ff] \<and>
   huff_code 231 = [tt, tt, tt, tt, tt, tt, tt, tt, tt, tt, tt, tt, tt, tt,
      tt, tt, tt, tt, tt, ff, ff, tt, tt] \<and>
   huff_code 232 = [tt, tt, tt, tt, tt, tt, tt, tt, tt, tt, tt, tt, tt, tt,
      tt, tt, tt, ff, tt, ff, tt, ff] \<and>
   huff_code 233 = [tt, tt, tt, tt, tt, tt, tt, tt, tt, tt, tt, tt, tt, tt,
      tt, tt, tt, ff, tt, ff, tt, tt] \<and>
   huff_code 234 = [tt, tt, tt, tt, tt, tt, tt, tt, tt, tt, tt, tt, tt, tt,
      tt, tt, tt, tt, tt, tt, ff, tt, tt, tt, ff] \<and>
   huff_code 235 = [tt, tt, tt, tt, tt, tt, tt, tt, tt, tt, tt, tt, tt, tt,
      tt, tt, tt, tt, tt, tt, ff, tt, tt, tt, tt] \<and>
   huff_code 236 = [tt, tt, tt, tt, tt, tt, tt, tt, tt, tt, tt, tt, tt, tt,
      tt, tt, tt, tt, tt, tt, ff, tt, ff, ff] \<and>
   huff_code 237 = [tt, tt, tt, tt, tt, tt, tt, tt, tt, tt, tt, tt, tt, tt,
      tt, tt, tt, tt, tt, tt, ff, tt, ff, tt] \<and>
   huff_code 238 = [tt, tt, tt, tt, tt, tt, tt, tt, tt, tt, tt, tt, tt, tt,
      tt, tt, tt, tt, tt, tt, tt, ff, tt, ff, tt, ff] \<and>
   huff_code 239 = [tt, tt, tt, tt, tt, tt, tt, tt, tt, tt, tt, tt, tt, tt,
      tt, tt, tt, tt, tt, ff, tt, ff, ff] \<and>
   huff_code 240 = [tt, tt, tt, tt, tt, tt, tt, tt, tt, tt, tt, tt, tt, tt,
      tt, tt, tt, tt, tt, tt, tt, ff, tt, ff, tt, tt] \<and>
   huff_code 241 = [tt, tt, tt, tt, tt, tt, tt, tt, tt, tt, tt, tt, tt, tt,
      tt, tt, tt, tt, tt, tt, tt, tt, ff, ff, tt, tt, ff] \<and>
   huff_code 242 = [tt, tt, tt, tt, tt, tt, tt, tt, tt, tt, tt, tt, tt, tt,
      tt, tt, tt, tt, tt, tt, tt, ff, tt, tt, ff, ff] \<and>
   huff_code 243 = [tt, tt, tt, tt, tt, tt, tt, tt, tt, tt, tt, tt, tt, tt,
      tt, tt, tt, tt, tt, tt, tt, ff, tt, tt, ff, tt] \<and>
   huff_code 244 = [tt, tt, tt, tt, tt, tt, tt, tt, tt, tt, tt, tt, tt, tt,
      tt, tt, tt, tt, tt, tt, tt, tt, ff, ff, tt, tt, tt] \<and>
   huff_code 245 = [tt, tt, tt, tt, tt, tt, tt, tt, tt, tt, tt, tt, tt, tt,
      tt, tt, tt, tt, tt, tt, tt, tt, ff, tt, ff, ff, ff] \<and>
   huff_code 246 = [tt, tt, tt, tt, tt, tt, tt, tt, tt, tt, tt, tt, tt, tt,
      tt, tt, tt, tt, tt, tt, tt, tt, ff, tt, ff, ff, tt] \<and>
   huff_code 247 = [tt, tt, tt, tt, tt, tt, tt, tt, tt, tt, tt, tt, tt, tt,
      tt, tt, tt, tt, tt, tt, tt, tt, ff, tt, ff, tt, ff] \<and>
   huff_code 248 = [tt, tt, tt, tt, tt, tt, tt, tt, tt, tt, tt, tt, tt, tt,
      tt, tt, tt, tt, tt, tt, tt, tt, ff, tt, ff, tt, tt] \<and>
   huff_code 249 = [tt, tt, tt, tt, tt, tt, tt, tt, tt, tt, tt, tt, tt, tt,
      tt, tt, tt, tt, tt, tt, tt, tt, tt, tt, tt, tt, tt, ff] \<and>
   huff_code 250 = [tt, tt, tt, tt, tt, tt, tt, tt, tt, tt, tt, tt, tt, tt,
      tt, tt, tt, tt, tt, tt, tt, tt, ff, tt, tt, ff, ff] \<and>
   huff_code 251 = [tt, tt, tt, tt, tt, tt, tt, tt, tt, tt, tt, tt, tt, tt,
      tt, tt, tt, tt, tt, tt, tt, tt, ff, tt, tt, ff, tt] \<and>
   huff_code 252 = [tt, tt, tt, tt, tt, tt, tt, tt, tt, tt, tt, tt, tt, tt,
      tt, tt, tt, tt, tt, tt, tt, tt, ff, tt, tt, tt, ff] \<and>
   huff_code 253 = [tt, tt, tt, tt, tt, tt, tt, tt, tt, tt, tt, tt, tt, tt,
      tt, tt, tt, tt, tt, tt, tt, tt, ff, tt, tt, tt, tt] \<and>
   huff_code 254 = [tt, tt, tt, tt, tt, tt, tt, tt, tt, tt, tt, tt, tt, tt,
      tt, tt, tt, tt, tt, tt, tt, tt, tt, ff, ff, ff, ff] \<and>
   huff_code 255 = [tt, tt, tt, tt, tt, tt, tt, tt, tt, tt, tt, tt, tt, tt,
      tt, tt, tt, tt, tt, tt, tt, ff, tt, tt, tt, ff] \<and>
   eos_code = [tt, tt, tt, tt, tt, tt, tt, tt, tt, tt, tt, tt, tt, tt,
      tt, tt, tt, tt, tt, tt, tt, tt, tt, tt, tt, tt, tt, tt, tt,
      tt]"
  using huff_code_list unfolding codes_eval by (simp add: upt_rec del: upt_Suc)

lemma state_path_list: "map state_path (map word_of_nat [0..<256]) = state_paths"
  by (rule nth_equalityI) (simp_all add: state_path_def unat_of_nat take_bit_eq_mod)

lemma state_path_simps:
  "state_path 0 = [] \<and>
   state_path 1 = [False] \<and>
   state_path 2 = [ff, ff] \<and>
   state_path 3 = [ff, ff, ff] \<and>
   state_path 4 = [ff, ff, ff, ff] \<and>
   state_path 5 = [ff, ff, ff, tt] \<and>
   state_path 6 = [ff, ff, tt] \<and>
   state_path 7 = [ff, ff, tt, ff] \<and>
   state_path 8 = [ff, ff, tt, tt] \<and>
   state_path 9 = [ff, tt] \<and>
   state_path 10 = [ff, tt, ff] \<and>
   state_path 11 = [ff, tt, ff, ff] \<and>
   state_path 12 = [ff, tt, ff, tt] \<and>
   state_path 13 = [ff, tt, ff, tt, ff] \<and>
   state_path 14 = [ff, tt, ff, tt, tt] \<and>
   state_path 15 = [ff, tt, tt] \<and>
   state_path 16 = [ff, tt, tt, ff] \<and>
   state_path 17 = [ff, tt, tt, ff, ff] \<and>
   state_path 18 = [ff, tt, tt, ff, tt] \<and>
   state_path 19 = [ff, tt, tt, tt] \<and>
   state_path 20 = [ff, tt, tt, tt, ff] \<and>
   state_path 21 = [ff, tt, tt, tt, tt] \<and>
   state_path 22 = [True] \<and>
   state_path 23 = [tt, ff] \<and>
   state_path 24 = [tt, ff, ff] \<and>
   state_path 25 = [tt, ff, ff, ff] \<and>
   state_path 26 = [tt, ff, ff, ff, ff] \<and>
   state_path 27 = [tt, ff, ff, ff, tt] \<and>
   state_path 28 = [tt, ff, ff, tt] \<and>
   state_path 29 = [tt, ff, ff, tt, ff] \<and>
   state_path 30 = [tt, ff, ff, tt, tt] \<and>
   state_path 31 = [tt, ff, tt] \<and>
   state_path 32 = [tt, ff, tt, ff] \<and>
   state_path 33 = [tt, ff, tt, ff, ff] \<and>
   state_path 34 = [tt, ff, tt, ff, tt] \<and>
   state_path 35 = [tt, ff, tt, tt] \<and>
   state_path 36 = [tt, ff, tt, tt, ff] \<and>
   state_path 37 = [tt, ff, tt, tt, tt] \<and>
   state_path 38 = [tt, ff, tt, tt, tt, ff] \<and>
   state_path 39 = [tt, ff, tt, tt, tt, tt] \<and>
   state_path 40 = [tt, tt] \<and>
   state_path 41 = [tt, tt, ff] \<and>
   state_path 42 = [tt, tt, ff, ff] \<and>
   state_path 43 = [tt, tt, ff, ff, ff] \<and>
   state_path 44 = [tt, tt, ff, ff, ff, ff] \<and>
   state_path 45 = [tt, tt, ff, ff, ff, tt] \<and>
   state_path 46 = [tt, tt, ff, ff, tt] \<and>
   state_path 47 = [tt, tt, ff, ff, tt, ff] \<and>
   state_path 48 = [tt, tt, ff, ff, tt, tt] \<and>
   state_path 49 = [tt, tt, ff, tt] \<and>
   state_path 50 = [tt, tt, ff, tt, ff] \<and>
   state_path 51 = [tt, tt, ff, tt, ff, ff] \<and>
   state_path 52 = [tt, tt, ff, tt, ff, tt] \<and>
   state_path 53 = [tt, tt, ff, tt, tt] \<and>
   state_path 54 = [tt, tt, ff, tt, tt, ff] \<and>
   state_path 55 = [tt, tt, ff, tt, tt, tt] \<and>
   state_path 56 = [tt, tt, tt] \<and>
   state_path 57 = [tt, tt, tt, ff] \<and>
   state_path 58 = [tt, tt, tt, ff, ff] \<and>
   state_path 59 = [tt, tt, tt, ff, ff, ff] \<and>
   state_path 60 = [tt, tt, tt, ff, ff, tt] \<and>
   state_path 61 = [tt, tt, tt, ff, tt] \<and>
   state_path 62 = [tt, tt, tt, ff, tt, ff] \<and>
   state_path 63 = [tt, tt, tt, ff, tt, tt] \<and>
   state_path 64 = [tt, tt, tt, tt] \<and>
   state_path 65 = [tt, tt, tt, tt, ff] \<and>
   state_path 66 = [tt, tt, tt, tt, ff, ff] \<and>
   state_path 67 = [tt, tt, tt, tt, ff, tt] \<and>
   state_path 68 = [tt, tt, tt, tt, tt] \<and>
   state_path 69 = [tt, tt, tt, tt, tt, ff] \<and>
   state_path 70 = [tt, tt, tt, tt, tt, ff, ff] \<and>
   state_path 71 = [tt, tt, tt, tt, tt, ff, tt] \<and>
   state_path 72 = [tt, tt, tt, tt, tt, tt] \<and>
   state_path 73 = [tt, tt, tt, tt, tt, tt, ff] \<and>
   state_path 74 = [tt, tt, tt, tt, tt, tt, tt] \<and>
   state_path 75 = [tt, tt, tt, tt, tt, tt, tt, ff] \<and>
   state_path 76 = [tt, tt, tt, tt, tt, tt, tt, ff, ff] \<and>
   state_path 77 = [tt, tt, tt, tt, tt, tt, tt, ff, tt] \<and>
   state_path 78 = [tt, tt, tt, tt, tt, tt, tt, tt] \<and>
   state_path 79 = [tt, tt, tt, tt, tt, tt, tt, tt, ff] \<and>
   state_path 80 = [tt, tt, tt, tt, tt, tt, tt, tt, ff, tt] \<and>
   state_path 81 = [tt, tt, tt, tt, tt, tt, tt, tt, tt] \<and>
   state_path 82 = [tt, tt, tt, tt, tt, tt, tt, tt, tt, ff] \<and>
   state_path 83 = [tt, tt, tt, tt, tt, tt, tt, tt, tt, ff, tt] \<and>
   state_path 84 = [tt, tt, tt, tt, tt, tt, tt, tt, tt, tt] \<and>
   state_path 85 = [tt, tt, tt, tt, tt, tt, tt, tt, tt, tt, ff] \<and>
   state_path 86 = [tt, tt, tt, tt, tt, tt, tt, tt, tt, tt, ff, ff] \<and>
   state_path 87 = [tt, tt, tt, tt, tt, tt, tt, tt, tt, tt, ff, tt] \<and>
   state_path 88 = [tt, tt, tt, tt, tt, tt, tt, tt, tt, tt, tt] \<and>
   state_path 89 = [tt, tt, tt, tt, tt, tt, tt, tt, tt, tt, tt, ff] \<and>
   state_path 90 = [tt, tt, tt, tt, tt, tt, tt, tt, tt, tt, tt, tt] \<and>
   state_path 91 = [tt, tt, tt, tt, tt, tt, tt, tt, tt, tt, tt, tt, ff] \<and>
   state_path 92 = [tt, tt, tt, tt, tt, tt, tt, tt, tt, tt, tt, tt, tt] \<and>
   state_path 93 = [tt, tt, tt, tt, tt, tt, tt, tt, tt, tt, tt, tt, tt,
      ff] \<and>
   state_path 94 = [tt, tt, tt, tt, tt, tt, tt, tt, tt, tt, tt, tt, tt, tt] \<and>
   state_path 95 = [tt, tt, tt, tt, tt, tt, tt, tt, tt, tt, tt, tt, tt, tt,
      tt] \<and>
   state_path 96 = [tt, tt, tt, tt, tt, tt, tt, tt, tt, tt, tt, tt, tt, tt,
      tt, ff] \<and>
   state_path 97 = [tt, tt, tt, tt, tt, tt, tt, tt, tt, tt, tt, tt, tt, tt,
      tt, ff, ff] \<and>
   state_path 98 = [tt, tt, tt, tt, tt, tt, tt, tt, tt, tt, tt, tt, tt, tt,
      tt, ff, ff, ff] \<and>
   state_path 99 = [tt, tt, tt, tt, tt, tt, tt, tt, tt, tt, tt, tt, tt, tt,
      tt, ff, ff, tt] \<and>
   state_path 100 = [tt, tt, tt, tt, tt, tt, tt, tt, tt, tt, tt, tt, tt,
      tt, tt, ff, ff, tt, tt] \<and>
   state_path 101 = [tt, tt, tt, tt, tt, tt, tt, tt, tt, tt, tt, tt, tt,
      tt, tt, ff, tt] \<and>
   state_path 102 = [tt, tt, tt, tt, tt, tt, tt, tt, tt, tt, tt, tt, tt,
      tt, tt, ff, tt, ff] \<and>
   state_path 103 = [tt, tt, tt, tt, tt, tt, tt, tt, tt, tt, tt, tt, tt,
      tt, tt, ff, tt, ff, ff] \<and>
   state_path 104 = [tt, tt, tt, tt, tt, tt, tt, tt, tt, tt, tt, tt, tt,
      tt, tt, ff, tt, ff, tt] \<and>
   state_path 105 = [tt, tt, tt, tt, tt, tt, tt, tt, tt, tt, tt, tt, tt,
      tt, tt, ff, tt, tt] \<and>
   state_path 106 = [tt, tt, tt, tt, tt, tt, tt, tt, tt, tt, tt, tt, tt,
      tt, tt, ff, tt, tt, ff] \<and>
   state_path 107 = [tt, tt, tt, tt, tt, tt, tt, tt, tt, tt, tt, tt, tt,
      tt, tt, ff, tt, tt, tt] \<and>
   state_path 108 = [tt, tt, tt, tt, tt, tt, tt, tt, tt, tt, tt, tt, tt,
      tt, tt, ff, tt, tt, tt, ff] \<and>
   state_path 109 = [tt, tt, tt, tt, tt, tt, tt, tt, tt, tt, tt, tt, tt,
      tt, tt, ff, tt, tt, tt, tt] \<and>
   state_path 110 = [tt, tt, tt, tt, tt, tt, tt, tt, tt, tt, tt, tt, tt,
      tt, tt, tt] \<and>
   state_path 111 = [tt, tt, tt, tt, tt, tt, tt, tt, tt, tt, tt, tt, tt,
      tt, tt, tt, ff] \<and>
   state_path 112 = [tt, tt, tt, tt, tt, tt, tt, tt, tt, tt, tt, tt, tt,
      tt, tt, tt, ff, ff] \<and>
   state_path 113 = [tt, tt, tt, tt, tt, tt, tt, tt, tt, tt, tt, tt, tt,
      tt, tt, tt, ff, ff, ff] \<and>
   state_path 114 = [tt, tt, tt, tt, tt, tt, tt, tt, tt, tt, tt, tt, tt,
      tt, tt, tt, ff, ff, ff, ff] \<and>
   state_path 115 = [tt, tt, tt, tt, tt, tt, tt, tt, tt, tt, tt, tt, tt,
      tt, tt, tt, ff, ff, ff, tt] \<and>
   state_path 116 = [tt, tt, tt, tt, tt, tt, tt, tt, tt, tt, tt, tt, tt,
      tt, tt, tt, ff, ff, tt] \<and>
   state_path 117 = [tt, tt, tt, tt, tt, tt, tt, tt, tt, tt, tt, tt, tt,
      tt, tt, tt, ff, ff, tt, ff] \<and>
   state_path 118 = [tt, tt, tt, tt, tt, tt, tt, tt, tt, tt, tt, tt, tt,
      tt, tt, tt, ff, ff, tt, tt] \<and>
   state_path 119 = [tt, tt, tt, tt, tt, tt, tt, tt, tt, tt, tt, tt, tt,
      tt, tt, tt, ff, tt] \<and>
   state_path 120 = [tt, tt, tt, tt, tt, tt, tt, tt, tt, tt, tt, tt, tt,
      tt, tt, tt, ff, tt, ff] \<and>
   state_path 121 = [tt, tt, tt, tt, tt, tt, tt, tt, tt, tt, tt, tt, tt,
      tt, tt, tt, ff, tt, ff, ff] \<and>
   state_path 122 = [tt, tt, tt, tt, tt, tt, tt, tt, tt, tt, tt, tt, tt,
      tt, tt, tt, ff, tt, ff, ff, tt] \<and>
   state_path 123 = [tt, tt, tt, tt, tt, tt, tt, tt, tt, tt, tt, tt, tt,
      tt, tt, tt, ff, tt, ff, tt] \<and>
   state_path 124 = [tt, tt, tt, tt, tt, tt, tt, tt, tt, tt, tt, tt, tt,
      tt, tt, tt, ff, tt, ff, tt, ff] \<and>
   state_path 125 = [tt, tt, tt, tt, tt, tt, tt, tt, tt, tt, tt, tt, tt,
      tt, tt, tt, ff, tt, ff, tt, tt] \<and>
   state_path 126 = [tt, tt, tt, tt, tt, tt, tt, tt, tt, tt, tt, tt, tt,
      tt, tt, tt, ff, tt, tt] \<and>
   state_path 127 = [tt, tt, tt, tt, tt, tt, tt, tt, tt, tt, tt, tt, tt,
      tt, tt, tt, ff, tt, tt, ff] \<and>
   state_path 128 = [tt, tt, tt, tt, tt, tt, tt, tt, tt, tt, tt, tt, tt,
      tt, tt, tt, ff, tt, tt, ff, ff] \<and>
   state_path 129 = [tt, tt, tt, tt, tt, tt, tt, tt, tt, tt, tt, tt, tt,
      tt, tt, tt, ff, tt, tt, ff, tt] \<and>
   state_path 130 = [tt, tt, tt, tt, tt, tt, tt, tt, tt, tt, tt, tt, tt,
      tt, tt, tt, ff, tt, tt, tt] \<and>
   state_path 131 = [tt, tt, tt, tt, tt, tt, tt, tt, tt, tt, tt, tt, tt,
      tt, tt, tt, ff, tt, tt, tt, ff] \<and>
   state_path 132 = [tt, tt, tt, tt, tt, tt, tt, tt, tt, tt, tt, tt, tt,
      tt, tt, tt, ff, tt, tt, tt, tt] \<and>
   state_path 133 = [tt, tt, tt, tt, tt, tt, tt, tt, tt, tt, tt, tt, tt,
      tt, tt, tt, tt] \<and>
   state_path 134 = [tt, tt, tt, tt, tt, tt, tt, tt, tt, tt, tt, tt, tt,
      tt, tt, tt, tt, ff] \<and>
   state_path 135 = [tt, tt, tt, tt, tt, tt, tt, tt, tt, tt, tt, tt, tt,
      tt, tt, tt, tt, ff, ff] \<and>
   state_path 136 = [tt, tt, tt, tt, tt, tt, tt, tt, tt, tt, tt, tt, tt,
      tt, tt, tt, tt, ff, ff, ff] \<and>
   state_path 137 = [tt, tt, tt, tt, tt, tt, tt, tt, tt, tt, tt, tt, tt,
      tt, tt, tt, tt, ff, ff, ff, ff] \<and>
   state_path 138 = [tt, tt, tt, tt, tt, tt, tt, tt, tt, tt, tt, tt, tt,
      tt, tt, tt, tt, ff, ff, ff, tt] \<and>
   state_path 139 = [tt, tt, tt, tt, tt, tt, tt, tt, tt, tt, tt, tt, tt,
      tt, tt, tt, tt, ff, ff, tt] \<and>
   state_path 140 = [tt, tt, tt, tt, tt, tt, tt, tt, tt, tt, tt, tt, tt,
      tt, tt, tt, tt, ff, ff, tt, ff] \<and>
   state_path 141 = [tt, tt, tt, tt, tt, tt, tt, tt, tt, tt, tt, tt, tt,
      tt, tt, tt, tt, ff, ff, tt, tt] \<and>
   state_path 142 = [tt, tt, tt, tt, tt, tt, tt, tt, tt, tt, tt, tt, tt,
      tt, tt, tt, tt, ff, tt] \<and>
   state_path 143 = [tt, tt, tt, tt, tt, tt, tt, tt, tt, tt, tt, tt, tt,
      tt, tt, tt, tt, ff, tt, ff] \<and>
   state_path 144 = [tt, tt, tt, tt, tt, tt, tt, tt, tt, tt, tt, tt, tt,
      tt, tt, tt, tt, ff, tt, ff, ff] \<and>
   state_path 145 = [tt, tt, tt, tt, tt, tt, tt, tt, tt, tt, tt, tt, tt,
      tt, tt, tt, tt, ff, tt, ff, tt] \<and>
   state_path 146 = [tt, tt, tt, tt, tt, tt, tt, tt, tt, tt, tt, tt, tt,
      tt, tt, tt, tt, ff, tt, tt] \<and>
   state_path 147 = [tt, tt, tt, tt, tt, tt, tt, tt, tt, tt, tt, tt, tt,
      tt, tt, tt, tt, ff, tt, tt, ff] \<and>
   state_path 148 = [tt, tt, tt, tt, tt, tt, tt, tt, tt, tt, tt, tt, tt,
      tt, tt, tt, tt, ff, tt, tt, ff, ff] \<and>
   state_path 149 = [tt, tt, tt, tt, tt, tt, tt, tt, tt, tt, tt, tt, tt,
      tt, tt, tt, tt, ff, tt, tt, ff, tt] \<and>
   state_path 150 = [tt, tt, tt, tt, tt, tt, tt, tt, tt, tt, tt, tt, tt,
      tt, tt, tt, tt, ff, tt, tt, tt] \<and>
   state_path 151 = [tt, tt, tt, tt, tt, tt, tt, tt, tt, tt, tt, tt, tt,
      tt, tt, tt, tt, ff, tt, tt, tt, ff] \<and>
   state_path 152 = [tt, tt, tt, tt, tt, tt, tt, tt, tt, tt, tt, tt, tt,
      tt, tt, tt, tt, ff, tt, tt, tt, tt] \<and>
   state_path 153 = [tt, tt, tt, tt, tt, tt, tt, tt, tt, tt, tt, tt, tt,
      tt, tt, tt, tt, tt] \<and>
   state_path 154 = [tt, tt, tt, tt, tt, tt, tt, tt, tt, tt, tt, tt, tt,
      tt, tt, tt, tt, tt, ff] \<and>
   state_path 155 = [tt, tt, tt, tt, tt, tt, tt, tt, tt, tt, tt, tt, tt,
      tt, tt, tt, tt, tt, ff, ff] \<and>
   state_path 156 = [tt, tt, tt, tt, tt, tt, tt, tt, tt, tt, tt, tt, tt,
      tt, tt, tt, tt, tt, ff, ff, ff] \<and>
   state_path 157 = [tt, tt, tt, tt, tt, tt, tt, tt, tt, tt, tt, tt, tt,
      tt, tt, tt, tt, tt, ff, ff, ff, ff] \<and>
   state_path 158 = [tt, tt, tt, tt, tt, tt, tt, tt, tt, tt, tt, tt, tt,
      tt, tt, tt, tt, tt, ff, ff, ff, tt] \<and>
   state_path 159 = [tt, tt, tt, tt, tt, tt, tt, tt, tt, tt, tt, tt, tt,
      tt, tt, tt, tt, tt, ff, ff, tt] \<and>
   state_path 160 = [tt, tt, tt, tt, tt, tt, tt, tt, tt, tt, tt, tt, tt,
      tt, tt, tt, tt, tt, ff, ff, tt, ff] \<and>
   state_path 161 = [tt, tt, tt, tt, tt, tt, tt, tt, tt, tt, tt, tt, tt,
      tt, tt, tt, tt, tt, ff, ff, tt, tt] \<and>
   state_path 162 = [tt, tt, tt, tt, tt, tt, tt, tt, tt, tt, tt, tt, tt,
      tt, tt, tt, tt, tt, ff, tt] \<and>
   state_path 163 = [tt, tt, tt, tt, tt, tt, tt, tt, tt, tt, tt, tt, tt,
      tt, tt, tt, tt, tt, ff, tt, ff] \<and>
   state_path 164 = [tt, tt, tt, tt, tt, tt, tt, tt, tt, tt, tt, tt, tt,
      tt, tt, tt, tt, tt, ff, tt, ff, ff] \<and>
   state_path 165 = [tt, tt, tt, tt, tt, tt, tt, tt, tt, tt, tt, tt, tt,
      tt, tt, tt, tt, tt, ff, tt, ff, tt] \<and>
   state_path 166 = [tt, tt, tt, tt, tt, tt, tt, tt, tt, tt, tt, tt, tt,
      tt, tt, tt, tt, tt, ff, tt, tt] \<and>
   state_path 167 = [tt, tt, tt, tt, tt, tt, tt, tt, tt, tt, tt, tt, tt,
      tt, tt, tt, tt, tt, ff, tt, tt, ff] \<and>
   state_path 168 = [tt, tt, tt, tt, tt, tt, tt, tt, tt, tt, tt, tt, tt,
      tt, tt, tt, tt, tt, ff, tt, tt, tt] \<and>
   state_path 169 = [tt, tt, tt, tt, tt, tt, tt, tt, tt, tt, tt, tt, tt,
      tt, tt, tt, tt, tt, tt] \<and>
   state_path 170 = [tt, tt, tt, tt, tt, tt, tt, tt, tt, tt, tt, tt, tt,
      tt, tt, tt, tt, tt, tt, ff] \<and>
   state_path 171 = [tt, tt, tt, tt, tt, tt, tt, tt, tt, tt, tt, tt, tt,
      tt, tt, tt, tt, tt, tt, ff, ff] \<and>
   state_path 172 = [tt, tt, tt, tt, tt, tt, tt, tt, tt, tt, tt, tt, tt,
      tt, tt, tt, tt, tt, tt, ff, ff, ff] \<and>
   state_path 173 = [tt, tt, tt, tt, tt, tt, tt, tt, tt, tt, tt, tt, tt,
      tt, tt, tt, tt, tt, tt, ff, ff, tt] \<and>
   state_path 174 = [tt, tt, tt, tt, tt, tt, tt, tt, tt, tt, tt, tt, tt,
      tt, tt, tt, tt, tt, tt, ff, tt] \<and>
   state_path 175 = [tt, tt, tt, tt, tt, tt, tt, tt, tt, tt, tt, tt, tt,
      tt, tt, tt, tt, tt, tt, ff, tt, ff] \<and>
   state_path 176 = [tt, tt, tt, tt, tt, tt, tt, tt, tt, tt, tt, tt, tt,
      tt, tt, tt, tt, tt, tt, ff, tt, ff, tt] \<and>
   state_path 177 = [tt, tt, tt, tt, tt, tt, tt, tt, tt, tt, tt, tt, tt,
      tt, tt, tt, tt, tt, tt, ff, tt, tt] \<and>
   state_path 178 = [tt, tt, tt, tt, tt, tt, tt, tt, tt, tt, tt, tt, tt,
      tt, tt, tt, tt, tt, tt, ff, tt, tt, ff] \<and>
   state_path 179 = [tt, tt, tt, tt, tt, tt, tt, tt, tt, tt, tt, tt, tt,
      tt, tt, tt, tt, tt, tt, ff, tt, tt, tt] \<and>
   state_path 180 = [tt, tt, tt, tt, tt, tt, tt, tt, tt, tt, tt, tt, tt,
      tt, tt, tt, tt, tt, tt, tt] \<and>
   state_path 181 = [tt, tt, tt, tt, tt, tt, tt, tt, tt, tt, tt, tt, tt,
      tt, tt, tt, tt, tt, tt, tt, ff] \<and>
   state_path 182 = [tt, tt, tt, tt, tt, tt, tt, tt, tt, tt, tt, tt, tt,
      tt, tt, tt, tt, tt, tt, tt, ff, ff] \<and>
   state_path 183 = [tt, tt, tt, tt, tt, tt, tt, tt, tt, tt, tt, tt, tt,
      tt, tt, tt, tt, tt, tt, tt, ff, ff, ff] \<and>
   state_path 184 = [tt, tt, tt, tt, tt, tt, tt, tt, tt, tt, tt, tt, tt,
      tt, tt, tt, tt, tt, tt, tt, ff, ff, tt] \<and>
   state_path 185 = [tt, tt, tt, tt, tt, tt, tt, tt, tt, tt, tt, tt, tt,
      tt, tt, tt, tt, tt, tt, tt, ff, tt] \<and>
   state_path 186 = [tt, tt, tt, tt, tt, tt, tt, tt, tt, tt, tt, tt, tt,
      tt, tt, tt, tt, tt, tt, tt, ff, tt, ff] \<and>
   state_path 187 = [tt, tt, tt, tt, tt, tt, tt, tt, tt, tt, tt, tt, tt,
      tt, tt, tt, tt, tt, tt, tt, ff, tt, tt] \<and>
   state_path 188 = [tt, tt, tt, tt, tt, tt, tt, tt, tt, tt, tt, tt, tt,
      tt, tt, tt, tt, tt, tt, tt, ff, tt, tt, ff] \<and>
   state_path 189 = [tt, tt, tt, tt, tt, tt, tt, tt, tt, tt, tt, tt, tt,
      tt, tt, tt, tt, tt, tt, tt, ff, tt, tt, tt] \<and>
   state_path 190 = [tt, tt, tt, tt, tt, tt, tt, tt, tt, tt, tt, tt, tt,
      tt, tt, tt, tt, tt, tt, tt, tt] \<and>
   state_path 191 = [tt, tt, tt, tt, tt, tt, tt, tt, tt, tt, tt, tt, tt,
      tt, tt, tt, tt, tt, tt, tt, tt, ff] \<and>
   state_path 192 = [tt, tt, tt, tt, tt, tt, tt, tt, tt, tt, tt, tt, tt,
      tt, tt, tt, tt, tt, tt, tt, tt, ff, ff] \<and>
   state_path 193 = [tt, tt, tt, tt, tt, tt, tt, tt, tt, tt, tt, tt, tt,
      tt, tt, tt, tt, tt, tt, tt, tt, ff, ff, ff] \<and>
   state_path 194 = [tt, tt, tt, tt, tt, tt, tt, tt, tt, tt, tt, tt, tt,
      tt, tt, tt, tt, tt, tt, tt, tt, ff, ff, ff, ff] \<and>
   state_path 195 = [tt, tt, tt, tt, tt, tt, tt, tt, tt, tt, tt, tt, tt,
      tt, tt, tt, tt, tt, tt, tt, tt, ff, ff, ff, tt] \<and>
   state_path 196 = [tt, tt, tt, tt, tt, tt, tt, tt, tt, tt, tt, tt, tt,
      tt, tt, tt, tt, tt, tt, tt, tt, ff, ff, tt] \<and>
   state_path 197 = [tt, tt, tt, tt, tt, tt, tt, tt, tt, tt, tt, tt, tt,
      tt, tt, tt, tt, tt, tt, tt, tt, ff, ff, tt, ff] \<and>
   state_path 198 = [tt, tt, tt, tt, tt, tt, tt, tt, tt, tt, tt, tt, tt,
      tt, tt, tt, tt, tt, tt, tt, tt, ff, ff, tt, tt] \<and>
   state_path 199 = [tt, tt, tt, tt, tt, tt, tt, tt, tt, tt, tt, tt, tt,
      tt, tt, tt, tt, tt, tt, tt, tt, ff, tt] \<and>
   state_path 200 = [tt, tt, tt, tt, tt, tt, tt, tt, tt, tt, tt, tt, tt,
      tt, tt, tt, tt, tt, tt, tt, tt, ff, tt, ff] \<and>
   state_path 201 = [tt, tt, tt, tt, tt, tt, tt, tt, tt, tt, tt, tt, tt,
      tt, tt, tt, tt, tt, tt, tt, tt, ff, tt, ff, ff] \<and>
   state_path 202 = [tt, tt, tt, tt, tt, tt, tt, tt, tt, tt, tt, tt, tt,
      tt, tt, tt, tt, tt, tt, tt, tt, ff, tt, ff, tt] \<and>
   state_path 203 = [tt, tt, tt, tt, tt, tt, tt, tt, tt, tt, tt, tt, tt,
      tt, tt, tt, tt, tt, tt, tt, tt, ff, tt, tt] \<and>
   state_path 204 = [tt, tt, tt, tt, tt, tt, tt, tt, tt, tt, tt, tt, tt,
      tt, tt, tt, tt, tt, tt, tt, tt, ff, tt, tt, ff] \<and>
   state_path 205 = [tt, tt, tt, tt, tt, tt, tt, tt, tt, tt, tt, tt, tt,
      tt, tt, tt, tt, tt, tt, tt, tt, ff, tt, tt, tt] \<and>
   state_path 206 = [tt, tt, tt, tt, tt, tt, tt, tt, tt, tt, tt, tt, tt,
      tt, tt, tt, tt, tt, tt, tt, tt, ff, tt, tt, tt, tt] \<and>
   state_path 207 = [tt, tt, tt, tt, tt, tt, tt, tt, tt, tt, tt, tt, tt,
      tt, tt, tt, tt, tt, tt, tt, tt, tt] \<and>
   state_path 208 = [tt, tt, tt, tt, tt, tt, tt, tt, tt, tt, tt, tt, tt,
      tt, tt, tt, tt, tt, tt, tt, tt, tt, ff] \<and>
   state_path 209 = [tt, tt, tt, tt, tt, tt, tt, tt, tt, tt, tt, tt, tt,
      tt, tt, tt, tt, tt, tt, tt, tt, tt, ff, ff] \<and>
   state_path 210 = [tt, tt, tt, tt, tt, tt, tt, tt, tt, tt, tt, tt, tt,
      tt, tt, tt, tt, tt, tt, tt, tt, tt, ff, ff, ff] \<and>
   state_path 211 = [tt, tt, tt, tt, tt, tt, tt, tt, tt, tt, tt, tt, tt,
      tt, tt, tt, tt, tt, tt, tt, tt, tt, ff, ff, ff, ff] \<and>
   state_path 212 = [tt, tt, tt, tt, tt, tt, tt, tt, tt, tt, tt, tt, tt,
      tt, tt, tt, tt, tt, tt, tt, tt, tt, ff, ff, ff, tt] \<and>
   state_path 213 = [tt, tt, tt, tt, tt, tt, tt, tt, tt, tt, tt, tt, tt,
      tt, tt, tt, tt, tt, tt, tt, tt, tt, ff, ff, tt] \<and>
   state_path 214 = [tt, tt, tt, tt, tt, tt, tt, tt, tt, tt, tt, tt, tt,
      tt, tt, tt, tt, tt, tt, tt, tt, tt, ff, ff, tt, ff] \<and>
   state_path 215 = [tt, tt, tt, tt, tt, tt, tt, tt, tt, tt, tt, tt, tt,
      tt, tt, tt, tt, tt, tt, tt, tt, tt, ff, ff, tt, tt] \<and>
   state_path 216 = [tt, tt, tt, tt, tt, tt, tt, tt, tt, tt, tt, tt, tt,
      tt, tt, tt, tt, tt, tt, tt, tt, tt, ff, tt] \<and>
   state_path 217 = [tt, tt, tt, tt, tt, tt, tt, tt, tt, tt, tt, tt, tt,
      tt, tt, tt, tt, tt, tt, tt, tt, tt, ff, tt, ff] \<and>
   state_path 218 = [tt, tt, tt, tt, tt, tt, tt, tt, tt, tt, tt, tt, tt,
      tt, tt, tt, tt, tt, tt, tt, tt, tt, ff, tt, ff, ff] \<and>
   state_path 219 = [tt, tt, tt, tt, tt, tt, tt, tt, tt, tt, tt, tt, tt,
      tt, tt, tt, tt, tt, tt, tt, tt, tt, ff, tt, ff, tt] \<and>
   state_path 220 = [tt, tt, tt, tt, tt, tt, tt, tt, tt, tt, tt, tt, tt,
      tt, tt, tt, tt, tt, tt, tt, tt, tt, ff, tt, tt] \<and>
   state_path 221 = [tt, tt, tt, tt, tt, tt, tt, tt, tt, tt, tt, tt, tt,
      tt, tt, tt, tt, tt, tt, tt, tt, tt, ff, tt, tt, ff] \<and>
   state_path 222 = [tt, tt, tt, tt, tt, tt, tt, tt, tt, tt, tt, tt, tt,
      tt, tt, tt, tt, tt, tt, tt, tt, tt, ff, tt, tt, tt] \<and>
   state_path 223 = [tt, tt, tt, tt, tt, tt, tt, tt, tt, tt, tt, tt, tt,
      tt, tt, tt, tt, tt, tt, tt, tt, tt, tt] \<and>
   state_path 224 = [tt, tt, tt, tt, tt, tt, tt, tt, tt, tt, tt, tt, tt,
      tt, tt, tt, tt, tt, tt, tt, tt, tt, tt, ff] \<and>
   state_path 225 = [tt, tt, tt, tt, tt, tt, tt, tt, tt, tt, tt, tt, tt,
      tt, tt, tt, tt, tt, tt, tt, tt, tt, tt, ff, ff] \<and>
   state_path 226 = [tt, tt, tt, tt, tt, tt, tt, tt, tt, tt, tt, tt, tt,
      tt, tt, tt, tt, tt, tt, tt, tt, tt, tt, ff, ff, ff] \<and>
   state_path 227 = [tt, tt, tt, tt, tt, tt, tt, tt, tt, tt, tt, tt, tt,
      tt, tt, tt, tt, tt, tt, tt, tt, tt, tt, ff, ff, ff, tt] \<and>
   state_path 228 = [tt, tt, tt, tt, tt, tt, tt, tt, tt, tt, tt, tt, tt,
      tt, tt, tt, tt, tt, tt, tt, tt, tt, tt, ff, ff, tt] \<and>
   state_path 229 = [tt, tt, tt, tt, tt, tt, tt, tt, tt, tt, tt, tt, tt,
      tt, tt, tt, tt, tt, tt, tt, tt, tt, tt, ff, ff, tt, ff] \<and>
   state_path 230 = [tt, tt, tt, tt, tt, tt, tt, tt, tt, tt, tt, tt, tt,
      tt, tt, tt, tt, tt, tt, tt, tt, tt, tt, ff, ff, tt, tt] \<and>
   state_path 231 = [tt, tt, tt, tt, tt, tt, tt, tt, tt, tt, tt, tt, tt,
      tt, tt, tt, tt, tt, tt, tt, tt, tt, tt, ff, tt] \<and>
   state_path 232 = [tt, tt, tt, tt, tt, tt, tt, tt, tt, tt, tt, tt, tt,
      tt, tt, tt, tt, tt, tt, tt, tt, tt, tt, ff, tt, ff] \<and>
   state_path 233 = [tt, tt, tt, tt, tt, tt, tt, tt, tt, tt, tt, tt, tt,
      tt, tt, tt, tt, tt, tt, tt, tt, tt, tt, ff, tt, ff, ff] \<and>
   state_path 234 = [tt, tt, tt, tt, tt, tt, tt, tt, tt, tt, tt, tt, tt,
      tt, tt, tt, tt, tt, tt, tt, tt, tt, tt, ff, tt, ff, tt] \<and>
   state_path 235 = [tt, tt, tt, tt, tt, tt, tt, tt, tt, tt, tt, tt, tt,
      tt, tt, tt, tt, tt, tt, tt, tt, tt, tt, ff, tt, tt] \<and>
   state_path 236 = [tt, tt, tt, tt, tt, tt, tt, tt, tt, tt, tt, tt, tt,
      tt, tt, tt, tt, tt, tt, tt, tt, tt, tt, ff, tt, tt, ff] \<and>
   state_path 237 = [tt, tt, tt, tt, tt, tt, tt, tt, tt, tt, tt, tt, tt,
      tt, tt, tt, tt, tt, tt, tt, tt, tt, tt, ff, tt, tt, tt] \<and>
   state_path 238 = [tt, tt, tt, tt, tt, tt, tt, tt, tt, tt, tt, tt, tt,
      tt, tt, tt, tt, tt, tt, tt, tt, tt, tt, tt] \<and>
   state_path 239 = [tt, tt, tt, tt, tt, tt, tt, tt, tt, tt, tt, tt, tt,
      tt, tt, tt, tt, tt, tt, tt, tt, tt, tt, tt, ff] \<and>
   state_path 240 = [tt, tt, tt, tt, tt, tt, tt, tt, tt, tt, tt, tt, tt,
      tt, tt, tt, tt, tt, tt, tt, tt, tt, tt, tt, ff, ff] \<and>
   state_path 241 = [tt, tt, tt, tt, tt, tt, tt, tt, tt, tt, tt, tt, tt,
      tt, tt, tt, tt, tt, tt, tt, tt, tt, tt, tt, ff, ff, ff] \<and>
   state_path 242 = [tt, tt, tt, tt, tt, tt, tt, tt, tt, tt, tt, tt, tt,
      tt, tt, tt, tt, tt, tt, tt, tt, tt, tt, tt, ff, ff, tt] \<and>
   state_path 243 = [tt, tt, tt, tt, tt, tt, tt, tt, tt, tt, tt, tt, tt,
      tt, tt, tt, tt, tt, tt, tt, tt, tt, tt, tt, ff, tt] \<and>
   state_path 244 = [tt, tt, tt, tt, tt, tt, tt, tt, tt, tt, tt, tt, tt,
      tt, tt, tt, tt, tt, tt, tt, tt, tt, tt, tt, ff, tt, ff] \<and>
   state_path 245 = [tt, tt, tt, tt, tt, tt, tt, tt, tt, tt, tt, tt, tt,
      tt, tt, tt, tt, tt, tt, tt, tt, tt, tt, tt, ff, tt, tt] \<and>
   state_path 246 = [tt, tt, tt, tt, tt, tt, tt, tt, tt, tt, tt, tt, tt,
      tt, tt, tt, tt, tt, tt, tt, tt, tt, tt, tt, tt] \<and>
   state_path 247 = [tt, tt, tt, tt, tt, tt, tt, tt, tt, tt, tt, tt, tt,
      tt, tt, tt, tt, tt, tt, tt, tt, tt, tt, tt, tt, ff] \<and>
   state_path 248 = [tt, tt, tt, tt, tt, tt, tt, tt, tt, tt, tt, tt, tt,
      tt, tt, tt, tt, tt, tt, tt, tt, tt, tt, tt, tt, ff, ff] \<and>
   state_path 249 = [tt, tt, tt, tt, tt, tt, tt, tt, tt, tt, tt, tt, tt,
      tt, tt, tt, tt, tt, tt, tt, tt, tt, tt, tt, tt, ff, tt] \<and>
   state_path 250 = [tt, tt, tt, tt, tt, tt, tt, tt, tt, tt, tt, tt, tt,
      tt, tt, tt, tt, tt, tt, tt, tt, tt, tt, tt, tt, tt] \<and>
   state_path 251 = [tt, tt, tt, tt, tt, tt, tt, tt, tt, tt, tt, tt, tt,
      tt, tt, tt, tt, tt, tt, tt, tt, tt, tt, tt, tt, tt, ff] \<and>
   state_path 252 = [tt, tt, tt, tt, tt, tt, tt, tt, tt, tt, tt, tt, tt,
      tt, tt, tt, tt, tt, tt, tt, tt, tt, tt, tt, tt, tt, tt] \<and>
   state_path 253 = [tt, tt, tt, tt, tt, tt, tt, tt, tt, tt, tt, tt, tt,
      tt, tt, tt, tt, tt, tt, tt, tt, tt, tt, tt, tt, tt, tt, tt] \<and>
   state_path 254 = [tt, tt, tt, tt, tt, tt, tt, tt, tt, tt, tt, tt, tt,
      tt, tt, tt, tt, tt, tt, tt, tt, tt, tt, tt, tt, tt, tt, tt,
      ff] \<and>
   state_path 255 = [tt, tt, tt, tt, tt, tt, tt, tt, tt, tt, tt, tt, tt,
      tt, tt, tt, tt, tt, tt, tt, tt, tt, tt, tt, tt, tt, tt, tt,
      tt]"
  using state_path_list unfolding state_paths_def by (simp add: upt_rec del: upt_Suc)

lemma leaves_eval:
  "leaves [] huff_tree = [
     ([ff, ff, ff, ff, ff], Some 48),
     ([ff, ff, ff, ff, tt], Some 49),
     ([ff, ff, ff, tt, ff], Some 50),
     ([ff, ff, ff, tt, tt], Some 97),
     ([ff, ff, tt, ff, ff], Some 99),
     ([ff, ff, tt, ff, tt], Some 101),
     ([ff, ff, tt, tt, ff], Some 105),
     ([ff, ff, tt, tt, tt], Some 111),
     ([ff, tt, ff, ff, ff], Some 115),
     ([ff, tt, ff, ff, tt], Some 116),
     ([ff, tt, ff, tt, ff, ff], Some 32),
     ([ff, tt, ff, tt, ff, tt], Some 37),
     ([ff, tt, ff, tt, tt, ff], Some 45),
     ([ff, tt, ff, tt, tt, tt], Some 46),
     ([ff, tt, tt, ff, ff, ff], Some 47),
     ([ff, tt, tt, ff, ff, tt], Some 51),
     ([ff, tt, tt, ff, tt, ff], Some 52),
     ([ff, tt, tt, ff, tt, tt], Some 53),
     ([ff, tt, tt, tt, ff, ff], Some 54),
     ([ff, tt, tt, tt, ff, tt], Some 55),
     ([ff, tt, tt, tt, tt, ff], Some 56),
     ([ff, tt, tt, tt, tt, tt], Some 57),
     ([tt, ff, ff, ff, ff, ff], Some 61),
     ([tt, ff, ff, ff, ff, tt], Some 65),
     ([tt, ff, ff, ff, tt, ff], Some 95),
     ([tt, ff, ff, ff, tt, tt], Some 98),
     ([tt, ff, ff, tt, ff, ff], Some 100),
     ([tt, ff, ff, tt, ff, tt], Some 102),
     ([tt, ff, ff, tt, tt, ff], Some 103),
     ([tt, ff, ff, tt, tt, tt], Some 104),
     ([tt, ff, tt, ff, ff, ff], Some 108),
     ([tt, ff, tt, ff, ff, tt], Some 109),
     ([tt, ff, tt, ff, tt, ff], Some 110),
     ([tt, ff, tt, ff, tt, tt], Some 112),
     ([tt, ff, tt, tt, ff, ff], Some 114),
     ([tt, ff, tt, tt, ff, tt], Some 117),
     ([tt, ff, tt, tt, tt, ff, ff], Some 58),
     ([tt, ff, tt, tt, tt, ff, tt], Some 66),
     ([tt, ff, tt, tt, tt, tt, ff], Some 67),
     ([tt, ff, tt, tt, tt, tt, tt], Some 68),
     ([tt, tt, ff, ff, ff, ff, ff], Some 69),
     ([tt, tt, ff, ff, ff, ff, tt], Some 70),
     ([tt, tt, ff, ff, ff, tt, ff], Some 71),
     ([tt, tt, ff, ff, ff, tt, tt], Some 72),
     ([tt, tt, ff, ff, tt, ff, ff], Some 73),
     ([tt, tt, ff, ff, tt, ff, tt], Some 74),
     ([tt, tt, ff, ff, tt, tt, ff], Some 75),
     ([tt, tt, ff, ff, tt, tt, tt], Some 76),
     ([tt, tt, ff, tt, ff, ff, ff], Some 77),
     ([tt, tt, ff, tt, ff, ff, tt], Some 78),
     ([tt, tt, ff, tt, ff, tt, ff], Some 79),
     ([tt, tt, ff, tt, ff, tt, tt], Some 80),
     ([tt, tt, ff, tt, tt, ff, ff], Some 81),
     ([tt, tt, ff, tt, tt, ff, tt], Some 82),
     ([tt, tt, ff, tt, tt, tt, ff], Some 83),
     ([tt, tt, ff, tt, tt, tt, tt], Some 84),
     ([tt, tt, tt, ff, ff, ff, ff], Some 85),
     ([tt, tt, tt, ff, ff, ff, tt], Some 86),
     ([tt, tt, tt, ff, ff, tt, ff], Some 87),
     ([tt, tt, tt, ff, ff, tt, tt], Some 89),
     ([tt, tt, tt, ff, tt, ff, ff], Some 106),
     ([tt, tt, tt, ff, tt, ff, tt], Some 107),
     ([tt, tt, tt, ff, tt, tt, ff], Some 113),
     ([tt, tt, tt, ff, tt, tt, tt], Some 118),
     ([tt, tt, tt, tt, ff, ff, ff], Some 119),
     ([tt, tt, tt, tt, ff, ff, tt], Some 120),
     ([tt, tt, tt, tt, ff, tt, ff], Some 121),
     ([tt, tt, tt, tt, ff, tt, tt], Some 122),
     ([tt, tt, tt, tt, tt, ff, ff, ff], Some 38),
     ([tt, tt, tt, tt, tt, ff, ff, tt], Some 42),
     ([tt, tt, tt, tt, tt, ff, tt, ff], Some 44),
     ([tt, tt, tt, tt, tt, ff, tt, tt], Some 59),
     ([tt, tt, tt, tt, tt, tt, ff, ff], Some 88),
     ([tt, tt, tt, tt, tt, tt, ff, tt], Some 90),
     ([tt, tt, tt, tt, tt, tt, tt, ff, ff, ff], Some 33),
     ([tt, tt, tt, tt, tt, tt, tt, ff, ff, tt], Some 34),
     ([tt, tt, tt, tt, tt, tt, tt, ff, tt, ff], Some 40),
     ([tt, tt, tt, tt, tt, tt, tt, ff, tt, tt], Some 41),
     ([tt, tt, tt, tt, tt, tt, tt, tt, ff, ff], Some 63),
     ([tt, tt, tt, tt, tt, tt, tt, tt, ff, tt, ff], Some 39),
     ([tt, tt, tt, tt, tt, tt, tt, tt, ff, tt, tt], Some 43),
     ([tt, tt, tt, tt, tt, tt, tt, tt, tt, ff, ff], Some 124),
     ([tt, tt, tt, tt, tt, tt, tt, tt, tt, ff, tt, ff], Some 35),
     ([tt, tt, tt, tt, tt, tt, tt, tt, tt, ff, tt, tt], Some 62),
     ([tt, tt, tt, tt, tt, tt, tt, tt, tt, tt, ff, ff, ff], Some 0),
     ([tt, tt, tt, tt, tt, tt, tt, tt, tt, tt, ff, ff, tt], Some 36),
     ([tt, tt, tt, tt, tt, tt, tt, tt, tt, tt, ff, tt, ff], Some 64),
     ([tt, tt, tt, tt, tt, tt, tt, tt, tt, tt, ff, tt, tt], Some 91),
     ([tt, tt, tt, tt, tt, tt, tt, tt, tt, tt, tt, ff, ff], Some 93),
     ([tt, tt, tt, tt, tt, tt, tt, tt, tt, tt, tt, ff, tt], Some 126),
     ([tt, tt, tt, tt, tt, tt, tt, tt, tt, tt, tt, tt, ff, ff], Some
      94),
     ([tt, tt, tt, tt, tt, tt, tt, tt, tt, tt, tt, tt, ff, tt], Some
      125),
     ([tt, tt, tt, tt, tt, tt, tt, tt, tt, tt, tt, tt, tt, ff, ff],
      Some 60),
     ([tt, tt, tt, tt, tt, tt, tt, tt, tt, tt, tt, tt, tt, ff, tt],
      Some 96),
     ([tt, tt, tt, tt, tt, tt, tt, tt, tt, tt, tt, tt, tt, tt, ff],
      Some 123),
     ([tt, tt, tt, tt, tt, tt, tt, tt, tt, tt, tt, tt, tt, tt, tt,
      ff, ff, ff, ff], Some 92),
     ([tt, tt, tt, tt, tt, tt, tt, tt, tt, tt, tt, tt, tt, tt, tt,
      ff, ff, ff, tt], Some 195),
     ([tt, tt, tt, tt, tt, tt, tt, tt, tt, tt, tt, tt, tt, tt, tt,
      ff, ff, tt, ff], Some 208),
     ([tt, tt, tt, tt, tt, tt, tt, tt, tt, tt, tt, tt, tt, tt, tt,
      ff, ff, tt, tt, ff], Some 128),
     ([tt, tt, tt, tt, tt, tt, tt, tt, tt, tt, tt, tt, tt, tt, tt,
      ff, ff, tt, tt, tt], Some 130),
     ([tt, tt, tt, tt, tt, tt, tt, tt, tt, tt, tt, tt, tt, tt, tt,
      ff, tt, ff, ff, ff], Some 131),
     ([tt, tt, tt, tt, tt, tt, tt, tt, tt, tt, tt, tt, tt, tt, tt,
      ff, tt, ff, ff, tt], Some 162),
     ([tt, tt, tt, tt, tt, tt, tt, tt, tt, tt, tt, tt, tt, tt, tt,
      ff, tt, ff, tt, ff], Some 184),
     ([tt, tt, tt, tt, tt, tt, tt, tt, tt, tt, tt, tt, tt, tt, tt,
      ff, tt, ff, tt, tt], Some 194),
     ([tt, tt, tt, tt, tt, tt, tt, tt, tt, tt, tt, tt, tt, tt, tt,
      ff, tt, tt, ff, ff], Some 224),
     ([tt, tt, tt, tt, tt, tt, tt, tt, tt, tt, tt, tt, tt, tt, tt,
      ff, tt, tt, ff, tt], Some 226),
     ([tt, tt, tt, tt, tt, tt, tt, tt, tt, tt, tt, tt, tt, tt, tt,
      ff, tt, tt, tt, ff, ff], Some 153),
     ([tt, tt, tt, tt, tt, tt, tt, tt, tt, tt, tt, tt, tt, tt, tt,
      ff, tt, tt, tt, ff, tt], Some 161),
     ([tt, tt, tt, tt, tt, tt, tt, tt, tt, tt, tt, tt, tt, tt, tt,
      ff, tt, tt, tt, tt, ff], Some 167),
     ([tt, tt, tt, tt, tt, tt, tt, tt, tt, tt, tt, tt, tt, tt, tt,
      ff, tt, tt, tt, tt, tt], Some 172),
     ([tt, tt, tt, tt, tt, tt, tt, tt, tt, tt, tt, tt, tt, tt, tt,
      tt, ff, ff, ff, ff, ff], Some 176),
     ([tt, tt, tt, tt, tt, tt, tt, tt, tt, tt, tt, tt, tt, tt, tt,
      tt, ff, ff, ff, ff, tt], Some 177),
     ([tt, tt, tt, tt, tt, tt, tt, tt, tt, tt, tt, tt, tt, tt, tt,
      tt, ff, ff, ff, tt, ff], Some 179),
     ([tt, tt, tt, tt, tt, tt, tt, tt, tt, tt, tt, tt, tt, tt, tt,
      tt, ff, ff, ff, tt, tt], Some 209),
     ([tt, tt, tt, tt, tt, tt, tt, tt, tt, tt, tt, tt, tt, tt, tt,
      tt, ff, ff, tt, ff, ff], Some 216),
     ([tt, tt, tt, tt, tt, tt, tt, tt, tt, tt, tt, tt, tt, tt, tt,
      tt, ff, ff, tt, ff, tt], Some 217),
     ([tt, tt, tt, tt, tt, tt, tt, tt, tt, tt, tt, tt, tt, tt, tt,
      tt, ff, ff, tt, tt, ff], Some 227),
     ([tt, tt, tt, tt, tt, tt, tt, tt, tt, tt, tt, tt, tt, tt, tt,
      tt, ff, ff, tt, tt, tt], Some 229),
     ([tt, tt, tt, tt, tt, tt, tt, tt, tt, tt, tt, tt, tt, tt, tt,
      tt, ff, tt, ff, ff, ff], Some 230),
     ([tt, tt, tt, tt, tt, tt, tt, tt, tt, tt, tt, tt, tt, tt, tt,
      tt, ff, tt, ff, ff, tt, ff], Some 129),
     ([tt, tt, tt, tt, tt, tt, tt, tt, tt, tt, tt, tt, tt, tt, tt,
      tt, ff, tt, ff, ff, tt, tt], Some 132),
     ([tt, tt, tt, tt, tt, tt, tt, tt, tt, tt, tt, tt, tt, tt, tt,
      tt, ff, tt, ff, tt, ff, ff], Some 133),
     ([tt, tt, tt, tt, tt, tt, tt, tt, tt, tt, tt, tt, tt, tt, tt,
      tt, ff, tt, ff, tt, ff, tt], Some 134),
     ([tt, tt, tt, tt, tt, tt, tt, tt, tt, tt, tt, tt, tt, tt, tt,
      tt, ff, tt, ff, tt, tt, ff], Some 136),
     ([tt, tt, tt, tt, tt, tt, tt, tt, tt, tt, tt, tt, tt, tt, tt,
      tt, ff, tt, ff, tt, tt, tt], Some 146),
     ([tt, tt, tt, tt, tt, tt, tt, tt, tt, tt, tt, tt, tt, tt, tt,
      tt, ff, tt, tt, ff, ff, ff], Some 154),
     ([tt, tt, tt, tt, tt, tt, tt, tt, tt, tt, tt, tt, tt, tt, tt,
      tt, ff, tt, tt, ff, ff, tt], Some 156),
     ([tt, tt, tt, tt, tt, tt, tt, tt, tt, tt, tt, tt, tt, tt, tt,
      tt, ff, tt, tt, ff, tt, ff], Some 160),
     ([tt, tt, tt, tt, tt, tt, tt, tt, tt, tt, tt, tt, tt, tt, tt,
      tt, ff, tt, tt, ff, tt, tt], Some 163),
     ([tt, tt, tt, tt, tt, tt, tt, tt, tt, tt, tt, tt, tt, tt, tt,
      tt, ff, tt, tt, tt, ff, ff], Some 164),
     ([tt, tt, tt, tt, tt, tt, tt, tt, tt, tt, tt, tt, tt, tt, tt,
      tt, ff, tt, tt, tt, ff, tt], Some 169),
     ([tt, tt, tt, tt, tt, tt, tt, tt, tt, tt, tt, tt, tt, tt, tt,
      tt, ff, tt, tt, tt, tt, ff], Some 170),
     ([tt, tt, tt, tt, tt, tt, tt, tt, tt, tt, tt, tt, tt, tt, tt,
      tt, ff, tt, tt, tt, tt, tt], Some 173),
     ([tt, tt, tt, tt, tt, tt, tt, tt, tt, tt, tt, tt, tt, tt, tt,
      tt, tt, ff, ff, ff, ff, ff], Some 178),
     ([tt, tt, tt, tt, tt, tt, tt, tt, tt, tt, tt, tt, tt, tt, tt,
      tt, tt, ff, ff, ff, ff, tt], Some 181),
     ([tt, tt, tt, tt, tt, tt, tt, tt, tt, tt, tt, tt, tt, tt, tt,
      tt, tt, ff, ff, ff, tt, ff], Some 185),
     ([tt, tt, tt, tt, tt, tt, tt, tt, tt, tt, tt, tt, tt, tt, tt,
      tt, tt, ff, ff, ff, tt, tt], Some 186),
     ([tt, tt, tt, tt, tt, tt, tt, tt, tt, tt, tt, tt, tt, tt, tt,
      tt, tt, ff, ff, tt, ff, ff], Some 187),
     ([tt, tt, tt, tt, tt, tt, tt, tt, tt, tt, tt, tt, tt, tt, tt,
      tt, tt, ff, ff, tt, ff, tt], Some 189),
     ([tt, tt, tt, tt, tt, tt, tt, tt, tt, tt, tt, tt, tt, tt, tt,
      tt, tt, ff, ff, tt, tt, ff], Some 190),
     ([tt, tt, tt, tt, tt, tt, tt, tt, tt, tt, tt, tt, tt, tt, tt,
      tt, tt, ff, ff, tt, tt, tt], Some 196),
     ([tt, tt, tt, tt, tt, tt, tt, tt, tt, tt, tt, tt, tt, tt, tt,
      tt, tt, ff, tt, ff, ff, ff], Some 198),
     ([tt, tt, tt, tt, tt, tt, tt, tt, tt, tt, tt, tt, tt, tt, tt,
      tt, tt, ff, tt, ff, ff, tt], Some 228),
     ([tt, tt, tt, tt, tt, tt, tt, tt, tt, tt, tt, tt, tt, tt, tt,
      tt, tt, ff, tt, ff, tt, ff], Some 232),
     ([tt, tt, tt, tt, tt, tt, tt, tt, tt, tt, tt, tt, tt, tt, tt,
      tt, tt, ff, tt, ff, tt, tt], Some 233),
     ([tt, tt, tt, tt, tt, tt, tt, tt, tt, tt, tt, tt, tt, tt, tt,
      tt, tt, ff, tt, tt, ff, ff, ff], Some 1),
     ([tt, tt, tt, tt, tt, tt, tt, tt, tt, tt, tt, tt, tt, tt, tt,
      tt, tt, ff, tt, tt, ff, ff, tt], Some 135),
     ([tt, tt, tt, tt, tt, tt, tt, tt, tt, tt, tt, tt, tt, tt, tt,
      tt, tt, ff, tt, tt, ff, tt, ff], Some 137),
     ([tt, tt, tt, tt, tt, tt, tt, tt, tt, tt, tt, tt, tt, tt, tt,
      tt, tt, ff, tt, tt, ff, tt, tt], Some 138),
     ([tt, tt, tt, tt, tt, tt, tt, tt, tt, tt, tt, tt, tt, tt, tt,
      tt, tt, ff, tt, tt, tt, ff, ff], Some 139),
     ([tt, tt, tt, tt, tt, tt, tt, tt, tt, tt, tt, tt, tt, tt, tt,
      tt, tt, ff, tt, tt, tt, ff, tt], Some 140),
     ([tt, tt, tt, tt, tt, tt, tt, tt, tt, tt, tt, tt, tt, tt, tt,
      tt, tt, ff, tt, tt, tt, tt, ff], Some 141),
     ([tt, tt, tt, tt, tt, tt, tt, tt, tt, tt, tt, tt, tt, tt, tt,
      tt, tt, ff, tt, tt, tt, tt, tt], Some 143),
     ([tt, tt, tt, tt, tt, tt, tt, tt, tt, tt, tt, tt, tt, tt, tt,
      tt, tt, tt, ff, ff, ff, ff, ff], Some 147),
     ([tt, tt, tt, tt, tt, tt, tt, tt, tt, tt, tt, tt, tt, tt, tt,
      tt, tt, tt, ff, ff, ff, ff, tt], Some 149),
     ([tt, tt, tt, tt, tt, tt, tt, tt, tt, tt, tt, tt, tt, tt, tt,
      tt, tt, tt, ff, ff, ff, tt, ff], Some 150),
     ([tt, tt, tt, tt, tt, tt, tt, tt, tt, tt, tt, tt, tt, tt, tt,
      tt, tt, tt, ff, ff, ff, tt, tt], Some 151),
     ([tt, tt, tt, tt, tt, tt, tt, tt, tt, tt, tt, tt, tt, tt, tt,
      tt, tt, tt, ff, ff, tt, ff, ff], Some 152),
     ([tt, tt, tt, tt, tt, tt, tt, tt, tt, tt, tt, tt, tt, tt, tt,
      tt, tt, tt, ff, ff, tt, ff, tt], Some 155),
     ([tt, tt, tt, tt, tt, tt, tt, tt, tt, tt, tt, tt, tt, tt, tt,
      tt, tt, tt, ff, ff, tt, tt, ff], Some 157),
     ([tt, tt, tt, tt, tt, tt, tt, tt, tt, tt, tt, tt, tt, tt, tt,
      tt, tt, tt, ff, ff, tt, tt, tt], Some 158),
     ([tt, tt, tt, tt, tt, tt, tt, tt, tt, tt, tt, tt, tt, tt, tt,
      tt, tt, tt, ff, tt, ff, ff, ff], Some 165),
     ([tt, tt, tt, tt, tt, tt, tt, tt, tt, tt, tt, tt, tt, tt, tt,
      tt, tt, tt, ff, tt, ff, ff, tt], Some 166),
     ([tt, tt, tt, tt, tt, tt, tt, tt, tt, tt, tt, tt, tt, tt, tt,
      tt, tt, tt, ff, tt, ff, tt, ff], Some 168),
     ([tt, tt, tt, tt, tt, tt, tt, tt, tt, tt, tt, tt, tt, tt, tt,
      tt, tt, tt, ff, tt, ff, tt, tt], Some 174),
     ([tt, tt, tt, tt, tt, tt, tt, tt, tt, tt, tt, tt, tt, tt, tt,
      tt, tt, tt, ff, tt, tt, ff, ff], Some 175),
     ([tt, tt, tt, tt, tt, tt, tt, tt, tt, tt, tt, tt, tt, tt, tt,
      tt, tt, tt, ff, tt, tt, ff, tt], Some 180),
     ([tt, tt, tt, tt, tt, tt, tt, tt, tt, tt, tt, tt, tt, tt, tt,
      tt, tt, tt, ff, tt, tt, tt, ff], Some 182),
     ([tt, tt, tt, tt, tt, tt, tt, tt, tt, tt, tt, tt, tt, tt, tt,
      tt, tt, tt, ff, tt, tt, tt, tt], Some 183),
     ([tt, tt, tt, tt, tt, tt, tt, tt, tt, tt, tt, tt, tt, tt, tt,
      tt, tt, tt, tt, ff, ff, ff, ff], Some 188),
     ([tt, tt, tt, tt, tt, tt, tt, tt, tt, tt, tt, tt, tt, tt, tt,
      tt, tt, tt, tt, ff, ff, ff, tt], Some 191),
     ([tt, tt, tt, tt, tt, tt, tt, tt, tt, tt, tt, tt, tt, tt, tt,
      tt, tt, tt, tt, ff, ff, tt, ff], Some 197),
     ([tt, tt, tt, tt, tt, tt, tt, tt, tt, tt, tt, tt, tt, tt, tt,
      tt, tt, tt, tt, ff, ff, tt, tt], Some 231),
     ([tt, tt, tt, tt, tt, tt, tt, tt, tt, tt, tt, tt, tt, tt, tt,
      tt, tt, tt, tt, ff, tt, ff, ff], Some 239),
     ([tt, tt, tt, tt, tt, tt, tt, tt, tt, tt, tt, tt, tt, tt, tt,
      tt, tt, tt, tt, ff, tt, ff, tt, ff], Some 9),
     ([tt, tt, tt, tt, tt, tt, tt, tt, tt, tt, tt, tt, tt, tt, tt,
      tt, tt, tt, tt, ff, tt, ff, tt, tt], Some 142),
     ([tt, tt, tt, tt, tt, tt, tt, tt, tt, tt, tt, tt, tt, tt, tt,
      tt, tt, tt, tt, ff, tt, tt, ff, ff], Some 144),
     ([tt, tt, tt, tt, tt, tt, tt, tt, tt, tt, tt, tt, tt, tt, tt,
      tt, tt, tt, tt, ff, tt, tt, ff, tt], Some 145),
     ([tt, tt, tt, tt, tt, tt, tt, tt, tt, tt, tt, tt, tt, tt, tt,
      tt, tt, tt, tt, ff, tt, tt, tt, ff], Some 148),
     ([tt, tt, tt, tt, tt, tt, tt, tt, tt, tt, tt, tt, tt, tt, tt,
      tt, tt, tt, tt, ff, tt, tt, tt, tt], Some 159),
     ([tt, tt, tt, tt, tt, tt, tt, tt, tt, tt, tt, tt, tt, tt, tt,
      tt, tt, tt, tt, tt, ff, ff, ff, ff], Some 171),
     ([tt, tt, tt, tt, tt, tt, tt, tt, tt, tt, tt, tt, tt, tt, tt,
      tt, tt, tt, tt, tt, ff, ff, ff, tt], Some 206),
     ([tt, tt, tt, tt, tt, tt, tt, tt, tt, tt, tt, tt, tt, tt, tt,
      tt, tt, tt, tt, tt, ff, ff, tt, ff], Some 215),
     ([tt, tt, tt, tt, tt, tt, tt, tt, tt, tt, tt, tt, tt, tt, tt,
      tt, tt, tt, tt, tt, ff, ff, tt, tt], Some 225),
     ([tt, tt, tt, tt, tt, tt, tt, tt, tt, tt, tt, tt, tt, tt, tt,
      tt, tt, tt, tt, tt, ff, tt, ff, ff], Some 236),
     ([tt, tt, tt, tt, tt, tt, tt, tt, tt, tt, tt, tt, tt, tt, tt,
      tt, tt, tt, tt, tt, ff, tt, ff, tt], Some 237),
     ([tt, tt, tt, tt, tt, tt, tt, tt, tt, tt, tt, tt, tt, tt, tt,
      tt, tt, tt, tt, tt, ff, tt, tt, ff, ff], Some 199),
     ([tt, tt, tt, tt, tt, tt, tt, tt, tt, tt, tt, tt, tt, tt, tt,
      tt, tt, tt, tt, tt, ff, tt, tt, ff, tt], Some 207),
     ([tt, tt, tt, tt, tt, tt, tt, tt, tt, tt, tt, tt, tt, tt, tt,
      tt, tt, tt, tt, tt, ff, tt, tt, tt, ff], Some 234),
     ([tt, tt, tt, tt, tt, tt, tt, tt, tt, tt, tt, tt, tt, tt, tt,
      tt, tt, tt, tt, tt, ff, tt, tt, tt, tt], Some 235),
     ([tt, tt, tt, tt, tt, tt, tt, tt, tt, tt, tt, tt, tt, tt, tt,
      tt, tt, tt, tt, tt, tt, ff, ff, ff, ff, ff], Some 192),
     ([tt, tt, tt, tt, tt, tt, tt, tt, tt, tt, tt, tt, tt, tt, tt,
      tt, tt, tt, tt, tt, tt, ff, ff, ff, ff, tt], Some 193),
     ([tt, tt, tt, tt, tt, tt, tt, tt, tt, tt, tt, tt, tt, tt, tt,
      tt, tt, tt, tt, tt, tt, ff, ff, ff, tt, ff], Some 200),
     ([tt, tt, tt, tt, tt, tt, tt, tt, tt, tt, tt, tt, tt, tt, tt,
      tt, tt, tt, tt, tt, tt, ff, ff, ff, tt, tt], Some 201),
     ([tt, tt, tt, tt, tt, tt, tt, tt, tt, tt, tt, tt, tt, tt, tt,
      tt, tt, tt, tt, tt, tt, ff, ff, tt, ff, ff], Some 202),
     ([tt, tt, tt, tt, tt, tt, tt, tt, tt, tt, tt, tt, tt, tt, tt,
      tt, tt, tt, tt, tt, tt, ff, ff, tt, ff, tt], Some 205),
     ([tt, tt, tt, tt, tt, tt, tt, tt, tt, tt, tt, tt, tt, tt, tt,
      tt, tt, tt, tt, tt, tt, ff, ff, tt, tt, ff], Some 210),
     ([tt, tt, tt, tt, tt, tt, tt, tt, tt, tt, tt, tt, tt, tt, tt,
      tt, tt, tt, tt, tt, tt, ff, ff, tt, tt, tt], Some 213),
     ([tt, tt, tt, tt, tt, tt, tt, tt, tt, tt, tt, tt, tt, tt, tt,
      tt, tt, tt, tt, tt, tt, ff, tt, ff, ff, ff], Some 218),
     ([tt, tt, tt, tt, tt, tt, tt, tt, tt, tt, tt, tt, tt, tt, tt,
      tt, tt, tt, tt, tt, tt, ff, tt, ff, ff, tt], Some 219),
     ([tt, tt, tt, tt, tt, tt, tt, tt, tt, tt, tt, tt, tt, tt, tt,
      tt, tt, tt, tt, tt, tt, ff, tt, ff, tt, ff], Some 238),
     ([tt, tt, tt, tt, tt, tt, tt, tt, tt, tt, tt, tt, tt, tt, tt,
      tt, tt, tt, tt, tt, tt, ff, tt, ff, tt, tt], Some 240),
     ([tt, tt, tt, tt, tt, tt, tt, tt, tt, tt, tt, tt, tt, tt, tt,
      tt, tt, tt, tt, tt, tt, ff, tt, tt, ff, ff], Some 242),
     ([tt, tt, tt, tt, tt, tt, tt, tt, tt, tt, tt, tt, tt, tt, tt,
      tt, tt, tt, tt, tt, tt, ff, tt, tt, ff, tt], Some 243),
     ([tt, tt, tt, tt, tt, tt, tt, tt, tt, tt, tt, tt, tt, tt, tt,
      tt, tt, tt, tt, tt, tt, ff, tt, tt, tt, ff], Some 255),
     ([tt, tt, tt, tt, tt, tt, tt, tt, tt, tt, tt, tt, tt, tt, tt,
      tt, tt, tt, tt, tt, tt, ff, tt, tt, tt, tt, ff], Some 203),
     ([tt, tt, tt, tt, tt, tt, tt, tt, tt, tt, tt, tt, tt, tt, tt,
      tt, tt, tt, tt, tt, tt, ff, tt, tt, tt, tt, tt], Some 204),
     ([tt, tt, tt, tt, tt, tt, tt, tt, tt, tt, tt, tt, tt, tt, tt,
      tt, tt, tt, tt, tt, tt, tt, ff, ff, ff, ff, ff], Some 211),
     ([tt, tt, tt, tt, tt, tt, tt, tt, tt, tt, tt, tt, tt, tt, tt,
      tt, tt, tt, tt, tt, tt, tt, ff, ff, ff, ff, tt], Some 212),
     ([tt, tt, tt, tt, tt, tt, tt, tt, tt, tt, tt, tt, tt, tt, tt,
      tt, tt, tt, tt, tt, tt, tt, ff, ff, ff, tt, ff], Some 214),
     ([tt, tt, tt, tt, tt, tt, tt, tt, tt, tt, tt, tt, tt, tt, tt,
      tt, tt, tt, tt, tt, tt, tt, ff, ff, ff, tt, tt], Some 221),
     ([tt, tt, tt, tt, tt, tt, tt, tt, tt, tt, tt, tt, tt, tt, tt,
      tt, tt, tt, tt, tt, tt, tt, ff, ff, tt, ff, ff], Some 222),
     ([tt, tt, tt, tt, tt, tt, tt, tt, tt, tt, tt, tt, tt, tt, tt,
      tt, tt, tt, tt, tt, tt, tt, ff, ff, tt, ff, tt], Some 223),
     ([tt, tt, tt, tt, tt, tt, tt, tt, tt, tt, tt, tt, tt, tt, tt,
      tt, tt, tt, tt, tt, tt, tt, ff, ff, tt, tt, ff], Some 241),
     ([tt, tt, tt, tt, tt, tt, tt, tt, tt, tt, tt, tt, tt, tt, tt,
      tt, tt, tt, tt, tt, tt, tt, ff, ff, tt, tt, tt], Some 244),
     ([tt, tt, tt, tt, tt, tt, tt, tt, tt, tt, tt, tt, tt, tt, tt,
      tt, tt, tt, tt, tt, tt, tt, ff, tt, ff, ff, ff], Some 245),
     ([tt, tt, tt, tt, tt, tt, tt, tt, tt, tt, tt, tt, tt, tt, tt,
      tt, tt, tt, tt, tt, tt, tt, ff, tt, ff, ff, tt], Some 246),
     ([tt, tt, tt, tt, tt, tt, tt, tt, tt, tt, tt, tt, tt, tt, tt,
      tt, tt, tt, tt, tt, tt, tt, ff, tt, ff, tt, ff], Some 247),
     ([tt, tt, tt, tt, tt, tt, tt, tt, tt, tt, tt, tt, tt, tt, tt,
      tt, tt, tt, tt, tt, tt, tt, ff, tt, ff, tt, tt], Some 248),
     ([tt, tt, tt, tt, tt, tt, tt, tt, tt, tt, tt, tt, tt, tt, tt,
      tt, tt, tt, tt, tt, tt, tt, ff, tt, tt, ff, ff], Some 250),
     ([tt, tt, tt, tt, tt, tt, tt, tt, tt, tt, tt, tt, tt, tt, tt,
      tt, tt, tt, tt, tt, tt, tt, ff, tt, tt, ff, tt], Some 251),
     ([tt, tt, tt, tt, tt, tt, tt, tt, tt, tt, tt, tt, tt, tt, tt,
      tt, tt, tt, tt, tt, tt, tt, ff, tt, tt, tt, ff], Some 252),
     ([tt, tt, tt, tt, tt, tt, tt, tt, tt, tt, tt, tt, tt, tt, tt,
      tt, tt, tt, tt, tt, tt, tt, ff, tt, tt, tt, tt], Some 253),
     ([tt, tt, tt, tt, tt, tt, tt, tt, tt, tt, tt, tt, tt, tt, tt,
      tt, tt, tt, tt, tt, tt, tt, tt, ff, ff, ff, ff], Some 254),
     ([tt, tt, tt, tt, tt, tt, tt, tt, tt, tt, tt, tt, tt, tt, tt,
      tt, tt, tt, tt, tt, tt, tt, tt, ff, ff, ff, tt, ff], Some 2),
     ([tt, tt, tt, tt, tt, tt, tt, tt, tt, tt, tt, tt, tt, tt, tt,
      tt, tt, tt, tt, tt, tt, tt, tt, ff, ff, ff, tt, tt], Some 3),
     ([tt, tt, tt, tt, tt, tt, tt, tt, tt, tt, tt, tt, tt, tt, tt,
      tt, tt, tt, tt, tt, tt, tt, tt, ff, ff, tt, ff, ff], Some 4),
     ([tt, tt, tt, tt, tt, tt, tt, tt, tt, tt, tt, tt, tt, tt, tt,
      tt, tt, tt, tt, tt, tt, tt, tt, ff, ff, tt, ff, tt], Some 5),
     ([tt, tt, tt, tt, tt, tt, tt, tt, tt, tt, tt, tt, tt, tt, tt,
      tt, tt, tt, tt, tt, tt, tt, tt, ff, ff, tt, tt, ff], Some 6),
     ([tt, tt, tt, tt, tt, tt, tt, tt, tt, tt, tt, tt, tt, tt, tt,
      tt, tt, tt, tt, tt, tt, tt, tt, ff, ff, tt, tt, tt], Some 7),
     ([tt, tt, tt, tt, tt, tt, tt, tt, tt, tt, tt, tt, tt, tt, tt,
      tt, tt, tt, tt, tt, tt, tt, tt, ff, tt, ff, ff, ff], Some 8),
     ([tt, tt, tt, tt, tt, tt, tt, tt, tt, tt, tt, tt, tt, tt, tt,
      tt, tt, tt, tt, tt, tt, tt, tt, ff, tt, ff, ff, tt], Some 11),
     ([tt, tt, tt, tt, tt, tt, tt, tt, tt, tt, tt, tt, tt, tt, tt,
      tt, tt, tt, tt, tt, tt, tt, tt, ff, tt, ff, tt, ff], Some 12),
     ([tt, tt, tt, tt, tt, tt, tt, tt, tt, tt, tt, tt, tt, tt, tt,
      tt, tt, tt, tt, tt, tt, tt, tt, ff, tt, ff, tt, tt], Some 14),
     ([tt, tt, tt, tt, tt, tt, tt, tt, tt, tt, tt, tt, tt, tt, tt,
      tt, tt, tt, tt, tt, tt, tt, tt, ff, tt, tt, ff, ff], Some 15),
     ([tt, tt, tt, tt, tt, tt, tt, tt, tt, tt, tt, tt, tt, tt, tt,
      tt, tt, tt, tt, tt, tt, tt, tt, ff, tt, tt, ff, tt], Some 16),
     ([tt, tt, tt, tt, tt, tt, tt, tt, tt, tt, tt, tt, tt, tt, tt,
      tt, tt, tt, tt, tt, tt, tt, tt, ff, tt, tt, tt, ff], Some 17),
     ([tt, tt, tt, tt, tt, tt, tt, tt, tt, tt, tt, tt, tt, tt, tt,
      tt, tt, tt, tt, tt, tt, tt, tt, ff, tt, tt, tt, tt], Some 18),
     ([tt, tt, tt, tt, tt, tt, tt, tt, tt, tt, tt, tt, tt, tt, tt,
      tt, tt, tt, tt, tt, tt, tt, tt, tt, ff, ff, ff, ff], Some 19),
     ([tt, tt, tt, tt, tt, tt, tt, tt, tt, tt, tt, tt, tt, tt, tt,
      tt, tt, tt, tt, tt, tt, tt, tt, tt, ff, ff, ff, tt], Some 20),
     ([tt, tt, tt, tt, tt, tt, tt, tt, tt, tt, tt, tt, tt, tt, tt,
      tt, tt, tt, tt, tt, tt, tt, tt, tt, ff, ff, tt, ff], Some 21),
     ([tt, tt, tt, tt, tt, tt, tt, tt, tt, tt, tt, tt, tt, tt, tt,
      tt, tt, tt, tt, tt, tt, tt, tt, tt, ff, ff, tt, tt], Some 23),
     ([tt, tt, tt, tt, tt, tt, tt, tt, tt, tt, tt, tt, tt, tt, tt,
      tt, tt, tt, tt, tt, tt, tt, tt, tt, ff, tt, ff, ff], Some 24),
     ([tt, tt, tt, tt, tt, tt, tt, tt, tt, tt, tt, tt, tt, tt, tt,
      tt, tt, tt, tt, tt, tt, tt, tt, tt, ff, tt, ff, tt], Some 25),
     ([tt, tt, tt, tt, tt, tt, tt, tt, tt, tt, tt, tt, tt, tt, tt,
      tt, tt, tt, tt, tt, tt, tt, tt, tt, ff, tt, tt, ff], Some 26),
     ([tt, tt, tt, tt, tt, tt, tt, tt, tt, tt, tt, tt, tt, tt, tt,
      tt, tt, tt, tt, tt, tt, tt, tt, tt, ff, tt, tt, tt], Some 27),
     ([tt, tt, tt, tt, tt, tt, tt, tt, tt, tt, tt, tt, tt, tt, tt,
      tt, tt, tt, tt, tt, tt, tt, tt, tt, tt, ff, ff, ff], Some 28),
     ([tt, tt, tt, tt, tt, tt, tt, tt, tt, tt, tt, tt, tt, tt, tt,
      tt, tt, tt, tt, tt, tt, tt, tt, tt, tt, ff, ff, tt], Some 29),
     ([tt, tt, tt, tt, tt, tt, tt, tt, tt, tt, tt, tt, tt, tt, tt,
      tt, tt, tt, tt, tt, tt, tt, tt, tt, tt, ff, tt, ff], Some 30),
     ([tt, tt, tt, tt, tt, tt, tt, tt, tt, tt, tt, tt, tt, tt, tt,
      tt, tt, tt, tt, tt, tt, tt, tt, tt, tt, ff, tt, tt], Some 31),
     ([tt, tt, tt, tt, tt, tt, tt, tt, tt, tt, tt, tt, tt, tt, tt,
      tt, tt, tt, tt, tt, tt, tt, tt, tt, tt, tt, ff, ff], Some 127),
     ([tt, tt, tt, tt, tt, tt, tt, tt, tt, tt, tt, tt, tt, tt, tt,
      tt, tt, tt, tt, tt, tt, tt, tt, tt, tt, tt, ff, tt], Some 220),
     ([tt, tt, tt, tt, tt, tt, tt, tt, tt, tt, tt, tt, tt, tt, tt,
      tt, tt, tt, tt, tt, tt, tt, tt, tt, tt, tt, tt, ff], Some 249),
     ([tt, tt, tt, tt, tt, tt, tt, tt, tt, tt, tt, tt, tt, tt, tt,
      tt, tt, tt, tt, tt, tt, tt, tt, tt, tt, tt, tt, tt, ff, ff],
      Some 10),
     ([tt, tt, tt, tt, tt, tt, tt, tt, tt, tt, tt, tt, tt, tt, tt,
      tt, tt, tt, tt, tt, tt, tt, tt, tt, tt, tt, tt, tt, ff, tt],
      Some 13),
     ([tt, tt, tt, tt, tt, tt, tt, tt, tt, tt, tt, tt, tt, tt, tt,
      tt, tt, tt, tt, tt, tt, tt, tt, tt, tt, tt, tt, tt, tt, ff],
      Some 22),
     ([tt, tt, tt, tt, tt, tt, tt, tt, tt, tt, tt, tt, tt, tt, tt,
      tt, tt, tt, tt, tt, tt, tt, tt, tt, tt, tt, tt, tt, tt, tt],
      None)]"
  by (simp add: huff_tree_def)

lemma nodes_eval: "nodes [] huff_tree = state_paths"
  by (simp add: huff_tree_def state_paths_def)

lemma leaves_codes: "list_all (\<lambda>(p, x). p = sym_code x) (leaves [] huff_tree)"
  unfolding leaves_eval by (simp add: huff_code_simps)

lemma length_leaves: "length (leaves [] huff_tree) = 257"
  unfolding leaves_eval by simp

text \<open>
  The leaves of a tree have distinct paths, so here they carry distinct symbols; there are as many
  leaves as symbols, so every symbol has its leaf.
\<close>

lemma leaves_symbols: "x \<in> set (map snd (leaves [] huff_tree))"
proof -
  let ?L = "leaves [] huff_tree"
  have "map fst ?L = map sym_code (map snd ?L)"
    using leaves_codes by (auto simp: list_all_iff)
  with distinct_leaves [of "[]" huff_tree] have "distinct (map sym_code (map snd ?L))" by simp
  then have "distinct (map snd ?L)" by (simp only: distinct_map [of sym_code])
  then have "card (set (map snd ?L)) = length (map snd ?L)" by (rule distinct_card)
  then have "card (set (map snd ?L)) = 257" by (simp add: length_leaves)
  moreover have "card (UNIV :: u8 option set) = 257"
    by (simp add: card_UNIV_option card_word)
  ultimately show ?thesis
    using card_eq_UNIV_imp_eq_UNIV [of "set (map snd ?L)"] by simp
qed

text \<open>Every symbol's code leads to its leaf, and every state's path to an inner node.\<close>

lemma walk_sym_code: "walk huff_tree (sym_code x) = Some (HLeaf x)"
proof -
  obtain p where p: "(p, x) \<in> set (leaves [] huff_tree)" using leaves_symbols [of x] by auto
  with leaves_codes have "p = sym_code x" by (auto simp: list_all_iff)
  with leaves_walk [OF p] show ?thesis by simp
qed

lemma walk_state_path: "\<exists>l r. walk huff_tree (state_path s) = Some (HNode l r)"
proof -
  have "unat s < length state_paths" by simp
  then have "state_path s \<in> set (nodes [] huff_tree)"
    unfolding nodes_eval state_path_def by (rule nth_mem)
  then show ?thesis using nodes_walk by fastforce
qed

end
