(* ===== verification/Huffman_Table.thy ===== *)
theory Huffman_Table
  imports Huffman_Code
begin

text \<open>
  Every entry of \<open>HUFFMAN_DECODE\<close>, checked against the code: from a state that holds the bits
  \<open>state_path s\<close>, the four bits of a nibble either complete the code of exactly the decoded octet
  and leave the path of the next state, or extend the path, or (flag 4) contain the end-of-string
  code; flag 1 is set exactly where the bits left over could be the padding of a last octet.
\<close>

definition padding_path :: "bool list \<Rightarrow> bool" where
  "padding_path p \<longleftrightarrow> p \<noteq> [] \<and> list_all id p \<and> length p < 8"

definition entry_ok :: "u8 \<Rightarrow> u8 \<Rightarrow> huff_entry \<Rightarrow> bool" where
  "entry_ok s n e = (case e of (s', r, f) \<Rightarrow>
     let bits = state_path s @ nibble_bits n in
     if f AND 0x4 = 0x4 then prefix eos_code bits
     else bits = (if f AND 0x2 = 0x2 then huff_code r @ state_path s' else state_path s') \<and>
       (f AND 0x1 = 0x1) = padding_path (state_path s'))"

definition row_ok :: "u8 \<Rightarrow> huff_entry list \<Rightarrow> bool" where
  "row_ok s row = list_all2 (entry_ok s) (map word_of_nat [0..<16]) row"

lemma nibble_bits_simps:
  "nibble_bits 0 = [ff, ff, ff, ff] \<and>
   nibble_bits 1 = [ff, ff, ff, tt] \<and>
   nibble_bits 2 = [ff, ff, tt, ff] \<and>
   nibble_bits 3 = [ff, ff, tt, tt] \<and>
   nibble_bits 4 = [ff, tt, ff, ff] \<and>
   nibble_bits 5 = [ff, tt, ff, tt] \<and>
   nibble_bits 6 = [ff, tt, tt, ff] \<and>
   nibble_bits 7 = [ff, tt, tt, tt] \<and>
   nibble_bits 8 = [tt, ff, ff, ff] \<and>
   nibble_bits 9 = [tt, ff, ff, tt] \<and>
   nibble_bits 10 = [tt, ff, tt, ff] \<and>
   nibble_bits 11 = [tt, ff, tt, tt] \<and>
   nibble_bits 12 = [tt, tt, ff, ff] \<and>
   nibble_bits 13 = [tt, tt, ff, tt] \<and>
   nibble_bits 14 = [tt, tt, tt, ff] \<and>
   nibble_bits 15 = [tt, tt, tt, tt]"
  by (simp add: upt_rec word_bits_def)

lemmas entry_eval =
  row_ok_def entry_ok_def padding_path_def state_path_simps huff_code_simps nibble_bits_simps
  Let_def upt_rec

lemma block_0: "list_all2 row_ok (map word_of_nat [0..<16]) HUFFMAN_DECODE_0"
  by (simp add: HUFFMAN_DECODE_0_def entry_eval del: upt_Suc)

lemma block_1: "list_all2 row_ok (map word_of_nat [16..<32]) HUFFMAN_DECODE_1"
  by (simp add: HUFFMAN_DECODE_1_def entry_eval del: upt_Suc)

lemma block_2: "list_all2 row_ok (map word_of_nat [32..<48]) HUFFMAN_DECODE_2"
  by (simp add: HUFFMAN_DECODE_2_def entry_eval del: upt_Suc)

lemma block_3: "list_all2 row_ok (map word_of_nat [48..<64]) HUFFMAN_DECODE_3"
  by (simp add: HUFFMAN_DECODE_3_def entry_eval del: upt_Suc)

lemma block_4: "list_all2 row_ok (map word_of_nat [64..<80]) HUFFMAN_DECODE_4"
  by (simp add: HUFFMAN_DECODE_4_def entry_eval del: upt_Suc)

lemma block_5: "list_all2 row_ok (map word_of_nat [80..<96]) HUFFMAN_DECODE_5"
  by (simp add: HUFFMAN_DECODE_5_def entry_eval del: upt_Suc)

lemma block_6: "list_all2 row_ok (map word_of_nat [96..<112]) HUFFMAN_DECODE_6"
  by (simp add: HUFFMAN_DECODE_6_def entry_eval del: upt_Suc)

lemma block_7: "list_all2 row_ok (map word_of_nat [112..<128]) HUFFMAN_DECODE_7"
  by (simp add: HUFFMAN_DECODE_7_def entry_eval del: upt_Suc)

lemma block_8: "list_all2 row_ok (map word_of_nat [128..<144]) HUFFMAN_DECODE_8"
  by (simp add: HUFFMAN_DECODE_8_def entry_eval del: upt_Suc)

lemma block_9: "list_all2 row_ok (map word_of_nat [144..<160]) HUFFMAN_DECODE_9"
  by (simp add: HUFFMAN_DECODE_9_def entry_eval del: upt_Suc)

lemma block_a: "list_all2 row_ok (map word_of_nat [160..<176]) HUFFMAN_DECODE_a"
  by (simp add: HUFFMAN_DECODE_a_def entry_eval del: upt_Suc)

lemma block_b: "list_all2 row_ok (map word_of_nat [176..<192]) HUFFMAN_DECODE_b"
  by (simp add: HUFFMAN_DECODE_b_def entry_eval del: upt_Suc)

lemma block_c: "list_all2 row_ok (map word_of_nat [192..<208]) HUFFMAN_DECODE_c"
  by (simp add: HUFFMAN_DECODE_c_def entry_eval del: upt_Suc)

lemma block_d: "list_all2 row_ok (map word_of_nat [208..<224]) HUFFMAN_DECODE_d"
  by (simp add: HUFFMAN_DECODE_d_def entry_eval del: upt_Suc)

lemma block_e: "list_all2 row_ok (map word_of_nat [224..<240]) HUFFMAN_DECODE_e"
  by (simp add: HUFFMAN_DECODE_e_def entry_eval del: upt_Suc)

lemma block_f: "list_all2 row_ok (map word_of_nat [240..<256]) HUFFMAN_DECODE_f"
  by (simp add: HUFFMAN_DECODE_f_def entry_eval del: upt_Suc)

lemma upt_256:
  "[0..<256] =
     [0..<16] @ [16..<32] @ [32..<48] @ [48..<64] @
     [64..<80] @ [80..<96] @ [96..<112] @ [112..<128] @
     [128..<144] @ [144..<160] @ [160..<176] @ [176..<192] @
     [192..<208] @ [208..<224] @ [224..<240] @ [240..<256]"
  by (simp add: upt_rec del: upt_Suc)

lemma rows_ok: "list_all2 row_ok (map word_of_nat [0..<256]) HUFFMAN_DECODE"
  unfolding upt_256 map_append HUFFMAN_DECODE_def
  by (intro list_all2_appendI block_0 block_1 block_2 block_3 block_4 block_5 block_6 block_7
      block_8 block_9 block_a block_b block_c block_d block_e block_f)

lemma huffman_decode_entry:
  assumes "unat n < 16"
  shows "entry_ok s n (HUFFMAN_DECODE ! unat s ! unat n)"
proof -
  have s: "unat s < 256" by simp
  then have "row_ok (map word_of_nat [0..<256] ! unat s) (HUFFMAN_DECODE ! unat s)"
    by (intro list_all2_nthD [OF rows_ok]) simp
  with s have "list_all2 (entry_ok s) (map word_of_nat [0..<16]) (HUFFMAN_DECODE ! unat s)"
    by (simp add: row_ok_def)
  from list_all2_nthD [OF this, of "unat n"] assms show ?thesis by simp
qed

lemma huffman_encode_entry:
  assumes "HUFFMAN_ENCODE ! unat (b :: u8) = (n, c)"
  shows "5 \<le> unat n \<and> unat n \<le> 30 \<and> (\<forall>i \<ge> unat n. \<not> bit c i)"
proof -
  have *: "list_all (\<lambda>(n, c). 5 \<le> unat n \<and> unat n \<le> 30 \<and> drop_bit (unat n) c = 0) HUFFMAN_ENCODE"
    by (simp add: HUFFMAN_ENCODE_def)
  have "unat b < length HUFFMAN_ENCODE" using unat_u8_less [of b] by (simp del: unat_u8_less)
  with * assms have n: "5 \<le> unat n \<and> unat n \<le> 30" and "drop_bit (unat n) c = 0"
    by (auto simp: list_all_length dest: spec [of _ "unat b"])
  moreover have "bit (drop_bit (unat n) c) (i - unat n) = bit c i" if "unat n \<le> i" for i
    using that by (simp add: bit_drop_bit_eq)
  ultimately show ?thesis by simp
qed

end
