(* ===== verification/Huffman.thy ===== *)
theory Huffman
  imports Interfaces Huffman_Table
begin

text \<open>
  Huffman coding (\<^verbatim>\<open>ylong_http/src/huffman/mod.rs\<close>): \<open>huffman_encode\<close> packs the codes of the
  octets into a 64-bit accumulator that is flushed when full, \<open>huffman_decode\<close> runs the
  four-bits-at-a-time automaton of \<open>HUFFMAN_DECODE\<close>, and \<open>HuffmanDecoder\<close> is the decoder that
  takes its input in segments. The lemmas relate all three to the prefix code of
  \<open>HUFFMAN_ENCODE\<close>: the encoder writes the codes back to back with a padding of ones, and the
  decoder accepts exactly what the encoder writes.
\<close>

section \<open>Encoder\<close>

text \<open>The eight octets of a \<^verbatim>\<open>u64\<close>, most significant first.\<close>

definition to_be_bytes :: "u64 \<Rightarrow> bytes" where
  "to_be_bytes w = map (\<lambda>i. ucast (drop_bit (8 * i) w)) [7, 6, 5, 4, 3, 2, 1, 0]"

definition U64_MAX :: u64 where
  "U64_MAX = - 1"

text \<open>One round of the encoder's loop, on the output, the accumulator and its free bits.\<close>

definition huffman_encode_byte :: "bytes \<times> u64 \<times> u8 \<Rightarrow> u8 \<Rightarrow> bytes \<times> u64 \<times> u8" where
  "huffman_encode_byte t byte =
     (let (dst, state, unfilled) = t; (nbits, code) = HUFFMAN_ENCODE ! unat byte in
      if unfilled > nbits then
        (dst, state OR push_bit (unat (unfilled - nbits)) code, unfilled - nbits)
      else if unfilled = nbits then
        (dst @ to_be_bytes (state OR code), 0, 64)
      else
        let rotate = word_rotr (unat (nbits - unfilled)) code;
            mask = drop_bit (unat (64 - unfilled)) U64_MAX
        in (dst @ to_be_bytes (state OR (rotate AND mask)), rotate AND NOT mask,
            64 - (nbits - unfilled)))"

definition huffman_encode :: "bytes \<Rightarrow> bytes \<Rightarrow> bytes" where
  "huffman_encode src dst =
     (let (dst, state, unfilled) = foldl huffman_encode_byte (dst, 0, 64) src in
      if unfilled \<noteq> 64 then
        let state = state OR drop_bit (unat (64 - unfilled)) U64_MAX;
            len = unat (8 - drop_bit 3 unfilled)
        in dst @ take len (to_be_bytes state)
      else dst)"

section \<open>Decoder\<close>

datatype HuffmanDecodeError = InvalidHuffmanCode

text \<open>One table lookup of the decoder's loop: the new state, output and flags.\<close>

definition huffman_step ::
  "u8 \<Rightarrow> bytes \<Rightarrow> u8 \<Rightarrow> (u8 \<times> bytes \<times> u8, HuffmanDecodeError) outcome" where
  "huffman_step state dst nibble =
     (let (state, result, flags) = HUFFMAN_DECODE ! unat state ! unat nibble in
      if flags AND 0x4 = 0x4 then Err InvalidHuffmanCode
      else Ok (state, if flags AND 0x2 = 0x2 then dst @ [result] else dst, flags))"

text \<open>
  The loop over the input, a lookup for the upper and one for the lower half of each octet. The
  output vector is passed and returned.
\<close>

fun huffman_decode_inner ::
  "bytes \<Rightarrow> bytes \<Rightarrow> u8 \<Rightarrow> u8 \<Rightarrow> (u8 \<times> bytes \<times> u8, HuffmanDecodeError) outcome" where
  "huffman_decode_inner [] dst state flags = Ok (state, dst, flags)"
| "huffman_decode_inner (byte # src) dst state flags =
     (let left = drop_bit 4 byte; right = byte AND 0xf in
      obind (huffman_step state dst left) (\<lambda>(state, dst, flags).
      obind (huffman_step state dst right) (\<lambda>(state, dst, flags).
        huffman_decode_inner src dst state flags)))"

definition huffman_decode :: "bytes \<Rightarrow> bytes \<Rightarrow> (bytes, HuffmanDecodeError) outcome" where
  "huffman_decode src dst =
     obind (huffman_decode_inner src dst 0 0) (\<lambda>(state, dst, flags).
       if state \<noteq> 0 \<and> flags AND 0x1 = 0 then Err InvalidHuffmanCode else Ok dst)"

text \<open>The decoder that keeps its state between segments.\<close>

record HuffmanDecoder =
  hd_state :: u8
  hd_flags :: u8
  hd_vec :: bytes

definition HuffmanDecoder_new :: HuffmanDecoder where
  "HuffmanDecoder_new = \<lparr>hd_state = 0, hd_flags = 0, hd_vec = []\<rparr>"

definition HuffmanDecoder_decode ::
  "HuffmanDecoder \<Rightarrow> bytes \<Rightarrow> (HuffmanDecoder, HuffmanDecodeError) outcome" where
  "HuffmanDecoder_decode d src =
     obind (huffman_decode_inner src (hd_vec d) (hd_state d) (hd_flags d)) (\<lambda>(state, vec, flags).
       Ok (d\<lparr>hd_state := state, hd_flags := flags, hd_vec := vec\<rparr>))"

definition HuffmanDecoder_finish :: "HuffmanDecoder \<Rightarrow> (bytes, HuffmanDecodeError) outcome" where
  "HuffmanDecoder_finish d =
     (if hd_state d \<noteq> 0 \<and> hd_flags d AND 0x1 = 0 then Err InvalidHuffmanCode else Ok (hd_vec d))"

section \<open>The code is a prefix code\<close>

definition bits :: "bytes \<Rightarrow> bool list" where
  "bits bs = concat (map byte_bits bs)"

definition codes :: "bytes \<Rightarrow> bool list" where
  "codes xs = concat (map huff_code xs)"

lemma bits_simps [simp]:
  "bits [] = []" "bits (b # bs) = byte_bits b @ bits bs" "bits (xs @ ys) = bits xs @ bits ys"
  by (simp_all add: bits_def)

lemma codes_simps [simp]:
  "codes [] = []" "codes (b # bs) = huff_code b @ codes bs" "codes (xs @ ys) = codes xs @ codes ys"
  by (simp_all add: codes_def)

lemma length_bits [simp]: "length (bits bs) = 8 * length bs"
  by (induction bs) simp_all

interpretation huff: prefix_code sym_code
proof
  fix x y assume "prefix (sym_code x) (sym_code y)"
  then obtain zs where "sym_code y = sym_code x @ zs" by (auto simp: prefix_def)
  then have "Some (HLeaf y) = walk (HLeaf x) zs"
    using walk_sym_code [of x] walk_sym_code [of y] by (simp add: walk_append)
  then show "x = y" by (cases zs) auto
next
  fix x
  show "sym_code x \<noteq> []" using walk_sym_code [of x] by (cases "sym_code x") (auto simp: huff_tree_def)
qed

text \<open>The bits a state holds begin no code word, nor does the padding of the last octet.\<close>

lemma no_code_in_state: "\<not> prefix (sym_code x) (state_path s)"
proof
  assume "prefix (sym_code x) (state_path s)"
  then obtain zs where zs: "state_path s = sym_code x @ zs" by (auto simp: prefix_def)
  obtain l r where "walk huff_tree (state_path s) = Some (HNode l r)" using walk_state_path by blast
  then have "walk (HLeaf x) zs = Some (HNode l r)" by (simp add: zs walk_append walk_sym_code)
  then show False by (cases zs) auto
qed

lemma eos_code_ones: "eos_code = replicate 30 True"
proof -
  have "list_all id eos_code" and "length eos_code = 30" by (simp_all add: huff_code_simps)
  then show ?thesis by (intro replicate_eqI) (auto simp: list_all_iff)
qed

lemma no_code_in_padding: "k < 8 \<Longrightarrow> \<not> prefix (sym_code x) (replicate k True)"
proof
  assume k: "k < 8" and "prefix (sym_code x) (replicate k True)"
  moreover have "prefix (replicate k True) (sym_code None)"
    using k by (auto simp: eos_code_ones prefix_def replicate_add [symmetric]
        intro!: exI [of _ "replicate (30 - k) True"])
  ultimately have "prefix (sym_code x) (sym_code None)" by (metis prefix_order.trans)
  then have "x = None" by (rule huff.code_prefix_free)
  with \<open>prefix (sym_code x) (replicate k True)\<close> have "length eos_code \<le> k"
    by (auto dest: prefix_length_le)
  with k show False by (simp add: eos_code_ones)
qed

section \<open>What the decoder accepts\<close>

lemma state_path_eq_Nil: "state_path s = [] \<longleftrightarrow> s = 0"
proof
  assume "state_path s = []"
  then have "state_paths ! unat s = state_paths ! 0"
    by (simp add: state_path_def state_paths_def)
  moreover have "distinct state_paths" using distinct_nodes [of "[]" huff_tree] by (simp add: nodes_eval)
  ultimately have "unat s = 0" by (simp add: nth_eq_iff_index_eq)
  then show "s = 0" by (simp only: unsigned_eq_0_iff)
qed (simp add: state_path_simps)

lemma and_0xf: "(b :: u8) AND 0xf = take_bit 4 b"
  by (simp add: take_bit_eq_mask mask_eq_exp_minus_1)

lemma byte_bits_nibbles: "byte_bits b = nibble_bits (drop_bit 4 b) @ nibble_bits (b AND 0xf)"
  by (simp add: and_0xf word_bits_def upt_rec bit_drop_bit_eq bit_take_bit_iff)
    (simp add: eval_nat_numeral)

lemma unat_nibbles: "unat (drop_bit 4 (b :: u8)) < 16" "unat (b AND 0xf) < 16"
proof -
  have "unat (drop_bit 4 b) = unat b div 16"
    by (simp add: drop_bit_eq_div unat_div_distrib)
  moreover have "unat b div 16 < 16" by (simp add: less_mult_imp_div_less)
  ultimately show "unat (drop_bit 4 b) < 16" by simp
  show "unat (b AND 0xf) < 16" by (simp add: and_0xf take_bit_eq_mod unat_mod_distrib)
qed

text \<open>One lookup, in terms of the code.\<close>

lemma huffman_step_Ok:
  assumes "huffman_step s dst n = Ok (s', dst', f)" "unat n < 16"
  shows "(\<exists>out. dst' = dst @ out \<and> state_path s @ nibble_bits n = codes out @ state_path s') \<and>
    (f AND 0x1 = 0x1) = padding_path (state_path s')"
  using huffman_decode_entry [OF assms(2), of s] assms(1)
  by (auto simp: huffman_step_def entry_ok_def Let_def split: prod.splits if_splits)

lemma huffman_step_not_Panic: "huffman_step s dst n \<noteq> Panic"
  by (simp add: huffman_step_def Let_def split: prod.split)

lemma huffman_step_Err:
  assumes "huffman_step s dst n = Err e" "unat n < 16"
  shows "prefix eos_code (state_path s @ nibble_bits n)"
  using huffman_decode_entry [OF assms(2), of s] assms(1)
  by (auto simp: huffman_step_def entry_ok_def Let_def split: prod.splits if_splits)

text \<open>
  The loop: what was held and what was read are the codes of the octets put out and what is held
  now.
\<close>

lemma huffman_decode_inner_Ok:
  assumes "huffman_decode_inner src dst s f = Ok (s', dst', f')"
    and "(f AND 0x1 = 0x1) = padding_path (state_path s)"
  shows "(\<exists>out. dst' = dst @ out \<and> state_path s @ bits src = codes out @ state_path s') \<and>
    (f' AND 0x1 = 0x1) = padding_path (state_path s')"
  using assms
proof (induction src dst s f rule: huffman_decode_inner.induct)
  case (2 b src dst s f)
  from "2.prems"(1) obtain s1 dst1 f1 s2 dst2 f2 where
      1: "huffman_step s dst (drop_bit 4 b) = Ok (s1, dst1, f1)"
    and 2: "huffman_step s1 dst1 (b AND 0xf) = Ok (s2, dst2, f2)"
    and 3: "huffman_decode_inner src dst2 s2 f2 = Ok (s', dst', f')"
    by (auto simp: Let_def obind_eq_Ok)
  from huffman_step_Ok [OF 1 unat_nibbles(1)] obtain o1 where
    o1: "dst1 = dst @ o1" "state_path s @ nibble_bits (drop_bit 4 b) = codes o1 @ state_path s1" by blast
  from huffman_step_Ok [OF 2 unat_nibbles(2)] obtain o2 where
    o2: "dst2 = dst1 @ o2" "state_path s1 @ nibble_bits (b AND 0xf) = codes o2 @ state_path s2"
    and f2: "(f2 AND 0x1 = 0x1) = padding_path (state_path s2)" by blast
  from "2.IH" [OF refl refl 3 f2] obtain o3 where
    o3: "dst' = dst2 @ o3" "state_path s2 @ bits src = codes o3 @ state_path s'"
    and f': "(f' AND 0x1 = 0x1) = padding_path (state_path s')" by blast
  have "state_path s @ bits (b # src) =
      (state_path s @ nibble_bits (drop_bit 4 b)) @ nibble_bits (b AND 0xf) @ bits src"
    by (simp add: byte_bits_nibbles)
  also have "\<dots> = codes o1 @ (state_path s1 @ nibble_bits (b AND 0xf)) @ bits src" by (simp add: o1)
  also have "\<dots> = codes (o1 @ o2 @ o3) @ state_path s'" by (simp add: o2 o3)
  finally show ?case using o1 o2 o3 f' by auto
qed auto

text \<open>
  Completeness: on a sequence of codes followed by less than an octet of ones no lookup fails. The
  remaining codes are followed through the loop.
\<close>

lemma huffman_step_complete:
  assumes "state_path s @ nibble_bits n @ rest = codes xs @ replicate k True"
    and "k < 8" "unat n < 16"
  obtains s' dst' f xs' where "huffman_step s dst n = Ok (s', dst', f)"
    and "state_path s' @ rest = codes xs' @ replicate k True"
proof (cases "huffman_step s dst n")
  case (Ok t)
  obtain s' dst' f where t: "t = (s', dst', f)" by (cases t)
  from huffman_step_Ok [OF Ok [unfolded t] assms(3)] obtain out where
    out: "state_path s @ nibble_bits n = codes out @ state_path s'" by blast
  have "\<exists>xs'. state_path s' @ rest = codes xs' @ replicate k True"
    using assms(1) unfolding append_assoc [symmetric] out unfolding append_assoc
  proof (induction out arbitrary: xs)
    case (Cons r out)
    show ?case
    proof (cases xs)
      case Nil
      with Cons.prems have "prefix (sym_code (Some r)) (replicate k True)"
        by (intro prefixI [of _ _ "codes out @ state_path s' @ rest"]) simp
      with no_code_in_padding assms(2) show ?thesis by blast
    next
      case (Cons x xs')
      with Cons.prems have "sym_code (Some r) @ (codes out @ state_path s' @ rest) =
          sym_code (Some x) @ (codes xs' @ replicate k True)" by simp
      from huff.code_cancel [OF this] Cons.IH show ?thesis by simp
    qed
  qed auto
  then show ?thesis using that Ok t by blast
next
  case (Err e)
  from huffman_step_Err [OF this assms(3)] obtain zs where
    zs: "state_path s @ nibble_bits n = eos_code @ zs" by (auto simp: prefix_def)
  then have eq: "sym_code None @ (zs @ rest) = codes xs @ replicate k True" using assms(1)
    by (metis append_assoc sym_code.simps(1))
  show ?thesis
  proof (cases xs)
    case Nil
    with eq have "prefix (sym_code None) (replicate k True)"
      by (intro prefixI [of _ _ "zs @ rest"]) simp
    with no_code_in_padding assms(2) show ?thesis by blast
  next
    case (Cons x xs')
    with eq have "sym_code None @ (zs @ rest) = sym_code (Some x) @ (codes xs' @ replicate k True)" by simp
    from huff.code_cancel [OF this] show ?thesis by simp
  qed
qed (simp add: huffman_step_not_Panic)

lemma huffman_decode_inner_complete:
  assumes "state_path s @ bits src = codes xs @ replicate k True" and "k < 8"
  shows "\<exists>s' dst' f'. huffman_decode_inner src dst s f = Ok (s', dst', f')"
  using assms
proof (induction src dst s f arbitrary: xs rule: huffman_decode_inner.induct)
  case (2 b src dst s f)
  have "state_path s @ nibble_bits (drop_bit 4 b) @ (nibble_bits (b AND 0xf) @ bits src) =
      codes xs @ replicate k True"
    using "2.prems"(1) by (simp add: byte_bits_nibbles)
  from huffman_step_complete [OF this "2.prems"(2) unat_nibbles(1)] obtain s1 dst1 f1 xs1 where
    1: "huffman_step s dst (drop_bit 4 b) = Ok (s1, dst1, f1)"
      "state_path s1 @ nibble_bits (b AND 0xf) @ bits src = codes xs1 @ replicate k True" .
  from huffman_step_complete [OF 1(2) "2.prems"(2) unat_nibbles(2)] obtain s2 dst2 f2 xs2 where
    2: "huffman_step s1 dst1 (b AND 0xf) = Ok (s2, dst2, f2)"
      "state_path s2 @ bits src = codes xs2 @ replicate k True" .
  from "2.IH" [OF refl refl 2(2) "2.prems"(2)] 1(1) 2(1) show ?case by simp
qed simp

text \<open>
  The decoder accepts a string of octets exactly when its bits are the codes of the octets it
  returns, followed by less than an octet of ones.
\<close>

lemma padding_path_replicate: "p \<noteq> [] \<Longrightarrow> padding_path p \<Longrightarrow> \<exists>k < 8. p = replicate k True"
  by (auto simp: padding_path_def list_all_iff intro!: exI [of _ "length p"] replicate_eqI)

lemma flags_bit0: "(f :: u8) AND 0x1 = 0 \<longleftrightarrow> f AND 0x1 \<noteq> 0x1"
  by (simp add: and_one_eq mod_2_eq_odd)

lemma huffman_decode_iff:
  "huffman_decode src dst = Ok dst' \<longleftrightarrow>
     (\<exists>xs k. k < 8 \<and> dst' = dst @ xs \<and> bits src = codes xs @ replicate k True)"
proof
  assume "huffman_decode src dst = Ok dst'"
  then obtain s f where inner: "huffman_decode_inner src dst 0 0 = Ok (s, dst', f)"
    and final: "s = 0 \<or> f AND 0x1 \<noteq> 0"
    by (auto simp: huffman_decode_def obind_eq_Ok split: if_splits)
  from huffman_decode_inner_Ok [OF inner] obtain xs where
    xs: "dst' = dst @ xs" "bits src = codes xs @ state_path s"
    and f: "(f AND 0x1 = 0x1) = padding_path (state_path s)"
    by (auto simp: state_path_simps padding_path_def)
  have "\<exists>k < 8. state_path s = replicate k True"
  proof (cases "s = 0")
    case False
    with final f have "padding_path (state_path s)" by (simp add: flags_bit0)
    with padding_path_replicate False show ?thesis by (simp add: state_path_eq_Nil)
  qed (auto simp: state_path_eq_Nil intro!: exI [of _ 0])
  with xs show "\<exists>xs k. k < 8 \<and> dst' = dst @ xs \<and> bits src = codes xs @ replicate k True" by metis
next
  assume "\<exists>xs k. k < 8 \<and> dst' = dst @ xs \<and> bits src = codes xs @ replicate k True"
  then obtain xs k where k: "k < 8" and xs: "dst' = dst @ xs" "bits src = codes xs @ replicate k True"
    by blast
  then have "state_path 0 @ bits src = codes xs @ replicate k True" by (simp add: state_path_simps)
  from huffman_decode_inner_complete [OF this k] obtain s dst1 f where
    inner: "huffman_decode_inner src dst 0 0 = Ok (s, dst1, f)" by blast
  from huffman_decode_inner_Ok [OF inner] obtain ys where
    ys: "dst1 = dst @ ys" "bits src = codes ys @ state_path s"
    and f: "(f AND 0x1 = 0x1) = padding_path (state_path s)"
    by (auto simp: state_path_simps padding_path_def)
  have "concat (map sym_code (map Some xs)) @ replicate k True =
      concat (map sym_code (map Some ys)) @ state_path s"
    using xs(2) ys(2) by (simp add: codes_def comp_def)
  then have "map Some xs = map Some ys \<and> replicate k True = state_path s"
    by (rule huff.unique_parse) (simp_all add: no_code_in_padding [OF k] no_code_in_state)
  then have eq: "xs = ys" "state_path s = replicate k True" by (auto simp: inj_map_eq_map)
  have "s = 0 \<or> f AND 0x1 = 0x1"
    using f eq(2) k by (cases k) (auto simp: state_path_eq_Nil [symmetric] padding_path_def list_all_iff)
  with inner ys xs eq show "huffman_decode src dst = Ok dst'"
    by (auto simp: huffman_decode_def flags_bit0)
qed

section \<open>What the encoder writes\<close>

text \<open>The bits of a word from position \<open>b\<close> (exclusive) down to position \<open>a\<close>.\<close>

definition bits_range :: "(nat \<Rightarrow> bool) \<Rightarrow> nat \<Rightarrow> nat \<Rightarrow> bool list" where
  "bits_range f a b = map f (rev [a..<b])"

lemma bits_range_split: "a \<le> b \<Longrightarrow> b \<le> c \<Longrightarrow> bits_range f a c = bits_range f b c @ bits_range f a b"
  using upt_add_eq_append [of a b "c - b"] by (simp add: bits_range_def)

lemma bits_range_cong: "(\<And>i. a \<le> i \<Longrightarrow> i < b \<Longrightarrow> f i = g i) \<Longrightarrow> bits_range f a b = bits_range g a b"
  by (simp add: bits_range_def)

lemma bits_range_shift: "bits_range f (a + d) (b + d) = bits_range (\<lambda>i. f (i + d)) a b"
  by (induction b) (auto simp: bits_range_def)

lemma bits_range_empty [simp]: "bits_range f a a = []"
  by (simp add: bits_range_def)

lemma take_bits_range: "k \<le> n \<Longrightarrow> take (n - k) (bits_range f 0 n) = bits_range f k n"
  by (simp add: bits_range_split [of 0 k n]) (simp add: bits_range_def)

lemma bits_range_True: "(\<And>i. a \<le> i \<Longrightarrow> i < b \<Longrightarrow> f i) \<Longrightarrow> bits_range f a b = replicate (b - a) True"
  by (intro replicate_eqI) (auto simp: bits_range_def)

lemma word_bits_range: "word_bits n w = bits_range (bit w) 0 n"
  by (simp add: word_bits_def bits_range_def)

lemma bits_to_be_bytes: "bits (to_be_bytes w) = bits_range (bit w) 0 64"
  by (simp add: to_be_bytes_def bits_range_def word_bits_def upt_rec bit_ucast_iff bit_drop_bit_eq)
    (simp add: eval_nat_numeral)

lemma bits_take: "bits (take k bs) = take (8 * k) (bits bs)"
proof (induction bs arbitrary: k)
  case (Cons b bs)
  then show ?case by (cases k) simp_all
qed simp

text \<open>
  The encoder's invariant: between one and all of the accumulator's bits are free and they are
  zero. What it has written so far is its output and the bits of the accumulator in use.
\<close>

fun enc_inv :: "bytes \<times> u64 \<times> u8 \<Rightarrow> bool" where
  "enc_inv (dst, st, u) \<longleftrightarrow> 1 \<le> unat u \<and> unat u \<le> 64 \<and> (\<forall>i < unat u. \<not> bit st i)"

fun enc_stream :: "bytes \<times> u64 \<times> u8 \<Rightarrow> bool list" where
  "enc_stream (dst, st, u) = bits dst @ bits_range (bit st) (unat u) 64"

text \<open>The three cases of a round, on the accumulator alone.\<close>

lemma acc_fits:
  fixes st c :: u64
  assumes "n \<le> u" "u \<le> 64" and low: "\<And>i. i < u \<Longrightarrow> \<not> bit st i" and high: "\<And>i. n \<le> i \<Longrightarrow> \<not> bit c i"
  defines "st' \<equiv> st OR push_bit (u - n) c"
  shows "bits_range (bit st') (u - n) 64 = bits_range (bit st) u 64 @ bits_range (bit c) 0 n"
    and "i < u - n \<Longrightarrow> \<not> bit st' i"
proof -
  have bit_st: "bit st' i = (if i < u then u - n \<le> i \<and> bit c (i - (u - n)) else bit st i)"
    if "i < 64" for i
    using that low [of i] high [of "i - (u - n)"] assms(1,2)
    by (auto simp: st'_def bit_or_iff bit_push_bit_iff)
  have "bits_range (bit st') (u - n) 64 = bits_range (bit st') u 64 @ bits_range (bit st') (u - n) u"
    using assms(1,2) by (intro bits_range_split) auto
  also have "bits_range (bit st') u 64 = bits_range (bit st) u 64"
    by (intro bits_range_cong) (simp add: bit_st)
  also have "bits_range (bit st') (u - n) u = bits_range (\<lambda>i. bit st' (i + (u - n))) 0 n"
    using bits_range_shift [of "bit st'" 0 "u - n" n] assms(1) by simp
  also have "\<dots> = bits_range (bit c) 0 n"
    using assms(1,2) by (intro bits_range_cong) (auto simp: bit_st)
  finally show "bits_range (bit st') (u - n) 64 = bits_range (bit st) u 64 @ bits_range (bit c) 0 n" .
  show "i < u - n \<Longrightarrow> \<not> bit st' i" using assms(2) by (auto simp: bit_st)
qed

lemma acc_overflows:
  fixes st c :: u64
  assumes "u < n" "n \<le> 30" and low: "\<And>i. i < u \<Longrightarrow> \<not> bit st i" and high: "\<And>i. n \<le> i \<Longrightarrow> \<not> bit c i"
  defines "rot \<equiv> word_rotr (n - u) c" and "msk \<equiv> drop_bit (64 - u) U64_MAX"
  shows "bits_range (bit (st OR (rot AND msk))) 0 64 =
      bits_range (bit st) u 64 @ bits_range (bit c) (n - u) n"
    and "bits_range (bit (rot AND NOT msk)) (64 - (n - u)) 64 = bits_range (bit c) 0 (n - u)"
    and "i < 64 - (n - u) \<Longrightarrow> \<not> bit (rot AND NOT msk) i"
proof -
  have msk: "bit msk i \<longleftrightarrow> i < u" for i
    using assms(1,2) by (auto simp: msk_def U64_MAX_def bit_mask_iff)
  have rot: "bit rot i = (if i < 64 - (n - u) then bit c (i + (n - u)) else bit c (i - (64 - (n - u))))"
    if "i < 64" for i
  proof -
    have "(i + (n - u)) mod 64 = (if i < 64 - (n - u) then i + (n - u) else i - (64 - (n - u)))"
      using that assms(1,2) by (auto simp: mod_if [of _ 64])
    then show ?thesis using that by (simp add: rot_def bit_word_rotr_iff)
  qed
  let ?out = "st OR (rot AND msk)" and ?st = "rot AND NOT msk"
  have out: "bit ?out i = (if i < u then bit c (i + (n - u)) else bit st i)" if "i < 64" for i
    using that low [of i] assms(1,2) by (auto simp: bit_or_iff bit_and_iff msk rot)
  have st: "bit ?st i \<longleftrightarrow> 64 - (n - u) \<le> i \<and> bit c (i - (64 - (n - u)))" if "i < 64" for i
  proof -
    have "\<not> bit c (i + (n - u))" if "\<not> i < u" by (rule high) (use that assms(1) in linarith)
    with that assms(1,2) show ?thesis by (auto simp: bit_and_iff bit_not_iff msk rot)
  qed
  have "bits_range (bit ?out) 0 64 = bits_range (bit ?out) u 64 @ bits_range (bit ?out) 0 u"
    using assms(1,2) by (intro bits_range_split) auto
  also have "bits_range (bit ?out) u 64 = bits_range (bit st) u 64"
    by (intro bits_range_cong) (simp add: out)
  also have "bits_range (bit ?out) 0 u = bits_range (\<lambda>i. bit c (i + (n - u))) 0 u"
    using assms(1,2) by (intro bits_range_cong) (simp add: out)
  also have "\<dots> = bits_range (bit c) (n - u) n"
    using bits_range_shift [of "bit c" 0 "n - u" u] assms(1) by simp
  finally show "bits_range (bit ?out) 0 64 = bits_range (bit st) u 64 @ bits_range (bit c) (n - u) n" .
  have "bits_range (bit ?st) (64 - (n - u)) 64 =
      bits_range (\<lambda>i. bit ?st (i + (64 - (n - u)))) 0 (n - u)"
    using bits_range_shift [of "bit ?st" 0 "64 - (n - u)" "n - u"] assms(1,2) by simp
  also have "\<dots> = bits_range (bit c) 0 (n - u)"
    using assms(1,2) by (intro bits_range_cong) (subst st, auto)
  finally show "bits_range (bit ?st) (64 - (n - u)) 64 = bits_range (bit c) 0 (n - u)" .
  show "i < 64 - (n - u) \<Longrightarrow> \<not> bit ?st i" by (simp add: st)
qed

lemma enc_step:
  assumes "enc_inv t"
  shows "enc_inv (huffman_encode_byte t b) \<and>
    enc_stream (huffman_encode_byte t b) = enc_stream t @ huff_code b"
proof -
  obtain dst st u where t: "t = (dst, st, u)" by (cases t)
  obtain n c where nc: "HUFFMAN_ENCODE ! unat b = (n, c)" by fastforce
  from assms have u: "1 \<le> unat u" "unat u \<le> 64" and low: "\<And>i. i < unat u \<Longrightarrow> \<not> bit st i"
    by (auto simp: t)
  from huffman_encode_entry [OF nc] have n: "5 \<le> unat n" "unat n \<le> 30"
    and high: "\<And>i. unat n \<le> i \<Longrightarrow> \<not> bit c i" by auto
  have code: "huff_code b = bits_range (bit c) 0 (unat n)"
    by (simp add: huff_code_def nc word_bits_range)
  consider (greater) "n < u" | (equal) "u = n" | (less) "u < n" by (rule linorder_cases)
  then show ?thesis
  proof cases
    case greater
    then have un: "unat (u - n) = unat u - unat n" "unat n < unat u"
      by (simp_all add: unat_sub [OF less_imp_le [OF greater]] word_less_nat_alt)
    from acc_fits [of "unat n" "unat u" st c, OF _ u(2) low high] un greater u show ?thesis
      by (auto simp: huffman_encode_byte_def t nc code)
  next
    case equal
    from acc_fits(1) [of "unat n" "unat u" st c, OF _ u(2) low high] equal show ?thesis
      by (simp add: huffman_encode_byte_def t nc code bits_to_be_bytes)
  next
    case less
    have nu: "unat (n - u) = unat n - unat u" "unat u < unat n"
      using less by (simp_all add: unat_sub [OF less_imp_le [OF less]] word_less_nat_alt)
    have u64: "unat (64 - u) = 64 - unat u"
      using u by (simp add: unat_sub word_le_nat_alt)
    have free: "unat (64 - (n - u)) = 64 - (unat n - unat u)"
      using n nu by (simp add: unat_sub word_le_nat_alt)
    note acc = acc_overflows [of "unat u" "unat n" st c, OF nu(2) n(2) low high, folded nu(1) u64]
    have step: "huffman_encode_byte (dst, st, u) b =
       (dst @ to_be_bytes (st OR (word_rotr (unat (n - u)) c AND drop_bit (unat (64 - u)) U64_MAX)),
        word_rotr (unat (n - u)) c AND NOT (drop_bit (unat (64 - u)) U64_MAX), 64 - (n - u))"
      using less by (auto simp: huffman_encode_byte_def nc Let_def)
    have "bits_range (bit c) 0 (unat n) =
        bits_range (bit c) (unat (n - u)) (unat n) @ bits_range (bit c) 0 (unat (n - u))"
      by (rule bits_range_split) (simp_all add: nu)
    then have "enc_stream (huffman_encode_byte t b) = enc_stream t @ huff_code b"
      using acc(1,2) by (simp add: step t code bits_to_be_bytes free nu)
    moreover have "enc_inv (huffman_encode_byte t b)"
      using acc(3) n nu by (simp add: step t free) linarith
    ultimately show ?thesis by blast
  qed
qed

lemma enc_steps:
  assumes "enc_inv t"
  shows "enc_inv (foldl huffman_encode_byte t xs) \<and>
    enc_stream (foldl huffman_encode_byte t xs) = enc_stream t @ codes xs"
  using assms by (induction xs arbitrary: t) (auto simp: enc_step)

lemma huffman_encode_bits:
  "\<exists>k < 8. bits (huffman_encode xs dst) = bits dst @ codes xs @ replicate k True"
proof -
  obtain dst' st u where t: "foldl huffman_encode_byte (dst, 0, 64) xs = (dst', st, u)"
    using prod_cases3 by blast
  have "enc_inv (dst, 0, 64)" by simp
  from enc_steps [OF this, of xs] have inv: "1 \<le> unat u" "unat u \<le> 64"
    and low: "\<And>i. i < unat u \<Longrightarrow> \<not> bit st i"
    and stream: "bits dst' @ bits_range (bit st) (unat u) 64 = bits dst @ codes xs"
    by (auto simp: t)
  show ?thesis
  proof (cases "u = 64")
    case True
    with stream show ?thesis by (auto simp: huffman_encode_def t intro: exI [of _ 0])
  next
    case False
    then have "unat u \<noteq> unat (64 :: u8)" unfolding word_unat_eq_iff .
    then have u: "unat u < 64" using inv(2) by simp
    define st' where "st' = st OR drop_bit (unat (64 - u)) U64_MAX"
    have len: "8 * unat (8 - drop_bit 3 u) = 64 - 8 * (unat u div 8)"
    proof -
      have "unat (drop_bit 3 u) = unat u div 8" by (simp add: drop_bit_eq_div unat_div_distrib)
      moreover from this u have "unat (8 - drop_bit 3 u) = 8 - unat u div 8"
        by (simp add: unat_sub word_le_nat_alt)
      ultimately show ?thesis by simp
    qed
    have u64: "unat (64 - u) = 64 - unat u" using u by (simp add: unat_sub word_le_nat_alt)
    have bit_st': "bit st' i \<longleftrightarrow> i < unat u \<or> bit st i" if "i < 64" for i
      using that u by (auto simp: st'_def bit_or_iff U64_MAX_def u64 bit_mask_iff)
    have "take (8 * unat (8 - drop_bit 3 u)) (bits (to_be_bytes st')) =
        bits_range (bit st') (8 * (unat u div 8)) 64"
      using u by (simp add: len bits_to_be_bytes take_bits_range)
    also have "\<dots> = bits_range (bit st') (unat u) 64 @ bits_range (bit st') (8 * (unat u div 8)) (unat u)"
      using u by (intro bits_range_split) auto
    also have "bits_range (bit st') (unat u) 64 = bits_range (bit st) (unat u) 64"
      by (intro bits_range_cong) (simp add: bit_st')
    also have "bits_range (bit st') (8 * (unat u div 8)) (unat u) = replicate (unat u mod 8) True"
      using u by (subst bits_range_True) (auto simp: bit_st' minus_mult_div_eq_mod)
    finally have "bits (huffman_encode xs dst) = bits dst @ codes xs @ replicate (unat u mod 8) True"
      using False stream by (simp add: huffman_encode_def t Let_def bits_take flip: st'_def append_assoc)
    then show ?thesis by (metis mod_less_divisor zero_less_numeral)
  qed
qed

section \<open>Encoder and decoder together\<close>

lemma byte_bits_inject: "byte_bits a = byte_bits b \<longleftrightarrow> a = b"
proof
  assume eq: "byte_bits a = byte_bits b"
  show "a = b"
  proof (rule bit_word_eqI)
    fix n assume "n < LENGTH(8)"
    then have "n \<in> set (rev [0..<8])" by simp
    with eq show "bit a n = bit b n" by (simp only: word_bits_def map_eq_conv)
  qed
qed simp

lemma bits_inject: "bits xs = bits ys \<longleftrightarrow> xs = ys"
proof (induction xs arbitrary: ys)
  case Nil
  then show ?case by (cases ys) (auto simp: word_bits_def)
next
  case (Cons x xs)
  then show ?case
  proof (cases ys)
    case (Cons y ys')
    have "length (byte_bits x) = length (byte_bits y)" by simp
    with Cons Cons.IH [of ys'] show ?thesis by (simp add: byte_bits_inject)
  qed (simp add: word_bits_def)
qed

text \<open>Octets fill up in one way only: the bits fix the number of padding ones.\<close>

lemma bits_padding_unique:
  assumes "bits xs = c @ replicate k True" "bits ys = c @ replicate l True" "k < 8" "l < 8"
  shows "xs = ys"
proof -
  have "8 * length xs = length c + k" "8 * length ys = length c + l"
    using arg_cong [OF assms(1), of length] arg_cong [OF assms(2), of length] by simp_all
  then have "k = l" using assms(3,4) by (cases "length xs" "length ys" rule: linorder_cases) auto
  with assms have "bits xs = bits ys" by simp
  then show ?thesis by (simp add: bits_inject)
qed

lemma huffman_decode_encode: "huffman_decode (huffman_encode src []) dst = Ok (dst @ src)"
  using huffman_encode_bits [of src "[]"] by (auto simp: huffman_decode_iff)

lemma huffman_decode_eq_encode: "huffman_decode bs [] = Ok xs \<Longrightarrow> bs = huffman_encode xs []"
  using huffman_encode_bits [of xs "[]"] by (auto simp: huffman_decode_iff intro: bits_padding_unique)

lemma huffman_encode_append: "huffman_encode src dst = dst @ huffman_encode src []"
proof -
  obtain k l where "bits (huffman_encode src dst) = (bits dst @ codes src) @ replicate k True" "k < 8"
    and "bits (dst @ huffman_encode src []) = (bits dst @ codes src) @ replicate l True" "l < 8"
    using huffman_encode_bits [of src dst] huffman_encode_bits [of src "[]"] by auto
  then show ?thesis by (intro bits_padding_unique)
qed

text \<open>The segmented decoder.\<close>

lemma huffman_decode_inner_append:
  "huffman_decode_inner (xs @ ys) dst s f =
     obind (huffman_decode_inner xs dst s f) (\<lambda>(s, dst, f). huffman_decode_inner ys dst s f)"
proof (induction xs dst s f rule: huffman_decode_inner.induct)
  case (2 b xs dst s f)
  show ?case
    by (cases "huffman_step s dst (drop_bit 4 b)")
      (auto simp: Let_def obind_assoc "2.IH" [OF refl refl] intro: obind_cong split: prod.split)
qed simp

interpretation huff_dec: segmented_decoder HuffmanDecoder_decode "\<lambda>_. True"
proof
  fix d :: HuffmanDecoder and xs ys
  show "HuffmanDecoder_decode d [] = Ok d" by (simp add: HuffmanDecoder_decode_def)
  show "HuffmanDecoder_decode d (xs @ ys) =
      obind (HuffmanDecoder_decode d xs) (\<lambda>t. HuffmanDecoder_decode t ys)"
    by (cases "huffman_decode_inner xs (hd_vec d) (hd_state d) (hd_flags d)")
      (auto simp: HuffmanDecoder_decode_def huffman_decode_inner_append split: prod.splits)
qed simp

lemma HuffmanDecoder_one_segment:
  "obind (HuffmanDecoder_decode HuffmanDecoder_new bs) HuffmanDecoder_finish = huffman_decode bs []"
  by (cases "huffman_decode_inner bs [] 0 0")
    (auto simp: HuffmanDecoder_decode_def HuffmanDecoder_finish_def HuffmanDecoder_new_def
      huffman_decode_def)

section \<open>Properties\<close>

text \<open>
  C2. Huffman round trip: decoding what the encoder writes appends exactly the encoded octets to the
  output and never fails.
\<close>

theorem huffman_roundtrip: "huffman_decode (huffman_encode src []) dst = Ok (dst @ src)"
  by (rule huffman_decode_encode)

text \<open>
  C29. Canonical encodings: the decoder accepts a string of octets if and only if it is what the
  encoder writes for the decoded octets. In particular a padding of eight bits or more, a padding
  that is not all ones and an end-of-string symbol are refused.
\<close>

theorem huffman_decode_canonical:
  "huffman_decode bs [] = Ok xs \<longleftrightarrow> bs = huffman_encode xs []"
  using huffman_decode_eq_encode [of bs xs] huffman_decode_encode [of xs "[]"] by (metis append_Nil)

text \<open>
  The segmented Huffman decoder: however the input is cut, feeding the segments to a new
  \<open>HuffmanDecoder\<close> and finishing it gives the result of the one-shot decoder on the whole input,
  errors included.
\<close>

theorem huffman_segments:
  "obind (feed_segments HuffmanDecoder_decode HuffmanDecoder_new segments) HuffmanDecoder_finish =
     huffman_decode (concat segments) []"
  by (simp add: huff_dec.feed_segments_concat HuffmanDecoder_one_segment)

text \<open>
  The encoder's accumulator stays in range: after any number of octets at least one and at most
  64 of its bits are free, the free bits are zero, and the output followed by the bits in use is the
  concatenation of the codes.
\<close>

theorem huffman_encode_accumulator:
  "case foldl huffman_encode_byte (dst, 0, 64) xs of (out, state, unfilled) \<Rightarrow>
     1 \<le> unat unfilled \<and> unat unfilled \<le> 64 \<and> state AND mask (unat unfilled) = 0 \<and>
     bits out @ take (64 - unat unfilled) (bits (to_be_bytes state)) = bits dst @ codes xs"
proof -
  obtain out st u where t: "foldl huffman_encode_byte (dst, 0, 64) xs = (out, st, u)"
    using prod_cases3 by blast
  have "enc_inv (dst, 0, 64)" by simp
  from enc_steps [OF this, of xs] have "enc_inv (out, st, u)"
    and "enc_stream (out, st, u) = bits dst @ codes xs" by (simp_all add: t)
  then show ?thesis
    by (auto simp: t bits_to_be_bytes take_bits_range bit_and_iff bit_mask_iff intro!: bit_word_eqI)
qed

end
