(* ===== verification/Hpack_Integer.thy ===== *)
theory Hpack_Integer
  imports H2_Error
begin

text \<open>
  HPACK integers (\<^verbatim>\<open>ylong_http/src/h2/hpack/integer.rs\<close>): the prefix decoder with its checked
  arithmetic on \<^verbatim>\<open>usize\<close> and the encoder that yields an octet per call. The reference for both
  is the pseudocode of RFC 7541, section 5.1, here \<open>int_octets\<close>.
\<close>

section \<open>Decoder\<close>

record IntegerDecoder =
  id_index :: nat
  id_shift :: nat

text \<open>The error of the Rust result carries the decoder that waits for more octets.\<close>

definition IntegerDecoder_first_byte :: "u8 \<Rightarrow> u8 \<Rightarrow> (nat, IntegerDecoder) outcome" where
  "IntegerDecoder_first_byte byte msk =
     (let index = byte AND msk in
      if index < msk then Ok (unat index) else Err \<lparr>id_index = unat index, id_shift = 1\<rparr>)"

text \<open>The checked operations of \<^verbatim>\<open>usize\<close> that the source uses.\<close>

definition checked_shl_1 :: "nat \<Rightarrow> nat option" where
  "checked_shl_1 k = (if k < 64 then Some (2 ^ k) else None)"

definition checked_mul :: "nat \<Rightarrow> nat \<Rightarrow> nat option" where
  "checked_mul a b = (if a * b < usize_limit then Some (a * b) else None)"

definition checked_add :: "nat \<Rightarrow> nat \<Rightarrow> nat option" where
  "checked_add a b = (if a + b < usize_limit then Some (a + b) else None)"

definition IntegerDecoder_next_byte ::
  "IntegerDecoder \<Rightarrow> u8 \<Rightarrow> (nat option \<times> IntegerDecoder, H2Error) outcome" where
  "IntegerDecoder_next_byte d byte =
     (case Option.bind (checked_shl_1 (id_shift d - 1)) (\<lambda>res.
           Option.bind (checked_mul res (unat (byte AND 0x7f))) (\<lambda>res.
           checked_add res (id_index d))) of
        None \<Rightarrow> Err (ConnectionError CompressionError)
      | Some index \<Rightarrow>
          let d = d\<lparr>id_index := index, id_shift := id_shift d + 7\<rparr> in
          if byte AND 0x80 = 0x00 then Ok (Some index, d) else Ok (None, d))"

section \<open>Encoder\<close>

datatype IntegerEncodeState = First_int | Other_int | Finish_int

record IntegerEncoder =
  ie_i :: nat
  ie_mask :: u8
  ie_pre :: u8
  ie_state :: IntegerEncodeState

definition IntegerEncoder_new :: "nat \<Rightarrow> u8 \<Rightarrow> u8 \<Rightarrow> IntegerEncoder" where
  "IntegerEncoder_new i msk pre = \<lparr>ie_i = i, ie_mask = msk, ie_pre = pre, ie_state = First_int\<rparr>"

definition IntegerEncoder_next_byte :: "IntegerEncoder \<Rightarrow> u8 option \<times> IntegerEncoder" where
  "IntegerEncoder_next_byte e =
     (case ie_state e of
        First_int \<Rightarrow>
          if ie_i e < unat (ie_mask e) then
            (Some (ie_pre e OR of_nat (ie_i e)), e\<lparr>ie_state := Finish_int\<rparr>)
          else
            (Some (ie_pre e OR ie_mask e), e\<lparr>ie_i := ie_i e - unat (ie_mask e), ie_state := Other_int\<rparr>)
      | Other_int \<Rightarrow>
          if ie_i e \<ge> 128 then
            (Some (of_nat (ie_i e AND 0x7f) OR 0x80), e\<lparr>ie_i := drop_bit 7 (ie_i e)\<rparr>)
          else
            (Some (of_nat (ie_i e AND 0x7f)), e\<lparr>ie_state := Finish_int\<rparr>)
      | Finish_int \<Rightarrow> (None, e))"

definition IntegerEncoder_is_finish :: "IntegerEncoder \<Rightarrow> bool" where
  "IntegerEncoder_is_finish e \<longleftrightarrow> ie_state e = Finish_int"

section \<open>The reference representation\<close>

fun trailing_octets :: "nat \<Rightarrow> bytes" where
  "trailing_octets i = (if i < 128 then [of_nat i] else of_nat (i mod 128 + 128) # trailing_octets (i div 128))"

declare trailing_octets.simps [simp del]

definition int_octets :: "nat \<Rightarrow> u8 \<Rightarrow> u8 \<Rightarrow> bytes" where
  "int_octets i msk pre =
     (if i < unat msk then [pre OR of_nat i] else (pre OR msk) # trailing_octets (i - unat msk))"

text \<open>What the encoder still has to write.\<close>

definition int_pending :: "IntegerEncoder \<Rightarrow> bytes" where
  "int_pending e =
     (case ie_state e of
        First_int \<Rightarrow> int_octets (ie_i e) (ie_mask e) (ie_pre e)
      | Other_int \<Rightarrow> trailing_octets (ie_i e)
      | Finish_int \<Rightarrow> [])"

lemma trailing_octets_not_Nil [simp]: "trailing_octets i \<noteq> []"
  by (subst trailing_octets.simps) simp

lemma int_pending_new [simp]: "int_pending (IntegerEncoder_new i msk pre) = int_octets i msk pre"
  by (simp add: int_pending_def IntegerEncoder_new_def)

lemma int_pending_Nil: "int_pending e = [] \<longleftrightarrow> IntegerEncoder_is_finish e"
  by (simp add: int_pending_def IntegerEncoder_is_finish_def int_octets_def split: IntegerEncodeState.split)

text \<open>The low seven bits of a number with the continuation bit, at eight bits.\<close>

lemma low7: "(i :: nat) AND 0x7f = i mod 128"
  using take_bit_eq_mask [of 7 i] by (simp add: take_bit_eq_mod mask_eq_exp_minus_1)

lemma bit_0x80: "bit (0x80 :: int) n \<longleftrightarrow> n = 7"
  using bit_exp_iff [where 'a = int, of 7 n] by auto

lemma of_nat_OR_0x80: "i < 128 \<Longrightarrow> (of_nat i :: u8) OR 0x80 = of_nat (i + 128)"
proof -
  assume "i < 128"
  then have "\<not> bit i 7" by (simp add: bit_iff_odd)
  then have "(of_nat i :: u8) AND 0x80 = 0"
    by (intro bit_word_eqI) (auto simp: bit_and_iff bit_0x80 bit_of_nat_iff)
  then show ?thesis by (simp add: disjunctive_add_eq_or [symmetric])
qed

lemma next_byte_pending:
  "\<not> IntegerEncoder_is_finish e \<Longrightarrow>
   \<exists>b e'. IntegerEncoder_next_byte e = (Some b, e') \<and> int_pending e = b # int_pending e'"
  by (auto simp: IntegerEncoder_next_byte_def IntegerEncoder_is_finish_def int_pending_def
      int_octets_def low7 of_nat_OR_0x80 trailing_octets.simps [of "ie_i e"] drop_bit_eq_div
      split: IntegerEncodeState.split)


section \<open>Reading back what was written\<close>

text \<open>
  The loop over \<open>next_byte\<close> that both users of the decoder run: it ends with the integer and the
  rest of the input, with the decoder when the input runs out, or with an error.
\<close>

fun int_loop :: "IntegerDecoder \<Rightarrow> bytes \<Rightarrow> ((nat \<times> bytes) + IntegerDecoder, H2Error) outcome" where
  "int_loop d [] = Ok (Inr d)"
| "int_loop d (byte # buf) =
     obind (IntegerDecoder_next_byte d byte) (\<lambda>(r, d).
       case r of None \<Rightarrow> int_loop d buf | Some index \<Rightarrow> Ok (Inl (index, buf)))"

text \<open>The decoder's state after \<open>k\<close> octets; \<open>k \<le> 10\<close> keeps the shift far from the end of \<^verbatim>\<open>u32\<close>.\<close>

definition int_dec_ok :: "IntegerDecoder \<Rightarrow> bool" where
  "int_dec_ok d \<longleftrightarrow> id_index d < usize_limit \<and> (\<exists>k \<le> 10. id_shift d = 7 * k + 1)"

lemma low7_word: "unat ((b :: u8) AND 0x7f) = unat b mod 128"
proof -
  have "b AND 0x7f = b mod 128"
    using take_bit_eq_mask [of 7 b] by (simp add: take_bit_eq_mod mask_eq_exp_minus_1)
  then show ?thesis by (simp add: unat_mod_distrib)
qed

lemma bit7_word: "(b :: u8) AND 0x80 = 0 \<longleftrightarrow> unat b < 128"
proof -
  have "(b :: u8) AND 0x80 = 0 \<longleftrightarrow> \<not> bit b 7"
    by (auto simp: bit_eq_iff [where 'a = u8] bit_and_iff bit_0x80 dest: spec [of _ 7])
  also have "bit b 7 \<longleftrightarrow> odd (unat b div 128)"
    using bit_unsigned_iff [where 'a = nat, of b 7] by (simp add: bit_iff_odd [where 'a = nat])
  also have "\<not> odd (unat b div 128) \<longleftrightarrow> unat b < 128"
  proof -
    have "unat b div 128 < 2" by (rule less_mult_imp_div_less) simp
    then show ?thesis by (auto simp: less_2_cases_iff div_eq_0_iff)
  qed
  finally show ?thesis .
qed

lemma next_byte_cases:
  assumes "int_dec_ok d"
  shows "IntegerDecoder_next_byte d b =
    (let v = 2 ^ (id_shift d - 1) * (unat b mod 128) + id_index d in
     if id_shift d \<le> 64 \<and> v < usize_limit
     then Ok (if unat b < 128 then Some v else None, \<lparr>id_index = v, id_shift = id_shift d + 7\<rparr>)
     else Err (ConnectionError CompressionError))"
  using assms
  by (cases d) (auto simp: IntegerDecoder_next_byte_def checked_shl_1_def checked_mul_def
      checked_add_def low7_word bit7_word int_dec_ok_def Let_def)

lemma next_byte_ok:
  assumes "int_dec_ok d" "IntegerDecoder_next_byte d b = Ok (r, d')"
  shows "int_dec_ok d'"
proof -
  from assms(1) obtain k where k: "id_shift d = 7 * k + 1" by (auto simp: int_dec_ok_def)
  from assms have "id_shift d \<le> 64" "id_index d' < usize_limit" "id_shift d' = id_shift d + 7"
    by (auto simp: next_byte_cases Let_def split: if_splits)
  with k show ?thesis by (auto simp: int_dec_ok_def intro!: exI [of _ "Suc k"])
qed

lemma first_byte_ok: "IntegerDecoder_first_byte b msk = Err d \<Longrightarrow> int_dec_ok d"
  using unat_u8_less [of "b AND msk"]
  by (auto simp: IntegerDecoder_first_byte_def int_dec_ok_def usize_limit_def Let_def
      simp del: unat_u8_less split: if_splits)

text \<open>Reading the trailing octets of \<open>i\<close> adds \<open>i\<close> to the index, at the decoder's position.\<close>

lemma int_loop_trailing:
  assumes "int_dec_ok d" "id_index d + 2 ^ (id_shift d - 1) * i < usize_limit"
    and "id_shift d \<le> 64"
  shows "int_loop d (trailing_octets i @ rest) =
    Ok (Inl (id_index d + 2 ^ (id_shift d - 1) * i, rest))"
  using assms
proof (induction i arbitrary: d rule: trailing_octets.induct)
  case (1 i)
  show ?case
  proof (cases "i < 128")
    case True
    with 1 show ?thesis
      by (simp add: trailing_octets.simps [of i] next_byte_cases unat_of_nat take_bit_eq_mod Let_def)
  next
    case False
    from "1.prems"(1) obtain k where k: "id_shift d = Suc k" by (auto simp: int_dec_ok_def)
    have "i = i mod 128 + 128 * (i div 128)" by simp
    then have "2 ^ k * i = 2 ^ k * (i mod 128 + 128 * (i div 128))" by presburger
    also have "\<dots> = 2 ^ k * (i mod 128) + 2 ^ (7 + k) * (i div 128)"
      by (simp only: power_add add_mult_distrib2 mult.assoc) simp
    finally have split: "2 ^ k * i = 2 ^ k * (i mod 128) + 2 ^ (7 + k) * (i div 128)" .
    let ?v = "2 ^ k * (i mod 128) + id_index d" and ?b = "of_nat (i mod 128 + 128) :: u8"
    let ?d = "\<lparr>id_index = ?v, id_shift = id_shift d + 7\<rparr>"
    have b: "unat ?b = i mod 128 + 128" by (subst unat_of_nat) (simp add: take_bit_eq_mod)
    have v: "?v + 2 ^ (7 + k) * (i div 128) < usize_limit" using "1.prems"(2) split by (simp add: k)
    then have step: "IntegerDecoder_next_byte d ?b = Ok (None, ?d)"
      using "1.prems" b by (simp add: next_byte_cases Let_def k)
    have "2 ^ (7 + k) * 1 \<le> 2 ^ (7 + k) * (i div 128)"
      using False by (intro mult_le_mono) (auto simp: Suc_le_eq div_greater_zero_iff)
    with v have "(2 :: nat) ^ (7 + k) < 2 ^ 64" unfolding usize_limit_def by linarith
    then have "7 + k < 64" by (rule power_less_imp_less_exp [rotated]) simp
    then have "int_loop ?d (trailing_octets (i div 128) @ rest) =
        Ok (Inl (?v + 2 ^ (7 + k) * (i div 128), rest))"
      using "1.IH" [OF False next_byte_ok [OF "1.prems"(1) step]] v by (simp add: k)
    then show ?thesis
      using False step split by (simp add: trailing_octets.simps [of i] k)
  qed
qed

text \<open>
  The prefixes that HPACK uses: \<open>N\<close> low bits for the integer, the others for the representation.
\<close>

definition int_prefix :: "u8 \<Rightarrow> u8 \<Rightarrow> bool" where
  "int_prefix msk pre \<longleftrightarrow> (\<exists>N \<in> {4, 5, 6, 7}. msk = mask N) \<and> pre AND msk = 0"

lemma int_prefix_and:
  assumes "int_prefix msk pre" "w \<le> msk"
  shows "(pre OR w) AND msk = w"
proof -
  from assms obtain N where N: "N \<in> {4, 5, 6, 7}" "msk = mask N" "pre AND mask N = 0"
    by (auto simp: int_prefix_def)
  have "w AND mask N = w"
  proof -
    have "unat w \<le> 2 ^ N - 1" "N < 8" using assms(2) N by (auto simp: word_le_nat_alt mask_eq_exp_minus_1)
    then have "unat w mod 2 ^ N = unat w" by (simp add: le_less_trans)
    then have "unat (take_bit N w) = unat w" by (simp only: unsigned_take_bit_eq) (simp add: take_bit_eq_mod)
    then show ?thesis by (simp add: take_bit_eq_mask word_unat_eq_iff)
  qed
  with N show ?thesis by (simp add: bit.conj_disj_distrib2)
qed

text \<open>
  Decoding from the first octet on, as its users do: \<open>first_byte\<close>, then the loop.
\<close>

definition int_decode :: "u8 \<Rightarrow> bytes \<Rightarrow> ((nat \<times> bytes) + IntegerDecoder, H2Error) outcome" where
  "int_decode msk buf =
     (case IntegerDecoder_first_byte (hd buf) msk of
        Ok i \<Rightarrow> Ok (Inl (i, tl buf)) | Err d \<Rightarrow> int_loop d (tl buf) | Panic \<Rightarrow> Panic)"

lemma int_decode_octets:
  assumes "int_prefix msk pre" "i < usize_limit"
  shows "int_decode msk (int_octets i msk pre @ rest) = Ok (Inl (i, rest))"
proof (cases "i < unat msk")
  case True
  then have i: "of_nat i < msk" "unat (of_nat i :: u8) = i" 
    by (simp_all add: word_less_nat_alt unat_of_nat take_bit_eq_mod less_trans [OF _ unat_u8_less])
  with assms show ?thesis
    by (simp add: int_decode_def int_octets_def True int_prefix_and IntegerDecoder_first_byte_def)
next
  case False
  define d where "d = \<lparr>id_index = unat msk, id_shift = 1\<rparr>"
  have first: "IntegerDecoder_first_byte (pre OR msk) msk = Err d"
    using int_prefix_and [OF assms(1) order.refl] by (simp add: IntegerDecoder_first_byte_def d_def)
  from int_loop_trailing [OF first_byte_ok [OF this], of "i - unat msk" rest] False assms
  show ?thesis by (simp add: int_decode_def int_octets_def first d_def)
qed

text \<open>The number that a list of octets stands for, seven bits each, least significant first.\<close>

fun digits :: "bytes \<Rightarrow> nat" where
  "digits [] = 0"
| "digits (b # bs) = unat b mod 128 + 128 * digits bs"

lemma int_loop_Inl:
  assumes "int_dec_ok d" "int_loop d buf = Ok (Inl (v, rest))"
  shows "\<exists>ds b. buf = ds @ b # rest \<and> (\<forall>x \<in> set ds. 128 \<le> unat x) \<and> unat b < 128 \<and>
    v = id_index d + 2 ^ (id_shift d - 1) * digits (ds @ [b]) \<and> v < usize_limit \<and>
    7 * length ds + id_shift d \<le> 64"
  using assms
proof (induction d buf rule: int_loop.induct)
  case (2 d b buf)
  from "2.prems"(1) obtain k where k: "id_shift d = Suc k" by (auto simp: int_dec_ok_def)
  from "2.prems"(2) obtain r d' where step: "IntegerDecoder_next_byte d b = Ok (r, d')"
    and r: "case r of None \<Rightarrow> int_loop d' buf = Ok (Inl (v, rest)) | Some i \<Rightarrow> v = i \<and> rest = buf"
    by (auto simp: obind_eq_Ok split: option.splits)
  from step "2.prems"(1) have d': "k < 64" "id_index d' = 2 ^ k * (unat b mod 128) + id_index d"
      "id_index d' < usize_limit" "id_shift d' = Suc (7 + k)"
    and rb: "r = (if unat b < 128 then Some (id_index d') else None)"
    by (auto simp: next_byte_cases k Let_def split: if_splits)
  show ?case
  proof (cases "unat b < 128")
    case True
    with r rb d' k show ?thesis by (intro exI [of _ "[]"] exI [of _ b]) simp
  next
    case False
    with r rb have "r = None" "int_loop d' buf = Ok (Inl (v, rest))" by simp_all
    from "2.IH" [OF this(1) next_byte_ok [OF "2.prems"(1) step] this(2)] obtain ds c where
      "buf = ds @ c # rest" "\<forall>x \<in> set ds. 128 \<le> unat x" "unat c < 128"
      "v = id_index d' + 2 ^ (7 + k) * digits (ds @ [c])" "v < usize_limit" "7 * length ds + id_shift d' \<le> 64"
      by (auto simp: d'(4))
    with False d' k show ?thesis
      by (intro exI [of _ "b # ds"] exI [of _ c]) (simp add: power_add algebra_simps)
  qed
qed simp

text \<open>Conversely, continuation octets whose value fits are read to their end.\<close>

lemma int_loop_digits:
  assumes "int_dec_ok d" "list_all (\<lambda>x. 128 \<le> unat x) ds" "unat b < 128"
    and "id_index d + 2 ^ (id_shift d - 1) * digits (ds @ [b]) < usize_limit" "7 * length ds + id_shift d \<le> 64"
  shows "int_loop d (ds @ b # rest) = Ok (Inl (id_index d + 2 ^ (id_shift d - 1) * digits (ds @ [b]), rest))"
  using assms
proof (induction ds arbitrary: d)
  case Nil
  then show ?case by (auto simp: next_byte_cases Let_def int_dec_ok_def)
next
  case (Cons x ds)
  obtain k where k: "id_shift d = Suc k" using Cons.prems(1) by (auto simp: int_dec_ok_def)
  let ?v = "2 ^ k * (unat x mod 128) + id_index d" and ?r = "digits (ds @ [b])"
  have split: "id_index d + 2 ^ k * (unat x mod 128 + 128 * ?r) = ?v + 2 ^ (7 + k) * ?r"
    by (simp add: power_add algebra_simps)
  have fits: "?v + 2 ^ (7 + k) * ?r < usize_limit" using Cons.prems(4) split by (simp add: k)
  then have v: "?v < usize_limit" by (rule le_less_trans [rotated]) simp
  let ?d = "\<lparr>id_index = ?v, id_shift = Suc (7 + k)\<rparr>"
  have step: "IntegerDecoder_next_byte d x = Ok (None, ?d)"
    using Cons.prems(1,2,5) v by (simp add: next_byte_cases k Let_def)
  have "int_loop ?d (ds @ b # rest) = Ok (Inl (?v + 2 ^ (7 + k) * ?r, rest))"
    using Cons.IH [OF next_byte_ok [OF Cons.prems(1) step]] Cons.prems(2,3,5) fits by (simp add: k)
  then show ?case using step split by (simp add: k)
qed

section \<open>Properties\<close>

text \<open>
  C34. HPACK integers are decoded exactly: decoding with a prefix mask ends with a value if and only if the octets are an
  integer of RFC 7541, section 5.1, that fits. If the prefix is less than the mask, the value is the prefix and one octet
  is consumed; otherwise the octets up to the first one without the continuation bit are consumed, at most ten of
  them, and the value is the prefix plus their seven-bit digits, least significant first, provided that it fits a 64-bit
  \<open>usize\<close>. No wrap-around happens on any input.
\<close>

theorem int_decode_exact:
  "int_decode msk (b # buf) = Ok (Inl (v, rest)) \<longleftrightarrow>
     (if b AND msk < msk then v = unat (b AND msk) \<and> rest = buf
      else \<exists>ds c. buf = ds @ c # rest \<and> list_all (\<lambda>x. 128 \<le> unat x) ds \<and> unat c < 128 \<and> length ds \<le> 9 \<and>
        v = unat (b AND msk) + digits (ds @ [c]) \<and> v < usize_limit)"
proof (cases "b AND msk < msk")
  case True
  then show ?thesis by (auto simp: int_decode_def IntegerDecoder_first_byte_def)
next
  case False
  let ?d = "\<lparr>id_index = unat (b AND msk), id_shift = 1\<rparr>"
  have first: "IntegerDecoder_first_byte b msk = Err ?d" using False by (simp add: IntegerDecoder_first_byte_def)
  have ok: "int_dec_ok ?d" by (rule first_byte_ok [OF first])
  have "int_loop ?d buf = Ok (Inl (v, rest)) \<longleftrightarrow>
      (\<exists>ds c. buf = ds @ c # rest \<and> list_all (\<lambda>x. 128 \<le> unat x) ds \<and> unat c < 128 \<and> length ds \<le> 9 \<and>
        v = unat (b AND msk) + digits (ds @ [c]) \<and> v < usize_limit)"
  proof
    assume "int_loop ?d buf = Ok (Inl (v, rest))"
    from int_loop_Inl [OF ok this] show "\<exists>ds c. buf = ds @ c # rest \<and> list_all (\<lambda>x. 128 \<le> unat x) ds \<and> unat c < 128 \<and>
        length ds \<le> 9 \<and> v = unat (b AND msk) + digits (ds @ [c]) \<and> v < usize_limit"
      by (fastforce simp: list_all_iff)
  qed (use int_loop_digits [OF ok] in auto)
  then show ?thesis using first False by (simp add: int_decode_def)
qed

end
