(* ===== verification/Hpack_Repr.thy ===== *)
theory Hpack_Repr
  imports Huffman Hpack_Integer
begin

text \<open>
  Header field representations (\<^verbatim>\<open>ylong_http/src/h2/hpack/representation/mod.rs\<close>) and their decoder
  (\<^verbatim>\<open>representation/decoder.rs\<close>). The decoder is a hierarchy of states, each with a \<open>decode\<close> that
  consumes what it can of the buffer and, when the buffer runs out, returns the state to resume in.
  All of them satisfy the contract \<open>incremental_parser\<close>: where the input is cut does not matter.
\<close>

section \<open>Representations\<close>

datatype Name = Name_Index nat | Name_Literal bytes

datatype Representation =
    Indexed nat
  | LiteralWithIndexing Name bytes
  | LiteralWithoutIndexing Name bytes
  | LiteralNeverIndexed Name bytes
  | SizeUpdate nat

type_synonym PrefixBit = u8
type_synonym PrefixIndexMask = u8

definition PrefixBit_INDEXED :: PrefixBit where
  "PrefixBit_INDEXED = 0x80"
definition PrefixBit_LITERAL_WITH_INDEXING :: PrefixBit where
  "PrefixBit_LITERAL_WITH_INDEXING = 0x40"
definition PrefixBit_SIZE_UPDATE :: PrefixBit where
  "PrefixBit_SIZE_UPDATE = 0x20"
definition PrefixBit_LITERAL_NEVER_INDEXED :: PrefixBit where
  "PrefixBit_LITERAL_NEVER_INDEXED = 0x10"
definition PrefixBit_LITERAL_WITHOUT_INDEXING :: PrefixBit where
  "PrefixBit_LITERAL_WITHOUT_INDEXING = 0x00"

definition PrefixIndexMask_INDEXED :: PrefixIndexMask where
  "PrefixIndexMask_INDEXED = 0x7f"
definition PrefixIndexMask_LITERAL_WITH_INDEXING :: PrefixIndexMask where
  "PrefixIndexMask_LITERAL_WITH_INDEXING = 0x3f"
definition PrefixIndexMask_SIZE_UPDATE :: PrefixIndexMask where
  "PrefixIndexMask_SIZE_UPDATE = 0x1f"
definition PrefixIndexMask_LITERAL_NEVER_INDEXED :: PrefixIndexMask where
  "PrefixIndexMask_LITERAL_NEVER_INDEXED = 0x0f"
definition PrefixIndexMask_LITERAL_WITHOUT_INDEXING :: PrefixIndexMask where
  "PrefixIndexMask_LITERAL_WITHOUT_INDEXING = 0x0f"

lemmas PrefixBit_defs =
  PrefixBit_INDEXED_def PrefixBit_LITERAL_WITH_INDEXING_def PrefixBit_SIZE_UPDATE_def
  PrefixBit_LITERAL_NEVER_INDEXED_def PrefixBit_LITERAL_WITHOUT_INDEXING_def

lemmas PrefixIndexMask_defs =
  PrefixIndexMask_INDEXED_def PrefixIndexMask_LITERAL_WITH_INDEXING_def
  PrefixIndexMask_SIZE_UPDATE_def PrefixIndexMask_LITERAL_NEVER_INDEXED_def
  PrefixIndexMask_LITERAL_WITHOUT_INDEXING_def

fun Representation_prefix_bit :: "Representation \<Rightarrow> PrefixBit" where
  "Representation_prefix_bit (Indexed _) = PrefixBit_INDEXED"
| "Representation_prefix_bit (LiteralWithIndexing _ _) = PrefixBit_LITERAL_WITH_INDEXING"
| "Representation_prefix_bit (SizeUpdate _) = PrefixBit_SIZE_UPDATE"
| "Representation_prefix_bit (LiteralNeverIndexed _ _) = PrefixBit_LITERAL_NEVER_INDEXED"
| "Representation_prefix_bit (LiteralWithoutIndexing _ _) = PrefixBit_LITERAL_WITHOUT_INDEXING"

fun Representation_prefix_index_mask :: "Representation \<Rightarrow> PrefixIndexMask" where
  "Representation_prefix_index_mask (Indexed _) = PrefixIndexMask_INDEXED"
| "Representation_prefix_index_mask (LiteralWithIndexing _ _) = PrefixIndexMask_LITERAL_WITH_INDEXING"
| "Representation_prefix_index_mask (SizeUpdate _) = PrefixIndexMask_SIZE_UPDATE"
| "Representation_prefix_index_mask (LiteralNeverIndexed _ _) = PrefixIndexMask_LITERAL_NEVER_INDEXED"
| "Representation_prefix_index_mask (LiteralWithoutIndexing _ _) =
     PrefixIndexMask_LITERAL_WITHOUT_INDEXING"

definition PrefixBit_from_u8 :: "u8 \<Rightarrow> PrefixBit" where
  "PrefixBit_from_u8 byte =
     (if byte \<ge> 0x80 then PrefixBit_INDEXED
      else if byte \<ge> 0x40 then PrefixBit_LITERAL_WITH_INDEXING
      else if byte \<ge> 0x20 then PrefixBit_SIZE_UPDATE
      else if byte \<ge> 0x10 then PrefixBit_LITERAL_NEVER_INDEXED
      else PrefixBit_LITERAL_WITHOUT_INDEXING)"

definition PrefixBit_prefix_index_mask :: "PrefixBit \<Rightarrow> PrefixIndexMask" where
  "PrefixBit_prefix_index_mask p =
     (if p = 0x80 then PrefixIndexMask_INDEXED
      else if p = 0x40 then PrefixIndexMask_LITERAL_WITH_INDEXING
      else if p = 0x20 then PrefixIndexMask_SIZE_UPDATE
      else if p = 0x10 then PrefixIndexMask_LITERAL_NEVER_INDEXED
      else PrefixIndexMask_LITERAL_WITHOUT_INDEXING)"

section \<open>Decoding states\<close>

text \<open>
  The source's \<^verbatim>\<open>DecResult\<close> has a third constructor for errors, which here is the \<open>Err\<close> of the
  outcome; each \<open>decode\<close> also returns the rest of the buffer it was given a reference to.
\<close>

datatype ('d, 's) DecResult = Decoded 'd | NeedMore 's

datatype IndexInner = FirstByte | TrailingBytes PrefixBit IntegerDecoder

datatype LiteralString =
    LengthFirstByte
  | LengthTrailingBytes bool IntegerDecoder
  | AsciiStringBytes bytes nat
  | HuffmanStringBytes HuffmanDecoder nat nat

datatype ReprDecodeState =
    Index IndexInner
  | NameString PrefixBit LiteralString
  | ValueString PrefixBit Name LiteralString

fun TrailingBytes_decode ::
  "PrefixBit \<Rightarrow> IntegerDecoder \<Rightarrow> bytes \<Rightarrow>
   ((PrefixBit \<times> nat, IndexInner) DecResult \<times> bytes, H2Error) outcome" where
  "TrailingBytes_decode repr index [] = Ok (NeedMore (TrailingBytes repr index), [])"
| "TrailingBytes_decode repr index (byte # buf) =
     obind (IntegerDecoder_next_byte index byte) (\<lambda>(r, index).
       case r of
         None \<Rightarrow> TrailingBytes_decode repr index buf
       | Some i \<Rightarrow> Ok (Decoded (repr, i), buf))"

definition FirstByte_decode ::
  "bytes \<Rightarrow> ((PrefixBit \<times> nat, IndexInner) DecResult \<times> bytes, H2Error) outcome" where
  "FirstByte_decode buf =
     (case buf of
        [] \<Rightarrow> Ok (NeedMore FirstByte, buf)
      | byte # buf \<Rightarrow>
          let repr = PrefixBit_from_u8 byte; msk = PrefixBit_prefix_index_mask repr in
          case IntegerDecoder_first_byte byte msk of
            Ok idx \<Rightarrow> Ok (Decoded (repr, idx), buf)
          | Err dec \<Rightarrow> TrailingBytes_decode repr dec buf
          | Panic \<Rightarrow> Panic)"

fun IndexInner_decode ::
  "IndexInner \<Rightarrow> bytes \<Rightarrow> ((PrefixBit \<times> nat, IndexInner) DecResult \<times> bytes, H2Error) outcome" where
  "IndexInner_decode FirstByte buf = FirstByte_decode buf"
| "IndexInner_decode (TrailingBytes repr index) buf = TrailingBytes_decode repr index buf"

definition AsciiStringBytes_decode ::
  "bytes \<Rightarrow> nat \<Rightarrow> bytes \<Rightarrow> ((bytes, LiteralString) DecResult \<times> bytes, H2Error) outcome" where
  "AsciiStringBytes_decode octets len buf =
     (if length buf + length octets \<ge> len then
        if len < length octets then Panic
        else let pos = len - length octets in
             Ok (Decoded (octets @ take pos buf), drop pos buf)
      else Ok (NeedMore (AsciiStringBytes (octets @ buf) len), []))"

definition HuffmanStringBytes_decode ::
  "HuffmanDecoder \<Rightarrow> nat \<Rightarrow> nat \<Rightarrow> bytes \<Rightarrow>
   ((bytes, LiteralString) DecResult \<times> bytes, H2Error) outcome" where
  "HuffmanStringBytes_decode huffman rd len buf =
     (let err = (\<lambda>_. ConnectionError CompressionError) in
      if length buf + rd \<ge> len then
        if len < rd then Panic
        else let pos = len - rd in
             obind (map_err err (HuffmanDecoder_decode huffman (take pos buf))) (\<lambda>huffman.
             obind (map_err err (HuffmanDecoder_finish huffman)) (\<lambda>vec.
               Ok (Decoded vec, drop pos buf)))
      else
        obind (map_err err (HuffmanDecoder_decode huffman buf)) (\<lambda>huffman.
          Ok (NeedMore (HuffmanStringBytes huffman (rd + length buf) len), [])))"

fun LengthTrailingBytes_decode ::
  "bool \<Rightarrow> IntegerDecoder \<Rightarrow> bytes \<Rightarrow> ((bytes, LiteralString) DecResult \<times> bytes, H2Error) outcome" where
  "LengthTrailingBytes_decode is_huffman len [] = Ok (NeedMore (LengthTrailingBytes is_huffman len), [])"
| "LengthTrailingBytes_decode is_huffman len (byte # buf) =
     obind (IntegerDecoder_next_byte len byte) (\<lambda>(r, len).
       case r of
         None \<Rightarrow> LengthTrailingBytes_decode is_huffman len buf
       | Some n \<Rightarrow>
           if is_huffman then HuffmanStringBytes_decode HuffmanDecoder_new 0 n buf
           else AsciiStringBytes_decode [] n buf)"

definition LengthFirstByte_decode ::
  "bytes \<Rightarrow> ((bytes, LiteralString) DecResult \<times> bytes, H2Error) outcome" where
  "LengthFirstByte_decode buf =
     (case buf of
        [] \<Rightarrow> Ok (NeedMore LengthFirstByte, buf)
      | byte # buf \<Rightarrow>
          let huffman = (byte AND 0x80 = 0x80) in
          case IntegerDecoder_first_byte byte 0x7f of
            Ok len \<Rightarrow>
              if huffman then HuffmanStringBytes_decode HuffmanDecoder_new 0 len buf
              else AsciiStringBytes_decode [] len buf
          | Err dec \<Rightarrow> LengthTrailingBytes_decode huffman dec buf
          | Panic \<Rightarrow> Panic)"

fun LiteralString_decode ::
  "LiteralString \<Rightarrow> bytes \<Rightarrow> ((bytes, LiteralString) DecResult \<times> bytes, H2Error) outcome" where
  "LiteralString_decode LengthFirstByte buf = LengthFirstByte_decode buf"
| "LiteralString_decode (LengthTrailingBytes h len) buf = LengthTrailingBytes_decode h len buf"
| "LiteralString_decode (AsciiStringBytes octets len) buf = AsciiStringBytes_decode octets len buf"
| "LiteralString_decode (HuffmanStringBytes h rd len) buf = HuffmanStringBytes_decode h rd len buf"

definition ValueString_decode ::
  "PrefixBit \<Rightarrow> Name \<Rightarrow> LiteralString \<Rightarrow> bytes \<Rightarrow>
   ((Representation, ReprDecodeState) DecResult \<times> bytes, H2Error) outcome" where
  "ValueString_decode repr name inner buf =
     obind (LiteralString_decode inner buf) (\<lambda>(r, buf).
       case r of
         Decoded value \<Rightarrow>
           Ok (Decoded
             (if repr = PrefixBit_LITERAL_WITH_INDEXING then LiteralWithIndexing name value
              else if repr = PrefixBit_LITERAL_WITHOUT_INDEXING then LiteralWithoutIndexing name value
              else LiteralNeverIndexed name value), buf)
       | NeedMore inner \<Rightarrow> Ok (NeedMore (ValueString repr name inner), buf))"

definition NameString_decode ::
  "PrefixBit \<Rightarrow> LiteralString \<Rightarrow> bytes \<Rightarrow>
   ((Representation, ReprDecodeState) DecResult \<times> bytes, H2Error) outcome" where
  "NameString_decode repr inner buf =
     obind (LiteralString_decode inner buf) (\<lambda>(r, buf).
       case r of
         Decoded octets \<Rightarrow> ValueString_decode repr (Name_Literal octets) LengthFirstByte buf
       | NeedMore inner \<Rightarrow> Ok (NeedMore (NameString repr inner), buf))"

definition Index_decode ::
  "IndexInner \<Rightarrow> bytes \<Rightarrow> ((Representation, ReprDecodeState) DecResult \<times> bytes, H2Error) outcome" where
  "Index_decode inner buf =
     obind (IndexInner_decode inner buf) (\<lambda>(r, buf).
       case r of
         Decoded (repr, index) \<Rightarrow>
           if repr = PrefixBit_INDEXED \<and> index = 0 then Err (ConnectionError CompressionError)
           else if repr = PrefixBit_INDEXED then Ok (Decoded (Indexed index), buf)
           else if repr = PrefixBit_SIZE_UPDATE then Ok (Decoded (SizeUpdate index), buf)
           else if index = 0 then NameString_decode repr LengthFirstByte buf
           else ValueString_decode repr (Name_Index index) LengthFirstByte buf
       | NeedMore inner \<Rightarrow> Ok (NeedMore (Index inner), buf))"

fun ReprDecodeState_decode ::
  "ReprDecodeState \<Rightarrow> bytes \<Rightarrow> ((Representation, ReprDecodeState) DecResult \<times> bytes, H2Error) outcome" where
  "ReprDecodeState_decode (Index inner) buf = Index_decode inner buf"
| "ReprDecodeState_decode (NameString repr inner) buf = NameString_decode repr inner buf"
| "ReprDecodeState_decode (ValueString repr name inner) buf = ValueString_decode repr name inner buf"

section \<open>The decoder of representations\<close>

record ReprDecoder =
  rd_buf :: bytes
  rd_state :: "ReprDecodeState option"

definition ReprDecoder_new :: "bytes \<Rightarrow> ReprDecoder" where
  "ReprDecoder_new buf = \<lparr>rd_buf = buf, rd_state = None\<rparr>"

text \<open>The holder is the optional state; loading leaves it empty.\<close>

definition ReprDecoder_load ::
  "ReprDecoder \<Rightarrow> ReprDecodeState option \<Rightarrow> ReprDecoder \<times> ReprDecodeState option" where
  "ReprDecoder_load d holder = (d\<lparr>rd_state := holder\<rparr>, None)"

definition ReprDecoder_decode ::
  "ReprDecoder \<Rightarrow> (Representation option \<times> ReprDecoder, H2Error) outcome" where
  "ReprDecoder_decode d =
     (if rd_buf d = [] then Ok (None, d)
      else
        let state = (case rd_state d of None \<Rightarrow> Index FirstByte | Some s \<Rightarrow> s) in
        obind (ReprDecodeState_decode state (rd_buf d)) (\<lambda>(r, buf).
          case r of
            NeedMore state \<Rightarrow> Ok (None, \<lparr>rd_buf = buf, rd_state = Some state\<rparr>)
          | Decoded repr \<Rightarrow> Ok (Some repr, \<lparr>rd_buf = buf, rd_state = None\<rparr>)))"

definition ReprDecoder_save :: "ReprDecoder \<Rightarrow> ReprDecodeState option" where
  "ReprDecoder_save d = rd_state d"

section \<open>The contract of a resumable decoder\<close>

lemma obind_DecResult_Ok:
  "obind m (\<lambda>(r, b). case r of Decoded d \<Rightarrow> f d b | NeedMore s \<Rightarrow> g s b) = Ok y \<longleftrightarrow>
     (\<exists>d b. m = Ok (Decoded d, b) \<and> f d b = Ok y) \<or> (\<exists>s b. m = Ok (NeedMore s, b) \<and> g s b = Ok y)"
proof (cases m)
  case (Ok t)
  then show ?thesis by (cases t; cases "fst t") simp_all
qed simp_all

lemma obind_DecResult_Panic:
  "obind m (\<lambda>(r, b). case r of Decoded d \<Rightarrow> f d b | NeedMore s \<Rightarrow> g s b) = Panic \<longleftrightarrow>
     m = Panic \<or> (\<exists>d b. m = Ok (Decoded d, b) \<and> f d b = Panic) \<or>
     (\<exists>s b. m = Ok (NeedMore s, b) \<and> g s b = Panic)"
proof (cases m)
  case (Ok t)
  then show ?thesis by (cases t; cases "fst t") simp_all
qed simp_all

lemma obind_DecResult_assoc:
  "obind (obind m (\<lambda>(r, b). case r of Decoded d \<Rightarrow> f d b | NeedMore s \<Rightarrow> g s b)) h =
   obind m (\<lambda>(r, b). case r of Decoded d \<Rightarrow> obind (f d b) h | NeedMore s \<Rightarrow> obind (g s b) h)"
  by (auto simp: obind_assoc intro!: obind_cong split: DecResult.split)

text \<open>
  A decoder that is given its input piece by piece: with no input it waits, a cut in the input does
  not change what it returns, a result takes at least one octet, and it never panics.
\<close>

locale incremental_parser =
  fixes parse :: "'s \<Rightarrow> bytes \<Rightarrow> (('d, 's) DecResult \<times> bytes, H2Error) outcome"
    and invar :: "'s \<Rightarrow> bool"
  assumes parse_nil: "invar s \<Longrightarrow> parse s [] = Ok (NeedMore s, [])"
    and parse_append: "invar s \<Longrightarrow> parse s (xs @ ys) = obind (parse s xs) (\<lambda>(r, rest).
      case r of Decoded d \<Rightarrow> Ok (Decoded d, rest @ ys) | NeedMore s' \<Rightarrow> parse s' ys)"
    and parse_invar: "invar s \<Longrightarrow> parse s xs = Ok (NeedMore s', rest) \<Longrightarrow> invar s' \<and> rest = []"
    and parse_progress: "invar s \<Longrightarrow> parse s xs = Ok (Decoded d, rest) \<Longrightarrow> length rest < length xs"
    and parse_no_panic: "invar s \<Longrightarrow> parse s xs \<noteq> Panic"
begin

lemma parse_Decoded_append:
  "invar s \<Longrightarrow> parse s xs = Ok (Decoded d, rest) \<Longrightarrow> parse s (xs @ ys) = Ok (Decoded d, rest @ ys)"
  by (simp add: parse_append)

lemma parse_NeedMore_append:
  "invar s \<Longrightarrow> parse s xs = Ok (NeedMore s', rest) \<Longrightarrow> parse s (xs @ ys) = parse s' ys"
  by (simp add: parse_append)

lemma parse_Err_append: "invar s \<Longrightarrow> parse s xs = Err e \<Longrightarrow> parse s (xs @ ys) = Err e"
  by (simp add: parse_append)

text \<open>A result comes from a prefix of the input, and any longer input gives the same.\<close>

lemma parse_Decoded_suffix:
  "invar s \<Longrightarrow> parse s xs = Ok (Decoded d, rest) \<Longrightarrow> \<exists>used. xs = used @ rest \<and> used \<noteq> []"
proof (induction xs arbitrary: s)
  case (Cons x xs)
  note app = parse_append [OF Cons.prems(1), of "[x]" xs]
  show ?case
  proof (cases "parse s [x]")
    case (Ok t)
    show ?thesis
    proof (cases t)
      case (Pair r rest1)
      show ?thesis
      proof (cases r)
        case (Decoded d')
        with Ok Pair parse_progress [OF Cons.prems(1), of "[x]"] have "rest1 = []" by simp
        with app Ok Pair Decoded Cons.prems(2) show ?thesis by (intro exI [of _ "[x]"]) simp
      next
        case (NeedMore s')
        with Ok Pair parse_invar [OF Cons.prems(1)] have "invar s'" by blast
        moreover from app Ok Pair NeedMore Cons.prems(2) have "parse s' xs = Ok (Decoded d, rest)" by simp
        ultimately obtain used where "xs = used @ rest" using Cons.IH by blast
        then show ?thesis by (intro exI [of _ "x # used"]) simp
      qed
    qed
  qed (use app Cons.prems(2) in simp_all)
qed (simp add: parse_nil)

end

section \<open>The states satisfy the contract\<close>

lemma int_loop_append:
  "int_loop d (xs @ ys) = obind (int_loop d xs) (\<lambda>r.
     case r of Inl (i, rest) \<Rightarrow> Ok (Inl (i, rest @ ys)) | Inr d' \<Rightarrow> int_loop d' ys)"
  by (induction d xs rule: int_loop.induct)
    (auto simp: obind_assoc intro!: obind_cong split: option.split prod.split)

lemma next_byte_no_panic: "IntegerDecoder_next_byte d b \<noteq> Panic"
  by (auto simp: IntegerDecoder_next_byte_def Let_def split: option.split)

lemma int_loop_no_panic: "int_loop d buf \<noteq> Panic"
  by (induction d buf rule: int_loop.induct)
    (auto simp: obind_eq_Panic next_byte_no_panic split: option.split prod.split)

lemma int_loop_Inr: "int_dec_ok d \<Longrightarrow> int_loop d buf = Ok (Inr d') \<Longrightarrow> int_dec_ok d'"
  by (induction d buf rule: int_loop.induct)
    (auto simp: obind_eq_Ok dest: next_byte_ok split: option.splits)

lemma int_loop_progress: "int_loop d buf = Ok (Inl (i, rest)) \<Longrightarrow> length rest < length buf"
  by (induction d buf rule: int_loop.induct)
    (auto simp: obind_eq_Ok less_Suc_eq split: option.splits)

lemma TrailingBytes_decode_eq:
  "TrailingBytes_decode repr d buf = obind (int_loop d buf) (\<lambda>r.
     case r of Inl (i, rest) \<Rightarrow> Ok (Decoded (repr, i), rest)
     | Inr d' \<Rightarrow> Ok (NeedMore (TrailingBytes repr d'), []))"
  by (induction d buf rule: int_loop.induct)
    (auto simp: obind_assoc intro!: obind_cong split: option.split)

lemma TrailingBytes_decode_Ok:
  "TrailingBytes_decode repr d buf = Ok (NeedMore s', rest) \<longleftrightarrow>
     (\<exists>d'. int_loop d buf = Ok (Inr d') \<and> s' = TrailingBytes repr d' \<and> rest = [])"
  "TrailingBytes_decode repr d buf = Ok (Decoded x, rest) \<longleftrightarrow>
     (\<exists>i. int_loop d buf = Ok (Inl (i, rest)) \<and> x = (repr, i))"
  by (cases "int_loop d buf"; auto simp: TrailingBytes_decode_eq split: sum.split)+

abbreviation string_start :: "bool \<Rightarrow> nat \<Rightarrow> LiteralString" where
  "string_start h n \<equiv> (if h then HuffmanStringBytes HuffmanDecoder_new 0 n else AsciiStringBytes [] n)"

lemma LengthTrailingBytes_decode_eq:
  "LengthTrailingBytes_decode h d buf = obind (int_loop d buf) (\<lambda>r.
     case r of Inl (n, rest) \<Rightarrow> LiteralString_decode (string_start h n) rest
     | Inr d' \<Rightarrow> Ok (NeedMore (LengthTrailingBytes h d'), []))"
  by (induction d buf rule: int_loop.induct)
    (auto simp: obind_assoc intro!: obind_cong split: option.split)

fun IndexInner_ok :: "IndexInner \<Rightarrow> bool" where
  "IndexInner_ok FirstByte \<longleftrightarrow> True"
| "IndexInner_ok (TrailingBytes _ d) \<longleftrightarrow> int_dec_ok d"

lemma TrailingBytes_decode_append:
  "TrailingBytes_decode repr d (xs @ ys) = obind (TrailingBytes_decode repr d xs) (\<lambda>(r, rest).
     case r of Decoded x \<Rightarrow> Ok (Decoded x, rest @ ys) | NeedMore s' \<Rightarrow> IndexInner_decode s' ys)"
  by (auto simp: TrailingBytes_decode_eq int_loop_append obind_assoc intro!: obind_cong split: sum.split)

interpretation index_inner: incremental_parser IndexInner_decode IndexInner_ok
proof
  fix s xs ys and d :: "PrefixBit \<times> nat" and s' rest
  assume ok: "IndexInner_ok s"
  show "IndexInner_decode s [] = Ok (NeedMore s, [])"
    by (cases s) (simp_all add: FirstByte_decode_def)
  show "IndexInner_decode s (xs @ ys) = obind (IndexInner_decode s xs) (\<lambda>(r, rest).
      case r of Decoded d \<Rightarrow> Ok (Decoded d, rest @ ys) | NeedMore s' \<Rightarrow> IndexInner_decode s' ys)"
  proof (cases s)
    case FirstByte
    then show ?thesis
      by (cases xs) (auto simp: FirstByte_decode_def TrailingBytes_decode_append Let_def split: outcome.split)
  qed (simp add: TrailingBytes_decode_append)
  show "IndexInner_decode s xs \<noteq> Panic"
    by (cases s) (auto simp: FirstByte_decode_def TrailingBytes_decode_eq obind_eq_Panic
        int_loop_no_panic IntegerDecoder_first_byte_def Let_def
        split: outcome.split sum.split list.split if_splits)
  show "IndexInner_ok s' \<and> rest = []" if "IndexInner_decode s xs = Ok (NeedMore s', rest)"
    using that ok
    by (cases s) (auto simp: FirstByte_decode_def TrailingBytes_decode_Ok Let_def
        intro: int_loop_Inr [OF first_byte_ok] int_loop_Inr split: outcome.splits list.splits)
  show "length rest < length xs" if "IndexInner_decode s xs = Ok (Decoded d, rest)"
    using that
    by (cases s) (auto simp: FirstByte_decode_def TrailingBytes_decode_Ok Let_def
        less_Suc_eq dest: int_loop_progress split: outcome.splits list.splits)
qed

fun LiteralString_ok :: "LiteralString \<Rightarrow> bool" where
  "LiteralString_ok LengthFirstByte \<longleftrightarrow> True"
| "LiteralString_ok (LengthTrailingBytes _ d) \<longleftrightarrow> int_dec_ok d"
| "LiteralString_ok (AsciiStringBytes octets len) \<longleftrightarrow> length octets < len"
| "LiteralString_ok (HuffmanStringBytes _ rd len) \<longleftrightarrow> rd < len"

text \<open>
  The two states that read the octets of a string are also entered with nothing read, when the
  length may be zero; this is what they need.
\<close>

fun string_ok :: "LiteralString \<Rightarrow> bool" where
  "string_ok (AsciiStringBytes octets len) \<longleftrightarrow> length octets \<le> len"
| "string_ok (HuffmanStringBytes _ rd len) \<longleftrightarrow> rd \<le> len"
| "string_ok _ \<longleftrightarrow> False"

lemma string_ok_start [simp]: "string_ok (string_start h n)"
  by simp

lemma huffman_decode_inner_no_panic: "huffman_decode_inner src dst s f \<noteq> Panic"
proof (induction src dst s f rule: huffman_decode_inner.induct)
  case (2 b src dst s f)
  then show ?case by (auto simp: obind_eq_Panic huffman_step_not_Panic Let_def)
qed simp

lemma HuffmanDecoder_no_panic: "HuffmanDecoder_decode d src \<noteq> Panic" "HuffmanDecoder_finish d \<noteq> Panic"
  by (auto simp: HuffmanDecoder_decode_def HuffmanDecoder_finish_def obind_eq_Panic
      huffman_decode_inner_no_panic)

lemma HuffmanStringBytes_append:
  assumes "rd \<le> len"
  shows "HuffmanStringBytes_decode h rd len (xs @ ys) =
    obind (HuffmanStringBytes_decode h rd len xs) (\<lambda>(r, rest).
      case r of Decoded x \<Rightarrow> Ok (Decoded x, rest @ ys) | NeedMore s' \<Rightarrow> LiteralString_decode s' ys)"
proof (cases "len \<le> length xs + rd")
  case True
  with assms show ?thesis by (simp add: HuffmanStringBytes_decode_def obind_assoc Let_def)
next
  case False
  have feed: "HuffmanDecoder_decode h (xs @ zs) =
      obind (HuffmanDecoder_decode h xs) (\<lambda>h. HuffmanDecoder_decode h zs)" for zs
    by (rule huff_dec.feed_append) simp
  have "take (len - rd) xs = xs" "take (len - rd) (xs @ ys) = xs @ take (len - (rd + length xs)) ys"
    "drop (len - rd) (xs @ ys) = drop (len - (rd + length xs)) ys"
    using False assms by simp_all
  with False assms show ?thesis
    by (auto simp: HuffmanStringBytes_decode_def obind_assoc Let_def feed map_err_obind add.assoc
        add.commute intro!: obind_cong)
qed

lemma AsciiStringBytes_append:
  assumes "length octets \<le> len"
  shows "AsciiStringBytes_decode octets len (xs @ ys) =
    obind (AsciiStringBytes_decode octets len xs) (\<lambda>(r, rest).
      case r of Decoded x \<Rightarrow> Ok (Decoded x, rest @ ys) | NeedMore s' \<Rightarrow> LiteralString_decode s' ys)"
  using assms by (auto simp: AsciiStringBytes_decode_def Let_def)

lemma string_append:
  "string_ok s \<Longrightarrow> LiteralString_decode s (xs @ ys) = obind (LiteralString_decode s xs) (\<lambda>(r, rest).
     case r of Decoded x \<Rightarrow> Ok (Decoded x, rest @ ys) | NeedMore s' \<Rightarrow> LiteralString_decode s' ys)"
  by (cases s) (simp_all add: HuffmanStringBytes_append AsciiStringBytes_append)

lemma string_no_panic: "string_ok s \<Longrightarrow> LiteralString_decode s xs \<noteq> Panic"
  by (cases s) (auto simp: HuffmanStringBytes_decode_def AsciiStringBytes_decode_def obind_eq_Panic
      HuffmanDecoder_no_panic Let_def)

lemma string_NeedMore:
  "string_ok s \<Longrightarrow> LiteralString_decode s xs = Ok (NeedMore s', rest) \<Longrightarrow> LiteralString_ok s' \<and> rest = []"
  by (cases s) (auto simp: HuffmanStringBytes_decode_def AsciiStringBytes_decode_def obind_eq_Ok Let_def
      split: if_splits)

lemma string_Decoded:
  "string_ok s \<Longrightarrow> LiteralString_decode s xs = Ok (Decoded d, rest) \<Longrightarrow> length rest \<le> length xs"
  by (cases s) (auto simp: HuffmanStringBytes_decode_def AsciiStringBytes_decode_def obind_eq_Ok Let_def
      split: if_splits)

lemma LengthTrailingBytes_append:
  "LengthTrailingBytes_decode h d (xs @ ys) = obind (LengthTrailingBytes_decode h d xs) (\<lambda>(r, rest).
     case r of Decoded x \<Rightarrow> Ok (Decoded x, rest @ ys) | NeedMore s' \<Rightarrow> LiteralString_decode s' ys)"
  by (auto simp: LengthTrailingBytes_decode_eq int_loop_append obind_assoc
      string_append [OF string_ok_start] simp del: LiteralString_decode.simps(3,4)
      intro!: obind_cong split: sum.split)

lemma LengthTrailingBytes_NeedMore:
  assumes "int_dec_ok d" "LengthTrailingBytes_decode h d xs = Ok (NeedMore s', rest)"
  shows "LiteralString_ok s' \<and> rest = []"
proof (cases "int_loop d xs")
  case (Ok r)
  show ?thesis
  proof (cases r)
    case (Inl p)
    obtain n buf where p: "p = (n, buf)" by fastforce
    with assms(2) Ok Inl have "LiteralString_decode (string_start h n) buf = Ok (NeedMore s', rest)"
      by (simp add: LengthTrailingBytes_decode_eq)
    then show ?thesis by (rule string_NeedMore [OF string_ok_start])
  next
    case (Inr d')
    with assms Ok show ?thesis by (auto simp: LengthTrailingBytes_decode_eq dest: int_loop_Inr)
  qed
qed (use assms in \<open>simp_all add: LengthTrailingBytes_decode_eq\<close>)

lemma LengthTrailingBytes_Decoded:
  assumes "LengthTrailingBytes_decode h d xs = Ok (Decoded x, rest)"
  shows "length rest < length xs"
proof (cases "int_loop d xs")
  case (Ok r)
  show ?thesis
  proof (cases r)
    case (Inl p)
    obtain n buf where p: "p = (n, buf)" by fastforce
    with assms Ok Inl have "LiteralString_decode (string_start h n) buf = Ok (Decoded x, rest)"
      by (simp add: LengthTrailingBytes_decode_eq)
    then have "length rest \<le> length buf" by (rule string_Decoded [OF string_ok_start])
    also have "length buf < length xs" using int_loop_progress Ok Inl p by blast
    finally show ?thesis .
  qed (use assms Ok in \<open>simp add: LengthTrailingBytes_decode_eq\<close>)
qed (use assms in \<open>simp_all add: LengthTrailingBytes_decode_eq\<close>)

lemma LengthTrailingBytes_no_panic: "LengthTrailingBytes_decode h d xs \<noteq> Panic"
  using string_no_panic [OF string_ok_start, of h]
  by (auto simp: LengthTrailingBytes_decode_eq obind_eq_Panic int_loop_no_panic
      simp del: LiteralString_decode.simps(3,4) split: sum.split)

lemma LengthFirstByte_Cons:
  "LengthFirstByte_decode (byte # buf) =
     (case IntegerDecoder_first_byte byte 0x7f of
        Ok len \<Rightarrow> LiteralString_decode (string_start (byte AND 0x80 = 0x80) len) buf
      | Err dec \<Rightarrow> LengthTrailingBytes_decode (byte AND 0x80 = 0x80) dec buf
      | Panic \<Rightarrow> Panic)"
  by (simp add: LengthFirstByte_decode_def Let_def split: outcome.split)

lemma first_byte_no_panic: "IntegerDecoder_first_byte b msk \<noteq> Panic"
  by (simp add: IntegerDecoder_first_byte_def Let_def)

lemma string_waiting:
  assumes "LiteralString_ok s" "string_ok s"
  shows "LiteralString_decode s [] = Ok (NeedMore s, [])"
    and "LiteralString_decode s xs = Ok (Decoded d, rest) \<Longrightarrow> length rest < length xs"
  using assms
  by (cases s; auto simp: AsciiStringBytes_decode_def HuffmanStringBytes_decode_def Let_def
      huff_dec.feed_nil obind_eq_Ok split: if_splits)+

interpretation literal_string: incremental_parser LiteralString_decode LiteralString_ok
proof
  fix s xs ys and d :: bytes and s' rest
  assume ok: "LiteralString_ok s"
  consider (first) "s = LengthFirstByte" | (trailing) h dec where "s = LengthTrailingBytes h dec" "int_dec_ok dec"
    | (string) "string_ok s" "LiteralString_decode s [] = Ok (NeedMore s, [])"
      "\<And>xs d rest. LiteralString_decode s xs = Ok (Decoded d, rest) \<Longrightarrow> length rest < length xs"
    using ok string_waiting [of s] by (cases s) auto
  note cs = this
  show "LiteralString_decode s [] = Ok (NeedMore s, [])"
    using cs by cases (simp_all add: LengthFirstByte_decode_def)
  show "LiteralString_decode s (xs @ ys) = obind (LiteralString_decode s xs) (\<lambda>(r, rest).
      case r of Decoded d \<Rightarrow> Ok (Decoded d, rest @ ys) | NeedMore s' \<Rightarrow> LiteralString_decode s' ys)"
    using cs
  proof cases
    case first
    then show ?thesis
    proof (cases xs)
      case (Cons b buf)
      then show ?thesis
        by (simp add: first LengthFirstByte_Cons string_append [OF string_ok_start]
            LengthTrailingBytes_append del: LiteralString_decode.simps(3,4) split: outcome.split)
    qed (simp add: LengthFirstByte_decode_def)
  qed (simp_all add: LengthTrailingBytes_append string_append)
  show "LiteralString_decode s xs \<noteq> Panic"
    using cs
  proof cases
    case first
    then show ?thesis
      using string_no_panic [OF string_ok_start]
      by (cases xs) (auto simp: LengthFirstByte_decode_def [of "[]"] LengthFirstByte_Cons first_byte_no_panic
          LengthTrailingBytes_no_panic simp del: LiteralString_decode.simps(3,4) split: outcome.split)
  qed (simp_all add: LengthTrailingBytes_no_panic string_no_panic)
  show "LiteralString_ok s' \<and> rest = []" if "LiteralString_decode s xs = Ok (NeedMore s', rest)"
    using cs
  proof cases
    case first
    with that show ?thesis
    proof (cases xs)
      case (Cons b buf)
      with that first show ?thesis
        by (auto simp: LengthFirstByte_Cons first_byte_no_panic simp del: LiteralString_decode.simps(3,4)
            dest: string_NeedMore [OF string_ok_start] LengthTrailingBytes_NeedMore [OF first_byte_ok]
            split: outcome.splits)
    qed (auto simp: LengthFirstByte_decode_def)
  qed (use that in \<open>auto dest: LengthTrailingBytes_NeedMore string_NeedMore\<close>)
  show "length rest < length xs" if "LiteralString_decode s xs = Ok (Decoded d, rest)"
    using cs
  proof cases
    case first
    with that show ?thesis
    proof (cases xs)
      case (Cons b buf)
      with that first show ?thesis
        by (auto simp: LengthFirstByte_Cons first_byte_no_panic less_Suc_eq_le
            simp del: LiteralString_decode.simps(3,4) dest: string_Decoded [OF string_ok_start]
            LengthTrailingBytes_Decoded split: outcome.splits)
    qed (auto simp: LengthFirstByte_decode_def)
  qed (use that in \<open>auto dest: LengthTrailingBytes_Decoded\<close>)
qed

fun ReprDecodeState_ok :: "ReprDecodeState \<Rightarrow> bool" where
  "ReprDecodeState_ok (Index inner) \<longleftrightarrow> IndexInner_ok inner"
| "ReprDecodeState_ok (NameString _ inner) \<longleftrightarrow> LiteralString_ok inner"
| "ReprDecodeState_ok (ValueString _ _ inner) \<longleftrightarrow> LiteralString_ok inner"

lemma LiteralString_ok_first [simp]: "LiteralString_ok LengthFirstByte"
  by simp

lemma ValueString_contract:
  assumes ok: "LiteralString_ok inner"
  shows "ValueString_decode repr name inner [] = Ok (NeedMore (ValueString repr name inner), [])"
    and "ValueString_decode repr name inner (xs @ ys) =
      obind (ValueString_decode repr name inner xs) (\<lambda>(r, rest).
        case r of Decoded d \<Rightarrow> Ok (Decoded d, rest @ ys) | NeedMore s' \<Rightarrow> ReprDecodeState_decode s' ys)"
    and "ValueString_decode repr name inner xs = Ok (NeedMore s', rest) \<Longrightarrow> ReprDecodeState_ok s' \<and> rest = []"
    and "ValueString_decode repr name inner xs = Ok (Decoded d, rest) \<Longrightarrow> length rest < length xs"
    and "ValueString_decode repr name inner xs \<noteq> Panic"
  by (auto simp: ValueString_decode_def literal_string.parse_nil [OF ok] literal_string.parse_append [OF ok]
      literal_string.parse_no_panic [OF ok] obind_DecResult_assoc obind_DecResult_Ok obind_DecResult_Panic
      dest: literal_string.parse_invar [OF ok] literal_string.parse_progress [OF ok]
      intro!: obind_cong split: DecResult.split)

lemma NameString_contract:
  assumes ok: "LiteralString_ok inner"
  shows "NameString_decode repr inner [] = Ok (NeedMore (NameString repr inner), [])"
    and "NameString_decode repr inner (xs @ ys) =
      obind (NameString_decode repr inner xs) (\<lambda>(r, rest).
        case r of Decoded d \<Rightarrow> Ok (Decoded d, rest @ ys) | NeedMore s' \<Rightarrow> ReprDecodeState_decode s' ys)"
    and "NameString_decode repr inner xs = Ok (NeedMore s', rest) \<Longrightarrow> ReprDecodeState_ok s' \<and> rest = []"
    and "NameString_decode repr inner xs = Ok (Decoded d, rest) \<Longrightarrow> length rest < length xs"
    and "NameString_decode repr inner xs \<noteq> Panic"
  by (auto simp: NameString_decode_def literal_string.parse_nil [OF ok] literal_string.parse_append [OF ok]
      literal_string.parse_no_panic [OF ok] obind_DecResult_assoc obind_DecResult_Ok obind_DecResult_Panic
      ValueString_contract(2,5)
      intro: less_trans dest: literal_string.parse_invar [OF ok] literal_string.parse_progress [OF ok]
        ValueString_contract(3,4) [OF LiteralString_ok_first]
      intro!: obind_cong split: DecResult.split)

lemma Index_contract:
  assumes ok: "IndexInner_ok inner"
  shows "Index_decode inner [] = Ok (NeedMore (Index inner), [])"
    and "Index_decode inner (xs @ ys) = obind (Index_decode inner xs) (\<lambda>(r, rest).
        case r of Decoded d \<Rightarrow> Ok (Decoded d, rest @ ys) | NeedMore s' \<Rightarrow> ReprDecodeState_decode s' ys)"
    and "Index_decode inner xs = Ok (NeedMore s', rest) \<Longrightarrow> ReprDecodeState_ok s' \<and> rest = []"
    and "Index_decode inner xs = Ok (Decoded d, rest) \<Longrightarrow> length rest < length xs"
    and "Index_decode inner xs \<noteq> Panic"
  by (auto simp: Index_decode_def index_inner.parse_nil [OF ok] index_inner.parse_append [OF ok]
      index_inner.parse_no_panic [OF ok] obind_DecResult_assoc obind_DecResult_Ok obind_DecResult_Panic
      ValueString_contract(2,5) NameString_contract(2,5)
      intro: less_trans dest: index_inner.parse_invar [OF ok] index_inner.parse_progress [OF ok]
        ValueString_contract(3,4) [OF LiteralString_ok_first] NameString_contract(3,4) [OF LiteralString_ok_first]
      intro!: obind_cong split: DecResult.split if_splits)

interpretation repr_state: incremental_parser ReprDecodeState_decode ReprDecodeState_ok
proof
  fix s xs ys and d :: Representation and s' rest
  assume "ReprDecodeState_ok s"
  note contracts = Index_contract NameString_contract ValueString_contract
  with \<open>ReprDecodeState_ok s\<close> show "ReprDecodeState_decode s [] = Ok (NeedMore s, [])" by (cases s) simp_all
  from \<open>ReprDecodeState_ok s\<close> show "ReprDecodeState_decode s (xs @ ys) =
      obind (ReprDecodeState_decode s xs) (\<lambda>(r, rest).
        case r of Decoded d \<Rightarrow> Ok (Decoded d, rest @ ys) | NeedMore s' \<Rightarrow> ReprDecodeState_decode s' ys)"
    by (cases s) (simp_all add: contracts(2,7,12))
  from \<open>ReprDecodeState_ok s\<close> show "ReprDecodeState_decode s xs \<noteq> Panic"
    by (cases s) (simp_all add: contracts(5,10,15))
  show "ReprDecodeState_ok s' \<and> rest = []" if "ReprDecodeState_decode s xs = Ok (NeedMore s', rest)"
    using that \<open>ReprDecodeState_ok s\<close> contracts(3,8,13) by (cases s) auto
  show "length rest < length xs" if "ReprDecodeState_decode s xs = Ok (Decoded d, rest)"
    using that \<open>ReprDecodeState_ok s\<close> contracts(4,9,14) by (cases s) auto
qed

end
