(* ===== verification/Hpack_Repr_Encoder.thy ===== *)
theory Hpack_Repr_Encoder
  imports Hpack_Repr H2_Parts
begin

text \<open>
  The encoder of header field representations (\<^verbatim>\<open>ylong_http/src/h2/hpack/representation/encoder.rs\<close>).
  A buffer is its size, and what an \<open>encode\<close> writes is returned. Where the Rust result is an error,
  the error carries what was written and the state to resume in.
\<close>

section \<open>Integers and octets\<close>

text \<open>\<^verbatim>\<open>Integer\<close> wraps the integer encoder.\<close>

type_synonym Integer = IntegerEncoder

definition pre_mask :: "bool \<Rightarrow> u8" where
  "pre_mask is_huffman = (if is_huffman then 0x80 else 0)"

definition Integer_index :: "nat \<Rightarrow> u8 \<Rightarrow> u8 \<Rightarrow> Integer" where
  "Integer_index index msk pre = IntegerEncoder_new index msk pre"

definition Integer_length :: "nat \<Rightarrow> bool \<Rightarrow> Integer" where
  "Integer_length len is_huffman = IntegerEncoder_new len 0x7f (pre_mask is_huffman)"

fun Integer_encode :: "Integer \<Rightarrow> nat \<Rightarrow> (bytes, bytes \<times> Integer) outcome" where
  "Integer_encode e 0 = (if IntegerEncoder_is_finish e then Ok [] else Err ([], e))"
| "Integer_encode e (Suc n) =
     (if IntegerEncoder_is_finish e then Ok []
      else case IntegerEncoder_next_byte e of
             (Some b, e') \<Rightarrow> emit [b] (Integer_encode e' n)
           | (None, e') \<Rightarrow> Panic)"

record Octets =
  oc_src :: bytes
  oc_idx :: nat

definition Octets_new :: "bytes \<Rightarrow> bool \<Rightarrow> Octets" where
  "Octets_new src is_huffman =
     (if is_huffman then \<lparr>oc_src = huffman_encode src [], oc_idx = 0\<rparr> else \<lparr>oc_src = src, oc_idx = 0\<rparr>)"

definition Octets_len :: "Octets \<Rightarrow> nat" where
  "Octets_len oc = length (oc_src oc)"

definition Octets_encode :: "Octets \<Rightarrow> nat \<Rightarrow> (bytes, bytes \<times> Octets) outcome" where
  "Octets_encode oc output_len =
     (if length (oc_src oc) < oc_idx oc then Panic
      else let input_len = length (oc_src oc) - oc_idx oc in
           if input_len = 0 then Ok []
           else if output_len \<ge> input_len then Ok (drop (oc_idx oc) (oc_src oc))
           else Err (take output_len (drop (oc_idx oc) (oc_src oc)), oc\<lparr>oc_idx := oc_idx oc + output_len\<rparr>))"

section \<open>Index or name, and value\<close>

text \<open>
  The macro \<^verbatim>\<open>check_and_encode!\<close>: an item that is still there is encoded; if it does not fit it is put
  back and the whole is returned, otherwise the next items follow in the rest of the buffer.
\<close>

definition check_and_encode ::
  "('i \<Rightarrow> nat \<Rightarrow> (bytes, bytes \<times> 'i) outcome) \<Rightarrow> 'i option \<Rightarrow> ('i option \<Rightarrow> 's) \<Rightarrow> nat \<Rightarrow>
   ('s \<Rightarrow> nat \<Rightarrow> (bytes, bytes \<times> 's) outcome) \<Rightarrow> (bytes, bytes \<times> 's) outcome" where
  "check_and_encode enc item put n k =
     (case item of
        None \<Rightarrow> k (put None) n
      | Some i \<Rightarrow>
          (case enc i n of
             Ok out \<Rightarrow> emit out (k (put None) (n - length out))
           | Err (out, i) \<Rightarrow> Err (out, put (Some i))
           | Panic \<Rightarrow> Panic))"

record IndexAndValue =
  iv_index :: "Integer option"
  iv_value_length :: "Integer option"
  iv_value_octets :: "Octets option"

definition IndexAndValue_new :: IndexAndValue where
  "IndexAndValue_new = \<lparr>iv_index = None, iv_value_length = None, iv_value_octets = None\<rparr>"

definition IndexAndValue_set_index :: "IndexAndValue \<Rightarrow> nat \<Rightarrow> u8 \<Rightarrow> u8 \<Rightarrow> IndexAndValue" where
  "IndexAndValue_set_index s index msk pre = s\<lparr>iv_index := Some (Integer_index index msk pre)\<rparr>"

definition IndexAndValue_set_value :: "IndexAndValue \<Rightarrow> bytes \<Rightarrow> bool \<Rightarrow> IndexAndValue" where
  "IndexAndValue_set_value s value is_huffman =
     (let octets = Octets_new value is_huffman in
      s\<lparr>iv_value_length := Some (Integer_length (Octets_len octets) is_huffman),
        iv_value_octets := Some octets\<rparr>)"

definition IndexAndValue_encode :: "IndexAndValue \<Rightarrow> nat \<Rightarrow> (bytes, bytes \<times> IndexAndValue) outcome" where
  "IndexAndValue_encode s n =
     check_and_encode Integer_encode (iv_index s) (\<lambda>i. s\<lparr>iv_index := i\<rparr>) n (\<lambda>s n.
     check_and_encode Integer_encode (iv_value_length s) (\<lambda>i. s\<lparr>iv_value_length := i\<rparr>) n (\<lambda>s n.
     check_and_encode Octets_encode (iv_value_octets s) (\<lambda>i. s\<lparr>iv_value_octets := i\<rparr>) n (\<lambda>s n. Ok [])))"

record NameAndValue =
  nv_index :: "Integer option"
  nv_name_length :: "Integer option"
  nv_name_octets :: "Octets option"
  nv_value_length :: "Integer option"
  nv_value_octets :: "Octets option"

definition NameAndValue_new :: NameAndValue where
  "NameAndValue_new =
     \<lparr>nv_index = None, nv_name_length = None, nv_name_octets = None, nv_value_length = None,
      nv_value_octets = None\<rparr>"

definition NameAndValue_set_index :: "NameAndValue \<Rightarrow> u8 \<Rightarrow> u8 \<Rightarrow> NameAndValue" where
  "NameAndValue_set_index s msk pre = s\<lparr>nv_index := Some (Integer_index 0 msk pre)\<rparr>"

definition NameAndValue_set_name_and_value :: "NameAndValue \<Rightarrow> bytes \<Rightarrow> bytes \<Rightarrow> bool \<Rightarrow> NameAndValue" where
  "NameAndValue_set_name_and_value s name value is_huffman =
     (let name_octets = Octets_new name is_huffman; value_octets = Octets_new value is_huffman in
      s\<lparr>nv_name_length := Some (Integer_length (Octets_len name_octets) is_huffman),
        nv_name_octets := Some name_octets,
        nv_value_length := Some (Integer_length (Octets_len value_octets) is_huffman),
        nv_value_octets := Some value_octets\<rparr>)"

definition NameAndValue_encode :: "NameAndValue \<Rightarrow> nat \<Rightarrow> (bytes, bytes \<times> NameAndValue) outcome" where
  "NameAndValue_encode s n =
     check_and_encode Integer_encode (nv_index s) (\<lambda>i. s\<lparr>nv_index := i\<rparr>) n (\<lambda>s n.
     check_and_encode Integer_encode (nv_name_length s) (\<lambda>i. s\<lparr>nv_name_length := i\<rparr>) n (\<lambda>s n.
     check_and_encode Octets_encode (nv_name_octets s) (\<lambda>i. s\<lparr>nv_name_octets := i\<rparr>) n (\<lambda>s n.
     check_and_encode Integer_encode (nv_value_length s) (\<lambda>i. s\<lparr>nv_value_length := i\<rparr>) n (\<lambda>s n.
     check_and_encode Octets_encode (nv_value_octets s) (\<lambda>i. s\<lparr>nv_value_octets := i\<rparr>) n (\<lambda>s n. Ok [])))))"

section \<open>States of the representations\<close>

datatype ReprEncodeState =
    Enc_Indexed Integer
  | Enc_Indexing IndexAndValue
  | Enc_IndexingWithName NameAndValue
  | Enc_WithoutIndexing IndexAndValue
  | Enc_WithoutIndexingWithName NameAndValue
  | Enc_NeverIndexed IndexAndValue
  | Enc_NeverIndexedWithName NameAndValue

definition Indexed_new :: "nat \<Rightarrow> ReprEncodeState" where
  "Indexed_new index = Enc_Indexed (Integer_index index PrefixIndexMask_INDEXED 0x80)"

definition Indexing_new :: "nat \<Rightarrow> bytes \<Rightarrow> bool \<Rightarrow> ReprEncodeState" where
  "Indexing_new index value is_huffman =
     Enc_Indexing (IndexAndValue_set_value
       (IndexAndValue_set_index IndexAndValue_new index PrefixIndexMask_LITERAL_WITH_INDEXING 0x40)
       value is_huffman)"

definition IndexingWithName_new :: "bytes \<Rightarrow> bytes \<Rightarrow> bool \<Rightarrow> ReprEncodeState" where
  "IndexingWithName_new name value is_huffman =
     Enc_IndexingWithName (NameAndValue_set_name_and_value
       (NameAndValue_set_index NameAndValue_new PrefixIndexMask_LITERAL_WITH_INDEXING 0x40)
       name value is_huffman)"

definition WithoutIndexing_new :: "nat \<Rightarrow> bytes \<Rightarrow> bool \<Rightarrow> ReprEncodeState" where
  "WithoutIndexing_new index value is_huffman =
     Enc_WithoutIndexing (IndexAndValue_set_value
       (IndexAndValue_set_index IndexAndValue_new index PrefixIndexMask_LITERAL_WITHOUT_INDEXING 0x00)
       value is_huffman)"

definition WithoutIndexingWithName_new :: "bytes \<Rightarrow> bytes \<Rightarrow> bool \<Rightarrow> ReprEncodeState" where
  "WithoutIndexingWithName_new name value is_huffman =
     Enc_WithoutIndexingWithName (NameAndValue_set_name_and_value
       (NameAndValue_set_index NameAndValue_new PrefixIndexMask_LITERAL_WITHOUT_INDEXING 0x00)
       name value is_huffman)"

definition NeverIndexed_new :: "nat \<Rightarrow> bytes \<Rightarrow> bool \<Rightarrow> ReprEncodeState" where
  "NeverIndexed_new index value is_huffman =
     Enc_NeverIndexed (IndexAndValue_set_value
       (IndexAndValue_set_index IndexAndValue_new index PrefixIndexMask_LITERAL_NEVER_INDEXED 0x10)
       value is_huffman)"

definition NeverIndexedWithName_new :: "bytes \<Rightarrow> bytes \<Rightarrow> bool \<Rightarrow> ReprEncodeState" where
  "NeverIndexedWithName_new name value is_huffman =
     Enc_NeverIndexedWithName (NameAndValue_set_name_and_value
       (NameAndValue_set_index NameAndValue_new PrefixIndexMask_LITERAL_NEVER_INDEXED 0x10)
       name value is_huffman)"

fun ReprEncodeState_encode :: "ReprEncodeState \<Rightarrow> nat \<Rightarrow> (bytes, bytes \<times> ReprEncodeState) outcome" where
  "ReprEncodeState_encode (Enc_Indexed s) n = map_state Enc_Indexed (Integer_encode s n)"
| "ReprEncodeState_encode (Enc_Indexing s) n = map_state Enc_Indexing (IndexAndValue_encode s n)"
| "ReprEncodeState_encode (Enc_IndexingWithName s) n =
     map_state Enc_IndexingWithName (NameAndValue_encode s n)"
| "ReprEncodeState_encode (Enc_WithoutIndexing s) n =
     map_state Enc_WithoutIndexing (IndexAndValue_encode s n)"
| "ReprEncodeState_encode (Enc_WithoutIndexingWithName s) n =
     map_state Enc_WithoutIndexingWithName (NameAndValue_encode s n)"
| "ReprEncodeState_encode (Enc_NeverIndexed s) n = map_state Enc_NeverIndexed (IndexAndValue_encode s n)"
| "ReprEncodeState_encode (Enc_NeverIndexedWithName s) n =
     map_state Enc_NeverIndexedWithName (NameAndValue_encode s n)"

section \<open>Iterating over the parts\<close>

datatype PartsIterDirection =
    Dir_Authority | Dir_Method | Dir_Path | Dir_Scheme | Dir_Status | Dir_Other

record PartsIter =
  pi_pseudo :: PseudoHeaders
  pi_map :: "(HeaderName \<times> HeaderValue) list"
  pi_next_type :: PartsIterDirection

definition PartsIter_new :: "Parts \<Rightarrow> PartsIter" where
  "PartsIter_new parts =
     \<lparr>pi_pseudo = parts_pseudo parts, pi_map = Headers_into_iter (parts_map parts),
      pi_next_type = Dir_Method\<rparr>"

fun direction_rank :: "PartsIterDirection \<Rightarrow> nat" where
  "direction_rank Dir_Method = 5"
| "direction_rank Dir_Status = 4"
| "direction_rank Dir_Scheme = 3"
| "direction_rank Dir_Path = 2"
| "direction_rank Dir_Authority = 1"
| "direction_rank Dir_Other = 0"

text \<open>
  The loop of \<open>next\<close>. \<^verbatim>\<open>HeaderValue::to_string\<close> never fails and has the octets of \<open>to_vec\<close>, so that
  unwrapping its result is writing them.
\<close>

function PartsIter_next :: "PartsIter \<Rightarrow> (Header \<times> string) option \<times> PartsIter" where
  "PartsIter_next it =
     (case pi_next_type it of
        Dir_Method \<Rightarrow>
          (case PseudoHeaders_take_method (pi_pseudo it) of
             (Some value, p) \<Rightarrow> (Some (Method, value), it\<lparr>pi_pseudo := p\<rparr>)
           | (None, p) \<Rightarrow> PartsIter_next (it\<lparr>pi_pseudo := p, pi_next_type := Dir_Status\<rparr>))
      | Dir_Status \<Rightarrow>
          (case PseudoHeaders_take_status (pi_pseudo it) of
             (Some value, p) \<Rightarrow> (Some (Status, value), it\<lparr>pi_pseudo := p\<rparr>)
           | (None, p) \<Rightarrow> PartsIter_next (it\<lparr>pi_pseudo := p, pi_next_type := Dir_Scheme\<rparr>))
      | Dir_Scheme \<Rightarrow>
          (case PseudoHeaders_take_scheme (pi_pseudo it) of
             (Some value, p) \<Rightarrow> (Some (Scheme, value), it\<lparr>pi_pseudo := p\<rparr>)
           | (None, p) \<Rightarrow> PartsIter_next (it\<lparr>pi_pseudo := p, pi_next_type := Dir_Path\<rparr>))
      | Dir_Path \<Rightarrow>
          (case PseudoHeaders_take_path (pi_pseudo it) of
             (Some value, p) \<Rightarrow> (Some (Path, value), it\<lparr>pi_pseudo := p\<rparr>)
           | (None, p) \<Rightarrow> PartsIter_next (it\<lparr>pi_pseudo := p, pi_next_type := Dir_Authority\<rparr>))
      | Dir_Authority \<Rightarrow>
          (case PseudoHeaders_take_authority (pi_pseudo it) of
             (Some value, p) \<Rightarrow> (Some (Authority, value), it\<lparr>pi_pseudo := p\<rparr>)
           | (None, p) \<Rightarrow> PartsIter_next (it\<lparr>pi_pseudo := p, pi_next_type := Dir_Other\<rparr>))
      | Dir_Other \<Rightarrow>
          (case pi_map it of
             [] \<Rightarrow> (None, it)
           | (h, v) # m \<Rightarrow>
               (Some (Other h, from_utf8_unchecked (HeaderValue_to_vec v)), it\<lparr>pi_map := m\<rparr>)))"
  by pat_completeness auto
termination by (relation "measure (\<lambda>it. direction_rank (pi_next_type it))") auto

declare PartsIter_next.simps [simp del]

text \<open>The fields the iterator has left, in its order.\<close>

definition opt_field :: "Header \<Rightarrow> string option \<Rightarrow> (Header \<times> string) list" where
  "opt_field h ov = (case ov of None \<Rightarrow> [] | Some v \<Rightarrow> [(h, v)])"

definition pi_fields :: "PartsIter \<Rightarrow> (Header \<times> string) list" where
  "pi_fields it =
     (let r = direction_rank (pi_next_type it); p = pi_pseudo it in
      (if r \<ge> 5 then opt_field Method (ph_method p) else []) @
      (if r \<ge> 4 then opt_field Status (ph_status p) else []) @
      (if r \<ge> 3 then opt_field Scheme (ph_scheme p) else []) @
      (if r \<ge> 2 then opt_field Path (ph_path p) else []) @
      (if r \<ge> 1 then opt_field Authority (ph_authority p) else []) @
      map (\<lambda>(h, v). (Other h, from_utf8_unchecked (HeaderValue_to_vec v))) (pi_map it))"

definition next_ok :: "PartsIter \<Rightarrow> bool" where
  "next_ok it \<longleftrightarrow>
     (case pi_fields it of
        [] \<Rightarrow> fst (PartsIter_next it) = None
      | f # fs \<Rightarrow> fst (PartsIter_next it) = Some f \<and> pi_fields (snd (PartsIter_next it)) = fs)"

lemma next_ok_Other: "pi_next_type it = Dir_Other \<Longrightarrow> next_ok it"
  by (cases "pi_map it") (auto simp: next_ok_def PartsIter_next.simps [of it] pi_fields_def Let_def)

text \<open>A pseudo header is returned if it is there, and otherwise the next direction decides.\<close>

lemma next_ok_step:
  "next_ok it' \<Longrightarrow> PartsIter_next it = PartsIter_next it' \<Longrightarrow> pi_fields it = pi_fields it' \<Longrightarrow> next_ok it"
  by (cases "pi_fields it'") (simp_all add: next_ok_def)

lemma next_ok_now:
  "PartsIter_next it = (Some f, it') \<Longrightarrow> pi_fields it = f # pi_fields it' \<Longrightarrow> next_ok it"
  by (simp add: next_ok_def)

lemmas next_unfold = PseudoHeaders_take_defs pi_fields_def opt_field_def Let_def

lemma next_ok_Authority: "pi_next_type it = Dir_Authority \<Longrightarrow> next_ok it"
  by (cases "ph_authority (pi_pseudo it)",
      rule next_ok_step [OF next_ok_Other [of "it\<lparr>pi_pseudo := (pi_pseudo it)\<lparr>ph_authority := None\<rparr>,
        pi_next_type := Dir_Other\<rparr>"]])
    (auto intro: next_ok_now simp: PartsIter_next.simps [of it] next_unfold)

lemma next_ok_Path: "pi_next_type it = Dir_Path \<Longrightarrow> next_ok it"
  by (cases "ph_path (pi_pseudo it)",
      rule next_ok_step [OF next_ok_Authority [of "it\<lparr>pi_pseudo := (pi_pseudo it)\<lparr>ph_path := None\<rparr>,
        pi_next_type := Dir_Authority\<rparr>"]])
    (auto intro: next_ok_now simp: PartsIter_next.simps [of it] next_unfold)

lemma next_ok_Scheme: "pi_next_type it = Dir_Scheme \<Longrightarrow> next_ok it"
  by (cases "ph_scheme (pi_pseudo it)",
      rule next_ok_step [OF next_ok_Path [of "it\<lparr>pi_pseudo := (pi_pseudo it)\<lparr>ph_scheme := None\<rparr>,
        pi_next_type := Dir_Path\<rparr>"]])
    (auto intro: next_ok_now simp: PartsIter_next.simps [of it] next_unfold)

lemma next_ok_Status: "pi_next_type it = Dir_Status \<Longrightarrow> next_ok it"
  by (cases "ph_status (pi_pseudo it)",
      rule next_ok_step [OF next_ok_Scheme [of "it\<lparr>pi_pseudo := (pi_pseudo it)\<lparr>ph_status := None\<rparr>,
        pi_next_type := Dir_Scheme\<rparr>"]])
    (auto intro: next_ok_now simp: PartsIter_next.simps [of it] next_unfold)

lemma next_ok_Method: "pi_next_type it = Dir_Method \<Longrightarrow> next_ok it"
  by (cases "ph_method (pi_pseudo it)",
      rule next_ok_step [OF next_ok_Status [of "it\<lparr>pi_pseudo := (pi_pseudo it)\<lparr>ph_method := None\<rparr>,
        pi_next_type := Dir_Status\<rparr>"]])
    (auto intro: next_ok_now simp: PartsIter_next.simps [of it] next_unfold)

lemma PartsIter_next_fields: "next_ok it"
  by (cases "pi_next_type it")
    (simp_all add: next_ok_Other next_ok_Authority next_ok_Path next_ok_Scheme next_ok_Status next_ok_Method)

lemma PartsIter_next_Some:
  "PartsIter_next it = (Some f, it') \<Longrightarrow> pi_fields it = f # pi_fields it'"
  using PartsIter_next_fields [of it] by (auto simp: next_ok_def split: list.splits)

lemma PartsIter_next_None: "PartsIter_next it = (None, it') \<Longrightarrow> pi_fields it = []"
  using PartsIter_next_fields [of it] by (auto simp: next_ok_def split: list.splits)

section \<open>The encoder of representations\<close>

record ReprEncoder =
  re_table :: DynamicTable
  re_iter :: "PartsIter option"
  re_state :: "ReprEncodeState option"

text \<open>How a field is represented: the state that writes it, and the table afterwards.\<close>

definition ReprEncoder_select ::
  "DynamicTable \<Rightarrow> Header \<Rightarrow> string \<Rightarrow> bool \<Rightarrow> ReprEncodeState \<times> DynamicTable" where
  "ReprEncoder_select table h v use_huffman =
     (case TableSearcher_index table h v of
        Some (TI_Header index) \<Rightarrow> (Indexed_new index, table)
      | Some (TI_HeaderName index) \<Rightarrow>
          (Indexing_new index (into_bytes v) use_huffman, DynamicTable_update table h v)
      | None \<Rightarrow>
          (IndexingWithName_new (into_bytes (Header_into_string h)) (into_bytes v) use_huffman,
           DynamicTable_update table h v))"

function ReprEncoder_encode_loop ::
  "ReprEncoder \<Rightarrow> PartsIter \<Rightarrow> nat \<Rightarrow> bool \<Rightarrow> (bytes \<times> ReprEncoder, H2Error) outcome" where
  "ReprEncoder_encode_loop r iter n use_huffman =
     (case PartsIter_next iter of
        (None, _) \<Rightarrow> Ok ([], r)
      | (Some (h, v), iter) \<Rightarrow>
          (case ReprEncoder_select (re_table r) h v use_huffman of
             (state, table) \<Rightarrow>
               let r = r\<lparr>re_table := table\<rparr> in
               (case ReprEncodeState_encode state n of
                  Ok out \<Rightarrow>
                    obind (ReprEncoder_encode_loop r iter (n - length out) use_huffman) (\<lambda>(more, r).
                      Ok (out @ more, r))
                | Err (out, state) \<Rightarrow> Ok (out, r\<lparr>re_state := Some state, re_iter := Some iter\<rparr>)
                | Panic \<Rightarrow> Panic)))"
  by pat_completeness auto
termination
  by (relation "measure (\<lambda>(r, iter, n, h). length (pi_fields iter))") (auto dest: PartsIter_next_Some [OF sym])

declare ReprEncoder_encode_loop.simps [simp del]

text \<open>
  \<^verbatim>\<open>encode\<close> returns the number of octets written, here the length of the first component; when a state
  does not fit it returns the size of the buffer, which is full then.
\<close>

definition ReprEncoder_encode :: "ReprEncoder \<Rightarrow> nat \<Rightarrow> bool \<Rightarrow> (bytes \<times> ReprEncoder, H2Error) outcome" where
  "ReprEncoder_encode r n use_huffman =
     (let rest = (\<lambda>r n. case re_iter r of
                    None \<Rightarrow> Ok ([], r)
                  | Some iter \<Rightarrow> ReprEncoder_encode_loop (r\<lparr>re_iter := None\<rparr>) iter n use_huffman) in
      if n = 0 then Ok ([], r)
      else case re_state r of
             None \<Rightarrow> rest r n
           | Some state \<Rightarrow>
               let r = r\<lparr>re_state := None\<rparr> in
               (case ReprEncodeState_encode state n of
                  Ok out \<Rightarrow> obind (rest r (n - length out)) (\<lambda>(more, r). Ok (out @ more, r))
                | Err (out, state) \<Rightarrow> Ok (out, r\<lparr>re_state := Some state\<rparr>)
                | Panic \<Rightarrow> Panic))"

section \<open>What the states have left to write\<close>

interpretation int_enc: segmented_encoder Integer_encode int_pending "\<lambda>_. True"
proof
  fix e n
  show "Integer_encode e n = Ok (int_pending e)" if "length (int_pending e) \<le> n"
    using that
  proof (induction n arbitrary: e)
    case (Suc n)
    show ?case
    proof (cases "IntegerEncoder_is_finish e")
      case False
      from next_byte_pending [OF False] obtain b e' where
        "IntegerEncoder_next_byte e = (Some b, e')" "int_pending e = b # int_pending e'" by blast
      with Suc False show ?thesis by simp
    qed (use int_pending_Nil [of e] in simp)
  next
    case 0
    then show ?case using int_pending_Nil [of e] by simp
  qed
  show "\<exists>e'. Integer_encode e n = Err (take n (int_pending e), e') \<and>
      int_pending e' = drop n (int_pending e) \<and> True" if "n < length (int_pending e)"
    using that
  proof (induction n arbitrary: e)
    case (Suc n)
    then have "\<not> IntegerEncoder_is_finish e" by (auto simp: int_pending_Nil [symmetric])
    with next_byte_pending [OF this] Suc show ?case by fastforce
  qed (auto simp: int_pending_Nil [symmetric])
qed

definition octets_pending :: "Octets \<Rightarrow> bytes" where
  "octets_pending oc = drop (oc_idx oc) (oc_src oc)"

text \<open>
  One call of an encoder, in terms of the contract: what it should write is \<open>c\<close>, and \<open>content\<close> and
  \<open>invar\<close> speak about the states of the whole.
\<close>

definition fulfils ::
  "('s \<Rightarrow> bytes) \<Rightarrow> ('s \<Rightarrow> bool) \<Rightarrow> nat \<Rightarrow> bytes \<Rightarrow> (bytes, bytes \<times> 's) outcome \<Rightarrow> bool" where
  "fulfils content invar n c res \<longleftrightarrow>
     (if length c \<le> n then res = Ok c
      else \<exists>s'. res = Err (take n c, s') \<and> content s' = drop n c \<and> invar s')"

lemma segmented_encoderI:
  "(\<And>s n. invar s \<Longrightarrow> fulfils content invar n (content s) (enc s n)) \<Longrightarrow> segmented_encoder enc content invar"
  by unfold_locales (fastforce simp: fulfils_def split: if_splits)+

fun opt_content :: "('i \<Rightarrow> bytes) \<Rightarrow> 'i option \<Rightarrow> bytes" where
  "opt_content content None = []"
| "opt_content content (Some i) = content i"

lemma fulfils_emit:
  assumes "fulfils content invar (n - length out) c res" "length out \<le> n"
  shows "fulfils content invar n (out @ c) (emit out res)"
  using assms by (cases res) (auto simp: fulfils_def split: if_splits)

lemma check_and_encode_fulfils:
  assumes "segmented_encoder enc icontent iinvar"
    and "\<And>i. item = Some i \<Longrightarrow> iinvar i"
    and "\<And>i. iinvar i \<Longrightarrow> content (put (Some i)) = icontent i @ c \<and> invar (put (Some i))"
    and "\<And>m. fulfils content invar m c (k (put None) m)"
  shows "fulfils content invar n (opt_content icontent item @ c) (check_and_encode enc item put n k)"
proof (cases item)
  case None
  with assms(4) show ?thesis by (simp add: check_and_encode_def)
next
  case (Some i)
  note ok = assms(2) [OF Some]
  show ?thesis
  proof (cases "length (icontent i) \<le> n")
    case True
    with segmented_encoder.enc_fits [OF assms(1) ok True] show ?thesis
      using fulfils_emit [OF assms(4) True] by (simp add: check_and_encode_def Some)
  next
    case False
    then obtain i' where i': "enc i n = Err (take n (icontent i), i')"
      "icontent i' = drop n (icontent i)" "iinvar i'"
      using segmented_encoder.enc_cut [OF assms(1) ok, of n] by auto
    with False assms(3) [OF i'(3)] show ?thesis by (simp add: check_and_encode_def Some fulfils_def)
  qed
qed

lemma fulfils_nothing: "fulfils content invar n [] (Ok [])"
  by (simp add: fulfils_def)

definition octets_ok :: "Octets \<Rightarrow> bool" where
  "octets_ok oc \<longleftrightarrow> oc_idx oc \<le> length (oc_src oc)"

definition iv_pending :: "IndexAndValue \<Rightarrow> bytes" where
  "iv_pending s = opt_content int_pending (iv_index s) @ opt_content int_pending (iv_value_length s) @
     opt_content octets_pending (iv_value_octets s)"

definition iv_ok :: "IndexAndValue \<Rightarrow> bool" where
  "iv_ok s \<longleftrightarrow> pred_option octets_ok (iv_value_octets s)"

interpretation octets_enc: segmented_encoder Octets_encode octets_pending octets_ok
  by unfold_locales (auto simp: Octets_encode_def octets_pending_def octets_ok_def Let_def add.commute)

lemmas int_item = check_and_encode_fulfils [OF int_enc.segmented_encoder_axioms]
lemmas octets_item = check_and_encode_fulfils [OF octets_enc.segmented_encoder_axioms]

lemma octets_last:
  assumes "\<And>i. item = Some i \<Longrightarrow> octets_ok i"
    and "\<And>i. octets_ok i \<Longrightarrow> content (put (Some i)) = octets_pending i \<and> invar (put (Some i))"
  shows "fulfils content invar n (opt_content octets_pending item)
    (check_and_encode Octets_encode item put n (\<lambda>s n. Ok []))"
proof -
  have "fulfils content invar n (opt_content octets_pending item @ [])
      (check_and_encode Octets_encode item put n (\<lambda>s n. Ok []))"
    by (rule octets_item) (use assms in \<open>auto simp: fulfils_nothing\<close>)
  then show ?thesis by simp
qed

interpretation iv_enc: segmented_encoder IndexAndValue_encode iv_pending iv_ok
proof (rule segmented_encoderI)
  fix s n assume ok: "iv_ok s"
  then have "\<And>i. iv_value_octets s = Some i \<Longrightarrow> octets_ok i" by (simp add: iv_ok_def)
  with ok [unfolded iv_ok_def] show "fulfils iv_pending iv_ok n (iv_pending s) (IndexAndValue_encode s n)"
    unfolding IndexAndValue_encode_def iv_pending_def [of s]
    by (auto simp: iv_pending_def iv_ok_def intro!: int_item octets_last)
qed

definition nv_pending :: "NameAndValue \<Rightarrow> bytes" where
  "nv_pending s = opt_content int_pending (nv_index s) @
     opt_content int_pending (nv_name_length s) @ opt_content octets_pending (nv_name_octets s) @
     opt_content int_pending (nv_value_length s) @ opt_content octets_pending (nv_value_octets s)"

definition nv_ok :: "NameAndValue \<Rightarrow> bool" where
  "nv_ok s \<longleftrightarrow> pred_option octets_ok (nv_name_octets s) \<and> pred_option octets_ok (nv_value_octets s)"

interpretation nv_enc: segmented_encoder NameAndValue_encode nv_pending nv_ok
proof (rule segmented_encoderI)
  fix s n assume ok: "nv_ok s"
  then have "\<And>i. nv_name_octets s = Some i \<Longrightarrow> octets_ok i"
    "\<And>i. nv_value_octets s = Some i \<Longrightarrow> octets_ok i" by (simp_all add: nv_ok_def)
  with ok [unfolded nv_ok_def] show "fulfils nv_pending nv_ok n (nv_pending s) (NameAndValue_encode s n)"
    unfolding NameAndValue_encode_def nv_pending_def [of s]
    by (auto simp: nv_pending_def nv_ok_def intro!: int_item octets_item octets_last)
qed

fun repr_pending :: "ReprEncodeState \<Rightarrow> bytes" where
  "repr_pending (Enc_Indexed s) = int_pending s"
| "repr_pending (Enc_Indexing s) = iv_pending s"
| "repr_pending (Enc_IndexingWithName s) = nv_pending s"
| "repr_pending (Enc_WithoutIndexing s) = iv_pending s"
| "repr_pending (Enc_WithoutIndexingWithName s) = nv_pending s"
| "repr_pending (Enc_NeverIndexed s) = iv_pending s"
| "repr_pending (Enc_NeverIndexedWithName s) = nv_pending s"

fun repr_ok :: "ReprEncodeState \<Rightarrow> bool" where
  "repr_ok (Enc_Indexed s) \<longleftrightarrow> True"
| "repr_ok (Enc_Indexing s) \<longleftrightarrow> iv_ok s"
| "repr_ok (Enc_IndexingWithName s) \<longleftrightarrow> nv_ok s"
| "repr_ok (Enc_WithoutIndexing s) \<longleftrightarrow> iv_ok s"
| "repr_ok (Enc_WithoutIndexingWithName s) \<longleftrightarrow> nv_ok s"
| "repr_ok (Enc_NeverIndexed s) \<longleftrightarrow> iv_ok s"
| "repr_ok (Enc_NeverIndexedWithName s) \<longleftrightarrow> nv_ok s"

lemma fulfils_map_state:
  assumes "segmented_encoder enc content invar" "invar s"
    and "\<And>s. content' (f s) = content s" "\<And>s. invar' (f s) = invar s"
  shows "fulfils content' invar' n (content s) (map_state f (enc s n))"
  using segmented_encoder.enc_fits [OF assms(1,2), of n] segmented_encoder.enc_cut [OF assms(1,2), of n] assms(3,4)
  by (fastforce simp: fulfils_def)

interpretation repr_enc: segmented_encoder ReprEncodeState_encode repr_pending repr_ok
proof (rule segmented_encoderI)
  fix s n assume "repr_ok s"
  then show "fulfils repr_pending repr_ok n (repr_pending s) (ReprEncodeState_encode s n)"
    by (cases s) (auto intro!: fulfils_map_state [OF int_enc.segmented_encoder_axioms]
        fulfils_map_state [OF iv_enc.segmented_encoder_axioms]
        fulfils_map_state [OF nv_enc.segmented_encoder_axioms])
qed

section \<open>What is written for a field\<close>

definition string_octets :: "bool \<Rightarrow> bytes \<Rightarrow> bytes" where
  "string_octets is_huffman v =
     (let src = if is_huffman then huffman_encode v [] else v in
      int_octets (length src) 0x7f (pre_mask is_huffman) @ src)"

lemma octets_new: "octets_ok (Octets_new v h)"
  "int_octets (Octets_len (Octets_new v h)) 0x7f (pre_mask h) @ octets_pending (Octets_new v h) =
     string_octets h v"
  by (simp_all add: Octets_new_def octets_ok_def Octets_len_def octets_pending_def string_octets_def Let_def)

lemma repr_new_pending:
  "repr_pending (Indexed_new i) = int_octets i 0x7f 0x80"
  "repr_pending (Indexing_new i v h) = int_octets i 0x3f 0x40 @ string_octets h v"
  "repr_pending (IndexingWithName_new n v h) = int_octets 0 0x3f 0x40 @ string_octets h n @ string_octets h v"
  "repr_pending (WithoutIndexing_new i v h) = int_octets i 0x0f 0x00 @ string_octets h v"
  "repr_pending (WithoutIndexingWithName_new n v h) =
     int_octets 0 0x0f 0x00 @ string_octets h n @ string_octets h v"
  "repr_pending (NeverIndexed_new i v h) = int_octets i 0x0f 0x10 @ string_octets h v"
  "repr_pending (NeverIndexedWithName_new n v h) =
     int_octets 0 0x0f 0x10 @ string_octets h n @ string_octets h v"
  by (simp_all add: Indexed_new_def Indexing_new_def IndexingWithName_new_def WithoutIndexing_new_def
      WithoutIndexingWithName_new_def NeverIndexed_new_def NeverIndexedWithName_new_def
      IndexAndValue_set_value_def IndexAndValue_set_index_def IndexAndValue_new_def
      NameAndValue_set_name_and_value_def NameAndValue_set_index_def NameAndValue_new_def
      iv_pending_def nv_pending_def Integer_index_def Integer_length_def PrefixIndexMask_defs Let_def
      flip: octets_new(2))

lemma repr_new_ok:
  "repr_ok (Indexed_new i)" "repr_ok (Indexing_new i v h)" "repr_ok (IndexingWithName_new n v h)"
  "repr_ok (WithoutIndexing_new i v h)" "repr_ok (WithoutIndexingWithName_new n v h)"
  "repr_ok (NeverIndexed_new i v h)" "repr_ok (NeverIndexedWithName_new n v h)"
  by (simp_all add: Indexed_new_def Indexing_new_def IndexingWithName_new_def WithoutIndexing_new_def
      WithoutIndexingWithName_new_def NeverIndexed_new_def NeverIndexedWithName_new_def
      IndexAndValue_set_value_def IndexAndValue_set_index_def IndexAndValue_new_def
      NameAndValue_set_name_and_value_def NameAndValue_set_index_def NameAndValue_new_def
      iv_ok_def nv_ok_def Let_def octets_new(1))

lemma select_ok: "ReprEncoder_select t h v huff = (st, t') \<Longrightarrow> repr_ok st"
  by (auto simp: ReprEncoder_select_def repr_new_ok split: option.splits TableIndex.splits)

text \<open>The octets of a list of fields and the table afterwards.\<close>

fun fields_octets :: "DynamicTable \<Rightarrow> bool \<Rightarrow> (Header \<times> string) list \<Rightarrow> bytes" where
  "fields_octets t huff [] = []"
| "fields_octets t huff ((h, v) # fs) =
     (case ReprEncoder_select t h v huff of (st, t') \<Rightarrow> repr_pending st @ fields_octets t' huff fs)"

fun fields_table :: "DynamicTable \<Rightarrow> bool \<Rightarrow> (Header \<times> string) list \<Rightarrow> DynamicTable" where
  "fields_table t huff [] = t"
| "fields_table t huff ((h, v) # fs) = fields_table (snd (ReprEncoder_select t h v huff)) huff fs"

definition re_fields :: "ReprEncoder \<Rightarrow> (Header \<times> string) list" where
  "re_fields r = (case re_iter r of None \<Rightarrow> [] | Some it \<Rightarrow> pi_fields it)"

definition re_content :: "bool \<Rightarrow> ReprEncoder \<Rightarrow> bytes" where
  "re_content huff r =
     opt_content repr_pending (re_state r) @ fields_octets (re_table r) huff (re_fields r)"

definition re_final :: "bool \<Rightarrow> ReprEncoder \<Rightarrow> DynamicTable" where
  "re_final huff r = fields_table (re_table r) huff (re_fields r)"

definition re_ok :: "ReprEncoder \<Rightarrow> bool" where
  "re_ok r \<longleftrightarrow> pred_option repr_ok (re_state r)"

text \<open>
  What a call of the encoder does with \<open>n\<close> octets of room when \<open>c\<close> is to be written and \<open>t\<close> is the
  table in the end.
\<close>

definition re_fulfils ::
  "bool \<Rightarrow> nat \<Rightarrow> bytes \<Rightarrow> DynamicTable \<Rightarrow> (bytes \<times> ReprEncoder, H2Error) outcome \<Rightarrow> bool" where
  "re_fulfils huff n c t res \<longleftrightarrow>
     (if length c \<le> n then res = Ok (c, \<lparr>re_table = t, re_iter = None, re_state = None\<rparr>)
      else \<exists>r. res = Ok (take n c, r) \<and> re_content huff r = drop n c \<and> re_final huff r = t \<and> re_ok r)"

lemma re_fulfils_prepend:
  assumes "re_fulfils huff (n - length out) c t res" "length out \<le> n"
  shows "re_fulfils huff n (out @ c) t (obind res (\<lambda>(more, r). Ok (out @ more, r)))"
  using assms by (auto simp: re_fulfils_def split: if_splits)

lemma encode_loop_fulfils:
  assumes "re_iter r = None" "re_state r = None"
  shows "re_fulfils huff n (fields_octets (re_table r) huff (pi_fields it))
    (fields_table (re_table r) huff (pi_fields it)) (ReprEncoder_encode_loop r it n huff)"
  using assms
proof (induction r it n huff rule: ReprEncoder_encode_loop.induct)
  case (1 r it n huff)
  obtain f it' where next': "PartsIter_next it = (f, it')" by fastforce
  show ?case
  proof (cases f)
    case None
    with PartsIter_next_None next' "1.prems" show ?thesis
      by (auto simp: ReprEncoder_encode_loop.simps [of r it] re_fulfils_def)
  next
    case (Some hv)
    obtain h v where hv: "hv = (h, v)" by fastforce
    obtain st t where sel: "ReprEncoder_select (re_table r) h v huff = (st, t)" by fastforce
    have fields: "pi_fields it = (h, v) # pi_fields it'" using PartsIter_next_Some next' Some hv by simp
    note ok = select_ok [OF sel]
    show ?thesis
    proof (cases "length (repr_pending st) \<le> n")
      case True
      note enc = repr_enc.enc_fits [OF ok True]
      from "1.IH" [OF next' [symmetric] Some hv [symmetric] sel [symmetric] refl enc] "1.prems"
      have "re_fulfils huff (n - length (repr_pending st)) (fields_octets t huff (pi_fields it'))
          (fields_table t huff (pi_fields it'))
          (ReprEncoder_encode_loop (r\<lparr>re_table := t\<rparr>) it' (n - length (repr_pending st)) huff)"
        by simp
      from re_fulfils_prepend [OF this True] show ?thesis
        by (simp add: ReprEncoder_encode_loop.simps [of r it] next' Some hv sel enc fields)
    next
      case False
      then obtain st' where st': "ReprEncodeState_encode st n = Err (take n (repr_pending st), st')"
        "repr_pending st' = drop n (repr_pending st)" "repr_ok st'"
        using repr_enc.enc_cut [OF ok, of n] by auto
      with False show ?thesis
        by (simp add: ReprEncoder_encode_loop.simps [of r it] next' Some hv sel fields re_fulfils_def
            re_content_def re_final_def re_fields_def re_ok_def)
    qed
  qed
qed

lemma ReprEncoder_encode_fulfils:
  assumes "re_ok r" "0 < n"
  shows "re_fulfils huff n (re_content huff r) (re_final huff r) (ReprEncoder_encode r n huff)"
proof -
  define rest where "rest = (\<lambda>r n. case re_iter r of
      None \<Rightarrow> Ok ([], r)
    | Some iter \<Rightarrow> ReprEncoder_encode_loop (r\<lparr>re_iter := None\<rparr>) iter n huff)"
  have rest: "re_fulfils huff m (fields_octets (re_table r) huff (re_fields r)) (re_final huff r) (rest r m)"
    if "re_state r = None" for r m
  proof (cases "re_iter r")
    case None
    with that show ?thesis by (cases r) (simp add: rest_def re_fulfils_def re_fields_def re_final_def)
  next
    case (Some it)
    with encode_loop_fulfils [of "r\<lparr>re_iter := None\<rparr>" huff m it] that show ?thesis
      by (simp add: rest_def re_fields_def re_final_def)
  qed
  show ?thesis
  proof (cases "re_state r")
    case None
    with rest [OF this] assms(2) show ?thesis
      by (simp add: ReprEncoder_encode_def re_content_def flip: rest_def)
  next
    case (Some st)
    with assms(1) have ok: "repr_ok st" by (simp add: re_ok_def)
    let ?r = "r\<lparr>re_state := None\<rparr>"
    have same: "re_fields ?r = re_fields r" "re_final huff ?r = re_final huff r"
      by (simp_all add: re_fields_def re_final_def)
    have run: "ReprEncoder_encode r n huff =
        (case ReprEncodeState_encode st n of
           Ok out \<Rightarrow> obind (rest ?r (n - length out)) (\<lambda>(more, r). Ok (out @ more, r))
         | Err (out, state) \<Rightarrow> Ok (out, ?r\<lparr>re_state := Some state\<rparr>)
         | Panic \<Rightarrow> Panic)"
      using assms(2) unfolding ReprEncoder_encode_def rest_def Some Let_def by simp
    show ?thesis
    proof (cases "length (repr_pending st) \<le> n")
      case True
      from re_fulfils_prepend [OF rest [of ?r] True] show ?thesis
        by (simp add: run repr_enc.enc_fits [OF ok True] re_content_def Some same)
    next
      case False
      then obtain st' where "ReprEncodeState_encode st n = Err (take n (repr_pending st), st')"
        "repr_pending st' = drop n (repr_pending st)" "repr_ok st'"
        using repr_enc.enc_cut [OF ok, of n] by auto
      with False show ?thesis
        by (simp add: run re_fulfils_def re_content_def Some re_final_def re_fields_def re_ok_def)
    qed
  qed
qed

section \<open>Properties\<close>

text \<open>
  HPACK integers round trip: whatever buffers the integer is written into, once it is
  written completely the decoder with the same prefix reads the integer back and stops exactly at
  its end. The representable integers are all \<open>usize\<close> values.
\<close>

theorem integer_roundtrip:
  assumes "int_prefix msk pre" "i < usize_limit"
    and "encode_segments Integer_encode (Integer_index i msk pre) buffers = Some (octets, None)"
  shows "int_decode msk (octets @ rest) = Ok (Inl (i, rest))"
proof -
  have "buffers \<noteq> []" using assms(3) by auto
  with assms(3) have "octets = int_octets i msk pre"
    using int_enc.encode_segments_content [of buffers "Integer_index i msk pre"]
    by (auto simp: Integer_index_def)
  with int_decode_octets [OF assms(1,2)] show ?thesis by simp
qed

theorem integer_roundtrip_witness:
  "int_prefix 0x1f 0x20 \<and> (1337 :: nat) < usize_limit \<and>
   encode_segments Integer_encode (Integer_index 1337 0x1f 0x20) [Suc 0, 0, Suc (Suc 0)] = Some ([0x3f, 0x9a, 0x0a], None) \<and>
   int_decode 0x1f ([0x3f, 0x9a, 0x0a] @ [7]) = Ok (Inl (1337, [7]))"
proof -
  have 1: "int_prefix 0x1f 0x20"
    unfolding int_prefix_def by (rule conjI, rule bexI [of _ 5]) (simp_all add: mask_eq_exp_minus_1)
  have 2: "(1337 :: nat) < usize_limit" by (simp add: usize_limit_def)
  have 3: "encode_segments Integer_encode (Integer_index 1337 0x1f 0x20) [Suc 0, 0, Suc (Suc 0)] =
      Some ([0x3f, 0x9a, 0x0a], None)"
    by (simp add: Integer_index_def IntegerEncoder_new_def IntegerEncoder_next_byte_def
        IntegerEncoder_is_finish_def)
  from integer_roundtrip [OF 1 2 3, of "[7]"] 1 2 3 show ?thesis by blast
qed

end
