(* ===== verification/Hpack.thy ===== *)
theory Hpack
  imports Hpack_Repr_Encoder
begin

text \<open>
  HPACK: the encoder (\<^verbatim>\<open>ylong_http/src/h2/hpack/encoder.rs\<close>) and the decoder
  (\<^verbatim>\<open>ylong_http/src/h2/hpack/decoder.rs\<close>) with the updater that applies each representation to the
  dynamic table and to the header lines.
\<close>

section \<open>Encoder\<close>

text \<open>The two fields of the state holder are part of the record.\<close>

record HpackEncoder =
  he_table :: DynamicTable
  he_iter :: "PartsIter option"
  he_state :: "ReprEncodeState option"
  he_use_huffman :: bool

definition HpackEncoder_new :: "nat \<Rightarrow> bool \<Rightarrow> HpackEncoder" where
  "HpackEncoder_new max_size use_huffman =
     \<lparr>he_table = DynamicTable_with_max_size max_size, he_iter = None, he_state = None,
      he_use_huffman = use_huffman\<rparr>"

definition HpackEncoder_update_max_dynamic_table_size :: "HpackEncoder \<Rightarrow> nat \<Rightarrow> HpackEncoder" where
  "HpackEncoder_update_max_dynamic_table_size e max_size = e"

definition HpackEncoder_set_parts :: "HpackEncoder \<Rightarrow> Parts \<Rightarrow> HpackEncoder" where
  "HpackEncoder_set_parts e parts = e\<lparr>he_iter := Some (PartsIter_new parts)\<rparr>"

definition HpackEncoder_encode :: "HpackEncoder \<Rightarrow> nat \<Rightarrow> (bytes \<times> HpackEncoder, H2Error) outcome" where
  "HpackEncoder_encode e n =
     (let encoder = \<lparr>re_table = he_table e, re_iter = he_iter e, re_state = he_state e\<rparr>;
          e = e\<lparr>he_iter := None, he_state := None\<rparr> in
      obind (ReprEncoder_encode encoder n (he_use_huffman e)) (\<lambda>(out, encoder).
        let e = e\<lparr>he_table := re_table encoder\<rparr> in
        Ok (out,
            if length out = n then e\<lparr>he_iter := re_iter encoder, he_state := re_state encoder\<rparr> else e)))"

definition HpackEncoder_is_finished :: "HpackEncoder \<Rightarrow> bool" where
  "HpackEncoder_is_finished e \<longleftrightarrow> he_iter e = None \<and> he_state e = None"

section \<open>Updater\<close>

record HeaderLines =
  hl_parts :: Parts
  hl_header_size :: nat

record Updater =
  up_header_list_size :: nat
  up_table :: DynamicTable
  up_lines :: HeaderLines

definition header_line_length :: "nat \<Rightarrow> nat \<Rightarrow> nat" where
  "header_line_length key_size value_size = key_size + value_size + 32"

definition Updater_update_size :: "Updater \<Rightarrow> nat \<Rightarrow> Updater" where
  "Updater_update_size u addition =
     u\<lparr>up_lines := (up_lines u)\<lparr>hl_header_size := hl_header_size (up_lines u) + addition\<rparr>\<rparr>"

definition Updater_check_header_list_size :: "Updater \<Rightarrow> Header \<Rightarrow> string \<Rightarrow> (Updater, H2Error) outcome" where
  "Updater_check_header_list_size u key value =
     (let line_size = header_line_length (Header_len key) (length value);
          u = Updater_update_size u line_size in
      if hl_header_size (up_lines u) > up_header_list_size u then Err (ConnectionError ConnectError)
      else Ok u)"

text \<open>\<^verbatim>\<open>self.lines.parts.update(h, v)\<close>\<close>

definition Updater_update_parts :: "Updater \<Rightarrow> Header \<Rightarrow> string \<Rightarrow> (Updater, H2Error) outcome" where
  "Updater_update_parts u h v =
     obind (Parts_update (hl_parts (up_lines u)) h v) (\<lambda>p.
       Ok (u\<lparr>up_lines := (up_lines u)\<lparr>hl_parts := p\<rparr>\<rparr>))"

definition Updater_get_header_by_name_and_value ::
  "Updater \<Rightarrow> Name \<Rightarrow> bytes \<Rightarrow> (Header \<times> string, H2Error) outcome" where
  "Updater_get_header_by_name_and_value u name value =
     obind (case name of
              Name_Index index \<Rightarrow>
                (case TableSearcher_search_header_name (up_table u) index of
                   None \<Rightarrow> Err (ConnectionError CompressionError)
                 | Some h \<Rightarrow> Ok h)
            | Name_Literal octets \<Rightarrow> Ok (Other (from_utf8_unchecked octets)))
       (\<lambda>h. Ok (h, from_utf8_unchecked value))"

definition Updater_update_indexed :: "Updater \<Rightarrow> nat \<Rightarrow> (Updater, H2Error) outcome" where
  "Updater_update_indexed u index =
     (case TableSearcher_search_header (up_table u) index of
        None \<Rightarrow> Err (ConnectionError CompressionError)
      | Some (h, v) \<Rightarrow>
          obind (Updater_check_header_list_size u h v) (\<lambda>u. Updater_update_parts u h v))"

definition Updater_update_literal_with_indexing ::
  "Updater \<Rightarrow> Name \<Rightarrow> bytes \<Rightarrow> (Updater, H2Error) outcome" where
  "Updater_update_literal_with_indexing u name value =
     obind (Updater_get_header_by_name_and_value u name value) (\<lambda>(h, v).
     obind (Updater_check_header_list_size u h v) (\<lambda>u.
       Updater_update_parts (u\<lparr>up_table := DynamicTable_update (up_table u) h v\<rparr>) h v))"

definition Updater_update_literal_without_indexing ::
  "Updater \<Rightarrow> Name \<Rightarrow> bytes \<Rightarrow> (Updater, H2Error) outcome" where
  "Updater_update_literal_without_indexing u name value =
     obind (Updater_get_header_by_name_and_value u name value) (\<lambda>(h, v).
     obind (Updater_check_header_list_size u h v) (\<lambda>u. Updater_update_parts u h v))"

definition Updater_update_literal_never_indexing ::
  "Updater \<Rightarrow> Name \<Rightarrow> bytes \<Rightarrow> (Updater, H2Error) outcome" where
  "Updater_update_literal_never_indexing u name value =
     Updater_update_literal_without_indexing u name value"

fun Updater_update :: "Updater \<Rightarrow> Representation \<Rightarrow> (Updater, H2Error) outcome" where
  "Updater_update u (Indexed index) = Updater_update_indexed u index"
| "Updater_update u (LiteralWithIndexing n v) = Updater_update_literal_with_indexing u n v"
| "Updater_update u (LiteralWithoutIndexing n v) = Updater_update_literal_without_indexing u n v"
| "Updater_update u (LiteralNeverIndexed n v) = Updater_update_literal_never_indexing u n v"
| "Updater_update u (SizeUpdate max_size) =
     Ok (u\<lparr>up_table := DynamicTable_update_size (up_table u) max_size\<rparr>)"

section \<open>Decoder\<close>

record HpackDecoder =
  hpd_header_list_size :: nat
  hpd_table :: DynamicTable
  hpd_lines :: HeaderLines
  hpd_holder :: "ReprDecodeState option"

definition HpackDecoder_with_max_size :: "nat \<Rightarrow> nat \<Rightarrow> HpackDecoder" where
  "HpackDecoder_with_max_size header_table_size max_header_list_size =
     \<lparr>hpd_header_list_size = max_header_list_size,
      hpd_table = DynamicTable_with_max_size header_table_size,
      hpd_lines = \<lparr>hl_parts = Parts_new, hl_header_size = 0\<rparr>,
      hpd_holder = None\<rparr>"

text \<open>
  No state of the representation decoder gives back more than it was given; with this the loop below
  ends, since a finished state is followed by a fresh one, which reads at least an octet.
\<close>

lemma obind_option_Ok:
  "obind m (\<lambda>(r, d). case r of None \<Rightarrow> f d | Some i \<Rightarrow> g d i) = Ok y \<longleftrightarrow>
     (\<exists>d. m = Ok (None, d) \<and> f d = Ok y) \<or> (\<exists>d i. m = Ok (Some i, d) \<and> g d i = Ok y)"
proof (cases m)
  case (Ok t)
  then show ?thesis by (cases t; cases "fst t") simp_all
qed simp_all

lemma TrailingBytes_shorter:
  "TrailingBytes_decode repr d xs = Ok (r, rest) \<Longrightarrow> length rest \<le> length xs"
  by (induction repr d xs rule: TrailingBytes_decode.induct) (auto simp: obind_option_Ok intro: le_SucI)

lemma IndexInner_shorter: "IndexInner_decode s xs = Ok (r, rest) \<Longrightarrow> length rest \<le> length xs"
  by (cases s) (auto simp: FirstByte_decode_def Let_def dest: TrailingBytes_shorter
      split: list.splits outcome.splits)

lemma string_shorter:
  "HuffmanStringBytes_decode h rd len xs = Ok (r, rest) \<Longrightarrow> length rest \<le> length xs"
  "AsciiStringBytes_decode octets len xs = Ok (r', rest') \<Longrightarrow> length rest' \<le> length xs"
  by (auto simp: HuffmanStringBytes_decode_def AsciiStringBytes_decode_def obind_eq_Ok Let_def
      split: if_splits)

lemma LengthTrailingBytes_shorter:
  "LengthTrailingBytes_decode h d xs = Ok (r, rest) \<Longrightarrow> length rest \<le> length xs"
  by (induction h d xs rule: LengthTrailingBytes_decode.induct)
    (auto simp: obind_option_Ok intro: le_SucI dest: string_shorter split: if_splits)

lemma LiteralString_shorter: "LiteralString_decode s xs = Ok (r, rest) \<Longrightarrow> length rest \<le> length xs"
  by (cases s) (auto simp: LengthFirstByte_decode_def Let_def
      dest: string_shorter LengthTrailingBytes_shorter split: list.splits outcome.splits if_splits)

lemma ValueString_shorter:
  "ValueString_decode repr name inner xs = Ok (r, rest) \<Longrightarrow> length rest \<le> length xs"
  by (auto simp: ValueString_decode_def obind_DecResult_Ok dest: LiteralString_shorter)

lemma NameString_shorter: "NameString_decode repr inner xs = Ok (r, rest) \<Longrightarrow> length rest \<le> length xs"
  by (fastforce simp: NameString_decode_def obind_DecResult_Ok
      dest: LiteralString_shorter ValueString_shorter)

lemma ReprDecodeState_shorter: "ReprDecodeState_decode s xs = Ok (r, rest) \<Longrightarrow> length rest \<le> length xs"
  by (cases s) (fastforce simp: Index_decode_def obind_DecResult_Ok dest: IndexInner_shorter
      NameString_shorter ValueString_shorter split: if_splits)+

lemma ReprDecoder_decode_smaller:
  assumes "ReprDecoder_decode d = Ok (Some repr, d')"
  shows "length (rd_buf d') < length (rd_buf d) \<or>
    length (rd_buf d') = length (rd_buf d) \<and> rd_state d \<noteq> None \<and> rd_state d' = None"
proof (cases "rd_state d")
  case None
  with assms have "ReprDecodeState_decode (Index FirstByte) (rd_buf d) = Ok (Decoded repr, rd_buf d')"
    by (auto simp: ReprDecoder_decode_def obind_DecResult_Ok Let_def split: if_splits)
  from repr_state.parse_progress [OF _ this] show ?thesis by simp
next
  case (Some s)
  with assms have "ReprDecodeState_decode s (rd_buf d) = Ok (Decoded repr, rd_buf d')" "rd_state d' = None"
    by (auto simp: ReprDecoder_decode_def obind_DecResult_Ok Let_def split: if_splits)
  with ReprDecodeState_shorter Some show ?thesis by (fastforce simp: order_le_less)
qed

function HpackDecoder_loop ::
  "ReprDecoder \<Rightarrow> Updater \<Rightarrow> (ReprDecodeState option \<times> Updater, H2Error) outcome" where
  "HpackDecoder_loop decoder updater =
     (case ReprDecoder_decode decoder of
        Ok (Some repr, decoder) \<Rightarrow>
          obind (Updater_update updater repr) (\<lambda>updater. HpackDecoder_loop decoder updater)
      | Ok (None, decoder) \<Rightarrow> Ok (ReprDecoder_save decoder, updater)
      | Err e \<Rightarrow> Err e
      | Panic \<Rightarrow> Panic)"
  by pat_completeness auto
termination
  by (relation "measures [\<lambda>(d, u). length (rd_buf d), \<lambda>(d, u). if rd_state d = None then 0 else 1]")
    (auto dest: ReprDecoder_decode_smaller)

declare HpackDecoder_loop.simps [simp del]

definition HpackDecoder_decode :: "HpackDecoder \<Rightarrow> bytes \<Rightarrow> (HpackDecoder, H2Error) outcome" where
  "HpackDecoder_decode d buf =
     (case ReprDecoder_load (ReprDecoder_new buf) (hpd_holder d) of (decoder, holder) \<Rightarrow>
      let updater = \<lparr>up_header_list_size = hpd_header_list_size d, up_table = hpd_table d,
                     up_lines = hpd_lines d\<rparr> in
      obind (HpackDecoder_loop decoder updater) (\<lambda>(holder, updater).
        Ok (d\<lparr>hpd_table := up_table updater, hpd_lines := up_lines updater, hpd_holder := holder\<rparr>)))"

definition HpackDecoder_finish :: "HpackDecoder \<Rightarrow> (Parts \<times> HpackDecoder, H2Error) outcome" where
  "HpackDecoder_finish d =
     (if hpd_holder d \<noteq> None then Err (ConnectionError CompressionError)
      else Ok (hl_parts (hpd_lines d),
               d\<lparr>hpd_lines := \<lparr>hl_parts = Parts_new, hl_header_size = 0\<rparr>\<rparr>))"

definition HpackDecoder_update_header_list_size :: "HpackDecoder \<Rightarrow> nat \<Rightarrow> HpackDecoder" where
  "HpackDecoder_update_header_list_size d size' = d\<lparr>hpd_header_list_size := size'\<rparr>"

section \<open>Segments\<close>

definition holder_ok :: "ReprDecodeState option \<Rightarrow> bool" where
  "holder_ok st \<longleftrightarrow> pred_option ReprDecodeState_ok st"

definition start_state :: "ReprDecodeState option \<Rightarrow> ReprDecodeState" where
  "start_state st = (case st of None \<Rightarrow> Index FirstByte | Some s \<Rightarrow> s)"

lemma start_state_ok: "holder_ok st \<Longrightarrow> ReprDecodeState_ok (start_state st)"
  by (cases st) (simp_all add: holder_ok_def start_state_def)

lemma start_state_Some [simp]: "start_state (Some s) = s"
  by (simp add: start_state_def)

text \<open>One round of the loop, in terms of the state's \<open>decode\<close>.\<close>

lemma HpackDecoder_loop_nil: "HpackDecoder_loop \<lparr>rd_buf = [], rd_state = st\<rparr> u = Ok (st, u)"
  by (simp add: HpackDecoder_loop.simps ReprDecoder_decode_def ReprDecoder_save_def)

lemma HpackDecoder_loop_step:
  assumes "holder_ok st" "buf \<noteq> []"
  shows "HpackDecoder_loop \<lparr>rd_buf = buf, rd_state = st\<rparr> u =
    obind (ReprDecodeState_decode (start_state st) buf) (\<lambda>(r, buf).
      case r of
        Decoded repr \<Rightarrow> obind (Updater_update u repr) (HpackDecoder_loop \<lparr>rd_buf = buf, rd_state = None\<rparr>)
      | NeedMore s \<Rightarrow> Ok (Some s, u))"
proof (cases "ReprDecodeState_decode (start_state st) buf")
  case (Ok t)
  then show ?thesis using assms
    by (cases t; cases "fst t") (simp_all add: HpackDecoder_loop.simps [of "\<lparr>rd_buf = buf, rd_state = st\<rparr>"]
        ReprDecoder_decode_def ReprDecoder_save_def flip: start_state_def)
qed (use assms in \<open>simp_all add: HpackDecoder_loop.simps [of "\<lparr>rd_buf = buf, rd_state = st\<rparr>"]
    ReprDecoder_decode_def flip: start_state_def\<close>)

lemma HpackDecoder_loop_append:
  assumes "holder_ok st"
  shows "HpackDecoder_loop \<lparr>rd_buf = xs @ ys, rd_state = st\<rparr> u =
    obind (HpackDecoder_loop \<lparr>rd_buf = xs, rd_state = st\<rparr> u) (\<lambda>(st, u).
      HpackDecoder_loop \<lparr>rd_buf = ys, rd_state = st\<rparr> u)"
  using assms
proof (induction "length xs" arbitrary: xs st u rule: less_induct)
  case less
  show ?case
  proof (cases "xs = []")
    case False
    note ok = start_state_ok [OF less.prems]
    show ?thesis
    proof (cases "ReprDecodeState_decode (start_state st) xs")
      case (Ok t)
      obtain r rest where t: "t = (r, rest)" by fastforce
      show ?thesis
      proof (cases r)
        case (Decoded repr)
        note dec = Ok [unfolded t Decoded]
        have "HpackDecoder_loop \<lparr>rd_buf = rest @ ys, rd_state = None\<rparr> u' =
            obind (HpackDecoder_loop \<lparr>rd_buf = rest, rd_state = None\<rparr> u') (\<lambda>(st, u).
              HpackDecoder_loop \<lparr>rd_buf = ys, rd_state = st\<rparr> u)" for u'
          by (rule less.hyps [OF repr_state.parse_progress [OF ok dec]]) (simp add: holder_ok_def)
        then show ?thesis
          using False by (simp add: HpackDecoder_loop_step less.prems dec obind_assoc
              repr_state.parse_Decoded_append [OF ok dec] cong: obind_cong)
      next
        case (NeedMore s)
        note dec = Ok [unfolded t NeedMore]
        have s: "ReprDecodeState_ok s" using repr_state.parse_invar [OF ok dec] by simp
        note step = HpackDecoder_loop_step [OF less.prems]
        have more: "HpackDecoder_loop \<lparr>rd_buf = ys, rd_state = Some s\<rparr> u =
            obind (ReprDecodeState_decode s ys) (\<lambda>(r, buf).
              case r of
                Decoded repr \<Rightarrow> obind (Updater_update u repr) (HpackDecoder_loop \<lparr>rd_buf = buf, rd_state = None\<rparr>)
              | NeedMore s \<Rightarrow> Ok (Some s, u))"
          using s HpackDecoder_loop_step [of "Some s" ys u]
          by (cases "ys = []") (simp_all add: HpackDecoder_loop_nil repr_state.parse_nil holder_ok_def)
        show ?thesis
          using False by (simp add: step dec more repr_state.parse_NeedMore_append [OF ok dec])
      qed
    qed (use False in \<open>simp_all add: HpackDecoder_loop_step less.prems repr_state.parse_append ok\<close>)
  qed (simp add: HpackDecoder_loop_nil)
qed

lemma HpackDecoder_loop_cases:
  assumes "holder_ok st" "buf \<noteq> []" "HpackDecoder_loop \<lparr>rd_buf = buf, rd_state = st\<rparr> u = Ok (st', u')"
  obtains (dec) repr rest u1 where "ReprDecodeState_decode (start_state st) buf = Ok (Decoded repr, rest)"
      "Updater_update u repr = Ok u1"
      "HpackDecoder_loop \<lparr>rd_buf = rest, rd_state = None\<rparr> u1 = Ok (st', u')"
    | (more) s rest where "ReprDecodeState_decode (start_state st) buf = Ok (NeedMore s, rest)"
      "st' = Some s" "u' = u"
  using assms(3) unfolding HpackDecoder_loop_step [OF assms(1,2)] obind_DecResult_Ok
  by (auto simp: obind_eq_Ok)

lemma HpackDecoder_loop_holder:
  assumes "holder_ok st" "HpackDecoder_loop \<lparr>rd_buf = xs, rd_state = st\<rparr> u = Ok (st', u')"
  shows "holder_ok st'"
  using assms
proof (induction "length xs" arbitrary: xs st u rule: less_induct)
  case less
  show ?case
  proof (cases "xs = []")
    case False
    note ok = start_state_ok [OF less.prems(1)]
    from less.prems(1) False less.prems(2) show ?thesis
    proof (cases rule: HpackDecoder_loop_cases)
      case dec
      from less.hyps [OF repr_state.parse_progress [OF ok dec(1)] _ dec(3)] show ?thesis
        by (simp add: holder_ok_def)
    next
      case more
      with repr_state.parse_invar [OF ok more(1)] show ?thesis by (simp add: holder_ok_def)
    qed
  qed (use less.prems in \<open>simp add: HpackDecoder_loop_nil\<close>)
qed

definition HpackDecoder_ok :: "HpackDecoder \<Rightarrow> bool" where
  "HpackDecoder_ok d \<longleftrightarrow> holder_ok (hpd_holder d)"

lemma HpackDecoder_decode_eq:
  "HpackDecoder_decode d buf =
     obind (HpackDecoder_loop \<lparr>rd_buf = buf, rd_state = hpd_holder d\<rparr>
        \<lparr>up_header_list_size = hpd_header_list_size d, up_table = hpd_table d, up_lines = hpd_lines d\<rparr>)
       (\<lambda>(holder, u). Ok (d\<lparr>hpd_table := up_table u, hpd_lines := up_lines u, hpd_holder := holder\<rparr>))"
  by (simp add: HpackDecoder_decode_def ReprDecoder_load_def ReprDecoder_new_def)

lemmas Updater_defs =
  Updater_update_indexed_def Updater_update_literal_with_indexing_def
  Updater_update_literal_without_indexing_def Updater_update_literal_never_indexing_def
  Updater_update_parts_def Updater_check_header_list_size_def Updater_update_size_def Let_def

lemma Updater_update_limit:
  "Updater_update u repr = Ok u' \<Longrightarrow> up_header_list_size u' = up_header_list_size u"
  by (cases repr) (auto simp: Updater_defs obind_eq_Ok split: option.splits if_splits)

text \<open>
  What holds of the table and the fields through every update: sizes, and the fields are well
  formed.
\<close>

definition Updater_ok :: "Updater \<Rightarrow> bool" where
  "Updater_ok u \<longleftrightarrow> dt_ok (up_table u) \<and> Parts_ok (hl_parts (up_lines u)) \<and>
     hl_header_size (up_lines u) \<le> up_header_list_size u"

lemma Updater_check_ok: "Updater_ok u \<Longrightarrow> Updater_check_header_list_size u h v = Ok u' \<Longrightarrow> Updater_ok u'"
  by (auto simp: Updater_ok_def Updater_defs split: if_splits)

lemma Updater_parts_ok: "Updater_ok u \<Longrightarrow> Updater_update_parts u h v = Ok u' \<Longrightarrow> Updater_ok u'"
  by (auto simp: Updater_ok_def Updater_defs obind_eq_Ok Parts_update_Ok)

lemma Updater_table_ok:
  "Updater_ok u \<Longrightarrow> Updater_ok (u\<lparr>up_table := DynamicTable_update (up_table u) h v\<rparr>)"
  "Updater_ok u \<Longrightarrow> Updater_ok (u\<lparr>up_table := DynamicTable_update_size (up_table u) m\<rparr>)"
  by (simp_all add: Updater_ok_def update_queue(3) update_size_queue(3))

lemma Updater_update_ok: "Updater_ok u \<Longrightarrow> Updater_update u repr = Ok u' \<Longrightarrow> Updater_ok u'"
  by (cases repr)
    (auto simp: Updater_update_indexed_def Updater_update_literal_with_indexing_def
      Updater_update_literal_without_indexing_def Updater_update_literal_never_indexing_def obind_eq_Ok
      Updater_table_ok(2) dest!: Updater_check_ok [rotated] Updater_parts_ok [rotated]
      intro: Updater_table_ok(1) split: option.splits)

lemma HpackDecoder_loop_induct [consumes 2, case_names nil more decoded]:
  assumes "holder_ok st" "HpackDecoder_loop \<lparr>rd_buf = xs, rd_state = st\<rparr> u = Ok (st', u')"
    and "\<And>u. P u u" "\<And>u repr u1 u2. Updater_update u repr = Ok u1 \<Longrightarrow> P u1 u2 \<Longrightarrow> P u u2"
  shows "P u u'"
  using assms(1,2)
proof (induction "length xs" arbitrary: xs st u rule: less_induct)
  case less
  show ?case
  proof (cases "xs = []")
    case False
    note ok = start_state_ok [OF less.prems(1)]
    from less.prems(1) False less.prems(2) show ?thesis
    proof (cases rule: HpackDecoder_loop_cases)
      case dec
      from less.hyps [OF repr_state.parse_progress [OF ok dec(1)] _ dec(3)] show ?thesis
        using assms(4) [OF dec(2)] by (simp add: holder_ok_def)
    qed (simp add: assms(3))
  qed (use less.prems assms(3) in \<open>simp add: HpackDecoder_loop_nil\<close>)
qed

lemma HpackDecoder_loop_limit:
  "holder_ok st \<Longrightarrow> HpackDecoder_loop \<lparr>rd_buf = xs, rd_state = st\<rparr> u = Ok (st', u') \<Longrightarrow>
   up_header_list_size u' = up_header_list_size u"
  by (induction rule: HpackDecoder_loop_induct) (simp_all add: Updater_update_limit)

lemma HpackDecoder_loop_ok:
  "holder_ok st \<Longrightarrow> HpackDecoder_loop \<lparr>rd_buf = xs, rd_state = st\<rparr> u = Ok (st', u') \<Longrightarrow>
   Updater_ok u \<longrightarrow> Updater_ok u'"
  by (induction rule: HpackDecoder_loop_induct) (auto dest: Updater_update_ok)

interpretation hpack_dec: segmented_decoder HpackDecoder_decode HpackDecoder_ok
proof
  fix d xs ys and d' :: HpackDecoder
  assume ok: "HpackDecoder_ok d"
  then have holder: "holder_ok (hpd_holder d)" by (simp add: HpackDecoder_ok_def)
  show "HpackDecoder_decode d [] = Ok d" by (simp add: HpackDecoder_decode_eq HpackDecoder_loop_nil)
  show "HpackDecoder_decode d (xs @ ys) = obind (HpackDecoder_decode d xs) (\<lambda>d. HpackDecoder_decode d ys)"
  proof (cases "HpackDecoder_loop \<lparr>rd_buf = xs, rd_state = hpd_holder d\<rparr>
      \<lparr>up_header_list_size = hpd_header_list_size d, up_table = hpd_table d, up_lines = hpd_lines d\<rparr>")
    case (Ok t)
    obtain st u where t: "t = (st, u)" by fastforce
    from HpackDecoder_loop_limit [OF holder Ok [unfolded t]]
    have "u = \<lparr>up_header_list_size = hpd_header_list_size d, up_table = up_table u, up_lines = up_lines u\<rparr>"
      by (cases u) simp
    then show ?thesis by (simp add: HpackDecoder_decode_eq HpackDecoder_loop_append [OF holder] Ok t)
  qed (simp_all add: HpackDecoder_decode_eq HpackDecoder_loop_append [OF holder])
  show "HpackDecoder_ok d'" if "HpackDecoder_decode d xs = Ok d'"
    using that HpackDecoder_loop_holder [OF holder]
    by (auto simp: HpackDecoder_decode_eq HpackDecoder_ok_def obind_eq_Ok)
qed

section \<open>Reading a representation back\<close>

text \<open>The prefixes of the five representations.\<close>

definition repr_prefix :: "u8 \<Rightarrow> u8 \<Rightarrow> bool" where
  "repr_prefix msk pre \<longleftrightarrow>
     (msk, pre) \<in> {(0x7f, 0x80), (0x3f, 0x40), (0x1f, 0x20), (0x0f, 0x10), (0x0f, 0x00)}"

lemma repr_prefix_int_prefix: "repr_prefix msk pre \<Longrightarrow> int_prefix msk pre"
  by (auto simp: repr_prefix_def int_prefix_def mask_eq_exp_minus_1)

lemma int_prefix_add:
  assumes "int_prefix msk pre" "w \<le> msk"
  shows "pre OR w = pre + w"
proof -
  have "int_prefix msk 0" using assms(1) by (simp add: int_prefix_def)
  from int_prefix_and [OF this assms(2)] have "w AND msk = w" by simp
  then have "pre AND w = (pre AND msk) AND w" by (metis and.assoc and.commute)
  also have "\<dots> = 0" using assms(1) by (simp add: int_prefix_def)
  finally show ?thesis by (simp add: disjunctive_add_eq_or [symmetric])
qed

lemma repr_prefix_first:
  assumes "repr_prefix msk pre" "w \<le> msk"
  shows "PrefixBit_from_u8 (pre OR w) = pre" "PrefixBit_prefix_index_mask pre = msk"
proof -
  have add: "pre OR w = pre + w"
    using int_prefix_add [OF repr_prefix_int_prefix] assms by blast
  have w: "unat w \<le> unat msk" using assms(2) by (simp add: word_le_nat_alt)
  have "unat (pre + w) = unat pre + unat w"
    by (rule unat_plus_simple [THEN iffD1], rule word_le_plus_either)
      (use assms w in \<open>auto simp: repr_prefix_def word_le_nat_alt unat_word_ariths\<close>)
  then show "PrefixBit_from_u8 (pre OR w) = pre"
    using assms(1) w
    by (auto simp: add repr_prefix_def PrefixBit_from_u8_def PrefixBit_defs word_le_nat_alt)
  show "PrefixBit_prefix_index_mask pre = msk"
    using assms(1) by (auto simp: repr_prefix_def PrefixBit_prefix_index_mask_def PrefixIndexMask_defs)
qed

lemma int_octets_first: "\<exists>w tl. int_octets i msk pre = (pre OR w) # tl \<and> w \<le> msk"
proof (cases "i < unat msk")
  case True
  then have "of_nat i \<le> msk"
    by (simp add: word_le_nat_alt unat_of_nat take_bit_eq_mod less_trans [OF _ unat_u8_less])
  with True show ?thesis by (auto simp: int_octets_def)
qed (auto simp: int_octets_def)

lemma FirstByte_decode_eq:
  "FirstByte_decode (b # buf) =
     (let repr = PrefixBit_from_u8 b in
      obind (int_decode (PrefixBit_prefix_index_mask repr) (b # buf)) (\<lambda>r.
        case r of Inl (i, rest) \<Rightarrow> Ok (Decoded (repr, i), rest)
        | Inr d \<Rightarrow> Ok (NeedMore (TrailingBytes repr d), [])))"
  by (simp add: FirstByte_decode_def int_decode_def TrailingBytes_decode_eq Let_def split: outcome.split)

lemma LengthFirstByte_decode_eq:
  "LengthFirstByte_decode (b # buf) =
     obind (int_decode 0x7f (b # buf)) (\<lambda>r.
       case r of Inl (n, rest) \<Rightarrow> LiteralString_decode (string_start (b AND 0x80 = 0x80) n) rest
       | Inr d \<Rightarrow> Ok (NeedMore (LengthTrailingBytes (b AND 0x80 = 0x80) d), []))"
  unfolding LengthFirstByte_Cons int_decode_def LengthTrailingBytes_decode_eq
  by (simp split: outcome.split)

lemma FirstByte_decode_octets:
  assumes "repr_prefix msk pre" "i < usize_limit"
  shows "FirstByte_decode (int_octets i msk pre @ rest) = Ok (Decoded (pre, i), rest)"
proof -
  obtain w tl where w: "int_octets i msk pre = (pre OR w) # tl" "w \<le> msk" using int_octets_first by blast
  from int_decode_octets [OF repr_prefix_int_prefix [OF assms(1)] assms(2), of rest]
  show ?thesis by (simp add: w FirstByte_decode_eq repr_prefix_first [OF assms(1) w(2)])
qed

definition string_fits :: "bool \<Rightarrow> bytes \<Rightarrow> bool" where
  "string_fits huff v \<longleftrightarrow> length (if huff then huffman_encode v [] else v) < usize_limit"

lemma string_decode_start:
  "LiteralString_decode (string_start h (length (if h then huffman_encode v [] else v)))
     ((if h then huffman_encode v [] else v) @ rest) = Ok (Decoded v, rest)"
proof (cases h)
  case True
  have "obind (HuffmanDecoder_decode HuffmanDecoder_new (huffman_encode v [])) HuffmanDecoder_finish = Ok v"
    by (simp add: HuffmanDecoder_one_segment huffman_decode_encode)
  then obtain d where "HuffmanDecoder_decode HuffmanDecoder_new (huffman_encode v []) = Ok d"
    "HuffmanDecoder_finish d = Ok v" by (auto simp: obind_eq_Ok)
  with True show ?thesis by (simp add: HuffmanStringBytes_decode_def Let_def)
qed (simp add: AsciiStringBytes_decode_def)

lemma LiteralString_decode_octets:
  assumes "string_fits h v"
  shows "LiteralString_decode LengthFirstByte (string_octets h v @ rest) = Ok (Decoded v, rest)"
proof -
  let ?src = "if h then huffman_encode v [] else v"
  have prefix: "int_prefix 0x7f (pre_mask h)"
    by (auto simp: int_prefix_def pre_mask_def mask_eq_exp_minus_1 intro!: bexI [of _ 7])
  obtain w tl where w: "int_octets (length ?src) 0x7f (pre_mask h) = (pre_mask h OR w) # tl" "w \<le> 0x7f"
    using int_octets_first by blast
  have bit: "(pre_mask h OR w) AND 0x80 = 0x80 \<longleftrightarrow> h"
  proof (cases h)
    case True
    then show ?thesis by (simp add: pre_mask_def word_ao_absorbs)
  next
    case False
    have "w AND 0x80 = 0" using w(2) by (simp add: bit7_word word_le_nat_alt)
    with False show ?thesis by (simp add: pre_mask_def)
  qed
  have dec: "int_decode 0x7f (int_octets (length ?src) 0x7f (pre_mask h) @ ?src @ rest) =
      Ok (Inl (length ?src, ?src @ rest))"
    using int_decode_octets [OF prefix] assms by (simp add: string_fits_def)
  have "LiteralString_decode LengthFirstByte (string_octets h v @ rest) =
      LiteralString_decode (string_start h (length ?src)) (?src @ rest)"
    using dec unfolding string_octets_def Let_def append_assoc LiteralString_decode.simps(1) w append_Cons
      LengthFirstByte_decode_eq bit by simp
  then show ?thesis by (simp only: string_decode_start)
qed

text \<open>Each representation, from the octets that the encoder's states write.\<close>

lemma decode_Indexed:
  assumes "0 < i" "i < usize_limit"
  shows "ReprDecodeState_decode (Index FirstByte) (repr_pending (Indexed_new i) @ rest) =
    Ok (Decoded (Indexed i), rest)"
  using assms by (simp add: repr_new_pending Index_decode_def FirstByte_decode_octets repr_prefix_def
      PrefixBit_defs)

lemma decode_value:
  assumes "string_fits h v"
  shows "ValueString_decode repr name LengthFirstByte (string_octets h v @ rest) =
    Ok (Decoded (if repr = PrefixBit_LITERAL_WITH_INDEXING then LiteralWithIndexing name v
      else if repr = PrefixBit_LITERAL_WITHOUT_INDEXING then LiteralWithoutIndexing name v
      else LiteralNeverIndexed name v), rest)"
  using LiteralString_decode_octets [OF assms] by (simp add: ValueString_decode_def)

lemma decode_name_value:
  assumes "string_fits h n" "string_fits h v"
  shows "NameString_decode repr LengthFirstByte (string_octets h n @ string_octets h v @ rest) =
    Ok (Decoded (if repr = PrefixBit_LITERAL_WITH_INDEXING then LiteralWithIndexing (Name_Literal n) v
      else if repr = PrefixBit_LITERAL_WITHOUT_INDEXING then LiteralWithoutIndexing (Name_Literal n) v
      else LiteralNeverIndexed (Name_Literal n) v), rest)"
  using LiteralString_decode_octets [OF assms(1)] decode_value [OF assms(2)]
  by (simp add: NameString_decode_def)

lemma decode_Index_value:
  assumes "repr_prefix msk pre" "pre \<noteq> 0x80" "pre \<noteq> 0x20" "0 < i" "i < usize_limit" "string_fits h v"
  shows "ReprDecodeState_decode (Index FirstByte) (int_octets i msk pre @ string_octets h v @ rest) =
    ValueString_decode pre (Name_Index i) LengthFirstByte (string_octets h v @ rest)"
  using assms by (simp add: Index_decode_def FirstByte_decode_octets PrefixBit_defs)

lemma decode_Index_name_value:
  assumes "repr_prefix msk pre" "pre \<noteq> 0x80" "pre \<noteq> 0x20"
  shows "ReprDecodeState_decode (Index FirstByte)
      (int_octets 0 msk pre @ string_octets h n @ string_octets h v @ rest) =
    NameString_decode pre LengthFirstByte (string_octets h n @ string_octets h v @ rest)"
  using assms by (simp add: Index_decode_def FirstByte_decode_octets PrefixBit_defs usize_limit_def)

lemmas decode_literals = repr_new_pending decode_Index_value decode_Index_name_value decode_value
  decode_name_value repr_prefix_def PrefixBit_defs

lemma decode_Literal_Index:
  assumes "0 < i" "i < usize_limit" "string_fits h v"
  shows "ReprDecodeState_decode (Index FirstByte) (repr_pending (Indexing_new i v h) @ rest) =
      Ok (Decoded (LiteralWithIndexing (Name_Index i) v), rest)"
    and "ReprDecodeState_decode (Index FirstByte) (repr_pending (WithoutIndexing_new i v h) @ rest) =
      Ok (Decoded (LiteralWithoutIndexing (Name_Index i) v), rest)"
    and "ReprDecodeState_decode (Index FirstByte) (repr_pending (NeverIndexed_new i v h) @ rest) =
      Ok (Decoded (LiteralNeverIndexed (Name_Index i) v), rest)"
  using assms by (simp_all add: decode_literals del: ReprDecodeState_decode.simps)

lemma decode_Literal_Name:
  assumes "string_fits h n" "string_fits h v"
  shows "ReprDecodeState_decode (Index FirstByte) (repr_pending (IndexingWithName_new n v h) @ rest) =
      Ok (Decoded (LiteralWithIndexing (Name_Literal n) v), rest)"
    and "ReprDecodeState_decode (Index FirstByte) (repr_pending (WithoutIndexingWithName_new n v h) @ rest) =
      Ok (Decoded (LiteralWithoutIndexing (Name_Literal n) v), rest)"
    and "ReprDecodeState_decode (Index FirstByte) (repr_pending (NeverIndexedWithName_new n v h) @ rest) =
      Ok (Decoded (LiteralNeverIndexed (Name_Literal n) v), rest)"
  using assms by (simp_all add: decode_literals del: ReprDecodeState_decode.simps)

section \<open>Reading a header block back\<close>

text \<open>A field that goes to the header lines, without the table.\<close>

definition apply_field :: "Updater \<Rightarrow> Header \<times> string \<Rightarrow> (Updater, H2Error) outcome" where
  "apply_field u f =
     (case f of (h, v) \<Rightarrow> obind (Updater_check_header_list_size u h v) (\<lambda>u. Updater_update_parts u h v))"

fun apply_fields :: "Updater \<Rightarrow> (Header \<times> string) list \<Rightarrow> (Updater, H2Error) outcome" where
  "apply_fields u [] = Ok u"
| "apply_fields u (f # fs) = obind (apply_field u f) (\<lambda>u. apply_fields u fs)"

definition field_fits :: "bool \<Rightarrow> Header \<times> string \<Rightarrow> bool" where
  "field_fits huff f \<longleftrightarrow>
     string_fits huff (into_bytes (Header_into_string (fst f))) \<and> string_fits huff (into_bytes (snd f))"

fun fields_clean :: "DynamicTable \<Rightarrow> bool \<Rightarrow> (Header \<times> string) list \<Rightarrow> bool" where
  "fields_clean t huff [] \<longleftrightarrow> True"
| "fields_clean t huff ((h, v) # fs) \<longleftrightarrow>
     \<not> name_only_match t h v \<and> field_fits huff (h, v) \<and>
     fields_clean (snd (ReprEncoder_select t h v huff)) huff fs"

lemma length_le_table_size: "32 * length q \<le> table_size q"
  by (induction q) (auto simp: entry_size_def)

lemma search_header_bounds:
  assumes "dt_ok t" "dt_max_size t < usize_limit" "TableSearcher_search_header t i = Some f"
  shows "0 < i \<and> i < usize_limit"
proof -
  have "length (dt_queue t) * 32 < usize_limit"
    using length_le_table_size [of "dt_queue t"] assms(1,2) by (simp add: dt_ok_def dt_sized_def)
  then have "length (dt_queue t) < 2 ^ 59" by (simp add: usize_limit_def)
  moreover have "i \<le> 61 \<or> i - 62 < length (dt_queue t)"
    using assms(3)
    by (auto simp: TableSearcher_search_header_def DynamicTable_header_def get_nth_def split: if_splits)
  moreover have "i \<noteq> 0" using assms(3)
    by (cases "i = 0") (simp_all add: TableSearcher_search_header_def StaticTable_header_def)
  ultimately show ?thesis by (auto simp: usize_limit_def)
qed

lemma Updater_parts_table:
  "Updater_update_parts (u\<lparr>up_table := t\<rparr>) h v =
     obind (Updater_update_parts u h v) (\<lambda>u. Ok (u\<lparr>up_table := t\<rparr>))"
  by (cases u) (simp add: Updater_update_parts_def obind_assoc)

lemma Updater_check_table:
  "Updater_check_header_list_size (u\<lparr>up_table := t\<rparr>) h v =
     obind (Updater_check_header_list_size u h v) (\<lambda>u. Ok (u\<lparr>up_table := t\<rparr>))"
  by (cases u) (simp add: Updater_check_header_list_size_def Updater_update_size_def Let_def)

lemma check_keeps_table: "Updater_check_header_list_size u h v = Ok u' \<Longrightarrow> up_table u' = up_table u"
  by (auto simp: Updater_defs split: if_splits)

lemma apply_field_keeps_table: "apply_field u f = Ok u' \<Longrightarrow> up_table u' = up_table u"
  by (cases f) (auto simp: apply_field_def Updater_update_parts_def obind_eq_Ok dest: check_keeps_table)

lemma apply_field_table:
  "apply_field (u\<lparr>up_table := t\<rparr>) f = obind (apply_field u f) (\<lambda>u. Ok (u\<lparr>up_table := t\<rparr>))"
  by (cases f) (simp add: apply_field_def Updater_check_table Updater_parts_table obind_assoc)

lemma apply_fields_table:
  "apply_fields (u\<lparr>up_table := t\<rparr>) fs = obind (apply_fields u fs) (\<lambda>u. Ok (u\<lparr>up_table := t\<rparr>))"
  by (induction fs arbitrary: u) (simp_all add: apply_field_table obind_assoc)

lemma update_with_indexing:
  assumes "Updater_get_header_by_name_and_value u name value = Ok (h, v)"
  shows "Updater_update u (LiteralWithIndexing name value) =
    obind (apply_field u (h, v)) (\<lambda>u'. Ok (u'\<lparr>up_table := DynamicTable_update (up_table u) h v\<rparr>))"
  using assms
  by (auto simp: Updater_update_literal_with_indexing_def apply_field_def Updater_parts_table obind_assoc
      check_keeps_table intro!: obind_cong)

lemma StaticTable_index_None: "StaticTable_index h v = None \<Longrightarrow> \<exists>s. h = Other s"
  by (cases h) (auto split: if_splits)

lemma select_decode:
  assumes ok: "dt_ok t" "dt_max_size t < usize_limit" and "up_table u = t"
    and "\<not> name_only_match t h v" "field_fits huff (h, v)"
    and sel: "ReprEncoder_select t h v huff = (st, t')"
  shows "\<exists>repr. ReprDecodeState_decode (Index FirstByte) (repr_pending st @ rest) = Ok (Decoded repr, rest) \<and>
    Updater_update u repr = obind (apply_field u (h, v)) (\<lambda>u. Ok (u\<lparr>up_table := t'\<rparr>))"
proof (cases "TableSearcher_index t h v")
  case None
  with sel have st: "st = IndexingWithName_new (into_bytes (Header_into_string h)) (into_bytes v) huff"
    "t' = DynamicTable_update t h v" by (simp_all add: ReprEncoder_select_def)
  from None obtain s where s: "h = Other s"
    using StaticTable_index_None [of h v] by (auto simp: TableSearcher_index_None)
  then have "Updater_get_header_by_name_and_value u (Name_Literal (into_bytes (Header_into_string h)))
      (into_bytes v) = Ok (h, v)"
    by (simp add: Updater_get_header_by_name_and_value_def)
  with decode_Literal_Name(1) assms(3,5) st update_with_indexing show ?thesis
    by (fastforce simp: field_fits_def)
next
  case (Some x)
  show ?thesis
  proof (cases x)
    case (TI_Header i)
    with Some sel have st: "st = Indexed_new i" "t' = t" by (simp_all add: ReprEncoder_select_def)
    from TableSearcher_index_Header Some TI_Header assms(4)
    have found: "TableSearcher_search_header t i = Some (h, v)" by blast
    have "Updater_update u (Indexed i) = obind (apply_field u (h, v)) (\<lambda>u. Ok (u\<lparr>up_table := t\<rparr>))"
    proof (cases "apply_field u (h, v)")
      case (Ok u')
      from apply_field_keeps_table [OF Ok] have "u'\<lparr>up_table := t\<rparr> = u'" using assms(3) by simp
      with Ok found assms(3) show ?thesis by (simp add: Updater_update_indexed_def apply_field_def)
    qed (use found assms(3) in \<open>simp_all add: Updater_update_indexed_def apply_field_def\<close>)
    with decode_Indexed search_header_bounds [OF ok found] st show ?thesis by blast
  next
    case (TI_HeaderName i)
    with Some sel have st: "st = Indexing_new i (into_bytes v) huff" "t' = DynamicTable_update t h v"
      by (simp_all add: ReprEncoder_select_def)
    note found = TableSearcher_index_HeaderName [OF Some [unfolded TI_HeaderName]]
    have "i \<le> 61" using StaticTable_index_le [OF found(2)] by simp
    moreover have "i \<noteq> 0"
      using found(1) by (cases "i = 0")
        (simp_all add: TableSearcher_search_header_name_def StaticTable_header_name_def)
    ultimately have "0 < i" "i < usize_limit" by (simp_all add: usize_limit_def)
    moreover have "Updater_get_header_by_name_and_value u (Name_Index i) (into_bytes v) = Ok (h, v)"
      using found(1) assms(3) by (simp add: Updater_get_header_by_name_and_value_def)
    ultimately show ?thesis
      using decode_Literal_Index(1) assms(3,5) st update_with_indexing by (fastforce simp: field_fits_def)
  qed
qed

lemma select_table_ok:
  "dt_ok t \<Longrightarrow> ReprEncoder_select t h v huff = (st, t') \<Longrightarrow> dt_ok t' \<and> dt_max_size t' = dt_max_size t"
  by (auto simp: ReprEncoder_select_def update_queue(2,3) split: option.splits TableIndex.splits)

lemma repr_pending_not_Nil: "ReprEncoder_select t h v huff = (st, t') \<Longrightarrow> repr_pending st \<noteq> []"
proof -
  have "int_octets i msk pre \<noteq> []" for i msk pre using int_octets_first [of i msk pre] by auto
  then show "ReprEncoder_select t h v huff = (st, t') \<Longrightarrow> repr_pending st \<noteq> []"
    by (auto simp: ReprEncoder_select_def repr_new_pending split: option.splits TableIndex.splits)
qed

lemma decode_fields:
  assumes "dt_ok t" "dt_max_size t < usize_limit" "up_table u = t" "fields_clean t huff fs"
  shows "HpackDecoder_loop \<lparr>rd_buf = fields_octets t huff fs, rd_state = None\<rparr> u =
    obind (apply_fields u fs) (\<lambda>u. Ok (None, u\<lparr>up_table := fields_table t huff fs\<rparr>))"
  using assms
proof (induction fs arbitrary: t u)
  case (Cons f fs)
  obtain h v where f: "f = (h, v)" by fastforce
  obtain st t' where sel: "ReprEncoder_select t h v huff = (st, t')" by fastforce
  from Cons.prems f sel have clean: "\<not> name_only_match t h v" "field_fits huff (h, v)" "fields_clean t' huff fs"
    by simp_all
  from select_decode [OF Cons.prems(1-3) clean(1,2) sel] obtain repr where
    repr: "ReprDecodeState_decode (Index FirstByte) (repr_pending st @ fields_octets t' huff fs) =
      Ok (Decoded repr, fields_octets t' huff fs)"
      "Updater_update u repr = obind (apply_field u (h, v)) (\<lambda>u. Ok (u\<lparr>up_table := t'\<rparr>))" by blast
  have t': "dt_ok t'" "dt_max_size t' < usize_limit" using select_table_ok [OF Cons.prems(1) sel] Cons.prems(2) by auto
  have "HpackDecoder_loop \<lparr>rd_buf = fields_octets t huff (f # fs), rd_state = None\<rparr> u =
      obind (apply_field u f) (\<lambda>u.
        HpackDecoder_loop \<lparr>rd_buf = fields_octets t' huff fs, rd_state = None\<rparr> (u\<lparr>up_table := t'\<rparr>))"
    using repr repr_pending_not_Nil [OF sel] HpackDecoder_loop_step [of None]
    by (simp add: f sel holder_ok_def start_state_def obind_assoc del: ReprDecodeState_decode.simps)
  also have "\<dots> = obind (apply_fields u (f # fs)) (\<lambda>u. Ok (None, u\<lparr>up_table := fields_table t' huff fs\<rparr>))"
    using Cons.IH [OF t' _ clean(3)] by (simp add: apply_fields_table obind_assoc)
  finally show ?case by (simp add: f sel)
qed (use assms(3) in \<open>simp add: HpackDecoder_loop_nil\<close>)

section \<open>Writing a header block\<close>

definition he_encoder :: "HpackEncoder \<Rightarrow> ReprEncoder" where
  "he_encoder e = \<lparr>re_table = he_table e, re_iter = he_iter e, re_state = he_state e\<rparr>"

definition he_content :: "HpackEncoder \<Rightarrow> bytes" where
  "he_content e = re_content (he_use_huffman e) (he_encoder e)"

definition he_final :: "HpackEncoder \<Rightarrow> DynamicTable" where
  "he_final e = re_final (he_use_huffman e) (he_encoder e)"

definition he_ok :: "HpackEncoder \<Rightarrow> bool" where
  "he_ok e \<longleftrightarrow> re_ok (he_encoder e)"

lemmas he_defs = he_encoder_def he_content_def he_final_def he_ok_def

lemma HpackEncoder_encode_fits:
  assumes "he_ok e" "0 < n" "length (he_content e) \<le> n"
  shows "HpackEncoder_encode e n =
    Ok (he_content e, e\<lparr>he_table := he_final e, he_iter := None, he_state := None\<rparr>)"
  using ReprEncoder_encode_fulfils [of "he_encoder e" n "he_use_huffman e"] assms
  by (cases e) (simp add: Let_def HpackEncoder_encode_def re_fulfils_def he_defs)

lemma HpackEncoder_encode_cut:
  assumes "he_ok e" "n < length (he_content e)"
  shows "\<exists>e'. HpackEncoder_encode e n = Ok (take n (he_content e), e') \<and>
    he_content e' = drop n (he_content e) \<and> he_final e' = he_final e \<and> he_ok e'"
proof (cases "n = 0")
  case True
  then show ?thesis using assms
    by (cases e) (simp add: Let_def HpackEncoder_encode_def ReprEncoder_encode_def he_defs)
next
  case False
  with ReprEncoder_encode_fulfils [of "he_encoder e" n "he_use_huffman e"] assms obtain r where
    "ReprEncoder_encode (he_encoder e) n (he_use_huffman e) = Ok (take n (he_content e), r)"
    "re_content (he_use_huffman e) r = drop n (he_content e)" "re_final (he_use_huffman e) r = he_final e"
    "re_ok r"
    by (auto simp: re_fulfils_def he_ok_def he_content_def he_final_def)
  with assms(2) show ?thesis
    by (cases r) (simp add: Let_def HpackEncoder_encode_def he_defs)
qed

text \<open>Calling \<open>encode\<close> with one buffer after the other.\<close>

fun hpack_write :: "HpackEncoder \<Rightarrow> nat list \<Rightarrow> (bytes \<times> HpackEncoder, H2Error) outcome" where
  "hpack_write e [] = Ok ([], e)"
| "hpack_write e (n # ns) =
     obind (HpackEncoder_encode e n) (\<lambda>(out, e).
     obind (hpack_write e ns) (\<lambda>(more, e). Ok (out @ more, e)))"

lemma HpackEncoder_finished_encode:
  "HpackEncoder_is_finished e \<Longrightarrow> HpackEncoder_encode e n = Ok ([], e)"
  by (cases e) (simp add: Let_def HpackEncoder_encode_def ReprEncoder_encode_def HpackEncoder_is_finished_def)

lemma hpack_write_content:
  assumes "he_ok e"
  shows "\<exists>e'. hpack_write e ns = Ok (take (sum_list ns) (he_content e), e') \<and>
    he_content e' = drop (sum_list ns) (he_content e) \<and> he_final e' = he_final e \<and>
    (0 < sum_list ns \<longrightarrow> length (he_content e) \<le> sum_list ns \<longrightarrow>
      HpackEncoder_is_finished e' \<and> he_table e' = he_final e)"
  using assms
proof (induction ns arbitrary: e)
  case (Cons n ns)
  consider (cut) "n < length (he_content e)" | (fits) "length (he_content e) \<le> n" "0 < n" | (zero) "n = 0" "he_content e = []"
    by fastforce
  then show ?case
  proof cases
    case cut
    from HpackEncoder_encode_cut [OF Cons.prems cut] obtain e1 where
      e1: "HpackEncoder_encode e n = Ok (take n (he_content e), e1)"
      "he_content e1 = drop n (he_content e)" "he_final e1 = he_final e" "he_ok e1" by blast
    from Cons.IH [OF e1(4)] obtain e' where
      e': "hpack_write e1 ns = Ok (take (sum_list ns) (he_content e1), e')"
      "he_content e' = drop (sum_list ns) (he_content e1)" "he_final e' = he_final e1"
      "0 < sum_list ns \<longrightarrow> length (he_content e1) \<le> sum_list ns \<longrightarrow>
        HpackEncoder_is_finished e' \<and> he_table e' = he_final e1"
      by (elim exE conjE) (rule that)
    have "0 < sum_list ns \<and> length (he_content e1) \<le> sum_list ns"
      if "length (he_content e) \<le> sum_list (n # ns)" using that cut e1(2) by simp
    with e1 e' have "hpack_write e (n # ns) = Ok (take (sum_list (n # ns)) (he_content e), e')"
      "he_content e' = drop (sum_list (n # ns)) (he_content e)" "he_final e' = he_final e"
      "length (he_content e) \<le> sum_list (n # ns) \<longrightarrow> HpackEncoder_is_finished e' \<and> he_table e' = he_final e"
      by (simp_all add: take_add add.commute)
    then show ?thesis by blast
  next
    case fits
    let ?e = "e\<lparr>he_table := he_final e, he_iter := None, he_state := None\<rparr>"
    have fin: "HpackEncoder_is_finished ?e" by (simp add: HpackEncoder_is_finished_def)
    have "hpack_write ?e ns = Ok ([], ?e)"
      by (induction ns) (simp_all add: HpackEncoder_finished_encode [OF fin])
    with fits HpackEncoder_encode_fits [OF Cons.prems fits(2,1)] fin show ?thesis
      by (auto simp: he_defs re_content_def re_final_def re_fields_def)
  next
    case zero
    then have "HpackEncoder_encode e n = Ok ([], e)"
      by (cases e) (simp add: Let_def HpackEncoder_encode_def ReprEncoder_encode_def)
    with zero Cons.IH [OF Cons.prems] show ?thesis by auto
  qed
qed simp

section \<open>From the parts to the parts\<close>

definition parts_fields :: "Parts \<Rightarrow> (Header \<times> string) list" where
  "parts_fields p = pi_fields (PartsIter_new p)"

fun parts_apply :: "Parts \<Rightarrow> (Header \<times> string) list \<Rightarrow> (Parts, H2Error) outcome" where
  "parts_apply p [] = Ok p"
| "parts_apply p ((h, v) # fs) = obind (Parts_update p h v) (\<lambda>p. parts_apply p fs)"

text \<open>Within the size limit, the fields go to the parts one after the other.\<close>

lemma apply_fields_parts:
  assumes "hl_header_size (up_lines u) + table_size fs \<le> up_header_list_size u"
  shows "apply_fields u fs = obind (parts_apply (hl_parts (up_lines u)) fs) (\<lambda>p.
    Ok (u\<lparr>up_lines := \<lparr>hl_parts = p, hl_header_size = hl_header_size (up_lines u) + table_size fs\<rparr>\<rparr>))"
  using assms
proof (induction fs arbitrary: u)
  case (Cons f fs)
  obtain h v where f: "f = (h, v)" by fastforce
  let ?u = "\<lambda>p. u\<lparr>up_lines := \<lparr>hl_parts = p, hl_header_size = hl_header_size (up_lines u) + entry_size f\<rparr>\<rparr>"
  have "apply_field u f = obind (Parts_update (hl_parts (up_lines u)) h v) (\<lambda>p. Ok (?u p))"
    using Cons.prems by (cases u; cases "up_lines u")
      (simp add: f apply_field_def Updater_defs entry_size_def header_line_length_def obind_assoc)
  moreover have "apply_fields (?u p) fs = obind (parts_apply p fs) (\<lambda>p.
      Ok (u\<lparr>up_lines := \<lparr>hl_parts = p, hl_header_size = hl_header_size (up_lines u) + table_size (f # fs)\<rparr>\<rparr>))" for p
    using Cons.IH [of "?u p"] Cons.prems by (simp add: add.assoc)
  ultimately show ?case by (simp add: f obind_assoc)
qed simp

lemma parts_apply_others:
  "parts_apply p (map (\<lambda>(h, v). (Other h, g v)) m) =
     (case append_all Headers_append (parts_map p) (map (\<lambda>(h, v). (h, g v)) m) of
        Ok m' \<Rightarrow> Ok (p\<lparr>parts_map := m'\<rparr>) | _ \<Rightarrow> Panic)"
proof (induction m arbitrary: p)
  case (Cons e m)
  obtain h v where e: "e = (h, v)" by fastforce
  show ?case
    by (cases "Headers_append (parts_map p) h (g v)")
      (simp_all add: e Parts_update_def Cons.IH split: outcome.split)
qed simp

lemma parts_apply_fields:
  "parts_apply Parts_new (parts_fields p) =
     parts_apply \<lparr>parts_pseudo = parts_pseudo p, parts_map = Headers_new\<rparr>
       (map (\<lambda>(h, v). (Other h, from_utf8_unchecked (HeaderValue_to_vec v))) (parts_map p))"
  by (cases "parts_pseudo p"; cases "ph_method (parts_pseudo p)"; cases "ph_status (parts_pseudo p)";
      cases "ph_scheme (parts_pseudo p)"; cases "ph_path (parts_pseudo p)"; cases "ph_authority (parts_pseudo p)")
    (simp_all add: parts_fields_def pi_fields_def PartsIter_new_def opt_field_def Headers_into_iter_def
      Parts_new_def PseudoHeaders_new_def Parts_update_def PseudoHeaders_set_defs Let_def)

text \<open>What decoding makes of a value: its joined octets as a single value.\<close>

definition flat_value :: "HeaderValue \<Rightarrow> HeaderValue" where
  "flat_value v = \<lparr>hv_inner = [HeaderValue_to_vec v], hv_is_sensitive = False\<rparr>"

lemma flat_value_ok:
  "HeaderValue_ok v \<Longrightarrow> HeaderValue_try_from (from_utf8_unchecked (HeaderValue_to_vec v)) = Ok (flat_value v)"
  by (simp add: HeaderValue_try_from_eq flat_value_def HeaderValue_to_vec_def to_vec_loop_eq
      join_values_valid HeaderValue_ok_def)

lemma collect_distinct:
  assumes "Headers_ok m" "HeaderName_try_from x = Ok k"
  shows "collect_field HeaderName_try_from HeaderValue_try_from HeaderValue_append x acc
      (map (\<lambda>(h, v). (h, from_utf8_unchecked (HeaderValue_to_vec v))) m) =
    (case map_of m k of None \<Rightarrow> acc
     | Some v \<Rightarrow> Some (case acc of None \<Rightarrow> flat_value v | Some w \<Rightarrow> HeaderValue_append w (flat_value v)))"
  using assms(1)
proof (induction m arbitrary: acc)
  case (Cons e m)
  obtain h v where e: "e = (h, v)" by fastforce
  from Cons.prems e have "HeaderName_try_from h = Ok h" "HeaderValue_ok v" "Headers_ok m" "map_of m h = None"
    by (auto simp: Headers_ok_def HeaderName_ok_def map_of_eq_None_iff)
  with Cons.IH assms(2) show ?case by (simp add: e flat_value_ok)
qed simp

lemma append_all_flat:
  assumes "Headers_ok m"
  shows "\<exists>m'. append_all Headers_append Headers_new
      (map (\<lambda>(h, v). (h, from_utf8_unchecked (HeaderValue_to_vec v))) m) = Ok m' \<and>
    (\<forall>x. Headers_get m' x = map_option flat_value (Headers_get m x))"
proof -
  let ?fs = "map (\<lambda>(h, v). (h, from_utf8_unchecked (HeaderValue_to_vec v))) m"
  have valid: "(\<exists>k. HeaderName_try_from n = Ok k) \<and> (\<exists>v. HeaderValue_try_from s = Ok v)"
    if "(n, s) \<in> set ?fs" for n s
    using that assms by (force simp: Headers_ok_def HeaderName_ok_def flat_value_ok)
  have empty: "Headers_get Headers_new x = None" for x
    by (simp add: Headers_get_def Headers_new_def split: outcome.split)
  from fields.append_all_get [of Headers_new ?fs, OF Headers_ok_new valid] obtain m' where
    m': "append_all Headers_append Headers_new ?fs = Ok m'"
      "\<And>x. Headers_get m' x = collect_field HeaderName_try_from HeaderValue_try_from HeaderValue_append x None ?fs"
    by (auto simp: empty)
  have "Headers_get m' x = map_option flat_value (Headers_get m x)" for x
  proof (cases "HeaderName_try_from x")
    case (Ok k)
    have "Headers_get m' x = map_option flat_value (map_of m k)"
      unfolding m'(2) collect_distinct [OF assms Ok] by (simp split: option.split)
    then show ?thesis by (simp add: Headers_get_def [of m] Ok)
  next
    case (Err e)
    then have "Headers_get m' x = None" "Headers_get m x = None" by (simp_all add: Headers_get_def)
    then show ?thesis by simp
  qed simp
  with m'(1) show ?thesis by blast
qed

lemma parts_apply_parts_fields:
  assumes "Parts_ok p"
  shows "\<exists>p'. parts_apply Parts_new (parts_fields p) = Ok p' \<and> parts_pseudo p' = parts_pseudo p \<and>
    (\<forall>x. Headers_get (parts_map p') x = map_option flat_value (Headers_get (parts_map p) x))"
  using append_all_flat [of "parts_map p"] assms
  by (auto simp: parts_apply_fields parts_apply_others Parts_ok_def)

text \<open>The fields of well-formed parts never run into a name-only match in a fresh table.\<close>

lemma fields_clean_distinct:
  assumes "dt_ok t" "\<And>f. f \<in> set fs \<Longrightarrow> field_fits huff f"
    and "distinct (filter (\<lambda>h. \<exists>s. h = Other s) (map fst fs))"
    and "\<And>s. Other s \<in> fst ` set fs \<Longrightarrow> Other s \<notin> fst ` set (dt_queue t)"
  shows "fields_clean t huff fs"
  using assms
proof (induction fs arbitrary: t)
  case (Cons f fs)
  obtain h v where f: "f = (h, v)" by fastforce
  obtain st t' where sel: "ReprEncoder_select t h v huff = (st, t')" by fastforce
  have queue: "fst ` set (dt_queue t') \<subseteq> insert h (fst ` set (dt_queue t))"
    using sel set_mono_prefix [OF fitting_prefix [of "dt_max_size t" "(h, v) # dt_queue t"]]
    by (force simp: ReprEncoder_select_def update_queue(1) [OF Cons.prems(1)] simp del: fitting.simps
        split: option.splits TableIndex.splits)
  have "\<not> name_only_match t h v"
  proof
    assume *: "name_only_match t h v"
    then obtain s where "h = Other s" using StaticTable_index_None [of h v] by (auto simp: name_only_match_def)
    with * Cons.prems(4) [of s] show False by (simp add: name_only_match_def f)
  qed
  moreover have "fields_clean t' huff fs"
  proof (rule Cons.IH)
    show "dt_ok t'" using select_table_ok [OF Cons.prems(1) sel] by simp
    show "Other s \<notin> fst ` set (dt_queue t')" if "Other s \<in> fst ` set fs" for s
    proof -
      have "Other s \<noteq> h" using that Cons.prems(3) by (force simp: f)
      moreover have "Other s \<notin> fst ` set (dt_queue t)" using that Cons.prems(4) [of s] by auto
      ultimately show ?thesis using queue by blast
    qed
  qed (use Cons.prems(2,3) in \<open>auto split: if_splits\<close>)
  ultimately show ?case using Cons.prems(2) by (simp add: f sel)
qed simp

lemma distinct_parts_fields:
  assumes "Parts_ok p"
  shows "distinct (filter (\<lambda>h. \<exists>s. h = Other s) (map fst (parts_fields p)))"
proof -
  have "filter (\<lambda>h. \<exists>s. h = Other s) (map fst (parts_fields p)) = map Other (map fst (parts_map p))"
    by (simp add: parts_fields_def pi_fields_def PartsIter_new_def Headers_into_iter_def opt_field_def
        Let_def comp_def case_prod_beta split: option.split)
  then show ?thesis using assms by (simp add: Parts_ok_def Headers_ok_def distinct_map inj_on_def)
qed

lemma decode_parts:
  assumes "Parts_ok p" "\<And>f. f \<in> set (parts_fields p) \<Longrightarrow> field_fits huff f"
    and "table_size (parts_fields p) \<le> limit" "m < usize_limit"
  defines "t \<equiv> DynamicTable_with_max_size m"
  shows "\<exists>d p'. HpackDecoder_decode (HpackDecoder_with_max_size m limit)
      (fields_octets t huff (parts_fields p)) = Ok d \<and>
    hpd_holder d = None \<and> hpd_table d = fields_table t huff (parts_fields p) \<and>
    hl_parts (hpd_lines d) = p' \<and> parts_pseudo p' = parts_pseudo p \<and>
    (\<forall>x. Headers_get (parts_map p') x = map_option flat_value (Headers_get (parts_map p) x))"
proof -
  let ?u = "\<lparr>up_header_list_size = limit, up_table = t,
    up_lines = \<lparr>hl_parts = Parts_new, hl_header_size = 0\<rparr>\<rparr>"
  have t: "dt_ok t" "dt_max_size t < usize_limit" "up_table ?u = t" "dt_queue t = []"
    using assms(4) by (simp_all add: t_def DynamicTable_with_max_size_def [of m] dt_ok_def dt_sized_def)
  have "fields_clean t huff (parts_fields p)"
    by (intro fields_clean_distinct distinct_parts_fields) (simp_all add: t(1,4) assms(1,2))
  note run = decode_fields [OF t(1-3) this]
  from parts_apply_parts_fields [OF assms(1)] obtain p' where
    p': "parts_apply Parts_new (parts_fields p) = Ok p'" "parts_pseudo p' = parts_pseudo p"
      "\<forall>x. Headers_get (parts_map p') x = map_option flat_value (Headers_get (parts_map p) x)" by blast
  have "HpackDecoder_loop \<lparr>rd_buf = fields_octets t huff (parts_fields p), rd_state = None\<rparr> ?u =
      Ok (None, ?u\<lparr>up_lines := \<lparr>hl_parts = p', hl_header_size = table_size (parts_fields p)\<rparr>,
        up_table := fields_table t huff (parts_fields p)\<rparr>)"
    unfolding run using apply_fields_parts [of ?u "parts_fields p"] assms(3) p'(1) by simp
  with p' show ?thesis
    by (simp add: HpackDecoder_decode_eq HpackDecoder_with_max_size_def flip: t_def)
qed

lemma set_parts_content:
  "he_ok (HpackEncoder_set_parts (HpackEncoder_new m huff) p)"
  "he_content (HpackEncoder_set_parts (HpackEncoder_new m huff) p) =
     fields_octets (DynamicTable_with_max_size m) huff (parts_fields p)"
  "he_final (HpackEncoder_set_parts (HpackEncoder_new m huff) p) =
     fields_table (DynamicTable_with_max_size m) huff (parts_fields p)"
  by (simp_all add: he_defs re_ok_def re_content_def re_final_def re_fields_def parts_fields_def
      HpackEncoder_set_parts_def HpackEncoder_new_def)

lemma finished_content: "HpackEncoder_is_finished e \<Longrightarrow> he_content e = []"
  by (simp add: HpackEncoder_is_finished_def he_defs re_content_def re_fields_def)

lemma finished_final: "HpackEncoder_is_finished e \<Longrightarrow> he_final e = he_table e"
  by (simp add: HpackEncoder_is_finished_def he_defs re_final_def re_fields_def)

section \<open>Properties\<close>

text \<open>
  C1. The HPACK round trip of a first header block: the block that a new encoder writes for
  well-formed parts, into buffers of any sizes, is decoded by a new decoder with the same table
  size, from segments of any sizes, into parts with the same pseudo headers and, under every name,
  the same value (repeated values joined by commas). The two dynamic tables are equal afterwards.
  This holds with and without Huffman coding, when the fields are within the decoder's header list
  size and each string has a length below \<open>2 ^ 64\<close>. It is not claimed of later blocks: there a name
  of the dynamic table with another value is written wrongly (\<open>hpack_repeated_name_loses_value\<close>).
\<close>

theorem hpack_roundtrip:
  assumes "Parts_ok p" "\<forall>f \<in> set (parts_fields p). field_fits huff f"
    and "table_size (parts_fields p) \<le> limit" "m < usize_limit"
    and "hpack_write (HpackEncoder_set_parts (HpackEncoder_new m huff) p) buffers = Ok (octets, e)"
    and "HpackEncoder_is_finished e" "concat segments = octets"
  shows "\<exists>d d' p'. feed_segments HpackDecoder_decode (HpackDecoder_with_max_size m limit) segments = Ok d \<and>
    HpackDecoder_finish d = Ok (p', d') \<and> parts_pseudo p' = parts_pseudo p \<and>
    (\<forall>x. Headers_get (parts_map p') x = map_option flat_value (Headers_get (parts_map p) x)) \<and>
    hpd_table d' = he_table e"
proof -
  let ?t = "DynamicTable_with_max_size m"
  from hpack_write_content [OF set_parts_content(1), of m huff p buffers] assms(5)
  have cut: "octets = take (sum_list buffers) (fields_octets ?t huff (parts_fields p))"
    "he_content e = drop (sum_list buffers) (fields_octets ?t huff (parts_fields p))"
    "he_final e = fields_table ?t huff (parts_fields p)"
    by (simp_all add: set_parts_content(2,3))
  then have octets: "octets = fields_octets ?t huff (parts_fields p)"
    using finished_content [OF assms(6)] by simp
  from decode_parts [OF assms(1) _ assms(3,4), of huff] assms(2) obtain d p' where
    d: "HpackDecoder_decode (HpackDecoder_with_max_size m limit) octets = Ok d"
      "hpd_holder d = None" "hpd_table d = fields_table ?t huff (parts_fields p)"
      "hl_parts (hpd_lines d) = p'" "parts_pseudo p' = parts_pseudo p"
      "\<forall>x. Headers_get (parts_map p') x = map_option flat_value (Headers_get (parts_map p) x)"
    unfolding octets by blast
  have "HpackDecoder_ok (HpackDecoder_with_max_size m limit)"
    by (simp add: HpackDecoder_ok_def HpackDecoder_with_max_size_def holder_ok_def)
  then have "feed_segments HpackDecoder_decode (HpackDecoder_with_max_size m limit) segments = Ok d"
    by (simp add: hpack_dec.feed_segments_concat assms(7) d(1))
  moreover have "hpd_table d = he_table e" using cut(3) d(3) finished_final [OF assms(6)] by simp
  ultimately show ?thesis using d by (simp add: HpackDecoder_finish_def)
qed

text \<open>Example parts: a request method and one other field.\<close>

definition example_parts :: "string \<Rightarrow> string \<Rightarrow> Parts" where
  "example_parts n v =
     \<lparr>parts_pseudo = PseudoHeaders_new\<lparr>ph_method := Some ''GET''\<rparr>,
      parts_map = [(n, \<lparr>hv_inner = [into_bytes v], hv_is_sensitive = False\<rparr>)]\<rparr>"

lemma example_fields: "parts_fields (example_parts n v) = [(Method, ''GET''), (Other n, v)]"
  by (simp add: example_parts_def parts_fields_def pi_fields_def PartsIter_new_def opt_field_def
      PseudoHeaders_new_def Headers_into_iter_def HeaderValue_to_vec_def Let_def)

lemma example_ok: "Parts_ok (example_parts ''x'' ''b'')"
  by (simp add: example_parts_def Parts_ok_def Headers_ok_def HeaderName_ok_def HeaderName_try_from_eq
      HeaderValue_ok_def into_bytes_def byte_of_char_def header_char_def HEADER_CHARS_def
      from_utf8_unchecked_def char_of_byte_def char_of_def bit_0 HeaderValue_is_valid_def)

theorem hpack_roundtrip_witness:
  "\<exists>octets e. hpack_write (HpackEncoder_set_parts (HpackEncoder_new 4096 False) (example_parts ''x'' ''b''))
      [1, 63] = Ok (octets, e) \<and> HpackEncoder_is_finished e \<and>
    (\<exists>d d' p'. feed_segments HpackDecoder_decode (HpackDecoder_with_max_size 4096 1000)
        [take 2 octets, drop 2 octets] = Ok d \<and>
      HpackDecoder_finish d = Ok (p', d') \<and> ph_method (parts_pseudo p') = Some ''GET'')"
proof -
  let ?p = "example_parts ''x'' ''b''" and ?t = "DynamicTable_with_max_size 4096"
  have fits: "\<forall>f \<in> set (parts_fields ?p). field_fits False f" "table_size (parts_fields ?p) \<le> 1000"
    by (simp_all add: example_fields field_fits_def string_fits_def usize_limit_def entry_size_def)
  have "length (fields_octets ?t False (parts_fields ?p)) \<le> 64"
    by (simp add: example_fields ReprEncoder_select_def TableSearcher_index_def DynamicTable_index_def
        DynamicTable_with_max_size_def StaticTable_index_headers_def repr_new_pending int_octets_def
        string_octets_def trailing_octets.simps Let_def)
  with hpack_write_content [OF set_parts_content(1), of 4096 False ?p "[1, 63]"] obtain octets e where
    wr: "hpack_write (HpackEncoder_set_parts (HpackEncoder_new 4096 False) ?p) [1, 63] = Ok (octets, e)"
    and fin: "HpackEncoder_is_finished e" by (auto simp: set_parts_content(2))
  have "(4096 :: nat) < usize_limit" by (simp add: usize_limit_def)
  from hpack_roundtrip [OF example_ok fits this wr fin, of "[take 2 octets, drop 2 octets]"]
  obtain d d' p' where "feed_segments HpackDecoder_decode (HpackDecoder_with_max_size 4096 1000)
      [take 2 octets, drop 2 octets] = Ok d" "HpackDecoder_finish d = Ok (p', d')"
    "parts_pseudo p' = parts_pseudo ?p" by auto
  with wr fin show ?thesis by (auto simp: example_parts_def)
qed

text \<open>
  C30. Segments of a header block: however a block is cut, decoding it piece by piece gives what
  decoding it at once gives, errors and panics included.
\<close>

theorem hpack_decode_segments:
  assumes "HpackDecoder_ok d"
  shows "feed_segments HpackDecoder_decode d segments = HpackDecoder_decode d (concat segments)"
  by (rule hpack_dec.feed_segments_concat [OF assms])

theorem hpack_decode_segments_witness:
  "HpackDecoder_ok (HpackDecoder_with_max_size 4096 1000) \<and>
   feed_segments HpackDecoder_decode (HpackDecoder_with_max_size 4096 1000) [[0x82], [], [0x86, 0x84]] =
   HpackDecoder_decode (HpackDecoder_with_max_size 4096 1000) [0x82, 0x86, 0x84]"
  using hpack_decode_segments [of "HpackDecoder_with_max_size 4096 1000" "[[0x82], [], [0x86, 0x84]]"]
  by (simp add: HpackDecoder_ok_def HpackDecoder_with_max_size_def holder_ok_def)

text \<open>
  C31. The decoder's invariant: decoding keeps the dynamic table within its limit with a correct
  size, keeps the decoded fields well formed, and never lets the size of the header lines exceed the
  header list size.
\<close>

theorem hpack_decode_invariant:
  assumes "HpackDecoder_ok d" "dt_ok (hpd_table d)" "Parts_ok (hl_parts (hpd_lines d))"
    and "hl_header_size (hpd_lines d) \<le> hpd_header_list_size d" "HpackDecoder_decode d buf = Ok d'"
  shows "HpackDecoder_ok d' \<and> dt_ok (hpd_table d') \<and> Parts_ok (hl_parts (hpd_lines d')) \<and>
    hl_header_size (hpd_lines d') \<le> hpd_header_list_size d'"
proof -
  let ?u = "\<lparr>up_header_list_size = hpd_header_list_size d, up_table = hpd_table d, up_lines = hpd_lines d\<rparr>"
  from assms(1) have holder: "holder_ok (hpd_holder d)" by (simp add: HpackDecoder_ok_def)
  from assms(5) obtain st u where
    run: "HpackDecoder_loop \<lparr>rd_buf = buf, rd_state = hpd_holder d\<rparr> ?u = Ok (st, u)"
    and d': "d' = d\<lparr>hpd_table := up_table u, hpd_lines := up_lines u, hpd_holder := st\<rparr>"
    by (auto simp: HpackDecoder_decode_eq obind_eq_Ok)
  have "Updater_ok u" using HpackDecoder_loop_ok [OF holder run] assms(2-4) by (simp add: Updater_ok_def)
  moreover have "HpackDecoder_ok d'" using assms(1,5) by (rule hpack_dec.feed_invar)
  ultimately show ?thesis
    using HpackDecoder_loop_limit [OF holder run] by (simp add: d' Updater_ok_def)
qed

lemma fresh_decoder_ok:
  "HpackDecoder_ok (HpackDecoder_with_max_size m l)" "dt_ok (hpd_table (HpackDecoder_with_max_size m l))"
  "Parts_ok (hl_parts (hpd_lines (HpackDecoder_with_max_size m l)))"
  "hl_header_size (hpd_lines (HpackDecoder_with_max_size m l)) \<le>
     hpd_header_list_size (HpackDecoder_with_max_size m l)"
  by (simp_all add: HpackDecoder_ok_def HpackDecoder_with_max_size_def holder_ok_def)

text \<open>An indexed field below 127, in a decoder that is between fields.\<close>

lemma decode_one_indexed:
  assumes "0 < i" "i < 127" "hpd_holder d = None"
  shows "HpackDecoder_decode d [0x80 OR of_nat i] =
    obind (Updater_update \<lparr>up_header_list_size = hpd_header_list_size d, up_table = hpd_table d,
        up_lines = hpd_lines d\<rparr> (Indexed i)) (\<lambda>u.
      Ok (d\<lparr>hpd_table := up_table u, hpd_lines := up_lines u, hpd_holder := None\<rparr>))"
proof -
  have "repr_pending (Indexed_new i) = [0x80 OR of_nat i]"
    using assms(2) by (simp add: repr_new_pending int_octets_def)
  with decode_Indexed [of i "[]"] assms have
    "ReprDecodeState_decode (Index FirstByte) [0x80 OR of_nat i] = Ok (Decoded (Indexed i), [])"
    by (simp add: usize_limit_def del: ReprDecodeState_decode.simps)
  then show ?thesis
    using HpackDecoder_loop_step [of None "[0x80 OR of_nat i]"] assms(3)
    by (simp add: HpackDecoder_decode_eq holder_ok_def start_state_def HpackDecoder_loop_nil obind_assoc
        del: ReprDecodeState_decode.simps Updater_update.simps)
qed

theorem hpack_decode_invariant_witness:
  "\<exists>d. HpackDecoder_decode (HpackDecoder_with_max_size 4096 1000) [0x80 OR of_nat 2] = Ok d \<and>
    HpackDecoder_ok d \<and> dt_ok (hpd_table d) \<and> Parts_ok (hl_parts (hpd_lines d)) \<and>
    hl_header_size (hpd_lines d) \<le> hpd_header_list_size d"
proof -
  obtain d where "HpackDecoder_decode (HpackDecoder_with_max_size 4096 1000) [0x80 OR of_nat 2] = Ok d"
    using decode_one_indexed [of 2 "HpackDecoder_with_max_size 4096 1000"]
    by (simp add: HpackDecoder_with_max_size_def Updater_update_indexed_def
        TableSearcher_search_header_def StaticTable_header_def Updater_defs header_line_length_def
        Parts_update_def)
  with hpack_decode_invariant [OF fresh_decoder_ok this] show ?thesis by blast
qed

text \<open>
  C32. Every representation round trips: for each of the seven states that the encoder can write,
  the decoder reads the same representation back from the octets and leaves what follows them,
  for indices other than 0 and strings whose lengths are below \<open>2 ^ 64\<close>.
\<close>

theorem representation_roundtrip:
  assumes "0 < i" "i < usize_limit" "string_fits h n" "string_fits h v"
  shows "\<forall>(st, repr) \<in> set
      [(Indexed_new i, Indexed i),
       (Indexing_new i v h, LiteralWithIndexing (Name_Index i) v),
       (IndexingWithName_new n v h, LiteralWithIndexing (Name_Literal n) v),
       (WithoutIndexing_new i v h, LiteralWithoutIndexing (Name_Index i) v),
       (WithoutIndexingWithName_new n v h, LiteralWithoutIndexing (Name_Literal n) v),
       (NeverIndexed_new i v h, LiteralNeverIndexed (Name_Index i) v),
       (NeverIndexedWithName_new n v h, LiteralNeverIndexed (Name_Literal n) v)].
    \<exists>octets. (\<forall>m \<ge> length octets. ReprEncodeState_encode st m = Ok octets) \<and>
      ReprDecodeState_decode (Index FirstByte) (octets @ rest) = Ok (Decoded repr, rest)"
proof -
  have "\<exists>octets. (\<forall>m \<ge> length octets. ReprEncodeState_encode st m = Ok octets) \<and>
      ReprDecodeState_decode (Index FirstByte) (octets @ rest) = Ok (Decoded repr, rest)"
    if "repr_ok st" "ReprDecodeState_decode (Index FirstByte) (repr_pending st @ rest) = Ok (Decoded repr, rest)"
    for st repr
    using repr_enc.enc_fits [OF that(1)] that(2) by (intro exI [of _ "repr_pending st"]) blast
  then show ?thesis
    using repr_new_ok decode_Indexed [OF assms(1,2)] decode_Literal_Index [OF assms(1,2,4)]
      decode_Literal_Name [OF assms(3,4)] by simp
qed

theorem representation_roundtrip_witness:
  "\<exists>octets. (\<forall>m \<ge> length octets. ReprEncodeState_encode (NeverIndexed_new 32 [0x61] True) m = Ok octets) \<and>
     ReprDecodeState_decode (Index FirstByte) (octets @ [0x82]) =
       Ok (Decoded (LiteralNeverIndexed (Name_Index 32) [0x61]), [0x82])"
proof -
  have "length (huffman_encode [0x61] []) \<le> 8"
    by (simp add: huffman_encode_def huffman_encode_byte_def HUFFMAN_ENCODE_def to_be_bytes_def Let_def)
  then have "string_fits True [0x61]" by (simp add: string_fits_def usize_limit_def)
  moreover have "(32 :: nat) < usize_limit" by (simp add: usize_limit_def)
  ultimately show ?thesis
    using representation_roundtrip [of 32 True "[0x61]" "[0x61]" "[0x82]"] by simp
qed

text \<open>
  A value is lost when a name is repeated: with the field \<open>x: a\<close> in the dynamic tables of both
  sides, the encoder writes the field \<open>x: b\<close> as the single octet of the index 62, and the decoder
  reads that octet as \<open>x: a\<close>.
\<close>

theorem hpack_repeated_name_loses_value:
  "let t = DynamicTable_update (DynamicTable_with_max_size 4096) (Other ''x'') ''a'';
       p = \<lparr>parts_pseudo = PseudoHeaders_new,
            parts_map = [(''x'', \<lparr>hv_inner = [into_bytes ''b''], hv_is_sensitive = False\<rparr>)]\<rparr>;
       e = (HpackEncoder_new 4096 False)\<lparr>he_table := t\<rparr>;
       d = (HpackDecoder_with_max_size 4096 1000)\<lparr>hpd_table := t\<rparr>
   in (\<exists>e'. HpackEncoder_encode (HpackEncoder_set_parts e p) 100 = Ok ([0xbe], e')) \<and>
      (\<exists>d'. HpackDecoder_decode d [0xbe] = Ok d' \<and>
         map_option hv_inner (Headers_get (parts_map (hl_parts (hpd_lines d'))) ''x'') = Some [into_bytes ''a''])"
proof -
  define t where "t = DynamicTable_update (DynamicTable_with_max_size 4096) (Other ''x'') ''a''"
  define p where "p = \<lparr>parts_pseudo = PseudoHeaders_new,
            parts_map = [(''x'', \<lparr>hv_inner = [into_bytes ''b''], hv_is_sensitive = False\<rparr>)]\<rparr>"
  define e where "e = HpackEncoder_set_parts ((HpackEncoder_new 4096 False)\<lparr>he_table := t\<rparr>) p"
  define d where "d = (HpackDecoder_with_max_size 4096 1000)\<lparr>hpd_table := t\<rparr>"
  have queue: "dt_queue t = [(Other ''x'', ''a'')]"
    using update_queue(1) [OF with_max_size_ok, of 4096 "Other ''x''" "''a''"]
    by (simp add: t_def DynamicTable_with_max_size_def entry_size_def)
  have fields: "pi_fields (PartsIter_new p) = [(Other ''x'', ''b'')]"
    by (simp add: p_def pi_fields_def PartsIter_new_def opt_field_def PseudoHeaders_new_def
        Headers_into_iter_def HeaderValue_to_vec_def Let_def)
  have "ReprEncoder_select t (Other ''x'') ''b'' False = (Indexed_new 62, t)"
    by (simp add: ReprEncoder_select_def TableSearcher_index_def DynamicTable_index_def queue
        StaticTable_index_headers_def)
  then have "he_content e = [0xbe]" "he_ok e"
    by (simp_all add: he_defs re_content_def re_fields_def re_ok_def e_def HpackEncoder_set_parts_def
        HpackEncoder_new_def fields repr_new_pending int_octets_def)
  with HpackEncoder_encode_fits [of e 100] have enc: "\<exists>e'. HpackEncoder_encode e 100 = Ok ([0xbe], e')" by simp
  have name: "HeaderName_try_from ''x'' = Ok ''x''"
    by (simp add: HeaderName_try_from_eq into_bytes_def byte_of_char_def header_char_def HEADER_CHARS_def
        from_utf8_unchecked_def char_of_byte_def char_of_def bit_0)
  have "hpd_holder d = None" by (simp add: d_def HpackDecoder_with_max_size_def)
  from decode_one_indexed [OF _ _ this, of 62] name have
    "\<exists>d'. HpackDecoder_decode d [0xbe] = Ok d' \<and>
      map_option hv_inner (Headers_get (parts_map (hl_parts (hpd_lines d'))) ''x'') = Some [into_bytes ''a'']"
    by (simp add: d_def HpackDecoder_with_max_size_def Updater_update_indexed_def Parts_new_def
        TableSearcher_search_header_def DynamicTable_header_def queue Updater_defs header_line_length_def
        Parts_update_def Headers_append_def HeaderValue_try_from_eq into_bytes_def byte_of_char_def
        HeaderValue_is_valid_def Headers_new_def Headers_get_def)
  with enc show ?thesis by (simp add: Let_def flip: t_def p_def e_def d_def)
qed

text \<open>The three literal representations with a literal name.\<close>

lemma literal_octets:
  assumes "octet \<in> {0x40, 0x00, 0x10 :: u8}" "string_fits huff n" "string_fits huff v"
  shows "\<exists>repr. ReprDecodeState_decode (Index FirstByte) (octet # string_octets huff n @ string_octets huff v @ rest) =
      Ok (Decoded repr, rest) \<and>
    repr \<in> {LiteralWithIndexing (Name_Literal n) v, LiteralWithoutIndexing (Name_Literal n) v, LiteralNeverIndexed (Name_Literal n) v}"
proof -
  have "repr_pending (IndexingWithName_new n v huff) = 0x40 # string_octets huff n @ string_octets huff v"
    "repr_pending (WithoutIndexingWithName_new n v huff) = 0x00 # string_octets huff n @ string_octets huff v"
    "repr_pending (NeverIndexedWithName_new n v huff) = 0x10 # string_octets huff n @ string_octets huff v"
    by (simp_all add: repr_new_pending int_octets_def pre_mask_def Let_def)
  then show ?thesis
    using assms(1) decode_Literal_Name [OF assms(2,3), of rest] by (auto simp del: ReprDecodeState_decode.simps)
qed

text \<open>
  C37. A peer can make the decoder panic: whatever its state between two representations, a literal field, with or without
  indexing or never indexed and with or without Huffman coding, whose name \<open>HeaderName\<close> refuses or whose value
  \<open>HeaderValue\<close> refuses, makes it panic, as long as the field is within the limit of the header list.
\<close>

theorem hpack_decode_panics:
  assumes "hpd_holder d = None" "octet \<in> {0x40, 0x00, 0x10}" "string_fits huff name" "string_fits huff value"
    and "hl_header_size (hpd_lines d) + header_line_length (length name) (length value) \<le> hpd_header_list_size d"
    and "HeaderName_try_from (from_utf8_unchecked name) = Err e \<or> HeaderValue_try_from (from_utf8_unchecked value) = Err e"
  shows "HpackDecoder_decode d (octet # string_octets huff name @ string_octets huff value @ rest) = Panic"
proof -
  let ?u = "\<lparr>up_header_list_size = hpd_header_list_size d, up_table = hpd_table d, up_lines = hpd_lines d\<rparr>"
  obtain repr where repr: "ReprDecodeState_decode (Index FirstByte)
      (octet # string_octets huff name @ string_octets huff value @ rest) = Ok (Decoded repr, rest)"
    and form: "repr \<in> {LiteralWithIndexing (Name_Literal name) value, LiteralWithoutIndexing (Name_Literal name) value,
      LiteralNeverIndexed (Name_Literal name) value}"
    using literal_octets [OF assms(2-4)] by blast
  have refused: "Parts_update p (Other (from_utf8_unchecked name)) (from_utf8_unchecked value) = Panic" for p
    using assms(6) by (auto simp: Parts_update_def Headers_append_def obind_eq_Ok split: outcome.split)
  have "Updater_update ?u repr = Panic"
    using form assms(5)
    by (auto simp: Updater_get_header_by_name_and_value_def Updater_defs from_utf8_unchecked_def
        refused [unfolded from_utf8_unchecked_def])
  then show ?thesis
    using HpackDecoder_loop_step [of None "octet # string_octets huff name @ string_octets huff value @ rest" ?u] repr assms(1)
    by (simp add: HpackDecoder_decode_eq holder_ok_def start_state_def del: ReprDecodeState_decode.simps)
qed

theorem hpack_decode_panics_witness:
  "HpackDecoder_decode (HpackDecoder_with_max_size 4096 16384)
     (0x00 # string_octets False [0x3A] @ string_octets False [0x61] @ [0x82]) = Panic \<and>
   string_octets False [0x3A] = [0x01, 0x3A]"
proof -
  let ?d = "HpackDecoder_with_max_size 4096 16384"
  have d: "hpd_holder ?d = None" "string_fits False [0x3A]" "string_fits False [0x61]"
    "hl_header_size (hpd_lines ?d) + header_line_length (length [0x3A :: u8]) (length [0x61 :: u8]) \<le> hpd_header_list_size ?d"
    "HeaderName_try_from (from_utf8_unchecked [0x3A]) = Err InvalidInput"
    by (simp_all add: HpackDecoder_with_max_size_def string_fits_def usize_limit_def header_line_length_def
        HeaderName_try_from_eq header_char_def HEADER_CHARS_def from_utf8_unchecked_def into_bytes_def)
  have "HpackDecoder_decode ?d (0x00 # string_octets False [0x3A] @ string_octets False [0x61] @ [0x82]) = Panic"
    by (rule hpack_decode_panics [OF d(1) _ d(2-4) disjI1 [OF d(5)]]) simp
  then show ?thesis by (simp add: string_octets_def int_octets_def pre_mask_def)
qed

text \<open>
  The static entries without a value cannot be used as whole fields: an indexed field with one of
  the indices 1, 15 and 17 to 61 is refused with a compression error in every decoder that is between
  fields.
\<close>

theorem hpack_static_empty_values_refused:
  assumes "i = 1 \<or> i = 15 \<or> 17 \<le> i \<and> i \<le> 61" "hpd_holder d = None"
  shows "HpackDecoder_decode d [0x80 OR of_nat i] = Err (ConnectionError CompressionError)"
proof -
  have "0 < i" "i < 127" "i \<le> 61" using assms(1) by auto
  moreover have "StaticTable_header i = None" using assms(1) by (auto simp: StaticTable_header_def)
  ultimately show ?thesis
    by (simp add: decode_one_indexed assms(2) Updater_update_indexed_def TableSearcher_search_header_def)
qed

theorem hpack_static_empty_values_refused_witness:
  "HpackDecoder_decode (HpackDecoder_with_max_size 4096 16384) [0xa0] = Err (ConnectionError CompressionError)"
  using hpack_static_empty_values_refused [of 32 "HpackDecoder_with_max_size 4096 16384"]
  by (simp add: HpackDecoder_with_max_size_def)

text \<open>
  The peer sets the limit of the decoder's table: a size update with any \<open>usize\<close> value is taken,
  whatever size the decoder was made with.
\<close>

theorem hpack_size_update_unbounded:
  assumes "n < usize_limit"
  shows "\<exists>d. HpackDecoder_decode (HpackDecoder_with_max_size m l) (int_octets n 0x1f 0x20) = Ok d \<and>
    dt_max_size (hpd_table d) = n"
proof -
  have "ReprDecodeState_decode (Index FirstByte) (int_octets n 0x1f 0x20) = Ok (Decoded (SizeUpdate n), [])"
    using FirstByte_decode_octets [of "0x1f" "0x20" n "[]"] assms
    by (simp add: repr_prefix_def Index_decode_def PrefixBit_defs)
  moreover have "int_octets n 0x1f 0x20 \<noteq> []" using int_octets_first [of n "0x1f" "0x20"] by auto
  ultimately show ?thesis
    using HpackDecoder_loop_step [of None "int_octets n 0x1f 0x20"] update_size_queue(2) [OF with_max_size_ok]
    by (simp add: HpackDecoder_decode_eq HpackDecoder_with_max_size_def holder_ok_def start_state_def
        HpackDecoder_loop_nil del: ReprDecodeState_decode.simps)
qed

theorem hpack_size_update_unbounded_witness:
  "\<exists>d. HpackDecoder_decode (HpackDecoder_with_max_size 4096 16384) (int_octets 1000000 0x1f 0x20) = Ok d \<and>
    dt_max_size (hpd_table d) = 1000000"
  using hpack_size_update_unbounded [of 1000000 4096 16384] by (simp add: usize_limit_def)

end
