(* ===== verification/H2_Encoder.thy ===== *)
theory H2_Encoder
  imports H2_Frame Hpack
begin

text \<open>
  The frame encoder (\<^verbatim>\<open>h2/encoder.rs\<close>): a state machine that writes the current frame into buffers of
  any sizes. The buffer is an argument and a result of every operation, because an operation may
  leave some of its octets as they were; the octets beyond the number that is returned are of no
  interest to the caller.
\<close>

section \<open>State\<close>

definition ENCODER_MAX_FRAME_SIZE :: nat where "ENCODER_MAX_FRAME_SIZE = 16384"
definition ENCODER_HEADER_TABLE_SIZE :: nat where "ENCODER_HEADER_TABLE_SIZE = 4096"

datatype FrameEncoderErr =
    EncodingData | UnexpectedPayloadType | NoCurrentFrame | EncoderInternalError | HeadersNotEnd

datatype FrameEncoderState =
    Idle
  | EncodingHeadersFrame | EncodingHeadersPayload | EncodingHeadersPadding
  | EncodingContinuationFrames | HeadersComplete
  | EncodingDataHeader | EncodingDataPayload | EncodingDataPadding
  | EncodingSettingsFrame | EncodingSettingsPayload
  | EncodingGoawayFrame | EncodingGoawayPayload
  | EncodingWindowUpdateFrame | EncodingWindowUpdatePayload
  | EncodingPriorityFrame | EncodingPriorityPayload
  | EncodingRstStreamFrame | EncodingRstStreamPayload
  | EncodingPingFrame | EncodingPingPayload
  | DataComplete

record FrameEncoder =
  fe_current_frame :: "Frame option"
  fe_max_frame_size :: nat
  fe_max_header_list_size :: nat
  fe_hpack_encoder :: HpackEncoder
  fe_state :: FrameEncoderState
  fe_encoded_bytes :: nat
  fe_data_offset :: nat
  fe_remaining_header_payload :: nat
  fe_remaining_payload_bytes :: nat
  fe_is_end_stream :: bool
  fe_is_end_headers :: bool
  fe_header_payload_buffer :: bytes
  fe_header_payload_index :: nat

type_synonym 'a encoded = "(nat \<times> bytes \<times> 'a, FrameEncoderErr) outcome"

definition FrameEncoder_new :: "nat \<Rightarrow> bool \<Rightarrow> FrameEncoder" where
  "FrameEncoder_new max_frame_size use_huffman =
     \<lparr>fe_current_frame = None, fe_max_frame_size = max_frame_size,
      fe_max_header_list_size = usize_limit - 1,
      fe_hpack_encoder = HpackEncoder_new ENCODER_HEADER_TABLE_SIZE use_huffman,
      fe_state = Idle, fe_encoded_bytes = 0, fe_data_offset = 0, fe_remaining_header_payload = 0,
      fe_remaining_payload_bytes = 0, fe_is_end_stream = False, fe_is_end_headers = False,
      fe_header_payload_buffer = replicate ENCODER_MAX_FRAME_SIZE 0, fe_header_payload_index = 0\<rparr>"

text \<open>
  \<^verbatim>\<open>self.hpack_encoder.encode(&mut self.header_payload_buffer)\<close>: the compressed headers, as much as
  fits. The compression has no error of its own.
\<close>

definition hpack_fill :: "FrameEncoder \<Rightarrow> (FrameEncoder, FrameEncoderErr) outcome" where
  "hpack_fill e =
     (case HpackEncoder_encode (fe_hpack_encoder e) (length (fe_header_payload_buffer e)) of
        Ok (out, h) \<Rightarrow>
          Ok (e\<lparr>fe_hpack_encoder := h,
                fe_header_payload_buffer := out @ drop (length out) (fe_header_payload_buffer e),
                fe_remaining_header_payload := length out\<rparr>)
      | _ \<Rightarrow> Panic)"

definition FrameEncoder_set_frame :: "FrameEncoder \<Rightarrow> Frame \<Rightarrow> (FrameEncoder, FrameEncoderErr) outcome" where
  "FrameEncoder_set_frame e frame =
     (let e = e\<lparr>fe_is_end_stream := FrameFlags_is_end_stream (fr_flags frame),
                fe_is_end_headers := FrameFlags_is_end_headers (fr_flags frame),
                fe_current_frame := Some frame, fe_encoded_bytes := 0\<rparr> in
      case fr_payload frame of
        PL_Headers headers \<Rightarrow>
          if \<not> fe_is_end_headers e then Err HeadersNotEnd
          else
            obind (hpack_fill (e\<lparr>fe_hpack_encoder := HpackEncoder_set_parts (fe_hpack_encoder e) headers,
                                 fe_header_payload_index := 0\<rparr>)) (\<lambda>e.
              Ok (e\<lparr>fe_state := EncodingHeadersFrame\<rparr>))
      | PL_Priority _ \<Rightarrow> Ok (e\<lparr>fe_state := EncodingPriorityFrame\<rparr>)
      | PL_RstStream _ \<Rightarrow> Ok (e\<lparr>fe_state := EncodingRstStreamFrame\<rparr>)
      | PL_Ping _ \<Rightarrow> Ok (e\<lparr>fe_state := EncodingPingFrame\<rparr>)
      | PL_Data data \<Rightarrow>
          Ok (e\<lparr>fe_data_offset := 0, fe_remaining_payload_bytes := length data,
                fe_state := EncodingDataHeader\<rparr>)
      | PL_Settings _ \<Rightarrow> Ok (e\<lparr>fe_state := EncodingSettingsFrame\<rparr>)
      | PL_Goaway _ \<Rightarrow> Ok (e\<lparr>fe_state := EncodingGoawayFrame\<rparr>)
      | PL_WindowUpdate _ \<Rightarrow> Ok (e\<lparr>fe_state := EncodingWindowUpdateFrame\<rparr>)
      | PL_PushPromise _ \<Rightarrow> Ok e)"

definition FrameEncoder_update_setting :: "FrameEncoder \<Rightarrow> Setting \<Rightarrow> FrameEncoder" where
  "FrameEncoder_update_setting e setting =
     (case fe_current_frame e of
        Some frame \<Rightarrow>
          (case fr_payload frame of
             PL_Settings settings \<Rightarrow>
               e\<lparr>fe_current_frame :=
                   Some (frame\<lparr>fr_payload := PL_Settings (Settings_update_setting settings setting)\<rparr>)\<rparr>
           | _ \<Rightarrow> e)
      | None \<Rightarrow> e)"

definition FrameEncoder_update_max_frame_size :: "FrameEncoder \<Rightarrow> nat \<Rightarrow> FrameEncoder" where
  "FrameEncoder_update_max_frame_size e sz = e\<lparr>fe_max_frame_size := sz\<rparr>"

definition FrameEncoder_update_header_table_size :: "FrameEncoder \<Rightarrow> nat \<Rightarrow> FrameEncoder" where
  "FrameEncoder_update_header_table_size e sz =
     e\<lparr>fe_hpack_encoder := HpackEncoder_update_max_dynamic_table_size (fe_hpack_encoder e) sz\<rparr>"

definition FrameEncoder_update_max_header_list_size :: "FrameEncoder \<Rightarrow> nat \<Rightarrow> FrameEncoder" where
  "FrameEncoder_update_max_header_list_size e sz = e\<lparr>fe_max_header_list_size := sz\<rparr>"

definition finish_current_frame :: "FrameEncoder \<Rightarrow> FrameEncoder" where
  "finish_current_frame e =
     e\<lparr>fe_header_payload_index := 0, fe_is_end_stream := False, fe_current_frame := None,
       fe_is_end_headers := False, fe_remaining_header_payload := 0, fe_encoded_bytes := 0\<rparr>"

definition read_rest_payload :: "FrameEncoder \<Rightarrow> (FrameEncoder, FrameEncoderErr) outcome" where
  "read_rest_payload e = hpack_fill (e\<lparr>fe_header_payload_index := 0\<rparr>)"

definition try_retrieve_current_frame :: "FrameEncoder \<Rightarrow> (Frame, FrameEncoderErr) outcome" where
  "try_retrieve_current_frame e =
     (case fe_current_frame e of Some frame \<Rightarrow> Ok frame | None \<Rightarrow> Err NoCurrentFrame)"

section \<open>Writing octets\<close>

text \<open>\<^verbatim>\<open>for (buf_index, item) in buf.iter_mut().enumerate().take(len)\<close>\<close>

fun fill_octets :: "(nat \<Rightarrow> (u8, 'e) outcome) \<Rightarrow> nat \<Rightarrow> nat \<Rightarrow> bytes \<Rightarrow> (bytes, 'e) outcome" where
  "fill_octets item i 0 buf = Ok buf"
| "fill_octets item i (Suc n) [] = Ok []"
| "fill_octets item i (Suc n) (b # buf) =
     obind (item i) (\<lambda>x. obind (fill_octets item (Suc i) n buf) (\<lambda>xs. Ok (x # xs)))"

text \<open>\<^verbatim>\<open>for buf_index in i..i + n\<close>, with a body that writes anywhere into the buffer.\<close>

fun for_range :: "(nat \<Rightarrow> bytes \<Rightarrow> (bytes, 'e) outcome) \<Rightarrow> nat \<Rightarrow> nat \<Rightarrow> bytes \<Rightarrow> (bytes, 'e) outcome" where
  "for_range body i 0 buf = Ok buf"
| "for_range body i (Suc n) buf = obind (body i buf) (\<lambda>buf. for_range body (Suc i) n buf)"

definition set_at :: "bytes \<Rightarrow> nat \<Rightarrow> u8 \<Rightarrow> (bytes, 'e) outcome" where
  "set_at buf i x = (if i < length buf then Ok (buf[i := x]) else Panic)"

text \<open>\<^verbatim>\<open>((n >> k) & 0xFF) as u8\<close> of a \<^verbatim>\<open>usize\<close> and \<^verbatim>\<open>(w >> k) as u8\<close> of a \<^verbatim>\<open>u32\<close>.\<close>

definition shr_usize :: "nat \<Rightarrow> nat \<Rightarrow> u8" where
  "shr_usize n k = of_nat (n div 2 ^ k mod 256)"

definition shr_u32 :: "u32 \<Rightarrow> nat \<Rightarrow> u8" where
  "shr_u32 w k = ucast (drop_bit k w)"

text \<open>\<^verbatim>\<open>buf[..n].copy_from_slice(data)\<close>, where \<open>n\<close> is the length of \<open>data\<close> and at most that of \<open>buf\<close>.\<close>

definition copy_front :: "bytes \<Rightarrow> bytes \<Rightarrow> bytes" where
  "copy_front buf data = data @ drop (length data) buf"

definition encode_slice :: "FrameEncoder \<Rightarrow> bytes \<Rightarrow> bytes \<Rightarrow> (nat \<times> bytes, FrameEncoderErr) outcome" where
  "encode_slice e buf data =
     (let start = fe_data_offset e in
      obind (usize_sub (fe_max_frame_size e) start) (\<lambda>room.
        let allow_to_write = min room (fe_remaining_payload_bytes e);
            bytes_to_write = min allow_to_write (length buf) in
        obind (slice data start (start + bytes_to_write)) (\<lambda>part.
          Ok (bytes_to_write, copy_front buf part))))"

definition write_payload :: "FrameEncoder \<Rightarrow> bytes \<Rightarrow> nat \<Rightarrow> FrameEncoder encoded" where
  "write_payload e buf payload_len =
     obind (usize_sub payload_len (fe_header_payload_index e)) (\<lambda>left.
       let bytes_to_write = min (length buf) left in
       obind (slice (fe_header_payload_buffer e) (fe_header_payload_index e)
                (fe_header_payload_index e + bytes_to_write)) (\<lambda>part.
         Ok (bytes_to_write, copy_front buf part,
             e\<lparr>fe_header_payload_index := fe_header_payload_index e + bytes_to_write\<rparr>)))"

text \<open>How many octets of the frame header are left, and at most as many as the buffer takes.\<close>

definition header_bytes_to_write :: "FrameEncoder \<Rightarrow> bytes \<Rightarrow> nat" where
  "header_bytes_to_write e buf =
     min (if fe_encoded_bytes e \<ge> 9 then 0 else 9 - fe_encoded_bytes e) (length buf)"

section \<open>HEADERS and CONTINUATION\<close>

definition iterate_headers_header ::
  "FrameEncoder \<Rightarrow> Frame \<Rightarrow> bytes \<Rightarrow> nat \<Rightarrow> (bytes, FrameEncoderErr) outcome" where
  "iterate_headers_header e frame buf len =
     fill_octets (\<lambda>buf_index.
       let i = fe_encoded_bytes e + buf_index in
       if i \<le> 2 then Ok (shr_usize (fe_remaining_header_payload e) (16 - 8 * i))
       else if i = 3 then Ok (FrameType_as_u8 FT_Headers)
       else if i = 4 then
         Ok (if HpackEncoder_is_finished (fe_hpack_encoder e) then fr_flags frame else fr_flags frame AND 0xFB)
       else if i \<le> 8 then Ok (shr_u32 (fr_id frame) (24 - 8 * (i - 5)))
       else Err EncoderInternalError) 0 len buf"

definition headers_header_status :: "FrameEncoder \<Rightarrow> (FrameEncoder, FrameEncoderErr) outcome" where
  "headers_header_status e =
     (if fe_header_payload_index e < fe_remaining_header_payload e
      then Ok (e\<lparr>fe_state := EncodingHeadersPayload\<rparr>)
      else if HpackEncoder_is_finished (fe_hpack_encoder e)
      then Ok ((finish_current_frame e)\<lparr>fe_state := HeadersComplete\<rparr>)
      else obind (read_rest_payload e) (\<lambda>e. Ok (e\<lparr>fe_state := EncodingContinuationFrames\<rparr>)))"

definition is_headers :: "Frame \<Rightarrow> bool" where
  "is_headers frame = (case fr_payload frame of PL_Headers _ \<Rightarrow> True | _ \<Rightarrow> False)"

definition encode_headers_frame :: "FrameEncoder \<Rightarrow> bytes \<Rightarrow> FrameEncoder encoded" where
  "encode_headers_frame e buf =
     obind (try_retrieve_current_frame e) (\<lambda>frame.
       if is_headers frame then
         let bytes_to_write = header_bytes_to_write e buf in
         obind (iterate_headers_header e frame buf bytes_to_write) (\<lambda>buf.
           let e = e\<lparr>fe_encoded_bytes := fe_encoded_bytes e + bytes_to_write\<rparr> in
           if fe_encoded_bytes e \<ge> 9 then
             obind (write_payload e (drop bytes_to_write buf) (fe_remaining_header_payload e)) (\<lambda>(n, rest, e).
             obind (headers_header_status (e\<lparr>fe_encoded_bytes := fe_encoded_bytes e + n\<rparr>)) (\<lambda>e.
               Ok (bytes_to_write + n, take bytes_to_write buf @ rest, e)))
           else Ok (bytes_to_write, buf, e))
       else Err UnexpectedPayloadType)"

definition encode_headers_payload :: "FrameEncoder \<Rightarrow> bytes \<Rightarrow> FrameEncoder encoded" where
  "encode_headers_payload e buf =
     obind (try_retrieve_current_frame e) (\<lambda>frame.
       if is_headers frame then
         if buf = [] then Ok (0, buf, e)
         else
           obind (write_payload e buf (fe_remaining_header_payload e)) (\<lambda>(n, buf, e).
           obind (headers_header_status (e\<lparr>fe_encoded_bytes := fe_encoded_bytes e + n\<rparr>)) (\<lambda>e.
             Ok (n, buf, e)))
       else Err UnexpectedPayloadType)"

definition write_continuation_header ::
  "FrameEncoder \<Rightarrow> Frame \<Rightarrow> bytes \<Rightarrow> nat \<Rightarrow> (bytes, FrameEncoderErr) outcome" where
  "write_continuation_header e frame buf continuation_frame_len =
     (let new_flags =
            (if fe_remaining_header_payload e \<le> fe_max_frame_size e \<and>
                HpackEncoder_is_finished (fe_hpack_encoder e) \<and> fe_is_end_headers e
             then FrameFlags_set_end_headers FrameFlags_empty True
             else FrameFlags_empty) in
      obind (fill_octets (\<lambda>i. Ok (shr_usize continuation_frame_len (16 - 8 * i))) 0 3 buf) (\<lambda>buf.
      obind (set_at buf 3 (FrameType_as_u8 FT_Continuation)) (\<lambda>buf.
      obind (set_at buf 4 new_flags) (\<lambda>buf.
        for_range (\<lambda>i buf. set_at buf (5 + i) (shr_u32 (fr_id frame) (24 - 8 * i))) 0 4 buf))))"

definition encode_continuation_frames :: "FrameEncoder \<Rightarrow> bytes \<Rightarrow> FrameEncoder encoded" where
  "encode_continuation_frames e buf =
     obind (try_retrieve_current_frame e) (\<lambda>frame.
       if is_headers frame then
         if length buf < 9 then Ok (0, buf, e)
         else
           let continuation_frame_len = min (fe_remaining_header_payload e) (fe_max_frame_size e) in
           obind (write_continuation_header e frame buf continuation_frame_len) (\<lambda>buf.
           obind (write_payload e (drop 9 buf) continuation_frame_len) (\<lambda>(n, rest, e).
           obind (headers_header_status (e\<lparr>fe_encoded_bytes := fe_encoded_bytes e + n\<rparr>)) (\<lambda>e.
             Ok (9 + n, take 9 buf @ rest, e))))
       else Err UnexpectedPayloadType)"

section \<open>DATA\<close>

definition iterate_data_header ::
  "FrameEncoder \<Rightarrow> Frame \<Rightarrow> bytes \<Rightarrow> nat \<Rightarrow> nat \<Rightarrow> (bytes, FrameEncoderErr) outcome" where
  "iterate_data_header e frame buf payload_len len =
     fill_octets (\<lambda>buf_index.
       let i = fe_encoded_bytes e + buf_index in
       if i \<le> 2 then Ok (shr_usize payload_len (16 - 8 * i))
       else if i = 3 then Ok (FrameType_as_u8 (Payload_frame_type (fr_payload frame)))
       else if i = 4 then
         Ok (if fe_remaining_payload_bytes e \<le> fe_max_frame_size e then fr_flags frame else fr_flags frame AND 0xFE)
       else if i \<le> 8 then Ok (shr_u32 (fr_id frame) (24 - 8 * (i - 5)))
       else Err EncoderInternalError) 0 len buf"

definition encode_data_header :: "FrameEncoder \<Rightarrow> bytes \<Rightarrow> FrameEncoder encoded" where
  "encode_data_header e buf =
     obind (try_retrieve_current_frame e) (\<lambda>frame.
       case fr_payload frame of
         PL_Data _ \<Rightarrow>
           let bytes_to_write = header_bytes_to_write e buf in
           obind (iterate_data_header e frame buf
                    (min (fe_remaining_payload_bytes e) (fe_max_frame_size e)) bytes_to_write) (\<lambda>buf.
             let e = e\<lparr>fe_encoded_bytes := fe_encoded_bytes e + bytes_to_write\<rparr>;
                 e = (if fe_encoded_bytes e = 9
                      then e\<lparr>fe_encoded_bytes := 0, fe_state := EncodingDataPayload\<rparr> else e) in
             Ok (bytes_to_write, buf, e))
       | _ \<Rightarrow> Err UnexpectedPayloadType)"

definition encode_data_payload :: "FrameEncoder \<Rightarrow> bytes \<Rightarrow> FrameEncoder encoded" where
  "encode_data_payload e buf =
     obind (try_retrieve_current_frame e) (\<lambda>frame.
       case fr_payload frame of
         PL_Data payload \<Rightarrow>
           obind (encode_slice e buf payload) (\<lambda>(n, buf).
             let e = e\<lparr>fe_data_offset := fe_data_offset e + n\<rparr> in
             obind (usize_sub (fe_remaining_payload_bytes e) n) (\<lambda>left.
               let e = e\<lparr>fe_remaining_payload_bytes := left\<rparr>;
                   e = (if fe_remaining_payload_bytes e = 0
                        then e\<lparr>fe_data_offset := 0, fe_state := DataComplete\<rparr>
                        else if fe_data_offset e = fe_max_frame_size e
                        then e\<lparr>fe_data_offset := 0, fe_state := EncodingDataHeader\<rparr>
                        else e\<lparr>fe_state := EncodingDataPayload\<rparr>) in
               Ok (n, buf, e)))
       | _ \<Rightarrow> Err UnexpectedPayloadType)"

definition encode_padding :: "FrameEncoder \<Rightarrow> bytes \<Rightarrow> FrameEncoder encoded" where
  "encode_padding e buf =
     obind (try_retrieve_current_frame e) (\<lambda>frame.
       if FrameFlags_is_padded (fr_flags frame) then
         case fr_payload frame of
           PL_Data data \<Rightarrow>
             obind (usize_sub (length data) (fe_encoded_bytes e)) (\<lambda>remaining_padding_bytes.
               let bytes_to_write = min remaining_padding_bytes (length buf) in
               obind (fill_octets (\<lambda>_. Ok 0) 0 bytes_to_write buf) (\<lambda>buf.
                 let e = e\<lparr>fe_encoded_bytes := fe_encoded_bytes e + bytes_to_write\<rparr>;
                     e = (if fe_encoded_bytes e = length data then e\<lparr>fe_state := DataComplete\<rparr> else e) in
                 Ok (bytes_to_write, buf, e)))
         | _ \<Rightarrow> Err UnexpectedPayloadType
       else Ok (0, buf, e))"

section \<open>GOAWAY\<close>

definition iterate_goaway_header ::
  "FrameEncoder \<Rightarrow> Frame \<Rightarrow> bytes \<Rightarrow> nat \<Rightarrow> (bytes, FrameEncoderErr) outcome" where
  "iterate_goaway_header e frame buf len =
     fill_octets (\<lambda>buf_index.
       let i = fe_encoded_bytes e + buf_index in
       if i \<le> 2 then
         (case fr_payload frame of
            PL_Goaway g \<Rightarrow> Ok (shr_usize (Goaway_encoded_len g) (8 * (2 - i)))
          | _ \<Rightarrow> Err UnexpectedPayloadType)
       else if i = 3 then Ok (FrameType_as_u8 FT_Goaway)
       else if i = 4 then Ok (fr_flags frame)
       else if i \<le> 8 then Ok (shr_u32 (fr_id frame) (24 - 8 * (i - 5)))
       else Err EncoderInternalError) 0 len buf"

definition encode_goaway_frame :: "FrameEncoder \<Rightarrow> bytes \<Rightarrow> FrameEncoder encoded" where
  "encode_goaway_frame e buf =
     obind (try_retrieve_current_frame e) (\<lambda>frame.
       case fr_payload frame of
         PL_Goaway _ \<Rightarrow>
           let bytes_to_write = header_bytes_to_write e buf in
           obind (iterate_goaway_header e frame buf bytes_to_write) (\<lambda>buf.
             let e = e\<lparr>fe_encoded_bytes := fe_encoded_bytes e + bytes_to_write\<rparr>;
                 e = (if fe_encoded_bytes e = 9 then e\<lparr>fe_state := EncodingGoawayPayload\<rparr> else e) in
             Ok (bytes_to_write, buf, e))
       | _ \<Rightarrow> Err UnexpectedPayloadType)"

definition iterate_goaway_payload ::
  "FrameEncoder \<Rightarrow> Goaway \<Rightarrow> bytes \<Rightarrow> nat \<Rightarrow> (bytes, FrameEncoderErr) outcome" where
  "iterate_goaway_payload e goaway buf len =
     fill_octets (\<lambda>buf_index.
       obind (usize_sub (fe_encoded_bytes e) 9) (\<lambda>done_bytes.
         let i = done_bytes + buf_index in
         if i \<le> 3 then Ok (shr_u32 (ga_last_stream_id goaway) (24 - 8 * i))
         else if i \<le> 7 then Ok (shr_u32 (ga_error_code goaway) (24 - 8 * (i - 4)))
         else if i - 8 < length (ga_debug_data goaway) then Ok (ga_debug_data goaway ! (i - 8))
         else Err EncoderInternalError)) 0 len buf"

definition encode_goaway_payload :: "FrameEncoder \<Rightarrow> bytes \<Rightarrow> FrameEncoder encoded" where
  "encode_goaway_payload e buf =
     obind (try_retrieve_current_frame e) (\<lambda>frame.
       case fr_payload frame of
         PL_Goaway goaway \<Rightarrow>
           let payload_size = Goaway_encoded_len goaway;
               bytes_to_write = min (payload_size - (fe_encoded_bytes e - 9)) (length buf) in
           obind (iterate_goaway_payload e goaway buf bytes_to_write) (\<lambda>buf.
             let e = e\<lparr>fe_encoded_bytes := fe_encoded_bytes e + bytes_to_write\<rparr>;
                 e = (if fe_encoded_bytes e = 9 + payload_size then e\<lparr>fe_state := DataComplete\<rparr> else e) in
             Ok (bytes_to_write, buf, e))
       | _ \<Rightarrow> Err UnexpectedPayloadType)"

section \<open>WINDOW\_UPDATE\<close>

definition iterate_window_update_header ::
  "FrameEncoder \<Rightarrow> Frame \<Rightarrow> bytes \<Rightarrow> nat \<Rightarrow> (bytes, FrameEncoderErr) outcome" where
  "iterate_window_update_header e frame buf len =
     fill_octets (\<lambda>buf_index.
       let i = fe_encoded_bytes e + buf_index in
       if i \<le> 1 then Ok 0
       else if i = 2 then Ok 4
       else if i = 3 then Ok (FrameType_as_u8 FT_WindowUpdate)
       else if i = 4 then Ok (fr_flags frame)
       else if i \<le> 8 then Ok (shr_u32 (fr_id frame) (24 - 8 * (i - 5)))
       else Err EncoderInternalError) 0 len buf"

definition encode_window_update_frame :: "FrameEncoder \<Rightarrow> bytes \<Rightarrow> FrameEncoder encoded" where
  "encode_window_update_frame e buf =
     obind (try_retrieve_current_frame e) (\<lambda>frame.
       case fr_payload frame of
         PL_WindowUpdate _ \<Rightarrow>
           let bytes_to_write = header_bytes_to_write e buf in
           obind (iterate_window_update_header e frame buf bytes_to_write) (\<lambda>buf.
             let e = e\<lparr>fe_encoded_bytes := fe_encoded_bytes e + bytes_to_write\<rparr>;
                 e = (if fe_encoded_bytes e = 9
                      then e\<lparr>fe_state := EncodingWindowUpdatePayload, fe_encoded_bytes := 0\<rparr> else e) in
             Ok (bytes_to_write, buf, e))
       | _ \<Rightarrow> Err UnexpectedPayloadType)"

definition encode_window_update_payload :: "FrameEncoder \<Rightarrow> bytes \<Rightarrow> FrameEncoder encoded" where
  "encode_window_update_payload e buf =
     obind (try_retrieve_current_frame e) (\<lambda>frame.
       case fr_payload frame of
         PL_WindowUpdate increment \<Rightarrow>
           let bytes_to_write = min (4 - (fe_encoded_bytes e - 9)) (length buf) in
           obind (fill_octets (\<lambda>buf_index.
                    obind (usize_sub 24 (8 * (fe_encoded_bytes e - 9 + buf_index))) (\<lambda>k.
                      Ok (shr_u32 increment k))) 0 bytes_to_write buf) (\<lambda>buf.
             let e = e\<lparr>fe_encoded_bytes := fe_encoded_bytes e + bytes_to_write\<rparr>;
                 e = (if fe_encoded_bytes e = 4 then e\<lparr>fe_state := DataComplete\<rparr> else e) in
             Ok (bytes_to_write, buf, e))
       | _ \<Rightarrow> Err UnexpectedPayloadType)"

section \<open>SETTINGS\<close>

text \<open>The header loops of SETTINGS and PING write some octets to fixed positions of the buffer.\<close>

definition iterate_settings_header ::
  "FrameEncoder \<Rightarrow> Frame \<Rightarrow> bytes \<Rightarrow> nat \<Rightarrow> nat \<Rightarrow> (bytes, FrameEncoderErr) outcome" where
  "iterate_settings_header e frame buf payload_len len =
     for_range (\<lambda>buf_index buf.
       let i = fe_encoded_bytes e + buf_index in
       if i \<le> 2 then set_at buf buf_index (shr_usize payload_len (16 - 8 * buf_index))
       else if i = 3 then set_at buf 3 (FrameType_as_u8 FT_Settings)
       else if i = 4 then set_at buf 4 (fr_flags frame)
       else if i \<le> 8 then set_at buf buf_index 0
       else Err EncoderInternalError) 0 len buf"

definition encode_settings_frame :: "FrameEncoder \<Rightarrow> bytes \<Rightarrow> FrameEncoder encoded" where
  "encode_settings_frame e buf =
     obind (try_retrieve_current_frame e) (\<lambda>frame.
       case fr_payload frame of
         PL_Settings settings \<Rightarrow>
           let bytes_to_write = header_bytes_to_write e buf in
           obind (iterate_settings_header e frame buf (length settings * 6) bytes_to_write) (\<lambda>buf.
             let e = e\<lparr>fe_encoded_bytes := fe_encoded_bytes e + bytes_to_write\<rparr>;
                 e = (if fe_encoded_bytes e = 9 then e\<lparr>fe_state := EncodingSettingsPayload\<rparr> else e) in
             Ok (bytes_to_write, buf, e))
       | _ \<Rightarrow> Err UnexpectedPayloadType)"

fun setting_id_value :: "Setting \<Rightarrow> nat \<times> u32" where
  "setting_id_value (HeaderTableSize v) = (1, v)"
| "setting_id_value (EnablePush v) = (2, if v then 1 else 0)"
| "setting_id_value (MaxConcurrentStreams v) = (3, v)"
| "setting_id_value (InitialWindowSize v) = (4, v)"
| "setting_id_value (MaxFrameSize v) = (5, v)"
| "setting_id_value (MaxHeaderListSize v) = (6, v)"

definition iterate_settings_payload ::
  "FrameEncoder \<Rightarrow> Settings \<Rightarrow> bytes \<Rightarrow> nat \<Rightarrow> (bytes, FrameEncoderErr) outcome" where
  "iterate_settings_payload e settings buf len =
     fill_octets (\<lambda>buf_index.
       obind (usize_sub (fe_encoded_bytes e) 9) (\<lambda>done_bytes.
         let i = done_bytes + buf_index in
         case get_nth settings (i div 6) of
           Some setting \<Rightarrow>
             (case setting_id_value setting of (ident, v) \<Rightarrow>
                if i mod 6 \<le> 1 then Ok (shr_usize ident (8 * (1 - i mod 6)))
                else Ok (shr_u32 v (8 * (3 - (i mod 6 - 2)))))
         | None \<Rightarrow> Err EncoderInternalError)) 0 len buf"

definition encode_settings_payload :: "FrameEncoder \<Rightarrow> bytes \<Rightarrow> FrameEncoder encoded" where
  "encode_settings_payload e buf =
     obind (try_retrieve_current_frame e) (\<lambda>frame.
       case fr_payload frame of
         PL_Settings settings \<Rightarrow>
           let settings_len = length settings * 6;
               bytes_to_write = min (settings_len - (fe_encoded_bytes e - 9)) (length buf) in
           obind (iterate_settings_payload e settings buf bytes_to_write) (\<lambda>buf.
             let e = e\<lparr>fe_encoded_bytes := fe_encoded_bytes e + bytes_to_write\<rparr>;
                 e = (if fe_encoded_bytes e = 9 + settings_len then e\<lparr>fe_state := DataComplete\<rparr> else e) in
             Ok (bytes_to_write, buf, e))
       | _ \<Rightarrow> Err UnexpectedPayloadType)"

section \<open>PRIORITY\<close>

definition iterate_priority_header ::
  "FrameEncoder \<Rightarrow> Frame \<Rightarrow> bytes \<Rightarrow> nat \<Rightarrow> (bytes, FrameEncoderErr) outcome" where
  "iterate_priority_header e frame buf len =
     fill_octets (\<lambda>buf_index.
       let i = fe_encoded_bytes e + buf_index in
       if i \<le> 2 then Ok (shr_usize 5 (16 - 8 * i))
       else if i = 3 then Ok (FrameType_as_u8 (Payload_frame_type (fr_payload frame)))
       else if i = 4 then Ok (fr_flags frame)
       else if i \<le> 8 then Ok (shr_u32 (fr_id frame) (24 - 8 * (i - 5)))
       else Err EncoderInternalError) 0 len buf"

definition encode_priority_frame :: "FrameEncoder \<Rightarrow> bytes \<Rightarrow> FrameEncoder encoded" where
  "encode_priority_frame e buf =
     obind (try_retrieve_current_frame e) (\<lambda>frame.
       case fr_payload frame of
         PL_Priority _ \<Rightarrow>
           let bytes_to_write = header_bytes_to_write e buf in
           obind (iterate_priority_header e frame buf bytes_to_write) (\<lambda>buf.
             let e = e\<lparr>fe_encoded_bytes := fe_encoded_bytes e + bytes_to_write\<rparr>;
                 e = (if fe_encoded_bytes e = 9 then e\<lparr>fe_state := EncodingPriorityPayload\<rparr> else e) in
             Ok (bytes_to_write, buf, e))
       | _ \<Rightarrow> Err UnexpectedPayloadType)"

definition iterate_priority_payload ::
  "FrameEncoder \<Rightarrow> Priority \<Rightarrow> bytes \<Rightarrow> nat \<Rightarrow> nat \<Rightarrow> (bytes, FrameEncoderErr) outcome" where
  "iterate_priority_payload e priority buf frame_header_size len =
     fill_octets (\<lambda>buf_index.
       let i = fe_encoded_bytes e - frame_header_size + buf_index in
       if i = 0 then
         Ok (push_bit 7 (if pr_exclusive priority then 1 else 0) OR
             ucast (drop_bit 24 (pr_stream_dependency priority) AND 0x7F))
       else if i \<le> 3 then Ok (shr_u32 (pr_stream_dependency priority) (16 - 8 * (i - 1)))
       else if i = 4 then Ok (pr_weight priority)
       else Err EncoderInternalError) 0 len buf"

definition encode_priority_payload :: "FrameEncoder \<Rightarrow> bytes \<Rightarrow> FrameEncoder encoded" where
  "encode_priority_payload e buf =
     obind (try_retrieve_current_frame e) (\<lambda>frame.
       case fr_payload frame of
         PL_Priority priority \<Rightarrow>
           obind (usize_sub (fe_encoded_bytes e) 9) (\<lambda>done_bytes.
           obind (usize_sub 5 done_bytes) (\<lambda>remaining_payload_bytes.
             let bytes_to_write = min remaining_payload_bytes (length buf) in
             obind (iterate_priority_payload e priority buf 9 bytes_to_write) (\<lambda>buf.
               let e = e\<lparr>fe_encoded_bytes := fe_encoded_bytes e + bytes_to_write\<rparr>;
                   e = (if fe_encoded_bytes e = 9 + 5 then e\<lparr>fe_state := DataComplete\<rparr> else e) in
               Ok (bytes_to_write, buf, e))))
       | _ \<Rightarrow> Err UnexpectedPayloadType)"

section \<open>RST\_STREAM\<close>

text \<open>The octets of the length and of the stream are chosen by the position in the buffer.\<close>

definition encode_rst_stream_frame :: "FrameEncoder \<Rightarrow> bytes \<Rightarrow> FrameEncoder encoded" where
  "encode_rst_stream_frame e buf =
     obind (try_retrieve_current_frame e) (\<lambda>frame.
       if fe_encoded_bytes e \<ge> 9 then Ok (0, buf, e)
       else
         let bytes_to_write = min (9 - fe_encoded_bytes e) (length buf) in
         obind (fill_octets (\<lambda>buf_index.
                  let i = fe_encoded_bytes e + buf_index in
                  if i \<le> 2 then Ok (shr_usize 4 (16 - 8 * buf_index))
                  else if i = 3 then Ok (FrameType_as_u8 FT_RstStream)
                  else if i = 4 then Ok (fr_flags frame)
                  else if i \<le> 8 then
                    obind (usize_sub buf_index 5) (\<lambda>k. Ok (shr_u32 (fr_id frame) (24 - 8 * k)))
                  else Err EncoderInternalError) 0 bytes_to_write buf) (\<lambda>buf.
           let e = e\<lparr>fe_encoded_bytes := fe_encoded_bytes e + bytes_to_write\<rparr>;
               e = (if fe_encoded_bytes e = 9 then e\<lparr>fe_state := EncodingRstStreamPayload\<rparr> else e) in
           Ok (bytes_to_write, buf, e)))"

definition encode_rst_stream_payload :: "FrameEncoder \<Rightarrow> bytes \<Rightarrow> FrameEncoder encoded" where
  "encode_rst_stream_payload e buf =
     obind (try_retrieve_current_frame e) (\<lambda>frame.
       case fr_payload frame of
         PL_RstStream error_code \<Rightarrow>
           if fe_encoded_bytes e < 9 then Ok (0, buf, e)
           else
             let encoded_payload_bytes = fe_encoded_bytes e - 9 in
             if encoded_payload_bytes \<ge> 4 then Ok (0, buf, e)
             else
               let bytes_to_write = min (4 - encoded_payload_bytes) (length buf) in
               obind (fill_octets (\<lambda>buf_index.
                        Ok (shr_u32 error_code (24 - 8 * (encoded_payload_bytes + buf_index))))
                        0 bytes_to_write buf) (\<lambda>buf.
                 let e = e\<lparr>fe_encoded_bytes := fe_encoded_bytes e + bytes_to_write\<rparr>;
                     e = (if fe_encoded_bytes e = 9 + 4 then e\<lparr>fe_state := DataComplete\<rparr> else e) in
                 Ok (bytes_to_write, buf, e))
       | _ \<Rightarrow> Err UnexpectedPayloadType)"

section \<open>PING\<close>

definition iterate_ping_header ::
  "FrameEncoder \<Rightarrow> Frame \<Rightarrow> bytes \<Rightarrow> nat \<Rightarrow> (bytes, FrameEncoderErr) outcome" where
  "iterate_ping_header e frame buf len =
     for_range (\<lambda>buf_index buf.
       let i = fe_encoded_bytes e + buf_index in
       if i \<le> 2 then set_at buf buf_index (shr_usize 8 (16 - 8 * buf_index))
       else if i = 3 then set_at buf 3 (FrameType_as_u8 FT_Ping)
       else if i = 4 then set_at buf 4 (fr_flags frame)
       else if i \<le> 8 then set_at buf buf_index 0
       else Err EncoderInternalError) 0 len buf"

definition encode_ping_frame :: "FrameEncoder \<Rightarrow> bytes \<Rightarrow> FrameEncoder encoded" where
  "encode_ping_frame e buf =
     obind (try_retrieve_current_frame e) (\<lambda>frame.
       case fr_payload frame of
         PL_Ping _ \<Rightarrow>
           let bytes_to_write = header_bytes_to_write e buf in
           obind (iterate_ping_header e frame buf bytes_to_write) (\<lambda>buf.
             let e = e\<lparr>fe_encoded_bytes := fe_encoded_bytes e + bytes_to_write\<rparr>;
                 e = (if fe_encoded_bytes e = 9 then e\<lparr>fe_state := EncodingPingPayload\<rparr> else e) in
             Ok (bytes_to_write, buf, e))
       | _ \<Rightarrow> Err UnexpectedPayloadType)"

definition encode_ping_payload :: "FrameEncoder \<Rightarrow> bytes \<Rightarrow> FrameEncoder encoded" where
  "encode_ping_payload e buf =
     obind (try_retrieve_current_frame e) (\<lambda>frame.
       case fr_payload frame of
         PL_Ping data \<Rightarrow>
           let bytes_to_write = min (8 - (fe_encoded_bytes e - 9)) (length buf) in
           obind (fill_octets (\<lambda>buf_index. index_at data (fe_encoded_bytes e - 9 + buf_index))
                    0 bytes_to_write buf) (\<lambda>buf.
             let e = e\<lparr>fe_encoded_bytes := fe_encoded_bytes e + bytes_to_write\<rparr>;
                 e = (if fe_encoded_bytes e = 9 + 8 then e\<lparr>fe_state := DataComplete\<rparr> else e) in
             Ok (bytes_to_write, buf, e))
       | _ \<Rightarrow> Err UnexpectedPayloadType)"

section \<open>The encoder\<close>

definition encode_state :: "FrameEncoder \<Rightarrow> bytes \<Rightarrow> FrameEncoder encoded" where
  "encode_state e =
     (case fe_state e of
        EncodingHeadersFrame \<Rightarrow> encode_headers_frame e
      | EncodingHeadersPayload \<Rightarrow> encode_headers_payload e
      | EncodingHeadersPadding \<Rightarrow> encode_padding e
      | EncodingContinuationFrames \<Rightarrow> encode_continuation_frames e
      | EncodingDataHeader \<Rightarrow> encode_data_header e
      | EncodingDataPayload \<Rightarrow> encode_data_payload e
      | EncodingDataPadding \<Rightarrow> encode_padding e
      | EncodingSettingsFrame \<Rightarrow> encode_settings_frame e
      | EncodingGoawayFrame \<Rightarrow> encode_goaway_frame e
      | EncodingWindowUpdateFrame \<Rightarrow> encode_window_update_frame e
      | EncodingSettingsPayload \<Rightarrow> encode_settings_payload e
      | EncodingGoawayPayload \<Rightarrow> encode_goaway_payload e
      | EncodingWindowUpdatePayload \<Rightarrow> encode_window_update_payload e
      | EncodingPriorityFrame \<Rightarrow> encode_priority_frame e
      | EncodingPriorityPayload \<Rightarrow> encode_priority_payload e
      | EncodingRstStreamFrame \<Rightarrow> encode_rst_stream_frame e
      | EncodingRstStreamPayload \<Rightarrow> encode_rst_stream_payload e
      | EncodingPingFrame \<Rightarrow> encode_ping_frame e
      | EncodingPingPayload \<Rightarrow> encode_ping_payload e
      | _ \<Rightarrow> (\<lambda>buf. Ok (0, buf, e)))"

text \<open>
  The loop of \<^verbatim>\<open>encode\<close> on the rest of the buffer: it ends when the buffer is full, when the frame is
  complete, or when an operation does not change the state.
\<close>

definition is_complete :: "FrameEncoder \<Rightarrow> bool" where
  "is_complete e \<longleftrightarrow> fe_state e = Idle \<or> fe_state e = HeadersComplete \<or> fe_state e = DataComplete"

text \<open>
  The operations that change the state without writing anything go down this order. A DATA header
  whose nine octets are counted as written can be followed by an empty payload and that by another
  header, but not twice.
\<close>

definition encoder_rank :: "FrameEncoder \<Rightarrow> nat" where
  "encoder_rank e =
     (case fe_state e of
        Idle \<Rightarrow> 0 | HeadersComplete \<Rightarrow> 0 | DataComplete \<Rightarrow> 0
      | EncodingHeadersFrame \<Rightarrow> 4 | EncodingHeadersPayload \<Rightarrow> 3 | EncodingContinuationFrames \<Rightarrow> 2
      | EncodingDataHeader \<Rightarrow> (if fe_encoded_bytes e = 9 then 3 else 1)
      | EncodingDataPayload \<Rightarrow> (if fe_encoded_bytes e = 9 then 4 else 2)
      | EncodingSettingsFrame \<Rightarrow> 2 | EncodingGoawayFrame \<Rightarrow> 2 | EncodingWindowUpdateFrame \<Rightarrow> 2
      | EncodingPriorityFrame \<Rightarrow> 2 | EncodingRstStreamFrame \<Rightarrow> 2 | EncodingPingFrame \<Rightarrow> 2
      | _ \<Rightarrow> 1)"

lemma length_fill_octets: "fill_octets f i n buf = Ok buf' \<Longrightarrow> length buf' = length buf"
  by (induction f i n buf arbitrary: buf' rule: fill_octets.induct) (auto simp: obind_eq_Ok)

lemma length_for_range:
  "(\<And>i b b'. f i b = Ok b' \<Longrightarrow> length b' = length b) \<Longrightarrow> for_range f i n buf = Ok buf' \<Longrightarrow> length buf' = length buf"
  by (induction f i n buf arbitrary: buf' rule: for_range.induct) (auto simp: obind_eq_Ok)

lemma length_set_at: "set_at buf i x = Ok buf' \<Longrightarrow> length buf' = length buf"
  by (auto simp: set_at_def split: if_splits)

text \<open>What the loop needs of an operation: it keeps the buffer's length, and it makes progress.\<close>

definition progress :: "FrameEncoder \<Rightarrow> bytes \<Rightarrow> nat \<times> bytes \<times> FrameEncoder \<Rightarrow> bool" where
  "progress e buf r \<longleftrightarrow> (case r of (n, buf', e') \<Rightarrow> length buf' = length buf \<and> n \<le> length buf \<and>
     (n > 0 \<or> fe_state e' = fe_state e \<or> encoder_rank e' < encoder_rank e))"

text \<open>Operations that expect one kind of payload.\<close>

lemma case_payload_Ok:
  "(case p of PL_Data x \<Rightarrow> fData x | _ \<Rightarrow> Err err) = Ok r \<longleftrightarrow> (\<exists>x. p = PL_Data x \<and> fData x = Ok r)"
  "(case p of PL_Priority x \<Rightarrow> fPriority x | _ \<Rightarrow> Err err) = Ok r \<longleftrightarrow> (\<exists>x. p = PL_Priority x \<and> fPriority x = Ok r)"
  "(case p of PL_RstStream x \<Rightarrow> fRstStream x | _ \<Rightarrow> Err err) = Ok r \<longleftrightarrow> (\<exists>x. p = PL_RstStream x \<and> fRstStream x = Ok r)"
  "(case p of PL_Ping x \<Rightarrow> fPing x | _ \<Rightarrow> Err err) = Ok r \<longleftrightarrow> (\<exists>x. p = PL_Ping x \<and> fPing x = Ok r)"
  "(case p of PL_Settings x \<Rightarrow> fSettings x | _ \<Rightarrow> Err err) = Ok r \<longleftrightarrow> (\<exists>x. p = PL_Settings x \<and> fSettings x = Ok r)"
  "(case p of PL_Goaway x \<Rightarrow> fGoaway x | _ \<Rightarrow> Err err) = Ok r \<longleftrightarrow> (\<exists>x. p = PL_Goaway x \<and> fGoaway x = Ok r)"
  "(case p of PL_WindowUpdate x \<Rightarrow> fWindowUpdate x | _ \<Rightarrow> Err err) = Ok r \<longleftrightarrow> (\<exists>x. p = PL_WindowUpdate x \<and> fWindowUpdate x = Ok r)"
  by (cases p; simp)+

lemmas iterate_defs = iterate_headers_header_def iterate_data_header_def iterate_goaway_header_def
  iterate_goaway_payload_def iterate_window_update_header_def iterate_settings_payload_def
  iterate_priority_header_def iterate_priority_payload_def

lemma length_iterate_range:
  "iterate_settings_header e frame buf l n = Ok buf' \<Longrightarrow> length buf' = length buf"
  "iterate_ping_header e frame buf n = Ok buf' \<Longrightarrow> length buf' = length buf"
  unfolding iterate_settings_header_def iterate_ping_header_def
  by (erule length_for_range [rotated]; auto simp: Let_def dest: length_set_at split: if_splits)+

lemma settings_frame_progress:
  "encode_settings_frame e buf = Ok r \<Longrightarrow> fe_state e = EncodingSettingsFrame \<Longrightarrow> progress e buf r"
  by (auto simp: encode_settings_frame_def progress_def obind_eq_Ok case_payload_Ok Let_def  header_bytes_to_write_def
      encoder_rank_def dest!: length_fill_octets length_iterate_range)

lemma settings_payload_progress:
  "encode_settings_payload e buf = Ok r \<Longrightarrow> fe_state e = EncodingSettingsPayload \<Longrightarrow> progress e buf r"
  by (auto simp: encode_settings_payload_def progress_def obind_eq_Ok case_payload_Ok Let_def iterate_settings_payload_def header_bytes_to_write_def
      encoder_rank_def dest!: length_fill_octets length_iterate_range)

lemma goaway_frame_progress:
  "encode_goaway_frame e buf = Ok r \<Longrightarrow> fe_state e = EncodingGoawayFrame \<Longrightarrow> progress e buf r"
  by (auto simp: encode_goaway_frame_def progress_def obind_eq_Ok case_payload_Ok Let_def iterate_goaway_header_def header_bytes_to_write_def
      encoder_rank_def dest!: length_fill_octets length_iterate_range)

lemma goaway_payload_progress:
  "encode_goaway_payload e buf = Ok r \<Longrightarrow> fe_state e = EncodingGoawayPayload \<Longrightarrow> progress e buf r"
  by (auto simp: encode_goaway_payload_def progress_def obind_eq_Ok case_payload_Ok Let_def iterate_goaway_payload_def header_bytes_to_write_def
      encoder_rank_def dest!: length_fill_octets length_iterate_range)

lemma window_update_frame_progress:
  "encode_window_update_frame e buf = Ok r \<Longrightarrow> fe_state e = EncodingWindowUpdateFrame \<Longrightarrow> progress e buf r"
  by (auto simp: encode_window_update_frame_def progress_def obind_eq_Ok case_payload_Ok Let_def iterate_window_update_header_def header_bytes_to_write_def
      encoder_rank_def dest!: length_fill_octets length_iterate_range)

lemma window_update_payload_progress:
  "encode_window_update_payload e buf = Ok r \<Longrightarrow> fe_state e = EncodingWindowUpdatePayload \<Longrightarrow> progress e buf r"
  by (auto simp: encode_window_update_payload_def progress_def obind_eq_Ok case_payload_Ok Let_def  header_bytes_to_write_def
      encoder_rank_def dest!: length_fill_octets length_iterate_range)

lemma priority_frame_progress:
  "encode_priority_frame e buf = Ok r \<Longrightarrow> fe_state e = EncodingPriorityFrame \<Longrightarrow> progress e buf r"
  by (auto simp: encode_priority_frame_def progress_def obind_eq_Ok case_payload_Ok Let_def iterate_priority_header_def header_bytes_to_write_def
      encoder_rank_def dest!: length_fill_octets length_iterate_range)

lemma priority_payload_progress:
  "encode_priority_payload e buf = Ok r \<Longrightarrow> fe_state e = EncodingPriorityPayload \<Longrightarrow> progress e buf r"
  by (auto simp: encode_priority_payload_def progress_def obind_eq_Ok case_payload_Ok Let_def iterate_priority_payload_def header_bytes_to_write_def
      encoder_rank_def dest!: length_fill_octets length_iterate_range)

lemma ping_frame_progress:
  "encode_ping_frame e buf = Ok r \<Longrightarrow> fe_state e = EncodingPingFrame \<Longrightarrow> progress e buf r"
  by (auto simp: encode_ping_frame_def progress_def obind_eq_Ok case_payload_Ok Let_def  header_bytes_to_write_def
      encoder_rank_def dest!: length_fill_octets length_iterate_range)

lemma progressI:
  assumes "r = (min k (length buf), buf', e')" "length buf' = length buf"
    "fe_state e' = fe_state e \<or> (fe_state e' = DataComplete \<and> \<not> is_complete e)"
  shows "progress e buf r"
proof -
  have "0 < encoder_rank e" if "\<not> is_complete e"
    using that by (cases "fe_state e") (simp_all add: encoder_rank_def is_complete_def)
  moreover have "encoder_rank e' = 0" if "fe_state e' = DataComplete"
    using that by (simp add: encoder_rank_def)
  ultimately show ?thesis using assms by (auto simp: progress_def)
qed

lemma ping_payload_progress:
  assumes "encode_ping_payload e buf = Ok r" "fe_state e = EncodingPingPayload"
  shows "progress e buf r"
proof -
  from assms obtain k buf' e' where "r = (min k (length buf), buf', e')" "length buf' = length buf"
    "fe_state e' = fe_state e \<or> fe_state e' = DataComplete"
    by (auto simp: encode_ping_payload_def obind_eq_Ok case_payload_Ok Let_def simp del: min_less_iff_conj dest!: length_fill_octets)
  with assms(2) show ?thesis by (auto intro!: progressI simp: is_complete_def)
qed

lemma rst_stream_frame_progress:
  "encode_rst_stream_frame e buf = Ok r \<Longrightarrow> fe_state e = EncodingRstStreamFrame \<Longrightarrow> progress e buf r"
  by (auto simp: encode_rst_stream_frame_def progress_def obind_eq_Ok case_payload_Ok Let_def  header_bytes_to_write_def
      encoder_rank_def dest!: length_fill_octets length_iterate_range split: if_splits)

lemma rst_stream_payload_progress:
  assumes "encode_rst_stream_payload e buf = Ok r" "fe_state e = EncodingRstStreamPayload"
  shows "progress e buf r"
proof (cases "fe_encoded_bytes e < 9 \<or> 4 \<le> fe_encoded_bytes e - 9")
  case True
  with assms(1) have "r = (0, buf, e)"
    by (auto simp: encode_rst_stream_payload_def obind_eq_Ok case_payload_Ok Let_def split: if_splits)
  then show ?thesis by (simp add: progress_def)
next
  case False
  with assms obtain k buf' e' where "r = (min k (length buf), buf', e')" "length buf' = length buf"
    "fe_state e' = fe_state e \<or> fe_state e' = DataComplete"
    by (auto simp: encode_rst_stream_payload_def obind_eq_Ok case_payload_Ok Let_def dest!: length_fill_octets)
  with assms(2) show ?thesis by (auto intro!: progressI simp: is_complete_def)
qed

lemma data_header_progress:
  "encode_data_header e buf = Ok r \<Longrightarrow> fe_state e = EncodingDataHeader \<Longrightarrow> progress e buf r"
  by (auto simp: encode_data_header_def progress_def obind_eq_Ok case_payload_Ok Let_def iterate_data_header_def header_bytes_to_write_def
      encoder_rank_def dest!: length_fill_octets length_iterate_range)

lemma encode_slice_length:
  "encode_slice e buf data = Ok (n, buf') \<Longrightarrow> length buf' = length buf \<and> n \<le> length buf"
  by (auto simp: encode_slice_def Let_def obind_eq_Ok slice_eq_Ok copy_front_def)

lemma data_payload_progress:
  assumes "encode_data_payload e buf = Ok r" "fe_state e = EncodingDataPayload"
  shows "progress e buf r"
proof -
  from assms(1) obtain data n buf' e' where r: "r = (n, buf', e')" "encode_slice e buf data = Ok (n, buf')"
    "fe_encoded_bytes e' = fe_encoded_bytes e" "fe_state e' \<in> {DataComplete, EncodingDataHeader, EncodingDataPayload}"
    by (auto simp: encode_data_payload_def obind_eq_Ok case_payload_Ok Let_def)
  with encode_slice_length [OF r(2)] assms(2) show ?thesis
    by (auto simp: progress_def encoder_rank_def)
qed

lemma padding_progress:
  "encode_padding e buf = Ok r \<Longrightarrow> fe_state e = EncodingDataPadding \<Longrightarrow> progress e buf r"
  by (auto simp: encode_padding_def progress_def obind_eq_Ok case_payload_Ok Let_def  header_bytes_to_write_def
      encoder_rank_def dest!: length_fill_octets length_iterate_range split: if_splits)

lemma padding_headers_progress:
  "encode_padding e buf = Ok r \<Longrightarrow> fe_state e = EncodingHeadersPadding \<Longrightarrow> progress e buf r"
  by (auto simp: encode_padding_def progress_def obind_eq_Ok case_payload_Ok Let_def  header_bytes_to_write_def
      encoder_rank_def dest!: length_fill_octets length_iterate_range split: if_splits)

lemma write_payload_length:
  "write_payload e buf l = Ok (n, buf', e') \<Longrightarrow> length buf' = length buf \<and> n \<le> length buf"
  by (auto simp: write_payload_def Let_def obind_eq_Ok slice_eq_Ok copy_front_def)

lemma headers_header_status_rank:
  "headers_header_status e = Ok e' \<Longrightarrow> encoder_rank e' \<le> 3"
  "headers_header_status e = Ok e' \<Longrightarrow> fe_state e' = EncodingHeadersPayload \<or> encoder_rank e' < 3"
  by (auto simp: headers_header_status_def obind_eq_Ok encoder_rank_def split: if_splits)

lemma headers_frame_progress:
  assumes "encode_headers_frame e buf = Ok r" "fe_state e = EncodingHeadersFrame"
  shows "progress e buf r"
proof -
  let ?k = "header_bytes_to_write e buf"
  have k: "?k \<le> length buf" by (simp add: header_bytes_to_write_def)
  from assms(1) obtain frame buf1 where buf1: "iterate_headers_header e frame buf ?k = Ok buf1"
    and r: "(if fe_encoded_bytes e + ?k \<ge> 9 then
        obind (write_payload (e\<lparr>fe_encoded_bytes := fe_encoded_bytes e + ?k\<rparr>) (drop ?k buf1) (fe_remaining_header_payload e)) (\<lambda>(n, rest, e).
        obind (headers_header_status (e\<lparr>fe_encoded_bytes := fe_encoded_bytes e + n\<rparr>)) (\<lambda>e.
          Ok (?k + n, take ?k buf1 @ rest, e)))
      else Ok (?k, buf1, e\<lparr>fe_encoded_bytes := fe_encoded_bytes e + ?k\<rparr>)) = Ok r"
    by (auto simp: encode_headers_frame_def obind_eq_Ok Let_def split: if_splits)
  have l: "length buf1 = length buf"
    using buf1 unfolding iterate_headers_header_def by (rule length_fill_octets)
  show ?thesis
  proof (cases "fe_encoded_bytes e + ?k \<ge> 9")
    case True
    with r obtain n rest e1 e2 where
      "write_payload (e\<lparr>fe_encoded_bytes := fe_encoded_bytes e + ?k\<rparr>) (drop ?k buf1) (fe_remaining_header_payload e) = Ok (n, rest, e1)"
      "headers_header_status (e1\<lparr>fe_encoded_bytes := fe_encoded_bytes e1 + n\<rparr>) = Ok e2"
      "r = (?k + n, take ?k buf1 @ rest, e2)" by (auto simp: obind_eq_Ok)
    with write_payload_length [OF this(1)] headers_header_status_rank(1) [OF this(2)] l k assms(2) show ?thesis
      by (auto simp: progress_def encoder_rank_def [of e])
  next
    case False
    with r l k show ?thesis by (auto simp: progress_def)
  qed
qed

lemma headers_payload_progress:
  assumes "encode_headers_payload e buf = Ok r" "fe_state e = EncodingHeadersPayload"
  shows "progress e buf r"
proof (cases "buf = []")
  case True
  with assms(1) show ?thesis
    by (auto simp: encode_headers_payload_def obind_eq_Ok progress_def split: if_splits)
next
  case False
  with assms(1) obtain n rest e1 e2 where
    "write_payload e buf (fe_remaining_header_payload e) = Ok (n, rest, e1)"
    "headers_header_status (e1\<lparr>fe_encoded_bytes := fe_encoded_bytes e1 + n\<rparr>) = Ok e2" "r = (n, rest, e2)"
    by (auto simp: encode_headers_payload_def obind_eq_Ok split: if_splits)
  with write_payload_length [OF this(1)] headers_header_status_rank(2) [OF this(2)] assms(2) show ?thesis
    by (auto simp: progress_def encoder_rank_def [of e])
qed

lemma length_for_set_at:
  "for_range (\<lambda>i buf. set_at buf (f i) (g i)) i n buf = Ok buf' \<Longrightarrow> length buf' = length buf"
  by (erule length_for_range [rotated]) (rule length_set_at)

lemma write_continuation_header_length:
  "write_continuation_header e frame buf l = Ok buf' \<Longrightarrow> length buf' = length buf"
  unfolding write_continuation_header_def Let_def obind_eq_Ok
  by (auto dest!: length_fill_octets length_set_at length_for_set_at)

lemma continuation_frames_progress:
  assumes "encode_continuation_frames e buf = Ok r"
  shows "progress e buf r"
proof (cases "length buf < 9")
  case True
  with assms show ?thesis
    by (auto simp: encode_continuation_frames_def obind_eq_Ok progress_def split: if_splits)
next
  case False
  with assms obtain frame l buf1 n rest e1 e2 where "write_continuation_header e frame buf l = Ok buf1"
    "write_payload e (drop 9 buf1) l = Ok (n, rest, e1)" "r = (9 + n, take 9 buf1 @ rest, e2)"
    by (auto simp: encode_continuation_frames_def obind_eq_Ok Let_def split: if_splits)
  with write_continuation_header_length [OF this(1)] write_payload_length [OF this(2)] False show ?thesis
    by (auto simp: progress_def)
qed

lemma encode_state_progress:
  assumes "encode_state e buf = Ok r" "\<not> is_complete e"
  shows "progress e buf r"
  using assms
  by (cases "fe_state e")
    (simp_all add: encode_state_def is_complete_def headers_frame_progress headers_payload_progress continuation_frames_progress
      padding_progress padding_headers_progress data_header_progress data_payload_progress
      settings_frame_progress settings_payload_progress goaway_frame_progress goaway_payload_progress
      window_update_frame_progress window_update_payload_progress priority_frame_progress priority_payload_progress
      rst_stream_frame_progress rst_stream_payload_progress ping_frame_progress ping_payload_progress)

function encode_loop :: "FrameEncoder \<Rightarrow> bytes \<Rightarrow> FrameEncoder encoded" where
  "encode_loop e buf =
     (if buf = [] \<or> is_complete e then Ok (0, buf, e)
      else
        case encode_state e buf of
          Ok (n, buf, e') \<Rightarrow>
            if fe_state e' = fe_state e then Ok (n, buf, e')
            else obind (encode_loop e' (drop n buf)) (\<lambda>(m, rest, e'').
              Ok (n + m, take n buf @ rest, e''))
        | Err err \<Rightarrow> Err err
        | Panic \<Rightarrow> Panic)"
  by pat_completeness auto
termination
proof (relation "measures [\<lambda>(e, buf). length buf, \<lambda>(e, buf). encoder_rank e]", goal_cases)
  case (2 e buf r n p buf' e')
  then have "encode_state e buf = Ok (n, buf', e')" by simp
  from encode_state_progress [OF this] 2 show ?case by (auto simp: progress_def)
qed simp

declare encode_loop.simps [simp del]

definition FrameEncoder_encode :: "FrameEncoder \<Rightarrow> bytes \<Rightarrow> FrameEncoder encoded" where
  "FrameEncoder_encode e buf = encode_loop e buf"

end
