(* ===== verification/H2_Encoder_Segments.thy ===== *)
theory H2_Encoder_Segments
  imports H2_Encoder
begin

text \<open>
  What the frame encoder writes: the octets of a frame, and which frames may be written into buffers
  of any sizes.
\<close>

section \<open>The octets of a frame\<close>

definition frame_header :: "nat \<Rightarrow> u8 \<Rightarrow> u8 \<Rightarrow> u32 \<Rightarrow> bytes" where
  "frame_header len t flags i = be24 len @ [t, flags] @ be32 i"

fun setting_octets :: "Setting \<Rightarrow> bytes" where
  "setting_octets s = (case setting_id_value s of (i, v) \<Rightarrow> [0, of_nat i] @ be32 v)"

definition priority_octets :: "Priority \<Rightarrow> bytes" where
  "priority_octets p =
     [push_bit 7 (if pr_exclusive p then 1 else 0) OR ucast (drop_bit 24 (pr_stream_dependency p) AND 0x7F),
      ucast (drop_bit 16 (pr_stream_dependency p)), ucast (drop_bit 8 (pr_stream_dependency p)),
      ucast (pr_stream_dependency p), pr_weight p]"

fun payload_octets :: "Payload \<Rightarrow> bytes" where
  "payload_octets (PL_Data data) = data"
| "payload_octets (PL_Priority p) = priority_octets p"
| "payload_octets (PL_RstStream code) = be32 code"
| "payload_octets (PL_Ping data) = data"
| "payload_octets (PL_Settings ss) = concat (map setting_octets ss)"
| "payload_octets (PL_Goaway g) = be32 (ga_last_stream_id g) @ be32 (ga_error_code g) @ ga_debug_data g"
| "payload_octets (PL_WindowUpdate increment) = be32 increment"
| "payload_octets _ = []"

text \<open>SETTINGS and PING are written with stream 0, whatever the frame says.\<close>

definition wire_id :: "Frame \<Rightarrow> u32" where
  "wire_id f = (case fr_payload f of PL_Settings _ \<Rightarrow> 0 | PL_Ping _ \<Rightarrow> 0 | _ \<Rightarrow> fr_id f)"

definition frame_octets :: "Frame \<Rightarrow> bytes" where
  "frame_octets f =
     frame_header (length (payload_octets (fr_payload f))) (FrameType_as_u8 (Payload_frame_type (fr_payload f)))
       (fr_flags f) (wire_id f) @ payload_octets (fr_payload f)"

lemma length_frame_header [simp]: "length (frame_header l t f i) = 9"
  by (simp add: frame_header_def)

lemma length_priority_octets [simp]: "length (priority_octets p) = 5"
  by (simp add: priority_octets_def)

lemma length_setting_octets [simp]: "length (setting_octets s) = 6"
  by (simp split: prod.split)

lemma length_settings_octets: "length (concat (map setting_octets ss)) = length ss * 6"
  by (induction ss) (simp_all del: setting_octets.simps)

lemma nth_frame_header:
  assumes "n < 9"
  shows "frame_header l t f i ! n =
    (if n \<le> 2 then shr_usize l (16 - 8 * n) else if n = 3 then t else if n = 4 then f
     else shr_u32 i (24 - 8 * (n - 5)))"
proof -
  from assms consider "n = 0" | "n = 1" | "n = 2" | "n = 3" | "n = 4" | "n = 5" | "n = 6" | "n = 7" | "n = 8"
    by linarith
  then show ?thesis
    by cases (simp_all add: frame_header_def be24_def be32_def shr_usize_def shr_u32_def)
qed

lemma nth_be32: "n < 4 \<Longrightarrow> be32 w ! n = shr_u32 w (24 - 8 * n)"
  by (auto simp: be32_def shr_u32_def less_Suc_eq numeral_eq_Suc)

lemma fill_octets_eq:
  "(\<And>j. j < n \<Longrightarrow> f (i + j) = Ok (xs ! j)) \<Longrightarrow> n \<le> length xs \<Longrightarrow> n \<le> length buf \<Longrightarrow>
   fill_octets f i n buf = Ok (take n xs @ drop n buf)"
proof (induction n arbitrary: i xs buf)
  case (Suc n)
  from Suc.prems(2,3) obtain x xs' b buf' where [simp]: "xs = x # xs'" "buf = b # buf'"
    by (cases xs; cases buf) auto
  have "f i = Ok x" using Suc.prems(1) [of 0] by simp
  moreover have "fill_octets f (Suc i) n buf' = Ok (take n xs' @ drop n buf')"
  proof (rule Suc.IH)
    fix j assume "j < n"
    then show "f (Suc i + j) = Ok (xs' ! j)" using Suc.prems(1) [of "Suc j"] by simp
  qed (use Suc.prems in simp_all)
  ultimately show ?case by simp
qed simp

lemma fill_octets_from:
  assumes "\<And>j. j < n \<Longrightarrow> f j = Ok (xs ! (p + j))" "p + n \<le> length xs" "n \<le> length buf"
  shows "fill_octets f 0 n buf = Ok (take n (drop p xs) @ drop n buf)"
  by (rule fill_octets_eq) (use assms in simp_all)

section \<open>Stages that write what is left\<close>

text \<open>One frame into a sequence of buffers: the octets written, one buffer after the other.\<close>

fun write_frame :: "FrameEncoder \<Rightarrow> bytes list \<Rightarrow> (bytes \<times> FrameEncoder, FrameEncoderErr) outcome" where
  "write_frame e [] = Ok ([], e)"
| "write_frame e (buf # bufs) =
     obind (FrameEncoder_encode e buf) (\<lambda>(n, buf, e).
     obind (write_frame e bufs) (\<lambda>(out, e). Ok (take n buf @ out, e)))"

lemma write_frame_complete: "is_complete e \<Longrightarrow> write_frame e bufs = Ok ([], e)"
  by (induction bufs) (simp_all add: FrameEncoder_encode_def encode_loop.simps)

text \<open>
  The contract of an encoder that can be interrupted anywhere: in every state there is something
  \<open>pending\<close>, and each operation writes the beginning of it. A stage that ends without a change of
  state has filled the buffer.
\<close>

locale staged_writer =
  fixes pending :: "FrameEncoder \<Rightarrow> bytes"
    and invar :: "FrameEncoder \<Rightarrow> bool"
  assumes stage_writes: "invar e \<Longrightarrow> \<not> is_complete e \<Longrightarrow> buf \<noteq> [] \<Longrightarrow>
      \<exists>k e'. encode_state e buf = Ok (k, take k (pending e) @ drop k buf, e') \<and>
        k \<le> length buf \<and> k \<le> length (pending e) \<and> pending e' = drop k (pending e) \<and> invar e' \<and>
        (fe_state e' = fe_state e \<longrightarrow> k = length buf)"
    and complete_pending: "invar e \<Longrightarrow> is_complete e \<Longrightarrow> pending e = []"
begin

lemma encode_writes:
  "invar e \<Longrightarrow>
   \<exists>e'. FrameEncoder_encode e buf =
        Ok (min (length buf) (length (pending e)),
            take (length buf) (pending e) @ drop (length (pending e)) buf, e') \<and>
      pending e' = drop (length buf) (pending e) \<and> invar e' \<and>
      (length (pending e) < length buf \<longrightarrow> is_complete e')"
  unfolding FrameEncoder_encode_def
proof (induction e buf rule: encode_loop.induct)
  case (1 e buf)
  show ?case
  proof (cases "buf = [] \<or> is_complete e")
    case True
    then show ?thesis using 1(2) complete_pending [OF 1(2)] by (auto simp: encode_loop.simps [of e])
  next
    case False
    with stage_writes [OF 1(2)] obtain k e' where
      k: "encode_state e buf = Ok (k, take k (pending e) @ drop k buf, e')" "k \<le> length buf"
      "k \<le> length (pending e)" "pending e' = drop k (pending e)" "invar e'"
      "fe_state e' = fe_state e \<longrightarrow> k = length buf" by blast
    show ?thesis
    proof (cases "fe_state e' = fe_state e")
      case True
      with k False show ?thesis
        by (auto simp: encode_loop.simps [of e] min_def)
    next
      case changed: False
      have rest: "drop k (take k (pending e) @ drop k buf) = drop k buf" using k by simp
      from 1(1) [OF False k(1) refl refl changed k(5), unfolded rest k(4) length_drop] obtain e'' where
        "encode_loop e' (drop k buf) =
          Ok (min (length buf - k) (length (pending e) - k),
              take (length buf - k) (drop k (pending e)) @ drop (length (pending e) - k) (drop k buf), e'')"
        "pending e'' = drop (length buf - k) (drop k (pending e))" "invar e''"
        "length (pending e) - k < length buf - k \<longrightarrow> is_complete e''"
        by blast
      moreover have "take k (pending e) @ take (length buf - k) (drop k (pending e)) = take (length buf) (pending e)"
        using k(2) by (metis le_add_diff_inverse take_add)
      ultimately show ?thesis using k changed False
        by (auto simp: encode_loop.simps [of e] rest min_def add.commute)
    qed
  qed
qed

text \<open>Filling one buffer after the other.\<close>

lemma write_frame_writes:
  "invar e \<Longrightarrow> \<exists>e'. write_frame e bufs = Ok (take (sum_list (map length bufs)) (pending e), e') \<and>
     pending e' = drop (sum_list (map length bufs)) (pending e) \<and> invar e' \<and>
     (length (pending e) < sum_list (map length bufs) \<longrightarrow> is_complete e')"
proof (induction bufs arbitrary: e)
  case (Cons b bs)
  from encode_writes [OF Cons.prems, of b] obtain e1 where
    e1: "FrameEncoder_encode e b = Ok (min (length b) (length (pending e)),
          take (length b) (pending e) @ drop (length (pending e)) b, e1)"
      "pending e1 = drop (length b) (pending e)" "invar e1" "length (pending e) < length b \<longrightarrow> is_complete e1"
    by blast
  have out: "take (min (length b) (length (pending e))) (take (length b) (pending e) @ drop (length (pending e)) b)
      = take (length b) (pending e)" by (simp add: min_def)
  show ?case
  proof (cases "is_complete e1")
    case True
    with complete_pending [OF e1(3)] e1(1-3) show ?thesis
      by (auto simp: out write_frame_complete drop_eq_Nil)
  next
    case False
    with e1(4) have "\<not> length (pending e) < length b" by blast
    moreover from Cons.IH [OF e1(3)] obtain e2 where
      "write_frame e1 bs = Ok (take (sum_list (map length bs)) (pending e1), e2)"
      "pending e2 = drop (sum_list (map length bs)) (pending e1)" "invar e2"
      "length (pending e1) < sum_list (map length bs) \<longrightarrow> is_complete e2" by blast
    ultimately show ?thesis using e1(1,2) by (auto simp: out take_add add.commute)
  qed
qed simp

end

section \<open>Frames without a header block\<close>

text \<open>How much of the octets of the current frame is written.\<close>

definition position :: "FrameEncoder \<Rightarrow> nat" where
  "position e =
     (case fe_state e of
        EncodingDataPayload \<Rightarrow> 9 + fe_data_offset e
      | DataComplete \<Rightarrow> (case fe_current_frame e of None \<Rightarrow> 0 | Some f \<Rightarrow> length (frame_octets f))
      | _ \<Rightarrow> fe_encoded_bytes e)"

definition frame_pending :: "FrameEncoder \<Rightarrow> bytes" where
  "frame_pending e = (case fe_current_frame e of None \<Rightarrow> [] | Some f \<Rightarrow> drop (position e) (frame_octets f))"

fun stage_ok :: "Payload \<Rightarrow> FrameEncoder \<Rightarrow> bool" where
  "stage_ok (PL_Data data) e \<longleftrightarrow> length data \<le> fe_max_frame_size e \<and>
     (fe_state e = EncodingDataHeader \<and> fe_encoded_bytes e < 9 \<and> fe_data_offset e = 0 \<and>
        fe_remaining_payload_bytes e = length data \<or>
      fe_state e = EncodingDataPayload \<and> fe_data_offset e + fe_remaining_payload_bytes e = length data \<or>
      fe_state e = DataComplete)"
| "stage_ok (PL_Goaway g) e \<longleftrightarrow>
     fe_state e = EncodingGoawayFrame \<and> fe_encoded_bytes e < 9 \<or>
     fe_state e = EncodingGoawayPayload \<and> 9 \<le> fe_encoded_bytes e \<and> fe_encoded_bytes e \<le> 9 + Goaway_encoded_len g \<or>
     fe_state e = DataComplete"
| "stage_ok (PL_Priority p) e \<longleftrightarrow>
     fe_state e = EncodingPriorityFrame \<and> fe_encoded_bytes e < 9 \<or>
     fe_state e = EncodingPriorityPayload \<and> 9 \<le> fe_encoded_bytes e \<and> fe_encoded_bytes e \<le> 14 \<or>
     fe_state e = DataComplete"
| "stage_ok (PL_Settings ss) e \<longleftrightarrow>
     fe_state e = EncodingSettingsPayload \<and> 9 \<le> fe_encoded_bytes e \<and> fe_encoded_bytes e \<le> 9 + length ss * 6 \<or>
     fe_state e = DataComplete"
| "stage_ok (PL_Ping data) e \<longleftrightarrow> length data = 8 \<and>
     (fe_state e = EncodingPingPayload \<and> 9 \<le> fe_encoded_bytes e \<and> fe_encoded_bytes e \<le> 17 \<or>
      fe_state e = DataComplete)"
| "stage_ok (PL_RstStream code) e \<longleftrightarrow>
     fe_state e = EncodingRstStreamPayload \<and> 9 \<le> fe_encoded_bytes e \<and> fe_encoded_bytes e < 13 \<or>
     fe_state e = DataComplete"
| "stage_ok (PL_WindowUpdate increment) e \<longleftrightarrow> fe_state e = DataComplete"
| "stage_ok _ e \<longleftrightarrow> False"

definition frame_ok :: "FrameEncoder \<Rightarrow> bool" where
  "frame_ok e \<longleftrightarrow> (\<exists>f. fe_current_frame e = Some f \<and> stage_ok (fr_payload f) e)"

lemma nth_frame_octets:
  assumes "n < 9"
  shows "frame_octets f ! n =
    (if n \<le> 2 then shr_usize (length (payload_octets (fr_payload f))) (16 - 8 * n)
     else if n = 3 then FrameType_as_u8 (Payload_frame_type (fr_payload f))
     else if n = 4 then fr_flags f else shr_u32 (wire_id f) (24 - 8 * (n - 5)))"
  using assms by (simp add: frame_octets_def nth_append nth_frame_header)

lemma length_frame_octets: "length (frame_octets f) = 9 + length (payload_octets (fr_payload f))"
  by (simp add: frame_octets_def)

lemma drop_frame_octets: "drop (9 + n) (frame_octets f) = drop n (payload_octets (fr_payload f))"
  by (simp add: frame_octets_def)

text \<open>The header of the current frame, as far as the buffer goes.\<close>

lemma header_octets:
  assumes "\<And>j. fe_encoded_bytes e + j < 9 \<Longrightarrow> item j = Ok (frame_octets f ! (fe_encoded_bytes e + j))"
    "fe_encoded_bytes e < 9"
  shows "fill_octets item 0 (header_bytes_to_write e buf) buf =
    Ok (take (header_bytes_to_write e buf) (drop (fe_encoded_bytes e) (frame_octets f)) @ drop (header_bytes_to_write e buf) buf)"
  by (rule fill_octets_from) (use assms in \<open>auto simp: header_bytes_to_write_def length_frame_octets\<close>)

definition stage_result :: "FrameEncoder \<Rightarrow> bytes \<Rightarrow> bool" where
  "stage_result e buf \<longleftrightarrow>
     (\<exists>k e'. encode_state e buf = Ok (k, take k (frame_pending e) @ drop k buf, e') \<and>
        k \<le> length buf \<and> k \<le> length (frame_pending e) \<and> frame_pending e' = drop k (frame_pending e) \<and> frame_ok e' \<and>
        (fe_state e' = fe_state e \<longrightarrow> k = length buf))"

lemma stage_resultI:
  assumes "fe_current_frame e = Some f" "fe_current_frame e' = Some f"
    and "encode_state e buf = Ok (k, take k (drop (position e) (frame_octets f)) @ drop k buf, e')"
    and "k \<le> length buf" "position e' = position e + k" "position e + k \<le> length (frame_octets f)"
    and "stage_ok (fr_payload f) e'"
    and "fe_state e' = fe_state e \<longrightarrow> k = length buf"
  shows "stage_result e buf"
  using assms unfolding stage_result_def
  by (intro exI [of _ k] exI [of _ e']) (auto simp: frame_pending_def frame_ok_def add.commute)

lemma data_header_stage:
  assumes "fe_current_frame e = Some f" "fr_payload f = PL_Data data" "length data \<le> fe_max_frame_size e"
    "fe_state e = EncodingDataHeader" "fe_encoded_bytes e < 9" "fe_data_offset e = 0"
    "fe_remaining_payload_bytes e = length data"
  shows "stage_result e buf"
proof -
  let ?k = "header_bytes_to_write e buf" and ?n = "fe_encoded_bytes e"
  let ?e = "if ?n + ?k = 9 then e\<lparr>fe_encoded_bytes := 0, fe_state := EncodingDataPayload\<rparr>
      else e\<lparr>fe_encoded_bytes := ?n + ?k\<rparr>"
  have k: "?k \<le> length buf" "?n + ?k \<le> 9" "?n + ?k \<noteq> 9 \<Longrightarrow> ?k = length buf"
    using assms(5) by (auto simp: header_bytes_to_write_def)
  have "iterate_data_header e f buf (length data) ?k = Ok (take ?k (drop ?n (frame_octets f)) @ drop ?k buf)"
    unfolding iterate_data_header_def
    by (rule header_octets) (use assms in \<open>auto simp: nth_frame_octets wire_id_def Let_def\<close>)
  then have "encode_state e buf = Ok (?k, take ?k (drop (position e) (frame_octets f)) @ drop ?k buf, ?e)"
    using assms by (simp add: encode_state_def encode_data_header_def try_retrieve_current_frame_def Let_def position_def)
  then show ?thesis
    by (rule stage_resultI [OF assms(1), rotated]) (use assms k in \<open>auto simp: position_def length_frame_octets\<close>)
qed

lemma data_payload_stage:
  assumes "fe_current_frame e = Some f" "fr_payload f = PL_Data data" "length data \<le> fe_max_frame_size e"
    "fe_state e = EncodingDataPayload" "fe_data_offset e + fe_remaining_payload_bytes e = length data"
  shows "stage_result e buf"
proof -
  let ?i = "fe_data_offset e" and ?r = "fe_remaining_payload_bytes e"
  let ?k = "min ?r (length buf)"
  let ?e = "if ?r = ?k then e\<lparr>fe_data_offset := 0, fe_remaining_payload_bytes := 0, fe_state := DataComplete\<rparr>
      else e\<lparr>fe_data_offset := ?i + ?k, fe_remaining_payload_bytes := ?r - ?k\<rparr>"
  have room: "min (fe_max_frame_size e - ?i) ?r = ?r" using assms(3,5) by simp
  have "Prelude.slice data ?i (?i + ?k) = Ok (take ?k (drop ?i data))" "length (take ?k (drop ?i data)) = ?k"
    using assms(5) by auto
  then have "encode_slice e buf data = Ok (?k, take ?k (drop ?i data) @ drop ?k buf)"
    using assms(3,5) unfolding encode_slice_def Let_def by (simp add: room copy_front_def)
  then have "encode_state e buf = Ok (?k, take ?k (drop (position e) (frame_octets f)) @ drop ?k buf, ?e)"
    using assms by (auto simp: encode_state_def encode_data_payload_def try_retrieve_current_frame_def Let_def
        position_def drop_frame_octets)
  then show ?thesis
    by (rule stage_resultI [OF assms(1), rotated]) (use assms in \<open>auto simp: position_def length_frame_octets min_def\<close>)
qed

lemma goaway_header_stage:
  assumes "fe_current_frame e = Some f" "fr_payload f = PL_Goaway g"
    "fe_state e = EncodingGoawayFrame" "fe_encoded_bytes e < 9"
  shows "stage_result e buf"
proof -
  let ?k = "header_bytes_to_write e buf" and ?n = "fe_encoded_bytes e"
  let ?e = "if ?n + ?k = 9 then e\<lparr>fe_encoded_bytes := 9, fe_state := EncodingGoawayPayload\<rparr>
      else e\<lparr>fe_encoded_bytes := ?n + ?k\<rparr>"
  have k: "?k \<le> length buf" "?n + ?k \<le> 9" "?n + ?k \<noteq> 9 \<Longrightarrow> ?k = length buf"
    using assms(4) by (auto simp: header_bytes_to_write_def)
  have shift: "8 * (2 - i) = 16 - 8 * i" for i :: nat by (simp add: diff_mult_distrib2)
  have "iterate_goaway_header e f buf ?k = Ok (take ?k (drop ?n (frame_octets f)) @ drop ?k buf)"
    unfolding iterate_goaway_header_def
    by (rule header_octets)
      (use assms in \<open>auto simp: nth_frame_octets wire_id_def Let_def Goaway_encoded_len_def shift\<close>)
  then have "encode_state e buf = Ok (?k, take ?k (drop (position e) (frame_octets f)) @ drop ?k buf, ?e)"
    using assms by (simp add: encode_state_def encode_goaway_frame_def try_retrieve_current_frame_def Let_def position_def)
  then show ?thesis
    by (rule stage_resultI [OF assms(1), rotated])
      (use assms k in \<open>auto simp: position_def length_frame_octets Goaway_encoded_len_def\<close>)
qed

lemma nth_goaway_octets:
  "n < 8 + length (ga_debug_data g) \<Longrightarrow>
   payload_octets (PL_Goaway g) ! n =
     (if n \<le> 3 then shr_u32 (ga_last_stream_id g) (24 - 8 * n)
      else if n \<le> 7 then shr_u32 (ga_error_code g) (24 - 8 * (n - 4)) else ga_debug_data g ! (n - 8))"
  by (auto simp: nth_append nth_be32)

lemma nth_frame_payload: "frame_octets f ! (9 + n) = payload_octets (fr_payload f) ! n"
  by (simp add: frame_octets_def nth_append)

lemma goaway_payload_stage:
  assumes "fe_current_frame e = Some f" "fr_payload f = PL_Goaway g" "fe_state e = EncodingGoawayPayload"
    "9 \<le> fe_encoded_bytes e" "fe_encoded_bytes e \<le> 9 + Goaway_encoded_len g"
  shows "stage_result e buf"
proof -
  let ?n = "fe_encoded_bytes e" and ?l = "Goaway_encoded_len g"
  let ?k = "min (?l - (?n - 9)) (length buf)"
  let ?e = "if ?n + ?k = 9 + ?l then e\<lparr>fe_encoded_bytes := ?n + ?k, fe_state := DataComplete\<rparr>
      else e\<lparr>fe_encoded_bytes := ?n + ?k\<rparr>"
  obtain m where m: "?n = 9 + m" using assms(4) le_Suc_ex by blast
  have l: "length (frame_octets f) = 9 + ?l"
    using assms(2) by (simp add: length_frame_octets Goaway_encoded_len_def)
  have "iterate_goaway_payload e g buf ?k = Ok (take ?k (drop ?n (frame_octets f)) @ drop ?k buf)"
    unfolding iterate_goaway_payload_def
  proof (rule fill_octets_from)
    fix j assume "j < ?k"
    then have "m + j < 8 + length (ga_debug_data g)" by (auto simp: m Goaway_encoded_len_def)
    then show "obind (usize_sub ?n 9) (\<lambda>done_bytes.
         let i = done_bytes + j in
         if i \<le> 3 then Ok (shr_u32 (ga_last_stream_id g) (24 - 8 * i))
         else if i \<le> 7 then Ok (shr_u32 (ga_error_code g) (24 - 8 * (i - 4)))
         else if i - 8 < length (ga_debug_data g) then Ok (ga_debug_data g ! (i - 8))
         else Err EncoderInternalError) = Ok (frame_octets f ! (?n + j))"
      using nth_goaway_octets [of "m + j" g]
      by (auto simp: m Let_def add.assoc nth_frame_payload assms(2) simp del: payload_octets.simps)
  qed (use assms(5) l m in auto)
  then have "encode_state e buf = Ok (?k, take ?k (drop (position e) (frame_octets f)) @ drop ?k buf, ?e)"
    using assms by (simp add: encode_state_def encode_goaway_payload_def try_retrieve_current_frame_def Let_def position_def)
  then show ?thesis
    by (rule stage_resultI [OF assms(1), rotated]) (use assms l in \<open>auto simp: position_def min_def\<close>)
qed

lemma priority_header_stage:
  assumes "fe_current_frame e = Some f" "fr_payload f = PL_Priority p"
    "fe_state e = EncodingPriorityFrame" "fe_encoded_bytes e < 9"
  shows "stage_result e buf"
proof -
  let ?k = "header_bytes_to_write e buf" and ?n = "fe_encoded_bytes e"
  let ?e = "if ?n + ?k = 9 then e\<lparr>fe_encoded_bytes := 9, fe_state := EncodingPriorityPayload\<rparr>
      else e\<lparr>fe_encoded_bytes := ?n + ?k\<rparr>"
  have k: "?k \<le> length buf" "?n + ?k \<le> 9" "?n + ?k \<noteq> 9 \<Longrightarrow> ?k = length buf"
    using assms(4) by (auto simp: header_bytes_to_write_def)
  have "iterate_priority_header e f buf ?k = Ok (take ?k (drop ?n (frame_octets f)) @ drop ?k buf)"
    unfolding iterate_priority_header_def
    by (rule header_octets) (use assms in \<open>auto simp: nth_frame_octets wire_id_def Let_def\<close>)
  then have "encode_state e buf = Ok (?k, take ?k (drop (position e) (frame_octets f)) @ drop ?k buf, ?e)"
    using assms by (simp add: encode_state_def encode_priority_frame_def try_retrieve_current_frame_def Let_def position_def)
  then show ?thesis
    by (rule stage_resultI [OF assms(1), rotated]) (use assms k in \<open>auto simp: position_def length_frame_octets\<close>)
qed

lemma nth_priority_octets:
  "n < 5 \<Longrightarrow> priority_octets p ! n =
     (if n = 0 then push_bit 7 (if pr_exclusive p then 1 else 0) OR ucast (drop_bit 24 (pr_stream_dependency p) AND 0x7F)
      else if n \<le> 3 then shr_u32 (pr_stream_dependency p) (16 - 8 * (n - 1)) else pr_weight p)"
  by (auto simp: priority_octets_def shr_u32_def less_Suc_eq numeral_eq_Suc)

lemma priority_payload_stage:
  assumes "fe_current_frame e = Some f" "fr_payload f = PL_Priority p" "fe_state e = EncodingPriorityPayload"
    "9 \<le> fe_encoded_bytes e" "fe_encoded_bytes e \<le> 14"
  shows "stage_result e buf"
proof -
  let ?n = "fe_encoded_bytes e"
  let ?k = "min (5 - (?n - 9)) (length buf)"
  let ?e = "if ?n + ?k = 14 then e\<lparr>fe_encoded_bytes := ?n + ?k, fe_state := DataComplete\<rparr>
      else e\<lparr>fe_encoded_bytes := ?n + ?k\<rparr>"
  obtain m where m: "?n = 9 + m" using assms(4) le_Suc_ex by blast
  have l: "length (frame_octets f) = 14" using assms(2) by (simp add: length_frame_octets)
  have "iterate_priority_payload e p buf 9 ?k = Ok (take ?k (drop ?n (frame_octets f)) @ drop ?k buf)"
    unfolding iterate_priority_payload_def
  proof (rule fill_octets_from)
    fix j assume "j < ?k"
    then have "m + j < 5" by (auto simp: m)
    then show "(let i = ?n - 9 + j in
       if i = 0 then
         Ok (push_bit 7 (if pr_exclusive p then 1 else 0) OR ucast (drop_bit 24 (pr_stream_dependency p) AND 0x7F))
       else if i \<le> 3 then Ok (shr_u32 (pr_stream_dependency p) (16 - 8 * (i - 1)))
       else if i = 4 then Ok (pr_weight p)
       else Err EncoderInternalError) = Ok (frame_octets f ! (?n + j))"
      using nth_priority_octets [of "m + j" p]
      by (auto simp: m Let_def add.assoc nth_frame_payload assms(2))
  qed (use assms(5) l m in auto)
  then have "encode_state e buf = Ok (?k, take ?k (drop (position e) (frame_octets f)) @ drop ?k buf, ?e)"
    using assms by (simp add: encode_state_def encode_priority_payload_def try_retrieve_current_frame_def Let_def position_def)
  then show ?thesis
    by (rule stage_resultI [OF assms(1), rotated]) (use assms l in \<open>auto simp: position_def min_def\<close>)
qed

lemma concat_settings_nth:
  "n < length ss * 6 \<Longrightarrow> concat (map setting_octets ss) ! n = setting_octets (ss ! (n div 6)) ! (n mod 6)"
proof (induction ss arbitrary: n)
  case (Cons s ss)
  show ?case
  proof (cases "n < 6")
    case False
    then obtain m where "n = 6 + m" using le_Suc_ex not_less by blast
    moreover have "(6 + m) div 6 = Suc (m div 6)" by simp
    ultimately show ?thesis using Cons by (simp add: nth_append del: setting_octets.simps div_add_self1)
  qed (simp add: nth_append del: setting_octets.simps)
qed simp

lemma nth_setting_octets:
  assumes "n < 6"
  shows "setting_octets s ! n =
     (case setting_id_value s of (ident, v) \<Rightarrow>
        if n \<le> 1 then shr_usize ident (8 * (1 - n)) else shr_u32 v (8 * (3 - (n - 2))))"
proof -
  have "n = 0 \<or> n = 1 \<or> n = 2 \<or> n = 3 \<or> n = 4 \<or> n = 5" using assms by linarith
  moreover have "shr_usize (fst (setting_id_value s)) 8 = 0" by (cases s) (simp_all add: shr_usize_def)
  moreover have "shr_usize (fst (setting_id_value s)) 0 = of_nat (fst (setting_id_value s))"
    by (cases s) (simp_all add: shr_usize_def)
  ultimately show ?thesis by (elim disjE) (simp_all add: split_def be32_def shr_u32_def)
qed

lemma settings_payload_stage:
  assumes "fe_current_frame e = Some f" "fr_payload f = PL_Settings ss" "fe_state e = EncodingSettingsPayload"
    "9 \<le> fe_encoded_bytes e" "fe_encoded_bytes e \<le> 9 + length ss * 6"
  shows "stage_result e buf"
proof -
  let ?n = "fe_encoded_bytes e" and ?l = "length ss * 6"
  let ?k = "min (?l - (?n - 9)) (length buf)"
  let ?e = "if ?n + ?k = 9 + ?l then e\<lparr>fe_encoded_bytes := ?n + ?k, fe_state := DataComplete\<rparr>
      else e\<lparr>fe_encoded_bytes := ?n + ?k\<rparr>"
  obtain m where m: "?n = 9 + m" using assms(4) le_Suc_ex by blast
  have l: "length (frame_octets f) = 9 + ?l" using assms(2) by (simp add: length_frame_octets length_settings_octets)
  have "iterate_settings_payload e ss buf ?k = Ok (take ?k (drop ?n (frame_octets f)) @ drop ?k buf)"
    unfolding iterate_settings_payload_def
  proof (rule fill_octets_from)
    fix j assume "j < ?k"
    then have mj: "m + j < ?l" by (auto simp: m)
    then have "get_nth ss ((m + j) div 6) = Some (ss ! ((m + j) div 6))" by (simp add: get_nth_def)
    moreover have "frame_octets f ! (?n + j) = setting_octets (ss ! ((m + j) div 6)) ! ((m + j) mod 6)"
      using mj by (simp add: m add.assoc nth_frame_payload assms(2) concat_settings_nth del: setting_octets.simps)
    ultimately show "obind (usize_sub ?n 9) (\<lambda>done_bytes.
         let i = done_bytes + j in
         case get_nth ss (i div 6) of
           Some setting \<Rightarrow>
             (case setting_id_value setting of (ident, v) \<Rightarrow>
                if i mod 6 \<le> 1 then Ok (shr_usize ident (8 * (1 - i mod 6)))
                else Ok (shr_u32 v (8 * (3 - (i mod 6 - 2)))))
         | None \<Rightarrow> Err EncoderInternalError) = Ok (frame_octets f ! (?n + j))"
      by (simp add: m Let_def nth_setting_octets split_def del: setting_octets.simps)
  qed (use assms(5) l m in auto)
  then have "encode_state e buf = Ok (?k, take ?k (drop (position e) (frame_octets f)) @ drop ?k buf, ?e)"
    using assms by (simp add: encode_state_def encode_settings_payload_def try_retrieve_current_frame_def Let_def position_def)
  then show ?thesis
    by (rule stage_resultI [OF assms(1), rotated]) (use assms l in \<open>auto simp: position_def min_def\<close>)
qed

lemma ping_payload_stage:
  assumes "fe_current_frame e = Some f" "fr_payload f = PL_Ping data" "length data = 8" "fe_state e = EncodingPingPayload"
    "9 \<le> fe_encoded_bytes e" "fe_encoded_bytes e \<le> 17"
  shows "stage_result e buf"
proof -
  let ?n = "fe_encoded_bytes e"
  let ?k = "min (8 - (?n - 9)) (length buf)"
  let ?e = "if ?n + ?k = 17 then e\<lparr>fe_encoded_bytes := ?n + ?k, fe_state := DataComplete\<rparr>
      else e\<lparr>fe_encoded_bytes := ?n + ?k\<rparr>"
  obtain m where m: "?n = 9 + m" using assms(5) le_Suc_ex by blast
  have l: "length (frame_octets f) = 17" using assms(2,3) by (simp add: length_frame_octets)
  have "fill_octets (\<lambda>i. index_at data (?n - 9 + i)) 0 ?k buf =
      (Ok (take ?k (drop ?n (frame_octets f)) @ drop ?k buf) :: (bytes, FrameEncoderErr) outcome)"
    by (rule fill_octets_from) (use assms l m in \<open>auto simp: nth_frame_payload add.assoc index_at_def\<close>)
  then have "encode_state e buf = Ok (?k, take ?k (drop (position e) (frame_octets f)) @ drop ?k buf, ?e)"
    using assms by (simp add: encode_state_def encode_ping_payload_def try_retrieve_current_frame_def Let_def position_def)
  then show ?thesis
    by (rule stage_resultI [OF assms(1), rotated]) (use assms l in \<open>auto simp: position_def min_def\<close>)
qed

lemma rst_stream_payload_stage:
  assumes "fe_current_frame e = Some f" "fr_payload f = PL_RstStream code" "fe_state e = EncodingRstStreamPayload"
    "9 \<le> fe_encoded_bytes e" "fe_encoded_bytes e < 13"
  shows "stage_result e buf"
proof -
  let ?n = "fe_encoded_bytes e"
  let ?k = "min (4 - (?n - 9)) (length buf)"
  let ?e = "if ?n + ?k = 13 then e\<lparr>fe_encoded_bytes := ?n + ?k, fe_state := DataComplete\<rparr>
      else e\<lparr>fe_encoded_bytes := ?n + ?k\<rparr>"
  obtain m where m: "?n = 9 + m" using assms(4) le_Suc_ex by blast
  have l: "length (frame_octets f) = 13" using assms(2) by (simp add: length_frame_octets)
  have "fill_octets (\<lambda>i. Ok (shr_u32 code (24 - 8 * (?n - 9 + i)))) 0 ?k buf =
      (Ok (take ?k (drop ?n (frame_octets f)) @ drop ?k buf) :: (bytes, FrameEncoderErr) outcome)"
    by (rule fill_octets_from) (use assms l m in \<open>auto simp: nth_frame_payload add.assoc nth_be32\<close>)
  then have "encode_state e buf = Ok (?k, take ?k (drop (position e) (frame_octets f)) @ drop ?k buf, ?e)"
    using assms by (simp add: encode_state_def encode_rst_stream_payload_def try_retrieve_current_frame_def Let_def position_def)
  then show ?thesis
    by (rule stage_resultI [OF assms(1), rotated]) (use assms l in \<open>auto simp: position_def min_def\<close>)
qed

interpretation frame_writer: staged_writer frame_pending frame_ok
proof
  fix e buf assume ok: "frame_ok e" and n: "\<not> is_complete e"
  then obtain f where f: "fe_current_frame e = Some f" "stage_ok (fr_payload f) e" by (auto simp: frame_ok_def)
  have "stage_result e buf"
    using f n data_header_stage [OF f(1)] data_payload_stage [OF f(1)] goaway_header_stage [OF f(1)]
      goaway_payload_stage [OF f(1)] priority_header_stage [OF f(1)] priority_payload_stage [OF f(1)]
      settings_payload_stage [OF f(1)] ping_payload_stage [OF f(1)] rst_stream_payload_stage [OF f(1)]
    by (cases "fr_payload f") (auto simp: is_complete_def)
  then show "\<exists>k e'. encode_state e buf = Ok (k, take k (frame_pending e) @ drop k buf, e') \<and>
        k \<le> length buf \<and> k \<le> length (frame_pending e) \<and> frame_pending e' = drop k (frame_pending e) \<and> frame_ok e' \<and>
        (fe_state e' = fe_state e \<longrightarrow> k = length buf)"
    unfolding stage_result_def .
next
  fix e assume "frame_ok e" "is_complete e"
  then show "frame_pending e = []"
    by (auto simp: frame_ok_def is_complete_def frame_pending_def position_def elim: stage_ok.elims)
qed

section \<open>HEADERS\<close>

text \<open>A header block that fits into one frame; \<open>headers_block\<close> is the compressed block.\<close>

definition headers_block :: "FrameEncoder \<Rightarrow> bytes" where
  "headers_block e = take (fe_remaining_header_payload e) (fe_header_payload_buffer e)"

definition headers_octets :: "Frame \<Rightarrow> bytes \<Rightarrow> bytes" where
  "headers_octets f block = frame_header (length block) 1 (fr_flags f) (fr_id f) @ block"

definition headers_pending :: "FrameEncoder \<Rightarrow> bytes" where
  "headers_pending e =
     (case fe_state e of
        EncodingHeadersFrame \<Rightarrow>
          (case fe_current_frame e of
             Some f \<Rightarrow> drop (fe_encoded_bytes e) (headers_octets f (headers_block e)) | None \<Rightarrow> [])
      | EncodingHeadersPayload \<Rightarrow> drop (fe_header_payload_index e) (headers_block e)
      | _ \<Rightarrow> [])"

definition headers_ok :: "FrameEncoder \<Rightarrow> bool" where
  "headers_ok e \<longleftrightarrow> fe_state e = HeadersComplete \<or>
     ((\<exists>f p. fe_current_frame e = Some f \<and> fr_payload f = PL_Headers p) \<and>
      HpackEncoder_is_finished (fe_hpack_encoder e) \<and>
      fe_remaining_header_payload e \<le> length (fe_header_payload_buffer e) \<and>
      (fe_state e = EncodingHeadersFrame \<and> fe_encoded_bytes e < 9 \<and> fe_header_payload_index e = 0 \<or>
       fe_state e = EncodingHeadersPayload \<and> fe_header_payload_index e \<le> fe_remaining_header_payload e))"

lemma write_payload_eq:
  assumes "fe_header_payload_index e \<le> l" "l \<le> length (fe_header_payload_buffer e)"
  shows "write_payload e buf l =
    (let n = min (length buf) (l - fe_header_payload_index e) in
     Ok (n, take n (drop (fe_header_payload_index e) (take l (fe_header_payload_buffer e))) @ drop n buf,
         e\<lparr>fe_header_payload_index := fe_header_payload_index e + n\<rparr>))"
proof -
  let ?i = "fe_header_payload_index e" and ?b = "fe_header_payload_buffer e"
  let ?n = "min (length buf) (l - ?i)"
  have "take ?n (drop ?i ?b) = take ?n (drop ?i (take l ?b))" by (simp add: drop_take take_take)
  moreover have "length (take ?n (drop ?i ?b)) = ?n" using assms by auto
  moreover have "(Prelude.slice ?b ?i (?i + ?n) :: (bytes, FrameEncoderErr) outcome) = Ok (take ?n (drop ?i ?b))"
    using assms by (simp add: slice_def)
  ultimately show ?thesis using assms(1) unfolding write_payload_def Let_def by (simp add: copy_front_def)
qed

lemma headers_status_finished:
  "HpackEncoder_is_finished (fe_hpack_encoder e) \<Longrightarrow>
   headers_header_status e =
     Ok (if fe_header_payload_index e < fe_remaining_header_payload e then e\<lparr>fe_state := EncodingHeadersPayload\<rparr>
         else (finish_current_frame e)\<lparr>fe_state := HeadersComplete\<rparr>)"
  by (simp add: headers_header_status_def)

text \<open>The state after the header or a part of the block is written.\<close>

definition headers_next :: "FrameEncoder \<Rightarrow> FrameEncoder" where
  "headers_next e =
     (if fe_header_payload_index e < fe_remaining_header_payload e then e\<lparr>fe_state := EncodingHeadersPayload\<rparr>
      else (finish_current_frame e)\<lparr>fe_state := HeadersComplete\<rparr>)"

lemma headers_next:
  assumes "fe_current_frame e = Some f" "fr_payload f = PL_Headers p" "HpackEncoder_is_finished (fe_hpack_encoder e)"
    "fe_remaining_header_payload e \<le> length (fe_header_payload_buffer e)"
    "fe_header_payload_index e \<le> fe_remaining_header_payload e"
  shows "headers_pending (headers_next e) = drop (fe_header_payload_index e) (headers_block e)"
    "headers_ok (headers_next e)"
    "headers_header_status e = Ok (headers_next e)"
    "fe_state (headers_next e) = EncodingHeadersPayload \<longleftrightarrow> fe_header_payload_index e < fe_remaining_header_payload e"
  using assms
  by (auto simp: headers_next_def headers_pending_def headers_block_def headers_ok_def headers_status_finished)

lemma headers_block_write:
  "headers_block (e\<lparr>fe_header_payload_index := i, fe_encoded_bytes := j\<rparr>) = headers_block e"
  by (simp add: headers_block_def)

lemma headers_payload_stage:
  assumes "fe_current_frame e = Some f" "fr_payload f = PL_Headers p" "HpackEncoder_is_finished (fe_hpack_encoder e)"
    "fe_remaining_header_payload e \<le> length (fe_header_payload_buffer e)" "fe_state e = EncodingHeadersPayload"
    "fe_header_payload_index e \<le> fe_remaining_header_payload e" "buf \<noteq> []"
  shows "\<exists>k e'. encode_state e buf = Ok (k, take k (headers_pending e) @ drop k buf, e') \<and>
        k \<le> length buf \<and> k \<le> length (headers_pending e) \<and> headers_pending e' = drop k (headers_pending e) \<and>
        headers_ok e' \<and> (fe_state e' = fe_state e \<longrightarrow> k = length buf)"
proof -
  let ?r = "fe_remaining_header_payload e" and ?i = "fe_header_payload_index e"
  let ?n = "min (length buf) (?r - ?i)"
  let ?e1 = "e\<lparr>fe_header_payload_index := ?i + ?n, fe_encoded_bytes := fe_encoded_bytes e + ?n\<rparr>"
  have s: "headers_header_status ?e1 = Ok (headers_next ?e1)"
    by (rule headers_next) (use assms in auto)
  have "encode_state e buf = Ok (?n, take ?n (headers_pending e) @ drop ?n buf, headers_next ?e1)"
    using assms s by (simp add: encode_state_def encode_headers_payload_def try_retrieve_current_frame_def is_headers_def
        write_payload_eq Let_def headers_pending_def headers_block_def)
  moreover have "headers_pending (headers_next ?e1) = drop ?n (headers_pending e)" "headers_ok (headers_next ?e1)"
    "fe_state (headers_next ?e1) = EncodingHeadersPayload \<longleftrightarrow> ?i + ?n < ?r"
    using assms headers_next [of ?e1 f p] by (auto simp: headers_block_write headers_pending_def add.commute)
  moreover have "length (headers_pending e) = ?r - ?i" using assms by (simp add: headers_pending_def headers_block_def)
  ultimately show ?thesis using assms(5)
    by (intro exI [of _ ?n] exI [of _ "headers_next ?e1"]) auto
qed

lemma headers_frame_stage:
  assumes "fe_current_frame e = Some f" "fr_payload f = PL_Headers p" "HpackEncoder_is_finished (fe_hpack_encoder e)"
    "fe_remaining_header_payload e \<le> length (fe_header_payload_buffer e)" "fe_state e = EncodingHeadersFrame"
    "fe_encoded_bytes e < 9" "fe_header_payload_index e = 0"
  shows "\<exists>k e'. encode_state e buf = Ok (k, take k (headers_pending e) @ drop k buf, e') \<and>
        k \<le> length buf \<and> k \<le> length (headers_pending e) \<and> headers_pending e' = drop k (headers_pending e) \<and>
        headers_ok e' \<and> (fe_state e' = fe_state e \<longrightarrow> k = length buf)"
proof -
  let ?h = "header_bytes_to_write e buf" and ?m = "fe_encoded_bytes e" and ?r = "fe_remaining_header_payload e"
  let ?b = "headers_block e" let ?o = "headers_octets f ?b"
  have lb: "length ?b = ?r" using assms(4) by (simp add: headers_block_def)
  have lo: "length ?o = 9 + ?r" by (simp add: headers_octets_def lb)
  have p: "headers_pending e = drop ?m ?o" using assms by (simp add: headers_pending_def)
  have k: "?h \<le> length buf" "?m + ?h \<le> 9" "?m + ?h < 9 \<Longrightarrow> ?h = length buf"
    using assms(6) by (auto simp: header_bytes_to_write_def)
  have hdr: "iterate_headers_header e f buf ?h = Ok (take ?h (drop ?m ?o) @ drop ?h buf)"
    unfolding iterate_headers_header_def
    by (rule fill_octets_from)
      (use assms k lo lb in \<open>auto simp: headers_octets_def nth_append nth_frame_header Let_def\<close>)
  show ?thesis
  proof (cases "?m + ?h < 9")
    case True
    let ?e = "e\<lparr>fe_encoded_bytes := ?m + ?h\<rparr>"
    have "encode_state e buf = Ok (?h, take ?h (headers_pending e) @ drop ?h buf, ?e)"
      using assms True hdr by (simp add: encode_state_def encode_headers_frame_def try_retrieve_current_frame_def
          is_headers_def Let_def p)
    then show ?thesis
      by (rule_tac exI [of _ ?h], rule_tac exI [of _ ?e])
        (use assms True k lo in \<open>auto simp: headers_pending_def headers_block_def headers_ok_def add.commute\<close>)
  next
    case False
    let ?n = "min (length buf - ?h) ?r"
    let ?e1 = "e\<lparr>fe_header_payload_index := ?n, fe_encoded_bytes := ?m + ?h + ?n\<rparr>"
    have nine: "?m + ?h = 9" using False k by simp
    have "take (?h + ?n) (drop ?m ?o) = take ?h (drop ?m ?o) @ take ?n ?b"
    proof -
      have "drop ?h (drop ?m ?o) = ?b" using nine by (simp add: headers_octets_def add.commute)
      then show ?thesis by (simp only: take_add)
    qed
    moreover have "take ?n (take ?r (fe_header_payload_buffer e)) = take ?n ?b" by (simp add: headers_block_def)
    moreover have s: "headers_header_status ?e1 = Ok (headers_next ?e1)"
      by (rule headers_next) (use assms in auto)
    moreover have "min (length ?o - ?m) ?h = ?h" using nine lo by simp
    ultimately have "encode_state e buf = Ok (?h + ?n, take (?h + ?n) (headers_pending e) @ drop (?h + ?n) buf, headers_next ?e1)"
      using assms False hdr by (simp add: encode_state_def encode_headers_frame_def try_retrieve_current_frame_def
          is_headers_def Let_def p write_payload_eq add.commute [of ?h])
    moreover have "headers_pending (headers_next ?e1) = drop ?n ?b" "headers_ok (headers_next ?e1)"
      "fe_state (headers_next ?e1) \<noteq> EncodingHeadersFrame"
      using assms headers_next [of ?e1 f p] by (auto simp: headers_block_write headers_next_def)
    moreover have "drop (?h + ?n) (headers_pending e) = drop ?n ?b"
    proof -
      have "?h + ?n + ?m - 9 = ?n" "9 \<le> ?h + ?n + ?m" using nine by linarith+
      then show ?thesis by (simp add: p headers_octets_def)
    qed
    moreover have "?h + ?n \<le> length buf" "?h + ?n \<le> length (headers_pending e)"
      using k(1) nine lo unfolding p by auto
    ultimately show ?thesis using assms(5)
      by (intro exI [of _ "?h + ?n"] exI [of _ "headers_next ?e1"]) simp
  qed
qed

interpretation headers_writer: staged_writer headers_pending headers_ok
proof
  fix e and buf :: bytes assume ok: "headers_ok e" and n: "\<not> is_complete e" and "buf \<noteq> []"
  then obtain f p where f: "fe_current_frame e = Some f" "fr_payload f = PL_Headers p"
    by (auto simp: headers_ok_def is_complete_def)
  show "\<exists>k e'. encode_state e buf = Ok (k, take k (headers_pending e) @ drop k buf, e') \<and>
        k \<le> length buf \<and> k \<le> length (headers_pending e) \<and> headers_pending e' = drop k (headers_pending e) \<and>
        headers_ok e' \<and> (fe_state e' = fe_state e \<longrightarrow> k = length buf)"
  proof (cases "fe_state e = EncodingHeadersFrame")
    case True
    with ok show ?thesis by (intro headers_frame_stage [OF f]) (auto simp: headers_ok_def)
  next
    case False
    with ok n \<open>buf \<noteq> []\<close> show ?thesis by (intro headers_payload_stage [OF f]) (auto simp: headers_ok_def is_complete_def)
  qed
next
  fix e assume "headers_ok e" "is_complete e"
  then show "headers_pending e = []" by (auto simp: headers_ok_def is_complete_def headers_pending_def)
qed

end
