(* ===== verification/H2_Encoder_Frames.thy ===== *)
theory H2_Encoder_Frames
  imports H2_Encoder_Segments
begin

text \<open>
  Whole frames: from \<^verbatim>\<open>set_frame\<close> to the last octet. The headers of SETTINGS, PING, RST\_STREAM and
  WINDOW\_UPDATE frames have to fit into the first buffer; what happens otherwise is shown at the end.
\<close>

section \<open>Headers that are written at once\<close>

lemma for_range_writes:
  assumes "\<And>j b. j < n \<Longrightarrow> length b = length buf \<Longrightarrow> body j b = set_at b j (xs ! j)"
    "n \<le> length buf" "n \<le> length xs"
  shows "for_range body 0 n buf = Ok (take n xs @ drop n buf)"
proof -
  have "for_range body i m b = Ok (take i b @ drop i (take n xs) @ drop n b)"
    if "i + m = n" "length b = length buf" for i m b
    using that
  proof (induction m arbitrary: i b)
    case (Suc m)
    then have i: "i < n" "i < length b" "i < length xs" using assms(2,3) by auto
    from i have "body i b = Ok (b[i := xs ! i])" using assms(1) [of i b] Suc.prems by (simp add: set_at_def)
    moreover have "for_range body (Suc i) m (b[i := xs ! i]) =
        Ok (take (Suc i) (b[i := xs ! i]) @ drop (Suc i) (take n xs) @ drop n b)"
      using Suc.IH [of "Suc i" "b[i := xs ! i]"] Suc.prems by simp
    moreover have "take (Suc i) (b[i := xs ! i]) @ drop (Suc i) (take n xs) = take i b @ drop i (take n xs)"
      using i by (simp add: take_Suc_conv_app_nth Cons_nth_drop_Suc [symmetric])
    ultimately show ?case by simp
  qed (use assms in auto)
  from this [of 0 n buf] show ?thesis by simp
qed

lemma settings_header_step:
  assumes "fe_current_frame e = Some f" "fr_payload f = PL_Settings ss"
    "fe_state e = EncodingSettingsFrame" "fe_encoded_bytes e = 0" "9 \<le> length buf"
  shows "encode_state e buf =
    Ok (9, take 9 (frame_octets f) @ drop 9 buf, e\<lparr>fe_encoded_bytes := 9, fe_state := EncodingSettingsPayload\<rparr>)"
proof -
  have "iterate_settings_header e f buf (length ss * 6) 9 = Ok (take 9 (frame_octets f) @ drop 9 buf)"
    unfolding iterate_settings_header_def
    by (rule for_range_writes)
      (use assms in \<open>auto simp: nth_frame_octets wire_id_def Let_def length_settings_octets length_frame_octets shr_u32_def\<close>)
  then show ?thesis
    using assms by (simp add: encode_state_def encode_settings_frame_def try_retrieve_current_frame_def Let_def
        header_bytes_to_write_def)
qed

lemma ping_header_step:
  assumes "fe_current_frame e = Some f" "fr_payload f = PL_Ping data" "length data = 8"
    "fe_state e = EncodingPingFrame" "fe_encoded_bytes e = 0" "9 \<le> length buf"
  shows "encode_state e buf =
    Ok (9, take 9 (frame_octets f) @ drop 9 buf, e\<lparr>fe_encoded_bytes := 9, fe_state := EncodingPingPayload\<rparr>)"
proof -
  have "iterate_ping_header e f buf 9 = Ok (take 9 (frame_octets f) @ drop 9 buf)"
    unfolding iterate_ping_header_def
    by (rule for_range_writes)
      (use assms in \<open>auto simp: nth_frame_octets wire_id_def Let_def length_frame_octets shr_u32_def\<close>)
  then show ?thesis
    using assms by (simp add: encode_state_def encode_ping_frame_def try_retrieve_current_frame_def Let_def
        header_bytes_to_write_def)
qed

lemma rst_stream_header_step:
  assumes "fe_current_frame e = Some f" "fr_payload f = PL_RstStream code"
    "fe_state e = EncodingRstStreamFrame" "fe_encoded_bytes e = 0" "9 \<le> length buf"
  shows "encode_state e buf =
    Ok (9, take 9 (frame_octets f) @ drop 9 buf, e\<lparr>fe_encoded_bytes := 9, fe_state := EncodingRstStreamPayload\<rparr>)"
proof -
  let ?item = "\<lambda>i. if i \<le> 2 then Ok (shr_usize 4 (16 - 8 * i))
      else if i = 3 then Ok (FrameType_as_u8 FT_RstStream)
      else if i = 4 then Ok (fr_flags f)
      else if i \<le> 8 then obind (usize_sub i 5) (\<lambda>k. Ok (shr_u32 (fr_id f) (24 - 8 * k)))
      else Err EncoderInternalError"
  have "fill_octets ?item 0 9 buf = Ok (take 9 (drop 0 (frame_octets f)) @ drop 9 buf)"
    by (rule fill_octets_from)
      (use assms in \<open>auto simp: nth_frame_octets wire_id_def length_frame_octets\<close>)
  then show ?thesis
    using assms by (simp add: encode_state_def encode_rst_stream_frame_def try_retrieve_current_frame_def Let_def)
qed

lemma window_update_header_step:
  assumes "fe_current_frame e = Some f" "fr_payload f = PL_WindowUpdate increment"
    "fe_state e = EncodingWindowUpdateFrame" "fe_encoded_bytes e = 0" "9 \<le> length buf"
  shows "encode_state e buf =
    Ok (9, take 9 (frame_octets f) @ drop 9 buf, e\<lparr>fe_state := EncodingWindowUpdatePayload, fe_encoded_bytes := 0\<rparr>)"
proof -
  have *: "shr_usize 4 16 = 0" "shr_usize 4 8 = 0" "shr_usize 4 0 = 4" by (simp_all add: shr_usize_def)
  have "iterate_window_update_header e f buf 9 = Ok (take 9 (drop 0 (frame_octets f)) @ drop 9 buf)"
    unfolding iterate_window_update_header_def
    by (rule fill_octets_from)
      (use assms in \<open>auto simp: nth_frame_octets wire_id_def Let_def length_frame_octets * le_Suc_eq\<close>)
  then show ?thesis
    using assms by (simp add: encode_state_def encode_window_update_frame_def try_retrieve_current_frame_def Let_def
        header_bytes_to_write_def)
qed

lemma window_update_payload_step:
  assumes "fe_current_frame e = Some f" "fr_payload f = PL_WindowUpdate increment"
    "fe_state e = EncodingWindowUpdatePayload" "fe_encoded_bytes e = 0" "4 \<le> length buf"
  shows "encode_state e buf =
    Ok (4, be32 increment @ drop 4 buf, e\<lparr>fe_encoded_bytes := 4, fe_state := DataComplete\<rparr>)"
proof -
  have "fill_octets (\<lambda>i. obind (usize_sub 24 (8 * i)) (\<lambda>k. Ok (shr_u32 increment k))) 0 4 buf =
      (Ok (take 4 (drop 0 (be32 increment)) @ drop 4 buf) :: (bytes, FrameEncoderErr) outcome)"
    by (rule fill_octets_from) (use assms in \<open>auto simp: nth_be32\<close>)
  then show ?thesis
    using assms by (simp add: encode_state_def encode_window_update_payload_def try_retrieve_current_frame_def Let_def)
qed

section \<open>From the first octet to the last\<close>

text \<open>The buffers that a frame can be written to: any, except for the first one of some control frames.\<close>

definition first_buffer :: "nat \<Rightarrow> bytes list \<Rightarrow> bool" where
  "first_buffer n bufs = (case bufs of [] \<Rightarrow> False | b # _ \<Rightarrow> n \<le> length b)"

fun frame_fits :: "Payload \<Rightarrow> FrameEncoder \<Rightarrow> bytes list \<Rightarrow> bool" where
  "frame_fits (PL_Data data) e bufs = (length data \<le> fe_max_frame_size e)"
| "frame_fits (PL_Goaway g) e bufs = True"
| "frame_fits (PL_Priority p) e bufs = True"
| "frame_fits (PL_Settings ss) e bufs = first_buffer 9 bufs"
| "frame_fits (PL_RstStream code) e bufs = first_buffer 9 bufs"
| "frame_fits (PL_Ping data) e bufs = (length data = 8 \<and> first_buffer 9 bufs)"
| "frame_fits (PL_WindowUpdate increment) e bufs = first_buffer 13 bufs"
| "frame_fits (PL_Headers parts) e bufs = False"
| "frame_fits (PL_PushPromise p) e bufs = False"

lemma encode_loop_complete: "is_complete e \<Longrightarrow> encode_loop e buf = Ok (0, buf, e)"
  by (simp add: encode_loop.simps)

lemma encode_step:
  "encode_state e buf = Ok (n, buf', e') \<Longrightarrow> fe_state e' \<noteq> fe_state e \<Longrightarrow> \<not> is_complete e \<Longrightarrow> buf \<noteq> [] \<Longrightarrow>
   encode_loop e buf = obind (encode_loop e' (drop n buf')) (\<lambda>(m, rest, e''). Ok (n + m, take n buf' @ rest, e''))"
  by (simp add: encode_loop.simps [of e])

text \<open>What one call of \<^verbatim>\<open>encode\<close> does when \<open>o'\<close> is to be written.\<close>

definition encodes :: "FrameEncoder \<Rightarrow> bytes \<Rightarrow> bytes \<Rightarrow> bool" where
  "encodes e buf o' \<longleftrightarrow>
     (\<exists>e'. FrameEncoder_encode e buf = Ok (min (length buf) (length o'), take (length buf) o' @ drop (length o') buf, e') \<and>
        frame_pending e' = drop (length buf) o' \<and> frame_ok e' \<and> (length o' < length buf \<longrightarrow> is_complete e'))"

text \<open>The first \<open>n\<close> octets are written in one step.\<close>

lemma encode_after_step:
  assumes "encode_state e buf = Ok (n, take n o' @ drop n buf, e')" "fe_state e' \<noteq> fe_state e" "\<not> is_complete e"
    "0 < n" "n \<le> length buf" "n \<le> length o'" "frame_ok e'" "frame_pending e' = drop n o'"
  shows "encodes e buf o'"
proof -
  have n: "min (length o') n = n" using assms(6) by simp
  have rest: "drop n (take n o' @ drop n buf) = drop n buf" using assms by simp
  from frame_writer.encode_writes [OF assms(7), of "drop n buf"] obtain e'' where
    e'': "encode_loop e' (drop n buf) = Ok (min (length buf - n) (length o' - n),
        take (length buf - n) (drop n o') @ drop (length o' - n) (drop n buf), e'')"
      "frame_pending e'' = drop (length buf - n) (drop n o')" "frame_ok e''"
      "length o' - n < length buf - n \<longrightarrow> is_complete e''"
    unfolding FrameEncoder_encode_def assms(8) length_drop by blast
  have ne: "buf \<noteq> []" using assms(4,5) by auto
  have "take n o' @ take (length buf - n) (drop n o') @ r = take (length buf) o' @ r" for r
    using assms(5) by (metis append.assoc le_add_diff_inverse take_add)
  moreover have "n + min (length buf - n) (length o' - n) = min (length buf) (length o')" using assms(5,6) by simp
  ultimately show ?thesis unfolding encodes_def
    using e'' assms(3-6) encode_step [OF assms(1,2,3) ne]
    by (intro exI [of _ e'']) (auto simp: FrameEncoder_encode_def rest n)
qed

lemma write_frame_first:
  assumes "encodes e b o'"
  shows "\<exists>e'. write_frame e (b # bs) = Ok (take (sum_list (map length (b # bs))) o', e') \<and>
    (length o' < sum_list (map length (b # bs)) \<longrightarrow> is_complete e')"
proof -
  from assms obtain e1 where
    e1: "FrameEncoder_encode e b = Ok (min (length b) (length o'), take (length b) o' @ drop (length o') b, e1)"
      "frame_pending e1 = drop (length b) o'" "frame_ok e1" "length o' < length b \<longrightarrow> is_complete e1" unfolding encodes_def by blast
  have out: "take (min (length b) (length o')) (take (length b) o' @ drop (length o') b) = take (length b) o'"
    by (simp add: min_def)
  show ?thesis
  proof (cases "is_complete e1")
    case True
    then show ?thesis using e1 frame_writer.complete_pending [OF e1(3)]
      by (auto simp: out write_frame_complete)
  next
    case False
    from frame_writer.write_frame_writes [OF e1(3), of bs] obtain e2 where
      "write_frame e1 bs = Ok (take (sum_list (map length bs)) (frame_pending e1), e2)"
      "length (frame_pending e1) < sum_list (map length bs) \<longrightarrow> is_complete e2" by blast
    with e1 False show ?thesis by (auto simp: out take_add add.commute)
  qed
qed

lemma window_update_encodes:
  assumes "fe_current_frame e = Some f" "fr_payload f = PL_WindowUpdate increment"
    "fe_state e = EncodingWindowUpdateFrame" "fe_encoded_bytes e = 0" "13 \<le> length buf"
  shows "encodes e buf (frame_octets f)"
proof -
  let ?e1 = "e\<lparr>fe_state := EncodingWindowUpdatePayload, fe_encoded_bytes := 0\<rparr>"
  let ?e2 = "?e1\<lparr>fe_encoded_bytes := 4, fe_state := DataComplete\<rparr>"
  have o': "frame_octets f = take 9 (frame_octets f) @ be32 increment" "length (frame_octets f) = 13"
    using assms(2) by (simp_all add: frame_octets_def)
  have "buf \<noteq> []" using assms(5) by auto
  have "encode_state e buf = Ok (9, take 9 (frame_octets f) @ drop 9 buf, ?e1)"
    using assms by (intro window_update_header_step) auto
  then have "encode_loop e buf = obind (encode_loop ?e1 (drop 9 buf)) (\<lambda>(m, rest, e'').
      Ok (9 + m, take 9 (frame_octets f) @ rest, e''))"
    using assms \<open>buf \<noteq> []\<close> encode_step [of e buf 9 "take 9 (frame_octets f) @ drop 9 buf" ?e1]
    by (auto simp: is_complete_def o'(2))
  moreover have "encode_loop ?e1 (drop 9 buf) = Ok (4, be32 increment @ drop 13 buf, ?e2)"
    using assms encode_step [of ?e1 "drop 9 buf" 4 "be32 increment @ drop 4 (drop 9 buf)" ?e2]
      window_update_payload_step [of ?e1 f increment "drop 9 buf"]
    by (auto simp: is_complete_def encode_loop_complete)
  moreover have "take (length buf) (frame_octets f) = take 9 (frame_octets f) @ be32 increment"
    using assms(5) o' by simp
  moreover have "frame_ok ?e2" "frame_pending ?e2 = []" "is_complete ?e2"
    using assms by (auto simp: frame_ok_def frame_pending_def position_def is_complete_def)
  ultimately show ?thesis using assms(5) o'(2)
    unfolding encodes_def FrameEncoder_encode_def by (intro exI [of _ ?e2]) auto
qed

lemma control_encodes:
  assumes "fe_current_frame e = Some f" "fe_encoded_bytes e = 0" "9 \<le> length buf"
    "fr_payload f = PL_Settings ss \<and> fe_state e = EncodingSettingsFrame \<or>
     fr_payload f = PL_RstStream code \<and> fe_state e = EncodingRstStreamFrame \<or>
     fr_payload f = PL_Ping data \<and> length data = 8 \<and> fe_state e = EncodingPingFrame"
  shows "encodes e buf (frame_octets f)"
proof -
  define e' where "e' = e\<lparr>fe_encoded_bytes := 9, fe_state :=
    (case fr_payload f of PL_Settings _ \<Rightarrow> EncodingSettingsPayload | PL_Ping _ \<Rightarrow> EncodingPingPayload
     | _ \<Rightarrow> EncodingRstStreamPayload)\<rparr>"
  have "encode_state e buf = Ok (9, take 9 (frame_octets f) @ drop 9 buf, e')"
    using assms settings_header_step [OF assms(1)] rst_stream_header_step [OF assms(1)] ping_header_step [OF assms(1)]
    by (auto simp: e'_def)
  moreover have "frame_ok e'" "frame_pending e' = drop 9 (frame_octets f)" "fe_state e' \<noteq> fe_state e" "\<not> is_complete e"
    using assms by (auto simp: e'_def frame_ok_def frame_pending_def position_def is_complete_def)
  ultimately show ?thesis
    using assms(3) by (intro encode_after_step [of e buf 9 "frame_octets f" e']) (auto simp: length_frame_octets)
qed

text \<open>\<^verbatim>\<open>set_frame\<close> followed by the first call of \<^verbatim>\<open>encode\<close>.\<close>

lemma set_frame_ok:
  assumes "\<And>parts. fr_payload f \<noteq> PL_Headers parts"
  obtains e' where "FrameEncoder_set_frame e f = Ok e'" "fe_current_frame e' = Some f" "fe_encoded_bytes e' = 0"
    "fe_max_frame_size e' = fe_max_frame_size e"
    "\<And>data. fr_payload f = PL_Data data \<Longrightarrow> fe_state e' = EncodingDataHeader \<and> fe_data_offset e' = 0 \<and>
       fe_remaining_payload_bytes e' = length data"
    "\<And>g. fr_payload f = PL_Goaway g \<Longrightarrow> fe_state e' = EncodingGoawayFrame"
    "\<And>p. fr_payload f = PL_Priority p \<Longrightarrow> fe_state e' = EncodingPriorityFrame"
    "\<And>ss. fr_payload f = PL_Settings ss \<Longrightarrow> fe_state e' = EncodingSettingsFrame"
    "\<And>code. fr_payload f = PL_RstStream code \<Longrightarrow> fe_state e' = EncodingRstStreamFrame"
    "\<And>data. fr_payload f = PL_Ping data \<Longrightarrow> fe_state e' = EncodingPingFrame"
    "\<And>increment. fr_payload f = PL_WindowUpdate increment \<Longrightarrow> fe_state e' = EncodingWindowUpdateFrame"
  using that assms by (cases "fr_payload f") (auto simp: FrameEncoder_set_frame_def)

lemma set_frame_writes:
  assumes "frame_fits (fr_payload f) e bufs"
  shows "\<exists>e1 e2. FrameEncoder_set_frame e f = Ok e1 \<and>
    write_frame e1 bufs = Ok (take (sum_list (map length bufs)) (frame_octets f), e2) \<and>
    (length (frame_octets f) < sum_list (map length bufs) \<longrightarrow> is_complete e2)"
proof -
  from assms have "fr_payload f \<noteq> PL_Headers parts" for parts by auto
  then obtain e1 where s: "FrameEncoder_set_frame e f = Ok e1" and
    e1: "fe_current_frame e1 = Some f" "fe_encoded_bytes e1 = 0" "fe_max_frame_size e1 = fe_max_frame_size e"
    "\<And>data. fr_payload f = PL_Data data \<Longrightarrow> fe_state e1 = EncodingDataHeader \<and> fe_data_offset e1 = 0 \<and>
       fe_remaining_payload_bytes e1 = length data"
    "\<And>g. fr_payload f = PL_Goaway g \<Longrightarrow> fe_state e1 = EncodingGoawayFrame"
    "\<And>p. fr_payload f = PL_Priority p \<Longrightarrow> fe_state e1 = EncodingPriorityFrame"
    "\<And>ss. fr_payload f = PL_Settings ss \<Longrightarrow> fe_state e1 = EncodingSettingsFrame"
    "\<And>code. fr_payload f = PL_RstStream code \<Longrightarrow> fe_state e1 = EncodingRstStreamFrame"
    "\<And>data. fr_payload f = PL_Ping data \<Longrightarrow> fe_state e1 = EncodingPingFrame"
    "\<And>increment. fr_payload f = PL_WindowUpdate increment \<Longrightarrow> fe_state e1 = EncodingWindowUpdateFrame"
    by (rule set_frame_ok) blast
  have "\<exists>e2. write_frame e1 bufs = Ok (take (sum_list (map length bufs)) (frame_octets f), e2) \<and>
    (length (frame_octets f) < sum_list (map length bufs) \<longrightarrow> is_complete e2)"
  proof (cases "frame_ok e1")
    case True
    have "frame_pending e1 = frame_octets f"
      using assms e1 True by (cases "fr_payload f") (auto simp: frame_pending_def position_def frame_ok_def)
    with frame_writer.write_frame_writes [OF True, of bufs] show ?thesis by auto
  next
    case False
    then obtain b bs where b: "bufs = b # bs"
      using assms e1 by (cases "fr_payload f"; cases bufs) (auto simp: frame_ok_def first_buffer_def)
    have "encodes e1 b (frame_octets f)"
      using assms e1 False control_encodes [OF e1(1,2), of b] window_update_encodes [OF e1(1)]
      by (cases "fr_payload f") (auto simp: frame_ok_def first_buffer_def b)
    from write_frame_first [OF this, of bs] show ?thesis by (simp add: b)
  qed
  with s show ?thesis by blast
qed

end
