(* ===== verification/H2_Decoder.thy ===== *)
theory H2_Decoder
  imports H2_Frame Hpack
begin

text \<open>
  The frame decoder (\<^verbatim>\<open>h2/decoder.rs\<close>): a state machine that is fed octets in segments of any sizes
  and returns the frames that are complete. The payload decoders return the decoder with the frame;
  after an error there is no decoder to go on with.
\<close>

section \<open>State\<close>

definition FRAME_HEADER_LENGTH :: nat where "FRAME_HEADER_LENGTH = 9"
definition DEFAULT_MAX_FRAME_SIZE :: u32 where "DEFAULT_MAX_FRAME_SIZE = push_bit 13 2"
definition MAX_ALLOWED_MAX_FRAME_SIZE :: u32 where "MAX_ALLOWED_MAX_FRAME_SIZE = push_bit 23 2 - 1"
definition DEFAULT_HEADER_TABLE_SIZE :: nat where "DEFAULT_HEADER_TABLE_SIZE = 4096"
definition DEFAULT_MAX_HEADER_LIST_SIZE :: nat where "DEFAULT_MAX_HEADER_LIST_SIZE = 16 * 2 ^ 20"
definition MAX_INITIAL_WINDOW_SIZE :: nat where "MAX_INITIAL_WINDOW_SIZE = 2 ^ 31 - 1"

datatype FrameKind = Complete Frame | Partial

datatype Stage = Stage_Header | Stage_Payload

record FrameHeader =
  fh_stream_id :: StreamId
  fh_flags :: u8
  fh_frame_type :: u8
  fh_payload_length :: nat

record Continuations =
  co_flags :: u8
  co_is_end_stream :: bool
  co_stream_id :: StreamId
  co_is_end_headers :: bool
  co_promised_stream_id :: StreamId

record FrameDecoder =
  fd_buffer :: bytes
  fd_offset :: nat
  fd_max_frame_size :: u32
  fd_stage :: Stage
  fd_header :: FrameHeader
  fd_hpack :: HpackDecoder
  fd_continuations :: Continuations

definition FrameHeader_new :: FrameHeader where
  "FrameHeader_new = \<lparr>fh_stream_id = 0, fh_flags = 0, fh_frame_type = 0, fh_payload_length = 0\<rparr>"

definition FrameHeader_reset :: "FrameHeader \<Rightarrow> FrameHeader" where
  "FrameHeader_reset h =
     h\<lparr>fh_stream_id := 0, fh_flags := 0, fh_frame_type := 0, fh_payload_length := 0\<rparr>"

definition FrameHeader_is_end_stream :: "FrameHeader \<Rightarrow> bool" where
  "FrameHeader_is_end_stream h \<longleftrightarrow> END_STREAM_MASK AND fh_flags h = END_STREAM_MASK"

definition FrameHeader_is_padded :: "FrameHeader \<Rightarrow> bool" where
  "FrameHeader_is_padded h \<longleftrightarrow> PADDED_MASK AND fh_flags h = PADDED_MASK"

definition FrameHeader_is_end_headers :: "FrameHeader \<Rightarrow> bool" where
  "FrameHeader_is_end_headers h \<longleftrightarrow> END_HEADERS_MASK AND fh_flags h = END_HEADERS_MASK"

definition FrameHeader_is_headers_priority :: "FrameHeader \<Rightarrow> bool" where
  "FrameHeader_is_headers_priority h \<longleftrightarrow> HEADERS_PRIORITY_MASK AND fh_flags h = HEADERS_PRIORITY_MASK"

definition FrameHeader_is_ack :: "FrameHeader \<Rightarrow> bool" where
  "FrameHeader_is_ack h \<longleftrightarrow> ACK_MASK AND fh_flags h = ACK_MASK"

definition Continuations_new :: Continuations where
  "Continuations_new =
     \<lparr>co_flags = 0, co_is_end_stream = False, co_stream_id = 0, co_is_end_headers = True,
      co_promised_stream_id = 0\<rparr>"

definition Continuations_reset :: "Continuations \<Rightarrow> Continuations" where
  "Continuations_reset c =
     c\<lparr>co_flags := 0, co_is_end_stream := False, co_is_end_headers := True, co_stream_id := 0,
       co_promised_stream_id := 0\<rparr>"

definition HpackDecoderLayer_new :: HpackDecoder where
  "HpackDecoderLayer_new =
     HpackDecoder_with_max_size DEFAULT_HEADER_TABLE_SIZE DEFAULT_MAX_HEADER_LIST_SIZE"

definition FrameDecoder_new :: FrameDecoder where
  "FrameDecoder_new =
     \<lparr>fd_buffer = [], fd_offset = 0, fd_max_frame_size = DEFAULT_MAX_FRAME_SIZE,
      fd_stage = Stage_Header, fd_header = FrameHeader_new, fd_hpack = HpackDecoderLayer_new,
      fd_continuations = Continuations_new\<rparr>"

definition FrameDecoder_set_max_frame_size :: "FrameDecoder \<Rightarrow> u32 \<Rightarrow> (FrameDecoder, H2Error) outcome" where
  "FrameDecoder_set_max_frame_size d sz =
     (if \<not> (DEFAULT_MAX_FRAME_SIZE \<le> sz \<and> sz \<le> MAX_ALLOWED_MAX_FRAME_SIZE)
      then Err (ConnectionError ProtocolError)
      else Ok (d\<lparr>fd_max_frame_size := sz\<rparr>))"

definition FrameDecoder_set_max_header_list_size :: "FrameDecoder \<Rightarrow> nat \<Rightarrow> FrameDecoder" where
  "FrameDecoder_set_max_header_list_size d sz =
     d\<lparr>fd_hpack := HpackDecoder_update_header_list_size (fd_hpack d) sz\<rparr>"

section \<open>Tokens and settings\<close>

definition is_connection_frame :: "StreamId \<Rightarrow> bool" where
  "is_connection_frame i \<longleftrightarrow> i = 0"

fun get_stream_id :: "bytes \<Rightarrow> (StreamId, 'e) outcome" where
  "get_stream_id (a # b # c # d # _) = Ok (of_be32 (a AND 0x7f) b c d)"
| "get_stream_id _ = Panic"

fun get_code_value :: "bytes \<Rightarrow> (u32, 'e) outcome" where
  "get_code_value (a # b # c # d # _) = Ok (of_be32 a b c d)"
| "get_code_value _ = Panic"

definition get_setting :: "u16 \<Rightarrow> u32 \<Rightarrow> (Setting option, H2Error) outcome" where
  "get_setting i v =
     (if i = 1 then Ok (Some (HeaderTableSize v))
      else if i = 2 then
        (if v = 0 then Ok (Some (EnablePush False))
         else if v = 1 then Ok (Some (EnablePush True))
         else Err (ConnectionError ProtocolError))
      else if i = 3 then Ok (Some (MaxConcurrentStreams v))
      else if i = 4 then
        (if unat v > MAX_INITIAL_WINDOW_SIZE then Err (ConnectionError FlowControlError)
         else Ok (Some (InitialWindowSize v)))
      else if i = 5 then
        (if \<not> (DEFAULT_MAX_FRAME_SIZE \<le> v \<and> v \<le> MAX_ALLOWED_MAX_FRAME_SIZE)
         then Err (ConnectionError ProtocolError)
         else Ok (Some (MaxFrameSize v)))
      else if i = 6 then Ok (Some (MaxHeaderListSize v))
      else Ok None)"

definition split_token_to_setting :: "bytes \<Rightarrow> (Setting option, H2Error) outcome" where
  "split_token_to_setting token =
     obind (index_at token 0) (\<lambda>t0.
     obind (index_at token 1) (\<lambda>t1.
     obind (slice token 2 6) (\<lambda>rest.
     obind (get_code_value rest) (\<lambda>v.
       get_setting (push_bit 8 (ucast t0) OR ucast t1) v))))"

text \<open>\<^verbatim>\<open>for chunk in buf.chunks(6)\<close>: the last chunk may be shorter.\<close>

function settings_loop :: "bytes \<Rightarrow> Setting list \<Rightarrow> (Setting list, H2Error) outcome" where
  "settings_loop buf settings =
     (if buf = [] then Ok settings
      else obind (split_token_to_setting (take 6 buf)) (\<lambda>s.
        settings_loop (drop 6 buf) (settings @ (case s of Some s \<Rightarrow> [s] | None \<Rightarrow> []))))"
  by pat_completeness auto
termination by (relation "measure (length \<circ> fst)") auto

declare settings_loop.simps [simp del]

section \<open>Payloads\<close>

text \<open>
  The first lines of every payload decoder: what earlier calls left in the buffer comes before the
  octets of this call.
\<close>

definition assemble :: "FrameDecoder \<Rightarrow> bytes \<Rightarrow> bytes \<times> FrameDecoder" where
  "assemble d buf =
     (if fd_offset d \<noteq> 0 then
        (fd_buffer d @ buf,
         d\<lparr>fd_buffer := fd_buffer d @ buf, fd_offset := fd_offset d + length buf\<rparr>)
      else (buf, d))"

definition frame_of :: "FrameDecoder \<Rightarrow> Payload \<Rightarrow> FrameKind" where
  "frame_of d payload =
     Complete (Frame_new (fh_stream_id (fd_header d)) (fh_flags (fd_header d)) payload)"

definition decode_ping_payload :: "FrameDecoder \<Rightarrow> bytes \<Rightarrow> (FrameKind \<times> FrameDecoder, H2Error) outcome" where
  "decode_ping_payload d buf =
     (if \<not> is_connection_frame (fh_stream_id (fd_header d)) then Err (ConnectionError ProtocolError)
      else
        case assemble d buf of (buf, d) \<Rightarrow>
          if fh_payload_length (fd_header d) \<noteq> 8 \<or> length buf \<noteq> 8
          then Err (ConnectionError FrameSizeError)
          else Ok (frame_of d (PL_Ping buf), d))"

definition decode_priority_payload :: "FrameDecoder \<Rightarrow> bytes \<Rightarrow> (FrameKind \<times> FrameDecoder, H2Error) outcome" where
  "decode_priority_payload d buf =
     (if is_connection_frame (fh_stream_id (fd_header d)) then Err (ConnectionError ProtocolError)
      else if fh_payload_length (fd_header d) \<noteq> 5 \<or> length buf \<noteq> 5
      then Err (StreamError (fh_stream_id (fd_header d)) FrameSizeError)
      else
        case assemble d buf of (buf, d) \<Rightarrow>
          obind (index_at buf 0) (\<lambda>b0.
          obind (slice buf 0 4) (\<lambda>token.
          obind (get_stream_id token) (\<lambda>stream_dependency.
          obind (index_at buf 4) (\<lambda>weight.
            Ok (frame_of d (PL_Priority (Priority_new (b0 AND 0x80 = 0x80) stream_dependency weight)), d))))))"

definition decode_goaway_payload :: "FrameDecoder \<Rightarrow> bytes \<Rightarrow> (FrameKind \<times> FrameDecoder, H2Error) outcome" where
  "decode_goaway_payload d buf =
     (if \<not> is_connection_frame (fh_stream_id (fd_header d)) then Err (ConnectionError ProtocolError)
      else
        case assemble d buf of (buf, d) \<Rightarrow>
          if fh_payload_length (fd_header d) < 8 \<or> length buf < 8 then Err (ConnectionError FrameSizeError)
          else
            obind (slice buf 0 4) (\<lambda>token.
            obind (get_stream_id token) (\<lambda>last_stream_id.
            obind (slice buf 4 8) (\<lambda>token.
            obind (get_code_value token) (\<lambda>error_code.
              Ok (frame_of d (PL_Goaway (Goaway_new error_code last_stream_id (drop 8 buf))), d))))))"

definition decode_window_update_payload ::
  "FrameDecoder \<Rightarrow> bytes \<Rightarrow> (FrameKind \<times> FrameDecoder, H2Error) outcome" where
  "decode_window_update_payload d buf =
     (case assemble d buf of (buf, d) \<Rightarrow>
        if fh_payload_length (fd_header d) \<noteq> 4 \<or> length buf \<noteq> 4 then Err (ConnectionError FrameSizeError)
        else
          obind (get_stream_id buf) (\<lambda>increment_size.
            if increment_size = 0 then Err (StreamError (fh_stream_id (fd_header d)) ProtocolError)
            else Ok (frame_of d (PL_WindowUpdate increment_size), d)))"

definition decode_reset_payload :: "FrameDecoder \<Rightarrow> bytes \<Rightarrow> (FrameKind \<times> FrameDecoder, H2Error) outcome" where
  "decode_reset_payload d buf =
     (if is_connection_frame (fh_stream_id (fd_header d)) then Err (ConnectionError ProtocolError)
      else
        case assemble d buf of (buf, d) \<Rightarrow>
          if fh_payload_length (fd_header d) \<noteq> 4 \<or> length buf \<noteq> 4 then Err (ConnectionError FrameSizeError)
          else
            obind (slice buf 0 4) (\<lambda>token.
            obind (get_code_value token) (\<lambda>code.
              Ok (frame_of d (PL_RstStream code), d))))"

definition decode_settings_payload :: "FrameDecoder \<Rightarrow> bytes \<Rightarrow> (FrameKind \<times> FrameDecoder, H2Error) outcome" where
  "decode_settings_payload d buf =
     (if \<not> is_connection_frame (fh_stream_id (fd_header d)) then Err (ConnectionError ProtocolError)
      else
        case assemble d buf of (buf, d) \<Rightarrow>
          if fh_payload_length (fd_header d) mod 6 \<noteq> 0 then Err (ConnectionError FrameSizeError)
          else if FrameHeader_is_ack (fd_header d) then
            (if fh_payload_length (fd_header d) \<noteq> 0 \<or> buf \<noteq> [] then Err (ConnectionError FrameSizeError)
             else Ok (frame_of d (PL_Settings []), d))
          else obind (settings_loop buf []) (\<lambda>settings. Ok (frame_of d (PL_Settings settings), d)))"

definition decode_data_payload :: "FrameDecoder \<Rightarrow> bytes \<Rightarrow> (FrameKind \<times> FrameDecoder, H2Error) outcome" where
  "decode_data_payload d buf =
     (if is_connection_frame (fh_stream_id (fd_header d)) then Err (ConnectionError ProtocolError)
      else
        case assemble d buf of (buf, d) \<Rightarrow>
          if fh_payload_length (fd_header d) = 0 then Ok (frame_of d (PL_Data []), d)
          else if FrameHeader_is_padded (fd_header d) then
            obind (index_at buf 0) (\<lambda>b0.
              let padded_length = unat b0 in
              if fh_payload_length (fd_header d) \<le> padded_length then Err (ConnectionError ProtocolError)
              else
                obind (slice buf 1 (fh_payload_length (fd_header d) - padded_length)) (\<lambda>data.
                  Ok (frame_of d (PL_Data data), d)))
          else
            obind (slice buf 0 (fh_payload_length (fd_header d))) (\<lambda>data.
              Ok (frame_of d (PL_Data data), d)))"

definition hpack_decode :: "FrameDecoder \<Rightarrow> bytes \<Rightarrow> (FrameDecoder, H2Error) outcome" where
  "hpack_decode d buf = obind (HpackDecoder_decode (fd_hpack d) buf) (\<lambda>h. Ok (d\<lparr>fd_hpack := h\<rparr>))"

definition hpack_finish :: "FrameDecoder \<Rightarrow> (Parts \<times> FrameDecoder, H2Error) outcome" where
  "hpack_finish d = obind (HpackDecoder_finish (fd_hpack d)) (\<lambda>(p, h). Ok (p, d\<lparr>fd_hpack := h\<rparr>))"

definition decode_continuation_payload ::
  "FrameDecoder \<Rightarrow> bytes \<Rightarrow> (FrameKind \<times> FrameDecoder, H2Error) outcome" where
  "decode_continuation_payload d buf =
     (if is_connection_frame (fh_stream_id (fd_header d)) then Err (ConnectionError ProtocolError)
      else
        case assemble d buf of (buf, d) \<Rightarrow>
          if FrameHeader_is_end_headers (fd_header d) then
            obind (hpack_decode d buf) (\<lambda>d.
            obind (hpack_finish d) (\<lambda>(headers, d).
              let c = fd_continuations d;
                  frame =
                    (if co_promised_stream_id c \<noteq> 0
                     then Frame_new (co_stream_id c) (co_flags c)
                            (PL_PushPromise (PushPromise_new (co_promised_stream_id c) headers))
                     else Frame_new (co_stream_id c) (co_flags c) (PL_Headers headers)) in
              Ok (Complete frame, d\<lparr>fd_continuations := Continuations_reset c\<rparr>)))
          else obind (hpack_decode d buf) (\<lambda>d. Ok (Partial, d)))"

text \<open>
  The bounds of the header block fragment within a payload: the length of the padding is read from the
  first octet, and the fragment begins behind that octet and \<open>start\<close> others.
\<close>

definition fragment_bounds :: "FrameHeader \<Rightarrow> bytes \<Rightarrow> nat \<Rightarrow> nat \<Rightarrow> (nat \<times> nat, H2Error) outcome" where
  "fragment_bounds h buf start extra =
     obind
       (if FrameHeader_is_padded h then
          obind (index_at buf 0) (\<lambda>b0.
            let padded_length = unat b0 in
            if fh_payload_length h \<le> padded_length then Err (ConnectionError ProtocolError)
            else Ok (start + 1, fh_payload_length h - padded_length))
        else Ok (start, fh_payload_length h))
       (\<lambda>(fragment_start_index, fragment_end_index).
          let fragment_start_index = fragment_start_index + extra in
          if fragment_start_index > fragment_end_index then Err (ConnectionError ProtocolError)
          else Ok (fragment_start_index, fragment_end_index))"

definition decode_headers_payload :: "FrameDecoder \<Rightarrow> bytes \<Rightarrow> (FrameKind \<times> FrameDecoder, H2Error) outcome" where
  "decode_headers_payload d buf =
     (if is_connection_frame (fh_stream_id (fd_header d)) then Err (ConnectionError ProtocolError)
      else
        case assemble d buf of (buf, d) \<Rightarrow>
          obind (fragment_bounds (fd_header d) buf 0
                   (if FrameHeader_is_headers_priority (fd_header d) then 5 else 0)) (\<lambda>(i, j).
            if FrameHeader_is_end_headers (fd_header d) then
              obind (slice buf i j) (\<lambda>fragment.
              obind (hpack_decode d fragment) (\<lambda>d.
              obind (hpack_finish d) (\<lambda>(headers, d).
                Ok (frame_of d (PL_Headers headers), d))))
            else
              let d = d\<lparr>fd_continuations := (fd_continuations d)\<lparr>
                          co_flags := fh_flags (fd_header d),
                          co_is_end_stream := FrameHeader_is_end_stream (fd_header d),
                          co_is_end_headers := False,
                          co_stream_id := fh_stream_id (fd_header d)\<rparr>\<rparr> in
              obind (slice buf i j) (\<lambda>fragment.
              obind (hpack_decode d fragment) (\<lambda>d.
                Ok (Partial, d)))))"

definition push_promise_framing ::
  "FrameDecoder \<Rightarrow> bool \<Rightarrow> StreamId \<Rightarrow> (FrameKind \<times> FrameDecoder, H2Error) outcome" where
  "push_promise_framing d end_headers promised_stream_id =
     (if end_headers then
        obind (hpack_finish d) (\<lambda>(headers, d).
          Ok (frame_of d (PL_PushPromise (PushPromise_new promised_stream_id headers)), d))
      else
        Ok (Partial, d\<lparr>fd_continuations := (fd_continuations d)\<lparr>
                         co_flags := fh_flags (fd_header d),
                         co_is_end_headers := False,
                         co_stream_id := fh_stream_id (fd_header d),
                         co_promised_stream_id := promised_stream_id\<rparr>\<rparr>))"

definition decode_push_promise_payload ::
  "FrameDecoder \<Rightarrow> bytes \<Rightarrow> (FrameKind \<times> FrameDecoder, H2Error) outcome" where
  "decode_push_promise_payload d buf =
     (if is_connection_frame (fh_stream_id (fd_header d)) then Err (ConnectionError ProtocolError)
      else
        case assemble d buf of (buf, d) \<Rightarrow>
          obind (fragment_bounds (fd_header d) buf 4 0) (\<lambda>_.
          obind (hpack_decode d buf) (\<lambda>d.
          obind (if FrameHeader_is_padded (fd_header d) then slice buf 1 5 else slice buf 0 4) (\<lambda>token.
          obind (get_stream_id token) (\<lambda>promised_stream_id.
            if is_connection_frame promised_stream_id then Err (ConnectionError ProtocolError)
            else push_promise_framing d (FrameHeader_is_end_headers (fd_header d)) promised_stream_id)))))"

section \<open>The decoder\<close>

definition payload_decoder :: "u8 \<Rightarrow> FrameDecoder \<Rightarrow> bytes \<Rightarrow> (FrameKind \<times> FrameDecoder, H2Error) outcome" where
  "payload_decoder t =
     (if t = 0 then decode_data_payload
      else if t = 1 then decode_headers_payload
      else if t = 2 then decode_priority_payload
      else if t = 3 then decode_reset_payload
      else if t = 4 then decode_settings_payload
      else if t = 5 then decode_push_promise_payload
      else if t = 6 then decode_ping_payload
      else if t = 7 then decode_goaway_payload
      else if t = 8 then decode_window_update_payload
      else if t = 9 then decode_continuation_payload
      else (\<lambda>_ _. Err (ConnectionError ProtocolError)))"

text \<open>\<^verbatim>\<open>if self.offset != 0 { self.offset = 0; self.buffer.clear() }\<close>\<close>

definition clear_buffer :: "FrameDecoder \<Rightarrow> FrameDecoder" where
  "clear_buffer d = (if fd_offset d \<noteq> 0 then d\<lparr>fd_offset := 0, fd_buffer := []\<rparr> else d)"

lemma clear_buffer_simps [simp]:
  "fd_offset (clear_buffer d) = 0" "fd_stage (clear_buffer d) = fd_stage d"
  "fd_header (clear_buffer d) = fd_header d" "fd_hpack (clear_buffer d) = fd_hpack d"
  "fd_continuations (clear_buffer d) = fd_continuations d"
  "fd_max_frame_size (clear_buffer d) = fd_max_frame_size d"
  by (simp_all add: clear_buffer_def)

definition decode_frame_payload ::
  "FrameDecoder \<Rightarrow> bytes \<Rightarrow> ((bytes \<times> FrameKind) option \<times> FrameDecoder, H2Error) outcome" where
  "decode_frame_payload d buf =
     (if \<not> co_is_end_headers (fd_continuations d) \<and>
         (fh_stream_id (fd_header d) \<noteq> co_stream_id (fd_continuations d) \<or> fh_frame_type (fd_header d) \<noteq> 9)
      then Err (ConnectionError ProtocolError)
      else
        obind (usize_sub (fh_payload_length (fd_header d)) (fd_offset d)) (\<lambda>frame_end_index.
          if length buf < frame_end_index then
            Ok (None, d\<lparr>fd_offset := fd_offset d + length buf, fd_buffer := fd_buffer d @ buf\<rparr>)
          else
            obind (payload_decoder (fh_frame_type (fd_header d)) d (take frame_end_index buf)) (\<lambda>(frame, d).
              Ok (Some (drop frame_end_index buf, frame),
                  clear_buffer (d\<lparr>fd_header := FrameHeader_reset (fd_header d)\<rparr>)))))"

definition decode_frame_header :: "FrameDecoder \<Rightarrow> bytes \<Rightarrow> (bytes option \<times> FrameDecoder, H2Error) outcome" where
  "decode_frame_header d buf =
     obind (usize_sub FRAME_HEADER_LENGTH (fd_offset d)) (\<lambda>payload_pos.
       if length buf < payload_pos then
         Ok (None, d\<lparr>fd_offset := fd_offset d + length buf, fd_buffer := fd_buffer d @ buf\<rparr>)
       else
         case (if fd_offset d = 0 then (buf, d)
               else (fd_buffer d @ take payload_pos buf,
                     d\<lparr>fd_buffer := fd_buffer d @ take payload_pos buf\<rparr>))
         of (header_buffer, d) \<Rightarrow>
           obind (index_at header_buffer 0) (\<lambda>h0.
           obind (index_at header_buffer 1) (\<lambda>h1.
           obind (index_at header_buffer 2) (\<lambda>h2.
             let payload_length = of_be24 h0 h1 h2 in
             if payload_length > unat (fd_max_frame_size d) then Err (ConnectionError FrameSizeError)
             else
               obind (index_at header_buffer 3) (\<lambda>frame_type.
               obind (index_at header_buffer 4) (\<lambda>flags.
               obind (slice header_buffer 5 9) (\<lambda>token.
               obind (get_stream_id token) (\<lambda>stream_id.
                 let frame_header = \<lparr>fh_stream_id = stream_id, fh_flags = flags,
                       fh_frame_type = frame_type, fh_payload_length = payload_length\<rparr> in
                 Ok (Some (drop payload_pos buf), (clear_buffer d)\<lparr>fd_header := frame_header\<rparr>)))))))))"

section \<open>What a step leaves of the decoder\<close>

text \<open>A payload decoder changes nothing but the buffer, the header compression and the continuations.\<close>

definition same_frame :: "FrameDecoder \<Rightarrow> FrameDecoder \<Rightarrow> bool" where
  "same_frame d d' \<longleftrightarrow> fd_header d' = fd_header d \<and> fd_stage d' = fd_stage d \<and>
     fd_max_frame_size d' = fd_max_frame_size d \<and>
     (fd_offset d = 0 \<longrightarrow> fd_offset d' = 0 \<and> fd_buffer d' = fd_buffer d) \<and>
     (fd_offset d = length (fd_buffer d) \<longrightarrow> fd_offset d' = length (fd_buffer d'))"

lemma same_frame_refl [simp]: "same_frame d d"
  by (simp add: same_frame_def)

lemma same_frame_trans: "same_frame d d' \<Longrightarrow> same_frame d' d'' \<Longrightarrow> same_frame d d''"
  by (simp add: same_frame_def)

lemma same_frame_assemble: "assemble d buf = (b, d') \<Longrightarrow> same_frame d d'"
  by (auto simp: assemble_def same_frame_def split: if_splits)

lemma same_frame_hpack_decode: "hpack_decode d buf = Ok d' \<Longrightarrow> same_frame d d'"
  by (auto simp: hpack_decode_def same_frame_def obind_eq_Ok)

lemma same_frame_hpack_finish: "hpack_finish d = Ok (p, d') \<Longrightarrow> same_frame d d'"
  by (auto simp: hpack_finish_def same_frame_def obind_eq_Ok)

lemma same_frame_continuations [simp]:
  "same_frame d (d'\<lparr>fd_continuations := c\<rparr>) = same_frame d d'"
  "same_frame (d\<lparr>fd_continuations := c\<rparr>) d' = same_frame d d'"
  by (simp_all add: same_frame_def)

lemmas same_frame_intros = same_frame_assemble same_frame_hpack_decode same_frame_hpack_finish

lemmas payload_defs = decode_ping_payload_def decode_priority_payload_def decode_goaway_payload_def
  decode_window_update_payload_def decode_reset_payload_def decode_settings_payload_def
  decode_data_payload_def decode_continuation_payload_def decode_headers_payload_def
  decode_push_promise_payload_def

text \<open>The payload decoders of the frames without a header block return the decoder they assembled.\<close>

lemma control_payload:
  assumes "payload_decoder t d buf = Ok (f, d')" "t \<noteq> 1" "t \<noteq> 5" "t \<noteq> 9"
  shows "d' = snd (assemble d buf)"
  using assms
  by (auto simp: payload_decoder_def payload_defs obind_eq_Ok Let_def split: if_splits prod.splits)

definition await_continuation :: "FrameDecoder \<Rightarrow> FrameDecoder" where
  "await_continuation d = d\<lparr>fd_continuations := (fd_continuations d)\<lparr>
     co_flags := fh_flags (fd_header d), co_is_end_stream := FrameHeader_is_end_stream (fd_header d),
     co_is_end_headers := False, co_stream_id := fh_stream_id (fd_header d)\<rparr>\<rparr>"

lemma decode_headers_payloadE:
  assumes "decode_headers_payload d buf = Ok (f, d')" "assemble d buf = (b, d1)"
  obtains (end_headers) x d2 p where "hpack_decode d1 x = Ok d2" "hpack_finish d2 = Ok (p, d')"
  | (more) x where "hpack_decode (await_continuation d1) x = Ok d'"
proof (cases "FrameHeader_is_end_headers (fd_header d1)")
  case True
  with assms show ?thesis
    by (auto simp: decode_headers_payload_def obind_eq_Ok intro: end_headers split: if_splits)
next
  case False
  with assms show ?thesis
    by (auto simp: decode_headers_payload_def obind_eq_Ok Let_def simp flip: await_continuation_def
        intro: more split: if_splits)
qed

lemma header_block_payload:
  assumes "t = 1 \<or> t = 5 \<or> t = 9" "payload_decoder t d buf = Ok (f, d')"
  shows "same_frame (snd (assemble d buf)) d'"
proof -
  obtain b d1 where a: "assemble d buf = (b, d1)" by fastforce
  have "same_frame d1 d'" if "decode_continuation_payload d buf = Ok (f, d')"
    using that by (auto simp: decode_continuation_payload_def a obind_eq_Ok Let_def intro: same_frame_trans
        dest!: same_frame_hpack_decode same_frame_hpack_finish split: if_splits)
  moreover have "same_frame d1 d'" if "decode_headers_payload d buf = Ok (f, d')"
    using that a by (rule decode_headers_payloadE)
      (auto intro: same_frame_trans simp: await_continuation_def
        dest!: same_frame_hpack_decode same_frame_hpack_finish)
  moreover have "same_frame d1 d'" if "decode_push_promise_payload d buf = Ok (f, d')"
  proof -
    from that obtain d2 e i where "hpack_decode d1 b = Ok d2" "push_promise_framing d2 e i = Ok (f, d')"
      by (auto simp: decode_push_promise_payload_def a obind_eq_Ok split: if_splits)
    then show ?thesis
      by (auto simp: push_promise_framing_def obind_eq_Ok intro: same_frame_trans
          dest!: same_frame_hpack_decode same_frame_hpack_finish split: if_splits)
  qed
  ultimately show ?thesis using assms by (auto simp: payload_decoder_def a)
qed

lemma same_frame_payload:
  assumes "payload_decoder t d buf = Ok (f, d')"
  shows "same_frame d d'"
proof -
  have "same_frame (snd (assemble d buf)) d'"
    using assms control_payload [OF assms] header_block_payload by (cases "t = 1 \<or> t = 5 \<or> t = 9") auto
  moreover have "same_frame d (snd (assemble d buf))" by (rule same_frame_assemble) (rule prod.collapse [symmetric])
  ultimately show ?thesis using same_frame_trans by blast
qed

lemma decode_frame_header_step:
  assumes "decode_frame_header d buf = Ok (Some rest, d')"
  shows "fd_offset d \<le> 9" "length rest + (9 - fd_offset d) = length buf" "fd_offset d' = 0"
    "fd_stage d' = fd_stage d"
  using assms
  by (auto simp: decode_frame_header_def obind_eq_Ok usize_sub_eq_Ok FRAME_HEADER_LENGTH_def Let_def
      split: if_splits)

lemma decode_frame_payload_step:
  assumes "decode_frame_payload d buf = Ok (Some (rest, f), d')"
  shows "length rest \<le> length buf" "fd_offset d' = 0" "fd_stage d' = fd_stage d"
  using assms
  by (auto simp: decode_frame_payload_def obind_eq_Ok usize_sub_eq_Ok Let_def same_frame_def
      dest!: same_frame_payload split: if_splits)

lemma decode_frame_header_smaller:
  "decode_frame_header d buf = Ok (Some rest, d') \<Longrightarrow> fd_offset d < 9 \<Longrightarrow> length rest < length buf"
  "decode_frame_header d buf = Ok (Some rest, d') \<Longrightarrow> length rest < length buf \<or> length rest = length buf"
  by (auto dest: decode_frame_header_step)

lemma decode_frame_payload_smaller:
  "decode_frame_payload d buf = Ok (Some (rest, f), d') \<Longrightarrow>
   fd_offset d' = 0 \<and> (length rest < length buf \<or> length rest = length buf)"
  by (auto dest: decode_frame_payload_step simp: order_le_less)

text \<open>
  The loop of \<^verbatim>\<open>decode\<close>. A payload may be empty, but then the header before it was not: besides the
  octets that are left, the stage decreases.
\<close>

fun stage_rank :: "FrameDecoder \<Rightarrow> nat" where
  "stage_rank d = (case fd_stage d of Stage_Payload \<Rightarrow> 1 | Stage_Header \<Rightarrow> if fd_offset d < 9 then 0 else 2)"

function decode_loop ::
  "FrameDecoder \<Rightarrow> bytes \<Rightarrow> FrameKind list \<Rightarrow> (FrameKind list \<times> FrameDecoder, H2Error) outcome" where
  "decode_loop d buffer frames =
     (case fd_stage d of
        Stage_Header \<Rightarrow>
          (case decode_frame_header d buffer of
             Ok (Some remain, d) \<Rightarrow> decode_loop (d\<lparr>fd_stage := Stage_Payload\<rparr>) remain frames
           | Ok (None, d) \<Rightarrow> Ok (frames, d)
           | Err e \<Rightarrow> Err e
           | Panic \<Rightarrow> Panic)
      | Stage_Payload \<Rightarrow>
          (case decode_frame_payload d buffer of
             Ok (Some (remain, frame), d) \<Rightarrow>
               decode_loop (d\<lparr>fd_stage := Stage_Header\<rparr>) remain (frames @ [frame])
           | Ok (None, d) \<Rightarrow> Ok (frames, d)
           | Err e \<Rightarrow> Err e
           | Panic \<Rightarrow> Panic))"
  by pat_completeness auto
termination
  by (relation "measures [\<lambda>(d, b, fs). length b, \<lambda>(d, b, fs). stage_rank d]")
    (auto dest: decode_frame_header_smaller decode_frame_payload_smaller)

declare decode_loop.simps [simp del]

definition FrameDecoder_decode :: "FrameDecoder \<Rightarrow> bytes \<Rightarrow> (FrameKind list \<times> FrameDecoder, H2Error) outcome" where
  "FrameDecoder_decode d buf = decode_loop d buf []"

section \<open>Invariant\<close>

text \<open>
  Between two calls: the offset is the length of the buffer, the buffer holds less than the header or
  the payload that is being read, and a decoder that waits for a continuation knows its stream.
\<close>

definition fd_ok :: "FrameDecoder \<Rightarrow> bool" where
  "fd_ok d \<longleftrightarrow> fd_offset d = length (fd_buffer d) \<and>
     (case fd_stage d of
        Stage_Header \<Rightarrow> fd_offset d < 9
      | Stage_Payload \<Rightarrow> fd_offset d = 0 \<or> fd_offset d < fh_payload_length (fd_header d)) \<and>
     HpackDecoder_ok (fd_hpack d) \<and>
     (\<not> co_is_end_headers (fd_continuations d) \<longrightarrow> co_stream_id (fd_continuations d) \<noteq> 0)"

lemma fd_ok_new: "fd_ok FrameDecoder_new"
  by (simp add: fd_ok_def FrameDecoder_new_def HpackDecoder_ok_def HpackDecoderLayer_new_def
      HpackDecoder_with_max_size_def holder_ok_def Continuations_new_def)

text \<open>The parts of the invariant that a payload decoder may touch.\<close>

definition layers_ok :: "FrameDecoder \<Rightarrow> bool" where
  "layers_ok d \<longleftrightarrow> HpackDecoder_ok (fd_hpack d) \<and>
     (\<not> co_is_end_headers (fd_continuations d) \<longrightarrow> co_stream_id (fd_continuations d) \<noteq> 0)"

lemma layers_ok_updates [simp]:
  "layers_ok (d\<lparr>fd_buffer := b\<rparr>) = layers_ok d" "layers_ok (d\<lparr>fd_offset := n\<rparr>) = layers_ok d"
  "layers_ok (d\<lparr>fd_header := h\<rparr>) = layers_ok d" "layers_ok (d\<lparr>fd_stage := s\<rparr>) = layers_ok d"
  "layers_ok (clear_buffer d) = layers_ok d"
  by (simp_all add: layers_ok_def)

lemma fd_ok_layers: "fd_ok d \<Longrightarrow> layers_ok d"
  by (simp add: fd_ok_def layers_ok_def)

lemma layers_ok_assemble: "assemble d buf = (b, d') \<Longrightarrow> layers_ok d' = layers_ok d"
  by (auto simp: assemble_def split: if_splits)

lemma layers_ok_hpack_decode: "layers_ok d \<Longrightarrow> hpack_decode d buf = Ok d' \<Longrightarrow> layers_ok d'"
  by (auto simp: hpack_decode_def layers_ok_def obind_eq_Ok intro: hpack_dec.feed_invar)

lemma HpackDecoder_finish_ok: "HpackDecoder_ok d \<Longrightarrow> HpackDecoder_finish d = Ok (p, d') \<Longrightarrow> HpackDecoder_ok d'"
  by (auto simp: HpackDecoder_finish_def HpackDecoder_ok_def split: if_splits)

lemma layers_ok_hpack_finish: "layers_ok d \<Longrightarrow> hpack_finish d = Ok (p, d') \<Longrightarrow> layers_ok d'"
  by (auto simp: hpack_finish_def layers_ok_def obind_eq_Ok intro: HpackDecoder_finish_ok)

lemma layers_ok_continuations:
  "layers_ok d \<Longrightarrow> co_is_end_headers c \<or> co_stream_id c \<noteq> 0 \<Longrightarrow> layers_ok (d\<lparr>fd_continuations := c\<rparr>)"
  by (auto simp: layers_ok_def)

lemma layers_ok_continuation:
  assumes "decode_continuation_payload d buf = Ok (f, d')" "layers_ok d"
  shows "layers_ok d'"
  using assms
  by (auto simp: decode_continuation_payload_def obind_eq_Ok Let_def Continuations_reset_def
      dest!: layers_ok_assemble dest: layers_ok_hpack_decode layers_ok_hpack_finish
      intro!: layers_ok_continuations split: if_splits prod.splits)

lemma layers_ok_headers:
  assumes "decode_headers_payload d buf = Ok (f, d')" "layers_ok d"
  shows "layers_ok d'"
proof -
  obtain b d1 where a: "assemble d buf = (b, d1)" by fastforce
  from same_frame_assemble [OF a] have h: "fd_header d1 = fd_header d" by (simp add: same_frame_def)
  from assms(1) have "fh_stream_id (fd_header d1) \<noteq> 0"
    by (auto simp: decode_headers_payload_def is_connection_frame_def h split: if_splits)
  then have "layers_ok (await_continuation d1)"
    using layers_ok_assemble [OF a] assms(2) unfolding await_continuation_def
    by (intro layers_ok_continuations) simp_all
  with assms(2) layers_ok_assemble [OF a] layers_ok_hpack_decode layers_ok_hpack_finish show ?thesis
    by (rule_tac decode_headers_payloadE [OF assms(1) a]) blast+
qed

lemma layers_ok_push_promise:
  assumes "decode_push_promise_payload d buf = Ok (f, d')" "layers_ok d"
  shows "layers_ok d'"
proof -
  obtain b d1 where a: "assemble d buf = (b, d1)" by fastforce
  from same_frame_assemble [OF a] have h: "fd_header d1 = fd_header d" by (simp add: same_frame_def)
  from assms(1) obtain d2 promised where d2: "hpack_decode d1 b = Ok d2"
    "push_promise_framing d2 (FrameHeader_is_end_headers (fd_header d2)) promised = Ok (f, d')"
    and i: "fh_stream_id (fd_header d1) \<noteq> 0"
    by (auto simp: decode_push_promise_payload_def a obind_eq_Ok is_connection_frame_def h split: if_splits)
  have "layers_ok d2" "fh_stream_id (fd_header d2) \<noteq> 0"
    using layers_ok_hpack_decode [OF _ d2(1)] same_frame_hpack_decode [OF d2(1)] layers_ok_assemble [OF a] assms(2) i
    by (simp_all add: same_frame_def)
  with d2(2) show ?thesis
    by (auto simp: push_promise_framing_def obind_eq_Ok
        dest: layers_ok_hpack_finish intro!: layers_ok_continuations split: if_splits)
qed

lemma layers_ok_payload:
  assumes "payload_decoder t d buf = Ok (f, d')" "layers_ok d"
  shows "layers_ok d'"
proof (cases "t = 1 \<or> t = 5 \<or> t = 9")
  case True
  with assms layers_ok_headers layers_ok_push_promise layers_ok_continuation show ?thesis
    by (fastforce simp: payload_decoder_def)
next
  case False
  with control_payload [OF assms(1)] layers_ok_assemble [of d buf] assms(2) show ?thesis
    by (metis prod.collapse)
qed

section \<open>Buffered octets\<close>

text \<open>The decoder without what it has buffered, and a decoder with other octets in its buffer.\<close>

definition unbuffered :: "FrameDecoder \<Rightarrow> FrameDecoder" where
  "unbuffered d = d\<lparr>fd_offset := 0, fd_buffer := []\<rparr>"

definition buffered :: "FrameDecoder \<Rightarrow> bytes \<Rightarrow> FrameDecoder" where
  "buffered d b = d\<lparr>fd_offset := length b, fd_buffer := b\<rparr>"

lemma buffered_simps [simp]:
  "fd_offset (buffered d b) = length b" "fd_buffer (buffered d b) = b"
  "fd_stage (buffered d b) = fd_stage d" "fd_header (buffered d b) = fd_header d"
  "fd_hpack (buffered d b) = fd_hpack d" "fd_continuations (buffered d b) = fd_continuations d"
  "fd_max_frame_size (buffered d b) = fd_max_frame_size d"
  "buffered (buffered d b) b' = buffered d b'"
  "buffered (unbuffered d) b = buffered d b" "unbuffered (buffered d b) = unbuffered d"
  by (simp_all add: buffered_def unbuffered_def)

lemma unbuffered_simps [simp]:
  "fd_offset (unbuffered d) = 0" "fd_buffer (unbuffered d) = []"
  "fd_stage (unbuffered d) = fd_stage d" "fd_header (unbuffered d) = fd_header d"
  "fd_hpack (unbuffered d) = fd_hpack d" "fd_continuations (unbuffered d) = fd_continuations d"
  "fd_max_frame_size (unbuffered d) = fd_max_frame_size d" "unbuffered (unbuffered d) = unbuffered d"
  by (simp_all add: unbuffered_def)

lemma assemble_ok:
  "fd_offset d = length (fd_buffer d) \<Longrightarrow> fd_buffer d \<noteq> [] \<Longrightarrow>
     assemble d buf = (fd_buffer d @ buf, buffered (unbuffered d) (fd_buffer d @ buf))"
  "fd_offset d = 0 \<Longrightarrow> assemble d buf = (buf, d)"
  by (simp_all add: assemble_def buffered_def)

lemma buffered_update [simp]:
  "(buffered d b)\<lparr>fd_continuations := c\<rparr> = buffered (d\<lparr>fd_continuations := c\<rparr>) b"
  "(buffered d b)\<lparr>fd_hpack := h\<rparr> = buffered (d\<lparr>fd_hpack := h\<rparr>) b"
  by (simp_all add: buffered_def)

lemma unbuffered_update [simp]:
  "(unbuffered d)\<lparr>fd_continuations := c\<rparr> = unbuffered (d\<lparr>fd_continuations := c\<rparr>)"
  "(unbuffered d)\<lparr>fd_hpack := h\<rparr> = unbuffered (d\<lparr>fd_hpack := h\<rparr>)"
  by (simp_all add: unbuffered_def)

lemma hpack_unbuffered:
  "hpack_decode (unbuffered d) x = obind (hpack_decode d x) (\<lambda>d. Ok (unbuffered d))"
  "hpack_finish (unbuffered d) = obind (hpack_finish d) (\<lambda>(p, d). Ok (p, unbuffered d))"
  by (simp_all add: hpack_decode_def hpack_finish_def obind_assoc split_def)

lemma hpack_buffered:
  "hpack_decode (buffered d b) x = obind (hpack_decode d x) (\<lambda>d. Ok (buffered d b))"
  "hpack_finish (buffered d b) = obind (hpack_finish d) (\<lambda>(p, d). Ok (p, buffered d b))"
  by (simp_all add: hpack_decode_def hpack_finish_def obind_assoc split_def)

lemma frame_of_buffered [simp]: "frame_of (buffered d b) = frame_of d" "frame_of (unbuffered d) = frame_of d"
  by (simp_all add: frame_of_def fun_eq_iff)

lemma obind_if: "obind (if c then m else n) f = (if c then obind m f else obind n f)"
  by simp

lemma ping_buffered:
  assumes "fd_offset d = length (fd_buffer d)" "fd_buffer d \<noteq> []"
  shows "decode_ping_payload d buf = obind (decode_ping_payload (unbuffered d) (fd_buffer d @ buf)) (\<lambda>(f, d').
      Ok (f, buffered d' (fd_buffer d @ buf)))"
  by (simp add: decode_ping_payload_def assemble_ok assms obind_assoc obind_if split_def Let_def hpack_buffered hpack_unbuffered cong: if_cong)

lemma goaway_buffered:
  assumes "fd_offset d = length (fd_buffer d)" "fd_buffer d \<noteq> []"
  shows "decode_goaway_payload d buf = obind (decode_goaway_payload (unbuffered d) (fd_buffer d @ buf)) (\<lambda>(f, d').
      Ok (f, buffered d' (fd_buffer d @ buf)))"
  by (simp add: decode_goaway_payload_def assemble_ok assms obind_assoc obind_if split_def Let_def hpack_buffered hpack_unbuffered cong: if_cong)

lemma window_update_buffered:
  assumes "fd_offset d = length (fd_buffer d)" "fd_buffer d \<noteq> []"
  shows "decode_window_update_payload d buf = obind (decode_window_update_payload (unbuffered d) (fd_buffer d @ buf)) (\<lambda>(f, d').
      Ok (f, buffered d' (fd_buffer d @ buf)))"
  by (simp add: decode_window_update_payload_def assemble_ok assms obind_assoc obind_if split_def Let_def hpack_buffered hpack_unbuffered cong: if_cong)

lemma reset_buffered:
  assumes "fd_offset d = length (fd_buffer d)" "fd_buffer d \<noteq> []"
  shows "decode_reset_payload d buf = obind (decode_reset_payload (unbuffered d) (fd_buffer d @ buf)) (\<lambda>(f, d').
      Ok (f, buffered d' (fd_buffer d @ buf)))"
  by (simp add: decode_reset_payload_def assemble_ok assms obind_assoc obind_if split_def Let_def hpack_buffered hpack_unbuffered cong: if_cong)

lemma settings_buffered:
  assumes "fd_offset d = length (fd_buffer d)" "fd_buffer d \<noteq> []"
  shows "decode_settings_payload d buf = obind (decode_settings_payload (unbuffered d) (fd_buffer d @ buf)) (\<lambda>(f, d').
      Ok (f, buffered d' (fd_buffer d @ buf)))"
  by (simp add: decode_settings_payload_def assemble_ok assms obind_assoc obind_if split_def Let_def hpack_buffered hpack_unbuffered cong: if_cong)

lemma data_buffered:
  assumes "fd_offset d = length (fd_buffer d)" "fd_buffer d \<noteq> []"
  shows "decode_data_payload d buf = obind (decode_data_payload (unbuffered d) (fd_buffer d @ buf)) (\<lambda>(f, d').
      Ok (f, buffered d' (fd_buffer d @ buf)))"
  by (simp add: decode_data_payload_def assemble_ok assms obind_assoc obind_if split_def Let_def hpack_buffered hpack_unbuffered cong: if_cong)

lemma continuation_buffered:
  assumes "fd_offset d = length (fd_buffer d)" "fd_buffer d \<noteq> []"
  shows "decode_continuation_payload d buf = obind (decode_continuation_payload (unbuffered d) (fd_buffer d @ buf)) (\<lambda>(f, d').
      Ok (f, buffered d' (fd_buffer d @ buf)))"
  by (simp add: decode_continuation_payload_def assemble_ok assms obind_assoc obind_if split_def Let_def hpack_buffered hpack_unbuffered cong: if_cong)

lemma headers_buffered:
  assumes "fd_offset d = length (fd_buffer d)" "fd_buffer d \<noteq> []"
  shows "decode_headers_payload d buf = obind (decode_headers_payload (unbuffered d) (fd_buffer d @ buf)) (\<lambda>(f, d').
      Ok (f, buffered d' (fd_buffer d @ buf)))"
  by (simp add: decode_headers_payload_def assemble_ok assms obind_assoc obind_if split_def Let_def hpack_buffered hpack_unbuffered cong: if_cong)

lemma push_promise_buffered:
  assumes "fd_offset d = length (fd_buffer d)" "fd_buffer d \<noteq> []"
  shows "decode_push_promise_payload d buf = obind (decode_push_promise_payload (unbuffered d) (fd_buffer d @ buf)) (\<lambda>(f, d').
      Ok (f, buffered d' (fd_buffer d @ buf)))"
  by (simp add: decode_push_promise_payload_def push_promise_framing_def assemble_ok assms obind_assoc obind_if split_def Let_def hpack_buffered hpack_unbuffered cong: if_cong)

section \<open>Steps in closed form\<close>

lemma take_drop_4: "n + 4 \<le> length xs \<Longrightarrow> take 4 (drop n xs) = [xs ! n, xs ! (n + 1), xs ! (n + 2), xs ! (n + 3)]"
  by (rule nth_equalityI) (auto simp: less_Suc_eq numeral_eq_Suc)

definition parse_header :: "bytes \<Rightarrow> FrameHeader" where
  "parse_header b =
     \<lparr>fh_stream_id = of_be32 (b ! 5 AND 0x7f) (b ! 6) (b ! 7) (b ! 8), fh_flags = b ! 4,
      fh_frame_type = b ! 3, fh_payload_length = of_be24 (b ! 0) (b ! 1) (b ! 2)\<rparr>"

lemma decode_frame_header_eq:
  assumes "fd_ok d" "fd_stage d = Stage_Header"
  shows "decode_frame_header d buf =
    (let b = fd_buffer d @ buf in
     if length b < 9 then Ok (None, buffered d b)
     else if fh_payload_length (parse_header b) > unat (fd_max_frame_size d) then Err (ConnectionError FrameSizeError)
     else Ok (Some (drop 9 b), (unbuffered d)\<lparr>fd_header := parse_header b\<rparr>))"
proof -
  let ?b = "fd_buffer d @ buf"
  from assms have off: "fd_offset d = length (fd_buffer d)" "fd_offset d < 9" by (auto simp: fd_ok_def)
  show ?thesis
  proof (cases "length ?b < 9")
    case True
    then show ?thesis using off
      by (simp add: decode_frame_header_def FRAME_HEADER_LENGTH_def buffered_def less_diff_conv add.commute)
  next
    case False
    define hb where "hb = (if fd_offset d = 0 then buf else fd_buffer d @ take (9 - fd_offset d) buf)"
    have len: "9 \<le> length hb" using False off by (auto simp: hb_def)
    have nth: "hb ! i = ?b ! i" if "i < 9" for i
      using that off False by (auto simp: hb_def nth_append)
    have token: "(Prelude.slice hb 5 9 :: (bytes, H2Error) outcome) = Ok [?b ! 5, ?b ! 6, ?b ! 7, ?b ! 8]"
      using take_drop_4 [of 5 hb] len nth by simp
    have "(index_at hb i :: (u8, H2Error) outcome) = Ok (?b ! i)" if "i < 9" for i using len nth [OF that] that by simp
    note octets = this [of 0, simplified] this [of 1, simplified] this [of 2, simplified]
      this [of 3, simplified] this [of 4, simplified] token
    show ?thesis
    proof (cases "fd_offset d = 0")
      case True
      with off False octets show ?thesis
        by (simp add: decode_frame_header_def FRAME_HEADER_LENGTH_def Let_def hb_def parse_header_def
            clear_buffer_def unbuffered_def)
    next
      case buffer: False
      with off False octets show ?thesis
        by (simp add: decode_frame_header_def FRAME_HEADER_LENGTH_def Let_def hb_def parse_header_def
            clear_buffer_def unbuffered_def)
    qed
  qed
qed

text \<open>
  Octets that were buffered count as if they came with the others, except that a PRIORITY frame
  which is cut is refused.
\<close>

definition is_priority :: "FrameKind \<Rightarrow> bool" where
  "is_priority k = (case k of Complete f \<Rightarrow> (\<exists>p. fr_payload f = PL_Priority p) | Partial \<Rightarrow> False)"

lemma is_priority_simps [simp]: "\<not> is_priority Partial" "is_priority (frame_of d (PL_Priority p))"
  by (simp_all add: is_priority_def frame_of_def Frame_new_def)

lemma payload_buffered:
  assumes "fd_offset d = length (fd_buffer d)" "fd_buffer d \<noteq> []" "t \<noteq> 2"
  shows "payload_decoder t d buf =
    obind (payload_decoder t (unbuffered d) (fd_buffer d @ buf)) (\<lambda>(f, d').
      Ok (f, buffered d' (fd_buffer d @ buf)))"
  using assms(3) ping_buffered [OF assms(1,2)] goaway_buffered [OF assms(1,2)]
    window_update_buffered [OF assms(1,2)] reset_buffered [OF assms(1,2)] settings_buffered [OF assms(1,2)]
    data_buffered [OF assms(1,2)] continuation_buffered [OF assms(1,2)] headers_buffered [OF assms(1,2)]
    push_promise_buffered [OF assms(1,2)]
  by (simp add: payload_decoder_def)

lemma payload_uncut:
  assumes "fd_ok d" "fd_stage d = Stage_Payload" "fd_buffer d = [] \<or> fh_frame_type (fd_header d) \<noteq> 2"
  shows "decode_frame_payload d buf = decode_frame_payload (unbuffered d) (fd_buffer d @ buf)"
    (is "?d = ?e")
proof (cases "fd_buffer d = []")
  case True
  with assms(1) have "unbuffered d = d" by (simp add: fd_ok_def unbuffered_def)
  with True show ?thesis by simp
next
  case False
  let ?t = "fh_frame_type (fd_header d)" and ?n = "fh_payload_length (fd_header d)" and ?b = "fd_buffer d @ buf"
  from assms False have off: "fd_offset d = length (fd_buffer d)" "fd_offset d < ?n" "fd_offset d \<noteq> 0" and t: "?t \<noteq> 2"
    by (auto simp: fd_ok_def)
  show ?thesis
  proof (cases "length ?b < ?n \<or> (\<not> co_is_end_headers (fd_continuations d) \<and>
         (fh_stream_id (fd_header d) \<noteq> co_stream_id (fd_continuations d) \<or> ?t \<noteq> 9))")
    case True
    with off show ?thesis by (auto simp: decode_frame_payload_def unbuffered_def)
  next
    case ready: False
    have take: "fd_buffer d @ take (?n - fd_offset d) buf = take ?n ?b"
      and drop: "drop (?n - fd_offset d) buf = drop ?n ?b" using off by simp_all
    let ?finish = "\<lambda>(f, d'). Ok (Some (drop ?n ?b, f), clear_buffer (d'\<lparr>fd_header := FrameHeader_reset (fd_header d')\<rparr>))"
    have d: "?d = obind (payload_decoder ?t d (take (?n - fd_offset d) buf)) ?finish"
      using ready off by (auto simp: decode_frame_payload_def drop split_def)
    have e: "?e = obind (payload_decoder ?t (unbuffered d) (take ?n ?b)) ?finish"
      using ready off by (auto simp: decode_frame_payload_def split_def)
    show ?thesis
      unfolding d e payload_buffered [OF off(1) False t] take obind_assoc
    proof (rule obind_cong [OF refl])
      fix x assume x: "payload_decoder ?t (unbuffered d) (take ?n ?b) = Ok x"
      obtain f d' where [simp]: "x = (f, d')" by fastforce
      from x have "payload_decoder ?t (unbuffered d) (take ?n ?b) = Ok (f, d')" by simp
      from same_frame_payload [OF this] have "fd_offset d' = 0" "fd_buffer d' = []"
        by (simp_all add: same_frame_def)
      then show "obind (case x of (f, d') \<Rightarrow> Ok (f, buffered d' (take ?n ?b))) ?finish = ?finish x"
        using False off by (simp add: clear_buffer_def buffered_def)
    qed
  qed
qed

lemma payload_cut:
  assumes "fd_ok d" "fd_stage d = Stage_Payload" "fd_buffer d \<noteq> []" "fh_frame_type (fd_header d) = 2"
  shows "decode_frame_payload d buf =
    (if \<not> co_is_end_headers (fd_continuations d) then Err (ConnectionError ProtocolError)
     else if length (fd_buffer d @ buf) < fh_payload_length (fd_header d) then Ok (None, buffered d (fd_buffer d @ buf))
     else if is_connection_frame (fh_stream_id (fd_header d)) then Err (ConnectionError ProtocolError)
     else Err (StreamError (fh_stream_id (fd_header d)) FrameSizeError))"
proof -
  from assms(3) have "length (take (5 - length (fd_buffer d)) buf) \<noteq> 5"
    by (cases "fd_buffer d") auto
  with assms show ?thesis
    by (auto simp: decode_frame_payload_def fd_ok_def payload_decoder_def decode_priority_payload_def buffered_def)
qed

end
