(* ===== verification/H2_Decoder_Segments.thy ===== *)
theory H2_Decoder_Segments
  imports H2_Decoder
begin

text \<open>
  What the frame decoder keeps between calls, and that it does not matter how the octets are cut
  into calls (with one exception, the PRIORITY frame).
\<close>

section \<open>Preservation of the invariant\<close>

lemma fd_ok_iff: "fd_ok d \<longleftrightarrow> fd_offset d = length (fd_buffer d) \<and>
     (case fd_stage d of
        Stage_Header \<Rightarrow> fd_offset d < 9
      | Stage_Payload \<Rightarrow> fd_offset d = 0 \<or> fd_offset d < fh_payload_length (fd_header d)) \<and> layers_ok d"
  by (simp add: fd_ok_def layers_ok_def)

lemma layers_ok_buffered [simp]: "layers_ok (buffered d b) = layers_ok d" "layers_ok (unbuffered d) = layers_ok d"
  by (simp_all add: buffered_def unbuffered_def)

lemma header_step_ok:
  assumes "fd_ok d" "fd_stage d = Stage_Header" "decode_frame_header d buf = Ok (r, d')"
  shows "fd_ok (if r = None then d' else d'\<lparr>fd_stage := Stage_Payload\<rparr>)"
  using assms(3) unfolding decode_frame_header_eq [OF assms(1,2)] Let_def
  using assms(1,2) by (auto simp: fd_ok_iff split: if_splits)

lemma payload_step_ok:
  assumes "fd_ok d" "fd_stage d = Stage_Payload" "decode_frame_payload d buf = Ok (r, d')"
  shows "fd_ok (if r = None then d' else d'\<lparr>fd_stage := Stage_Header\<rparr>)"
proof (cases r)
  case None
  with assms show ?thesis
    by (auto simp: decode_frame_payload_def obind_eq_Ok usize_sub_eq_Ok fd_ok_iff split: if_splits)
next
  case (Some p)
  with assms(3) obtain d1 n f where d1: "payload_decoder (fh_frame_type (fd_header d)) d (take n buf) = Ok (f, d1)"
    "d' = clear_buffer (d1\<lparr>fd_header := FrameHeader_reset (fd_header d1)\<rparr>)"
    by (auto simp: decode_frame_payload_def obind_eq_Ok split: if_splits)
  from same_frame_payload [OF d1(1)] assms(1,2) layers_ok_payload [OF d1(1)] Some show ?thesis
    by (auto simp: d1(2) fd_ok_iff same_frame_def clear_buffer_def split: if_splits)
qed

text \<open>One turn of the loop: the octets that are left and the frames that it adds.\<close>

definition frame_step :: "FrameDecoder \<Rightarrow> bytes \<Rightarrow> ((bytes \<times> FrameKind list) option \<times> FrameDecoder, H2Error) outcome" where
  "frame_step d buf =
     (case fd_stage d of
        Stage_Header \<Rightarrow> obind (decode_frame_header d buf) (\<lambda>(r, d).
          Ok (case r of None \<Rightarrow> (None, d) | Some rest \<Rightarrow> (Some (rest, []), d\<lparr>fd_stage := Stage_Payload\<rparr>)))
      | Stage_Payload \<Rightarrow> obind (decode_frame_payload d buf) (\<lambda>(r, d).
          Ok (case r of None \<Rightarrow> (None, d) | Some (rest, f) \<Rightarrow> (Some (rest, [f]), d\<lparr>fd_stage := Stage_Header\<rparr>))))"

lemma decode_loop_step:
  "decode_loop d buf frames =
     obind (frame_step d buf) (\<lambda>(r, d).
       case r of None \<Rightarrow> Ok (frames, d) | Some (rest, fs) \<Rightarrow> decode_loop d rest (frames @ fs))"
  by (subst decode_loop.simps) (auto simp: frame_step_def split: Stage.splits outcome.splits option.splits)

lemma decode_loop_induct [case_names step]:
  assumes "\<And>d buf frames. (\<And>rest fs d'. frame_step d buf = Ok (Some (rest, fs), d') \<Longrightarrow> P d' rest (frames @ fs)) \<Longrightarrow> P d buf frames"
  shows "P d buf frames"
proof (induction d buf frames rule: decode_loop.induct)
  case (1 d buf frames)
  show ?case
  proof (rule assms)
    fix rest fs d' assume s: "frame_step d buf = Ok (Some (rest, fs), d')"
    show "P d' rest (frames @ fs)"
    proof (cases "fd_stage d")
      case Stage_Header
      with s 1(1) show ?thesis by (fastforce simp: frame_step_def obind_eq_Ok split: option.splits)
    next
      case Stage_Payload
      with s 1(2) show ?thesis by (fastforce simp: frame_step_def obind_eq_Ok split: option.splits)
    qed
  qed
qed

lemma frame_step_ok:
  assumes "fd_ok d" "frame_step d buf = Ok (r, d')"
  shows "fd_ok d'"
proof (cases "fd_stage d")
  case Stage_Header
  with assms(2) obtain r0 d0 where *: "decode_frame_header d buf = Ok (r0, d0)"
    "(r, d') = (case r0 of None \<Rightarrow> (None, d0) | Some rest \<Rightarrow> (Some (rest, []), d0\<lparr>fd_stage := Stage_Payload\<rparr>))"
    by (auto simp: frame_step_def obind_eq_Ok)
  from header_step_ok [OF assms(1) Stage_Header *(1)] *(2) show ?thesis by (cases r0) auto
next
  case Stage_Payload
  with assms(2) obtain r0 d0 where *: "decode_frame_payload d buf = Ok (r0, d0)"
    "(r, d') = (case r0 of None \<Rightarrow> (None, d0) | Some (rest, f) \<Rightarrow> (Some (rest, [f]), d0\<lparr>fd_stage := Stage_Header\<rparr>))"
    by (auto simp: frame_step_def obind_eq_Ok)
  from payload_step_ok [OF assms(1) Stage_Payload *(1)] *(2) show ?thesis by (cases r0) auto
qed

lemma decode_loop_ok: "fd_ok d \<Longrightarrow> decode_loop d buf frames = Ok (frames', d') \<Longrightarrow> fd_ok d'"
proof (induction d buf frames rule: decode_loop_induct)
  case (step d buf frames)
  from step.prems(2) show ?case
    unfolding decode_loop_step [of d] obind_eq_Ok using step.IH frame_step_ok [OF step.prems(1)]
    by (auto split: option.splits)
qed

lemma decode_loop_frames:
  "decode_loop d buf frames = obind (decode_loop d buf []) (\<lambda>(fs, d). Ok (frames @ fs, d))"
proof -
  have "\<forall>frames. decode_loop d buf frames = obind (decode_loop d buf []) (\<lambda>(fs, d). Ok (frames @ fs, d))"
  proof (rule decode_loop_induct [where P = "\<lambda>d buf _. \<forall>frames.
      decode_loop d buf frames = obind (decode_loop d buf []) (\<lambda>(fs, d). Ok (frames @ fs, d))"], rule allI)
    fix d buf frames
    assume IH: "\<And>rest fs d'. frame_step d buf = Ok (Some (rest, fs), d') \<Longrightarrow>
      \<forall>frames. decode_loop d' rest frames = obind (decode_loop d' rest []) (\<lambda>(fs, d). Ok (frames @ fs, d))"
    show "decode_loop d buf frames = obind (decode_loop d buf []) (\<lambda>(fs, d). Ok (frames @ fs, d))"
      unfolding decode_loop_step [of d] obind_assoc
    proof (rule obind_cong [OF refl])
      fix x assume x: "frame_step d buf = Ok x"
      obtain r d' where [simp]: "x = (r, d')" by fastforce
      show "(case x of (r, d) \<Rightarrow> case r of None \<Rightarrow> Ok (frames, d) | Some (rest, fs) \<Rightarrow> decode_loop d rest (frames @ fs)) =
        obind (case x of (r, d) \<Rightarrow> case r of None \<Rightarrow> Ok ([], d) | Some (rest, fs) \<Rightarrow> decode_loop d rest ([] @ fs))
          (\<lambda>(fs, d). Ok (frames @ fs, d))"
      proof (cases r)
        case (Some q)
        obtain rest fs where q: "q = (rest, fs)" by fastforce
        note IH = IH [OF x [unfolded \<open>x = (r, d')\<close> Some q], rule_format]
        show ?thesis by (simp add: Some q IH [of "frames @ fs"] IH [of fs] obind_assoc split_def)
      qed simp
    qed
  qed
  then show ?thesis by blast
qed

section \<open>Segments\<close>

lemma parse_header_append: "9 \<le> length b \<Longrightarrow> parse_header (b @ ys) = parse_header b"
  by (auto simp: parse_header_def nth_append)

text \<open>A turn that does not run out of octets does not depend on what comes behind.\<close>

lemma frame_step_more:
  assumes "fd_ok d" "\<nexists>d'. frame_step d xs = Ok (None, d')"
  shows "frame_step d (xs @ ys) = obind (frame_step d xs) (\<lambda>(r, d'). Ok (map_option (\<lambda>(rest, fs). (rest @ ys, fs)) r, d'))"
proof (cases "fd_stage d")
  case Stage_Header
  note header = decode_frame_header_eq [OF assms(1) Stage_Header]
  have "9 \<le> length (fd_buffer d @ xs)"
    using assms(2) by (rule_tac ccontr) (auto simp: frame_step_def Stage_Header header Let_def)
  then have "parse_header (fd_buffer d @ xs @ ys) = parse_header (fd_buffer d @ xs)"
    "drop 9 (fd_buffer d @ xs @ ys) = drop 9 (fd_buffer d @ xs) @ ys"
    by (simp_all add: parse_header_append flip: append_assoc)
  with \<open>9 \<le> _\<close> show ?thesis
    by (auto simp: frame_step_def Stage_Header header Let_def simp del: drop_append)
next
  case Stage_Payload
  have off: "fd_offset d \<le> fh_payload_length (fd_header d)" using assms(1) Stage_Payload by (auto simp: fd_ok_def)
  show ?thesis
  proof (cases "length xs < fh_payload_length (fd_header d) - fd_offset d")
    case True
    with assms(2) off show ?thesis
      by (auto simp: frame_step_def Stage_Payload decode_frame_payload_def split: if_splits)
  next
    case False
    with off show ?thesis
      by (simp add: frame_step_def Stage_Payload decode_frame_payload_def obind_assoc split_def)
  qed
qed

text \<open>A turn that runs out of octets is made up for by the next call.\<close>

lemma frame_step_none:
  assumes "fd_ok d" "frame_step d xs = Ok (None, d')"
  shows "d' = buffered d (fd_buffer d @ xs)"
proof (cases "fd_stage d")
  case Stage_Header
  then show ?thesis
    using assms(2) by (auto simp: frame_step_def decode_frame_header_eq [OF assms(1) Stage_Header] Let_def split: if_splits)
next
  case Stage_Payload
  with assms show ?thesis
    by (auto simp: frame_step_def decode_frame_payload_def obind_eq_Ok usize_sub_eq_Ok fd_ok_def buffered_def
        split: if_splits option.splits)
qed

definition priority_lost :: "((bytes \<times> FrameKind list) option \<times> FrameDecoder, H2Error) outcome \<Rightarrow> bool" where
  "priority_lost m \<longleftrightarrow> (\<forall>r d. m = Ok (r, d) \<longrightarrow> (\<exists>rest f. r = Some (rest, [f]) \<and> is_priority f))"

lemma frame_step_resume:
  assumes "fd_ok d" "frame_step d xs = Ok (None, d1)"
  shows "frame_step d1 ys = frame_step d (xs @ ys) \<or>
    ((\<exists>i. frame_step d1 ys = Err (StreamError i FrameSizeError)) \<and> priority_lost (frame_step d (xs @ ys)))"
proof -
  let ?b = "fd_buffer d @ xs"
  have d1: "d1 = buffered d ?b" using frame_step_none [OF assms] .
  have ok: "fd_ok (buffered d ?b)" using frame_step_ok [OF assms] by (simp add: d1)
  show ?thesis
  proof (cases "fd_stage d")
    case Stage_Header
    have "decode_frame_header d1 ys = decode_frame_header d (xs @ ys)"
      using decode_frame_header_eq [OF ok, of ys] decode_frame_header_eq [OF assms(1) Stage_Header, of "xs @ ys"] Stage_Header
      by (simp add: d1 Let_def)
    then show ?thesis using Stage_Header by (simp add: frame_step_def d1)
  next
    case Stage_Payload
    then have s1: "fd_stage (buffered d ?b) = Stage_Payload" by simp
    show ?thesis
    proof (cases "fh_frame_type (fd_header d) = 2 \<and> ?b \<noteq> []")
      case False
      then have "decode_frame_payload d1 ys = decode_frame_payload d (xs @ ys)"
        using payload_uncut [OF ok s1, of ys] payload_uncut [OF assms(1) Stage_Payload, of "xs @ ys"]
        by (auto simp: d1)
      then show ?thesis using Stage_Payload by (simp add: frame_step_def d1)
    next
      case True
      then have b1: "fd_buffer (buffered d ?b) \<noteq> []" "fh_frame_type (fd_header (buffered d ?b)) = 2" by simp_all
      note cut = payload_cut [OF ok s1 b1, of ys]
      show ?thesis
      proof (cases "fd_buffer d = []")
        case False
        with True cut payload_cut [OF assms(1) Stage_Payload, of "xs @ ys"] Stage_Payload s1 show ?thesis
          by (simp add: frame_step_def d1)
      next
        case nil: True
        have whole: "decode_frame_payload d (xs @ ys) =
          (if \<not> co_is_end_headers (fd_continuations d) then Err (ConnectionError ProtocolError)
           else if length (xs @ ys) < fh_payload_length (fd_header d) then Ok (None, buffered d (xs @ ys))
           else obind (decode_priority_payload d (take (fh_payload_length (fd_header d)) (xs @ ys))) (\<lambda>(f, d').
             Ok (Some (drop (fh_payload_length (fd_header d)) (xs @ ys), f),
                 clear_buffer (d'\<lparr>fd_header := FrameHeader_reset (fd_header d')\<rparr>))))"
          using True nil assms(1)
          by (auto simp: decode_frame_payload_def payload_decoder_def fd_ok_def buffered_def simp del: take_append drop_append)
        show ?thesis
        proof (cases "co_is_end_headers (fd_continuations d) \<and> \<not> length (xs @ ys) < fh_payload_length (fd_header d)
            \<and> \<not> is_connection_frame (fh_stream_id (fd_header d))")
          case False
          then show ?thesis using nil cut whole
            by (auto simp: frame_step_def Stage_Payload d1 decode_priority_payload_def)
        next
          case True
          then show ?thesis using nil cut whole
            by (auto simp: frame_step_def Stage_Payload d1 priority_lost_def obind_eq_Ok decode_priority_payload_def split: if_splits prod.splits)
        qed
      qed
    qed
  qed
qed


text \<open>
  What a cut input may give: what the whole gives, or the refusal of a PRIORITY frame, if the whole
  has one or ends with an error itself.
\<close>

definition frames_agree ::
  "(FrameDecoder \<times> FrameKind list, H2Error) outcome \<Rightarrow> (FrameDecoder \<times> FrameKind list, H2Error) outcome \<Rightarrow> bool" where
  "frames_agree whole pieces \<longleftrightarrow> pieces = whole \<or>
     ((\<exists>i. pieces = Err (StreamError i FrameSizeError)) \<and>
      (\<forall>d frames. whole = Ok (d, frames) \<longrightarrow> (\<exists>f \<in> set frames. is_priority f)))"

definition feed_frames ::
  "FrameDecoder \<times> FrameKind list \<Rightarrow> bytes \<Rightarrow> (FrameDecoder \<times> FrameKind list, H2Error) outcome" where
  "feed_frames s buf =
     (case s of (d, frames) \<Rightarrow>
        obind (FrameDecoder_decode d buf) (\<lambda>(fs, d). Ok (d, frames @ fs)))"

lemma feed_frames_loop: "feed_frames (d, frames) buf = obind (decode_loop d buf frames) (\<lambda>(fs, d). Ok (d, fs))"
  by (simp add: feed_frames_def FrameDecoder_decode_def decode_loop_frames [of d buf frames] obind_assoc split_def)

lemma feed_frames_step:
  "feed_frames (d, frames) buf =
     obind (frame_step d buf) (\<lambda>(r, d).
       case r of None \<Rightarrow> Ok (d, frames) | Some (rest, fs) \<Rightarrow> feed_frames (d, frames @ fs) rest)"
  unfolding feed_frames_loop decode_loop_step [of d] obind_assoc
  by (rule obind_cong) (auto split: option.splits)

lemma feed_frames_keeps: "feed_frames (d, frames) buf = Ok (d', frames') \<Longrightarrow> set frames \<subseteq> set frames'"
  by (auto simp: feed_frames_def obind_eq_Ok)

lemma feed_frames_append:
  "fd_ok d \<Longrightarrow> frames_agree (feed_frames (d, frames) (xs @ ys))
     (obind (feed_frames (d, frames) xs) (\<lambda>t. feed_frames t ys))"
proof (induction d xs frames rule: decode_loop_induct)
  case (step d xs frames)
  show ?case
  proof (cases "\<exists>d1. frame_step d xs = Ok (None, d1)")
    case True
    then obtain d1 where d1: "frame_step d xs = Ok (None, d1)" by blast
    then have cut: "obind (feed_frames (d, frames) xs) (\<lambda>t. feed_frames t ys) = feed_frames (d1, frames) ys"
      by (simp add: feed_frames_step [of d])
    from frame_step_resume [OF step.prems d1, of ys] show ?thesis
    proof (elim disjE conjE exE)
      assume "frame_step d1 ys = frame_step d (xs @ ys)"
      then show ?thesis unfolding cut by (simp add: frames_agree_def feed_frames_step [of d] feed_frames_step [of d1])
    next
      fix i assume i: "frame_step d1 ys = Err (StreamError i FrameSizeError)"
        and lost: "priority_lost (frame_step d (xs @ ys))"
      have "\<exists>f \<in> set fs. is_priority f" if "feed_frames (d, frames) (xs @ ys) = Ok (d', fs)" for d' fs
        using that lost feed_frames_keeps
        by (fastforce simp: feed_frames_step [of d] obind_eq_Ok priority_lost_def)
      with i show ?thesis unfolding cut by (simp add: frames_agree_def feed_frames_step [of d1])
    qed
  next
    case False
    note more = frame_step_more [OF step.prems False, of ys]
    show ?thesis
    proof (cases "frame_step d xs")
      case (Ok p)
      with False obtain rest fs d' where p: "frame_step d xs = Ok (Some (rest, fs), d')"
        by (cases p; cases "fst p") auto
      from step.IH [OF p] frame_step_ok [OF step.prems p] more p show ?thesis
        by (simp add: feed_frames_step [of d])
    qed (use more in \<open>simp_all add: feed_frames_step [of d] frames_agree_def\<close>)
  qed
qed

text \<open>Between two calls the decoder waits for octets: none, and it stays as it is.\<close>

definition fd_idle :: "FrameDecoder \<Rightarrow> bool" where
  "fd_idle d \<longleftrightarrow> fd_ok d \<and> frame_step d [] = Ok (None, d)"

lemma fd_idle_new: "fd_idle FrameDecoder_new"
  using fd_ok_new decode_frame_header_eq [OF fd_ok_new, of "[]"]
  by (simp add: fd_idle_def frame_step_def FrameDecoder_new_def buffered_def)

lemma frame_step_idle: "fd_ok d \<Longrightarrow> frame_step d xs = Ok (None, d') \<Longrightarrow> fd_idle d'"
  using frame_step_resume [of d xs d' "[]"] frame_step_ok [of d xs None d']
  by (auto simp: fd_idle_def priority_lost_def)

lemma decode_loop_idle: "fd_ok d \<Longrightarrow> decode_loop d buf frames = Ok (frames', d') \<Longrightarrow> fd_idle d'"
proof (induction d buf frames rule: decode_loop_induct)
  case (step d buf frames)
  from step.prems(2) obtain r d1 where r: "frame_step d buf = Ok (r, d1)"
    "(case r of None \<Rightarrow> Ok (frames, d1) | Some (rest, fs) \<Rightarrow> decode_loop d1 rest (frames @ fs)) = Ok (frames', d')"
    unfolding decode_loop_step [of d] obind_eq_Ok by auto
  then show ?case
    using step.IH frame_step_ok [OF step.prems(1) r(1)] frame_step_idle [OF step.prems(1)]
    by (cases r) auto
qed

interpretation frame_dec: segmented_decoder_upto feed_frames "\<lambda>s. fd_idle (fst s)" frames_agree
proof unfold_locales
  fix s :: "FrameDecoder \<times> FrameKind list" and xs ys t
  assume ok: "fd_idle (fst s)"
  obtain d frames where s: "s = (d, frames)" by fastforce
  show "frames_agree (feed_frames s (xs @ ys)) (obind (feed_frames s xs) (\<lambda>t. feed_frames t ys))"
    using feed_frames_append ok s by (simp add: fd_idle_def)
  show "frames_agree (feed_frames s []) (Ok s)"
    using ok by (simp add: s feed_frames_step fd_idle_def frames_agree_def)
  show "feed_frames s xs = Ok t \<Longrightarrow> fd_idle (fst t)"
    using ok by (auto simp: s feed_frames_def obind_eq_Ok FrameDecoder_decode_def fd_idle_def dest: decode_loop_idle)
qed (auto simp: frames_agree_def)

end
