(* ===== verification/H2_Frame_Roundtrip.thy ===== *)
theory H2_Frame_Roundtrip
  imports H2_Encoder_Frames H2_Decoder_Segments
begin

text \<open>
  The frame decoder reads what the frame encoder writes: every frame without a header block, in any
  sequence, and HEADERS frames whose block fits into one frame.
\<close>

section \<open>Reading one frame\<close>

lemma be32_read:
  "get_code_value (be32 w @ xs) = Ok w" "get_stream_id (be32 w @ xs) = Ok (take_bit 31 w)"
  "get_code_value (be32 w) = Ok w" "get_stream_id (be32 w) = Ok (take_bit 31 w)"
  using of_be32_be32 [of w] of_be32_be32_mask [of w] by (simp_all add: be32_def)

lemma take_bit_31: "(w :: u32) < 2 ^ 31 \<Longrightarrow> take_bit 31 w = w"
  by (rule unsigned_word_eqI [where ?'a = nat]) (simp add: unsigned_take_bit_eq word_less_nat_alt take_bit_nat_eq_self)

lemma parse_frame_header:
  assumes "l < 2 ^ 24"
  shows "parse_header (frame_header l t fl i @ xs) =
    \<lparr>fh_stream_id = take_bit 31 i, fh_flags = fl, fh_frame_type = t, fh_payload_length = l\<rparr>"
  using of_be24_be24 [OF assms] of_be32_be32_mask [of i]
  by (simp add: parse_header_def frame_header_def be24_def be32_def)

text \<open>The settings that the decoder accepts.\<close>

definition setting_valid :: "Setting \<Rightarrow> bool" where
  "setting_valid s =
     (case s of
        InitialWindowSize v \<Rightarrow> unat v \<le> MAX_INITIAL_WINDOW_SIZE
      | MaxFrameSize v \<Rightarrow> DEFAULT_MAX_FRAME_SIZE \<le> v \<and> v \<le> MAX_ALLOWED_MAX_FRAME_SIZE
      | _ \<Rightarrow> True)"

lemma split_setting_octets: "setting_valid s \<Longrightarrow> split_token_to_setting (setting_octets s) = Ok (Some s)"
  by (cases s) (simp_all add: split_token_to_setting_def be32_read get_setting_def setting_valid_def)

lemma settings_loop_octets:
  "(\<And>s. s \<in> set ss \<Longrightarrow> setting_valid s) \<Longrightarrow> settings_loop (concat (map setting_octets ss)) acc = Ok (acc @ ss)"
proof (induction ss arbitrary: acc)
  case (Cons s ss)
  have "take 6 (setting_octets s @ xs) = setting_octets s" "drop 6 (setting_octets s @ xs) = xs" for xs
    by (simp_all del: setting_octets.simps)
  with Cons show ?case
    by (subst settings_loop.simps) (auto simp: split_setting_octets simp del: setting_octets.simps dest: arg_cong [of _ _ length])
qed (simp add: settings_loop.simps)

text \<open>The frames that the decoder takes: their stream, their flags and their payload fit together.\<close>

fun payload_valid :: "StreamId \<Rightarrow> FrameFlags \<Rightarrow> Payload \<Rightarrow> bool" where
  "payload_valid i fl (PL_Data data) = (i \<noteq> 0 \<and> \<not> FrameFlags_is_padded fl)"
| "payload_valid i fl (PL_Priority p) = (i \<noteq> 0 \<and> pr_stream_dependency p < 2 ^ 31)"
| "payload_valid i fl (PL_RstStream code) = (i \<noteq> 0)"
| "payload_valid i fl (PL_Ping data) = (i = 0 \<and> length data = 8)"
| "payload_valid i fl (PL_Settings ss) =
     (i = 0 \<and> (\<forall>s \<in> set ss. setting_valid s) \<and> (FrameFlags_is_ack fl \<longrightarrow> ss = []))"
| "payload_valid i fl (PL_Goaway g) = (i = 0 \<and> ga_last_stream_id g < 2 ^ 31)"
| "payload_valid i fl (PL_WindowUpdate increment) = (increment \<noteq> 0 \<and> increment < 2 ^ 31)"
| "payload_valid i fl _ = False"

definition frame_valid :: "u32 \<Rightarrow> Frame \<Rightarrow> bool" where
  "frame_valid max_frame_size f \<longleftrightarrow> payload_valid (fr_id f) (fr_flags f) (fr_payload f) \<and> fr_id f < 2 ^ 31 \<and>
     length (payload_octets (fr_payload f)) \<le> unat max_frame_size \<and>
     length (payload_octets (fr_payload f)) < 2 ^ 24"

definition header_of :: "Frame \<Rightarrow> FrameHeader" where
  "header_of f = \<lparr>fh_stream_id = fr_id f, fh_flags = fr_flags f,
     fh_frame_type = FrameType_as_u8 (Payload_frame_type (fr_payload f)),
     fh_payload_length = length (payload_octets (fr_payload f))\<rparr>"

lemma wire_id_valid: "payload_valid (fr_id f) fl (fr_payload f) \<Longrightarrow> wire_id f = fr_id f"
  by (cases "fr_payload f") (auto simp: wire_id_def)

lemma frame_of_header: "fd_header d = header_of f \<Longrightarrow> frame_of d (fr_payload f) = Complete f"
  by (simp add: frame_of_def header_of_def Frame_new_def)

lemma ack_flags: "fd_header d = header_of f \<Longrightarrow> FrameHeader_is_ack (fd_header d) = FrameFlags_is_ack (fr_flags f)"
  by (simp add: FrameHeader_is_ack_def FrameFlags_is_ack_def header_of_def and.commute)

lemma padded_flags: "fd_header d = header_of f \<Longrightarrow> FrameHeader_is_padded (fd_header d) = FrameFlags_is_padded (fr_flags f)"
  by (simp add: FrameHeader_is_padded_def FrameFlags_is_padded_def header_of_def and.commute)

text \<open>The first octet of a PRIORITY payload holds the exclusive bit and seven bits of the stream.\<close>

lemma exclusive_octet:
  fixes w :: u32 and x :: bool
  defines "b \<equiv> push_bit 7 (if x then 1 else 0 :: u8) OR ucast (drop_bit 24 w AND 0x7F)"
  shows "b AND 0x7f = ucast (drop_bit 24 w) AND 0x7f" "b AND 0x80 = 0x80 \<longleftrightarrow> x"
proof -
  have m: "(0x7f :: u8) = mask 7" "(0x7f :: u32) = mask 7" by (simp_all add: mask_eq_exp_minus_1)
  show "b AND 0x7f = ucast (drop_bit 24 w) AND 0x7f"
    by (rule bit_word_eqI) (auto simp: b_def m bit_simps)
  define t :: u8 where "t = 0x80"
  have top: "bit t n \<longleftrightarrow> n = 7" for n using bit_exp_iff [of 7 n, where ?'a = u8] by (auto simp: t_def)
  have "bit b 7 = x" by (auto simp: b_def m bit_simps)
  then have "bit (b AND t) n = bit (if x then t else 0) n" for n by (auto simp: bit_and_iff top)
  then have "b AND t = (if x then t else 0)" by (intro bit_word_eqI) blast
  moreover have "t \<noteq> 0" by (simp add: t_def)
  ultimately show "b AND 0x80 = 0x80 \<longleftrightarrow> x" unfolding t_def [symmetric] by (cases x) auto
qed

lemma priority_read:
  assumes "pr_stream_dependency p < 2 ^ 31"
  shows "priority_octets p ! 0 AND 0x80 = 0x80 \<longleftrightarrow> pr_exclusive p"
    "(get_stream_id (take 4 (priority_octets p)) :: (StreamId, H2Error) outcome) = Ok (pr_stream_dependency p)"
    "priority_octets p ! 4 = pr_weight p"
  using exclusive_octet [of "pr_exclusive p" "pr_stream_dependency p"]
    of_be32_be32_mask [of "pr_stream_dependency p"] take_bit_31 [OF assms]
  by (simp_all add: priority_octets_def)

lemma Priority_eta:
  "\<lparr>pr_exclusive = pr_exclusive p, pr_stream_dependency = pr_stream_dependency p, pr_weight = pr_weight p\<rparr> = p"
  by (cases p) simp

lemma Goaway_eta: "Goaway_new (ga_error_code g) (ga_last_stream_id g) (ga_debug_data g) = g"
  by (cases g) (simp add: Goaway_new_def)

lemma payload_read:
  assumes "fd_header d = header_of f" "fd_offset d = 0" "payload_valid (fr_id f) (fr_flags f) (fr_payload f)"
  shows "payload_decoder (fh_frame_type (fd_header d)) d (payload_octets (fr_payload f)) = Ok (Complete f, d)"
proof (cases "fr_payload f")
  case (PL_Settings ss)
  with assms settings_loop_octets [of ss "[]"] show ?thesis
    using frame_of_header [OF assms(1)] ack_flags [OF assms(1)]
    by (auto simp: payload_decoder_def header_of_def decode_settings_payload_def assemble_def is_connection_frame_def
        length_settings_octets del: setting_octets.simps)
next
  case (PL_Priority p)
  with assms have "payload_octets (fr_payload f) = priority_octets p" "pr_stream_dependency p < 2 ^ 31" by simp_all
  with assms PL_Priority priority_read [of p] show ?thesis using frame_of_header [OF assms(1)]
    by (simp add: payload_decoder_def header_of_def decode_priority_payload_def assemble_def is_connection_frame_def
        Priority_new_def Priority_eta)
qed (use assms frame_of_header [OF assms(1)] padded_flags [OF assms(1)] in
    \<open>auto simp: payload_decoder_def header_of_def payload_defs assemble_def is_connection_frame_def be32_read take_bit_31
      Goaway_eta\<close>)

section \<open>Reading a sequence of frames\<close>

text \<open>A decoder between two frames that are not connected by a header block.\<close>

definition fd_ready :: "FrameDecoder \<Rightarrow> bool" where
  "fd_ready d \<longleftrightarrow> fd_stage d = Stage_Header \<and> fd_offset d = 0 \<and> fd_buffer d = [] \<and>
     fd_header d = FrameHeader_new \<and> HpackDecoder_ok (fd_hpack d) \<and> co_is_end_headers (fd_continuations d)"

lemma fd_ready_new: "fd_ready FrameDecoder_new"
  using fd_ok_new by (simp add: fd_ready_def fd_ok_def FrameDecoder_new_def Continuations_new_def)

lemma fd_ready_ok: "fd_ready d \<Longrightarrow> fd_ok d"
  by (simp add: fd_ready_def fd_ok_def)

lemma fd_ready_unbuffered: "fd_ready d \<Longrightarrow> unbuffered d = d"
  by (simp add: fd_ready_def unbuffered_def)

lemma fd_ready_idle: "fd_ready d \<Longrightarrow> fd_idle d"
  using decode_frame_header_eq [of d "[]"] fd_ready_ok [of d]
  by (simp add: fd_idle_def frame_step_def fd_ready_def buffered_def)

text \<open>The two turns of the loop that read the header and the payload of a frame.\<close>

lemma header_turn:
  assumes "fd_ok d" "fd_stage d = Stage_Header" "fd_buffer d = []"
    "length p < 2 ^ 24" "length p \<le> unat (fd_max_frame_size d)"
  shows "frame_step d (frame_header (length p) t fl i @ p @ rest) =
    Ok (Some (p @ rest, []), d\<lparr>fd_header := \<lparr>fh_stream_id = take_bit 31 i, fh_flags = fl, fh_frame_type = t,
      fh_payload_length = length p\<rparr>, fd_stage := Stage_Payload\<rparr>)"
proof -
  have "parse_header (frame_header (length p) t fl i @ p @ rest) =
      \<lparr>fh_stream_id = take_bit 31 i, fh_flags = fl, fh_frame_type = t, fh_payload_length = length p\<rparr>"
    by (rule parse_frame_header [OF assms(4)])
  moreover have "unbuffered d = d" using assms(1,3) by (simp add: fd_ok_def unbuffered_def)
  ultimately show ?thesis
    using assms(2,3,5) decode_frame_header_eq [OF assms(1,2)] by (simp add: frame_step_def Let_def)
qed

lemmas ready_header_turn = header_turn [OF fd_ready_ok]

lemma payload_turn:
  assumes "fd_stage d = Stage_Payload" "fd_offset d = 0" "fh_payload_length (fd_header d) = length p"
    "co_is_end_headers (fd_continuations d) \<or>
     fh_stream_id (fd_header d) = co_stream_id (fd_continuations d) \<and> fh_frame_type (fd_header d) = 9"
  shows "frame_step d (p @ rest) =
    obind (payload_decoder (fh_frame_type (fd_header d)) d p) (\<lambda>(frame, d).
      Ok (Some (rest, [frame]), (clear_buffer (d\<lparr>fd_header := FrameHeader_reset (fd_header d)\<rparr>))\<lparr>fd_stage := Stage_Header\<rparr>))"
  using assms by (auto simp: frame_step_def decode_frame_payload_def obind_assoc split_def)

lemma FrameHeader_reset_eq: "FrameHeader_reset h = FrameHeader_new"
  by (simp add: FrameHeader_reset_def FrameHeader_new_def)

lemma decode_frame_octets:
  assumes "fd_ready d" "frame_valid (fd_max_frame_size d) f"
  shows "decode_loop d (frame_octets f @ rest) frames = decode_loop d rest (frames @ [Complete f])"
proof -
  let ?p = "payload_octets (fr_payload f)"
  let ?d = "d\<lparr>fd_header := header_of f, fd_stage := Stage_Payload\<rparr>"
  from assms(2) have f: "payload_valid (fr_id f) (fr_flags f) (fr_payload f)" "fr_id f < 2 ^ 31"
    "length ?p < 2 ^ 24" "length ?p \<le> unat (fd_max_frame_size d)" by (auto simp: frame_valid_def)
  have "frame_step d (frame_octets f @ rest) = Ok (Some (?p @ rest, []), ?d)"
    using ready_header_turn [OF assms(1) _ _ f(3,4)] assms(1) wire_id_valid [OF f(1)] take_bit_31 [OF f(2)]
    by (simp add: frame_octets_def header_of_def fd_ready_def)
  moreover have "frame_step ?d (?p @ rest) = Ok (Some (rest, [Complete f]), d)"
  proof -
    have "payload_decoder (fh_frame_type (fd_header ?d)) ?d ?p = Ok (Complete f, ?d)"
      by (rule payload_read) (use assms(1) f(1) in \<open>simp_all add: fd_ready_def\<close>)
    moreover have "clear_buffer (?d\<lparr>fd_header := FrameHeader_new\<rparr>)\<lparr>fd_stage := Stage_Header\<rparr> = d"
      using assms(1) by (simp add: fd_ready_def clear_buffer_def)
    ultimately show ?thesis using assms(1) payload_turn [of ?d ?p rest]
      by (simp add: fd_ready_def header_of_def FrameHeader_reset_eq)
  qed
  ultimately show ?thesis by (simp add: decode_loop_step [of d] decode_loop_step [of ?d])
qed

lemma decode_frames_octets:
  assumes "fd_ready d" "\<And>f. f \<in> set fs \<Longrightarrow> frame_valid (fd_max_frame_size d) f"
  shows "feed_frames (d, frames) (concat (map frame_octets fs)) = Ok (d, frames @ map Complete fs)"
  using assms(2)
proof (induction fs arbitrary: frames)
  case Nil
  then show ?case using fd_ready_idle [OF assms(1)] by (simp add: feed_frames_step fd_idle_def)
next
  case (Cons f fs)
  then show ?case using decode_frame_octets [OF assms(1), of f] by (simp add: feed_frames_loop)
qed

section \<open>Writing a sequence of frames\<close>

text \<open>Frame after frame, each one into buffers of its own.\<close>

fun send_frames :: "FrameEncoder \<Rightarrow> (Frame \<times> bytes list) list \<Rightarrow> (bytes \<times> FrameEncoder, FrameEncoderErr) outcome" where
  "send_frames e [] = Ok ([], e)"
| "send_frames e ((f, bufs) # fs) =
     obind (FrameEncoder_set_frame e f) (\<lambda>e.
     obind (write_frame e bufs) (\<lambda>(out, e).
     obind (send_frames e fs) (\<lambda>(more, e). Ok (out @ more, e))))"

lemma hpack_fill_limit: "hpack_fill e = Ok e' \<Longrightarrow> fe_max_frame_size e' = fe_max_frame_size e"
  by (auto simp: hpack_fill_def split: outcome.splits)

lemma headers_header_status_limit:
  "headers_header_status e = Ok e' \<Longrightarrow> fe_max_frame_size e' = fe_max_frame_size e"
  by (auto simp: headers_header_status_def finish_current_frame_def read_rest_payload_def obind_eq_Ok
      dest!: hpack_fill_limit split: if_splits)

lemma write_payload_limit:
  "write_payload e buf l = Ok (n, buf', e') \<Longrightarrow> fe_max_frame_size e' = fe_max_frame_size e"
  by (auto simp: write_payload_def obind_eq_Ok Let_def)

lemma headers_state_limit:
  "encode_headers_frame e buf = Ok (n, buf', e') \<Longrightarrow> fe_max_frame_size e' = fe_max_frame_size e"
  "encode_headers_payload e buf = Ok (n, buf', e') \<Longrightarrow> fe_max_frame_size e' = fe_max_frame_size e"
  "encode_continuation_frames e buf = Ok (n, buf', e') \<Longrightarrow> fe_max_frame_size e' = fe_max_frame_size e"
  by (auto simp: encode_headers_frame_def encode_headers_payload_def encode_continuation_frames_def obind_eq_Ok Let_def
      dest!: headers_header_status_limit write_payload_limit split: if_splits)

lemma data_header_limit:
  "encode_data_header e buf = Ok (n, buf', e') \<Longrightarrow> fe_max_frame_size e' = fe_max_frame_size e"
  by (auto simp: encode_data_header_def obind_eq_Ok case_payload_Ok Let_def split: if_splits)

lemma data_payload_limit:
  "encode_data_payload e buf = Ok (n, buf', e') \<Longrightarrow> fe_max_frame_size e' = fe_max_frame_size e"
  by (auto simp: encode_data_payload_def obind_eq_Ok case_payload_Ok Let_def split: if_splits)

lemma padding_limit:
  "encode_padding e buf = Ok (n, buf', e') \<Longrightarrow> fe_max_frame_size e' = fe_max_frame_size e"
  by (auto simp: encode_padding_def obind_eq_Ok case_payload_Ok Let_def split: if_splits)

lemma goaway_frame_limit:
  "encode_goaway_frame e buf = Ok (n, buf', e') \<Longrightarrow> fe_max_frame_size e' = fe_max_frame_size e"
  by (auto simp: encode_goaway_frame_def obind_eq_Ok case_payload_Ok Let_def split: if_splits)

lemma goaway_payload_limit:
  "encode_goaway_payload e buf = Ok (n, buf', e') \<Longrightarrow> fe_max_frame_size e' = fe_max_frame_size e"
  by (auto simp: encode_goaway_payload_def obind_eq_Ok case_payload_Ok Let_def if_distrib [of fe_max_frame_size]
      cong: if_cong split del: if_split)

lemma window_update_frame_limit:
  "encode_window_update_frame e buf = Ok (n, buf', e') \<Longrightarrow> fe_max_frame_size e' = fe_max_frame_size e"
  by (auto simp: encode_window_update_frame_def obind_eq_Ok case_payload_Ok Let_def split: if_splits)

lemma window_update_payload_limit:
  "encode_window_update_payload e buf = Ok (n, buf', e') \<Longrightarrow> fe_max_frame_size e' = fe_max_frame_size e"
  by (auto simp: encode_window_update_payload_def obind_eq_Ok case_payload_Ok Let_def split: if_splits)

lemma settings_frame_limit:
  "encode_settings_frame e buf = Ok (n, buf', e') \<Longrightarrow> fe_max_frame_size e' = fe_max_frame_size e"
  by (auto simp: encode_settings_frame_def obind_eq_Ok case_payload_Ok Let_def split: if_splits)

lemma settings_payload_limit:
  "encode_settings_payload e buf = Ok (n, buf', e') \<Longrightarrow> fe_max_frame_size e' = fe_max_frame_size e"
  by (auto simp: encode_settings_payload_def obind_eq_Ok case_payload_Ok Let_def if_distrib [of fe_max_frame_size]
      cong: if_cong split del: if_split)

lemma priority_frame_limit:
  "encode_priority_frame e buf = Ok (n, buf', e') \<Longrightarrow> fe_max_frame_size e' = fe_max_frame_size e"
  by (auto simp: encode_priority_frame_def obind_eq_Ok case_payload_Ok Let_def split: if_splits)

lemma priority_payload_limit:
  "encode_priority_payload e buf = Ok (n, buf', e') \<Longrightarrow> fe_max_frame_size e' = fe_max_frame_size e"
  by (auto simp: encode_priority_payload_def obind_eq_Ok case_payload_Ok Let_def split: if_splits)

lemma rst_stream_frame_limit:
  "encode_rst_stream_frame e buf = Ok (n, buf', e') \<Longrightarrow> fe_max_frame_size e' = fe_max_frame_size e"
  by (auto simp: encode_rst_stream_frame_def obind_eq_Ok case_payload_Ok Let_def split: if_splits)

lemma rst_stream_payload_limit:
  "encode_rst_stream_payload e buf = Ok (n, buf', e') \<Longrightarrow> fe_max_frame_size e' = fe_max_frame_size e"
  by (auto simp: encode_rst_stream_payload_def obind_eq_Ok case_payload_Ok Let_def split: if_splits)

lemma ping_frame_limit:
  "encode_ping_frame e buf = Ok (n, buf', e') \<Longrightarrow> fe_max_frame_size e' = fe_max_frame_size e"
  by (auto simp: encode_ping_frame_def obind_eq_Ok case_payload_Ok Let_def split: if_splits)

lemma ping_payload_limit:
  "encode_ping_payload e buf = Ok (n, buf', e') \<Longrightarrow> fe_max_frame_size e' = fe_max_frame_size e"
  by (auto simp: encode_ping_payload_def obind_eq_Ok case_payload_Ok Let_def split: if_splits)

lemmas body_state_limit = data_header_limit data_payload_limit padding_limit goaway_frame_limit goaway_payload_limit window_update_frame_limit window_update_payload_limit settings_frame_limit settings_payload_limit priority_frame_limit priority_payload_limit rst_stream_frame_limit rst_stream_payload_limit ping_frame_limit ping_payload_limit

lemma encode_state_limit: "encode_state e buf = Ok (n, buf', e') \<Longrightarrow> fe_max_frame_size e' = fe_max_frame_size e"
  by (cases "fe_state e") (simp_all add: encode_state_def headers_state_limit body_state_limit)

lemma encode_loop_limit: "encode_loop e buf = Ok (n, buf', e') \<Longrightarrow> fe_max_frame_size e' = fe_max_frame_size e"
proof (induction e buf arbitrary: n buf' e' rule: encode_loop.induct)
  case (1 e buf)
  show ?case
  proof (cases "buf = [] \<or> is_complete e")
    case True
    with 1(2) show ?thesis by (simp add: encode_loop.simps)
  next
    case False
    with 1(2) obtain m b e1 where m: "encode_state e buf = Ok (m, b, e1)"
      by (auto simp: encode_loop.simps [of e] split: outcome.splits)
    with 1(2) False encode_state_limit [OF m] 1(1) [OF False m refl refl] show ?thesis
      by (auto simp: encode_loop.simps [of e] obind_eq_Ok split: if_splits)
  qed
qed

lemma write_frame_limit: "write_frame e bufs = Ok (out, e') \<Longrightarrow> fe_max_frame_size e' = fe_max_frame_size e"
proof (induction bufs arbitrary: e out)
  case (Cons b bs)
  then show ?case by (auto simp: obind_eq_Ok FrameEncoder_encode_def dest!: encode_loop_limit)
qed simp

lemma send_frames_octets:
  "(\<And>f bufs. (f, bufs) \<in> set fs \<Longrightarrow> frame_fits (fr_payload f) e bufs \<and> length (frame_octets f) < sum_list (map length bufs))
   \<Longrightarrow> \<exists>e'. send_frames e fs = Ok (concat (map frame_octets (map fst fs)), e')"
proof (induction fs arbitrary: e)
  case (Cons x fs)
  obtain f bufs where x: "x = (f, bufs)" by fastforce
  from Cons.prems x have f: "frame_fits (fr_payload f) e bufs" "length (frame_octets f) < sum_list (map length bufs)" by auto
  from set_frame_writes [OF f(1)] obtain e1 e2 where
    e: "FrameEncoder_set_frame e f = Ok e1" "write_frame e1 bufs = Ok (frame_octets f, e2)" using f(2) by auto
  have limit: "fe_max_frame_size e2 = fe_max_frame_size e"
    using write_frame_limit [OF e(2)] set_frame_ok [of f e] f(1) e(1) by (cases "fr_payload f") fastforce+
  have "frame_fits p e2 bs = frame_fits p e bs" for p bs using limit by (cases p) simp_all
  with Cons.IH [of e2] Cons.prems obtain e' where "send_frames e2 fs = Ok (concat (map frame_octets (map fst fs)), e')"
    by auto
  with e show ?case by (simp add: x)
qed simp

section \<open>A header block in one frame\<close>

text \<open>The header block of a first HEADERS frame.\<close>

definition first_block :: "bool \<Rightarrow> Parts \<Rightarrow> bytes" where
  "first_block huff p = fields_octets (DynamicTable_with_max_size 4096) huff (parts_fields p)"

lemma set_headers_frame:
  assumes "fr_payload f = PL_Headers p" "FrameFlags_is_end_headers (fr_flags f)" "length (first_block huff p) \<le> 16384"
  obtains e where "FrameEncoder_set_frame (FrameEncoder_new m huff) f = Ok e" "headers_ok e"
    "headers_pending e = headers_octets f (first_block huff p)"
proof -
  let ?h = "HpackEncoder_set_parts (HpackEncoder_new 4096 huff) p" and ?b = "first_block huff p"
  let ?h' = "?h\<lparr>he_table := he_final ?h, he_iter := None, he_state := None\<rparr>"
  have "HpackEncoder_encode ?h 16384 = Ok (?b, ?h')"
    using HpackEncoder_encode_fits [OF set_parts_content(1), of 16384 4096 huff p] assms(3)
    by (simp add: set_parts_content(2) first_block_def)
  then obtain e where e: "FrameEncoder_set_frame (FrameEncoder_new m huff) f = Ok e"
    "fe_hpack_encoder e = ?h'" "fe_state e = EncodingHeadersFrame" "fe_encoded_bytes e = 0" "fe_current_frame e = Some f"
    "fe_header_payload_index e = 0" "fe_remaining_header_payload e = length ?b"
    "fe_header_payload_buffer e = ?b @ replicate (16384 - length ?b) 0"
    using assms(1,2) by (simp add: FrameEncoder_set_frame_def FrameEncoder_new_def hpack_fill_def
        ENCODER_HEADER_TABLE_SIZE_def ENCODER_MAX_FRAME_SIZE_def)
  have "headers_block e = ?b" using e by (simp add: headers_block_def)
  then show ?thesis using e assms(1)
    by (intro that [OF e(1)]) (auto simp: headers_ok_def headers_pending_def HpackEncoder_is_finished_def)
qed

lemma decode_headers_octets:
  assumes "fd_ready d" "fr_id f \<noteq> 0" "fr_id f < 2 ^ 31"
    "length block < 2 ^ 24" "length block \<le> unat (fd_max_frame_size d)"
    "FrameFlags_is_end_headers (fr_flags f)" "\<not> FrameFlags_is_padded (fr_flags f)"
    "\<not> fr_flags f AND HEADERS_PRIORITY_MASK = HEADERS_PRIORITY_MASK"
    "HpackDecoder_decode (fd_hpack d) block = Ok h" "HpackDecoder_finish h = Ok (p, h')" "HpackDecoder_ok h'"
  shows "feed_frames (d, frames) (headers_octets f block) =
    Ok (d\<lparr>fd_hpack := h'\<rparr>, frames @ [Complete (Frame_new (fr_id f) (fr_flags f) (PL_Headers p))])"
proof -
  define hd where "hd = \<lparr>fh_stream_id = fr_id f, fh_flags = fr_flags f, fh_frame_type = 1, fh_payload_length = length block\<rparr>"
  let ?d = "d\<lparr>fd_header := hd, fd_stage := Stage_Payload\<rparr>"
  have flags: "FrameHeader_is_end_headers hd" "\<not> FrameHeader_is_padded hd" "\<not> FrameHeader_is_headers_priority hd"
    using assms(6-8) by (simp_all add: hd_def FrameHeader_is_end_headers_def FrameHeader_is_padded_def
        FrameHeader_is_headers_priority_def FrameFlags_is_end_headers_def FrameFlags_is_padded_def and.commute)
  have turn1: "frame_step d (headers_octets f block) = Ok (Some (block, []), ?d)"
    using ready_header_turn [OF assms(1) _ _ assms(4,5), of 1 "fr_flags f" "fr_id f" "[]"] assms(1) take_bit_31 [OF assms(3)]
    by (simp add: headers_octets_def hd_def fd_ready_def)
  have "decode_headers_payload ?d block =
      Ok (Complete (Frame_new (fr_id f) (fr_flags f) (PL_Headers p)), ?d\<lparr>fd_hpack := h'\<rparr>)"
    using assms(1,2,9,10) flags
    by (simp add: decode_headers_payload_def assemble_def fd_ready_def is_connection_frame_def fragment_bounds_def
        hpack_decode_def hpack_finish_def hd_def frame_of_def Let_def)
  then have turn2: "frame_step ?d block = Ok (Some ([], [Complete (Frame_new (fr_id f) (fr_flags f) (PL_Headers p))]), d\<lparr>fd_hpack := h'\<rparr>)"
    using payload_turn [of ?d block "[]"] assms(1)
    by (simp add: fd_ready_def hd_def payload_decoder_def clear_buffer_def FrameHeader_reset_eq)
  have "fd_ready (d\<lparr>fd_hpack := h'\<rparr>)" using assms(1,11) by (simp add: fd_ready_def)
  from fd_ready_idle [OF this] show ?thesis
    by (simp add: feed_frames_step [of d] turn1 feed_frames_step [of ?d] turn2 feed_frames_step [of "d\<lparr>fd_hpack := h'\<rparr>"] fd_idle_def)
qed

text \<open>An example block.\<close>

lemma example_block_length: "length (first_block False (example_parts ''x'' ''b'')) \<le> 64"
  by (simp add: first_block_def example_fields ReprEncoder_select_def TableSearcher_index_def DynamicTable_index_def
      DynamicTable_with_max_size_def StaticTable_index_headers_def repr_new_pending int_octets_def
      string_octets_def trailing_octets.simps Let_def)

lemma example_fits:
  "\<forall>f \<in> set (parts_fields (example_parts ''x'' ''b'')). field_fits False f"
  "table_size (parts_fields (example_parts ''x'' ''b'')) \<le> DEFAULT_MAX_HEADER_LIST_SIZE"
  by (simp_all add: example_fields field_fits_def string_fits_def usize_limit_def entry_size_def
      DEFAULT_MAX_HEADER_LIST_SIZE_def)

lemma example_block:
  "\<exists>h p h'. length (first_block False (example_parts ''x'' ''b'')) \<le> 64 \<and>
    HpackDecoder_decode HpackDecoderLayer_new (first_block False (example_parts ''x'' ''b'')) = Ok h \<and>
    HpackDecoder_finish h = Ok (p, h') \<and> ph_method (parts_pseudo p) = Some ''GET''"
  using decode_parts [OF example_ok _ example_fits(2), of False 4096] example_fits(1) example_block_length
  by (auto simp: first_block_def HpackDecoderLayer_new_def DEFAULT_HEADER_TABLE_SIZE_def usize_limit_def
      HpackDecoder_finish_def example_parts_def)

end
