(* ===== verification/H2_Frame_Properties.thy ===== *)
theory H2_Frame_Properties
  imports H2_Frame_Roundtrip
begin

text \<open>
  The properties of the frame layer: what is written, what is read back, what is refused, and the
  inputs on which the encoder and the decoder do not do what they should.
\<close>

section \<open>Round trips\<close>

text \<open>
  C3. The frame round trip. Valid DATA (unpadded and within the maximum frame size), PRIORITY,
  RST\_STREAM, SETTINGS, PING, GOAWAY and WINDOW\_UPDATE frames, in any sequence, each one written with
  \<^verbatim>\<open>set_frame\<close> and \<^verbatim>\<open>encode\<close> into buffers that are longer than it (of any sizes, but the first one has to
  take the header of a SETTINGS, RST\_STREAM or PING frame and the whole of a WINDOW\_UPDATE frame), are
  read back by the decoder as the same
  frames in the same order, and the decoder is in the state in which it was before. Unless there is a
  PRIORITY frame the octets may arrive in segments of any sizes.
\<close>

theorem frame_stream_roundtrip:
  assumes "\<forall>(f, bufs) \<in> set fs. frame_fits (fr_payload f) e bufs \<and>
      length (frame_octets f) < sum_list (map length bufs) \<and> frame_valid (fd_max_frame_size d) f"
    and "fd_ready d"
  shows "\<exists>out e'. send_frames e fs = Ok (out, e') \<and> FrameDecoder_decode d out = Ok (map (Complete \<circ> fst) fs, d) \<and>
    (\<forall>segments. concat segments = out \<longrightarrow> (\<forall>f \<in> set (map fst fs). \<not> is_priority (Complete f)) \<longrightarrow>
       feed_segments feed_frames (d, []) segments = Ok (d, map (Complete \<circ> fst) fs))"
proof -
  from assms(1) have "frame_fits (fr_payload f) e bufs \<and> length (frame_octets f) < sum_list (map length bufs)"
    if "(f, bufs) \<in> set fs" for f bufs using that by blast
  from send_frames_octets [OF this] obtain e' where
    e': "send_frames e fs = Ok (concat (map frame_octets (map fst fs)), e')" by blast
  have read: "feed_frames (d, []) (concat (map frame_octets (map fst fs))) = Ok (d, map (Complete \<circ> fst) fs)"
    using decode_frames_octets [OF assms(2), of "map fst fs" "[]"] assms(1) by force
  then have "FrameDecoder_decode d (concat (map frame_octets (map fst fs))) = Ok (map (Complete \<circ> fst) fs, d)"
    by (auto simp: feed_frames_def obind_eq_Ok)
  moreover have "feed_segments feed_frames (d, []) segments = Ok (d, map (Complete \<circ> fst) fs)"
    if "concat segments = concat (map frame_octets (map fst fs))" "\<forall>f \<in> set (map fst fs). \<not> is_priority (Complete f)" for segments
    using frame_dec.feed_segments_agrees [of "(d, [])" segments] fd_ready_idle [OF assms(2)] that read
    by (auto simp: frames_agree_def)
  ultimately show ?thesis using e' by blast
qed

definition example_frames :: "(Frame \<times> bytes list) list" where
  "example_frames =
     [(Frame_new 0 0 (PL_Settings [InitialWindowSize 1000]), [replicate 10 0, replicate 1000 0]),
      (Frame_new 1 1 (PL_Data [1, 2, 3]), [[0], [0, 0, 0], replicate 100 0])]"

theorem frame_stream_roundtrip_witness:
  "\<exists>out e'. send_frames (FrameEncoder_new 16384 True) example_frames = Ok (out, e') \<and>
     FrameDecoder_decode FrameDecoder_new out = Ok (map (Complete \<circ> fst) example_frames, FrameDecoder_new)"
proof -
  have ok: "\<forall>(f, bufs) \<in> set example_frames. frame_fits (fr_payload f) (FrameEncoder_new 16384 True) bufs \<and>
      length (frame_octets f) < sum_list (map length bufs) \<and> frame_valid (fd_max_frame_size FrameDecoder_new) f"
    by (simp add: example_frames_def Frame_new_def first_buffer_def length_frame_octets frame_valid_def
        FrameEncoder_new_def setting_valid_def MAX_INITIAL_WINDOW_SIZE_def FrameDecoder_new_def
        DEFAULT_MAX_FRAME_SIZE_def FrameFlags_is_ack_def FrameFlags_is_padded_def mask_defs)
  from frame_stream_roundtrip [OF ok fd_ready_new] show ?thesis by blast
qed

text \<open>
  C8. The round trip of HEADERS: the first header block of a connection, if it fits into one frame,
  is written into buffers of any sizes and read back from segments of any sizes as a HEADERS frame
  with the same stream, the same flags, the same pseudo headers and the same value under every name.
\<close>

theorem headers_frame_roundtrip:
  assumes "fr_payload f = PL_Headers p" "Parts_ok p" "\<forall>x \<in> set (parts_fields p). field_fits huff x"
    and "table_size (parts_fields p) \<le> DEFAULT_MAX_HEADER_LIST_SIZE" "length (first_block huff p) \<le> 16384"
    and "fr_id f \<noteq> 0" "fr_id f < 2 ^ 31"
    and "FrameFlags_is_end_headers (fr_flags f)" "\<not> FrameFlags_is_padded (fr_flags f)"
    and "\<not> fr_flags f AND HEADERS_PRIORITY_MASK = HEADERS_PRIORITY_MASK"
    and "9 + length (first_block huff p) < sum_list (map length bufs)"
  shows "\<exists>e1 e2 out. FrameEncoder_set_frame (FrameEncoder_new m huff) f = Ok e1 \<and>
    write_frame e1 bufs = Ok (out, e2) \<and> is_complete e2 \<and>
    (\<forall>segments. concat segments = out \<longrightarrow>
      (\<exists>d p'. feed_segments feed_frames (FrameDecoder_new, []) segments =
          Ok (d, [Complete (Frame_new (fr_id f) (fr_flags f) (PL_Headers p'))]) \<and>
        parts_pseudo p' = parts_pseudo p \<and>
        (\<forall>x. Headers_get (parts_map p') x = map_option flat_value (Headers_get (parts_map p) x))))"
proof -
  let ?b = "first_block huff p"
  have len: "length (headers_octets f ?b) = 9 + length ?b" by (simp add: headers_octets_def)
  from set_headers_frame [OF assms(1,8,5)] obtain e1 where e1:
    "FrameEncoder_set_frame (FrameEncoder_new m huff) f = Ok e1" "headers_ok e1"
    "headers_pending e1 = headers_octets f ?b" by blast
  from headers_writer.write_frame_writes [OF e1(2), of bufs] obtain e2 where
    e2: "write_frame e1 bufs = Ok (headers_octets f ?b, e2)" "is_complete e2"
    using e1(3) assms(11) len by auto
  from decode_parts [OF assms(2) _ assms(4), of huff 4096] assms(3) obtain h p' where
    h: "HpackDecoder_decode (fd_hpack FrameDecoder_new) ?b = Ok h" "hpd_holder h = None" "hl_parts (hpd_lines h) = p'"
      "parts_pseudo p' = parts_pseudo p"
      "\<forall>x. Headers_get (parts_map p') x = map_option flat_value (Headers_get (parts_map p) x)"
    by (auto simp: first_block_def FrameDecoder_new_def HpackDecoderLayer_new_def DEFAULT_HEADER_TABLE_SIZE_def usize_limit_def)
  have ok: "HpackDecoder_ok (fd_hpack FrameDecoder_new)" using fd_ready_new by (simp add: fd_ready_def)
  from h(2,3) obtain h' where h': "HpackDecoder_finish h = Ok (p', h')" by (simp add: HpackDecoder_finish_def)
  from hpack_dec.feed_invar [OF ok h(1)] have "HpackDecoder_ok h" .
  with h' have "HpackDecoder_ok h'" by (rule HpackDecoder_finish_ok [rotated])
  have "length ?b < 2 ^ 24" "length ?b \<le> unat (fd_max_frame_size FrameDecoder_new)"
    using assms(5) by (simp_all add: FrameDecoder_new_def DEFAULT_MAX_FRAME_SIZE_def)
  note read = decode_headers_octets [OF fd_ready_new assms(6,7) this assms(8-10) h(1) h' \<open>HpackDecoder_ok h'\<close>, of "[]"]
  have "feed_segments feed_frames (FrameDecoder_new, []) segments =
      Ok (FrameDecoder_new\<lparr>fd_hpack := h'\<rparr>, [Complete (Frame_new (fr_id f) (fr_flags f) (PL_Headers p'))])"
    if "concat segments = headers_octets f ?b" for segments
    using frame_dec.feed_segments_agrees [of "(FrameDecoder_new, [])" segments] fd_idle_new that read
    by (auto simp: frames_agree_def is_priority_def Frame_new_def)
  with e1(1) e2 h(4,5) show ?thesis by blast
qed

definition example_headers :: Frame where
  "example_headers = Frame_new 1 4 (PL_Headers (example_parts ''x'' ''b''))"

theorem headers_frame_roundtrip_witness:
  "\<exists>e1 e2 out. FrameEncoder_set_frame (FrameEncoder_new 16384 False) example_headers = Ok e1 \<and>
    write_frame e1 [replicate 5 0, replicate 200 0] = Ok (out, e2) \<and> is_complete e2 \<and>
    (\<exists>d p'. feed_segments feed_frames (FrameDecoder_new, []) [take 3 out, drop 3 out] =
        Ok (d, [Complete (Frame_new 1 4 (PL_Headers p'))]) \<and>
      ph_method (parts_pseudo p') = Some ''GET'')"
proof -
  let ?p = "example_parts ''x'' ''b''"
  note block = example_block_length and fits = example_fits
  have f: "fr_payload example_headers = PL_Headers ?p" "fr_id example_headers = 1" "fr_flags example_headers = 4"
    by (simp_all add: example_headers_def Frame_new_def)
  have flags: "fr_id example_headers \<noteq> 0" "fr_id example_headers < 2 ^ 31"
    "FrameFlags_is_end_headers (fr_flags example_headers)" "\<not> FrameFlags_is_padded (fr_flags example_headers)"
    "\<not> fr_flags example_headers AND HEADERS_PRIORITY_MASK = HEADERS_PRIORITY_MASK"
    by (simp_all add: f FrameFlags_is_end_headers_def FrameFlags_is_padded_def mask_defs)
  have "length (first_block False ?p) \<le> 16384"
    "9 + length (first_block False ?p) < sum_list (map length [replicate 5 (0 :: u8), replicate 200 0])" using block by simp_all
  from headers_frame_roundtrip [OF f(1) example_ok fits this(1) flags this(2), of 16384, unfolded f(2,3)] obtain e1 e2 out where
    e: "FrameEncoder_set_frame (FrameEncoder_new 16384 False) example_headers = Ok e1"
      "write_frame e1 [replicate 5 0, replicate 200 0] = Ok (out, e2)" "is_complete e2"
      "\<forall>segments. concat segments = out \<longrightarrow>
        (\<exists>d p'. feed_segments feed_frames (FrameDecoder_new, []) segments =
            Ok (d, [Complete (Frame_new 1 4 (PL_Headers p'))]) \<and> parts_pseudo p' = parts_pseudo ?p \<and>
          (\<forall>x. Headers_get (parts_map p') x = map_option flat_value (Headers_get (parts_map ?p) x)))"
    by (elim exE conjE) (rule that)
  from e(4) [rule_format, of "[take 3 out, drop 3 out]"] obtain d p' where
    "feed_segments feed_frames (FrameDecoder_new, []) [take 3 out, drop 3 out] =
        Ok (d, [Complete (Frame_new 1 4 (PL_Headers p'))])" "parts_pseudo p' = parts_pseudo ?p" by auto
  moreover have "ph_method (parts_pseudo ?p) = Some ''GET''" by (simp add: example_parts_def)
  ultimately show ?thesis using e(1-3) by (metis (no_types))
qed

section \<open>Writing\<close>

text \<open>
  C25. What \<^verbatim>\<open>encode\<close> writes of a frame without a header block: the octets of the frame, as many as the
  buffers take, and the encoder is done as soon as the buffers are longer than the frame. GOAWAY,
  PRIORITY, and DATA within the maximum frame size are written into buffers of any sizes; for SETTINGS,
  RST\_STREAM and PING (of eight octets) the first buffer has to take the frame header of 9 octets, and
  for WINDOW\_UPDATE the whole frame of 13 octets. The other cases are not claimed: longer DATA, headers
  that are cut and a WINDOW\_UPDATE that is cut are written wrongly (see the next section), and frames
  with a header block are treated above.
\<close>

theorem frame_encode_segments:
  assumes "frame_fits (fr_payload f) e bufs"
  shows "\<exists>e1 e2. FrameEncoder_set_frame e f = Ok e1 \<and>
    write_frame e1 bufs = Ok (take (sum_list (map length bufs)) (frame_octets f), e2) \<and>
    (length (frame_octets f) < sum_list (map length bufs) \<longrightarrow> is_complete e2)"
  by (rule set_frame_writes [OF assms])

theorem frame_encode_segments_witness:
  "\<exists>e1 e2. FrameEncoder_set_frame (FrameEncoder_new 16384 True) (Frame_new 1 0 (PL_Priority (Priority_new True 3 9))) = Ok e1 \<and>
    write_frame e1 [[0], [0, 0], replicate 20 0] =
      Ok (take 23 (frame_octets (Frame_new 1 0 (PL_Priority (Priority_new True 3 9)))), e2) \<and> is_complete e2"
  using frame_encode_segments [of "Frame_new 1 0 (PL_Priority (Priority_new True 3 9))" "FrameEncoder_new 16384 True"
      "[[0], [0, 0], replicate 20 0]"]
  by (auto simp: Frame_new_def length_frame_octets simp del: write_frame.simps)

section \<open>Frames that are written wrongly\<close>

lemma data_header_whole:
  assumes "fe_current_frame e = Some f" "fr_payload f = PL_Data data" "fe_state e = EncodingDataHeader"
    "fe_encoded_bytes e = 0" "9 \<le> length buf"
  shows "encode_state e buf =
    Ok (9, frame_header (min (fe_remaining_payload_bytes e) (fe_max_frame_size e)) 0
          (if fe_remaining_payload_bytes e \<le> fe_max_frame_size e then fr_flags f else fr_flags f AND 0xFE) (fr_id f) @ drop 9 buf,
        e\<lparr>fe_encoded_bytes := 0, fe_state := EncodingDataPayload\<rparr>)"
proof -
  let ?h = "frame_header (min (fe_remaining_payload_bytes e) (fe_max_frame_size e)) 0
          (if fe_remaining_payload_bytes e \<le> fe_max_frame_size e then fr_flags f else fr_flags f AND 0xFE) (fr_id f)"
  have "iterate_data_header e f buf (min (fe_remaining_payload_bytes e) (fe_max_frame_size e)) 9 =
      Ok (take 9 (drop 0 ?h) @ drop 9 buf)"
    unfolding iterate_data_header_def
    by (rule fill_octets_from) (use assms in \<open>auto simp: nth_frame_header Let_def\<close>)
  then show ?thesis using assms
    by (simp add: encode_state_def encode_data_header_def try_retrieve_current_frame_def Let_def header_bytes_to_write_def)
qed

lemma data_payload_whole:
  assumes "fe_current_frame e = Some f" "fr_payload f = PL_Data data" "fe_state e = EncodingDataPayload"
    "fe_data_offset e = 0" "k = min (fe_max_frame_size e) (fe_remaining_payload_bytes e)" "k \<le> length buf" "k \<le> length data"
    "0 < fe_max_frame_size e"
  shows "encode_state e buf =
    Ok (k, take k data @ drop k buf,
        if fe_remaining_payload_bytes e = k then e\<lparr>fe_remaining_payload_bytes := 0, fe_state := DataComplete\<rparr>
        else e\<lparr>fe_remaining_payload_bytes := fe_remaining_payload_bytes e - k, fe_state := EncodingDataHeader\<rparr>)"
proof -
  have "encode_slice e buf data = Ok (k, take k data @ drop k buf)"
    using assms(4-7) by (simp add: encode_slice_def Let_def copy_front_def min_def)
  then show ?thesis using assms
    by (auto simp: encode_state_def encode_data_payload_def try_retrieve_current_frame_def Let_def min_def)
qed

text \<open>
  C38. DATA that needs two frames, written into one buffer that takes both: the second frame does not
  go on where the first one ended but carries the beginning of the data again.
\<close>

theorem long_data_repeats_beginning:
  assumes "fr_payload f = PL_Data data" "0 < fe_max_frame_size e"
    and "fe_max_frame_size e < length data" "length data \<le> 2 * fe_max_frame_size e" "18 + length data < length buf"
  defines "m \<equiv> fe_max_frame_size e" and "r \<equiv> length data - fe_max_frame_size e"
  shows "\<exists>e1 e2. FrameEncoder_set_frame e f = Ok e1 \<and> is_complete e2 \<and>
    write_frame e1 [buf] =
      Ok (frame_header m 0 (fr_flags f AND 0xFE) (fr_id f) @ take m data @
          frame_header r 0 (fr_flags f) (fr_id f) @ take r data, e2)"
proof -
  obtain e1 where s: "FrameEncoder_set_frame e f = Ok e1" and e1: "fe_current_frame e1 = Some f" "fe_encoded_bytes e1 = 0"
    "fe_max_frame_size e1 = m" "fe_state e1 = EncodingDataHeader" "fe_data_offset e1 = 0" "fe_remaining_payload_bytes e1 = length data"
    using set_frame_ok [of f e] assms(1) unfolding m_def by (metis Payload.distinct(1))
  have mr: "0 < m" "m < length data" "r \<le> m" "0 < r" "length data = m + r" using assms by (auto simp: m_def r_def)
  let ?h1 = "frame_header m 0 (fr_flags f AND 0xFE) (fr_id f)" and ?h2 = "frame_header r 0 (fr_flags f) (fr_id f)"
  let ?e2 = "e1\<lparr>fe_encoded_bytes := 0, fe_state := EncodingDataPayload\<rparr>"
  let ?e3 = "?e2\<lparr>fe_remaining_payload_bytes := r, fe_state := EncodingDataHeader\<rparr>"
  let ?e4 = "?e3\<lparr>fe_encoded_bytes := 0, fe_state := EncodingDataPayload\<rparr>"
  let ?e5 = "?e4\<lparr>fe_remaining_payload_bytes := 0, fe_state := DataComplete\<rparr>"
  have 1: "encode_loop e1 buf = obind (encode_loop ?e2 (drop 9 buf)) (\<lambda>(n, rest, e). Ok (9 + n, ?h1 @ rest, e))"
    using data_header_whole [OF e1(1) assms(1) e1(4,2), of buf] mr e1 assms(5)
    by (subst encode_step) (auto simp: is_complete_def min_def)
  have 2: "encode_loop ?e2 (drop 9 buf) = obind (encode_loop ?e3 (drop (m + 9) buf)) (\<lambda>(n, rest, e). Ok (m + n, take m data @ rest, e))"
    using data_payload_whole [of ?e2 f data m "drop 9 buf"] e1 assms(1,5) mr
    by (subst encode_step) (auto simp: is_complete_def min_def add.commute)
  have 3: "encode_loop ?e3 (drop (m + 9) buf) = obind (encode_loop ?e4 (drop (m + 18) buf)) (\<lambda>(n, rest, e). Ok (9 + n, ?h2 @ rest, e))"
    using data_header_whole [of ?e3 f data "drop (m + 9) buf"] e1 assms(1,5) mr
    by (subst encode_step) (auto simp: is_complete_def min_def add.commute)
  have 4: "encode_loop ?e4 (drop (m + 18) buf) = Ok (r, take r data @ drop (r + m + 18) buf, ?e5)"
    using data_payload_whole [of ?e4 f data r "drop (m + 18) buf"] e1 assms(1,5) mr
    by (subst encode_step) (auto simp: is_complete_def min_def encode_loop_complete add.assoc)
  have "write_frame e1 [buf] = Ok (?h1 @ take m data @ ?h2 @ take r data, ?e5)"
    unfolding write_frame.simps FrameEncoder_encode_def 1 2 3 4 using mr by simp
  with s show ?thesis by (auto simp: is_complete_def)
qed

theorem long_data_repeats_beginning_witness:
  "\<exists>e1 e2. FrameEncoder_set_frame (FrameEncoder_new 4 True) (Frame_new 1 1 (PL_Data [1, 2, 3, 4, 5, 6])) = Ok e1 \<and> is_complete e2 \<and>
    write_frame e1 [replicate 100 0] =
      Ok (frame_header 4 0 0 1 @ [1, 2, 3, 4] @ frame_header 2 0 1 1 @ [1, 2], e2)"
proof -
  let ?f = "Frame_new 1 1 (PL_Data [1, 2, 3, 4, 5, 6])" and ?e = "FrameEncoder_new 4 True"
  have "fr_payload ?f = PL_Data [1, 2, 3, 4, 5, 6]" "fe_max_frame_size ?e = 4" by (simp_all add: Frame_new_def FrameEncoder_new_def)
  with long_data_repeats_beginning [of ?f "[1, 2, 3, 4, 5, 6]" ?e "replicate 100 0"] show ?thesis
    by (simp add: Frame_new_def numeral_2_eq_2 del: write_frame.simps)
qed

text \<open>
  A SETTINGS or PING frame whose header does not fit into the first buffer: the loop writes to fixed
  positions of the second buffer, and panics if that is short.
\<close>

theorem split_control_header_panics:
  assumes "fr_payload f = PL_Settings ss \<or> fr_payload f = PL_Ping data"
    and "length b1 = 3" "b2 \<noteq> []" "length b2 \<le> 3"
  shows "\<exists>e1. FrameEncoder_set_frame e f = Ok e1 \<and> write_frame e1 [b1, b2] = Panic"
proof -
  obtain e1 where s: "FrameEncoder_set_frame e f = Ok e1" and e1: "fe_current_frame e1 = Some f" "fe_encoded_bytes e1 = 0"
    "fr_payload f = PL_Settings ss \<Longrightarrow> fe_state e1 = EncodingSettingsFrame"
    "fr_payload f = PL_Ping data \<Longrightarrow> fe_state e1 = EncodingPingFrame"
    using set_frame_ok [of f e] assms(1) by (metis Payload.distinct(7,9))
  obtain n where n: "length b2 = Suc n" using assms(3) by (cases b2) auto
  have full: "(header_bytes_to_write e1 b1) = 3" "header_bytes_to_write (e1\<lparr>fe_encoded_bytes := 3\<rparr>) b2 = Suc n"
    using assms(2,4) e1(2) n by (simp_all add: header_bytes_to_write_def)
  have "write_frame e1 [b1, b2] = Panic" if ss: "fr_payload f = PL_Settings ss"
  proof -
    have "iterate_settings_header e1 f b1 (length ss * 6) 3 = Ok (take 3 (frame_octets f) @ drop 3 b1)"
      unfolding iterate_settings_header_def
      by (rule for_range_writes)
        (use assms e1 ss in \<open>auto simp: nth_frame_octets Let_def length_settings_octets length_frame_octets\<close>)
    then have "encode_state e1 b1 = Ok (3, take 3 (frame_octets f) @ drop 3 b1, e1\<lparr>fe_encoded_bytes := 3\<rparr>)"
      using e1 ss full(1) by (simp add: encode_state_def encode_settings_frame_def try_retrieve_current_frame_def Let_def)
    moreover have "encode_state (e1\<lparr>fe_encoded_bytes := 3\<rparr>) b2 = Panic"
      using e1 ss full(2) assms(4) by (simp add: encode_state_def encode_settings_frame_def try_retrieve_current_frame_def Let_def
          iterate_settings_header_def set_at_def)
    ultimately show ?thesis using assms(2,3) e1(3) [OF ss]
      by (auto simp: FrameEncoder_encode_def encode_loop.simps is_complete_def)
  qed
  moreover have "write_frame e1 [b1, b2] = Panic" if d: "fr_payload f = PL_Ping data"
  proof -
    have "\<exists>b. iterate_ping_header e1 f b1 3 = Ok b \<and> length b = 3"
      using e1(2) assms(2) by (cases b1) (simp_all add: iterate_ping_header_def set_at_def numeral_3_eq_3 Let_def)
    then obtain b where "encode_state e1 b1 = Ok (3, b, e1\<lparr>fe_encoded_bytes := 3\<rparr>)"
      using e1 d full(1) by (auto simp: encode_state_def encode_ping_frame_def try_retrieve_current_frame_def Let_def)
    moreover have "encode_state (e1\<lparr>fe_encoded_bytes := 3\<rparr>) b2 = Panic"
      using e1 d full(2) assms(4) by (simp add: encode_state_def encode_ping_frame_def try_retrieve_current_frame_def Let_def
          iterate_ping_header_def set_at_def)
    ultimately show ?thesis using assms(2,3) e1(4) [OF d]
      by (auto simp: FrameEncoder_encode_def encode_loop.simps is_complete_def)
  qed
  ultimately show ?thesis using s assms(1) by blast
qed

theorem split_control_header_panics_witness:
  "\<exists>e1. FrameEncoder_set_frame (FrameEncoder_new 16384 True) (Frame_new 0 0 (PL_Ping [1, 2, 3, 4, 5, 6, 7, 8])) = Ok e1 \<and>
    write_frame e1 [[0, 0, 0], [0]] = Panic"
  by (rule split_control_header_panics [of _ "[]" "[1, 2, 3, 4, 5, 6, 7, 8]"]) (simp_all add: Frame_new_def)

text \<open>
  A WINDOW\_UPDATE frame whose payload is cut: the second buffer gets the increment from its
  first octet again, and the encoder does not notice that the frame is complete.
\<close>

theorem split_window_update_repeats:
  assumes "fr_payload f = PL_WindowUpdate increment" "9 < length b1" "length b1 < 13" "4 \<le> length b2"
  shows "\<exists>e1 e2. FrameEncoder_set_frame e f = Ok e1 \<and>
    write_frame e1 [b1, b2] = Ok (take (length b1) (frame_octets f) @ be32 increment, e2) \<and> \<not> is_complete e2"
proof -
  obtain e1 where s: "FrameEncoder_set_frame e f = Ok e1" and e1: "fe_current_frame e1 = Some f" "fe_encoded_bytes e1 = 0"
    "fe_state e1 = EncodingWindowUpdateFrame"
    using set_frame_ok [of f e] assms(1) by (metis Payload.distinct(13))
  let ?k = "length b1 - 9"
  let ?e2 = "e1\<lparr>fe_state := EncodingWindowUpdatePayload, fe_encoded_bytes := 0\<rparr>"
  let ?e3 = "?e2\<lparr>fe_encoded_bytes := ?k\<rparr>" and ?e4 = "?e2\<lparr>fe_encoded_bytes := ?k + 4\<rparr>"
  let ?item = "\<lambda>i. obind (usize_sub 24 (8 * i)) (\<lambda>k. Ok (shr_u32 increment k))"
  have fill: "fill_octets ?item 0 n b = (Ok (take n (drop 0 (be32 increment)) @ drop n b) :: (bytes, FrameEncoderErr) outcome)"
    if "n \<le> 4" "n \<le> length b" for n b
    by (rule fill_octets_from) (use that in \<open>auto simp: nth_be32\<close>)
  have k: "?k < 4" "0 < ?k" using assms(2,3) by auto
  have 1: "encode_state e1 b1 = Ok (9, take 9 (frame_octets f) @ drop 9 b1, ?e2)"
    using assms by (intro window_update_header_step [OF e1(1) assms(1) e1(3,2)]) simp
  have 2: "encode_state ?e2 (drop 9 b1) = Ok (?k, take ?k (be32 increment), ?e3)"
    using fill [of ?k "drop 9 b1"] k e1 assms(1)
    by (simp add: encode_state_def encode_window_update_payload_def try_retrieve_current_frame_def Let_def min_def)
  have 3: "encode_state ?e3 b2 = Ok (4, be32 increment @ drop 4 b2, ?e4)"
    using fill [of 4 b2] k e1 assms(1,4)
    by (simp add: encode_state_def encode_window_update_payload_def try_retrieve_current_frame_def Let_def min_def)
  have o': "take (length b1) (frame_octets f) = take 9 (frame_octets f) @ take ?k (be32 increment)"
    using assms(1,2) by (simp add: frame_octets_def)
  have l: "length (take 9 (frame_octets f)) = 9" by (simp add: length_frame_octets)
  have first: "FrameEncoder_encode e1 b1 = Ok (length b1, take (length b1) (frame_octets f), ?e3)"
    unfolding FrameEncoder_encode_def
    using 1 2 assms(2) e1(3) l k by (subst encode_step [OF 1]) (auto simp: is_complete_def encode_loop.simps [of ?e2] o')
  moreover have "FrameEncoder_encode ?e3 b2 = Ok (4, be32 increment @ drop 4 b2, ?e4)"
    using 3 assms(4) by (subst FrameEncoder_encode_def, subst encode_loop.simps) (auto simp: is_complete_def)
  ultimately have "write_frame e1 [b1, b2] = Ok (take (length b1) (frame_octets f) @ be32 increment, ?e4)" by simp
  moreover have "\<not> is_complete ?e4" by (simp add: is_complete_def)
  ultimately show ?thesis using s by blast
qed

theorem split_window_update_repeats_witness:
  "\<exists>e1 e2. FrameEncoder_set_frame (FrameEncoder_new 16384 True) (Frame_new 1 0 (PL_WindowUpdate 7)) = Ok e1 \<and>
    write_frame e1 [replicate 11 0, replicate 20 0] =
      Ok (take (length (replicate 11 (0 :: u8))) (frame_octets (Frame_new 1 0 (PL_WindowUpdate 7))) @ be32 7, e2) \<and> \<not> is_complete e2"
  by (rule split_window_update_repeats) (simp_all add: Frame_new_def)

end
