(* ===== verification/H2_Decoder_Properties.thy ===== *)
theory H2_Decoder_Properties
  imports H2_Frame_Roundtrip
begin

text \<open>
  What the frame decoder guarantees for every input: frames within bounds, a bounded buffer, the
  refusal of malformed frames. The last section has the inputs it treats wrongly.
\<close>

section \<open>Streams and sizes\<close>

text \<open>The decoded stream identifiers have 31 bits, and a payload is never longer than the maximum.\<close>

definition fd_bounded :: "FrameDecoder \<Rightarrow> bool" where
  "fd_bounded d \<longleftrightarrow> fd_ok d \<and> fh_stream_id (fd_header d) < 2 ^ 31 \<and>
     co_stream_id (fd_continuations d) < 2 ^ 31 \<and> co_promised_stream_id (fd_continuations d) < 2 ^ 31 \<and>
     (fd_stage d = Stage_Payload \<longrightarrow> fh_payload_length (fd_header d) \<le> unat (fd_max_frame_size d))"

fun payload_sane :: "StreamId \<Rightarrow> FrameFlags \<Rightarrow> Payload \<Rightarrow> bool" where
  "payload_sane i fl (PL_Data data) = (i \<noteq> 0)"
| "payload_sane i fl (PL_Headers p) = True"
| "payload_sane i fl (PL_PushPromise p) = (pp_promised_stream_id p \<noteq> 0 \<and> pp_promised_stream_id p < 2 ^ 31)"
| "payload_sane i fl p = payload_valid i fl p"

definition frame_sane :: "FrameKind \<Rightarrow> bool" where
  "frame_sane k = (case k of
     Partial \<Rightarrow> True
   | Complete f \<Rightarrow> fr_id f < 2 ^ 31 \<and> payload_sane (fr_id f) (fr_flags f) (fr_payload f))"

lemma of_be32_less: "of_be32 (a AND 0x7f) b c e < 2 ^ 31"
proof -
  have seven: "(0x7f :: u8) = mask 7" by (simp add: mask_eq_exp_minus_1)
  define w where "w = of_be32 (a AND 0x7f) b c e"
  have "\<not> bit w 31" by (auto simp: w_def of_be32_def seven bit_or_iff bit_push_bit_iff bit_and_iff bit_mask_iff unsigned_ucast_eq
        bit_unsigned_iff bit_imp_le_length dest: bit_imp_le_length)
  then have "take_bit 31 w = w"
    by (intro bit_word_eqI) (auto simp: bit_take_bit_iff less_Suc_eq numeral_eq_Suc)
  moreover have "take_bit 31 w < 2 ^ 31"
    using take_bit_nat_less_exp [of 31 "unat w"] by (simp add: word_less_nat_alt unsigned_take_bit_eq)
  ultimately show ?thesis by (simp add: w_def)
qed

lemma get_stream_id_less: "get_stream_id buf = Ok i \<Longrightarrow> i < 2 ^ 31"
  using of_be32_less by (cases buf rule: get_stream_id.cases) auto

lemma get_setting_valid: "get_setting i v = Ok (Some s) \<Longrightarrow> setting_valid s"
  by (auto simp: get_setting_def setting_valid_def split: if_splits)

lemma settings_loop_valid:
  "settings_loop buf acc = Ok ss \<Longrightarrow> \<forall>s \<in> set acc. setting_valid s \<Longrightarrow> \<forall>s \<in> set ss. setting_valid s"
proof (induction buf acc rule: settings_loop.induct)
  case (1 buf acc)
  show ?case
  proof (cases "buf = []")
    case False
    with 1(2) obtain s where s: "split_token_to_setting (take 6 buf) = Ok s"
      "settings_loop (drop 6 buf) (acc @ (case s of Some s \<Rightarrow> [s] | None \<Rightarrow> [])) = Ok ss"
      by (auto simp: settings_loop.simps [of buf] obind_eq_Ok)
    have "\<forall>x \<in> set (case s of Some s \<Rightarrow> [s] | None \<Rightarrow> []). setting_valid x"
      using s(1) get_setting_valid by (auto simp: split_token_to_setting_def obind_eq_Ok split: option.splits)
    with 1(1) [OF False s(2)] 1(3) show ?thesis by auto
  qed (use 1 in \<open>simp add: settings_loop.simps\<close>)
qed

lemma control_sane:
  assumes "payload_decoder t d buf = Ok (f, d')" "t \<noteq> 1" "t \<noteq> 5" "t \<noteq> 9" "fh_stream_id (fd_header d) < 2 ^ 31"
  shows "frame_sane f"
proof -
  obtain b d1 where a: "assemble d buf = (b, d1)" by fastforce
  from same_frame_assemble [OF a] have h: "fd_header d1 = fd_header d" by (simp add: same_frame_def)
  have ack: "FrameHeader_is_ack (fd_header d) = FrameFlags_is_ack (fh_flags (fd_header d))"
    by (simp add: FrameHeader_is_ack_def FrameFlags_is_ack_def and.commute)
  consider "t = 0" | "t = 2" | "t = 3" | "t = 4" | "t = 6" | "t = 7" | "t = 8"
    using assms(1-4) by (auto simp: payload_decoder_def split: if_splits)
  then show ?thesis
    by cases (use assms(1,5) settings_loop_valid [of b "[]"] get_stream_id_less in
      \<open>auto simp: payload_decoder_def payload_defs a h obind_eq_Ok Let_def frame_sane_def frame_of_def Frame_new_def
        is_connection_frame_def Priority_new_def Goaway_new_def ack split: if_splits\<close>)
qed

text \<open>The header compression is a part of its own.\<close>

lemma hpack_keeps:
  "hpack_decode d x = Ok d' \<Longrightarrow> fd_continuations d' = fd_continuations d \<and> fd_header d' = fd_header d"
  "hpack_finish d = Ok (p, d') \<Longrightarrow> fd_continuations d' = fd_continuations d \<and> fd_header d' = fd_header d"
  by (auto simp: hpack_decode_def hpack_finish_def obind_eq_Ok)

lemma assemble_keeps:
  "assemble d buf = (b, d') \<Longrightarrow> fd_continuations d' = fd_continuations d \<and> fd_header d' = fd_header d"
  by (auto simp: assemble_def split: if_splits)

definition ids_bounded :: "FrameDecoder \<Rightarrow> bool" where
  "ids_bounded d \<longleftrightarrow> fh_stream_id (fd_header d) < 2 ^ 31 \<and>
     co_stream_id (fd_continuations d) < 2 ^ 31 \<and> co_promised_stream_id (fd_continuations d) < 2 ^ 31"

lemma continuation_sane:
  assumes "decode_continuation_payload d buf = Ok (f, d')" "ids_bounded d"
  shows "frame_sane f \<and> ids_bounded d'"
proof -
  obtain b d1 where a: "assemble d buf = (b, d1)" by fastforce
  note k = assemble_keeps [OF a]
  from assms(1) obtain d2 where d2: "hpack_decode d1 b = Ok d2"
    "f = Partial \<and> d' = d2 \<or> (\<exists>p d3. hpack_finish d2 = Ok (p, d3) \<and> d' = d3\<lparr>fd_continuations := Continuations_reset (fd_continuations d3)\<rparr> \<and>
      f = Complete (if co_promised_stream_id (fd_continuations d3) \<noteq> 0
          then Frame_new (co_stream_id (fd_continuations d3)) (co_flags (fd_continuations d3))
            (PL_PushPromise (PushPromise_new (co_promised_stream_id (fd_continuations d3)) p))
          else Frame_new (co_stream_id (fd_continuations d3)) (co_flags (fd_continuations d3)) (PL_Headers p)))"
    by (auto simp: decode_continuation_payload_def a obind_eq_Ok Let_def split: if_splits)
  with assms(2) k hpack_keeps(1) [OF d2(1)] show ?thesis
    by (auto simp: frame_sane_def Frame_new_def PushPromise_new_def ids_bounded_def Continuations_reset_def
        dest!: hpack_keeps(2))
qed

lemma headers_sane:
  assumes "decode_headers_payload d buf = Ok (f, d')" "ids_bounded d"
  shows "frame_sane f \<and> ids_bounded d'"
proof -
  obtain b d1 where a: "assemble d buf = (b, d1)" by fastforce
  note k = assemble_keeps [OF a]
  have "f = Partial \<or> (\<exists>p. f = frame_of d' (PL_Headers p))"
    using assms(1) by (auto simp: decode_headers_payload_def a obind_eq_Ok Let_def split: if_splits)
  moreover have "fd_header d' = fd_header d \<and> ids_bounded d'"
    using assms(1) a
    by (rule decode_headers_payloadE)
      (use k assms(2) in \<open>auto simp: ids_bounded_def await_continuation_def dest!: hpack_keeps\<close>)
  ultimately show ?thesis by (auto simp: frame_sane_def frame_of_def Frame_new_def ids_bounded_def)
qed

lemma push_promise_sane:
  assumes "decode_push_promise_payload d buf = Ok (f, d')" "ids_bounded d"
  shows "frame_sane f \<and> ids_bounded d'"
proof -
  obtain b d1 where a: "assemble d buf = (b, d1)" by fastforce
  note k = assemble_keeps [OF a]
  from assms(1) obtain d2 token i e where d2: "hpack_decode d1 b = Ok d2" "get_stream_id token = (Ok i :: (StreamId, H2Error) outcome)" "i \<noteq> 0"
    "push_promise_framing d2 e i = Ok (f, d')"
    by (auto simp: decode_push_promise_payload_def a obind_eq_Ok is_connection_frame_def split: if_splits)
  from get_stream_id_less [OF d2(2)] d2(3,4) k hpack_keeps(1) [OF d2(1)] assms(2) show ?thesis
    by (auto simp: push_promise_framing_def obind_eq_Ok frame_sane_def frame_of_def Frame_new_def PushPromise_new_def
        ids_bounded_def dest!: hpack_keeps(2) split: if_splits)
qed

lemma payload_sane_step:
  assumes "payload_decoder t d buf = Ok (f, d')" "ids_bounded d"
  shows "frame_sane f \<and> ids_bounded d'"
proof (cases "t = 1 \<or> t = 5 \<or> t = 9")
  case True
  with assms headers_sane push_promise_sane continuation_sane show ?thesis
    by (auto simp: payload_decoder_def)
next
  case False
  then have "d' = snd (assemble d buf)" using control_payload [OF assms(1)] by simp
  with assemble_keeps [of d buf] assms(2) control_sane [OF assms(1)] False show ?thesis
    by (metis ids_bounded_def prod.collapse)
qed

lemma frame_step_sane:
  assumes "fd_bounded d" "frame_step d buf = Ok (r, d')"
  shows "fd_bounded d'" "fd_max_frame_size d' = fd_max_frame_size d"
    "r = Some (rest, fs) \<Longrightarrow> \<forall>f \<in> set fs. frame_sane f"
proof -
  from assms(1) have ok: "fd_ok d" "ids_bounded d" by (simp_all add: fd_bounded_def ids_bounded_def)
  have new: "fd_ok d'" by (rule frame_step_ok [OF ok(1) assms(2)])
  have "fd_bounded d' \<and> fd_max_frame_size d' = fd_max_frame_size d \<and> (\<forall>rest fs. r = Some (rest, fs) \<longrightarrow> (\<forall>f \<in> set fs. frame_sane f))"
  proof (cases "fd_stage d")
    case Stage_Header
    show ?thesis
      using assms(2) new ok(2) unfolding frame_step_def Stage_Header Stage.case decode_frame_header_eq [OF ok(1) Stage_Header] Let_def
      by (auto simp: fd_bounded_def ids_bounded_def Stage_Header parse_header_def of_be32_less [simplified] split: if_splits)
  next
    case Stage_Payload
    show ?thesis
    proof (cases r)
      case None
      with frame_step_none [OF ok(1) assms(2) [unfolded None]] assms(1) new show ?thesis
        by (simp add: fd_bounded_def)
    next
      case (Some q)
      with assms(2) Stage_Payload obtain d1 n f where d1: "payload_decoder (fh_frame_type (fd_header d)) d (take n buf) = Ok (f, d1)"
        "d' = (clear_buffer (d1\<lparr>fd_header := FrameHeader_reset (fd_header d1)\<rparr>))\<lparr>fd_stage := Stage_Header\<rparr>"
        "snd q = [f]"
        by (auto simp: frame_step_def decode_frame_payload_def obind_eq_Ok split: if_splits option.splits)
      from payload_sane_step [OF d1(1) ok(2)] same_frame_payload [OF d1(1)] new Some d1(2,3) show ?thesis
        by (auto simp: fd_bounded_def ids_bounded_def same_frame_def FrameHeader_reset_def)
    qed
  qed
  then show "fd_bounded d'" "fd_max_frame_size d' = fd_max_frame_size d"
    "r = Some (rest, fs) \<Longrightarrow> \<forall>f \<in> set fs. frame_sane f" by blast+
qed

lemma decode_loop_sane:
  "fd_bounded d \<Longrightarrow> decode_loop d buf frames = Ok (frames', d') \<Longrightarrow> \<forall>f \<in> set frames. frame_sane f \<Longrightarrow>
   fd_bounded d' \<and> fd_max_frame_size d' = fd_max_frame_size d \<and> (\<forall>f \<in> set frames'. frame_sane f)"
proof (induction d buf frames rule: decode_loop_induct)
  case (step d buf frames)
  from step.prems(2) obtain r d1 where r: "frame_step d buf = Ok (r, d1)"
    "(case r of None \<Rightarrow> Ok (frames, d1) | Some (rest, fs) \<Rightarrow> decode_loop d1 rest (frames @ fs)) = Ok (frames', d')"
    unfolding decode_loop_step [of d] obind_eq_Ok by auto
  note s = frame_step_sane [OF step.prems(1) r(1)]
  show ?case
  proof (cases r)
    case (Some q)
    obtain rest fs where q: "q = (rest, fs)" by fastforce
    from step.IH [OF r(1) [unfolded Some q] s(1)] s(2,3) r(2) step.prems(3) show ?thesis by (auto simp: Some q)
  qed (use r s step.prems in auto)
qed

section \<open>Properties for every input\<close>

text \<open>
  C10. However the input is cut, decoding it piece by piece gives the frames and the state that
  decoding it at once gives, errors and panics included. The only exception: a PRIORITY frame whose
  payload is cut is refused with a stream error.
\<close>

theorem frame_decode_segments:
  assumes "fd_idle d"
  shows "frames_agree (feed_frames (d, frames) (concat segments)) (feed_segments feed_frames (d, frames) segments)"
  using assms by (intro frame_dec.feed_segments_agrees) simp

theorem frame_decode_segments_witness:
  "frames_agree (feed_frames (FrameDecoder_new, []) [0, 0, 0, 4, 1, 0, 0, 0, 0])
     (feed_segments feed_frames (FrameDecoder_new, []) [[0, 0], [0, 4, 1, 0, 0, 0], [0]])"
  using frame_decode_segments [OF fd_idle_new, of "[]" "[[0, 0], [0, 4, 1, 0, 0, 0], [0]]"] by simp

text \<open>
  C22. What is decoded is within its bounds: stream identifiers, dependencies and window increments
  have 31 bits, increments are not zero, settings are valid, control frames are on stream 0 and the
  others are not, and the octets that the decoder keeps between two calls are less than a frame header
  or at most a payload of the maximum size.
\<close>

theorem frame_decode_bounds:
  assumes "fd_bounded d" "FrameDecoder_decode d buf = Ok (frames, d')"
  shows "(\<forall>f \<in> set frames. frame_sane f) \<and> fd_bounded d' \<and>
    length (fd_buffer d') \<le> max 8 (unat (fd_max_frame_size d'))"
proof -
  from decode_loop_sane [OF assms(1) assms(2) [unfolded FrameDecoder_decode_def]]
  have d': "fd_bounded d'" "\<forall>f \<in> set frames. frame_sane f" by auto
  then have "length (fd_buffer d') \<le> max 8 (unat (fd_max_frame_size d'))"
    by (cases "fd_stage d'") (auto simp: fd_bounded_def fd_ok_def)
  with d' show ?thesis by blast
qed

lemma fd_bounded_new: "fd_bounded FrameDecoder_new"
  using fd_ok_new by (simp add: fd_bounded_def FrameDecoder_new_def FrameHeader_new_def Continuations_new_def)

theorem frame_decode_bounds_witness:
  "\<exists>d'. FrameDecoder_decode FrameDecoder_new (frame_octets (Frame_new 3 0 (PL_WindowUpdate 7))) =
      Ok ([Complete (Frame_new 3 0 (PL_WindowUpdate 7))], d') \<and>
    frame_sane (Complete (Frame_new 3 0 (PL_WindowUpdate 7))) \<and> fd_bounded d'"
proof -
  let ?f = "Frame_new 3 0 (PL_WindowUpdate 7)"
  have "frame_valid (fd_max_frame_size FrameDecoder_new) ?f"
    by (simp add: frame_valid_def Frame_new_def FrameDecoder_new_def DEFAULT_MAX_FRAME_SIZE_def)
  from decode_frames_octets [OF fd_ready_new, of "[?f]" "[]"] this
  have "FrameDecoder_decode FrameDecoder_new (frame_octets ?f) = Ok ([Complete ?f], FrameDecoder_new)"
    by (auto simp: feed_frames_def obind_eq_Ok)
  with frame_decode_bounds [OF fd_bounded_new this] show ?thesis by auto
qed

text \<open>
  Why a frame of type \<open>t\<close> on stream \<open>i\<close> with a payload of \<open>n\<close> octets is refused, whatever its flags
  and its payload are.
\<close>

definition refusal :: "u8 \<Rightarrow> StreamId \<Rightarrow> nat \<Rightarrow> H2Error option" where
  "refusal t i n =
     (if t \<in> {0, 1, 2, 3, 5, 9} \<and> i = 0 \<or> t \<in> {4, 6, 7} \<and> i \<noteq> 0 \<or> t \<notin> {0, 1, 2, 3, 4, 5, 6, 7, 8, 9}
      then Some (ConnectionError ProtocolError)
      else if t = 2 \<and> n \<noteq> 5 then Some (StreamError i FrameSizeError)
      else if t = 3 \<and> n \<noteq> 4 \<or> t = 4 \<and> n mod 6 \<noteq> 0 \<or> t = 6 \<and> n \<noteq> 8 \<or> t = 7 \<and> n < 8 \<or> t = 8 \<and> n \<noteq> 4
      then Some (ConnectionError FrameSizeError)
      else None)"

lemma refusal_payload:
  assumes "fd_offset d = 0" "fd_header d = \<lparr>fh_stream_id = i, fh_flags = fl, fh_frame_type = t, fh_payload_length = length p\<rparr>"
    "refusal t i (length p) = Some e"
  shows "payload_decoder t d p = Err e"
proof (cases "t \<in> {0, 1, 2, 3, 4, 5, 6, 7, 8, 9}")
  case False
  with assms(3) show ?thesis by (simp add: refusal_def payload_decoder_def)
next
  case True
  note defs = payload_decoder_def payload_defs assemble_def is_connection_frame_def
  from True assms show ?thesis
    by (elim insertE emptyE) (auto simp: refusal_def defs split: if_splits)
qed

lemma decode_loop_error: "frame_step d buf = Err e \<Longrightarrow> decode_loop d buf frames = Err e"
  by (simp add: decode_loop_step [of d])

lemma decode_loop_more:
  "frame_step d buf = Ok (Some (rest, fs), d') \<Longrightarrow> decode_loop d buf frames = decode_loop d' rest (frames @ fs)"
  by (simp add: decode_loop_step [of d])

text \<open>
  C23. Malformed frames are refused before their payload is looked at: a frame that is longer than the
  maximum with a connection error of the kind frame size error, a frame of the wrong stream, type or
  length with the error that \<open>refusal\<close> has for it.
\<close>

theorem frame_decode_refuses:
  assumes "fd_ready d" "length p < 2 ^ 24" "i < 2 ^ 31"
  shows "(unat (fd_max_frame_size d) < length p \<longrightarrow>
      FrameDecoder_decode d (frame_header (length p) t fl i @ p @ rest) = Err (ConnectionError FrameSizeError)) \<and>
    (\<forall>e. length p \<le> unat (fd_max_frame_size d) \<longrightarrow> refusal t i (length p) = Some e \<longrightarrow>
      FrameDecoder_decode d (frame_header (length p) t fl i @ p @ rest) = Err e)"
proof (intro conjI impI allI)
  have r: "fd_ok d" "fd_stage d = Stage_Header" "fd_buffer d = []" "fd_offset d = 0" "co_is_end_headers (fd_continuations d)"
    using assms(1) fd_ready_ok by (auto simp: fd_ready_def)
  show "FrameDecoder_decode d (frame_header (length p) t fl i @ p @ rest) = Err (ConnectionError FrameSizeError)"
    if "unat (fd_max_frame_size d) < length p"
    unfolding FrameDecoder_decode_def
    by (rule decode_loop_error)
      (use that decode_frame_header_eq [OF r(1,2)] parse_frame_header [OF assms(2), of t fl i "p @ rest"] r in
        \<open>simp add: frame_step_def Let_def\<close>)
  fix e assume le: "length p \<le> unat (fd_max_frame_size d)" and e: "refusal t i (length p) = Some e"
  let ?d = "d\<lparr>fd_header := \<lparr>fh_stream_id = i, fh_flags = fl, fh_frame_type = t, fh_payload_length = length p\<rparr>,
      fd_stage := Stage_Payload\<rparr>"
  have "payload_decoder t ?d p = Err e" by (rule refusal_payload [OF _ _ e]) (use r in simp_all)
  then have "frame_step ?d (p @ rest) = Err e" using payload_turn [of ?d p rest] r by simp
  with header_turn [OF r(1-3) assms(2) le, of t fl i rest] take_bit_31 [OF assms(3)]
  show "FrameDecoder_decode d (frame_header (length p) t fl i @ p @ rest) = Err e"
    by (simp add: FrameDecoder_decode_def decode_loop_more decode_loop_error)
qed

theorem frame_decode_refuses_witness:
  "FrameDecoder_decode FrameDecoder_new (frame_header (length [1 :: u8, 2, 3, 4]) 6 0 0 @ [1, 2, 3, 4] @ [5]) = Err (ConnectionError FrameSizeError)"
  using frame_decode_refuses [OF fd_ready_new, of "[1, 2, 3, 4]" 0 6 0 "[5]"]
  by (simp add: refusal_def FrameDecoder_new_def DEFAULT_MAX_FRAME_SIZE_def)

text \<open>
  A padded DATA frame: the length of the padding and the padding are removed.
\<close>

theorem padded_data_decoded:
  assumes "fd_ready d" "i \<noteq> 0" "i < 2 ^ 31" "FrameFlags_is_padded fl" "length padding < 256"
    and "Suc (length data + length padding) < 2 ^ 24" "Suc (length data + length padding) \<le> unat (fd_max_frame_size d)"
  shows "FrameDecoder_decode d (frame_header (Suc (length data + length padding)) 0 fl i @
      [of_nat (length padding)] @ data @ padding) = Ok ([Complete (Frame_new i fl (PL_Data data))], d)"
proof -
  let ?p = "of_nat (length padding) # data @ padding"
  let ?d = "d\<lparr>fd_header := \<lparr>fh_stream_id = i, fh_flags = fl, fh_frame_type = 0, fh_payload_length = length ?p\<rparr>,
      fd_stage := Stage_Payload\<rparr>"
  have r: "fd_ok d" "fd_stage d = Stage_Header" "fd_buffer d = []" "fd_offset d = 0" "co_is_end_headers (fd_continuations d)"
      "fd_header d = FrameHeader_new"
    using assms(1) fd_ready_ok by (auto simp: fd_ready_def)
  have "FrameHeader_is_padded (fd_header ?d)"
    using assms(4) by (simp add: FrameHeader_is_padded_def FrameFlags_is_padded_def and.commute)
  moreover have "unat (of_nat (length padding) :: u8) = length padding" by (rule unat_of_nat_octet [OF assms(5)])
  ultimately have "payload_decoder 0 ?d ?p = Ok (Complete (Frame_new i fl (PL_Data data)), ?d)"
    using assms(2) r by (simp add: payload_decoder_def decode_data_payload_def assemble_def is_connection_frame_def
        frame_of_def Let_def)
  then have "frame_step ?d (?p @ []) = Ok (Some ([], [Complete (Frame_new i fl (PL_Data data))]), d)"
    using r by (subst payload_turn) (simp_all add: FrameHeader_reset_eq clear_buffer_def)
  with header_turn [OF r(1-3), of ?p 0 fl i "[]"] assms(6,7) take_bit_31 [OF assms(3)] fd_ready_idle [OF assms(1)]
  show ?thesis
    by (simp add: FrameDecoder_decode_def decode_loop_more fd_idle_def decode_loop_step [of d "[]"])
qed

theorem padded_data_decoded_witness:
  "FrameDecoder_decode FrameDecoder_new (frame_header (length [2 :: u8, 10, 20, 0, 0]) 0 8 1 @ [2] @ [10, 20] @ [0, 0]) =
     Ok ([Complete (Frame_new 1 8 (PL_Data [10, 20]))], FrameDecoder_new)"
  using padded_data_decoded [OF fd_ready_new, of 1 8 "[0, 0]" "[10, 20]"]
  by (simp add: FrameFlags_is_padded_def mask_defs FrameDecoder_new_def DEFAULT_MAX_FRAME_SIZE_def)

section \<open>Header blocks in several frames\<close>

text \<open>A decoder that has read a part of a header block of stream \<open>i\<close>, begun with flags \<open>fl\<close>.\<close>

definition in_block :: "StreamId \<Rightarrow> u8 \<Rightarrow> FrameDecoder \<Rightarrow> bool" where
  "in_block i fl d \<longleftrightarrow> fd_ok d \<and> fd_stage d = Stage_Header \<and> fd_buffer d = [] \<and> fd_header d = FrameHeader_new \<and>
     i \<noteq> 0 \<and> i < 2 ^ 31 \<and> \<not> co_is_end_headers (fd_continuations d) \<and> co_stream_id (fd_continuations d) = i \<and>
     co_flags (fd_continuations d) = fl \<and> co_promised_stream_id (fd_continuations d) = 0"

definition fragment_fits :: "FrameDecoder \<Rightarrow> bytes \<Rightarrow> bool" where
  "fragment_fits d b \<longleftrightarrow> length b < 2 ^ 24 \<and> length b \<le> unat (fd_max_frame_size d)"

lemma in_block_header_turn:
  assumes "in_block i fl d" "fragment_fits d b"
  shows "frame_step d (frame_header (length b) t fl' j @ b @ rest) =
    Ok (Some (b @ rest, []), d\<lparr>fd_header := \<lparr>fh_stream_id = take_bit 31 j, fh_flags = fl', fh_frame_type = t,
      fh_payload_length = length b\<rparr>, fd_stage := Stage_Payload\<rparr>)"
  using assms by (intro header_turn) (auto simp: in_block_def fragment_fits_def)

lemma continuation_turns:
  assumes "in_block i fl d" "fragment_fits d b" "HpackDecoder_decode (fd_hpack d) b = Ok h"
  shows "decode_loop d (frame_header (length b) 9 0 i @ b @ rest) frames = decode_loop (d\<lparr>fd_hpack := h\<rparr>) rest (frames @ [Partial])"
    "in_block i fl (d\<lparr>fd_hpack := h\<rparr>)"
proof -
  let ?d = "d\<lparr>fd_header := \<lparr>fh_stream_id = i, fh_flags = 0, fh_frame_type = 9, fh_payload_length = length b\<rparr>,
      fd_stage := Stage_Payload\<rparr>"
  from assms(1) have d: "fd_ok d" "fd_offset d = 0" "i \<noteq> 0" "take_bit 31 i = i" "co_stream_id (fd_continuations d) = i"
      "fd_buffer d = []" "fd_stage d = Stage_Header" "fd_header d = FrameHeader_new"
    using take_bit_31 by (auto simp: in_block_def fd_ok_def)
  have "payload_decoder 9 ?d b = Ok (Partial, ?d\<lparr>fd_hpack := h\<rparr>)"
    using d assms(3) by (simp add: payload_decoder_def decode_continuation_payload_def assemble_def is_connection_frame_def
        FrameHeader_is_end_headers_def hpack_decode_def mask_defs)
  then have "frame_step ?d (b @ rest) = Ok (Some (rest, [Partial]), d\<lparr>fd_hpack := h\<rparr>)"
    using d by (subst payload_turn) (simp_all add: FrameHeader_reset_eq clear_buffer_def)
  with in_block_header_turn [OF assms(1,2), of 9 0 i rest] d(4)
  show "decode_loop d (frame_header (length b) 9 0 i @ b @ rest) frames = decode_loop (d\<lparr>fd_hpack := h\<rparr>) rest (frames @ [Partial])"
    by (simp add: decode_loop_more)
  have "HpackDecoder_ok h" using hpack_dec.feed_invar [OF _ assms(3)] d(1) by (simp add: fd_ok_def)
  with assms(1) show "in_block i fl (d\<lparr>fd_hpack := h\<rparr>)" by (simp add: in_block_def fd_ok_def)
qed

lemma last_continuation_turns:
  assumes "in_block i fl d" "fragment_fits d b" "HpackDecoder_decode (fd_hpack d) b = Ok h" "HpackDecoder_finish h = Ok (p, h')"
  shows "decode_loop d (frame_header (length b) 9 4 i @ b @ rest) frames =
    decode_loop (d\<lparr>fd_hpack := h', fd_continuations := Continuations_new\<rparr>) rest
      (frames @ [Complete (Frame_new i fl (PL_Headers p))])"
proof -
  let ?d = "d\<lparr>fd_header := \<lparr>fh_stream_id = i, fh_flags = 4, fh_frame_type = 9, fh_payload_length = length b\<rparr>,
      fd_stage := Stage_Payload\<rparr>"
  let ?d' = "d\<lparr>fd_hpack := h', fd_continuations := Continuations_new\<rparr>"
  from assms(1) have d: "fd_offset d = 0" "i \<noteq> 0" "take_bit 31 i = i" "co_stream_id (fd_continuations d) = i"
      "co_flags (fd_continuations d) = fl" "co_promised_stream_id (fd_continuations d) = 0"
      "fd_buffer d = []" "fd_stage d = Stage_Header" "fd_header d = FrameHeader_new"
    using take_bit_31 by (auto simp: in_block_def fd_ok_def)
  have reset: "Continuations_reset c = Continuations_new" for c
    by (simp add: Continuations_reset_def Continuations_new_def)
  have "payload_decoder 9 ?d b = Ok (Complete (Frame_new i fl (PL_Headers p)),
      ?d\<lparr>fd_hpack := h', fd_continuations := Continuations_new\<rparr>)"
    using d assms(3,4) by (simp add: payload_decoder_def decode_continuation_payload_def assemble_def is_connection_frame_def
        FrameHeader_is_end_headers_def hpack_decode_def hpack_finish_def mask_defs reset Let_def)
  then have "frame_step ?d (b @ rest) = Ok (Some (rest, [Complete (Frame_new i fl (PL_Headers p))]), ?d')"
    using d by (subst payload_turn) (simp_all add: FrameHeader_reset_eq clear_buffer_def)
  with in_block_header_turn [OF assms(1,2), of 9 4 i rest] d(3) show ?thesis
    by (simp add: decode_loop_more)
qed

text \<open>The frames of a header block: CONTINUATION frames, the last of them with END\_HEADERS.\<close>

fun continuations :: "StreamId \<Rightarrow> bytes list \<Rightarrow> bytes" where
  "continuations i [] = []"
| "continuations i [b] = frame_header (length b) 9 4 i @ b"
| "continuations i (b # b' # bs) = frame_header (length b) 9 0 i @ b @ continuations i (b' # bs)"

lemma decode_continuations:
  assumes "in_block i fl d" "bs \<noteq> []" "\<And>b. b \<in> set bs \<Longrightarrow> fragment_fits d b"
    "HpackDecoder_decode (fd_hpack d) (concat bs) = Ok h" "HpackDecoder_finish h = Ok (p, h')"
  shows "decode_loop d (continuations i bs) frames =
    decode_loop (d\<lparr>fd_hpack := h', fd_continuations := Continuations_new\<rparr>) []
      (frames @ replicate (length bs - 1) Partial @ [Complete (Frame_new i fl (PL_Headers p))])"
  using assms
proof (induction bs arbitrary: d frames rule: continuations.induct [of _ i])
  case (2 i b)
  then show ?case using last_continuation_turns [of i fl d b h p h' "[]" frames] by simp
next
  case (3 i b b' bs)
  from 3(2) have "HpackDecoder_ok (fd_hpack d)" by (simp add: in_block_def fd_ok_def)
  from hpack_dec.feed_append [OF this, of b "concat (b' # bs)"] 3(5) obtain h1 where
    h1: "HpackDecoder_decode (fd_hpack d) b = Ok h1" "HpackDecoder_decode h1 (concat (b' # bs)) = Ok h"
    by (auto simp: obind_eq_Ok)
  note turns = continuation_turns [OF 3(2) 3(4) [of b] h1(1)]
  have "fragment_fits (d\<lparr>fd_hpack := h1\<rparr>) x" if "x \<in> set (b' # bs)" for x
    using 3(4) [of x] that by (auto simp: fragment_fits_def)
  from 3(1) [OF turns(2) _ this, of "frames @ [Partial]"] h1(2) 3(6) turns(1) show ?case
    by simp
qed simp

lemma headers_begin_block:
  assumes "fd_ready d" "fd_continuations d = Continuations_new" "i \<noteq> 0" "i < 2 ^ 31" "fragment_fits d b"
    and "\<not> FrameFlags_is_end_headers fl" "\<not> FrameFlags_is_padded fl" "\<not> fl AND HEADERS_PRIORITY_MASK = HEADERS_PRIORITY_MASK"
    and "HpackDecoder_decode (fd_hpack d) b = Ok h"
  obtains d' where "decode_loop d (frame_header (length b) 1 fl i @ b @ rest) frames = decode_loop d' rest (frames @ [Partial])"
    "in_block i fl d'" "d'\<lparr>fd_continuations := Continuations_new\<rparr> = d\<lparr>fd_hpack := h\<rparr>"
proof -
  define hd where "hd = \<lparr>fh_stream_id = i, fh_flags = fl, fh_frame_type = 1, fh_payload_length = length b\<rparr>"
  let ?d = "d\<lparr>fd_header := hd, fd_stage := Stage_Payload\<rparr>"
  define d' where "d' = d\<lparr>fd_hpack := h, fd_continuations := Continuations_new\<lparr>co_flags := fl,
    co_is_end_stream := FrameHeader_is_end_stream hd, co_is_end_headers := False, co_stream_id := i\<rparr>\<rparr>"
  have r: "fd_ok d" "fd_stage d = Stage_Header" "fd_buffer d = []" "fd_offset d = 0" "co_is_end_headers (fd_continuations d)"
      "fd_header d = FrameHeader_new"
    using assms(1) fd_ready_ok by (auto simp: fd_ready_def)
  have flags: "\<not> FrameHeader_is_end_headers hd" "\<not> FrameHeader_is_padded hd" "\<not> FrameHeader_is_headers_priority hd"
    using assms(6-8) by (simp_all add: hd_def FrameHeader_is_end_headers_def FrameHeader_is_padded_def
        FrameHeader_is_headers_priority_def FrameFlags_is_end_headers_def FrameFlags_is_padded_def and.commute)
  have "payload_decoder 1 ?d b = Ok (Partial, d'\<lparr>fd_header := hd, fd_stage := Stage_Payload\<rparr>)"
    using assms(2,3,9) flags r
    by (simp add: payload_decoder_def decode_headers_payload_def assemble_def is_connection_frame_def fragment_bounds_def
        hpack_decode_def hd_def d'_def Let_def)
  then have "frame_step ?d (b @ rest) = Ok (Some (rest, [Partial]), d')"
    using r by (subst payload_turn) (simp_all add: FrameHeader_reset_eq clear_buffer_def hd_def d'_def)
  with header_turn [OF r(1-3), of b 1 fl i rest] assms(5) take_bit_31 [OF assms(4)]
  have "decode_loop d (frame_header (length b) 1 fl i @ b @ rest) frames = decode_loop d' rest (frames @ [Partial])"
    by (simp add: decode_loop_more fragment_fits_def hd_def)
  moreover have "HpackDecoder_ok h" using hpack_dec.feed_invar [OF _ assms(9)] r(1) by (simp add: fd_ok_def)
  then have "in_block i fl d'" using r assms(3,4) by (simp add: in_block_def fd_ok_def d'_def Continuations_new_def)
  moreover have "d'\<lparr>fd_continuations := Continuations_new\<rparr> = d\<lparr>fd_hpack := h\<rparr>"
    using assms(2) by (simp add: d'_def)
  ultimately show ?thesis by (rule that)
qed

text \<open>
  C9. A header block that is spread over a HEADERS frame and CONTINUATION frames, cut anywhere, gives
  the frame that the whole block stands for, with the flags of the HEADERS frame.
\<close>

theorem header_block_fragments:
  assumes "fd_ready d" "fd_continuations d = Continuations_new" "i \<noteq> 0" "i < 2 ^ 31" "bs \<noteq> []"
    and "\<forall>b \<in> set (b0 # bs). length b < 2 ^ 24 \<and> length b \<le> unat (fd_max_frame_size d)"
    and "\<not> FrameFlags_is_end_headers fl" "\<not> FrameFlags_is_padded fl" "\<not> fl AND HEADERS_PRIORITY_MASK = HEADERS_PRIORITY_MASK"
    and "HpackDecoder_decode (fd_hpack d) (concat (b0 # bs)) = Ok h" "HpackDecoder_finish h = Ok (p, h')"
  shows "FrameDecoder_decode d (frame_header (length b0) 1 fl i @ b0 @ continuations i bs) =
    Ok (replicate (length bs) Partial @ [Complete (Frame_new i fl (PL_Headers p))], d\<lparr>fd_hpack := h'\<rparr>)"
proof -
  have ok: "HpackDecoder_ok (fd_hpack d)" using assms(1) by (simp add: fd_ready_def)
  from hpack_dec.feed_append [OF ok, of b0 "concat bs"] assms(10) obtain h1 where
    h1: "HpackDecoder_decode (fd_hpack d) b0 = Ok h1" "HpackDecoder_decode h1 (concat bs) = Ok h"
    by (auto simp: obind_eq_Ok)
  have "fragment_fits d b0" using assms(6) by (simp add: fragment_fits_def)
  from headers_begin_block [OF assms(1-4) this assms(7-9) h1(1), of "continuations i bs" "[]"] obtain d' where
    d': "decode_loop d (frame_header (length b0) 1 fl i @ b0 @ continuations i bs) [] = decode_loop d' (continuations i bs) [Partial]"
      "in_block i fl d'" "d'\<lparr>fd_continuations := Continuations_new\<rparr> = d\<lparr>fd_hpack := h1\<rparr>" by auto
  from d'(3) have eq: "fd_hpack d' = h1" "fd_max_frame_size d' = fd_max_frame_size d"
    by (metis FrameDecoder.select_convs(6) FrameDecoder.surjective FrameDecoder.update_convs(6,7),
        metis FrameDecoder.select_convs(3) FrameDecoder.surjective FrameDecoder.update_convs(6,7))
  have "d'\<lparr>fd_hpack := h', fd_continuations := Continuations_new\<rparr> = d\<lparr>fd_hpack := h'\<rparr>"
    using arg_cong [OF d'(3), of "\<lambda>x. x\<lparr>fd_hpack := h'\<rparr>"] by (cases d') simp
  moreover have "fd_ready (d\<lparr>fd_hpack := h'\<rparr>)"
    using assms(1) HpackDecoder_finish_ok [OF hpack_dec.feed_invar [OF ok assms(10)] assms(11)] by (simp add: fd_ready_def)
  from fd_ready_idle [OF this] have "decode_loop (d\<lparr>fd_hpack := h'\<rparr>) [] frames = Ok (frames, d\<lparr>fd_hpack := h'\<rparr>)" for frames
    by (simp add: decode_loop_step fd_idle_def)
  moreover have "Partial # replicate (length bs - 1) Partial = replicate (length bs) Partial"
    using assms(5) by (cases bs) simp_all
  ultimately show ?thesis
    using decode_continuations [OF d'(2) assms(5), of h p h' "[Partial]"] assms(6,11) h1(2) d'(1) eq
    by (simp add: FrameDecoder_decode_def fragment_fits_def)
qed

theorem header_block_fragments_witness:
  "\<exists>block p d'. FrameDecoder_decode FrameDecoder_new
      (frame_header (length (take 2 block)) 1 0 1 @ take 2 block @ continuations 1 [[], drop 2 block]) =
        Ok ([Partial, Partial, Complete (Frame_new 1 0 (PL_Headers p))], d') \<and>
    ph_method (parts_pseudo p) = Some ''GET''"
proof -
  define block where "block = first_block False (example_parts ''x'' ''b'')"
  from example_block obtain h p h' where h: "length block \<le> 64" "HpackDecoder_decode (fd_hpack FrameDecoder_new) block = Ok h"
    "HpackDecoder_finish h = Ok (p, h')" "ph_method (parts_pseudo p) = Some ''GET''"
    by (auto simp: block_def FrameDecoder_new_def)
  have "FrameDecoder_decode FrameDecoder_new
      (frame_header (length (take 2 block)) 1 0 1 @ take 2 block @ continuations 1 [[], drop 2 block]) =
      Ok (replicate (length [[], drop 2 block]) Partial @ [Complete (Frame_new 1 0 (PL_Headers p))], FrameDecoder_new\<lparr>fd_hpack := h'\<rparr>)"
    by (rule header_block_fragments [OF fd_ready_new _ _ _ _ _ _ _ _ _ h(3)])
      (use h(1,2) in \<open>auto simp: FrameDecoder_new_def DEFAULT_MAX_FRAME_SIZE_def FrameFlags_is_end_headers_def
        FrameFlags_is_padded_def mask_defs\<close>)
  with h(4) show ?thesis by (intro exI [of _ block] exI [of _ p] exI [of _ "FrameDecoder_new\<lparr>fd_hpack := h'\<rparr>"]) simp
qed

text \<open>
  C24. No other frame may come between the frames of a header block: a frame of another type or of
  another stream is refused.
\<close>

theorem interrupted_block_refused:
  assumes "in_block i fl d" "length b < 2 ^ 24" "length b \<le> unat (fd_max_frame_size d)" "t \<noteq> 9 \<or> take_bit 31 j \<noteq> i"
  shows "FrameDecoder_decode d (frame_header (length b) t fl' j @ b @ rest) = Err (ConnectionError ProtocolError)"
proof -
  let ?d = "d\<lparr>fd_header := \<lparr>fh_stream_id = take_bit 31 j, fh_flags = fl', fh_frame_type = t,
      fh_payload_length = length b\<rparr>, fd_stage := Stage_Payload\<rparr>"
  have "frame_step ?d (b @ rest) = Err (ConnectionError ProtocolError)"
    using assms(1,4) by (auto simp: frame_step_def decode_frame_payload_def in_block_def)
  then show ?thesis
    using in_block_header_turn [OF assms(1), of b t fl' j rest] assms(2,3)
    by (simp add: FrameDecoder_decode_def decode_loop_more decode_loop_error fragment_fits_def)
qed

definition example_in_block :: FrameDecoder where
  "example_in_block = FrameDecoder_new\<lparr>fd_continuations := Continuations_new\<lparr>co_is_end_headers := False, co_stream_id := 1\<rparr>\<rparr>"

theorem interrupted_block_refused_witness:
  "FrameDecoder_decode example_in_block (frame_header (length [0 :: u8]) 0 0 1 @ [0] @ []) = Err (ConnectionError ProtocolError)"
proof (rule interrupted_block_refused)
  show "in_block 1 0 example_in_block"
    using fd_ok_new by (simp add: in_block_def example_in_block_def fd_ok_def FrameDecoder_new_def Continuations_new_def)
qed (simp_all add: example_in_block_def FrameDecoder_new_def DEFAULT_MAX_FRAME_SIZE_def)

section \<open>Inputs that are treated wrongly\<close>

text \<open>
  A HEADERS or PUSH\_PROMISE frame with the PADDED flag and an empty payload makes the decoder
  panic: the length of the padding is read without a check that it is there.
\<close>

theorem padded_empty_frame_panics:
  assumes "fd_ready d" "t = 1 \<or> t = 5" "i \<noteq> 0" "i < 2 ^ 31" "FrameFlags_is_padded fl"
  shows "FrameDecoder_decode d (frame_header 0 t fl i @ rest) = Panic"
proof -
  let ?d = "d\<lparr>fd_header := \<lparr>fh_stream_id = i, fh_flags = fl, fh_frame_type = t, fh_payload_length = 0\<rparr>,
      fd_stage := Stage_Payload\<rparr>"
  have r: "fd_ok d" "fd_stage d = Stage_Header" "fd_buffer d = []" "fd_offset d = 0" "co_is_end_headers (fd_continuations d)"
    using assms(1) fd_ready_ok by (auto simp: fd_ready_def)
  have "FrameHeader_is_padded (fd_header ?d)"
    using assms(5) by (simp add: FrameHeader_is_padded_def FrameFlags_is_padded_def and.commute)
  then have "payload_decoder t ?d [] = Panic"
    using assms(2,3) r by (auto simp: payload_decoder_def decode_headers_payload_def decode_push_promise_payload_def assemble_def
        is_connection_frame_def fragment_bounds_def index_at_def)
  then have "frame_step ?d ([] @ rest) = Panic" using r by (subst payload_turn) simp_all
  with header_turn [OF r(1-3), of "[]" t fl i rest] take_bit_31 [OF assms(4)] show ?thesis
    by (simp add: FrameDecoder_decode_def decode_loop_more) (simp add: decode_loop_step [of ?d])
qed

theorem padded_empty_frame_panics_witness: "FrameDecoder_decode FrameDecoder_new (frame_header 0 1 8 1 @ []) = Panic"
  by (rule padded_empty_frame_panics [OF fd_ready_new]) (simp_all add: FrameFlags_is_padded_def mask_defs)

text \<open>
  A CONTINUATION frame that continues nothing is not refused: the decoder reports a HEADERS frame
  without flags on stream 0.
\<close>

theorem stray_continuation_accepted:
  assumes "fd_ready d" "fd_continuations d = Continuations_new" "i \<noteq> 0" "i < 2 ^ 31" "length b < 2 ^ 24"
    and "length b \<le> unat (fd_max_frame_size d)"
    and "HpackDecoder_decode (fd_hpack d) b = Ok h" "HpackDecoder_finish h = Ok (p, h')"
  shows "FrameDecoder_decode d (frame_header (length b) 9 4 i @ b) = Ok ([Complete (Frame_new 0 0 (PL_Headers p))], d\<lparr>fd_hpack := h'\<rparr>)"
proof -
  let ?d = "d\<lparr>fd_header := \<lparr>fh_stream_id = i, fh_flags = 4, fh_frame_type = 9, fh_payload_length = length b\<rparr>,
      fd_stage := Stage_Payload\<rparr>"
  have r: "fd_ok d" "fd_stage d = Stage_Header" "fd_buffer d = []" "fd_offset d = 0" "co_is_end_headers (fd_continuations d)"
      "fd_header d = FrameHeader_new"
    using assms(1) fd_ready_ok by (auto simp: fd_ready_def)
  have "payload_decoder 9 ?d b = Ok (Complete (Frame_new 0 0 (PL_Headers p)), ?d\<lparr>fd_hpack := h'\<rparr>)"
    using assms(2,3,7,8) r
    by (simp add: payload_decoder_def decode_continuation_payload_def assemble_def is_connection_frame_def
        FrameHeader_is_end_headers_def hpack_decode_def hpack_finish_def mask_defs Continuations_reset_def Continuations_new_def Let_def)
  then have "frame_step ?d (b @ []) = Ok (Some ([], [Complete (Frame_new 0 0 (PL_Headers p))]), d\<lparr>fd_hpack := h'\<rparr>)"
    using r by (subst payload_turn) (simp_all add: FrameHeader_reset_eq clear_buffer_def)
  moreover have "fd_idle (d\<lparr>fd_hpack := h'\<rparr>)"
    using HpackDecoder_finish_ok [OF hpack_dec.feed_invar [OF _ assms(7)] assms(8)] assms(1)
    by (intro fd_ready_idle) (simp add: fd_ready_def)
  ultimately show ?thesis
    using header_turn [OF r(1-3) assms(5,6), of 9 4 i "[]"] take_bit_31 [OF assms(4)]
    by (simp add: FrameDecoder_decode_def decode_loop_more fd_idle_def decode_loop_step [of _ "[]"])
qed

theorem stray_continuation_accepted_witness:
  "\<exists>b p d'. FrameDecoder_decode FrameDecoder_new (frame_header (length b) 9 4 1 @ b) =
    Ok ([Complete (Frame_new 0 0 (PL_Headers p))], d') \<and> ph_method (parts_pseudo p) = Some ''GET''"
proof -
  define block where "block = first_block False (example_parts ''x'' ''b'')"
  from example_block obtain h p h' where h: "length block \<le> 64" "HpackDecoder_decode (fd_hpack FrameDecoder_new) block = Ok h"
    "HpackDecoder_finish h = Ok (p, h')" "ph_method (parts_pseudo p) = Some ''GET''"
    by (auto simp: block_def FrameDecoder_new_def)
  have "FrameDecoder_decode FrameDecoder_new (frame_header (length block) 9 4 1 @ block) =
      Ok ([Complete (Frame_new 0 0 (PL_Headers p))], FrameDecoder_new\<lparr>fd_hpack := h'\<rparr>)"
    by (rule stray_continuation_accepted [OF fd_ready_new _ _ _ _ _ h(2,3)])
      (use h(1) in \<open>auto simp: FrameDecoder_new_def DEFAULT_MAX_FRAME_SIZE_def\<close>)
  with h(4) show ?thesis by blast
qed

end
