(* ===== verification/H2_Window.thy ===== *)
theory H2_Window
  imports H2_Frame
begin

text \<open>
  Flow-control windows of the HTTP/2 client (\<^verbatim>\<open>ylong_http_client/src/util/h2/buffer/window.rs\<close>) and
  the windows of the connection (\<^verbatim>\<open>buffer/settings.rs\<close>). An \<^verbatim>\<open>i32\<close> is an integer whose range is
  checked after every operation of the source that overflows with a panic; \<^verbatim>\<open>size as i32\<close> and
  \<^verbatim>\<open>size as u32\<close> reinterpret the 32 bits.
\<close>

type_synonym i32 = int

section \<open>Signed 32-bit arithmetic\<close>

definition in_i32 :: "i32 \<Rightarrow> bool" where
  "in_i32 x \<longleftrightarrow> - (2 ^ 31) \<le> x \<and> x < 2 ^ 31"

definition checked_i32 :: "i32 \<Rightarrow> (i32, 'e) outcome" where
  "checked_i32 x = (if in_i32 x then Ok x else Panic)"

definition as_i32 :: "u32 \<Rightarrow> i32" where
  "as_i32 w = sint w"

definition as_u32 :: "i32 \<Rightarrow> u32" where
  "as_u32 x = word_of_int x"

lemma checked_i32_eq_Ok [simp]: "checked_i32 x = Ok y \<longleftrightarrow> in_i32 x \<and> y = x"
  by (auto simp: checked_i32_def)

lemma checked_i32_not_Err [simp]: "checked_i32 x \<noteq> Err e"
  by (simp add: checked_i32_def)

lemma as_i32_small: "unat w < 2 ^ 31 \<Longrightarrow> as_i32 w = int (unat w)"
proof -
  assume small: "unat w < 2 ^ 31"
  then have "uint w < 2 ^ 31" by (metis unat_eq_nat_uint nat_less_numeral_power_cancel_iff)
  moreover have "- (2 ^ 31) \<le> uint w" by (rule order_trans [OF _ uint_ge_0]) simp
  ultimately have "signed_take_bit 31 (uint w) = uint w" by (intro signed_take_bit_int_eq_self)
  then show ?thesis by (simp add: as_i32_def sint_uint)
qed

lemma unat_as_u32: "0 \<le> x \<Longrightarrow> in_i32 x \<Longrightarrow> unat (as_u32 x) = nat x"
  by (simp add: as_u32_def in_i32_def unsigned_of_int take_bit_int_eq_self)

lemma as_i32_as_u32: "0 \<le> x \<Longrightarrow> in_i32 x \<Longrightarrow> as_i32 (as_u32 x) = x"
  by (subst as_i32_small) (simp_all add: unat_as_u32, simp add: in_i32_def)

lemma as_i32_of_nat: "n < 2 ^ 31 \<Longrightarrow> as_i32 (of_nat n) = int n"
  by (subst as_i32_small) (simp_all add: unat_of_nat)

section \<open>Send window\<close>

record SendWindow =
  sw_size :: i32

definition MAX_FLOW_CONTROL_WINDOW :: u32 where
  "MAX_FLOW_CONTROL_WINDOW = push_bit 31 1 - 1"

definition SendWindow_new :: "i32 \<Rightarrow> SendWindow" where
  "SendWindow_new sz = \<lparr>sw_size = sz\<rparr>"

definition SendWindow_size_available :: "SendWindow \<Rightarrow> u32" where
  "SendWindow_size_available w = (if sw_size w < 0 then 0 else as_u32 (sw_size w))"

definition SendWindow_reduce_size :: "SendWindow \<Rightarrow> u32 \<Rightarrow> (SendWindow, 'e) outcome" where
  "SendWindow_reduce_size w sz =
     obind (checked_i32 (sw_size w - as_i32 sz)) (\<lambda>s. Ok (w\<lparr>sw_size := s\<rparr>))"

definition SendWindow_increase_size :: "SendWindow \<Rightarrow> u32 \<Rightarrow> (SendWindow, H2Error) outcome" where
  "SendWindow_increase_size w sz =
     (let curr = sw_size w + as_i32 sz in
      if \<not> in_i32 curr then Err (ConnectionError FlowControlError)
      else if curr > as_i32 MAX_FLOW_CONTROL_WINDOW then Err (ConnectionError FlowControlError)
      else Ok (w\<lparr>sw_size := curr\<rparr>))"

definition SendWindow_send_data :: "SendWindow \<Rightarrow> u32 \<Rightarrow> (SendWindow, 'e) outcome" where
  "SendWindow_send_data w sz =
     obind (checked_i32 (sw_size w - as_i32 sz)) (\<lambda>s. Ok (w\<lparr>sw_size := s\<rparr>))"

section \<open>Receive window\<close>

record RecvWindow =
  rw_notification :: i32
  rw_actual :: i32

definition RecvWindow_new :: "i32 \<Rightarrow> RecvWindow" where
  "RecvWindow_new sz = \<lparr>rw_notification = sz, rw_actual = sz\<rparr>"

definition RecvWindow_unreleased_size :: "RecvWindow \<Rightarrow> (u32 option, 'e) outcome" where
  "RecvWindow_unreleased_size w =
     obind (checked_i32 (rw_actual w - rw_notification w)) (\<lambda>unreleased.
       if unreleased \<le> 0 then Ok None
       else obind (checked_i32 (unreleased * 2)) (\<lambda>twice.
         if twice > rw_notification w then Ok (Some (as_u32 unreleased)) else Ok None))"

definition RecvWindow_actual_size :: "RecvWindow \<Rightarrow> i32" where
  "RecvWindow_actual_size w = rw_actual w"

definition RecvWindow_notification_available :: "RecvWindow \<Rightarrow> u32" where
  "RecvWindow_notification_available w =
     (if rw_notification w < 0 then 0 else as_u32 (rw_notification w))"

definition RecvWindow_reduce_actual :: "RecvWindow \<Rightarrow> u32 \<Rightarrow> (RecvWindow, 'e) outcome" where
  "RecvWindow_reduce_actual w sz =
     obind (checked_i32 (rw_actual w - as_i32 sz)) (\<lambda>s. Ok (w\<lparr>rw_actual := s\<rparr>))"

definition RecvWindow_increase_actual :: "RecvWindow \<Rightarrow> u32 \<Rightarrow> (RecvWindow, 'e) outcome" where
  "RecvWindow_increase_actual w sz =
     obind (checked_i32 (rw_actual w + as_i32 sz)) (\<lambda>s. Ok (w\<lparr>rw_actual := s\<rparr>))"

definition RecvWindow_reduce_notification :: "RecvWindow \<Rightarrow> u32 \<Rightarrow> (RecvWindow, 'e) outcome" where
  "RecvWindow_reduce_notification w sz =
     obind (checked_i32 (rw_notification w - as_i32 sz)) (\<lambda>s. Ok (w\<lparr>rw_notification := s\<rparr>))"

definition RecvWindow_increase_notification :: "RecvWindow \<Rightarrow> u32 \<Rightarrow> (RecvWindow, 'e) outcome" where
  "RecvWindow_increase_notification w sz =
     obind (checked_i32 (rw_notification w + as_i32 sz)) (\<lambda>s. Ok (w\<lparr>rw_notification := s\<rparr>))"

definition RecvWindow_check_window_update ::
  "RecvWindow \<Rightarrow> StreamId \<Rightarrow> (Frame option \<times> RecvWindow, 'e) outcome" where
  "RecvWindow_check_window_update w i =
     obind (RecvWindow_unreleased_size w) (\<lambda>unreleased.
       case unreleased of
         Some sz \<Rightarrow>
           obind (RecvWindow_increase_notification w sz) (\<lambda>w'.
             Ok (Some (Frame_new i 0 (PL_WindowUpdate sz)), w'))
       | None \<Rightarrow> Ok (None, w))"

definition RecvWindow_recv_data :: "RecvWindow \<Rightarrow> u32 \<Rightarrow> (RecvWindow, 'e) outcome" where
  "RecvWindow_recv_data w sz =
     obind (checked_i32 (rw_notification w - as_i32 sz)) (\<lambda>s. Ok (w\<lparr>rw_notification := s\<rparr>))"

section \<open>Windows of the connection\<close>

record FlowControl =
  fc_recv_window :: RecvWindow
  fc_send_window :: SendWindow

definition FlowControl_new :: "u32 \<Rightarrow> u32 \<Rightarrow> FlowControl" where
  "FlowControl_new conn_recv_window conn_send_window =
     \<lparr>fc_recv_window = RecvWindow_new (as_i32 conn_recv_window),
      fc_send_window = SendWindow_new (as_i32 conn_send_window)\<rparr>"

definition FlowControl_check_conn_recv_window_update ::
  "FlowControl \<Rightarrow> (Frame option \<times> FlowControl, 'e) outcome" where
  "FlowControl_check_conn_recv_window_update f =
     obind (RecvWindow_check_window_update (fc_recv_window f) 0) (\<lambda>(frame, w).
       Ok (frame, f\<lparr>fc_recv_window := w\<rparr>))"

definition FlowControl_setup_recv_window :: "FlowControl \<Rightarrow> u32 \<Rightarrow> (FlowControl, 'e) outcome" where
  "FlowControl_setup_recv_window f sz =
     (let actual = as_u32 (RecvWindow_actual_size (fc_recv_window f)) in
      obind (if sz > actual then RecvWindow_increase_actual (fc_recv_window f) (sz - actual)
             else RecvWindow_reduce_actual (fc_recv_window f) (actual - sz)) (\<lambda>w.
        Ok (f\<lparr>fc_recv_window := w\<rparr>)))"

definition FlowControl_increase_send_size :: "FlowControl \<Rightarrow> u32 \<Rightarrow> (FlowControl, H2Error) outcome" where
  "FlowControl_increase_send_size f sz =
     obind (SendWindow_increase_size (fc_send_window f) sz) (\<lambda>w. Ok (f\<lparr>fc_send_window := w\<rparr>))"

definition FlowControl_send_size_available :: "FlowControl \<Rightarrow> nat" where
  "FlowControl_send_size_available f = unat (SendWindow_size_available (fc_send_window f))"

definition FlowControl_recv_notification_size_available :: "FlowControl \<Rightarrow> u32" where
  "FlowControl_recv_notification_size_available f =
     RecvWindow_notification_available (fc_recv_window f)"

definition FlowControl_send_data :: "FlowControl \<Rightarrow> u32 \<Rightarrow> (FlowControl, 'e) outcome" where
  "FlowControl_send_data f sz =
     obind (SendWindow_send_data (fc_send_window f) sz) (\<lambda>w. Ok (f\<lparr>fc_send_window := w\<rparr>))"

definition FlowControl_recv_data :: "FlowControl \<Rightarrow> u32 \<Rightarrow> (FlowControl, 'e) outcome" where
  "FlowControl_recv_data f sz =
     obind (RecvWindow_recv_data (fc_recv_window f) sz) (\<lambda>w. Ok (f\<lparr>fc_recv_window := w\<rparr>))"

section \<open>What the windows promise\<close>

text \<open>An \<^verbatim>\<open>i32\<close> field is always in range.\<close>

definition send_window_ok :: "SendWindow \<Rightarrow> bool" where
  "send_window_ok w \<longleftrightarrow> in_i32 (sw_size w)"

definition recv_window_ok :: "RecvWindow \<Rightarrow> bool" where
  "recv_window_ok w \<longleftrightarrow> in_i32 (rw_notification w) \<and> in_i32 (rw_actual w)"

lemma as_i32_in_i32 [simp]: "in_i32 (as_i32 w)"
  using sint_ge [of w] sint_lt [of w] by (simp add: in_i32_def as_i32_def)

lemma as_i32_MAX [simp]: "as_i32 MAX_FLOW_CONTROL_WINDOW = 2 ^ 31 - 1"
  by (subst as_i32_small) (simp_all add: MAX_FLOW_CONTROL_WINDOW_def)

lemma send_window_available:
  "send_window_ok w \<Longrightarrow> unat (SendWindow_size_available w) = nat (sw_size w)"
  by (simp add: SendWindow_size_available_def send_window_ok_def unat_as_u32)

lemma recv_window_available:
  "recv_window_ok w \<Longrightarrow> unat (RecvWindow_notification_available w) = nat (rw_notification w)"
  by (simp add: RecvWindow_notification_available_def recv_window_ok_def unat_as_u32)

text \<open>
  The window grows by exactly the increment or the connection is in error; the second test of
  \<^verbatim>\<open>increase_size\<close> can never fail after the first.
\<close>

lemma increase_size_cases:
  "SendWindow_increase_size w sz =
     (if in_i32 (sw_size w + as_i32 sz) then Ok (w\<lparr>sw_size := sw_size w + as_i32 sz\<rparr>)
      else Err (ConnectionError FlowControlError))"
  by (auto simp: SendWindow_increase_size_def Let_def in_i32_def)

lemma send_data_within:
  assumes "send_window_ok w" "n \<le> unat (SendWindow_size_available w)"
  shows "SendWindow_send_data w (of_nat n) = Ok (w\<lparr>sw_size := sw_size w - int n\<rparr>)"
    and "n > 0 \<Longrightarrow> 0 \<le> sw_size w - int n"
proof -
  have n: "n \<le> nat (sw_size w)" using assms by (simp add: send_window_available)
  have range: "in_i32 (sw_size w)" using assms(1) by (simp add: send_window_ok_def)
  have "as_i32 (of_nat n) = int n"
    using n range by (intro as_i32_of_nat) (auto simp: in_i32_def)
  moreover have "in_i32 (sw_size w - int n)" using n range by (auto simp: in_i32_def)
  ultimately show "SendWindow_send_data w (of_nat n) = Ok (w\<lparr>sw_size := sw_size w - int n\<rparr>)"
    by (simp add: SendWindow_send_data_def checked_i32_def)
  show "n > 0 \<Longrightarrow> 0 \<le> sw_size w - int n" using n by linarith
qed

text \<open>
  \<^verbatim>\<open>check_window_update\<close> brings the advertised window back to the configured one as soon as more
  than a third of it is used, and leaves at least two thirds of it otherwise.
\<close>

lemma check_window_update_restores:
  assumes ok: "recv_window_ok w"
    and small: "0 \<le> rw_notification w" "0 \<le> rw_actual w" "rw_actual w < 2 ^ 30"
  shows "RecvWindow_check_window_update w i =
    (if 2 * (rw_actual w - rw_notification w) > rw_notification w
     then Ok (Some (Frame_new i 0 (PL_WindowUpdate (as_u32 (rw_actual w - rw_notification w)))),
              w\<lparr>rw_notification := rw_actual w\<rparr>)
     else Ok (None, w))"
proof -
  let ?u = "rw_actual w - rw_notification w"
  have range: "in_i32 ?u" "?u > 0 \<Longrightarrow> in_i32 (?u * 2)" "?u > 0 \<Longrightarrow> as_i32 (as_u32 ?u) = ?u"
    using ok small by (auto simp: in_i32_def recv_window_ok_def intro!: as_i32_as_u32)
  show ?thesis
  proof (cases "2 * ?u > rw_notification w")
    case True
    then have "?u > 0" using small(1) by arith
    then show ?thesis
      using range ok True
      by (simp add: RecvWindow_check_window_update_def RecvWindow_unreleased_size_def checked_i32_def
          RecvWindow_increase_notification_def recv_window_ok_def mult.commute)
  next
    case False
    then show ?thesis
      using range
      by (auto simp: RecvWindow_check_window_update_def RecvWindow_unreleased_size_def checked_i32_def)
  qed
qed

end
