(* ===== verification/Stateful.thy ===== *)
theory Stateful
  imports Prelude
begin

text \<open>
  Methods that take \<^verbatim>\<open>&mut self\<close> and return a \<^verbatim>\<open>Result\<close>: what they changed before an early return
  stays changed. An action maps a state to the outcome of the call and the state it leaves behind.
\<close>

type_synonym ('s, 'a, 'e) action = "'s \<Rightarrow> ('a, 'e) outcome \<times> 's"

definition give :: "'a \<Rightarrow> ('s, 'a, 'e) action" where
  "give a s = (Ok a, s)"

definition fail :: "'e \<Rightarrow> ('s, 'a, 'e) action" where
  "fail e s = (Err e, s)"

definition crash :: "('s, 'a, 'e) action" where
  "crash s = (Panic, s)"

definition andthen :: "('s, 'a, 'e) action \<Rightarrow> ('a \<Rightarrow> ('s, 'b, 'e) action) \<Rightarrow> ('s, 'b, 'e) action" where
  "andthen m f s =
     (case m s of
        (Ok a, t) \<Rightarrow> f a t
      | (Err e, t) \<Rightarrow> (Err e, t)
      | (Panic, t) \<Rightarrow> (Panic, t))"

text \<open>
  Reading and replacing the state, the outcome of a pure computation, running an action on a
  component of a larger state, \<^verbatim>\<open>map_err\<close>, and catching the \<^verbatim>\<open>Result\<close> of a call to look at it.
\<close>

definition view :: "('s \<Rightarrow> 'a) \<Rightarrow> ('s, 'a, 'e) action" where
  "view f s = (Ok (f s), s)"

definition modify :: "('s \<Rightarrow> 's) \<Rightarrow> ('s, unit, 'e) action" where
  "modify f s = (Ok (), f s)"

definition lift :: "('a, 'e) outcome \<Rightarrow> ('s, 'a, 'e) action" where
  "lift r s = (r, s)"

definition inside ::
  "('s \<Rightarrow> 't) \<Rightarrow> ('t \<Rightarrow> 's \<Rightarrow> 's) \<Rightarrow> ('t, 'a, 'e) action \<Rightarrow> ('s, 'a, 'e) action" where
  "inside get put m s = (case m (get s) of (r, t) \<Rightarrow> (r, put t s))"

definition relabel :: "('e \<Rightarrow> 'f) \<Rightarrow> ('s, 'a, 'e) action \<Rightarrow> ('s, 'a, 'f) action" where
  "relabel f m s = (case m s of (r, t) \<Rightarrow> (map_err f r, t))"

definition attempt :: "('s, 'a, 'e) action \<Rightarrow> ('s, 'e + 'a, 'f) action" where
  "attempt m s =
     (case m s of
        (Ok a, t) \<Rightarrow> (Ok (Inr a), t)
      | (Err e, t) \<Rightarrow> (Ok (Inl e), t)
      | (Panic, t) \<Rightarrow> (Panic, t))"

lemmas action_defs =
  give_def fail_def crash_def andthen_def view_def modify_def lift_def inside_def relabel_def attempt_def

lemma andthen_assoc: "andthen (andthen m f) g = andthen m (\<lambda>a. andthen (f a) g)"
  by (rule ext) (auto simp: andthen_def split: prod.splits outcome.splits)

lemma andthen_give [simp]: "andthen (give a) f = f a"
  by (rule ext) (simp add: andthen_def give_def)

section \<open>What an action may do to the state\<close>

text \<open>
  \<open>moves R m\<close>: unless it panics, \<open>m\<close> leads from a state to one that \<open>R\<close> relates to it. For a
  preorder \<open>R\<close> this is closed under sequencing.
\<close>

definition moves :: "('s \<Rightarrow> 's \<Rightarrow> bool) \<Rightarrow> ('s, 'a, 'e) action \<Rightarrow> bool" where
  "moves R m \<longleftrightarrow> (\<forall>s r t. m s = (r, t) \<longrightarrow> r \<noteq> Panic \<longrightarrow> R s t)"

lemma movesI: "(\<And>s r t. m s = (r, t) \<Longrightarrow> r \<noteq> Panic \<Longrightarrow> R s t) \<Longrightarrow> moves R m"
  by (simp add: moves_def)

lemma movesD: "moves R m \<Longrightarrow> m s = (r, t) \<Longrightarrow> r \<noteq> Panic \<Longrightarrow> R s t"
  by (simp add: moves_def)

named_theorems moves_intros

lemma moves_if [moves_intros]:
  "(b \<Longrightarrow> moves R m) \<Longrightarrow> (\<not> b \<Longrightarrow> moves R n) \<Longrightarrow> moves R (if b then m else n)"
  by simp

lemma moves_option [moves_intros]:
  "(x = None \<Longrightarrow> moves R m) \<Longrightarrow> (\<And>a. x = Some a \<Longrightarrow> moves R (f a)) \<Longrightarrow>
     moves R (case x of None \<Rightarrow> m | Some a \<Rightarrow> f a)"
  by (simp split: option.split)

lemma moves_prod [moves_intros]:
  "(\<And>a b. x = (a, b) \<Longrightarrow> moves R (f a b)) \<Longrightarrow> moves R (case x of (a, b) \<Rightarrow> f a b)"
  by (simp split: prod.split)

locale action_preorder =
  fixes R :: "'s \<Rightarrow> 's \<Rightarrow> bool"
  assumes refl: "R s s"
    and trans: "R s t \<Longrightarrow> R t u \<Longrightarrow> R s u"
begin

lemma moves_give [moves_intros]: "moves R (give a)"
  by (simp add: moves_def give_def refl)

lemma moves_fail [moves_intros]: "moves R (fail e)"
  by (simp add: moves_def fail_def refl)

lemma moves_crash [moves_intros]: "moves R crash"
  by (simp add: moves_def crash_def)

lemma moves_view [moves_intros]: "moves R (view f)"
  by (simp add: moves_def view_def refl)

lemma moves_lift [moves_intros]: "moves R (lift r)"
  by (simp add: moves_def lift_def refl)

lemma moves_andthen [moves_intros]: "moves R m \<Longrightarrow> (\<And>a. moves R (f a)) \<Longrightarrow> moves R (andthen m f)"
  unfolding moves_def andthen_def
  by (fastforce split: prod.splits outcome.splits intro: trans)

lemma moves_relabel [moves_intros]: "moves R m \<Longrightarrow> moves R (relabel g m)"
  unfolding moves_def relabel_def by (auto split: prod.splits)

lemma moves_attempt [moves_intros]: "moves R m \<Longrightarrow> moves R (attempt m)"
  unfolding moves_def attempt_def by (fastforce split: prod.splits outcome.splits)

lemma moves_modify: "(\<And>s. R s (f s)) \<Longrightarrow> moves R (modify f)"
  by (simp add: moves_def modify_def)

end

end
