(* ===== verification/H2_Streams.thy ===== *)
theory H2_Streams
  imports H2_Window Stateful "HOL-Library.AList"
begin

text \<open>
  The streams of a client connection (\<^verbatim>\<open>ylong_http_client/src/util/h2/streams.rs\<close>): the state of each
  stream, the concurrency limit, the queues of streams that wait for something, and the operations
  the connection manager calls. \<^verbatim>\<open>stream_map\<close> is an association list whose order stands for the
  iteration order of the hash map, and \<^verbatim>\<open>pending_stream_window\<close> a list without repetitions. The body
  of a request is an opaque handle \<open>'b\<close>, read through a parameter that stands for the user's reader
  and for the clock of the speed limits, on the state \<open>'w\<close> of the world.
\<close>

section \<open>States and errors\<close>

type_synonym IoErrorKind = nat

datatype DispatchErrorKind = DE_H2 H2Error | DE_Io IoErrorKind | DE_ChannelClosed | DE_Disconnect

datatype FrameRecvState = FR_OK | FR_Ignore | FR_Err H2Error

datatype DataReadState = DR_Closed | DR_Pending | DR_Ready Frame | DR_Finish Frame

datatype StreamEndState = SE_OK | SE_Ignore | SE_Err H2Error

datatype CloseReason = LocalRst | RemoteRst | RemoteGoAway | LocalGoAway | EndStream

datatype ActiveState = WaitHeaders | WaitData

text \<open>\<open>Open send recv\<close> is \<^verbatim>\<open>Open { send, recv }\<close>.\<close>

datatype H2StreamState =
    Idle
  | Open ActiveState ActiveState
  | ReservedRemote
  | LocalHalfClosed ActiveState
  | RemoteHalfClosed ActiveState
  | Closed CloseReason

fun is_Closed :: "H2StreamState \<Rightarrow> bool" where
  "is_Closed (Closed _) = True"
| "is_Closed _ = False"

section \<open>Request bodies\<close>

text \<open>\<^verbatim>\<open>BodyDataRef\<close>: the body of the request, dropped when the stream is closed.\<close>

datatype BodyPoll = BP_Ready bytes | BP_Err | BP_Pending

type_synonym 'b BodyDataRef = "'b option"

definition BodyDataRef_clear :: "'b BodyDataRef \<Rightarrow> 'b BodyDataRef" where
  "BodyDataRef_clear d = None"

fun BodyDataRef_poll_read ::
  "('b \<Rightarrow> nat \<Rightarrow> 'w \<Rightarrow> BodyPoll \<times> 'w) \<Rightarrow> 'b BodyDataRef \<Rightarrow> nat \<Rightarrow> 'w \<Rightarrow> BodyPoll \<times> 'w" where
  "BodyDataRef_poll_read body_read None len w = (BP_Ready [], w)"
| "BodyDataRef_poll_read body_read (Some b) len w = body_read b len w"

section \<open>Streams\<close>

record 'b Stream =
  st_recv_window :: RecvWindow
  st_send_window :: SendWindow
  st_state :: H2StreamState
  st_header :: "Frame option"
  st_data :: "'b BodyDataRef"

record 'b Streams =
  ss_max_send_id :: StreamId
  ss_max_recv_id :: StreamId
  ss_latest_remote_id :: StreamId
  ss_stream_recv_window_size :: u32
  ss_stream_send_window_size :: u32
  ss_max_concurrent_streams :: u32
  ss_current_concurrent_streams :: u32
  ss_flow_control :: FlowControl
  ss_pending_concurrency :: "StreamId list"
  ss_pending_stream_window :: "StreamId list"
  ss_pending_conn_window :: "StreamId list"
  ss_pending_send :: "StreamId list"
  ss_window_updating_streams :: "StreamId list"
  ss_stream_map :: "(StreamId \<times> 'b Stream) list"
  ss_next_stream_id :: StreamId

definition INITIAL_MAX_SEND_STREAM_ID :: StreamId where
  "INITIAL_MAX_SEND_STREAM_ID = drop_bit 1 (- 1)"

definition INITIAL_MAX_RECV_STREAM_ID :: StreamId where
  "INITIAL_MAX_RECV_STREAM_ID = drop_bit 1 (- 1)"

definition DEFAULT_MAX_STREAM_ID :: StreamId where
  "DEFAULT_MAX_STREAM_ID = drop_bit 1 (- 1)"

definition INITIAL_LATEST_REMOTE_ID :: StreamId where
  "INITIAL_LATEST_REMOTE_ID = 0"

definition DEFAULT_MAX_CONCURRENT_STREAMS :: u32 where
  "DEFAULT_MAX_CONCURRENT_STREAMS = 100"

definition Stream_new ::
  "RecvWindow \<Rightarrow> SendWindow \<Rightarrow> Frame \<Rightarrow> 'b BodyDataRef \<Rightarrow> 'b Stream" where
  "Stream_new recv_window send_window headers data =
     \<lparr>st_recv_window = recv_window, st_send_window = send_window, st_state = Idle,
      st_header = Some headers, st_data = data\<rparr>"

fun is_init_or_active_flow_control :: "'b Stream \<Rightarrow> bool" where
  "is_init_or_active_flow_control st =
     (case st_state st of
        Idle \<Rightarrow> True
      | Open _ WaitData \<Rightarrow> True
      | LocalHalfClosed WaitData \<Rightarrow> True
      | _ \<Rightarrow> False)"

definition Streams_new :: "u32 \<Rightarrow> u32 \<Rightarrow> FlowControl \<Rightarrow> 'b Streams" where
  "Streams_new recv_window_size send_window_size flow_control =
     \<lparr>ss_max_send_id = INITIAL_MAX_SEND_STREAM_ID,
      ss_max_recv_id = INITIAL_MAX_RECV_STREAM_ID,
      ss_latest_remote_id = INITIAL_LATEST_REMOTE_ID,
      ss_stream_recv_window_size = recv_window_size,
      ss_stream_send_window_size = send_window_size,
      ss_max_concurrent_streams = DEFAULT_MAX_CONCURRENT_STREAMS,
      ss_current_concurrent_streams = 0,
      ss_flow_control = flow_control,
      ss_pending_concurrency = [],
      ss_pending_stream_window = [],
      ss_pending_conn_window = [],
      ss_pending_send = [],
      ss_window_updating_streams = [],
      ss_stream_map = [],
      ss_next_stream_id = 1\<rparr>"

text \<open>\<^verbatim>\<open>stream_map.get\<close>, and a stream changed through \<^verbatim>\<open>stream_map.get_mut\<close>.\<close>

definition stream_at :: "StreamId \<Rightarrow> 'b Streams \<Rightarrow> 'b Stream option" where
  "stream_at i s = map_of (ss_stream_map s) i"

definition put_stream :: "StreamId \<Rightarrow> 'b Stream \<Rightarrow> 'b Streams \<Rightarrow> 'b Streams" where
  "put_stream i st s = s\<lparr>ss_stream_map := AList.update i st (ss_stream_map s)\<rparr>"

subsection \<open>Concurrency\<close>

definition decrease_current_concurrency :: "('b Streams, unit, 'e) action" where
  "decrease_current_concurrency s =
     (if ss_current_concurrent_streams s = 0 then (Panic, s)
      else (Ok (), s\<lparr>ss_current_concurrent_streams := ss_current_concurrent_streams s - 1\<rparr>))"

definition increase_current_concurrency :: "('b Streams, unit, 'e) action" where
  "increase_current_concurrency s =
     (if ss_current_concurrent_streams s = - 1 then (Panic, s)
      else (Ok (), s\<lparr>ss_current_concurrent_streams := ss_current_concurrent_streams s + 1\<rparr>))"

definition reach_max_concurrency :: "'b Streams \<Rightarrow> bool" where
  "reach_max_concurrency s \<longleftrightarrow> ss_current_concurrent_streams s \<ge> ss_max_concurrent_streams s"

definition apply_max_concurrent_streams :: "u32 \<Rightarrow> 'b Streams \<Rightarrow> 'b Streams" where
  "apply_max_concurrent_streams num s = s\<lparr>ss_max_concurrent_streams := num\<rparr>"

subsection \<open>Settings\<close>

text \<open>A loop over \<^verbatim>\<open>stream_map.iter_mut()\<close> that stops at the first error or panic.\<close>

fun for_each_mut ::
  "('b Stream \<Rightarrow> ('b Stream, 'e) outcome) \<Rightarrow> (StreamId \<times> 'b Stream) list \<Rightarrow>
     (unit, 'e) outcome \<times> (StreamId \<times> 'b Stream) list" where
  "for_each_mut f [] = (Ok (), [])"
| "for_each_mut f ((i, st) # m) =
     (case f st of
        Ok st' \<Rightarrow> (case for_each_mut f m of (r, m') \<Rightarrow> (r, (i, st') # m'))
      | Err e \<Rightarrow> (Err e, (i, st) # m)
      | Panic \<Rightarrow> (Panic, (i, st) # m))"

definition update_streams ::
  "('b Stream \<Rightarrow> ('b Stream, 'e) outcome) \<Rightarrow> ('b Streams, unit, 'e) action" where
  "update_streams f s =
     (case for_each_mut f (ss_stream_map s) of (r, m) \<Rightarrow> (r, s\<lparr>ss_stream_map := m\<rparr>))"

definition with_send_window ::
  "(SendWindow \<Rightarrow> (SendWindow, 'e) outcome) \<Rightarrow> 'b Stream \<Rightarrow> ('b Stream, 'e) outcome" where
  "with_send_window f st = obind (f (st_send_window st)) (\<lambda>w. Ok (st\<lparr>st_send_window := w\<rparr>))"

definition with_recv_window ::
  "(RecvWindow \<Rightarrow> (RecvWindow, 'e) outcome) \<Rightarrow> 'b Stream \<Rightarrow> ('b Stream, 'e) outcome" where
  "with_recv_window f st = obind (f (st_recv_window st)) (\<lambda>w. Ok (st\<lparr>st_recv_window := w\<rparr>))"

definition apply_send_initial_window_size :: "u32 \<Rightarrow> ('b Streams, unit, H2Error) action" where
  "apply_send_initial_window_size sz =
     andthen (view ss_stream_send_window_size) (\<lambda>current.
     andthen (modify (\<lambda>s. s\<lparr>ss_stream_send_window_size := sz\<rparr>)) (\<lambda>_.
       if current < sz then
         andthen (update_streams (with_send_window (\<lambda>w. SendWindow_increase_size w (sz - current))))
           (\<lambda>_. modify (\<lambda>s. s\<lparr>ss_pending_send := ss_pending_send s @ ss_pending_stream_window s,
                              ss_pending_stream_window := []\<rparr>))
       else if current > sz then
         update_streams (with_send_window (\<lambda>w. SendWindow_reduce_size w (current - sz)))
       else give ()))"

definition apply_recv_initial_window_size :: "u32 \<Rightarrow> ('b Streams, unit, 'e) action" where
  "apply_recv_initial_window_size sz =
     andthen (view ss_stream_recv_window_size) (\<lambda>current.
     andthen (modify (\<lambda>s. s\<lparr>ss_stream_recv_window_size := sz\<rparr>)) (\<lambda>_.
       if current < sz then
         update_streams (with_recv_window (\<lambda>w.
           obind (RecvWindow_increase_notification w (sz - current)) (\<lambda>w'.
             RecvWindow_increase_actual w' (sz - current))))
       else if current > sz then
         update_streams (with_recv_window (\<lambda>w. RecvWindow_reduce_notification w (current - sz)))
       else give ()))"

subsection \<open>Receive windows\<close>

text \<open>
  The two methods send WINDOW\_UPDATE frames through the channel to the writer; \<open>send\<close> stands for
  \<^verbatim>\<open>UnboundedSender::send\<close> on the state \<open>'p\<close> of that channel and tells whether the receiver is
  still there.
\<close>

definition send_or_closed ::
  "('p, bool, DispatchErrorKind) action \<Rightarrow> ('s \<times> 'p, unit, DispatchErrorKind) action" where
  "send_or_closed send =
     andthen (inside snd (\<lambda>p (s, _). (s, p)) send) (\<lambda>sent.
       if sent then give () else fail DE_ChannelClosed)"

definition release_stream_recv_window ::
  "(Frame \<Rightarrow> ('p, bool, DispatchErrorKind) action) \<Rightarrow> StreamId \<Rightarrow> u32 \<Rightarrow>
     ('b Streams \<times> 'p, unit, DispatchErrorKind) action" where
  "release_stream_recv_window send i sz =
     andthen (view (\<lambda>(s, p). stream_at i s)) (\<lambda>found.
       case found of
         None \<Rightarrow> give ()
       | Some stream \<Rightarrow>
           if RecvWindow_notification_available (st_recv_window stream) < sz then
             fail (DE_H2 (StreamError i FlowControlError))
           else
             andthen (lift (RecvWindow_recv_data (st_recv_window stream) sz)) (\<lambda>w.
             andthen (modify (\<lambda>(s, p). (put_stream i (stream\<lparr>st_recv_window := w\<rparr>) s, p))) (\<lambda>_.
             andthen (lift (RecvWindow_unreleased_size w)) (\<lambda>unreleased.
               if unreleased = None then give ()
               else if \<not> is_init_or_active_flow_control stream then give ()
               else
                 andthen (lift (RecvWindow_check_window_update w i)) (\<lambda>(window_update, w').
                 andthen (modify (\<lambda>(s, p). (put_stream i (stream\<lparr>st_recv_window := w'\<rparr>) s, p))) (\<lambda>_.
                   case window_update of
                     None \<Rightarrow> give ()
                   | Some frame \<Rightarrow> send_or_closed (send frame)))))))"

definition release_conn_recv_window ::
  "(Frame \<Rightarrow> ('p, bool, DispatchErrorKind) action) \<Rightarrow> u32 \<Rightarrow>
     ('b Streams \<times> 'p, unit, DispatchErrorKind) action" where
  "release_conn_recv_window send sz =
     andthen (view (\<lambda>(s, p). ss_flow_control s)) (\<lambda>flow.
       if FlowControl_recv_notification_size_available flow < sz then
         fail (DE_H2 (ConnectionError FlowControlError))
       else
         andthen (lift (FlowControl_recv_data flow sz)) (\<lambda>flow'.
         andthen (lift (FlowControl_check_conn_recv_window_update flow')) (\<lambda>(window_update, flow'').
         andthen (modify (\<lambda>(s, p). (s\<lparr>ss_flow_control := flow''\<rparr>, p))) (\<lambda>_.
           case window_update of
             None \<Rightarrow> give ()
           | Some frame \<Rightarrow> send_or_closed (send frame)))))"

subsection \<open>Queries and queues\<close>

definition is_closed :: "'b Streams \<Rightarrow> bool" where
  "is_closed s \<longleftrightarrow> list_all (\<lambda>(i, st). is_Closed (st_state st)) (ss_stream_map s)"

definition stream_state :: "StreamId \<Rightarrow> 'b Streams \<Rightarrow> H2StreamState option" where
  "stream_state i s = map_option st_state (stream_at i s)"

definition insert_stream :: "StreamId \<Rightarrow> Frame \<Rightarrow> 'b BodyDataRef \<Rightarrow> 'b Streams \<Rightarrow> 'b Streams" where
  "insert_stream i headers data s =
     (let send_window = SendWindow_new (as_i32 (ss_stream_send_window_size s));
          recv_window = RecvWindow_new (as_i32 (ss_stream_recv_window_size s))
      in put_stream i (Stream_new recv_window send_window headers data) s)"

definition push_back_pending_send :: "StreamId \<Rightarrow> 'b Streams \<Rightarrow> 'b Streams" where
  "push_back_pending_send i s = s\<lparr>ss_pending_send := ss_pending_send s @ [i]\<rparr>"

definition push_pending_concurrency :: "StreamId \<Rightarrow> 'b Streams \<Rightarrow> 'b Streams" where
  "push_pending_concurrency i s = s\<lparr>ss_pending_concurrency := ss_pending_concurrency s @ [i]\<rparr>"

definition is_pending_concurrency_empty :: "'b Streams \<Rightarrow> bool" where
  "is_pending_concurrency_empty s \<longleftrightarrow> ss_pending_concurrency s = []"

definition next_pending_stream :: "('b Streams, StreamId option, 'e) action" where
  "next_pending_stream s =
     (case ss_pending_send s of
        [] \<Rightarrow> (Ok None, s)
      | i # is \<Rightarrow> (Ok (Some i), s\<lparr>ss_pending_send := is\<rparr>))"

definition pending_stream_num :: "'b Streams \<Rightarrow> nat" where
  "pending_stream_num s = length (ss_pending_send s)"

function try_consume_pending_concurrency :: "('b Streams, unit, 'e) action" where
  "try_consume_pending_concurrency s =
     (if reach_max_concurrency s then (Ok (), s)
      else case ss_pending_concurrency s of
        [] \<Rightarrow> (Ok (), s)
      | i # is \<Rightarrow>
          (case increase_current_concurrency (s\<lparr>ss_pending_concurrency := is\<rparr>) of
             (Ok _, t) \<Rightarrow> try_consume_pending_concurrency (push_back_pending_send i t)
           | (Err e, t) \<Rightarrow> (Err e, t)
           | (Panic, t) \<Rightarrow> (Panic, t)))"
  by pat_completeness auto
termination
  by (relation "measure (\<lambda>s. length (ss_pending_concurrency s))")
    (auto simp: increase_current_concurrency_def push_back_pending_send_def split: if_splits)

declare try_consume_pending_concurrency.simps [simp del]

definition increase_conn_send_window :: "u32 \<Rightarrow> ('b Streams, unit, H2Error) action" where
  "increase_conn_send_window sz s =
     (case FlowControl_increase_send_size (ss_flow_control s) sz of
        Ok flow \<Rightarrow> (Ok (), s\<lparr>ss_flow_control := flow\<rparr>)
      | Err e \<Rightarrow> (Err e, s)
      | Panic \<Rightarrow> (Panic, s))"

function reassign_conn_send_window :: "'b Streams \<Rightarrow> 'b Streams" where
  "reassign_conn_send_window s =
     (case ss_pending_conn_window s of
        [] \<Rightarrow> s
      | i # is \<Rightarrow>
          reassign_conn_send_window (push_back_pending_send i (s\<lparr>ss_pending_conn_window := is\<rparr>)))"
  by pat_completeness auto
termination
  by (relation "measure (\<lambda>s. length (ss_pending_conn_window s))")
    (auto simp: push_back_pending_send_def)

declare reassign_conn_send_window.simps [simp del]

definition reassign_stream_send_window :: "StreamId \<Rightarrow> u32 \<Rightarrow> ('b Streams, unit, H2Error) action" where
  "reassign_stream_send_window i sz =
     andthen (view (stream_at i)) (\<lambda>found.
     andthen (case found of
                None \<Rightarrow> give ()
              | Some stream \<Rightarrow>
                  andthen (lift (with_send_window (\<lambda>w. SendWindow_increase_size w sz) stream)) (\<lambda>stream'.
                    modify (put_stream i stream'))) (\<lambda>_.
       modify (\<lambda>s. if i \<in> set (ss_pending_stream_window s)
                   then s\<lparr>ss_pending_stream_window := remove1 i (ss_pending_stream_window s),
                          ss_pending_send := ss_pending_send s @ [i]\<rparr>
                   else s)))"

subsection \<open>Sending a request\<close>

definition headers :: "StreamId \<Rightarrow> ('b Streams, Frame option, H2Error) action" where
  "headers i s =
     (case stream_at i s of
        None \<Rightarrow> (Err (ConnectionError IntervalError), s)
      | Some stream \<Rightarrow>
          if is_Closed (st_state stream) then (Ok None, s)
          else (Ok (st_header stream), put_stream i (stream\<lparr>st_header := None\<rparr>) s))"

text \<open>The buffer of \<^verbatim>\<open>poll_read_body\<close>.\<close>

definition BODY_MAX_FRAME_SIZE :: nat where
  "BODY_MAX_FRAME_SIZE = 16 * 1024"

text \<open>
  \<open>size\<close> octets of the buffer are filled: the windows shrink by that many, and slicing the buffer
  of \<open>len\<close> octets panics beyond its end.
\<close>

definition poll_sized_data ::
  "('b \<Rightarrow> nat \<Rightarrow> 'w \<Rightarrow> BodyPoll \<times> 'w) \<Rightarrow> StreamId \<Rightarrow> nat \<Rightarrow>
     ('b Streams \<times> 'w, DataReadState, H2Error) action" where
  "poll_sized_data body_read i len = (\<lambda>(s, w).
     case stream_at i s of
       None \<Rightarrow> (Err (ConnectionError IntervalError), (s, w))
     | Some stream \<Rightarrow>
         (case BodyDataRef_poll_read body_read (st_data stream) len w of
            (BP_Ready filled, w') \<Rightarrow>
              if length filled > 0 then
                (case obind (SendWindow_send_data (st_send_window stream) (of_nat (length filled))) (\<lambda>sw.
                      obind (FlowControl_send_data (ss_flow_control s) (of_nat (length filled))) (\<lambda>flow.
                        if length filled \<le> len
                        then Ok (put_stream i (stream\<lparr>st_send_window := sw\<rparr>) (s\<lparr>ss_flow_control := flow\<rparr>))
                        else Panic)) of
                   Ok s' \<Rightarrow> (Ok (DR_Ready (Frame_new i 0 (PL_Data filled))), (s', w'))
                 | Err e \<Rightarrow> (Err e, (s, w'))
                 | Panic \<Rightarrow> (Panic, (s, w')))
              else (Ok (DR_Finish (Frame_new i (FrameFlags_set_end_stream 1 True) (PL_Data []))), (s, w'))
          | (BP_Err, w') \<Rightarrow> (Err (StreamError i IntervalError), (s, w'))
          | (BP_Pending, w') \<Rightarrow> (Ok DR_Pending, (push_back_pending_send i s, w'))))"

definition poll_read_body ::
  "('b \<Rightarrow> nat \<Rightarrow> 'w \<Rightarrow> BodyPoll \<times> 'w) \<Rightarrow> StreamId \<Rightarrow>
     ('b Streams \<times> 'w, DataReadState, H2Error) action" where
  "poll_read_body body_read i = (\<lambda>(s, w).
     case stream_at i s of
       None \<Rightarrow> (Err (ConnectionError IntervalError), (s, w))
     | Some stream \<Rightarrow>
         if is_Closed (st_state stream) then (Ok DR_Closed, (s, w))
         else let stream_send_vacant = unat (SendWindow_size_available (st_send_window stream)) in
           if stream_send_vacant = 0 then
             (Ok DR_Pending,
              (s\<lparr>ss_pending_stream_window := List.insert i (ss_pending_stream_window s)\<rparr>, w))
           else let conn_send_vacant = FlowControl_send_size_available (ss_flow_control s) in
             if conn_send_vacant = 0 then
               (Ok DR_Pending, (s\<lparr>ss_pending_conn_window := ss_pending_conn_window s @ [i]\<rparr>, w))
             else let available = min stream_send_vacant conn_send_vacant;
                      len = min available BODY_MAX_FRAME_SIZE
               in poll_sized_data body_read i len (s, w))"

subsection \<open>Going away\<close>

definition shut_stream :: "CloseReason \<Rightarrow> 'b Stream \<Rightarrow> 'b Stream" where
  "shut_stream reason stream =
     stream\<lparr>st_state := Closed reason, st_header := None, st_data := BodyDataRef_clear (st_data stream)\<rparr>"

text \<open>The loop keeps the counter of concurrent streams and the map; the identifiers come in order.\<close>

fun unset_loop ::
  "StreamId \<Rightarrow> u32 \<Rightarrow> (StreamId \<times> 'b Stream) list \<Rightarrow>
     (StreamId list \<times> u32 \<times> (StreamId \<times> 'b Stream) list) option" where
  "unset_loop last_stream_id current [] = Some ([], current, [])"
| "unset_loop last_stream_id current ((i, stream) # m) =
     (if i > last_stream_id then
        (case st_state stream of
           Closed _ \<Rightarrow>
             map_option (\<lambda>(is, c, m'). (i # is, c, (i, stream) # m'))
               (unset_loop last_stream_id current m)
         | Idle \<Rightarrow>
             map_option (\<lambda>(is, c, m'). (i # is, c, (i, shut_stream RemoteGoAway stream) # m'))
               (unset_loop last_stream_id current m)
         | _ \<Rightarrow>
             if current = 0 then None
             else map_option (\<lambda>(is, c, m'). (i # is, c, (i, shut_stream RemoteGoAway stream) # m'))
                    (unset_loop last_stream_id (current - 1) m))
      else map_option (\<lambda>(is, c, m'). (is, c, (i, stream) # m')) (unset_loop last_stream_id current m))"

definition get_unset_streams :: "StreamId \<Rightarrow> ('b Streams, StreamId list, 'e) action" where
  "get_unset_streams last_stream_id s =
     (case unset_loop last_stream_id (ss_current_concurrent_streams s) (ss_stream_map s) of
        None \<Rightarrow> (Panic, s)
      | Some (is, current, m) \<Rightarrow>
          (Ok is, s\<lparr>ss_current_concurrent_streams := current, ss_stream_map := m\<rparr>))"

definition get_all_unclosed_streams :: "('b Streams, StreamId list, 'e) action" where
  "get_all_unclosed_streams s =
     (Ok (map fst (filter (\<lambda>(i, stream). \<not> is_Closed (st_state stream)) (ss_stream_map s))),
      s\<lparr>ss_stream_map :=
          map (\<lambda>(i, stream). (i, if is_Closed (st_state stream) then stream
                                 else shut_stream LocalGoAway stream)) (ss_stream_map s)\<rparr>)"

definition clear_streams_states :: "'b Streams \<Rightarrow> 'b Streams" where
  "clear_streams_states s =
     s\<lparr>ss_window_updating_streams := [], ss_pending_stream_window := [], ss_pending_send := [],
       ss_pending_conn_window := [], ss_pending_concurrency := []\<rparr>"

subsection \<open>The state machine of a stream\<close>

definition send_local_reset :: "StreamId \<Rightarrow> ('b Streams, StreamEndState, 'e) action" where
  "send_local_reset i s =
     (case stream_at i s of
        None \<Rightarrow> (Ok (SE_Err (ConnectionError ProtocolError)), s)
      | Some stream \<Rightarrow>
          (case st_state stream of
             Closed EndStream \<Rightarrow>
               (Ok SE_Ignore, put_stream i (stream\<lparr>st_state := Closed LocalRst\<rparr>) s)
           | Closed _ \<Rightarrow> (Ok SE_Ignore, s)
           | _ \<Rightarrow>
               andthen decrease_current_concurrency (\<lambda>_. give SE_OK)
                 (put_stream i (shut_stream LocalRst stream) s)))"

definition send_headers_frame :: "StreamId \<Rightarrow> bool \<Rightarrow> ('b Streams, FrameRecvState, 'e) action" where
  "send_headers_frame i eos s =
     (case stream_at i s of
        None \<Rightarrow> (Ok (FR_Err (ConnectionError ProtocolError)), s)
      | Some stream \<Rightarrow>
          (case st_state stream of
             Idle \<Rightarrow>
               (Ok FR_OK, put_stream i (stream\<lparr>st_state :=
                  if eos then LocalHalfClosed WaitHeaders else Open WaitData WaitHeaders\<rparr>) s)
           | Open WaitHeaders recv \<Rightarrow>
               (Ok FR_OK, put_stream i (stream\<lparr>st_state :=
                  if eos then LocalHalfClosed recv else Open WaitData recv\<rparr>) s)
           | RemoteHalfClosed WaitHeaders \<Rightarrow>
               if eos then
                 andthen decrease_current_concurrency (\<lambda>_. give FR_OK)
                   (put_stream i (stream\<lparr>st_state := Closed EndStream\<rparr>) s)
               else (Ok FR_OK, put_stream i (stream\<lparr>st_state := RemoteHalfClosed WaitData\<rparr>) s)
           | _ \<Rightarrow> (Ok (FR_Err (ConnectionError ProtocolError)), s)))"

definition send_data_frame :: "StreamId \<Rightarrow> bool \<Rightarrow> ('b Streams, FrameRecvState, 'e) action" where
  "send_data_frame i eos s =
     (case stream_at i s of
        None \<Rightarrow> (Ok (FR_Err (ConnectionError ProtocolError)), s)
      | Some stream \<Rightarrow>
          (case st_state stream of
             Open WaitData recv \<Rightarrow>
               (Ok FR_OK,
                if eos then put_stream i (stream\<lparr>st_state := LocalHalfClosed recv\<rparr>) s else s)
           | RemoteHalfClosed WaitData \<Rightarrow>
               if eos then
                 andthen decrease_current_concurrency (\<lambda>_. give FR_OK)
                   (put_stream i (stream\<lparr>st_state := Closed EndStream\<rparr>) s)
               else (Ok FR_OK, s)
           | _ \<Rightarrow> (Ok (FR_Err (ConnectionError ProtocolError)), s)))"

definition recv_remote_reset :: "StreamId \<Rightarrow> ('b Streams, StreamEndState, 'e) action" where
  "recv_remote_reset i s =
     (if i > ss_max_recv_id s then (Ok SE_Ignore, s)
      else case stream_at i s of
        None \<Rightarrow> (Ok (SE_Err (ConnectionError ProtocolError)), s)
      | Some stream \<Rightarrow>
          (case st_state stream of
             Closed _ \<Rightarrow> (Ok SE_Ignore, s)
           | _ \<Rightarrow>
               andthen decrease_current_concurrency (\<lambda>_. give SE_OK)
                 (put_stream i (shut_stream RemoteRst stream) s)))"

text \<open>The macro \<^verbatim>\<open>change_stream_state!\<close>, one definition per arm.\<close>

definition change_idle :: "bool \<Rightarrow> H2StreamState" where
  "change_idle eos = (if eos then RemoteHalfClosed WaitHeaders else Open WaitHeaders WaitData)"

definition change_open :: "bool \<Rightarrow> ActiveState \<Rightarrow> H2StreamState" where
  "change_open eos send = (if eos then RemoteHalfClosed send else Open send WaitData)"

definition change_half_closed :: "bool \<Rightarrow> H2StreamState" where
  "change_half_closed eos = (if eos then Closed EndStream else LocalHalfClosed WaitData)"

definition recv_headers :: "StreamId \<Rightarrow> bool \<Rightarrow> ('b Streams, FrameRecvState, 'e) action" where
  "recv_headers i eos s =
     (if i > ss_max_recv_id s then (Ok FR_Ignore, s)
      else case stream_at i s of
        None \<Rightarrow> (Ok (FR_Err (ConnectionError ProtocolError)), s)
      | Some stream \<Rightarrow>
          (case st_state stream of
             Idle \<Rightarrow> (Ok FR_OK, put_stream i (stream\<lparr>st_state := change_idle eos\<rparr>) s)
           | ReservedRemote \<Rightarrow>
               andthen (if eos then decrease_current_concurrency else give ()) (\<lambda>_. give FR_OK)
                 (put_stream i (stream\<lparr>st_state := change_half_closed eos\<rparr>) s)
           | Open send WaitHeaders \<Rightarrow>
               (Ok FR_OK, put_stream i (stream\<lparr>st_state := change_open eos send\<rparr>) s)
           | LocalHalfClosed WaitHeaders \<Rightarrow>
               andthen (if eos then decrease_current_concurrency else give ()) (\<lambda>_. give FR_OK)
                 (put_stream i (stream\<lparr>st_state := change_half_closed eos\<rparr>) s)
           | Closed LocalGoAway \<Rightarrow> (Ok FR_Ignore, s)
           | Closed LocalRst \<Rightarrow> (Ok FR_Ignore, s)
           | _ \<Rightarrow> (Ok (FR_Err (ConnectionError ProtocolError)), s)))"

definition recv_data :: "StreamId \<Rightarrow> bool \<Rightarrow> ('b Streams, FrameRecvState, 'e) action" where
  "recv_data i eos s =
     (if i > ss_max_recv_id s then (Ok FR_Ignore, s)
      else case stream_at i s of
        None \<Rightarrow> (Ok (FR_Err (ConnectionError ProtocolError)), s)
      | Some stream \<Rightarrow>
          (case st_state stream of
             Open send WaitData \<Rightarrow>
               (Ok FR_OK,
                if eos then put_stream i (stream\<lparr>st_state := RemoteHalfClosed send\<rparr>) s else s)
           | LocalHalfClosed WaitData \<Rightarrow>
               if eos then
                 andthen decrease_current_concurrency (\<lambda>_. give FR_OK)
                   (put_stream i (stream\<lparr>st_state := Closed EndStream\<rparr>) s)
               else (Ok FR_OK, s)
           | Closed LocalGoAway \<Rightarrow> (Ok FR_Ignore, s)
           | Closed LocalRst \<Rightarrow> (Ok FR_Ignore, s)
           | _ \<Rightarrow> (Ok (FR_Err (ConnectionError ProtocolError)), s)))"

definition generate_id :: "('b Streams, StreamId, DispatchErrorKind) action" where
  "generate_id s =
     (let i = ss_next_stream_id s in
      if i < DEFAULT_MAX_STREAM_ID then (Ok i, s\<lparr>ss_next_stream_id := i + 2\<rparr>)
      else (Err (DE_H2 (ConnectionError ProtocolError)), s))"

section \<open>Reading a body\<close>

text \<open>
  A DATA frame with octets takes them from the windows of its stream and of the connection, within
  both windows and the frame size.
\<close>

definition spend_window :: "nat \<Rightarrow> SendWindow \<Rightarrow> SendWindow" where
  "spend_window n w = w\<lparr>sw_size := sw_size w - int n\<rparr>"

lemma send_data_spends:
  assumes "SendWindow_send_data w (of_nat n) = Ok w'" "n \<le> BODY_MAX_FRAME_SIZE"
  shows "w' = spend_window n w" and "in_i32 (sw_size w')"
proof -
  have "as_i32 (of_nat n) = int n"
    using assms(2) by (intro as_i32_of_nat) (simp add: BODY_MAX_FRAME_SIZE_def)
  then show "w' = spend_window n w" and "in_i32 (sw_size w')"
    using assms(1) by (auto simp: SendWindow_send_data_def obind_eq_Ok spend_window_def)
qed

lemma poll_read_body_ReadyE:
  assumes "poll_read_body body_read i (s, w) = (Ok (DR_Ready frame), (s', w'))"
  obtains stream filled where
    "stream_at i s = Some stream" "\<not> is_Closed (st_state stream)"
    "frame = Frame_new i 0 (PL_Data filled)" "filled \<noteq> []"
    "length filled \<le> BODY_MAX_FRAME_SIZE"
    "length filled \<le> unat (SendWindow_size_available (st_send_window stream))"
    "length filled \<le> FlowControl_send_size_available (ss_flow_control s)"
    "s' = put_stream i (stream\<lparr>st_send_window := spend_window (length filled) (st_send_window stream)\<rparr>)
            (s\<lparr>ss_flow_control := (ss_flow_control s)\<lparr>fc_send_window :=
                 spend_window (length filled) (fc_send_window (ss_flow_control s))\<rparr>\<rparr>)"
    "in_i32 (sw_size (fc_send_window (ss_flow_control s')))"
proof -
  obtain stream filled sw cw where
    facts: "stream_at i s = Some stream" "\<not> is_Closed (st_state stream)"
      "frame = Frame_new i 0 (PL_Data filled)" "filled \<noteq> []"
      "length filled \<le> BODY_MAX_FRAME_SIZE"
      "length filled \<le> unat (SendWindow_size_available (st_send_window stream))"
      "length filled \<le> FlowControl_send_size_available (ss_flow_control s)"
    and sw: "SendWindow_send_data (st_send_window stream) (of_nat (length filled)) =
               (Ok sw :: (SendWindow, H2Error) outcome)"
    and cw: "SendWindow_send_data (fc_send_window (ss_flow_control s)) (of_nat (length filled)) =
               (Ok cw :: (SendWindow, H2Error) outcome)"
    and s': "s' = put_stream i (stream\<lparr>st_send_window := sw\<rparr>)
                    (s\<lparr>ss_flow_control := (ss_flow_control s)\<lparr>fc_send_window := cw\<rparr>\<rparr>)"
    using assms
    by (auto simp: poll_read_body_def poll_sized_data_def Let_def obind_eq_Ok FlowControl_send_data_def
        split: option.splits if_splits prod.splits BodyPoll.splits outcome.splits)
  note spent = send_data_spends [OF sw facts(5)] send_data_spends [OF cw facts(5)]
  show ?thesis
  proof (rule that [OF facts])
    show "s' = put_stream i (stream\<lparr>st_send_window := spend_window (length filled) (st_send_window stream)\<rparr>)
            (s\<lparr>ss_flow_control := (ss_flow_control s)\<lparr>fc_send_window :=
                 spend_window (length filled) (fc_send_window (ss_flow_control s))\<rparr>\<rparr>)"
      using s' spent by simp
    show "in_i32 (sw_size (fc_send_window (ss_flow_control s')))"
      using s' spent by (simp add: put_stream_def)
  qed
qed

lemma available_pos: "n > 0 \<Longrightarrow> n \<le> unat (SendWindow_size_available w) \<Longrightarrow> 0 < sw_size w"
  by (cases "sw_size w = 0") (auto simp: SendWindow_size_available_def as_u32_def split: if_splits)

end
