(* ===== verification/H2_Manager.thy ===== *)
theory H2_Manager
  imports H2_Streams
begin

text \<open>
  The connection manager of the HTTP/2 client (\<^verbatim>\<open>ylong_http_client/src/util/h2/manager.rs\<close>) and the
  stream controller it owns (\<^verbatim>\<open>StreamController\<close> of \<^verbatim>\<open>util/dispatcher.rs\<close>). The runtime (its channels
  and the readers of request bodies) is a parameter \<open>R\<close>: operations on the state \<open>'w\<close> of the world.
  \<^verbatim>\<open>Poll<Result<T, E>>\<close> is an action whose value may be \<open>Pending\<close>. The manager also carries
  \<open>mg_out\<close>, the frames it has handed to the channel of the writer so far, in order.
\<close>

section \<open>Messages and the runtime\<close>

datatype 'a poll = Ready 'a | Pending

datatype RespMessage = RM_Output Frame | RM_OutputExit DispatchErrorKind

datatype OutputMessage = OM_Output Frame | OM_OutputExit DispatchErrorKind

record 'b RequestWrapper =
  rw_flag :: FrameFlags
  rw_payload :: Payload
  rw_data :: "'b BodyDataRef"

record ('b, 'h) ReqMessage =
  rq_sender :: 'h
  rq_request :: "'b RequestWrapper"

datatype SettingsState = Acknowledging Settings | Synced

datatype ManagerState = MS_Send | MS_Receive | MS_Exit DispatchErrorKind

text \<open>Polling a bounded sender, and polling a receiver.\<close>

datatype SendPoll = SP_Sent | SP_Closed | SP_Pending

datatype 'm RecvPoll = RP_Message 'm | RP_Closed | RP_Pending

record ('w, 'b, 'h) runtime =
  rt_body_read :: "'b \<Rightarrow> nat \<Rightarrow> 'w \<Rightarrow> BodyPoll \<times> 'w"
  rt_channel_send :: "'h \<Rightarrow> RespMessage \<Rightarrow> 'w \<Rightarrow> SendPoll \<times> 'w"
  rt_try_send :: "'h \<Rightarrow> RespMessage \<Rightarrow> 'w \<Rightarrow> 'w"
  rt_input_send :: "Frame \<Rightarrow> 'w \<Rightarrow> bool \<times> 'w"
  rt_resp_recv :: "'w \<Rightarrow> OutputMessage RecvPoll \<times> 'w"
  rt_req_recv :: "'w \<Rightarrow> ('b, 'h) ReqMessage RecvPoll \<times> 'w"
  rt_req_close :: "'w \<Rightarrow> 'w"

section \<open>State\<close>

record ('b, 'h) StreamController =
  sc_io_shutdown :: bool
  sc_io_goaway :: bool
  sc_senders :: "(StreamId \<times> 'h) list"
  sc_curr_message :: "(StreamId \<times> 'h \<times> RespMessage) list"
  sc_streams :: "'b Streams"
  sc_go_away_error_code :: "u32 option"
  sc_going_away :: "Goaway option"

definition StreamController_new :: "'b Streams \<Rightarrow> bool \<Rightarrow> bool \<Rightarrow> ('b, 'h) StreamController" where
  "StreamController_new streams shutdown goaway =
     \<lparr>sc_io_shutdown = shutdown, sc_io_goaway = goaway, sc_senders = [], sc_curr_message = [],
      sc_streams = streams, sc_go_away_error_code = None, sc_going_away = None\<rparr>"

record ('w, 'b, 'h) ConnManager =
  mg_state :: ManagerState
  mg_next_state :: ManagerState
  mg_settings :: SettingsState
  mg_controller :: "('b, 'h) StreamController"
  mg_world :: 'w
  mg_out :: "Frame list"

definition ConnManager_new ::
  "SettingsState \<Rightarrow> ('b, 'h) StreamController \<Rightarrow> 'w \<Rightarrow> Frame list \<Rightarrow> ('w, 'b, 'h) ConnManager" where
  "ConnManager_new settings controller world out =
     \<lparr>mg_state = MS_Receive, mg_next_state = MS_Receive, mg_settings = settings,
      mg_controller = controller, mg_world = world, mg_out = out\<rparr>"

abbreviation mg_streams :: "('w, 'b, 'h) ConnManager \<Rightarrow> 'b Streams" where
  "mg_streams m \<equiv> sc_streams (mg_controller m)"

definition set_streams :: "'b Streams \<Rightarrow> ('w, 'b, 'h) ConnManager \<Rightarrow> ('w, 'b, 'h) ConnManager" where
  "set_streams s m = m\<lparr>mg_controller := (mg_controller m)\<lparr>sc_streams := s\<rparr>\<rparr>"

definition on_streams :: "('b Streams, 'a, 'e) action \<Rightarrow> (('w, 'b, 'h) ConnManager, 'a, 'e) action" where
  "on_streams = inside mg_streams set_streams"

definition on_controller ::
  "(('b, 'h) StreamController \<Rightarrow> ('b, 'h) StreamController) \<Rightarrow>
     (('w, 'b, 'h) ConnManager, unit, 'e) action" where
  "on_controller f = modify (\<lambda>m. m\<lparr>mg_controller := f (mg_controller m)\<rparr>)"

definition set_states :: "ManagerState \<Rightarrow> ManagerState \<Rightarrow> (('w, 'b, 'h) ConnManager, unit, 'e) action" where
  "set_states st next = modify (\<lambda>m. m\<lparr>mg_state := st, mg_next_state := next\<rparr>)"

text \<open>\<^verbatim>\<open>UnboundedSender::send\<close> of the channel to the writer.\<close>

type_synonym 'w port = "'w \<times> Frame list"

definition input_send :: "('w, 'b, 'h) runtime \<Rightarrow> Frame \<Rightarrow> ('w port, bool, 'e) action" where
  "input_send R frame = (\<lambda>(w, out).
     case rt_input_send R frame w of (open, w') \<Rightarrow> (Ok open, (w', out @ [frame])))"

definition on_port ::
  "('b Streams \<times> 'w port, 'a, 'e) action \<Rightarrow> (('w, 'b, 'h) ConnManager, 'a, 'e) action" where
  "on_port = inside (\<lambda>m. (mg_streams m, mg_world m, mg_out m))
                    (\<lambda>(s, w, out) m. set_streams s (m\<lparr>mg_world := w, mg_out := out\<rparr>))"

definition input_tx_send ::
  "('w, 'b, 'h) runtime \<Rightarrow> Frame \<Rightarrow> (('w, 'b, 'h) ConnManager, unit, DispatchErrorKind) action" where
  "input_tx_send R frame = on_port (send_or_closed (input_send R frame))"

section \<open>Stream controller\<close>

definition shutdown :: "(('w, 'b, 'h) ConnManager, unit, 'e) action" where
  "shutdown = on_controller (\<lambda>c. c\<lparr>sc_io_shutdown := True\<rparr>)"

definition goaway :: "(('w, 'b, 'h) ConnManager, unit, 'e) action" where
  "goaway = on_controller (\<lambda>c. c\<lparr>sc_io_goaway := True\<rparr>)"

definition get_unsent_streams ::
  "StreamId \<Rightarrow> ('b Streams, StreamId list, H2Error) action" where
  "get_unsent_streams last_stream_id =
     andthen (view ss_max_send_id) (\<lambda>max_send_id.
       if max_send_id < last_stream_id then fail (ConnectionError ProtocolError)
       else
         andthen (modify (\<lambda>s. s\<lparr>ss_max_send_id := last_stream_id\<rparr>)) (\<lambda>_.
           get_unset_streams last_stream_id))"

definition send_message_to_stream ::
  "('w, 'b, 'h) runtime \<Rightarrow> StreamId \<Rightarrow> RespMessage \<Rightarrow>
     (('w, 'b, 'h) ConnManager, unit poll, H2Error) action" where
  "send_message_to_stream R i message m =
     (let c = mg_controller m in
      case map_of (sc_senders c) i of
        Some sender \<Rightarrow>
          (case rt_channel_send R sender message (mg_world m) of
             (SP_Sent, w) \<Rightarrow> (Ok (Ready ()), m\<lparr>mg_world := w\<rparr>)
           | (SP_Closed, w) \<Rightarrow>
               (Err (StreamError i NoError),
                m\<lparr>mg_world := w, mg_controller := c\<lparr>sc_senders := AList.delete i (sc_senders c)\<rparr>\<rparr>)
           | (SP_Pending, w) \<Rightarrow>
               (Ok Pending,
                m\<lparr>mg_world := w, mg_controller :=
                   c\<lparr>sc_curr_message := AList.update i (sender, message) (sc_curr_message c)\<rparr>\<rparr>))
      | None \<Rightarrow> (Err (StreamError i NoError), m))"

text \<open>
  The loop of \<^verbatim>\<open>poll_blocked_message\<close> over the keys it collected; the frame it sends when a stream
  is reset is dropped silently if the writer is gone.
\<close>

fun blocked_loop ::
  "('w, 'b, 'h) runtime \<Rightarrow> StreamId list \<Rightarrow> bool \<Rightarrow> (('w, 'b, 'h) ConnManager, bool, 'e) action" where
  "blocked_loop R [] blocked = give blocked"
| "blocked_loop R (key # keys) blocked =
     andthen (view (\<lambda>m. map_of (sc_curr_message (mg_controller m)) key)) (\<lambda>found.
       case found of
         None \<Rightarrow> blocked_loop R keys blocked
       | Some (sender, message) \<Rightarrow>
           andthen (on_controller (\<lambda>c. c\<lparr>sc_curr_message := AList.delete key (sc_curr_message c)\<rparr>)) (\<lambda>_.
           andthen (\<lambda>m. case rt_channel_send R sender message (mg_world m) of
                          (r, w) \<Rightarrow> (Ok r, m\<lparr>mg_world := w\<rparr>)) (\<lambda>r.
             case r of
               SP_Sent \<Rightarrow> blocked_loop R keys blocked
             | SP_Closed \<Rightarrow>
                 andthen (on_controller (\<lambda>c. c\<lparr>sc_senders := AList.delete key (sc_senders c)\<rparr>)) (\<lambda>_.
                 andthen (view (\<lambda>m. stream_state key (mg_streams m))) (\<lambda>state.
                 andthen (case state of
                            None \<Rightarrow> give ()
                          | Some st \<Rightarrow>
                              if is_Closed st then give ()
                              else
                                andthen (on_streams (send_local_reset key)) (\<lambda>e.
                                  if e = SE_OK then
                                    andthen (attempt (input_tx_send R
                                        (Frame_new key FrameFlags_empty (PL_RstStream (into_code NoError)))))
                                      (\<lambda>_. give ())
                                  else give ())) (\<lambda>_.
                   blocked_loop R keys blocked)))
             | SP_Pending \<Rightarrow>
                 andthen (on_controller (\<lambda>c. c\<lparr>sc_curr_message :=
                     AList.update key (sender, message) (sc_curr_message c)\<rparr>)) (\<lambda>_.
                   blocked_loop R keys True))))"

definition poll_blocked_message ::
  "('w, 'b, 'h) runtime \<Rightarrow> (('w, 'b, 'h) ConnManager, unit poll, 'e) action" where
  "poll_blocked_message R =
     andthen (view (\<lambda>m. map fst (sc_curr_message (mg_controller m)))) (\<lambda>keys.
     andthen (blocked_loop R keys False) (\<lambda>blocked.
       give (if blocked then Pending else Ready ())))"

section \<open>Sending requests\<close>

text \<open>The check of \<^verbatim>\<open>poll_send_frame\<close>: HEADERS and DATA move the state of their stream.\<close>

definition send_frame_state :: "Frame \<Rightarrow> ('b Streams, FrameRecvState, DispatchErrorKind) action" where
  "send_frame_state frame =
     (case fr_payload frame of
        PL_Headers _ \<Rightarrow> send_headers_frame (fr_id frame) (FrameFlags_is_end_stream (fr_flags frame))
      | PL_Data _ \<Rightarrow> send_data_frame (fr_id frame) (FrameFlags_is_end_stream (fr_flags frame))
      | _ \<Rightarrow> give FR_OK)"

definition poll_send_frame ::
  "('w, 'b, 'h) runtime \<Rightarrow> Frame \<Rightarrow> (('w, 'b, 'h) ConnManager, unit, DispatchErrorKind) action" where
  "poll_send_frame R frame =
     andthen (on_streams (send_frame_state frame)) (\<lambda>state.
       case state of
         FR_Err e \<Rightarrow> fail (DE_H2 e)
       | _ \<Rightarrow> input_tx_send R frame)"

definition manage_stream_error ::
  "('w, 'b, 'h) runtime \<Rightarrow> StreamId \<Rightarrow> ErrorCode \<Rightarrow>
     (('w, 'b, 'h) ConnManager, unit poll, DispatchErrorKind) action" where
  "manage_stream_error R i code =
     andthen (on_streams (send_local_reset i)) (\<lambda>e.
       case e of
         SE_OK \<Rightarrow>
           andthen (input_tx_send R (Frame_new i FrameFlags_empty (PL_RstStream (into_code code)))) (\<lambda>_.
           andthen (attempt (send_message_to_stream R i (RM_OutputExit (DE_H2 (StreamError i code))))) (\<lambda>r.
             case r of
               Inr Pending \<Rightarrow> andthen (set_states MS_Send MS_Receive) (\<lambda>_. give Pending)
             | _ \<Rightarrow> give (Ready ())))
       | SE_Ignore \<Rightarrow> give (Ready ())
       | SE_Err err \<Rightarrow> fail (DE_H2 err))"

definition deal_poll_body_error ::
  "('w, 'b, 'h) runtime \<Rightarrow> H2Error \<Rightarrow> (('w, 'b, 'h) ConnManager, unit, DispatchErrorKind) action" where
  "deal_poll_body_error R e =
     (case e of
        StreamError i code \<Rightarrow> andthen (manage_stream_error R i code) (\<lambda>_. give ())
      | ConnectionError code \<Rightarrow> fail (DE_H2 (ConnectionError code)))"

definition on_world_streams ::
  "('b Streams \<times> 'w, 'a, 'e) action \<Rightarrow> (('w, 'b, 'h) ConnManager, 'a, 'e) action" where
  "on_world_streams = inside (\<lambda>m. (mg_streams m, mg_world m)) (\<lambda>(s, w) m. set_streams s (m\<lparr>mg_world := w\<rparr>))"

lemma on_port_flow:
  "on_port (send_or_closed (input_send R frame)) m = (r, m') \<Longrightarrow> mg_streams m' = mg_streams m"
  by (auto simp: on_port_def inside_def send_or_closed_def andthen_def input_send_def set_streams_def
      give_def fail_def split: prod.splits outcome.splits if_splits bool.splits)

lemma send_headers_frame_flow:
  "send_headers_frame i eos s = (r, s') \<Longrightarrow> ss_flow_control s' = ss_flow_control s"
  by (auto simp: send_headers_frame_def put_stream_def andthen_def decrease_current_concurrency_def give_def
      split: option.splits H2StreamState.splits ActiveState.splits if_splits)

lemma send_data_frame_flow:
  "send_data_frame i eos s = (r, s') \<Longrightarrow> ss_flow_control s' = ss_flow_control s"
  by (auto simp: send_data_frame_def put_stream_def andthen_def decrease_current_concurrency_def give_def
      split: option.splits H2StreamState.splits ActiveState.splits if_splits)

lemma send_frame_state_flow:
  "send_frame_state frame s = (r, s') \<Longrightarrow> ss_flow_control s' = ss_flow_control s"
  by (auto simp: send_frame_state_def give_def split: Payload.splits
      dest: send_headers_frame_flow send_data_frame_flow)

lemma poll_send_frame_flow:
  assumes "poll_send_frame R frame m = (r, m')"
  shows "ss_flow_control (mg_streams m') = ss_flow_control (mg_streams m)"
proof -
  obtain q s' where sent: "send_frame_state frame (mg_streams m) = (q, s')"
    by (cases "send_frame_state frame (mg_streams m)")
  then have "mg_streams m' = s'"
    using assms
    by (auto simp: poll_send_frame_def andthen_def input_tx_send_def fail_def on_streams_def inside_def
        set_streams_def split: outcome.splits FrameRecvState.splits dest!: on_port_flow)
  then show ?thesis using send_frame_state_flow [OF sent] by simp
qed

text \<open>Every DATA frame with octets takes them from the window of the connection.\<close>

lemma poll_read_body_Ready:
  assumes "poll_read_body body_read i (s, w) = (Ok (DR_Ready frame), (s', w'))"
  shows "nat (sw_size (fc_send_window (ss_flow_control s'))) < nat (sw_size (fc_send_window (ss_flow_control s)))"
  using assms
proof (rule poll_read_body_ReadyE)
  fix stream filled
  assume "filled \<noteq> []" "length filled \<le> FlowControl_send_size_available (ss_flow_control s)"
    "s' = put_stream i (stream\<lparr>st_send_window := spend_window (length filled) (st_send_window stream)\<rparr>)
            (s\<lparr>ss_flow_control := (ss_flow_control s)\<lparr>fc_send_window :=
                 spend_window (length filled) (fc_send_window (ss_flow_control s))\<rparr>\<rparr>)"
  then show ?thesis
    using available_pos [of "length filled" "fc_send_window (ss_flow_control s)"]
    by (simp add: put_stream_def spend_window_def FlowControl_send_size_available_def)
qed

lemma input_turn_spends:
  assumes "on_world_streams (poll_read_body (rt_body_read R) i) m = (Ok (DR_Ready data), m')"
    and "poll_send_frame R data m' = (r, m'')"
  shows "nat (sw_size (fc_send_window (ss_flow_control (mg_streams m'')))) <
    nat (sw_size (fc_send_window (ss_flow_control (mg_streams m))))"
proof -
  obtain s' w' where "poll_read_body (rt_body_read R) i (mg_streams m, mg_world m) =
      (Ok (DR_Ready data), (s', w'))" "mg_streams m' = s'"
    using assms(1) by (cases "poll_read_body (rt_body_read R) i (mg_streams m, mg_world m)")
      (auto simp: on_world_streams_def inside_def set_streams_def)
  then show ?thesis
    using poll_read_body_Ready poll_send_frame_flow [OF assms(2)] by metis
qed

text \<open>
  The loop of \<^verbatim>\<open>input_stream_frame\<close>: it ends because every turn that goes on has spent octets of the
  connection's window.
\<close>

function input_body_loop ::
  "('w, 'b, 'h) runtime \<Rightarrow> StreamId \<Rightarrow> (('w, 'b, 'h) ConnManager, unit, DispatchErrorKind) action" where
  "input_body_loop R i m =
     (case on_world_streams (poll_read_body (rt_body_read R) i) m of
        (Ok DR_Closed, m') \<Rightarrow> (Ok (), m')
      | (Ok DR_Pending, m') \<Rightarrow> (Ok (), m')
      | (Ok (DR_Ready data), m') \<Rightarrow>
          (case poll_send_frame R data m' of
             (Ok _, m'') \<Rightarrow> input_body_loop R i m''
           | (Err e, m'') \<Rightarrow> (Err e, m'')
           | (Panic, m'') \<Rightarrow> (Panic, m''))
      | (Ok (DR_Finish frame), m') \<Rightarrow> poll_send_frame R frame m'
      | (Err e, m') \<Rightarrow> deal_poll_body_error R e m'
      | (Panic, m') \<Rightarrow> (Panic, m'))"
  by pat_completeness auto
termination
  by (relation "measure (\<lambda>(R, i, m). nat (sw_size (fc_send_window (ss_flow_control (mg_streams m)))))")
    (auto dest: input_turn_spends [OF sym sym])

declare input_body_loop.simps [simp del]

definition input_stream_frame ::
  "('w, 'b, 'h) runtime \<Rightarrow> StreamId \<Rightarrow> (('w, 'b, 'h) ConnManager, unit, DispatchErrorKind) action" where
  "input_stream_frame R i =
     andthen (relabel DE_H2 (on_streams (headers i))) (\<lambda>header.
       case header of
         None \<Rightarrow> input_body_loop R i
       | Some frame \<Rightarrow>
           andthen (poll_send_frame R frame) (\<lambda>_.
             if FrameFlags_is_end_stream (fr_flags frame) then give ()
             else input_body_loop R i))"

fun input_request_loop ::
  "('w, 'b, 'h) runtime \<Rightarrow> nat \<Rightarrow> (('w, 'b, 'h) ConnManager, unit, DispatchErrorKind) action" where
  "input_request_loop R 0 = give ()"
| "input_request_loop R (Suc n) =
     andthen (on_streams next_pending_stream) (\<lambda>found.
       case found of
         None \<Rightarrow> give ()
       | Some i \<Rightarrow> andthen (input_stream_frame R i) (\<lambda>_. input_request_loop R n))"

definition poll_input_request ::
  "('w, 'b, 'h) runtime \<Rightarrow> (('w, 'b, 'h) ConnManager, unit, DispatchErrorKind) action" where
  "poll_input_request R =
     andthen (on_streams try_consume_pending_concurrency) (\<lambda>_.
     andthen (view (\<lambda>m. pending_stream_num (mg_streams m))) (\<lambda>n.
       input_request_loop R n))"

text \<open>One new stream, as \<^verbatim>\<open>poll_recv_request\<close> registers it once it has its identifier.\<close>

definition register_stream ::
  "StreamId \<Rightarrow> FrameFlags \<Rightarrow> Payload \<Rightarrow> 'b BodyDataRef \<Rightarrow> ('b Streams, unit, 'e) action" where
  "register_stream i flag payload data =
     andthen (view (\<lambda>s. reach_max_concurrency s \<or> \<not> is_pending_concurrency_empty s)) (\<lambda>wait.
     andthen (if wait then modify (push_pending_concurrency i)
              else andthen increase_current_concurrency (\<lambda>_. modify (push_back_pending_send i))) (\<lambda>_.
       modify (insert_stream i (Frame_new i flag payload) data)))"

definition accept_request ::
  "StreamId \<Rightarrow> ('b, 'h) ReqMessage \<Rightarrow> (('w, 'b, 'h) ConnManager, unit, 'e) action" where
  "accept_request i message =
     andthen (on_streams (register_stream i (rw_flag (rq_request message))
                (rw_payload (rq_request message)) (rw_data (rq_request message)))) (\<lambda>_.
       on_controller (\<lambda>c. c\<lparr>sc_senders := AList.update i (rq_sender message) (sc_senders c)\<rparr>))"

lemma generate_id_less:
  "generate_id s = (Ok i, s') \<Longrightarrow>
     i = ss_next_stream_id s \<and> ss_next_stream_id s' = i + 2 \<and> i < DEFAULT_MAX_STREAM_ID"
  by (auto simp: generate_id_def Let_def split: if_splits)

lemma next_id_grows:
  fixes i :: StreamId
  assumes "i < DEFAULT_MAX_STREAM_ID"
  shows "unat (i + 2) = unat i + 2" and "unat i + 2 < 2 ^ 31 + 2"
proof -
  have "unat i < 2147483647"
    using assms by (simp add: DEFAULT_MAX_STREAM_ID_def mask_eq_exp_minus_1 word_less_nat_alt)
  then show "unat (i + 2) = unat i + 2" and "unat i + 2 < 2 ^ 31 + 2"
    by (simp_all add: unat_word_ariths)
qed

lemma register_stream_next_id:
  "register_stream i flag payload data s = (r, s') \<Longrightarrow> ss_next_stream_id s' = ss_next_stream_id s"
  by (auto simp: register_stream_def action_defs push_pending_concurrency_def push_back_pending_send_def
      increase_current_concurrency_def insert_stream_def put_stream_def Let_def split: if_splits)

lemma accept_request_next_id:
  "accept_request i message m = (r, m') \<Longrightarrow> ss_next_stream_id (mg_streams m') = ss_next_stream_id (mg_streams m)"
  by (auto simp: accept_request_def on_streams_def on_controller_def action_defs set_streams_def
      dest!: register_stream_next_id split: prod.splits outcome.splits)

lemma accept_uses_id:
  assumes "on_streams generate_id (m\<lparr>mg_world := w\<rparr>) = (Ok i, m1)"
    and "accept_request i message m1 = (r, m2)"
  shows "2 ^ 31 + 2 - unat (ss_next_stream_id (mg_streams m2)) < 2 ^ 31 + 2 - unat (ss_next_stream_id (mg_streams m))"
proof -
  obtain s' where "generate_id (mg_streams m) = (Ok i, s')" "mg_streams m1 = s'"
    using assms(1) by (cases "generate_id (mg_streams m)") (auto simp: on_streams_def inside_def set_streams_def)
  then have "ss_next_stream_id (mg_streams m1) = ss_next_stream_id (mg_streams m) + 2"
    "ss_next_stream_id (mg_streams m) < DEFAULT_MAX_STREAM_ID"
    using generate_id_less [of "mg_streams m" i s'] by auto
  then show ?thesis
    using accept_request_next_id [OF assms(2)] next_id_grows [of "ss_next_stream_id (mg_streams m)"] by simp
qed

text \<open>The loop of \<^verbatim>\<open>poll_recv_request\<close> ends at the latest when the identifiers are used up.\<close>

function poll_recv_request ::
  "('w, 'b, 'h) runtime \<Rightarrow> (('w, 'b, 'h) ConnManager, unit, DispatchErrorKind) action" where
  "poll_recv_request R m =
     (case rt_req_recv R (mg_world m) of
        (RP_Closed, w) \<Rightarrow> (Err DE_ChannelClosed, m\<lparr>mg_world := w\<rparr>)
      | (RP_Pending, w) \<Rightarrow> (Ok (), m\<lparr>mg_world := w\<rparr>)
      | (RP_Message message, w) \<Rightarrow>
          (case on_streams generate_id (m\<lparr>mg_world := w\<rparr>) of
             (Ok i, m1) \<Rightarrow>
               (case accept_request i message m1 of
                  (Ok _, m2) \<Rightarrow> poll_recv_request R m2
                | (Err e, m2) \<Rightarrow> (Err e, m2)
                | (Panic, m2) \<Rightarrow> (Panic, m2))
           | (Err e, m1) \<Rightarrow>
               (Ok (), m1\<lparr>mg_world := rt_try_send R (rq_sender message) (RM_OutputExit e) (mg_world m1)\<rparr>)
           | (Panic, m1) \<Rightarrow> (Panic, m1)))"
  by pat_completeness auto
termination
  by (relation "measure (\<lambda>(R, m). 2 ^ 31 + 2 - unat (ss_next_stream_id (mg_streams m)))")
    (auto dest: accept_uses_id [OF sym sym])

declare poll_recv_request.simps [simp del]

section \<open>Receiving frames\<close>

fun apply_acknowledged :: "Settings \<Rightarrow> ('b Streams, unit, 'e) action" where
  "apply_acknowledged [] = give ()"
| "apply_acknowledged (setting # settings) =
     andthen (case setting of
                InitialWindowSize sz \<Rightarrow> apply_recv_initial_window_size sz
              | _ \<Rightarrow> give ()) (\<lambda>_. apply_acknowledged settings)"

fun apply_settings :: "Settings \<Rightarrow> ('b Streams, unit, H2Error) action" where
  "apply_settings [] = give ()"
| "apply_settings (setting # settings) =
     andthen (case setting of
                MaxConcurrentStreams num \<Rightarrow> modify (apply_max_concurrent_streams num)
              | InitialWindowSize sz \<Rightarrow> apply_send_initial_window_size sz
              | _ \<Rightarrow> give ()) (\<lambda>_. apply_settings settings)"

definition recv_settings_frame ::
  "('w, 'b, 'h) runtime \<Rightarrow> Frame \<Rightarrow> (('w, 'b, 'h) ConnManager, unit, DispatchErrorKind) action" where
  "recv_settings_frame R frame =
     (case fr_payload frame of
        PL_Settings settings \<Rightarrow>
          if FrameFlags_is_ack (fr_flags frame) then
            andthen (view mg_settings) (\<lambda>connection.
            andthen (case connection of
                       Acknowledging acknowledged \<Rightarrow> on_streams (apply_acknowledged acknowledged)
                     | Synced \<Rightarrow> give ()) (\<lambda>_.
              modify (\<lambda>m. m\<lparr>mg_settings := Synced\<rparr>)))
          else
            andthen (relabel DE_H2 (on_streams (apply_settings settings))) (\<lambda>_.
              input_tx_send R (Frame_new (fr_id frame) 0x1 (fr_payload frame)))
      | _ \<Rightarrow> give ())"

definition recv_ping_frame ::
  "('w, 'b, 'h) runtime \<Rightarrow> Frame \<Rightarrow> (('w, 'b, 'h) ConnManager, unit, DispatchErrorKind) action" where
  "recv_ping_frame R frame =
     (case fr_payload frame of
        PL_Ping ping \<Rightarrow>
          if FrameFlags_is_ack (fr_flags frame) then give () else input_tx_send R (Ping_ack ping)
      | _ \<Rightarrow> give ())"

text \<open>The message to every stream of a list, errors ignored; the value tells whether one is blocked.\<close>

fun notify_streams ::
  "('w, 'b, 'h) runtime \<Rightarrow> RespMessage \<Rightarrow> StreamId list \<Rightarrow> bool \<Rightarrow>
     (('w, 'b, 'h) ConnManager, bool, 'e) action" where
  "notify_streams R message [] blocked = give blocked"
| "notify_streams R message (i # is) blocked =
     andthen (attempt (send_message_to_stream R i message)) (\<lambda>r.
       notify_streams R message is (case r of Inr Pending \<Rightarrow> True | _ \<Rightarrow> blocked))"

definition recv_go_away_frame ::
  "('w, 'b, 'h) runtime \<Rightarrow> Frame \<Rightarrow> (('w, 'b, 'h) ConnManager, unit poll, H2Error) action" where
  "recv_go_away_frame R frame =
     (case fr_payload frame of
        PL_Goaway go_away \<Rightarrow>
          andthen goaway (\<lambda>_.
          andthen (modify (\<lambda>m. m\<lparr>mg_world := rt_req_close R (mg_world m)\<rparr>)) (\<lambda>_.
          andthen (on_streams (get_unsent_streams (ga_last_stream_id go_away))) (\<lambda>streams.
          andthen (lift (ErrorCode_try_from (ga_error_code go_away))) (\<lambda>code.
          andthen (notify_streams R (RM_OutputExit (DE_H2 (ConnectionError code))) streams False) (\<lambda>blocked.
          andthen (on_controller (\<lambda>c. c\<lparr>sc_go_away_error_code := Some (ga_error_code go_away)\<rparr>)) (\<lambda>_.
            give (if blocked then Pending else Ready ())))))))
      | _ \<Rightarrow> give (Ready ()))"

definition recv_reset_frame ::
  "('w, 'b, 'h) runtime \<Rightarrow> Frame \<Rightarrow> (('w, 'b, 'h) ConnManager, unit poll, H2Error) action" where
  "recv_reset_frame R frame =
     andthen (on_streams (recv_remote_reset (fr_id frame))) (\<lambda>e.
       case e of
         SE_OK \<Rightarrow> send_message_to_stream R (fr_id frame) (RM_Output frame)
       | SE_Err err \<Rightarrow> fail err
       | SE_Ignore \<Rightarrow> give (Ready ()))"

definition recv_header_frame ::
  "('w, 'b, 'h) runtime \<Rightarrow> Frame \<Rightarrow> (('w, 'b, 'h) ConnManager, unit poll, H2Error) action" where
  "recv_header_frame R frame =
     andthen (on_streams (recv_headers (fr_id frame) (FrameFlags_is_end_stream (fr_flags frame)))) (\<lambda>e.
       case e of
         FR_OK \<Rightarrow> send_message_to_stream R (fr_id frame) (RM_Output frame)
       | FR_Err err \<Rightarrow> fail err
       | FR_Ignore \<Rightarrow> give (Ready ()))"

definition update_window ::
  "('w, 'b, 'h) runtime \<Rightarrow> StreamId \<Rightarrow> u32 \<Rightarrow> (('w, 'b, 'h) ConnManager, unit, DispatchErrorKind) action" where
  "update_window R i len =
     andthen (on_port (release_conn_recv_window (input_send R) len)) (\<lambda>_.
       on_port (release_stream_recv_window (input_send R) i len))"

definition recv_data_frame ::
  "('w, 'b, 'h) runtime \<Rightarrow> Frame \<Rightarrow> (('w, 'b, 'h) ConnManager, unit poll, DispatchErrorKind) action" where
  "recv_data_frame R frame =
     (case fr_payload frame of
        PL_Data data \<Rightarrow>
          andthen (update_window R (fr_id frame) (of_nat (length data))) (\<lambda>_.
          andthen (on_streams (recv_data (fr_id frame) (FrameFlags_is_end_stream (fr_flags frame)))) (\<lambda>e.
            case e of
              FR_OK \<Rightarrow> relabel DE_H2 (send_message_to_stream R (fr_id frame) (RM_Output frame))
            | FR_Ignore \<Rightarrow> give (Ready ())
            | FR_Err err \<Rightarrow> fail (DE_H2 err)))
      | _ \<Rightarrow> give (Ready ()))"

definition recv_window_frame ::
  "Frame \<Rightarrow> (('w, 'b, 'h) ConnManager, unit, DispatchErrorKind) action" where
  "recv_window_frame frame =
     (case fr_payload frame of
        PL_WindowUpdate increment \<Rightarrow>
          relabel DE_H2 (on_streams
            (if fr_id frame = 0 then
               andthen (increase_conn_send_window increment) (\<lambda>_. modify reassign_conn_send_window)
             else reassign_stream_send_window (fr_id frame) increment))
      | _ \<Rightarrow> give ())"

definition poll_recv_frame ::
  "('w, 'b, 'h) runtime \<Rightarrow> Frame \<Rightarrow> (('w, 'b, 'h) ConnManager, unit poll, DispatchErrorKind) action" where
  "poll_recv_frame R frame =
     (case fr_payload frame of
        PL_Settings _ \<Rightarrow> andthen (recv_settings_frame R frame) (\<lambda>_. give (Ready ()))
      | PL_Ping _ \<Rightarrow> andthen (recv_ping_frame R frame) (\<lambda>_. give (Ready ()))
      | PL_PushPromise _ \<Rightarrow> fail (DE_H2 (ConnectionError ProtocolError))
      | PL_Goaway _ \<Rightarrow> relabel DE_H2 (recv_go_away_frame R frame)
      | PL_RstStream _ \<Rightarrow> relabel DE_H2 (recv_reset_frame R frame)
      | PL_Headers _ \<Rightarrow> relabel DE_H2 (recv_header_frame R frame)
      | PL_Data _ \<Rightarrow> recv_data_frame R frame
      | PL_WindowUpdate _ \<Rightarrow> andthen (recv_window_frame frame) (\<lambda>_. give (Ready ()))
      | PL_Priority _ \<Rightarrow> give (Ready ()))"

section \<open>Errors and the end of the connection\<close>

definition exit_with_error ::
  "('w, 'b, 'h) runtime \<Rightarrow> DispatchErrorKind \<Rightarrow> (('w, 'b, 'h) ConnManager, bool, 'e) action" where
  "exit_with_error R error =
     andthen shutdown (\<lambda>_.
     andthen (modify (\<lambda>m. m\<lparr>mg_world := rt_req_close R (mg_world m)\<rparr>)) (\<lambda>_.
     andthen (on_streams (modify clear_streams_states)) (\<lambda>_.
     andthen (on_streams get_all_unclosed_streams) (\<lambda>is.
       notify_streams R (RM_OutputExit error) is False))))"

text \<open>What the callers of \<^verbatim>\<open>exit_with_error\<close> do with its answer.\<close>

definition exit_or_wait ::
  "('w, 'b, 'h) runtime \<Rightarrow> DispatchErrorKind \<Rightarrow>
     (('w, 'b, 'h) ConnManager, unit poll, DispatchErrorKind) action" where
  "exit_or_wait R error =
     andthen (exit_with_error R error) (\<lambda>blocked.
       if blocked then andthen (set_states MS_Send (MS_Exit error)) (\<lambda>_. give Pending)
       else fail error)"

definition manage_conn_error ::
  "('w, 'b, 'h) runtime \<Rightarrow> ErrorCode \<Rightarrow>
     (('w, 'b, 'h) ConnManager, unit poll, DispatchErrorKind) action" where
  "manage_conn_error R code =
     andthen (view (\<lambda>m. (ss_latest_remote_id (mg_streams m), sc_going_away (mg_controller m)))) (\<lambda>(last, going_away).
       let go_away_payload = Goaway_new (into_code code) last [];
           frame = Frame_new 0 FrameFlags_empty (PL_Goaway go_away_payload)
       in if (case going_away of
                Some go_away \<Rightarrow> ga_error_code go_away = ga_error_code go_away_payload
                  \<and> ga_last_stream_id go_away = ga_last_stream_id go_away_payload
              | None \<Rightarrow> False)
          then give (Ready ())
          else
            andthen (on_controller (\<lambda>c. c\<lparr>sc_going_away := Some go_away_payload\<rparr>)) (\<lambda>_.
            andthen (input_tx_send R frame) (\<lambda>_.
              exit_or_wait R (DE_H2 (ConnectionError code)))))"

definition manage_resp_error ::
  "('w, 'b, 'h) runtime \<Rightarrow> DispatchErrorKind \<Rightarrow>
     (('w, 'b, 'h) ConnManager, unit poll, DispatchErrorKind) action" where
  "manage_resp_error R kind =
     (case kind of
        DE_H2 (StreamError i code) \<Rightarrow> manage_stream_error R i code
      | DE_H2 (ConnectionError code) \<Rightarrow> manage_conn_error R code
      | other \<Rightarrow> exit_or_wait R other)"

definition send_peer_goaway ::
  "('w, 'b, 'h) runtime \<Rightarrow> Frame \<Rightarrow> Goaway \<Rightarrow> u32 \<Rightarrow>
     (('w, 'b, 'h) ConnManager, unit, DispatchErrorKind) action" where
  "send_peer_goaway R frame payload err_code =
     andthen (view (\<lambda>m. (ss_latest_remote_id (mg_streams m), sc_going_away (mg_controller m)))) (\<lambda>(last, going_away).
       if (case going_away of
             None \<Rightarrow> False
           | Some go_away \<Rightarrow> ga_error_code go_away = err_code \<and> ga_last_stream_id go_away = last)
       then give ()
       else
         andthen (on_controller (\<lambda>c. c\<lparr>sc_going_away := Some payload\<rparr>)) (\<lambda>_.
           input_tx_send R frame))"

definition poll_deal_with_go_away ::
  "('w, 'b, 'h) runtime \<Rightarrow> u32 \<Rightarrow> (('w, 'b, 'h) ConnManager, unit, DispatchErrorKind) action" where
  "poll_deal_with_go_away R error_code =
     andthen (view mg_streams) (\<lambda>s.
       if is_closed s then
         let go_away_payload = Goaway_new error_code (ss_latest_remote_id s) [];
             frame = Frame_new 0 FrameFlags_empty (PL_Goaway go_away_payload)
         in
           andthen (send_peer_goaway R frame go_away_payload error_code) (\<lambda>_.
           andthen shutdown (\<lambda>_.
           andthen (relabel DE_H2 (lift (ErrorCode_try_from error_code))) (\<lambda>code.
             fail (DE_H2 (ConnectionError code)))))
       else give ())"

definition poll_recv_message ::
  "('w, 'b, 'h) runtime \<Rightarrow> Frame \<Rightarrow> (('w, 'b, 'h) ConnManager, unit poll, DispatchErrorKind) action" where
  "poll_recv_message R frame =
     andthen (attempt (poll_recv_frame R frame)) (\<lambda>r.
       case r of
         Inl kind \<Rightarrow> manage_resp_error R kind
       | Inr Pending \<Rightarrow> andthen (set_states MS_Send MS_Receive) (\<lambda>_. give Pending)
       | Inr (Ready _) \<Rightarrow> give (Ready ()))"

definition poll_channel_closed_exit ::
  "('w, 'b, 'h) runtime \<Rightarrow> (('w, 'b, 'h) ConnManager, unit poll, DispatchErrorKind) action" where
  "poll_channel_closed_exit R = exit_or_wait R DE_ChannelClosed"

definition poll_blocked_frames ::
  "('w, 'b, 'h) runtime \<Rightarrow> (('w, 'b, 'h) ConnManager, unit poll, 'e) action" where
  "poll_blocked_frames R =
     andthen (poll_blocked_message R) (\<lambda>r.
       case r of
         Ready _ \<Rightarrow>
           andthen (modify (\<lambda>m. m\<lparr>mg_state := mg_next_state m, mg_next_state := MS_Receive\<rparr>)) (\<lambda>_.
             give (Ready ()))
       | Pending \<Rightarrow> give Pending)"

definition manage_pending_state ::
  "('w, 'b, 'h) runtime \<Rightarrow> (('w, 'b, 'h) ConnManager, unit poll, DispatchErrorKind) action" where
  "manage_pending_state R =
     andthen (view (\<lambda>m. sc_go_away_error_code (mg_controller m))) (\<lambda>go_away.
       case go_away of
         Some error_code \<Rightarrow> andthen (poll_deal_with_go_away R error_code) (\<lambda>_. give Pending)
       | None \<Rightarrow>
           andthen (poll_recv_request R) (\<lambda>_.
           andthen (poll_input_request R) (\<lambda>_. give Pending)))"

section \<open>The manager's future\<close>

text \<open>One turn of the loop of \<^verbatim>\<open>poll\<close>: \<open>None\<close> goes round again, \<open>Some\<close> returns from the future.\<close>

definition receive_message ::
  "('w, 'b, 'h) runtime \<Rightarrow> OutputMessage RecvPoll \<Rightarrow>
     (('w, 'b, 'h) ConnManager, unit poll option, DispatchErrorKind) action" where
  "receive_message R message =
     (let again = (\<lambda>p. give (case p of Ready _ \<Rightarrow> None | Pending \<Rightarrow> Some Pending)) in
      case message of
        RP_Message (OM_Output frame) \<Rightarrow> andthen (poll_recv_message R frame) again
      | RP_Message (OM_OutputExit e) \<Rightarrow>
          andthen (view (\<lambda>m. sc_go_away_error_code (mg_controller m))) (\<lambda>go_away.
            if go_away \<noteq> None then give None else andthen (manage_resp_error R e) again)
      | RP_Closed \<Rightarrow> andthen (poll_channel_closed_exit R) (\<lambda>p. give (Some p))
      | RP_Pending \<Rightarrow> andthen (manage_pending_state R) (\<lambda>p. give (Some p)))"

definition poll_turn ::
  "('w, 'b, 'h) runtime \<Rightarrow> (('w, 'b, 'h) ConnManager, unit poll option, DispatchErrorKind) action" where
  "poll_turn R =
     andthen (view mg_state) (\<lambda>st.
       case st of
         MS_Send \<Rightarrow>
           andthen (poll_blocked_frames R) (\<lambda>p.
             give (case p of Ready _ \<Rightarrow> None | Pending \<Rightarrow> Some Pending))
       | MS_Receive \<Rightarrow>
           andthen (\<lambda>m. case rt_resp_recv R (mg_world m) of (r, w) \<Rightarrow> (Ok r, m\<lparr>mg_world := w\<rparr>)) (\<lambda>message.
             receive_message R message)
       | MS_Exit e \<Rightarrow> fail e)"

text \<open>The loop goes on as long as the reader has messages, so it may not return.\<close>

partial_function (option) manager_poll ::
  "('w, 'b, 'h) runtime \<Rightarrow> ('w, 'b, 'h) ConnManager \<Rightarrow>
     ((unit poll, DispatchErrorKind) outcome \<times> ('w, 'b, 'h) ConnManager) option" where
  "manager_poll R m =
     (case poll_turn R m of
        (Ok None, m') \<Rightarrow> manager_poll R m'
      | (Ok (Some p), m') \<Rightarrow> Some (Ok p, m')
      | (Err e, m') \<Rightarrow> Some (Err e, m')
      | (Panic, m') \<Rightarrow> Some (Panic, m'))"

section \<open>Starting a connection\<close>

text \<open>
  \<^verbatim>\<open>H2Config\<close> of \<^verbatim>\<open>util/config/http.rs\<close>, and what \<^verbatim>\<open>Http2Dispatcher::new\<close> does before it spawns the
  three coroutines: it sets up the windows, sends the initial SETTINGS and widens the connection's
  receive window; \<open>None\<close> when one of the two sends fails and nothing is spawned.
\<close>

record H2Config =
  hc_max_frame_size :: u32
  hc_max_header_list_size :: u32
  hc_header_table_size :: u32
  hc_init_conn_window_size :: u32
  hc_init_stream_window_size :: u32
  hc_enable_push :: bool
  hc_allowed_cache_frame_size :: nat
  hc_use_huffman :: bool

definition H2Config_default :: H2Config where
  "H2Config_default =
     \<lparr>hc_max_frame_size = 16 * 1024, hc_max_header_list_size = 16 * 1024, hc_header_table_size = 4096,
      hc_init_conn_window_size = 10 * 1024 * 1024, hc_init_stream_window_size = 2 * 1024 * 1024,
      hc_enable_push = False, hc_allowed_cache_frame_size = 5, hc_use_huffman = True\<rparr>"

definition DEFAULT_WINDOW_SIZE :: u32 where
  "DEFAULT_WINDOW_SIZE = 65535"

definition create_initial_settings :: "H2Config \<Rightarrow> Frame" where
  "create_initial_settings config =
     (let b1 = SettingsBuilder_max_header_list_size SettingsBuilder_new (hc_max_header_list_size config);
          b2 = SettingsBuilder_max_frame_size b1 (hc_max_frame_size config);
          b3 = SettingsBuilder_header_table_size b2 (hc_header_table_size config);
          b4 = SettingsBuilder_enable_push b3 (hc_enable_push config);
          b5 = SettingsBuilder_initial_window_size b4 (hc_init_stream_window_size config)
      in Frame_new 0 0 (PL_Settings (SettingsBuilder_build b5)))"

definition Http2Dispatcher_start ::
  "('w, 'b, 'h) runtime \<Rightarrow> H2Config \<Rightarrow> 'w \<Rightarrow> (('w, 'b, 'h) ConnManager option, DispatchErrorKind) outcome" where
  "Http2Dispatcher_start R config w =
     obind (FlowControl_setup_recv_window (FlowControl_new DEFAULT_WINDOW_SIZE DEFAULT_WINDOW_SIZE)
              (hc_init_conn_window_size config)) (\<lambda>flow.
       let streams = Streams_new (hc_init_stream_window_size config) DEFAULT_WINDOW_SIZE flow in
       case andthen (send_or_closed (input_send R (create_initial_settings config))) (\<lambda>_.
              release_conn_recv_window (input_send R) 0) (streams, w, []) of
         (Ok _, (s, w', out)) \<Rightarrow>
           Ok (Some (ConnManager_new Synced (StreamController_new s False False) w' out))
       | (Err _, _) \<Rightarrow> Ok None
       | (Panic, _) \<Rightarrow> Panic)"

end
