(* ===== verification/H2_Manager_Steps.thy ===== *)
theory H2_Manager_Steps
  imports H2_Manager
begin

text \<open>
  What the manager may do to the streams and to the frames it sends. \<open>sstep\<close> lists the changes of the
  streams that involve no request frame; the locale \<open>stream_contract\<close>, which extends
  \<open>quiet_contract\<close>, collects what a relation must allow for it to hold between the states before and
  after any handler of the manager, whatever the runtime does; \<open>widening_contract\<close> adds the updates of
  the connection's window. Safety properties of the connection are instances of these locales.
\<close>

section \<open>Changes of the streams\<close>

text \<open>The part of the streams that the properties below are about.\<close>

definition outline ::
  "'b Streams \<Rightarrow> (StreamId \<times> H2StreamState \<times> Frame option) list \<times> SendWindow \<times> u32 \<times> StreamId list \<times> StreamId" where
  "outline s =
     (map (\<lambda>(i, st). (i, st_state st, st_header st)) (ss_stream_map s),
      fc_send_window (ss_flow_control s), ss_current_concurrent_streams s,
      ss_pending_concurrency s, ss_next_stream_id s)"

text \<open>The streams in one of the queues: for sending, for a window, or for the limit of concurrent streams.\<close>

definition waiting :: "'b Streams \<Rightarrow> StreamId set" where
  "waiting s = set (ss_pending_send s) \<union> set (ss_pending_stream_window s)
     \<union> set (ss_pending_conn_window s) \<union> set (ss_pending_concurrency s)"

text \<open>The states an open stream goes through when frames of the response arrive.\<close>

inductive recv_step :: "H2StreamState \<Rightarrow> H2StreamState \<Rightarrow> bool" where
  "recv_step Idle (change_idle eos)"
| "recv_step ReservedRemote (LocalHalfClosed WaitData)"
| "recv_step (Open send WaitHeaders) (change_open eos send)"
| "recv_step (Open send WaitData) (RemoteHalfClosed send)"
| "recv_step (LocalHalfClosed WaitHeaders) (LocalHalfClosed WaitData)"

definition awaits_end :: "H2StreamState \<Rightarrow> bool" where
  "awaits_end q \<longleftrightarrow> q = ReservedRemote \<or> (\<exists>a. q = LocalHalfClosed a)"

definition drop_one :: "'b Streams \<Rightarrow> 'b Streams" where
  "drop_one s = s\<lparr>ss_current_concurrent_streams := ss_current_concurrent_streams s - 1\<rparr>"

definition add_one :: "'b Streams \<Rightarrow> 'b Streams" where
  "add_one s = s\<lparr>ss_current_concurrent_streams := ss_current_concurrent_streams s + 1\<rparr>"

definition next_id :: "'b Streams \<Rightarrow> 'b Streams" where
  "next_id s = s\<lparr>ss_next_stream_id := ss_next_stream_id s + 2\<rparr>"

inductive sstep :: "'b Streams \<Rightarrow> 'b Streams \<Rightarrow> bool" where
  same: "outline s = outline s' \<Longrightarrow> waiting s \<subseteq> waiting s' \<Longrightarrow> sstep s s'"
| receive: "stream_at i s = Some st \<Longrightarrow> recv_step (st_state st) q \<Longrightarrow>
    sstep s (put_stream i (st\<lparr>st_state := q\<rparr>) s)"
| finish: "stream_at i s = Some st \<Longrightarrow> awaits_end (st_state st) \<Longrightarrow> ss_current_concurrent_streams s \<noteq> 0 \<Longrightarrow>
    sstep s (drop_one (put_stream i (st\<lparr>st_state := Closed EndStream\<rparr>) s))"
| reset: "stream_at i s = Some st \<Longrightarrow> \<not> is_Closed (st_state st) \<Longrightarrow> ss_current_concurrent_streams s \<noteq> 0 \<Longrightarrow>
    reason \<in> {LocalRst, RemoteRst} \<Longrightarrow>
    sstep s (drop_one (put_stream i (shut_stream reason st) s))"
| reclose: "stream_at i s = Some st \<Longrightarrow> st_state st = Closed EndStream \<Longrightarrow>
    sstep s (put_stream i (st\<lparr>st_state := Closed LocalRst\<rparr>) s)"
| register_wait: "ss_next_stream_id s < DEFAULT_MAX_STREAM_ID \<Longrightarrow>
    sstep s (insert_stream (ss_next_stream_id s) (Frame_new (ss_next_stream_id s) flag (PL_Headers parts)) data
      (push_pending_concurrency (ss_next_stream_id s) (next_id s)))"
| register_now: "ss_next_stream_id s < DEFAULT_MAX_STREAM_ID \<Longrightarrow> \<not> reach_max_concurrency s \<Longrightarrow>
    ss_pending_concurrency s = [] \<Longrightarrow>
    sstep s (insert_stream (ss_next_stream_id s) (Frame_new (ss_next_stream_id s) flag (PL_Headers parts)) data
      (push_back_pending_send (ss_next_stream_id s) (add_one (next_id s))))"
| consume: "\<not> reach_max_concurrency s \<Longrightarrow> ss_pending_concurrency s = i # is \<Longrightarrow>
    sstep s (push_back_pending_send i (add_one (s\<lparr>ss_pending_concurrency := is\<rparr>)))"
| unset: "unset_loop last_id (ss_current_concurrent_streams s) (ss_stream_map s) = Some (is, current, m) \<Longrightarrow>
    sstep s (s\<lparr>ss_current_concurrent_streams := current, ss_stream_map := m\<rparr>)"
| close_all: "sstep s ((clear_streams_states s)\<lparr>ss_stream_map :=
    map (\<lambda>(i, st). (i, if is_Closed (st_state st) then st else shut_stream LocalGoAway st)) (ss_stream_map s)\<rparr>)"

section \<open>The operations are such changes\<close>

abbreviation quiet :: "('b Streams, 'a, 'e) action \<Rightarrow> bool" where
  "quiet m \<equiv> moves sstep\<^sup>*\<^sup>* m"

lemma quietI: "(\<And>s r t. m s = (r, t) \<Longrightarrow> r \<noteq> Panic \<Longrightarrow> sstep\<^sup>*\<^sup>* s t) \<Longrightarrow> quiet m"
  by (simp add: moves_def)

interpretation steps: action_preorder "sstep\<^sup>*\<^sup>*"
  by unfold_locales auto

lemma same_outline: "outline s = outline s' \<Longrightarrow> waiting s \<subseteq> waiting s' \<Longrightarrow> sstep\<^sup>*\<^sup>* s s'"
  by (rule r_into_rtranclp) (rule sstep.same)

lemma map_update_same:
  "map_of m i = Some st \<Longrightarrow> f (i, st') = f (i, st) \<Longrightarrow> map f (AList.update i st' m) = map f m"
  by (induction m) (auto split: if_splits)

text \<open>New windows leave the outline of a stream as it is.\<close>

lemma outline_put_stream:
  "stream_at i s = Some st \<Longrightarrow> st_state st' = st_state st \<Longrightarrow> st_header st' = st_header st \<Longrightarrow>
     outline (put_stream i st' s) = outline s"
  by (simp add: outline_def put_stream_def stream_at_def map_update_same)

lemma outline_for_each_mut:
  assumes "\<And>st st'. f st = Ok st' \<Longrightarrow> st_state st' = st_state st \<and> st_header st' = st_header st"
    and "for_each_mut f m = (r, m')"
  shows "map (\<lambda>(i, st). (i, st_state st, st_header st)) m' = map (\<lambda>(i, st). (i, st_state st, st_header st)) m"
  using assms(2)
proof (induction m arbitrary: r m')
  case (Cons p m)
  then show ?case
    by (cases p) (auto split: outcome.splits prod.splits dest: assms(1))
qed simp

lemma outline_update_streams:
  assumes "\<And>st st'. f st = Ok st' \<Longrightarrow> st_state st' = st_state st \<and> st_header st' = st_header st"
    and "update_streams f s = (r, s')"
  shows "outline s' = outline s"
  using assms(2) outline_for_each_mut [OF assms(1)]
  by (auto simp: update_streams_def outline_def split: prod.splits)

lemma waiting_update_streams: "update_streams f s = (r, s') \<Longrightarrow> waiting s' = waiting s"
  by (auto simp: update_streams_def waiting_def split: prod.splits)

lemma waiting_put [simp]: "waiting (put_stream i st s) = waiting s"
  by (simp add: waiting_def put_stream_def)

lemma with_windows_outline:
  "with_send_window f st = Ok st' \<Longrightarrow> st_state st' = st_state st \<and> st_header st' = st_header st"
  "with_recv_window g st = Ok st' \<Longrightarrow> st_state st' = st_state st \<and> st_header st' = st_header st"
  by (auto simp: with_send_window_def with_recv_window_def obind_eq_Ok)

lemma quiet_update_streams:
  assumes "\<And>st st'. f st = Ok st' \<Longrightarrow> st_state st' = st_state st \<and> st_header st' = st_header st"
  shows "quiet (update_streams f)"
  by (rule quietI) (rule same_outline, simp_all add: outline_update_streams [OF assms] waiting_update_streams)

lemma quiet_modify: "(\<And>s. outline (f s) = outline s \<and> waiting s \<subseteq> waiting (f s)) \<Longrightarrow> quiet (modify f)"
  by (rule quietI, rule same_outline) (auto simp: modify_def)

lemma quiet_with_windows:
  "quiet (update_streams (with_send_window f))" "quiet (update_streams (with_recv_window g))"
  by (auto intro!: quiet_update_streams dest: with_windows_outline)

named_theorems quiet_ops

lemma quiet_apply_send_initial_window_size [quiet_ops]: "quiet (apply_send_initial_window_size sz)"
  unfolding apply_send_initial_window_size_def
  by (intro moves_intros quiet_with_windows quiet_modify) (simp_all add: outline_def waiting_def)

lemma quiet_apply_recv_initial_window_size [quiet_ops]: "quiet (apply_recv_initial_window_size sz)"
  unfolding apply_recv_initial_window_size_def
  by (intro moves_intros quiet_with_windows quiet_modify) (simp_all add: outline_def waiting_def)

lemma quiet_apply_acknowledged [quiet_ops]: "quiet (apply_acknowledged settings)"
  by (induction settings) (auto intro!: moves_intros quiet_ops split: Setting.split)

lemma quiet_apply_settings [quiet_ops]: "quiet (apply_settings settings)"
  by (induction settings)
    (auto intro!: moves_intros quiet_ops quiet_modify split: Setting.split
      simp: apply_max_concurrent_streams_def outline_def waiting_def)

lemma quiet_reassign_stream_send_window [quiet_ops]: "quiet (reassign_stream_send_window i sz)"
proof -
  have put: "sstep\<^sup>*\<^sup>* s t"
    if "andthen (view (stream_at i)) (\<lambda>found. case found of None \<Rightarrow> give ()
        | Some stream \<Rightarrow> andthen (lift (with_send_window (\<lambda>w. SendWindow_increase_size w sz) stream))
            (\<lambda>stream'. modify (put_stream i stream'))) s = (r, t)" for s r t
    using that
    by (auto intro!: same_outline outline_put_stream [symmetric] simp: action_defs
        split: option.splits outcome.splits dest: with_windows_outline)
  have "quiet (andthen (andthen (view (stream_at i)) (\<lambda>found. case found of None \<Rightarrow> give ()
        | Some stream \<Rightarrow> andthen (lift (with_send_window (\<lambda>w. SendWindow_increase_size w sz) stream))
            (\<lambda>stream'. modify (put_stream i stream')))) (\<lambda>_.
       modify (\<lambda>s. if i \<in> set (ss_pending_stream_window s)
                   then s\<lparr>ss_pending_stream_window := remove1 i (ss_pending_stream_window s),
                          ss_pending_send := ss_pending_send s @ [i]\<rparr>
                   else s)))"
    by (intro steps.moves_andthen quietI quiet_modify)
      (auto simp: outline_def waiting_def in_set_remove1 dest: put)
  then show ?thesis by (simp add: reassign_stream_send_window_def andthen_assoc)
qed

lemma outline_reassign_conn: "outline (reassign_conn_send_window s) = outline s"
  by (induction s rule: reassign_conn_send_window.induct)
    (subst reassign_conn_send_window.simps,
     auto simp: outline_def push_back_pending_send_def split: list.splits)

lemma waiting_reassign_conn: "waiting (reassign_conn_send_window s) = waiting s"
  by (induction s rule: reassign_conn_send_window.induct)
    (subst reassign_conn_send_window.simps,
     auto simp: waiting_def push_back_pending_send_def split: list.splits)

lemma quiet_try_consume [quiet_ops]: "quiet (try_consume_pending_concurrency :: ('b Streams, unit, 'e) action)"
proof (rule quietI)
  fix s t :: "'b Streams" and r :: "(unit, 'e) outcome"
  assume "try_consume_pending_concurrency s = (r, t)" "r \<noteq> Panic"
  then show "sstep\<^sup>*\<^sup>* s t"
  proof (induction "ss_pending_concurrency s" arbitrary: s)
    case Nil
    then show ?case by (subst (asm) try_consume_pending_concurrency.simps) (auto split: if_splits)
  next
    case (Cons i "is")
    note pending = Cons.hyps(2) [symmetric]
    show ?case
    proof (cases "reach_max_concurrency s")
      case True
      then show ?thesis using Cons.prems by (subst (asm) try_consume_pending_concurrency.simps) auto
    next
      case False
      let ?t = "push_back_pending_send i (add_one (s\<lparr>ss_pending_concurrency := is\<rparr>))"
      have "try_consume_pending_concurrency ?t = (r, t)"
        using Cons.prems False pending
        by (subst (asm) try_consume_pending_concurrency.simps)
          (auto simp: increase_current_concurrency_def add_one_def split: if_splits)
      then have "sstep\<^sup>*\<^sup>* ?t t"
        using Cons.hyps(1) [of ?t] Cons.prems(2) by (simp add: push_back_pending_send_def add_one_def)
      moreover have "sstep s ?t" using False pending by (rule sstep.consume)
      ultimately show ?thesis by (rule converse_rtranclp_into_rtranclp [rotated])
    qed
  qed
qed

lemma decrease_then_give:
  "andthen decrease_current_concurrency (\<lambda>_. give x) s =
     (if ss_current_concurrent_streams s = 0 then (Panic, s) else (Ok x, drop_one s))"
  by (simp add: decrease_current_concurrency_def action_defs drop_one_def)

lemma current_put_stream [simp]:
  "ss_current_concurrent_streams (put_stream i st s) = ss_current_concurrent_streams s"
  by (simp add: put_stream_def)

lemmas state_op_splits =
  option.splits H2StreamState.splits ActiveState.splits CloseReason.splits if_splits

lemma reset_now:
  "stream_at i s = Some st \<Longrightarrow> \<not> is_Closed (st_state st) \<Longrightarrow> ss_current_concurrent_streams s \<noteq> 0 \<Longrightarrow>
     sstep s (drop_one (put_stream i (shut_stream LocalRst st) s))"
  "stream_at i s = Some st \<Longrightarrow> \<not> is_Closed (st_state st) \<Longrightarrow> ss_current_concurrent_streams s \<noteq> 0 \<Longrightarrow>
     sstep s (drop_one (put_stream i (shut_stream RemoteRst st) s))"
  by (auto intro: sstep.reset)

lemma quiet_send_local_reset [quiet_ops]: "quiet (send_local_reset i)"
  by (rule quietI)
    (auto simp: send_local_reset_def decrease_then_give split: state_op_splits
      intro!: r_into_rtranclp intro: sstep.reclose reset_now)

lemma quiet_recv_remote_reset [quiet_ops]: "quiet (recv_remote_reset i)"
  by (rule quietI)
    (auto simp: recv_remote_reset_def decrease_then_give split: state_op_splits
      intro!: r_into_rtranclp intro: reset_now)

text \<open>The rules of \<open>receive\<close> and \<open>finish\<close> for the states they apply to.\<close>

lemma receive_now:
  assumes "stream_at i s = Some st"
  shows "st_state st = Idle \<Longrightarrow> sstep s (put_stream i (st\<lparr>st_state := change_idle eos\<rparr>) s)"
    and "st_state st = ReservedRemote \<Longrightarrow> sstep s (put_stream i (st\<lparr>st_state := LocalHalfClosed WaitData\<rparr>) s)"
    and "st_state st = Open send WaitHeaders \<Longrightarrow> sstep s (put_stream i (st\<lparr>st_state := change_open eos send\<rparr>) s)"
    and "st_state st = Open send WaitData \<Longrightarrow> sstep s (put_stream i (st\<lparr>st_state := RemoteHalfClosed send\<rparr>) s)"
    and "st_state st = LocalHalfClosed WaitHeaders \<Longrightarrow>
      sstep s (put_stream i (st\<lparr>st_state := LocalHalfClosed WaitData\<rparr>) s)"
  using assms by (auto intro!: sstep.receive intro: recv_step.intros)

lemma finish_now:
  assumes "stream_at i s = Some st" "ss_current_concurrent_streams s \<noteq> 0"
  shows "st_state st = ReservedRemote \<Longrightarrow> sstep s (drop_one (put_stream i (st\<lparr>st_state := Closed EndStream\<rparr>) s))"
    and "st_state st = LocalHalfClosed a \<Longrightarrow> sstep s (drop_one (put_stream i (st\<lparr>st_state := Closed EndStream\<rparr>) s))"
  using assms by (auto intro!: sstep.finish simp: awaits_end_def)

lemma quiet_recv_headers [quiet_ops]: "quiet (recv_headers i eos)"
  by (rule quietI)
    (auto simp: recv_headers_def decrease_then_give change_half_closed_def give_def split: state_op_splits
      intro!: r_into_rtranclp intro: receive_now finish_now)

lemma quiet_recv_data [quiet_ops]: "quiet (recv_data i eos)"
  by (rule quietI)
    (auto simp: recv_data_def decrease_then_give split: state_op_splits
      intro!: r_into_rtranclp intro: receive_now finish_now)

lemma quiet_get_unsent_streams [quiet_ops]: "quiet (get_unsent_streams i)"
proof -
  have "quiet (get_unset_streams i :: ('b Streams, StreamId list, H2Error) action)"
    by (rule quietI)
      (auto simp: get_unset_streams_def split: option.splits intro!: r_into_rtranclp intro: sstep.unset)
  then show ?thesis
    unfolding get_unsent_streams_def
    by (intro moves_intros quiet_modify) (simp_all add: outline_def waiting_def)
qed

lemma quiet_close_all [quiet_ops]:
  "quiet (andthen (modify clear_streams_states) (\<lambda>_. get_all_unclosed_streams)
     :: ('b Streams, StreamId list, 'e) action)"
proof (rule quietI)
  fix s t :: "'b Streams" and r :: "(StreamId list, 'e) outcome"
  assume "andthen (modify clear_streams_states) (\<lambda>_. get_all_unclosed_streams) s = (r, t)"
  then have "t = (clear_streams_states s)\<lparr>ss_stream_map :=
      map (\<lambda>(i, st). (i, if is_Closed (st_state st) then st else shut_stream LocalGoAway st)) (ss_stream_map s)\<rparr>"
    by (auto simp: action_defs get_all_unclosed_streams_def clear_streams_states_def)
  then show "sstep\<^sup>*\<^sup>* s t" using sstep.close_all [of s] by auto
qed

lemma on_streams_andthen:
  "andthen (on_streams f) (\<lambda>x. andthen (on_streams (g x)) h) = andthen (on_streams (andthen f g)) h"
  by (rule ext) (auto simp: on_streams_def andthen_def inside_def set_streams_def split: prod.splits outcome.splits)

text \<open>A request accepted with the next identifier.\<close>

lemma register_next:
  assumes "generate_id s = (Ok i, s1)" "register_stream i flag (PL_Headers parts) data s1 = (r, s2)" "r \<noteq> Panic"
  shows "sstep s s2"
proof -
  have s1: "i = ss_next_stream_id s" "s1 = next_id s" "ss_next_stream_id s < DEFAULT_MAX_STREAM_ID"
    using assms(1) by (auto simp: generate_id_def next_id_def Let_def split: if_splits)
  show ?thesis
  proof (cases "reach_max_concurrency s1 \<or> \<not> is_pending_concurrency_empty s1")
    case True
    then have "s2 = insert_stream i (Frame_new i flag (PL_Headers parts)) data (push_pending_concurrency i s1)"
      using assms(2) by (simp add: register_stream_def action_defs)
    then show ?thesis using s1 sstep.register_wait by simp
  next
    case False
    then have "s2 = insert_stream i (Frame_new i flag (PL_Headers parts)) data
        (push_back_pending_send i (add_one s1))"
      using assms(2,3)
      by (auto simp: register_stream_def action_defs increase_current_concurrency_def add_one_def split: if_splits)
    moreover have "\<not> reach_max_concurrency s" "ss_pending_concurrency s = []"
      using False s1(2)
      by (simp_all add: reach_max_concurrency_def is_pending_concurrency_empty_def next_id_def)
    ultimately show ?thesis using s1 sstep.register_now by simp
  qed
qed

lemma headers_None_outline: "headers i s = (Ok None, s') \<Longrightarrow> outline s' = outline s"
  by (auto simp: headers_def split: option.splits if_splits intro!: outline_put_stream)

lemma headers_Err: "headers i s = (Err e, s') \<Longrightarrow> s' = s"
  by (auto simp: headers_def split: option.splits if_splits)

lemma poll_read_body_outline:
  assumes "poll_read_body body_read i (s, w) = (r, (s', w'))" "\<And>frame. r \<noteq> Ok (DR_Ready frame)"
  shows "outline s' = outline s"
  using assms
  by (auto simp: poll_read_body_def poll_sized_data_def Let_def outline_def push_back_pending_send_def
      split: option.splits if_splits prod.splits BodyPoll.splits outcome.splits)

text \<open>Reading a body changes windows and queues only.\<close>

lemma poll_read_body_map:
  assumes "poll_read_body body_read i (s, w) = (Ok d, (s', w'))"
  shows "fst (outline s') = fst (outline s)" "ss_next_stream_id s' = ss_next_stream_id s"
    "ss_current_concurrent_streams s' = ss_current_concurrent_streams s"
    "ss_pending_concurrency s' = ss_pending_concurrency s"
proof -
  have "outline s' = outline s" if "\<And>frame. d \<noteq> DR_Ready frame"
    using poll_read_body_outline [OF assms] that by simp
  moreover have "fst (outline s') = fst (outline s) \<and> snd (snd (outline s')) = snd (snd (outline s))"
    if "d = DR_Ready frame" for frame
    using assms unfolding that
  proof (rule poll_read_body_ReadyE)
    fix stream and filled :: bytes
    assume "stream_at i s = Some stream"
      "s' = put_stream i (stream\<lparr>st_send_window := spend_window (length filled) (st_send_window stream)\<rparr>)
            (s\<lparr>ss_flow_control := (ss_flow_control s)\<lparr>fc_send_window :=
                 spend_window (length filled) (fc_send_window (ss_flow_control s))\<rparr>\<rparr>)"
    then show ?thesis by (simp add: outline_def put_stream_def stream_at_def map_update_same)
  qed
  ultimately have "fst (outline s') = fst (outline s) \<and> snd (snd (outline s')) = snd (snd (outline s))" by metis
  then show "fst (outline s') = fst (outline s)" "ss_next_stream_id s' = ss_next_stream_id s"
    "ss_current_concurrent_streams s' = ss_current_concurrent_streams s"
    "ss_pending_concurrency s' = ss_pending_concurrency s"
    by (simp_all add: outline_def)
qed

lemma poll_read_body_frame:
  assumes "poll_read_body body_read i (s, w) = (Ok d, (s', w'))" "d = DR_Ready frame \<or> d = DR_Finish frame"
  shows "fr_id frame = i \<and> (\<exists>x. fr_payload frame = PL_Data x)"
  using assms
  by (auto simp: poll_read_body_def poll_sized_data_def Let_def Frame_new_def
      split: option.splits if_splits prod.splits BodyPoll.splits outcome.splits)

lemma send_frame_state_refused:
  "send_frame_state frame s = (Ok (FR_Err e), s') \<Longrightarrow> s' = s"
  by (auto simp: send_frame_state_def send_headers_frame_def send_data_frame_def decrease_then_give give_def
      split: Payload.splits state_op_splits)

lemma send_frame_state_no_Err: "send_frame_state frame s \<noteq> (Err e, s')"
  by (auto simp: send_frame_state_def send_headers_frame_def send_data_frame_def decrease_then_give give_def
      split: Payload.splits state_op_splits)

text \<open>The receive windows: at most a WINDOW\_UPDATE frame is sent, and the outline stays.\<close>

lemma send_or_closed_input:
  "send_or_closed (input_send RT frame) (s, w, out) = (r, (s', w', out')) \<Longrightarrow> s' = s \<and> out' = out @ [frame]"
  by (auto simp: send_or_closed_def input_send_def inside_def andthen_def give_def fail_def
      split: prod.splits if_splits)

lemma check_window_update_frame:
  "RecvWindow_check_window_update w i = Ok (Some frame, w') \<Longrightarrow> \<exists>n. frame = Frame_new i 0 (PL_WindowUpdate n)"
  by (auto simp: RecvWindow_check_window_update_def obind_eq_Ok split: option.splits)

definition only_updates :: "Frame list \<Rightarrow> Frame list \<Rightarrow> bool" where
  "only_updates out out' \<longleftrightarrow>
     out' = out \<or> (\<exists>i n. out' = out @ [Frame_new i 0 (PL_WindowUpdate n)])"

lemma release_conn_recv_window_outline:
  assumes "release_conn_recv_window (input_send RT) sz (s, w, out) = (r, (s', w', out'))"
  shows "outline s' = outline s \<and> waiting s' = waiting s \<and> only_updates out out'"
  using assms
  by (auto simp: release_conn_recv_window_def action_defs outline_def waiting_def only_updates_def
      FlowControl_recv_data_def FlowControl_check_conn_recv_window_update_def obind_eq_Ok
      split: if_splits outcome.splits prod.splits option.splits
      dest!: send_or_closed_input check_window_update_frame)

lemma release_stream_recv_window_outline:
  assumes "release_stream_recv_window (input_send RT) i sz (s, w, out) = (r, (s', w', out'))"
  shows "outline s' = outline s \<and> waiting s' = waiting s \<and> only_updates out out'"
proof (cases "stream_at i s")
  case None
  then show ?thesis
    using assms by (simp add: release_stream_recv_window_def action_defs only_updates_def)
next
  case (Some stream)
  have same: "outline (put_stream i (stream\<lparr>st_recv_window := u\<rparr>) (put_stream i st s)) = outline s"
    "outline (put_stream i (stream\<lparr>st_recv_window := u\<rparr>) s) = outline s" for u st
    using Some by (auto intro!: outline_put_stream simp: put_stream_def stream_at_def)
      (auto simp: outline_def map_update_same)
  show ?thesis
    using assms Some
    by (auto simp: release_stream_recv_window_def action_defs only_updates_def same
        split: if_splits outcome.splits prod.splits option.splits
        dest!: send_or_closed_input check_window_update_frame)
qed

section \<open>Sending HEADERS and DATA\<close>

text \<open>HEADERS and DATA frames belong to a request; every other frame is control traffic.\<close>

definition carries_request :: "Frame \<Rightarrow> bool" where
  "carries_request frame \<longleftrightarrow> (case fr_payload frame of PL_Headers _ \<Rightarrow> True | PL_Data _ \<Rightarrow> True | _ \<Rightarrow> False)"

text \<open>The states an open stream goes through when the request is sent.\<close>

inductive send_step :: "Payload \<Rightarrow> bool \<Rightarrow> H2StreamState \<Rightarrow> H2StreamState \<Rightarrow> bool" where
  "send_step (PL_Headers p) eos Idle (if eos then LocalHalfClosed WaitHeaders else Open WaitData WaitHeaders)"
| "send_step (PL_Headers p) eos (Open WaitHeaders recv) (if eos then LocalHalfClosed recv else Open WaitData recv)"
| "send_step (PL_Headers p) eos (RemoteHalfClosed WaitHeaders)
     (if eos then Closed EndStream else RemoteHalfClosed WaitData)"
| "send_step (PL_Data d) eos (Open WaitData recv) (if eos then LocalHalfClosed recv else Open WaitData recv)"
| "send_step (PL_Data d) eos (RemoteHalfClosed WaitData)
     (if eos then Closed EndStream else RemoteHalfClosed WaitData)"

inductive_simps send_step_simps:
  "send_step payload eos Idle q" "send_step payload eos (Open a b) q" "send_step payload eos ReservedRemote q"
  "send_step payload eos (RemoteHalfClosed a) q" "send_step payload eos (LocalHalfClosed a) q"
  "send_step payload eos (Closed r) q"

text \<open>A stream that the last frame closes leaves the count of concurrent streams.\<close>

definition settle :: "H2StreamState \<Rightarrow> 'b Streams \<Rightarrow> 'b Streams" where
  "settle q s = (if is_Closed q then drop_one s else s)"

lemma update_present: "map_of m i = Some st \<Longrightarrow> AList.update i st m = m"
  by (induction m) (auto split: if_splits)

lemma put_present: "stream_at i s = Some st \<Longrightarrow> put_stream i st s = s"
  by (simp add: put_stream_def stream_at_def update_present)

lemma keep_state:
  "stream_at i s = Some st \<Longrightarrow> st_state st = q \<Longrightarrow> put_stream i (st\<lparr>st_state := q\<rparr>) s = s"
  using put_present [of i s st] by (cases st) auto

lemma send_headers_frameD:
  assumes "send_headers_frame i eos s = (Ok q, s')" "\<And>e. q \<noteq> FR_Err e" "stream_at i s = Some st"
  shows "\<exists>q'. send_step (PL_Headers p) eos (st_state st) q' \<and>
    s' = settle q' (put_stream i (st\<lparr>st_state := q'\<rparr>) s) \<and>
    (is_Closed q' \<longrightarrow> ss_current_concurrent_streams s \<noteq> 0)"
  using assms(1,3) assms(2) [of "ConnectionError ProtocolError"]
  by (cases "st_state st"; cases eos)
    (auto simp: send_headers_frame_def decrease_then_give send_step_simps settle_def
      split: ActiveState.splits if_splits)

lemma send_data_frameD:
  assumes "send_data_frame i eos s = (Ok q, s')" "\<And>e. q \<noteq> FR_Err e" "stream_at i s = Some st"
  shows "\<exists>q'. send_step (PL_Data d) eos (st_state st) q' \<and>
    s' = settle q' (put_stream i (st\<lparr>st_state := q'\<rparr>) s) \<and>
    (is_Closed q' \<longrightarrow> ss_current_concurrent_streams s \<noteq> 0)"
  using assms(1,3) assms(2) [of "ConnectionError ProtocolError"]
  by (cases "st_state st"; cases eos)
    (auto simp: send_data_frame_def decrease_then_give send_step_simps settle_def keep_state
      split: ActiveState.splits if_splits)

lemma send_frame_stateD:
  assumes "send_frame_state frame s = (Ok q, s')" "\<And>e. q \<noteq> FR_Err e" "carries_request frame"
  obtains st q' where "stream_at (fr_id frame) s = Some st"
    "send_step (fr_payload frame) (FrameFlags_is_end_stream (fr_flags frame)) (st_state st) q'"
    "s' = settle q' (put_stream (fr_id frame) (st\<lparr>st_state := q'\<rparr>) s)"
    "is_Closed q' \<Longrightarrow> ss_current_concurrent_streams s \<noteq> 0"
proof -
  obtain st where st: "stream_at (fr_id frame) s = Some st"
    using assms
    by (cases "stream_at (fr_id frame) s")
      (auto simp: send_frame_state_def send_headers_frame_def send_data_frame_def carries_request_def
        split: Payload.splits)
  have "\<exists>q'. send_step (fr_payload frame) (FrameFlags_is_end_stream (fr_flags frame)) (st_state st) q' \<and>
    s' = settle q' (put_stream (fr_id frame) (st\<lparr>st_state := q'\<rparr>) s) \<and>
    (is_Closed q' \<longrightarrow> ss_current_concurrent_streams s \<noteq> 0)"
    using assms send_headers_frameD [OF _ assms(2) st] send_data_frameD [OF _ assms(2) st]
    by (cases "fr_payload frame") (simp_all add: send_frame_state_def carries_request_def)
  then show ?thesis using that st by blast
qed

section \<open>Relations between states of the manager\<close>

definition on_manager ::
  "('b Streams \<times> Frame list \<Rightarrow> 'b Streams \<times> Frame list \<Rightarrow> bool) \<Rightarrow>
     ('w, 'b, 'h) ConnManager \<Rightarrow> ('w, 'b, 'h) ConnManager \<Rightarrow> bool" where
  "on_manager R m m' \<longleftrightarrow> R (mg_streams m, mg_out m) (mg_streams m', mg_out m')"

text \<open>The requests that reach the manager start with a HEADERS frame.\<close>

definition requests_ok :: "('w, 'b, 'h) runtime \<Rightarrow> bool" where
  "requests_ok RT \<longleftrightarrow>
     (\<forall>w message w'. rt_req_recv RT w = (RP_Message message, w') \<longrightarrow>
        (\<exists>parts. rw_payload (rq_request message) = PL_Headers parts))"

text \<open>
  A WINDOW\_UPDATE of the connection widens the window that \<open>outline\<close> shows, so it is a case of its
  own.
\<close>

definition widens_connection :: "Frame \<Rightarrow> bool" where
  "widens_connection frame \<longleftrightarrow> fr_id frame = 0 \<and> (\<exists>n. fr_payload frame = PL_WindowUpdate n)"

section \<open>Runs of the manager\<close>

text \<open>
  The frames that a turn of the manager's loop takes from the reader, and the runs of the loop: turns
  of \<open>poll_turn\<close>, between which the rest of the world and the settings shared with the writer may
  change in any way.
\<close>

definition incoming :: "('w, 'b, 'h) runtime \<Rightarrow> ('w, 'b, 'h) ConnManager \<Rightarrow> Frame list" where
  "incoming RT m =
     (case (mg_state m, fst (rt_resp_recv RT (mg_world m))) of
        (MS_Receive, RP_Message (OM_Output frame)) \<Rightarrow> [frame]
      | _ \<Rightarrow> [])"

inductive turns ::
  "('w, 'b, 'h) runtime \<Rightarrow> ('w, 'b, 'h) ConnManager \<Rightarrow> Frame list \<Rightarrow> ('w, 'b, 'h) ConnManager \<Rightarrow> bool"
  for RT m where
  start: "turns RT m [] m"
| turn: "turns RT m frames m1 \<Longrightarrow> poll_turn RT m1 = (r, m2) \<Longrightarrow> r \<noteq> Panic \<Longrightarrow>
    turns RT m (frames @ incoming RT m1) m2"
| world: "turns RT m frames m1 \<Longrightarrow> turns RT m frames (m1\<lparr>mg_world := w, mg_settings := settings\<rparr>)"

section \<open>The contract\<close>

text \<open>
  What involves no frame of a request, then the sending of requests, and the window of the connection.
\<close>

locale quiet_contract =
  fixes RT :: "('w, 'b, 'h) runtime"
    and R :: "'b Streams \<times> Frame list \<Rightarrow> 'b Streams \<times> Frame list \<Rightarrow> bool"
  assumes R_refl: "R x x"
    and R_trans: "R x y \<Longrightarrow> R y z \<Longrightarrow> R x z"
    and R_step: "sstep s s' \<Longrightarrow> R (s, out) (s', out)"
    and R_control: "\<not> carries_request frame \<Longrightarrow> R (s, out) (s, out @ [frame])"
begin

lemma R_steps: "sstep\<^sup>*\<^sup>* s s' \<Longrightarrow> R (s, out) (s', out)"
  by (induction rule: rtranclp_induct) (auto intro: R_refl R_trans R_step)

lemma R_same: "outline s = outline s' \<Longrightarrow> waiting s = waiting s' \<Longrightarrow> R (s, out) (s', out)"
  by (rule R_step, rule sstep.same) simp_all

end

sublocale quiet_contract \<subseteq> acts: action_preorder "on_manager R :: ('w, 'b, 'h) ConnManager \<Rightarrow> _"
  by unfold_locales (auto simp: on_manager_def intro: R_refl R_trans)

context quiet_contract
begin

abbreviation allowed :: "(('w, 'b, 'h) ConnManager, 'a, 'e) action \<Rightarrow> bool" where
  "allowed m \<equiv> moves (on_manager R) m"

lemma allowed_on_streams: "quiet f \<Longrightarrow> allowed (on_streams f)"
  by (rule movesI)
    (auto simp: on_streams_def inside_def on_manager_def set_streams_def split: prod.splits
      intro!: R_steps dest: movesD)

lemma allowed_modify:
  "(\<And>m. mg_streams (f m) = mg_streams m \<and> mg_out (f m) = mg_out m) \<Longrightarrow> allowed (modify f)"
  by (rule acts.moves_modify) (simp add: on_manager_def R_refl)

lemma allowed_on_controller: "(\<And>c. sc_streams (f c) = sc_streams c) \<Longrightarrow> allowed (on_controller f)"
  unfolding on_controller_def by (rule allowed_modify) simp

lemma allowed_set_states: "allowed (set_states st next)"
  unfolding set_states_def by (rule allowed_modify) simp

lemma allowed_input_tx_send: "\<not> carries_request frame \<Longrightarrow> allowed (input_tx_send RT frame)"
  by (rule movesI)
    (auto simp: input_tx_send_def on_port_def send_or_closed_def input_send_def inside_def andthen_def
      give_def fail_def set_streams_def on_manager_def split: prod.splits if_splits intro: R_control)

lemma allowed_send_message: "allowed (send_message_to_stream RT i message)"
  by (rule movesI)
    (auto simp: send_message_to_stream_def on_manager_def Let_def split: option.splits prod.splits SendPoll.splits
      intro: R_refl)

lemmas allowed_rules =
  moves_intros allowed_on_streams allowed_on_controller allowed_set_states allowed_input_tx_send
  allowed_send_message quiet_ops

lemma allowed_world: "allowed (\<lambda>m. case f (mg_world m) of (r, w) \<Rightarrow> (Ok r, m\<lparr>mg_world := w\<rparr>))"
  by (rule movesI) (auto simp: on_manager_def split: prod.splits intro: R_refl)

lemma control_frames [simp]:
  "\<not> carries_request (Frame_new i flags (PL_RstStream c))"
  "\<not> carries_request (Frame_new i flags (PL_Goaway g))"
  "\<not> carries_request (Frame_new i flags (PL_Settings s))"
  "\<not> carries_request (Frame_new i flags (PL_WindowUpdate n))"
  "\<not> carries_request (Ping_ack p)"
  by (simp_all add: carries_request_def Frame_new_def Ping_ack_def)

lemma allowed_blocked_loop: "allowed (blocked_loop RT keys blocked)"
  by (induction keys arbitrary: blocked)
    (auto intro!: allowed_rules allowed_world split: SendPoll.splits)

lemma allowed_poll_blocked_frames: "allowed (poll_blocked_frames RT)"
  unfolding poll_blocked_frames_def poll_blocked_message_def
  by (auto intro!: allowed_rules allowed_blocked_loop allowed_modify split: poll.splits)

lemma allowed_manage_stream_error: "allowed (manage_stream_error RT i code)"
  unfolding manage_stream_error_def
  by (auto intro!: allowed_rules split: StreamEndState.splits sum.splits poll.splits)

lemma allowed_deal_poll_body_error: "allowed (deal_poll_body_error RT e)"
  unfolding deal_poll_body_error_def
  by (auto intro!: allowed_rules allowed_manage_stream_error split: H2Error.splits)

lemma allowed_notify_streams: "allowed (notify_streams RT message is blocked)"
  by (induction "is" arbitrary: blocked) (auto intro!: allowed_rules)

lemma allowed_exit_or_wait: "allowed (exit_or_wait RT e)"
  unfolding exit_or_wait_def exit_with_error_def shutdown_def on_streams_andthen
  by (auto intro!: allowed_rules allowed_notify_streams allowed_modify)

lemma allowed_manage_conn_error: "allowed (manage_conn_error RT code)"
  unfolding manage_conn_error_def Let_def
  by (auto intro!: allowed_rules allowed_exit_or_wait)

lemma allowed_manage_resp_error: "allowed (manage_resp_error RT kind)"
  unfolding manage_resp_error_def
  by (auto intro!: allowed_exit_or_wait allowed_manage_conn_error allowed_manage_stream_error
      split: DispatchErrorKind.splits H2Error.splits)

lemma allowed_recv_settings_frame: "allowed (recv_settings_frame RT frame)"
  unfolding recv_settings_frame_def
  by (auto intro!: allowed_rules allowed_modify split: Payload.splits SettingsState.splits)

lemma allowed_recv_ping_frame: "allowed (recv_ping_frame RT frame)"
  unfolding recv_ping_frame_def by (auto intro!: allowed_rules split: Payload.splits)

lemma allowed_recv_go_away_frame: "allowed (recv_go_away_frame RT frame)"
  unfolding recv_go_away_frame_def goaway_def
  by (auto intro!: allowed_rules allowed_modify allowed_notify_streams split: Payload.splits)

lemma allowed_recv_reset_frame: "allowed (recv_reset_frame RT frame)"
  unfolding recv_reset_frame_def by (auto intro!: allowed_rules split: StreamEndState.splits)

lemma allowed_recv_header_frame: "allowed (recv_header_frame RT frame)"
  unfolding recv_header_frame_def by (auto intro!: allowed_rules split: FrameRecvState.splits)

lemma R_only_updates:
  "outline s' = outline s \<Longrightarrow> waiting s' = waiting s \<Longrightarrow> only_updates out out' \<Longrightarrow> R (s, out) (s', out')"
  unfolding only_updates_def
  by (elim disjE exE) (auto intro!: R_same R_trans [OF R_control R_same])

lemma allowed_on_port:
  assumes "\<And>s w out r s' w' out'. f (s, w, out) = (r, (s', w', out')) \<Longrightarrow>
    outline s' = outline s \<and> waiting s' = waiting s \<and> only_updates out out'"
  shows "allowed (on_port f)"
  by (rule movesI)
    (auto simp: on_port_def inside_def on_manager_def set_streams_def split: prod.splits
      dest!: assms intro: R_only_updates)

lemma allowed_update_window: "allowed (update_window RT i len)"
  unfolding update_window_def
  by (intro moves_intros allowed_on_port release_conn_recv_window_outline release_stream_recv_window_outline)

lemma allowed_recv_data_frame: "allowed (recv_data_frame RT frame)"
  unfolding recv_data_frame_def
  by (auto intro!: allowed_rules allowed_update_window split: Payload.splits FrameRecvState.splits)

lemma allowed_recv_window_frame: "\<not> widens_connection frame \<Longrightarrow> allowed (recv_window_frame frame)"
  unfolding recv_window_frame_def widens_connection_def
  by (auto intro!: allowed_rules split: Payload.splits)

lemma allowed_poll_recv_frame: "\<not> widens_connection frame \<Longrightarrow> allowed (poll_recv_frame RT frame)"
  unfolding poll_recv_frame_def
  by (auto intro!: allowed_rules allowed_recv_window_frame allowed_recv_data_frame allowed_recv_header_frame
      allowed_recv_reset_frame allowed_recv_go_away_frame allowed_recv_ping_frame allowed_recv_settings_frame
      split: Payload.splits)

lemma allowed_poll_recv_message: "\<not> widens_connection frame \<Longrightarrow> allowed (poll_recv_message RT frame)"
  unfolding poll_recv_message_def
  by (auto intro!: allowed_rules allowed_poll_recv_frame allowed_manage_resp_error split: sum.splits poll.splits)

lemma accept_request_R:
  fixes r :: "(unit, DispatchErrorKind) outcome"
  assumes "on_streams generate_id m = (Ok i, m1)" "accept_request i message m1 = (r, m2)" "r \<noteq> Panic"
    and "rw_payload (rq_request message) = PL_Headers parts"
  shows "on_manager R m m2"
proof -
  obtain s1 where s1: "generate_id (mg_streams m) = (Ok i, s1)" "m1 = set_streams s1 m"
    using assms(1) by (auto simp: on_streams_def inside_def split: prod.splits)
  obtain q s2 where s2: "register_stream i (rw_flag (rq_request message)) (PL_Headers parts)
      (rw_data (rq_request message)) s1 = (q :: (unit, DispatchErrorKind) outcome, s2)" "q \<noteq> Panic"
    "mg_streams m2 = s2" "mg_out m2 = mg_out m"
    using assms(2-4) s1(2)
    by (cases "register_stream i (rw_flag (rq_request message)) (PL_Headers parts)
      (rw_data (rq_request message)) s1 :: (unit, DispatchErrorKind) outcome \<times> _")
      (auto simp: accept_request_def on_streams_def on_controller_def action_defs set_streams_def
        split: outcome.splits)
  then show ?thesis using register_next [OF s1(1) s2(1,2)] R_step by (simp add: on_manager_def)
qed

lemma poll_recv_request_R:
  assumes ok: "requests_ok RT"
    and "poll_recv_request RT m = (r, m')" "r \<noteq> Panic"
  shows "on_manager R m m'"
  using assms(2)
proof (induction m rule: measure_induct_rule [of "\<lambda>m. 2 ^ 31 + 2 - unat (ss_next_stream_id (mg_streams m))"])
  case (less m)
  obtain p w where p: "rt_req_recv RT (mg_world m) = (p, w)" by (cases "rt_req_recv RT (mg_world m)")
  let ?m = "m\<lparr>mg_world := w\<rparr>"
  have same: "on_manager R m (x\<lparr>mg_world := u\<rparr>)" if "mg_streams x = mg_streams m" "mg_out x = mg_out m" for x u
    using that by (simp add: on_manager_def R_refl)
  show ?case
  proof (cases "\<exists>message i m1. p = RP_Message message \<and> on_streams generate_id ?m = (Ok i, m1)")
    case False
    have "mg_streams m1 = mg_streams m \<and> mg_out m1 = mg_out m"
      if "on_streams generate_id ?m = (q, m1)" "\<And>i. q \<noteq> Ok i" for q m1
      using that by (auto simp: on_streams_def inside_def set_streams_def generate_id_def Let_def split: if_splits)
    then show ?thesis
      using less.prems p False assms(3) same
      by (subst (asm) poll_recv_request.simps) (auto split: RecvPoll.splits prod.splits outcome.splits)
  next
    case True
    then obtain message i m1 where message: "p = RP_Message message" "on_streams generate_id ?m = (Ok i, m1)" by blast
    obtain q m2 where q: "accept_request i message m1 = (q :: (unit, DispatchErrorKind) outcome, m2)"
      by (cases "accept_request i message m1 :: (unit, DispatchErrorKind) outcome \<times> _")
    then have "q \<noteq> Panic"
      using less.prems p message assms(3) by (subst (asm) poll_recv_request.simps) auto
    then have step: "on_manager R m m2"
      using accept_request_R [OF message(2) q] ok p message(1)
      by (auto simp: requests_ok_def on_manager_def)
    show ?thesis
    proof (cases "\<exists>u. q = Ok u")
      case True
      then have "poll_recv_request RT m2 = (r, m')"
        using less.prems p message q by (subst (asm) poll_recv_request.simps) auto
      then have "on_manager R m2 m'"
        using accept_uses_id [OF message(2) q] by (intro less.IH) auto
      with step show ?thesis by (rule acts.trans)
    next
      case False
      then have "m' = m2"
        using less.prems p message q by (subst (asm) poll_recv_request.simps) (auto split: outcome.splits)
      with step show ?thesis by simp
    qed
  qed
qed

lemma allowed_poll_recv_request: "requests_ok RT \<Longrightarrow> allowed (poll_recv_request RT)"
  by (rule movesI) (rule poll_recv_request_R)

lemma allowed_poll_deal_with_go_away: "allowed (poll_deal_with_go_away RT code)"
  unfolding poll_deal_with_go_away_def send_peer_goaway_def shutdown_def Let_def
  by (auto intro!: allowed_rules)

end

locale stream_contract = quiet_contract RT R
  for RT :: "('w, 'b, 'h) runtime" and R :: "'b Streams \<times> Frame list \<Rightarrow> 'b Streams \<times> Frame list \<Rightarrow> bool" +
  assumes R_outline: "outline s = outline s' \<Longrightarrow> R (s, out) (s', out)"
    and R_header: "headers i s = (Ok (Some frame), s1) \<Longrightarrow> R (s, out) (s1, out)"
    and R_header_sent: "headers i s = (Ok (Some frame), s1) \<Longrightarrow>
      send_frame_state frame s1 = (Ok q, s2) \<Longrightarrow> (\<And>e. q \<noteq> FR_Err e) \<Longrightarrow> R (s, out) (s2, out @ [frame])"
    and R_body: "poll_read_body (rt_body_read RT) i (s, w) = (Ok (DR_Ready frame), (s1, w')) \<Longrightarrow>
      R (s, out) (s1, out)"
    and R_body_sent: "poll_read_body (rt_body_read RT) i (s, w) = (Ok d, (s1, w')) \<Longrightarrow>
      d = DR_Ready frame \<or> d = DR_Finish frame \<Longrightarrow>
      send_frame_state frame s1 = (Ok q, s2) \<Longrightarrow> (\<And>e. q \<noteq> FR_Err e) \<Longrightarrow> R (s, out) (s2, out @ [frame])"
begin

lemma allowed_next_pending_stream: "allowed (on_streams next_pending_stream)"
  by (rule movesI)
    (auto simp: on_streams_def inside_def on_manager_def set_streams_def next_pending_stream_def outline_def
      split: prod.splits list.splits intro!: R_outline)

text \<open>Sending a frame of a request, from the state in which it was taken.\<close>

lemma poll_send_frame_R:
  assumes "poll_send_frame RT frame m1 = (r, m2)" "r \<noteq> Panic"
    and refused: "R x (mg_streams m1, mg_out m1)"
    and sent: "\<And>q s2. send_frame_state frame (mg_streams m1) = (Ok q, s2) \<Longrightarrow> (\<And>e. q \<noteq> FR_Err e) \<Longrightarrow>
      R x (s2, mg_out m1 @ [frame])"
  shows "R x (mg_streams m2, mg_out m2)"
proof -
  obtain q s2 where state: "send_frame_state frame (mg_streams m1) = (Ok q, s2)"
    using assms(1,2) send_frame_state_no_Err [of frame "mg_streams m1"]
    by (cases "send_frame_state frame (mg_streams m1)"; cases "fst (send_frame_state frame (mg_streams m1))")
      (auto simp: poll_send_frame_def on_streams_def inside_def andthen_def)
  show ?thesis
  proof (cases "\<exists>e. q = FR_Err e")
    case True
    then have "mg_streams m2 = mg_streams m1 \<and> mg_out m2 = mg_out m1"
      using assms(1) state send_frame_state_refused
      by (auto simp: poll_send_frame_def on_streams_def inside_def andthen_def fail_def set_streams_def)
    then show ?thesis using refused by simp
  next
    case False
    then have "mg_streams m2 = s2 \<and> mg_out m2 = mg_out m1 @ [frame]"
      using assms(1) state
      by (auto simp: poll_send_frame_def on_streams_def on_port_def inside_def andthen_def set_streams_def
          input_tx_send_def split: FrameRecvState.splits prod.splits dest!: send_or_closed_input)
    then show ?thesis using sent [OF state] False by simp
  qed
qed

lemma poll_read_bodyD:
  "on_world_streams (poll_read_body (rt_body_read RT) i) m = (r, m1) \<Longrightarrow>
     poll_read_body (rt_body_read RT) i (mg_streams m, mg_world m) = (r, (mg_streams m1, mg_world m1))
       \<and> mg_out m1 = mg_out m"
  by (auto simp: on_world_streams_def inside_def set_streams_def split: prod.splits)

lemma body_turn_quiet:
  assumes "on_world_streams (poll_read_body (rt_body_read RT) i) m = (p, m1)" "\<And>frame. p \<noteq> Ok (DR_Ready frame)"
  shows "on_manager R m m1"
  using poll_read_bodyD [OF assms(1)] assms(2) poll_read_body_outline
  by (metis R_outline on_manager_def)

lemma body_turn_sent:
  assumes turn: "on_world_streams (poll_read_body (rt_body_read RT) i) m = (Ok d, m1)"
    and d: "d = DR_Ready frame \<or> d = DR_Finish frame"
    and send: "poll_send_frame RT frame m1 = (q, m2)" "q \<noteq> Panic"
  shows "on_manager R m m2"
  unfolding on_manager_def
proof (rule poll_send_frame_R [OF send])
  note read = poll_read_bodyD [OF turn]
  show "R (mg_streams m, mg_out m) (mg_streams m1, mg_out m1)"
  proof (cases "d = DR_Ready frame")
    case True
    then show ?thesis using read R_body by metis
  next
    case False
    then show ?thesis using d body_turn_quiet [OF turn] by (auto simp: on_manager_def)
  qed
  show "R (mg_streams m, mg_out m) (s2, mg_out m1 @ [frame])"
    if "send_frame_state frame (mg_streams m1) = (Ok q, s2)" "\<And>e. q \<noteq> FR_Err e" for q s2
    using read that d R_body_sent by metis
qed

lemma input_body_loop_R:
  assumes "input_body_loop RT i m = (r, m')" "r \<noteq> Panic"
  shows "on_manager R m m'"
  using assms(1)
proof (induction m rule: measure_induct_rule
    [of "\<lambda>m. nat (sw_size (fc_send_window (ss_flow_control (mg_streams m))))"])
  case (less m)
  obtain p m1 where turn: "on_world_streams (poll_read_body (rt_body_read RT) i) m = (p, m1)"
    by (cases "on_world_streams (poll_read_body (rt_body_read RT) i) m")
  have loop: "input_body_loop RT i m = (r, m')" by (rule less.prems)
  show ?case
  proof (cases "\<exists>frame. p = Ok (DR_Ready frame)")
    case True
    then obtain frame where p: "p = Ok (DR_Ready frame)" by blast
    obtain q m2 where q: "poll_send_frame RT frame m1 = (q, m2)" by (cases "poll_send_frame RT frame m1")
    show ?thesis
    proof (cases "\<exists>u. q = Ok u")
      case True
      then have "input_body_loop RT i m2 = (r, m')"
        using loop turn p q by (subst (asm) input_body_loop.simps) auto
      moreover have "nat (sw_size (fc_send_window (ss_flow_control (mg_streams m2)))) <
          nat (sw_size (fc_send_window (ss_flow_control (mg_streams m))))"
        using turn p q by (intro input_turn_spends) auto
      ultimately have "on_manager R m2 m'" by (intro less.IH)
      moreover have "on_manager R m m2"
        using turn p True by (intro body_turn_sent [OF _ _ q]) auto
      ultimately show ?thesis by (rule acts.trans [rotated])
    next
      case False
      then have "m' = m2" "q \<noteq> Panic"
        using loop turn p q assms(2) by (subst (asm) input_body_loop.simps, auto split: outcome.splits)+
      then show ?thesis using turn p by (auto intro: body_turn_sent [OF _ _ q])
    qed
  next
    case False
    then have m1: "on_manager R m m1" using body_turn_quiet [OF turn] by blast
    consider (finish) frame where "p = Ok (DR_Finish frame)" "poll_send_frame RT frame m1 = (r, m')"
      | (error) e where "p = Err e" "deal_poll_body_error RT e m1 = (r, m')"
      | (stop) "m' = m1"
      using loop turn False
      by (subst (asm) input_body_loop.simps) (auto split: outcome.splits DataReadState.splits)
    then show ?thesis
    proof cases
      case finish
      then show ?thesis using turn assms(2) by (auto intro: body_turn_sent)
    next
      case error
      then show ?thesis using movesD [OF allowed_deal_poll_body_error error(2) assms(2)] acts.trans [OF m1] by blast
    qed (use m1 in simp)
  qed
qed

lemma allowed_input_body_loop: "allowed (input_body_loop RT i)"
  by (rule movesI) (rule input_body_loop_R)

lemma allowed_input_stream_frame: "allowed (input_stream_frame RT i)"
proof (rule movesI)
  fix m m' :: "('w, 'b, 'h) ConnManager" and r
  assume run: "input_stream_frame RT i m = (r, m')" "r \<noteq> Panic"
  let ?rest = "\<lambda>frame. if FrameFlags_is_end_stream (fr_flags frame) then give () else input_body_loop RT i"
  have rest: "allowed (?rest frame)" for frame by (intro moves_intros allowed_input_body_loop)
  obtain p s1 where taken: "headers i (mg_streams m) = (p, s1)" by (cases "headers i (mg_streams m)")
  let ?m1 = "set_streams s1 m"
  have m1: "mg_streams ?m1 = s1" "mg_out ?m1 = mg_out m" by (simp_all add: set_streams_def)
  consider (none) "p = Ok None" "input_body_loop RT i ?m1 = (r, m')"
    | (some) frame where "p = Ok (Some frame)" "andthen (poll_send_frame RT frame) (\<lambda>_. ?rest frame) ?m1 = (r, m')"
    | (error) e where "p = Err e" "m' = ?m1"
    using run taken
    by (cases p) (auto simp: input_stream_frame_def andthen_def relabel_def on_streams_def inside_def split: option.splits)
  then show "on_manager R m m'"
  proof cases
    case none
    have "on_manager R m ?m1"
      using headers_None_outline taken none(1) by (metis R_outline m1 on_manager_def)
    then show ?thesis using input_body_loop_R [OF none(2) run(2)] by (rule acts.trans)
  next
    case some
    obtain q m2 where q: "poll_send_frame RT frame ?m1 = (q, m2)" by (cases "poll_send_frame RT frame ?m1")
    then have "q \<noteq> Panic" using some(2) run(2) by (auto simp: andthen_def)
    then have "on_manager R m m2"
      unfolding on_manager_def
      using R_header R_header_sent taken some(1) m1 by (intro poll_send_frame_R [OF q]) auto
    moreover have "on_manager R m2 m'"
      using some(2) q run(2) movesD [OF rest] acts.refl by (auto simp: andthen_def split: outcome.splits)
    ultimately show ?thesis by (rule acts.trans)
  next
    case error
    then show ?thesis using headers_Err taken m1 R_refl by (metis on_manager_def)
  qed
qed

lemma allowed_poll_input_request: "allowed (poll_input_request RT)"
proof -
  have "allowed (input_request_loop RT n)" for n
    by (induction n) (auto intro!: moves_intros allowed_next_pending_stream allowed_input_stream_frame)
  then show ?thesis
    unfolding poll_input_request_def by (intro allowed_rules)
qed

lemma allowed_manage_pending_state: "requests_ok RT \<Longrightarrow> allowed (manage_pending_state RT)"
  unfolding manage_pending_state_def
  by (auto intro!: allowed_rules allowed_poll_input_request allowed_poll_recv_request allowed_poll_deal_with_go_away)

lemma allowed_receive_message:
  "requests_ok RT \<Longrightarrow> (\<And>frame. message = RP_Message (OM_Output frame) \<Longrightarrow> \<not> widens_connection frame) \<Longrightarrow>
     allowed (receive_message RT message)"
  unfolding receive_message_def Let_def poll_channel_closed_exit_def
  by (auto intro!: allowed_rules allowed_poll_recv_message allowed_manage_resp_error allowed_exit_or_wait
      allowed_manage_pending_state split: RecvPoll.splits OutputMessage.splits)

lemma poll_turn_R:
  assumes "requests_ok RT" "poll_turn RT m = (r, m')" "r \<noteq> Panic"
    and "\<And>frame. incoming RT m = [frame] \<Longrightarrow> \<not> widens_connection frame"
  shows "on_manager R m m'"
proof (cases "mg_state m")
  case MS_Send
  let ?turn = "andthen (poll_blocked_frames RT) (\<lambda>p. give (case p of Ready _ \<Rightarrow> None | Pending \<Rightarrow> Some Pending))"
  have "allowed ?turn" by (intro moves_intros allowed_poll_blocked_frames)
  moreover have "?turn m = (r, m')"
    using assms(2) MS_Send by (simp add: poll_turn_def andthen_def view_def)
  ultimately show ?thesis using assms(3) by (rule movesD)
next
  case MS_Receive
  obtain message w where recv: "rt_resp_recv RT (mg_world m) = (message, w)"
    by (cases "rt_resp_recv RT (mg_world m)")
  have "allowed (receive_message RT message)"
    using assms(1,4) recv MS_Receive by (intro allowed_receive_message) (auto simp: incoming_def)
  moreover have "receive_message RT message (m\<lparr>mg_world := w\<rparr>) = (r, m')"
    using assms(2) recv MS_Receive by (simp add: poll_turn_def andthen_def view_def)
  ultimately have "on_manager R (m\<lparr>mg_world := w\<rparr>) m'" using assms(3) by (rule movesD)
  then show ?thesis by (simp add: on_manager_def)
next
  case (MS_Exit e)
  then show ?thesis using assms(2) by (auto simp: poll_turn_def action_defs acts.refl)
qed

end

text \<open>A relation that does not look at the window of the connection holds along whole runs.\<close>

locale widening_contract = quiet_contract RT R
  for RT :: "('w, 'b, 'h) runtime" and R :: "'b Streams \<times> Frame list \<Rightarrow> 'b Streams \<times> Frame list \<Rightarrow> bool" +
  assumes R_widen: "increase_conn_send_window sz s = (Ok (), s') \<Longrightarrow> R (s, out) (s', out)"
begin

lemma allowed_recv_window: "allowed (recv_window_frame frame)"
proof (cases "widens_connection frame")
  case True
  have "on_manager R m m'" if "recv_window_frame frame m = (r, m')" for m m' r
  proof -
    obtain sz where frame: "fr_payload frame = PL_WindowUpdate sz" "fr_id frame = 0"
      using True by (auto simp: widens_connection_def)
    obtain q s1 where inc: "increase_conn_send_window sz (mg_streams m) = (q, s1)"
      by (cases "increase_conn_send_window sz (mg_streams m)")
    show ?thesis
    proof (cases "q = Ok ()")
      case True
      then have "m' = set_streams (reassign_conn_send_window s1) m"
        using that frame inc
        by (simp add: recv_window_frame_def on_streams_def action_defs)
      moreover have "R (mg_streams m, mg_out m) (reassign_conn_send_window s1, mg_out m)"
        using R_widen [of sz "mg_streams m" s1] inc True
        by (auto intro: R_trans R_same [OF outline_reassign_conn [symmetric] waiting_reassign_conn [symmetric]])
      ultimately show ?thesis by (simp add: on_manager_def set_streams_def)
    next
      case False
      then have "s1 = mg_streams m" using inc by (auto simp: increase_conn_send_window_def split: outcome.splits)
      moreover have "m' = set_streams s1 m"
        using that frame inc False by (cases q) (auto simp: recv_window_frame_def on_streams_def action_defs)
      ultimately show ?thesis by (simp add: on_manager_def set_streams_def R_refl)
    qed
  qed
  then show ?thesis by (intro movesI)
qed (rule allowed_recv_window_frame)

lemma allowed_poll_recv_message_all: "allowed (poll_recv_message RT frame)"
proof (cases "widens_connection frame")
  case True
  then have "poll_recv_frame RT frame = andthen (recv_window_frame frame) (\<lambda>_. give (Ready ()))"
    by (auto simp: poll_recv_frame_def widens_connection_def)
  then show ?thesis
    unfolding poll_recv_message_def
    by (auto intro!: allowed_rules allowed_recv_window allowed_manage_resp_error split: sum.splits poll.splits)
qed (rule allowed_poll_recv_message)

end

locale window_free_contract = stream_contract RT R + widening_contract RT R
  for RT :: "('w, 'b, 'h) runtime" and R :: "'b Streams \<times> Frame list \<Rightarrow> 'b Streams \<times> Frame list \<Rightarrow> bool"
begin

lemma turn_R:
  assumes "requests_ok RT" "poll_turn RT m = (r, m')" "r \<noteq> Panic"
  shows "on_manager R m m'"
proof (cases "\<exists>frame. incoming RT m = [frame] \<and> widens_connection frame")
  case True
  then obtain frame where "incoming RT m = [frame]" by blast
  then obtain w where recv: "rt_resp_recv RT (mg_world m) = (RP_Message (OM_Output frame), w)" "mg_state m = MS_Receive"
    by (cases "rt_resp_recv RT (mg_world m)")
      (auto simp: incoming_def split: ManagerState.splits RecvPoll.splits OutputMessage.splits)
  let ?turn = "andthen (poll_recv_message RT frame) (\<lambda>p. give (case p of Ready _ \<Rightarrow> None | Pending \<Rightarrow> Some Pending))"
  have "allowed ?turn" by (intro moves_intros allowed_poll_recv_message_all)
  moreover have "?turn (m\<lparr>mg_world := w\<rparr>) = (r, m')"
    using assms(2) recv by (simp add: poll_turn_def receive_message_def andthen_def view_def)
  ultimately have "on_manager R (m\<lparr>mg_world := w\<rparr>) m'" using assms(3) by (rule movesD)
  then show ?thesis by (simp add: on_manager_def)
next
  case False
  then show ?thesis using poll_turn_R [OF assms] by blast
qed

lemma turns_R:
  assumes "turns RT m frames m'" "requests_ok RT"
  shows "on_manager R m m'"
  using assms(1)
proof induction
  case start
  then show ?case by (rule acts.refl)
next
  case (turn frames m1 r m2)
  then show ?case using turn_R [OF assms(2)] acts.trans by blast
next
  case (world frames m1 w settings)
  then show ?case by (simp add: on_manager_def)
qed

end

end
