(* ===== verification/H2_Flow_Control.thy ===== *)
theory H2_Flow_Control
  imports H2_Manager_Steps
begin

text \<open>
  Flow control of the connection: the octets of the DATA frames the manager hands to the writer never
  exceed the initial window plus what the server's WINDOW\_UPDATE frames have granted. The relation
  between states is an instance of \<open>stream_contract\<close>.
\<close>

section \<open>Stored headers\<close>

text \<open>The frame a stream keeps until it is sent is a HEADERS frame of that stream.\<close>

fun own_header :: "StreamId \<Rightarrow> Frame option \<Rightarrow> bool" where
  "own_header i None \<longleftrightarrow> True"
| "own_header i (Some frame) \<longleftrightarrow> fr_id frame = i \<and> (\<exists>parts. fr_payload frame = PL_Headers parts)"

definition headers_ok :: "'b Streams \<Rightarrow> bool" where
  "headers_ok s \<longleftrightarrow> list_all (\<lambda>(i, st). own_header i (st_header st)) (ss_stream_map s)"

lemma list_all_update: "list_all P m \<Longrightarrow> P (i, v) \<Longrightarrow> list_all P (AList.update i v m)"
  by (induction m) auto

lemma list_all_stream_at:
  "list_all P (ss_stream_map s) \<Longrightarrow> stream_at i s = Some st \<Longrightarrow> P (i, st)"
  by (auto simp: stream_at_def list_all_iff dest!: map_of_SomeD)

lemma headers_ok_put:
  "headers_ok s \<Longrightarrow> own_header i (st_header st) \<Longrightarrow> headers_ok (put_stream i st s)"
  by (simp add: headers_ok_def put_stream_def list_all_update)

lemma headers_ok_at: "headers_ok s \<Longrightarrow> stream_at i s = Some st \<Longrightarrow> own_header i (st_header st)"
  unfolding headers_ok_def by (drule (1) list_all_stream_at) simp

lemma shut_header [simp]: "st_header (shut_stream reason st) = None"
  by (simp add: shut_stream_def)

lemma headers_ok_view: "headers_ok s \<longleftrightarrow> list_all (\<lambda>(i, q, h). own_header i h) (fst (outline s))"
  by (auto simp: headers_ok_def outline_def list_all_iff)

lemma headers_ok_outline: "outline s = outline s' \<Longrightarrow> headers_ok s' = headers_ok s"
  by (simp add: headers_ok_view)

lemma unset_loop_entries:
  assumes "unset_loop last_id current m = Some (is, current', m')"
    and "list_all P m" "\<And>i st. P (i, st) \<Longrightarrow> P (i, shut_stream RemoteGoAway st)"
  shows "list_all P m'"
  using assms(1,2)
proof (induction m arbitrary: current "is" current' m')
  case (Cons p m)
  then show ?case
    by (cases p) (auto split: if_splits H2StreamState.splits intro: assms(3))
qed simp

lemma headers_ok_sstep: "sstep s s' \<Longrightarrow> headers_ok s \<Longrightarrow> headers_ok s'"
proof (induction rule: sstep.induct)
  case (same s s')
  then show ?case using headers_ok_outline by blast
next
  case (receive i s st q)
  then show ?case by (auto intro!: headers_ok_put dest: headers_ok_at)
next
  case (finish i s st)
  then have "headers_ok (put_stream i (st\<lparr>st_state := Closed EndStream\<rparr>) s)"
    by (auto intro!: headers_ok_put dest: headers_ok_at)
  then show ?case by (simp add: headers_ok_def drop_one_def)
next
  case (reset i s st reason)
  then have "headers_ok (put_stream i (shut_stream reason st) s)" by (auto intro!: headers_ok_put)
  then show ?case by (simp add: headers_ok_def drop_one_def)
next
  case (reclose i s st)
  then show ?case by (auto intro!: headers_ok_put dest: headers_ok_at)
next
  case (register_wait s flag parts data)
  then show ?case
    unfolding insert_stream_def Let_def
    by (intro headers_ok_put)
      (auto simp: headers_ok_def push_pending_concurrency_def next_id_def Stream_new_def Frame_new_def)
next
  case (register_now s flag parts data)
  then show ?case
    unfolding insert_stream_def Let_def
    by (intro headers_ok_put)
      (auto simp: headers_ok_def push_back_pending_send_def next_id_def add_one_def Stream_new_def
        Frame_new_def)
next
  case (unset last_id s "is" current m)
  then show ?case using unset_loop_entries [OF unset(1), of "\<lambda>(i, st). own_header i (st_header st)"]
    by (simp add: headers_ok_def)
next
  case (close_all s)
  then show ?case by (auto simp: headers_ok_def list_all_iff)
qed (simp_all add: headers_ok_def push_back_pending_send_def add_one_def clear_streams_states_def)

lemma headers_ok_simps [simp]:
  "headers_ok (s\<lparr>ss_flow_control := f\<rparr>) = headers_ok s"
  "headers_ok (drop_one s) = headers_ok s"
  by (simp_all add: headers_ok_def drop_one_def)

lemma headers_ok_send_frame:
  assumes "send_frame_state frame s = (r, s')" "headers_ok s" "r \<noteq> Panic"
  shows "headers_ok s'"
  using assms
  by (auto simp: send_frame_state_def send_headers_frame_def send_data_frame_def decrease_then_give give_def
      split: Payload.splits state_op_splits intro!: headers_ok_put intro: headers_ok_at)
    (erule (1) headers_ok_at)+

text \<open>Taking the header out of a stream.\<close>

lemma headers_SomeE:
  assumes "headers i s = (Ok (Some frame), s1)"
  obtains st where "stream_at i s = Some st" "\<not> is_Closed (st_state st)" "st_header st = Some frame"
    "s1 = put_stream i (st\<lparr>st_header := None\<rparr>) s"
  using assms by (auto simp: headers_def split: option.splits if_splits)

section \<open>The octets sent\<close>

definition data_octets :: "Frame list \<Rightarrow> nat" where
  "data_octets frames =
     sum_list (map (\<lambda>frame. case fr_payload frame of PL_Data d \<Rightarrow> length d | _ \<Rightarrow> 0) frames)"

definition conn_send_size :: "'b Streams \<Rightarrow> int" where
  "conn_send_size s = sw_size (fc_send_window (ss_flow_control s))"

fun flow_rel :: "'b Streams \<times> Frame list \<Rightarrow> 'b Streams \<times> Frame list \<Rightarrow> bool" where
  "flow_rel (s, out) (s', out') \<longleftrightarrow>
     (headers_ok s \<longrightarrow> headers_ok s' \<and>
        data_octets out' + nat (conn_send_size s') \<le> data_octets out + nat (conn_send_size s))"

lemma data_octets_append [simp]: "data_octets (a @ b) = data_octets a + data_octets b"
  by (simp add: data_octets_def)

lemma data_octets_control [simp]: "\<not> carries_request frame \<Longrightarrow> data_octets [frame] = 0"
  by (auto simp: data_octets_def carries_request_def split: Payload.splits)

lemma conn_send_size_put [simp]: "conn_send_size (put_stream i st s) = conn_send_size s"
  by (simp add: conn_send_size_def put_stream_def)

lemma conn_send_size_sstep: "sstep s s' \<Longrightarrow> conn_send_size s' = conn_send_size s"
  by (induction rule: sstep.induct)
    (auto simp: conn_send_size_def outline_def drop_one_def add_one_def put_stream_def insert_stream_def
      push_pending_concurrency_def push_back_pending_send_def next_id_def clear_streams_states_def Let_def)

lemma conn_send_size_send_frame:
  "send_frame_state frame s = (r, s') \<Longrightarrow> conn_send_size s' = conn_send_size s"
  by (simp add: conn_send_size_def send_frame_state_flow)

lemma available_le: "unat (SendWindow_size_available w) \<le> nat (sw_size w)"
  by (auto simp: SendWindow_size_available_def as_u32_def unsigned_of_int take_bit_eq_mod
      intro!: nat_mono zmod_le_nonneg_dividend)

lemma flow_body:
  assumes "poll_read_body body_read i (s, w) = (Ok (DR_Ready frame), (s1, w'))"
  shows "data_octets [frame] + nat (conn_send_size s1) \<le> nat (conn_send_size s)"
    and "headers_ok s \<Longrightarrow> headers_ok s1"
proof -
  obtain stream filled where
    facts: "stream_at i s = Some stream" "frame = Frame_new i 0 (PL_Data filled)" "filled \<noteq> []"
      "length filled \<le> FlowControl_send_size_available (ss_flow_control s)"
    and s1: "s1 = put_stream i (stream\<lparr>st_send_window := spend_window (length filled) (st_send_window stream)\<rparr>)
            (s\<lparr>ss_flow_control := (ss_flow_control s)\<lparr>fc_send_window :=
                 spend_window (length filled) (fc_send_window (ss_flow_control s))\<rparr>\<rparr>)"
    and range: "in_i32 (sw_size (fc_send_window (ss_flow_control s1)))"
    using assms by (rule poll_read_body_ReadyE) metis
  have "length filled \<le> nat (conn_send_size s)"
    using facts(4) available_le [of "fc_send_window (ss_flow_control s)"]
    by (simp add: FlowControl_send_size_available_def conn_send_size_def)
  then show "data_octets [frame] + nat (conn_send_size s1) \<le> nat (conn_send_size s)"
    using s1 facts(2) by (simp add: data_octets_def Frame_new_def conn_send_size_def put_stream_def spend_window_def)
  show "headers_ok s \<Longrightarrow> headers_ok s1"
    using s1 facts(1) by (auto intro!: headers_ok_put dest: headers_ok_at)
qed

section \<open>The contract\<close>

interpretation flow: stream_contract RT flow_rel for RT :: "('w, 'b, 'h) runtime"
proof unfold_locales
  show "flow_rel x x" for x :: "'b Streams \<times> Frame list"
    by (cases x) simp
  show "flow_rel x z" if "flow_rel x y" "flow_rel y z" for x y z :: "'b Streams \<times> Frame list"
    using that by (cases x; cases y; cases z) auto
  show "flow_rel (s, out) (s', out)" if "sstep s s'" for s s' :: "'b Streams" and out
    using that by (simp add: headers_ok_sstep conn_send_size_sstep)
  show "flow_rel (s, out) (s', out)" if "outline s = outline s'" for s s' :: "'b Streams" and out
    using that headers_ok_outline [OF that] by (simp add: conn_send_size_def outline_def)
  show "flow_rel (s, out) (s, out @ [frame])" if "\<not> carries_request frame" for s :: "'b Streams" and out frame
    using that by simp
next
  fix i frame out q and s s1 s2 :: "'b Streams"
  assume taken: "headers i s = (Ok (Some frame), s1)"
  then obtain st where st: "stream_at i s = Some st" "st_header st = Some frame"
    "s1 = put_stream i (st\<lparr>st_header := None\<rparr>) s"
    by (rule headers_SomeE)
  have ok: "headers_ok s \<Longrightarrow> headers_ok s1" using st by (auto intro: headers_ok_put)
  then show "flow_rel (s, out) (s1, out)" using st by simp
  assume sent: "send_frame_state frame s1 = (Ok q, s2)" "\<And>e. q \<noteq> FR_Err e"
  have "headers_ok s \<Longrightarrow> data_octets [frame] = 0"
    using headers_ok_at [of s i st] st by (auto simp: data_octets_def)
  moreover have "headers_ok s \<Longrightarrow> headers_ok s2" using sent(1) ok by (auto dest: headers_ok_send_frame)
  ultimately show "flow_rel (s, out) (s2, out @ [frame])"
    using conn_send_size_send_frame [OF sent(1)] st(3) by simp
next
  fix RT :: "('w, 'b, 'h) runtime" and i frame out q d w w' and s s1 s2 :: "'b Streams"
  show "flow_rel (s, out) (s1, out)"
    if "poll_read_body (rt_body_read RT) i (s, w) = (Ok (DR_Ready frame), (s1, w'))"
    using flow_body [OF that] by simp
  assume read: "poll_read_body (rt_body_read RT) i (s, w) = (Ok d, (s1, w'))"
    and d: "d = DR_Ready frame \<or> d = DR_Finish frame"
    and sent: "send_frame_state frame s1 = (Ok q, s2)" "\<And>e. q \<noteq> FR_Err e"
  have "data_octets [frame] + nat (conn_send_size s1) \<le> nat (conn_send_size s) \<and> (headers_ok s \<longrightarrow> headers_ok s1)"
    using d
  proof
    assume "d = DR_Ready frame"
    then show ?thesis using flow_body read by metis
  next
    assume "d = DR_Finish frame"
    then have "s1 = s \<and> fr_payload frame = PL_Data []"
      using read
      by (auto simp: poll_read_body_def poll_sized_data_def Let_def Frame_new_def
          split: option.splits if_splits prod.splits BodyPoll.splits outcome.splits)
    then show ?thesis by (simp add: data_octets_def)
  qed
  then show "flow_rel (s, out) (s2, out @ [frame])"
    using conn_send_size_send_frame [OF sent(1)] headers_ok_send_frame [OF sent(1)] by auto
qed

section \<open>A whole connection\<close>

text \<open>The octets a received frame adds to the window of the connection.\<close>

definition conn_credit :: "Frame \<Rightarrow> nat" where
  "conn_credit frame =
     (case fr_payload frame of PL_WindowUpdate n \<Rightarrow> if fr_id frame = 0 then unat n else 0 | _ \<Rightarrow> 0)"

lemma nat_add_as_i32: "nat (x + as_i32 n) \<le> nat x + unat n"
proof (cases "unat n < 2 ^ 31")
  case True
  then have "x + as_i32 n = x + int (unat n)" by (simp add: as_i32_small)
  then show ?thesis by linarith
next
  case False
  then have "2147483648 \<le> unat n" by simp
  moreover have "as_i32 n < 2147483648" using as_i32_in_i32 [of n] by (simp add: in_i32_def)
  ultimately show ?thesis by linarith
qed

lemma increase_conn_credit:
  assumes "increase_conn_send_window n s = (r, s1)"
  shows "nat (conn_send_size s1) \<le> nat (conn_send_size s) + unat n" "headers_ok s1 = headers_ok s"
  using assms nat_add_as_i32
  by (auto simp: increase_conn_send_window_def FlowControl_increase_send_size_def increase_size_cases
      conn_send_size_def headers_ok_def split: outcome.splits if_splits)

definition flow_potential :: "('w, 'b, 'h) ConnManager \<Rightarrow> nat" where
  "flow_potential m = data_octets (mg_out m) + nat (conn_send_size (mg_streams m))"

lemma flow_move:
  "on_manager flow_rel m m' \<Longrightarrow> headers_ok (mg_streams m) \<Longrightarrow>
     headers_ok (mg_streams m') \<and> flow_potential m' \<le> flow_potential m"
  by (simp add: on_manager_def flow_potential_def)

lemma flow_widen:
  assumes run: "recv_window_frame frame m = (r, m')" and widens: "widens_connection frame"
    and ok: "headers_ok (mg_streams m)"
  shows "headers_ok (mg_streams m') \<and> flow_potential m' \<le> flow_potential m + conn_credit frame"
proof -
  obtain n where frame: "fr_payload frame = PL_WindowUpdate n" "fr_id frame = 0"
    using widens by (auto simp: widens_connection_def)
  obtain q s1 where inc: "increase_conn_send_window n (mg_streams m) = (q, s1)"
    by (cases "increase_conn_send_window n (mg_streams m)")
  have "mg_out m' = mg_out m \<and> (mg_streams m' = s1 \<or> mg_streams m' = reassign_conn_send_window s1)"
    using run frame inc
    by (cases q) (auto simp: recv_window_frame_def on_streams_def action_defs set_streams_def)
  moreover have "headers_ok s1" and "nat (conn_send_size s1) \<le> nat (conn_send_size (mg_streams m)) + unat n"
    using increase_conn_credit [OF inc] ok by auto
  moreover have "headers_ok (reassign_conn_send_window s1) = headers_ok s1"
    "conn_send_size (reassign_conn_send_window s1) = conn_send_size s1"
    using outline_reassign_conn [of s1] headers_ok_outline [of "reassign_conn_send_window s1" s1]
    by (simp_all add: outline_def conn_send_size_def)
  ultimately show ?thesis
    using frame by (auto simp: flow_potential_def conn_credit_def)
qed

lemma flow_recv_message:
  assumes run: "poll_recv_message RT frame m = (r, m')" "r \<noteq> Panic" and ok: "headers_ok (mg_streams m)"
  shows "headers_ok (mg_streams m') \<and> flow_potential m' \<le> flow_potential m + conn_credit frame"
proof (cases "widens_connection frame")
  case False
  then have "on_manager flow_rel m m'" using run by (intro movesD [OF flow.allowed_poll_recv_message])
  then show ?thesis using flow_move ok by fastforce
next
  case True
  obtain q m1 where q: "recv_window_frame frame m = (q, m1)" by (cases "recv_window_frame frame m")
  note first = flow_widen [OF q True ok]
  have "poll_recv_frame RT frame = andthen (recv_window_frame frame) (\<lambda>_. give (Ready ()))"
    using True by (auto simp: poll_recv_frame_def widens_connection_def)
  then consider "m' = m1" | kind where "manage_resp_error RT kind m1 = (r, m')"
    using run q by (cases q) (auto simp: poll_recv_message_def action_defs)
  then show ?thesis
  proof cases
    case 2
    then have "on_manager flow_rel m1 m'" using run(2) by (rule movesD [OF flow.allowed_manage_resp_error])
    then show ?thesis using flow_move first by fastforce
  qed (use first in simp)
qed

lemma flow_turn:
  assumes run: "poll_turn RT m = (r, m')" "r \<noteq> Panic" and ok: "headers_ok (mg_streams m)"
    and requests: "requests_ok RT"
  shows "headers_ok (mg_streams m') \<and>
    flow_potential m' \<le> flow_potential m + sum_list (map conn_credit (incoming RT m))"
proof (cases "\<exists>frame. incoming RT m = [frame]")
  case False
  then have "on_manager flow_rel m m'" using flow.poll_turn_R [OF requests run] by blast
  then show ?thesis using flow_move ok by fastforce
next
  case True
  then obtain frame where frame: "incoming RT m = [frame]" by blast
  then obtain w where recv: "rt_resp_recv RT (mg_world m) = (RP_Message (OM_Output frame), w)" "mg_state m = MS_Receive"
    by (cases "rt_resp_recv RT (mg_world m)")
      (auto simp: incoming_def split: ManagerState.splits RecvPoll.splits OutputMessage.splits)
  obtain q m1 where q: "poll_recv_message RT frame (m\<lparr>mg_world := w\<rparr>) = (q, m1)"
    by (cases "poll_recv_message RT frame (m\<lparr>mg_world := w\<rparr>)")
  then have "m1 = m'" "q \<noteq> Panic"
    using run recv by (cases q; auto simp: poll_turn_def receive_message_def action_defs)+
  then show ?thesis
    using flow_recv_message [OF q] ok frame by (simp add: flow_potential_def)
qed

lemma flow_turns:
  assumes "turns RT m frames m'" "requests_ok RT" "headers_ok (mg_streams m)"
  shows "headers_ok (mg_streams m') \<and> flow_potential m' \<le> flow_potential m + sum_list (map conn_credit frames)"
  using assms(1)
proof induction
  case start
  then show ?case using assms(3) by simp
next
  case (turn frames m1 r m2)
  then show ?case using flow_turn [OF turn.hyps(2,3) _ assms(2)] by fastforce
next
  case (world frames m1 w settings)
  then show ?case by (simp add: flow_potential_def)
qed

end
