(* ===== verification/H2_Stream_States.thy ===== *)
theory H2_Stream_States
  imports H2_Flow_Control
begin

text \<open>
  The life of a stream: seen from outside, the states of \<^verbatim>\<open>H2StreamState\<close> move along the diagram of
  RFC 9113, and the frames handed to the writer for one stream are a HEADERS frame, then DATA
  frames, with END\_STREAM on the last one only. Both are parts of one instance of
  \<open>window_free_contract\<close>. Each operation on the state of a stream takes the edges of the diagram that
  belong to its frame (\<open>rfc_next\<close>, \<open>follows\<close>).
\<close>

section \<open>The diagram\<close>

datatype rfc_state = RFC_idle | RFC_reserved | RFC_open | RFC_half_local | RFC_half_remote | RFC_closed

text \<open>
  The diagram with the frames that move a stream (section 5.1): HEADERS, END\_STREAM and RST\_STREAM, each of them
  sent or received; DATA, and HEADERS after the first, are permitted without moving it. \<open>None\<close> is a frame that the
  diagram does not permit.
\<close>

datatype rfc_frame = F_Headers | F_Data | F_End | F_Reset

datatype rfc_event = Sent rfc_frame | Received rfc_frame

fun rfc_next :: "rfc_state \<Rightarrow> rfc_event \<Rightarrow> rfc_state option" where
  "rfc_next RFC_idle (Sent F_Headers) = Some RFC_open"
| "rfc_next RFC_idle (Received F_Headers) = Some RFC_open"
| "rfc_next RFC_reserved (Received F_Headers) = Some RFC_half_local"
| "rfc_next RFC_reserved (Sent F_Reset) = Some RFC_closed"
| "rfc_next RFC_reserved (Received F_Reset) = Some RFC_closed"
| "rfc_next RFC_open (Sent F_Headers) = Some RFC_open"
| "rfc_next RFC_open (Sent F_Data) = Some RFC_open"
| "rfc_next RFC_open (Sent F_End) = Some RFC_half_local"
| "rfc_next RFC_open (Sent F_Reset) = Some RFC_closed"
| "rfc_next RFC_open (Received F_Headers) = Some RFC_open"
| "rfc_next RFC_open (Received F_Data) = Some RFC_open"
| "rfc_next RFC_open (Received F_End) = Some RFC_half_remote"
| "rfc_next RFC_open (Received F_Reset) = Some RFC_closed"
| "rfc_next RFC_half_local (Received F_Headers) = Some RFC_half_local"
| "rfc_next RFC_half_local (Received F_Data) = Some RFC_half_local"
| "rfc_next RFC_half_local (Received F_End) = Some RFC_closed"
| "rfc_next RFC_half_local (Received F_Reset) = Some RFC_closed"
| "rfc_next RFC_half_local (Sent F_Reset) = Some RFC_closed"
| "rfc_next RFC_half_remote (Sent F_Headers) = Some RFC_half_remote"
| "rfc_next RFC_half_remote (Sent F_Data) = Some RFC_half_remote"
| "rfc_next RFC_half_remote (Sent F_End) = Some RFC_closed"
| "rfc_next RFC_half_remote (Sent F_Reset) = Some RFC_closed"
| "rfc_next RFC_half_remote (Received F_Reset) = Some RFC_closed"
| "rfc_next _ _ = None"

fun rfc_run :: "rfc_state \<Rightarrow> rfc_event list \<Rightarrow> rfc_state option" where
  "rfc_run q [] = Some q"
| "rfc_run q (e # es) = Option.bind (rfc_next q e) (\<lambda>q. rfc_run q es)"

text \<open>
  For whole runs, in which the frames of a stream are not followed one by one: the edges without their frames, and an
  edge that is not in the diagram: a stream that was never opened is closed when it is reset or when the connection
  ends.
\<close>

inductive rfc_step :: "rfc_state \<Rightarrow> rfc_state \<Rightarrow> bool" where
  headers: "rfc_step RFC_idle RFC_open"
| reserved: "rfc_step RFC_reserved RFC_half_local"
| send_end: "rfc_step RFC_open RFC_half_local"
| recv_end: "rfc_step RFC_open RFC_half_remote"
| local_closed: "rfc_step RFC_half_local RFC_closed"
| remote_closed: "rfc_step RFC_half_remote RFC_closed"
| reset: "rfc_step RFC_open RFC_closed"
| reset_reserved: "rfc_step RFC_reserved RFC_closed"
| abandon: "rfc_step RFC_idle RFC_closed"

fun rfc_of :: "H2StreamState \<Rightarrow> rfc_state" where
  "rfc_of Idle = RFC_idle"
| "rfc_of ReservedRemote = RFC_reserved"
| "rfc_of (Open _ _) = RFC_open"
| "rfc_of (LocalHalfClosed _) = RFC_half_local"
| "rfc_of (RemoteHalfClosed _) = RFC_half_remote"
| "rfc_of (Closed _) = RFC_closed"

text \<open>
  Stream \<open>i\<close> moves by the events, and every other stream stays as it is; and a stream that was never opened is given up.
\<close>

definition follows :: "StreamId \<Rightarrow> rfc_event list \<Rightarrow> 'b Streams \<Rightarrow> 'b Streams \<Rightarrow> bool" where
  "follows i es s s' \<longleftrightarrow>
     (case (stream_state i s, stream_state i s') of
        (Some q, Some q') \<Rightarrow> rfc_run (rfc_of q) es = Some (rfc_of q')
      | _ \<Rightarrow> False) \<and>
     (\<forall>j. j \<noteq> i \<longrightarrow> stream_state j s' = stream_state j s)"

definition gives_up :: "StreamId \<Rightarrow> 'b Streams \<Rightarrow> 'b Streams \<Rightarrow> bool" where
  "gives_up i s s' \<longleftrightarrow>
     stream_state i s = Some Idle \<and> (\<exists>reason. stream_state i s' = Some (Closed reason)) \<and>
     (\<forall>j. j \<noteq> i \<longrightarrow> stream_state j s' = stream_state j s)"

fun forward :: "H2StreamState option \<Rightarrow> H2StreamState option \<Rightarrow> bool" where
  "forward None _ \<longleftrightarrow> True"
| "forward (Some q) None \<longleftrightarrow> False"
| "forward (Some q) (Some q') \<longleftrightarrow> rfc_step\<^sup>*\<^sup>* (rfc_of q) (rfc_of q')"

lemma forward_refl [simp]: "forward x x"
  by (cases x) auto

lemma forward_trans: "forward x y \<Longrightarrow> forward y z \<Longrightarrow> forward x z"
  by (cases x; cases y; cases z) auto

lemma rfc_closed: "rfc_step\<^sup>*\<^sup>* q RFC_closed"
  by (cases q) (auto intro: rfc_step.intros converse_rtranclp_into_rtranclp)

lemma rfc_idle: "q \<noteq> RFC_reserved \<Longrightarrow> rfc_step\<^sup>*\<^sup>* RFC_idle q"
  by (cases q) (auto intro: rfc_step.intros converse_rtranclp_into_rtranclp)

inductive_cases rfc_closedE: "rfc_step RFC_closed q"

lemma rfc_closed_stays: "rfc_step\<^sup>*\<^sup>* RFC_closed q \<Longrightarrow> q = RFC_closed"
  by (erule converse_rtranclpE) (auto elim: rfc_closedE)

lemma recv_step_forward: "recv_step q q' \<Longrightarrow> rfc_step\<^sup>*\<^sup>* (rfc_of q) (rfc_of q')"
  by (induction rule: recv_step.induct)
    (auto simp: change_idle_def change_open_def intro: rfc_idle rfc_step.intros)

section \<open>The frames of one request\<close>

datatype phase = Before | Body | Complete | Broken

definition phase_step :: "StreamId \<Rightarrow> phase \<Rightarrow> Frame \<Rightarrow> phase" where
  "phase_step i p frame =
     (if fr_id frame \<noteq> i \<or> \<not> carries_request frame then p
      else case (p, fr_payload frame) of
        (Before, PL_Headers _) \<Rightarrow> if FrameFlags_is_end_stream (fr_flags frame) then Complete else Body
      | (Body, PL_Data _) \<Rightarrow> if FrameFlags_is_end_stream (fr_flags frame) then Complete else Body
      | _ \<Rightarrow> Broken)"

definition sent_phase :: "StreamId \<Rightarrow> Frame list \<Rightarrow> phase" where
  "sent_phase i frames = foldl (phase_step i) Before frames"

fun phase_fits :: "H2StreamState option \<Rightarrow> phase \<Rightarrow> bool" where
  "phase_fits None p \<longleftrightarrow> p = Before"
| "phase_fits (Some Idle) p \<longleftrightarrow> p = Before"
| "phase_fits (Some ReservedRemote) p \<longleftrightarrow> False"
| "phase_fits (Some (Open a _)) p \<longleftrightarrow> p = (if a = WaitHeaders then Before else Body)"
| "phase_fits (Some (RemoteHalfClosed a)) p \<longleftrightarrow> p = (if a = WaitHeaders then Before else Body)"
| "phase_fits (Some (LocalHalfClosed _)) p \<longleftrightarrow> p = Complete"
| "phase_fits (Some (Closed EndStream)) p \<longleftrightarrow> p = Complete"
| "phase_fits (Some (Closed _)) p \<longleftrightarrow> p \<noteq> Broken"

lemma phase_fits_not_Broken: "phase_fits x p \<Longrightarrow> p \<noteq> Broken"
  by (cases "(x, p)" rule: phase_fits.cases) (auto split: if_splits)

lemma sent_phase_append [simp]: "sent_phase i (out @ [frame]) = phase_step i (sent_phase i out) frame"
  by (simp add: sent_phase_def)

lemma phase_step_control [simp]: "\<not> carries_request frame \<Longrightarrow> phase_step i p frame = p"
  by (simp add: phase_step_def)

lemma phase_step_other [simp]: "fr_id frame \<noteq> i \<Longrightarrow> phase_step i p frame = p"
  by (simp add: phase_step_def)

lemma recv_step_fits: "recv_step q q' \<Longrightarrow> phase_fits (Some q) p \<Longrightarrow> phase_fits (Some q') p"
  by (induction rule: recv_step.induct) (auto simp: change_idle_def change_open_def)

section \<open>The invariant\<close>

definition ids_below :: "'b Streams \<Rightarrow> bool" where
  "ids_below s \<longleftrightarrow> (\<forall>i st. stream_at i s = Some st \<longrightarrow> unat i < unat (ss_next_stream_id s))"

definition streams_inv :: "'b Streams \<Rightarrow> Frame list \<Rightarrow> bool" where
  "streams_inv s out \<longleftrightarrow>
     headers_ok s \<and> ids_below s \<and>
     (\<forall>i. phase_fits (stream_state i s) (sent_phase i out))"

fun states_rel :: "'b Streams \<times> Frame list \<Rightarrow> 'b Streams \<times> Frame list \<Rightarrow> bool" where
  "states_rel (s, out) (s', out') \<longleftrightarrow>
     (streams_inv s out \<longrightarrow> streams_inv s' out' \<and> (\<forall>i. forward (stream_state i s) (stream_state i s')))"

text \<open>How the parts of the invariant see the updates.\<close>

lemma stream_at_put [simp]:
  "stream_at j (put_stream i st s) = (if j = i then Some st else stream_at j s)"
  by (simp add: stream_at_def put_stream_def update_conv')

lemma stream_state_put [simp]:
  "stream_state j (put_stream i st s) = (if j = i then Some (st_state st) else stream_state j s)"
  by (simp add: stream_state_def)

lemma next_id_put [simp]: "ss_next_stream_id (put_stream i st s) = ss_next_stream_id s"
  by (simp add: put_stream_def)

lemma stream_state_Some: "stream_at i s = Some st \<Longrightarrow> stream_state i s = Some (st_state st)"
  by (simp add: stream_state_def)

lemma stream_at_same_map: "ss_stream_map s' = ss_stream_map s \<Longrightarrow> stream_at i s' = stream_at i s"
  by (simp add: stream_at_def)

lemma same_map [simp]:
  "ss_stream_map (drop_one s) = ss_stream_map s" "ss_stream_map (add_one s) = ss_stream_map s"
  "ss_stream_map (next_id s) = ss_stream_map s"
  "ss_stream_map (push_pending_concurrency i s) = ss_stream_map s"
  "ss_stream_map (push_back_pending_send i s) = ss_stream_map s"
  "ss_stream_map (clear_streams_states s) = ss_stream_map s"
  "ss_stream_map (s\<lparr>ss_flow_control := f\<rparr>) = ss_stream_map s"
  by (simp_all add: drop_one_def add_one_def next_id_def push_pending_concurrency_def
      push_back_pending_send_def clear_streams_states_def)

lemma same_next_id [simp]:
  "ss_next_stream_id (drop_one s) = ss_next_stream_id s" "ss_next_stream_id (add_one s) = ss_next_stream_id s"
  "ss_next_stream_id (next_id s) = ss_next_stream_id s + 2"
  "ss_next_stream_id (push_pending_concurrency i s) = ss_next_stream_id s"
  "ss_next_stream_id (push_back_pending_send i s) = ss_next_stream_id s"
  "ss_next_stream_id (clear_streams_states s) = ss_next_stream_id s"
  by (simp_all add: drop_one_def add_one_def next_id_def push_pending_concurrency_def
      push_back_pending_send_def clear_streams_states_def)

lemma unset_loop_map:
  assumes "unset_loop last_id current m = Some (is, current', m')"
  shows "map_of m' i = map_option (\<lambda>st. if i > last_id \<and> \<not> is_Closed (st_state st)
           then shut_stream RemoteGoAway st else st) (map_of m i)"
  using assms
proof (induction m arbitrary: current "is" current' m')
  case (Cons p m)
  then show ?case by (cases p) (auto split: if_splits H2StreamState.splits)
qed simp

lemma stream_at_outline: "map_option (\<lambda>st. (st_state st, st_header st)) (stream_at i s) = map_of (fst (outline s)) i"
  by (simp add: stream_at_def outline_def map_of_map [where f = "\<lambda>st. (st_state st, st_header st)"])

lemma stream_state_outline: "stream_state i s = map_option fst (map_of (fst (outline s)) i)"
  by (simp add: stream_state_def stream_at_outline [symmetric] option.map_comp comp_def)

lemma ids_below_outline:
  "ids_below s \<longleftrightarrow> (\<forall>i x. map_of (fst (outline s)) i = Some x \<longrightarrow> unat i < unat (ss_next_stream_id s))"
  by (auto simp: ids_below_def stream_at_outline [symmetric])

lemma streams_inv_cong:
  "ss_stream_map s' = ss_stream_map s \<Longrightarrow> ss_next_stream_id s' = ss_next_stream_id s \<Longrightarrow>
     streams_inv s' out = streams_inv s out"
  by (simp add: streams_inv_def headers_ok_def ids_below_def stream_state_def stream_at_def)

lemma streams_inv_put:
  assumes "streams_inv s out" "stream_at i s = Some st" "own_header i (st_header st')"
    and "phase_fits (Some (st_state st')) (sent_phase i out)"
  shows "streams_inv (put_stream i st' s) out"
  using assms by (auto simp: streams_inv_def ids_below_def intro: headers_ok_put)

lemma streams_inv_at:
  assumes "streams_inv s out" "stream_at i s = Some st"
  shows "own_header i (st_header st)" "phase_fits (Some (st_state st)) (sent_phase i out)"
  using assms stream_state_Some [OF assms(2)]
  by (auto simp: streams_inv_def intro: headers_ok_at dest: spec [of _ i])

lemma streams_inv_register:
  assumes inv: "streams_inv s out" and next_id: "ss_next_stream_id s < DEFAULT_MAX_STREAM_ID"
    and s': "ss_stream_map s' = ss_stream_map s" "ss_next_stream_id s' = ss_next_stream_id s + 2"
  shows "streams_inv (insert_stream (ss_next_stream_id s) (Frame_new (ss_next_stream_id s) flag (PL_Headers parts)) data s') out"
    and "stream_state (ss_next_stream_id s) s = None"
proof -
  let ?i = "ss_next_stream_id s"
  have fresh: "stream_at ?i s = None"
    using inv by (cases "stream_at ?i s") (auto simp: streams_inv_def ids_below_def)
  then show none: "stream_state ?i s = None" by (simp add: stream_state_def)
  have "sent_phase ?i out = Before"
    using inv none by (auto simp: streams_inv_def dest: spec [of _ ?i])
  moreover have "stream_at j s' = stream_at j s" "stream_state j s' = stream_state j s" for j
    using s'(1) by (simp_all add: stream_at_def stream_state_def)
  moreover have "headers_ok s'" using inv s'(1) by (simp add: streams_inv_def headers_ok_def)
  ultimately show "streams_inv (insert_stream ?i (Frame_new ?i flag (PL_Headers parts)) data s') out"
    using inv next_id_grows [OF next_id] s'(2)
    by (auto simp: streams_inv_def ids_below_def insert_stream_def Let_def Stream_new_def Frame_new_def
        intro!: headers_ok_put)
qed

text \<open>The operations on one stream take the edges of their frames.\<close>

lemma stream_state_drop_one [simp]: "stream_state j (drop_one s) = stream_state j s"
  by (simp add: stream_state_def stream_at_def)

lemma followsI:
  assumes "stream_at i s = Some st" "rfc_run (rfc_of (st_state st)) es = Some (rfc_of (st_state st'))"
  shows "follows i es s (put_stream i st' s)" "follows i es s (drop_one (put_stream i st' s))"
  using assms by (simp_all add: follows_def stream_state_Some)

lemma follows_same:
  "stream_at i s = Some st \<Longrightarrow> rfc_run (rfc_of (st_state st)) es = Some (rfc_of (st_state st)) \<Longrightarrow> follows i es s s"
  by (simp add: follows_def stream_state_Some)

lemma send_headers_follows:
  assumes "send_headers_frame i eos s = (Ok r, s')"
  shows "if r = FR_OK then follows i (if eos then [Sent F_Headers, Sent F_End] else [Sent F_Headers]) s s' else s' = s"
  using assms
  by (auto simp: send_headers_frame_def decrease_then_give split: state_op_splits intro!: followsI)

lemma send_data_follows:
  assumes "send_data_frame i eos s = (Ok r, s')"
  shows "if r = FR_OK then follows i (if eos then [Sent F_Data, Sent F_End] else [Sent F_Data]) s s' else s' = s"
  using assms
  by (auto simp: send_data_frame_def decrease_then_give split: state_op_splits intro!: followsI intro: follows_same)

lemma recv_headers_follows:
  assumes "recv_headers i eos s = (Ok r, s')"
  shows "if r = FR_OK then follows i (if eos then [Received F_Headers, Received F_End] else [Received F_Headers]) s s'
    else s' = s"
  using assms
  by (auto simp: recv_headers_def decrease_then_give change_idle_def change_open_def change_half_closed_def give_def
      split: state_op_splits intro!: followsI)

lemma recv_data_follows:
  assumes "recv_data i eos s = (Ok r, s')"
  shows "if r = FR_OK then follows i (if eos then [Received F_Data, Received F_End] else [Received F_Data]) s s' else s' = s"
  using assms
  by (auto simp: recv_data_def decrease_then_give split: state_op_splits intro!: followsI intro: follows_same)

lemma reset_follows:
  assumes "stream_at i s = Some st"
  shows "st_state st = Idle \<Longrightarrow> gives_up i s (drop_one (put_stream i (shut_stream reason st) s))"
    and "\<not> is_Closed (st_state st) \<Longrightarrow> st_state st \<noteq> Idle \<Longrightarrow>
      follows i [Sent F_Reset] s (drop_one (put_stream i (shut_stream reason st) s))"
    and "\<not> is_Closed (st_state st) \<Longrightarrow> st_state st \<noteq> Idle \<Longrightarrow>
      follows i [Received F_Reset] s (drop_one (put_stream i (shut_stream reason st) s))"
  using assms
  by (cases "st_state st"; auto simp: gives_up_def stream_state_Some shut_stream_def intro!: followsI)+

lemma send_local_reset_follows:
  assumes "send_local_reset i s = (Ok r, s')"
  shows "if r = SE_OK then follows i [Sent F_Reset] s s' \<or> gives_up i s s'
    else \<forall>j. map_option rfc_of (stream_state j s') = map_option rfc_of (stream_state j s)"
  using assms
  by (auto simp: send_local_reset_def decrease_then_give stream_state_Some reset_follows split: state_op_splits)

lemma recv_remote_reset_follows:
  assumes "recv_remote_reset i s = (Ok r, s')"
  shows "if r = SE_OK then follows i [Received F_Reset] s s' \<or> gives_up i s s' else s' = s"
  using assms
  by (auto simp: recv_remote_reset_def decrease_then_give reset_follows split: state_op_splits)

text \<open>A stream whose request is not complete may be closed at any time.\<close>

lemma fits_shut: "phase_fits (Some q) p \<Longrightarrow> reason \<noteq> EndStream \<Longrightarrow> phase_fits (Some (Closed reason)) p"
  by (cases reason) (auto dest: phase_fits_not_Broken)

lemma fits_awaits_end: "awaits_end q \<Longrightarrow> phase_fits (Some q) p \<Longrightarrow> phase_fits (Some (Closed EndStream)) p"
  by (auto simp: awaits_end_def)

lemma states_rel_put:
  assumes "stream_at i s = Some st" "own_header i (st_header st) \<Longrightarrow> own_header i (st_header st')"
    and "\<And>p. phase_fits (Some (st_state st)) p \<Longrightarrow> phase_fits (Some (st_state st')) p"
    and "rfc_step\<^sup>*\<^sup>* (rfc_of (st_state st)) (rfc_of (st_state st'))"
  shows "states_rel (s, out) (put_stream i st' s, out)"
proof -
  have "streams_inv (put_stream i st' s) out" if "streams_inv s out"
    using that assms(2,3) streams_inv_at [OF that assms(1)] by (intro streams_inv_put [OF _ assms(1)])
  then show ?thesis using assms(1,4) by (simp add: stream_state_Some)
qed

lemma states_rel_drop_one: "states_rel x (s, out) \<Longrightarrow> states_rel x (drop_one s, out)"
  by (cases x) (auto simp: streams_inv_cong [of "drop_one s" s] stream_state_def stream_at_def)

lemma states_rel_register:
  assumes "ss_next_stream_id s < DEFAULT_MAX_STREAM_ID"
    and s': "ss_stream_map s' = ss_stream_map s" "ss_next_stream_id s' = ss_next_stream_id s + 2"
  shows "states_rel (s, out)
    (insert_stream (ss_next_stream_id s) (Frame_new (ss_next_stream_id s) flag (PL_Headers parts)) data s', out)"
proof -
  have "stream_state j s' = stream_state j s" for j using s'(1) by (simp add: stream_at_def stream_state_def)
  then show ?thesis
    using streams_inv_register [OF _ assms] by (auto simp: insert_stream_def Let_def)
qed

lemma states_rel_shut:
  assumes at: "\<And>i. stream_at i s' = map_option (\<lambda>st. if C i \<and> \<not> is_Closed (st_state st)
      then shut_stream reason st else st) (stream_at i s)"
    and reason: "reason \<noteq> EndStream"
    and same: "ss_next_stream_id s' = ss_next_stream_id s" "headers_ok s \<Longrightarrow> headers_ok s'"
  shows "states_rel (s, out) (s', out)"
proof -
  have state: "stream_state i s' = map_option (\<lambda>q. if C i \<and> \<not> is_Closed q then Closed reason else q)
      (stream_state i s)" for i
    by (simp add: stream_state_def at option.map_comp comp_def shut_stream_def if_distrib cong: if_cong)
  have fits: "phase_fits (stream_state i s') p" if "phase_fits (stream_state i s) p" for i p
    using that reason fits_shut by (cases "stream_state i s") (auto simp: state)
  have "streams_inv s' out" if "streams_inv s out"
    using that same fits by (auto simp: streams_inv_def ids_below_def at)
  moreover have "forward (stream_state i s) (stream_state i s')" for i
    by (cases "stream_state i s") (auto simp: state intro: rfc_closed)
  ultimately show ?thesis by simp
qed

lemma states_rel_map:
  assumes "fst (outline s') = fst (outline s)" "ss_next_stream_id s' = ss_next_stream_id s"
  shows "states_rel (s, out) (s', out)"
  using assms by (simp add: streams_inv_def headers_ok_view ids_below_outline stream_state_outline)

lemma states_rel_trans: "states_rel x y \<Longrightarrow> states_rel y z \<Longrightarrow> states_rel x z"
  by (cases x; cases y; cases z) (auto intro: forward_trans)

lemma states_rel_sstep: "sstep s s' \<Longrightarrow> states_rel (s, out) (s', out)"
proof (induction rule: sstep.induct)
  case (same s s')
  then show ?case by (intro states_rel_map) (simp_all add: outline_def)
next
  case (receive i s st q)
  then show ?case by (intro states_rel_put) (auto dest: recv_step_fits recv_step_forward)
next
  case (finish i s st)
  then show ?case
    by (intro states_rel_drop_one states_rel_put) (auto dest: fits_awaits_end intro: rfc_closed)
next
  case (reset i s st reason)
  then show ?case
    by (intro states_rel_drop_one states_rel_put) (auto simp: shut_stream_def intro: rfc_closed dest: fits_shut)
next
  case (reclose i s st)
  then show ?case by (intro states_rel_put) auto
next
  case (register_wait s flag parts data)
  then show ?case by (intro states_rel_register) simp_all
next
  case (register_now s flag parts data)
  then show ?case by (intro states_rel_register) simp_all
next
  case (consume s i "is")
  let ?s' = "push_back_pending_send i (add_one (s\<lparr>ss_pending_concurrency := is\<rparr>))"
  have "streams_inv ?s' out = streams_inv s out" by (rule streams_inv_cong) simp_all
  then show ?case by (simp add: stream_state_def stream_at_def)
next
  case (unset last_id s "is" current m)
  have "headers_ok s \<Longrightarrow> headers_ok (s\<lparr>ss_current_concurrent_streams := current, ss_stream_map := m\<rparr>)"
    using headers_ok_sstep [OF sstep.unset [OF unset]] .
  then show ?case
    by (intro states_rel_shut [where C = "\<lambda>i. i > last_id" and reason = RemoteGoAway])
      (simp_all add: stream_at_def unset_loop_map [OF unset])
next
  case (close_all s)
  let ?f = "\<lambda>st. if is_Closed (st_state st) then st else shut_stream LocalGoAway st"
  let ?s' = "(clear_streams_states s)\<lparr>ss_stream_map := map (\<lambda>(i, st). (i, ?f st)) (ss_stream_map s)\<rparr>"
  have "stream_at i ?s' = map_option ?f (stream_at i s)" for i
    by (simp add: stream_at_def map_of_map [where f = ?f])
  then show ?case
    using headers_ok_sstep [OF sstep.close_all [of s]]
    by (intro states_rel_shut [where C = "\<lambda>_. True" and reason = LocalGoAway])
      (auto intro!: option.map_cong)
qed

section \<open>Sending the frames of a request\<close>

text \<open>A frame that passes the check of \<^verbatim>\<open>poll_send_frame\<close> is the next one of its request.\<close>

lemma send_step_forward: "send_step payload eos q q' \<Longrightarrow> rfc_step\<^sup>*\<^sup>* (rfc_of q) (rfc_of q')"
  by (induction rule: send_step.induct) (auto intro: rfc_step.intros rfc_idle rfc_closed)

lemma send_step_fits:
  assumes "send_step (fr_payload frame) (FrameFlags_is_end_stream (fr_flags frame)) q q'"
    and "phase_fits (Some q) p" "fr_id frame = i"
  shows "phase_fits (Some q') (phase_step i p frame)"
  using assms by (elim send_step.cases) (auto simp: phase_step_def carries_request_def)

lemma states_rel_sent:
  assumes sent: "send_frame_state frame s = (Ok q, s')" "\<And>e. q \<noteq> FR_Err e" "carries_request frame"
  shows "states_rel (s, out) (s', out @ [frame])"
proof -
  let ?i = "fr_id frame"
  obtain st q' where st: "stream_at ?i s = Some st"
    and step: "send_step (fr_payload frame) (FrameFlags_is_end_stream (fr_flags frame)) (st_state st) q'"
    and s': "s' = settle q' (put_stream ?i (st\<lparr>st_state := q'\<rparr>) s)"
    using sent by (rule send_frame_stateD)
  let ?s = "put_stream ?i (st\<lparr>st_state := q'\<rparr>) s"
  have same: "ss_stream_map s' = ss_stream_map ?s" "ss_next_stream_id s' = ss_next_stream_id ?s"
    using s' by (auto simp: settle_def)
  have state: "stream_state j s' = stream_state j ?s" for j
    using same(1) by (simp add: stream_state_def stream_at_def)
  have "streams_inv ?s (out @ [frame])" if inv: "streams_inv s out"
  proof -
    have "phase_fits (Some q') (phase_step ?i (sent_phase ?i out) frame)"
      using send_step_fits [OF step] streams_inv_at [OF inv st] by simp
    then show ?thesis
      using inv st by (auto simp: streams_inv_def ids_below_def intro!: headers_ok_put intro: headers_ok_at)
  qed
  then show ?thesis
    using streams_inv_cong [OF same] send_step_forward [OF step] st by (auto simp: state stream_state_Some)
qed

interpretation states: window_free_contract RT states_rel for RT :: "('w, 'b, 'h) runtime"
proof unfold_locales
  show "states_rel x x" for x :: "'b Streams \<times> Frame list"
    by (cases x) simp
  show "states_rel x z" if "states_rel x y" "states_rel y z" for x y z :: "'b Streams \<times> Frame list"
    using that by (rule states_rel_trans)
  show "states_rel (s, out) (s', out)" if "sstep s s'" for s s' :: "'b Streams" and out
    using that by (rule states_rel_sstep)
  show "states_rel (s, out) (s', out)" if "outline s = outline s'" for s s' :: "'b Streams" and out
    using that by (intro states_rel_map) (simp_all add: outline_def)
  show "states_rel (s, out) (s, out @ [frame])" if "\<not> carries_request frame" for s :: "'b Streams" and out frame
    using that by (simp add: streams_inv_def)
next
  fix i frame out q and s s1 s2 :: "'b Streams"
  assume taken: "headers i s = (Ok (Some frame), s1)"
  then obtain st where st: "stream_at i s = Some st" "st_header st = Some frame"
    "s1 = put_stream i (st\<lparr>st_header := None\<rparr>) s"
    by (rule headers_SomeE)
  have first: "states_rel (s, out) (s1, out)" unfolding st(3) by (rule states_rel_put [OF st(1)]) simp_all
  then show "states_rel (s, out) (s1, out)" .
  assume sent: "send_frame_state frame s1 = (Ok q, s2)" "\<And>e. q \<noteq> FR_Err e"
  have "streams_inv s out \<Longrightarrow> carries_request frame"
    using streams_inv_at [of s out i st] st by (auto simp: carries_request_def)
  then show "states_rel (s, out) (s2, out @ [frame])"
    using states_rel_trans [OF first states_rel_sent [OF sent]] by (cases "streams_inv s out") auto
next
  fix RT :: "('w, 'b, 'h) runtime" and i frame out q d w w' and s s1 s2 :: "'b Streams"
  show "states_rel (s, out) (s1, out)"
    if "poll_read_body (rt_body_read RT) i (s, w) = (Ok (DR_Ready frame), (s1, w'))"
    using poll_read_body_map [OF that] by (intro states_rel_map)
  assume read: "poll_read_body (rt_body_read RT) i (s, w) = (Ok d, (s1, w'))"
    and d: "d = DR_Ready frame \<or> d = DR_Finish frame"
    and sent: "send_frame_state frame s1 = (Ok q, s2)" "\<And>e. q \<noteq> FR_Err e"
  have "states_rel (s, out) (s1, out)" using poll_read_body_map [OF read] by (intro states_rel_map)
  moreover have "carries_request frame" using poll_read_body_frame [OF read d] by (auto simp: carries_request_def)
  ultimately show "states_rel (s, out) (s2, out @ [frame])"
    using states_rel_trans [OF _ states_rel_sent [OF sent]] by blast
next
  show "states_rel (s, out) (s', out)" if "increase_conn_send_window sz s = (Ok (), s')" for s s' :: "'b Streams" and sz out
    using that by (intro states_rel_map) (auto simp: increase_conn_send_window_def outline_def split: outcome.splits)
qed

end
