(* ===== verification/H2_Concurrency.thy ===== *)
theory H2_Concurrency
  imports H2_Stream_States
begin

text \<open>
  The count of concurrent streams. Every stream that is not closed either waits in
  \<^verbatim>\<open>pending_concurrency\<close> or is covered by \<^verbatim>\<open>current_concurrent_streams\<close>, which is only raised below the
  limit the server has announced.
\<close>

section \<open>The invariant\<close>

definition unclosed :: "(StreamId \<times> 'b Stream) list \<Rightarrow> nat" where
  "unclosed m = length (filter (\<lambda>(i, st). \<not> is_Closed (st_state st)) m)"

definition counted :: "'b Streams \<Rightarrow> bool" where
  "counted s \<longleftrightarrow>
     unclosed (ss_stream_map s) \<le> unat (ss_current_concurrent_streams s) + length (ss_pending_concurrency s)"

fun count_rel :: "'b Streams \<times> Frame list \<Rightarrow> 'b Streams \<times> Frame list \<Rightarrow> bool" where
  "count_rel (s, out) (s', out') \<longleftrightarrow> (counted s \<longrightarrow> counted s')"

abbreviation open_weight :: "'b Stream \<Rightarrow> nat" where
  "open_weight st \<equiv> (if is_Closed (st_state st) then 0 else 1)"

lemma unclosed_Nil [simp]: "unclosed [] = 0"
  by (simp add: unclosed_def)

lemma unclosed_Cons [simp]: "unclosed ((i, st) # m) = open_weight st + unclosed m"
  by (simp add: unclosed_def)

lemma unclosed_update:
  "unclosed (AList.update i st m) + (case map_of m i of None \<Rightarrow> 0 | Some st0 \<Rightarrow> open_weight st0) =
     unclosed m + open_weight st"
proof (induction m)
  case (Cons p m)
  then show ?case by (cases p) (simp split: option.splits)
qed simp

lemma unclosed_put:
  "stream_at i s = Some st0 \<Longrightarrow>
     unclosed (ss_stream_map (put_stream i st s)) + open_weight st0 = unclosed (ss_stream_map s) + open_weight st"
  using unclosed_update [of i st "ss_stream_map s"] by (simp add: put_stream_def stream_at_def)

lemma unat_drop_one: "c \<noteq> 0 \<Longrightarrow> unat c = unat (c - 1) + 1" for c :: u32
  using unat_gt_0 [of c] by (simp add: unat_minus_one)

lemma unat_add_one: "c < d \<Longrightarrow> unat (c + 1) = unat c + 1" for c d :: u32
proof -
  assume "c < d"
  then have "unat c < unat d" by (simp add: word_less_nat_alt)
  moreover have "unat d < 2 ^ LENGTH(32)" by (rule unsigned_less)
  ultimately have "unat c + 1 < 4294967296" by simp
  then show ?thesis by (simp add: unat_word_ariths)
qed

lemma counted_close:
  assumes "stream_at i s = Some st0" "\<not> is_Closed (st_state st0)" "is_Closed (st_state st)"
    and "ss_current_concurrent_streams s \<noteq> 0" "counted s"
  shows "counted (drop_one (put_stream i st s))"
  using assms(2,3,5) unclosed_put [OF assms(1), of st] unat_drop_one [OF assms(4)]
  by (simp add: counted_def drop_one_def) (simp add: put_stream_def)

lemma counted_put:
  assumes "stream_at i s = Some st0" "is_Closed (st_state st) \<or> \<not> is_Closed (st_state st0)" "counted s"
  shows "counted (put_stream i st s)"
  using unclosed_put [OF assms(1), of st] assms(2,3)
  by (auto simp: counted_def put_stream_def split: if_splits)

lemma counted_insert:
  assumes "counted s" "ss_stream_map s' = ss_stream_map s"
    and "unat (ss_current_concurrent_streams s') + length (ss_pending_concurrency s') =
      unat (ss_current_concurrent_streams s) + length (ss_pending_concurrency s) + 1"
  shows "counted (insert_stream i frame data s')"
proof -
  have "unclosed (AList.update i st (ss_stream_map s)) \<le> unclosed (ss_stream_map s) + 1" for st
    using unclosed_update [of i st "ss_stream_map s"] by (simp split: if_splits)
  then show ?thesis
    using assms by (auto simp: counted_def insert_stream_def put_stream_def Let_def intro: order_trans)
qed

lemma unset_loop_counted:
  assumes "unset_loop last_id current m = Some (is, current', m')"
  shows "unclosed m' + unat current \<le> unclosed m + unat current'"
  using assms
proof (induction m arbitrary: current "is" current' m')
  case (Cons p m)
  obtain i st where p: "p = (i, st)" by (cases p)
  have shut: "open_weight (shut_stream RemoteGoAway st) = 0" by (simp add: shut_stream_def)
  show ?case
  proof (cases "i > last_id \<and> \<not> is_Closed (st_state st) \<and> st_state st \<noteq> Idle")
    case True
    then obtain "is0" m0 where "unset_loop last_id (current - 1) m = Some (is0, current', m0)"
      "current \<noteq> 0" "m' = (i, shut_stream RemoteGoAway st) # m0"
      using Cons.prems p by (auto split: H2StreamState.splits if_splits)
    then show ?thesis using Cons.IH [of "current - 1"] unat_drop_one [of current] True p shut by fastforce
  next
    case False
    then obtain "is0" m0 st' where "unset_loop last_id current m = Some (is0, current', m0)"
      "m' = (i, st') # m0" "st' = st \<or> st' = shut_stream RemoteGoAway st"
      using Cons.prems p by (auto split: H2StreamState.splits if_splits)
    then show ?thesis using Cons.IH [of current] p shut by (auto split: if_splits)
  qed
qed simp

lemma counted_outline:
  fixes s s' :: "'b Streams"
  assumes "outline s = outline s'"
  shows "counted s' = counted s"
proof -
  have "unclosed (ss_stream_map x) = length (filter (\<lambda>(i, q, h). \<not> is_Closed q) (fst (outline x)))" for x :: "'b Streams"
    by (simp add: unclosed_def outline_def filter_map comp_def case_prod_unfold)
  then have "unclosed (ss_stream_map s') = unclosed (ss_stream_map s)" using assms by simp
  then show ?thesis using assms by (simp add: counted_def outline_def)
qed

lemma counted_sstep: "sstep s s' \<Longrightarrow> counted s \<Longrightarrow> counted s'"
proof (induction rule: sstep.induct)
  case (same s s')
  then show ?case using counted_outline by blast
next
  case (receive i s st q)
  then show ?case by (auto intro!: counted_put elim: recv_step.cases)
next
  case (finish i s st)
  then show ?case by (auto intro!: counted_close simp: awaits_end_def)
next
  case (reset i s st reason)
  then show ?case by (auto intro!: counted_close simp: shut_stream_def)
next
  case (reclose i s st)
  then show ?case by (auto intro!: counted_put)
next
  case (register_wait s flag parts data)
  then show ?case
    by (intro counted_insert [of s]) (simp_all add: push_pending_concurrency_def next_id_def)
next
  case (register_now s flag parts data)
  then have "unat (ss_current_concurrent_streams s + 1) = unat (ss_current_concurrent_streams s) + 1"
    by (intro unat_add_one [of _ "ss_max_concurrent_streams s"]) (simp add: reach_max_concurrency_def not_le)
  then show ?case
    using register_now by (intro counted_insert [of s]) (simp_all add: push_back_pending_send_def next_id_def add_one_def)
next
  case (consume s i "is")
  then have "unat (ss_current_concurrent_streams s + 1) = unat (ss_current_concurrent_streams s) + 1"
    by (intro unat_add_one [of _ "ss_max_concurrent_streams s"]) (simp add: reach_max_concurrency_def not_le)
  then show ?case using consume by (simp add: counted_def push_back_pending_send_def add_one_def)
next
  case (unset last_id s "is" current m)
  then show ?case using unset_loop_counted [OF unset(1)] by (simp add: counted_def)
next
  case (close_all s)
  have "unclosed (map (\<lambda>(i, st). (i, if is_Closed (st_state st) then st else shut_stream LocalGoAway st)) m) = 0"
    for m :: "(StreamId \<times> 'a Stream) list"
    by (induction m) (auto simp: shut_stream_def)
  then show ?case by (simp add: counted_def)
qed

lemma counted_view:
  "counted s \<longleftrightarrow>
     length (filter (\<lambda>(i, q, h). \<not> is_Closed q) (fst (outline s))) \<le>
       unat (ss_current_concurrent_streams s) + length (ss_pending_concurrency s)"
  by (simp add: counted_def unclosed_def outline_def filter_map comp_def case_prod_unfold)

lemma counted_sent:
  assumes sent: "send_frame_state frame s = (Ok q, s')" "\<And>e. q \<noteq> FR_Err e" and counted: "counted s"
  shows "counted s'"
proof (cases "carries_request frame")
  case True
  show ?thesis
    using sent True
  proof (rule send_frame_stateD)
    fix st q'
    assume st: "stream_at (fr_id frame) s = Some st"
      and step: "send_step (fr_payload frame) (FrameFlags_is_end_stream (fr_flags frame)) (st_state st) q'"
      and s': "s' = settle q' (put_stream (fr_id frame) (st\<lparr>st_state := q'\<rparr>) s)"
      and positive: "is_Closed q' \<Longrightarrow> ss_current_concurrent_streams s \<noteq> 0"
    have "\<not> is_Closed (st_state st)" using step by (auto elim: send_step.cases)
    then show ?thesis
      using st counted positive unfolding s' settle_def by (auto intro: counted_close counted_put)
  qed
next
  case False
  then show ?thesis
    using sent counted by (auto simp: send_frame_state_def carries_request_def give_def split: Payload.splits)
qed

interpretation counts: window_free_contract RT count_rel for RT :: "('w, 'b, 'h) runtime"
proof unfold_locales
  show "count_rel x x" for x :: "'b Streams \<times> Frame list"
    by (cases x) simp
  show "count_rel x z" if "count_rel x y" "count_rel y z" for x y z :: "'b Streams \<times> Frame list"
    using that by (cases x; cases y; cases z) auto
  show "count_rel (s, out) (s', out)" if "sstep s s'" for s s' :: "'b Streams" and out
    using counted_sstep [OF that] by simp
  show "count_rel (s, out) (s', out)" if "outline s = outline s'" for s s' :: "'b Streams" and out
    using counted_outline [OF that] by simp
  show "count_rel (s, out) (s, out @ [frame])" if "\<not> carries_request frame" for s :: "'b Streams" and out frame
    by simp
next
  fix i frame out q and s s1 s2 :: "'b Streams"
  assume "headers i s = (Ok (Some frame), s1)"
  then obtain st where st: "stream_at i s = Some st" "s1 = put_stream i (st\<lparr>st_header := None\<rparr>) s"
    by (rule headers_SomeE)
  then have taken: "counted s \<Longrightarrow> counted s1" by (auto intro: counted_put)
  then show "count_rel (s, out) (s1, out)" by simp
  assume "send_frame_state frame s1 = (Ok q, s2)" "\<And>e. q \<noteq> FR_Err e"
  then have "counted s1 \<Longrightarrow> counted s2" by (rule counted_sent)
  then show "count_rel (s, out) (s2, out @ [frame])" using taken by simp
next
  fix RT :: "('w, 'b, 'h) runtime" and i frame out q d w w' and s s1 s2 :: "'b Streams"
  have same: "counted s' = counted s"
    if "poll_read_body (rt_body_read RT) i (s, w) = (Ok d, (s', w'))" for d s' and w'
    using poll_read_body_map [OF that] by (simp add: counted_view)
  show "count_rel (s, out) (s1, out)"
    if "poll_read_body (rt_body_read RT) i (s, w) = (Ok (DR_Ready frame), (s1, w'))"
    using same [OF that] by simp
  assume read: "poll_read_body (rt_body_read RT) i (s, w) = (Ok d, (s1, w'))"
    and sent: "send_frame_state frame s1 = (Ok q, s2)" "\<And>e. q \<noteq> FR_Err e"
  have "counted s1 \<Longrightarrow> counted s2" by (rule counted_sent [OF sent])
  then show "count_rel (s, out) (s2, out @ [frame])" using same [OF read] by simp
next
  show "count_rel (s, out) (s', out)" if "increase_conn_send_window sz s = (Ok (), s')" for s s' :: "'b Streams" and sz out
    using that by (auto simp: increase_conn_send_window_def counted_def split: outcome.splits)
qed

section \<open>Admission of waiting streams\<close>

text \<open>
  \<^verbatim>\<open>try_consume_pending_concurrency\<close> admits the streams at the head of the queue, in order, as many as
  the limit leaves room for.
\<close>

definition room :: "'b Streams \<Rightarrow> nat" where
  "room s = unat (ss_max_concurrent_streams s) - unat (ss_current_concurrent_streams s)"

lemma try_consume_admits:
  "(try_consume_pending_concurrency s :: (unit, 'e) outcome \<times> 'b Streams) =
     (let k = min (room s) (length (ss_pending_concurrency s)) in
      (Ok (), s\<lparr>ss_current_concurrent_streams := ss_current_concurrent_streams s + of_nat k,
                ss_pending_concurrency := drop k (ss_pending_concurrency s),
                ss_pending_send := ss_pending_send s @ take k (ss_pending_concurrency s)\<rparr>))"
proof (induction "ss_pending_concurrency s" arbitrary: s)
  case Nil
  then show ?case by (subst try_consume_pending_concurrency.simps) simp
next
  case (Cons i "is")
  note pending = Cons.hyps(2) [symmetric]
  show ?case
  proof (cases "reach_max_concurrency s")
    case True
    then have "room s = 0" by (simp add: reach_max_concurrency_def room_def word_le_nat_alt)
    then show ?thesis using True by (subst try_consume_pending_concurrency.simps) simp
  next
    case False
    let ?t = "push_back_pending_send i (add_one (s\<lparr>ss_pending_concurrency := is\<rparr>))"
    have below: "ss_current_concurrent_streams s < ss_max_concurrent_streams s"
      using False by (simp add: reach_max_concurrency_def not_le)
    then have "ss_current_concurrent_streams s \<noteq> - 1" by (metis word_n1_ge leD)
    then have "(try_consume_pending_concurrency s :: (unit, 'e) outcome \<times> 'b Streams) =
        try_consume_pending_concurrency ?t"
      using False pending
      by (subst try_consume_pending_concurrency.simps)
        (simp add: increase_current_concurrency_def add_one_def)
    moreover have "room s = Suc (room ?t)"
      using unat_add_one [OF below] below
      by (simp add: room_def push_back_pending_send_def add_one_def word_less_nat_alt)
    ultimately show ?thesis
      using Cons.hyps(1) [of ?t] pending
      by (simp add: push_back_pending_send_def add_one_def Let_def add.assoc)
  qed
qed

end
