(* ===== verification/H2_Progress.thy ===== *)
theory H2_Progress
  imports H2_Concurrency
begin

text \<open>
  No stream is forgotten: when the manager has gone through its queue, every stream that still has
  something to send is in one of the queues that will bring it back, be it for the concurrency limit,
  for a window, or because its body was not ready. This is an invariant of the runs whose turns end
  without an error (\<open>live_turns\<close>).
\<close>

section \<open>Queues\<close>

lemma obind_eq_Err: "obind m f = Err e \<longleftrightarrow> m = Err e \<or> (\<exists>x. m = Ok x \<and> f x = Err e)"
  by (cases m) simp_all

text \<open>The states in which the request is not complete.\<close>

fun sends :: "H2StreamState \<Rightarrow> bool" where
  "sends Idle \<longleftrightarrow> True"
| "sends (Open _ _) \<longleftrightarrow> True"
| "sends (RemoteHalfClosed _) \<longleftrightarrow> True"
| "sends _ \<longleftrightarrow> False"

lemma closed_sends [simp]: "is_Closed q \<Longrightarrow> \<not> sends q"
  by (cases q) auto

definition settled :: "StreamId \<Rightarrow> 'b Streams \<Rightarrow> bool" where
  "settled i s \<longleftrightarrow> (\<forall>q. stream_state i s = Some q \<longrightarrow> sends q \<longrightarrow> i \<in> waiting s)"

definition others_kept :: "StreamId \<Rightarrow> 'b Streams \<Rightarrow> 'b Streams \<Rightarrow> bool" where
  "others_kept i s s' \<longleftrightarrow>
     (\<forall>j. j \<noteq> i \<longrightarrow> stream_state j s' = stream_state j s \<and> (j \<in> waiting s \<longrightarrow> j \<in> waiting s'))"

lemma settled_kept: "others_kept i s s' \<Longrightarrow> j \<noteq> i \<Longrightarrow> settled j s \<Longrightarrow> settled j s'"
  by (simp add: others_kept_def settled_def)

lemma others_kept_put [simp]: "others_kept i s (put_stream i st s)"
  by (simp add: others_kept_def waiting_def put_stream_def) (simp add: stream_state_def stream_at_def update_conv')

lemma others_kept_drop_one [simp]: "others_kept i s (drop_one s') = others_kept i s s'"
  by (simp add: others_kept_def waiting_def stream_state_def stream_at_def) (simp add: drop_one_def)

lemma others_kept_refl [simp]: "others_kept i s s"
  by (simp add: others_kept_def)

lemma others_kept_headers: "headers i s = (r, s') \<Longrightarrow> others_kept i s s'"
  by (auto simp: headers_def split: option.splits if_splits)

lemma others_kept_send_frame:
  "send_frame_state frame s = (r, s') \<Longrightarrow> fr_id frame = i \<Longrightarrow> others_kept i s s'"
  by (auto simp: send_frame_state_def send_headers_frame_def send_data_frame_def decrease_then_give give_def
      split: Payload.splits state_op_splits)

lemma others_kept_reset: "send_local_reset i s = (r, s') \<Longrightarrow> others_kept i s s'"
  by (auto simp: send_local_reset_def decrease_then_give split: state_op_splits)

lemma others_kept_read:
  assumes "poll_read_body body_read i (s, w) = (r, (s', w'))"
  shows "others_kept i s s'"
proof (cases "\<exists>frame. r = Ok (DR_Ready frame)")
  case True
  then obtain frame where "r = Ok (DR_Ready frame)" by blast
  with assms have "poll_read_body body_read i (s, w) = (Ok (DR_Ready frame), (s', w'))" by simp
  then show ?thesis
    by (rule poll_read_body_ReadyE)
      (auto simp: others_kept_def waiting_def stream_state_def stream_at_def put_stream_def update_conv')
next
  case False
  then show ?thesis
    using assms
    by (auto simp: poll_read_body_def poll_sized_data_def Let_def others_kept_def waiting_def
        push_back_pending_send_def stream_state_def stream_at_def
        split: option.splits if_splits prod.splits BodyPoll.splits outcome.splits)
qed

text \<open>Why the loop over a body stops.\<close>

lemma read_stops:
  assumes "poll_read_body body_read i (s, w) = (Ok d, (s', w'))"
  shows "d = DR_Pending \<Longrightarrow> i \<in> waiting s'" "d = DR_Closed \<Longrightarrow> settled i s'"
    "d = DR_Finish frame \<Longrightarrow> FrameFlags_is_end_stream (fr_flags frame)"
  using assms
  by (auto simp: poll_read_body_def poll_sized_data_def Let_def waiting_def push_back_pending_send_def
      settled_def stream_state_def Frame_new_def FrameFlags_is_end_stream_def FrameFlags_set_end_stream_def
      END_STREAM_MASK_def
      split: option.splits if_splits prod.splits BodyPoll.splits outcome.splits H2StreamState.splits)

lemma read_error:
  "poll_read_body body_read i (s, w) = (Err (StreamError j code), (s', w')) \<Longrightarrow> j = i"
  by (auto simp: poll_read_body_def poll_sized_data_def Let_def obind_eq_Err FlowControl_send_data_def
      SendWindow_send_data_def
      split: option.splits if_splits prod.splits BodyPoll.splits outcome.splits)

lemma reset_settles:
  "send_local_reset i s = (Ok e, s') \<Longrightarrow> (\<And>x. e \<noteq> SE_Err x) \<Longrightarrow> settled i s'"
  by (auto simp: send_local_reset_def decrease_then_give settled_def stream_state_def stream_at_def
      shut_stream_def drop_one_def put_stream_def update_conv' split: state_op_splits)

lemma end_settles:
  assumes "send_frame_state frame s = (Ok q, s')" "\<And>e. q \<noteq> FR_Err e" "carries_request frame"
    and "FrameFlags_is_end_stream (fr_flags frame)"
  shows "settled (fr_id frame) s'"
  using assms(1-3)
proof (rule send_frame_stateD)
  fix st q'
  assume "send_step (fr_payload frame) (FrameFlags_is_end_stream (fr_flags frame)) (st_state st) q'"
    and s': "s' = settle q' (put_stream (fr_id frame) (st\<lparr>st_state := q'\<rparr>) s)"
  then have "\<not> sends q'" using assms(4) by (auto elim: send_step.cases)
  then show ?thesis using s' by (auto simp: settled_def settle_def stream_state_def stream_at_def drop_one_def
        put_stream_def update_conv')
qed

section \<open>One stream\<close>

lemma on_streamsD: "on_streams f m = (r, m') \<Longrightarrow> f (mg_streams m) = (r, mg_streams m') \<and> mg_out m' = mg_out m"
  by (auto simp: on_streams_def inside_def set_streams_def split: prod.splits)

lemma input_tx_send_streams: "input_tx_send RT frame m = (r, m') \<Longrightarrow> mg_streams m' = mg_streams m"
  unfolding input_tx_send_def by (rule on_port_flow)

lemma send_message_streams: "send_message_to_stream RT i message m = (r, m') \<Longrightarrow> mg_streams m' = mg_streams m"
  by (auto simp: send_message_to_stream_def Let_def split: option.splits prod.splits SendPoll.splits)

lemma poll_send_frame_Ok:
  assumes "poll_send_frame RT frame m = (Ok u, m')"
  shows "\<exists>q. send_frame_state frame (mg_streams m) = (Ok q, mg_streams m') \<and> (\<forall>e. q \<noteq> FR_Err e)"
proof -
  obtain r m1 where sent: "on_streams (send_frame_state frame) m = (r, m1)"
    by (cases "on_streams (send_frame_state frame) m")
  then obtain q where q: "r = Ok q" "\<And>e. q \<noteq> FR_Err e" "input_tx_send RT frame m1 = (Ok u, m')"
    using assms by (auto simp: poll_send_frame_def andthen_def fail_def split: outcome.splits FrameRecvState.splits)
  then show ?thesis using on_streamsD [OF sent] input_tx_send_streams [OF q(3)] by simp
qed

lemma manage_stream_error_settles:
  assumes "manage_stream_error RT i code m = (Ok p, m')"
  shows "others_kept i (mg_streams m) (mg_streams m')" "settled i (mg_streams m')"
proof -
  obtain r :: "(StreamEndState, DispatchErrorKind) outcome" and m1 where reset: "on_streams (send_local_reset i) m = (r, m1)"
    by (cases "on_streams (send_local_reset i) m :: (_, DispatchErrorKind) outcome \<times> _")
  then obtain e where e: "r = Ok e" "\<And>x. e \<noteq> SE_Err x" and same: "mg_streams m' = mg_streams m1"
    using assms
    by (auto simp: manage_stream_error_def set_states_def action_defs
        split: outcome.splits StreamEndState.splits prod.splits sum.splits poll.splits
        dest!: input_tx_send_streams send_message_streams)
  have "send_local_reset i (mg_streams m) = (Ok e :: (_, DispatchErrorKind) outcome, mg_streams m')"
    using on_streamsD [OF reset] e(1) same by simp
  then show "others_kept i (mg_streams m) (mg_streams m')" "settled i (mg_streams m')"
    using e(2) by (auto intro: others_kept_reset reset_settles)
qed

lemma others_kept_trans: "others_kept i s t \<Longrightarrow> others_kept i t u \<Longrightarrow> others_kept i s u"
  by (simp add: others_kept_def)

lemma on_world_streamsD:
  "on_world_streams f m = (r, m') \<Longrightarrow> f (mg_streams m, mg_world m) = (r, (mg_streams m', mg_world m'))"
  by (auto simp: on_world_streams_def inside_def set_streams_def split: prod.splits)

lemma body_sent:
  assumes read: "poll_read_body body_read i (s, w) = (Ok d, (mg_streams m1, w'))"
    and d: "d = DR_Ready frame \<or> d = DR_Finish frame"
    and send: "poll_send_frame RT frame m1 = (Ok v, m2)"
  shows "others_kept i s (mg_streams m2)" "d = DR_Finish frame \<Longrightarrow> settled i (mg_streams m2)"
proof -
  obtain q where q: "send_frame_state frame (mg_streams m1) = (Ok q, mg_streams m2)" "\<forall>e. q \<noteq> FR_Err e"
    using poll_send_frame_Ok [OF send] by blast
  have frame: "fr_id frame = i" "carries_request frame"
    using poll_read_body_frame [OF read d] by (auto simp: carries_request_def)
  show "others_kept i s (mg_streams m2)"
    using others_kept_read [OF read] others_kept_send_frame [OF q(1) frame(1)] by (rule others_kept_trans)
  show "d = DR_Finish frame \<Longrightarrow> settled i (mg_streams m2)"
    using end_settles [OF q(1) q(2) [rule_format] frame(2)] read_stops(3) [OF read] frame(1) by blast
qed

text \<open>The ways in which the loop returns normally, read off its first turn.\<close>

lemma input_body_loop_Ok:
  assumes loop: "input_body_loop RT i m = (Ok u, m')"
    and turn: "on_world_streams (poll_read_body (rt_body_read RT) i) m = (p, m1)"
  obtains (ready) frame v m2 where "p = Ok (DR_Ready frame)" "poll_send_frame RT frame m1 = (Ok v, m2)"
      "input_body_loop RT i m2 = (Ok u, m')"
    | (finish) frame where "p = Ok (DR_Finish frame)" "poll_send_frame RT frame m1 = (Ok u, m')"
    | (error) j code v where "p = Err (StreamError j code)" "manage_stream_error RT j code m1 = (Ok v, m')"
    | (stop) d where "p = Ok d" "d = DR_Closed \<or> d = DR_Pending" "m' = m1"
proof (cases p)
  case (Ok d)
  show ?thesis
  proof (cases d)
    case (DR_Ready frame)
    then show ?thesis
      using loop turn Ok
      by (cases "poll_send_frame RT frame m1"; cases "fst (poll_send_frame RT frame m1)")
        (subst (asm) input_body_loop.simps, auto intro: ready)+
  next
    case (DR_Finish frame)
    then show ?thesis
      using loop turn Ok by (intro finish [of frame]) (subst (asm) input_body_loop.simps, auto)+
  qed (use loop turn Ok in \<open>subst (asm) input_body_loop.simps, auto intro: stop\<close>)+
next
  case (Err e)
  then have dealt: "deal_poll_body_error RT e m1 = (Ok u, m')"
    using loop turn by (subst (asm) input_body_loop.simps) simp
  show ?thesis
  proof (cases e)
    case (StreamError j code)
    then show ?thesis
      using dealt Err error
      by (cases "manage_stream_error RT j code m1"; cases "fst (manage_stream_error RT j code m1)")
        (auto simp: deal_poll_body_error_def andthen_def give_def)
  qed (use dealt in \<open>simp add: deal_poll_body_error_def fail_def\<close>)
qed (use loop turn in \<open>subst (asm) input_body_loop.simps, auto\<close>)

lemma input_body_loop_settles:
  assumes "input_body_loop RT i m = (Ok u, m')"
  shows "others_kept i (mg_streams m) (mg_streams m') \<and> settled i (mg_streams m')"
  using assms
proof (induction m rule: measure_induct_rule
    [of "\<lambda>m. nat (sw_size (fc_send_window (ss_flow_control (mg_streams m))))"])
  case (less m)
  obtain p m1 where turn: "on_world_streams (poll_read_body (rt_body_read RT) i) m = (p, m1)"
    by (cases "on_world_streams (poll_read_body (rt_body_read RT) i) m")
  note read = on_world_streamsD [OF turn]
  note kept = others_kept_read [OF read]
  show ?case
    using less.prems turn
  proof (cases rule: input_body_loop_Ok)
    case (ready frame v m2)
    have "nat (sw_size (fc_send_window (ss_flow_control (mg_streams m2)))) <
        nat (sw_size (fc_send_window (ss_flow_control (mg_streams m))))"
      using turn ready by (intro input_turn_spends) simp_all
    moreover have "others_kept i (mg_streams m) (mg_streams m2)"
      using read ready by (intro body_sent(1)) auto
    ultimately show ?thesis using less.IH ready(3) others_kept_trans by blast
  next
    case (finish frame)
    then show ?thesis using body_sent [OF read [unfolded finish(1)] _ finish(2)] by blast
  next
    case (error j code v)
    then have "j = i" using read read_error by simp
    then show ?thesis
      using error(2) others_kept_trans [OF kept] manage_stream_error_settles [of RT i code m1] by blast
  next
    case (stop d)
    then show ?thesis using kept read read_stops [of "rt_body_read RT" i "mg_streams m" "mg_world m" d]
      by (auto simp: settled_def)
  qed
qed

lemma input_stream_frame_settles:
  assumes ok: "headers_ok (mg_streams m)" and run: "input_stream_frame RT i m = (Ok u, m')"
  shows "others_kept i (mg_streams m) (mg_streams m') \<and> settled i (mg_streams m') \<and> headers_ok (mg_streams m')"
proof -
  have "on_manager flow_rel m m'"
    using run by (rule movesD [OF flow.allowed_input_stream_frame]) simp
  then have "headers_ok (mg_streams m')" using flow_move ok by blast
  moreover have "others_kept i (mg_streams m) (mg_streams m') \<and> settled i (mg_streams m')"
  proof -
    obtain r s1 where taken: "headers i (mg_streams m) = (r, s1)" by (cases "headers i (mg_streams m)")
    let ?m1 = "set_streams s1 m"
    have m1: "mg_streams ?m1 = s1" by (simp add: set_streams_def)
    note kept = others_kept_headers [OF taken]
    obtain header where header: "r = Ok header"
      using run taken by (cases r) (auto simp: input_stream_frame_def action_defs on_streams_def)
    show ?thesis
    proof (cases header)
      case None
      then have "input_body_loop RT i ?m1 = (Ok u, m')"
        using run taken header by (simp add: input_stream_frame_def action_defs on_streams_def)
      then show ?thesis using input_body_loop_settles m1 others_kept_trans [OF kept] by fastforce
    next
      case (Some frame)
      then obtain v m2 where send: "poll_send_frame RT frame ?m1 = (Ok v, m2)"
        and rest: "(if FrameFlags_is_end_stream (fr_flags frame) then give () else input_body_loop RT i) m2 = (Ok u, m')"
        using run taken header
        by (cases "poll_send_frame RT frame ?m1"; cases "fst (poll_send_frame RT frame ?m1)")
          (auto simp: input_stream_frame_def action_defs on_streams_def)
      have frame: "fr_id frame = i" "carries_request frame"
        using taken header Some ok by (auto elim!: headers_SomeE dest!: headers_ok_at simp: carries_request_def)
      obtain q where q: "send_frame_state frame s1 = (Ok q, mg_streams m2)" "\<forall>e. q \<noteq> FR_Err e"
        using poll_send_frame_Ok [OF send] m1 by auto
      have kept2: "others_kept i (mg_streams m) (mg_streams m2)"
        using kept others_kept_send_frame [OF q(1) frame(1)] by (rule others_kept_trans)
      show ?thesis
      proof (cases "FrameFlags_is_end_stream (fr_flags frame)")
        case True
        then show ?thesis
          using rest kept2 end_settles [OF q(1) q(2) [rule_format] frame(2)] frame(1) by (simp add: give_def)
      next
        case False
        then show ?thesis
          using rest input_body_loop_settles [of RT i m2 u m'] others_kept_trans [OF kept2] by simp
      qed
    qed
  qed
  ultimately show ?thesis by blast
qed

section \<open>The whole queue\<close>

definition all_settled :: "'b Streams \<Rightarrow> bool" where
  "all_settled s \<longleftrightarrow> (\<forall>i. settled i s)"

lemma input_request_loop_settles:
  assumes "input_request_loop RT n m = (Ok u, m')" "all_settled (mg_streams m)" "headers_ok (mg_streams m)"
  shows "all_settled (mg_streams m')"
  using assms
proof (induction n arbitrary: m)
  case 0
  then show ?case by (simp add: give_def)
next
  case (Suc n)
  show ?case
  proof (cases "ss_pending_send (mg_streams m)")
    case Nil
    then show ?thesis
      using Suc.prems by (simp add: on_streams_def action_defs next_pending_stream_def set_streams_def)
  next
    case (Cons i "is")
    let ?m1 = "set_streams ((mg_streams m)\<lparr>ss_pending_send := is\<rparr>) m"
    obtain v m2 where step: "input_stream_frame RT i ?m1 = (Ok v, m2)" and rest: "input_request_loop RT n m2 = (Ok u, m')"
      using Suc.prems(1) Cons
      by (cases "input_stream_frame RT i ?m1"; cases "fst (input_stream_frame RT i ?m1)")
        (auto simp: on_streams_def action_defs next_pending_stream_def)
    have "settled j (mg_streams ?m1)" if "j \<noteq> i" for j
      using Suc.prems(2) that Cons
      by (auto simp: all_settled_def settled_def set_streams_def stream_state_def stream_at_def waiting_def)
    moreover have "headers_ok (mg_streams ?m1)"
      using Suc.prems(3) by (simp add: set_streams_def headers_ok_def)
    ultimately have "all_settled (mg_streams m2)" "headers_ok (mg_streams m2)"
      using input_stream_frame_settles [OF _ step] settled_kept unfolding all_settled_def by metis+
    then show ?thesis using Suc.IH rest by blast
  qed
qed

lemma all_settled_try_consume:
  assumes "(try_consume_pending_concurrency s :: (unit, 'e) outcome \<times> 'b Streams) = (r, s')" "all_settled s"
  shows "all_settled s'" "headers_ok s' = headers_ok s"
proof -
  obtain k where s': "s' = s\<lparr>ss_current_concurrent_streams := ss_current_concurrent_streams s + of_nat k,
                ss_pending_concurrency := drop k (ss_pending_concurrency s),
                ss_pending_send := ss_pending_send s @ take k (ss_pending_concurrency s)\<rparr>"
    using assms(1) by (auto simp: try_consume_admits Let_def)
  have "set (ss_pending_concurrency s) = set (take k (ss_pending_concurrency s)) \<union> set (drop k (ss_pending_concurrency s))"
    by (metis append_take_drop_id set_append)
  then have "waiting s' = waiting s" unfolding s' waiting_def by auto
  then show "all_settled s'" "headers_ok s' = headers_ok s"
    using assms(2) by (simp_all add: all_settled_def settled_def s' stream_state_def stream_at_def headers_ok_def)
qed

lemma poll_input_request_settles:
  assumes "poll_input_request RT m = (Ok u, m')" "all_settled (mg_streams m)" "headers_ok (mg_streams m)"
  shows "all_settled (mg_streams m')"
proof -
  obtain s1 where consume: "try_consume_pending_concurrency (mg_streams m) =
      (Ok () :: (unit, DispatchErrorKind) outcome, s1)"
    using try_consume_admits [of "mg_streams m"] by (auto simp: Let_def)
  then have "input_request_loop RT (pending_stream_num s1) (set_streams s1 m) = (Ok u, m')"
    using assms(1) by (simp add: poll_input_request_def on_streams_def action_defs set_streams_def)
  then show ?thesis
    using all_settled_try_consume [OF consume assms(2)] assms(3)
      input_request_loop_settles [of RT _ "set_streams s1 m" u m']
    by (simp add: set_streams_def)
qed

section \<open>A whole connection\<close>

text \<open>
  Everything but the sending of requests keeps the streams settled: a step closes streams, moves them between
  queues, or enters a new stream into one.
\<close>

fun settled_rel :: "'b Streams \<times> Frame list \<Rightarrow> 'b Streams \<times> Frame list \<Rightarrow> bool" where
  "settled_rel (s, out) (s', out') \<longleftrightarrow> (all_settled s \<longrightarrow> all_settled s')"

lemma recv_step_sends: "recv_step q q' \<Longrightarrow> sends q' \<Longrightarrow> sends q"
  by (auto elim!: recv_step.cases simp: change_idle_def change_open_def split: if_splits)

lemma all_settled_put:
  assumes "all_settled s" "stream_at i s = Some st" "sends (st_state st') \<Longrightarrow> sends (st_state st)"
  shows "all_settled (put_stream i st' s)"
  using assms stream_state_Some [OF assms(2)] by (auto simp: all_settled_def settled_def split: if_splits)

lemma all_settled_drop_one [simp]: "all_settled (drop_one s) = all_settled s"
  by (simp add: all_settled_def settled_def stream_state_def stream_at_def waiting_def) (simp add: drop_one_def)

lemma shut_not_sends: "\<not> sends (st_state (if is_Closed (st_state st) then st else shut_stream reason st))"
  by (simp add: shut_stream_def)

lemma all_settled_sstep: "sstep s s' \<Longrightarrow> all_settled s \<Longrightarrow> all_settled s'"
proof (induction rule: sstep.induct)
  case (same s s')
  then show ?case by (auto simp: all_settled_def settled_def stream_state_outline)
next
  case (receive i s st q)
  then show ?case by (auto intro!: all_settled_put dest: recv_step_sends)
next
  case (finish i s st)
  then show ?case by (auto intro!: all_settled_put)
next
  case (reset i s st reason)
  then show ?case by (auto intro!: all_settled_put simp: shut_stream_def)
next
  case (reclose i s st)
  then show ?case by (auto intro!: all_settled_put)
next
  case (register_wait s flag parts data)
  then show ?case
    by (auto simp: all_settled_def settled_def insert_stream_def Let_def stream_state_def stream_at_def
        waiting_def put_stream_def update_conv' push_pending_concurrency_def next_id_def)
next
  case (register_now s flag parts data)
  then show ?case
    by (auto simp: all_settled_def settled_def insert_stream_def Let_def stream_state_def stream_at_def
        waiting_def put_stream_def update_conv' push_back_pending_send_def add_one_def next_id_def)
next
  case (consume s i "is")
  then show ?case
    by (auto simp: all_settled_def settled_def stream_state_def stream_at_def waiting_def
        push_back_pending_send_def add_one_def)
next
  case (unset last_id s "is" current m)
  let ?s' = "s\<lparr>ss_current_concurrent_streams := current, ss_stream_map := m\<rparr>"
  have "waiting ?s' = waiting s" by (simp add: waiting_def)
  moreover have "stream_state i s = Some q" if "stream_state i ?s' = Some q" "sends q" for i q
    using that by (auto simp: stream_state_def stream_at_def unset_loop_map [OF unset(1)] shut_stream_def split: if_splits)
  ultimately show ?case using unset(2) by (simp add: all_settled_def settled_def)
next
  case (close_all s)
  let ?f = "\<lambda>st. if is_Closed (st_state st) then st else shut_stream LocalGoAway st"
  have "\<not> sends q" if "stream_state i (t\<lparr>ss_stream_map := map (\<lambda>(i, st). (i, ?f st)) (ss_stream_map s)\<rparr>) = Some q" for i t q
    using that by (auto simp: stream_state_def stream_at_def map_of_map [where f = ?f] shut_not_sends)
  then show ?case unfolding all_settled_def settled_def by blast
qed

interpretation settling: widening_contract RT settled_rel for RT :: "('w, 'b, 'h) runtime"
proof unfold_locales
  show "settled_rel x x" for x :: "'b Streams \<times> Frame list"
    by (cases x) simp
  show "settled_rel x z" if "settled_rel x y" "settled_rel y z" for x y z :: "'b Streams \<times> Frame list"
    using that by (cases x; cases y; cases z) auto
  show "settled_rel (s, out) (s', out)" if "sstep s s'" for s s' :: "'b Streams" and out
    using all_settled_sstep [OF that] by simp
  show "settled_rel (s, out) (s, out @ [frame])" if "\<not> carries_request frame" for s :: "'b Streams" and out frame
    by simp
  show "settled_rel (s, out) (s', out)" if "increase_conn_send_window sz s = (Ok (), s')" for s s' :: "'b Streams" and sz out
  proof -
    have "stream_state i s' = stream_state i s" "waiting s' = waiting s" for i
      using that by (auto simp: increase_conn_send_window_def stream_state_def stream_at_def waiting_def split: outcome.splits)
    then show ?thesis by (simp add: all_settled_def settled_def)
  qed
qed

lemma settled_moves:
  assumes "moves (on_manager settled_rel) f" "f m = (r, m')" "r \<noteq> Panic" "all_settled (mg_streams m)"
  shows "all_settled (mg_streams m')"
  using movesD [OF assms(1-3)] assms(4) by (simp add: on_manager_def)

lemma pending_state_settles:
  assumes run: "manage_pending_state RT m = (Ok p, m')" and requests: "requests_ok RT"
    and ok: "all_settled (mg_streams m)" "headers_ok (mg_streams m)"
  shows "all_settled (mg_streams m')"
proof (cases "sc_go_away_error_code (mg_controller m)")
  case None
  then obtain u v m1 where recv: "poll_recv_request RT m = (Ok u, m1)" and input: "poll_input_request RT m1 = (Ok v, m')"
    using run by (auto simp: manage_pending_state_def action_defs split: prod.splits outcome.splits)
  have "all_settled (mg_streams m1)"
    using settled_moves [OF settling.allowed_poll_recv_request recv] requests ok(1) by simp
  moreover have "headers_ok (mg_streams m1)"
    using movesD [OF flow.allowed_poll_recv_request recv] requests ok(2) flow_move by blast
  ultimately show ?thesis using poll_input_request_settles [OF input] by blast
next
  case (Some code)
  then obtain u where "poll_deal_with_go_away RT code m = (Ok u, m')"
    using run by (auto simp: manage_pending_state_def action_defs split: prod.splits outcome.splits)
  then show ?thesis using settled_moves [OF settling.allowed_poll_deal_with_go_away] ok(1) by blast
qed

lemma turn_settles:
  assumes run: "poll_turn RT m = (Ok p, m')" and requests: "requests_ok RT"
    and ok: "all_settled (mg_streams m)" "headers_ok (mg_streams m)"
  shows "all_settled (mg_streams m')"
proof (cases "mg_state m")
  case MS_Send
  then obtain q where "poll_blocked_frames RT m = (Ok q :: (_, DispatchErrorKind) outcome, m')"
    using run by (auto simp: poll_turn_def action_defs split: prod.splits outcome.splits)
  then show ?thesis using settled_moves [OF settling.allowed_poll_blocked_frames] ok(1) by blast
next
  case MS_Receive
  obtain message w where recv: "rt_resp_recv RT (mg_world m) = (message, w)"
    by (cases "rt_resp_recv RT (mg_world m)")
  let ?m = "m\<lparr>mg_world := w\<rparr>"
  have step: "receive_message RT message ?m = (Ok p, m')"
    using run recv MS_Receive by (simp add: poll_turn_def andthen_def view_def)
  have start: "all_settled (mg_streams ?m)" "headers_ok (mg_streams ?m)" using ok by simp_all
  consider (frame) frame q where "poll_recv_message RT frame ?m = (Ok q, m')"
    | (error) e q where "manage_resp_error RT e ?m = (Ok q, m')"
    | (closed) q where "exit_or_wait RT DE_ChannelClosed ?m = (Ok q, m')"
    | (idle) q where "manage_pending_state RT ?m = (Ok q, m')"
    | (same) "m' = ?m"
    using step
    by (auto simp: receive_message_def Let_def action_defs poll_channel_closed_exit_def
        split: RecvPoll.splits OutputMessage.splits prod.splits outcome.splits if_splits)
  then show ?thesis
  proof cases
    case frame
    then show ?thesis using settled_moves [OF settling.allowed_poll_recv_message_all] start(1) by blast
  next
    case error
    then show ?thesis using settled_moves [OF settling.allowed_manage_resp_error] start(1) by blast
  next
    case closed
    then show ?thesis using settled_moves [OF settling.allowed_exit_or_wait] start(1) by blast
  next
    case idle
    then show ?thesis using pending_state_settles [OF _ requests start] by blast
  next
    case same
    then show ?thesis using start(1) by simp
  qed
next
  case (MS_Exit e)
  then show ?thesis using run by (simp add: poll_turn_def action_defs)
qed

text \<open>The runs in which no turn ends the connection with an error, after which the manager is not polled again.\<close>

inductive live_turns ::
  "('w, 'b, 'h) runtime \<Rightarrow> ('w, 'b, 'h) ConnManager \<Rightarrow> Frame list \<Rightarrow> ('w, 'b, 'h) ConnManager \<Rightarrow> bool"
  for RT m where
  start: "live_turns RT m [] m"
| turn: "live_turns RT m frames m1 \<Longrightarrow> poll_turn RT m1 = (Ok p, m2) \<Longrightarrow>
    live_turns RT m (frames @ incoming RT m1) m2"
| world: "live_turns RT m frames m1 \<Longrightarrow> live_turns RT m frames (m1\<lparr>mg_world := w, mg_settings := settings\<rparr>)"

lemma live_turns: "live_turns RT m frames m' \<Longrightarrow> turns RT m frames m'"
  by (induction rule: live_turns.induct) (auto intro: turns.intros)

lemma live_turns_settled:
  assumes "live_turns RT m frames m'" "requests_ok RT" "all_settled (mg_streams m)" "headers_ok (mg_streams m)"
  shows "all_settled (mg_streams m')"
  using assms(1)
proof induction
  case (turn frames m1 p m2)
  have "headers_ok (mg_streams m1)" using flow_turns [OF live_turns [OF turn.hyps(1)] assms(2,4)] by blast
  then show ?case using turn_settles [OF turn.hyps(2) assms(2) turn.IH] by blast
qed (use assms(3) in simp_all)

end
