(* ===== verification/H2_Client_Properties.thy ===== *)
theory H2_Client_Properties
  imports H2_Progress
begin

text \<open>
  The properties of the client's HTTP/2 connection, from its start by \<^verbatim>\<open>Http2Dispatcher::new\<close> along any
  run of the manager, and the behaviours found to deviate from what the code means to do.
\<close>

section \<open>The state of a new connection\<close>

lemma start_state:
  fixes m :: "('w, 'b, 'h) ConnManager"
  assumes "Http2Dispatcher_start RT config w = Ok (Some m)"
  shows "ss_stream_map (mg_streams m) = []" "conn_send_size (mg_streams m) = 65535"
    "list_all (\<lambda>frame. \<not> carries_request frame) (mg_out m)"
proof -
  obtain flow where flow: "FlowControl_setup_recv_window (FlowControl_new DEFAULT_WINDOW_SIZE DEFAULT_WINDOW_SIZE)
      (hc_init_conn_window_size config) = (Ok flow :: (FlowControl, DispatchErrorKind) outcome)"
    using assms by (cases "FlowControl_setup_recv_window (FlowControl_new DEFAULT_WINDOW_SIZE DEFAULT_WINDOW_SIZE)
      (hc_init_conn_window_size config) :: (FlowControl, DispatchErrorKind) outcome") (auto simp: Http2Dispatcher_start_def)
  have size: "sw_size (fc_send_window flow) = 65535"
    using flow by (auto simp: FlowControl_setup_recv_window_def FlowControl_new_def Let_def obind_eq_Ok
        SendWindow_new_def DEFAULT_WINDOW_SIZE_def as_i32_small split: if_splits)
  let ?s = "Streams_new (hc_init_stream_window_size config) DEFAULT_WINDOW_SIZE flow :: 'b Streams"
  let ?send = "send_or_closed (input_send RT (create_initial_settings config))"
  obtain v s w1 out where run: "andthen ?send (\<lambda>_. release_conn_recv_window (input_send RT) 0) (?s, w, []) = (Ok v, (s, w1, out))"
    and m: "m = ConnManager_new Synced (StreamController_new s False False) w1 out"
    using assms flow by (auto simp: Http2Dispatcher_start_def Let_def split: prod.splits outcome.splits)
  obtain u t w2 out1 where sent: "?send (?s, w, []) = (Ok u, (t, w2, out1))"
    and release: "release_conn_recv_window (input_send RT) 0 (t, w2, out1) = (Ok v, (s, w1, out))"
    using run by (auto simp: andthen_def split: prod.splits outcome.splits)
  have t: "t = ?s" "out1 = [create_initial_settings config]" using send_or_closed_input [OF sent] by auto
  have "outline s = outline ?s" and log: "only_updates out1 out"
    using release_conn_recv_window_outline [OF release] t by auto
  then show "ss_stream_map (mg_streams m) = []" "conn_send_size (mg_streams m) = 65535"
    using size by (simp_all add: m ConnManager_new_def StreamController_new_def outline_def Streams_new_def conn_send_size_def)
  show "list_all (\<lambda>frame. \<not> carries_request frame) (mg_out m)"
    using log t(2)
    by (auto simp: m ConnManager_new_def only_updates_def create_initial_settings_def Let_def carries_request_def Frame_new_def)
qed

lemma control_log:
  assumes "list_all (\<lambda>frame. \<not> carries_request frame) out"
  shows "data_octets out = 0" "sent_phase i out = Before"
  using assms
  by (induction out rule: rev_induct)
    (simp_all add: data_octets_def sent_phase_def carries_request_def phase_step_def split: Payload.splits)

lemma start_invariants:
  assumes "Http2Dispatcher_start RT config w = Ok (Some m)"
  shows "headers_ok (mg_streams m)" "flow_potential m = 65535" "streams_inv (mg_streams m) (mg_out m)"
    "counted (mg_streams m)"
  using start_state [OF assms] control_log [OF start_state(3) [OF assms]]
  by (simp_all add: headers_ok_def flow_potential_def streams_inv_def ids_below_def stream_state_def stream_at_def
      counted_def)

section \<open>An example\<close>

text \<open>
  A runtime whose world is the list of messages still to be received; a body handle is the answer to
  every read. The run of the witnesses starts a connection with the default configuration and
  receives one WINDOW\_UPDATE of the connection.
\<close>

definition example_runtime :: "(OutputMessage list, BodyPoll, unit) runtime" where
  "example_runtime =
     \<lparr>rt_body_read = (\<lambda>b len w. (b, w)), rt_channel_send = (\<lambda>h message w. (SP_Sent, w)),
      rt_try_send = (\<lambda>h message w. w), rt_input_send = (\<lambda>frame w. (True, w)),
      rt_resp_recv = (\<lambda>w. case w of [] \<Rightarrow> (RP_Pending, []) | message # rest \<Rightarrow> (RP_Message message, rest)),
      rt_req_recv = (\<lambda>w. (RP_Pending, w)), rt_req_close = (\<lambda>w. w)\<rparr>"

definition example_credit :: Frame where
  "example_credit = Frame_new 0 0 (PL_WindowUpdate 1000)"

lemma example_requests: "requests_ok example_runtime"
  by (simp add: requests_ok_def example_runtime_def)

lemma example_send:
  "input_send example_runtime frame (w, out) = (Ok True, (w, out @ [frame]))"
  by (simp add: input_send_def example_runtime_def)

lemma example_read: "rt_body_read example_runtime b len w = (b, w)"
  by (simp add: example_runtime_def)

lemma as_i32_uint: "uint c < 2 ^ 31 \<Longrightarrow> as_i32 c = uint c"
  by (metis as_i32_small nat_less_numeral_power_cancel_iff int_nat_eq uint_ge_0 unat_eq_nat_uint)

lemma setup_conn_window:
  assumes "65535 < uint c" "uint c < 2 ^ 31"
  shows "FlowControl_setup_recv_window (FlowControl_new DEFAULT_WINDOW_SIZE DEFAULT_WINDOW_SIZE) c =
    Ok \<lparr>fc_recv_window = \<lparr>rw_notification = 65535, rw_actual = uint c\<rparr>, fc_send_window = \<lparr>sw_size = 65535\<rparr>\<rparr>"
proof -
  have base: "as_i32 65535 = 65535" "as_u32 65535 = 65535" by (simp_all add: as_i32_small as_u32_def)
  have more: "65535 < c" using assms(1) by (simp add: word_less_def)
  then have "uint (c - 65535) = uint c - 65535" by (subst uint_sub_lem [THEN iffD1]) (simp_all add: word_less_def)
  then have extra: "as_i32 (c - 65535) = uint c - 65535"
    using assms by (subst as_i32_uint) simp_all
  have range: "in_i32 (uint c)" using assms(2) by (auto simp: in_i32_def intro: order_trans [OF _ uint_ge_0])
  show ?thesis
    using more extra range
    by (simp add: FlowControl_setup_recv_window_def FlowControl_new_def DEFAULT_WINDOW_SIZE_def RecvWindow_new_def
        SendWindow_new_def RecvWindow_actual_size_def RecvWindow_increase_actual_def base Let_def checked_i32_def)
qed

lemma default_conn_window:
  "FlowControl_setup_recv_window (FlowControl_new DEFAULT_WINDOW_SIZE DEFAULT_WINDOW_SIZE)
     (hc_init_conn_window_size H2Config_default) =
     (Ok \<lparr>fc_recv_window = \<lparr>rw_notification = 65535, rw_actual = 10485760\<rparr>, fc_send_window = \<lparr>sw_size = 65535\<rparr>\<rparr>
       :: (FlowControl, DispatchErrorKind) outcome)"
  by (subst setup_conn_window) (simp_all add: H2Config_default_def)

lemma default_window_update:
  "RecvWindow_check_window_update \<lparr>rw_notification = 65535, rw_actual = 10485760\<rparr> 0 =
     (Ok (Some (Frame_new 0 0 (PL_WindowUpdate (as_u32 10420225))), \<lparr>rw_notification = 10485760, rw_actual = 10485760\<rparr>)
       :: (Frame option \<times> RecvWindow, DispatchErrorKind) outcome)"
  by (subst check_window_update_restores) (simp_all add: recv_window_ok_def in_i32_def)

lemma example_start:
  "\<exists>m. Http2Dispatcher_start example_runtime H2Config_default w = Ok (Some m) \<and>
     mg_state m = MS_Receive \<and> mg_world m = w"
proof -
  have zero: "as_i32 0 = 0" by (simp add: as_i32_small)
  show ?thesis
    by (simp add: Http2Dispatcher_start_def default_conn_window Let_def send_or_closed_def example_send action_defs
        release_conn_recv_window_def FlowControl_recv_notification_size_available_def Streams_new_def
        FlowControl_recv_data_def RecvWindow_recv_data_def zero checked_i32_def in_i32_def
        FlowControl_check_conn_recv_window_update_def default_window_update ConnManager_new_def)
qed

lemma example_turn:
  assumes "mg_state m = MS_Receive" "mg_world m = OM_Output example_credit # rest"
    and "conn_send_size (mg_streams m) = 65535"
  shows "\<exists>m'. poll_turn example_runtime m = (Ok None, m')"
  using assms
  by (simp add: poll_turn_def receive_message_def poll_recv_message_def poll_recv_frame_def recv_window_frame_def
      example_credit_def Frame_new_def on_streams_def action_defs increase_conn_send_window_def
      FlowControl_increase_send_size_def increase_size_cases conn_send_size_def as_i32_small in_i32_def
      Let_def example_runtime_def)

lemma example_run:
  "\<exists>m m'. Http2Dispatcher_start example_runtime H2Config_default [OM_Output example_credit] = Ok (Some m) \<and>
     turns example_runtime m [example_credit] m'"
proof -
  obtain m where m: "Http2Dispatcher_start example_runtime H2Config_default [OM_Output example_credit] = Ok (Some m)"
    "mg_state m = MS_Receive" "mg_world m = [OM_Output example_credit]"
    using example_start by blast
  moreover obtain m' where "poll_turn example_runtime m = (Ok None, m')"
    using example_turn [OF m(2,3) start_state(2) [OF m(1)]] by blast
  moreover have "incoming example_runtime m = [example_credit]"
    using m by (simp add: incoming_def example_runtime_def)
  ultimately show ?thesis using turns.turn [OF turns.start] by fastforce
qed

text \<open>
  A run with a request: its HEADERS frame is sent in the first turn, and its body is not ready. The world says
  whether the request is still to be received.
\<close>

definition example_request :: "(BodyPoll, unit) ReqMessage" where
  "example_request =
     \<lparr>rq_sender = (), rq_request = \<lparr>rw_flag = 0x4, rw_payload = PL_Headers Parts_new, rw_data = Some BP_Pending\<rparr>\<rparr>"

definition request_runtime :: "(bool, BodyPoll, unit) runtime" where
  "request_runtime =
     \<lparr>rt_body_read = (\<lambda>b len w. (b, w)), rt_channel_send = (\<lambda>h message w. (SP_Sent, w)),
      rt_try_send = (\<lambda>h message w. w), rt_input_send = (\<lambda>frame w. (True, w)), rt_resp_recv = (\<lambda>w. (RP_Pending, w)),
      rt_req_recv = (\<lambda>w. (if w then RP_Message example_request else RP_Pending, False)), rt_req_close = (\<lambda>w. w)\<rparr>"

definition example_stream :: "BodyPoll Stream" where
  "example_stream =
     Stream_new (RecvWindow_new (as_i32 (hc_init_stream_window_size H2Config_default)))
       (SendWindow_new (as_i32 DEFAULT_WINDOW_SIZE)) (Frame_new 1 0x4 (PL_Headers Parts_new)) (Some BP_Pending)"

lemma request_requests: "requests_ok request_runtime"
  by (auto simp: requests_ok_def request_runtime_def example_request_def split: if_splits)

text \<open>The manager after the start and after the first turn.\<close>

definition request_start :: "Frame list \<Rightarrow> (bool, BodyPoll, unit) ConnManager" where
  "request_start out = ConnManager_new Synced (StreamController_new
     (Streams_new (hc_init_stream_window_size H2Config_default) DEFAULT_WINDOW_SIZE \<lparr>fc_recv_window = \<lparr>rw_notification = 10485760, rw_actual = 10485760\<rparr>,
        fc_send_window = \<lparr>sw_size = 65535\<rparr>\<rparr>) False False) True out"

lemma request_started: "\<exists>out. Http2Dispatcher_start request_runtime H2Config_default True = Ok (Some (request_start out))"
proof -
  let ?w = "\<lparr>rw_notification = 65535, rw_actual = 10485760\<rparr> :: RecvWindow"
  have send: "input_send request_runtime frame (w, out) = (Ok True, (w, out @ [frame]))" for frame w out
    by (simp add: input_send_def request_runtime_def)
  show ?thesis
    by (simp add: Http2Dispatcher_start_def default_conn_window default_window_update Let_def send_or_closed_def send action_defs
        release_conn_recv_window_def FlowControl_recv_notification_size_available_def Streams_new_def
        FlowControl_recv_data_def RecvWindow_recv_data_def as_i32_small checked_i32_def in_i32_def
        FlowControl_check_conn_recv_window_update_def ConnManager_new_def request_start_def)
qed

lemma request_accepted:
  "\<exists>m. poll_recv_request request_runtime (request_start out) = (Ok (), m) \<and> mg_out m = out \<and>
     mg_streams m = push_back_pending_send 1 ((mg_streams (request_start out))\<lparr>ss_current_concurrent_streams := 1,
       ss_next_stream_id := 3, ss_stream_map := [(1, example_stream)]\<rparr>)"
  by (simp add: poll_recv_request.simps request_start_def request_runtime_def ConnManager_new_def StreamController_new_def
      on_streams_def action_defs generate_id_def Let_def Streams_new_def DEFAULT_MAX_STREAM_ID_def accept_request_def
      register_stream_def example_request_def reach_max_concurrency_def DEFAULT_MAX_CONCURRENT_STREAMS_def
      is_pending_concurrency_empty_def increase_current_concurrency_def insert_stream_def put_stream_def set_streams_def
      on_controller_def example_stream_def push_back_pending_send_def mask_eq_exp_minus_1)

lemma request_sent:
  assumes "mg_streams m = push_back_pending_send 1 ((mg_streams (request_start out))\<lparr>ss_current_concurrent_streams := 1,
       ss_next_stream_id := 3, ss_stream_map := [(1, example_stream)]\<rparr>)"
  shows "\<exists>m'. poll_input_request request_runtime m = (Ok (), m') \<and>
     stream_state 1 (mg_streams m') = Some (Open WaitData WaitHeaders)"
proof -
  have send: "input_send request_runtime frame (w, out) = (Ok True, (w, out @ [frame]))" for frame w out
    by (simp add: input_send_def request_runtime_def)
  have read: "rt_body_read request_runtime b len w = (b, w)" for b len w by (simp add: request_runtime_def)
  have size: "as_i32 DEFAULT_WINDOW_SIZE = 65535" "as_u32 65535 = 65535"
    by (simp_all add: as_i32_small as_u32_def DEFAULT_WINDOW_SIZE_def)
  show ?thesis
    by (simp add: assms poll_input_request_def request_start_def ConnManager_new_def StreamController_new_def
        Streams_new_def try_consume_admits Let_def on_streams_def action_defs set_streams_def room_def
        pending_stream_num_def next_pending_stream_def input_stream_frame_def headers_def stream_at_def put_stream_def
        example_stream_def Stream_new_def Frame_new_def poll_send_frame_def send_frame_state_def send_headers_frame_def
        input_tx_send_def on_port_def send_or_closed_def send FrameFlags_is_end_stream_def END_STREAM_MASK_def
        input_body_loop.simps on_world_streams_def poll_read_body_def SendWindow_size_available_def SendWindow_new_def
        FlowControl_send_size_available_def poll_sized_data_def push_back_pending_send_def size
        read stream_state_def)
qed

lemma request_run:
  "\<exists>m m'. Http2Dispatcher_start request_runtime H2Config_default True = Ok (Some m) \<and>
     live_turns request_runtime m [] m' \<and> stream_state 1 (mg_streams m') = Some (Open WaitData WaitHeaders)"
proof -
  obtain out where start: "Http2Dispatcher_start request_runtime H2Config_default True = Ok (Some (request_start out))"
    using request_started by blast
  let ?m = "request_start out"
  obtain m1 where recv: "poll_recv_request request_runtime ?m = (Ok (), m1)"
    and m1: "mg_streams m1 = push_back_pending_send 1 ((mg_streams ?m)\<lparr>ss_current_concurrent_streams := 1,
       ss_next_stream_id := 3, ss_stream_map := [(1, example_stream)]\<rparr>)"
    using request_accepted by blast
  obtain m' where m': "poll_input_request request_runtime m1 = (Ok (), m')"
    "stream_state 1 (mg_streams m') = Some (Open WaitData WaitHeaders)"
    using request_sent [OF m1] by blast
  have m: "mg_state ?m = MS_Receive" "mg_world ?m" "sc_go_away_error_code (mg_controller ?m) = None"
    by (simp_all add: request_start_def ConnManager_new_def StreamController_new_def)
  have pending: "rt_resp_recv request_runtime w = (RP_Pending, w)" for w by (simp add: request_runtime_def)
  have same: "?m\<lparr>mg_world := True\<rparr> = ?m" using m(2) by simp
  have "poll_turn request_runtime ?m = (Ok (Some Pending), m')"
    using m recv m'(1)
    by (simp add: poll_turn_def receive_message_def manage_pending_state_def action_defs pending same)
  moreover have "incoming request_runtime ?m = []" by (simp add: incoming_def pending m(1))
  ultimately show ?thesis
    using live_turns.turn [OF live_turns.start, of request_runtime ?m "Some Pending" m'] start m'(2) by auto
qed

section \<open>Runs\<close>

text \<open>
  C4. The DATA frames that the manager hands to the writer stay within the window of the connection:
  from the start of a connection and along any run of the manager, whatever the application, the
  server and the runtime do, their octets never exceed the initial 65535 plus the increments of the
  WINDOW\_UPDATE frames received for stream 0.
\<close>

theorem connection_flow_control:
  assumes "Http2Dispatcher_start RT config w = Ok (Some m)" "requests_ok RT"
    and "turns RT m received m'"
  shows "data_octets (mg_out m') \<le> 65535 + sum_list (map conn_credit received)"
proof -
  have "flow_potential m' \<le> 65535 + sum_list (map conn_credit received)"
    using flow_turns [OF assms(3,2)] start_invariants [OF assms(1)] by simp
  then show ?thesis by (simp add: flow_potential_def)
qed

theorem connection_flow_control_witness:
  "\<exists>m m'. Http2Dispatcher_start example_runtime H2Config_default [OM_Output example_credit] = Ok (Some m) \<and>
     requests_ok example_runtime \<and> turns example_runtime m [example_credit] m' \<and>
     data_octets (mg_out m') \<le> 65535 + sum_list (map conn_credit [example_credit])"
proof -
  obtain m m' where run: "Http2Dispatcher_start example_runtime H2Config_default [OM_Output example_credit] = Ok (Some m)"
    "turns example_runtime m [example_credit] m'"
    using example_run by blast
  then show ?thesis using connection_flow_control [OF run(1) example_requests run(2)] example_requests by blast
qed

text \<open>
  C5. For every stream, the HEADERS and DATA frames that the manager hands to the writer along any run
  are one HEADERS frame followed by DATA frames, and nothing follows a frame that carries END\_STREAM.
\<close>

theorem request_frames_in_order:
  assumes "Http2Dispatcher_start RT config w = Ok (Some m)" "requests_ok RT"
    and "turns RT m received m'"
  shows "sent_phase i (mg_out m') \<noteq> Broken"
proof -
  have "states_rel (mg_streams m, mg_out m) (mg_streams m', mg_out m')"
    using states.turns_R [OF assms(3,2)] by (simp add: on_manager_def)
  then have "streams_inv (mg_streams m') (mg_out m')" using start_invariants [OF assms(1)] by simp
  then show ?thesis using phase_fits_not_Broken by (auto simp: streams_inv_def)
qed

theorem request_frames_in_order_witness:
  "\<exists>m m'. Http2Dispatcher_start request_runtime H2Config_default True = Ok (Some m) \<and>
     requests_ok request_runtime \<and> turns request_runtime m [] m' \<and>
     stream_state 1 (mg_streams m') = Some (Open WaitData WaitHeaders) \<and>
     sent_phase 1 (mg_out m') \<noteq> Broken"
proof -
  obtain m m' where run: "Http2Dispatcher_start request_runtime H2Config_default True = Ok (Some m)"
    "turns request_runtime m [] m'" "stream_state 1 (mg_streams m') = Some (Open WaitData WaitHeaders)"
    using request_run live_turns by blast
  then show ?thesis using request_frames_in_order [OF run(1) request_requests run(2), of 1] request_requests by blast
qed

text \<open>
  C6. Every operation on the state of a stream takes the edges that the diagram of RFC 9113 (section 5.1) has for its
  frame. If sending or receiving HEADERS or DATA, with or without END\_STREAM, is accepted, then the diagram permits the
  frame, the stream goes where the diagram says, and no other stream changes; a frame that is refused or ignored changes
  nothing. A reset closes the stream along the edge for RST\_STREAM, sent or received; the one exception is a stream that
  was never opened, for which the diagram has no such edge, and which is closed as well. A reset of a closed stream
  leaves it closed.
\<close>

theorem stream_operations_follow_diagram:
  "(send_headers_frame i eos s = (Ok r, s') \<longrightarrow>
     (if r = FR_OK then follows i (if eos then [Sent F_Headers, Sent F_End] else [Sent F_Headers]) s s' else s' = s)) \<and>
   (send_data_frame i eos s = (Ok r, s') \<longrightarrow>
     (if r = FR_OK then follows i (if eos then [Sent F_Data, Sent F_End] else [Sent F_Data]) s s' else s' = s)) \<and>
   (recv_headers i eos s = (Ok r, s') \<longrightarrow>
     (if r = FR_OK then follows i (if eos then [Received F_Headers, Received F_End] else [Received F_Headers]) s s'
      else s' = s)) \<and>
   (recv_data i eos s = (Ok r, s') \<longrightarrow>
     (if r = FR_OK then follows i (if eos then [Received F_Data, Received F_End] else [Received F_Data]) s s'
      else s' = s)) \<and>
   (send_local_reset i s = (Ok e, s') \<longrightarrow>
     (if e = SE_OK then follows i [Sent F_Reset] s s' \<or> gives_up i s s'
      else \<forall>j. map_option rfc_of (stream_state j s') = map_option rfc_of (stream_state j s))) \<and>
   (recv_remote_reset i s = (Ok e, s') \<longrightarrow>
     (if e = SE_OK then follows i [Received F_Reset] s s' \<or> gives_up i s s' else s' = s))"
  by (intro conjI impI send_headers_follows send_data_follows recv_headers_follows recv_data_follows
      send_local_reset_follows recv_remote_reset_follows)

text \<open>A stream that is opened by its HEADERS, and whose response ends with its HEADERS.\<close>

definition idle_streams :: "BodyPoll Streams" where
  "idle_streams = insert_stream 1 (Frame_new 1 0x4 (PL_Headers Parts_new)) None
     (Streams_new 65535 65535 (FlowControl_new 65535 65535))"

theorem stream_operations_follow_diagram_witness:
  "\<exists>s1 s2. send_headers_frame 1 False idle_streams = (Ok FR_OK :: (FrameRecvState, H2Error) outcome, s1) \<and>
     follows 1 [Sent F_Headers] idle_streams s1 \<and>
     recv_headers 1 True s1 = (Ok FR_OK :: (FrameRecvState, H2Error) outcome, s2) \<and>
     follows 1 [Received F_Headers, Received F_End] s1 s2 \<and>
     stream_state 1 s2 = Some (RemoteHalfClosed WaitData)"
proof -
  obtain s1 where s1: "send_headers_frame 1 False idle_streams = (Ok FR_OK :: (FrameRecvState, H2Error) outcome, s1)"
    and at: "stream_state 1 s1 = Some (Open WaitData WaitHeaders)" "ss_max_recv_id s1 = INITIAL_MAX_RECV_STREAM_ID"
    by (simp add: send_headers_frame_def idle_streams_def insert_stream_def Let_def Streams_new_def Stream_new_def
        put_stream_def stream_at_def stream_state_def)
  obtain s2 where s2: "recv_headers 1 True s1 = (Ok FR_OK :: (FrameRecvState, H2Error) outcome, s2)"
    "stream_state 1 s2 = Some (RemoteHalfClosed WaitData)"
    using at by (auto simp: recv_headers_def stream_state_def change_open_def INITIAL_MAX_RECV_STREAM_ID_def
        DEFAULT_MAX_STREAM_ID_def mask_eq_exp_minus_1)
  show ?thesis
    using stream_operations_follow_diagram [of 1 False idle_streams FR_OK s1] s1
      stream_operations_follow_diagram [of 1 True s1 FR_OK s2] s2 by auto
qed

text \<open>
  For whole runs, without the frames: between any two moments of a connection a stream that the map holds is not removed
  from it, and its state has moved along the diagram or from idle to closed. In particular a closed stream stays closed.
\<close>

theorem stream_states_move_forward:
  assumes "Http2Dispatcher_start RT config w = Ok (Some m)" "requests_ok RT"
    and "turns RT m received m1" "turns RT m1 received' m2"
  shows "forward (stream_state i (mg_streams m1)) (stream_state i (mg_streams m2))"
proof -
  have "states_rel (mg_streams m, mg_out m) (mg_streams m1, mg_out m1)"
    "states_rel (mg_streams m1, mg_out m1) (mg_streams m2, mg_out m2)"
    using states.turns_R [OF assms(3,2)] states.turns_R [OF assms(4,2)] by (simp_all add: on_manager_def)
  then show ?thesis using start_invariants [OF assms(1)] by simp
qed

text \<open>
  C7. Along any run, the streams that are not closed are at most the count of concurrent streams plus
  the streams that wait for the server's limit.
\<close>

theorem open_streams_counted:
  assumes "Http2Dispatcher_start RT config w = Ok (Some m)" "requests_ok RT"
    and "turns RT m received m'"
  shows "unclosed (ss_stream_map (mg_streams m')) \<le>
    unat (ss_current_concurrent_streams (mg_streams m')) + length (ss_pending_concurrency (mg_streams m'))"
proof -
  have "count_rel (mg_streams m, mg_out m) (mg_streams m', mg_out m')"
    using counts.turns_R [OF assms(3,2)] by (simp add: on_manager_def)
  then show ?thesis using start_invariants [OF assms(1)] by (simp add: counted_def)
qed

theorem open_streams_counted_witness:
  "\<exists>m m'. Http2Dispatcher_start request_runtime H2Config_default True = Ok (Some m) \<and>
     requests_ok request_runtime \<and> turns request_runtime m [] m' \<and>
     stream_state 1 (mg_streams m') = Some (Open WaitData WaitHeaders) \<and>
     unclosed (ss_stream_map (mg_streams m')) \<le>
       unat (ss_current_concurrent_streams (mg_streams m')) + length (ss_pending_concurrency (mg_streams m'))"
proof -
  obtain m m' where run: "Http2Dispatcher_start request_runtime H2Config_default True = Ok (Some m)"
    "turns request_runtime m [] m'" "stream_state 1 (mg_streams m') = Some (Open WaitData WaitHeaders)"
    using request_run live_turns by blast
  then show ?thesis using open_streams_counted [OF run(1) request_requests run(2)] request_requests by blast
qed

text \<open>
  C27. Waiting streams are admitted in the order of their requests, as many as the server's limit leaves
  room for, and each one is counted and queued for sending.
\<close>

theorem waiting_streams_admitted:
  "try_consume_pending_concurrency s =
     (let k = min (unat (ss_max_concurrent_streams s) - unat (ss_current_concurrent_streams s))
                  (length (ss_pending_concurrency s)) in
      (Ok (), s\<lparr>ss_current_concurrent_streams := ss_current_concurrent_streams s + of_nat k,
                ss_pending_concurrency := drop k (ss_pending_concurrency s),
                ss_pending_send := ss_pending_send s @ take k (ss_pending_concurrency s)\<rparr>))"
  using try_consume_admits [of s] by (simp add: room_def)

text \<open>
  C26. Along any run of the manager from the start of a connection, as long as no turn has ended the connection with an
  error, no stream is lost: between two turns every stream whose request is incomplete is in one of the queues from
  which the manager takes streams up again (for sending, for the window of the stream or of the connection, or for the
  limit of concurrent streams). The payload of each request that the application hands over is a header
  block, as the client builds it.
\<close>

theorem no_stream_forgotten:
  assumes "Http2Dispatcher_start RT config w = Ok (Some m)" "requests_ok RT" "live_turns RT m received m'"
    and "stream_state i (mg_streams m') = Some q" "sends q"
  shows "i \<in> waiting (mg_streams m')"
proof -
  have "all_settled (mg_streams m)"
    using start_state(1) [OF assms(1)] by (simp add: all_settled_def settled_def stream_state_def stream_at_def)
  then show ?thesis
    using live_turns_settled [OF assms(3,2) _ start_invariants(1) [OF assms(1)]] assms(4,5)
    by (simp add: all_settled_def settled_def)
qed

theorem no_stream_forgotten_witness:
  "\<exists>m m'. Http2Dispatcher_start request_runtime H2Config_default True = Ok (Some m) \<and> requests_ok request_runtime \<and>
     live_turns request_runtime m [] m' \<and> stream_state 1 (mg_streams m') = Some (Open WaitData WaitHeaders) \<and>
     1 \<in> waiting (mg_streams m')"
proof -
  obtain m m' where run: "Http2Dispatcher_start request_runtime H2Config_default True = Ok (Some m)"
    "live_turns request_runtime m [] m'" "stream_state 1 (mg_streams m') = Some (Open WaitData WaitHeaders)"
    using request_run by blast
  then show ?thesis using no_stream_forgotten [OF run(1) request_requests run(2,3)] request_requests by auto
qed

section \<open>Receive window\<close>

text \<open>
  C28. For a receive window of the connection below \<open>2 ^ 30\<close> octets, of which the server may still use between none and
  all, and a writer that takes frames: when DATA of \<open>n < 2 ^ 31\<close> octets arrives, the connection is in error if they
  exceed what the server may use; otherwise this shrinks by \<open>n\<close> or, when more than a third of the window would be
  used, is brought back to its full size by one WINDOW\_UPDATE, so that afterwards the server may use at least two
  thirds of the window. Larger windows overflow the \<open>i32\<close> arithmetic (\<open>large_connection_window_panics\<close>).
\<close>

theorem conn_recv_window_refilled:
  assumes window: "window = fc_recv_window (ss_flow_control s)" "0 \<le> rw_notification window"
      "rw_notification window \<le> rw_actual window" "rw_actual window < 2 ^ 30"
    and sz: "n < 2 ^ 31" and writer: "\<forall>frame. fst (rt_input_send RT frame w)"
  shows "case release_conn_recv_window (input_send RT) (of_nat n) (s, w, out) of (r, (s', w', out')) \<Rightarrow>
    let window' = fc_recv_window (ss_flow_control s'); left = rw_notification window - int n in
    if left < 0 then r = Err (DE_H2 (ConnectionError FlowControlError)) \<and> out' = out \<and> s' = s
    else r = Ok () \<and> rw_actual window' = rw_actual window \<and> 2 * rw_actual window' \<le> 3 * rw_notification window' \<and>
      (rw_notification window' = left \<and> out' = out \<or>
       rw_notification window' = rw_actual window \<and>
         out' = out @ [Frame_new 0 0 (PL_WindowUpdate (as_u32 (rw_actual window - left)))])"
proof -
  have ok: "recv_window_ok window" using window by (auto simp: recv_window_ok_def in_i32_def)
  have n: "unat (of_nat n :: u32) = n" "as_i32 (of_nat n) = int n"
    using sz by (simp_all add: unat_of_nat as_i32_of_nat)
  have enough: "RecvWindow_notification_available window < of_nat n \<longleftrightarrow> rw_notification window - int n < 0"
    using recv_window_available [OF ok] window(2) n(1) by (simp add: word_less_nat_alt) linarith
  show ?thesis
  proof (cases "rw_notification window - int n < 0")
    case True
    then show ?thesis
      using enough window(1)
      by (simp add: release_conn_recv_window_def FlowControl_recv_notification_size_available_def action_defs Let_def)
  next
    case False
    let ?left = "rw_notification window - int n"
    let ?w = "window\<lparr>rw_notification := ?left\<rparr>"
    have range: "in_i32 ?left" using False window by (auto simp: in_i32_def)
    have received: "RecvWindow_recv_data window (of_nat n) = (Ok ?w :: (RecvWindow, DispatchErrorKind) outcome)"
      using n(2) range by (simp add: RecvWindow_recv_data_def checked_i32_def)
    have ok': "recv_window_ok ?w" "0 \<le> rw_notification ?w" "0 \<le> rw_actual ?w" "rw_actual ?w < 2 ^ 30"
      using False ok window range by (auto simp: recv_window_ok_def)
    have checked: "RecvWindow_check_window_update ?w 0 =
        (if 2 * (rw_actual window - ?left) > ?left
         then Ok (Some (Frame_new 0 0 (PL_WindowUpdate (as_u32 (rw_actual window - ?left)))),
              window\<lparr>rw_notification := rw_actual window\<rparr>)
         else Ok (None, ?w) :: (Frame option \<times> RecvWindow, DispatchErrorKind) outcome)"
      by (subst check_window_update_restores [OF ok']) simp
    have send: "input_send RT frame (w, out) =
        (Ok True :: (bool, DispatchErrorKind) outcome, (snd (rt_input_send RT frame w), out @ [frame]))" for frame
      using writer by (cases "rt_input_send RT frame w") (auto simp: input_send_def dest: spec [of _ frame])
    show ?thesis
      using False enough received checked window(1)
      by (auto simp: release_conn_recv_window_def FlowControl_recv_notification_size_available_def
          FlowControl_recv_data_def FlowControl_check_conn_recv_window_update_def send_or_closed_def send
          action_defs Let_def split: if_splits)
  qed
qed

theorem conn_recv_window_refilled_witness:
  "\<exists>s' w' out'. release_conn_recv_window (input_send example_runtime) (of_nat 30000)
       (Streams_new 65535 65535 (FlowControl_new 65535 65535) :: BodyPoll Streams, [], []) = (Ok (), (s', w', out')) \<and>
     2 * rw_actual (fc_recv_window (ss_flow_control s')) \<le> 3 * rw_notification (fc_recv_window (ss_flow_control s'))"
proof -
  let ?s = "Streams_new 65535 65535 (FlowControl_new 65535 65535) :: BodyPoll Streams"
  obtain r s' w' out' where run:
    "release_conn_recv_window (input_send example_runtime) (of_nat 30000) (?s, [], []) = (r, (s', w', out'))"
    by (cases "release_conn_recv_window (input_send example_runtime) (of_nat 30000) (?s, [], [])") auto
  have window: "fc_recv_window (ss_flow_control ?s) = \<lparr>rw_notification = 65535, rw_actual = 65535\<rparr>"
    by (simp add: Streams_new_def FlowControl_new_def RecvWindow_new_def as_i32_small)
  have writer: "\<forall>frame. fst (rt_input_send example_runtime frame [])" by (simp add: example_runtime_def)
  show ?thesis
    using conn_recv_window_refilled [OF refl _ _ _ _ writer, of ?s 30000 "[]"] run by (simp add: window Let_def)
qed

section \<open>Deviations\<close>

text \<open>
  A connection window of \<open>2 ^ 30 + 65535\<close> octets or more, which the client builder accepts up to
  \<open>2 ^ 31 - 1\<close>, makes the start of every HTTP/2 connection overflow: \<^verbatim>\<open>unreleased_size\<close> doubles the
  difference of the two sizes in an \<^verbatim>\<open>i32\<close>.
\<close>

theorem large_connection_window_panics:
  assumes size: "2 ^ 30 + 65535 \<le> uint (hc_init_conn_window_size config)" "uint (hc_init_conn_window_size config) < 2 ^ 31"
    and writer: "fst (rt_input_send RT (create_initial_settings config) w)"
  shows "Http2Dispatcher_start RT config w = Panic"
proof -
  let ?k = "uint (hc_init_conn_window_size config)"
  let ?flow = "\<lparr>fc_recv_window = \<lparr>rw_notification = 65535, rw_actual = ?k\<rparr>, fc_send_window = \<lparr>sw_size = 65535\<rparr>\<rparr>"
  have flow: "FlowControl_setup_recv_window (FlowControl_new DEFAULT_WINDOW_SIZE DEFAULT_WINDOW_SIZE)
      (hc_init_conn_window_size config) = (Ok ?flow :: (FlowControl, DispatchErrorKind) outcome)"
    using size by (intro setup_conn_window) simp_all
  have zero: "as_i32 0 = 0" by (simp add: as_i32_small)
  have overflow: "FlowControl_check_conn_recv_window_update ?flow =
      (Panic :: (Frame option \<times> FlowControl, DispatchErrorKind) outcome)"
    using size
    by (simp add: FlowControl_check_conn_recv_window_update_def RecvWindow_check_window_update_def
        RecvWindow_unreleased_size_def checked_i32_def in_i32_def)
  have received: "FlowControl_recv_data ?flow 0 = (Ok ?flow :: (FlowControl, DispatchErrorKind) outcome)"
    by (simp add: FlowControl_recv_data_def RecvWindow_recv_data_def zero checked_i32_def in_i32_def)
  have release: "release_conn_recv_window (input_send RT) 0 (s, w', out) = (Panic, (s, w', out))"
    if "ss_flow_control s = ?flow" for s :: "'b Streams" and w' out
    using that received overflow by (simp add: release_conn_recv_window_def action_defs)
  show ?thesis
    using writer flow
    by (cases "rt_input_send RT (create_initial_settings config) w")
      (simp add: Http2Dispatcher_start_def Let_def send_or_closed_def input_send_def action_defs release Streams_new_def
       )
qed

theorem large_connection_window_panics_witness:
  "Http2Dispatcher_start example_runtime (H2Config_default\<lparr>hc_init_conn_window_size := MAX_FLOW_CONTROL_WINDOW\<rparr>) [] = Panic"
  using large_connection_window_panics
    [of "H2Config_default\<lparr>hc_init_conn_window_size := MAX_FLOW_CONTROL_WINDOW\<rparr>" example_runtime "[]"]
  by (simp add: MAX_FLOW_CONTROL_WINDOW_def example_runtime_def)

text \<open>
  C39. A server that has set its limit of concurrent streams to zero and then resets a stream that still
  waits makes the manager panic: the reset takes one from a count to which the stream was never added.
\<close>

theorem waiting_stream_reset_panics:
  assumes "ss_max_concurrent_streams s = 0" "ss_current_concurrent_streams s = 0"
    and "generate_id s = (Ok i, s1)"
    and "register_stream i flag payload data s1 = (Ok () :: (unit, DispatchErrorKind) outcome, s2)"
    and "i \<le> ss_max_recv_id s" "fr_payload frame = PL_RstStream code" "fr_id frame = i"
    and "mg_streams m = s2"
  shows "fst (poll_recv_frame RT frame m) = Panic"
proof -
  have s1: "s1 = next_id s" using assms(3) by (auto simp: generate_id_def next_id_def Let_def split: if_splits)
  have s2: "s2 = insert_stream i (Frame_new i flag payload) data (push_pending_concurrency i s1)"
    using assms(1,2,4) by (simp add: s1 register_stream_def action_defs reach_max_concurrency_def next_id_def)
  have "recv_remote_reset i s2 = (Panic :: (StreamEndState, H2Error) outcome, put_stream i (shut_stream RemoteRst (the (stream_at i s2))) s2)"
    using assms(2,5)
    by (simp add: s2 s1 recv_remote_reset_def decrease_then_give insert_stream_def Let_def Stream_new_def
        push_pending_concurrency_def next_id_def) (simp add: put_stream_def)
  then show ?thesis
    using assms(6-8) by (simp add: poll_recv_frame_def recv_reset_frame_def on_streams_def action_defs)
qed

theorem waiting_stream_reset_panics_witness:
  "\<exists>s1 s2. generate_id ((Streams_new 65535 65535 (FlowControl_new 65535 65535))\<lparr>ss_max_concurrent_streams := 0\<rparr>) =
       (Ok 1, s1) \<and>
     register_stream 1 0 (PL_Headers Parts_new) (Some BP_Pending) s1 = (Ok () :: (unit, DispatchErrorKind) outcome, s2) \<and>
     fst (poll_recv_frame example_runtime (Frame_new 1 0 (PL_RstStream 8))
       (ConnManager_new Synced (StreamController_new s2 False False) [] [])) = Panic"
proof -
  let ?s = "(Streams_new 65535 65535 (FlowControl_new 65535 65535))\<lparr>ss_max_concurrent_streams := 0\<rparr> :: BodyPoll Streams"
  have "ss_next_stream_id ?s < DEFAULT_MAX_STREAM_ID"
    by (simp add: Streams_new_def DEFAULT_MAX_STREAM_ID_def mask_eq_exp_minus_1)
  then obtain s1 where s1: "generate_id ?s = (Ok 1, s1)" "s1 = next_id ?s"
    by (simp add: generate_id_def next_id_def Let_def Streams_new_def)
  then obtain s2 where s2: "register_stream 1 0 (PL_Headers Parts_new) (Some BP_Pending) s1 =
      (Ok () :: (unit, DispatchErrorKind) outcome, s2)"
    by (simp add: register_stream_def action_defs reach_max_concurrency_def next_id_def Streams_new_def)
  have "fst (poll_recv_frame example_runtime (Frame_new 1 0 (PL_RstStream 8))
       (ConnManager_new Synced (StreamController_new s2 False False) [] [])) = Panic"
    by (rule waiting_stream_reset_panics [OF _ _ s1(1) s2])
      (simp_all add: Streams_new_def Frame_new_def ConnManager_new_def StreamController_new_def
        INITIAL_MAX_RECV_STREAM_ID_def mask_eq_exp_minus_1)
  then show ?thesis using s1 s2 by blast
qed

text \<open>
  Once the manager has received a GOAWAY frame it sends no frame of a request any more and touches no
  stream when it is idle, so a stream that the server still accepts but whose body is not completely
  sent never ends.
\<close>

theorem goaway_stops_requests:
  assumes "sc_go_away_error_code (mg_controller m) = Some code"
    and "manage_pending_state RT m = (r, m')"
  shows "mg_streams m' = mg_streams m \<and> filter carries_request (mg_out m') = filter carries_request (mg_out m)"
proof -
  have send: "mg_streams m2 = mg_streams m1 \<and> mg_out m2 = mg_out m1 @ [frame]"
    if "input_tx_send RT frame m1 = (q, m2)" for frame q m1 m2
    using that
    by (auto simp: input_tx_send_def on_port_def inside_def set_streams_def split: prod.splits dest!: send_or_closed_input)
  show ?thesis
    using assms
    by (auto simp: manage_pending_state_def poll_deal_with_go_away_def send_peer_goaway_def shutdown_def
        on_controller_def action_defs Let_def carries_request_def Frame_new_def
        split: if_splits prod.splits outcome.splits dest!: send)
qed

theorem goaway_stops_requests_witness:
  "\<exists>r m'. manage_pending_state example_runtime
       (ConnManager_new Synced ((StreamController_new (Streams_new 65535 65535 (FlowControl_new 65535 65535)) False True)
          \<lparr>sc_go_away_error_code := Some 0\<rparr>) [] []) = (r, m') \<and>
     ss_stream_map (mg_streams m') = [] \<and> filter carries_request (mg_out m') = []"
proof -
  let ?m = "ConnManager_new Synced ((StreamController_new (Streams_new 65535 65535 (FlowControl_new 65535 65535)) False True)
          \<lparr>sc_go_away_error_code := Some 0\<rparr>) [] [] :: (OutputMessage list, BodyPoll, unit) ConnManager"
  obtain r m' where run: "manage_pending_state example_runtime ?m = (r, m')"
    by (cases "manage_pending_state example_runtime ?m")
  then have "mg_streams m' = mg_streams ?m \<and> filter carries_request (mg_out m') = filter carries_request (mg_out ?m)"
    by (rule goaway_stops_requests [rotated]) (simp add: ConnManager_new_def)
  then show ?thesis using run by (simp add: ConnManager_new_def StreamController_new_def Streams_new_def)
qed

end
