(* ===== verification/Buffers.thy ===== *)
theory Buffers
  imports Prelude
begin

text \<open>
  Encoders that fill a buffer in steps (\<^verbatim>\<open>while count != dst.len() { count += ...? }\<close>), as the encoders of HTTP/1.1
  messages do. A buffer is given by its size, and what is written to the front of it is returned. The loop may in
  general run forever, and then has no result; the contract of a step says that it does not.
\<close>

partial_function (option) fill_loop ::
  "('s \<Rightarrow> nat \<Rightarrow> ((bytes \<times> 's) option, 'e) outcome) \<Rightarrow> nat \<Rightarrow> 's \<Rightarrow> bytes \<Rightarrow> (bytes \<times> 's, 'e) outcome option" where
  [code]: "fill_loop step n s out =
     (if length out = n then Some (Ok (out, s))
      else case step s (n - length out) of
        Ok None \<Rightarrow> Some (Ok (out, s))
      | Ok (Some (more, s)) \<Rightarrow> fill_loop step n s (out @ more)
      | Err e \<Rightarrow> Some (Err e)
      | Panic \<Rightarrow> Some Panic)"

text \<open>Filling one buffer after the other, whatever their sizes; \<open>None\<close> when a call fails or does not return.\<close>

fun fill_all ::
  "('s \<Rightarrow> nat \<Rightarrow> (bytes \<times> 's, 'e) outcome option) \<Rightarrow> 's \<Rightarrow> nat list \<Rightarrow> (bytes list \<times> 's) option" where
  "fill_all enc s [] = Some ([], s)"
| "fill_all enc s (n # ns) =
     (case enc s n of
        Some (Ok (out, s)) \<Rightarrow> map_option (\<lambda>(outs, s). (out # outs, s)) (fill_all enc s ns)
      | _ \<Rightarrow> None)"

text \<open>
  The caller's loop: one buffer is filled again and again, and the first call that does not fill it is the last one
  (\<^verbatim>\<open>loop { let size = encoder.encode(&mut buf)?; message.extend(&buf[..size]); if size < buf.len() { break; } }\<close>).
\<close>

partial_function (option) drain ::
  "('s \<Rightarrow> nat \<Rightarrow> (bytes \<times> 's, 'e) outcome option) \<Rightarrow> nat \<Rightarrow> 's \<Rightarrow> bytes \<Rightarrow> (bytes, 'e) outcome option" where
  [code]: "drain enc n s message =
     (case enc s n of
        None \<Rightarrow> None
      | Some (Ok (out, s)) \<Rightarrow> if length out < n then Some (Ok (message @ out)) else drain enc n s (message @ out)
      | Some (Err e) \<Rightarrow> Some (Err e)
      | Some Panic \<Rightarrow> Some Panic)"

text \<open>What buffers of the sizes \<open>ns\<close> hold of a text.\<close>

fun cut_into :: "bytes \<Rightarrow> nat list \<Rightarrow> bytes list" where
  "cut_into bs [] = []"
| "cut_into bs (n # ns) = take n bs # cut_into (drop n bs) ns"

lemma concat_cut_into: "concat (cut_into bs ns) = take (sum_list ns) bs"
  by (induction ns arbitrary: bs) (simp_all add: take_add)

text \<open>
  The contract of a step on a buffer that is not empty: nothing is left, or the step writes the beginning of what is
  left, and fills the buffer or comes closer to the end.
\<close>

definition step_writes ::
  "('s \<Rightarrow> bytes) \<Rightarrow> ('s \<Rightarrow> bool) \<Rightarrow> ('s \<Rightarrow> nat) \<Rightarrow> 's \<Rightarrow> nat \<Rightarrow> bytes \<Rightarrow> 's \<Rightarrow> bool" where
  "step_writes content invar rank s n out s' \<longleftrightarrow>
     invar s' \<and> content s = out @ content s' \<and> length out \<le> n \<and>
     rank s' + (if length out = n then 0 else 1) \<le> rank s"

locale stepwise_encoder =
  fixes step :: "'s \<Rightarrow> nat \<Rightarrow> ((bytes \<times> 's) option, 'e) outcome"
    and content :: "'s \<Rightarrow> bytes"
    and invar :: "'s \<Rightarrow> bool"
    and rank :: "'s \<Rightarrow> nat"
  assumes step_ok: "invar s \<Longrightarrow> 0 < n \<Longrightarrow>
      step s n = Ok None \<and> content s = [] \<or>
      (\<exists>out s'. step s n = Ok (Some (out, s')) \<and> step_writes content invar rank s n out s')"
begin

lemma fill_loop_content:
  assumes "invar s" "length out \<le> n"
  shows "\<exists>s'. fill_loop step n s out = Some (Ok (out @ take (n - length out) (content s), s')) \<and>
    content s' = drop (n - length out) (content s) \<and> invar s'"
  using assms
proof (induction "2 * rank s + (if length out = n then 0 else 1)" arbitrary: s out rule: less_induct)
  case less
  show ?case
  proof (cases "length out = n")
    case True
    then show ?thesis using less.prems by (simp add: fill_loop.simps)
  next
    case False
    with less.prems have pos: "0 < n - length out" by simp
    from step_ok [OF less.prems(1) this] show ?thesis
    proof (elim disjE conjE exE)
      assume "step s (n - length out) = Ok None" "content s = []"
      with False less.prems show ?thesis by (simp add: fill_loop.simps)
    next
      fix more s1
      assume st: "step s (n - length out) = Ok (Some (more, s1))"
        and ok: "step_writes content invar rank s (n - length out) more s1"
      from ok have s1: "invar s1" "content s = more @ content s1" "length (out @ more) \<le> n"
        and dec: "2 * rank s1 + (if length (out @ more) = n then 0 else 1) < 2 * rank s + (if length out = n then 0 else 1)"
        using pos less.prems(2) by (auto simp: step_writes_def split: if_splits)
      from less.hyps [OF dec s1(1,3)] obtain s' where
        "fill_loop step n s1 (out @ more) = Some (Ok ((out @ more) @ take (n - length (out @ more)) (content s1), s'))"
        "content s' = drop (n - length (out @ more)) (content s1)" "invar s'" by blast
      moreover have "take (n - length out) (content s) = more @ take (n - length (out @ more)) (content s1)"
        "drop (n - length out) (content s) = drop (n - length (out @ more)) (content s1)"
        using s1 by simp_all
      ultimately show ?thesis using st False by (simp add: fill_loop.simps [of step n s out])
    qed
  qed
qed

end

text \<open>An encoder that refuses an empty buffer and fills any other one.\<close>

locale buffer_encoder = stepwise_encoder +
  fixes enc :: "'s \<Rightarrow> nat \<Rightarrow> (bytes \<times> 's, 'e) outcome option"
  assumes enc_fill: "0 < n \<Longrightarrow> enc s n = fill_loop step n s []"
begin

lemma enc_content:
  assumes "invar s" "0 < n"
  shows "\<exists>s'. enc s n = Some (Ok (take n (content s), s')) \<and> content s' = drop n (content s) \<and> invar s'"
  using fill_loop_content [OF assms(1), of "[]" n] assms(2) by (simp add: enc_fill)

lemma fill_all_content:
  assumes "invar s" "list_all (\<lambda>n. 0 < n) ns"
  shows "\<exists>s'. fill_all enc s ns = Some (cut_into (content s) ns, s') \<and> content s' = drop (sum_list ns) (content s) \<and> invar s'"
  using assms
proof (induction ns arbitrary: s)
  case (Cons n ns)
  then obtain s1 where s1: "enc s n = Some (Ok (take n (content s), s1))" "content s1 = drop n (content s)" "invar s1"
    using enc_content [of s n] by auto
  from Cons.IH [OF s1(3)] Cons.prems obtain s' where
    "fill_all enc s1 ns = Some (cut_into (content s1) ns, s')" "content s' = drop (sum_list ns) (content s1)" "invar s'"
    by auto
  with s1 show ?case by (simp add: add.commute)
qed simp

text \<open>The loop of the caller ends, and has the whole message.\<close>

lemma drain_content:
  assumes "invar s" "0 < n"
  shows "drain enc n s message = Some (Ok (message @ content s))"
  using assms(1)
proof (induction "length (content s)" arbitrary: s message rule: less_induct)
  case less
  from enc_content [OF less.prems assms(2)] obtain s' where
    s': "enc s n = Some (Ok (take n (content s), s'))" "content s' = drop n (content s)" "invar s'" by blast
  show ?case
  proof (cases "n \<le> length (content s)")
    case True
    with assms(2) s'(2) have "length (content s') < length (content s)" by simp
    from less.hyps [OF this s'(3)] True s' show ?thesis by (simp add: drain.simps [of enc n s])
  next
    case False
    then show ?thesis using s' by (simp add: drain.simps [of enc n s])
  qed
qed

end

end
