(* ===== verification/H1_Message.thy ===== *)
theory H1_Message
  imports Headers
begin

text \<open>
  The parts of HTTP/1.1 messages that encoder and decoder share: versions (\<^verbatim>\<open>version.rs\<close>), methods
  (\<^verbatim>\<open>request/method.rs\<close>), status codes (\<^verbatim>\<open>response/status.rs\<close>), the octets that header names and
  values may have (\<^verbatim>\<open>util/header_bytes.rs\<close>), and the status of a token, which the modules of HTTP/1.1
  declare alike.
\<close>

datatype ('t, 'e) TokenStatus = Complete 't | Partial 'e

section \<open>Versions and methods\<close>

datatype Version = HTTP1_0 | HTTP1_1 | HTTP2 | HTTP3

fun Version_as_str :: "Version \<Rightarrow> string" where
  "Version_as_str HTTP1_0 = ''HTTP/1.0''"
| "Version_as_str HTTP1_1 = ''HTTP/1.1''"
| "Version_as_str HTTP2 = ''HTTP/2.0''"
| "Version_as_str HTTP3 = ''HTTP/3.0''"

definition Version_try_from :: "string \<Rightarrow> (Version, ErrorKind) outcome" where
  "Version_try_from s =
     (if s = ''HTTP/1.0'' then Ok HTTP1_0
      else if s = ''HTTP/1.1'' then Ok HTTP1_1
      else if s = ''HTTP/2.0'' then Ok HTTP2
      else if s = ''HTTP/3.0'' then Ok HTTP3
      else Err InvalidInput)"

datatype Method = GET | HEAD | POST | PUT | DELETE | CONNECT | OPTIONS | TRACE

fun Method_as_str :: "Method \<Rightarrow> string" where
  "Method_as_str GET = ''GET''"
| "Method_as_str HEAD = ''HEAD''"
| "Method_as_str POST = ''POST''"
| "Method_as_str PUT = ''PUT''"
| "Method_as_str DELETE = ''DELETE''"
| "Method_as_str CONNECT = ''CONNECT''"
| "Method_as_str OPTIONS = ''OPTIONS''"
| "Method_as_str TRACE = ''TRACE''"

definition Method_from_bytes :: "bytes \<Rightarrow> (Method, ErrorKind) outcome" where
  "Method_from_bytes bs =
     (if length bs < 3 \<or> length bs > 7 then Err InvalidInput
      else let b = bs ! 0; rest = drop 1 bs in
        if b = byte_of_char CHR ''G'' \<and> rest = into_bytes ''ET'' then Ok GET
        else if b = byte_of_char CHR ''P'' then
          (if bs ! 1 = byte_of_char CHR ''U'' \<and> drop 2 bs = into_bytes ''T'' then Ok PUT
           else if bs ! 1 = byte_of_char CHR ''O'' \<and> drop 2 bs = into_bytes ''ST'' then Ok POST
           else Err InvalidInput)
        else if b = byte_of_char CHR ''H'' \<and> rest = into_bytes ''EAD'' then Ok HEAD
        else if b = byte_of_char CHR ''T'' \<and> rest = into_bytes ''RACE'' then Ok TRACE
        else if b = byte_of_char CHR ''D'' \<and> rest = into_bytes ''ELETE'' then Ok DELETE
        else if b = byte_of_char CHR ''O'' \<and> rest = into_bytes ''PTIONS'' then Ok OPTIONS
        else if b = byte_of_char CHR ''C'' \<and> rest = into_bytes ''ONNECT'' then Ok CONNECT
        else Err InvalidInput)"

section \<open>Status codes\<close>

type_synonym StatusCode = u16

definition StatusCode_from_u16 :: "u16 \<Rightarrow> (StatusCode, ErrorKind) outcome" where
  "StatusCode_from_u16 code =
     (if \<not> (100 \<le> code \<and> code < 1000) then Err InvalidInput else Ok code)"

text \<open>The digits are checked after a wrapping subtraction of the octet of \<open>0\<close>.\<close>

definition StatusCode_from_bytes :: "bytes \<Rightarrow> (StatusCode, ErrorKind) outcome" where
  "StatusCode_from_bytes bs =
     (if length bs \<noteq> 3 then Err InvalidInput
      else
        let a = ucast (bs ! 0 - 0x30) :: u16; b = ucast (bs ! 1 - 0x30) :: u16; c = ucast (bs ! 2 - 0x30) :: u16
        in if a = 0 \<or> a > 9 \<or> b > 9 \<or> c > 9 then Err InvalidInput
           else Ok (a * 100 + b * 10 + c))"

definition StatusCode_as_bytes :: "StatusCode \<Rightarrow> bytes" where
  "StatusCode_as_bytes code =
     [ucast (code div 100) + 0x30, ucast (code mod 100 div 10) + 0x30, ucast (code mod 10) + 0x30]"

definition StatusCode_is_informational :: "StatusCode \<Rightarrow> bool" where
  "StatusCode_is_informational code \<longleftrightarrow> code \<ge> 100 \<and> 200 > code"

definition StatusCode_is_successful :: "StatusCode \<Rightarrow> bool" where
  "StatusCode_is_successful code \<longleftrightarrow> code \<ge> 200 \<and> 300 > code"

definition StatusCode_is_redirection :: "StatusCode \<Rightarrow> bool" where
  "StatusCode_is_redirection code \<longleftrightarrow> code \<ge> 300 \<and> 400 > code"

definition StatusCode_is_client_error :: "StatusCode \<Rightarrow> bool" where
  "StatusCode_is_client_error code \<longleftrightarrow> code \<ge> 400 \<and> 500 > code"

definition StatusCode_is_server_error :: "StatusCode \<Rightarrow> bool" where
  "StatusCode_is_server_error code \<longleftrightarrow> code \<ge> 500 \<and> 600 > code"

section \<open>Octets of header fields\<close>

definition HEADER_NAME_BYTES :: "bool list" where
  "HEADER_NAME_BYTES = (let ff = False; tt = True in [
     ff, ff, ff, ff, ff, ff, ff, ff, ff, ff, ff, ff, ff, ff, ff, ff,
     ff, ff, ff, ff, ff, ff, ff, ff, ff, ff, ff, ff, ff, ff, ff, ff,
     ff, tt, ff, tt, tt, tt, tt, tt, ff, ff, tt, tt, ff, tt, tt, ff,
     tt, tt, tt, tt, tt, tt, tt, tt, tt, tt, ff, ff, ff, ff, ff, ff,
     ff, tt, tt, tt, tt, tt, tt, tt, tt, tt, tt, tt, tt, tt, tt, tt,
     tt, tt, tt, tt, tt, tt, tt, tt, tt, tt, tt, ff, ff, ff, tt, tt,
     tt, tt, tt, tt, tt, tt, tt, tt, tt, tt, tt, tt, tt, tt, tt, tt,
     tt, tt, tt, tt, tt, tt, tt, tt, tt, tt, tt, ff, tt, ff, tt, ff,
     ff, ff, ff, ff, ff, ff, ff, ff, ff, ff, ff, ff, ff, ff, ff, ff,
     ff, ff, ff, ff, ff, ff, ff, ff, ff, ff, ff, ff, ff, ff, ff, ff,
     ff, ff, ff, ff, ff, ff, ff, ff, ff, ff, ff, ff, ff, ff, ff, ff,
     ff, ff, ff, ff, ff, ff, ff, ff, ff, ff, ff, ff, ff, ff, ff, ff,
     ff, ff, ff, ff, ff, ff, ff, ff, ff, ff, ff, ff, ff, ff, ff, ff,
     ff, ff, ff, ff, ff, ff, ff, ff, ff, ff, ff, ff, ff, ff, ff, ff,
     ff, ff, ff, ff, ff, ff, ff, ff, ff, ff, ff, ff, ff, ff, ff, ff,
     ff, ff, ff, ff, ff, ff, ff, ff, ff, ff, ff, ff, ff, ff, ff, ff])"

definition HEADER_VALUE_BYTES :: "bool list" where
  "HEADER_VALUE_BYTES = (let ff = False; tt = True in [
     ff, ff, ff, ff, ff, ff, ff, ff, ff, tt, ff, ff, ff, ff, ff, ff,
     ff, ff, ff, ff, ff, ff, ff, ff, ff, ff, ff, ff, ff, ff, ff, ff,
     tt, tt, tt, tt, tt, tt, tt, tt, tt, tt, tt, tt, tt, tt, tt, tt,
     tt, tt, tt, tt, tt, tt, tt, tt, tt, tt, tt, tt, tt, tt, tt, tt,
     tt, tt, tt, tt, tt, tt, tt, tt, tt, tt, tt, tt, tt, tt, tt, tt,
     tt, tt, tt, tt, tt, tt, tt, tt, tt, tt, tt, tt, tt, tt, tt, tt,
     tt, tt, tt, tt, tt, tt, tt, tt, tt, tt, tt, tt, tt, tt, tt, tt,
     tt, tt, tt, tt, tt, tt, tt, tt, tt, tt, tt, tt, tt, tt, tt, ff,
     tt, tt, tt, tt, tt, tt, tt, tt, tt, tt, tt, tt, tt, tt, tt, tt,
     tt, tt, tt, tt, tt, tt, tt, tt, tt, tt, tt, tt, tt, tt, tt, tt,
     tt, tt, tt, tt, tt, tt, tt, tt, tt, tt, tt, tt, tt, tt, tt, tt,
     tt, tt, tt, tt, tt, tt, tt, tt, tt, tt, tt, tt, tt, tt, tt, tt,
     tt, tt, tt, tt, tt, tt, tt, tt, tt, tt, tt, tt, tt, tt, tt, tt,
     tt, tt, tt, tt, tt, tt, tt, tt, tt, tt, tt, tt, tt, tt, tt, tt,
     tt, tt, tt, tt, tt, tt, tt, tt, tt, tt, tt, tt, tt, tt, tt, tt,
     tt, tt, tt, tt, tt, tt, tt, tt, tt, tt, tt, tt, tt, tt, tt, tt])"

section \<open>Parts of a response\<close>

record ResponsePart =
  rp_version :: Version
  rp_status :: StatusCode
  rp_headers :: Headers

section \<open>Laws\<close>

lemma Version_roundtrip: "Version_try_from (Version_as_str v) = Ok v"
  by (cases v) (simp_all add: Version_try_from_def)

lemma Method_roundtrip: "Method_from_bytes (into_bytes (Method_as_str m)) = Ok m"
  by (cases m) (simp_all add: Method_from_bytes_def into_bytes_def byte_of_char_def Let_def)

lemma header_name_byte: "HEADER_NAME_BYTES ! unat b \<Longrightarrow> header_char b \<noteq> 0"
proof -
  have "list_all (\<lambda>(t, c). t \<longrightarrow> c \<noteq> 0) (zip HEADER_NAME_BYTES HEADER_CHARS)"
    by (simp add: HEADER_NAME_BYTES_def HEADER_CHARS_def Let_def)
  moreover have "length HEADER_NAME_BYTES = 256" "length HEADER_CHARS = 256"
    by (simp_all add: HEADER_NAME_BYTES_def HEADER_CHARS_def Let_def)
  ultimately show "HEADER_NAME_BYTES ! unat b \<Longrightarrow> header_char b \<noteq> 0"
    by (simp add: list_all_length header_char_def)
qed

lemma header_value_byte: "HEADER_VALUE_BYTES ! unat b \<longleftrightarrow> HeaderValue_is_valid b"
proof -
  have table: "HEADER_VALUE_BYTES = replicate 9 False @ [True] @ replicate 22 False @ replicate 95 True @
      [False] @ replicate 128 True"
    by (simp add: HEADER_VALUE_BYTES_def Let_def numeral_eq_Suc)
  have "HeaderValue_is_valid b \<longleftrightarrow> unat b \<ge> 32 \<and> unat b \<noteq> 127 \<or> unat b = 9"
    by (simp add: HeaderValue_is_valid_def word_le_nat_alt word_unat_eq_iff)
  then show ?thesis
    using unat_u8_less [of b] by (auto simp: table nth_append nth_Cons' simp del: unat_u8_less)
qed

end
