(* ===== verification/Uri.thy ===== *)
theory Uri
  imports H1_Message
begin

text \<open>
  Request targets (\<^verbatim>\<open>request/uri/mod.rs\<close>): the parser of URIs, token by token, its checks, and the printing of a
  URI in absolute and in origin form. Strings are built from octets without a check, as in the source.
\<close>

section \<open>Parts of a URI\<close>

datatype Scheme = Http | Https

record Authority =
  au_host :: string
  au_port :: "string option"

text \<open>\<^verbatim>\<open>Authority::default\<close>, which the source derives: an empty host and no port.\<close>

definition Authority_default :: Authority where
  "Authority_default = \<lparr>au_host = [], au_port = None\<rparr>"

record Uri =
  ur_scheme :: "Scheme option"
  ur_authority :: "Authority option"
  ur_path :: "string option"
  ur_query :: "string option"

definition MAX_URI_LEN :: nat where
  "MAX_URI_LEN = 65535 - 1"

definition URI_VALUE_BYTES :: "bool list" where
  "URI_VALUE_BYTES = (let ff = False; tt = True in [
     ff, ff, ff, ff, ff, ff, ff, ff, ff, ff, ff, ff, ff, ff, ff, ff,
     ff, ff, ff, ff, ff, ff, ff, ff, ff, ff, ff, ff, ff, ff, ff, ff,
     ff, tt, ff, tt, tt, tt, tt, tt, tt, tt, tt, tt, tt, tt, tt, tt,
     tt, tt, tt, tt, tt, tt, tt, tt, tt, tt, tt, tt, ff, tt, ff, tt,
     tt, tt, tt, tt, tt, tt, tt, tt, tt, tt, tt, tt, tt, tt, tt, tt,
     tt, tt, tt, tt, tt, tt, tt, tt, tt, tt, tt, tt, ff, tt, ff, tt,
     ff, tt, tt, tt, tt, tt, tt, tt, tt, tt, tt, tt, tt, tt, tt, tt,
     tt, tt, tt, tt, tt, tt, tt, tt, tt, tt, tt, ff, ff, ff, tt, ff,
     ff, ff, ff, ff, ff, ff, ff, ff, ff, ff, ff, ff, ff, ff, ff, ff,
     ff, ff, ff, ff, ff, ff, ff, ff, ff, ff, ff, ff, ff, ff, ff, ff,
     ff, ff, ff, ff, ff, ff, ff, ff, ff, ff, ff, ff, ff, ff, ff, ff,
     ff, ff, ff, ff, ff, ff, ff, ff, ff, ff, ff, ff, ff, ff, ff, ff,
     ff, ff, ff, ff, ff, ff, ff, ff, ff, ff, ff, ff, ff, ff, ff, ff,
     ff, ff, ff, ff, ff, ff, ff, ff, ff, ff, ff, ff, ff, ff, ff, ff,
     ff, ff, ff, ff, ff, ff, ff, ff, ff, ff, ff, ff, ff, ff, ff, ff,
     ff, ff, ff, ff, ff, ff, ff, ff, ff, ff, ff, ff, ff, ff, ff, ff])"

definition PATH_AND_QUERY_BYTES :: "bool list" where
  "PATH_AND_QUERY_BYTES = (let ff = False; tt = True in [
     ff, ff, ff, ff, ff, ff, ff, ff, ff, ff, ff, ff, ff, ff, ff, ff,
     ff, ff, ff, ff, ff, ff, ff, ff, ff, ff, ff, ff, ff, ff, ff, ff,
     ff, tt, ff, ff, tt, tt, tt, tt, tt, tt, tt, tt, tt, tt, tt, tt,
     tt, tt, tt, tt, tt, tt, tt, tt, tt, tt, tt, tt, ff, tt, ff, ff,
     tt, tt, tt, tt, tt, tt, tt, tt, tt, tt, tt, tt, tt, tt, tt, tt,
     tt, tt, tt, tt, tt, tt, tt, tt, tt, tt, tt, tt, tt, tt, tt, tt,
     ff, tt, tt, tt, tt, tt, tt, tt, tt, tt, tt, tt, tt, tt, tt, tt,
     tt, tt, tt, tt, tt, tt, tt, tt, tt, tt, tt, ff, tt, ff, tt, ff,
     ff, ff, ff, ff, ff, ff, ff, ff, ff, ff, ff, ff, ff, ff, ff, ff,
     ff, ff, ff, ff, ff, ff, ff, ff, ff, ff, ff, ff, ff, ff, ff, ff,
     ff, ff, ff, ff, ff, ff, ff, ff, ff, ff, ff, ff, ff, ff, ff, ff,
     ff, ff, ff, ff, ff, ff, ff, ff, ff, ff, ff, ff, ff, ff, ff, ff,
     ff, ff, ff, ff, ff, ff, ff, ff, ff, ff, ff, ff, ff, ff, ff, ff,
     ff, ff, ff, ff, ff, ff, ff, ff, ff, ff, ff, ff, ff, ff, ff, ff,
     ff, ff, ff, ff, ff, ff, ff, ff, ff, ff, ff, ff, ff, ff, ff, ff,
     ff, ff, ff, ff, ff, ff, ff, ff, ff, ff, ff, ff, ff, ff, ff, ff])"

fun Scheme_as_str :: "Scheme \<Rightarrow> string" where
  "Scheme_as_str Http = ''http''"
| "Scheme_as_str Https = ''https''"

fun Scheme_default_port :: "Scheme \<Rightarrow> u16" where
  "Scheme_default_port Http = 80"
| "Scheme_default_port Https = 443"

text \<open>\<^verbatim>\<open>eq_ignore_ascii_case\<close> and \<^verbatim>\<open>str::parse::<u16>\<close> of the standard library; the latter takes a leading plus.\<close>

definition to_ascii_lowercase :: "u8 \<Rightarrow> u8" where
  "to_ascii_lowercase b = (if 0x41 \<le> b \<and> b \<le> 0x5A then b + 0x20 else b)"

definition eq_ignore_ascii_case :: "bytes \<Rightarrow> bytes \<Rightarrow> bool" where
  "eq_ignore_ascii_case xs ys \<longleftrightarrow> map to_ascii_lowercase xs = map to_ascii_lowercase ys"

fun parse_digits :: "nat \<Rightarrow> bytes \<Rightarrow> nat option" where
  "parse_digits n [] = Some n"
| "parse_digits n (b # bs) =
     (if 0x30 \<le> b \<and> b \<le> 0x39 \<and> n * 10 + unat (b - 0x30) < 65536
      then parse_digits (n * 10 + unat (b - 0x30)) bs else None)"

definition parse_u16 :: "string \<Rightarrow> u16 option" where
  "parse_u16 s =
     map_option of_nat
       (case into_bytes s of
          [] \<Rightarrow> None
        | b # bs \<Rightarrow> if b = 0x2B \<and> bs \<noteq> [] then parse_digits 0 bs else parse_digits 0 (b # bs))"

definition Scheme_from_bytes :: "bytes \<Rightarrow> (Scheme, InvalidUri) outcome" where
  "Scheme_from_bytes bs =
     (if eq_ignore_ascii_case bs (into_bytes ''http'') then Ok Http
      else if eq_ignore_ascii_case bs (into_bytes ''https'') then Ok Https
      else Err InvalidScheme)"

section \<open>Tokens\<close>

text \<open>The position of the first octet that is a colon.\<close>

fun find_colon :: "nat \<Rightarrow> bytes \<Rightarrow> nat option" where
  "find_colon i [] = None"
| "find_colon i (b # bs) = (if b = 0x3A then Some i else find_colon (Suc i) bs)"

definition scheme_token :: "bytes \<Rightarrow> (Scheme option \<times> bytes, InvalidUri) outcome" where
  "scheme_token bs =
     (case find_colon 0 bs of
        Some i \<Rightarrow>
          if i \<noteq> 0 \<and> length (drop i bs) > 2 \<and> eq_ignore_ascii_case (take 2 (drop (i + 1) bs)) (into_bytes ''//'')
          then
            if eq_ignore_ascii_case (take i bs) (into_bytes ''http'') then Ok (Some Http, drop (length ''http://'') bs)
            else if eq_ignore_ascii_case (take i bs) (into_bytes ''https'')
            then Ok (Some Https, drop (length ''https://'') bs)
            else Err InvalidScheme
          else if i = 0 then Err InvalidScheme
          else Ok (None, bs)
      | None \<Rightarrow> Ok (None, bs))"

text \<open>\<^verbatim>\<open>rsplit_once(':')\<close>: what is before and after the last colon.\<close>

definition rsplit_colon :: "bytes \<Rightarrow> (bytes \<times> bytes) option" where
  "rsplit_colon bs =
     (if 0x3A \<in> set bs
      then let port = rev (takeWhile (\<lambda>b. b \<noteq> 0x3A) (rev bs)) in
           Some (take (length bs - length port - 1) bs, port)
      else None)"

definition host_port :: "bytes \<Rightarrow> nat \<Rightarrow> (Authority, InvalidUri) outcome" where
  "host_port auth colon_num =
     (if colon_num \<noteq> 0 then
        (case rsplit_colon auth of
           Some (host, port) \<Rightarrow>
             if host = [] then Err UriMissHost
             else if port = [] then Ok \<lparr>au_host = from_utf8_unchecked host, au_port = None\<rparr>
             else if parse_u16 (from_utf8_unchecked port) = None then Err InvalidPort
             else Ok \<lparr>au_host = from_utf8_unchecked host, au_port = Some (from_utf8_unchecked port)\<rparr>
         | None \<Rightarrow> Err UriMissAuthority)
      else Ok \<lparr>au_host = from_utf8_unchecked auth, au_port = None\<rparr>)"

definition authority_parse ::
  "bytes \<Rightarrow> nat \<Rightarrow> nat \<Rightarrow> bool \<Rightarrow> bool \<Rightarrow> (Authority option \<times> bytes, InvalidUri) outcome" where
  "authority_parse bs end' colon_num left_bracket right_bracket =
     (if end' = 0 then Ok (None, drop end' bs)
      else if left_bracket \<noteq> right_bracket then Err InvalidAuthority
      else if colon_num > 1 then Err InvalidAuthority
      else obind (host_port (take end' bs) colon_num) (\<lambda>authority. Ok (Some authority, drop end' bs)))"

text \<open>The loop of \<^verbatim>\<open>authority_token\<close>: where the authority ends, its colons, and whether its brackets were seen.\<close>

fun authority_loop ::
  "nat \<Rightarrow> bytes \<Rightarrow> nat \<Rightarrow> bool \<Rightarrow> bool \<Rightarrow> (nat \<times> nat \<times> bool \<times> bool, InvalidUri) outcome" where
  "authority_loop i [] colon_num left_bracket right_bracket = Ok (i, colon_num, left_bracket, right_bracket)"
| "authority_loop i (b # bs) colon_num left_bracket right_bracket =
     (if b = 0x2F \<or> b = 0x3F \<or> b = 0x23 then Ok (i, colon_num, left_bracket, right_bracket)
      else if b = 0x5B then
        (if i = 0 then authority_loop (Suc i) bs colon_num True right_bracket
         else if left_bracket then Err InvalidAuthority
         else authority_loop (Suc i) bs colon_num left_bracket right_bracket)
      else if b = 0x5D then
        (if left_bracket then
           (if right_bracket then Err InvalidAuthority
            else authority_loop (Suc i) bs 0 left_bracket True)
         else authority_loop (Suc i) bs colon_num left_bracket right_bracket)
      else if b = 0x40 then Err UriContainUserinfo
      else if b = 0x3A then authority_loop (Suc i) bs (colon_num + 1) left_bracket right_bracket
      else if \<not> URI_VALUE_BYTES ! unat b then Err InvalidByte
      else authority_loop (Suc i) bs colon_num left_bracket right_bracket)"

definition authority_token :: "bytes \<Rightarrow> (Authority option \<times> bytes, InvalidUri) outcome" where
  "authority_token bs =
     obind (authority_loop 0 bs 0 False False) (\<lambda>(end', colon_num, left_bracket, right_bracket).
       authority_parse bs end' colon_num left_bracket right_bracket)"

fun path_loop :: "nat \<Rightarrow> bytes \<Rightarrow> (nat, InvalidUri) outcome" where
  "path_loop i [] = Ok i"
| "path_loop i (b # bs) =
     (if b = 0x3F \<or> b = 0x23 then Ok i
      else if \<not> PATH_AND_QUERY_BYTES ! unat b then Err InvalidByte
      else path_loop (Suc i) bs)"

definition path_token :: "bytes \<Rightarrow> (string option \<times> bytes, InvalidUri) outcome" where
  "path_token bs =
     obind (path_loop 0 bs) (\<lambda>end'.
       if end' \<noteq> 0 then Ok (Some (from_utf8_unchecked (take end' bs)), drop end' bs)
       else Ok (None, drop end' bs))"

fun query_loop :: "nat \<Rightarrow> bytes \<Rightarrow> (nat, InvalidUri) outcome" where
  "query_loop i [] = Ok i"
| "query_loop i (b # bs) =
     (if b = 0x23 then Ok i
      else if b = 0x3F \<or> b = 0x60 \<or> b = 0x7B \<or> b = 0x7D then query_loop (Suc i) bs
      else if \<not> PATH_AND_QUERY_BYTES ! unat b then Err InvalidByte
      else query_loop (Suc i) bs)"

definition query_token :: "bytes \<Rightarrow> (string option, InvalidUri) outcome" where
  "query_token bs =
     (if bs = [] then Ok None
      else obind (query_loop 0 bs) (\<lambda>end'.
        if end' = 0 then Ok None else Ok (Some (from_utf8_unchecked (take end' bs)))))"

definition validity_check :: "Uri \<Rightarrow> (Uri, InvalidUri) outcome" where
  "validity_check u =
     (case (ur_scheme u, ur_authority u, ur_path u, ur_query u) of
        (Some _, None, _, _) \<Rightarrow> Err UriMissAuthority
      | (None, Some _, Some _, _) \<Rightarrow> Err UriMissScheme
      | (None, Some _, _, Some _) \<Rightarrow> Err UriMissScheme
      | (None, None, None, None) \<Rightarrow> Err InvalidFormat
      | _ \<Rightarrow> Ok u)"

section \<open>URIs\<close>

definition Uri_from_bytes :: "bytes \<Rightarrow> (Uri, ErrorKind) outcome" where
  "Uri_from_bytes bs =
     map_err EK_Uri
       (if length bs > MAX_URI_LEN then Err UriTooLong
        else if bs = [] then Err InvalidFormat
        else
          obind (scheme_token bs) (\<lambda>(scheme, rest).
          obind (authority_token rest) (\<lambda>(authority, rest).
          obind (path_token rest) (\<lambda>(path, rest).
          obind (case rest of
                   [] \<Rightarrow> Ok None
                 | b # bs \<Rightarrow>
                     if b = 0x3F then query_token bs
                     else if b = 0x23 then Ok None
                     else Err UriMissQuery) (\<lambda>query.
            validity_check \<lparr>ur_scheme = scheme, ur_authority = authority, ur_path = path, ur_query = query\<rparr>)))))"

definition Authority_from_bytes :: "bytes \<Rightarrow> (Authority, InvalidUri) outcome" where
  "Authority_from_bytes bs =
     (if bs = [] then Err UriMissAuthority
      else obind (authority_token bs) (\<lambda>(authority, rest).
        case authority of
          Some auth \<Rightarrow> if rest = [] then Ok auth else Err InvalidAuthority
        | None \<Rightarrow> Err InvalidAuthority))"

definition Path_from_bytes :: "bytes \<Rightarrow> (string, InvalidUri) outcome" where
  "Path_from_bytes bs =
     obind (path_token bs) (\<lambda>(path, rest).
       if rest = [] then (case path of Some p \<Rightarrow> Ok p | None \<Rightarrow> Err UriMissPath)
       else Err InvalidPath)"

definition Query_from_bytes :: "bytes \<Rightarrow> (string, InvalidUri) outcome" where
  "Query_from_bytes bs =
     obind (query_token bs) (\<lambda>query. case query of Some q \<Rightarrow> Ok q | None \<Rightarrow> Err UriMissQuery)"

definition Port_as_u16 :: "string \<Rightarrow> (u16, ErrorKind) outcome" where
  "Port_as_u16 port = (case parse_u16 port of Some n \<Rightarrow> Ok n | None \<Rightarrow> Err (EK_Uri InvalidPort))"

definition Authority_to_str :: "Authority \<Rightarrow> string" where
  "Authority_to_str a = au_host a @ (case au_port a of Some p \<Rightarrow> CHR '':'' # p | None \<Rightarrow> [])"

definition Uri_to_string :: "Uri \<Rightarrow> string" where
  "Uri_to_string u =
     (case ur_scheme u of Some s \<Rightarrow> Scheme_as_str s @ ''://'' | None \<Rightarrow> []) @
     (case ur_authority u of
        Some a \<Rightarrow> au_host a @ (case au_port a of Some p \<Rightarrow> CHR '':'' # p | None \<Rightarrow> [])
      | None \<Rightarrow> []) @
     (case ur_path u of Some p \<Rightarrow> p | None \<Rightarrow> []) @
     (case ur_query u of Some q \<Rightarrow> CHR ''?'' # q | None \<Rightarrow> [])"

definition Uri_path_and_query :: "Uri \<Rightarrow> string option" where
  "Uri_path_and_query u =
     (let builder =
        (case ur_path u of Some p \<Rightarrow> p | None \<Rightarrow> []) @ (case ur_query u of Some q \<Rightarrow> CHR ''?'' # q | None \<Rightarrow> [])
      in if builder = [] then None else Some builder)"

text \<open>The builder collects the parts and checks them when it builds.\<close>

type_synonym UriBuilder = "(Uri, InvalidUri) outcome"

definition UriBuilder_new :: UriBuilder where
  "UriBuilder_new = Ok \<lparr>ur_scheme = None, ur_authority = None, ur_path = None, ur_query = None\<rparr>"

text \<open>
  The methods that set a part take any type that converts into it: octets (or a string, which is converted as its
  octets), which are read, or a value of the part's own type, whose conversion cannot fail.
\<close>

datatype 'a uri_arg = Arg_octets bytes | Arg_value 'a

fun try_into :: "(bytes \<Rightarrow> ('a, InvalidUri) outcome) \<Rightarrow> 'a uri_arg \<Rightarrow> ('a, InvalidUri) outcome" where
  "try_into from_bytes (Arg_octets bs) = from_bytes bs"
| "try_into from_bytes (Arg_value v) = Ok v"

definition UriBuilder_scheme :: "UriBuilder \<Rightarrow> Scheme uri_arg \<Rightarrow> UriBuilder" where
  "UriBuilder_scheme b scheme =
     obind b (\<lambda>u. obind (try_into Scheme_from_bytes scheme) (\<lambda>s. Ok (u\<lparr>ur_scheme := Some s\<rparr>)))"

definition UriBuilder_authority :: "UriBuilder \<Rightarrow> Authority uri_arg \<Rightarrow> UriBuilder" where
  "UriBuilder_authority b auth =
     obind b (\<lambda>u. obind (try_into Authority_from_bytes auth) (\<lambda>a. Ok (u\<lparr>ur_authority := Some a\<rparr>)))"

definition UriBuilder_path :: "UriBuilder \<Rightarrow> string uri_arg \<Rightarrow> UriBuilder" where
  "UriBuilder_path b path =
     obind b (\<lambda>u. obind (try_into Path_from_bytes path) (\<lambda>p. Ok (u\<lparr>ur_path := Some p\<rparr>)))"

definition UriBuilder_query :: "UriBuilder \<Rightarrow> string uri_arg \<Rightarrow> UriBuilder" where
  "UriBuilder_query b query =
     obind b (\<lambda>u. obind (try_into Query_from_bytes query) (\<lambda>q. Ok (u\<lparr>ur_query := Some q\<rparr>)))"

definition UriBuilder_build :: "UriBuilder \<Rightarrow> (Uri, ErrorKind) outcome" where
  "UriBuilder_build b = map_err EK_Uri (obind b validity_check)"

end
