(* ===== verification/H1_Request_Encoder.thy ===== *)
theory H1_Request_Encoder
  imports Buffers Uri
begin

text \<open>
  The encoders of HTTP/1.1 requests (\<^verbatim>\<open>h1/request/encoder.rs\<close>): the one that owns its request and the one that
  borrows it. Every token remembers how much of it has been written, so that a call resumes where the last one filled
  its buffer. A buffer is given by its sz; what is written is returned, and the number of octets is its length.
\<close>

section \<open>Requests\<close>

record RequestPart =
  rq_uri :: Uri
  rq_method :: Method
  rq_version :: Version
  rq_headers :: Headers

definition Uri_http :: Uri where
  "Uri_http =
     \<lparr>ur_scheme = None, ur_authority = None,
      ur_path = (case Path_from_bytes (into_bytes ''/'') of Ok p \<Rightarrow> Some p | _ \<Rightarrow> None), ur_query = None\<rparr>"

definition RequestPart_default :: RequestPart where
  "RequestPart_default = \<lparr>rq_uri = Uri_http, rq_method = GET, rq_version = HTTP1_1, rq_headers = Headers_new\<rparr>"

section \<open>Tokens\<close>

text \<open>The number of octets of a token is that of the octets that are returned.\<close>

type_synonym 'a TokenResult = "((bytes, bytes) TokenStatus \<times> 'a, ErrorKind) outcome"

text \<open>A complete token leaves its index where it is.\<close>

definition WriteData_write :: "bytes \<Rightarrow> nat \<Rightarrow> nat \<Rightarrow> nat TokenResult" where
  "WriteData_write src src_idx dst =
     (if src_idx > length src then Panic
      else
        let input_len = length src - src_idx; output_len = dst; out = take dst (drop src_idx src) in
        if output_len \<ge> input_len then Ok (Complete out, src_idx)
        else Ok (Partial out, src_idx + length out))"

definition on_token :: "('a \<Rightarrow> 'b) \<Rightarrow> 'a TokenResult \<Rightarrow> 'b TokenResult" where
  "on_token f r = obind r (\<lambda>(t, i). Ok (t, f i))"

record EncodeMethod =
  em_inner :: Method
  em_src_idx :: nat

definition EncodeMethod_new :: "Method \<Rightarrow> EncodeMethod" where
  "EncodeMethod_new x = \<lparr>em_inner = x, em_src_idx = 0\<rparr>"

definition EncodeMethod_encode :: "EncodeMethod \<Rightarrow> nat \<Rightarrow> EncodeMethod TokenResult" where
  "EncodeMethod_encode e buf =
     on_token (\<lambda>i. e\<lparr>em_src_idx := i\<rparr>)
       (WriteData_write (into_bytes (Method_as_str (em_inner e))) (em_src_idx e) buf)"

record EncodeMethodRef =
  emr_inner :: Method
  emr_src_idx :: nat

definition EncodeMethodRef_new :: "Method \<Rightarrow> EncodeMethodRef" where
  "EncodeMethodRef_new x = \<lparr>emr_inner = x, emr_src_idx = 0\<rparr>"

definition EncodeMethodRef_encode :: "EncodeMethodRef \<Rightarrow> nat \<Rightarrow> EncodeMethodRef TokenResult" where
  "EncodeMethodRef_encode e buf =
     on_token (\<lambda>i. e\<lparr>emr_src_idx := i\<rparr>)
       (WriteData_write (into_bytes (Method_as_str (emr_inner e))) (emr_src_idx e) buf)"

record EncodeVersion =
  ev_inner :: Version
  ev_src_idx :: nat

definition EncodeVersion_new :: "Version \<Rightarrow> EncodeVersion" where
  "EncodeVersion_new x = \<lparr>ev_inner = x, ev_src_idx = 0\<rparr>"

definition EncodeVersion_encode :: "EncodeVersion \<Rightarrow> nat \<Rightarrow> EncodeVersion TokenResult" where
  "EncodeVersion_encode e buf =
     on_token (\<lambda>i. e\<lparr>ev_src_idx := i\<rparr>)
       (WriteData_write (into_bytes (Version_as_str (ev_inner e))) (ev_src_idx e) buf)"

record EncodeVersionRef =
  evr_inner :: Version
  evr_src_idx :: nat

definition EncodeVersionRef_new :: "Version \<Rightarrow> EncodeVersionRef" where
  "EncodeVersionRef_new x = \<lparr>evr_inner = x, evr_src_idx = 0\<rparr>"

definition EncodeVersionRef_encode :: "EncodeVersionRef \<Rightarrow> nat \<Rightarrow> EncodeVersionRef TokenResult" where
  "EncodeVersionRef_encode e buf =
     on_token (\<lambda>i. e\<lparr>evr_src_idx := i\<rparr>)
       (WriteData_write (into_bytes (Version_as_str (evr_inner e))) (evr_src_idx e) buf)"

record EncodeUri =
  eu_absolute :: bytes
  eu_origin :: bytes
  eu_src_idx :: nat
  eu_is_absolute :: bool

definition EncodeUri_new :: "Uri \<Rightarrow> bool \<Rightarrow> EncodeUri" where
  "EncodeUri_new uri is_absolute =
     \<lparr>eu_absolute = into_bytes (Uri_to_string uri),
      eu_origin = (case Uri_path_and_query uri of Some p \<Rightarrow> into_bytes p | None \<Rightarrow> into_bytes ''/''),
      eu_src_idx = 0, eu_is_absolute = is_absolute\<rparr>"

definition EncodeUri_encode :: "EncodeUri \<Rightarrow> nat \<Rightarrow> EncodeUri TokenResult" where
  "EncodeUri_encode e buf =
     (let uri = if eu_is_absolute e then eu_absolute e else eu_origin e in
      on_token (\<lambda>i. e\<lparr>eu_src_idx := i\<rparr>) (WriteData_write uri (eu_src_idx e) buf))"

text \<open>The borrowing token prints the URI when it is first needed.\<close>

record EncodeUriRef =
  eur_inner :: Uri
  eur_absolute :: "bytes option"
  eur_origin :: "bytes option"
  eur_src_idx :: nat
  eur_is_absolute :: bool

definition EncodeUriRef_new :: "Uri \<Rightarrow> bool \<Rightarrow> EncodeUriRef" where
  "EncodeUriRef_new uri is_absolute =
     \<lparr>eur_inner = uri, eur_absolute = None, eur_origin = None, eur_src_idx = 0, eur_is_absolute = is_absolute\<rparr>"

definition EncodeUriRef_encode :: "EncodeUriRef \<Rightarrow> nat \<Rightarrow> EncodeUriRef TokenResult" where
  "EncodeUriRef_encode e buf =
     (let (e, uri) =
        (if eur_is_absolute e then
           (let absolute = (case eur_absolute e of None \<Rightarrow> into_bytes (Uri_to_string (eur_inner e)) | Some a \<Rightarrow> a) in
            (e\<lparr>eur_absolute := Some absolute\<rparr>, absolute))
         else
           (let origin = (case eur_origin e of
                            None \<Rightarrow> (case Uri_path_and_query (eur_inner e) of
                                       Some path \<Rightarrow> into_bytes path | None \<Rightarrow> into_bytes ''/'')
                          | Some a \<Rightarrow> a) in
            (e\<lparr>eur_origin := Some origin\<rparr>, origin)))
      in on_token (\<lambda>i. e\<lparr>eur_src_idx := i\<rparr>) (WriteData_write uri (eur_src_idx e) buf))"

record EncodeSp =
  sp_src_idx :: nat

definition EncodeSp_new :: EncodeSp where
  "EncodeSp_new = \<lparr>sp_src_idx = 0\<rparr>"

definition EncodeSp_encode :: "EncodeSp \<Rightarrow> nat \<Rightarrow> EncodeSp TokenResult" where
  "EncodeSp_encode e buf =
     on_token (\<lambda>i. e\<lparr>sp_src_idx := i\<rparr>) (WriteData_write (into_bytes '' '') (sp_src_idx e) buf)"

record EncodeCrlf =
  crlf_src_idx :: nat

definition EncodeCrlf_new :: EncodeCrlf where
  "EncodeCrlf_new = \<lparr>crlf_src_idx = 0\<rparr>"

definition EncodeCrlf_encode :: "EncodeCrlf \<Rightarrow> nat \<Rightarrow> EncodeCrlf TokenResult" where
  "EncodeCrlf_encode e buf =
     on_token (\<lambda>i. e\<lparr>crlf_src_idx := i\<rparr>) (WriteData_write [0x0D, 0x0A] (crlf_src_idx e) buf)"

section \<open>Headers\<close>

datatype HeaderStatus = EH_Name | EH_Colon | EH_Value | EH_Crlf EncodeCrlf | EH_EmptyHeader

record EncodeHeader =
  eh_inner :: "(HeaderName \<times> HeaderValue) list"
  eh_status :: "HeaderStatus option"
  eh_name :: HeaderName
  eh_value :: bytes
  eh_name_idx :: nat
  eh_colon_idx :: nat
  eh_value_idx :: nat

text \<open>Without headers the name is a placeholder, which the constructor of names has to accept.\<close>

definition EncodeHeader_new :: "Headers \<Rightarrow> (EncodeHeader, ErrorKind) outcome" where
  "EncodeHeader_new header =
     (case Headers_into_iter header of
        (name, hvalue) # header_iter \<Rightarrow>
          Ok \<lparr>eh_inner = header_iter, eh_status = Some EH_Name, eh_name = name, eh_value = HeaderValue_to_vec hvalue,
              eh_name_idx = 0, eh_colon_idx = 0, eh_value_idx = 0\<rparr>
      | [] \<Rightarrow>
          (case HeaderName_from_bytes (into_bytes '' '') of
             Ok name \<Rightarrow>
               Ok \<lparr>eh_inner = [], eh_status = Some EH_EmptyHeader, eh_name = name, eh_value = [],
                   eh_name_idx = 0, eh_colon_idx = 0, eh_value_idx = 0\<rparr>
           | _ \<Rightarrow> Panic))"

text \<open>A complete part of a header is not the end of the headers, so it is reported as partial.\<close>

definition EncodeHeader_encode_name :: "EncodeHeader \<Rightarrow> nat \<Rightarrow> EncodeHeader TokenResult" where
  "EncodeHeader_encode_name e buf =
     obind (WriteData_write (into_bytes (eh_name e)) (eh_name_idx e) buf) (\<lambda>(t, i).
       let e = e\<lparr>eh_name_idx := i\<rparr> in
       case t of
         Complete sz \<Rightarrow> Ok (Partial sz, e\<lparr>eh_status := Some EH_Colon\<rparr>)
       | Partial sz \<Rightarrow> Ok (Partial sz, e\<lparr>eh_status := Some EH_Name\<rparr>))"

definition EncodeHeader_encode_colon :: "EncodeHeader \<Rightarrow> nat \<Rightarrow> EncodeHeader TokenResult" where
  "EncodeHeader_encode_colon e buf =
     obind (WriteData_write (into_bytes '':'') (eh_colon_idx e) buf) (\<lambda>(t, i).
       let e = e\<lparr>eh_colon_idx := i\<rparr> in
       case t of
         Complete sz \<Rightarrow> Ok (Partial sz, e\<lparr>eh_status := Some EH_Value\<rparr>)
       | Partial sz \<Rightarrow> Ok (Partial sz, e\<lparr>eh_status := Some EH_Colon\<rparr>))"

definition EncodeHeader_encode_value :: "EncodeHeader \<Rightarrow> nat \<Rightarrow> EncodeHeader TokenResult" where
  "EncodeHeader_encode_value e buf =
     obind (WriteData_write (eh_value e) (eh_value_idx e) buf) (\<lambda>(t, i).
       let e = e\<lparr>eh_value_idx := i\<rparr> in
       case t of
         Complete sz \<Rightarrow> Ok (Partial sz, e\<lparr>eh_status := Some (EH_Crlf EncodeCrlf_new)\<rparr>)
       | Partial sz \<Rightarrow> Ok (Partial sz, e\<lparr>eh_status := Some EH_Value\<rparr>))"

definition EncodeHeader_encode_crlf :: "EncodeHeader \<Rightarrow> nat \<Rightarrow> EncodeCrlf \<Rightarrow> EncodeHeader TokenResult" where
  "EncodeHeader_encode_crlf e buf crlf =
     obind (EncodeCrlf_encode crlf buf) (\<lambda>(t, crlf).
       case t of
         Complete sz \<Rightarrow>
           (case eh_inner e of
              (name, hvalue) # header_iter \<Rightarrow>
                Ok (Partial sz,
                    e\<lparr>eh_inner := header_iter, eh_status := Some EH_Name, eh_name := name,
                      eh_value := HeaderValue_to_vec hvalue, eh_name_idx := 0, eh_colon_idx := 0, eh_value_idx := 0\<rparr>)
            | [] \<Rightarrow> Ok (Complete sz, e))
       | Partial sz \<Rightarrow> Ok (Partial sz, e\<lparr>eh_status := Some (EH_Crlf crlf)\<rparr>))"

definition EncodeHeader_encode :: "EncodeHeader \<Rightarrow> nat \<Rightarrow> EncodeHeader TokenResult" where
  "EncodeHeader_encode e buf =
     (let taken = e\<lparr>eh_status := None\<rparr> in
      case eh_status e of
        None \<Rightarrow> Panic
      | Some EH_Name \<Rightarrow> EncodeHeader_encode_name taken buf
      | Some EH_Colon \<Rightarrow> EncodeHeader_encode_colon taken buf
      | Some EH_Value \<Rightarrow> EncodeHeader_encode_value taken buf
      | Some (EH_Crlf crlf) \<Rightarrow> EncodeHeader_encode_crlf taken buf crlf
      | Some EH_EmptyHeader \<Rightarrow> Ok (Complete [], taken))"

text \<open>The borrowing token joins the values of a header while it writes them.\<close>

record EncodeHeaderRef =
  ehr_inner :: "(HeaderName \<times> HeaderValue) list"
  ehr_status :: "HeaderStatus option"
  ehr_name :: "HeaderName option"
  ehr_value :: bytes
  ehr_value_iter :: "bytes list option"
  ehr_value_part :: "bytes option"
  ehr_name_idx :: nat
  ehr_colon_idx :: nat
  ehr_value_idx :: nat
  ehr_value_separator_idx :: nat
  ehr_value_parts_written :: nat
  ehr_value_needs_separator :: bool

definition EncodeHeaderRef_new :: "Headers \<Rightarrow> EncodeHeaderRef" where
  "EncodeHeaderRef_new headers =
     (case Headers_into_iter headers of
        (name, hvalue) # header_iter \<Rightarrow>
          \<lparr>ehr_inner = header_iter, ehr_status = Some EH_Name, ehr_name = Some name, ehr_value = [],
           ehr_value_iter = Some (hv_inner hvalue), ehr_value_part = None, ehr_name_idx = 0, ehr_colon_idx = 0,
           ehr_value_idx = 0, ehr_value_separator_idx = 0, ehr_value_parts_written = 0,
           ehr_value_needs_separator = False\<rparr>
      | [] \<Rightarrow>
          \<lparr>ehr_inner = [], ehr_status = Some EH_EmptyHeader, ehr_name = None, ehr_value = [],
           ehr_value_iter = None, ehr_value_part = None, ehr_name_idx = 0, ehr_colon_idx = 0,
           ehr_value_idx = 0, ehr_value_separator_idx = 0, ehr_value_parts_written = 0,
           ehr_value_needs_separator = False\<rparr>)"

definition EncodeHeaderRef_encode_name :: "EncodeHeaderRef \<Rightarrow> nat \<Rightarrow> EncodeHeaderRef TokenResult" where
  "EncodeHeaderRef_encode_name e buf =
     (case ehr_name e of
        None \<Rightarrow> Panic
      | Some name \<Rightarrow>
          obind (WriteData_write (into_bytes name) (ehr_name_idx e) buf) (\<lambda>(t, i).
            let e = e\<lparr>ehr_name_idx := i\<rparr> in
            case t of
              Complete sz \<Rightarrow> Ok (Partial sz, e\<lparr>ehr_status := Some EH_Colon\<rparr>)
            | Partial sz \<Rightarrow> Ok (Partial sz, e\<lparr>ehr_status := Some EH_Name\<rparr>)))"

definition EncodeHeaderRef_encode_colon :: "EncodeHeaderRef \<Rightarrow> nat \<Rightarrow> EncodeHeaderRef TokenResult" where
  "EncodeHeaderRef_encode_colon e buf =
     obind (WriteData_write (into_bytes '':'') (ehr_colon_idx e) buf) (\<lambda>(t, i).
       let e = e\<lparr>ehr_colon_idx := i\<rparr> in
       case t of
         Complete sz \<Rightarrow> Ok (Partial sz, e\<lparr>ehr_status := Some EH_Value\<rparr>)
       | Partial sz \<Rightarrow> Ok (Partial sz, e\<lparr>ehr_status := Some EH_Colon\<rparr>))"

text \<open>
  The loop over the values of a header, in its three steps: the next value, unless one has been begun; the separator
  before it; and the value itself. \<open>written\<close> is what the call has written so far.
\<close>

definition next_value_part :: "EncodeHeaderRef \<Rightarrow> EncodeHeaderRef option" where
  "next_value_part e =
     (if ehr_value_part e = None then
        (case ehr_value_iter e of
           Some (part # iter) \<Rightarrow>
             Some (e\<lparr>ehr_value_iter := Some iter, ehr_value_part := Some part, ehr_value_idx := 0,
                     ehr_value_separator_idx := 0,
                     ehr_value_needs_separator := (ehr_value_parts_written e \<noteq> 0)\<rparr>)
         | _ \<Rightarrow> None)
      else Some e)"

definition write_separator :: "EncodeHeaderRef \<Rightarrow> nat \<Rightarrow> bytes \<Rightarrow> EncodeHeaderRef TokenResult" where
  "write_separator e buf written =
     (if ehr_value_needs_separator e then
        obind (WriteData_write (into_bytes '', '') (ehr_value_separator_idx e) (buf - length written)) (\<lambda>(t, i).
          case t of
            Complete sz \<Rightarrow>
              Ok (Complete (written @ sz), e\<lparr>ehr_value_needs_separator := False, ehr_value_separator_idx := 0\<rparr>)
          | Partial sz \<Rightarrow>
              Ok (Partial (written @ sz), e\<lparr>ehr_value_separator_idx := i, ehr_status := Some EH_Value\<rparr>))
      else Ok (Complete written, e))"

definition write_value_part :: "EncodeHeaderRef \<Rightarrow> nat \<Rightarrow> bytes \<Rightarrow> EncodeHeaderRef TokenResult" where
  "write_value_part e buf written =
     (case ehr_value_part e of
        None \<Rightarrow> Panic
      | Some part \<Rightarrow>
          obind (WriteData_write part (ehr_value_idx e) (buf - length written)) (\<lambda>(t, i).
            case t of
              Complete sz \<Rightarrow>
                Ok (Complete (written @ sz),
                    e\<lparr>ehr_value_part := None, ehr_value_idx := 0,
                      ehr_value_parts_written := ehr_value_parts_written e + 1\<rparr>)
            | Partial sz \<Rightarrow>
                Ok (Partial (written @ sz), e\<lparr>ehr_value_idx := i, ehr_status := Some EH_Value\<rparr>)))"

definition values_left :: "EncodeHeaderRef \<Rightarrow> nat" where
  "values_left e =
     2 * (case ehr_value_iter e of Some iter \<Rightarrow> length iter | None \<Rightarrow> 0) +
     (case ehr_value_part e of Some _ \<Rightarrow> 1 | None \<Rightarrow> 0)"

lemma next_value_part_left:
  "next_value_part e = Some e1 \<Longrightarrow> values_left e1 \<le> values_left e \<and> ehr_value_part e1 \<noteq> None"
  by (auto simp: next_value_part_def values_left_def split: if_splits option.splits list.splits)

lemma write_separator_left:
  "write_separator e buf written = Ok (t, e1) \<Longrightarrow>
    values_left e1 = values_left e \<and> ehr_value_part e1 = ehr_value_part e"
  by (auto simp: write_separator_def values_left_def WriteData_write_def Let_def split: if_splits)

lemma write_value_part_left:
  "write_value_part e buf written = Ok (Complete o1, e1) \<Longrightarrow> values_left e1 < values_left e"
  by (auto simp: write_value_part_def values_left_def WriteData_write_def Let_def split: if_splits option.splits)

function encode_value_loop :: "EncodeHeaderRef \<Rightarrow> nat \<Rightarrow> bytes \<Rightarrow> EncodeHeaderRef TokenResult" where
  "encode_value_loop e buf written =
     (case next_value_part e of
        None \<Rightarrow> Ok (Partial written, e\<lparr>ehr_status := Some (EH_Crlf EncodeCrlf_new)\<rparr>)
      | Some e1 \<Rightarrow>
          (case write_separator e1 buf written of
             Ok (Complete written1, e2) \<Rightarrow>
               (case write_value_part e2 buf written1 of
                  Ok (Complete written2, e3) \<Rightarrow> encode_value_loop e3 buf written2
                | r \<Rightarrow> r)
           | r \<Rightarrow> r))"
  by pat_completeness auto
termination
  by (relation "measure (\<lambda>(e, _, _). values_left e)")
    (auto dest!: next_value_part_left write_separator_left write_value_part_left)

definition EncodeHeaderRef_encode_value :: "EncodeHeaderRef \<Rightarrow> nat \<Rightarrow> EncodeHeaderRef TokenResult" where
  "EncodeHeaderRef_encode_value e buf = encode_value_loop e buf []"

definition EncodeHeaderRef_encode_crlf :: "EncodeHeaderRef \<Rightarrow> nat \<Rightarrow> EncodeCrlf \<Rightarrow> EncodeHeaderRef TokenResult" where
  "EncodeHeaderRef_encode_crlf e buf crlf =
     obind (EncodeCrlf_encode crlf buf) (\<lambda>(t, crlf).
       case t of
         Complete sz \<Rightarrow>
           (case ehr_inner e of
              (name, hvalue) # header_iter \<Rightarrow>
                Ok (Partial sz,
                    e\<lparr>ehr_inner := header_iter, ehr_status := Some EH_Name, ehr_name := Some name, ehr_value := [],
                      ehr_value_iter := Some (hv_inner hvalue), ehr_value_part := None, ehr_name_idx := 0,
                      ehr_colon_idx := 0, ehr_value_idx := 0, ehr_value_separator_idx := 0,
                      ehr_value_parts_written := 0, ehr_value_needs_separator := False\<rparr>)
            | [] \<Rightarrow> Ok (Complete sz, e))
       | Partial sz \<Rightarrow> Ok (Partial sz, e\<lparr>ehr_status := Some (EH_Crlf crlf)\<rparr>))"

definition EncodeHeaderRef_encode :: "EncodeHeaderRef \<Rightarrow> nat \<Rightarrow> EncodeHeaderRef TokenResult" where
  "EncodeHeaderRef_encode e buf =
     (let taken = e\<lparr>ehr_status := None\<rparr> in
      case ehr_status e of
        None \<Rightarrow> Panic
      | Some EH_Name \<Rightarrow> EncodeHeaderRef_encode_name taken buf
      | Some EH_Colon \<Rightarrow> EncodeHeaderRef_encode_colon taken buf
      | Some EH_Value \<Rightarrow> EncodeHeaderRef_encode_value taken buf
      | Some (EH_Crlf crlf) \<Rightarrow> EncodeHeaderRef_encode_crlf taken buf crlf
      | Some EH_EmptyHeader \<Rightarrow> Ok (Complete [], taken))"

section \<open>The encoders\<close>

datatype EncodeState =
    ES_Method | ES_MethodSp | ES_Uri | ES_UriSp | ES_Version | ES_VersionCrlf | ES_Header | ES_HeaderCrlf
  | ES_EncodeFinished

record RequestEncoder =
  re_encode_status :: EncodeState
  re_method_part :: EncodeMethod
  re_method_sp_part :: EncodeSp
  re_uri_part :: EncodeUri
  re_uri_sp_part :: EncodeSp
  re_version_part :: EncodeVersion
  re_version_crlf_part :: EncodeCrlf
  re_headers_part :: EncodeHeader
  re_headers_crlf_part :: EncodeCrlf
  re_is_absolute_uri :: bool

definition RequestEncoder_new :: "RequestPart \<Rightarrow> (RequestEncoder, ErrorKind) outcome" where
  "RequestEncoder_new part =
     obind (EncodeHeader_new (rq_headers part)) (\<lambda>headers_part. Ok
     \<lparr>re_encode_status = ES_Method, re_method_part = EncodeMethod_new (rq_method part),
      re_method_sp_part = EncodeSp_new, re_uri_part = EncodeUri_new (rq_uri part) False,
      re_uri_sp_part = EncodeSp_new, re_version_part = EncodeVersion_new (rq_version part),
      re_version_crlf_part = EncodeCrlf_new, re_headers_part = headers_part,
      re_headers_crlf_part = EncodeCrlf_new, re_is_absolute_uri = False\<rparr>)"

definition RequestEncoder_absolute_uri :: "RequestEncoder \<Rightarrow> bool \<Rightarrow> RequestEncoder" where
  "RequestEncoder_absolute_uri e is_absolute = e\<lparr>re_is_absolute_uri := is_absolute\<rparr>"

definition RequestEncoder_method_encode :: "RequestEncoder \<Rightarrow> nat \<Rightarrow> (bytes \<times> RequestEncoder, ErrorKind) outcome" where
  "RequestEncoder_method_encode e dst =
     obind (EncodeMethod_encode (re_method_part e) dst) (\<lambda>(t, part).
       let e = e\<lparr>re_method_part := part\<rparr> in
       case t of
         Complete output_size \<Rightarrow> Ok (output_size, e\<lparr>re_encode_status := ES_MethodSp\<rparr>)
       | Partial output_size \<Rightarrow> Ok (output_size, e\<lparr>re_encode_status := ES_Method\<rparr>))"

definition RequestEncoder_method_sp_encode :: "RequestEncoder \<Rightarrow> nat \<Rightarrow> (bytes \<times> RequestEncoder, ErrorKind) outcome" where
  "RequestEncoder_method_sp_encode e dst =
     obind (EncodeSp_encode (re_method_sp_part e) dst) (\<lambda>(t, part).
       let e = e\<lparr>re_method_sp_part := part\<rparr> in
       case t of
         Complete output_size \<Rightarrow> Ok (output_size, e\<lparr>re_uri_part := (re_uri_part e)\<lparr>eu_is_absolute := re_is_absolute_uri e\<rparr>, re_encode_status := ES_Uri\<rparr>)
       | Partial output_size \<Rightarrow> Ok (output_size, e\<lparr>re_encode_status := ES_MethodSp\<rparr>))"

definition RequestEncoder_uri_encode :: "RequestEncoder \<Rightarrow> nat \<Rightarrow> (bytes \<times> RequestEncoder, ErrorKind) outcome" where
  "RequestEncoder_uri_encode e dst =
     obind (EncodeUri_encode (re_uri_part e) dst) (\<lambda>(t, part).
       let e = e\<lparr>re_uri_part := part\<rparr> in
       case t of
         Complete output_size \<Rightarrow> Ok (output_size, e\<lparr>re_encode_status := ES_UriSp\<rparr>)
       | Partial output_size \<Rightarrow> Ok (output_size, e\<lparr>re_encode_status := ES_Uri\<rparr>))"

definition RequestEncoder_uri_sp_encode :: "RequestEncoder \<Rightarrow> nat \<Rightarrow> (bytes \<times> RequestEncoder, ErrorKind) outcome" where
  "RequestEncoder_uri_sp_encode e dst =
     obind (EncodeSp_encode (re_uri_sp_part e) dst) (\<lambda>(t, part).
       let e = e\<lparr>re_uri_sp_part := part\<rparr> in
       case t of
         Complete output_size \<Rightarrow> Ok (output_size, e\<lparr>re_encode_status := ES_Version\<rparr>)
       | Partial output_size \<Rightarrow> Ok (output_size, e\<lparr>re_encode_status := ES_UriSp\<rparr>))"

definition RequestEncoder_version_encode :: "RequestEncoder \<Rightarrow> nat \<Rightarrow> (bytes \<times> RequestEncoder, ErrorKind) outcome" where
  "RequestEncoder_version_encode e dst =
     obind (EncodeVersion_encode (re_version_part e) dst) (\<lambda>(t, part).
       let e = e\<lparr>re_version_part := part\<rparr> in
       case t of
         Complete output_size \<Rightarrow> Ok (output_size, e\<lparr>re_encode_status := ES_VersionCrlf\<rparr>)
       | Partial output_size \<Rightarrow> Ok (output_size, e\<lparr>re_encode_status := ES_Version\<rparr>))"

definition RequestEncoder_version_crlf_encode :: "RequestEncoder \<Rightarrow> nat \<Rightarrow> (bytes \<times> RequestEncoder, ErrorKind) outcome" where
  "RequestEncoder_version_crlf_encode e dst =
     obind (EncodeCrlf_encode (re_version_crlf_part e) dst) (\<lambda>(t, part).
       let e = e\<lparr>re_version_crlf_part := part\<rparr> in
       case t of
         Complete output_size \<Rightarrow> Ok (output_size, e\<lparr>re_encode_status := ES_Header\<rparr>)
       | Partial output_size \<Rightarrow> Ok (output_size, e\<lparr>re_encode_status := ES_VersionCrlf\<rparr>))"

definition RequestEncoder_header_encode :: "RequestEncoder \<Rightarrow> nat \<Rightarrow> (bytes \<times> RequestEncoder, ErrorKind) outcome" where
  "RequestEncoder_header_encode e dst =
     obind (EncodeHeader_encode (re_headers_part e) dst) (\<lambda>(t, part).
       let e = e\<lparr>re_headers_part := part\<rparr> in
       case t of
         Complete output_size \<Rightarrow> Ok (output_size, e\<lparr>re_encode_status := ES_HeaderCrlf\<rparr>)
       | Partial output_size \<Rightarrow> Ok (output_size, e\<lparr>re_encode_status := ES_Header\<rparr>))"

definition RequestEncoder_header_crlf_encode :: "RequestEncoder \<Rightarrow> nat \<Rightarrow> (bytes \<times> RequestEncoder, ErrorKind) outcome" where
  "RequestEncoder_header_crlf_encode e dst =
     obind (EncodeCrlf_encode (re_headers_crlf_part e) dst) (\<lambda>(t, part).
       let e = e\<lparr>re_headers_crlf_part := part\<rparr> in
       case t of
         Complete output_size \<Rightarrow> Ok (output_size, e\<lparr>re_encode_status := ES_EncodeFinished\<rparr>)
       | Partial output_size \<Rightarrow> Ok (output_size, e\<lparr>re_encode_status := ES_HeaderCrlf\<rparr>))"

text \<open>A step of the loop of \<^verbatim>\<open>encode\<close>; nothing is to be done when the encoding has finished.\<close>

definition RequestEncoder_step :: "RequestEncoder \<Rightarrow> nat \<Rightarrow> ((bytes \<times> RequestEncoder) option, ErrorKind) outcome" where
  "RequestEncoder_step e dst =
     (let some = (\<lambda>r. obind r (\<lambda>x. Ok (Some x))) in
      case re_encode_status e of
        ES_Method \<Rightarrow> some (RequestEncoder_method_encode e dst)
      | ES_MethodSp \<Rightarrow> some (RequestEncoder_method_sp_encode e dst)
      | ES_Uri \<Rightarrow> some (RequestEncoder_uri_encode e dst)
      | ES_UriSp \<Rightarrow> some (RequestEncoder_uri_sp_encode e dst)
      | ES_Version \<Rightarrow> some (RequestEncoder_version_encode e dst)
      | ES_VersionCrlf \<Rightarrow> some (RequestEncoder_version_crlf_encode e dst)
      | ES_Header \<Rightarrow> some (RequestEncoder_header_encode e dst)
      | ES_HeaderCrlf \<Rightarrow> some (RequestEncoder_header_crlf_encode e dst)
      | ES_EncodeFinished \<Rightarrow> Ok None)"

definition RequestEncoder_encode :: "RequestEncoder \<Rightarrow> nat \<Rightarrow> (bytes \<times> RequestEncoder, ErrorKind) outcome option" where
  "RequestEncoder_encode e dst =
     (if dst = 0 then Some (Err InvalidInput) else fill_loop RequestEncoder_step dst e [])"

definition RequestEncoder_default :: "(RequestEncoder, ErrorKind) outcome" where
  "RequestEncoder_default = RequestEncoder_new RequestPart_default"

text \<open>The encoder that borrows its request.\<close>

record RequestRefEncoder =
  rr_encode_status :: EncodeState
  rr_method_part :: EncodeMethodRef
  rr_method_sp_part :: EncodeSp
  rr_uri_part :: EncodeUriRef
  rr_uri_sp_part :: EncodeSp
  rr_version_part :: EncodeVersionRef
  rr_version_crlf_part :: EncodeCrlf
  rr_headers_part :: EncodeHeaderRef
  rr_headers_crlf_part :: EncodeCrlf
  rr_is_absolute_uri :: bool

definition RequestRefEncoder_new :: "RequestPart \<Rightarrow> RequestRefEncoder" where
  "RequestRefEncoder_new part =
     \<lparr>rr_encode_status = ES_Method, rr_method_part = EncodeMethodRef_new (rq_method part),
      rr_method_sp_part = EncodeSp_new, rr_uri_part = EncodeUriRef_new (rq_uri part) False,
      rr_uri_sp_part = EncodeSp_new, rr_version_part = EncodeVersionRef_new (rq_version part),
      rr_version_crlf_part = EncodeCrlf_new, rr_headers_part = EncodeHeaderRef_new (rq_headers part),
      rr_headers_crlf_part = EncodeCrlf_new, rr_is_absolute_uri = False\<rparr>"

definition RequestRefEncoder_absolute_uri :: "RequestRefEncoder \<Rightarrow> bool \<Rightarrow> RequestRefEncoder" where
  "RequestRefEncoder_absolute_uri e is_absolute = e\<lparr>rr_is_absolute_uri := is_absolute\<rparr>"

definition RequestRefEncoder_method_encode :: "RequestRefEncoder \<Rightarrow> nat \<Rightarrow> (bytes \<times> RequestRefEncoder, ErrorKind) outcome" where
  "RequestRefEncoder_method_encode e dst =
     obind (EncodeMethodRef_encode (rr_method_part e) dst) (\<lambda>(t, part).
       let e = e\<lparr>rr_method_part := part\<rparr> in
       case t of
         Complete output_size \<Rightarrow> Ok (output_size, e\<lparr>rr_encode_status := ES_MethodSp\<rparr>)
       | Partial output_size \<Rightarrow> Ok (output_size, e\<lparr>rr_encode_status := ES_Method\<rparr>))"

definition RequestRefEncoder_method_sp_encode :: "RequestRefEncoder \<Rightarrow> nat \<Rightarrow> (bytes \<times> RequestRefEncoder, ErrorKind) outcome" where
  "RequestRefEncoder_method_sp_encode e dst =
     obind (EncodeSp_encode (rr_method_sp_part e) dst) (\<lambda>(t, part).
       let e = e\<lparr>rr_method_sp_part := part\<rparr> in
       case t of
         Complete output_size \<Rightarrow> Ok (output_size, e\<lparr>rr_uri_part := (rr_uri_part e)\<lparr>eur_is_absolute := rr_is_absolute_uri e\<rparr>, rr_encode_status := ES_Uri\<rparr>)
       | Partial output_size \<Rightarrow> Ok (output_size, e\<lparr>rr_encode_status := ES_MethodSp\<rparr>))"

definition RequestRefEncoder_uri_encode :: "RequestRefEncoder \<Rightarrow> nat \<Rightarrow> (bytes \<times> RequestRefEncoder, ErrorKind) outcome" where
  "RequestRefEncoder_uri_encode e dst =
     obind (EncodeUriRef_encode (rr_uri_part e) dst) (\<lambda>(t, part).
       let e = e\<lparr>rr_uri_part := part\<rparr> in
       case t of
         Complete output_size \<Rightarrow> Ok (output_size, e\<lparr>rr_encode_status := ES_UriSp\<rparr>)
       | Partial output_size \<Rightarrow> Ok (output_size, e\<lparr>rr_encode_status := ES_Uri\<rparr>))"

definition RequestRefEncoder_uri_sp_encode :: "RequestRefEncoder \<Rightarrow> nat \<Rightarrow> (bytes \<times> RequestRefEncoder, ErrorKind) outcome" where
  "RequestRefEncoder_uri_sp_encode e dst =
     obind (EncodeSp_encode (rr_uri_sp_part e) dst) (\<lambda>(t, part).
       let e = e\<lparr>rr_uri_sp_part := part\<rparr> in
       case t of
         Complete output_size \<Rightarrow> Ok (output_size, e\<lparr>rr_encode_status := ES_Version\<rparr>)
       | Partial output_size \<Rightarrow> Ok (output_size, e\<lparr>rr_encode_status := ES_UriSp\<rparr>))"

definition RequestRefEncoder_version_encode :: "RequestRefEncoder \<Rightarrow> nat \<Rightarrow> (bytes \<times> RequestRefEncoder, ErrorKind) outcome" where
  "RequestRefEncoder_version_encode e dst =
     obind (EncodeVersionRef_encode (rr_version_part e) dst) (\<lambda>(t, part).
       let e = e\<lparr>rr_version_part := part\<rparr> in
       case t of
         Complete output_size \<Rightarrow> Ok (output_size, e\<lparr>rr_encode_status := ES_VersionCrlf\<rparr>)
       | Partial output_size \<Rightarrow> Ok (output_size, e\<lparr>rr_encode_status := ES_Version\<rparr>))"

definition RequestRefEncoder_version_crlf_encode :: "RequestRefEncoder \<Rightarrow> nat \<Rightarrow> (bytes \<times> RequestRefEncoder, ErrorKind) outcome" where
  "RequestRefEncoder_version_crlf_encode e dst =
     obind (EncodeCrlf_encode (rr_version_crlf_part e) dst) (\<lambda>(t, part).
       let e = e\<lparr>rr_version_crlf_part := part\<rparr> in
       case t of
         Complete output_size \<Rightarrow> Ok (output_size, e\<lparr>rr_encode_status := ES_Header\<rparr>)
       | Partial output_size \<Rightarrow> Ok (output_size, e\<lparr>rr_encode_status := ES_VersionCrlf\<rparr>))"

definition RequestRefEncoder_header_encode :: "RequestRefEncoder \<Rightarrow> nat \<Rightarrow> (bytes \<times> RequestRefEncoder, ErrorKind) outcome" where
  "RequestRefEncoder_header_encode e dst =
     obind (EncodeHeaderRef_encode (rr_headers_part e) dst) (\<lambda>(t, part).
       let e = e\<lparr>rr_headers_part := part\<rparr> in
       case t of
         Complete output_size \<Rightarrow> Ok (output_size, e\<lparr>rr_encode_status := ES_HeaderCrlf\<rparr>)
       | Partial output_size \<Rightarrow> Ok (output_size, e\<lparr>rr_encode_status := ES_Header\<rparr>))"

definition RequestRefEncoder_header_crlf_encode :: "RequestRefEncoder \<Rightarrow> nat \<Rightarrow> (bytes \<times> RequestRefEncoder, ErrorKind) outcome" where
  "RequestRefEncoder_header_crlf_encode e dst =
     obind (EncodeCrlf_encode (rr_headers_crlf_part e) dst) (\<lambda>(t, part).
       let e = e\<lparr>rr_headers_crlf_part := part\<rparr> in
       case t of
         Complete output_size \<Rightarrow> Ok (output_size, e\<lparr>rr_encode_status := ES_EncodeFinished\<rparr>)
       | Partial output_size \<Rightarrow> Ok (output_size, e\<lparr>rr_encode_status := ES_HeaderCrlf\<rparr>))"

text \<open>A step of the loop of \<^verbatim>\<open>encode\<close>; nothing is to be done when the encoding has finished.\<close>

definition RequestRefEncoder_step :: "RequestRefEncoder \<Rightarrow> nat \<Rightarrow> ((bytes \<times> RequestRefEncoder) option, ErrorKind) outcome" where
  "RequestRefEncoder_step e dst =
     (let some = (\<lambda>r. obind r (\<lambda>x. Ok (Some x))) in
      case rr_encode_status e of
        ES_Method \<Rightarrow> some (RequestRefEncoder_method_encode e dst)
      | ES_MethodSp \<Rightarrow> some (RequestRefEncoder_method_sp_encode e dst)
      | ES_Uri \<Rightarrow> some (RequestRefEncoder_uri_encode e dst)
      | ES_UriSp \<Rightarrow> some (RequestRefEncoder_uri_sp_encode e dst)
      | ES_Version \<Rightarrow> some (RequestRefEncoder_version_encode e dst)
      | ES_VersionCrlf \<Rightarrow> some (RequestRefEncoder_version_crlf_encode e dst)
      | ES_Header \<Rightarrow> some (RequestRefEncoder_header_encode e dst)
      | ES_HeaderCrlf \<Rightarrow> some (RequestRefEncoder_header_crlf_encode e dst)
      | ES_EncodeFinished \<Rightarrow> Ok None)"

definition RequestRefEncoder_encode :: "RequestRefEncoder \<Rightarrow> nat \<Rightarrow> (bytes \<times> RequestRefEncoder, ErrorKind) outcome option" where
  "RequestRefEncoder_encode e dst =
     (if dst = 0 then Some (Err InvalidInput) else fill_loop RequestRefEncoder_step dst e [])"

end
