(* ===== verification/H1_Response.thy ===== *)
theory H1_Response
  imports H1_Message
begin

text \<open>
  The HTTP/1.1 response decoder (\<^verbatim>\<open>h1/response/decoder.rs\<close>): a state machine that takes the status line
  and the header fields in segments of any sizes and hands back the octets of the body. A call returns
  an \<open>outcome\<close> of the parsed value, if it is complete, and the new decoder.
\<close>

section \<open>State\<close>

datatype HeaderStage = HS_Start | HS_Key | HS_OwsBefore | HS_Value | HS_Crlf | HS_EndCrlf

datatype ParseStage =
    PS_Initial | PS_Version | PS_StatusCode | PS_Reason | PS_StatusCrlf | PS_Header HeaderStage | PS_BlankLine

record ResponseDecoder =
  rd_stage :: ParseStage
  rd_version :: "Version option"
  rd_status_code :: "StatusCode option"
  rd_headers :: "Headers option"
  rd_head_key :: bytes
  rd_rest :: bytes
  rd_new_line :: bool

type_synonym 'a step = "('a option \<times> ResponseDecoder, ErrorKind) outcome"

definition ResponseDecoder_new :: ResponseDecoder where
  "ResponseDecoder_new =
     \<lparr>rd_stage = PS_Initial, rd_version = None, rd_status_code = None, rd_headers = None,
      rd_head_key = [], rd_rest = [], rd_new_line = False\<rparr>"

abbreviation invalid_response :: "('a, ErrorKind) outcome" where
  "invalid_response \<equiv> Err (EK_H1 InvalidResponse)"

section \<open>Tokens\<close>

definition is_valid_byte :: "u8 \<Rightarrow> bool" where
  "is_valid_byte b \<longleftrightarrow> b > 0x1F \<and> b < 0x7F"

definition is_legal_reason_byte :: "u8 \<Rightarrow> bool" where
  "is_legal_reason_byte b \<longleftrightarrow>
     b = 0x09 \<or> b = 0x20 \<or> (0x21 \<le> b \<and> b \<le> 0x7E) \<or> (0x80 \<le> b \<and> b \<le> 0xFF)"

text \<open>
  The loop that \<^verbatim>\<open>status_token\<close>, \<^verbatim>\<open>get_header_name\<close> and \<^verbatim>\<open>get_header_value\<close> share: it looks for the octet
  that ends the token, and leaves it out of what follows (\<open>skip = 1\<close>) or not (\<open>skip = 0\<close>).
\<close>

fun scan ::
  "(u8 \<Rightarrow> bool) \<Rightarrow> (u8 \<Rightarrow> bool) \<Rightarrow> nat \<Rightarrow> bytes \<Rightarrow> nat \<Rightarrow> bytes \<Rightarrow>
     ((bytes \<times> bytes, bytes) TokenStatus, ErrorKind) outcome" where
  "scan ends valid skip buffer i [] = Ok (Partial buffer)"
| "scan ends valid skip buffer i (b # bs) =
     (if ends b then Ok (Complete (take i buffer, drop (i + skip) buffer))
      else if \<not> valid b then invalid_response
      else scan ends valid skip buffer (Suc i) bs)"

definition status_token :: "bytes \<Rightarrow> ((bytes \<times> bytes, bytes) TokenStatus, ErrorKind) outcome" where
  "status_token buffer = scan (\<lambda>b. b = 0x20) is_valid_byte 1 buffer 0 buffer"

definition get_header_name :: "bytes \<Rightarrow> ((bytes \<times> bytes, bytes) TokenStatus, ErrorKind) outcome" where
  "get_header_name buffer = scan (\<lambda>b. b = 0x3A) (\<lambda>b. HEADER_NAME_BYTES ! unat b) 1 buffer 0 buffer"

definition get_header_value :: "bytes \<Rightarrow> ((bytes \<times> bytes, bytes) TokenStatus, ErrorKind) outcome" where
  "get_header_value buffer =
     scan (\<lambda>b. b = 0x0D \<or> b = 0x0A) (\<lambda>b. HEADER_VALUE_BYTES ! unat b) 0 buffer 0 buffer"

fun decode_reason_loop :: "bytes \<Rightarrow> nat \<Rightarrow> bytes \<Rightarrow> (bytes option, ErrorKind) outcome" where
  "decode_reason_loop buffer i [] = Ok None"
| "decode_reason_loop buffer i (b # bs) =
     (if b = 0x0D \<or> b = 0x0A then Ok (Some (drop i buffer))
      else if \<not> is_legal_reason_byte b then invalid_response
      else decode_reason_loop buffer (Suc i) bs)"

definition decode_reason :: "bytes \<Rightarrow> (bytes option, ErrorKind) outcome" where
  "decode_reason buffer = decode_reason_loop buffer 0 buffer"

fun trim_ows_loop :: "bytes \<Rightarrow> nat \<Rightarrow> bytes \<Rightarrow> (bytes option, ErrorKind) outcome" where
  "trim_ows_loop buffer i [] = Ok None"
| "trim_ows_loop buffer i (b # bs) =
     (if b = 0x20 \<or> b = 0x09 then trim_ows_loop buffer (Suc i) bs
      else Ok (Some (drop i buffer)))"

definition trim_ows :: "bytes \<Rightarrow> (bytes option, ErrorKind) outcome" where
  "trim_ows buffer = trim_ows_loop buffer 0 buffer"

definition consume_crlf :: "bytes \<Rightarrow> bool \<Rightarrow> ((bytes, nat) TokenStatus, ErrorKind) outcome" where
  "consume_crlf buffer cr_meet =
     (if buffer = [] then Ok (Partial 0)
      else if buffer ! 0 = 0x0D then
        (if cr_meet then invalid_response
         else if length buffer = 1 then Ok (Partial 1)
         else if buffer ! 1 = 0x0A then Ok (Complete (drop 2 buffer))
         else invalid_response)
      else if buffer ! 0 = 0x0A then Ok (Complete (drop 1 buffer))
      else invalid_response)"

text \<open>
  \<^verbatim>\<open>str::to_lowercase\<close> on the names that pass \<^verbatim>\<open>HEADER_NAME_BYTES\<close>, which are ASCII; and the value up to
  its last octet that is no white space.
\<close>

definition to_lowercase :: "string \<Rightarrow> string" where
  "to_lowercase = map (\<lambda>c. let b = byte_of_char c in
     char_of_byte (if 0x41 \<le> b \<and> b \<le> 0x5A then b + 0x20 else b))"

definition trim_end :: "bytes \<Rightarrow> bytes" where
  "trim_end value = rev (dropWhile (\<lambda>b. b = 0x20 \<or> b = 0x09) (rev value))"

definition header_insert :: "bytes \<Rightarrow> bytes \<Rightarrow> Headers \<Rightarrow> (Headers, ErrorKind) outcome" where
  "header_insert header_name header_value headers =
     Headers_append headers (to_lowercase (from_utf8_unchecked header_name)) (from_utf8_unchecked header_value)"

section \<open>Header fields\<close>

definition take_value :: "ResponseDecoder \<Rightarrow> bytes \<Rightarrow> bytes \<times> ResponseDecoder" where
  "take_value d value =
     (if rd_rest d \<noteq> [] then (rd_rest d @ value, d\<lparr>rd_rest := []\<rparr>) else (value, d))"

definition decode_ows :: "ResponseDecoder \<Rightarrow> bytes \<Rightarrow> bytes step" where
  "decode_ows d buffer =
     obind (trim_ows buffer) (\<lambda>u. Ok (u, d\<lparr>rd_stage := PS_Header HS_OwsBefore\<rparr>))"

definition decode_key :: "ResponseDecoder \<Rightarrow> bytes \<Rightarrow> bytes step" where
  "decode_key d buffer =
     (let d = d\<lparr>rd_stage := PS_Header HS_Key\<rparr> in
      obind (get_header_name buffer) (\<lambda>t.
        case t of
          Complete (key, unparsed) \<Rightarrow>
            if rd_rest d \<noteq> []
            then Ok (Some unparsed, d\<lparr>rd_head_key := rd_rest d @ key, rd_rest := []\<rparr>)
            else Ok (Some unparsed, d\<lparr>rd_head_key := key\<rparr>)
        | Partial rest \<Rightarrow> Ok (None, d\<lparr>rd_rest := rd_rest d @ rest\<rparr>)))"

definition decode_value :: "ResponseDecoder \<Rightarrow> bytes \<Rightarrow> bytes step" where
  "decode_value d buffer =
     (let d = d\<lparr>rd_stage := PS_Header HS_Value\<rparr> in
      obind (get_header_value buffer) (\<lambda>t.
        case t of
          Complete (value, unparsed) \<Rightarrow>
            let (complete_value, d) = take_value d value;
                header_value = trim_end complete_value
            in (case rd_headers d of
                  None \<Rightarrow> Panic
                | Some headers \<Rightarrow>
                    obind (header_insert (rd_head_key d) header_value headers) (\<lambda>headers.
                      Ok (Some unparsed, d\<lparr>rd_head_key := [], rd_headers := Some headers\<rparr>)))
        | Partial rest \<Rightarrow> Ok (None, d\<lparr>rd_rest := rd_rest d @ rest\<rparr>)))"

definition decode_crlf :: "ResponseDecoder \<Rightarrow> bool \<Rightarrow> bytes \<Rightarrow> bytes step" where
  "decode_crlf d cr_meet buffer =
     (let d = d\<lparr>rd_stage := PS_Header HS_Crlf\<rparr> in
      obind (consume_crlf buffer cr_meet) (\<lambda>t.
        case t of
          Complete unparsed \<Rightarrow> Ok (Some unparsed, d\<lparr>rd_new_line := False\<rparr>)
        | Partial step \<Rightarrow> Ok (None, if step = 1 then d\<lparr>rd_new_line := True\<rparr> else d)))"

text \<open>The macros \<^verbatim>\<open>get_unparsed_or_return!\<close> and \<^verbatim>\<open>detect_blank_and_return!\<close>, with what follows them.\<close>

definition get_unparsed_or_return ::
  "bytes step \<Rightarrow> (ResponseDecoder \<Rightarrow> bytes \<Rightarrow> 'a step) \<Rightarrow> 'a step" where
  "get_unparsed_or_return r k =
     obind r (\<lambda>(u, d). case u of Some unparsed \<Rightarrow> k d unparsed | None \<Rightarrow> Ok (None, d))"

definition detect_blank_and_return ::
  "ResponseDecoder \<Rightarrow> bytes \<Rightarrow> (ResponseDecoder \<Rightarrow> bytes \<Rightarrow> bytes step) \<Rightarrow> bytes step" where
  "detect_blank_and_return d buffer k =
     (if buffer = [] then Ok (None, d\<lparr>rd_stage := PS_Header HS_EndCrlf\<rparr>)
      else if buffer ! 0 = 0x0D \<or> buffer ! 0 = 0x0A then Ok (Some buffer, d)
      else k d buffer)"

lemma get_unparsed_or_return_simps [simp]:
  "get_unparsed_or_return (Ok (Some u, d)) k = k d u"
  "get_unparsed_or_return (Ok (None, d)) k = Ok (None, d)"
  "get_unparsed_or_return (Err e) k = Err e"
  "get_unparsed_or_return Panic k = Panic"
  by (simp_all add: get_unparsed_or_return_def)

lemma get_unparsed_or_return_cong [fundef_cong]:
  "r = r' \<Longrightarrow> (\<And>u d. r' = Ok (Some u, d) \<Longrightarrow> k d u = k' d u) \<Longrightarrow>
     get_unparsed_or_return r k = get_unparsed_or_return r' k'"
  by (cases r') (auto simp: get_unparsed_or_return_def split: option.splits)

lemma detect_blank_and_return_cong [fundef_cong]:
  "d = d' \<Longrightarrow> b = b' \<Longrightarrow> k d' b' = k' d' b' \<Longrightarrow>
     detect_blank_and_return d b k = detect_blank_and_return d' b' k'"
  by (simp add: detect_blank_and_return_def)

text \<open>What the tokens leave is no longer than what they were given.\<close>

lemma scan_eq:
  assumes "buffer = pre @ bs" "i = length pre"
  shows "scan ends valid skip buffer i bs =
    (let tok = takeWhile (\<lambda>b. \<not> ends b \<and> valid b) bs in
     case dropWhile (\<lambda>b. \<not> ends b \<and> valid b) bs of
       [] \<Rightarrow> Ok (Partial buffer)
     | b # r \<Rightarrow> if ends b then Ok (Complete (pre @ tok, drop skip (b # r))) else invalid_response)"
  using assms
proof (induction bs arbitrary: i pre)
  case (Cons b bs)
  show ?case
  proof (cases "\<not> ends b \<and> valid b")
    case True
    with Cons.IH [of "pre @ [b]" "Suc i"] Cons.prems show ?thesis
      by (simp add: Let_def del: dropWhile_eq_Nil_conv split: list.split)
  qed (use Cons.prems in \<open>auto simp: Let_def\<close>)
qed simp

lemma scan_buffer:
  "scan ends valid skip buffer 0 buffer =
    (let tok = takeWhile (\<lambda>b. \<not> ends b \<and> valid b) buffer in
     case dropWhile (\<lambda>b. \<not> ends b \<and> valid b) buffer of
       [] \<Rightarrow> Ok (Partial buffer)
     | b # r \<Rightarrow> if ends b then Ok (Complete (tok, drop skip (b # r))) else invalid_response)"
  by (subst scan_eq [where pre = "[]"]) (simp_all del: dropWhile_eq_Nil_conv split: list.split)

text \<open>What a complete token is: the decomposition that ends at the first octet that ends it.\<close>

lemma scan_Complete:
  "scan ends valid skip buffer 0 buffer = Ok (Complete (tok, u)) \<longleftrightarrow>
     (\<exists>b r. buffer = tok @ b # r \<and> list_all (\<lambda>b. \<not> ends b \<and> valid b) tok \<and> ends b \<and> u = drop skip (b # r))"
  (is "?l \<longleftrightarrow> ?r")
proof
  assume ?l
  then obtain b r where *: "dropWhile (\<lambda>b. \<not> ends b \<and> valid b) buffer = b # r" "ends b" "u = drop skip (b # r)"
    "tok = takeWhile (\<lambda>b. \<not> ends b \<and> valid b) buffer"
    by (auto simp: scan_buffer Let_def split: list.splits if_splits)
  have "buffer = tok @ b # r" using *(1,4) takeWhile_dropWhile_id by metis
  with * show ?r by (metis (mono_tags, lifting) Ball_set set_takeWhileD)
next
  assume ?r
  then obtain b r where "buffer = tok @ b # r" "\<forall>x \<in> set tok. \<not> ends x \<and> valid x" "ends b" "u = drop skip (b # r)"
    by (auto simp: list_all_iff)
  then show ?l by (simp add: scan_buffer takeWhile_append dropWhile_append)
qed

lemma scan_Partial:
  "scan ends valid skip buffer 0 buffer = Ok (Partial p) \<longleftrightarrow>
     p = buffer \<and> list_all (\<lambda>b. \<not> ends b \<and> valid b) buffer"
proof (cases "dropWhile (\<lambda>b. \<not> ends b \<and> valid b) buffer")
  case Nil
  then show ?thesis by (auto simp: scan_buffer list_all_iff simp del: dropWhile_eq_Nil_conv dest: dropWhile_eq_Nil_conv [THEN iffD1])
next
  case (Cons b r)
  then have "\<not> list_all (\<lambda>b. \<not> ends b \<and> valid b) buffer"
    by (metis dropWhile_eq_Nil_conv list.distinct(1) list_all_iff)
  with Cons show ?thesis by (simp add: scan_buffer)
qed

lemma scan_not_Panic [simp]: "scan ends valid skip buffer i bs \<noteq> Panic"
  by (induction bs arbitrary: i) auto

lemmas token_defs = status_token_def get_header_name_def get_header_value_def

lemma decode_reason_eq:
  "decode_reason buffer =
    (case dropWhile (\<lambda>b. is_legal_reason_byte b) buffer of
       [] \<Rightarrow> Ok None
     | b # r \<Rightarrow> if b = 0x0D \<or> b = 0x0A then Ok (Some (b # r)) else invalid_response)"
proof -
  have "decode_reason_loop (pre @ bs) (length pre) bs =
    (case dropWhile (\<lambda>b. is_legal_reason_byte b) bs of
       [] \<Rightarrow> Ok None
     | b # r \<Rightarrow> if b = 0x0D \<or> b = 0x0A then Ok (Some (b # r)) else invalid_response)" for pre bs
  proof (induction bs arbitrary: pre)
    case (Cons b bs)
    have "\<not> is_legal_reason_byte 0x0D" "\<not> is_legal_reason_byte 0x0A" by (simp_all add: is_legal_reason_byte_def)
    with Cons.IH [of "pre @ [b]"] show ?case by auto
  qed simp
  from this [of "[]" buffer] show ?thesis by (simp add: decode_reason_def)
qed

lemma trim_ows_eq:
  "trim_ows buffer =
    (case dropWhile (\<lambda>b. b = 0x20 \<or> b = 0x09) buffer of [] \<Rightarrow> Ok None | b # r \<Rightarrow> Ok (Some (b # r)))"
proof -
  have "trim_ows_loop (pre @ bs) (length pre) bs =
    (case dropWhile (\<lambda>b. b = 0x20 \<or> b = 0x09) bs of [] \<Rightarrow> Ok None | b # r \<Rightarrow> Ok (Some (b # r)))" for pre bs
  proof (induction bs arbitrary: pre)
    case (Cons b bs)
    from Cons.IH [of "pre @ [b]"] show ?case by auto
  qed simp
  from this [of "[]" buffer] show ?thesis by (simp add: trim_ows_def)
qed

lemma decode_key_eq:
  "decode_key d b =
     (case get_header_name b of
        Ok (Complete (key, u)) \<Rightarrow>
          Ok (Some u, d\<lparr>rd_stage := PS_Header HS_Key, rd_head_key := rd_rest d @ key, rd_rest := []\<rparr>)
      | Ok (Partial rest) \<Rightarrow> Ok (None, d\<lparr>rd_stage := PS_Header HS_Key, rd_rest := rd_rest d @ rest\<rparr>)
      | Err e \<Rightarrow> Err e
      | Panic \<Rightarrow> Panic)"
  by (cases d) (simp add: decode_key_def Let_def split: outcome.split TokenStatus.split prod.split)

lemma take_value_eq: "take_value d value = (rd_rest d @ value, d\<lparr>rd_rest := []\<rparr>)"
  by (cases d) (simp add: take_value_def)

lemma decode_value_eq:
  "decode_value d b =
     (case get_header_value b of
        Ok (Complete (value, u)) \<Rightarrow>
          (case rd_headers d of
             None \<Rightarrow> Panic
           | Some headers \<Rightarrow>
               obind (header_insert (rd_head_key d) (trim_end (rd_rest d @ value)) headers) (\<lambda>headers.
                 Ok (Some u, d\<lparr>rd_stage := PS_Header HS_Value, rd_rest := [], rd_head_key := [],
                   rd_headers := Some headers\<rparr>)))
      | Ok (Partial rest) \<Rightarrow> Ok (None, d\<lparr>rd_stage := PS_Header HS_Value, rd_rest := rd_rest d @ rest\<rparr>)
      | Err e \<Rightarrow> Err e
      | Panic \<Rightarrow> Panic)"
  by (simp add: decode_value_def take_value_eq Let_def split: outcome.split TokenStatus.split prod.split option.split)

lemma decode_key_less: "decode_key d b = Ok (Some u, d') \<Longrightarrow> length u < length b"
  by (auto simp: decode_key_eq token_defs scan_Complete split: outcome.splits TokenStatus.splits)

lemma decode_ows_le: "decode_ows d b = Ok (Some u, d') \<Longrightarrow> length u \<le> length b"
  using length_dropWhile_le [of "\<lambda>b. b = 0x20 \<or> b = 0x09" b]
  by (cases "dropWhile (\<lambda>b. b = 0x20 \<or> b = 0x09) b")
    (auto simp: decode_ows_def trim_ows_eq simp del: dropWhile_eq_Nil_conv)

lemma decode_value_le: "decode_value d b = Ok (Some u, d') \<Longrightarrow> length u \<le> length b"
  by (auto simp: decode_value_eq token_defs scan_Complete obind_eq_Ok
      split: outcome.splits TokenStatus.splits option.splits)

text \<open>An end of line is \<open>CR LF\<close>, or \<open>LF\<close> alone.\<close>

definition is_eol :: "bytes \<Rightarrow> bool" where
  "is_eol eol \<longleftrightarrow> eol = [0x0D, 0x0A] \<or> eol = [0x0A]"

lemma consume_crlf_Complete:
  "consume_crlf b False = Ok (Complete u) \<longleftrightarrow> (\<exists>eol. is_eol eol \<and> b = eol @ u)"
proof -
  have "(\<exists>eol. is_eol eol \<and> b = eol @ u) \<longleftrightarrow> b = 0x0D # 0x0A # u \<or> b = 0x0A # u"
    by (simp add: is_eol_def conj_disj_distribR ex_disj_distrib)
  moreover have "consume_crlf b False = Ok (Complete u) \<longleftrightarrow> b = 0x0D # 0x0A # u \<or> b = 0x0A # u"
  proof (cases b)
    case (Cons x xs)
    then show ?thesis by (cases xs) (auto simp: consume_crlf_def)
  qed (simp add: consume_crlf_def)
  ultimately show ?thesis by simp
qed

lemma consume_crlf_less: "consume_crlf b c = Ok (Complete u) \<Longrightarrow> length u < length b"
  by (auto simp: consume_crlf_def split: if_splits)

lemma decode_crlf_less: "decode_crlf d c b = Ok (Some u, d') \<Longrightarrow> length u < length b"
  by (cases "consume_crlf b c")
    (auto simp: decode_crlf_def Let_def consume_crlf_less split: TokenStatus.splits)

lemmas token_lengths = decode_key_less decode_ows_le decode_value_le decode_crlf_less

text \<open>The five loops are one cycle, entered at each of its stages.\<close>

function decode_header_from_value :: "ResponseDecoder \<Rightarrow> bytes \<Rightarrow> bytes step" where
  "decode_header_from_value d buffer =
     get_unparsed_or_return (decode_value d buffer) (\<lambda>d buffer.
     get_unparsed_or_return (decode_crlf d False buffer) (\<lambda>d buffer.
     detect_blank_and_return d buffer (\<lambda>d buffer.
     get_unparsed_or_return (decode_key d buffer) (\<lambda>d buffer.
     get_unparsed_or_return (decode_ows d buffer) (\<lambda>d buffer.
       decode_header_from_value d buffer)))))"
  by pat_completeness auto
termination
  by (relation "measure (\<lambda>(d, b). length b)") (fastforce dest: token_lengths)+

function decode_header_from_key :: "ResponseDecoder \<Rightarrow> bytes \<Rightarrow> bytes step" where
  "decode_header_from_key d buffer =
     get_unparsed_or_return (decode_key d buffer) (\<lambda>d buffer.
     get_unparsed_or_return (decode_ows d buffer) (\<lambda>d buffer.
     get_unparsed_or_return (decode_value d buffer) (\<lambda>d buffer.
     get_unparsed_or_return (decode_crlf d False buffer) (\<lambda>d buffer.
     detect_blank_and_return d buffer (\<lambda>d buffer.
       decode_header_from_key d buffer)))))"
  by pat_completeness auto
termination
  by (relation "measure (\<lambda>(d, b). length b)") (fastforce dest: token_lengths)+

function decode_header_from_ows_before :: "ResponseDecoder \<Rightarrow> bytes \<Rightarrow> bytes step" where
  "decode_header_from_ows_before d buffer =
     get_unparsed_or_return (decode_ows d buffer) (\<lambda>d buffer.
     get_unparsed_or_return (decode_value d buffer) (\<lambda>d buffer.
     get_unparsed_or_return (decode_crlf d False buffer) (\<lambda>d buffer.
     detect_blank_and_return d buffer (\<lambda>d buffer.
     get_unparsed_or_return (decode_key d buffer) (\<lambda>d buffer.
       decode_header_from_ows_before d buffer)))))"
  by pat_completeness auto
termination
  by (relation "measure (\<lambda>(d, b). length b)") (fastforce dest: token_lengths)+

function decode_header_from_crlf :: "ResponseDecoder \<Rightarrow> bytes \<Rightarrow> bytes step" where
  "decode_header_from_crlf d buffer =
     get_unparsed_or_return (decode_crlf d False buffer) (\<lambda>d buffer.
     detect_blank_and_return d buffer (\<lambda>d buffer.
     get_unparsed_or_return (decode_key d buffer) (\<lambda>d buffer.
     get_unparsed_or_return (decode_ows d buffer) (\<lambda>d buffer.
     get_unparsed_or_return (decode_value d buffer) (\<lambda>d buffer.
       decode_header_from_crlf d buffer)))))"
  by pat_completeness auto
termination
  by (relation "measure (\<lambda>(d, b). length b)") (fastforce dest: token_lengths)+

function decode_header_from_crlf_end :: "ResponseDecoder \<Rightarrow> bytes \<Rightarrow> bytes step" where
  "decode_header_from_crlf_end d buffer =
     detect_blank_and_return d buffer (\<lambda>d buffer.
     get_unparsed_or_return (decode_key d buffer) (\<lambda>d buffer.
     get_unparsed_or_return (decode_ows d buffer) (\<lambda>d buffer.
     get_unparsed_or_return (decode_value d buffer) (\<lambda>d buffer.
     get_unparsed_or_return (decode_crlf d False buffer) (\<lambda>d buffer.
       decode_header_from_crlf_end d buffer)))))"
  by pat_completeness auto
termination
  by (relation "measure (\<lambda>(d, b). length b)") (fastforce dest: token_lengths)+

declare decode_header_from_value.simps [simp del] decode_header_from_key.simps [simp del]
  decode_header_from_ows_before.simps [simp del] decode_header_from_crlf.simps [simp del]
  decode_header_from_crlf_end.simps [simp del]

definition decode_header :: "ResponseDecoder \<Rightarrow> bytes \<Rightarrow> bytes step" where
  "decode_header d buffer =
     (case rd_stage d of
        PS_Header HS_Start \<Rightarrow>
          if buffer = [] then Ok (None, d)
          else if buffer ! 0 = 0x0D \<or> buffer ! 0 = 0x0A then Ok (Some buffer, d)
          else decode_header_from_key d buffer
      | PS_Header HS_Key \<Rightarrow> decode_header_from_key d buffer
      | PS_Header HS_OwsBefore \<Rightarrow> decode_header_from_ows_before d buffer
      | PS_Header HS_Value \<Rightarrow> decode_header_from_value d buffer
      | PS_Header HS_Crlf \<Rightarrow> decode_header_from_crlf d buffer
      | PS_Header HS_EndCrlf \<Rightarrow> decode_header_from_crlf_end d buffer
      | _ \<Rightarrow> invalid_response)"

section \<open>Phases\<close>

definition decode_status_crlf :: "ResponseDecoder \<Rightarrow> bytes \<Rightarrow> bytes step" where
  "decode_status_crlf d buffer =
     obind (consume_crlf buffer (rd_new_line d)) (\<lambda>t.
       let d = d\<lparr>rd_new_line := False\<rparr> in
       case t of
         Complete unparsed \<Rightarrow> Ok (Some unparsed, d)
       | Partial n \<Rightarrow>
           if n = 0 then Ok (None, d)
           else if n = 1 then Ok (None, d\<lparr>rd_new_line := True\<rparr>)
           else invalid_response)"

definition blank_line_phase :: "ResponseDecoder \<Rightarrow> bytes \<Rightarrow> (ResponsePart \<times> bytes) step" where
  "blank_line_phase d buffer =
     get_unparsed_or_return (decode_status_crlf (d\<lparr>rd_stage := PS_BlankLine\<rparr>) buffer) (\<lambda>d unparsed.
       case (rd_version d, rd_status_code d, rd_headers d) of
         (Some version, Some status, Some headers) \<Rightarrow>
           Ok (Some (\<lparr>rp_version = version, rp_status = status, rp_headers = headers\<rparr>, unparsed),
               d\<lparr>rd_version := None, rd_status_code := None, rd_headers := None\<rparr>)
       | _ \<Rightarrow> Panic)"

definition header_phase :: "ResponseDecoder \<Rightarrow> bytes \<Rightarrow> (ResponsePart \<times> bytes) step" where
  "header_phase d buffer = get_unparsed_or_return (decode_header d buffer) blank_line_phase"

definition header_phase_with_init :: "ResponseDecoder \<Rightarrow> bytes \<Rightarrow> (ResponsePart \<times> bytes) step" where
  "header_phase_with_init d buffer =
     (let d = d\<lparr>rd_headers := Some Headers_new\<rparr> in
      if buffer = [] then Ok (None, d\<lparr>rd_stage := PS_Header HS_Start\<rparr>)
      else if buffer ! 0 = 0x0D \<or> buffer ! 0 = 0x0A then blank_line_phase d buffer
      else get_unparsed_or_return (decode_header (d\<lparr>rd_stage := PS_Header HS_Key\<rparr>) buffer) blank_line_phase)"

definition status_crlf_phase :: "ResponseDecoder \<Rightarrow> bytes \<Rightarrow> (ResponsePart \<times> bytes) step" where
  "status_crlf_phase d buffer =
     get_unparsed_or_return (decode_status_crlf (d\<lparr>rd_stage := PS_StatusCrlf\<rparr>) buffer) header_phase_with_init"

definition reason_phase :: "ResponseDecoder \<Rightarrow> bytes \<Rightarrow> (ResponsePart \<times> bytes) step" where
  "reason_phase d buffer =
     get_unparsed_or_return (obind (decode_reason buffer) (\<lambda>u. Ok (u, d\<lparr>rd_stage := PS_Reason\<rparr>)))
       status_crlf_phase"

definition status_code_phase :: "ResponseDecoder \<Rightarrow> bytes \<Rightarrow> (ResponsePart \<times> bytes) step" where
  "status_code_phase d buffer =
     (let d = d\<lparr>rd_stage := PS_StatusCode\<rparr> in
      obind (status_token buffer) (\<lambda>t.
        case t of
          Complete (code, unparsed) \<Rightarrow>
            let (code, d) = take_value d code in
            obind (map_err (\<lambda>_. EK_H1 InvalidResponse) (StatusCode_from_bytes code)) (\<lambda>status.
              reason_phase (d\<lparr>rd_status_code := Some status\<rparr>) unparsed)
        | Partial rest \<Rightarrow> Ok (None, d\<lparr>rd_rest := rd_rest d @ rest\<rparr>)))"

definition version_phase :: "ResponseDecoder \<Rightarrow> bytes \<Rightarrow> (ResponsePart \<times> bytes) step" where
  "version_phase d buffer =
     (let d = d\<lparr>rd_stage := PS_Version\<rparr> in
      obind (status_token buffer) (\<lambda>t.
        case t of
          Complete (version, unparsed) \<Rightarrow>
            let (version, d) = take_value d version in
            if version = into_bytes ''HTTP/1.0'' then status_code_phase (d\<lparr>rd_version := Some HTTP1_0\<rparr>) unparsed
            else if version = into_bytes ''HTTP/1.1'' then status_code_phase (d\<lparr>rd_version := Some HTTP1_1\<rparr>) unparsed
            else invalid_response
        | Partial rest \<Rightarrow> Ok (None, d\<lparr>rd_rest := rd_rest d @ rest\<rparr>)))"

definition ResponseDecoder_decode :: "ResponseDecoder \<Rightarrow> bytes \<Rightarrow> (ResponsePart \<times> bytes) step" where
  "ResponseDecoder_decode d buf =
     (case rd_stage d of
        PS_Initial \<Rightarrow> version_phase d buf
      | PS_Version \<Rightarrow> version_phase d buf
      | PS_StatusCode \<Rightarrow> status_code_phase d buf
      | PS_Reason \<Rightarrow> reason_phase d buf
      | PS_StatusCrlf \<Rightarrow> status_crlf_phase d buf
      | PS_Header _ \<Rightarrow> header_phase d buf
      | PS_BlankLine \<Rightarrow> blank_line_phase d buf)"

end
