(* ===== verification/Chunk_Decoder.thy ===== *)
theory Chunk_Decoder
  imports Headers
begin

text \<open>
  The decoder of chunked bodies (\<^verbatim>\<open>body/chunk.rs\<close>, \<^verbatim>\<open>ChunkBodyDecoder\<close>): a state machine over the stages of a chunk
  that takes the body in segments and returns the pieces of chunks that it finds in each of them. Slices of the
  input are lists; \<^verbatim>\<open>usize\<close> is \<open>nat\<close>, and the chunk size, an \<^verbatim>\<open>i64\<close> with checked arithmetic, is an \<open>int\<close>.
\<close>

section \<open>State\<close>

datatype ChunkStage =
  ST_Size | ST_Extension | ST_SizeEnd | ST_Data | ST_DataEnd | ST_TrailerCrlf | ST_TrailerData | ST_TrailerEndCrlf

type_synonym ChunkExt = "(string \<times> string) list"

datatype ChunkState = CS_MetaSize | CS_MetaExt | CS_MetaCrlf | CS_Data | CS_DataCrlf | CS_Finish

record Chunk =
  ck_id :: nat
  ck_state :: ChunkState
  ck_size :: nat
  ck_extension :: ChunkExt
  ck_data :: bytes
  ck_trailer :: "bytes option"

record ChunkBodyDecoder =
  cd_chunk_num :: nat
  cd_total_size :: nat
  cd_rest_size :: nat
  cd_hex_count :: int
  cd_trailer :: bytes
  cd_cr_meet :: bool
  cd_chunk_flag :: bool
  cd_num_flag :: bool
  cd_is_last_chunk :: bool
  cd_is_chunk_trailer :: bool
  cd_is_trailer :: bool
  cd_is_trailer_crlf :: bool
  cd_stage :: ChunkStage

type_synonym chunk_result = "(Chunk \<times> bytes \<times> ChunkBodyDecoder, ErrorKind) outcome"

definition ChunkBodyDecoder_new :: ChunkBodyDecoder where
  "ChunkBodyDecoder_new =
     \<lparr>cd_chunk_num = 0, cd_total_size = 0, cd_rest_size = 0, cd_hex_count = 0, cd_trailer = [], cd_cr_meet = False,
      cd_chunk_flag = False, cd_num_flag = False, cd_is_last_chunk = False, cd_is_chunk_trailer = False,
      cd_is_trailer = False, cd_is_trailer_crlf = False, cd_stage = ST_Size\<rparr>"

definition contains_trailer :: "ChunkBodyDecoder \<Rightarrow> bool \<Rightarrow> ChunkBodyDecoder" where
  "contains_trailer d contain_trailer = d\<lparr>cd_is_trailer := contain_trailer\<rparr>"

definition sized_chunk :: "bytes \<Rightarrow> bytes option \<Rightarrow> nat \<Rightarrow> ChunkState \<Rightarrow> Chunk" where
  "sized_chunk data trailer sz state =
     \<lparr>ck_id = 0, ck_state = state, ck_size = sz, ck_extension = [], ck_data = data, ck_trailer = trailer\<rparr>"

definition Chunk_is_complete :: "Chunk \<Rightarrow> bool" where
  "Chunk_is_complete c \<longleftrightarrow> ck_state c = CS_Finish"

section \<open>Line ends\<close>

definition decode_cr :: "ChunkBodyDecoder \<Rightarrow> (ChunkBodyDecoder, ErrorKind) outcome" where
  "decode_cr d = (if cd_cr_meet d then Err InvalidInput else Ok (d\<lparr>cd_cr_meet := True\<rparr>))"

definition decode_lf :: "ChunkBodyDecoder \<Rightarrow> (ChunkBodyDecoder, ErrorKind) outcome" where
  "decode_lf d = (if \<not> cd_cr_meet d then Err InvalidInput else Ok (d\<lparr>cd_cr_meet := False\<rparr>))"

text \<open>The loops over the rest of a line; each function of the source is its loop after the change of stage.\<close>

fun skip_last_crlf_loop :: "ChunkBodyDecoder \<Rightarrow> bytes \<Rightarrow> bytes \<Rightarrow> chunk_result" where
  "skip_last_crlf_loop d data [] = Ok (sized_chunk data None (cd_total_size d) CS_DataCrlf, [], d)"
| "skip_last_crlf_loop d data (b # buf) =
     (if b = 0x0D then obind (decode_cr d) (\<lambda>d. skip_last_crlf_loop d data buf)
      else if b = 0x0A then
        obind (decode_lf d) (\<lambda>d.
          Ok (sized_chunk data None (cd_total_size d) CS_Finish, buf, d\<lparr>cd_stage := ST_Size, cd_total_size := 0\<rparr>))
      else Err InvalidInput)"

definition skip_last_crlf :: "ChunkBodyDecoder \<Rightarrow> bytes \<Rightarrow> bytes \<Rightarrow> chunk_result" where
  "skip_last_crlf d data buf = skip_last_crlf_loop (d\<lparr>cd_stage := ST_DataEnd\<rparr>) data buf"

fun skip_trailer_last_crlf_loop :: "ChunkBodyDecoder \<Rightarrow> bytes \<Rightarrow> bytes \<Rightarrow> chunk_result" where
  "skip_trailer_last_crlf_loop d data [] = Ok (sized_chunk [] (Some data) 0 CS_DataCrlf, [], d)"
| "skip_trailer_last_crlf_loop d data (b # buf) =
     (if b = 0x0D then obind (decode_cr d) (\<lambda>d. skip_trailer_last_crlf_loop d data buf)
      else if b = 0x0A then
        obind (decode_lf d) (\<lambda>d.
          if cd_is_last_chunk d
          then Ok (sized_chunk [] (Some []) 0 CS_Finish, buf, d\<lparr>cd_stage := ST_TrailerEndCrlf\<rparr>)
          else Ok (sized_chunk [] (Some data) 0 CS_DataCrlf, buf,
                   d\<lparr>cd_cr_meet := False, cd_is_trailer_crlf := True, cd_stage := ST_TrailerData\<rparr>))
      else Err InvalidInput)"

definition skip_trailer_last_crlf :: "ChunkBodyDecoder \<Rightarrow> bytes \<Rightarrow> bytes \<Rightarrow> chunk_result" where
  "skip_trailer_last_crlf d data buf = skip_trailer_last_crlf_loop (d\<lparr>cd_stage := ST_TrailerEndCrlf\<rparr>) data buf"

section \<open>Data\<close>

definition decode_data :: "ChunkBodyDecoder \<Rightarrow> bytes \<Rightarrow> chunk_result" where
  "decode_data d buf =
     (let d = d\<lparr>cd_stage := ST_Data\<rparr> in
      if buf = [] then Ok (sized_chunk [] None (cd_total_size d) CS_Data, [], d)
      else let rest = cd_rest_size d in
        if length buf \<ge> rest
        then skip_last_crlf (d\<lparr>cd_rest_size := 0, cd_cr_meet := False\<rparr>) (take rest buf) (drop rest buf)
        else Ok (sized_chunk buf None (cd_total_size d) CS_Data, [], d\<lparr>cd_rest_size := cd_rest_size d - length buf\<rparr>))"

text \<open>\<open>seen\<close> is what the loop has passed over, the slice that ends at the current octet.\<close>

fun decode_trailer_data_loop :: "ChunkBodyDecoder \<Rightarrow> bytes \<Rightarrow> bytes \<Rightarrow> chunk_result" where
  "decode_trailer_data_loop d seen [] = Ok (sized_chunk [] (Some seen) 0 CS_Data, [], d\<lparr>cd_is_trailer_crlf := False\<rparr>)"
| "decode_trailer_data_loop d seen (b # buf) =
     (if b = 0x0D then obind (decode_cr d) (\<lambda>d. skip_trailer_last_crlf d seen buf)
      else if b = 0x0A then obind (decode_lf d) (\<lambda>d. skip_trailer_last_crlf d seen (b # buf))
      else decode_trailer_data_loop d (seen @ [b]) buf)"

definition decode_trailer_data :: "ChunkBodyDecoder \<Rightarrow> bytes \<Rightarrow> chunk_result" where
  "decode_trailer_data d buf =
     (let d = d\<lparr>cd_stage := ST_TrailerData\<rparr> in
      case buf of
        [] \<Rightarrow> Ok (sized_chunk [] (Some []) 0 CS_Data, [], d)
      | b # _ \<Rightarrow>
          decode_trailer_data_loop
            (if b = 0x0D \<and> cd_is_trailer_crlf d then d\<lparr>cd_is_last_chunk := True\<rparr> else d) [] buf)"

section \<open>The line of the chunk size\<close>

fun skip_crlf_loop :: "ChunkBodyDecoder \<Rightarrow> bytes \<Rightarrow> chunk_result" where
  "skip_crlf_loop d [] = Ok (sized_chunk [] None (cd_total_size d) CS_MetaCrlf, [], d)"
| "skip_crlf_loop d (b # buf) =
     (if b = 0x0D then obind (decode_cr d) (\<lambda>d. skip_crlf_loop d buf)
      else if b = 0x0A then obind (decode_lf d) (\<lambda>d. decode_data d buf)
      else Err InvalidInput)"

definition skip_crlf :: "ChunkBodyDecoder \<Rightarrow> bytes \<Rightarrow> chunk_result" where
  "skip_crlf d buf = skip_crlf_loop (d\<lparr>cd_stage := ST_SizeEnd\<rparr>) buf"

fun skip_trailer_crlf_loop :: "ChunkBodyDecoder \<Rightarrow> bytes \<Rightarrow> chunk_result" where
  "skip_trailer_crlf_loop d [] = Ok (sized_chunk [] (Some []) (cd_total_size d) CS_MetaCrlf, [], d)"
| "skip_trailer_crlf_loop d (b # buf) =
     (if b = 0x0D then obind (decode_cr d) (\<lambda>d. skip_trailer_crlf_loop d buf)
      else if b = 0x0A then
        obind (decode_lf d) (\<lambda>d. decode_trailer_data (d\<lparr>cd_is_trailer_crlf := True\<rparr>) buf)
      else Err InvalidInput)"

definition skip_trailer_crlf :: "ChunkBodyDecoder \<Rightarrow> bytes \<Rightarrow> chunk_result" where
  "skip_trailer_crlf d buf = skip_trailer_crlf_loop (d\<lparr>cd_stage := ST_TrailerCrlf\<rparr>) buf"

fun skip_chunk_ext :: "ChunkBodyDecoder \<Rightarrow> bytes \<Rightarrow> chunk_result" where
  "skip_chunk_ext d [] = Ok (sized_chunk [] None (cd_total_size d) CS_MetaExt, [], d)"
| "skip_chunk_ext d (b # buf) =
     (if b = 0x0D then obind (decode_cr d) (\<lambda>d. skip_crlf d buf)
      else if b = 0x0A then obind (decode_lf d) (\<lambda>d. skip_crlf d (b # buf))
      else skip_chunk_ext d buf)"

fun skip_trailer_ext :: "ChunkBodyDecoder \<Rightarrow> bytes \<Rightarrow> chunk_result" where
  "skip_trailer_ext d [] = Ok (sized_chunk [] (Some []) (cd_total_size d) CS_MetaExt, [], d)"
| "skip_trailer_ext d (b # buf) =
     (if b = 0x0D then obind (decode_cr d) (\<lambda>d. skip_trailer_crlf d buf)
      else if b = 0x0A then obind (decode_lf d) (\<lambda>d. skip_trailer_crlf d (b # buf))
      else skip_trailer_ext d buf)"

definition skip_extension :: "ChunkBodyDecoder \<Rightarrow> bytes \<Rightarrow> chunk_result" where
  "skip_extension d buf =
     (let d = d\<lparr>cd_stage := ST_Extension\<rparr> in
      if cd_is_chunk_trailer d then skip_trailer_ext d buf else skip_chunk_ext d buf)"

definition decode_special_char :: "ChunkBodyDecoder \<Rightarrow> bytes \<Rightarrow> chunk_result" where
  "decode_special_char d buf =
     (if cd_is_chunk_trailer d then skip_trailer_crlf (d\<lparr>cd_num_flag := False\<rparr>) buf
      else
        let d = d\<lparr>cd_total_size := nat (cd_hex_count d), cd_hex_count := 0, cd_num_flag := False\<rparr> in
        if cd_total_size d = 0 then skip_extension (d\<lparr>cd_is_last_chunk := True\<rparr>) buf
        else skip_extension (d\<lparr>cd_rest_size := cd_total_size d\<rparr>) buf)"

definition I64_MAX :: int where
  "I64_MAX = 2 ^ 63 - 1"

definition hex_to_decimal :: "int \<Rightarrow> int \<Rightarrow> (int, ErrorKind) outcome" where
  "hex_to_decimal count num =
     (if count * 16 > I64_MAX then Err InvalidInput
      else if count * 16 + num > I64_MAX then Err InvalidInput
      else Ok (count * 16 + num))"

text \<open>The value of a digit that is not zero; a zero is looked at together with the octet after it.\<close>

definition hex_digit :: "u8 \<Rightarrow> int option" where
  "hex_digit b =
     (if 0x31 \<le> b \<and> b \<le> 0x39 then Some (uint b - 0x30)
      else if 0x61 \<le> b \<and> b \<le> 0x66 then Some (uint b - 0x61 + 10)
      else if 0x41 \<le> b \<and> b \<le> 0x46 then Some (uint b - 0x41 + 10)
      else None)"

fun decode_size_loop :: "ChunkBodyDecoder \<Rightarrow> bytes \<Rightarrow> chunk_result" where
  "decode_size_loop d [] = Ok (sized_chunk [] None (cd_total_size d) CS_MetaSize, [], d)"
| "decode_size_loop d (b # buf) =
     (if b = 0x30 then
        (if (case buf of [] \<Rightarrow> True | c # _ \<Rightarrow> c \<noteq> 0x3B \<and> c \<noteq> 0x20 \<and> c \<noteq> 0x0D)
         then obind (hex_to_decimal (cd_hex_count d) 0) (\<lambda>n. decode_size_loop (d\<lparr>cd_hex_count := n\<rparr>) buf)
         else if cd_is_trailer d \<and> \<not> cd_chunk_flag d \<and> \<not> cd_num_flag d
         then skip_extension (d\<lparr>cd_is_chunk_trailer := True, cd_num_flag := False\<rparr>) (b # buf)
         else obind (hex_to_decimal (cd_hex_count d) 0) (\<lambda>n. decode_size_loop (d\<lparr>cd_hex_count := n\<rparr>) buf))
      else
        case hex_digit b of
          Some v \<Rightarrow>
            obind (hex_to_decimal (cd_hex_count d) v) (\<lambda>n.
              decode_size_loop (d\<lparr>cd_hex_count := n, cd_chunk_flag := True, cd_num_flag := True\<rparr>) buf)
        | None \<Rightarrow>
            if b = 0x20 \<or> b = 0x09 \<or> b = 0x3B \<or> b = 0x0D \<or> b = 0x0A then decode_special_char d (b # buf)
            else Err InvalidInput)"

definition decode_size :: "ChunkBodyDecoder \<Rightarrow> bytes \<Rightarrow> chunk_result" where
  "decode_size d buf =
     (let d = d\<lparr>cd_stage := ST_Size\<rparr> in
      if buf = [] then Ok (sized_chunk [] None (cd_total_size d) CS_MetaSize, [], d)
      else decode_size_loop (d\<lparr>cd_chunk_flag := False\<rparr>) buf)"

section \<open>Decoding a segment\<close>

definition merge_trailer :: "ChunkBodyDecoder \<Rightarrow> ChunkState \<Rightarrow> bytes \<Rightarrow> ChunkBodyDecoder" where
  "merge_trailer d state trailer =
     (if state = CS_Finish \<or> state = CS_DataCrlf then
        (let t = cd_trailer d @ trailer in d\<lparr>cd_trailer := (if t \<noteq> [] then t @ [0x0D, 0x0A] else t)\<rparr>)
      else d\<lparr>cd_trailer := cd_trailer d @ trailer\<rparr>)"

definition decode_stage :: "ChunkBodyDecoder \<Rightarrow> bytes \<Rightarrow> chunk_result" where
  "decode_stage d remains =
     (case cd_stage d of
        ST_Size \<Rightarrow> decode_size d remains
      | ST_Extension \<Rightarrow> skip_extension d remains
      | ST_SizeEnd \<Rightarrow> skip_crlf d remains
      | ST_Data \<Rightarrow> decode_data d remains
      | ST_DataEnd \<Rightarrow> skip_last_crlf d [] remains
      | ST_TrailerCrlf \<Rightarrow> skip_trailer_crlf d remains
      | ST_TrailerData \<Rightarrow> decode_trailer_data d remains
      | ST_TrailerEndCrlf \<Rightarrow> skip_trailer_last_crlf d [] remains)"

text \<open>The chunk is always pushed; the result says whether the loop ends.\<close>

definition match_decode_result :: "ChunkBodyDecoder \<Rightarrow> Chunk \<Rightarrow> bytes \<Rightarrow> bool \<times> ChunkBodyDecoder" where
  "match_decode_result d chunk remains =
     (if \<not> Chunk_is_complete chunk then
        (if cd_is_chunk_trailer d \<and> (ck_state chunk = CS_Data \<or> ck_state chunk = CS_DataCrlf)
         then (remains = [], d\<lparr>cd_chunk_num := cd_chunk_num d + 1\<rparr>)
         else (True, d))
      else if cd_is_last_chunk d then (True, d\<lparr>cd_is_last_chunk := False, cd_chunk_num := 0\<rparr>)
      else (remains = [], d\<lparr>cd_chunk_num := cd_chunk_num d + 1\<rparr>))"

text \<open>A stage takes at least one octet of a segment that is not empty.\<close>

definition takes_octet :: "bytes \<Rightarrow> chunk_result \<Rightarrow> bool" where
  "takes_octet buf r \<longleftrightarrow> (case r of Ok (_, rest, _) \<Rightarrow> length rest \<le> length buf - 1 | _ \<Rightarrow> True)"

lemma takes_octet_simps [simp]:
  "takes_octet buf (Err e)" "takes_octet buf Panic" "takes_octet buf (Ok (c, [], d))" "takes_octet (b # buf) (Ok (c, buf, d))"
  by (simp_all add: takes_octet_def)

lemma takes_octet_obind: "(\<And>x. m = Ok x \<Longrightarrow> takes_octet buf (f x)) \<Longrightarrow> takes_octet buf (obind m f)"
  by (cases m) simp_all

lemma takes_octet_Cons: "takes_octet buf r \<Longrightarrow> takes_octet (b # buf) r"
  by (auto simp: takes_octet_def split: outcome.splits)

lemma takes_octet_drop: "takes_octet (drop n buf) r \<Longrightarrow> takes_octet buf r"
  by (auto simp: takes_octet_def split: outcome.splits)

lemma skip_last_crlf_takes [simp]: "takes_octet buf (skip_last_crlf d data buf)"
proof -
  have "takes_octet buf (skip_last_crlf_loop d data buf)" for d
    by (induction buf arbitrary: d) (auto intro!: takes_octet_obind simp: takes_octet_Cons)
  then show ?thesis by (simp add: skip_last_crlf_def)
qed

lemma skip_trailer_last_crlf_takes [simp]: "takes_octet buf (skip_trailer_last_crlf d data buf)"
proof -
  have "takes_octet buf (skip_trailer_last_crlf_loop d data buf)" for d
    by (induction buf arbitrary: d) (auto intro!: takes_octet_obind simp: takes_octet_Cons)
  then show ?thesis by (simp add: skip_trailer_last_crlf_def)
qed

lemma decode_data_takes [simp]: "takes_octet buf (decode_data d buf)"
proof -
  have "takes_octet buf (skip_last_crlf d' data (drop n buf))" for d' data n
    by (rule takes_octet_drop [OF skip_last_crlf_takes])
  then show ?thesis by (simp add: decode_data_def Let_def)
qed

lemma decode_trailer_data_takes [simp]: "takes_octet buf (decode_trailer_data d buf)"
proof -
  have "takes_octet buf (decode_trailer_data_loop d seen buf)" for d seen
    by (induction buf arbitrary: d seen) (auto intro!: takes_octet_obind simp: takes_octet_Cons)
  then show ?thesis by (cases buf) (simp_all add: decode_trailer_data_def Let_def del: decode_trailer_data_loop.simps)
qed

lemma skip_crlf_takes [simp]: "takes_octet buf (skip_crlf d buf)"
proof -
  have "takes_octet buf (skip_crlf_loop d buf)" for d
    by (induction buf arbitrary: d) (auto intro!: takes_octet_obind simp: takes_octet_Cons)
  then show ?thesis by (simp add: skip_crlf_def)
qed

lemma skip_trailer_crlf_takes [simp]: "takes_octet buf (skip_trailer_crlf d buf)"
proof -
  have "takes_octet buf (skip_trailer_crlf_loop d buf)" for d
    by (induction buf arbitrary: d) (auto intro!: takes_octet_obind simp: takes_octet_Cons)
  then show ?thesis by (simp add: skip_trailer_crlf_def)
qed

lemma skip_extension_takes [simp]: "takes_octet buf (skip_extension d buf)"
proof -
  have "takes_octet buf (skip_chunk_ext d buf)" "takes_octet buf (skip_trailer_ext d buf)" for d
    by (induction buf arbitrary: d; auto intro!: takes_octet_obind simp: takes_octet_Cons)+
  then show ?thesis by (simp add: skip_extension_def Let_def)
qed

lemma decode_special_char_takes [simp]: "takes_octet buf (decode_special_char d buf)"
  by (simp add: decode_special_char_def Let_def)

lemma decode_size_takes [simp]: "takes_octet buf (decode_size d buf)"
proof -
  have "takes_octet buf (decode_size_loop d buf)" for d
  proof (induction buf arbitrary: d)
    case (Cons b buf)
    then have IH: "takes_octet (b # buf) (decode_size_loop d buf)" for d by (rule takes_octet_Cons)
    show ?case
      unfolding decode_size_loop.simps
      by (cases "hex_digit b"; simp only: option.case if_split; intro conjI impI takes_octet_obind IH skip_extension_takes
          decode_special_char_takes takes_octet_simps)
  qed simp
  then show ?thesis by (simp add: decode_size_def Let_def)
qed

lemma decode_stage_takes: "takes_octet buf (decode_stage d buf)"
  by (simp add: decode_stage_def split: ChunkStage.split)

lemma decode_stage_rest: "decode_stage d buf = Ok (c, rest, d') \<Longrightarrow> length rest \<le> length buf - 1"
  using decode_stage_takes [of buf d] by (simp add: takes_octet_def)

lemma match_decode_result_continues: "match_decode_result d c remains = (False, d') \<Longrightarrow> 0 < length remains"
  by (auto simp: match_decode_result_def split: if_splits)

lemma decode_chunks_loop_decreases:
  assumes "decode_stage d remains = Ok (c, rest, d1)" "(False, d3) = match_decode_result d2 c2 rest"
  shows "length rest < length remains"
  using decode_stage_rest [OF assms(1)] match_decode_result_continues [OF assms(2) [symmetric]] by linarith

function decode_chunks_loop ::
  "ChunkBodyDecoder \<Rightarrow> Chunk list \<Rightarrow> bytes \<Rightarrow> (Chunk list \<times> bytes \<times> ChunkBodyDecoder, ErrorKind) outcome" where
  "decode_chunks_loop d results remains =
     (case decode_stage d remains of
        Ok (chunk, rest, d1) \<Rightarrow>
          let chunk = chunk\<lparr>ck_id := cd_chunk_num d1\<rparr>;
              d2 = (case ck_trailer chunk of Some t \<Rightarrow> merge_trailer d1 (ck_state chunk) t | None \<Rightarrow> d1) in
          (case match_decode_result d2 chunk rest of
             (True, d3) \<Rightarrow> Ok (results @ [chunk], rest, d3)
           | (False, d3) \<Rightarrow> decode_chunks_loop d3 (results @ [chunk]) rest)
      | Err e \<Rightarrow> Err e
      | Panic \<Rightarrow> Panic)"
  by pat_completeness auto
termination
proof (relation "measure (\<lambda>(_, _, remains). length remains)", goal_cases)
  case 1
  show ?case by simp
next
  case 2
  then show ?case by (auto intro: decode_chunks_loop_decreases)
qed

definition ChunkBodyDecoder_decode ::
  "ChunkBodyDecoder \<Rightarrow> bytes \<Rightarrow> (Chunk list \<times> bytes \<times> ChunkBodyDecoder, ErrorKind) outcome" where
  "ChunkBodyDecoder_decode d buf = decode_chunks_loop d [] buf"

section \<open>Trailers\<close>

definition trim_blanks :: "bytes \<Rightarrow> bytes" where
  "trim_blanks v =
     (let blank = (\<lambda>b. b = 0x20 \<or> b = 0x09);
          v = (if list_all blank v then v else dropWhile blank v)
      in if list_all blank v then v else rev (dropWhile blank (rev v)))"

fun get_trailer_loop ::
  "bytes \<Rightarrow> nat \<Rightarrow> bytes \<Rightarrow> nat \<Rightarrow> nat \<Rightarrow> HeaderName \<Rightarrow> Headers \<Rightarrow> (Headers, ErrorKind) outcome" where
  "get_trailer_loop t i [] colon lf name headers = Ok headers"
| "get_trailer_loop t i (b # bs) colon lf name headers =
     (if b = 0x20 then get_trailer_loop t (i + 1) bs colon lf name headers
      else if b = 0x3A \<and> colon = 0 then
        obind (slice t (if lf = 0 then 0 else lf + 1) i) (\<lambda>trailer_name.
        obind (HeaderName_from_bytes trailer_name) (\<lambda>name.
          get_trailer_loop t (i + 1) bs i lf name headers))
      else if b = 0x0A then
        obind (usize_sub i 2) (\<lambda>i2.
        obind (usize_sub i 1) (\<lambda>i1.
        obind (slice t i2 i1) (\<lambda>before.
          if before = [0x0A] then Ok headers
          else
            obind (slice t (colon + 1) i1) (\<lambda>v.
            obind (HeaderValue_from_bytes (trim_blanks v)) (\<lambda>v.
              get_trailer_loop t (i + 1) bs 0 i name (AList.update name v headers))))))
      else get_trailer_loop t (i + 1) bs colon lf name headers)"

definition ChunkBodyDecoder_get_trailer :: "ChunkBodyDecoder \<Rightarrow> (Headers option, ErrorKind) outcome" where
  "ChunkBodyDecoder_get_trailer d =
     (if cd_trailer d = [] then Ok None
      else
        obind (HeaderName_from_bytes []) (\<lambda>name.
        obind (get_trailer_loop (cd_trailer d) 0 (cd_trailer d) 0 0 name Headers_new) (\<lambda>headers.
          Ok (Some headers))))"

end
