(* ===== verification/H1_Sync_Client.thy ===== *)
theory H1_Sync_Client
  imports H1_Request_Encoder H1_Response Chunk_Decoder
begin

text \<open>
  A request over an HTTP/1.1 connection in the synchronous client (\<^verbatim>\<open>sync_impl/conn/http1.rs\<close>,
  \<^verbatim>\<open>sync_impl/http_body.rs\<close>, \<^verbatim>\<open>body/text.rs\<close>): the request is encoded and sent through one buffer together with
  its body, the head of the response is decoded, and the body of the response is chosen by its headers and read. The
  connection and the body of the request are parameters: a state of type \<open>'w\<close> with reading, writing and shutting
  down, and a state of type \<open>'b\<close> with reading. The loops may run forever, and then have no result.
\<close>

section \<open>Parameters\<close>

datatype ClientErrorKind =
    CE_BodyDecode | CE_BodyTransfer | CE_Build | CE_Connect | CE_ConnectionUpgrade | CE_Other | CE_Redirect | CE_Request
  | CE_Timeout | CE_UserAborted

text \<open>\<open>False\<close> and \<open>None\<close> are the errors of the connection; reading takes the size of the buffer.\<close>

record 'w stream_io =
  io_write_all :: "bytes \<Rightarrow> 'w \<Rightarrow> bool \<times> 'w"
  io_read :: "nat \<Rightarrow> 'w \<Rightarrow> bytes option \<times> 'w"
  io_shutdown :: "'w \<Rightarrow> 'w"

section \<open>Bodies of a known length\<close>

record TextBodyDecoder =
  tb_left :: u64

datatype TextState = TS_Partial | TS_Complete

record Text =
  tx_state :: TextState
  tx_data :: bytes

definition TextBodyDecoder_new :: "u64 \<Rightarrow> TextBodyDecoder" where
  "TextBodyDecoder_new length' = \<lparr>tb_left = length'\<rparr>"

definition Text_is_complete :: "Text \<Rightarrow> bool" where
  "Text_is_complete t \<longleftrightarrow> tx_state t = TS_Complete"

definition TextBodyDecoder_decode :: "TextBodyDecoder \<Rightarrow> bytes \<Rightarrow> (Text \<times> bytes) \<times> TextBodyDecoder" where
  "TextBodyDecoder_decode d buf =
     (if tb_left d = 0 then ((\<lparr>tx_state = TS_Complete, tx_data = take 0 buf\<rparr>, buf), d)
      else
        let end' = min (unat (tb_left d)) (length buf);
            d = d\<lparr>tb_left := tb_left d - of_nat end'\<rparr> in
        if tb_left d = 0 then ((\<lparr>tx_state = TS_Complete, tx_data = take end' buf\<rparr>, drop end' buf), d)
        else ((\<lparr>tx_state = TS_Partial, tx_data = take end' buf\<rparr>, drop end' buf), d))"

text \<open>
  The body that a response has. \<open>pre\<close> is what was read together with the head, from the place of the cursor;
  \<open>io\<close> says whether the connection is still there.
\<close>

record TextBody =
  tbo_decoder :: TextBodyDecoder
  tbo_pre :: "bytes option"
  tbo_io :: bool

record ChunkBody =
  cbo_decoder :: ChunkBodyDecoder
  cbo_pre :: "bytes option"
  cbo_io :: bool

datatype HttpBody = HB_Empty | HB_Text TextBody | HB_Chunk ChunkBody

definition HttpBody_text :: "u64 \<Rightarrow> bytes \<Rightarrow> HttpBody" where
  "HttpBody_text len pre =
     HB_Text \<lparr>tbo_decoder = TextBodyDecoder_new len, tbo_pre = (if pre \<noteq> [] then Some pre else None), tbo_io = True\<rparr>"

definition HttpBody_chunk :: "bytes \<Rightarrow> bool \<Rightarrow> HttpBody" where
  "HttpBody_chunk pre is_trailer =
     HB_Chunk \<lparr>cbo_decoder = contains_trailer ChunkBodyDecoder_new is_trailer,
               cbo_pre = (if pre \<noteq> [] then Some pre else None), cbo_io = True\<rparr>"

text \<open>The part of \<^verbatim>\<open>Text::data\<close> that reads from the connection; \<open>filled\<close> is in the buffer already.\<close>

definition Text_read_io ::
  "'w stream_io \<Rightarrow> TextBody \<Rightarrow> nat \<Rightarrow> bytes \<Rightarrow> 'w \<Rightarrow> ((bytes \<times> TextBody, ClientErrorKind) outcome \<times> 'w)" where
  "Text_read_io io t buf filled w =
     (if length filled < buf \<and> tbo_io t then
        let t = t\<lparr>tbo_io := False\<rparr> in
        case io_read io (buf - length filled) w of
          (Some [], w) \<Rightarrow> (Err CE_BodyDecode, io_shutdown io w)
        | (Some got, w) \<Rightarrow>
            (case TextBodyDecoder_decode (tbo_decoder t) got of
               ((text, rem), d) \<Rightarrow>
                 let t = t\<lparr>tbo_decoder := d\<rparr> in
                 if Text_is_complete text \<and> rem \<noteq> [] then (Err CE_BodyDecode, io_shutdown io w)
                 else if Text_is_complete text then (Ok (filled @ got, t), w)
                 else (Ok (filled @ got, t\<lparr>tbo_io := True\<rparr>), w))
        | (None, w) \<Rightarrow> (Err CE_BodyTransfer, w)
      else (Ok (filled, t), w))"

definition Text_data ::
  "'w stream_io \<Rightarrow> TextBody \<Rightarrow> nat \<Rightarrow> 'w \<Rightarrow> ((bytes \<times> TextBody, ClientErrorKind) outcome \<times> 'w)" where
  "Text_data io t buf w =
     (if buf = 0 then (Ok ([], t), w)
      else
        case tbo_pre t of
          None \<Rightarrow> Text_read_io io t buf [] w
        | Some [] \<Rightarrow> Text_read_io io (t\<lparr>tbo_pre := None\<rparr>) buf [] w
        | Some pre \<Rightarrow>
            let filled = take buf pre; t = t\<lparr>tbo_pre := Some (drop buf pre)\<rparr> in
            (case TextBodyDecoder_decode (tbo_decoder t) filled of
               ((text, rem), d) \<Rightarrow>
                 let t = t\<lparr>tbo_decoder := d\<rparr> in
                 if Text_is_complete text \<and> rem \<noteq> []
                 then (Err CE_BodyDecode, if tbo_io t then io_shutdown io w else w)
                 else if Text_is_complete text then (Ok (filled, t\<lparr>tbo_io := False\<rparr>), w)
                 else Text_read_io io t buf filled w))"

section \<open>Chunked bodies\<close>

text \<open>
  The data of the chunks is moved to the front of the buffer. A chunk of size zero ends the body, except while its size
  is being read; with a trailer, the end of the trailer does.
\<close>

fun merge_chunks_loop :: "Chunk list \<Rightarrow> bytes \<Rightarrow> bool \<Rightarrow> bytes \<times> bool" where
  "merge_chunks_loop [] data finished = (data, finished)"
| "merge_chunks_loop (chunk # chunks) data finished =
     (if ck_trailer chunk \<noteq> None then
        merge_chunks_loop chunks data (if ck_state chunk = CS_Finish then True else finished)
      else if ck_size chunk = 0 \<and> ck_state chunk \<noteq> CS_MetaSize then (data, True)
      else merge_chunks_loop chunks (data @ ck_data chunk) finished)"

definition merge_chunks :: "ChunkBody \<Rightarrow> bytes \<Rightarrow> ((bytes \<times> bool) \<times> ChunkBody, ClientErrorKind) outcome" where
  "merge_chunks c buf =
     (case ChunkBodyDecoder_decode (cbo_decoder c) buf of
        Ok (chunks, junk, d) \<Rightarrow>
          (case merge_chunks_loop chunks [] False of
             (data, finished) \<Rightarrow>
               if finished \<and> junk \<noteq> [] then Err CE_BodyDecode
               else Ok ((data, finished), c\<lparr>cbo_decoder := d\<rparr>))
      | Err _ \<Rightarrow> Err CE_BodyDecode
      | Panic \<Rightarrow> Panic)"

lemma merge_chunks_pre: "merge_chunks c buf = Ok (r, c') \<Longrightarrow> cbo_pre c' = cbo_pre c \<and> cbo_io c' = cbo_io c"
  by (auto simp: merge_chunks_def split: outcome.splits if_splits prod.splits)

text \<open>The loops of \<^verbatim>\<open>Chunk::data\<close>, over what was read together with the head and over the connection.\<close>

function Chunk_data_pre :: "ChunkBody \<Rightarrow> nat \<Rightarrow> (bytes option \<times> ChunkBody, ClientErrorKind) outcome" where
  "Chunk_data_pre c buf =
     (case cbo_pre c of
        None \<Rightarrow> Ok (None, c)
      | Some pre \<Rightarrow>
          let got = take buf pre;
              c1 = c\<lparr>cbo_pre := (if got = [] then None else Some (drop buf pre))\<rparr> in
          (case merge_chunks c1 got of
             Ok ((data, flag), c2) \<Rightarrow>
               if flag then Ok (Some data, c2\<lparr>cbo_io := False\<rparr>)
               else if data \<noteq> [] then Ok (Some data, c2)
               else Chunk_data_pre c2 buf
           | Err e \<Rightarrow> Err e
           | Panic \<Rightarrow> Panic))"
  by pat_completeness auto
termination
  by (relation "measure (\<lambda>(c, _). case cbo_pre c of None \<Rightarrow> 0 | Some pre \<Rightarrow> Suc (length pre))")
    (auto dest!: merge_chunks_pre split: if_splits)

partial_function (option) Chunk_data_io ::
  "'w stream_io \<Rightarrow> ChunkBody \<Rightarrow> nat \<Rightarrow> 'w \<Rightarrow> ((bytes \<times> ChunkBody, ClientErrorKind) outcome \<times> 'w) option" where
  [code]: "Chunk_data_io io c buf w =
     (if \<not> cbo_io c then Some (Ok ([], c), w)
      else
        case io_read io buf w of
          (Some [], w) \<Rightarrow> Some (Err CE_BodyDecode, io_shutdown io w)
        | (Some filled, w) \<Rightarrow>
            (case merge_chunks (c\<lparr>cbo_io := False\<rparr>) filled of
               Ok ((data, flag), c) \<Rightarrow>
                 if flag then Some (Ok (data, c), w)
                 else if data \<noteq> [] then Some (Ok (data, c\<lparr>cbo_io := True\<rparr>), w)
                 else Chunk_data_io io (c\<lparr>cbo_io := True\<rparr>) buf w
             | Err e \<Rightarrow> Some (Err e, w)
             | Panic \<Rightarrow> Some (Panic, w))
        | (None, w) \<Rightarrow> Some (Err CE_BodyTransfer, w))"

definition Chunk_data ::
  "'w stream_io \<Rightarrow> ChunkBody \<Rightarrow> nat \<Rightarrow> 'w \<Rightarrow> ((bytes \<times> ChunkBody, ClientErrorKind) outcome \<times> 'w) option" where
  "Chunk_data io c buf w =
     (if buf = 0 then Some (Ok ([], c), w)
      else
        case Chunk_data_pre c buf of
          Ok (Some data, c) \<Rightarrow> Some (Ok (data, c), w)
        | Ok (None, c) \<Rightarrow> Chunk_data_io io c buf w
        | Err e \<Rightarrow> Some (Err e, w)
        | Panic \<Rightarrow> Some (Panic, w))"

definition HttpBody_data ::
  "'w stream_io \<Rightarrow> HttpBody \<Rightarrow> nat \<Rightarrow> 'w \<Rightarrow> ((bytes \<times> HttpBody, ClientErrorKind) outcome \<times> 'w) option" where
  "HttpBody_data io body buf w =
     (if buf = 0 then Some (Ok ([], body), w)
      else
        case body of
          HB_Empty \<Rightarrow> Some (Ok ([], body), w)
        | HB_Text text \<Rightarrow>
            (case Text_data io text buf w of
               (r, w) \<Rightarrow> Some (obind r (\<lambda>(out, t). Ok (out, HB_Text t)), w))
        | HB_Chunk chunk \<Rightarrow>
            map_option (\<lambda>(r, w). (obind r (\<lambda>(out, c). Ok (out, HB_Chunk c)), w)) (Chunk_data io chunk buf w))"

definition HttpBody_trailer :: "HttpBody \<Rightarrow> (Headers option, ClientErrorKind) outcome" where
  "HttpBody_trailer body =
     (case body of
        HB_Chunk chunk \<Rightarrow> map_err (\<lambda>_. CE_BodyDecode) (ChunkBodyDecoder_get_trailer (cbo_decoder chunk))
      | _ \<Rightarrow> Ok None)"

section \<open>Sending a request\<close>

definition TEMP_BUF_SIZE :: nat where
  "TEMP_BUF_SIZE = 16 * 1024"

definition request_part_encoder :: "RequestPart \<Rightarrow> RequestRefEncoder" where
  "request_part_encoder part = RequestRefEncoder_new part"

text \<open>\<open>buf\<close> is the written part of the buffer; it is sent when the buffer is full.\<close>

definition flush_full :: "'w stream_io \<Rightarrow> bytes \<Rightarrow> 'w \<Rightarrow> (bytes, ClientErrorKind) outcome \<times> 'w" where
  "flush_full io buf w =
     (if length buf = TEMP_BUF_SIZE then
        (case io_write_all io buf w of (ok, w) \<Rightarrow> (if ok then Ok [] else Err CE_Request, w))
      else (Ok buf, w))"

partial_function (option) encode_part_loop ::
  "'w stream_io \<Rightarrow> RequestRefEncoder \<Rightarrow> bytes \<Rightarrow> 'w \<Rightarrow> ((bytes, ClientErrorKind) outcome \<times> 'w) option" where
  [code]: "encode_part_loop io enc buf w =
     (case flush_full io buf w of
        (Ok buf, w) \<Rightarrow>
          (case RequestRefEncoder_encode enc (TEMP_BUF_SIZE - length buf) of
             None \<Rightarrow> None
           | Some (Ok (out, enc)) \<Rightarrow>
               if out = [] then Some (Ok buf, w) else encode_part_loop io enc (buf @ out) w
           | Some (Err _) \<Rightarrow> Some (Err CE_Request, w)
           | Some Panic \<Rightarrow> Some (Panic, w))
      | (r, w) \<Rightarrow> Some (r, w))"

text \<open>The loop ends when the body has no more data; what does not fill the buffer stays in it.\<close>

partial_function (option) encode_body_loop ::
  "'w stream_io \<Rightarrow> (nat \<Rightarrow> 'b \<Rightarrow> (bytes \<times> 'b) option) \<Rightarrow> 'b \<Rightarrow> bytes \<Rightarrow> 'w \<Rightarrow>
   ((bytes \<times> 'b, ClientErrorKind) outcome \<times> 'w) option" where
  [code]: "encode_body_loop io data b buf w =
     (if length buf < TEMP_BUF_SIZE then
        (case data (TEMP_BUF_SIZE - length buf) b of
           None \<Rightarrow> Some (Err CE_BodyTransfer, w)
         | Some (out, b) \<Rightarrow>
             (case flush_full io (buf @ out) w of
                (Ok buf, w) \<Rightarrow> if out = [] then Some (Ok (buf, b), w) else encode_body_loop io data b buf w
              | (Err e, w) \<Rightarrow> Some (Err e, w)
              | (Panic, w) \<Rightarrow> Some (Panic, w)))
      else
        (case flush_full io buf w of
           (Ok buf, w) \<Rightarrow> encode_body_loop io data b buf w
         | (Err e, w) \<Rightarrow> Some (Err e, w)
         | (Panic, w) \<Rightarrow> Some (Panic, w)))"

definition send_request ::
  "'w stream_io \<Rightarrow> (nat \<Rightarrow> 'b \<Rightarrow> (bytes \<times> 'b) option) \<Rightarrow> RequestPart \<Rightarrow> 'b \<Rightarrow> bool \<Rightarrow> 'w \<Rightarrow>
   ((unit, ClientErrorKind) outcome \<times> 'w) option" where
  "send_request io data part b is_proxy w =
     (let enc = request_part_encoder part;
          enc = (if is_proxy \<and> ur_scheme (rq_uri part) = Some Http then RequestRefEncoder_absolute_uri enc True else enc) in
      case encode_part_loop io enc [] w of
        None \<Rightarrow> None
      | Some (Err e, w) \<Rightarrow> Some (Err e, w)
      | Some (Panic, w) \<Rightarrow> Some (Panic, w)
      | Some (Ok buf, w) \<Rightarrow>
          (case encode_body_loop io data b buf w of
             None \<Rightarrow> None
           | Some (Err e, w) \<Rightarrow> Some (Err e, w)
           | Some (Panic, w) \<Rightarrow> Some (Panic, w)
           | Some (Ok (buf, _), w) \<Rightarrow>
               if buf \<noteq> [] then
                 (case io_write_all io buf w of (ok, w) \<Rightarrow> Some (if ok then Ok () else Err CE_Request, w))
               else Some (Ok (), w)))"

section \<open>Receiving the response\<close>

partial_function (option) decode_response_loop ::
  "'w stream_io \<Rightarrow> ResponseDecoder \<Rightarrow> 'w \<Rightarrow> ((ResponsePart \<times> bytes, ClientErrorKind) outcome \<times> 'w) option" where
  [code]: "decode_response_loop io d w =
     (case io_read io TEMP_BUF_SIZE w of
        (None, w) \<Rightarrow> Some (Err CE_Request, w)
      | (Some got, w) \<Rightarrow>
          (case ResponseDecoder_decode d got of
             Ok (None, d) \<Rightarrow> decode_response_loop io d w
           | Ok (Some (part, rem), d) \<Rightarrow> Some (Ok (part, rem), w)
           | Err _ \<Rightarrow> Some (Err CE_Request, w)
           | Panic \<Rightarrow> Some (Panic, w)))"

text \<open>\<^verbatim>\<open>str::find\<close> of a word, and \<^verbatim>\<open>str::parse::<u64>\<close>, which takes a leading plus.\<close>

fun find_word :: "string \<Rightarrow> string \<Rightarrow> bool" where
  "find_word word [] = (word = [])"
| "find_word word (c # s) = (take (length word) (c # s) = word \<or> find_word word s)"

fun parse_u64_digits :: "nat \<Rightarrow> bytes \<Rightarrow> nat option" where
  "parse_u64_digits n [] = Some n"
| "parse_u64_digits n (b # bs) =
     (if 0x30 \<le> b \<and> b \<le> 0x39 \<and> n * 10 + unat (b - 0x30) < 2 ^ 64
      then parse_u64_digits (n * 10 + unat (b - 0x30)) bs else None)"

definition parse_u64 :: "string \<Rightarrow> u64 option" where
  "parse_u64 s =
     map_option of_nat
       (case into_bytes s of
          [] \<Rightarrow> None
        | b # bs \<Rightarrow> if b = 0x2B \<and> bs \<noteq> [] then parse_u64_digits 0 bs else parse_u64_digits 0 (b # bs))"

definition header_text :: "ResponsePart \<Rightarrow> string \<Rightarrow> string option" where
  "header_text part name =
     map_option (\<lambda>v. case HeaderValue_to_string v of Ok s \<Rightarrow> s | _ \<Rightarrow> []) (Headers_get (rp_headers part) name)"

definition response_body :: "ResponsePart \<Rightarrow> bytes \<Rightarrow> (HttpBody, ClientErrorKind) outcome" where
  "response_body part pre =
     (let chunked = (case header_text part ''Transfer-Encoding'' of Some s \<Rightarrow> find_word ''chunked'' s | None \<Rightarrow> False);
          content_length = Option.bind (header_text part ''Content-Length'') parse_u64;
          is_trailer = (Headers_get (rp_headers part) ''Trailer'' \<noteq> None) in
      case (chunked, content_length, pre = []) of
        (True, None, _) \<Rightarrow> Ok (HttpBody_chunk pre is_trailer)
      | (False, Some len, _) \<Rightarrow> Ok (HttpBody_text len pre)
      | (False, None, True) \<Rightarrow> Ok HB_Empty
      | _ \<Rightarrow> Err CE_Request)"

definition http1_request ::
  "'w stream_io \<Rightarrow> (nat \<Rightarrow> 'b \<Rightarrow> (bytes \<times> 'b) option) \<Rightarrow> RequestPart \<Rightarrow> 'b \<Rightarrow> bool \<Rightarrow> 'w \<Rightarrow>
   ((ResponsePart \<times> HttpBody, ClientErrorKind) outcome \<times> 'w) option" where
  "http1_request io data part b is_proxy w =
     (case send_request io data part b is_proxy w of
        None \<Rightarrow> None
      | Some (Err e, w) \<Rightarrow> Some (Err e, w)
      | Some (Panic, w) \<Rightarrow> Some (Panic, w)
      | Some (Ok _, w) \<Rightarrow>
          (case decode_response_loop io ResponseDecoder_new w of
             None \<Rightarrow> None
           | Some (Err e, w) \<Rightarrow> Some (Err e, w)
           | Some (Panic, w) \<Rightarrow> Some (Panic, w)
           | Some (Ok (rpart, pre), w) \<Rightarrow>
               Some (obind (response_body rpart pre) (\<lambda>body. Ok (rpart, body)), w)))"

end
