(* ===== verification/Uri_Properties.thy ===== *)
theory Uri_Properties
  imports Uri
begin

text \<open>
  What is proved of URIs: the tokens as the longest beginnings without the octets that end them, the round trip of
  reading and printing, and that a URI that is read or built is well formed.
\<close>

lemma from_utf8_unchecked_empty [simp]: "from_utf8_unchecked bs = [] \<longleftrightarrow> bs = []"
  by (simp add: from_utf8_unchecked_def)

lemma into_bytes_empty [simp]: "into_bytes s = [] \<longleftrightarrow> s = []"
  by (simp add: into_bytes_def)

lemma into_bytes_simps [simp]:
  "into_bytes (s @ t) = into_bytes s @ into_bytes t" "into_bytes (c # s) = byte_of_char c # into_bytes s"
  "into_bytes [] = []"
  by (simp_all add: into_bytes_def)

lemma byte_of_delimiter [simp]: "byte_of_char (CHR '':'') = 0x3A" "byte_of_char (CHR ''?'') = 0x3F"
  by (simp_all add: byte_of_char_def)

section \<open>What the tokens are\<close>

text \<open>
  Each token is the longest beginning of the octets without the octets that end it. The path and the query take any
  octets of their kind; the authority is read by a loop, which sees only its own octets.
\<close>

definition ends_authority :: "u8 \<Rightarrow> bool" where
  "ends_authority b \<longleftrightarrow> b = 0x2F \<or> b = 0x3F \<or> b = 0x23"

definition ends_path :: "u8 \<Rightarrow> bool" where
  "ends_path b \<longleftrightarrow> b = 0x3F \<or> b = 0x23"

definition query_octet :: "u8 \<Rightarrow> bool" where
  "query_octet b \<longleftrightarrow> b = 0x3F \<or> b = 0x60 \<or> b = 0x7B \<or> b = 0x7D \<or> PATH_AND_QUERY_BYTES ! unat b"

definition free_of :: "(u8 \<Rightarrow> bool) \<Rightarrow> bytes \<Rightarrow> bool" where
  "free_of P bs \<longleftrightarrow> list_all (\<lambda>b. \<not> P b) bs"

definition begins_with :: "(u8 \<Rightarrow> bool) \<Rightarrow> bytes \<Rightarrow> bool" where
  "begins_with P bs \<longleftrightarrow> bs = [] \<or> P (hd bs)"

lemma before_ends:
  obtains x r where "bs = x @ r" "free_of P x" "begins_with P r"
proof
  show "bs = takeWhile (\<lambda>b. \<not> P b) bs @ dropWhile (\<lambda>b. \<not> P b) bs" by simp
  show "free_of P (takeWhile (\<lambda>b. \<not> P b) bs)" by (auto simp: free_of_def list_all_iff dest: set_takeWhileD)
  show "begins_with P (dropWhile (\<lambda>b. \<not> P b) bs)" using hd_dropWhile [of "\<lambda>b. \<not> P b" bs]
    by (auto simp: begins_with_def)
qed

lemma authority_loop_append:
  assumes "free_of ends_authority a"
  shows "authority_loop i (a @ c) n l r =
    obind (authority_loop i a n l r) (\<lambda>(e, n, l, r). authority_loop e c n l r)"
  using assms by (induction a arbitrary: i n l r) (simp_all add: free_of_def ends_authority_def)

lemma authority_loop_stop:
  assumes "begins_with ends_authority c"
  shows "authority_loop i c n l r = Ok (i, n, l, r)"
  using assms by (cases c) (auto simp: begins_with_def ends_authority_def)

lemma authority_loop_end:
  assumes "free_of ends_authority a"
  shows "authority_loop i a n l r = Ok (e, n', l', r') \<Longrightarrow> e = i + length a"
  using assms
  by (induction i a n l r rule: authority_loop.induct) (auto simp: free_of_def ends_authority_def split: if_splits)

lemma authority_token_append:
  assumes "free_of ends_authority x" "begins_with ends_authority r"
  shows "authority_token (x @ r) = obind (authority_token x) (\<lambda>(a, _). Ok (a, r))"
proof (cases "authority_loop 0 x 0 False False")
  case (Ok v)
  moreover obtain e n l r' where v: "v = (e, n, l, r')" by (cases v)
  moreover have "e = length x" using authority_loop_end [OF assms(1)] Ok v by fastforce
  ultimately show ?thesis
    by (auto simp: authority_token_def authority_loop_append [OF assms(1)] authority_loop_stop [OF assms(2)]
        authority_parse_def obind_assoc split: outcome.splits)
qed (simp_all add: authority_token_def authority_loop_append [OF assms(1)])

lemma path_loop_eq:
  "path_loop i bs =
    (if list_all (\<lambda>b. PATH_AND_QUERY_BYTES ! unat b) (takeWhile (\<lambda>b. \<not> ends_path b) bs)
     then Ok (i + length (takeWhile (\<lambda>b. \<not> ends_path b) bs)) else Err InvalidByte)"
  by (induction i bs rule: path_loop.induct) (simp_all add: ends_path_def)

lemma query_loop_eq:
  "query_loop i bs =
    (if list_all query_octet (takeWhile (\<lambda>b. b \<noteq> 0x23) bs)
     then Ok (i + length (takeWhile (\<lambda>b. b \<noteq> 0x23) bs)) else Err InvalidByte)"
  by (induction i bs rule: query_loop.induct) (simp_all add: query_octet_def)

lemma takeWhile_append_begins:
  assumes "free_of P x" "begins_with P r"
  shows "takeWhile (\<lambda>b. \<not> P b) (x @ r) = x"
  using assms by (cases r) (simp_all add: free_of_def begins_with_def list_all_iff takeWhile_append2)

definition text_opt :: "bytes \<Rightarrow> string option" where
  "text_opt bs = (if bs = [] then None else Some (from_utf8_unchecked bs))"

lemma path_token_append:
  assumes "free_of ends_path y" "begins_with ends_path r"
  shows "path_token (y @ r) =
    (if list_all (\<lambda>b. PATH_AND_QUERY_BYTES ! unat b) y then Ok (text_opt y, r) else Err InvalidByte)"
  by (simp add: path_token_def path_loop_eq takeWhile_append_begins [OF assms] text_opt_def)

lemma query_token_append:
  assumes "free_of (\<lambda>b. b = 0x23) z" "begins_with (\<lambda>b. b = 0x23) r"
  shows "query_token (z @ r) = (if list_all query_octet z then Ok (text_opt z) else Err InvalidByte)"
  using takeWhile_append_begins [OF assms] by (auto simp: query_token_def query_loop_eq text_opt_def)

section \<open>Printing what was read\<close>

text \<open>What is printed of an authority, and that it is read as the same authority.\<close>

definition authority_octets :: "Authority option \<Rightarrow> bytes" where
  "authority_octets a = (case a of Some a \<Rightarrow> into_bytes (Authority_to_str a) | None \<Rightarrow> [])"

lemma rsplit_colon_Some:
  assumes "rsplit_colon a = Some (h, p)"
  shows "a = h @ 0x3A # p"
proof -
  define q where "q = takeWhile (\<lambda>b. b \<noteq> 0x3A) (rev a)"
  from assms have mem: "0x3A \<in> set a" and p: "p = rev q" and h: "h = take (length a - length q - 1) a"
    by (auto simp: rsplit_colon_def q_def Let_def split: if_splits)
  have "\<exists>t. dropWhile (\<lambda>b. b \<noteq> 0x3A) (rev a) = 0x3A # t"
    using mem hd_dropWhile [of "\<lambda>b. b \<noteq> 0x3A" "rev a"]
    by (cases "dropWhile (\<lambda>b. b \<noteq> 0x3A) (rev a)") (auto simp: dropWhile_eq_Nil_conv)
  then obtain t where "dropWhile (\<lambda>b. b \<noteq> 0x3A) (rev a) = 0x3A # t" ..
  then have "rev a = q @ 0x3A # t" unfolding q_def by (metis takeWhile_dropWhile_id)
  then have a: "a = rev t @ 0x3A # rev q" by (metis append.assoc append_Cons append_Nil rev.simps(2) rev_append rev_rev_ident)
  then show ?thesis using h p by simp
qed

lemma authority_token_nonempty:
  assumes "free_of ends_authority x" "x \<noteq> []"
  shows "authority_token x =
    obind (authority_loop 0 x 0 False False) (\<lambda>(_, n, l, r).
      if l \<noteq> r \<or> n > 1 then Err InvalidAuthority else obind (host_port x n) (\<lambda>a. Ok (Some a, [])))"
  unfolding authority_token_def using assms
  by (intro obind_cong refl) (auto simp: authority_parse_def dest: authority_loop_end)

lemma host_port_reprint:
  assumes "host_port x n = Ok a"
  obtains "into_bytes (Authority_to_str a) = x"
  | "n \<noteq> 0" "x = into_bytes (Authority_to_str a) @ [0x3A]" "au_port a = None" "au_host a \<noteq> []"
  using assms
proof (cases "n = 0")
  case False
  with assms obtain h p where split: "rsplit_colon x = Some (h, p)" "h \<noteq> []"
    by (auto simp: host_port_def split: if_splits option.splits)
  show thesis
  proof (cases "p = []")
    case True
    with assms False split have "a = \<lparr>au_host = from_utf8_unchecked h, au_port = None\<rparr>"
      by (simp add: host_port_def)
    with that(2) False True split rsplit_colon_Some [OF split(1)] show thesis
      by (simp add: Authority_to_str_def)
  next
    case p: False
    with assms False split have "a = \<lparr>au_host = from_utf8_unchecked h, au_port = Some (from_utf8_unchecked p)\<rparr>"
      by (simp add: host_port_def split: if_splits)
    with that(1) rsplit_colon_Some [OF split(1)] show thesis
      by (simp add: Authority_to_str_def)
  qed
qed (use that(1) in \<open>auto simp: host_port_def Authority_to_str_def\<close>)

lemma authority_reprint:
  assumes x: "free_of ends_authority x" and read: "authority_token x = Ok (a, r)"
  shows "r = [] \<and> (\<exists>t. x = authority_octets a @ t) \<and> free_of ends_authority (authority_octets a) \<and>
    authority_token (authority_octets a) = Ok (a, [])"
proof (cases "x = []")
  case True
  with read show ?thesis
    by (auto simp: authority_token_def authority_parse_def authority_octets_def free_of_def)
next
  case False
  with read obtain n l r' e auth where loop: "authority_loop 0 x 0 False False = Ok (e, n, l, r')"
    and ok: "l = r'" "n \<le> 1" and hp: "host_port x n = Ok auth" and a: "a = Some auth" "r = []"
    by (auto simp: authority_token_nonempty [OF x] obind_eq_Ok split: if_splits)
  from hp show ?thesis
  proof (cases rule: host_port_reprint)
    case 1
    then show ?thesis using x read a by (simp add: authority_octets_def)
  next
    case 2
    let ?h = "into_bytes (Authority_to_str auth)"
    have h: "free_of ends_authority ?h" and ne: "?h \<noteq> []"
      using x 2 by (auto simp: free_of_def Authority_to_str_def)
    have "authority_loop 0 ?h 0 False False = Ok (length ?h, 0, l, r')"
      using loop 2 ok authority_loop_end [OF h, of 0 0 False False]
      by (auto simp: authority_loop_append [OF h] obind_eq_Ok)
    moreover have "host_port ?h 0 = Ok auth" using 2 by (simp add: host_port_def Authority_to_str_def)
    ultimately have "authority_token ?h = Ok (Some auth, [])"
      using ok by (simp add: authority_token_nonempty [OF h ne])
    then show ?thesis using 2 a h by (simp add: authority_octets_def)
  qed
qed

text \<open>The octets of a path and of a query.\<close>

definition query_octets :: "bytes \<Rightarrow> bytes" where
  "query_octets z = (if z = [] then [] else 0x3F # z)"

definition read_rest :: "bytes \<Rightarrow> (string option, InvalidUri) outcome" where
  "read_rest rest =
     (case rest of
        [] \<Rightarrow> Ok None
      | b # bs \<Rightarrow> if b = 0x3F then query_token bs else if b = 0x23 then Ok None else Err UriMissQuery)"

lemma read_rest_octets:
  assumes "begins_with ends_path r" "read_rest r = Ok q"
  obtains z t where "r = query_octets z @ t" "q = text_opt z" "free_of (\<lambda>b. b = 0x23) z" "list_all query_octet z"
proof (cases r)
  case (Cons b bs)
  show thesis
  proof (cases "b = 0x3F")
    case True
    obtain z t where z: "bs = z @ t" "free_of (\<lambda>b. b = 0x23) z" "begins_with (\<lambda>b. b = 0x23) t"
      by (rule before_ends)
    then have q: "q = text_opt z" "list_all query_octet z"
      using assms(2) Cons True query_token_append [OF z(2,3)] by (simp_all add: read_rest_def split: if_splits)
    show thesis
    proof (cases "z = []")
      case True
      with that [of "[]" r] q show thesis by (simp add: query_octets_def free_of_def)
    next
      case False
      with that [of z t] q z Cons True show thesis by (simp add: query_octets_def)
    qed
  next
    case False
    with assms Cons that [of "[]" r] show thesis
      by (simp add: read_rest_def query_octets_def text_opt_def free_of_def split: if_splits)
  qed
qed (use assms that [of "[]" "[]"] in \<open>simp add: read_rest_def query_octets_def text_opt_def free_of_def\<close>)

lemma read_rest_query_octets:
  assumes "free_of (\<lambda>b. b = 0x23) z" "list_all query_octet z"
  shows "read_rest (query_octets z) = Ok (text_opt z)"
  using query_token_append [OF assms(1), of "[]"] assms(2)
  by (simp add: read_rest_def query_octets_def begins_with_def text_opt_def)

definition path_octets :: "bytes \<Rightarrow> bool" where
  "path_octets y \<longleftrightarrow> free_of ends_path y \<and> list_all (\<lambda>b. PATH_AND_QUERY_BYTES ! unat b) y"

definition read_parts :: "bytes \<Rightarrow> (Authority option \<times> string option \<times> string option, InvalidUri) outcome" where
  "read_parts bs =
     obind (authority_token bs) (\<lambda>(a, r1).
     obind (path_token r1) (\<lambda>(p, r2).
     obind (read_rest r2) (\<lambda>q. Ok (a, p, q))))"

definition part_octets :: "Authority option \<Rightarrow> bytes \<Rightarrow> bytes \<Rightarrow> bytes" where
  "part_octets a y z = authority_octets a @ y @ query_octets z"

lemma Uri_from_bytes_parts:
  "Uri_from_bytes bs =
    map_err EK_Uri
      (if length bs > MAX_URI_LEN then Err UriTooLong
       else if bs = [] then Err InvalidFormat
       else obind (scheme_token bs) (\<lambda>(s, r). obind (read_parts r) (\<lambda>(a, p, q).
         validity_check \<lparr>ur_scheme = s, ur_authority = a, ur_path = p, ur_query = q\<rparr>)))"
  by (simp add: Uri_from_bytes_def read_parts_def read_rest_def obind_assoc case_prod_unfold)

lemma Uri_from_bytes_within:
  assumes "length bs \<le> MAX_URI_LEN" "bs \<noteq> []"
  shows "Uri_from_bytes bs =
    map_err EK_Uri
      (obind (scheme_token bs) (\<lambda>(s, r). obind (read_parts r) (\<lambda>(a, p, q).
         validity_check \<lparr>ur_scheme = s, ur_authority = a, ur_path = p, ur_query = q\<rparr>)))"
  using assms by (simp add: Uri_from_bytes_parts)

text \<open>Where the octets of the parts are, and that these octets alone are read as the same parts.\<close>

lemma read_parts_octets:
  assumes "read_parts bs = Ok (a, p, q)"
  obtains x y z t where "bs = x @ y @ query_octets z @ t" "p = text_opt y" "q = text_opt z"
    "\<exists>u. x = authority_octets a @ u" "free_of ends_authority (authority_octets a)"
    "authority_token (authority_octets a) = Ok (a, [])" "a = None \<Longrightarrow> x = []"
    "path_octets y" "begins_with ends_authority (y @ query_octets z)"
    "free_of (\<lambda>b. b = 0x23) z" "list_all query_octet z"
proof -
  obtain x r1 where x: "bs = x @ r1" "free_of ends_authority x" "begins_with ends_authority r1"
    by (rule before_ends)
  from assms obtain r2 where au: "authority_token x = Ok (a, [])" and rest: "path_token r1 = Ok (p, r2)" "read_rest r2 = Ok q"
    using authority_reprint [OF x(2)]
    by (fastforce simp: read_parts_def x(1) authority_token_append [OF x(2,3)] obind_eq_Ok)
  obtain y r2' where y: "r1 = y @ r2'" "free_of ends_path y" "begins_with ends_path r2'"
    by (rule before_ends)
  with rest have p: "path_octets y" "p = text_opt y" "r2' = r2"
    by (auto simp: path_token_append path_octets_def split: if_splits)
  from read_rest_octets [OF y(3)] p(3) rest(2) obtain z t where z: "r2 = query_octets z @ t" "q = text_opt z"
    "free_of (\<lambda>b. b = 0x23) z" "list_all query_octet z" by auto
  have "a = None \<Longrightarrow> x = []"
    using au by (cases "x = []") (auto simp: authority_token_nonempty [OF x(2)] obind_eq_Ok split: if_splits)
  moreover have "begins_with ends_authority (y @ query_octets z)"
    using x(3) y(1) p(3) z(1) by (cases y) (auto simp: begins_with_def query_octets_def ends_authority_def)
  ultimately show thesis
    using that [of x y z t] x y p z authority_reprint [OF x(2) au] by auto
qed

lemma read_part_octets:
  assumes "free_of ends_authority (authority_octets a)" "authority_token (authority_octets a) = Ok (a, [])"
    "path_octets y" "begins_with ends_authority (y @ query_octets z)"
    "free_of (\<lambda>b. b = 0x23) z" "list_all query_octet z"
  shows "read_parts (part_octets a y z) = Ok (a, text_opt y, text_opt z)"
proof -
  have "begins_with ends_path (query_octets z)" by (simp add: query_octets_def begins_with_def ends_path_def)
  then have "path_token (y @ query_octets z) = Ok (text_opt y, query_octets z)"
    using assms(3) by (simp add: path_octets_def path_token_append)
  then show ?thesis
    using authority_token_append [OF assms(1,4)] assms(2) read_rest_query_octets [OF assms(5,6)]
    by (simp add: read_parts_def part_octets_def)
qed

section \<open>Schemes\<close>

lemma find_colon_append:
  "find_colon i (xs @ ys) = (case find_colon i xs of Some k \<Rightarrow> Some k | None \<Rightarrow> find_colon (i + length xs) ys)"
  by (induction xs arbitrary: i) (simp_all split: option.split)

lemma find_colon_bound: "find_colon i bs = Some k \<Longrightarrow> i \<le> k \<and> k < i + length bs"
  by (induction i bs rule: find_colon.induct) (auto split: if_splits)

text \<open>A beginning of a target without a scheme has none, and the printed schemes are read.\<close>

lemma scheme_token_None:
  assumes "scheme_token (xs @ ys) = Ok (None, r)"
  shows "r = xs @ ys" "scheme_token xs = Ok (None, xs)"
proof -
  show "r = xs @ ys" using assms by (simp add: scheme_token_def split: option.splits if_splits)
  show "scheme_token xs = Ok (None, xs)"
  proof (cases "find_colon 0 xs")
    case (Some k)
    then have "k < length xs" using find_colon_bound by force
    with assms Some show ?thesis
      by (auto simp: scheme_token_def find_colon_append split: if_splits)
  qed (simp add: scheme_token_def)
qed

lemma scheme_token_Some:
  assumes "scheme_token bs = Ok (Some s, r)"
  shows "scheme_token (into_bytes (Scheme_as_str s @ ''://'') @ r') = Ok (Some s, r') \<and>
    length bs = length (Scheme_as_str s) + 3 + length r"
proof -
  have len: "length xs = length ys" if "eq_ignore_ascii_case xs ys" for xs ys
    using that by (auto simp: eq_ignore_ascii_case_def dest: map_eq_imp_length_eq)
  from assms obtain k where "find_colon 0 bs = Some k" "length bs - k > 2"
    "eq_ignore_ascii_case (take k bs) (into_bytes (Scheme_as_str s))" "r = drop (length (Scheme_as_str s) + 3) bs"
    by (auto simp: scheme_token_def numeral_eq_Suc split: option.splits if_splits)
  then have "length bs = length (Scheme_as_str s) + 3 + length r"
    using len [of "take k bs"] by fastforce
  moreover have "scheme_token (into_bytes (Scheme_as_str s @ ''://'') @ r') = Ok (Some s, r')"
    by (cases s) (simp_all add: scheme_token_def byte_of_char_def eq_ignore_ascii_case_def)
  ultimately show ?thesis by simp
qed

section \<open>The round trip\<close>

lemma Uri_to_string_octets:
  "into_bytes (Uri_to_string \<lparr>ur_scheme = s, ur_authority = a, ur_path = text_opt y, ur_query = text_opt z\<rparr>) =
    into_bytes (case s of Some s \<Rightarrow> Scheme_as_str s @ ''://'' | None \<Rightarrow> []) @ part_octets a y z"
  by (simp add: Uri_to_string_def part_octets_def authority_octets_def Authority_to_str_def text_opt_def query_octets_def
      split: option.split)

text \<open>A target without a scheme is printed as a beginning of itself.\<close>

lemma part_octets_prefix:
  assumes "validity_check \<lparr>ur_scheme = None, ur_authority = a, ur_path = text_opt y, ur_query = text_opt z\<rparr> = Ok u"
    "\<exists>w. x = authority_octets a @ w" "a = None \<Longrightarrow> x = []"
  shows "\<exists>w. x @ y @ query_octets z @ t = part_octets a y z @ w"
  using assms by (cases a) (auto simp: validity_check_def part_octets_def text_opt_def query_octets_def split: if_splits)

lemma part_octets_nonempty:
  assumes "validity_check \<lparr>ur_scheme = s, ur_authority = a, ur_path = text_opt y, ur_query = text_opt z\<rparr> = Ok u"
    "read_parts (part_octets a y z) = Ok (a, text_opt y, text_opt z)"
  shows "part_octets a y z \<noteq> []"
proof
  assume e: "part_octets a y z = []"
  have "read_parts [] = Ok (None, None, None)" by code_simp
  with assms(2) e have "a = None" "text_opt y = None" "text_opt z = None" by simp_all
  with assms(1) show False by (simp add: validity_check_def split: option.splits)
qed

text \<open>
  C14. Round trip: a URI that was read, printed, is read again as the same URI. A fragment, an empty query, an empty
  port and the case of the scheme are the only things the printing loses.
\<close>

theorem uri_roundtrip:
  assumes "Uri_from_bytes bs = Ok u"
  shows "Uri_from_bytes (into_bytes (Uri_to_string u)) = Ok u"
proof -
  from assms obtain s r a p q where len: "length bs \<le> MAX_URI_LEN" and scheme: "scheme_token bs = Ok (s, r)"
    and parts: "read_parts r = Ok (a, p, q)"
    and v: "validity_check \<lparr>ur_scheme = s, ur_authority = a, ur_path = p, ur_query = q\<rparr> = Ok u"
    by (auto simp: Uri_from_bytes_parts map_err_eq_Ok obind_eq_Ok split: if_splits)
  from v have u: "u = \<lparr>ur_scheme = s, ur_authority = a, ur_path = p, ur_query = q\<rparr>"
    by (auto simp: validity_check_def split: option.splits)
  from read_parts_octets [OF parts] obtain x y z t where r: "r = x @ y @ query_octets z @ t" "p = text_opt y" "q = text_opt z"
    and x: "\<exists>w. x = authority_octets a @ w" "a = None \<Longrightarrow> x = []" and again: "read_parts (part_octets a y z) = Ok (a, p, q)"
    by (metis read_part_octets)
  note ne = part_octets_nonempty [OF v [unfolded r(2,3)] again [unfolded r(2,3)]]
  have short: "length (part_octets a y z) \<le> length r" using x(1) r(1) by (auto simp: part_octets_def)
  show ?thesis
  proof (cases s)
    case None
    obtain w where "bs = part_octets a y z @ w"
      using part_octets_prefix [OF v [unfolded None r(2,3)] x] scheme_token_None(1) [of bs "[]" r] scheme None r(1) by auto
    with scheme None have "scheme_token (part_octets a y z) = Ok (None, part_octets a y z)"
      using scheme_token_None(2) by blast
    moreover have "length (part_octets a y z) \<le> MAX_URI_LEN"
      using short len scheme_token_None(1) [of bs "[]" r] scheme None by simp
    ultimately show ?thesis
      using None u r again v ne by (simp add: Uri_from_bytes_parts Uri_to_string_octets)
  next
    case (Some s')
    with scheme have "scheme_token (into_bytes (Scheme_as_str s' @ ''://'') @ part_octets a y z) = Ok (Some s', part_octets a y z)"
      "length bs = length (Scheme_as_str s') + 3 + length r" using scheme_token_Some by blast+
    with Some u r again v ne short len show ?thesis
      by (simp add: Uri_from_bytes_parts Uri_to_string_octets del: into_bytes_simps)
  qed
qed

text \<open>An upper-case scheme, an empty port and a fragment are lost; the printed target is read as the same URI.\<close>

theorem uri_roundtrip_witness:
  "Uri_from_bytes (into_bytes ''HTTPS://[::1]:/a:b?k=v?#f'') =
     Ok \<lparr>ur_scheme = Some Https, ur_authority = Some \<lparr>au_host = ''[::1]'', au_port = None\<rparr>,
         ur_path = Some ''/a:b'', ur_query = Some ''k=v?''\<rparr> \<and>
   Uri_from_bytes (into_bytes (Uri_to_string
     \<lparr>ur_scheme = Some Https, ur_authority = Some \<lparr>au_host = ''[::1]'', au_port = None\<rparr>,
      ur_path = Some ''/a:b'', ur_query = Some ''k=v?''\<rparr>)) =
     Ok \<lparr>ur_scheme = Some Https, ur_authority = Some \<lparr>au_host = ''[::1]'', au_port = None\<rparr>,
         ur_path = Some ''/a:b'', ur_query = Some ''k=v?''\<rparr>"
proof -
  have "Uri_from_bytes (into_bytes ''HTTPS://[::1]:/a:b?k=v?#f'') =
     Ok \<lparr>ur_scheme = Some Https, ur_authority = Some \<lparr>au_host = ''[::1]'', au_port = None\<rparr>,
         ur_path = Some ''/a:b'', ur_query = Some ''k=v?''\<rparr>"
    by (subst Uri_from_bytes_within, simp add: MAX_URI_LEN_def, simp, code_simp)
  with uri_roundtrip [OF this] show ?thesis by blast
qed

section \<open>Well-formed URIs\<close>

text \<open>
  The octets a URI may print: no control octets, no space and nothing outside ASCII, so that a printed target cannot
  end a request line.
\<close>

definition graphic :: "u8 \<Rightarrow> bool" where
  "graphic b \<longleftrightarrow> 0x21 \<le> b \<and> b \<le> 0x7E"

definition graphic_str :: "string \<Rightarrow> bool" where
  "graphic_str s \<longleftrightarrow> s \<noteq> [] \<and> list_all graphic (into_bytes s)"

definition authority_ok :: "Authority \<Rightarrow> bool" where
  "authority_ok a \<longleftrightarrow>
     graphic_str (au_host a) \<and> free_of ends_authority (into_bytes (au_host a)) \<and>
     (case au_port a of Some p \<Rightarrow> graphic_str p \<and> parse_u16 p \<noteq> None | None \<Rightarrow> True)"

definition parts_ok :: "Uri \<Rightarrow> bool" where
  "parts_ok u \<longleftrightarrow>
     (case ur_authority u of Some a \<Rightarrow> authority_ok a | None \<Rightarrow> True) \<and>
     (case ur_path u of Some p \<Rightarrow> graphic_str p | None \<Rightarrow> True) \<and>
     (case ur_query u of Some q \<Rightarrow> graphic_str q | None \<Rightarrow> True)"

definition uri_ok :: "Uri \<Rightarrow> bool" where
  "uri_ok u \<longleftrightarrow> parts_ok u \<and> (ur_scheme u = None \<or> ur_authority u \<noteq> None) \<and> graphic_str (Uri_to_string u)"

lemma table_graphic:
  assumes "T = URI_VALUE_BYTES \<or> T = PATH_AND_QUERY_BYTES" "T ! unat b"
  shows "graphic (b :: u8)"
proof -
  have "list_all (\<lambda>(t, i). t \<longrightarrow> 0x21 \<le> i \<and> i \<le> 0x7E) (zip T [0..<256])"
    using assms(1) by (auto simp: URI_VALUE_BYTES_def PATH_AND_QUERY_BYTES_def upt_rec numeral_eq_Suc Let_def)
  moreover have "length T = 256" using assms(1) by (auto simp: URI_VALUE_BYTES_def PATH_AND_QUERY_BYTES_def Let_def)
  ultimately have "0x21 \<le> unat b \<and> unat b \<le> 0x7E"
    using assms(2) unsigned_less [of b] by (auto simp: list_all_length)
  then show ?thesis by (simp add: graphic_def word_le_nat_alt)
qed

lemma graphic_list_all:
  "list_all (\<lambda>b. PATH_AND_QUERY_BYTES ! unat b) bs \<Longrightarrow> list_all graphic bs"
  "list_all query_octet bs \<Longrightarrow> list_all graphic bs"
proof -
  have path: "graphic b" if "PATH_AND_QUERY_BYTES ! unat b" for b :: u8 using that table_graphic by blast
  then show "list_all (\<lambda>b. PATH_AND_QUERY_BYTES ! unat b) bs \<Longrightarrow> list_all graphic bs" by (simp add: list_all_iff)
  have "graphic b" if "query_octet b" for b
    using that path [of b] by (auto simp: query_octet_def graphic_def)
  then show "list_all query_octet bs \<Longrightarrow> list_all graphic bs" by (simp add: list_all_iff)
qed

lemma graphic_scheme [simp]: "list_all graphic (into_bytes (Scheme_as_str s))"
  by (cases s) (simp_all add: graphic_def byte_of_char_def)

lemma authority_loop_graphic:
  assumes "free_of ends_authority a" "authority_loop i a n l r = Ok v"
  shows "list_all graphic a"
  using assms
  by (induction i a n l r rule: authority_loop.induct)
    (auto simp: free_of_def ends_authority_def graphic_def split: if_splits dest!: table_graphic [OF disjI1, OF refl])

lemma graphic_text_opt: "list_all graphic bs \<Longrightarrow> text_opt bs = Some s \<Longrightarrow> graphic_str s"
  by (auto simp: text_opt_def graphic_str_def split: if_splits)

text \<open>Each of the tokens gives a well-formed part, alone and in a URI.\<close>

lemma host_port_ok:
  assumes "host_port x n = Ok a" "x \<noteq> []" "list_all graphic x" "free_of ends_authority x"
  shows "authority_ok a"
proof (cases "n = 0")
  case False
  with assms obtain h p where split: "rsplit_colon x = Some (h, p)" "h \<noteq> []"
    by (auto simp: host_port_def split: if_splits option.splits)
  with assms False rsplit_colon_Some [OF split(1)] show ?thesis
    by (auto simp: host_port_def authority_ok_def graphic_str_def free_of_def split: if_splits)
qed (use assms in \<open>auto simp: host_port_def authority_ok_def graphic_str_def\<close>)

lemma authority_token_ok:
  assumes "authority_token bs = Ok (Some a, r)"
  shows "authority_ok a"
proof -
  obtain x r1 where x: "bs = x @ r1" "free_of ends_authority x" "begins_with ends_authority r1"
    by (rule before_ends)
  with assms obtain r' where au: "authority_token x = Ok (Some a, r')"
    by (auto simp: authority_token_append obind_eq_Ok)
  have "x \<noteq> []"
  proof
    assume "x = []"
    moreover have "authority_token [] = Ok (None, [])" by code_simp
    ultimately show False using au by simp
  qed
  with au x(2) show ?thesis
    by (auto simp: authority_token_nonempty obind_eq_Ok authority_loop_graphic split: if_splits intro!: host_port_ok)
qed

lemma path_token_ok:
  assumes "path_token bs = Ok (Some p, r)"
  shows "graphic_str p"
proof -
  obtain y r' where "bs = y @ r'" "free_of ends_path y" "begins_with ends_path r'" by (rule before_ends)
  with assms show ?thesis by (auto simp: path_token_append split: if_splits intro: graphic_text_opt graphic_list_all)
qed

lemma query_token_ok:
  assumes "query_token bs = Ok (Some q)"
  shows "graphic_str q"
proof -
  obtain z r where "bs = z @ r" "free_of (\<lambda>b. b = 0x23) z" "begins_with (\<lambda>b. b = 0x23) r" by (rule before_ends)
  with assms show ?thesis by (auto simp: query_token_append split: if_splits intro: graphic_text_opt graphic_list_all)
qed

lemmas token_ok = authority_token_ok path_token_ok query_token_ok

lemma validity_check_ok:
  assumes "validity_check u = Ok v" "parts_ok u"
  shows "uri_ok v"
proof -
  have "graphic_str (Uri_to_string u)"
    using assms
    by (cases "ur_scheme u"; cases "ur_authority u"; cases "ur_path u"; cases "ur_query u")
      (auto simp: validity_check_def parts_ok_def authority_ok_def graphic_str_def Uri_to_string_def graphic_def
        byte_of_char_def split: option.splits)
  then show ?thesis using assms by (auto simp: validity_check_def uri_ok_def split: option.splits)
qed

lemma read_rest_ok: "read_rest r = Ok (Some q) \<Longrightarrow> graphic_str q"
  by (cases r) (auto simp: read_rest_def query_token_ok split: if_splits)

lemma read_parts_ok:
  assumes "read_parts bs = Ok (a, p, q)"
  shows "parts_ok \<lparr>ur_scheme = s, ur_authority = a, ur_path = p, ur_query = q\<rparr>"
proof -
  from assms obtain r1 r2 where "authority_token bs = Ok (a, r1)" "path_token r1 = Ok (p, r2)" "read_rest r2 = Ok q"
    by (auto simp: read_parts_def obind_eq_Ok)
  then show ?thesis
    using authority_token_ok path_token_ok read_rest_ok by (auto simp: parts_ok_def split: option.split)
qed

text \<open>Nothing in the parser panics.\<close>

lemma authority_loop_not_Panic: "authority_loop i bs n l r \<noteq> Panic"
  by (induction bs arbitrary: i n l r) simp_all

lemma token_not_Panic [simp]:
  "scheme_token bs \<noteq> Panic" "Scheme_from_bytes bs \<noteq> Panic" "authority_token bs \<noteq> Panic" "path_token bs \<noteq> Panic"
  "query_token bs \<noteq> Panic" "read_rest bs \<noteq> Panic" "validity_check u \<noteq> Panic"
proof -
  show "scheme_token bs \<noteq> Panic" "Scheme_from_bytes bs \<noteq> Panic"
    by (simp_all add: scheme_token_def Scheme_from_bytes_def split: option.split)
  show "authority_token bs \<noteq> Panic"
    by (auto simp: authority_token_def authority_parse_def host_port_def obind_eq_Panic authority_loop_not_Panic
        split: if_splits option.splits)
  show "path_token bs \<noteq> Panic" by (simp add: path_token_def path_loop_eq)
  show q: "query_token bs \<noteq> Panic" for bs by (simp add: query_token_def query_loop_eq)
  show "read_rest bs \<noteq> Panic" by (simp add: read_rest_def q split: list.split)
  show "validity_check u \<noteq> Panic" by (simp add: validity_check_def split: option.split)
qed

lemma from_bytes_not_Panic [simp]:
  "Authority_from_bytes bs \<noteq> Panic" "Path_from_bytes bs \<noteq> Panic" "Query_from_bytes bs \<noteq> Panic"
  "read_parts bs \<noteq> Panic"
  by (auto simp: Authority_from_bytes_def Path_from_bytes_def Query_from_bytes_def read_parts_def obind_eq_Panic
      split: option.splits if_splits)

lemma from_bytes_ok:
  "Authority_from_bytes bs = Ok a \<Longrightarrow> authority_ok a"
  "Path_from_bytes bs = Ok p \<Longrightarrow> graphic_str p"
  "Query_from_bytes bs = Ok q \<Longrightarrow> graphic_str q"
  by (auto simp: Authority_from_bytes_def Path_from_bytes_def Query_from_bytes_def obind_eq_Ok split: if_splits option.splits
      intro: token_ok)

text \<open>
  A sequence of calls on a builder. An argument is octets, which the builder reads, or a part that is ready, which it
  takes as it is: the parts that are ready have to be well formed, as the parts that were read are.
\<close>

datatype builder_call =
    Call_scheme "Scheme uri_arg"
  | Call_authority "Authority uri_arg"
  | Call_path "string uri_arg"
  | Call_query "string uri_arg"

fun builder_step :: "UriBuilder \<Rightarrow> builder_call \<Rightarrow> UriBuilder" where
  "builder_step b (Call_scheme s) = UriBuilder_scheme b s"
| "builder_step b (Call_authority a) = UriBuilder_authority b a"
| "builder_step b (Call_path p) = UriBuilder_path b p"
| "builder_step b (Call_query q) = UriBuilder_query b q"

fun call_ok :: "builder_call \<Rightarrow> bool" where
  "call_ok (Call_authority (Arg_value a)) \<longleftrightarrow> authority_ok a"
| "call_ok (Call_path (Arg_value p)) \<longleftrightarrow> graphic_str p"
| "call_ok (Call_query (Arg_value q)) \<longleftrightarrow> graphic_str q"
| "call_ok _ \<longleftrightarrow> True"

definition builder_ok :: "UriBuilder \<Rightarrow> bool" where
  "builder_ok b \<longleftrightarrow> (case b of Ok u \<Rightarrow> parts_ok u | Err _ \<Rightarrow> True | Panic \<Rightarrow> False)"

lemma try_into_ok:
  "try_into f a \<noteq> Panic \<longleftrightarrow> (\<forall>bs. a = Arg_octets bs \<longrightarrow> f bs \<noteq> Panic)"
  "try_into f a = Ok v \<longleftrightarrow> (\<exists>bs. a = Arg_octets bs \<and> f bs = Ok v) \<or> a = Arg_value v"
  by (cases a; auto)+

lemma builder_step_ok:
  assumes "builder_ok b" "call_ok c"
  shows "builder_ok (builder_step b c)"
proof -
  consider u where "b = Ok u" "parts_ok u" | e where "b = Err e"
    using assms by (cases b) (auto simp: builder_ok_def)
  then show ?thesis
  proof cases
    case 1
    then show ?thesis
      using assms(2) try_into_ok(1) [of Scheme_from_bytes] try_into_ok(1) [of Authority_from_bytes]
        try_into_ok(1) [of Path_from_bytes] try_into_ok(1) [of Query_from_bytes]
      by (cases c) (auto simp: builder_ok_def UriBuilder_scheme_def UriBuilder_authority_def UriBuilder_path_def
          UriBuilder_query_def parts_ok_def obind_eq_Ok obind_eq_Panic try_into_ok(2) split: outcome.split
          intro: from_bytes_ok)
  next
    case 2
    then show ?thesis
      by (cases c) (simp_all add: builder_ok_def UriBuilder_scheme_def UriBuilder_authority_def UriBuilder_path_def
          UriBuilder_query_def)
  qed
qed

lemma builder_calls_ok: "builder_ok b \<Longrightarrow> list_all call_ok cs \<Longrightarrow> builder_ok (foldl builder_step b cs)"
  by (induction cs arbitrary: b) (simp_all add: builder_step_ok)

definition result_ok :: "('a \<Rightarrow> bool) \<Rightarrow> ('a, 'e) outcome \<Rightarrow> bool" where
  "result_ok P r \<longleftrightarrow> (case r of Ok v \<Rightarrow> P v | Err _ \<Rightarrow> True | Panic \<Rightarrow> False)"

text \<open>
  C21. Well-formedness: a URI that is read has an authority when it has a scheme, a host that is not empty and without
  octets that end an authority, a port that is a 16-bit number, and prints graphic ASCII octets only; so has a URI that
  a sequence of calls on a builder builds, where each argument is octets, any scheme, or a ready authority, path or query
  that is well formed in the same sense. The authorities, paths and queries that the library reads are such ready
  values; the default ones, with an empty host or empty text, are not, and the builder takes them too. Neither the
  readers nor the builder panic.
\<close>

theorem uri_well_formed:
  assumes "list_all call_ok cs"
  shows "result_ok uri_ok (Uri_from_bytes bs) \<and>
    result_ok uri_ok (UriBuilder_build (foldl builder_step UriBuilder_new cs)) \<and>
    result_ok (\<lambda>a. call_ok (Call_authority (Arg_value a))) (Authority_from_bytes bs) \<and>
    result_ok (\<lambda>p. call_ok (Call_path (Arg_value p))) (Path_from_bytes bs) \<and>
    result_ok (\<lambda>q. call_ok (Call_query (Arg_value q))) (Query_from_bytes bs)"
proof (intro conjI)
  show "result_ok uri_ok (Uri_from_bytes bs)"
    by (auto simp: result_ok_def Uri_from_bytes_parts obind_eq_Ok obind_eq_Panic split: outcome.split if_splits
        intro: validity_check_ok read_parts_ok)
  have "builder_ok (foldl builder_step UriBuilder_new cs)"
    using assms by (intro builder_calls_ok) (simp_all add: builder_ok_def UriBuilder_new_def parts_ok_def)
  then show "result_ok uri_ok (UriBuilder_build (foldl builder_step UriBuilder_new cs))"
    by (auto simp: result_ok_def UriBuilder_build_def builder_ok_def obind_eq_Ok obind_eq_Panic split: outcome.splits
        intro: validity_check_ok)
qed (auto simp: result_ok_def split: outcome.split intro: from_bytes_ok)

text \<open>A proxied request: a ready scheme and authority, and a path and a query that are read.\<close>

definition example_calls :: "builder_call list" where
  "example_calls =
     [Call_scheme (Arg_value Https), Call_authority (Arg_value \<lparr>au_host = ''h'', au_port = Some ''80''\<rparr>),
      Call_path (Arg_octets (into_bytes ''/a'')), Call_query (Arg_octets (into_bytes ''k''))]"

theorem uri_well_formed_witness:
  "UriBuilder_build (foldl builder_step UriBuilder_new example_calls) =
     Ok \<lparr>ur_scheme = Some Https, ur_authority = Some \<lparr>au_host = ''h'', au_port = Some ''80''\<rparr>,
         ur_path = Some ''/a'', ur_query = Some ''k''\<rparr> \<and>
   result_ok uri_ok (UriBuilder_build (foldl builder_step UriBuilder_new example_calls))"
proof
  have "list_all call_ok example_calls"
    by (simp add: example_calls_def authority_ok_def graphic_str_def graphic_def free_of_def ends_authority_def
        parse_u16_def byte_of_char_def)
  from uri_well_formed [OF this] show "result_ok uri_ok (UriBuilder_build (foldl builder_step UriBuilder_new example_calls))"
    by blast
qed code_simp

text \<open>The default authority: the builder builds a URI with an empty host of it, which no reader accepts.\<close>

lemma default_authority_builds_empty_host:
  "UriBuilder_build (foldl builder_step UriBuilder_new
     [Call_scheme (Arg_value Http), Call_authority (Arg_value Authority_default)]) =
     Ok \<lparr>ur_scheme = Some Http, ur_authority = Some \<lparr>au_host = [], au_port = None\<rparr>, ur_path = None, ur_query = None\<rparr>"
  "Authority_from_bytes bs \<noteq> Ok Authority_default"
proof -
  show "Authority_from_bytes bs \<noteq> Ok Authority_default"
    using from_bytes_ok(1) [of bs] by (auto simp: Authority_default_def authority_ok_def graphic_str_def)
qed code_simp

lemma uri_scheme_in_query_refused: "Uri_from_bytes (into_bytes ''/p?u=http://x'') = Err (EK_Uri InvalidScheme)"
  by (subst Uri_from_bytes_within, simp add: MAX_URI_LEN_def, simp, code_simp)

end
