(* ===== verification/H1_Request_Properties.thy ===== *)
theory H1_Request_Properties
  imports H1_Request_Encoder Uri_Properties
begin

text \<open>
  What is proved of the request encoders: into buffers of any sizes both write the octets of the request message, from
  the beginning to the end and without a panic, and every call returns.
\<close>

section \<open>What is left of a token\<close>

lemma WriteData_cases:
  assumes "i \<le> length src"
  obtains (complete) "WriteData_write src i n = Ok (Complete (drop i src), i)" "length (drop i src) \<le> n"
  | (partial) "WriteData_write src i n = Ok (Partial (take n (drop i src)), i + n)" "n < length (drop i src)"
  using assms by (cases "length src - i \<le> n") (auto simp: WriteData_write_def Let_def)

lemma take_drop_glue [simp]:
  "take n (drop i xs) @ drop (i + n) xs = drop i xs"
  "take n (drop i xs) @ drop (i + n) xs @ ys = drop i xs @ ys"
  by (metis add.commute append_take_drop_id drop_drop, metis add.commute append.assoc append_take_drop_id drop_drop)

text \<open>A token is written to its end, or fills the buffer, or makes progress.\<close>

definition token_writes ::
  "('a \<Rightarrow> bytes) \<Rightarrow> ('a \<Rightarrow> bool) \<Rightarrow> ('a \<Rightarrow> nat) \<Rightarrow> 'a \<Rightarrow> nat \<Rightarrow> 'a TokenResult \<Rightarrow> bool" where
  "token_writes rest ok rank e n r \<longleftrightarrow>
     (case r of
        Ok (Complete out, _) \<Rightarrow> rest e = out \<and> length out \<le> n
      | Ok (Partial out, e') \<Rightarrow> step_writes rest ok rank e n out e'
      | _ \<Rightarrow> False)"

lemma token_writes_cases:
  assumes "token_writes rest ok rank e n r"
  obtains (complete) out e' where "r = Ok (Complete out, e')" "rest e = out" "length out \<le> n"
  | (partial) out e' where "r = Ok (Partial out, e')" "step_writes rest ok rank e n out e'"
proof (cases r)
  case (Ok x)
  then obtain t e' where "r = Ok (t, e')" by (cases x) simp
  with assms that show thesis by (cases t) (simp_all add: token_writes_def)
qed (use assms in \<open>simp_all add: token_writes_def\<close>)

text \<open>A token that is one text.\<close>

lemma text_token_writes:
  assumes "i e \<le> length (src e)" "\<And>k. src (upd k e) = src e \<and> i (upd k e) = k" "0 < n"
  shows "token_writes (\<lambda>e. drop (i e) (src e)) (\<lambda>e. i e \<le> length (src e)) (\<lambda>_. 0) e n
    (on_token (\<lambda>k. upd k e) (WriteData_write (src e) (i e) n))"
  using assms(1)
  by (cases rule: WriteData_cases [of "i e" "src e" n])
    (auto simp: on_token_def token_writes_def step_writes_def assms(2))

text \<open>
  A stage of an encoder writes one of its tokens; the next stage begins when the token is complete. \<open>k\<close> is what the
  later stages add to the rank of the token.
\<close>

lemma stage_writes:
  assumes token: "token_writes rest ok rank p n r"
    and content: "content e = rest p @ tail" and big: "big e = Suc k + rank p"
    and later: "\<And>p. content (later p) = tail \<and> invar (later p) \<and> big (later p) \<le> k"
    and same: "\<And>p. ok p \<Longrightarrow> content (same p) = rest p @ tail \<and> invar (same p) \<and> big (same p) = Suc k + rank p"
  shows "\<exists>out e'. obind r (\<lambda>(t, p). case t of Complete out \<Rightarrow> Ok (out, later p) | Partial out \<Rightarrow> Ok (out, same p)) = Ok (out, e') \<and>
    step_writes content invar big e n out e'"
  using token
proof (cases rule: token_writes_cases)
  case (complete out p')
  then show ?thesis using later [of p'] content big by (simp add: step_writes_def)
next
  case (partial out p')
  then show ?thesis using same [of p'] content big by (auto simp: step_writes_def)
qed

definition field_octets :: "HeaderName \<times> HeaderValue \<Rightarrow> bytes" where
  "field_octets = (\<lambda>(n, v). into_bytes n @ [0x3A] @ join_values (hv_inner v) @ [0x0D, 0x0A])"

definition crlf_rest :: "EncodeCrlf \<Rightarrow> bytes" where
  "crlf_rest e = drop (crlf_src_idx e) [0x0D, 0x0A]"

definition crlf_ok :: "EncodeCrlf \<Rightarrow> bool" where
  "crlf_ok e \<longleftrightarrow> crlf_src_idx e \<le> length [0x0D, 0x0A :: u8]"

definition sp_rest :: "EncodeSp \<Rightarrow> bytes" where
  "sp_rest e = drop (sp_src_idx e) [0x20]"

definition sp_ok :: "EncodeSp \<Rightarrow> bool" where
  "sp_ok e \<longleftrightarrow> sp_src_idx e \<le> length [0x20 :: u8]"

lemma crlf_writes: "crlf_ok e \<Longrightarrow> 0 < n \<Longrightarrow> token_writes crlf_rest crlf_ok (\<lambda>_. 0) e n (EncodeCrlf_encode e n)"
  unfolding crlf_rest_def crlf_ok_def EncodeCrlf_encode_def by (rule text_token_writes) simp_all

lemma sp_octets: "into_bytes '' '' = [0x20]" "into_bytes '':'' = [0x3A]" "into_bytes '', '' = [0x2C, 0x20]"
  by (simp_all add: byte_of_char_def)

lemma sp_writes: "sp_ok e \<Longrightarrow> 0 < n \<Longrightarrow> token_writes sp_rest sp_ok (\<lambda>_. 0) e n (EncodeSp_encode e n)"
  unfolding sp_rest_def sp_ok_def EncodeSp_encode_def sp_octets by (rule text_token_writes) simp_all

lemma fresh_tokens [simp]:
  "crlf_rest EncodeCrlf_new = [0x0D, 0x0A]" "crlf_ok EncodeCrlf_new" "sp_rest EncodeSp_new = [0x20]" "sp_ok EncodeSp_new"
  by (simp_all add: crlf_rest_def crlf_ok_def EncodeCrlf_new_def sp_rest_def sp_ok_def EncodeSp_new_def)

definition origin_octets :: "Uri \<Rightarrow> bytes" where
  "origin_octets uri = (case Uri_path_and_query uri of Some p \<Rightarrow> into_bytes p | None \<Rightarrow> into_bytes ''/'')"

section \<open>The tokens of the encoder that owns its request\<close>

definition method_rest :: "EncodeMethod \<Rightarrow> bytes" where
  "method_rest e = drop (em_src_idx e) (into_bytes (Method_as_str (em_inner e)))"

definition method_ok :: "EncodeMethod \<Rightarrow> bool" where
  "method_ok e \<longleftrightarrow> em_src_idx e \<le> length (into_bytes (Method_as_str (em_inner e)))"

lemma method_writes: "method_ok e \<Longrightarrow> 0 < n \<Longrightarrow> token_writes method_rest method_ok (\<lambda>_. 0) e n (EncodeMethod_encode e n)"
  unfolding method_rest_def method_ok_def EncodeMethod_encode_def by (rule text_token_writes) simp_all

definition version_rest :: "EncodeVersion \<Rightarrow> bytes" where
  "version_rest e = drop (ev_src_idx e) (into_bytes (Version_as_str (ev_inner e)))"

definition version_ok :: "EncodeVersion \<Rightarrow> bool" where
  "version_ok e \<longleftrightarrow> ev_src_idx e \<le> length (into_bytes (Version_as_str (ev_inner e)))"

lemma version_writes: "version_ok e \<Longrightarrow> 0 < n \<Longrightarrow> token_writes version_rest version_ok (\<lambda>_. 0) e n (EncodeVersion_encode e n)"
  unfolding version_rest_def version_ok_def EncodeVersion_encode_def by (rule text_token_writes) simp_all

definition target_text :: "EncodeUri \<Rightarrow> bytes" where
  "target_text e = (if eu_is_absolute e then eu_absolute e else eu_origin e)"

definition target_rest :: "EncodeUri \<Rightarrow> bytes" where
  "target_rest e = drop (eu_src_idx e) (target_text e)"

definition target_ok :: "EncodeUri \<Rightarrow> bool" where
  "target_ok e \<longleftrightarrow> eu_src_idx e \<le> length (target_text e)"

lemma target_writes: "target_ok e \<Longrightarrow> 0 < n \<Longrightarrow> token_writes target_rest target_ok (\<lambda>_. 0) e n (EncodeUri_encode e n)"
  unfolding target_rest_def target_ok_def EncodeUri_encode_def Let_def target_text_def [symmetric]
  by (rule text_token_writes) (simp_all add: target_text_def)

definition field_rest :: "EncodeHeader \<Rightarrow> bytes" where
  "field_rest e =
     (let fields = concat (map field_octets (eh_inner e)) in
      case eh_status e of
        Some EH_Name \<Rightarrow>
          drop (eh_name_idx e) (into_bytes (eh_name e)) @ drop (eh_colon_idx e) [0x3A] @
          drop (eh_value_idx e) (eh_value e) @ [0x0D, 0x0A] @ fields
      | Some EH_Colon \<Rightarrow> drop (eh_colon_idx e) [0x3A] @ drop (eh_value_idx e) (eh_value e) @ [0x0D, 0x0A] @ fields
      | Some EH_Value \<Rightarrow> drop (eh_value_idx e) (eh_value e) @ [0x0D, 0x0A] @ fields
      | Some (EH_Crlf c) \<Rightarrow> crlf_rest c @ fields
      | _ \<Rightarrow> [])"

definition fields_ok :: "EncodeHeader \<Rightarrow> bool" where
  "fields_ok e \<longleftrightarrow>
     eh_name_idx e \<le> length (into_bytes (eh_name e)) \<and> eh_colon_idx e \<le> 1 \<and> eh_value_idx e \<le> length (eh_value e) \<and>
     (case eh_status e of Some (EH_Crlf c) \<Rightarrow> crlf_ok c | Some _ \<Rightarrow> True | None \<Rightarrow> False)"

fun status_rank :: "HeaderStatus option \<Rightarrow> nat" where
  "status_rank (Some EH_Name) = 4"
| "status_rank (Some EH_Colon) = 3"
| "status_rank (Some EH_Value) = 2"
| "status_rank (Some (EH_Crlf _)) = 1"
| "status_rank _ = 0"

definition fields_rank :: "EncodeHeader \<Rightarrow> nat" where
  "fields_rank e = 4 * length (eh_inner e) + status_rank (eh_status e)"

lemma HeaderValue_to_vec_eq: "HeaderValue_to_vec v = join_values (hv_inner v)"
  by (simp add: HeaderValue_to_vec_def to_vec_loop_eq)

lemma fields_writes:
  assumes ok: "fields_ok e" and n: "0 < n"
  shows "token_writes field_rest fields_ok fields_rank e n (EncodeHeader_encode e n)"
proof -
  from ok obtain st where st: "eh_status e = Some st" by (auto simp: fields_ok_def split: option.splits)
  note defs = EncodeHeader_encode_def token_writes_def step_writes_def field_rest_def fields_ok_def fields_rank_def st
  show ?thesis
  proof (cases st)
    case EH_Name
    have "eh_name_idx e \<le> length (into_bytes (eh_name e))" using ok by (simp add: fields_ok_def)
    then show ?thesis using ok EH_Name
      by (cases rule: WriteData_cases [where n = n]) (auto simp: defs EncodeHeader_encode_name_def)
  next
    case EH_Colon
    have "eh_colon_idx e \<le> length [0x3A :: u8]" using ok by (simp add: fields_ok_def)
    then show ?thesis using ok EH_Colon
      by (cases rule: WriteData_cases [where n = n]) (auto simp: defs EncodeHeader_encode_colon_def)
  next
    case EH_Value
    have "eh_value_idx e \<le> length (eh_value e)" using ok by (simp add: fields_ok_def)
    then show ?thesis using ok EH_Value
      by (cases rule: WriteData_cases [where n = n]) (auto simp: defs EncodeHeader_encode_value_def)
  next
    case (EH_Crlf c)
    then have "crlf_ok c" using ok st by (simp add: fields_ok_def)
    from crlf_writes [OF this n] show ?thesis using ok EH_Crlf
      by (cases rule: token_writes_cases; cases "eh_inner e")
        (auto simp: defs EncodeHeader_encode_crlf_def field_octets_def HeaderValue_to_vec_eq)
  next
    case EH_EmptyHeader
    then show ?thesis by (simp add: defs)
  qed
qed

section \<open>The encoder that owns its request\<close>

text \<open>What is left of a request, the tokens that have to be well formed for it, and the steps to the end.\<close>

definition target_to_be :: "RequestEncoder \<Rightarrow> EncodeUri" where
  "target_to_be e = (re_uri_part e)\<lparr>eu_is_absolute := re_is_absolute_uri e\<rparr>"

definition from_fields :: "RequestEncoder \<Rightarrow> bytes" where
  "from_fields e = field_rest (re_headers_part e) @ crlf_rest (re_headers_crlf_part e)"

definition from_version :: "RequestEncoder \<Rightarrow> bytes" where
  "from_version e = version_rest (re_version_part e) @ crlf_rest (re_version_crlf_part e) @ from_fields e"

definition request_rest :: "RequestEncoder \<Rightarrow> bytes" where
  "request_rest e =
     (case re_encode_status e of
        ES_Method \<Rightarrow> method_rest (re_method_part e) @ sp_rest (re_method_sp_part e) @ target_rest (target_to_be e) @
          sp_rest (re_uri_sp_part e) @ from_version e
      | ES_MethodSp \<Rightarrow> sp_rest (re_method_sp_part e) @ target_rest (target_to_be e) @
          sp_rest (re_uri_sp_part e) @ from_version e
      | ES_Uri \<Rightarrow> target_rest (re_uri_part e) @ sp_rest (re_uri_sp_part e) @ from_version e
      | ES_UriSp \<Rightarrow> sp_rest (re_uri_sp_part e) @ from_version e
      | ES_Version \<Rightarrow> from_version e
      | ES_VersionCrlf \<Rightarrow> crlf_rest (re_version_crlf_part e) @ from_fields e
      | ES_Header \<Rightarrow> from_fields e
      | ES_HeaderCrlf \<Rightarrow> crlf_rest (re_headers_crlf_part e)
      | ES_EncodeFinished \<Rightarrow> [])"

definition request_ok :: "RequestEncoder \<Rightarrow> bool" where
  "request_ok e \<longleftrightarrow>
     (case re_encode_status e of
        ES_Method \<Rightarrow> method_ok (re_method_part e) \<and> sp_ok (re_method_sp_part e) \<and> target_ok (target_to_be e) \<and>
          sp_ok (re_uri_sp_part e) \<and> version_ok (re_version_part e) \<and> crlf_ok (re_version_crlf_part e) \<and>
          fields_ok (re_headers_part e) \<and> crlf_ok (re_headers_crlf_part e)
      | ES_MethodSp \<Rightarrow> sp_ok (re_method_sp_part e) \<and> target_ok (target_to_be e) \<and>
          sp_ok (re_uri_sp_part e) \<and> version_ok (re_version_part e) \<and> crlf_ok (re_version_crlf_part e) \<and>
          fields_ok (re_headers_part e) \<and> crlf_ok (re_headers_crlf_part e)
      | ES_Uri \<Rightarrow> target_ok (re_uri_part e) \<and>
          sp_ok (re_uri_sp_part e) \<and> version_ok (re_version_part e) \<and> crlf_ok (re_version_crlf_part e) \<and>
          fields_ok (re_headers_part e) \<and> crlf_ok (re_headers_crlf_part e)
      | ES_UriSp \<Rightarrow> sp_ok (re_uri_sp_part e) \<and> version_ok (re_version_part e) \<and> crlf_ok (re_version_crlf_part e) \<and>
          fields_ok (re_headers_part e) \<and> crlf_ok (re_headers_crlf_part e)
      | ES_Version \<Rightarrow> version_ok (re_version_part e) \<and> crlf_ok (re_version_crlf_part e) \<and>
          fields_ok (re_headers_part e) \<and> crlf_ok (re_headers_crlf_part e)
      | ES_VersionCrlf \<Rightarrow> crlf_ok (re_version_crlf_part e) \<and>
          fields_ok (re_headers_part e) \<and> crlf_ok (re_headers_crlf_part e)
      | ES_Header \<Rightarrow> fields_ok (re_headers_part e) \<and> crlf_ok (re_headers_crlf_part e)
      | ES_HeaderCrlf \<Rightarrow> crlf_ok (re_headers_crlf_part e)
      | ES_EncodeFinished \<Rightarrow> True)"

definition request_rank :: "RequestEncoder \<Rightarrow> nat" where
  "request_rank e =
     (case re_encode_status e of
        ES_Method \<Rightarrow> Suc (7 + fields_rank (re_headers_part e))
      | ES_MethodSp \<Rightarrow> Suc (6 + fields_rank (re_headers_part e))
      | ES_Uri \<Rightarrow> Suc (5 + fields_rank (re_headers_part e))
      | ES_UriSp \<Rightarrow> Suc (4 + fields_rank (re_headers_part e))
      | ES_Version \<Rightarrow> Suc (3 + fields_rank (re_headers_part e))
      | ES_VersionCrlf \<Rightarrow> Suc (2 + fields_rank (re_headers_part e))
      | ES_Header \<Rightarrow> Suc (1 + fields_rank (re_headers_part e))
      | ES_HeaderCrlf \<Rightarrow> Suc 0
      | ES_EncodeFinished \<Rightarrow> 0)"

lemmas request_defs = request_rest_def request_ok_def request_rank_def from_fields_def from_version_def
  target_to_be_def

lemma method_stage:
  assumes "re_encode_status e = ES_Method" "request_ok e" "0 < n"
  shows "\<exists>out e'. RequestEncoder_method_encode e n = Ok (out, e') \<and>
    step_writes request_rest request_ok request_rank e n out e'"
  unfolding RequestEncoder_method_encode_def Let_def
  using assms by (intro stage_writes [OF method_writes]) (auto simp: request_defs)

lemma method_sp_stage:
  assumes "re_encode_status e = ES_MethodSp" "request_ok e" "0 < n"
  shows "\<exists>out e'. RequestEncoder_method_sp_encode e n = Ok (out, e') \<and>
    step_writes request_rest request_ok request_rank e n out e'"
  unfolding RequestEncoder_method_sp_encode_def Let_def
  using assms by (intro stage_writes [OF sp_writes]) (auto simp: request_defs)

lemma uri_stage:
  assumes "re_encode_status e = ES_Uri" "request_ok e" "0 < n"
  shows "\<exists>out e'. RequestEncoder_uri_encode e n = Ok (out, e') \<and>
    step_writes request_rest request_ok request_rank e n out e'"
  unfolding RequestEncoder_uri_encode_def Let_def
  using assms by (intro stage_writes [OF target_writes]) (auto simp: request_defs)

lemma uri_sp_stage:
  assumes "re_encode_status e = ES_UriSp" "request_ok e" "0 < n"
  shows "\<exists>out e'. RequestEncoder_uri_sp_encode e n = Ok (out, e') \<and>
    step_writes request_rest request_ok request_rank e n out e'"
  unfolding RequestEncoder_uri_sp_encode_def Let_def
  using assms by (intro stage_writes [OF sp_writes]) (auto simp: request_defs)

lemma version_stage:
  assumes "re_encode_status e = ES_Version" "request_ok e" "0 < n"
  shows "\<exists>out e'. RequestEncoder_version_encode e n = Ok (out, e') \<and>
    step_writes request_rest request_ok request_rank e n out e'"
  unfolding RequestEncoder_version_encode_def Let_def
  using assms by (intro stage_writes [OF version_writes]) (auto simp: request_defs)

lemma version_crlf_stage:
  assumes "re_encode_status e = ES_VersionCrlf" "request_ok e" "0 < n"
  shows "\<exists>out e'. RequestEncoder_version_crlf_encode e n = Ok (out, e') \<and>
    step_writes request_rest request_ok request_rank e n out e'"
  unfolding RequestEncoder_version_crlf_encode_def Let_def
  using assms by (intro stage_writes [OF crlf_writes]) (auto simp: request_defs)

lemma header_stage:
  assumes "re_encode_status e = ES_Header" "request_ok e" "0 < n"
  shows "\<exists>out e'. RequestEncoder_header_encode e n = Ok (out, e') \<and>
    step_writes request_rest request_ok request_rank e n out e'"
  unfolding RequestEncoder_header_encode_def Let_def
  using assms by (intro stage_writes [OF fields_writes]) (auto simp: request_defs)

lemma header_crlf_stage:
  assumes "re_encode_status e = ES_HeaderCrlf" "request_ok e" "0 < n"
  shows "\<exists>out e'. RequestEncoder_header_crlf_encode e n = Ok (out, e') \<and>
    step_writes request_rest request_ok request_rank e n out e'"
  unfolding RequestEncoder_header_crlf_encode_def Let_def
  using assms by (intro stage_writes [OF crlf_writes]) (auto simp: request_defs)

lemmas stages = method_stage method_sp_stage uri_stage uri_sp_stage version_stage version_crlf_stage
  header_stage header_crlf_stage

interpretation request_enc: buffer_encoder RequestEncoder_step request_rest request_ok request_rank RequestEncoder_encode
proof
  fix e :: RequestEncoder and n :: nat
  assume "request_ok e" "0 < n"
  then show "RequestEncoder_step e n = Ok None \<and> request_rest e = [] \<or>
    (\<exists>out e'. RequestEncoder_step e n = Ok (Some (out, e')) \<and>
      step_writes request_rest request_ok request_rank e n out e')"
    using stages [of e n]
    by (cases "re_encode_status e") (auto simp: RequestEncoder_step_def request_rest_def)
qed (simp add: RequestEncoder_encode_def)

section \<open>The tokens of the encoder that borrows its request\<close>

definition method_ref_rest :: "EncodeMethodRef \<Rightarrow> bytes" where
  "method_ref_rest e = drop (emr_src_idx e) (into_bytes (Method_as_str (emr_inner e)))"

definition method_ref_ok :: "EncodeMethodRef \<Rightarrow> bool" where
  "method_ref_ok e \<longleftrightarrow> emr_src_idx e \<le> length (into_bytes (Method_as_str (emr_inner e)))"

lemma method_ref_writes: "method_ref_ok e \<Longrightarrow> 0 < n \<Longrightarrow> token_writes method_ref_rest method_ref_ok (\<lambda>_. 0) e n (EncodeMethodRef_encode e n)"
  unfolding method_ref_rest_def method_ref_ok_def EncodeMethodRef_encode_def by (rule text_token_writes) simp_all

definition version_ref_rest :: "EncodeVersionRef \<Rightarrow> bytes" where
  "version_ref_rest e = drop (evr_src_idx e) (into_bytes (Version_as_str (evr_inner e)))"

definition version_ref_ok :: "EncodeVersionRef \<Rightarrow> bool" where
  "version_ref_ok e \<longleftrightarrow> evr_src_idx e \<le> length (into_bytes (Version_as_str (evr_inner e)))"

lemma version_ref_writes: "version_ref_ok e \<Longrightarrow> 0 < n \<Longrightarrow> token_writes version_ref_rest version_ref_ok (\<lambda>_. 0) e n (EncodeVersionRef_encode e n)"
  unfolding version_ref_rest_def version_ref_ok_def EncodeVersionRef_encode_def by (rule text_token_writes) simp_all

definition target_ref_text :: "EncodeUriRef \<Rightarrow> bytes" where
  "target_ref_text e =
     (if eur_is_absolute e then (case eur_absolute e of None \<Rightarrow> into_bytes (Uri_to_string (eur_inner e)) | Some a \<Rightarrow> a)
      else (case eur_origin e of None \<Rightarrow> origin_octets (eur_inner e) | Some a \<Rightarrow> a))"

definition target_ref_rest :: "EncodeUriRef \<Rightarrow> bytes" where
  "target_ref_rest e = drop (eur_src_idx e) (target_ref_text e)"

definition target_ref_ok :: "EncodeUriRef \<Rightarrow> bool" where
  "target_ref_ok e \<longleftrightarrow> eur_src_idx e \<le> length (target_ref_text e)"

text \<open>Printing the URI for the first time changes nothing of what is left.\<close>

definition target_printed :: "EncodeUriRef \<Rightarrow> EncodeUriRef" where
  "target_printed e =
     (if eur_is_absolute e then e\<lparr>eur_absolute := Some (target_ref_text e)\<rparr> else e\<lparr>eur_origin := Some (target_ref_text e)\<rparr>)"

lemma EncodeUriRef_encode_eq:
  "EncodeUriRef_encode e n =
    on_token (\<lambda>i. (target_printed e)\<lparr>eur_src_idx := i\<rparr>) (WriteData_write (target_ref_text e) (eur_src_idx e) n)"
  by (cases "eur_origin e") (simp_all add: EncodeUriRef_encode_def target_printed_def target_ref_text_def origin_octets_def Let_def)

lemma target_printed_text [simp]: "target_ref_text ((target_printed e)\<lparr>eur_src_idx := i\<rparr>) = target_ref_text e"
  by (simp add: target_printed_def target_ref_text_def)

lemma target_ref_writes:
  "target_ref_ok e \<Longrightarrow> 0 < n \<Longrightarrow> token_writes target_ref_rest target_ref_ok (\<lambda>_. 0) e n (EncodeUriRef_encode e n)"
  unfolding target_ref_rest_def target_ref_ok_def EncodeUriRef_encode_eq
  by (rule text_token_writes) simp_all

text \<open>What is left of the values of a header.\<close>

definition separated :: "bytes list \<Rightarrow> bytes" where
  "separated vs = concat (map (\<lambda>v. [0x2C, 0x20] @ v) vs)"

definition values_rest :: "EncodeHeaderRef \<Rightarrow> bytes" where
  "values_rest e =
     (let later = (case ehr_value_iter e of Some vs \<Rightarrow> vs | None \<Rightarrow> []) in
      case ehr_value_part e of
        Some part \<Rightarrow>
          (if ehr_value_needs_separator e then drop (ehr_value_separator_idx e) [0x2C, 0x20] else []) @
          drop (ehr_value_idx e) part @ separated later
      | None \<Rightarrow> if ehr_value_parts_written e = 0 then join_values later else separated later)"

definition values_ok :: "EncodeHeaderRef \<Rightarrow> bool" where
  "values_ok e \<longleftrightarrow>
     (case ehr_value_part e of
        Some part \<Rightarrow> ehr_value_idx e \<le> length part \<and> ehr_value_separator_idx e \<le> 2
      | None \<Rightarrow> True)"

text \<open>The parts of the token that the values leave alone.\<close>

definition same_header :: "EncodeHeaderRef \<Rightarrow> EncodeHeaderRef \<Rightarrow> bool" where
  "same_header e e' \<longleftrightarrow> ehr_inner e' = ehr_inner e \<and> ehr_name e' = ehr_name e \<and> ehr_name_idx e' = ehr_name_idx e \<and>
     ehr_colon_idx e' = ehr_colon_idx e"

lemma same_header_trans: "same_header a b \<Longrightarrow> same_header b c \<Longrightarrow> same_header a c"
  by (simp add: same_header_def)

lemma next_value_part_rest:
  assumes "values_ok e"
  shows "case next_value_part e of
      None \<Rightarrow> values_rest e = []
    | Some e1 \<Rightarrow> values_rest e1 = values_rest e \<and> values_ok e1 \<and> ehr_value_part e1 \<noteq> None \<and> same_header e e1"
  using assms
  by (auto simp: next_value_part_def values_rest_def values_ok_def same_header_def separated_def join_values_Cons
      split: option.split list.split)

text \<open>
  A piece of the values, of which \<open>written\<close> was there before: it was written to its end and \<open>Q\<close> holds, or it has
  filled the buffer.
\<close>

definition piece_writes ::
  "(EncodeHeaderRef \<Rightarrow> bool) \<Rightarrow> EncodeHeaderRef \<Rightarrow> nat \<Rightarrow> bytes \<Rightarrow> EncodeHeaderRef TokenResult \<Rightarrow> bool" where
  "piece_writes Q e n written r \<longleftrightarrow>
     (\<exists>out e'. values_rest e = out @ values_rest e' \<and> values_ok e' \<and> same_header e e' \<and> length (written @ out) \<le> n \<and>
        (r = Ok (Complete (written @ out), e') \<and> Q e' \<or>
         r = Ok (Partial (written @ out), e') \<and> ehr_status e' = Some EH_Value \<and> length (written @ out) = n))"

lemma piece_writes_complete:
  "r = Ok (Complete (written @ out), e') \<Longrightarrow> Q e' \<Longrightarrow> values_rest e = out @ values_rest e' \<Longrightarrow> values_ok e' \<Longrightarrow>
    same_header e e' \<Longrightarrow> length (written @ out) \<le> n \<Longrightarrow> piece_writes Q e n written r"
  unfolding piece_writes_def by blast

lemma piece_writes_partial:
  "r = Ok (Partial (written @ out), e') \<Longrightarrow> ehr_status e' = Some EH_Value \<Longrightarrow> values_rest e = out @ values_rest e' \<Longrightarrow>
    values_ok e' \<Longrightarrow> same_header e e' \<Longrightarrow> length (written @ out) = n \<Longrightarrow> piece_writes Q e n written r"
  unfolding piece_writes_def by auto

lemma separator_writes:
  assumes ok: "values_ok e" "ehr_value_part e = Some part" "length written \<le> n"
  shows "piece_writes (\<lambda>e'. ehr_value_part e' = Some part \<and> \<not> ehr_value_needs_separator e') e n written (write_separator e n written)"
proof (cases "ehr_value_needs_separator e")
  case True
  note defs = write_separator_def values_rest_def values_ok_def same_header_def sp_octets
  from ok have "ehr_value_separator_idx e \<le> length [0x2C, 0x20 :: u8]" by (simp add: values_ok_def)
  moreover obtain k where n: "n = length written + k" using assms le_Suc_ex by blast
  ultimately show ?thesis
  proof (cases rule: WriteData_cases [where n = k])
    case complete
    then show ?thesis using True ok
      by (intro piece_writes_complete [where out = "drop (ehr_value_separator_idx e) [0x2C, 0x20]"
            and e' = "e\<lparr>ehr_value_needs_separator := False, ehr_value_separator_idx := 0\<rparr>"])
        (auto simp: defs n simp del: into_bytes_simps)
  next
    case partial
    then show ?thesis using True ok
      by (intro piece_writes_partial [where out = "take k (drop (ehr_value_separator_idx e) [0x2C, 0x20])"
            and e' = "e\<lparr>ehr_value_separator_idx := ehr_value_separator_idx e + k, ehr_status := Some EH_Value\<rparr>"])
        (auto simp: defs n simp del: into_bytes_simps)
  qed
next
  case False
  with ok show ?thesis
    by (intro piece_writes_complete [where out = "[]"]) (auto simp: write_separator_def same_header_def)
qed

lemma part_writes:
  assumes ok: "values_ok e" "ehr_value_part e = Some part" "\<not> ehr_value_needs_separator e" "length written \<le> n"
  shows "piece_writes (\<lambda>_. True) e n written (write_value_part e n written)"
proof -
  note defs = write_value_part_def values_rest_def values_ok_def same_header_def
  from ok have "ehr_value_idx e \<le> length part" by (simp add: values_ok_def)
  moreover obtain k where n: "n = length written + k" using assms le_Suc_ex by blast
  ultimately show ?thesis
  proof (cases rule: WriteData_cases [where n = k])
    case complete
    then show ?thesis using ok
      by (intro piece_writes_complete [where out = "drop (ehr_value_idx e) part" and
            e' = "e\<lparr>ehr_value_part := None, ehr_value_idx := 0, ehr_value_parts_written := ehr_value_parts_written e + 1\<rparr>"])
        (auto simp: defs n)
  next
    case partial
    then show ?thesis using ok
      by (intro piece_writes_partial [where out = "take k (drop (ehr_value_idx e) part)" and
            e' = "e\<lparr>ehr_value_idx := ehr_value_idx e + k, ehr_status := Some EH_Value\<rparr>"])
        (auto simp: defs n)
  qed
qed

lemma piece_writes_cases:
  assumes "piece_writes Q e n written r"
  obtains (complete) out e' where "r = Ok (Complete (written @ out), e')" "Q e'" "values_rest e = out @ values_rest e'"
      "values_ok e'" "same_header e e'" "length (written @ out) \<le> n"
  | (partial) out e' where "r = Ok (Partial (written @ out), e')" "ehr_status e' = Some EH_Value"
      "values_rest e = out @ values_rest e'" "values_ok e'" "same_header e e'" "length (written @ out) = n"
  using assms unfolding piece_writes_def by blast

text \<open>The loop writes all that is left of the values, or fills the buffer.\<close>

definition values_written :: "EncodeHeaderRef \<Rightarrow> nat \<Rightarrow> bytes \<Rightarrow> EncodeHeaderRef TokenResult \<Rightarrow> bool" where
  "values_written e n written r \<longleftrightarrow>
     (\<exists>out e'. r = Ok (Partial (written @ out), e') \<and> same_header e e' \<and>
        (ehr_status e' = Some (EH_Crlf EncodeCrlf_new) \<and> values_rest e = out \<and> length (written @ out) \<le> n \<and> values_ok e' \<or>
         ehr_status e' = Some EH_Value \<and> values_rest e = out @ values_rest e' \<and> values_ok e' \<and> length (written @ out) = n))"

lemma values_written_prefix:
  assumes "values_written e' n (written @ out) r" "values_rest e = out @ values_rest e'" "same_header e e'"
  shows "values_written e n written r"
proof -
  from assms(1) obtain out2 e2 where r: "r = Ok (Partial ((written @ out) @ out2), e2)" "same_header e' e2" and
    c: "ehr_status e2 = Some (EH_Crlf EncodeCrlf_new) \<and> values_rest e' = out2 \<and> length ((written @ out) @ out2) \<le> n \<and> values_ok e2 \<or>
      ehr_status e2 = Some EH_Value \<and> values_rest e' = out2 @ values_rest e2 \<and> values_ok e2 \<and> length ((written @ out) @ out2) = n"
    unfolding values_written_def by blast
  show ?thesis
    unfolding values_written_def
    by (rule exI [of _ "out @ out2"], rule exI [of _ e2]) (use r c assms(2) same_header_trans [OF assms(3)] in auto)
qed

lemma encode_value_loop_written:
  assumes "values_ok e" "length written \<le> n"
  shows "values_written e n written (encode_value_loop e n written)"
  using assms
proof (induction e n written rule: encode_value_loop.induct)
  case (1 e n written)
  show ?case
  proof (cases "next_value_part e")
    case None
    with next_value_part_rest [OF 1(2)] 1(2,3) show ?thesis
      by (auto simp: values_written_def same_header_def values_ok_def split: option.splits)
  next
    case (Some e1)
    with next_value_part_rest [OF 1(2)] obtain part where e1: "values_rest e1 = values_rest e" "values_ok e1"
      "ehr_value_part e1 = Some part" "same_header e e1" by auto
    from separator_writes [OF e1(2,3) 1(3)] show ?thesis
    proof (cases rule: piece_writes_cases)
      case (partial out e2)
      then show ?thesis using Some e1 same_header_trans [OF e1(4)] by (auto simp: values_written_def)
    next
      case (complete out e2)
      note c2 = complete
      from c2 have p2: "ehr_value_part e2 = Some part" "\<not> ehr_value_needs_separator e2" by simp_all
      have head: "same_header e e2" "values_rest e = out @ values_rest e2"
        using c2 e1 same_header_trans [OF e1(4)] by auto
      from part_writes [OF c2(4) p2 c2(6)] show ?thesis
      proof (cases rule: piece_writes_cases)
        case (partial out3 e3)
        then have "values_written e2 n (written @ out) (encode_value_loop e n written)"
          using Some c2 by (simp add: values_written_def)
        then show ?thesis using head by (blast intro: values_written_prefix)
      next
        case (complete out3 e3)
        then have "values_written e3 n ((written @ out) @ out3) (encode_value_loop e n written)"
          using 1(1) [OF Some c2(1) refl refl complete(1) refl refl] Some c2 by simp
        then have "values_written e2 n (written @ out) (encode_value_loop e n written)"
          using complete by (blast intro: values_written_prefix)
        then show ?thesis using head by (blast intro: values_written_prefix)
      qed
    qed
  qed
qed

definition field_ref_rest :: "EncodeHeaderRef \<Rightarrow> bytes" where
  "field_ref_rest e =
     (let fields = concat (map field_octets (ehr_inner e)) in
      case ehr_status e of
        Some EH_Name \<Rightarrow>
          (case ehr_name e of Some n \<Rightarrow> drop (ehr_name_idx e) (into_bytes n) | None \<Rightarrow> []) @
          drop (ehr_colon_idx e) [0x3A] @ values_rest e @ [0x0D, 0x0A] @ fields
      | Some EH_Colon \<Rightarrow> drop (ehr_colon_idx e) [0x3A] @ values_rest e @ [0x0D, 0x0A] @ fields
      | Some EH_Value \<Rightarrow> values_rest e @ [0x0D, 0x0A] @ fields
      | Some (EH_Crlf c) \<Rightarrow> crlf_rest c @ fields
      | _ \<Rightarrow> [])"

definition fields_ref_ok :: "EncodeHeaderRef \<Rightarrow> bool" where
  "fields_ref_ok e \<longleftrightarrow>
     ehr_colon_idx e \<le> 1 \<and> values_ok e \<and>
     (case ehr_status e of
        Some EH_Name \<Rightarrow> (case ehr_name e of Some n \<Rightarrow> ehr_name_idx e \<le> length (into_bytes n) | None \<Rightarrow> False)
      | Some (EH_Crlf c) \<Rightarrow> crlf_ok c
      | Some _ \<Rightarrow> True
      | None \<Rightarrow> False)"

definition fields_ref_rank :: "EncodeHeaderRef \<Rightarrow> nat" where
  "fields_ref_rank e = 4 * length (ehr_inner e) + status_rank (ehr_status e)"

lemma values_rest_simps [simp]:
  "values_rest (e\<lparr>ehr_status := st\<rparr>) = values_rest e" "values_ok (e\<lparr>ehr_status := st\<rparr>) = values_ok e"
  "values_rest (e\<lparr>ehr_name_idx := i\<rparr>) = values_rest e" "values_ok (e\<lparr>ehr_name_idx := i\<rparr>) = values_ok e"
  "values_rest (e\<lparr>ehr_colon_idx := i\<rparr>) = values_rest e" "values_ok (e\<lparr>ehr_colon_idx := i\<rparr>) = values_ok e"
  "values_rest (e\<lparr>ehr_name_idx := i, ehr_status := st\<rparr>) = values_rest e"
  "values_ok (e\<lparr>ehr_name_idx := i, ehr_status := st\<rparr>) = values_ok e"
  "values_rest (e\<lparr>ehr_colon_idx := i, ehr_status := st\<rparr>) = values_rest e"
  "values_ok (e\<lparr>ehr_colon_idx := i, ehr_status := st\<rparr>) = values_ok e"
  by (cases "ehr_value_part e"; simp add: values_rest_def values_ok_def Let_def)+

lemma fields_ref_writes:
  assumes ok: "fields_ref_ok e" and n: "0 < n"
  shows "token_writes field_ref_rest fields_ref_ok fields_ref_rank e n (EncodeHeaderRef_encode e n)"
proof -
  from ok obtain st where st: "ehr_status e = Some st" by (auto simp: fields_ref_ok_def split: option.splits)
  note defs = EncodeHeaderRef_encode_def token_writes_def step_writes_def field_ref_rest_def fields_ref_ok_def
    fields_ref_rank_def st
  show ?thesis
  proof (cases st)
    case EH_Name
    with ok st obtain name where name: "ehr_name e = Some name" and i: "ehr_name_idx e \<le> length (into_bytes name)"
      by (auto simp: fields_ref_ok_def split: option.splits)
    from i show ?thesis using ok EH_Name name
      by (cases rule: WriteData_cases [where n = n]) (auto simp: defs EncodeHeaderRef_encode_name_def)
  next
    case EH_Colon
    have "ehr_colon_idx e \<le> length [0x3A :: u8]" using ok by (simp add: fields_ref_ok_def)
    then show ?thesis using ok EH_Colon
      by (cases rule: WriteData_cases [where n = n]) (auto simp: defs EncodeHeaderRef_encode_colon_def)
  next
    case EH_Value
    have "values_ok (e\<lparr>ehr_status := None\<rparr>)" using ok by (simp add: fields_ref_ok_def)
    from encode_value_loop_written [OF this, of "[]" n] show ?thesis using ok EH_Value
      by (auto simp: defs EncodeHeaderRef_encode_value_def values_written_def same_header_def)
  next
    case (EH_Crlf c)
    then have "crlf_ok c" using ok st by (simp add: fields_ref_ok_def)
    from crlf_writes [OF this n] show ?thesis using ok EH_Crlf
      by (cases rule: token_writes_cases; cases "ehr_inner e")
        (auto simp: defs EncodeHeaderRef_encode_crlf_def field_octets_def values_rest_def values_ok_def split: option.splits)
  next
    case EH_EmptyHeader
    then show ?thesis by (simp add: defs)
  qed
qed

section \<open>The encoder that borrows its request\<close>

text \<open>What is left of a request, the tokens that have to be well formed for it, and the steps to the end.\<close>

definition target_to_be_ref :: "RequestRefEncoder \<Rightarrow> EncodeUriRef" where
  "target_to_be_ref e = (rr_uri_part e)\<lparr>eur_is_absolute := rr_is_absolute_uri e\<rparr>"

definition from_fields_ref :: "RequestRefEncoder \<Rightarrow> bytes" where
  "from_fields_ref e = field_ref_rest (rr_headers_part e) @ crlf_rest (rr_headers_crlf_part e)"

definition from_version_ref :: "RequestRefEncoder \<Rightarrow> bytes" where
  "from_version_ref e = version_ref_rest (rr_version_part e) @ crlf_rest (rr_version_crlf_part e) @ from_fields_ref e"

definition request_rest_ref :: "RequestRefEncoder \<Rightarrow> bytes" where
  "request_rest_ref e =
     (case rr_encode_status e of
        ES_Method \<Rightarrow> method_ref_rest (rr_method_part e) @ sp_rest (rr_method_sp_part e) @ target_ref_rest (target_to_be_ref e) @
          sp_rest (rr_uri_sp_part e) @ from_version_ref e
      | ES_MethodSp \<Rightarrow> sp_rest (rr_method_sp_part e) @ target_ref_rest (target_to_be_ref e) @
          sp_rest (rr_uri_sp_part e) @ from_version_ref e
      | ES_Uri \<Rightarrow> target_ref_rest (rr_uri_part e) @ sp_rest (rr_uri_sp_part e) @ from_version_ref e
      | ES_UriSp \<Rightarrow> sp_rest (rr_uri_sp_part e) @ from_version_ref e
      | ES_Version \<Rightarrow> from_version_ref e
      | ES_VersionCrlf \<Rightarrow> crlf_rest (rr_version_crlf_part e) @ from_fields_ref e
      | ES_Header \<Rightarrow> from_fields_ref e
      | ES_HeaderCrlf \<Rightarrow> crlf_rest (rr_headers_crlf_part e)
      | ES_EncodeFinished \<Rightarrow> [])"

definition request_ok_ref :: "RequestRefEncoder \<Rightarrow> bool" where
  "request_ok_ref e \<longleftrightarrow>
     (case rr_encode_status e of
        ES_Method \<Rightarrow> method_ref_ok (rr_method_part e) \<and> sp_ok (rr_method_sp_part e) \<and> target_ref_ok (target_to_be_ref e) \<and>
          sp_ok (rr_uri_sp_part e) \<and> version_ref_ok (rr_version_part e) \<and> crlf_ok (rr_version_crlf_part e) \<and>
          fields_ref_ok (rr_headers_part e) \<and> crlf_ok (rr_headers_crlf_part e)
      | ES_MethodSp \<Rightarrow> sp_ok (rr_method_sp_part e) \<and> target_ref_ok (target_to_be_ref e) \<and>
          sp_ok (rr_uri_sp_part e) \<and> version_ref_ok (rr_version_part e) \<and> crlf_ok (rr_version_crlf_part e) \<and>
          fields_ref_ok (rr_headers_part e) \<and> crlf_ok (rr_headers_crlf_part e)
      | ES_Uri \<Rightarrow> target_ref_ok (rr_uri_part e) \<and>
          sp_ok (rr_uri_sp_part e) \<and> version_ref_ok (rr_version_part e) \<and> crlf_ok (rr_version_crlf_part e) \<and>
          fields_ref_ok (rr_headers_part e) \<and> crlf_ok (rr_headers_crlf_part e)
      | ES_UriSp \<Rightarrow> sp_ok (rr_uri_sp_part e) \<and> version_ref_ok (rr_version_part e) \<and> crlf_ok (rr_version_crlf_part e) \<and>
          fields_ref_ok (rr_headers_part e) \<and> crlf_ok (rr_headers_crlf_part e)
      | ES_Version \<Rightarrow> version_ref_ok (rr_version_part e) \<and> crlf_ok (rr_version_crlf_part e) \<and>
          fields_ref_ok (rr_headers_part e) \<and> crlf_ok (rr_headers_crlf_part e)
      | ES_VersionCrlf \<Rightarrow> crlf_ok (rr_version_crlf_part e) \<and>
          fields_ref_ok (rr_headers_part e) \<and> crlf_ok (rr_headers_crlf_part e)
      | ES_Header \<Rightarrow> fields_ref_ok (rr_headers_part e) \<and> crlf_ok (rr_headers_crlf_part e)
      | ES_HeaderCrlf \<Rightarrow> crlf_ok (rr_headers_crlf_part e)
      | ES_EncodeFinished \<Rightarrow> True)"

definition request_rank_ref :: "RequestRefEncoder \<Rightarrow> nat" where
  "request_rank_ref e =
     (case rr_encode_status e of
        ES_Method \<Rightarrow> Suc (7 + fields_ref_rank (rr_headers_part e))
      | ES_MethodSp \<Rightarrow> Suc (6 + fields_ref_rank (rr_headers_part e))
      | ES_Uri \<Rightarrow> Suc (5 + fields_ref_rank (rr_headers_part e))
      | ES_UriSp \<Rightarrow> Suc (4 + fields_ref_rank (rr_headers_part e))
      | ES_Version \<Rightarrow> Suc (3 + fields_ref_rank (rr_headers_part e))
      | ES_VersionCrlf \<Rightarrow> Suc (2 + fields_ref_rank (rr_headers_part e))
      | ES_Header \<Rightarrow> Suc (1 + fields_ref_rank (rr_headers_part e))
      | ES_HeaderCrlf \<Rightarrow> Suc 0
      | ES_EncodeFinished \<Rightarrow> 0)"

lemmas request_defs_ref = request_rest_ref_def request_ok_ref_def request_rank_ref_def from_fields_ref_def from_version_ref_def
  target_to_be_ref_def

lemma method_stage_ref:
  assumes "rr_encode_status e = ES_Method" "request_ok_ref e" "0 < n"
  shows "\<exists>out e'. RequestRefEncoder_method_encode e n = Ok (out, e') \<and>
    step_writes request_rest_ref request_ok_ref request_rank_ref e n out e'"
  unfolding RequestRefEncoder_method_encode_def Let_def
  using assms by (intro stage_writes [OF method_ref_writes]) (auto simp: request_defs_ref)

lemma method_sp_stage_ref:
  assumes "rr_encode_status e = ES_MethodSp" "request_ok_ref e" "0 < n"
  shows "\<exists>out e'. RequestRefEncoder_method_sp_encode e n = Ok (out, e') \<and>
    step_writes request_rest_ref request_ok_ref request_rank_ref e n out e'"
  unfolding RequestRefEncoder_method_sp_encode_def Let_def
  using assms by (intro stage_writes [OF sp_writes]) (auto simp: request_defs_ref)

lemma uri_stage_ref:
  assumes "rr_encode_status e = ES_Uri" "request_ok_ref e" "0 < n"
  shows "\<exists>out e'. RequestRefEncoder_uri_encode e n = Ok (out, e') \<and>
    step_writes request_rest_ref request_ok_ref request_rank_ref e n out e'"
  unfolding RequestRefEncoder_uri_encode_def Let_def
  using assms by (intro stage_writes [OF target_ref_writes]) (auto simp: request_defs_ref)

lemma uri_sp_stage_ref:
  assumes "rr_encode_status e = ES_UriSp" "request_ok_ref e" "0 < n"
  shows "\<exists>out e'. RequestRefEncoder_uri_sp_encode e n = Ok (out, e') \<and>
    step_writes request_rest_ref request_ok_ref request_rank_ref e n out e'"
  unfolding RequestRefEncoder_uri_sp_encode_def Let_def
  using assms by (intro stage_writes [OF sp_writes]) (auto simp: request_defs_ref)

lemma version_stage_ref:
  assumes "rr_encode_status e = ES_Version" "request_ok_ref e" "0 < n"
  shows "\<exists>out e'. RequestRefEncoder_version_encode e n = Ok (out, e') \<and>
    step_writes request_rest_ref request_ok_ref request_rank_ref e n out e'"
  unfolding RequestRefEncoder_version_encode_def Let_def
  using assms by (intro stage_writes [OF version_ref_writes]) (auto simp: request_defs_ref)

lemma version_crlf_stage_ref:
  assumes "rr_encode_status e = ES_VersionCrlf" "request_ok_ref e" "0 < n"
  shows "\<exists>out e'. RequestRefEncoder_version_crlf_encode e n = Ok (out, e') \<and>
    step_writes request_rest_ref request_ok_ref request_rank_ref e n out e'"
  unfolding RequestRefEncoder_version_crlf_encode_def Let_def
  using assms by (intro stage_writes [OF crlf_writes]) (auto simp: request_defs_ref)

lemma header_stage_ref:
  assumes "rr_encode_status e = ES_Header" "request_ok_ref e" "0 < n"
  shows "\<exists>out e'. RequestRefEncoder_header_encode e n = Ok (out, e') \<and>
    step_writes request_rest_ref request_ok_ref request_rank_ref e n out e'"
  unfolding RequestRefEncoder_header_encode_def Let_def
  using assms by (intro stage_writes [OF fields_ref_writes]) (auto simp: request_defs_ref)

lemma header_crlf_stage_ref:
  assumes "rr_encode_status e = ES_HeaderCrlf" "request_ok_ref e" "0 < n"
  shows "\<exists>out e'. RequestRefEncoder_header_crlf_encode e n = Ok (out, e') \<and>
    step_writes request_rest_ref request_ok_ref request_rank_ref e n out e'"
  unfolding RequestRefEncoder_header_crlf_encode_def Let_def
  using assms by (intro stage_writes [OF crlf_writes]) (auto simp: request_defs_ref)

lemmas stages_ref = method_stage_ref method_sp_stage_ref uri_stage_ref uri_sp_stage_ref version_stage_ref version_crlf_stage_ref
  header_stage_ref header_crlf_stage_ref

interpretation request_enc_ref: buffer_encoder RequestRefEncoder_step request_rest_ref request_ok_ref request_rank_ref RequestRefEncoder_encode
proof
  fix e :: RequestRefEncoder and n :: nat
  assume "request_ok_ref e" "0 < n"
  then show "RequestRefEncoder_step e n = Ok None \<and> request_rest_ref e = [] \<or>
    (\<exists>out e'. RequestRefEncoder_step e n = Ok (Some (out, e')) \<and>
      step_writes request_rest_ref request_ok_ref request_rank_ref e n out e')"
    using stages_ref [of e n]
    by (cases "rr_encode_status e") (auto simp: RequestRefEncoder_step_def request_rest_ref_def)
qed (simp add: RequestRefEncoder_encode_def)

section \<open>Properties\<close>

text \<open>The octets of a request message.\<close>

definition request_octets :: "RequestPart \<Rightarrow> bool \<Rightarrow> bytes" where
  "request_octets part absolute =
     into_bytes (Method_as_str (rq_method part)) @ [0x20] @
     (if absolute then into_bytes (Uri_to_string (rq_uri part)) else origin_octets (rq_uri part)) @ [0x20] @
     into_bytes (Version_as_str (rq_version part)) @ [0x0D, 0x0A] @
     concat (map field_octets (rq_headers part)) @ [0x0D, 0x0A]"

lemma RequestEncoder_new_ok:
  obtains e where "RequestEncoder_new part = Ok e"
    "request_ok (RequestEncoder_absolute_uri e absolute)"
    "request_rest (RequestEncoder_absolute_uri e absolute) = request_octets part absolute"
proof -
  have "HeaderName_from_bytes (into_bytes '' '') = Ok '' ''" by code_simp
  then obtain h where h: "EncodeHeader_new (rq_headers part) = Ok h" "fields_ok h"
      "field_rest h = concat (map field_octets (rq_headers part))"
    by (cases "rq_headers part")
      (auto simp: EncodeHeader_new_def Headers_into_iter_def fields_ok_def field_rest_def field_octets_def HeaderValue_to_vec_eq)
  from h(1) obtain e where e: "RequestEncoder_new part = Ok e" by (simp add: RequestEncoder_new_def)
  then have "re_encode_status e = ES_Method" "re_method_part e = EncodeMethod_new (rq_method part)"
    "re_method_sp_part e = EncodeSp_new" "re_uri_part e = EncodeUri_new (rq_uri part) False" "re_uri_sp_part e = EncodeSp_new"
    "re_version_part e = EncodeVersion_new (rq_version part)" "re_version_crlf_part e = EncodeCrlf_new"
    "re_headers_part e = h" "re_headers_crlf_part e = EncodeCrlf_new"
    using h(1) by (auto simp: RequestEncoder_new_def)
  with h(2,3) show thesis
    by (intro that [OF e])
      (simp_all add: RequestEncoder_absolute_uri_def request_defs request_octets_def
        method_ok_def method_rest_def EncodeMethod_new_def version_ok_def version_rest_def EncodeVersion_new_def
        target_ok_def target_rest_def target_text_def EncodeUri_new_def origin_octets_def)
qed

lemma RequestRefEncoder_new_ok:
  "request_ok_ref (RequestRefEncoder_absolute_uri (RequestRefEncoder_new part) absolute)"
  "request_rest_ref (RequestRefEncoder_absolute_uri (RequestRefEncoder_new part) absolute) = request_octets part absolute"
proof -
  have h: "fields_ref_ok (EncodeHeaderRef_new (rq_headers part))"
      "field_ref_rest (EncodeHeaderRef_new (rq_headers part)) = concat (map field_octets (rq_headers part))"
    by (cases "rq_headers part";
        auto simp: EncodeHeaderRef_new_def Headers_into_iter_def fields_ref_ok_def field_ref_rest_def field_octets_def
          values_ok_def values_rest_def)+
  show "request_ok_ref (RequestRefEncoder_absolute_uri (RequestRefEncoder_new part) absolute)"
    "request_rest_ref (RequestRefEncoder_absolute_uri (RequestRefEncoder_new part) absolute) = request_octets part absolute"
    by (simp_all add: RequestRefEncoder_new_def h RequestRefEncoder_absolute_uri_def request_defs_ref request_octets_def
        method_ref_ok_def method_ref_rest_def EncodeMethodRef_new_def version_ref_ok_def version_ref_rest_def
        EncodeVersionRef_new_def target_ref_ok_def target_ref_rest_def target_ref_text_def EncodeUriRef_new_def)
qed

text \<open>
  C13. Equivalence: the encoder that owns its request and the one that borrows it write the same octets, those of the
  message, into buffers of any sizes but zero, each buffer filled before the next one; they neither panic nor fail.
\<close>

theorem request_encoders_write:
  "\<exists>e e1 e2. RequestEncoder_new part = Ok e \<and>
     fill_all RequestEncoder_encode (RequestEncoder_absolute_uri e absolute) (map Suc ns) =
       Some (cut_into (request_octets part absolute) (map Suc ns), e1) \<and>
     fill_all RequestRefEncoder_encode (RequestRefEncoder_absolute_uri (RequestRefEncoder_new part) absolute) (map Suc ns) =
       Some (cut_into (request_octets part absolute) (map Suc ns), e2)"
proof -
  have pos: "list_all (\<lambda>n. 0 < n) (map Suc ns)" by (simp add: list_all_iff)
  obtain e where e: "RequestEncoder_new part = Ok e" "request_ok (RequestEncoder_absolute_uri e absolute)"
    "request_rest (RequestEncoder_absolute_uri e absolute) = request_octets part absolute" by (rule RequestEncoder_new_ok)
  from request_enc.fill_all_content [OF e(2) pos] request_enc_ref.fill_all_content [OF RequestRefEncoder_new_ok(1) pos] e(1)
  show ?thesis unfolding e(3) RequestRefEncoder_new_ok(2) by blast
qed

text \<open>The caller's loop over both encoders.\<close>

lemma request_drained:
  "obind (RequestEncoder_new part) (\<lambda>e. Ok (drain RequestEncoder_encode (Suc n) (RequestEncoder_absolute_uri e absolute) [])) =
     Ok (Some (Ok (request_octets part absolute))) \<and>
   drain RequestRefEncoder_encode (Suc n) (RequestRefEncoder_absolute_uri (RequestRefEncoder_new part) absolute) [] =
     Some (Ok (request_octets part absolute))"
proof
  obtain e where e: "RequestEncoder_new part = Ok e" "request_ok (RequestEncoder_absolute_uri e absolute)"
    "request_rest (RequestEncoder_absolute_uri e absolute) = request_octets part absolute" by (rule RequestEncoder_new_ok)
  from request_enc.drain_content [OF e(2), of "Suc n" "[]"] e
  show "obind (RequestEncoder_new part) (\<lambda>e. Ok (drain RequestEncoder_encode (Suc n) (RequestEncoder_absolute_uri e absolute) [])) =
     Ok (Some (Ok (request_octets part absolute)))" by simp
  from request_enc_ref.drain_content [OF RequestRefEncoder_new_ok(1), of "Suc n" part absolute "[]"] RequestRefEncoder_new_ok(2)
  show "drain RequestRefEncoder_encode (Suc n) (RequestRefEncoder_absolute_uri (RequestRefEncoder_new part) absolute) [] =
     Some (Ok (request_octets part absolute))" by simp
qed

text \<open>
  C19. Termination: the loop that a caller runs, into one buffer of any size but zero and until a call does not fill it,
  ends for both encoders and has the whole message.
\<close>

theorem request_encoding_ends:
  "obind (RequestEncoder_new part) (\<lambda>e. Ok (drain RequestEncoder_encode (Suc n) (RequestEncoder_absolute_uri e absolute) [])) =
     Ok (Some (Ok (request_octets part absolute))) \<and>
   drain RequestRefEncoder_encode (Suc n) (RequestRefEncoder_absolute_uri (RequestRefEncoder_new part) absolute) [] =
     Some (Ok (request_octets part absolute))"
  by (rule request_drained)

text \<open>Line ends: one ends the request line, one each header, and one the headers.\<close>

lemma count_zero: "list_all (\<lambda>b. b \<noteq> x) bs \<Longrightarrow> count_list bs x = 0"
  by (induction bs) auto

lemma no_line_end:
  assumes "x = 0x0A \<or> x = 0x0D"
  shows "count_list (into_bytes (Method_as_str m)) x = 0" "count_list (into_bytes (Version_as_str v)) x = 0"
    "list_all graphic bs \<Longrightarrow> count_list bs x = 0"
proof -
  show "count_list (into_bytes (Method_as_str m)) x = 0" using assms by (cases m) (auto simp: byte_of_char_def)
  show "count_list (into_bytes (Version_as_str v)) x = 0" using assms by (cases v) (auto simp: byte_of_char_def)
  show "list_all graphic bs \<Longrightarrow> count_list bs x = 0"
    using assms by (intro count_zero) (auto simp: list_all_iff graphic_def)
qed

lemma target_no_line_end:
  assumes "uri_ok u" "x = 0x0A \<or> x = 0x0D"
  shows "count_list (into_bytes (Uri_to_string u)) x = 0" "count_list (origin_octets u) x = 0"
proof -
  show "count_list (into_bytes (Uri_to_string u)) x = 0"
    using assms(1) by (intro no_line_end [OF assms(2)]) (simp add: uri_ok_def graphic_str_def)
  have "list_all graphic (origin_octets u)"
    using assms(1)
    by (auto simp: uri_ok_def parts_ok_def graphic_str_def origin_octets_def Uri_path_and_query_def Let_def graphic_def
        byte_of_char_def split: option.splits)
  then show "count_list (origin_octets u) x = 0" by (rule no_line_end [OF assms(2)])
qed

lemma field_one_line_end:
  assumes "HeaderName_ok n" "HeaderValue_ok v" "x = 0x0A \<or> x = 0x0D"
  shows "count_list (field_octets (n, v)) x = 1"
proof -
  have "header_char 0x0A = 0" "header_char 0x0D = 0" by code_simp+
  then have "count_list (into_bytes n) x = 0"
    using assms(1,3) by (intro count_zero) (auto simp: HeaderName_ok_def HeaderName_try_from_eq list_all_iff split: if_splits)
  moreover have "count_list (join_values (hv_inner v)) x = 0"
    using assms(2,3) join_values_valid [of "hv_inner v"]
    by (intro count_zero) (auto simp: HeaderValue_ok_def HeaderValue_is_valid_def list_all_iff)
  ultimately show ?thesis using assms(3) by (auto simp: field_octets_def)
qed

lemma message_line_ends:
  assumes "uri_ok (rq_uri part)" "Headers_ok (rq_headers part)" "x = 0x0A \<or> x = 0x0D"
  shows "count_list (request_octets part absolute) x = Headers_len (rq_headers part) + 2"
proof -
  have "count_list (concat (map field_octets h)) x = length h"
    if "\<forall>(n, v) \<in> set h. HeaderName_ok n \<and> HeaderValue_ok v" for h
    using that by (induction h) (auto simp: field_one_line_end [OF _ _ assms(3)])
  then have "count_list (concat (map field_octets (rq_headers part))) x = Headers_len (rq_headers part)"
    using assms(2) by (simp add: Headers_ok_def Headers_len_def)
  then show ?thesis
    using target_no_line_end [OF assms(1,3)] no_line_end(1,2) [OF assms(3)] assms(3) by (auto simp: request_octets_def)
qed

text \<open>
  C20. No injection: what both encoders write for a request whose URI and headers are well formed, as the readers of URIs
  and the operations of header maps make them, with a buffer of any size but zero, has exactly as many line feeds and as many carriage returns as the message has lines: the request line, its
  headers and the empty line. So neither the target nor a header can end a line or add one.
\<close>

theorem request_lines:
  assumes "uri_ok (rq_uri part)" "Headers_ok (rq_headers part)"
  shows "\<exists>message.
    obind (RequestEncoder_new part) (\<lambda>e. Ok (drain RequestEncoder_encode (Suc n) (RequestEncoder_absolute_uri e absolute) [])) =
      Ok (Some (Ok message)) \<and>
    drain RequestRefEncoder_encode (Suc n) (RequestRefEncoder_absolute_uri (RequestRefEncoder_new part) absolute) [] =
      Some (Ok message) \<and>
    count_list message 0x0A = Headers_len (rq_headers part) + 2 \<and>
    count_list message 0x0D = Headers_len (rq_headers part) + 2"
  using request_drained [of part n absolute] message_line_ends [OF assms, of _ absolute] by blast

definition sample_request :: RequestPart where
  "sample_request =
     \<lparr>rq_uri = \<lparr>ur_scheme = Some Http, ur_authority = Some \<lparr>au_host = ''h'', au_port = None\<rparr>,
                ur_path = Some ''/'', ur_query = None\<rparr>,
      rq_method = GET, rq_version = HTTP1_1,
      rq_headers = [(''a'', \<lparr>hv_inner = [[0x31], [0x32]], hv_is_sensitive = False\<rparr>)]\<rparr>"

theorem request_lines_witness:
  "uri_ok (rq_uri sample_request) \<and> Headers_ok (rq_headers sample_request) \<and>
   (\<exists>message.
    obind (RequestEncoder_new sample_request)
      (\<lambda>e. Ok (drain RequestEncoder_encode (Suc 6) (RequestEncoder_absolute_uri e True) [])) = Ok (Some (Ok message)) \<and>
    drain RequestRefEncoder_encode (Suc 6) (RequestRefEncoder_absolute_uri (RequestRefEncoder_new sample_request) True) [] =
      Some (Ok message) \<and>
    count_list message 0x0A = Headers_len (rq_headers sample_request) + 2 \<and>
    count_list message 0x0D = Headers_len (rq_headers sample_request) + 2)"
proof -
  have "uri_ok (rq_uri sample_request)" "Headers_ok (rq_headers sample_request)" by code_simp+
  with request_lines [OF this] show ?thesis by blast
qed

end
