(* ===== verification/H1_Response_Properties.thy ===== *)
theory H1_Response_Properties
  imports H1_Response
begin

text \<open>
  The response decoder as a chain of phases, each of which can be resumed; that the cuts of its input
  change nothing but the treatment of a repeated \<open>CR\<close>; that it never panics; and the grammar of the
  messages it accepts.
\<close>

section \<open>The chain of phases\<close>

abbreviation step_bind :: "bytes step \<Rightarrow> (ResponseDecoder \<Rightarrow> bytes \<Rightarrow> 'a step) \<Rightarrow> 'a step" where
  "step_bind \<equiv> get_unparsed_or_return"

lemma step_bind_assoc: "step_bind (step_bind r k) l = step_bind r (\<lambda>d b. step_bind (k d b) l)"
  by (cases r) (auto simp: get_unparsed_or_return_def split: option.splits)

text \<open>The five loops, each of them one token followed by the next loop.\<close>

lemma from_key_step: "decode_header_from_key d b = step_bind (decode_key d b) decode_header_from_ows_before"
proof (induction b arbitrary: d rule: length_induct)
  case (1 b)
  show ?case
    unfolding decode_header_from_key.simps [of d b]
    by (rule get_unparsed_or_return_cong [OF refl], subst decode_header_from_ows_before.simps,
        intro get_unparsed_or_return_cong detect_blank_and_return_cong refl "1.IH" [rule_format])
      (auto dest!: token_lengths)
qed

lemma from_ows_step: "decode_header_from_ows_before d b = step_bind (decode_ows d b) decode_header_from_value"
proof (induction b arbitrary: d rule: length_induct)
  case (1 b)
  show ?case
    unfolding decode_header_from_ows_before.simps [of d b]
    by (rule get_unparsed_or_return_cong [OF refl], subst decode_header_from_value.simps,
        intro get_unparsed_or_return_cong detect_blank_and_return_cong refl "1.IH" [rule_format])
      (auto dest!: token_lengths)
qed

lemma from_value_step: "decode_header_from_value d b = step_bind (decode_value d b) decode_header_from_crlf"
proof (induction b arbitrary: d rule: length_induct)
  case (1 b)
  show ?case
    unfolding decode_header_from_value.simps [of d b]
    by (rule get_unparsed_or_return_cong [OF refl], subst decode_header_from_crlf.simps,
        intro get_unparsed_or_return_cong detect_blank_and_return_cong refl "1.IH" [rule_format])
      (auto dest!: token_lengths)
qed

lemma from_crlf_step:
  "decode_header_from_crlf d b = step_bind (decode_crlf d False b) decode_header_from_crlf_end"
proof (induction b arbitrary: d rule: length_induct)
  case (1 b)
  show ?case
    unfolding decode_header_from_crlf.simps [of d b]
    by (rule get_unparsed_or_return_cong [OF refl], subst decode_header_from_crlf_end.simps,
        intro get_unparsed_or_return_cong detect_blank_and_return_cong refl "1.IH" [rule_format])
      (auto dest!: token_lengths)
qed

lemma from_end_step:
  "decode_header_from_crlf_end d b = detect_blank_and_return d b decode_header_from_key"
proof (induction b arbitrary: d rule: length_induct)
  case (1 b)
  show ?case
    unfolding decode_header_from_crlf_end.simps [of d b]
    by (rule detect_blank_and_return_cong [OF refl refl], subst decode_header_from_key.simps,
        intro get_unparsed_or_return_cong refl "1.IH" [rule_format] trans [OF "1.IH" [rule_format]])
      (auto dest!: token_lengths)
qed

text \<open>The rest of a message from each of these stages on, up to the blank line.\<close>

definition key_phase :: "ResponseDecoder \<Rightarrow> bytes \<Rightarrow> (ResponsePart \<times> bytes) step" where
  "key_phase d b = step_bind (decode_header_from_key d b) blank_line_phase"

definition ows_phase :: "ResponseDecoder \<Rightarrow> bytes \<Rightarrow> (ResponsePart \<times> bytes) step" where
  "ows_phase d b = step_bind (decode_header_from_ows_before d b) blank_line_phase"

definition value_phase :: "ResponseDecoder \<Rightarrow> bytes \<Rightarrow> (ResponsePart \<times> bytes) step" where
  "value_phase d b = step_bind (decode_header_from_value d b) blank_line_phase"

definition crlf_phase :: "ResponseDecoder \<Rightarrow> bytes \<Rightarrow> (ResponsePart \<times> bytes) step" where
  "crlf_phase d b = step_bind (decode_header_from_crlf d b) blank_line_phase"

definition end_phase :: "ResponseDecoder \<Rightarrow> bytes \<Rightarrow> (ResponsePart \<times> bytes) step" where
  "end_phase d b = step_bind (decode_header_from_crlf_end d b) blank_line_phase"

lemma field_phases:
  "key_phase d b = step_bind (decode_key d b) ows_phase"
  "ows_phase d b = step_bind (decode_ows d b) value_phase"
  "value_phase d b = step_bind (decode_value d b) crlf_phase"
  "crlf_phase d b = step_bind (decode_crlf d False b) end_phase"
  unfolding key_phase_def ows_phase_def value_phase_def crlf_phase_def end_phase_def
  by (simp_all only: from_key_step from_ows_step from_value_step from_crlf_step step_bind_assoc)

lemma end_phase_eq:
  "end_phase d b =
     (if b = [] then Ok (None, d\<lparr>rd_stage := PS_Header HS_EndCrlf\<rparr>)
      else if b ! 0 = 0x0D \<or> b ! 0 = 0x0A then blank_line_phase d b
      else key_phase d b)"
  by (simp add: end_phase_def from_end_step detect_blank_and_return_def key_phase_def)

text \<open>The status line in the same form.\<close>

definition version_step :: "ResponseDecoder \<Rightarrow> bytes \<Rightarrow> bytes step" where
  "version_step d b =
     (case status_token b of
        Ok (Complete (version, u)) \<Rightarrow>
          let version = rd_rest d @ version; d = d\<lparr>rd_stage := PS_Version, rd_rest := []\<rparr> in
          if version = into_bytes ''HTTP/1.0'' then Ok (Some u, d\<lparr>rd_version := Some HTTP1_0\<rparr>)
          else if version = into_bytes ''HTTP/1.1'' then Ok (Some u, d\<lparr>rd_version := Some HTTP1_1\<rparr>)
          else invalid_response
      | Ok (Partial rest) \<Rightarrow> Ok (None, d\<lparr>rd_stage := PS_Version, rd_rest := rd_rest d @ rest\<rparr>)
      | Err e \<Rightarrow> Err e
      | Panic \<Rightarrow> Panic)"

definition status_code_step :: "ResponseDecoder \<Rightarrow> bytes \<Rightarrow> bytes step" where
  "status_code_step d b =
     (case status_token b of
        Ok (Complete (code, u)) \<Rightarrow>
          obind (map_err (\<lambda>_. EK_H1 InvalidResponse) (StatusCode_from_bytes (rd_rest d @ code))) (\<lambda>status.
            Ok (Some u, d\<lparr>rd_stage := PS_StatusCode, rd_rest := [], rd_status_code := Some status\<rparr>))
      | Ok (Partial rest) \<Rightarrow> Ok (None, d\<lparr>rd_stage := PS_StatusCode, rd_rest := rd_rest d @ rest\<rparr>)
      | Err e \<Rightarrow> Err e
      | Panic \<Rightarrow> Panic)"

definition reason_step :: "ResponseDecoder \<Rightarrow> bytes \<Rightarrow> bytes step" where
  "reason_step d b = obind (decode_reason b) (\<lambda>u. Ok (u, d\<lparr>rd_stage := PS_Reason\<rparr>))"

definition crlf_step :: "ParseStage \<Rightarrow> ResponseDecoder \<Rightarrow> bytes \<Rightarrow> bytes step" where
  "crlf_step st d b = decode_status_crlf (d\<lparr>rd_stage := st\<rparr>) b"

definition finish :: "ResponseDecoder \<Rightarrow> bytes \<Rightarrow> (ResponsePart \<times> bytes) step" where
  "finish d u =
     (case (rd_version d, rd_status_code d, rd_headers d) of
        (Some version, Some status, Some headers) \<Rightarrow>
          Ok (Some (\<lparr>rp_version = version, rp_status = status, rp_headers = headers\<rparr>, u),
              d\<lparr>rd_version := None, rd_status_code := None, rd_headers := None\<rparr>)
      | _ \<Rightarrow> Panic)"

lemma status_phases:
  "version_phase d b = step_bind (version_step d b) status_code_phase"
  "status_code_phase d b = step_bind (status_code_step d b) reason_phase"
  "reason_phase d b = step_bind (reason_step d b) status_crlf_phase"
  "status_crlf_phase d b = step_bind (crlf_step PS_StatusCrlf d b) header_phase_with_init"
  "blank_line_phase d b = step_bind (crlf_step PS_BlankLine d b) finish"
proof -
  show "version_phase d b = step_bind (version_step d b) status_code_phase"
    by (simp add: version_phase_def version_step_def take_value_eq Let_def
        split: outcome.split TokenStatus.split)
  show "status_code_phase d b = step_bind (status_code_step d b) reason_phase"
    by (cases "status_token b")
      (auto simp: status_code_phase_def status_code_step_def take_value_eq Let_def obind_assoc
        get_unparsed_or_return_def split: TokenStatus.split)
  show "reason_phase d b = step_bind (reason_step d b) status_crlf_phase"
    by (simp add: reason_phase_def reason_step_def)
  show "status_crlf_phase d b = step_bind (crlf_step PS_StatusCrlf d b) header_phase_with_init"
    by (simp add: status_crlf_phase_def crlf_step_def)
  show "blank_line_phase d b = step_bind (crlf_step PS_BlankLine d b) finish"
    by (simp add: blank_line_phase_def crlf_step_def finish_def [abs_def])
qed

text \<open>A token sets the stage, so what it does not depend on the stage it is called in.\<close>

lemma stage_irrelevant:
  "key_phase (d\<lparr>rd_stage := st\<rparr>) b = key_phase d b"
  "blank_line_phase (d\<lparr>rd_stage := st\<rparr>) b = blank_line_phase d b"
  "b \<noteq> [] \<Longrightarrow> end_phase (d\<lparr>rd_stage := st\<rparr>) b = end_phase d b"
proof -
  show key: "key_phase (d\<lparr>rd_stage := st\<rparr>) b = key_phase d b" for b
    by (simp add: field_phases decode_key_def)
  show blank: "blank_line_phase (d\<lparr>rd_stage := st\<rparr>) b = blank_line_phase d b" for b
    by (simp add: status_phases crlf_step_def)
  show "b \<noteq> [] \<Longrightarrow> end_phase (d\<lparr>rd_stage := st\<rparr>) b = end_phase d b"
    by (simp add: end_phase_eq key blank)
qed

lemma header_phase_with_init_eq:
  "header_phase_with_init d b =
     (if b = [] then Ok (None, d\<lparr>rd_headers := Some Headers_new, rd_stage := PS_Header HS_Start\<rparr>)
      else end_phase (d\<lparr>rd_headers := Some Headers_new\<rparr>) b)"
  using stage_irrelevant(1) [where d = "d\<lparr>rd_headers := Some Headers_new\<rparr>" and st = "PS_Header HS_Key"]
  by (simp add: header_phase_with_init_def Let_def end_phase_eq decode_header_def key_phase_def)

text \<open>Where a decoder goes on.\<close>

lemma decode_stage:
  "rd_stage d = PS_Version \<Longrightarrow> ResponseDecoder_decode d b = version_phase d b"
  "rd_stage d = PS_StatusCode \<Longrightarrow> ResponseDecoder_decode d b = status_code_phase d b"
  "rd_stage d = PS_Reason \<Longrightarrow> ResponseDecoder_decode d b = reason_phase d b"
  "rd_stage d = PS_StatusCrlf \<Longrightarrow> ResponseDecoder_decode d b = status_crlf_phase d b"
  "rd_stage d = PS_BlankLine \<Longrightarrow> ResponseDecoder_decode d b = blank_line_phase d b"
  "rd_stage d = PS_Header HS_Key \<Longrightarrow> ResponseDecoder_decode d b = key_phase d b"
  "rd_stage d = PS_Header HS_OwsBefore \<Longrightarrow> ResponseDecoder_decode d b = ows_phase d b"
  "rd_stage d = PS_Header HS_Value \<Longrightarrow> ResponseDecoder_decode d b = value_phase d b"
  "rd_stage d = PS_Header HS_Crlf \<Longrightarrow> ResponseDecoder_decode d b = crlf_phase d b"
  "rd_stage d = PS_Header HS_EndCrlf \<Longrightarrow> ResponseDecoder_decode d b = end_phase d b"
  "rd_stage d = PS_Header HS_Start \<Longrightarrow>
     ResponseDecoder_decode d b = (if b = [] then Ok (None, d) else end_phase d b)"
  by (simp_all add: ResponseDecoder_decode_def header_phase_def decode_header_def key_phase_def
      ows_phase_def value_phase_def crlf_phase_def end_phase_def end_phase_eq from_end_step detect_blank_and_return_def)

section \<open>Cuts\<close>

text \<open>
  A cut may make the decoder accept what it refuses in one piece (a \<open>CR\<close> that is repeated across the
  cut); apart from that, and from the state that an incomplete message leaves, nothing changes.
\<close>

definition agree :: "'a step \<Rightarrow> 'a step \<Rightarrow> bool" where
  "agree whole pieces \<longleftrightarrow>
     (\<exists>e. whole = Err e) \<or> whole = pieces \<or> (\<exists>d d'. whole = Ok (None, d) \<and> pieces = Ok (None, d'))"

lemma agree_refl [simp]: "agree m m"
  by (simp add: agree_def)

lemma agree_bind: "agree m n \<Longrightarrow> agree (step_bind m k) (step_bind n k)"
  by (auto simp: agree_def)

definition token_cut :: "(ResponseDecoder \<Rightarrow> bytes \<Rightarrow> bytes step) \<Rightarrow> ResponseDecoder \<Rightarrow> bytes \<Rightarrow> bytes \<Rightarrow> bool" where
  "token_cut T d xs ys \<longleftrightarrow>
     (case T d xs of
        Ok (Some r, d1) \<Rightarrow> T d (xs @ ys) = Ok (Some (r @ ys), d1)
      | Ok (None, d1) \<Rightarrow> agree (T d (xs @ ys)) (T d1 ys)
      | other \<Rightarrow> T d (xs @ ys) = other)"

definition phase_cut ::
  "(ResponseDecoder \<Rightarrow> bytes \<Rightarrow> (ResponsePart \<times> bytes) step) \<Rightarrow> ResponseDecoder \<Rightarrow> bytes \<Rightarrow> bytes \<Rightarrow> bool" where
  "phase_cut F d xs ys \<longleftrightarrow>
     (case F d xs of
        Ok (Some (part, r), d1) \<Rightarrow> F d (xs @ ys) = Ok (Some (part, r @ ys), d1)
      | Ok (None, d1) \<Rightarrow> agree (F d (xs @ ys)) (ResponseDecoder_decode d1 ys)
      | other \<Rightarrow> F d (xs @ ys) = other)"

lemma phase_cut_bind:
  assumes "token_cut T d xs ys"
    and "\<And>r d1. T d xs = Ok (Some r, d1) \<Longrightarrow> phase_cut F d1 r ys"
    and "\<And>d1. T d xs = Ok (None, d1) \<Longrightarrow> ResponseDecoder_decode d1 ys = step_bind (T d1 ys) F"
  shows "phase_cut (\<lambda>d b. step_bind (T d b) F) d xs ys"
proof (cases "T d xs")
  case (Ok res)
  obtain u d1 where res: "res = (u, d1)" by fastforce
  show ?thesis
  proof (cases u)
    case None
    with assms(1,3) Ok res show ?thesis by (simp add: phase_cut_def token_cut_def agree_bind)
  next
    case (Some r)
    with assms(1) Ok res have whole: "step_bind (T d (xs @ ys)) F = F d1 (r @ ys)" by (simp add: token_cut_def)
    have piece: "step_bind (T d xs) F = F d1 r" using Ok res Some by simp
    show ?thesis
      using assms(2) [of r d1] Ok res Some unfolding phase_cut_def whole piece by simp
  qed
qed (use assms(1) in \<open>simp_all add: phase_cut_def token_cut_def\<close>)

lemma dropWhile_takeWhile_append:
  "dropWhile P xs = [] \<Longrightarrow> dropWhile P (xs @ ys) = dropWhile P ys \<and> takeWhile P (xs @ ys) = xs @ takeWhile P ys"
  "dropWhile P xs = x # r \<Longrightarrow> dropWhile P (xs @ ys) = x # r @ ys \<and> takeWhile P (xs @ ys) = takeWhile P xs"
  by (induction xs) (auto split: if_splits)

fun glue_tokens ::
  "((bytes \<times> bytes, bytes) TokenStatus, 'e) outcome \<Rightarrow> ((bytes \<times> bytes, bytes) TokenStatus, 'e) outcome \<Rightarrow>
     bytes \<Rightarrow> ((bytes \<times> bytes, bytes) TokenStatus, 'e) outcome" where
  "glue_tokens (Ok (Complete (t, u))) res ys = Ok (Complete (t, u @ ys))"
| "glue_tokens (Ok (Partial p)) (Ok (Complete (t, u))) ys = Ok (Complete (p @ t, u))"
| "glue_tokens (Ok (Partial p)) (Ok (Partial q)) ys = Ok (Partial (p @ q))"
| "glue_tokens (Ok (Partial p)) (Err e) ys = Err e"
| "glue_tokens (Ok (Partial p)) Panic ys = Panic"
| "glue_tokens (Err e) res ys = Err e"
| "glue_tokens Panic res ys = Panic"

lemma scan_append:
  assumes "skip \<le> 1"
  shows "scan ends valid skip (xs @ ys) 0 (xs @ ys) =
    glue_tokens (scan ends valid skip xs 0 xs) (scan ends valid skip ys 0 ys) ys"
proof (cases "dropWhile (\<lambda>b. \<not> ends b \<and> valid b) xs")
  case Nil
  from dropWhile_takeWhile_append(1) [OF this, of ys] Nil show ?thesis
    by (simp add: scan_buffer Let_def del: dropWhile_eq_Nil_conv split: list.split)
next
  case (Cons b r)
  from dropWhile_takeWhile_append(2) [OF this, of ys] Cons assms show ?thesis
    by (cases skip) (simp_all add: scan_buffer Let_def)
qed

lemma token_append:
  "status_token (xs @ ys) = glue_tokens (status_token xs) (status_token ys) ys"
  "get_header_name (xs @ ys) = glue_tokens (get_header_name xs) (get_header_name ys) ys"
  "get_header_value (xs @ ys) = glue_tokens (get_header_value xs) (get_header_value ys) ys"
  unfolding token_defs by (rule scan_append, simp)+

text \<open>Every token of the decoder may be cut.\<close>

lemma decode_key_cut: "token_cut decode_key d xs ys"
  unfolding token_cut_def decode_key_eq token_append(2)
  by (cases "get_header_name xs"; cases "get_header_name ys") (auto split: TokenStatus.split)

lemma decode_value_cut: "token_cut decode_value d xs ys"
proof (cases "get_header_value xs")
  case (Ok t)
  show ?thesis
  proof (cases t)
    case (Complete c)
    obtain v u where "c = (v, u)" by fastforce
    with Ok Complete show ?thesis
      by (cases "rd_headers d";
          cases "header_insert (rd_head_key d) (trim_end (rd_rest d @ v)) (the (rd_headers d))")
        (simp_all add: token_cut_def decode_value_eq token_append)
  next
    case (Partial p)
    with Ok show ?thesis
      by (cases "get_header_value ys"; cases "rd_headers d") (auto simp: token_cut_def decode_value_eq token_append split: TokenStatus.split)
  qed
qed (simp_all add: token_cut_def decode_value_eq token_append)

lemma version_step_cut: "token_cut version_step d xs ys"
  unfolding token_cut_def version_step_def token_append(1) Let_def
  by (cases "status_token xs"; cases "status_token ys") (auto split: TokenStatus.split)

lemma status_code_step_cut: "token_cut status_code_step d xs ys"
proof (cases "status_token xs")
  case (Ok t)
  show ?thesis
  proof (cases t)
    case (Complete c)
    obtain v u where "c = (v, u)" by fastforce
    with Ok Complete show ?thesis
      by (cases "StatusCode_from_bytes (rd_rest d @ v)")
        (simp_all add: token_cut_def status_code_step_def token_append)
  next
    case (Partial p)
    with Ok show ?thesis
      by (cases "status_token ys") (auto simp: token_cut_def status_code_step_def token_append split: TokenStatus.split)
  qed
qed (simp_all add: token_cut_def status_code_step_def token_append)

lemma decode_ows_cut: "token_cut decode_ows d xs ys"
proof (cases "dropWhile (\<lambda>b. b = 0x20 \<or> b = 0x09) xs")
  case Nil
  from dropWhile_takeWhile_append(1) [OF this, of ys] Nil show ?thesis
    by (simp add: token_cut_def decode_ows_def trim_ows_eq del: dropWhile_eq_Nil_conv split: list.split)
next
  case (Cons b r)
  from dropWhile_takeWhile_append(2) [OF this, of ys] Cons show ?thesis
    by (simp add: token_cut_def decode_ows_def trim_ows_eq)
qed

lemma reason_step_cut: "token_cut reason_step d xs ys"
proof (cases "dropWhile is_legal_reason_byte xs")
  case Nil
  from dropWhile_takeWhile_append(1) [OF this, of ys] Nil show ?thesis
    by (simp add: token_cut_def reason_step_def decode_reason_eq del: dropWhile_eq_Nil_conv split: list.split)
next
  case (Cons b r)
  from dropWhile_takeWhile_append(2) [OF this, of ys] Cons show ?thesis
    by (simp add: token_cut_def reason_step_def decode_reason_eq)
qed

lemma consume_crlf_simps:
  "consume_crlf [] c = Ok (Partial 0)"
  "consume_crlf [a] c =
     (if a = 0x0D then if c then invalid_response else Ok (Partial 1)
      else if a = 0x0A then Ok (Complete []) else invalid_response)"
  "consume_crlf (a # b # r) c =
     (if a = 0x0D then if c \<or> b \<noteq> 0x0A then invalid_response else Ok (Complete r)
      else if a = 0x0A then Ok (Complete (b # r)) else invalid_response)"
  by (simp_all add: consume_crlf_def)

lemma consume_crlf_append:
  "consume_crlf xs c = Ok (Complete u) \<Longrightarrow> consume_crlf (xs @ ys) c = Ok (Complete (u @ ys))"
  "consume_crlf xs c = Err e \<Longrightarrow> consume_crlf (xs @ ys) c = Err e"
  by (cases xs rule: remdups_adj.cases; cases ys; force simp: consume_crlf_simps split: if_splits)+

lemma consume_crlf_cases:
  obtains (all) u where "consume_crlf xs c = Ok (Complete u)"
  | (fail) e where "consume_crlf xs c = Err e"
  | (empty) "xs = []"
  | (cr) "xs = [0x0D]" "\<not> c"
proof -
  have "(\<exists>u. consume_crlf xs c = Ok (Complete u)) \<or> (\<exists>e. consume_crlf xs c = Err e) \<or> xs = [] \<or> xs = [0x0D] \<and> \<not> c"
    by (cases xs rule: remdups_adj.cases) (simp_all add: consume_crlf_simps)
  then show ?thesis using that by blast
qed

lemma decode_crlf_cut: "token_cut (\<lambda>d. decode_crlf d False) d xs ys"
proof (cases xs False rule: consume_crlf_cases)
  case (all u)
  with consume_crlf_append(1) [OF this] show ?thesis by (simp add: token_cut_def decode_crlf_def)
next
  case (fail e)
  with consume_crlf_append(2) [OF this] show ?thesis by (simp add: token_cut_def decode_crlf_def)
next
  case empty
  then show ?thesis by (simp add: token_cut_def decode_crlf_def consume_crlf_simps)
next
  case cr
  then show ?thesis
    by (cases ys rule: remdups_adj.cases) (auto simp: token_cut_def decode_crlf_def consume_crlf_simps agree_def split: list.split)
qed

lemma crlf_step_cut: "token_cut (crlf_step st) d xs ys"
proof (cases xs "rd_new_line d" rule: consume_crlf_cases)
  case (all u)
  with consume_crlf_append(1) [OF this] show ?thesis by (simp add: token_cut_def crlf_step_def decode_status_crlf_def)
next
  case (fail e)
  with consume_crlf_append(2) [OF this] show ?thesis by (simp add: token_cut_def crlf_step_def decode_status_crlf_def)
next
  case empty
  then show ?thesis
    by (cases "rd_new_line d")
      (auto simp: token_cut_def crlf_step_def decode_status_crlf_def agree_def consume_crlf_simps consume_crlf_def [of ys])
next
  case cr
  then show ?thesis
    by (cases ys rule: remdups_adj.cases)
      (auto simp: token_cut_def crlf_step_def decode_status_crlf_def consume_crlf_simps agree_def split: list.split)
qed

text \<open>An incomplete token leaves the stage in which it is resumed.\<close>

lemma incomplete_stage:
  "version_step d b = Ok (None, d1) \<Longrightarrow> rd_stage d1 = PS_Version"
  "status_code_step d b = Ok (None, d1) \<Longrightarrow> rd_stage d1 = PS_StatusCode"
  "reason_step d b = Ok (None, d1) \<Longrightarrow> rd_stage d1 = PS_Reason"
  "crlf_step st d b = Ok (None, d1) \<Longrightarrow> rd_stage d1 = st"
  "decode_key d b = Ok (None, d1) \<Longrightarrow> rd_stage d1 = PS_Header HS_Key"
  "decode_ows d b = Ok (None, d1) \<Longrightarrow> rd_stage d1 = PS_Header HS_OwsBefore"
  "decode_value d b = Ok (None, d1) \<Longrightarrow> rd_stage d1 = PS_Header HS_Value"
  "decode_crlf d c b = Ok (None, d1) \<Longrightarrow> rd_stage d1 = PS_Header HS_Crlf"
proof -
  show "version_step d b = Ok (None, d1) \<Longrightarrow> rd_stage d1 = PS_Version"
    by (auto simp: version_step_def Let_def split: outcome.splits TokenStatus.splits if_splits)
  show "status_code_step d b = Ok (None, d1) \<Longrightarrow> rd_stage d1 = PS_StatusCode"
    by (auto simp: status_code_step_def obind_eq_Ok split: outcome.splits TokenStatus.splits)
  show "reason_step d b = Ok (None, d1) \<Longrightarrow> rd_stage d1 = PS_Reason"
    by (auto simp: reason_step_def obind_eq_Ok)
  show "crlf_step st d b = Ok (None, d1) \<Longrightarrow> rd_stage d1 = st"
    by (cases "consume_crlf b (rd_new_line d)")
      (auto simp: crlf_step_def decode_status_crlf_def Let_def split: TokenStatus.splits if_splits)
  show "decode_key d b = Ok (None, d1) \<Longrightarrow> rd_stage d1 = PS_Header HS_Key"
    by (auto simp: decode_key_eq split: outcome.splits TokenStatus.splits)
  show "decode_ows d b = Ok (None, d1) \<Longrightarrow> rd_stage d1 = PS_Header HS_OwsBefore"
    by (auto simp: decode_ows_def obind_eq_Ok)
  show "decode_value d b = Ok (None, d1) \<Longrightarrow> rd_stage d1 = PS_Header HS_Value"
    by (auto simp: decode_value_eq obind_eq_Ok split: outcome.splits TokenStatus.splits option.splits)
  show "decode_crlf d c b = Ok (None, d1) \<Longrightarrow> rd_stage d1 = PS_Header HS_Crlf"
    by (cases "consume_crlf b c") (auto simp: decode_crlf_def Let_def split: TokenStatus.splits if_splits)
qed

lemma phase_cut_cong:
  assumes "F d xs = G d xs" "F d (xs @ ys) = G d (xs @ ys)" "phase_cut G d xs ys"
  shows "phase_cut F d xs ys"
  using assms(3) unfolding phase_cut_def assms(1,2) .

lemma blank_line_cut: "phase_cut blank_line_phase d xs ys"
  unfolding status_phases(5)
  by (rule phase_cut_bind [OF crlf_step_cut])
    (auto simp: phase_cut_def finish_def decode_stage status_phases(5) dest!: incomplete_stage(4) split: option.split)

lemma end_phase_cut: "phase_cut end_phase d xs ys"
proof (induction xs arbitrary: d rule: length_induct)
  case (1 xs)
  have crlf: "phase_cut crlf_phase d b ys" if "length b < length xs" for d b
    unfolding field_phases(4)
    by (rule phase_cut_bind [OF decode_crlf_cut])
      (use that "1.IH" in \<open>auto simp: decode_stage field_phases(4) dest: decode_crlf_less incomplete_stage(8)\<close>)
  have val: "phase_cut value_phase d b ys" if "length b < length xs" for d b
    unfolding field_phases(3)
    by (rule phase_cut_bind [OF decode_value_cut])
      (use that in \<open>auto simp: decode_stage field_phases(3) intro!: crlf dest!: decode_value_le incomplete_stage(7)\<close>)
  have ows: "phase_cut ows_phase d b ys" if "length b < length xs" for d b
    unfolding field_phases(2)
    by (rule phase_cut_bind [OF decode_ows_cut])
      (use that in \<open>auto simp: decode_stage field_phases(2) intro!: val dest!: decode_ows_le incomplete_stage(6)\<close>)
  have key: "phase_cut key_phase d xs ys" for d
    unfolding field_phases(1)
    by (rule phase_cut_bind [OF decode_key_cut])
      (auto simp: decode_stage field_phases(1) intro!: ows dest: decode_key_less incomplete_stage(5))
  show ?case
  proof (cases "xs = []")
    case True
    then show ?thesis
      by (cases "ys = []")
        (auto simp: phase_cut_def end_phase_eq [of d "[]"] end_phase_eq [where b = "[]"] decode_stage
          stage_irrelevant(3) agree_def)
  next
    case False
    then have "(xs @ ys) ! 0 = xs ! 0" by (simp add: nth_append)
    with False show ?thesis
      by (cases "xs ! 0 = 0x0D \<or> xs ! 0 = 0x0A")
        (auto simp: end_phase_eq intro: phase_cut_cong [OF _ _ blank_line_cut] phase_cut_cong [OF _ _ key])
  qed
qed

text \<open>The other phases of the fields, and the status line before them.\<close>

lemma crlf_phase_cut: "phase_cut crlf_phase d xs ys"
  unfolding field_phases(4)
  by (rule phase_cut_bind [OF decode_crlf_cut])
    (auto simp: decode_stage field_phases(4) intro!: end_phase_cut dest: incomplete_stage(8))

lemma value_phase_cut: "phase_cut value_phase d xs ys"
  unfolding field_phases(3)
  by (rule phase_cut_bind [OF decode_value_cut])
    (auto simp: decode_stage field_phases(3) intro!: crlf_phase_cut dest: incomplete_stage(7))

lemma ows_phase_cut: "phase_cut ows_phase d xs ys"
  unfolding field_phases(2)
  by (rule phase_cut_bind [OF decode_ows_cut])
    (auto simp: decode_stage field_phases(2) intro!: value_phase_cut dest: incomplete_stage(6))

lemma key_phase_cut: "phase_cut key_phase d xs ys"
  unfolding field_phases(1)
  by (rule phase_cut_bind [OF decode_key_cut])
    (auto simp: decode_stage field_phases(1) intro!: ows_phase_cut dest: incomplete_stage(5))

lemma header_init_cut: "phase_cut header_phase_with_init d xs ys"
proof (cases "xs = []")
  case True
  then show ?thesis
    using stage_irrelevant(3) [where d = "d\<lparr>rd_headers := Some Headers_new\<rparr>" and st = "PS_Header HS_Start" and b = ys]
    by (simp add: phase_cut_def header_phase_with_init_eq decode_stage agree_def)
next
  case False
  then have "phase_cut (\<lambda>d. end_phase (d\<lparr>rd_headers := Some Headers_new\<rparr>)) d xs ys"
    using end_phase_cut unfolding phase_cut_def by blast
  with False show ?thesis by (auto simp: header_phase_with_init_eq intro: phase_cut_cong)
qed

lemma status_crlf_cut: "phase_cut status_crlf_phase d xs ys"
  unfolding status_phases(4)
  by (rule phase_cut_bind [OF crlf_step_cut])
    (auto simp: decode_stage status_phases(4) intro!: header_init_cut dest: incomplete_stage(4))

lemma reason_cut: "phase_cut reason_phase d xs ys"
  unfolding status_phases(3)
  by (rule phase_cut_bind [OF reason_step_cut])
    (auto simp: decode_stage status_phases(3) intro!: status_crlf_cut dest: incomplete_stage(3))

lemma status_code_cut: "phase_cut status_code_phase d xs ys"
  unfolding status_phases(2)
  by (rule phase_cut_bind [OF status_code_step_cut])
    (auto simp: decode_stage status_phases(2) intro!: reason_cut dest: incomplete_stage(2))

lemma version_cut: "phase_cut version_phase d xs ys"
  unfolding status_phases(1)
  by (rule phase_cut_bind [OF version_step_cut])
    (auto simp: decode_stage status_phases(1) intro!: status_code_cut dest: incomplete_stage(1))

lemma decode_cut: "phase_cut ResponseDecoder_decode d xs ys"
proof (cases "rd_stage d")
  case (PS_Header st)
  have start: "phase_cut (\<lambda>d b. if b = [] then Ok (None, d) else end_phase d b) d xs ys" if "st = HS_Start"
  proof (cases "xs = []")
    case True
    with that PS_Header show ?thesis by (simp add: phase_cut_def decode_stage)
  next
    case False
    then show ?thesis by (auto intro: phase_cut_cong [OF _ _ end_phase_cut])
  qed
  show ?thesis
  proof (cases "st = HS_Start")
    case True
    with PS_Header show ?thesis by (intro phase_cut_cong [OF _ _ start]) (simp_all add: decode_stage)
  next
    case False
    with PS_Header show ?thesis
      by (cases st; intro phase_cut_cong [where F = ResponseDecoder_decode])
        (auto simp: decode_stage intro: key_phase_cut ows_phase_cut value_phase_cut crlf_phase_cut end_phase_cut)
  qed
qed (rule phase_cut_cong [where F = ResponseDecoder_decode],
    auto simp: decode_stage ResponseDecoder_decode_def intro: version_cut status_code_cut reason_cut status_crlf_cut blank_line_cut)+

lemma decode_nil: "\<exists>d'. ResponseDecoder_decode d [] = Ok (None, d')"
proof -
  have tokens: "status_token [] = Ok (Partial [])" "get_header_name [] = Ok (Partial [])"
    "get_header_value [] = Ok (Partial [])" by (simp_all add: token_defs)
  have "\<exists>d'. header_phase d [] = Ok (None, d')" if "rd_stage d = PS_Header st" for st
    using that
    by (cases st)
      (simp_all add: header_phase_def decode_header_def from_key_step from_ows_step from_value_step from_crlf_step
        from_end_step decode_key_eq decode_ows_def trim_ows_def decode_value_eq decode_crlf_def tokens
        consume_crlf_simps detect_blank_and_return_def)
  then show ?thesis
    by (cases "rd_stage d")
      (auto simp: ResponseDecoder_decode_def version_phase_def status_code_phase_def reason_phase_def
        status_crlf_phase_def blank_line_phase_def decode_status_crlf_def decode_reason_def tokens consume_crlf_simps Let_def)
qed

text \<open>
  A client reads octets until the head of the response is complete and keeps what follows as the
  beginning of the body.
\<close>

fun feed_response ::
  "ResponseDecoder \<times> (ResponsePart \<times> bytes) option \<Rightarrow> bytes \<Rightarrow>
     (ResponseDecoder \<times> (ResponsePart \<times> bytes) option, ErrorKind) outcome" where
  "feed_response (d, None) b = obind (ResponseDecoder_decode d b) (\<lambda>(res, d). Ok (d, res))"
| "feed_response (d, Some (part, body)) b = Ok (d, Some (part, body @ b))"

definition received :: "(ResponseDecoder \<times> 'a, 'e) outcome \<Rightarrow> ('a, 'e) outcome" where
  "received m = obind m (\<lambda>(d, res). Ok res)"

definition response_agrees ::
  "(ResponseDecoder \<times> 'a, 'e) outcome \<Rightarrow> (ResponseDecoder \<times> 'a, 'e) outcome \<Rightarrow> bool" where
  "response_agrees whole pieces \<longleftrightarrow> (\<exists>e. whole = Err e) \<or> received whole = received pieces"

lemma received_eq_Err: "received m = Err e \<longleftrightarrow> m = Err e"
  by (cases m) (auto simp: received_def)

lemma feed_response_cut:
  "response_agrees (feed_response (d, None) (xs @ ys)) (obind (feed_response (d, None) xs) (\<lambda>t. feed_response t ys))"
proof (cases "ResponseDecoder_decode d xs")
  case (Ok res)
  obtain r d1 where "res = (r, d1)" by fastforce
  with Ok decode_cut [of d xs ys] show ?thesis
    by (cases r) (auto simp: phase_cut_def response_agrees_def received_def agree_def)
qed (use decode_cut [of d xs ys] in \<open>simp_all add: phase_cut_def response_agrees_def\<close>)

section \<open>No panic\<close>

text \<open>What a decoder has taken from the message so far, as its stage tells; the decoder unwraps no more.\<close>

fun known :: "ParseStage \<Rightarrow> nat" where
  "known PS_Initial = 0"
| "known PS_Version = 0"
| "known PS_StatusCode = 1"
| "known PS_Reason = 2"
| "known PS_StatusCrlf = 2"
| "known (PS_Header _) = 3"
| "known PS_BlankLine = 3"

definition has_parts :: "nat \<Rightarrow> ResponseDecoder \<Rightarrow> bool" where
  "has_parts n d \<longleftrightarrow>
     (1 \<le> n \<longrightarrow> rd_version d \<noteq> None) \<and> (2 \<le> n \<longrightarrow> rd_status_code d \<noteq> None) \<and> (3 \<le> n \<longrightarrow> rd_headers d \<noteq> None)"

definition rd_ok :: "ResponseDecoder \<Rightarrow> bool" where
  "rd_ok d \<longleftrightarrow> has_parts (known (rd_stage d)) d"

definition safe :: "'a step \<Rightarrow> bool" where
  "safe m \<longleftrightarrow> m \<noteq> Panic \<and> (\<forall>d. m = Ok (None, d) \<longrightarrow> rd_ok d)"

lemma safe_None [simp]: "safe (Ok (None, d)) \<longleftrightarrow> rd_ok d"
  by (simp add: safe_def)

lemma safe_bind:
  assumes "safe m" "\<And>u d. m = Ok (Some u, d) \<Longrightarrow> safe (k d u)"
  shows "safe (step_bind m k)"
  using assms by (cases m) (auto simp: safe_def get_unparsed_or_return_def split: option.splits)

lemma header_insert_not_Panic: "header_insert n v h \<noteq> Panic"
  by (simp add: header_insert_def Headers_append_def obind_eq_Panic HeaderValue_try_from_eq)

lemma consume_crlf_not_Panic [simp]: "consume_crlf b c \<noteq> Panic"
  by (simp add: consume_crlf_def)

lemma tokens_not_Panic:
  "version_step d b \<noteq> Panic" "status_code_step d b \<noteq> Panic" "reason_step d b \<noteq> Panic"
  "crlf_step st d b \<noteq> Panic" "decode_key d b \<noteq> Panic" "decode_ows d b \<noteq> Panic" "decode_crlf d c b \<noteq> Panic"
  "rd_headers d \<noteq> None \<Longrightarrow> decode_value d b \<noteq> Panic"
proof -
  show "version_step d b \<noteq> Panic" "decode_key d b \<noteq> Panic"
    by (simp_all add: version_step_def decode_key_eq token_defs Let_def split: outcome.split TokenStatus.split)
  have "StatusCode_from_bytes c \<noteq> Panic" for c by (simp add: StatusCode_from_bytes_def Let_def)
  then show "status_code_step d b \<noteq> Panic"
    by (simp add: status_code_step_def token_defs obind_eq_Panic split: outcome.split TokenStatus.split)
  show "rd_headers d \<noteq> None \<Longrightarrow> decode_value d b \<noteq> Panic"
    by (auto simp: decode_value_eq token_defs obind_eq_Panic header_insert_not_Panic split: outcome.split TokenStatus.split)
  show "reason_step d b \<noteq> Panic" "decode_ows d b \<noteq> Panic"
    by (simp_all add: reason_step_def decode_ows_def decode_reason_eq trim_ows_eq obind_eq_Panic split: list.split)
  show "crlf_step st d b \<noteq> Panic" "decode_crlf d c b \<noteq> Panic"
    by (simp_all add: crlf_step_def decode_status_crlf_def decode_crlf_def obind_eq_Panic Let_def split: TokenStatus.split)
qed

lemma tokens_keep_parts:
  "status_code_step d b = Ok (r, d1) \<Longrightarrow> has_parts n d \<Longrightarrow> has_parts n d1"
  "reason_step d b = Ok (r, d1) \<Longrightarrow> has_parts n d \<Longrightarrow> has_parts n d1"
  "crlf_step st d b = Ok (r, d1) \<Longrightarrow> has_parts n d \<Longrightarrow> has_parts n d1"
  "decode_key d b = Ok (r, d1) \<Longrightarrow> has_parts n d \<Longrightarrow> has_parts n d1"
  "decode_ows d b = Ok (r, d1) \<Longrightarrow> has_parts n d \<Longrightarrow> has_parts n d1"
  "decode_value d b = Ok (r, d1) \<Longrightarrow> has_parts n d \<Longrightarrow> has_parts n d1"
  "decode_crlf d c b = Ok (r, d1) \<Longrightarrow> has_parts n d \<Longrightarrow> has_parts n d1"
proof -
  show "status_code_step d b = Ok (r, d1) \<Longrightarrow> has_parts n d \<Longrightarrow> has_parts n d1"
    by (auto simp: has_parts_def status_code_step_def obind_eq_Ok split: outcome.splits TokenStatus.splits)
  show "reason_step d b = Ok (r, d1) \<Longrightarrow> has_parts n d \<Longrightarrow> has_parts n d1"
    by (auto simp: has_parts_def reason_step_def obind_eq_Ok)
  show "crlf_step st d b = Ok (r, d1) \<Longrightarrow> has_parts n d \<Longrightarrow> has_parts n d1"
    by (cases "consume_crlf b (rd_new_line d)")
      (auto simp: has_parts_def crlf_step_def decode_status_crlf_def Let_def split: TokenStatus.splits if_splits)
  show "decode_key d b = Ok (r, d1) \<Longrightarrow> has_parts n d \<Longrightarrow> has_parts n d1"
    by (auto simp: has_parts_def decode_key_eq split: outcome.splits TokenStatus.splits)
  show "decode_ows d b = Ok (r, d1) \<Longrightarrow> has_parts n d \<Longrightarrow> has_parts n d1"
    by (auto simp: has_parts_def decode_ows_def obind_eq_Ok)
  show "decode_value d b = Ok (r, d1) \<Longrightarrow> has_parts n d \<Longrightarrow> has_parts n d1"
    by (auto simp: has_parts_def decode_value_eq obind_eq_Ok split: outcome.splits TokenStatus.splits option.splits)
  show "decode_crlf d c b = Ok (r, d1) \<Longrightarrow> has_parts n d \<Longrightarrow> has_parts n d1"
    by (cases "consume_crlf b c") (auto simp: has_parts_def decode_crlf_def Let_def split: TokenStatus.splits if_splits)
qed

lemma new_parts:
  "version_step d b = Ok (Some u, d1) \<Longrightarrow> has_parts 1 d1"
  "status_code_step d b = Ok (Some u, d1) \<Longrightarrow> has_parts 1 d \<Longrightarrow> has_parts 2 d1"
proof -
  show "version_step d b = Ok (Some u, d1) \<Longrightarrow> has_parts 1 d1"
    by (auto simp: has_parts_def version_step_def Let_def split: outcome.splits TokenStatus.splits if_splits)
  show "status_code_step d b = Ok (Some u, d1) \<Longrightarrow> has_parts 1 d \<Longrightarrow> has_parts 2 d1"
    by (auto simp: has_parts_def status_code_step_def obind_eq_Ok split: outcome.splits TokenStatus.splits)
qed

lemma safe_tokens:
  "safe (version_step d b)"
  "has_parts 1 d \<Longrightarrow> safe (status_code_step d b)"
  "has_parts 2 d \<Longrightarrow> safe (reason_step d b)"
  "has_parts (known st) d \<Longrightarrow> safe (crlf_step st d b)"
  "has_parts 3 d \<Longrightarrow> safe (decode_key d b)"
  "has_parts 3 d \<Longrightarrow> safe (decode_ows d b)"
  "has_parts 3 d \<Longrightarrow> safe (decode_value d b)"
  "has_parts 3 d \<Longrightarrow> safe (decode_crlf d c b)"
proof -
  have headers: "has_parts 3 d \<Longrightarrow> rd_headers d \<noteq> None" by (simp add: has_parts_def)
  show "safe (version_step d b)"
    by (auto simp: safe_def rd_ok_def tokens_not_Panic has_parts_def dest!: incomplete_stage)
  show "has_parts 1 d \<Longrightarrow> safe (status_code_step d b)" "has_parts 2 d \<Longrightarrow> safe (reason_step d b)"
    "has_parts (known st) d \<Longrightarrow> safe (crlf_step st d b)" "has_parts 3 d \<Longrightarrow> safe (decode_key d b)"
    "has_parts 3 d \<Longrightarrow> safe (decode_ows d b)" "has_parts 3 d \<Longrightarrow> safe (decode_value d b)"
    "has_parts 3 d \<Longrightarrow> safe (decode_crlf d c b)"
    by (auto simp: safe_def rd_ok_def tokens_not_Panic headers incomplete_stage dest: tokens_keep_parts)
qed

lemma safe_blank_line: "has_parts 3 d \<Longrightarrow> safe (blank_line_phase d b)"
  unfolding status_phases(5)
  by (rule safe_bind [OF safe_tokens(4)])
    (auto dest!: tokens_keep_parts(3) [where n = 3] simp: safe_def finish_def has_parts_def)

lemma safe_end_phase: "has_parts 3 d \<Longrightarrow> safe (end_phase d b)"
proof (induction b arbitrary: d rule: length_induct)
  case (1 b)
  have crlf: "safe (crlf_phase d c)" if "length c < length b" "has_parts 3 d" for d c
    unfolding field_phases(4)
    by (rule safe_bind [OF safe_tokens(8) [OF that(2)]], rule "1.IH" [rule_format])
      (use that in \<open>auto dest: decode_crlf_less elim: tokens_keep_parts(7)\<close>)
  have val: "safe (value_phase d c)" if "length c < length b" "has_parts 3 d" for d c
    unfolding field_phases(3)
    by (rule safe_bind [OF safe_tokens(7) [OF that(2)]], rule crlf)
      (use that in \<open>auto dest: decode_value_le elim: tokens_keep_parts(6)\<close>)
  have ows: "safe (ows_phase d c)" if "length c < length b" "has_parts 3 d" for d c
    unfolding field_phases(2)
    by (rule safe_bind [OF safe_tokens(6) [OF that(2)]], rule val)
      (use that in \<open>auto dest: decode_ows_le elim: tokens_keep_parts(5)\<close>)
  have key: "safe (key_phase d b)" if "has_parts 3 d" for d
    unfolding field_phases(1)
    by (rule safe_bind [OF safe_tokens(5) [OF that]], rule ows)
      (use that in \<open>auto dest: decode_key_less elim: tokens_keep_parts(4)\<close>)
  have "rd_ok (d\<lparr>rd_stage := PS_Header HS_EndCrlf\<rparr>)"
    using "1.prems" by (simp add: rd_ok_def has_parts_def)
  then show ?case by (simp add: end_phase_eq key [OF "1.prems"] safe_blank_line [OF "1.prems"])
qed

lemma safe_field_phases:
  "has_parts 3 d \<Longrightarrow> safe (crlf_phase d b)"
  "has_parts 3 d \<Longrightarrow> safe (value_phase d b)"
  "has_parts 3 d \<Longrightarrow> safe (ows_phase d b)"
  "has_parts 3 d \<Longrightarrow> safe (key_phase d b)"
proof -
  show crlf: "safe (crlf_phase d b)" if "has_parts 3 d" for d b
    unfolding field_phases(4)
    by (rule safe_bind [OF safe_tokens(8) [OF that]], rule safe_end_phase, erule tokens_keep_parts(7) [OF _ that])
  show val: "safe (value_phase d b)" if "has_parts 3 d" for d b
    unfolding field_phases(3)
    by (rule safe_bind [OF safe_tokens(7) [OF that]], rule crlf, erule tokens_keep_parts(6) [OF _ that])
  show ows: "safe (ows_phase d b)" if "has_parts 3 d" for d b
    unfolding field_phases(2)
    by (rule safe_bind [OF safe_tokens(6) [OF that]], rule val, erule tokens_keep_parts(5) [OF _ that])
  show "safe (key_phase d b)" if "has_parts 3 d"
    unfolding field_phases(1)
    by (rule safe_bind [OF safe_tokens(5) [OF that]], rule ows, erule tokens_keep_parts(4) [OF _ that])
qed

lemma safe_header_init:
  assumes "has_parts 2 d"
  shows "safe (header_phase_with_init d b)"
proof -
  have "has_parts 3 (d\<lparr>rd_headers := Some Headers_new\<rparr>)" using assms by (simp add: has_parts_def)
  moreover have "rd_ok (d\<lparr>rd_headers := Some Headers_new, rd_stage := PS_Header HS_Start\<rparr>)"
    using assms by (simp add: rd_ok_def has_parts_def)
  ultimately show ?thesis by (simp add: header_phase_with_init_eq safe_end_phase)
qed

lemma safe_status_phases:
  "has_parts 2 d \<Longrightarrow> safe (status_crlf_phase d b)"
  "has_parts 2 d \<Longrightarrow> safe (reason_phase d b)"
  "has_parts 1 d \<Longrightarrow> safe (status_code_phase d b)"
  "safe (version_phase d b)"
proof -
  show crlf: "safe (status_crlf_phase d b)" if "has_parts 2 d" for d b
    unfolding status_phases(4)
    by (rule safe_bind [OF safe_tokens(4)])
      (simp_all add: that, rule safe_header_init, erule tokens_keep_parts(3) [OF _ that])
  show reason: "safe (reason_phase d b)" if "has_parts 2 d" for d b
    unfolding status_phases(3)
    by (rule safe_bind [OF safe_tokens(3) [OF that]], rule crlf, erule tokens_keep_parts(2) [OF _ that])
  show code: "safe (status_code_phase d b)" if "has_parts 1 d" for d b
    unfolding status_phases(2)
    by (rule safe_bind [OF safe_tokens(2) [OF that]], rule reason, erule new_parts(2) [OF _ that])
  show "safe (version_phase d b)"
    unfolding status_phases(1) by (rule safe_bind [OF safe_tokens(1)], rule code, erule new_parts(1))
qed

lemma safe_decode:
  assumes "rd_ok d"
  shows "safe (ResponseDecoder_decode d b)"
proof (cases "rd_stage d")
  case (PS_Header st)
  with assms have "has_parts 3 d" by (simp add: rd_ok_def)
  with assms PS_Header show ?thesis
    by (cases st) (simp_all add: decode_stage safe_field_phases safe_end_phase)
qed (use assms in \<open>auto simp: decode_stage ResponseDecoder_decode_def [of d b] rd_ok_def safe_status_phases safe_blank_line\<close>)

definition feed_ok :: "ResponseDecoder \<times> (ResponsePart \<times> bytes) option \<Rightarrow> bool" where
  "feed_ok s \<longleftrightarrow> (snd s = None \<longrightarrow> rd_ok (fst s))"

lemma feed_response_safe:
  assumes "feed_ok s"
  shows "feed_response s b \<noteq> Panic" "feed_response s b = Ok t \<Longrightarrow> feed_ok t"
proof -
  obtain d r where s: "s = (d, r)" by fastforce
  show "feed_response s b \<noteq> Panic"
    using assms safe_decode [of d b] by (cases r) (auto simp: s feed_ok_def safe_def obind_eq_Panic)
  show "feed_response s b = Ok t \<Longrightarrow> feed_ok t"
    using assms safe_decode [of d b]
    by (cases r) (auto simp: s feed_ok_def safe_def obind_eq_Ok)
qed

interpretation response_dec: segmented_decoder_upto feed_response feed_ok response_agrees
proof unfold_locales
  fix s :: "ResponseDecoder \<times> (ResponsePart \<times> bytes) option" and xs ys :: bytes
  obtain d r where s: "s = (d, r)" by fastforce
  show "response_agrees (feed_response s []) (Ok s)"
    using decode_nil [of d] by (cases r) (auto simp: s response_agrees_def received_def)
  show "response_agrees (feed_response s (xs @ ys)) (obind (feed_response s xs) (\<lambda>t. feed_response t ys))"
    using feed_response_cut by (cases r) (auto simp: s response_agrees_def received_def)
next
  fix m n k :: "(ResponseDecoder \<times> (ResponsePart \<times> bytes) option, ErrorKind) outcome"
  show "response_agrees m n \<Longrightarrow> response_agrees n k \<Longrightarrow> response_agrees m k"
    unfolding response_agrees_def using received_eq_Err by metis
qed (simp_all add: response_agrees_def feed_response_safe)

lemma feed_segments_safe: "feed_ok s \<Longrightarrow> feed_segments feed_response s bs \<noteq> Panic"
  by (induction bs arbitrary: s) (auto simp: obind_eq_Panic dest: feed_response_safe)

section \<open>The grammar of a response\<close>

text \<open>
  A field line: a name, a colon, white space, a value and an end of line. The value begins with
  no white space; white space at its end is cut off.
\<close>

type_synonym field_line = "bytes \<times> bytes \<times> bytes \<times> bytes"

definition white :: "u8 \<Rightarrow> bool" where
  "white b \<longleftrightarrow> b = 0x20 \<or> b = 0x09"

fun line_octets :: "field_line \<Rightarrow> bytes" where
  "line_octets (key, ows, v, eol) = key @ 0x3A # ows @ v @ eol"

fun line_ok :: "field_line \<Rightarrow> bool" where
  "line_ok (key, ows, v, eol) \<longleftrightarrow>
     list_all (\<lambda>b. HEADER_NAME_BYTES ! unat b) key \<and> list_all white ows \<and>
     list_all HeaderValue_is_valid v \<and> (v = [] \<or> \<not> white (hd v)) \<and> is_eol eol"

definition stripped :: "bytes \<Rightarrow> bytes" where
  "stripped v = rev (dropWhile white (rev v))"

fun add_lines :: "Headers \<Rightarrow> field_line list \<Rightarrow> (Headers, ErrorKind) outcome" where
  "add_lines headers [] = Ok headers"
| "add_lines headers ((key, ows, v, eol) # lines) =
     obind (Headers_append headers (to_lowercase (from_utf8_unchecked key)) (from_utf8_unchecked (stripped v)))
       (\<lambda>headers. add_lines headers lines)"

lemma add_lines_Cons [simp]:
  "add_lines headers ((key, ows, v, eol) # lines) =
     obind (header_insert key (trim_end v) headers) (\<lambda>headers. add_lines headers lines)"
  by (simp add: header_insert_def trim_end_def stripped_def white_def [abs_def])

declare add_lines.simps(2) [simp del]

text \<open>The octets of a reason phrase: white space, graphic ASCII and octets that are not ASCII.\<close>

definition reason_octet :: "u8 \<Rightarrow> bool" where
  "reason_octet b \<longleftrightarrow> b = 0x09 \<or> (0x20 \<le> b \<and> b \<noteq> 0x7F)"

lemma is_legal_reason_byte: "is_legal_reason_byte = reason_octet"
proof
  fix b :: u8
  have u: "unat b < 256" using unsigned_less [of b] by simp
  have eq: "b = c \<longleftrightarrow> unat b = unat c" for c :: u8 by (simp add: word_unat_eq_iff)
  show "is_legal_reason_byte b = reason_octet b"
    unfolding is_legal_reason_byte_def reason_octet_def eq word_le_nat_alt by (simp, use u in arith)
qed

definition yields :: "'a step \<Rightarrow> 'a \<Rightarrow> bool" where
  "yields m r \<longleftrightarrow> (\<exists>d. m = Ok (Some r, d))"

lemma yields_bind: "yields (step_bind m k) r \<longleftrightarrow> (\<exists>u d. m = Ok (Some u, d) \<and> yields (k d u) r)"
  by (cases m) (auto simp: yields_def get_unparsed_or_return_def split: option.splits)

lemma name_byte_ends: "HEADER_NAME_BYTES ! unat b \<Longrightarrow> b \<noteq> 0x3A \<and> b \<noteq> 0x0D \<and> b \<noteq> 0x0A" for b :: u8
  by (auto simp: HEADER_NAME_BYTES_def Let_def)

lemma value_byte_ends: "HeaderValue_is_valid b \<Longrightarrow> b \<noteq> 0x0D \<and> b \<noteq> 0x0A"
  by (auto simp: HeaderValue_is_valid_def)

lemma decode_key_Some:
  "decode_key d b = Ok (Some u, d1) \<longleftrightarrow>
     (\<exists>key. list_all (\<lambda>b. HEADER_NAME_BYTES ! unat b) key \<and> b = key @ 0x3A # u \<and>
       d1 = d\<lparr>rd_stage := PS_Header HS_Key, rd_head_key := rd_rest d @ key, rd_rest := []\<rparr>)"
  (is "?l \<longleftrightarrow> ?r")
proof -
  have *: "get_header_name b = Ok (Complete (key, u)) \<longleftrightarrow>
      list_all (\<lambda>b. HEADER_NAME_BYTES ! unat b) key \<and> b = key @ 0x3A # u" for key
    using name_byte_ends by (auto simp: token_defs scan_Complete list_all_iff)
  have "?l \<longleftrightarrow> (\<exists>key. get_header_name b = Ok (Complete (key, u)) \<and>
      d1 = d\<lparr>rd_stage := PS_Header HS_Key, rd_head_key := rd_rest d @ key, rd_rest := []\<rparr>)"
    by (auto simp: decode_key_eq split: outcome.split TokenStatus.split)
  then show ?thesis unfolding * by blast
qed

lemma decode_ows_Some:
  "decode_ows d b = Ok (Some u, d1) \<longleftrightarrow>
     (\<exists>ows. list_all white ows \<and> b = ows @ u \<and> u \<noteq> [] \<and> \<not> white (hd u)) \<and>
     d1 = d\<lparr>rd_stage := PS_Header HS_OwsBefore\<rparr>"
  (is "?l \<longleftrightarrow> ?r \<and> _")
proof -
  have "trim_ows b = Ok (Some u) \<longleftrightarrow> dropWhile white b = u \<and> u \<noteq> []"
    by (auto simp: trim_ows_eq white_def [abs_def] simp del: dropWhile_eq_Nil_conv split: list.split)
  also have "\<dots> \<longleftrightarrow> ?r"
  proof
    assume *: "dropWhile white b = u \<and> u \<noteq> []"
    then have "b = takeWhile white b @ u" "\<not> white (hd u)"
      using takeWhile_dropWhile_id [of white b] hd_dropWhile [of white b] by auto
    with * show ?r by (metis (mono_tags, lifting) list_all_iff set_takeWhileD)
  next
    assume ?r
    then show "dropWhile white b = u \<and> u \<noteq> []"
      by (auto simp: list_all_iff dropWhile_append simp del: dropWhile_eq_Nil_conv) (cases u; simp)+
  qed
  finally show ?thesis by (auto simp: decode_ows_def obind_eq_Ok)
qed

lemma decode_value_Some:
  "decode_value d b = Ok (Some u, d1) \<longleftrightarrow>
     (\<exists>v h h1. list_all HeaderValue_is_valid v \<and> b = v @ u \<and> u \<noteq> [] \<and> (hd u = 0x0D \<or> hd u = 0x0A) \<and>
       rd_headers d = Some h \<and> header_insert (rd_head_key d) (trim_end (rd_rest d @ v)) h = Ok h1 \<and>
       d1 = d\<lparr>rd_stage := PS_Header HS_Value, rd_rest := [], rd_head_key := [], rd_headers := Some h1\<rparr>)"
  (is "?l \<longleftrightarrow> ?r")
proof -
  have *: "get_header_value b = Ok (Complete (v, u)) \<longleftrightarrow>
      list_all HeaderValue_is_valid v \<and> b = v @ u \<and> u \<noteq> [] \<and> (hd u = 0x0D \<or> hd u = 0x0A)" for v
    using value_byte_ends
    by (cases u) (auto simp: token_defs scan_Complete list_all_iff header_value_byte)
  have "?l \<longleftrightarrow> (\<exists>v h h1. get_header_value b = Ok (Complete (v, u)) \<and>
       rd_headers d = Some h \<and> header_insert (rd_head_key d) (trim_end (rd_rest d @ v)) h = Ok h1 \<and>
       d1 = d\<lparr>rd_stage := PS_Header HS_Value, rd_rest := [], rd_head_key := [], rd_headers := Some h1\<rparr>)"
    by (auto simp: decode_value_eq obind_eq_Ok split: outcome.split TokenStatus.split option.split)
  then show ?thesis unfolding * by blast
qed

lemma decode_crlf_Some:
  "decode_crlf d False b = Ok (Some u, d1) \<longleftrightarrow>
     (\<exists>eol. is_eol eol \<and> b = eol @ u) \<and> d1 = d\<lparr>rd_stage := PS_Header HS_Crlf, rd_new_line := False\<rparr>"
  unfolding consume_crlf_Complete [symmetric]
  by (cases "consume_crlf b False") (auto simp: decode_crlf_def Let_def split: TokenStatus.splits)

lemma crlf_step_Some:
  "\<not> rd_new_line d \<Longrightarrow> crlf_step st d b = Ok (Some u, d1) \<longleftrightarrow>
     (\<exists>eol. is_eol eol \<and> b = eol @ u) \<and> d1 = d\<lparr>rd_stage := st, rd_new_line := False\<rparr>"
  unfolding consume_crlf_Complete [symmetric]
  by (cases "consume_crlf b False")
    (auto simp: crlf_step_def decode_status_crlf_def Let_def split: TokenStatus.splits if_splits)

lemma eol_ends: "is_eol eol \<Longrightarrow> eol \<noteq> [] \<and> (hd eol = 0x0D \<or> hd eol = 0x0A)"
  by (auto simp: is_eol_def)

lemma ends_not_white: "b = 0x0D \<or> b = 0x0A \<Longrightarrow> \<not> white b"
  by (auto simp: white_def)

text \<open>One field line, as the four tokens take it apart.\<close>

definition after_line :: "ResponseDecoder \<Rightarrow> Headers \<Rightarrow> ResponseDecoder" where
  "after_line d h = d\<lparr>rd_stage := PS_Header HS_Crlf, rd_head_key := [], rd_rest := [], rd_headers := Some h,
     rd_new_line := False\<rparr>"

lemma key_phase_yields:
  assumes "rd_rest d = []" "rd_headers d = Some h"
  shows "yields (key_phase d b) r \<longleftrightarrow>
    (\<exists>key ows v eol u h1. line_ok (key, ows, v, eol) \<and> b = line_octets (key, ows, v, eol) @ u \<and>
       header_insert key (trim_end v) h = Ok h1 \<and> yields (end_phase (after_line d h1) u) r)"
  (is "?l \<longleftrightarrow> ?r")
proof
  assume ?l
  then obtain u1 d1 u2 d2 u3 d3 u4 d4 where steps:
    "decode_key d b = Ok (Some u1, d1)" "decode_ows d1 u1 = Ok (Some u2, d2)"
    "decode_value d2 u2 = Ok (Some u3, d3)" "decode_crlf d3 False u3 = Ok (Some u4, d4)"
    "yields (end_phase d4 u4) r"
    unfolding field_phases yields_bind by blast
  from steps(1) obtain key where key: "list_all (\<lambda>b. HEADER_NAME_BYTES ! unat b) key" "b = key @ 0x3A # u1"
    "d1 = d\<lparr>rd_stage := PS_Header HS_Key, rd_head_key := key, rd_rest := []\<rparr>"
    using assms(1) by (auto simp: decode_key_Some)
  from steps(2) obtain ows where ows: "list_all white ows" "u1 = ows @ u2" "u2 \<noteq> []" "\<not> white (hd u2)"
    "d2 = d1\<lparr>rd_stage := PS_Header HS_OwsBefore\<rparr>"
    by (auto simp: decode_ows_Some)
  from steps(3) obtain v h1 where v: "list_all HeaderValue_is_valid v" "u2 = v @ u3"
    "header_insert key (trim_end v) h = Ok h1"
    "d3 = d2\<lparr>rd_stage := PS_Header HS_Value, rd_rest := [], rd_head_key := [], rd_headers := Some h1\<rparr>"
    using assms(2) key(3) ows(5) by (auto simp: decode_value_Some)
  from steps(4) obtain eol where eol: "is_eol eol" "u3 = eol @ u4"
    "d4 = d3\<lparr>rd_stage := PS_Header HS_Crlf, rd_new_line := False\<rparr>"
    by (auto simp: decode_crlf_Some)
  have "v = [] \<or> \<not> white (hd v)" using ows(4) v(2) by (cases v) auto
  moreover have "d4 = after_line d h1" using key(3) ows(5) v(4) eol(3) by (simp add: after_line_def)
  ultimately show ?r
    using key(1,2) ows(1,2) v(1-3) eol(1,2) steps(5) by (intro exI conjI) auto
next
  assume ?r
  then obtain key ows v eol u h1 where line: "line_ok (key, ows, v, eol)" "b = line_octets (key, ows, v, eol) @ u"
    "header_insert key (trim_end v) h = Ok h1" "yields (end_phase (after_line d h1) u) r" by blast
  define d1 where "d1 = d\<lparr>rd_stage := PS_Header HS_Key, rd_head_key := key, rd_rest := []\<rparr>"
  define d2 where "d2 = d1\<lparr>rd_stage := PS_Header HS_OwsBefore\<rparr>"
  define d3 where "d3 = d2\<lparr>rd_stage := PS_Header HS_Value, rd_rest := [], rd_head_key := [], rd_headers := Some h1\<rparr>"
  from line(1) have "decode_crlf d3 False (eol @ u) = Ok (Some u, after_line d h1)"
    by (auto simp: decode_crlf_Some d3_def d2_def d1_def after_line_def)
  moreover from line(1,3) assms(2) have "decode_value d2 (v @ eol @ u) = Ok (Some (eol @ u), d3)"
    using eol_ends [of eol] by (auto simp: decode_value_Some d3_def d2_def d1_def hd_append)
  moreover from line(1) have "decode_ows d1 (ows @ v @ eol @ u) = Ok (Some (v @ eol @ u), d2)"
    using eol_ends [of eol] ends_not_white by (cases v) (auto simp: decode_ows_Some d2_def hd_append)
  moreover from line(1,2) assms(1) have "decode_key d b = Ok (Some (ows @ v @ eol @ u), d1)"
    by (auto simp: decode_key_Some d1_def)
  ultimately show ?l using line(4) by (simp add: field_phases)
qed

lemma blank_line_yields:
  assumes "\<not> rd_new_line d" "rd_version d = Some v" "rd_status_code d = Some s" "rd_headers d = Some h"
  shows "yields (blank_line_phase d b) (part, body) \<longleftrightarrow>
    (\<exists>eol. is_eol eol \<and> b = eol @ body) \<and> part = \<lparr>rp_version = v, rp_status = s, rp_headers = h\<rparr>"
proof -
  have "yields (finish (d\<lparr>rd_stage := PS_BlankLine, rd_new_line := False\<rparr>) u) (part, body) \<longleftrightarrow>
      u = body \<and> part = \<lparr>rp_version = v, rp_status = s, rp_headers = h\<rparr>" for u
    using assms(2-4) by (auto simp: finish_def yields_def)
  then show ?thesis
    unfolding status_phases(5) yields_bind crlf_step_Some [OF assms(1)] by auto
qed

lemma line_octets_begin:
  assumes "line_ok line"
  shows "line_octets line @ u \<noteq> [] \<and> (line_octets line @ u) ! 0 \<noteq> 0x0D \<and> (line_octets line @ u) ! 0 \<noteq> 0x0A"
proof -
  obtain key ows v eol where "line = (key, ows, v, eol)" by (cases line) auto
  with assms show ?thesis using name_byte_ends by (cases key) auto
qed

lemma eol_begin: "is_eol eol \<Longrightarrow> eol @ u \<noteq> [] \<and> ((eol @ u) ! 0 = 0x0D \<or> (eol @ u) ! 0 = 0x0A)"
  by (auto simp: is_eol_def)

text \<open>The lines of a message and the blank line after them: what fields they add to a header map.\<close>

definition fields_parse :: "Headers \<Rightarrow> bytes \<Rightarrow> Headers \<Rightarrow> bytes \<Rightarrow> bool" where
  "fields_parse h b h1 body \<longleftrightarrow>
     (\<exists>lines eol. list_all line_ok lines \<and> is_eol eol \<and> b = concat (map line_octets lines) @ eol @ body \<and>
        add_lines h lines = Ok h1)"

lemma fields_parse_blank:
  assumes "b = [] \<or> b ! 0 = 0x0D \<or> b ! 0 = 0x0A"
  shows "fields_parse h b h1 body \<longleftrightarrow> (\<exists>eol. is_eol eol \<and> b = eol @ body) \<and> h1 = h"
proof
  assume "fields_parse h b h1 body"
  then obtain lines eol where lines: "list_all line_ok lines" "is_eol eol"
    "b = concat (map line_octets lines) @ eol @ body" "add_lines h lines = Ok h1"
    by (auto simp: fields_parse_def)
  then have "lines = []"
    using assms line_octets_begin by (cases lines) fastforce+
  with lines show "(\<exists>eol. is_eol eol \<and> b = eol @ body) \<and> h1 = h" by auto
next
  assume "(\<exists>eol. is_eol eol \<and> b = eol @ body) \<and> h1 = h"
  then obtain eol where "is_eol eol" "b = eol @ body" "h1 = h" by blast
  then show "fields_parse h b h1 body"
    unfolding fields_parse_def by (intro exI [of _ "[] :: field_line list"] exI [of _ eol]) simp
qed

lemma fields_parse_line:
  assumes "\<not> (b = [] \<or> b ! 0 = 0x0D \<or> b ! 0 = 0x0A)"
  shows "fields_parse h b h2 body \<longleftrightarrow>
    (\<exists>key ows w eol u h1. line_ok (key, ows, w, eol) \<and> b = line_octets (key, ows, w, eol) @ u \<and>
       header_insert key (trim_end w) h = Ok h1 \<and> fields_parse h1 u h2 body)"
proof
  assume "fields_parse h b h2 body"
  then obtain lines eol where lines: "list_all line_ok lines" "is_eol eol"
    "b = concat (map line_octets lines) @ eol @ body" "add_lines h lines = Ok h2"
    by (auto simp: fields_parse_def)
  with assms obtain line rest where "lines = line # rest"
    using eol_begin [of eol body] by (cases lines) auto
  moreover obtain key ows w eol' where "line = (key, ows, w, eol')" by (cases line) auto
  ultimately show "\<exists>key ows w eol u h1. line_ok (key, ows, w, eol) \<and> b = line_octets (key, ows, w, eol) @ u \<and>
       header_insert key (trim_end w) h = Ok h1 \<and> fields_parse h1 u h2 body"
    using lines by (fastforce simp: fields_parse_def obind_eq_Ok)
next
  assume "\<exists>key ows w eol u h1. line_ok (key, ows, w, eol) \<and> b = line_octets (key, ows, w, eol) @ u \<and>
       header_insert key (trim_end w) h = Ok h1 \<and> fields_parse h1 u h2 body"
  then obtain key ows w eol h1 lines eol' where
    "line_ok (key, ows, w, eol)" "header_insert key (trim_end w) h = Ok h1" "list_all line_ok lines" "is_eol eol'"
    "b = line_octets (key, ows, w, eol) @ concat (map line_octets lines) @ eol' @ body" "add_lines h1 lines = Ok h2"
    unfolding fields_parse_def by blast
  then show "fields_parse h b h2 body"
    unfolding fields_parse_def by (intro exI [of _ "(key, ows, w, eol) # lines"] exI [of _ eol']) auto
qed

lemma end_phase_yields:
  assumes "rd_rest d = []" "\<not> rd_new_line d" "rd_version d = Some v" "rd_status_code d = Some s" "rd_headers d = Some h"
  shows "yields (end_phase d b) (part, body) \<longleftrightarrow>
    (\<exists>h1. fields_parse h b h1 body \<and> part = \<lparr>rp_version = v, rp_status = s, rp_headers = h1\<rparr>)"
  using assms
proof (induction b arbitrary: d h rule: length_induct)
  case (1 b)
  let ?rest = "\<lambda>h b. \<exists>h1. fields_parse h b h1 body \<and> part = \<lparr>rp_version = v, rp_status = s, rp_headers = h1\<rparr>"
  have IH: "yields (end_phase (after_line d h1) u) (part, body) \<longleftrightarrow> ?rest h1 u" if "length u < length b" for u h1
    using "1.IH" [rule_format, OF that, of "after_line d h1" h1] "1.prems" by (simp add: after_line_def)
  show ?case
  proof (cases "b = [] \<or> b ! 0 = 0x0D \<or> b ! 0 = 0x0A")
    case True
    then have "yields (end_phase d b) (part, body) \<longleftrightarrow> b \<noteq> [] \<and> yields (blank_line_phase d b) (part, body)"
      by (auto simp: end_phase_eq yields_def)
    with True eol_begin [of _ body] show ?thesis
      unfolding fields_parse_blank [OF True] blank_line_yields [OF "1.prems"(2-5)] by fastforce
  next
    case False
    then have "yields (end_phase d b) (part, body) \<longleftrightarrow> yields (key_phase d b) (part, body)"
      by (simp add: end_phase_eq)
    also have "\<dots> \<longleftrightarrow> (\<exists>key ows w eol u h1. line_ok (key, ows, w, eol) \<and> b = line_octets (key, ows, w, eol) @ u \<and>
        header_insert key (trim_end w) h = Ok h1 \<and> ?rest h1 u)"
      unfolding key_phase_yields [OF "1.prems"(1,5)] by (intro iff_exI conj_cong refl IH) simp
    finally show ?thesis unfolding fields_parse_line [OF False] by blast
  qed
qed

lemma status_token_Some:
  "status_token b = Ok (Complete (t, u)) \<longleftrightarrow> list_all (\<lambda>b. b \<noteq> 0x20 \<and> is_valid_byte b) t \<and> b = t @ 0x20 # u"
  by (auto simp: token_defs scan_Complete)

lemma version_step_Some:
  assumes "rd_rest d = []"
  shows "version_step d b = Ok (Some u, d1) \<longleftrightarrow>
    (\<exists>v. (v = HTTP1_0 \<or> v = HTTP1_1) \<and> b = into_bytes (Version_as_str v) @ 0x20 # u \<and>
      d1 = d\<lparr>rd_stage := PS_Version, rd_rest := [], rd_version := Some v\<rparr>)"
proof -
  have "list_all (\<lambda>b. b \<noteq> 0x20 \<and> is_valid_byte b) (into_bytes ''HTTP/1.0'')"
    "list_all (\<lambda>b. b \<noteq> 0x20 \<and> is_valid_byte b) (into_bytes ''HTTP/1.1'')"
    by (simp_all add: into_bytes_def byte_of_char_def is_valid_byte_def)
  moreover have "into_bytes ''HTTP/1.0'' \<noteq> into_bytes ''HTTP/1.1''"
    by (simp add: into_bytes_def byte_of_char_def)
  moreover have "version_step d b = Ok (Some u, d1) \<longleftrightarrow>
      (\<exists>t. status_token b = Ok (Complete (t, u)) \<and>
        (t = into_bytes ''HTTP/1.0'' \<and> d1 = d\<lparr>rd_stage := PS_Version, rd_rest := [], rd_version := Some HTTP1_0\<rparr> \<or>
         t \<noteq> into_bytes ''HTTP/1.0'' \<and> t = into_bytes ''HTTP/1.1'' \<and>
         d1 = d\<lparr>rd_stage := PS_Version, rd_rest := [], rd_version := Some HTTP1_1\<rparr>))"
    using assms by (auto simp: version_step_def Let_def split: outcome.split TokenStatus.split)
  ultimately show ?thesis unfolding status_token_Some by auto
qed

lemma StatusCode_from_bytes_octets:
  assumes "StatusCode_from_bytes code = Ok s"
  shows "list_all (\<lambda>b. b \<noteq> 0x20 \<and> is_valid_byte b) code"
proof -
  have digit: "b \<noteq> 0x20 \<and> is_valid_byte b" if "ucast (b - 0x30) \<le> (9 :: u16)" for b :: u8
  proof -
    obtain x where x: "b = x + 0x30" by (metis diff_add_cancel)
    have n: "unat x \<le> 9"
      using that unat_u8_less [of x] by (simp add: x word_le_nat_alt unsigned_ucast_eq take_bit_nat_eq_self)
    then have "unat b = unat x + 0x30" by (simp add: x unat_word_ariths)
    with n show ?thesis by (auto simp: is_valid_byte_def word_less_nat_alt)
  qed
  from assms have "length code = 3" by (auto simp: StatusCode_from_bytes_def split: if_splits)
  then obtain a b c where "code = [a, b, c]" by (auto simp: length_Suc_conv numeral_3_eq_3)
  with assms show ?thesis
    using digit [of a] digit [of b] digit [of c]
    by (auto simp: StatusCode_from_bytes_def Let_def not_less split: if_splits)
qed

lemma status_code_step_Some:
  assumes "rd_rest d = []"
  shows "status_code_step d b = Ok (Some u, d1) \<longleftrightarrow>
    (\<exists>code s. StatusCode_from_bytes code = Ok s \<and> b = code @ 0x20 # u \<and>
      d1 = d\<lparr>rd_stage := PS_StatusCode, rd_rest := [], rd_status_code := Some s\<rparr>)"
proof -
  have "status_code_step d b = Ok (Some u, d1) \<longleftrightarrow>
      (\<exists>code s. status_token b = Ok (Complete (code, u)) \<and> StatusCode_from_bytes code = Ok s \<and>
        d1 = d\<lparr>rd_stage := PS_StatusCode, rd_rest := [], rd_status_code := Some s\<rparr>)"
    using assms by (auto simp: status_code_step_def obind_eq_Ok split: outcome.split TokenStatus.split)
  then show ?thesis unfolding status_token_Some using StatusCode_from_bytes_octets by blast
qed

lemma reason_step_Some:
  "reason_step d b = Ok (Some u, d1) \<longleftrightarrow>
     (\<exists>reason. list_all is_legal_reason_byte reason \<and> b = reason @ u) \<and> u \<noteq> [] \<and> (hd u = 0x0D \<or> hd u = 0x0A) \<and>
     d1 = d\<lparr>rd_stage := PS_Reason\<rparr>"
proof -
  have ends: "\<not> is_legal_reason_byte 0x0D" "\<not> is_legal_reason_byte 0x0A" by (simp_all add: is_legal_reason_byte_def)
  have "decode_reason b = Ok (Some u) \<longleftrightarrow>
      (\<exists>reason. list_all is_legal_reason_byte reason \<and> b = reason @ u) \<and> u \<noteq> [] \<and> (hd u = 0x0D \<or> hd u = 0x0A)"
    (is "?l \<longleftrightarrow> ?r")
  proof
    assume ?l
    then have "dropWhile is_legal_reason_byte b = u" "u \<noteq> []" "hd u = 0x0D \<or> hd u = 0x0A"
      by (cases "dropWhile is_legal_reason_byte b";
          auto simp: decode_reason_eq simp del: dropWhile_eq_Nil_conv split: if_splits)+
    then show ?r by (metis list_all_iff set_takeWhileD takeWhile_dropWhile_id)
  next
    assume ?r
    then have "dropWhile is_legal_reason_byte b = u"
      using ends by (cases u) (auto simp: list_all_iff dropWhile_append)
    with \<open>?r\<close> show ?l by (cases u) (auto simp: decode_reason_eq)
  qed
  then show ?thesis by (auto simp: reason_step_def obind_eq_Ok)
qed

lemma header_init_yields:
  assumes "rd_rest d = []" "\<not> rd_new_line d" "rd_version d = Some v" "rd_status_code d = Some s"
  shows "yields (header_phase_with_init d b) (part, body) \<longleftrightarrow>
    (\<exists>h. fields_parse Headers_new b h body \<and> part = \<lparr>rp_version = v, rp_status = s, rp_headers = h\<rparr>)"
proof (cases "b = []")
  case True
  then have "\<not> fields_parse Headers_new b h body" for h
    using eol_begin by (auto simp: fields_parse_blank)
  with True show ?thesis by (simp add: header_phase_with_init_eq yields_def)
next
  case False
  with assms show ?thesis by (simp add: header_phase_with_init_eq end_phase_yields)
qed

lemma status_line_yields:
  assumes "rd_rest d = []" "\<not> rd_new_line d"
  shows "yields (version_phase d b) (part, body) \<longleftrightarrow>
    (\<exists>v code s reason eol u h. (v = HTTP1_0 \<or> v = HTTP1_1) \<and> StatusCode_from_bytes code = Ok s \<and>
       list_all is_legal_reason_byte reason \<and> is_eol eol \<and>
       b = into_bytes (Version_as_str v) @ 0x20 # code @ 0x20 # reason @ eol @ u \<and>
       fields_parse Headers_new u h body \<and> part = \<lparr>rp_version = v, rp_status = s, rp_headers = h\<rparr>)"
  (is "?l \<longleftrightarrow> ?r")
proof
  assume ?l
  then obtain u1 d1 u2 d2 u3 d3 u4 d4 where steps:
    "version_step d b = Ok (Some u1, d1)" "status_code_step d1 u1 = Ok (Some u2, d2)"
    "reason_step d2 u2 = Ok (Some u3, d3)" "crlf_step PS_StatusCrlf d3 u3 = Ok (Some u4, d4)"
    "yields (header_phase_with_init d4 u4) (part, body)"
    unfolding status_phases(1-4) yields_bind by blast
  from steps(1) obtain v where v: "v = HTTP1_0 \<or> v = HTTP1_1" "b = into_bytes (Version_as_str v) @ 0x20 # u1"
    "d1 = d\<lparr>rd_stage := PS_Version, rd_rest := [], rd_version := Some v\<rparr>"
    unfolding version_step_Some [OF assms(1)] by blast
  from steps(2) obtain code s where s: "StatusCode_from_bytes code = Ok s" "u1 = code @ 0x20 # u2"
    "d2 = d1\<lparr>rd_stage := PS_StatusCode, rd_rest := [], rd_status_code := Some s\<rparr>"
    using v(3) by (subst (asm) status_code_step_Some) auto
  from steps(3) obtain reason where reason: "list_all is_legal_reason_byte reason" "u2 = reason @ u3"
    "d3 = d2\<lparr>rd_stage := PS_Reason\<rparr>" unfolding reason_step_Some by blast
  from steps(4) obtain eol where eol: "is_eol eol" "u3 = eol @ u4" "d4 = d3\<lparr>rd_stage := PS_StatusCrlf, rd_new_line := False\<rparr>"
    using assms(2) v(3) s(3) reason(3) by (subst (asm) crlf_step_Some) auto
  from steps(5) obtain h where "fields_parse Headers_new u4 h body" "part = \<lparr>rp_version = v, rp_status = s, rp_headers = h\<rparr>"
    using assms v(3) s(3) reason(3) eol(3) by (subst (asm) header_init_yields) auto
  with v(1,2) s(1,2) reason(1,2) eol(1,2) show ?r by (intro exI conjI) auto
next
  assume ?r
  then obtain v code s reason eol u h where *: "v = HTTP1_0 \<or> v = HTTP1_1" "StatusCode_from_bytes code = Ok s"
    "list_all is_legal_reason_byte reason" "is_eol eol"
    "b = into_bytes (Version_as_str v) @ 0x20 # code @ 0x20 # reason @ eol @ u"
    "fields_parse Headers_new u h body" "part = \<lparr>rp_version = v, rp_status = s, rp_headers = h\<rparr>" by blast
  define d1 where "d1 = d\<lparr>rd_stage := PS_Version, rd_rest := [], rd_version := Some v\<rparr>"
  define d2 where "d2 = d1\<lparr>rd_stage := PS_StatusCode, rd_rest := [], rd_status_code := Some s\<rparr>"
  define d3 where "d3 = d2\<lparr>rd_stage := PS_Reason\<rparr>"
  define d4 where "d4 = d3\<lparr>rd_stage := PS_StatusCrlf, rd_new_line := False\<rparr>"
  note defs = d1_def d2_def d3_def d4_def
  have "version_step d b = Ok (Some (code @ 0x20 # reason @ eol @ u), d1)"
    unfolding version_step_Some [OF assms(1)] d1_def using *(1,5) by blast
  moreover have "status_code_step d1 (code @ 0x20 # reason @ eol @ u) = Ok (Some (reason @ eol @ u), d2)"
    using *(2) by (subst status_code_step_Some) (auto simp: defs)
  moreover have "reason_step d2 (reason @ eol @ u) = Ok (Some (eol @ u), d3)"
    unfolding reason_step_Some d3_def using *(3) eol_ends [OF *(4)] by (auto simp: hd_append)
  moreover have "crlf_step PS_StatusCrlf d3 (eol @ u) = Ok (Some u, d4)"
    using *(4) assms(2) by (subst crlf_step_Some) (auto simp: defs)
  moreover have "yields (header_phase_with_init d4 u) (part, body)"
    using *(6,7) assms by (subst header_init_yields) (auto simp: defs)
  ultimately show ?l by (simp add: status_phases(1-4))
qed

section \<open>Properties\<close>

text \<open>
  C11. The decoder accepts exactly the responses of the grammar: HTTP/1.0 or HTTP/1.1, a space, three
  digits of which the first is not 0, a space, a reason phrase, an end of line, field lines and a blank
  line, where every end of line is \<open>CR LF\<close> or \<open>LF\<close>. The result has the version and the status code, the
  fields with their values in the order of the lines, and the octets after the blank line as the body.
\<close>

theorem response_decode_grammar:
  "(\<exists>d. ResponseDecoder_decode ResponseDecoder_new buf = Ok (Some (part, body), d)) \<longleftrightarrow>
   (\<exists>code reason eol lines eol'.
      buf = into_bytes (Version_as_str (rp_version part)) @ 0x20 # code @ 0x20 # reason @ eol @
        concat (map line_octets lines) @ eol' @ body \<and>
      (rp_version part = HTTP1_0 \<or> rp_version part = HTTP1_1) \<and>
      StatusCode_from_bytes code = Ok (rp_status part) \<and> list_all reason_octet reason \<and>
      is_eol eol \<and> is_eol eol' \<and> list_all line_ok lines \<and> add_lines Headers_new lines = Ok (rp_headers part))"
  (is "?l \<longleftrightarrow> ?r")
proof -
  have new: "rd_rest ResponseDecoder_new = []" "\<not> rd_new_line ResponseDecoder_new"
    by (simp_all add: ResponseDecoder_new_def)
  have "?l \<longleftrightarrow> yields (version_phase ResponseDecoder_new buf) (part, body)"
    by (simp add: yields_def ResponseDecoder_decode_def ResponseDecoder_new_def)
  also have "\<dots> \<longleftrightarrow> ?r"
    unfolding status_line_yields [OF new] is_legal_reason_byte
  proof (intro iffI; elim exE conjE)
    fix v code s reason eol u h
    assume "v = HTTP1_0 \<or> v = HTTP1_1" "StatusCode_from_bytes code = Ok s"
      "list_all reason_octet reason" "is_eol eol"
      "buf = into_bytes (Version_as_str v) @ 0x20 # code @ 0x20 # reason @ eol @ u"
      "fields_parse Headers_new u h body" "part = \<lparr>rp_version = v, rp_status = s, rp_headers = h\<rparr>"
    then show ?r unfolding fields_parse_def by (elim exE conjE) (intro exI conjI; force)
  next
    fix code reason eol lines eol'
    assume "buf = into_bytes (Version_as_str (rp_version part)) @ 0x20 # code @ 0x20 # reason @ eol @
        concat (map line_octets lines) @ eol' @ body"
      "rp_version part = HTTP1_0 \<or> rp_version part = HTTP1_1" "StatusCode_from_bytes code = Ok (rp_status part)"
      "list_all reason_octet reason" "is_eol eol" "is_eol eol'" "list_all line_ok lines"
      "add_lines Headers_new lines = Ok (rp_headers part)"
    moreover from this have "fields_parse Headers_new (concat (map line_octets lines) @ eol' @ body) (rp_headers part) body"
      unfolding fields_parse_def by blast
    moreover have "part = \<lparr>rp_version = rp_version part, rp_status = rp_status part, rp_headers = rp_headers part\<rparr>"
      by simp
    ultimately show "\<exists>v code s reason eol u h. (v = HTTP1_0 \<or> v = HTTP1_1) \<and> StatusCode_from_bytes code = Ok s \<and>
       list_all reason_octet reason \<and> is_eol eol \<and>
       buf = into_bytes (Version_as_str v) @ 0x20 # code @ 0x20 # reason @ eol @ u \<and>
       fields_parse Headers_new u h body \<and> part = \<lparr>rp_version = v, rp_status = s, rp_headers = h\<rparr>"
      by (intro exI conjI) assumption+
  qed
  finally show ?thesis .
qed

text \<open>
  C15. However the octets of a response are cut, a decoder that is fed piece by piece never panics; and
  if decoding them at once ends with a response, or asks for more, then so does decoding the pieces,
  with the same version, status, fields and body. (A refused input may be accepted in pieces: a
  \<open>CR\<close> that is repeated across a cut is not noticed.)
\<close>

theorem response_decode_segments:
  "feed_segments feed_response (ResponseDecoder_new, None) segments \<noteq> Panic \<and>
   ((\<exists>e. feed_response (ResponseDecoder_new, None) (concat segments) = Err e) \<or>
    received (feed_response (ResponseDecoder_new, None) (concat segments)) =
    received (feed_segments feed_response (ResponseDecoder_new, None) segments))"
proof -
  have "feed_ok (ResponseDecoder_new, None)"
    by (simp add: feed_ok_def rd_ok_def has_parts_def ResponseDecoder_new_def)
  then show ?thesis
    using feed_segments_safe response_dec.feed_segments_agrees [of "(ResponseDecoder_new, None)" segments]
    by (simp add: response_agrees_def)
qed

text \<open>
  The exception occurs: \<open>CR CR LF\<close> at the end of a field line is refused in one piece and accepted when
  it is cut after the first \<open>CR\<close>.
\<close>

theorem repeated_cr_accepted:
  "let line = into_bytes ''HTTP/1.1 200 OK'' @ [0x0D, 0x0A] @ into_bytes ''a:b'' @ [0x0D];
       rest = [0x0D, 0x0A, 0x0D, 0x0A] in
   received (feed_response (ResponseDecoder_new, None) (line @ rest)) = invalid_response \<and>
   received (feed_segments feed_response (ResponseDecoder_new, None) [line, rest]) =
     Ok (Some (\<lparr>rp_version = HTTP1_1, rp_status = 200,
       rp_headers = [(''a'', \<lparr>hv_inner = [into_bytes ''b''], hv_is_sensitive = False\<rparr>)]\<rparr>, []))"
  by code_simp

end
