(* ===== verification/Chunk_Properties.thy ===== *)
theory Chunk_Properties
  imports Chunk_Decoder
begin

text \<open>
  What is proved of the decoder of chunked bodies: without a trailer it is an automaton over the octets of the body,
  so that its input may be cut anywhere, and it reads the chunks that were written.
\<close>

section \<open>The automaton\<close>

text \<open>
  A step takes one octet, and gives the next state, the octet of data, if it is one, and whether the body has ended.
  The flag that only counts for bodies with a trailer is left out of the comparison of states.
\<close>

type_synonym octet_result = "(ChunkBodyDecoder \<times> bytes \<times> bool, ErrorKind) outcome"

definition norm :: "ChunkBodyDecoder \<Rightarrow> ChunkBodyDecoder" where
  "norm d = d\<lparr>cd_chunk_flag := False\<rparr>"

definition ended :: "ChunkBodyDecoder \<Rightarrow> ChunkBodyDecoder" where
  "ended d = d\<lparr>cd_is_last_chunk := False, cd_chunk_num := 0\<rparr>"

definition next_chunk :: "ChunkBodyDecoder \<Rightarrow> ChunkBodyDecoder" where
  "next_chunk d = d\<lparr>cd_chunk_num := cd_chunk_num d + 1\<rparr>"

definition data_end_step :: "ChunkBodyDecoder \<Rightarrow> u8 \<Rightarrow> octet_result" where
  "data_end_step d b =
     (if b = 0x0D then obind (decode_cr d) (\<lambda>d. Ok (d, [], False))
      else if b = 0x0A then
        obind (decode_lf d) (\<lambda>d.
          let d = d\<lparr>cd_stage := ST_Size, cd_total_size := 0\<rparr> in
          Ok (if cd_is_last_chunk d then ended d else next_chunk d, [], cd_is_last_chunk d))
      else Err InvalidInput)"

definition extension_step :: "ChunkBodyDecoder \<Rightarrow> u8 \<Rightarrow> octet_result" where
  "extension_step d b =
     (if b = 0x0D then obind (decode_cr d) (\<lambda>d. Ok (d\<lparr>cd_stage := ST_SizeEnd\<rparr>, [], False))
      else if b = 0x0A then Err InvalidInput
      else Ok (d, [], False))"

definition size_known :: "ChunkBodyDecoder \<Rightarrow> ChunkBodyDecoder" where
  "size_known d =
     (let n = nat (cd_hex_count d);
          d = d\<lparr>cd_total_size := n, cd_hex_count := 0, cd_num_flag := False\<rparr>
      in (if n = 0 then d\<lparr>cd_is_last_chunk := True\<rparr> else d\<lparr>cd_rest_size := n\<rparr>)\<lparr>cd_stage := ST_Extension\<rparr>)"

definition chunk_step :: "ChunkBodyDecoder \<Rightarrow> u8 \<Rightarrow> octet_result" where
  "chunk_step d b =
     (case cd_stage d of
        ST_Size \<Rightarrow>
          if b = 0x30 then obind (hex_to_decimal (cd_hex_count d) 0) (\<lambda>n. Ok (d\<lparr>cd_hex_count := n\<rparr>, [], False))
          else (case hex_digit b of
                  Some v \<Rightarrow>
                    obind (hex_to_decimal (cd_hex_count d) v) (\<lambda>n. Ok (d\<lparr>cd_hex_count := n, cd_num_flag := True\<rparr>, [], False))
                | None \<Rightarrow>
                    if b = 0x20 \<or> b = 0x09 \<or> b = 0x3B \<or> b = 0x0D \<or> b = 0x0A then extension_step (size_known d) b
                    else Err InvalidInput)
      | ST_Extension \<Rightarrow> extension_step d b
      | ST_SizeEnd \<Rightarrow>
          if b = 0x0D then obind (decode_cr d) (\<lambda>d. Ok (d, [], False))
          else if b = 0x0A then obind (decode_lf d) (\<lambda>d. Ok (d\<lparr>cd_stage := ST_Data\<rparr>, [], False))
          else Err InvalidInput
      | ST_Data \<Rightarrow>
          if cd_rest_size d = 0 then data_end_step (d\<lparr>cd_cr_meet := False, cd_stage := ST_DataEnd\<rparr>) b
          else if cd_rest_size d = 1
          then Ok (d\<lparr>cd_rest_size := 0, cd_cr_meet := False, cd_stage := ST_DataEnd\<rparr>, [b], False)
          else Ok (d\<lparr>cd_rest_size := cd_rest_size d - 1\<rparr>, [b], False)
      | ST_DataEnd \<Rightarrow> data_end_step d b
      | _ \<Rightarrow> Err InvalidInput)"

text \<open>A run ends with the octets, or with the body; then the rest of the octets is left.\<close>

type_synonym run_result = "(ChunkBodyDecoder \<times> bytes \<times> bytes option, ErrorKind) outcome"

definition with_data :: "bytes \<Rightarrow> run_result \<Rightarrow> run_result" where
  "with_data out r = obind r (\<lambda>(d, out2, rest). Ok (d, out @ out2, rest))"

fun chunk_run :: "ChunkBodyDecoder \<Rightarrow> bytes \<Rightarrow> run_result" where
  "chunk_run d [] = Ok (d, [], None)"
| "chunk_run d (b # bs) =
     obind (chunk_step d b) (\<lambda>(d, out, fin). if fin then Ok (d, out, Some bs) else with_data out (chunk_run d bs))"

lemma with_data_simps [simp]:
  "with_data out (Ok (d, out2, rest)) = Ok (d, out @ out2, rest)" "with_data out (Err e) = Err e" "with_data out Panic = Panic"
  "with_data [] r = r" "with_data out (with_data out2 r) = with_data (out @ out2) r"
  by (simp_all add: with_data_def case_prod_unfold obind_assoc)

lemma with_data_obind: "with_data out (obind m f) = obind m (\<lambda>x. with_data out (f x))"
  by (simp add: with_data_def obind_assoc)

section \<open>A stage is a part of a run\<close>

definition plain :: "ChunkBodyDecoder \<Rightarrow> bool" where
  "plain d \<longleftrightarrow> \<not> cd_is_trailer d \<and> \<not> cd_is_chunk_trailer d \<and>
     (case cd_stage d of
        ST_Size \<Rightarrow> \<not> cd_is_last_chunk d
      | ST_TrailerCrlf \<Rightarrow> False | ST_TrailerData \<Rightarrow> False | ST_TrailerEndCrlf \<Rightarrow> False
      | _ \<Rightarrow> cd_is_last_chunk d = (cd_total_size d = 0))"

text \<open>
  \<open>out\<close> is the data of the chunk that was found before the octets of \<open>buf\<close>. A chunk that is not complete has used up
  the segment; after a complete one the run goes on, unless it was the last.
\<close>

definition stage_runs :: "bytes \<Rightarrow> ChunkBodyDecoder \<Rightarrow> bytes \<Rightarrow> chunk_result \<Rightarrow> bool" where
  "stage_runs out d buf r \<longleftrightarrow>
     (case r of
        Panic \<Rightarrow> False
      | Err e \<Rightarrow> chunk_run (norm d) buf = Err e
      | Ok (c, rest, d') \<Rightarrow>
          ck_trailer c = None \<and> \<not> cd_is_trailer d' \<and> \<not> cd_is_chunk_trailer d' \<and>
          (if Chunk_is_complete c then
             cd_stage d' = ST_Size \<and> cd_is_last_chunk d' = (ck_size c = 0) \<and>
             with_data out (chunk_run (norm d) buf) =
               (if cd_is_last_chunk d' then Ok (norm (ended d'), ck_data c, Some rest)
                else with_data (ck_data c) (chunk_run (norm (next_chunk d')) rest))
           else rest = [] \<and> plain d' \<and> with_data out (chunk_run (norm d) buf) = Ok (norm d', ck_data c, None)))"

lemma norm_simps [simp]:
  "cd_stage (norm d) = cd_stage d" "cd_cr_meet (norm d) = cd_cr_meet d" "cd_rest_size (norm d) = cd_rest_size d"
  "cd_hex_count (norm d) = cd_hex_count d" "cd_total_size (norm d) = cd_total_size d"
  "cd_is_last_chunk (norm d) = cd_is_last_chunk d" "norm (norm d) = norm d"
  "norm (d\<lparr>cd_chunk_flag := x\<rparr>) = norm d"
  by (simp_all add: norm_def)

lemma norm_update:
  "(norm d)\<lparr>cd_stage := s\<rparr> = norm (d\<lparr>cd_stage := s\<rparr>)" "(norm d)\<lparr>cd_cr_meet := x\<rparr> = norm (d\<lparr>cd_cr_meet := x\<rparr>)"
  "(norm d)\<lparr>cd_total_size := n\<rparr> = norm (d\<lparr>cd_total_size := n\<rparr>)" "(norm d)\<lparr>cd_rest_size := n\<rparr> = norm (d\<lparr>cd_rest_size := n\<rparr>)"
  "(norm d)\<lparr>cd_hex_count := i\<rparr> = norm (d\<lparr>cd_hex_count := i\<rparr>)" "(norm d)\<lparr>cd_num_flag := x\<rparr> = norm (d\<lparr>cd_num_flag := x\<rparr>)"
  "(norm d)\<lparr>cd_is_last_chunk := x\<rparr> = norm (d\<lparr>cd_is_last_chunk := x\<rparr>)" "ended (norm d) = norm (ended d)"
  "next_chunk (norm d) = norm (next_chunk d)"
  by (simp_all add: norm_def ended_def next_chunk_def)

lemma norm_lines: "decode_cr (norm d) = obind (decode_cr d) (\<lambda>d. Ok (norm d))" "decode_lf (norm d) = obind (decode_lf d) (\<lambda>d. Ok (norm d))"
  by (simp_all add: decode_cr_def decode_lf_def norm_update)

lemmas line_defs = decode_cr_def decode_lf_def

lemma chunk_run_step:
  "chunk_step (norm d) b = Ok (norm d1, pre, False) \<Longrightarrow> chunk_run (norm d) (b # bs) = with_data pre (chunk_run (norm d1) bs)"
  by simp

lemma stage_runs_after:
  assumes "chunk_run (norm d) xs = with_data pre (chunk_run (norm d1) ys)" "stage_runs (out @ pre) d1 ys r"
  shows "stage_runs out d xs r"
proof (cases r)
  case (Ok x)
  with assms show ?thesis by (cases x) (simp add: stage_runs_def)
qed (use assms in \<open>simp_all add: stage_runs_def\<close>)

lemma stage_runs_norm: "norm d = norm d1 \<Longrightarrow> stage_runs out d1 buf r \<Longrightarrow> stage_runs out d buf r"
  by (rule stage_runs_after [of _ _ "[]" d1 buf]) simp_all

lemma stage_runs_step:
  assumes "chunk_step (norm d) b = Ok (norm d1, [], False)" "stage_runs out d1 buf r"
  shows "stage_runs out d (b # buf) r"
  by (rule stage_runs_after [where pre = "[]"]) (use assms chunk_run_step in auto)

lemma stage_runs_Err: "chunk_step (norm d) b = Err e \<Longrightarrow> stage_runs out d (b # buf) (Err e)"
  by (simp add: stage_runs_def)

lemma skip_last_crlf_runs:
  assumes "cd_stage d = ST_DataEnd" "plain d"
  shows "stage_runs out d buf (skip_last_crlf_loop d out buf)"
  using assms
proof (induction buf arbitrary: d)
  case Nil
  then show ?case by (simp add: stage_runs_def sized_chunk_def Chunk_is_complete_def plain_def)
next
  case (Cons b buf)
  note step = chunk_step_def data_end_step_def line_defs norm_update
  consider "b = 0x0D" "\<not> cd_cr_meet d" | "b = 0x0A" "cd_cr_meet d" | "b \<noteq> 0x0D \<or> cd_cr_meet d" "b \<noteq> 0x0A \<or> \<not> cd_cr_meet d" by blast
  then show ?case
  proof cases
    case 1
    then have "stage_runs out d (b # buf) (skip_last_crlf_loop (d\<lparr>cd_cr_meet := True\<rparr>) out buf)"
      using Cons.prems by (intro stage_runs_step [OF _ Cons.IH]) (simp_all add: step plain_def)
    with 1 show ?thesis by (simp add: line_defs)
  next
    case 2
    with Cons.prems show ?thesis
      by (simp add: stage_runs_def step plain_def sized_chunk_def Chunk_is_complete_def Let_def)
  next
    case 3
    with Cons.prems have "chunk_step (norm d) b = Err InvalidInput" "skip_last_crlf_loop d out (b # buf) = Err InvalidInput"
      by (auto simp: step)
    then show ?thesis by (simp add: stage_runs_Err)
  qed
qed

lemma chunk_run_data:
  assumes "cd_stage d = ST_Data" "length xs < cd_rest_size d"
  shows "chunk_run (norm d) (xs @ ys) = with_data xs (chunk_run (norm (d\<lparr>cd_rest_size := cd_rest_size d - length xs\<rparr>)) ys)"
  using assms
proof (induction xs arbitrary: d)
  case (Cons x xs)
  let ?d = "d\<lparr>cd_rest_size := cd_rest_size d - 1\<rparr>"
  have "chunk_step (norm d) x = Ok (norm ?d, [x], False)"
    using Cons.prems by (simp add: chunk_step_def norm_update)
  moreover have "chunk_run (norm ?d) (xs @ ys) =
      with_data xs (chunk_run (norm (?d\<lparr>cd_rest_size := cd_rest_size ?d - length xs\<rparr>)) ys)"
    using Cons.prems by (intro Cons.IH) auto
  ultimately show ?case by simp
qed simp

lemma chunk_run_all_data:
  assumes "cd_stage d = ST_Data" "0 < cd_rest_size d" "length xs = cd_rest_size d"
  shows "chunk_run (norm d) (xs @ ys) =
    with_data xs (chunk_run (norm (d\<lparr>cd_rest_size := 0, cd_cr_meet := False, cd_stage := ST_DataEnd\<rparr>)) ys)"
proof -
  obtain zs z where xs: "xs = zs @ [z]" using assms by (cases xs rule: rev_cases) auto
  let ?d = "d\<lparr>cd_rest_size := 1\<rparr>"
  have "chunk_run (norm d) (zs @ z # ys) = with_data zs (chunk_run (norm ?d) (z # ys))"
  proof -
    have "cd_rest_size d - length zs = 1" "length zs < cd_rest_size d" using assms(3) xs by auto
    with chunk_run_data [OF assms(1), of zs "z # ys"] show ?thesis by simp
  qed
  moreover have "chunk_step (norm ?d) z =
      Ok (norm (d\<lparr>cd_rest_size := 0, cd_cr_meet := False, cd_stage := ST_DataEnd\<rparr>), [z], False)"
    using assms(1) by (simp add: chunk_step_def norm_update)
  ultimately show ?thesis by (simp add: xs)
qed

lemma decode_data_runs:
  assumes "cd_stage d = ST_Data" "plain d"
  shows "stage_runs [] d buf (decode_data d buf)"
proof -
  have d: "d\<lparr>cd_stage := ST_Data\<rparr> = d" using assms(1) by simp
  let ?e = "d\<lparr>cd_rest_size := 0, cd_cr_meet := False, cd_stage := ST_DataEnd\<rparr>"
  consider "buf = []" | "buf \<noteq> []" "length buf < cd_rest_size d" | "buf \<noteq> []" "cd_rest_size d \<le> length buf" by linarith
  then show ?thesis
  proof cases
    case 1
    then show ?thesis using assms
      by (simp add: d decode_data_def Let_def stage_runs_def sized_chunk_def Chunk_is_complete_def plain_def)
  next
    case 2
    with chunk_run_data [OF assms(1), of buf "[]"] assms show ?thesis
      by (simp add: d decode_data_def Let_def stage_runs_def sized_chunk_def Chunk_is_complete_def plain_def)
  next
    case 3
    let ?n = "cd_rest_size d"
    have "chunk_run (norm d) buf = with_data (take ?n buf) (chunk_run (norm ?e) (drop ?n buf))"
    proof (cases "?n = 0")
      case True
      then have e: "?e = d\<lparr>cd_cr_meet := False, cd_stage := ST_DataEnd\<rparr>" by simp
      from 3 True assms(1) show ?thesis
        unfolding e by (cases buf) (simp_all add: chunk_step_def norm_update)
    next
      case False
      with 3 chunk_run_all_data [OF assms(1), of "take ?n buf" "drop ?n buf"] show ?thesis by simp
    qed
    moreover have "stage_runs ([] @ take ?n buf) ?e (drop ?n buf) (skip_last_crlf_loop ?e (take ?n buf) (drop ?n buf))"
      using skip_last_crlf_runs [of ?e "take ?n buf"] assms by (simp add: plain_def)
    ultimately have "stage_runs [] d buf (skip_last_crlf_loop ?e (take ?n buf) (drop ?n buf))"
      by (rule stage_runs_after)
    with 3 show ?thesis by (simp add: d decode_data_def Let_def skip_last_crlf_def)
  qed
qed

lemma skip_crlf_runs:
  assumes "cd_stage d = ST_SizeEnd" "plain d"
  shows "stage_runs [] d buf (skip_crlf_loop d buf)"
  using assms
proof (induction buf arbitrary: d)
  case Nil
  then show ?case by (simp add: stage_runs_def sized_chunk_def Chunk_is_complete_def plain_def)
next
  case (Cons b buf)
  note step = chunk_step_def line_defs norm_update
  consider "b = 0x0D" "\<not> cd_cr_meet d" | "b = 0x0A" "cd_cr_meet d" | "b \<noteq> 0x0D \<or> cd_cr_meet d" "b \<noteq> 0x0A \<or> \<not> cd_cr_meet d" by blast
  then show ?case
  proof cases
    case 1
    then have "stage_runs [] d (b # buf) (skip_crlf_loop (d\<lparr>cd_cr_meet := True\<rparr>) buf)"
      using Cons.prems by (intro stage_runs_step [OF _ Cons.IH]) (simp_all add: step plain_def)
    with 1 show ?thesis by (simp add: line_defs)
  next
    case 2
    let ?d = "d\<lparr>cd_cr_meet := False, cd_stage := ST_Data\<rparr>"
    from 2 Cons.prems have "stage_runs [] d (b # buf) (decode_data ?d buf)"
      by (intro stage_runs_step [OF _ decode_data_runs]) (simp_all add: step plain_def)
    moreover have "decode_data ?d buf = decode_data (d\<lparr>cd_cr_meet := False\<rparr>) buf" by (simp add: decode_data_def)
    ultimately show ?thesis using 2 by (simp add: line_defs)
  next
    case 3
    with Cons.prems have "chunk_step (norm d) b = Err InvalidInput" "skip_crlf_loop d (b # buf) = Err InvalidInput"
      by (auto simp: step)
    then show ?thesis by (simp add: stage_runs_Err)
  qed
qed

lemma skip_chunk_ext_runs:
  assumes "cd_stage d = ST_Extension" "plain d"
  shows "stage_runs [] d buf (skip_chunk_ext d buf)"
  using assms
proof (induction buf arbitrary: d)
  case Nil
  then show ?case by (simp add: stage_runs_def sized_chunk_def Chunk_is_complete_def plain_def)
next
  case (Cons b buf)
  note step = chunk_step_def extension_step_def line_defs norm_update
  consider "b = 0x0D" "\<not> cd_cr_meet d" | "b \<noteq> 0x0D" "b \<noteq> 0x0A" | "b = 0x0A \<or> b = 0x0D \<and> cd_cr_meet d" by blast
  then show ?case
  proof cases
    case 1
    let ?d = "d\<lparr>cd_cr_meet := True, cd_stage := ST_SizeEnd\<rparr>"
    from 1 Cons.prems have "stage_runs [] d (b # buf) (skip_crlf_loop ?d buf)"
      by (intro stage_runs_step [OF _ skip_crlf_runs]) (simp_all add: step plain_def)
    with 1 show ?thesis by (simp add: line_defs skip_crlf_def)
  next
    case 2
    then have "stage_runs [] d (b # buf) (skip_chunk_ext d buf)"
      using Cons.prems by (intro stage_runs_step [OF _ Cons.IH]) (simp_all add: step)
    with 2 show ?thesis by simp
  next
    case 3
    with Cons.prems have "chunk_step (norm d) b = Err InvalidInput" "skip_chunk_ext d (b # buf) = Err InvalidInput"
      by (auto simp: step skip_crlf_def)
    then show ?thesis by (simp add: stage_runs_Err)
  qed
qed

text \<open>The octets that end the size belong to the extension as well.\<close>

lemma special_step:
  assumes "cd_stage d = ST_Size" "b \<noteq> 0x30" "hex_digit b = None" "b = 0x20 \<or> b = 0x09 \<or> b = 0x3B \<or> b = 0x0D \<or> b = 0x0A"
  shows "chunk_step (norm d) b = chunk_step (norm (size_known d)) b"
proof -
  have "size_known (norm d) = norm (size_known d)" by (simp add: size_known_def Let_def norm_update)
  moreover have "cd_stage (size_known d) = ST_Extension" by (simp add: size_known_def Let_def)
  ultimately show ?thesis using assms by (auto simp: chunk_step_def)
qed

lemma decode_special_char_runs:
  assumes "cd_stage d = ST_Size" "plain d" "b \<noteq> 0x30" "hex_digit b = None"
    "b = 0x20 \<or> b = 0x09 \<or> b = 0x3B \<or> b = 0x0D \<or> b = 0x0A"
  shows "stage_runs [] d (b # buf) (decode_special_char d (b # buf))"
proof -
  have "decode_special_char d (b # buf) = skip_chunk_ext (size_known d) (b # buf)"
    using assms(1,2) by (simp add: decode_special_char_def size_known_def skip_extension_def plain_def Let_def)
  moreover have "stage_runs [] (size_known d) (b # buf) (skip_chunk_ext (size_known d) (b # buf))"
    using assms(1,2) by (intro skip_chunk_ext_runs) (simp_all add: size_known_def plain_def Let_def)
  moreover have "chunk_run (norm d) (b # buf) = with_data [] (chunk_run (norm (size_known d)) (b # buf))"
    using special_step [OF assms(1,3,4,5)] by simp
  ultimately show ?thesis by (metis append_Nil stage_runs_after)
qed

lemma decode_size_runs:
  assumes "cd_stage d = ST_Size" "plain d"
  shows "stage_runs [] d buf (decode_size_loop d buf)"
  using assms
proof (induction buf arbitrary: d)
  case Nil
  then show ?case by (simp add: stage_runs_def sized_chunk_def Chunk_is_complete_def plain_def)
next
  case (Cons b buf)
  note step = chunk_step_def norm_update
  have digit: "stage_runs [] d (b # buf) (obind (hex_to_decimal (cd_hex_count d) v) (\<lambda>n. decode_size_loop (upd n d) buf))"
    if "\<And>n. chunk_step (norm d) b = obind (hex_to_decimal (cd_hex_count d) v) (\<lambda>n. Ok (norm (upd n d), [], False))"
      "\<And>n. cd_stage (upd n d) = ST_Size \<and> plain (upd n d)" for v upd
  proof (cases "hex_to_decimal (cd_hex_count d) v")
    case (Ok n)
    have "stage_runs [] d (b # buf) (decode_size_loop (upd n d) buf)"
      using that Ok by (intro stage_runs_step [OF _ Cons.IH]) simp_all
    with Ok show ?thesis by simp
  next
    case (Err e)
    then show ?thesis using that(1) by (simp add: stage_runs_Err)
  qed (simp add: hex_to_decimal_def split: if_splits)
  consider "b = 0x30" | v where "b \<noteq> 0x30" "hex_digit b = Some v"
    | "b \<noteq> 0x30" "hex_digit b = None" "b = 0x20 \<or> b = 0x09 \<or> b = 0x3B \<or> b = 0x0D \<or> b = 0x0A"
    | "b \<noteq> 0x30" "hex_digit b = None" "\<not> (b = 0x20 \<or> b = 0x09 \<or> b = 0x3B \<or> b = 0x0D \<or> b = 0x0A)" by fastforce
  then show ?case
  proof cases
    case 1
    then have "decode_size_loop d (b # buf) =
        obind (hex_to_decimal (cd_hex_count d) 0) (\<lambda>n. decode_size_loop (d\<lparr>cd_hex_count := n\<rparr>) buf)"
      using Cons.prems(2) by (simp add: plain_def)
    with digit [of 0 "\<lambda>n d. d\<lparr>cd_hex_count := n\<rparr>"] 1 Cons.prems show ?thesis by (simp add: step plain_def)
  next
    case 2
    with digit [of v "\<lambda>n d. d\<lparr>cd_hex_count := n, cd_chunk_flag := True, cd_num_flag := True\<rparr>"] Cons.prems
    moreover have "norm (d\<lparr>cd_hex_count := n, cd_chunk_flag := True, cd_num_flag := True\<rparr>) =
        norm (d\<lparr>cd_hex_count := n, cd_num_flag := True\<rparr>)" for n by (simp add: norm_def)
    ultimately show ?thesis by (simp add: step plain_def)
  next
    case 3
    with decode_special_char_runs [OF Cons.prems 3] show ?thesis by simp
  next
    case 4
    with Cons.prems have "chunk_step (norm d) b = Err InvalidInput" "decode_size_loop d (b # buf) = Err InvalidInput"
      by (simp_all add: step)
    then show ?thesis by (simp add: stage_runs_Err)
  qed
qed

lemma decode_stage_runs:
  assumes "plain d"
  shows "stage_runs [] d buf (decode_stage d buf)"
proof -
  have size: "stage_runs [] d buf (decode_size d buf)" if "cd_stage d = ST_Size"
  proof (cases "buf = []")
    case True
    with that assms show ?thesis
      by (simp add: decode_size_def stage_runs_def sized_chunk_def Chunk_is_complete_def plain_def norm_def)
  next
    case False
    let ?d = "d\<lparr>cd_chunk_flag := False\<rparr>"
    have "stage_runs [] ?d buf (decode_size_loop ?d buf)"
      using that assms by (intro decode_size_runs) (simp_all add: plain_def)
    moreover have "d\<lparr>cd_stage := ST_Size, cd_chunk_flag := False\<rparr> = ?d" using that by simp
    ultimately have "stage_runs [] ?d buf (decode_size d buf)" using False by (simp add: decode_size_def Let_def)
    then show ?thesis by (rule stage_runs_norm [rotated]) simp
  qed
  show ?thesis
  proof (cases "cd_stage d")
    case ST_Size
    then show ?thesis using size by (simp add: decode_stage_def)
  next
    case ST_Extension
    then have e: "d\<lparr>cd_stage := ST_Extension\<rparr> = d" by simp
    from ST_Extension assms skip_chunk_ext_runs [of d] show ?thesis by (auto simp: e decode_stage_def skip_extension_def plain_def)
  next
    case ST_SizeEnd
    then have e: "d\<lparr>cd_stage := ST_SizeEnd\<rparr> = d" by simp
    from ST_SizeEnd assms skip_crlf_runs [of d] show ?thesis by (simp add: e decode_stage_def skip_crlf_def)
  next
    case ST_Data
    with assms decode_data_runs show ?thesis by (simp add: decode_stage_def)
  next
    case ST_DataEnd
    then have e: "d\<lparr>cd_stage := ST_DataEnd\<rparr> = d" by simp
    from ST_DataEnd assms skip_last_crlf_runs [of d] show ?thesis by (simp add: e decode_stage_def skip_last_crlf_def)
  qed (use assms in \<open>simp_all add: plain_def\<close>)
qed

text \<open>The chunk that ends a body.\<close>

definition ends_body :: "Chunk list \<Rightarrow> bool" where
  "ends_body cs \<longleftrightarrow> cs \<noteq> [] \<and> Chunk_is_complete (last cs) \<and> ck_size (last cs) = 0"

definition chunk_data :: "Chunk list \<Rightarrow> bytes" where
  "chunk_data cs = concat (map ck_data cs)"

definition loop_runs ::
  "ChunkBodyDecoder \<Rightarrow> Chunk list \<Rightarrow> bytes \<Rightarrow> (Chunk list \<times> bytes \<times> ChunkBodyDecoder, ErrorKind) outcome \<Rightarrow> bool" where
  "loop_runs d results buf r \<longleftrightarrow>
     (case r of
        Panic \<Rightarrow> False
      | Err e \<Rightarrow> chunk_run (norm d) buf = Err e
      | Ok (cs, rest, d') \<Rightarrow>
          plain d' \<and> (ends_body cs \<or> rest = []) \<and>
          with_data (chunk_data results) (chunk_run (norm d) buf) =
            Ok (norm d', chunk_data cs, if ends_body cs then Some rest else None))"

lemma loop_runs_after:
  assumes "chunk_run (norm d) xs = with_data pre (chunk_run (norm d') ys)" "loop_runs d' rs' ys r"
    "chunk_data rs' = chunk_data rs @ pre"
  shows "loop_runs d rs xs r"
proof (cases r)
  case (Ok x)
  with assms show ?thesis by (cases x) (simp add: loop_runs_def)
qed (use assms in \<open>simp_all add: loop_runs_def\<close>)

lemma decode_chunks_loop_runs:
  assumes "plain d"
  shows "loop_runs d results buf (decode_chunks_loop d results buf)"
  using assms
proof (induction d results buf rule: decode_chunks_loop.induct)
  case (1 d results buf)
  note IH = 1(1) and sr = decode_stage_runs [OF 1(2), of buf]
  show ?case
  proof (cases "decode_stage d buf")
    case (Ok x)
    obtain c rest d' where x: "x = (c, rest, d')" by (cases x)
    let ?c = "c\<lparr>ck_id := cd_chunk_num d'\<rparr>"
    have tr: "ck_trailer c = None" and pl: "\<not> cd_is_trailer d'" "\<not> cd_is_chunk_trailer d'"
      using sr Ok x by (auto simp: stage_runs_def split: if_splits)
    have comp: "Chunk_is_complete ?c = Chunk_is_complete c" by (simp add: Chunk_is_complete_def)
    have data: "chunk_data (results @ [?c]) = chunk_data results @ ck_data c" by (simp add: chunk_data_def)
    show ?thesis
    proof (cases "Chunk_is_complete c")
      case False
      then have m: "match_decode_result d' ?c rest = (True, d')" using pl by (simp add: match_decode_result_def comp)
      have run: "rest = []" "plain d'" "chunk_run (norm d) buf = Ok (norm d', ck_data c, None)"
        using sr Ok x False by (auto simp: stage_runs_def)
      have "\<not> ends_body (results @ [?c])" using False by (simp add: ends_body_def comp)
      with run m Ok x tr data show ?thesis by (simp add: loop_runs_def)
    next
      case True
      then have run: "cd_stage d' = ST_Size" "cd_is_last_chunk d' = (ck_size c = 0)"
        "chunk_run (norm d) buf =
          (if cd_is_last_chunk d' then Ok (norm (ended d'), ck_data c, Some rest)
           else with_data (ck_data c) (chunk_run (norm (next_chunk d')) rest))"
        using sr Ok x by (auto simp: stage_runs_def)
      show ?thesis
      proof (cases "cd_is_last_chunk d'")
        case last: True
        then have m: "match_decode_result d' ?c rest = (True, ended d')"
          using True by (simp add: match_decode_result_def comp ended_def)
        have "ends_body (results @ [?c])" using True last run(2) by (simp add: ends_body_def comp)
        moreover have "plain (ended d')" using pl run(1) by (simp add: plain_def ended_def)
        ultimately show ?thesis using m Ok x tr data run last by (simp add: loop_runs_def)
      next
        case more: False
        have same: "d' = (case ck_trailer ?c of None \<Rightarrow> d' | Some t \<Rightarrow> merge_trailer d' (ck_state ?c) t)" using tr by simp
        from more have m: "match_decode_result d' ?c rest = (rest = [], next_chunk d')"
          using True by (simp add: match_decode_result_def comp next_chunk_def)
        have pl': "plain (next_chunk d')" using pl run(1) more by (simp add: plain_def next_chunk_def)
        have ne: "\<not> ends_body (results @ [?c])" using more run(2) by (simp add: ends_body_def)
        show ?thesis
        proof (cases "rest = []")
          case True
          with m Ok x tr data run more ne pl' show ?thesis by (simp add: loop_runs_def)
        next
          case False
          have "loop_runs (next_chunk d') (results @ [?c]) rest (decode_chunks_loop (next_chunk d') (results @ [?c]) rest)"
            by (rule IH [OF Ok x [symmetric] refl refl same m [symmetric]]) (use pl' False in simp_all)
          then have "loop_runs d results buf (decode_chunks_loop (next_chunk d') (results @ [?c]) rest)"
            using run(3) more data by (intro loop_runs_after [of d buf "ck_data c"]) simp_all
          moreover have "decode_chunks_loop d results buf = decode_chunks_loop (next_chunk d') (results @ [?c]) rest"
            by (subst decode_chunks_loop.simps) (simp add: Ok x tr m False Let_def del: decode_chunks_loop.simps)
          ultimately show ?thesis by simp
        qed
      qed
    qed
  next
    case (Err e)
    with sr show ?thesis by (simp add: loop_runs_def stage_runs_def)
  next
    case Panic
    with sr show ?thesis by (simp add: stage_runs_def)
  qed
qed

section \<open>Segments\<close>

text \<open>What is known of a body after some segments: the decoder, the data, and what follows the body, if it has ended.\<close>

type_synonym body_state = "ChunkBodyDecoder \<times> bytes \<times> bytes option"

fun feed_chunks :: "body_state \<Rightarrow> bytes \<Rightarrow> (body_state, ErrorKind) outcome" where
  "feed_chunks (d, out, Some rest) xs = Ok (d, out, Some (rest @ xs))"
| "feed_chunks (d, out, None) xs =
     obind (ChunkBodyDecoder_decode d xs) (\<lambda>(cs, rest, d). Ok (d, out @ chunk_data cs, if ends_body cs then Some rest else None))"

definition norm_body :: "(body_state, ErrorKind) outcome \<Rightarrow> (body_state, ErrorKind) outcome" where
  "norm_body r = obind r (\<lambda>(d, out, rest). Ok (norm d, out, rest))"

definition bodies_agree :: "(body_state, ErrorKind) outcome \<Rightarrow> (body_state, ErrorKind) outcome \<Rightarrow> bool" where
  "bodies_agree m n \<longleftrightarrow> norm_body m = norm_body n"

definition body_ok :: "body_state \<Rightarrow> bool" where
  "body_ok s \<longleftrightarrow> plain (fst s)"

lemma norm_body_simps [simp]:
  "norm_body (Ok (d, out, rest)) = Ok (norm d, out, rest)" "norm_body (Err e) = Err e" "norm_body Panic = Panic"
  by (simp_all add: norm_body_def)

lemma feed_chunks_run:
  assumes "plain d"
  shows "norm_body (feed_chunks (d, out, None) xs) = with_data out (chunk_run (norm d) xs)"
    "feed_chunks (d, out, None) xs = Ok t \<Longrightarrow> body_ok t"
proof -
  have r: "loop_runs d [] xs (ChunkBodyDecoder_decode d xs)"
    using decode_chunks_loop_runs [OF assms] by (simp add: ChunkBodyDecoder_decode_def)
  show "norm_body (feed_chunks (d, out, None) xs) = with_data out (chunk_run (norm d) xs)"
    using r by (cases "ChunkBodyDecoder_decode d xs") (auto simp: loop_runs_def chunk_data_def)
  show "feed_chunks (d, out, None) xs = Ok t \<Longrightarrow> body_ok t"
    using r by (auto simp: loop_runs_def body_ok_def obind_eq_Ok)
qed

lemma chunk_run_append:
  "chunk_run d (xs @ ys) =
    obind (chunk_run d xs) (\<lambda>(d, out, r). case r of None \<Rightarrow> with_data out (chunk_run d ys) | Some rest \<Rightarrow> Ok (d, out, Some (rest @ ys)))"
proof (induction xs arbitrary: d)
  case (Cons x xs)
  have "with_data out (obind (chunk_run d xs) (\<lambda>(d, out, r).
        case r of None \<Rightarrow> with_data out (chunk_run d ys) | Some rest \<Rightarrow> Ok (d, out, Some (rest @ ys)))) =
      obind (with_data out (chunk_run d xs)) (\<lambda>(d, out, r).
        case r of None \<Rightarrow> with_data out (chunk_run d ys) | Some rest \<Rightarrow> Ok (d, out, Some (rest @ ys)))" for d out
    by (cases "chunk_run d xs") (auto split: option.split)
  then show ?case
    by (cases "chunk_step d x") (auto simp: Cons.IH split: prod.split)
qed simp

interpretation chunk_dec: segmented_decoder_upto feed_chunks body_ok bodies_agree
proof
  fix s :: body_state and xs ys :: bytes
  assume "body_ok s"
  obtain d out r where s: "s = (d, out, r)" by (cases s)
  with \<open>body_ok s\<close> have d: "plain d" by (simp add: body_ok_def)
  show "bodies_agree (feed_chunks s []) (Ok s)"
    using feed_chunks_run(1) [OF d, of out "[]"] by (cases r) (simp_all add: s bodies_agree_def)
  show "bodies_agree (feed_chunks s (xs @ ys)) (obind (feed_chunks s xs) (\<lambda>t. feed_chunks t ys))"
  proof (cases r)
    case None
    note run = feed_chunks_run(1) [OF d, of out]
    show ?thesis
    proof (cases "feed_chunks s xs")
      case (Ok t)
      obtain d' out' r' where t: "t = (d', out', r')" by (cases t)
      have d': "plain d'" using feed_chunks_run(2) [OF d, of out xs] Ok s None t by (auto simp: body_ok_def)
      have "with_data out (chunk_run (norm d) xs) = Ok (norm d', out', r')"
        using run [of xs] Ok t s None by simp
      then have whole: "norm_body (feed_chunks s (xs @ ys)) =
          (case r' of None \<Rightarrow> with_data out' (chunk_run (norm d') ys) | Some rest \<Rightarrow> Ok (norm d', out', Some (rest @ ys)))"
        using run [of "xs @ ys"] s None
        by (cases "chunk_run (norm d) xs") (auto simp: chunk_run_append split: option.splits)
      then show ?thesis
        using feed_chunks_run(1) [OF d', of out' ys] Ok t by (cases r') (simp_all add: bodies_agree_def)
    next
      case (Err e)
      then show ?thesis using run [of xs] run [of "xs @ ys"] s None
        by (cases "chunk_run (norm d) xs") (auto simp: bodies_agree_def chunk_run_append)
    next
      case Panic
      then show ?thesis using run [of xs] run [of "xs @ ys"] s None
        by (cases "chunk_run (norm d) xs") (auto simp: bodies_agree_def chunk_run_append)
    qed
  qed (simp add: s bodies_agree_def)
next
  fix s t :: body_state and xs :: bytes
  assume "body_ok s" "feed_chunks s xs = Ok t"
  then show "body_ok t"
    using feed_chunks_run(2) [of "fst s"] by (cases s; cases "snd (snd s)") (auto simp: body_ok_def)
qed (auto simp: bodies_agree_def)

section \<open>Chunked bodies\<close>

definition hex_octet :: "nat \<Rightarrow> u8" where
  "hex_octet k = of_nat (if k < 10 then 0x30 + k else 0x61 + (k - 10))"

fun hex_octets :: "nat \<Rightarrow> bytes" where
  "hex_octets n = (if n < 16 then [hex_octet n] else hex_octets (n div 16) @ [hex_octet (n mod 16)])"

declare hex_octets.simps [simp del]

definition chunk_octets :: "bytes \<Rightarrow> bytes" where
  "chunk_octets x = hex_octets (length x) @ [0x0D, 0x0A] @ x @ [0x0D, 0x0A]"

definition body_octets :: "bytes list \<Rightarrow> bytes" where
  "body_octets xs = concat (map chunk_octets xs) @ [0x30, 0x0D, 0x0A, 0x0D, 0x0A]"

text \<open>The decoder between two chunks.\<close>

definition ready :: "ChunkBodyDecoder \<Rightarrow> bool" where
  "ready d \<longleftrightarrow> plain d \<and> cd_stage d = ST_Size \<and> cd_hex_count d = 0 \<and> \<not> cd_cr_meet d \<and> \<not> cd_chunk_flag d \<and>
     cd_rest_size d = 0"

lemma norm_id: "\<not> cd_chunk_flag d \<Longrightarrow> norm d = d"
  by (simp add: norm_def)

lemma digit_step:
  assumes "cd_stage d = ST_Size" "k < 16" "cd_hex_count d = int m" "int (m * 16 + k) \<le> I64_MAX"
  shows "\<exists>f. chunk_step d (hex_octet k) = Ok (d\<lparr>cd_hex_count := int (m * 16 + k), cd_num_flag := f\<rparr>, [], False)"
proof -
  have "hex_to_decimal (int m) (int k) = Ok (int (m * 16 + k))"
    using assms(4) by (simp add: hex_to_decimal_def algebra_simps)
  moreover have "k = 0 \<and> hex_octet k = 0x30 \<or> k \<noteq> 0 \<and> hex_octet k \<noteq> 0x30 \<and> hex_digit (hex_octet k) = Some (int k)"
  proof -
    have "list_all (\<lambda>k. k = 0 \<and> hex_octet k = 0x30 \<or> k \<noteq> 0 \<and> hex_octet k \<noteq> 0x30 \<and> hex_digit (hex_octet k) = Some (int k))
        [0..<16]" by code_simp
    with assms(2) show ?thesis by (simp add: list_all_iff)
  qed
  ultimately consider
      "chunk_step d (hex_octet k) = Ok (d\<lparr>cd_hex_count := int (m * 16 + k)\<rparr>, [], False)"
    | "chunk_step d (hex_octet k) = Ok (d\<lparr>cd_hex_count := int (m * 16 + k), cd_num_flag := True\<rparr>, [], False)"
    using assms(1,3) by (auto simp: chunk_step_def)
  then show ?thesis
  proof cases
    case 1
    then have "chunk_step d (hex_octet k) =
        Ok (d\<lparr>cd_hex_count := int (m * 16 + k), cd_num_flag := cd_num_flag d\<rparr>, [], False)" by simp
    then show ?thesis by (rule exI)
  qed (rule exI)
qed

lemma hex_run:
  assumes "cd_stage d = ST_Size" "cd_hex_count d = 0" "int n \<le> I64_MAX"
  shows "\<exists>f. \<forall>ys. chunk_run d (hex_octets n @ ys) = chunk_run (d\<lparr>cd_hex_count := int n, cd_num_flag := f\<rparr>) ys"
  using assms(3)
proof (induction n rule: hex_octets.induct)
  case (1 n)
  show ?case
  proof (cases "n < 16")
    case True
    with digit_step [OF assms(1) True, of 0] assms(2) 1(2) show ?thesis
      by (auto simp: hex_octets.simps [of n])
  next
    case False
    have "int (n div 16) \<le> I64_MAX" using 1(2) by (meson div_le_dividend of_nat_mono order_trans)
    with 1(1) [OF False] obtain f where f: "\<And>ys. chunk_run d (hex_octets (n div 16) @ ys) =
        chunk_run (d\<lparr>cd_hex_count := int (n div 16), cd_num_flag := f\<rparr>) ys" by blast
    let ?d = "d\<lparr>cd_hex_count := int (n div 16), cd_num_flag := f\<rparr>"
    have "n div 16 * 16 + n mod 16 = n" by simp
    then obtain g where g: "chunk_step ?d (hex_octet (n mod 16)) =
        Ok (?d\<lparr>cd_hex_count := int n, cd_num_flag := g\<rparr>, [], False)"
      using digit_step [of ?d "n mod 16" "n div 16"] assms(1) 1(2) by auto
    have "chunk_run d (hex_octets n @ ys) = chunk_run (d\<lparr>cd_hex_count := int n, cd_num_flag := g\<rparr>) ys" for ys
      using False f [of "hex_octet (n mod 16) # ys"] g by (simp add: hex_octets.simps [of n])
    then show ?thesis by blast
  qed
qed

lemma chunk_octets_run:
  assumes "ready d" "x \<noteq> []" "int (length x) \<le> I64_MAX"
  shows "\<exists>d'. ready d' \<and> (\<forall>ys. chunk_run d (chunk_octets x @ ys) = with_data x (chunk_run d' ys))"
proof -
  from hex_run [of d "length x"] assms obtain f where f: "\<And>ys. chunk_run d (hex_octets (length x) @ ys) =
      chunk_run (d\<lparr>cd_hex_count := int (length x), cd_num_flag := f\<rparr>) ys" by (auto simp: ready_def)
  let ?d = "d\<lparr>cd_hex_count := int (length x), cd_num_flag := f\<rparr>"
  let ?e = "(size_known ?d)\<lparr>cd_cr_meet := True, cd_stage := ST_SizeEnd\<rparr>"
  let ?g = "?e\<lparr>cd_cr_meet := False, cd_stage := ST_Data\<rparr>"
  let ?h = "?g\<lparr>cd_rest_size := 0, cd_cr_meet := False, cd_stage := ST_DataEnd\<rparr>"
  let ?i = "next_chunk (?h\<lparr>cd_cr_meet := True\<rparr>\<lparr>cd_cr_meet := False\<rparr>\<lparr>cd_stage := ST_Size, cd_total_size := 0\<rparr>)"
  have d: "cd_stage d = ST_Size" "\<not> cd_cr_meet d" "\<not> cd_is_last_chunk d" "\<not> cd_chunk_flag d" "plain d" "cd_hex_count d = 0"
    using assms(1) by (auto simp: ready_def plain_def)
  have k: "cd_stage (size_known ?d) = ST_Extension" "\<not> cd_cr_meet (size_known ?d)" "cd_rest_size (size_known ?d) = length x"
    "\<not> cd_is_last_chunk (size_known ?d)"
    using assms(2) d by (simp_all add: size_known_def Let_def)
  have s1: "chunk_step ?d 0x0D = Ok (?e, [], False)" and s2: "chunk_step ?e 0x0A = Ok (?g, [], False)"
    using d k by (simp_all add: chunk_step_def hex_digit_def extension_step_def line_defs)
  have n: "norm ?g = ?g" "norm ?h = ?h" using d(4) by (simp_all add: norm_id size_known_def Let_def)
  have s3: "chunk_run ?g (x @ ys) = with_data x (chunk_run ?h ys)" for ys
  proof -
    have "chunk_run (norm ?g) (x @ ys) = with_data x (chunk_run (norm ?h) ys)"
      by (rule chunk_run_all_data) (use assms(2) k(3) in simp_all)
    then show ?thesis unfolding n .
  qed
  have s4: "chunk_step ?h 0x0D = Ok (?h\<lparr>cd_cr_meet := True\<rparr>, [], False)"
    and s5: "chunk_step (?h\<lparr>cd_cr_meet := True\<rparr>) 0x0A = Ok (?i, [], False)"
    using k(4) by (simp_all add: chunk_step_def data_end_step_def line_defs)
  have "chunk_run d (chunk_octets x @ ys) = with_data x (chunk_run ?i ys)" for ys
    using f [of "0x0D # 0x0A # x @ 0x0D # 0x0A # ys"] s1 s2 s3 [of "0x0D # 0x0A # ys"] s4 s5 by (simp add: chunk_octets_def)
  moreover have "ready ?i"
    using d k by (simp add: ready_def plain_def next_chunk_def size_known_def Let_def)
  ultimately show ?thesis by blast
qed

lemma body_octets_run:
  assumes "ready d" "list_all (\<lambda>x. x \<noteq> [] \<and> int (length x) \<le> I64_MAX) xs"
  shows "\<exists>d'. ready d' \<and> chunk_run d (body_octets xs @ ys) = Ok (d', concat xs, Some ys)"
  using assms
proof (induction xs arbitrary: d)
  case Nil
  have d: "cd_stage d = ST_Size" "\<not> cd_cr_meet d" "\<not> cd_is_last_chunk d" "\<not> cd_chunk_flag d" "plain d" "cd_hex_count d = 0"
    "cd_rest_size d = 0" using Nil(1) by (auto simp: ready_def plain_def)
  let ?e = "(size_known d)\<lparr>cd_cr_meet := True, cd_stage := ST_SizeEnd\<rparr>"
  let ?g = "?e\<lparr>cd_cr_meet := False, cd_stage := ST_Data\<rparr>"
  let ?h = "?g\<lparr>cd_cr_meet := False, cd_stage := ST_DataEnd\<rparr>\<lparr>cd_cr_meet := True\<rparr>"
  let ?i = "ended (?h\<lparr>cd_cr_meet := False\<rparr>\<lparr>cd_stage := ST_Size, cd_total_size := 0\<rparr>)"
  have k: "cd_stage (size_known d) = ST_Extension" "\<not> cd_cr_meet (size_known d)" "cd_rest_size (size_known d) = 0"
    "cd_is_last_chunk (size_known d)"
    using d by (simp_all add: size_known_def Let_def)
  have "d\<lparr>cd_hex_count := 0\<rparr> = d" using d(6) by simp
  then have s0: "chunk_step d 0x30 = Ok (d, [], False)"
    using d by (simp add: chunk_step_def hex_to_decimal_def I64_MAX_def)
  have s1: "chunk_step d 0x0D = Ok (?e, [], False)" and s2: "chunk_step ?e 0x0A = Ok (?g, [], False)"
    and s3: "chunk_step ?g 0x0D = Ok (?h, [], False)" and s4: "chunk_step ?h 0x0A = Ok (?i, [], True)"
    using d k by (simp_all add: chunk_step_def hex_digit_def extension_step_def data_end_step_def line_defs)
  have "chunk_run d (body_octets [] @ ys) = Ok (?i, [], Some ys)"
    using s0 s1 s2 s3 s4 by (simp add: body_octets_def)
  moreover have "ready ?i"
    using d k by (simp add: ready_def plain_def ended_def size_known_def Let_def)
  ultimately show ?case by auto
next
  case (Cons x xs)
  from chunk_octets_run [OF Cons.prems(1)] Cons.prems(2) obtain d1 where d1: "ready d1"
    "\<And>ys. chunk_run d (chunk_octets x @ ys) = with_data x (chunk_run d1 ys)" by auto
  from Cons.IH [OF d1(1)] Cons.prems(2) obtain d' where
    "ready d'" "chunk_run d1 (body_octets xs @ ys) = Ok (d', concat xs, Some ys)" by auto
  with d1(2) [of "body_octets xs @ ys"] show ?case by (auto simp: body_octets_def)
qed

section \<open>Properties\<close>

text \<open>
  C16. Segmentation of chunked bodies: however the octets of a body without a trailer are cut, decoding them piece by
  piece gives the data and the end that decoding them at once gives, or the same error, and nothing panics.
\<close>

theorem chunk_decode_segments:
  "bodies_agree (feed_chunks (ChunkBodyDecoder_new, [], None) (concat segments))
     (feed_segments feed_chunks (ChunkBodyDecoder_new, [], None) segments) \<and>
   feed_segments feed_chunks (ChunkBodyDecoder_new, [], None) segments \<noteq> Panic"
proof -
  have new: "body_ok (ChunkBodyDecoder_new, [], None)" by (simp add: body_ok_def plain_def ChunkBodyDecoder_new_def)
  have agree: "bodies_agree (feed_chunks (ChunkBodyDecoder_new, [], None) (concat segments))
     (feed_segments feed_chunks (ChunkBodyDecoder_new, [], None) segments)"
    using new by (rule chunk_dec.feed_segments_agrees)
  have "loop_runs ChunkBodyDecoder_new [] (concat segments) (ChunkBodyDecoder_decode ChunkBodyDecoder_new (concat segments))"
    using new decode_chunks_loop_runs by (simp add: body_ok_def ChunkBodyDecoder_decode_def)
  then have "norm_body (feed_chunks (ChunkBodyDecoder_new, [], None) (concat segments)) \<noteq> Panic"
    by (cases "ChunkBodyDecoder_decode ChunkBodyDecoder_new (concat segments)") (auto simp: loop_runs_def)
  with agree show ?thesis by (auto simp: bodies_agree_def)
qed

text \<open>
  C12. Round trip of chunked bodies: chunks of any contents, none of them empty, written with their sizes in hexadecimal
  and ended by an empty chunk, are read as the concatenation of their contents, in segments of any sizes; the octets
  behind the body are left.
\<close>

theorem chunk_roundtrip:
  assumes "list_all (\<lambda>x. x \<noteq> [] \<and> int (length x) \<le> I64_MAX) xs" "concat segments = body_octets xs @ rest"
  shows "\<exists>d. feed_segments feed_chunks (ChunkBodyDecoder_new, [], None) segments = Ok (d, concat xs, Some rest)"
proof -
  have new: "body_ok (ChunkBodyDecoder_new, [], None)" "ready ChunkBodyDecoder_new"
    by (simp_all add: body_ok_def plain_def ready_def ChunkBodyDecoder_new_def)
  then have plain: "plain ChunkBodyDecoder_new" "norm ChunkBodyDecoder_new = ChunkBodyDecoder_new"
    by (simp_all add: body_ok_def ready_def norm_id)
  from body_octets_run [OF new(2) assms(1)] obtain d' where
    "chunk_run ChunkBodyDecoder_new (body_octets xs @ rest) = Ok (d', concat xs, Some rest)" by blast
  then have "norm_body (feed_chunks (ChunkBodyDecoder_new, [], None) (concat segments)) = Ok (d', concat xs, Some rest)"
    using feed_chunks_run(1) [OF plain(1), of "[]" "concat segments"] assms(2) plain(2) by simp
  then have "norm_body (feed_segments feed_chunks (ChunkBodyDecoder_new, [], None) segments) = Ok (d', concat xs, Some rest)"
    using chunk_dec.feed_segments_agrees [OF new(1), of segments] by (simp add: bodies_agree_def)
  then show ?thesis
    by (cases "feed_segments feed_chunks (ChunkBodyDecoder_new, [], None) segments") (auto simp: norm_body_def)
qed

theorem chunk_roundtrip_witness:
  "\<exists>d. feed_segments feed_chunks (ChunkBodyDecoder_new, [], None)
     [[0x32, 0x0D], [0x0A, 0x61], [0x62, 0x0D, 0x0A, 0x30, 0x0D], [0x0A], [0x0D, 0x0A, 0x7A]] =
   Ok (d, [0x61, 0x62], Some [0x7A])"
  using chunk_roundtrip [of "[[0x61, 0x62]]"
      "[[0x32, 0x0D], [0x0A, 0x61], [0x62, 0x0D, 0x0A, 0x30, 0x0D], [0x0A], [0x0D, 0x0A, 0x7A]]" "[0x7A]"]
  by (simp add: I64_MAX_def body_octets_def chunk_octets_def hex_octets.simps hex_octet_def)

text \<open>The end of the line of the last chunk, the trailer field \<open>A: b\<close> and the end of the body.\<close>

definition trailer_octets :: bytes where
  "trailer_octets = [0x0D, 0x0A, 0x41, 0x3A, 0x20, 0x62, 0x0D, 0x0A, 0x0D, 0x0A]"

text \<open>
  A body with a trailer depends on how it is cut: the last chunk, followed by the trailer field \<open>A: b\<close>, is decoded
  when it arrives at once, and is refused when the first piece ends right after its size, because the end of the chunks
  is told from the octet that follows the zero in the same piece.
\<close>

theorem chunk_trailer_cut_refused:
  "(case ChunkBodyDecoder_decode (contains_trailer ChunkBodyDecoder_new True) (0x30 # trailer_octets) of
      Ok (_, rem, d) \<Rightarrow> rem = [] \<and> ChunkBodyDecoder_get_trailer d =
        Ok (Some [(''a'', \<lparr>hv_inner = [into_bytes ''b''], hv_is_sensitive = False\<rparr>)]) | _ \<Rightarrow> False) \<and>
   (case ChunkBodyDecoder_decode (contains_trailer ChunkBodyDecoder_new True) [0x30] of
      Ok (_, rem, d) \<Rightarrow> rem = [] \<and> ChunkBodyDecoder_decode d trailer_octets = Err InvalidInput | _ \<Rightarrow> False)"
  by code_simp

end
