(* ===== verification/H1_Client_Properties.thy ===== *)
theory H1_Client_Properties
  imports H1_Sync_Client H1_Request_Properties H1_Response_Properties Chunk_Properties
begin

text \<open>
  What is proved of requests over an HTTP/1.1 connection: what is sent, that a connection that is closed before the
  response keeps the client busy forever, and what is read of a body of a known length.
\<close>

section \<open>The parameters\<close>

text \<open>A connection that takes all that is written, and one that delivers what has arrived, in pieces of any sizes.\<close>

definition writes_all :: "'w stream_io \<Rightarrow> ('w \<Rightarrow> bytes) \<Rightarrow> bool" where
  "writes_all io sent \<longleftrightarrow> (\<forall>bs w. fst (io_write_all io bs w) \<and> sent (snd (io_write_all io bs w)) = sent w @ bs)"

definition delivers :: "('s \<Rightarrow> bytes) \<Rightarrow> 's \<Rightarrow> nat \<Rightarrow> bytes \<Rightarrow> 's \<Rightarrow> bool" where
  "delivers rest s n out s' \<longleftrightarrow> rest s = out @ rest s' \<and> length out \<le> n \<and> (out = [] \<longrightarrow> rest s = [])"

definition reads_body :: "(nat \<Rightarrow> 'b \<Rightarrow> (bytes \<times> 'b) option) \<Rightarrow> ('b \<Rightarrow> bytes) \<Rightarrow> bool" where
  "reads_body data rest \<longleftrightarrow> (\<forall>n b. 0 < n \<longrightarrow> (\<exists>out b'. data n b = Some (out, b') \<and> delivers rest b n out b'))"

definition reads_stream :: "'w stream_io \<Rightarrow> ('w \<Rightarrow> bytes) \<Rightarrow> bool" where
  "reads_stream io incoming \<longleftrightarrow>
     (\<forall>n w. 0 < n \<longrightarrow> (\<exists>out w'. io_read io n w = (Some out, w') \<and> delivers incoming w n out w'))"

definition closed_stream :: "'w stream_io \<Rightarrow> bool" where
  "closed_stream io \<longleftrightarrow> (\<forall>n w. fst (io_read io n w) = Some [])"

section \<open>Sending\<close>

lemma TEMP_BUF_SIZE_pos: "0 < TEMP_BUF_SIZE"
  by (simp add: TEMP_BUF_SIZE_def)

lemma flush_full_sends:
  assumes "writes_all io sent" "length buf \<le> TEMP_BUF_SIZE"
  obtains buf' w' where "flush_full io buf w = (Ok buf', w')" "sent w' @ buf' = sent w @ buf" "length buf' < TEMP_BUF_SIZE"
proof (cases "length buf = TEMP_BUF_SIZE")
  case True
  obtain w' where "io_write_all io buf w = (True, w')" "sent w' = sent w @ buf"
    using assms(1) unfolding writes_all_def by (metis prod.collapse)
  with that [of "[]" w'] True TEMP_BUF_SIZE_pos show thesis by (simp add: flush_full_def)
next
  case False
  with that [of buf w] assms(2) show thesis by (simp add: flush_full_def)
qed

lemma encode_part_loop_sends:
  assumes "writes_all io sent" "request_ok_ref enc" "length buf \<le> TEMP_BUF_SIZE"
  shows "\<exists>buf' w'. encode_part_loop io enc buf w = Some (Ok buf', w') \<and>
    sent w' @ buf' = sent w @ buf @ request_rest_ref enc \<and> length buf' < TEMP_BUF_SIZE"
  using assms(2,3)
proof (induction "length (request_rest_ref enc)" arbitrary: enc buf w rule: less_induct)
  case less
  obtain buf1 w1 where f: "flush_full io buf w = (Ok buf1, w1)" "sent w1 @ buf1 = sent w @ buf" "length buf1 < TEMP_BUF_SIZE"
    using flush_full_sends [OF assms(1) less.prems(2)] by blast
  let ?n = "TEMP_BUF_SIZE - length buf1"
  obtain enc' where e: "RequestRefEncoder_encode enc ?n = Some (Ok (take ?n (request_rest_ref enc), enc'))"
    "request_rest_ref enc' = drop ?n (request_rest_ref enc)" "request_ok_ref enc'"
    using request_enc_ref.enc_content [OF less.prems(1), of ?n] f(3) by auto
  show ?case
  proof (cases "request_rest_ref enc = []")
    case True
    then show ?thesis using f e by (simp add: encode_part_loop.simps [of io enc])
  next
    case False
    have "length (request_rest_ref enc') < length (request_rest_ref enc)" using False e(2) f(3) by (cases "request_rest_ref enc") auto
    from less.hyps [OF this e(3), of "buf1 @ take ?n (request_rest_ref enc)" w1] f(3) min.cobounded2 [of "length (request_rest_ref enc)" ?n]
    obtain buf' w' where
      "encode_part_loop io enc' (buf1 @ take ?n (request_rest_ref enc)) w1 = Some (Ok buf', w')"
      "sent w' @ buf' = sent w1 @ (buf1 @ take ?n (request_rest_ref enc)) @ request_rest_ref enc'"
      "length buf' < TEMP_BUF_SIZE" by fastforce
    moreover have "sent w1 @ (buf1 @ take ?n (request_rest_ref enc)) @ request_rest_ref enc' = sent w @ buf @ request_rest_ref enc"
      using f(2) e(2) by (metis append.assoc append_take_drop_id)
    ultimately show ?thesis using f e False by (simp add: encode_part_loop.simps [of io enc])
  qed
qed

lemma encode_body_loop_sends:
  assumes "writes_all io sent" "reads_body data rest" "length buf < TEMP_BUF_SIZE"
  shows "\<exists>buf' b' w'. encode_body_loop io data b buf w = Some (Ok (buf', b'), w') \<and> sent w' @ buf' = sent w @ buf @ rest b"
  using assms(3)
proof (induction "length (rest b)" arbitrary: b buf w rule: less_induct)
  case less
  let ?n = "TEMP_BUF_SIZE - length buf"
  from assms(2) less.prems obtain out b1 where d: "data ?n b = Some (out, b1)" "delivers rest b ?n out b1"
    unfolding reads_body_def by (metis zero_less_diff)
  then have o: "rest b = out @ rest b1" "length (buf @ out) \<le> TEMP_BUF_SIZE" "out = [] \<Longrightarrow> rest b = []"
    using less.prems by (auto simp: delivers_def)
  obtain buf1 w1 where f: "flush_full io (buf @ out) w = (Ok buf1, w1)" "sent w1 @ buf1 = sent w @ buf @ out"
    "length buf1 < TEMP_BUF_SIZE" using flush_full_sends [OF assms(1) o(2)] by auto
  show ?case
  proof (cases "out = []")
    case True
    then show ?thesis using d f o less.prems by (simp add: encode_body_loop.simps [of io data b])
  next
    case False
    then have "length (rest b1) < length (rest b)" using o(1) by simp
    from less.hyps [OF this f(3), of w1] obtain buf' b' w' where
      "encode_body_loop io data b1 buf1 w1 = Some (Ok (buf', b'), w')" "sent w' @ buf' = sent w1 @ buf1 @ rest b1" by blast
    moreover have "sent w1 @ buf1 @ rest b1 = sent w @ buf @ rest b" using f(2) o(1) by (metis append.assoc)
    ultimately show ?thesis using d f False less.prems by (simp add: encode_body_loop.simps [of io data b])
  qed
qed

lemma send_request_sends:
  assumes "writes_all io sent" "reads_body data rest"
  shows "\<exists>w'. send_request io data part b is_proxy w = Some (Ok (), w') \<and>
    sent w' = sent w @ request_octets part (is_proxy \<and> ur_scheme (rq_uri part) = Some Http) @ rest b"
proof -
  define proxy where "proxy = (is_proxy \<and> ur_scheme (rq_uri part) = Some Http)"
  let ?enc = "RequestRefEncoder_absolute_uri (RequestRefEncoder_new part) proxy"
  have enc: "(if proxy then RequestRefEncoder_absolute_uri (RequestRefEncoder_new part) True else RequestRefEncoder_new part) = ?enc"
    by (simp add: RequestRefEncoder_absolute_uri_def RequestRefEncoder_new_def)
  obtain buf1 w1 where p: "encode_part_loop io ?enc [] w = Some (Ok buf1, w1)"
    "sent w1 @ buf1 = sent w @ request_octets part proxy" "length buf1 < TEMP_BUF_SIZE"
    using encode_part_loop_sends [OF assms(1) RequestRefEncoder_new_ok(1), of "[]" part proxy w] RequestRefEncoder_new_ok(2)
    by auto
  obtain buf2 b2 w2 where q: "encode_body_loop io data b buf1 w1 = Some (Ok (buf2, b2), w2)"
    "sent w2 @ buf2 = sent w1 @ buf1 @ rest b" using encode_body_loop_sends [OF assms p(3)] by blast
  then have all: "sent w2 @ buf2 = sent w @ request_octets part proxy @ rest b" using p(2) by (metis append.assoc)
  obtain w3 where w3: "io_write_all io buf2 w2 = (True, w3)" "sent w3 = sent w2 @ buf2"
    using assms(1) unfolding writes_all_def by (metis prod.collapse)
  have "send_request io data part b is_proxy w = Some (Ok (), if buf2 \<noteq> [] then w3 else w2)"
    unfolding send_request_def Let_def request_part_encoder_def proxy_def [symmetric] enc using p q w3 by simp
  then show ?thesis using all w3 unfolding proxy_def by auto
qed

section \<open>A closed connection\<close>

text \<open>The decoder before the first octet of a response.\<close>

definition nothing_read :: "ResponseDecoder \<Rightarrow> bool" where
  "nothing_read d \<longleftrightarrow> d = ResponseDecoder_new \<or> d = ResponseDecoder_new\<lparr>rd_stage := PS_Version\<rparr>"

lemma decode_nothing: "nothing_read d \<Longrightarrow> \<exists>d'. ResponseDecoder_decode d [] = Ok (None, d') \<and> nothing_read d'"
  unfolding nothing_read_def
  by (elim disjE; hypsubst; intro exI conjI; (rule disjI2, rule refl)?; code_simp)

lemma closed_stream_loops:
  assumes "closed_stream io" "nothing_read d"
  shows "decode_response_loop io d w = None"
proof (rule ccontr)
  assume "decode_response_loop io d w \<noteq> None"
  then obtain y where y: "decode_response_loop io d w = Some y" by blast
  have "closed_stream io \<longrightarrow> \<not> nothing_read d"
  proof (rule decode_response_loop.raw_induct [of "\<lambda>io d w y. closed_stream io \<longrightarrow> \<not> nothing_read d", OF _ y])
    fix loop and io :: "'a stream_io" and d w y
    assume IH: "\<And>io d w y. loop io d w = Some y \<Longrightarrow> closed_stream io \<longrightarrow> \<not> nothing_read d"
      and y: "(case io_read io TEMP_BUF_SIZE w of
          (None, w) \<Rightarrow> Some (Err CE_Request, w)
        | (Some got, w) \<Rightarrow>
            (case ResponseDecoder_decode d got of
               Ok (None, d) \<Rightarrow> loop io d w
             | Ok (Some (part, rem), d) \<Rightarrow> Some (Ok (part, rem), w)
             | Err _ \<Rightarrow> Some (Err CE_Request, w)
             | Panic \<Rightarrow> Some (Panic, w))) = Some y"
    show "closed_stream io \<longrightarrow> \<not> nothing_read d"
    proof (intro impI notI)
      assume io: "closed_stream io" and d: "nothing_read d"
      obtain w' where "io_read io TEMP_BUF_SIZE w = (Some [], w')"
        using io unfolding closed_stream_def by (metis prod.collapse)
      with y decode_nothing [OF d] obtain d' where "loop io d' w' = Some y" "nothing_read d'" by auto
      with IH io show False by blast
    qed
  qed
  with assms show False by blast
qed

section \<open>Bodies of a known length\<close>

text \<open>The caller's loop: data is read until there is none.\<close>

partial_function (option) read_body ::
  "'w stream_io \<Rightarrow> HttpBody \<Rightarrow> nat \<Rightarrow> 'w \<Rightarrow> bytes \<Rightarrow> (bytes, ClientErrorKind) outcome option" where
  [code]: "read_body io body n w acc =
     (case HttpBody_data io body n w of
        None \<Rightarrow> None
      | Some (Ok (out, body), w) \<Rightarrow> if out = [] then Some (Ok acc) else read_body io body n w (acc @ out)
      | Some (Err e, w) \<Rightarrow> Some (Err e)
      | Some (Panic, w) \<Rightarrow> Some Panic)"

definition text_left :: "TextBody \<Rightarrow> nat" where
  "text_left t = unat (tb_left (tbo_decoder t))"

definition text_pre :: "TextBody \<Rightarrow> bytes" where
  "text_pre t = (case tbo_pre t of Some p \<Rightarrow> p | None \<Rightarrow> [])"

lemma unat_lt_2_64: "unat (x :: u64) < 2 ^ 64"
  by (rule order_less_le_trans [OF unsigned_less]) simp

lemma unat_of_length: "n \<le> unat (x :: u64) \<Longrightarrow> unat (of_nat n :: u64) = n"
  using unat_lt_2_64 [of x] by (simp add: unat_of_nat)

lemma unat_minus_length: "n \<le> unat (x :: u64) \<Longrightarrow> unat (x - of_nat n) = unat x - n"
  using unat_of_length [of n x] by (simp add: unat_sub word_le_nat_alt)

lemma text_decode:
  assumes "tb_left d \<noteq> 0" "length buf \<le> unat (tb_left d)"
  shows "TextBodyDecoder_decode d buf =
    ((\<lparr>tx_state = (if length buf = unat (tb_left d) then TS_Complete else TS_Partial), tx_data = buf\<rparr>, []),
     d\<lparr>tb_left := tb_left d - of_nat (length buf)\<rparr>)"
proof -
  have "min (unat (tb_left d)) (length buf) = length buf" using assms(2) by simp
  moreover have "tb_left d - of_nat (length buf) = 0 \<longleftrightarrow> length buf = unat (tb_left d)"
    using unat_of_length [OF assms(2)] by (metis right_minus_eq word_eq_iff_unsigned)
  ultimately show ?thesis using assms by (simp add: TextBodyDecoder_decode_def Let_def)
qed

text \<open>
  A body that is being read, with \<open>r\<close> the octets that are still to come, and one that has been read: its connection
  has been given up.
\<close>

definition text_open :: "('w \<Rightarrow> bytes) \<Rightarrow> TextBody \<Rightarrow> 'w \<Rightarrow> bytes \<Rightarrow> bool" where
  "text_open incoming t w r \<longleftrightarrow> tbo_io t \<and> text_left t \<noteq> 0 \<and> r = text_pre t @ incoming w \<and> length r \<le> text_left t"

definition text_done :: "TextBody \<Rightarrow> bool" where
  "text_done t \<longleftrightarrow> \<not> tbo_io t \<and> text_pre t = []"

definition text_reads :: "('w \<Rightarrow> bytes) \<Rightarrow> nat \<Rightarrow> bytes \<Rightarrow> bytes \<Rightarrow> ((bytes \<times> TextBody, ClientErrorKind) outcome \<times> 'w) \<Rightarrow> bool" where
  "text_reads incoming left filled r res \<longleftrightarrow>
     (\<exists>w. res = (Err CE_BodyDecode, w) \<and> length r < left) \<or>
     (\<exists>out t w r'. res = (Ok (filled @ out, t), w) \<and> filled @ out \<noteq> [] \<and> r = out @ r' \<and>
        (text_open incoming t w r' \<and> text_left t = left - length out \<or> text_done t \<and> r' = [] \<and> length out = left))"

lemma Text_read_io_reads:
  assumes "reads_stream io incoming" "text_open incoming t w r" "text_pre t = []" "length filled < n"
  shows "text_reads incoming (text_left t) filled r (Text_read_io io t n filled w)"
proof -
  have t: "tbo_io t" "r = incoming w" "tb_left (tbo_decoder t) \<noteq> 0" "length r \<le> text_left t"
    using assms(2,3) by (auto simp: text_open_def text_left_def)
  obtain out w' where g: "io_read io (n - length filled) w = (Some out, w')" "incoming w = out @ incoming w'"
    "out = [] \<Longrightarrow> incoming w = []"
    using assms(1,4) unfolding reads_stream_def delivers_def by (metis zero_less_diff)
  show ?thesis
  proof (cases "out = []")
    case True
    with g t assms(2,4) show ?thesis by (auto simp: Text_read_io_def text_reads_def text_open_def)
  next
    case False
    then obtain x xs where out: "out = x # xs" by (cases out) auto
    let ?d = "tbo_decoder t"
    have len: "length out \<le> unat (tb_left ?d)" using g(2) t by (auto simp: text_left_def)
    let ?t = "t\<lparr>tbo_io := False, tbo_decoder := ?d\<lparr>tb_left := tb_left ?d - of_nat (length out)\<rparr>\<rparr>"
    have res: "Text_read_io io t n filled w =
        (Ok (filled @ out, if length out = unat (tb_left ?d) then ?t else ?t\<lparr>tbo_io := True\<rparr>), w')"
      using assms(4) t(1) g(1) text_decode [OF t(3) len] unfolding out
      by (auto simp: Text_read_io_def Let_def Text_is_complete_def simp del: list.size)
    show ?thesis
    proof (cases "length out = unat (tb_left ?d)")
      case True
      then have "incoming w' = []" "text_done ?t" using t g(2) assms(3) by (auto simp: text_left_def text_done_def text_pre_def)
      with True res out g(2) t(2) show ?thesis by (auto simp: text_reads_def text_left_def)
    next
      case left: False
      let ?t' = "?t\<lparr>tbo_io := True\<rparr>"
      have l: "text_left ?t' = text_left t - length out" using unat_minus_length [OF len] by (simp add: text_left_def)
      have "text_open incoming ?t' w' (incoming w')"
        using l left len t g(2) assms(3) by (auto simp: text_open_def text_pre_def text_left_def)
      with res left l out g(2) t(2) show ?thesis by (auto simp: text_reads_def)
    qed
  qed
qed

lemma text_reads_filled:
  assumes "text_reads incoming (left - length f) f r res" "f \<noteq> []" "length f \<le> left"
  shows "text_reads incoming left [] (f @ r) res"
  using assms(1) unfolding text_reads_def
proof (elim disjE exE conjE, goal_cases)
  case (2 out t w r')
  with assms(2) show ?case
    by (intro disjI2 exI [of _ "f @ out"] exI [of _ t] exI [of _ w] exI [of _ r']) auto
next
  case (3 out t w r')
  with assms(2,3) show ?case
    by (intro disjI2 exI [of _ "f @ out"] exI [of _ t] exI [of _ w] exI [of _ r']) auto
qed auto

lemma Text_data_reads:
  assumes "reads_stream io incoming" "text_open incoming t w r" "0 < n"
  shows "text_reads incoming (text_left t) [] r (Text_data io t n w)"
proof (cases "text_pre t = []")
  case True
  let ?t = "t\<lparr>tbo_pre := None\<rparr>"
  have "text_open incoming ?t w r" "text_pre ?t = []" "text_left ?t = text_left t"
    using assms(2) True by (auto simp: text_open_def text_pre_def text_left_def)
  then have "text_reads incoming (text_left t) [] r (Text_read_io io ?t n [] w)"
    using Text_read_io_reads [OF assms(1), of ?t w r "[]" n] assms(3) by simp
  moreover have "Text_data io t n w = Text_read_io io ?t n [] w"
  proof (cases "tbo_pre t")
    case None
    then have t: "?t = t" by (cases t) simp
    show ?thesis using None assms(3) by (simp add: Text_data_def t)
  qed (use True assms(3) in \<open>simp add: Text_data_def text_pre_def\<close>)
  ultimately show ?thesis by simp
next
  case False
  then obtain x xs where pre: "tbo_pre t = Some (x # xs)" by (auto simp: text_pre_def neq_Nil_conv split: option.splits)
  let ?p = "x # xs" and ?d = "tbo_decoder t"
  let ?f = "take n ?p"
  have t: "tbo_io t" "r = ?p @ incoming w" "tb_left ?d \<noteq> 0" "length r \<le> text_left t"
    using assms(2) pre by (auto simp: text_open_def text_left_def text_pre_def)
  have len: "length ?f \<le> unat (tb_left ?d)" using t by (simp add: text_left_def)
  have f: "?f \<noteq> []" using assms(3) by simp
  let ?t = "t\<lparr>tbo_pre := Some (drop n ?p), tbo_decoder := ?d\<lparr>tb_left := tb_left ?d - of_nat (length ?f)\<rparr>\<rparr>"
  have res: "Text_data io t n w =
      (if length ?f = unat (tb_left ?d) then (Ok (?f, ?t\<lparr>tbo_io := False\<rparr>), w) else Text_read_io io ?t n ?f w)"
    using assms(3) pre text_decode [OF t(3) len] by (simp add: Text_data_def Let_def Text_is_complete_def)
  have l: "text_left ?t = text_left t - length ?f" using unat_minus_length [OF len] by (simp add: text_left_def)
  show ?thesis
  proof (cases "length ?f = unat (tb_left ?d)")
    case True
    then have "length ?p + length (incoming w) \<le> n \<and> length (incoming w) = 0" using t(2,4)
      by (cases "incoming w") (simp_all add: text_left_def min_def split: if_splits)
    then have e: "drop n ?p = []" "incoming w = []" by simp_all
    then have "r = ?f" using t(2) by simp
    moreover have "text_done (?t\<lparr>tbo_io := False\<rparr>)" using e by (simp add: text_done_def text_pre_def)
    ultimately show ?thesis using res True f by (auto simp: text_reads_def text_left_def)
  next
    case more: False
    have o: "text_open incoming ?t w (drop n ?p @ incoming w)"
      using t l more len by (auto simp: text_open_def text_pre_def text_left_def)
    have r: "r = ?f @ drop n ?p @ incoming w" using t(2) by simp
    show ?thesis
    proof (cases "length ?f < n")
      case True
      then have e: "drop n ?p = []" "text_pre ?t = []" by (simp_all add: text_pre_def)
      from Text_read_io_reads [OF assms(1) o e(2) True] res more
      have "text_reads incoming (text_left ?t) ?f (incoming w) (Text_data io t n w)" using e by simp
      then show ?thesis using text_reads_filled [OF _ f len [folded text_left_def]] l r e by simp
    next
      case False
      then have "Text_data io t n w = (Ok (?f, ?t), w)" using res more by (simp add: Text_read_io_def)
      then show ?thesis using f l o r by (auto simp: text_reads_def)
    qed
  qed
qed

lemma Text_data_done: "text_done t \<Longrightarrow> 0 < n \<Longrightarrow> \<exists>t'. Text_data io t n w = (Ok ([], t'), w)"
  by (auto simp: text_done_def text_pre_def Text_data_def Text_read_io_def split: option.splits)

lemma read_body_done: "text_done t \<Longrightarrow> 0 < n \<Longrightarrow> read_body io (HB_Text t) n w acc = Some (Ok acc)"
  using Text_data_done [of t n io w] by (auto simp: read_body.simps [of io "HB_Text t"] HttpBody_data_def)

lemma read_body_open:
  assumes "reads_stream io incoming" "text_open incoming t w r" "0 < n"
  shows "read_body io (HB_Text t) n w acc = Some (if length r = text_left t then Ok (acc @ r) else Err CE_BodyDecode)"
  using assms(2)
proof (induction "length r" arbitrary: t w r acc rule: less_induct)
  case less
  note unfold = read_body.simps [of io "HB_Text t"] HttpBody_data_def
  from Text_data_reads [OF assms(1) less.prems assms(3)] show ?case
    unfolding text_reads_def
  proof (elim disjE exE conjE, goal_cases)
    case 1
    with assms(3) show ?case by (simp add: unfold)
  next
    case (2 out t' w' r')
    then have "length r' < length r" by simp
    moreover have "length r' = text_left t' \<longleftrightarrow> length r = text_left t"
    proof -
      have "length r = length out + length r'" using 2(3) by simp
      moreover have "length r \<le> text_left t" using less.prems unfolding text_open_def by blast
      ultimately show ?thesis using 2(5) by linarith
    qed
    ultimately show ?case using less.hyps [OF _ 2(4), of "acc @ out"] 2 assms(3) by (simp add: unfold)
  next
    case (3 out t' w' r')
    with read_body_done [OF 3(4) assms(3)] assms(3) show ?case by (simp add: unfold)
  qed
qed

section \<open>What is proved\<close>

text \<open>
  C17. Sending a request writes the octets of its head followed by those of its body: when the connection takes what is
  written and the body delivers its octets in pieces of any sizes, sending returns, succeeds, and what has been written
  is the request line, the headers and the blank line, with the target in absolute form for a proxied http request,
  and then the whole body, however the parts fall into the buffer of 16384 octets.
\<close>

theorem sync_request_sends:
  assumes "writes_all io sent" "reads_body data rest"
  shows "\<exists>w'. send_request io data part b is_proxy w = Some (Ok (), w') \<and>
    sent w' = sent w @ request_octets part (is_proxy \<and> ur_scheme (rq_uri part) = Some Http) @ rest b"
  by (rule send_request_sends [OF assms])

text \<open>The connection of the witnesses: what has been written, and what has arrived.\<close>

definition buffered_io :: "(bytes \<times> bytes) stream_io" where
  "buffered_io =
     \<lparr>io_write_all = \<lambda>bs (out, inc). (True, out @ bs, inc),
      io_read = \<lambda>n (out, inc). (Some (take n inc), out, drop n inc),
      io_shutdown = id\<rparr>"

definition buffered_body :: "nat \<Rightarrow> bytes \<Rightarrow> (bytes \<times> bytes) option" where
  "buffered_body n b = Some (take n b, drop n b)"

lemma buffered_writes: "writes_all buffered_io fst"
  by (auto simp: writes_all_def buffered_io_def)

lemma buffered_reads: "reads_stream buffered_io snd" "reads_body buffered_body id"
  by (auto simp: reads_stream_def reads_body_def delivers_def buffered_io_def buffered_body_def)

theorem sync_request_sends_witness:
  "writes_all buffered_io fst \<and> reads_body buffered_body id \<and>
   (\<exists>w'. send_request buffered_io buffered_body sample_request [1, 2, 3] True ([], []) = Some (Ok (), w') \<and>
    fst w' = fst ([] :: bytes, [] :: bytes) @
      request_octets sample_request (True \<and> ur_scheme (rq_uri sample_request) = Some Http) @ id [1, 2, 3])"
  using sync_request_sends [OF buffered_writes buffered_reads(2)] buffered_writes buffered_reads(2) by blast

text \<open>
  C40. On a connection that is closed, where every read gives no octets, a request never returns once it has been sent:
  the loop that decodes the head of the response takes an empty read for a response that is not yet complete, and
  reads again.
\<close>

theorem closed_connection_spins:
  assumes "writes_all io sent" "reads_body data rest" "closed_stream io"
  shows "http1_request io data part b is_proxy w = None"
  using send_request_sends [OF assms(1,2), of part b is_proxy w] closed_stream_loops [OF assms(3)]
  by (auto simp: http1_request_def nothing_read_def)

definition closed_io :: "bytes stream_io" where
  "closed_io = \<lparr>io_write_all = \<lambda>bs out. (True, out @ bs), io_read = \<lambda>n out. (Some [], out), io_shutdown = id\<rparr>"

lemma closed_io_closed: "writes_all closed_io id" "closed_stream closed_io"
  by (simp_all add: writes_all_def closed_stream_def closed_io_def)

theorem closed_connection_spins_witness:
  "writes_all closed_io id \<and> reads_body buffered_body id \<and> closed_stream closed_io \<and>
   http1_request closed_io buffered_body sample_request [1, 2, 3] False [] = None"
  using closed_connection_spins [OF closed_io_closed(1) buffered_reads(2) closed_io_closed(2)]
    closed_io_closed buffered_reads(2) by blast

text \<open>
  C18. Reading a body of a positive Content-Length, the first octets of which came with the head of the response, until a
  read gives no more data, ends whatever the sizes of the pieces that arrive and of the buffer (other than zero), provided
  that no more octets than the Content-Length arrive, with the head and after it: it gives exactly the octets of the body
  when all of them arrive, and an error, not a shorter body, when the connection ends before that. Two cases are left
  out: a Content-Length of 0, where the client reads from the connection although the body is complete
  (\<open>empty_text_body_incomplete\<close>), and a server that sends more octets than it has announced.
\<close>

theorem text_body_read:
  assumes "reads_stream io incoming" "0 < len" "length (pre @ incoming w) \<le> unat len" "0 < n"
  shows "read_body io (HttpBody_text len pre) n w [] =
    Some (if length (pre @ incoming w) = unat len then Ok (pre @ incoming w) else Err CE_BodyDecode)"
proof -
  let ?t = "\<lparr>tbo_decoder = TextBodyDecoder_new len, tbo_pre = (if pre \<noteq> [] then Some pre else None), tbo_io = True\<rparr>"
  have l: "text_left ?t = unat len" by (simp add: text_left_def TextBodyDecoder_new_def)
  then have "text_open incoming ?t w (pre @ incoming w)"
    using assms(2,3) by (simp add: text_open_def text_pre_def unsigned_eq_0_iff word_greater_zero_iff)
  from read_body_open [OF assms(1) this assms(4), of "[]"] l show ?thesis by (simp add: HttpBody_text_def)
qed

theorem text_body_read_witness:
  "reads_stream buffered_io snd \<and>
   read_body buffered_io (HttpBody_text 5 [1, 2]) 2 ([], [3, 4, 5]) [] =
     Some (if length ([1, 2] @ snd ([] :: bytes, [3, 4, 5] :: bytes)) = unat (5 :: u64)
           then Ok ([1, 2] @ snd ([] :: bytes, [3, 4, 5])) else Err CE_BodyDecode)"
  using text_body_read [OF buffered_reads(1), of 5 "[1, 2]" "([], [3, 4, 5])" 2] buffered_reads(1) by simp

text \<open>
  A body of length zero is read from the connection all the same: when the connection is closed after the head, the
  empty body is reported as incomplete.
\<close>

lemma empty_text_body_incomplete: "read_body closed_io (HttpBody_text 0 []) (Suc n) w [] = Some (Err CE_BodyDecode)"
  by (simp add: read_body.simps HttpBody_data_def HttpBody_text_def Text_data_def Text_read_io_def closed_io_def)

end
