(* ===== verification/Spec2Isabelle.thy ===== *)
theory Spec2Isabelle
  imports H2_Frame_Properties H2_Decoder_Properties H2_Client_Properties H1_Client_Properties
begin

text \<open>
  A verification library for the protocol layer of \<^verbatim>\<open>ylong_http\<close>, a Rust implementation of HTTP/1.1,
  HTTP/2 and HTTP/3 with a client built on it (\<^verbatim>\<open>ylong_http_client\<close>).

  \<^bold>\<open>The program.\<close> \<^verbatim>\<open>src/ylong_http/src\<close> holds the protocol: header maps (\<^verbatim>\<open>headers.rs\<close>), URIs
  (\<^verbatim>\<open>request/uri/\<close>), the HTTP/1.1 request encoders and response decoder (\<^verbatim>\<open>h1/\<close>), the decoders of bodies
  (\<^verbatim>\<open>body/\<close>), Huffman coding (\<^verbatim>\<open>huffman/\<close>), HPACK (\<^verbatim>\<open>h2/hpack/\<close>) and the HTTP/2 frames (\<^verbatim>\<open>h2/frame.rs\<close>,
  \<^verbatim>\<open>h2/encoder.rs\<close>, \<^verbatim>\<open>h2/decoder.rs\<close>). The frame encoder compresses header blocks with the HPACK encoder, which
  uses the dynamic table, the integer encoder and the Huffman encoder; the frame decoder does the
  converse. All of them are resumable: they take buffers of any size and keep their state between
  two calls. \<^verbatim>\<open>src/ylong_http_client/src/util/h2\<close> holds the HTTP/2 client: a connection is a manager
  coroutine (\<^verbatim>\<open>manager.rs\<close>) between a reader and a writer coroutine. The manager takes the requests of the
  application and the frames of the reader, keeps the streams (\<^verbatim>\<open>streams.rs\<close>) with their states, queues
  and flow-control windows (\<^verbatim>\<open>buffer/\<close>), answers the application and hands frames to the writer.
  \<^verbatim>\<open>src/ylong_http_client/src/sync_impl\<close> holds the synchronous client, which sends a request over an HTTP/1.1
  connection and reads the response. The resumable state machines of the protocol, the manager and the
  synchronous exchange are the subject of this development.

  \<^bold>\<open>How the model is built.\<close> Structs are records, enums are datatypes, every method is a function from
  the state to the result and the new state. \<^verbatim>\<open>Result\<close> and panics are the values of
  \<open>outcome\<close> (theory Prelude): \<open>Ok\<close>, \<open>Err\<close> and \<open>Panic\<close>; indexing, slicing and the subtraction of
  \<^verbatim>\<open>usize\<close> values are written out with their panics. Octets and the words of the source have
  their widths; a \<^verbatim>\<open>usize\<close> is a natural number, with the limit \<open>usize_limit\<close> wherever the source
  checks for overflow. An error leaves no state behind in the model: the callers give up the
  connection, with the exception noted among the findings. There is no fuel: loops are total functions with
  termination proofs, or, where a loop depends on a parameter (a step, a connection), partial functions
  with \<open>None\<close> for a loop that does not end, and the theorems say that they end.

  \<^bold>\<open>The theories.\<close>
  \<^item> Prelude: outcomes, checked operations, big-endian octets. Interfaces: the contracts of resumable
    decoders and encoders as locales (\<open>segmented_decoder\<close>, \<open>segmented_decoder_upto\<close> and the writer
    locales): what is proved for one call and for the concatenation of two inputs carries over to
    inputs and buffers cut anywhere. Every component that is resumable interprets one of them.
  \<^item> Huffman\_Consts, Huffman\_Code, Huffman\_Table, Huffman (\<^verbatim>\<open>huffman/consts.rs\<close>, \<^verbatim>\<open>huffman/mod.rs\<close>): the
    two tables of the source, the code tree they stand for, the encoder with its 64-bit accumulator and
    the table-driven decoder. The decoder inverts the encoder, accepts canonical encodings only, and does
    not depend on how its input is cut.
  \<^item> Headers (\<^verbatim>\<open>headers.rs\<close>): names, values and the header map, its invariant and its lookup laws.
  \<^item> H2\_Error (\<^verbatim>\<open>h2/error.rs\<close>), H2\_Parts (\<^verbatim>\<open>pseudo.rs\<close>, \<^verbatim>\<open>h2/parts.rs\<close>).
  \<^item> Hpack\_Integer, Hpack\_Table, Hpack\_Repr, Hpack\_Repr\_Encoder, Hpack (\<^verbatim>\<open>h2/hpack/\<close>): integers,
    static and dynamic table, representations and the two state machines. The dynamic table is
    refined to the list of the newest entries that fit; the first header block of a connection survives the round trip.
  \<^item> H2\_Frame (\<^verbatim>\<open>h2/frame.rs\<close>), H2\_Decoder (\<^verbatim>\<open>h2/decoder.rs\<close>), H2\_Encoder (\<^verbatim>\<open>h2/encoder.rs\<close>): the
    frame layer with all frame types. H2\_Decoder\_Segments and H2\_Encoder\_Segments,
    H2\_Encoder\_Frames show that cuts do not matter (and where they do),
    H2\_Frame\_Roundtrip that the decoder reads what the encoder writes. H2\_Frame\_Properties and
    H2\_Decoder\_Properties hold the properties of the layer, the refusal of malformed frames, the
    bounds of decoded values, header blocks in several frames, and the inputs on which the code does not
    do what it should.

  \<^item> Stateful: the actions of the client's model, functions from a state to an outcome and a new state
    (the state after an error is kept: the manager goes on after errors of a stream), and the locale of
    the preorders that actions respect.
  \<^item> H2\_Window (\<^verbatim>\<open>util/h2/buffer/\<close>), H2\_Streams (\<^verbatim>\<open>util/h2/streams.rs\<close>, \<^verbatim>\<open>util/data_ref.rs\<close>), H2\_Manager
    (\<^verbatim>\<open>util/h2/manager.rs\<close> and the stream controller of \<^verbatim>\<open>util/dispatcher.rs\<close>): every operation of the
    manager. The channels and the readers of bodies are not part of the sources: they are the parameter
    \<open>runtime\<close>, functions on an unspecified world. The hash map of streams is a list in the order of
    insertion. Arithmetic on \<^verbatim>\<open>u32\<close> and \<^verbatim>\<open>i32\<close> panics on overflow, as in a build with checks. The
    field \<open>mg_out\<close> logs the frames handed to the writer; nothing reads it.
  \<^item> H2\_Manager\_Steps: what one turn of the manager does, as a sequence of a few elementary steps
    \<open>sstep\<close> on the streams and the log, and the locales of the relations that these steps respect:
    \<open>quiet_contract\<close> (what changes no stream), \<open>stream_contract\<close> on top of it, \<open>widening_contract\<close> (a
    wider window of the connection) and their union \<open>window_free_contract\<close>. Such a relation holds along
    every run (\<open>turns\<close>), in which the reader, the application and the shared settings may change between
    two turns. The one hypothesis on the application, \<open>requests_ok\<close>, says that the payload of a request is a
    header block.
  \<^item> H2\_Flow\_Control, H2\_Stream\_States, H2\_Concurrency: three relations that satisfy the contract, for the
    window of the connection, the states of the streams with the order of the frames of a request,
    and the count of concurrent streams. H2\_Stream\_States also has the diagram of RFC 9113 with its edges
    labelled by frames (\<open>rfc_next\<close>) and relates each operation on the state of a stream to the edges of its
    frame. H2\_Progress: along the runs without an error (\<open>live_turns\<close>) no stream with an unfinished request
    drops out of the queues. H2\_Client\_Properties: the properties of the client and the inputs on which it fails.

  \<^item> H1\_Message (\<^verbatim>\<open>version.rs\<close>, \<^verbatim>\<open>request/method.rs\<close>, \<^verbatim>\<open>response/status.rs\<close>, \<^verbatim>\<open>util/header_bytes.rs\<close>),
    H1\_Response (\<^verbatim>\<open>h1/response/decoder.rs\<close>): the parts of messages and the response decoder.
    H1\_Response\_Properties: the decoder accepts exactly the responses of a grammar, and what it accepts does
    not depend on how it is cut; the one input on which cuts matter is exhibited.
  \<^item> Uri (\<^verbatim>\<open>request/uri/mod.rs\<close>): reading, printing and building URIs; the arguments of the builder are octets or
    parts that are ready (\<open>uri_arg\<close>). Uri\_Properties: printing and reading again gives the same URI, and every URI
    that is read, or built of octets and well-formed parts, is well formed.
  \<^item> Buffers: encoders that fill buffers in steps, and the locales \<open>stepwise_encoder\<close> and \<open>buffer_encoder\<close>
    with what follows for any sequence of buffers. H1\_Request\_Encoder (\<^verbatim>\<open>h1/request/encoder.rs\<close>): the two
    request encoders. H1\_Request\_Properties interprets the locales on both: they write the same octets, their
    loops end, and no header can add a line.
  \<^item> Chunk\_Decoder (\<^verbatim>\<open>body/chunk.rs\<close>): the decoder of chunked bodies and of the trailer. Chunk\_Properties
    relates it to an automaton that takes one octet at a time: cuts do not matter without a trailer, and
    bodies survive the round trip.
  \<^item> H1\_Sync\_Client (\<^verbatim>\<open>sync_impl/conn/http1.rs\<close>, \<^verbatim>\<open>sync_impl/http_body.rs\<close>, \<^verbatim>\<open>body/text.rs\<close>): a request over an
    HTTP/1.1 connection. The connection is the parameter \<open>stream_io\<close>, and the body of the request a function
    that reads it; \<open>writes_all\<close>, \<open>reads_body\<close> and \<open>reads_stream\<close> say what \<^verbatim>\<open>Write::write_all\<close> and \<^verbatim>\<open>Read::read\<close>
    document, and \<open>closed_stream\<close> that of a closed connection. H1\_Client\_Properties: what is sent, that a closed
    connection is not noticed, and what is read of a body of a known length.

  \<^bold>\<open>Not modelled.\<close> The reader and writer coroutines and the rest of the asynchronous client (connections,
  TLS bindings, proxies, redirects, speed limits: I/O and callbacks into other libraries), HTTP/3 and QPACK,
  the encoders of bodies (chunked, of a known length, multipart: written over asynchronous readers),
  percent-encoding and media types, the Display and Debug output, the wakers of futures, and the
  borrowing iterators (they are lists here).
\<close>

end
